(* ===== verification/Prelude.thy ===== *)
theory Prelude
  imports Main "HOL-Library.Word"
begin

text \<open>
  Shared vocabulary of the development: Go's fixed-width integers, slices with
  their bounds checks, outcomes of calls that may panic or never return, the
  position-driven \<open>for\<close> loop that every wire decoder of the program is
  written as, and the generic lemmas on lists, words and that loop.
\<close>

unbundle bit_operations_syntax

named_theorems body_defs \<open>definitions of loop bodies\<close>
named_theorems advance_intros \<open>introduction rules for progress of loop bodies\<close>
named_theorems wire_simps \<open>rewrite rules for reading encoded fields\<close>

section \<open>Go values\<close>

type_synonym byte = "8 word"
type_synonym u32 = "32 word"
type_synonym u64 = "64 word"

text \<open>
  \<open>int\<close> of Go on the 64-bit targets the program is built for: two's complement,
  addition wraps.
\<close>

definition wrap64 :: "int \<Rightarrow> int" where
  "wrap64 x = sint (word_of_int x :: 64 word)"

text \<open>The conversion \<open>int(x)\<close> of an \<open>uint64\<close>.\<close>

definition int_of_u64 :: "u64 \<Rightarrow> int" where
  "int_of_u64 x = sint x"

text \<open>
  Slice expressions. \<open>data[pos:]\<close> and \<open>data[lo:hi]\<close> panic outside
  \<open>0 \<le> lo \<le> hi \<le> len\<close>; \<open>None\<close> is the panic.
\<close>

definition slice_from :: "'a list \<Rightarrow> int \<Rightarrow> 'a list option" where
  "slice_from xs lo = (if 0 \<le> lo \<and> lo \<le> int (length xs) then Some (drop (nat lo) xs) else None)"

definition slice_range :: "'a list \<Rightarrow> int \<Rightarrow> int \<Rightarrow> 'a list option" where
  "slice_range xs lo hi = (if 0 \<le> lo \<and> lo \<le> hi \<and> hi \<le> int (length xs)
     then Some (take (nat (hi - lo)) (drop (nat lo) xs)) else None)"

section \<open>Calls that may panic or not return\<close>

text \<open>
  A call returns a value or panics; a call of type \<open>'a outcome option\<close> may also
  never return, which is \<open>None\<close>.
\<close>

datatype 'a outcome = Ret 'a | Panics

text \<open>
  One iteration of a decoding loop: go on at a new position with a new message,
  leave the loop (\<open>break\<close> or \<open>return\<close>) with a message, or panic.
\<close>

datatype 'm step = Next int 'm | Stop 'm | Panic

text \<open>The loop \<open>for pos < n { body }\<close>.\<close>

partial_function (option) for_pos ::
  "(int \<Rightarrow> 'm \<Rightarrow> 'm step option) \<Rightarrow> int \<Rightarrow> int \<Rightarrow> 'm \<Rightarrow> 'm outcome option" where
  "for_pos body n pos m =
     (if pos < n then
        (case body pos m of
           None \<Rightarrow> None
         | Some s \<Rightarrow>
            (case s of
               Next p m' \<Rightarrow> for_pos body n p m'
             | Stop m' \<Rightarrow> Some (Ret m')
             | Panic \<Rightarrow> Some Panics))
      else Some (Ret m))"

text \<open>A nested call inside a loop body.\<close>

definition call :: "'a outcome option \<Rightarrow> ('a \<Rightarrow> 'm step option) \<Rightarrow> 'm step option" where
  "call r k = (case r of None \<Rightarrow> None | Some Panics \<Rightarrow> Some Panic | Some (Ret a) \<Rightarrow> k a)"

lemma call_simps [simp]:
  "call None k = None"
  "call (Some Panics) k = Some Panic"
  "call (Some (Ret a)) k = k a"
  by (simp_all add: call_def)

section \<open>Strings\<close>

text \<open>A Go string is its bytes; \<open>string(raw)\<close> keeps them.\<close>

definition string_of_bytes :: "byte list \<Rightarrow> string" where
  "string_of_bytes bs = map (\<lambda>b. char_of (unat b)) bs"

definition bytes_of_string :: "string \<Rightarrow> byte list" where
  "bytes_of_string s = map (\<lambda>c. word_of_nat (of_char c)) s"

text \<open>\<open>%d\<close>, \<open>%02X\<close> and \<open>%08x\<close> of \<open>fmt.Sprintf\<close>.\<close>

definition digit_char :: "nat \<Rightarrow> char" where
  "digit_char d = char_of (48 + d)"

fun show_nat :: "nat \<Rightarrow> string" where
  "show_nat n = (if n < 10 then [digit_char n] else show_nat (n div 10) @ [digit_char (n mod 10)])"

declare show_nat.simps [simp del]

definition show_int :: "int \<Rightarrow> string" where
  "show_int i = (if i < 0 then CHR ''-'' # show_nat (nat (- i)) else show_nat (nat i))"

definition hex_upper :: "nat \<Rightarrow> char" where
  "hex_upper d = (if d < 10 then char_of (48 + d) else char_of (55 + d))"

definition hex_lower :: "nat \<Rightarrow> char" where
  "hex_lower d = (if d < 10 then char_of (48 + d) else char_of (87 + d))"

definition show_02X :: "byte \<Rightarrow> string" where
  "show_02X b = [hex_upper (unat b div 16), hex_upper (unat b mod 16)]"

fun show_hex_lower :: "nat \<Rightarrow> nat \<Rightarrow> string" where
  "show_hex_lower 0 n = []"
| "show_hex_lower (Suc k) n = show_hex_lower k (n div 16) @ [hex_lower (n mod 16)]"

definition show_08x :: "u32 \<Rightarrow> string" where
  "show_08x w = show_hex_lower 8 (unat w)"

lemma string_of_bytes_of_string [simp]: "string_of_bytes (bytes_of_string s) = s"
proof -
  have "char_of (unat (word_of_nat (of_char c) :: byte)) = c" for c :: char
  proof -
    have "of_char c < (256 :: nat)" by simp
    then have "unat (word_of_nat (of_char c) :: byte) = of_char c" by (simp add: unat_of_nat)
    then show ?thesis by simp
  qed
  then show ?thesis by (simp add: string_of_bytes_def bytes_of_string_def comp_def map_idI)
qed

lemma length_bytes_of_string [simp]: "length (bytes_of_string s) = length s"
  by (simp add: bytes_of_string_def)

section \<open>Machine integers\<close>

lemma wrap64_take_bit: "wrap64 x = signed_take_bit 63 x"
  by (simp add: wrap64_def sint_sbintrunc')

lemma wrap64_id: "- (2 ^ 63) \<le> x \<Longrightarrow> x < 2 ^ 63 \<Longrightarrow> wrap64 x = x"
  unfolding wrap64_take_bit by (rule signed_take_bit_int_eq_self)

lemma wrap64_add: "0 \<le> a \<Longrightarrow> a < 2 ^ 62 \<Longrightarrow> 0 \<le> b \<Longrightarrow> b < 2 ^ 62 \<Longrightarrow> wrap64 (a + b) = a + b"
  by (rule wrap64_id) simp_all

lemma wrap64_bounds: "- (2 ^ 63) \<le> wrap64 x" "wrap64 x < 2 ^ 63"
  unfolding wrap64_take_bit
  by (rule signed_take_bit_int_greater_eq_minus_exp, rule signed_take_bit_int_less_exp)

lemma int_of_u64_small:
  assumes "unat x < 2 ^ 63"
  shows "int_of_u64 x = int (unat x)"
proof -
  have "uint x < 2 ^ 63"
    using assms by (metis uint_nat of_nat_less_iff of_nat_numeral of_nat_power)
  moreover have "- (2 ^ 63) \<le> uint x"
    by (rule order_trans [OF _ uint_ge_0]) simp
  ultimately have "signed_take_bit 63 (uint x) = uint x"
    by (intro signed_take_bit_int_eq_self)
  then have "int_of_u64 x = uint x"
    by (simp add: int_of_u64_def sint_uint)
  then show ?thesis by simp
qed

lemma int_unat_less: "unat x < 2 ^ k \<Longrightarrow> int (unat x) < 2 ^ k"
  by (metis of_nat_less_iff of_nat_numeral of_nat_power)

lemma unat_drop_bit_div: "unat (drop_bit n w) = unat w div 2 ^ n"
  unfolding unat_drop_bit_eq by (simp add: drop_bit_eq_div)

lemma unat_shift7: "unat (drop_bit 7 w) = unat w div 128"
  using unat_drop_bit_div [of 7 w] by simp

section \<open>The decoding loop\<close>

lemma for_pos_done: "n \<le> pos \<Longrightarrow> for_pos body n pos m = Some (Ret m)"
  by (simp add: for_pos.simps)

lemma for_pos_next:
  "pos < n \<Longrightarrow> body pos m = Some (Next p m') \<Longrightarrow> for_pos body n pos m = for_pos body n p m'"
  by (subst for_pos.simps) simp

lemma for_pos_stop:
  "pos < n \<Longrightarrow> body pos m = Some (Stop m') \<Longrightarrow> for_pos body n pos m = Some (Ret m')"
  by (simp add: for_pos.simps)

lemma for_pos_panic:
  "pos < n \<Longrightarrow> body pos m = Some Panic \<Longrightarrow> for_pos body n pos m = Some Panics"
  by (simp add: for_pos.simps)

lemma for_pos_stuck: "pos < n \<Longrightarrow> body pos m = None \<Longrightarrow> for_pos body n pos m = None"
  by (simp add: for_pos.simps)

text \<open>A body that always advances or stops makes the loop return.\<close>

lemma for_pos_total:
  assumes progress: "\<And>pos m. 0 \<le> pos \<Longrightarrow> pos < n \<Longrightarrow>
      (\<exists>p m'. body pos m = Some (Next p m') \<and> pos < p) \<or> (\<exists>m'. body pos m = Some (Stop m'))"
    and "0 \<le> pos"
  shows "\<exists>m'. for_pos body n pos m = Some (Ret m')"
  using assms(2)
proof (induction "nat (n - pos)" arbitrary: pos m rule: less_induct)
  case less
  show ?case
  proof (cases "pos < n")
    case True
    with progress [of pos m] less.prems consider
        (adv) p m' where "body pos m = Some (Next p m')" "pos < p"
      | (stop) m' where "body pos m = Some (Stop m')"
      by blast
    then show ?thesis
    proof cases
      case adv
      with True less.prems have "\<exists>m''. for_pos body n p m' = Some (Ret m'')"
        by (intro less.hyps) auto
      with adv True show ?thesis by (simp add: for_pos_next)
    next
      case stop
      with True show ?thesis by (simp add: for_pos_stop)
    qed
  next
    case False
    then show ?thesis by (simp add: for_pos_done)
  qed
qed

text \<open>
  A set of loop states that the body never leaves makes the loop run forever:
  whatever the loop returned would have to be returned from outside the set.
\<close>

lemma for_pos_trapped:
  assumes trap: "\<And>pos m. trap pos m \<Longrightarrow>
      pos < n \<and> (\<exists>p m'. body pos m = Some (Next p m') \<and> trap p m')"
    and start: "trap pos m"
  shows "for_pos body n pos m = None"
proof (rule ccontr)
  assume "for_pos body n pos m \<noteq> None"
  then obtain r where ret: "for_pos body n pos m = Some r" by blast
  have "body = body \<longrightarrow> n = n \<longrightarrow> \<not> trap pos m"
  proof (rule for_pos.raw_induct
      [where P = "\<lambda>b k pos m r. b = body \<longrightarrow> k = n \<longrightarrow> \<not> trap pos m", OF _ ret])
    fix f b k pos m r
    assume IH: "\<And>b k pos m r. f b k pos m = Some r \<Longrightarrow> b = body \<longrightarrow> k = n \<longrightarrow> \<not> trap pos m"
      and eq: "(if pos < k then
          (case b pos m of None \<Rightarrow> None
           | Some s \<Rightarrow> (case s of Next p m' \<Rightarrow> f b k p m' | Stop m' \<Rightarrow> Some (Ret m')
               | Panic \<Rightarrow> Some Panics))
        else Some (Ret m)) = Some r"
    show "b = body \<longrightarrow> k = n \<longrightarrow> \<not> trap pos m"
    proof (intro impI notI)
      assume b: "b = body" and k: "k = n" and t: "trap pos m"
      from trap [OF t] obtain p m' where
        "pos < n" "body pos m = Some (Next p m')" "trap p m'" by blast
      with eq b k IH [of b k p m' r] show False by simp
    qed
  qed
  with start show False by simp
qed

end
