(* ===== verification/GoStrings.thy ===== *)
theory GoStrings
  imports Prelude
begin

text \<open>
  The functions of Go's \<open>strings\<close> and \<open>strconv\<close> that the modelled code calls, on strings
  as bytes; a non-ASCII rune is its UTF-8 bytes.
\<close>

section \<open>Searching\<close>

definition has_prefix :: "string \<Rightarrow> string \<Rightarrow> bool" where
  "has_prefix p s \<longleftrightarrow> take (length p) s = p"

fun contains :: "string \<Rightarrow> string \<Rightarrow> bool" where
  "contains p [] \<longleftrightarrow> p = []"
| "contains p (c # cs) \<longleftrightarrow> has_prefix p (c # cs) \<or> contains p cs"

definition upper_char :: "char \<Rightarrow> char" where
  "upper_char c = (let n = of_char c :: nat in if 97 \<le> n \<and> n \<le> 122 then char_of (n - 32) else c)"

definition lower_char :: "char \<Rightarrow> char" where
  "lower_char c = (let n = of_char c :: nat in if 65 \<le> n \<and> n \<le> 90 then char_of (n + 32) else c)"

text \<open>
  \<open>strings.ToUpper\<close> as far as a search for ASCII text sees it: ASCII letters are raised,
  and so are the two other runes whose upper case is ASCII, U+0131 (to \<open>I\<close>) and U+017F (to
  \<open>S\<close>). The upper case of every other rune is not ASCII; its bytes are kept.
\<close>

fun ToUpper :: "string \<Rightarrow> string" where
  "ToUpper (a # b # cs) =
     (if of_char a = (0xC4 :: nat) \<and> of_char b = (0xB1 :: nat) then CHR ''I'' # ToUpper cs
      else if of_char a = (0xC5 :: nat) \<and> of_char b = (0xBF :: nat) then CHR ''S'' # ToUpper cs
      else upper_char a # ToUpper (b # cs))"
| "ToUpper [a] = [upper_char a]"
| "ToUpper [] = []"

text \<open>\<open>strings.TrimLeft(s, " \t")\<close>.\<close>

definition trim_blanks :: "string \<Rightarrow> string" where
  "trim_blanks s = dropWhile (\<lambda>c. c = CHR '' '' \<or> of_char c = (9 :: nat)) s"

definition has_suffix :: "string \<Rightarrow> string \<Rightarrow> bool" where
  "has_suffix p s \<longleftrightarrow> length p \<le> length s \<and> drop (length s - length p) s = p"

section \<open>White space\<close>

text \<open>The UTF-8 encodings of the runes with \<open>unicode.IsSpace\<close>.\<close>

definition space_runes :: "string list" where
  "space_runes = [
     [CHR 0x09], [CHR 0x0A], [CHR 0x0B], [CHR 0x0C], [CHR 0x0D], [CHR 0x20], [CHR 0xC2, CHR 0x85],
     [CHR 0xC2, CHR 0xA0], [CHR 0xE1, CHR 0x9A, CHR 0x80], [CHR 0xE2, CHR 0x80, CHR 0x80],
     [CHR 0xE2, CHR 0x80, CHR 0x81], [CHR 0xE2, CHR 0x80, CHR 0x82], [CHR 0xE2, CHR 0x80, CHR 0x83],
     [CHR 0xE2, CHR 0x80, CHR 0x84], [CHR 0xE2, CHR 0x80, CHR 0x85], [CHR 0xE2, CHR 0x80, CHR 0x86],
     [CHR 0xE2, CHR 0x80, CHR 0x87], [CHR 0xE2, CHR 0x80, CHR 0x88], [CHR 0xE2, CHR 0x80, CHR 0x89],
     [CHR 0xE2, CHR 0x80, CHR 0x8A], [CHR 0xE2, CHR 0x80, CHR 0xA8], [CHR 0xE2, CHR 0x80, CHR 0xA9],
     [CHR 0xE2, CHR 0x80, CHR 0xAF], [CHR 0xE2, CHR 0x81, CHR 0x9F], [CHR 0xE3, CHR 0x80, CHR 0x80]]"

text \<open>Drops leading words of a list, repeatedly.\<close>

function drop_words :: "string list \<Rightarrow> string \<Rightarrow> string" where
  "drop_words ws s =
     (case find (\<lambda>w. w \<noteq> [] \<and> has_prefix w s) ws of None \<Rightarrow> s | Some w \<Rightarrow> drop_words ws (drop (length w) s))"
  by pat_completeness auto
termination
proof (relation "measure (\<lambda>(ws, s). length s)", goal_cases)
  case (2 ws s w)
  then have "w \<noteq> []" "has_prefix w s" by (auto simp: find_Some_iff)
  then show ?case by (cases s; cases w) (auto simp: has_prefix_def)
qed simp

declare drop_words.simps [simp del]

definition TrimSpace :: "string \<Rightarrow> string" where
  "TrimSpace s = rev (drop_words (map rev space_runes) (rev (drop_words space_runes s)))"

section \<open>Numbers\<close>

definition is_digit :: "char \<Rightarrow> bool" where
  "is_digit c \<longleftrightarrow> (let n = of_char c :: nat in 48 \<le> n \<and> n \<le> 57)"

definition digits_value :: "string \<Rightarrow> int" where
  "digits_value s = foldl (\<lambda>v c. 10 * v + (of_char c - 48)) 0 s"

text \<open>\<open>strconv.Atoi\<close>: an optional sign and decimal digits, within 64 bits.\<close>

definition Atoi :: "string \<Rightarrow> int option" where
  "Atoi s =
     (let (neg, ds) = (case s of
          c # cs \<Rightarrow> if c = CHR ''-'' then (True, cs) else if c = CHR ''+'' then (False, cs) else (False, s)
        | [] \<Rightarrow> (False, s));
          v = digits_value ds
      in if ds = [] \<or> \<not> list_all is_digit ds then None
         else if neg then (if v \<le> 2 ^ 63 then Some (- v) else None)
         else (if v < 2 ^ 63 then Some v else None))"

text \<open>\<open>strings.EqualFold(s, t)\<close> for an ASCII \<open>t\<close> without \<open>k\<close> and \<open>s\<close>: only ASCII letters fold to it.\<close>

definition EqualFold_ascii :: "string \<Rightarrow> string \<Rightarrow> bool" where
  "EqualFold_ascii s t \<longleftrightarrow> map lower_char s = map lower_char t"

section \<open>Lemmas\<close>

lemma ToUpper_plain: "of_char a < (0x80 :: nat) \<Longrightarrow> ToUpper (a # s) = upper_char a # ToUpper s"
  by (cases s) auto

end
