(* ===== verification/Varint.thy ===== *)
theory Varint
  imports Prelude
begin

text \<open>
  Protobuf varints and fixed-width integers (\<open>internal/serial/framing.go\<close>,
  \<open>internal/serial/encode.go\<close>): the loops of \<open>decodeVarint\<close> and
  \<open>encodeVarint\<close>, zigzag, little-endian words, and their round trips.
\<close>

section \<open>Definitions\<close>

text \<open>
  \<open>decodeVarint\<close> walks the bytes with the index \<open>i\<close>, the accumulator \<open>val\<close> and
  \<open>shift\<close>; the count \<open>0\<close> is its failure value.
\<close>

fun decodeVarint_loop :: "byte list \<Rightarrow> nat \<Rightarrow> u64 \<Rightarrow> nat \<Rightarrow> u64 \<times> nat" where
  "decodeVarint_loop [] i val shift = (0, 0)"
| "decodeVarint_loop (b # bs) i val shift =
     (if 10 \<le> i then (0, 0)
      else (let val = val OR push_bit shift (ucast (b AND 0x7F) :: u64) in
        if b AND 0x80 = 0 then (val, i + 1)
        else decodeVarint_loop bs (i + 1) val (shift + 7)))"

definition decodeVarint :: "byte list \<Rightarrow> u64 \<times> nat" where
  "decodeVarint data = decodeVarint_loop data 0 0 0"

function encodeVarint :: "u64 \<Rightarrow> byte list" where
  "encodeVarint val =
     (if 0x80 \<le> val then ((ucast val :: byte) OR 0x80) # encodeVarint (drop_bit 7 val)
      else [ucast val])"
  by pat_completeness auto
termination
proof (relation "measure unat")
  fix val :: u64
  assume "0x80 \<le> val"
  then have "128 \<le> unat val" by (simp add: word_le_nat_alt)
  then show "(drop_bit 7 val, val) \<in> measure unat" by (simp add: unat_shift7)
qed simp

declare encodeVarint.simps [simp del]

text \<open>\<open>decodeZigzag\<close>: \<open>int64(v>>1) ^ -int64(v&1)\<close>, as a 64-bit word.\<close>

definition decodeZigzag :: "u64 \<Rightarrow> 64 word" where
  "decodeZigzag v = drop_bit 1 v XOR (- (v AND 1))"

text \<open>\<open>binary.LittleEndian.PutUint32\<close> and \<open>Uint32\<close>.\<close>

definition encodeFixed32 :: "u32 \<Rightarrow> byte list" where
  "encodeFixed32 v = [ucast v, ucast (drop_bit 8 v), ucast (drop_bit 16 v), ucast (drop_bit 24 v)]"

fun le_uint32 :: "byte list \<Rightarrow> u32" where
  "le_uint32 (a # b # c # d # _) =
     ucast a OR push_bit 8 (ucast b) OR push_bit 16 (ucast c) OR push_bit 24 (ucast d)"
| "le_uint32 _ = 0"

section \<open>Sizes\<close>

lemma encodeVarint_nonempty [simp]: "encodeVarint v \<noteq> []"
  by (subst encodeVarint.simps) simp

lemma length_encodeVarint_pos [simp]: "0 < length (encodeVarint v)"
  by simp

lemma length_encodeVarint_le:
  "unat v < 128 ^ Suc k \<Longrightarrow> length (encodeVarint v) \<le> Suc k"
proof (induction k arbitrary: v)
  case 0
  then have "\<not> 0x80 \<le> v" by (simp add: word_le_nat_alt)
  then show ?case by (simp add: encodeVarint.simps [of v])
next
  case (Suc k)
  have "unat v div 128 < 128 ^ Suc k"
    using Suc.prems by (simp add: less_mult_imp_div_less mult.commute)
  then have "unat (drop_bit 7 v) < 128 ^ Suc k" by (simp add: unat_shift7)
  then have "length (encodeVarint (drop_bit 7 v)) \<le> Suc k"
    by (rule Suc.IH)
  then show ?case by (simp add: encodeVarint.simps [of v])
qed

lemma length_encodeVarint_max: "length (encodeVarint v) \<le> 10"
proof -
  have "unat v < 2 ^ 64" using unsigned_less [of v] by simp
  then have "unat v < 128 ^ Suc 9" by simp
  then show ?thesis by (drule_tac length_encodeVarint_le) simp
qed

lemma length_encodeFixed32 [simp]: "length (encodeFixed32 v) = 4"
  by (simp add: encodeFixed32_def)

section \<open>Varint round trip\<close>

lemma low_bits_byte: "\<not> 0x80 \<le> v \<Longrightarrow> bit v n \<Longrightarrow> n < 7" for v :: u64
proof -
  assume "\<not> 0x80 \<le> v" "bit v n"
  then have u: "unat v < 2 ^ 7" by (simp add: word_le_nat_alt)
  have "take_bit 7 v = v"
    using u by (simp add: word_unat_eq_iff unsigned_take_bit_eq take_bit_nat_eq_self)
  with \<open>bit v n\<close> show "n < 7" by (metis bit_take_bit_iff)
qed

lemma and_7F: "b AND 0x7F = take_bit 7 b" for b :: byte
proof -
  have "(0x7F :: byte) = mask 7" by (simp add: mask_eq_exp_minus_1)
  then show ?thesis by (simp add: take_bit_eq_mask)
qed

lemma bit_80: "bit (0x80 :: byte) n \<longleftrightarrow> n = 7"
  using bit_exp_iff [where ?'a = "8 word", of 7 n] by auto

lemma and_80: "b AND 0x80 = 0 \<longleftrightarrow> \<not> bit b 7" for b :: byte
proof -
  have "b AND 0x80 = 0 \<longleftrightarrow> (\<forall>n. \<not> bit (b AND 0x80) n)"
    by (metis bit_0_eq bit_word_eqI bot_apply bot_bool_def)
  then show ?thesis by (simp only: bit_and_iff bit_80) blast
qed

lemma cont_byte: "bit ((ucast (v :: u64) :: byte) OR 0x80) 7"
  by (simp add: bit_or_iff bit_80)

lemma cont_bits: "(ucast (((ucast v :: byte) OR 0x80) AND 0x7F) :: u64) = take_bit 7 v" for v :: u64
  by (rule bit_word_eqI) (auto simp: and_7F bit_unsigned_iff bit_take_bit_iff bit_or_iff bit_80)

lemma last_byte: "\<not> 0x80 \<le> v \<Longrightarrow> \<not> bit (ucast v :: byte) 7" for v :: u64
  by (auto simp: bit_unsigned_iff dest: low_bits_byte)

lemma last_bits:
  fixes v :: u64
  assumes "\<not> 0x80 \<le> v"
  shows "(ucast ((ucast v :: byte) AND 0x7F) :: u64) = v"
proof -
  have "bit v n \<Longrightarrow> n < 7 \<and> n < 8" for n
    using low_bits_byte [OF assms, of n] by linarith
  then show ?thesis
    by (intro bit_word_eqI) (auto simp: and_7F bit_unsigned_iff bit_take_bit_iff)
qed

lemma shift_join:
  fixes v :: u64
  shows "push_bit s (take_bit 7 v) OR push_bit (s + 7) (drop_bit 7 v) = push_bit s v"
proof -
  have "take_bit 7 v OR push_bit 7 (drop_bit 7 v) = v"
  proof (rule bit_word_eqI)
    fix n
    assume "n < LENGTH(64)"
    then show "bit (take_bit 7 v OR push_bit 7 (drop_bit 7 v)) n = bit v n"
      by (cases "n < 7") (simp_all add: bit_or_iff bit_take_bit_iff bit_push_bit_iff bit_drop_bit_eq)
  qed
  then have "push_bit s (take_bit 7 v OR push_bit 7 (drop_bit 7 v)) = push_bit s v" by simp
  then show ?thesis by (simp add: push_bit_or)
qed

lemma decodeVarint_loop_encode:
  "i + length (encodeVarint v) \<le> 10 \<Longrightarrow>
   decodeVarint_loop (encodeVarint v @ rest) i val s
     = (val OR push_bit s v, i + length (encodeVarint v))"
proof (induction v arbitrary: i val s rule: encodeVarint.induct)
  case (1 v)
  show ?case
  proof (cases "0x80 \<le> v")
    case True
    then have enc: "encodeVarint v = ((ucast v :: byte) OR 0x80) # encodeVarint (drop_bit 7 v)"
      by (simp add: encodeVarint.simps [of v])
    have "decodeVarint_loop (encodeVarint v @ rest) i val s
        = decodeVarint_loop (encodeVarint (drop_bit 7 v) @ rest) (i + 1)
            (val OR push_bit s (take_bit 7 v)) (s + 7)"
      using "1.prems" by (simp add: enc and_80 cont_byte cont_bits)
    also have "\<dots> = ((val OR push_bit s (take_bit 7 v)) OR push_bit (s + 7) (drop_bit 7 v),
        (i + 1) + length (encodeVarint (drop_bit 7 v)))"
      using True "1.prems" by (intro "1.IH") (simp_all add: enc)
    finally show ?thesis
      by (simp add: enc or.assoc shift_join)
  next
    case False
    then have "encodeVarint v = [ucast v]" by (simp add: encodeVarint.simps [of v])
    with "1.prems" show ?thesis
      by (simp add: and_80 last_byte [OF False] last_bits [OF False])
  qed
qed

lemma decodeVarint_encode [wire_simps]:
  "decodeVarint (encodeVarint v @ rest) = (v, length (encodeVarint v))"
  using decodeVarint_loop_encode [of 0 v rest 0 0] length_encodeVarint_max [of v]
  by (simp add: decodeVarint_def)

section \<open>What a decoder may read\<close>

lemma decodeVarint_loop_len:
  "decodeVarint_loop bs i val s = (v, n) \<Longrightarrow> n = 0 \<or> (i < n \<and> n \<le> i + length bs \<and> n \<le> 10)"
  by (induction bs i val s rule: decodeVarint_loop.induct) (auto simp: Let_def split: if_splits)

lemma decodeVarint_len: "decodeVarint bs = (v, n) \<Longrightarrow> n \<le> length bs \<and> n \<le> 10"
  unfolding decodeVarint_def by (drule decodeVarint_loop_len) auto

text \<open>The value read from \<open>k\<close> bytes has at most \<open>7 * k\<close> bits.\<close>

lemma decodeVarint_loop_bits:
  "decodeVarint_loop bs i val s = (v, n) \<Longrightarrow> (\<And>j. bit val j \<Longrightarrow> j < s) \<Longrightarrow> bit v j \<Longrightarrow>
   j < s + 7 * length bs"
proof (induction bs i val s arbitrary: j rule: decodeVarint_loop.induct)
  case (1 i val s)
  then show ?case by simp
next
  case (2 b bs i val s)
  let ?val = "val OR push_bit s (ucast (b AND 0x7F) :: u64)"
  have low: "bit ?val k \<Longrightarrow> k < s + 7" for k
    using "2.prems"(2) [of k]
    by (auto simp: bit_or_iff bit_push_bit_iff bit_unsigned_iff and_7F bit_take_bit_iff)
  show ?case
  proof (cases "10 \<le> i")
    case True
    with "2.prems" show ?thesis by auto
  next
    case i: False
    show ?thesis
    proof (cases "b AND 0x80 = 0")
      case True
      with i "2.prems"(1) have "v = ?val" by (simp add: Let_def)
      with low "2.prems"(3) show ?thesis by force
    next
      case False
      with i "2.prems"(1) have "decodeVarint_loop bs (i + 1) ?val (s + 7) = (v, n)"
        by (simp add: Let_def)
      from "2.IH" [OF i refl False this low "2.prems"(3)] show ?thesis by simp
    qed
  qed
qed

lemma decodeVarint_small:
  assumes "decodeVarint bs = (v, n)" "length bs \<le> 8"
  shows "unat v < 2 ^ 56"
proof -
  have "take_bit 56 v = v"
  proof (rule bit_word_eqI)
    fix j
    have "bit v j \<Longrightarrow> j < 0 + 7 * length bs"
      using assms(1) unfolding decodeVarint_def by (rule decodeVarint_loop_bits) simp_all
    with assms(2) show "bit (take_bit 56 v) j = bit v j" by (auto simp: bit_take_bit_iff)
  qed
  then have "unat v = take_bit 56 (unat v)"
    by (metis unsigned_take_bit_eq)
  then show ?thesis by (metis take_bit_nat_less_exp)
qed

section \<open>Fixed-width words and zigzag\<close>

lemma le_uint32_encodeFixed32 [wire_simps]: "le_uint32 (encodeFixed32 v @ rest) = v"
proof (rule bit_word_eqI)
  fix n
  assume n: "n < LENGTH(32)"
  have "le_uint32 (encodeFixed32 v @ rest) =
      ucast (ucast v :: byte) OR push_bit 8 (ucast (ucast (drop_bit 8 v) :: byte)) OR
      push_bit 16 (ucast (ucast (drop_bit 16 v) :: byte)) OR
      push_bit 24 (ucast (ucast (drop_bit 24 v) :: byte))"
    by (simp add: encodeFixed32_def)
  then have "bit (le_uint32 (encodeFixed32 v @ rest)) n \<longleftrightarrow>
      (n < 8 \<and> bit v n) \<or> (8 \<le> n \<and> n - 8 < 8 \<and> bit v (8 + (n - 8))) \<or>
      (16 \<le> n \<and> n - 16 < 8 \<and> bit v (16 + (n - 16))) \<or>
      (24 \<le> n \<and> n - 24 < 8 \<and> bit v (24 + (n - 24)))"
    using n by (simp add: bit_or_iff bit_push_bit_iff bit_unsigned_iff bit_drop_bit_eq) arith
  also have "\<dots> \<longleftrightarrow> bit v n"
  proof -
    consider "n < 8" | "8 \<le> n" "n < 16" | "16 \<le> n" "n < 24" | "24 \<le> n" by linarith
    then show ?thesis using n by cases (auto simp: less_diff_conv2)
  qed
  finally show "bit (le_uint32 (encodeFixed32 v @ rest)) n = bit v n" .
qed

lemma decodeZigzag_even: "\<not> bit v 0 \<Longrightarrow> decodeZigzag v = drop_bit 1 v"
proof -
  assume "\<not> bit v 0"
  then have "v AND 1 = 0" by (simp add: and_one_eq bit_0 odd_iff_mod_2_eq_one)
  then show ?thesis by (simp add: decodeZigzag_def)
qed

lemma decodeZigzag_odd: "bit v 0 \<Longrightarrow> decodeZigzag v = NOT (drop_bit 1 v)"
proof -
  assume "bit v 0"
  then have "v AND 1 = 1" by (simp add: and_one_eq bit_0 odd_iff_mod_2_eq_one)
  then show ?thesis by (simp add: decodeZigzag_def)
qed

lemma zigzag_shift:
  assumes "n < 2 ^ 63"
  shows "drop_bit 1 (word_of_nat (2 * n) :: u64) = word_of_nat n"
    "drop_bit 1 (word_of_nat (2 * n + 1) :: u64) = word_of_nat n"
proof -
  have k: "unat (drop_bit 1 (word_of_nat k :: u64)) = k div 2" if "k < 2 ^ 64" for k :: nat
    unfolding unat_drop_bit_div using that by (simp add: unat_of_nat)
  have n: "unat (word_of_nat n :: u64) = n" using assms by (simp add: unat_of_nat)
  show "drop_bit 1 (word_of_nat (2 * n) :: u64) = word_of_nat n"
    using k [of "2 * n"] n assms unfolding word_unat_eq_iff by (simp del: of_nat_mult)
  show "drop_bit 1 (word_of_nat (2 * n + 1) :: u64) = word_of_nat n"
    using k [of "2 * n + 1"] n assms unfolding word_unat_eq_iff by (simp del: of_nat_mult of_nat_add of_nat_Suc)
qed

lemma sint_word_of_nat: "n < 2 ^ 63 \<Longrightarrow> sint (word_of_nat n :: u64) = int n"
  using int_of_u64_small [of "word_of_nat n"] by (simp add: int_of_u64_def unat_of_nat)

lemma sint_not_word_of_nat: 
  assumes "n < 2 ^ 63" shows "sint (NOT (word_of_nat n) :: u64) = - (int n + 1)"
proof -
  have "NOT (word_of_nat n :: u64) = word_of_int (- (int n + 1))"
    by (simp add: not_eq_complement)
  moreover have "wrap64 (- (int n + 1)) = - (int n + 1)"
    using assms by (intro wrap64_id) auto
  ultimately show ?thesis unfolding wrap64_def by simp
qed

section \<open>Properties\<close>

text \<open>Every 64-bit value survives \<open>encodeVarint\<close> followed by \<open>decodeVarint\<close>, whatever bytes
  follow it, and the number of bytes consumed is the number written, between 1 and 10 (so the
  10-byte array of \<open>encodeVarint\<close> is never overrun).\<close>

theorem varint_round_trip:
  "decodeVarint (encodeVarint v @ rest) = (v, length (encodeVarint v)) \<and>
   0 < length (encodeVarint v) \<and> length (encodeVarint v) \<le> 10"
  by (simp add: decodeVarint_encode length_encodeVarint_max)

text \<open>\<open>decodeZigzag\<close> inverts the protobuf zigzag mapping: the even numbers \<open>2 n\<close> are the
  non-negative values \<open>n\<close> and the odd numbers \<open>2 n + 1\<close> the negative ones \<open>- (n + 1)\<close>.\<close>

theorem decodeZigzag_values:
  "n < 2 ^ 63 \<Longrightarrow>
   sint (decodeZigzag (word_of_nat (2 * n))) = int n \<and>
   sint (decodeZigzag (word_of_nat (2 * n + 1))) = - (int n + 1)"
proof
  assume n: "n < 2 ^ 63"
  have "\<not> bit (word_of_nat (2 * n) :: u64) 0" by (simp add: bit_0)
  then show "sint (decodeZigzag (word_of_nat (2 * n))) = int n"
    using n by (simp only: decodeZigzag_even zigzag_shift sint_word_of_nat not_False_eq_True)
  have "bit (word_of_nat (2 * n + 1) :: u64) 0" by (simp add: bit_0)
  then show "sint (decodeZigzag (word_of_nat (2 * n + 1))) = - (int n + 1)"
    using n by (simp only: decodeZigzag_odd zigzag_shift sint_not_word_of_nat)
qed

end
