(* ===== verification/FleetKeys.thy ===== *)
theory FleetKeys
  imports GoStrings Varint
begin

text \<open>
  The key helpers of \<open>internal/fleetsec/keys.go\<close>: validation, fingerprints, channel hashes and the
  base64 forms. SHA-256 and base64 are the Go standard library's, written out from their
  specifications (FIPS 180-4, RFC 4648 with the tolerance of Go's decoder for line breaks).
  The scalar multiplication of \<open>golang.org/x/crypto/curve25519\<close> is the parameter \<open>x25519\<close>.
\<close>

section \<open>SHA-256\<close>

definition rotr :: "nat \<Rightarrow> u32 \<Rightarrow> u32" where
  "rotr n w = drop_bit n w OR push_bit (32 - n) w"

text \<open>The round constants, in decimal.\<close>

definition sha_k :: "u32 list" where
  "sha_k = [
     1116352408, 1899447441, 3049323471, 3921009573, 961987163, 1508970993, 2453635748,
     2870763221, 3624381080, 310598401, 607225278, 1426881987, 1925078388, 2162078206,
     2614888103, 3248222580, 3835390401, 4022224774, 264347078, 604807628, 770255983,
     1249150122, 1555081692, 1996064986, 2554220882, 2821834349, 2952996808, 3210313671,
     3336571891, 3584528711, 113926993, 338241895, 666307205, 773529912, 1294757372,
     1396182291, 1695183700, 1986661051, 2177026350, 2456956037, 2730485921, 2820302411,
     3259730800, 3345764771, 3516065817, 3600352804, 4094571909, 275423344, 430227734,
     506948616, 659060556, 883997877, 958139571, 1322822218, 1537002063, 1747873779,
     1955562222, 2024104815, 2227730452, 2361852424, 2428436474, 2756734187, 3204031479,
     3329325298]"

text \<open>The eight working variables, and the message schedule as its last sixteen words, oldest
  first.\<close>

type_synonym sha_state = "u32 \<times> u32 \<times> u32 \<times> u32 \<times> u32 \<times> u32 \<times> u32 \<times> u32"

fun sha_rounds :: "u32 list \<Rightarrow> u32 list \<Rightarrow> sha_state \<Rightarrow> sha_state" where
  "sha_rounds (k # ks) (w # ws) (a, b, c, d, e, f, g, h) =
     (let t1 = h + (rotr 6 e XOR rotr 11 e XOR rotr 25 e) + ((e AND f) XOR (NOT e AND g)) + k + w;
          t2 = (rotr 2 a XOR rotr 13 a XOR rotr 22 a) + ((a AND b) XOR (a AND c) XOR (b AND c));
          w1 = ws ! 0; w14 = ws ! 13;
          next = (rotr 17 w14 XOR rotr 19 w14 XOR drop_bit 10 w14) + ws ! 8 + (rotr 7 w1 XOR rotr 18 w1 XOR drop_bit 3 w1) + w
      in sha_rounds ks (ws @ [next]) (t1 + t2, a, b, c, d + t1, e, f, g))"
| "sha_rounds _ _ s = s"

fun be_words :: "byte list \<Rightarrow> u32 list" where
  "be_words (a # b # c # d # r) =
     (push_bit 24 (ucast a) OR push_bit 16 (ucast b) OR push_bit 8 (ucast c) OR ucast d) # be_words r"
| "be_words _ = []"

definition be_bytes :: "u32 \<Rightarrow> byte list" where
  "be_bytes w = [ucast (drop_bit 24 w), ucast (drop_bit 16 w), ucast (drop_bit 8 w), ucast w]"

definition sha_block :: "sha_state \<Rightarrow> u32 list \<Rightarrow> sha_state" where
  "sha_block s ws =
     (case (s, sha_rounds sha_k ws s) of
        ((a, b, c, d, e, f, g, h), (a', b', c', d', e', f', g', h')) \<Rightarrow>
          (a + a', b + b', c + c', d + d', e + e', f + f', g + g', h + h'))"

function sha_blocks :: "sha_state \<Rightarrow> u32 list \<Rightarrow> sha_state" where
  "sha_blocks s ws = (if ws = [] then s else sha_blocks (sha_block s (take 16 ws)) (drop 16 ws))"
  by auto
termination by (relation "measure (\<lambda>(s, ws). length ws)") auto

declare sha_blocks.simps [simp del]

definition sha_pad :: "byte list \<Rightarrow> byte list" where
  "sha_pad m = (let n = length m; bits = 8 * n in
     m @ [0x80] @ replicate ((119 - n mod 64) mod 64) 0 @
       map (\<lambda>i. word_of_int (int bits div 256 ^ (7 - i))) [0..<8])"

definition sha256 :: "byte list \<Rightarrow> byte list" where
  "sha256 m =
     (case sha_blocks (0x6a09e667, 0xbb67ae85, 0x3c6ef372, 0xa54ff53a, 0x510e527f, 0x9b05688c, 0x1f83d9ab, 0x5be0cd19)
        (be_words (sha_pad m)) of
      (a, b, c, d, e, f, g, h) \<Rightarrow> concat (map be_bytes [a, b, c, d, e, f, g, h]))"

section \<open>Base64\<close>

definition std_alphabet :: string where
  "std_alphabet = ''ABCDEFGHIJKLMNOPQRSTUVWXYZabcdefghijklmnopqrstuvwxyz0123456789+/''"

definition url_alphabet :: string where
  "url_alphabet = ''ABCDEFGHIJKLMNOPQRSTUVWXYZabcdefghijklmnopqrstuvwxyz0123456789-_''"

fun b64_encode :: "string \<Rightarrow> bool \<Rightarrow> byte list \<Rightarrow> string" where
  "b64_encode al pad (a # b # c # r) =
     (let a = unat a; b = unat b; c = unat c in
      [al ! (a div 4), al ! (16 * (a mod 4) + b div 16), al ! (4 * (b mod 16) + c div 64), al ! (c mod 64)] @ b64_encode al pad r)"
| "b64_encode al pad [a, b] =
     (let a = unat a; b = unat b in
      [al ! (a div 4), al ! (16 * (a mod 4) + b div 16), al ! (4 * (b mod 16))] @ (if pad then ''='' else []))"
| "b64_encode al pad [a] =
     (let a = unat a in [al ! (a div 4), al ! (16 * (a mod 4))] @ (if pad then ''=='' else []))"
| "b64_encode al pad [] = []"

fun index_of :: "char \<Rightarrow> string \<Rightarrow> nat option" where
  "index_of c [] = None"
| "index_of c (x # xs) = (if x = c then Some 0 else map_option Suc (index_of c xs))"

definition b64_byte :: "nat \<Rightarrow> byte" where "b64_byte n = word_of_nat n"

fun b64_quanta :: "string \<Rightarrow> bool \<Rightarrow> string \<Rightarrow> byte list option" where
  "b64_quanta al pad (a # b # c # d # r) =
     (case (index_of a al, index_of b al, index_of c al, index_of d al) of
        (Some w, Some x, Some y, Some z) \<Rightarrow>
          map_option (\<lambda>bs. b64_byte (4 * w + x div 16) # b64_byte (16 * x + y div 4) # b64_byte (64 * y + z) # bs) (b64_quanta al pad r)
      | (Some w, Some x, Some y, None) \<Rightarrow>
          if pad \<and> d = CHR ''='' \<and> r = [] then Some [b64_byte (4 * w + x div 16), b64_byte (16 * x + y div 4)] else None
      | (Some w, Some x, None, _) \<Rightarrow>
          if pad \<and> c = CHR ''='' \<and> d = CHR ''='' \<and> r = [] then Some [b64_byte (4 * w + x div 16)] else None
      | _ \<Rightarrow> None)"
| "b64_quanta al pad [a, b, c] =
     (if pad then None else (case (index_of a al, index_of b al, index_of c al) of
        (Some w, Some x, Some y) \<Rightarrow> Some [b64_byte (4 * w + x div 16), b64_byte (16 * x + y div 4)] | _ \<Rightarrow> None))"
| "b64_quanta al pad [a, b] =
     (if pad then None else (case (index_of a al, index_of b al) of
        (Some w, Some x) \<Rightarrow> Some [b64_byte (4 * w + x div 16)] | _ \<Rightarrow> None))"
| "b64_quanta al pad [a] = None"
| "b64_quanta al pad [] = Some []"

definition b64_decode :: "string \<Rightarrow> bool \<Rightarrow> string \<Rightarrow> byte list option" where
  "b64_decode al pad s = b64_quanta al pad (filter (\<lambda>c. c \<noteq> CHR 0x0A \<and> c \<noteq> CHR 0x0D) s)"

section \<open>Keys\<close>

definition X25519KeySize :: nat where "X25519KeySize = 32"
definition FingerprintLen :: nat where "FingerprintLen = 8"

datatype key_error = KeyLength nat | KeyAllZero | PSKLength nat | BadBase64 | KeyMismatch

definition validPSKLengths :: "nat list" where "validPSKLengths = [0, 16, 32]"

definition ValidatePSK :: "byte list \<Rightarrow> key_error option" where
  "ValidatePSK psk = (if length psk \<in> set validPSKLengths then None else Some (PSKLength (length psk)))"

text \<open>\<open>ValidateX25519PublicKey\<close> and \<open>ValidateX25519PrivateKey\<close> make the same checks.\<close>

definition ValidateX25519Key :: "byte list \<Rightarrow> key_error option" where
  "ValidateX25519Key k = (if length k \<noteq> X25519KeySize then Some (KeyLength (length k))
     else if k = replicate X25519KeySize 0 then Some KeyAllZero else None)"

text \<open>The clamped private key that \<open>GenerateX25519Keypair\<close> makes of 32 random bytes.\<close>

definition clamp :: "byte list \<Rightarrow> byte list" where
  "clamp k = k[0 := k ! 0 AND 248, 31 := (k ! 31 AND 127) OR 64]"

definition GenerateX25519Keypair :: "(byte list \<Rightarrow> byte list option) \<Rightarrow> byte list \<Rightarrow> (byte list \<times> byte list) option" where
  "GenerateX25519Keypair x25519 random = map_option (Pair (clamp random)) (x25519 (clamp random))"

definition DerivePubkey :: "(byte list \<Rightarrow> byte list option) \<Rightarrow> byte list \<Rightarrow> key_error + byte list option" where
  "DerivePubkey x25519 priv = (case ValidateX25519Key priv of Some e \<Rightarrow> Inl e | None \<Rightarrow> Inr (x25519 priv))"

definition hex2 :: "byte \<Rightarrow> string" where
  "hex2 b = [hex_lower (unat b div 16), hex_lower (unat b mod 16)]"

definition Fingerprint :: "byte list \<Rightarrow> string" where
  "Fingerprint key = tl (concat (map (\<lambda>b. CHR '':'' # hex2 b) (take FingerprintLen (sha256 key))))"

definition ChannelHash :: "string \<Rightarrow> byte list \<Rightarrow> byte" where
  "ChannelHash name psk = fold (\<lambda>b h. h XOR b) (bytes_of_string name @ psk) 0"

definition EncodePubkeyB64 :: "byte list \<Rightarrow> string" where
  "EncodePubkeyB64 pub = b64_encode std_alphabet True pub"

text \<open>The three decoders share the padded attempt and the fallback to the raw form.\<close>

definition decode_key :: "(byte list \<Rightarrow> key_error option) \<Rightarrow> string \<Rightarrow> key_error + byte list" where
  "decode_key validate s =
     (let s = TrimSpace s;
          dec = (case b64_decode std_alphabet True s of Some d \<Rightarrow> Some d | None \<Rightarrow> b64_decode std_alphabet False s)
      in (case dec of None \<Rightarrow> Inl BadBase64
          | Some d \<Rightarrow> (case validate d of Some e \<Rightarrow> Inl e | None \<Rightarrow> Inr d)))"

definition DecodePubkeyB64 :: "string \<Rightarrow> key_error + byte list" where
  "DecodePubkeyB64 = decode_key ValidateX25519Key"

definition DecodePrivkeyB64 :: "string \<Rightarrow> key_error + byte list" where
  "DecodePrivkeyB64 = decode_key ValidateX25519Key"

definition DecodePSKB64 :: "string \<Rightarrow> key_error + byte list" where
  "DecodePSKB64 = decode_key ValidatePSK"

definition RandomPSK :: "nat \<Rightarrow> byte list \<Rightarrow> key_error + byte list" where
  "RandomPSK n random = (if n \<notin> set validPSKLengths then Inl (PSKLength n) else Inr (take n random))"

end
