(* ===== verification/Tracker.thy ===== *)
theory Tracker
  imports Prelude
begin

text \<open>
  The admin transaction tracker of \<open>internal/fleetsec/transactions.go\<close>. A tracker maps
  packet ids to transactions that wait for a routing acknowledgement or an admin
  reply; every transaction has a one-shot reply channel and a watcher goroutine that
  resolves it on timeout or cancellation. The state is a heap of transaction objects,
  the map under the mutex, and the replies that a goroutine has claimed the right to
  send but has not sent yet, so that the interleavings of dispatcher, watchers and
  callers are the steps of \<open>tracker_step\<close>. The protobuf types of \<open>meshpb\<close> and
  \<open>proto.Unmarshal\<close> are parameters: \<open>um_routing\<close>, \<open>um_admin\<close> parse a payload, and
  \<open>errorReason\<close> is \<open>GetErrorReason\<close>, with 0 for \<open>Routing_NONE\<close>.
\<close>

section \<open>Definitions\<close>

datatype ReplyKind = ReplyRoutingAck | ReplyAdminMsg | ReplyTimeout | ReplyCancelled

datatype 'e tx_error = TransactionTimeout | ContextErr | ParseErr 'e

record ('r, 'a, 'e) Reply =
  rKind :: ReplyKind
  rFrom :: u32
  rRouting :: "'r option"
  rAdmin :: "'a option"
  rErr :: "'e tx_error option"

definition Successful :: "('r \<Rightarrow> int) \<Rightarrow> ('r, 'a, 'e) Reply \<Rightarrow> bool" where
  "Successful errorReason r \<longleftrightarrow> rKind r = ReplyRoutingAck \<and>
     (case rRouting r of None \<Rightarrow> False | Some g \<Rightarrow> errorReason g = 0)"

text \<open>\<open>txCtx.Err()\<close>: not done, deadline exceeded, or cancelled.\<close>

datatype ctx_state = Live | DeadlineExceeded | Canceled

text \<open>
  A transaction object. \<open>reply_sent\<close> and \<open>reply_closed\<close> are its channel (what was sent on
  it, and whether it is closed), \<open>tx_ctx\<close> its context, \<open>parent_err\<close> whether the caller's own
  context reports an error, \<open>watching\<close> whether its watcher goroutine still waits.
\<close>

record ('r, 'a, 'e) pendingTx =
  tx_id :: u32
  tx_kind :: string
  expectsAdminReply :: bool
  expectedFrom :: u32
  reply_sent :: "('r, 'a, 'e) Reply list"
  reply_closed :: bool
  tx_ctx :: ctx_state
  parent_err :: bool
  watching :: bool

record ('r, 'a, 'e) tracker =
  transactions :: "u32 \<rightharpoonup> nat"
  tx_heap :: "nat \<Rightarrow> ('r, 'a, 'e) pendingTx"
  next_tx :: nat
  deliveries :: "(nat \<times> ('r, 'a, 'e) Reply) list"
  crashed :: bool

definition new_tx :: "u32 \<Rightarrow> string \<Rightarrow> bool \<Rightarrow> u32 \<Rightarrow> ('r, 'a, 'e) pendingTx" where
  "new_tx pid kind expects from =
     \<lparr>tx_id = pid, tx_kind = kind, expectsAdminReply = expects, expectedFrom = from,
      reply_sent = [], reply_closed = False, tx_ctx = Live, parent_err = False, watching = True\<rparr>"

definition NewTracker :: "('r, 'a, 'e) tracker" where
  "NewTracker = \<lparr>transactions = Map.empty, tx_heap = (\<lambda>_. new_tx 0 [] False 0), next_tx = 0,
     deliveries = [], crashed = False\<rparr>"

datatype begin_error = ZeroTransactionId | DuplicateTransactionId

definition Begin :: "('r, 'a, 'e) tracker \<Rightarrow> u32 \<Rightarrow> string \<Rightarrow> bool \<Rightarrow> u32
    \<Rightarrow> begin_error + nat \<times> ('r, 'a, 'e) tracker" where
  "Begin t pid kind expects from =
     (if pid = 0 then Inl ZeroTransactionId
      else (case transactions t pid of
          Some _ \<Rightarrow> Inl DuplicateTransactionId
        | None \<Rightarrow>
           (let a = next_tx t in
            Inr (a, t\<lparr>transactions := (transactions t)(pid \<mapsto> a),
                      tx_heap := (tx_heap t)(a := new_tx pid kind expects from),
                      next_tx := Suc a\<rparr>))))"

text \<open>\<open>tx.cancel()\<close>.\<close>

definition cancel_ctx :: "('r, 'a, 'e) pendingTx \<Rightarrow> ('r, 'a, 'e) pendingTx" where
  "cancel_ctx x = (if tx_ctx x = Live then x\<lparr>tx_ctx := Canceled\<rparr> else x)"

text \<open>
  Taking a transaction out of the map under the mutex and cancelling its context; the
  goroutine that did so then owes the reply to the channel.
\<close>

definition claim :: "('r, 'a, 'e) tracker \<Rightarrow> u32 \<Rightarrow> nat \<Rightarrow> ('r, 'a, 'e) Reply \<Rightarrow> ('r, 'a, 'e) tracker" where
  "claim t pid a r = t\<lparr>transactions := (transactions t)(pid := None),
     tx_heap := (tx_heap t)(a := cancel_ctx (tx_heap t a)), deliveries := deliveries t @ [(a, r)]\<rparr>"

definition HandleRoutingAck :: "(byte list \<Rightarrow> 'e + 'r) \<Rightarrow> ('r \<Rightarrow> int) \<Rightarrow> ('r, 'a, 'e) tracker
    \<Rightarrow> u32 \<Rightarrow> u32 \<Rightarrow> byte list \<Rightarrow> ('r, 'a, 'e) tracker" where
  "HandleRoutingAck um_routing errorReason t from requestID payload =
     (if requestID = 0 then t
      else
        (let parsed = um_routing payload;
             routingFailed = (case parsed of Inl _ \<Rightarrow> True | Inr g \<Rightarrow> errorReason g \<noteq> 0)
         in (case transactions t requestID of
               None \<Rightarrow> t
             | Some a \<Rightarrow>
                (let tx = tx_heap t a in
                 if expectedFrom tx \<noteq> 0 \<and> from \<noteq> expectedFrom tx then t
                 else if expectsAdminReply tx \<and> \<not> routingFailed then t
                 else claim t requestID a
                   \<lparr>rKind = ReplyRoutingAck, rFrom = from,
                    rRouting = (case parsed of Inl _ \<Rightarrow> None | Inr g \<Rightarrow> Some g), rAdmin = None,
                    rErr = (case parsed of Inl e \<Rightarrow> Some (ParseErr e) | Inr _ \<Rightarrow> None)\<rparr>))))"

definition HandleAdminReply :: "(byte list \<Rightarrow> 'e + 'a) \<Rightarrow> ('r, 'a, 'e) tracker
    \<Rightarrow> u32 \<Rightarrow> u32 \<Rightarrow> byte list \<Rightarrow> ('r, 'a, 'e) tracker" where
  "HandleAdminReply um_admin t from requestID payload =
     (if requestID = 0 then t
      else (case transactions t requestID of
          None \<Rightarrow> t
        | Some a \<Rightarrow>
           (let tx = tx_heap t a in
            if expectedFrom tx \<noteq> 0 \<and> from \<noteq> expectedFrom tx then t
            else claim t requestID a
              \<lparr>rKind = ReplyAdminMsg, rFrom = from, rRouting = None,
               rAdmin = (case um_admin payload of Inl _ \<Rightarrow> None | Inr m \<Rightarrow> Some m),
               rErr = (case um_admin payload of Inl e \<Rightarrow> Some (ParseErr e) | Inr _ \<Rightarrow> None)\<rparr>)))"

text \<open>The sends and closes that follow a claim; sending on a closed channel panics.\<close>

definition deliver :: "('r, 'a, 'e) tracker \<Rightarrow> nat \<Rightarrow> ('r, 'a, 'e) tracker" where
  "deliver t i =
     (let (a, r) = deliveries t ! i; tx = tx_heap t a;
          t' = t\<lparr>deliveries := take i (deliveries t) @ drop (Suc i) (deliveries t)\<rparr>
      in if reply_closed tx then t'\<lparr>crashed := True\<rparr>
         else t'\<lparr>tx_heap := (tx_heap t)(a := tx\<lparr>reply_sent := reply_sent tx @ [r], reply_closed := True\<rparr>)\<rparr>)"

text \<open>The context of a transaction: its deadline passes, or the caller's context is cancelled.\<close>

definition expire :: "('r, 'a, 'e) tracker \<Rightarrow> nat \<Rightarrow> ('r, 'a, 'e) tracker" where
  "expire t a = (let tx = tx_heap t a in
     if tx_ctx tx = Live then t\<lparr>tx_heap := (tx_heap t)(a := tx\<lparr>tx_ctx := DeadlineExceeded\<rparr>)\<rparr> else t)"

definition cancel_parent :: "('r, 'a, 'e) tracker \<Rightarrow> nat \<Rightarrow> ('r, 'a, 'e) tracker" where
  "cancel_parent t a =
     t\<lparr>tx_heap := (tx_heap t)(a := (cancel_ctx (tx_heap t a))\<lparr>parent_err := True\<rparr>)\<rparr>"

text \<open>
  The watcher goroutine of transaction \<open>a\<close> once \<open>txCtx.Done()\<close> fires. \<open>removeAndClose\<close>
  looks the transaction up by packet id again.
\<close>

definition watcher_reply :: "('r, 'a, 'e) pendingTx \<Rightarrow> ('r, 'a, 'e) Reply" where
  "watcher_reply tx =
     (if tx_ctx tx = DeadlineExceeded
      then \<lparr>rKind = ReplyTimeout, rFrom = 0, rRouting = None, rAdmin = None, rErr = Some TransactionTimeout\<rparr>
      else \<lparr>rKind = ReplyCancelled, rFrom = 0, rRouting = None, rAdmin = None,
            rErr = (if parent_err tx then Some ContextErr else None)\<rparr>)"

definition watcher :: "('r, 'a, 'e) tracker \<Rightarrow> nat \<Rightarrow> ('r, 'a, 'e) tracker" where
  "watcher t a =
     (let tx = tx_heap t a; t' = t\<lparr>tx_heap := (tx_heap t)(a := tx\<lparr>watching := False\<rparr>)\<rparr>
      in (case transactions t (tx_id tx) of
            None \<Rightarrow> t'
          | Some b \<Rightarrow> claim t' (tx_id tx) b (watcher_reply tx)))"

definition Pending :: "('r, 'a, 'e) tracker \<Rightarrow> nat" where
  "Pending t = card (dom (transactions t))"

section \<open>Steps\<close>

inductive tracker_step :: "(byte list \<Rightarrow> 'e + 'r) \<Rightarrow> ('r \<Rightarrow> int) \<Rightarrow> (byte list \<Rightarrow> 'e + 'a)
    \<Rightarrow> ('r, 'a, 'e) tracker \<Rightarrow> ('r, 'a, 'e) tracker \<Rightarrow> bool"
  for um_routing errorReason um_admin where
  step_begin: "Begin t pid kind expects from = Inr (a, t') \<Longrightarrow>
    tracker_step um_routing errorReason um_admin t t'"
| step_ack: "tracker_step um_routing errorReason um_admin t
    (HandleRoutingAck um_routing errorReason t from requestID payload)"
| step_admin: "tracker_step um_routing errorReason um_admin t
    (HandleAdminReply um_admin t from requestID payload)"
| step_deliver: "i < length (deliveries t) \<Longrightarrow>
    tracker_step um_routing errorReason um_admin t (deliver t i)"
| step_expire: "a < next_tx t \<Longrightarrow> tracker_step um_routing errorReason um_admin t (expire t a)"
| step_cancel: "a < next_tx t \<Longrightarrow> tracker_step um_routing errorReason um_admin t (cancel_parent t a)"
| step_watcher: "a < next_tx t \<Longrightarrow> watching (tx_heap t a) \<Longrightarrow> tx_ctx (tx_heap t a) \<noteq> Live \<Longrightarrow>
    tracker_step um_routing errorReason um_admin t (watcher t a)"

definition tracker_reachable :: "(byte list \<Rightarrow> 'e + 'r) \<Rightarrow> ('r \<Rightarrow> int) \<Rightarrow> (byte list \<Rightarrow> 'e + 'a)
    \<Rightarrow> ('r, 'a, 'e) tracker \<Rightarrow> bool" where
  "tracker_reachable um_routing errorReason um_admin t \<longleftrightarrow>
     (tracker_step um_routing errorReason um_admin)\<^sup>*\<^sup>* NewTracker t"

section \<open>Invariant\<close>

text \<open>A reply that the transaction may be given.\<close>

definition reply_ok :: "('r \<Rightarrow> int) \<Rightarrow> ('r, 'a, 'e) pendingTx \<Rightarrow> ('r, 'a, 'e) Reply \<Rightarrow> bool" where
  "reply_ok errorReason tx r \<longleftrightarrow>
     (rKind r \<in> {ReplyRoutingAck, ReplyAdminMsg} \<longrightarrow> expectedFrom tx \<noteq> 0 \<longrightarrow> rFrom r = expectedFrom tx) \<and>
     (expectsAdminReply tx \<longrightarrow> \<not> Successful errorReason r) \<and>
     (rKind r \<in> {ReplyTimeout, ReplyCancelled} \<longrightarrow> rRouting r = None \<and> rAdmin r = None)"

definition pending_in :: "('r, 'a, 'e) tracker \<Rightarrow> nat \<Rightarrow> bool" where
  "pending_in t a \<longleftrightarrow> transactions t (tx_id (tx_heap t a)) = Some a"

text \<open>
  What holds of a live transaction \<open>a\<close>: it is in exactly one of three phases (in the map
  with its watcher running, claimed by a goroutine, or replied to and closed), and the
  reply it has or will get is one it may be given.
\<close>

definition tx_inv :: "('r \<Rightarrow> int) \<Rightarrow> ('r, 'a, 'e) tracker \<Rightarrow> nat \<Rightarrow> bool" where
  "tx_inv errorReason t a \<longleftrightarrow>
     (let tx = tx_heap t a; claimed = a \<in> fst ` set (deliveries t) in
      reply_closed tx = (reply_sent tx \<noteq> []) \<and> length (reply_sent tx) \<le> 1 \<and>
      (pending_in t a \<longrightarrow> watching tx \<and> \<not> claimed \<and> reply_sent tx = [] \<and> tx_id tx \<noteq> 0) \<and>
      (claimed \<longrightarrow> reply_sent tx = []) \<and>
      (pending_in t a \<or> claimed \<or> reply_sent tx \<noteq> []) \<and>
      (\<forall>r \<in> set (reply_sent tx). reply_ok errorReason tx r))"

definition tracker_inv :: "('r \<Rightarrow> int) \<Rightarrow> ('r, 'a, 'e) tracker \<Rightarrow> bool" where
  "tracker_inv errorReason t \<longleftrightarrow>
     \<not> crashed t \<and> distinct (map fst (deliveries t)) \<and>
     (\<forall>pid a. transactions t pid = Some a \<longrightarrow> a < next_tx t \<and> tx_id (tx_heap t a) = pid) \<and>
     (\<forall>(a, r) \<in> set (deliveries t). a < next_tx t \<and> reply_ok errorReason (tx_heap t a) r) \<and>
     (\<forall>a < next_tx t. tx_inv errorReason t a)"

section \<open>Every step keeps the invariant\<close>

lemma claim_heap:
  "tx_id (tx_heap (claim t pid a r) b) = tx_id (tx_heap t b)"
  "reply_sent (tx_heap (claim t pid a r) b) = reply_sent (tx_heap t b)"
  "reply_closed (tx_heap (claim t pid a r) b) = reply_closed (tx_heap t b)"
  "watching (tx_heap (claim t pid a r) b) = watching (tx_heap t b)"
  "expectedFrom (tx_heap (claim t pid a r) b) = expectedFrom (tx_heap t b)"
  "expectsAdminReply (tx_heap (claim t pid a r) b) = expectsAdminReply (tx_heap t b)"
  "reply_ok er (tx_heap (claim t pid a r) b) = reply_ok er (tx_heap t b)"
  by (auto simp: claim_def cancel_ctx_def reply_ok_def)

lemma tracker_inv_claim:
  assumes inv: "tracker_inv er t" and a: "transactions t pid = Some a"
    and ok: "reply_ok er (tx_heap t a) r"
  shows "tracker_inv er (claim t pid a r)"
proof -
  let ?t = "claim t pid a r"
  have ida: "tx_id (tx_heap t a) = pid" "a < next_tx t" using inv a by (auto simp: tracker_inv_def)
  note heap = claim_heap [where t = t and pid = pid and a = a and r = r]
  have pend: "pending_in ?t b \<longleftrightarrow> b \<noteq> a \<and> pending_in t b" if "b < next_tx t" for b
    unfolding pending_in_def heap(1) using ida a by (auto simp: claim_def)
  have "pending_in t a" using a ida by (simp add: pending_in_def)
  moreover have "tx_inv er t a" using inv ida by (simp add: tracker_inv_def)
  ultimately have na: "a \<notin> fst ` set (deliveries t)" "reply_sent (tx_heap t a) = []"
    by (simp_all add: tx_inv_def Let_def)
  have del: "set (deliveries ?t) = insert (a, r) (set (deliveries t))" by (auto simp: claim_def)
  have "tx_inv er ?t b" if "b < next_tx t" for b
  proof -
    have "tx_inv er t b" using inv that by (simp add: tracker_inv_def)
    then show ?thesis
      using na unfolding tx_inv_def Let_def heap pend [OF that] del by auto
  qed
  moreover have "distinct (map fst (deliveries ?t))"
    using inv na by (auto simp: tracker_inv_def claim_def)
  moreover have "\<forall>q b. transactions ?t q = Some b \<longrightarrow> b < next_tx ?t \<and> tx_id (tx_heap ?t b) = q"
    unfolding heap using inv by (auto simp: tracker_inv_def claim_def)
  moreover have "\<forall>(b, q) \<in> set (deliveries ?t). b < next_tx ?t \<and> reply_ok er (tx_heap ?t b) q"
    unfolding heap del using inv ida ok by (auto simp: tracker_inv_def claim_def)
  moreover have "next_tx ?t = next_tx t" "crashed ?t = crashed t" by (simp_all add: claim_def)
  ultimately show ?thesis using inv by (simp add: tracker_inv_def)
qed

text \<open>Updates of a transaction object that leave its id, channel and filters alone.\<close>

lemma tracker_inv_heap:
  assumes inv: "tracker_inv er t"
    and same: "tx_id x = tx_id (tx_heap t a)" "reply_sent x = reply_sent (tx_heap t a)"
      "reply_closed x = reply_closed (tx_heap t a)" "expectedFrom x = expectedFrom (tx_heap t a)"
      "expectsAdminReply x = expectsAdminReply (tx_heap t a)"
    and watch: "pending_in t a \<Longrightarrow> watching x"
  shows "tracker_inv er (t\<lparr>tx_heap := (tx_heap t)(a := x)\<rparr>)"
proof -
  let ?t = "t\<lparr>tx_heap := (tx_heap t)(a := x)\<rparr>"
  have heap: "tx_id (tx_heap ?t b) = tx_id (tx_heap t b)" "reply_sent (tx_heap ?t b) = reply_sent (tx_heap t b)"
    "reply_closed (tx_heap ?t b) = reply_closed (tx_heap t b)"
    "reply_ok er (tx_heap ?t b) = reply_ok er (tx_heap t b)" for b
    using same by (auto simp: reply_ok_def)
  have pend: "pending_in ?t b = pending_in t b" for b
    unfolding pending_in_def heap by simp
  have "tx_inv er ?t b" if "tx_inv er t b" for b
    using that watch unfolding tx_inv_def Let_def heap pend by (cases "b = a") auto
  then show ?thesis
    using inv unfolding tracker_inv_def heap by auto
qed

lemma tracker_inv_begin:
  assumes inv: "tracker_inv er t" and b: "Begin t pid kind expects from = Inr (a, t')"
  shows "tracker_inv er t'"
proof -
  have new: "transactions t pid = None" "pid \<noteq> 0" "a = next_tx t"
    and t': "t' = t\<lparr>transactions := (transactions t)(pid \<mapsto> a),
        tx_heap := (tx_heap t)(a := new_tx pid kind expects from), next_tx := Suc a\<rparr>"
    using b by (auto simp: Begin_def Let_def split: if_splits option.splits)
  have old: "tx_heap t' c = tx_heap t c" "pending_in t' c = pending_in t c" if "c < next_tx t" for c
    using that new inv by (auto simp: t' pending_in_def tracker_inv_def)
  have "tx_inv er t' c" if "c < Suc a" for c
  proof (cases "c = a")
    case True
    moreover have "a \<notin> fst ` set (deliveries t)" using inv new by (force simp: tracker_inv_def)
    ultimately show ?thesis using new by (simp add: tx_inv_def t' new_tx_def pending_in_def Let_def)
  next
    case False
    with that new inv have "tx_inv er t c" "c < next_tx t" by (auto simp: tracker_inv_def)
    then show ?thesis
      unfolding tx_inv_def Let_def old [OF \<open>c < next_tx t\<close>] by (simp add: t')
  qed
  moreover have "\<forall>q b. transactions t' q = Some b \<longrightarrow> b < Suc a \<and> tx_id (tx_heap t' b) = q"
  proof (intro allI impI)
    fix q b
    assume q: "transactions t' q = Some b"
    show "b < Suc a \<and> tx_id (tx_heap t' b) = q"
    proof (cases "q = pid")
      case True
      with q show ?thesis by (simp add: t' new_tx_def)
    next
      case False
      with q have "transactions t q = Some b" by (simp add: t')
      with inv have "b < next_tx t" "tx_id (tx_heap t b) = q" by (auto simp: tracker_inv_def)
      with old new show ?thesis by simp
    qed
  qed
  moreover have "\<forall>(b, q) \<in> set (deliveries t). b < Suc a \<and> reply_ok er (tx_heap t' b) q"
    using inv new old by (fastforce simp: tracker_inv_def)
  ultimately show ?thesis using inv by (simp add: tracker_inv_def t')
qed

lemma tracker_inv_deliver:
  assumes inv: "tracker_inv er t" and i: "i < length (deliveries t)"
  shows "tracker_inv er (deliver t i)"
proof -
  obtain a r where ar: "deliveries t ! i = (a, r)" by fastforce
  then have mem: "(a, r) \<in> set (deliveries t)" using i nth_mem by fastforce
  then have a: "a < next_tx t" "a \<in> fst ` set (deliveries t)" "reply_ok er (tx_heap t a) r"
    using inv by (auto simp: tracker_inv_def) (force)
  have "tx_inv er t a" using inv a by (simp add: tracker_inv_def)
  with a have sent: "reply_sent (tx_heap t a) = []" "\<not> reply_closed (tx_heap t a)" "\<not> pending_in t a"
    by (auto simp: tx_inv_def Let_def)
  let ?ds = "take i (deliveries t) @ drop (Suc i) (deliveries t)"
  have split: "deliveries t = take i (deliveries t) @ (a, r) # drop (Suc i) (deliveries t)"
    using id_take_nth_drop [OF i] ar by simp
  have dist: "distinct (map fst (take i (deliveries t) @ (a, r) # drop (Suc i) (deliveries t)))"
    using inv split by (simp add: tracker_inv_def)
  have fsts: "fst ` set ?ds = fst ` set (deliveries t) - {a}"
    using dist by (subst split) auto
  let ?t = "deliver t i"
  have t: "?t = t\<lparr>deliveries := ?ds,
      tx_heap := (tx_heap t)(a := (tx_heap t a)\<lparr>reply_sent := [r], reply_closed := True\<rparr>)\<rparr>"
    using sent by (simp add: deliver_def ar Let_def)
  have heap: "tx_id (tx_heap ?t b) = tx_id (tx_heap t b)" "watching (tx_heap ?t b) = watching (tx_heap t b)"
    "reply_ok er (tx_heap ?t b) = reply_ok er (tx_heap t b)" for b
    by (auto simp: t reply_ok_def)
  have pend: "pending_in ?t b = pending_in t b" for b
    unfolding pending_in_def heap by (simp add: t)
  have "tx_inv er ?t b" if "b < next_tx t" for b
  proof -
    have "tx_inv er t b" using inv that by (simp add: tracker_inv_def)
    then show ?thesis
      using a sent fsts unfolding tx_inv_def Let_def heap pend by (cases "b = a") (auto simp: t)
  qed
  moreover have "distinct (map fst ?ds)" using dist by auto
  moreover have "set ?ds \<subseteq> set (deliveries t)" by (auto dest: in_set_takeD in_set_dropD)
  ultimately show ?thesis
    using inv heap unfolding tracker_inv_def by (fastforce simp: t)
qed

lemma tracker_inv_watcher:
  assumes inv: "tracker_inv er t" and ctx: "tx_ctx (tx_heap t a) \<noteq> Live"
  shows "tracker_inv er (watcher t a)"
proof (cases "transactions t (tx_id (tx_heap t a))")
  case None
  then show ?thesis
    using tracker_inv_heap [OF inv, of "(tx_heap t a)\<lparr>watching := False\<rparr>" a]
    by (simp add: watcher_def pending_in_def)
next
  case (Some b)
  define x where "x = (tx_heap t a)\<lparr>watching := False\<rparr>"
  have commute: "claim (t\<lparr>tx_heap := (tx_heap t)(a := x)\<rparr>) pid b r
      = (claim t pid b r)\<lparr>tx_heap := (tx_heap (claim t pid b r))(a := (tx_heap (claim t pid b r) a)\<lparr>watching := False\<rparr>)\<rparr>"
    for pid r
    by (auto simp: claim_def x_def cancel_ctx_def fun_eq_iff)
  have "reply_ok er (tx_heap t b) (watcher_reply (tx_heap t a))"
    by (simp add: watcher_reply_def reply_ok_def Successful_def)
  from tracker_inv_claim [OF inv Some this]
  have c: "tracker_inv er (claim t (tx_id (tx_heap t a)) b (watcher_reply (tx_heap t a)))" .
  have "tx_id (tx_heap t b) = tx_id (tx_heap t a)" using inv Some by (auto simp: tracker_inv_def)
  then have "\<not> pending_in (claim t (tx_id (tx_heap t a)) b r) a" for r
    unfolding pending_in_def claim_heap by (simp add: claim_def)
  then show ?thesis
    unfolding watcher_def Let_def Some option.case x_def [symmetric] commute
    by (intro tracker_inv_heap [OF c]) simp_all
qed

lemma tracker_inv_ack:
  "tracker_inv er t \<Longrightarrow> tracker_inv er (HandleRoutingAck um er t from requestID payload)"
  unfolding HandleRoutingAck_def
  by (auto simp: Let_def reply_ok_def Successful_def intro!: tracker_inv_claim split: option.splits sum.splits)

lemma tracker_inv_admin:
  "tracker_inv er t \<Longrightarrow> tracker_inv er (HandleAdminReply um t from requestID payload)"
  unfolding HandleAdminReply_def
  by (auto simp: Let_def reply_ok_def Successful_def intro!: tracker_inv_claim split: option.splits sum.splits)

lemma tracker_inv_step: "tracker_step um er ua t t' \<Longrightarrow> tracker_inv er t \<Longrightarrow> tracker_inv er t'"
proof (induction rule: tracker_step.induct)
  case (step_expire a t)
  have "pending_in t a \<Longrightarrow> watching (tx_heap t a)"
    using step_expire by (auto simp: tracker_inv_def tx_inv_def Let_def)
  then show ?case
    using step_expire by (auto simp: expire_def Let_def intro!: tracker_inv_heap)
next
  case (step_cancel a t)
  have "pending_in t a \<Longrightarrow> watching (tx_heap t a)"
    using step_cancel by (auto simp: tracker_inv_def tx_inv_def Let_def)
  then show ?case
    using step_cancel by (auto simp: cancel_parent_def cancel_ctx_def intro!: tracker_inv_heap)
qed (auto intro: tracker_inv_begin tracker_inv_ack tracker_inv_admin tracker_inv_deliver tracker_inv_watcher)

lemma tracker_inv_new: "tracker_inv er NewTracker"
  by (simp add: tracker_inv_def NewTracker_def)

lemma tracker_inv_reachable: "tracker_reachable um er ua t \<Longrightarrow> tracker_inv er t"
  unfolding tracker_reachable_def
  by (induction rule: rtranclp_induct) (auto intro: tracker_inv_new tracker_inv_step)

section \<open>The abstract transaction\<close>

text \<open>
  What a caller sees: a transaction waits, and is then resolved by one reply for good.
\<close>

datatype 'm tx_status = Waiting | Resolved 'm

fun status_of :: "'m list \<Rightarrow> 'm option \<Rightarrow> 'm tx_status" where
  "status_of (r # _) _ = Resolved r"
| "status_of [] (Some r) = Resolved r"
| "status_of [] None = Waiting"

definition tx_abs :: "('r, 'a, 'e) tracker \<Rightarrow> nat \<rightharpoonup> ('r, 'a, 'e) Reply tx_status" where
  "tx_abs t a = (if a < next_tx t
     then Some (status_of (reply_sent (tx_heap t a)) (map_of (deliveries t) a)) else None)"

inductive one_shot_step :: "(nat \<rightharpoonup> 'm tx_status) \<Rightarrow> (nat \<rightharpoonup> 'm tx_status) \<Rightarrow> bool" where
  stays: "one_shot_step A A"
| starts: "A a = None \<Longrightarrow> one_shot_step A (A(a \<mapsto> Waiting))"
| resolves: "A a = Some Waiting \<Longrightarrow> one_shot_step A (A(a \<mapsto> Resolved r))"

lemma tx_abs_claim:
  assumes inv: "tracker_inv er t" and a: "transactions t pid = Some a"
  shows "tx_abs t a = Some Waiting" "tx_abs (claim t pid a r) = (tx_abs t)(a \<mapsto> Resolved r)"
proof -
  have lt: "a < next_tx t" "pending_in t a" using inv a by (auto simp: tracker_inv_def pending_in_def)
  then have "tx_inv er t a" using inv by (simp add: tracker_inv_def)
  with lt have "a \<notin> fst ` set (deliveries t)" "reply_sent (tx_heap t a) = []"
    by (simp_all add: tx_inv_def Let_def)
  moreover from this have "map_of (deliveries t) a = None" by (simp add: map_of_eq_None_iff)
  ultimately show "tx_abs t a = Some Waiting" "tx_abs (claim t pid a r) = (tx_abs t)(a \<mapsto> Resolved r)"
    using lt(1)
    by (auto simp: tx_abs_def fun_eq_iff claim_heap map_add_def) (auto simp: claim_def map_add_def split: list.splits option.splits)
qed

lemma tx_abs_heap:
  "reply_sent x = reply_sent (tx_heap t a) \<Longrightarrow> tx_abs (t\<lparr>tx_heap := (tx_heap t)(a := x)\<rparr>) = tx_abs t"
  by (auto simp: tx_abs_def fun_eq_iff)

lemma one_shot_claim:
  "tracker_inv er t \<Longrightarrow> transactions t pid = Some a \<Longrightarrow> one_shot_step (tx_abs t) (tx_abs (claim t pid a r))"
  by (simp add: tx_abs_claim resolves)

lemma tx_abs_deliver:
  assumes inv: "tracker_inv er t" and i: "i < length (deliveries t)"
  shows "tx_abs (deliver t i) = tx_abs t"
proof -
  obtain a r where ar: "deliveries t ! i = (a, r)" by fastforce
  then have mem: "(a, r) \<in> set (deliveries t)" using i nth_mem by fastforce
  have dist: "distinct (map fst (deliveries t))" using inv by (simp add: tracker_inv_def)
  then have look: "map_of (deliveries t) a = Some r" using mem by (simp add: map_of_eq_Some_iff)
  have "a < next_tx t" using inv mem by (auto simp: tracker_inv_def)
  then have "tx_inv er t a" using inv by (simp add: tracker_inv_def)
  moreover have "a \<in> fst ` set (deliveries t)" using mem by force
  ultimately have sent: "reply_sent (tx_heap t a) = []" "\<not> reply_closed (tx_heap t a)"
    by (auto simp: tx_inv_def Let_def)
  have split: "deliveries t = take i (deliveries t) @ (a, r) # drop (Suc i) (deliveries t)"
    using id_take_nth_drop [OF i] ar by simp
  have other: "map_of (take i (deliveries t) @ drop (Suc i) (deliveries t)) b = map_of (deliveries t) b"
    if "b \<noteq> a" for b
    using that by (subst (3) split) (simp add: map_add_def split: option.splits)
  show ?thesis
    using sent look by (auto simp: deliver_def ar Let_def tx_abs_def fun_eq_iff other simp del: map_of_append)
qed

lemma tx_abs_begin:
  assumes inv: "tracker_inv er t" and b: "Begin t pid kind expects from = Inr (a, t')"
  shows "tx_abs t a = None" "tx_abs t' = (tx_abs t)(a \<mapsto> Waiting)"
proof -
  have a: "a = next_tx t" and t': "t' = t\<lparr>transactions := (transactions t)(pid \<mapsto> a),
        tx_heap := (tx_heap t)(a := new_tx pid kind expects from), next_tx := Suc a\<rparr>"
    using b by (auto simp: Begin_def Let_def split: if_splits option.splits)
  have "a \<notin> fst ` set (deliveries t)" using inv a by (force simp: tracker_inv_def)
  then have "map_of (deliveries t) a = None" by (simp add: map_of_eq_None_iff)
  then show "tx_abs t a = None" "tx_abs t' = (tx_abs t)(a \<mapsto> Waiting)"
    by (auto simp: a t' tx_abs_def fun_eq_iff new_tx_def)
qed

lemma one_shot_handlers:
  assumes "tracker_inv er t"
  shows "one_shot_step (tx_abs t) (tx_abs (HandleRoutingAck um er t from requestID payload))"
    "one_shot_step (tx_abs t) (tx_abs (HandleAdminReply ua t from requestID payload))"
  unfolding HandleRoutingAck_def HandleAdminReply_def Let_def
  using assms by (auto intro: one_shot_claim stays split: option.splits)

lemma one_shot_watcher:
  assumes inv: "tracker_inv er t"
  shows "one_shot_step (tx_abs t) (tx_abs (watcher t a))"
proof (cases "transactions t (tx_id (tx_heap t a))")
  case None
  then show ?thesis by (simp add: watcher_def tx_abs_heap stays)
next
  case (Some b)
  define x where "x = (tx_heap t a)\<lparr>watching := False\<rparr>"
  have "tx_abs (claim (t\<lparr>tx_heap := (tx_heap t)(a := x)\<rparr>) pid b r) = tx_abs (claim t pid b r)" for pid r
    by (auto simp: tx_abs_def fun_eq_iff claim_heap) (auto simp: claim_def x_def)
  with one_shot_claim [OF inv Some] show ?thesis
    unfolding watcher_def Let_def Some option.case x_def [symmetric] by simp
qed

lemma tracker_step_one_shot:
  assumes "tracker_step um er ua t t'" "tracker_inv er t"
  shows "one_shot_step (tx_abs t) (tx_abs t')"
  using assms
proof (induction rule: tracker_step.induct)
  case (step_begin t pid kind expects frm a t')
  then show ?case using starts [of "tx_abs t" a] by (metis tx_abs_begin)
next
  case (step_expire a t)
  then show ?case by (simp add: expire_def Let_def tx_abs_heap stays)
next
  case (step_cancel a t)
  then show ?case by (simp add: cancel_parent_def cancel_ctx_def tx_abs_heap stays)
qed (auto simp: tx_abs_deliver intro: one_shot_handlers one_shot_watcher stays)

section \<open>Runs\<close>

lemma deliver_heap:
  "tx_id (tx_heap (deliver t i) b) = tx_id (tx_heap t b)"
  "parent_err (tx_heap (deliver t i) b) = parent_err (tx_heap t b)"
  "next_tx (deliver t i) = next_tx t"
  by (auto simp: deliver_def Let_def split: prod.splits)

lemma deliver_last:
  "deliveries t = ds @ [(a, r)] \<Longrightarrow> reply_sent (tx_heap t a) = [] \<Longrightarrow> \<not> reply_closed (tx_heap t a) \<Longrightarrow>
   reply_sent (tx_heap (deliver t (length ds)) a) = [r]"
  by (simp add: deliver_def Let_def)

lemma reachable_new: "tracker_reachable um er ua NewTracker"
  by (simp add: tracker_reachable_def)

lemma reachable_step: "tracker_reachable um er ua t \<Longrightarrow> tracker_step um er ua t t' \<Longrightarrow> tracker_reachable um er ua t'"
  unfolding tracker_reachable_def by (rule rtranclp.rtrancl_into_rtrancl)

lemmas reachable_begin = reachable_step [OF _ step_begin]
lemmas reachable_ack = reachable_step [OF _ step_ack]
lemmas reachable_deliver = reachable_step [OF _ step_deliver]
lemmas reachable_watcher = reachable_step [OF _ step_watcher]
lemmas reachable_expire = reachable_step [OF _ step_expire]

text \<open>A transaction that is started, acknowledged and delivered.\<close>

definition started :: "u32 \<Rightarrow> bool \<Rightarrow> u32 \<Rightarrow> ('r, 'a, 'e) tracker" where
  "started pid expects frm = (NewTracker :: ('r, 'a, 'e) tracker)
     \<lparr>transactions := [pid \<mapsto> 0], tx_heap := (tx_heap NewTracker)(0 := new_tx pid [] expects frm), next_tx := 1\<rparr>"

lemma reachable_started: "pid \<noteq> 0 \<Longrightarrow> tracker_reachable um er ua (started pid expects frm)"
  by (rule reachable_begin [OF reachable_new, of pid "[]" expects frm 0])
    (simp add: Begin_def started_def NewTracker_def)

text \<open>The acknowledgement of the expected node, delivered.\<close>

definition acked :: "(int, int, int) tracker" where
  "acked = deliver (HandleRoutingAck (\<lambda>_. Inr 0) (\<lambda>x. x) (started 7 False 9) 9 7 []) 0"

section \<open>The interface to the dispatcher\<close>

text \<open>
  \<open>AdminReplyHandler\<close> of \<open>internal/meshtastic/dispatcher.go\<close>: a receiver of routing
  acknowledgements and admin replies whose invariant survives both, whatever the mesh
  delivers, and to which a packet with request id 0 does nothing.
\<close>

locale admin_reply_handler =
  fixes routing_ack admin_reply :: "'s \<Rightarrow> u32 \<Rightarrow> u32 \<Rightarrow> byte list \<Rightarrow> 's"
    and handler_inv :: "'s \<Rightarrow> bool"
  assumes ack_inv: "handler_inv s \<Longrightarrow> handler_inv (routing_ack s from requestID payload)"
    and admin_inv: "handler_inv s \<Longrightarrow> handler_inv (admin_reply s from requestID payload)"
    and ack_unaddressed: "routing_ack s from 0 payload = s"
    and admin_unaddressed: "admin_reply s from 0 payload = s"

interpretation tracker_handler: admin_reply_handler "HandleRoutingAck um er" "HandleAdminReply ua" "tracker_inv er"
  for um :: "byte list \<Rightarrow> 'e + 'r" and er and ua :: "byte list \<Rightarrow> 'e + 'a"
  by unfold_locales
    (erule tracker_inv_ack, erule tracker_inv_admin, simp_all add: HandleRoutingAck_def HandleAdminReply_def)

section \<open>Properties\<close>

text \<open>C2: In every state the tracker can reach, under every interleaving of callers, dispatcher,
  watchers, timeouts and cancellations, no goroutine sends on a closed channel, every
  transaction's channel has been sent at most one reply and is closed exactly when it has been
  sent one, and every transaction is in exactly one phase: in the map, claimed by a goroutine,
  or replied to; none is lost.\<close>

theorem replies_exactly_once:
  assumes "tracker_reachable um er ua t"
  shows "\<not> crashed t \<and> (\<forall>a < next_tx t.
    length (reply_sent (tx_heap t a)) \<le> 1 \<and> reply_closed (tx_heap t a) = (reply_sent (tx_heap t a) \<noteq> []) \<and>
    length (filter id [pending_in t a, a \<in> fst ` set (deliveries t), reply_sent (tx_heap t a) \<noteq> []]) = 1)"
proof -
  have inv: "tracker_inv er t" using assms by (rule tracker_inv_reachable)
  have "length (reply_sent (tx_heap t a)) \<le> 1 \<and> reply_closed (tx_heap t a) = (reply_sent (tx_heap t a) \<noteq> []) \<and>
    length (filter id [pending_in t a, a \<in> fst ` set (deliveries t), reply_sent (tx_heap t a) \<noteq> []]) = 1"
    if "a < next_tx t" for a
  proof -
    have "tx_inv er t a" using inv that by (simp add: tracker_inv_def)
    then show ?thesis by (auto simp: tx_inv_def Let_def)
  qed
  with inv show ?thesis by (auto simp: tracker_inv_def)
qed

theorem replies_exactly_once_witness:
  "\<not> crashed (expire (started 7 True 9) 0 :: (int, int, int) tracker)"
proof -
  have "tracker_reachable (\<lambda>_. Inr 0) (\<lambda>x. x) (\<lambda>_. Inr 0) (expire (started 7 True 9) 0 :: (int, int, int) tracker)"
    by (rule reachable_expire [OF reachable_started]) (simp_all add: started_def)
  from replies_exactly_once [OF this] show ?thesis by blast
qed

text \<open>C26: No transaction is resolved by the wrong packet: a routing acknowledgement or admin reply
  that reaches the channel of a transaction with an expected sender comes from that sender (the
  local radio's loopback acknowledgement is dropped), and a transaction that waits for an admin
  message is never resolved by a successful routing acknowledgement.\<close>

theorem replies_come_from_the_target:
  assumes "tracker_reachable um er ua t" "a < next_tx t" "r \<in> set (reply_sent (tx_heap t a))"
  shows "(rKind r \<in> {ReplyRoutingAck, ReplyAdminMsg} \<longrightarrow> expectedFrom (tx_heap t a) \<noteq> 0 \<longrightarrow>
            rFrom r = expectedFrom (tx_heap t a)) \<and>
         (expectsAdminReply (tx_heap t a) \<longrightarrow> \<not> Successful er r)"
proof -
  have "tx_inv er t a" using tracker_inv_reachable [OF assms(1)] assms(2) by (simp add: tracker_inv_def)
  with assms(3) have "reply_ok er (tx_heap t a) r" by (simp add: tx_inv_def Let_def)
  then show ?thesis by (simp add: reply_ok_def)
qed

theorem replies_come_from_the_target_witness:
  "map rFrom (reply_sent (tx_heap acked 0)) = [9]"
proof -
  have ack: "deliveries (HandleRoutingAck (\<lambda>_. Inr 0) (\<lambda>x. x) (started 7 False 9) 9 7 [] :: (int, int, int) tracker)
      = [(0, \<lparr>rKind = ReplyRoutingAck, rFrom = 9, rRouting = Some 0, rAdmin = None, rErr = None\<rparr>)]"
    by (simp add: HandleRoutingAck_def started_def new_tx_def claim_def NewTracker_def)
  have "tracker_reachable (\<lambda>_. Inr 0) (\<lambda>x. x) (\<lambda>_. Inr 0) acked"
    unfolding acked_def
    by (rule reachable_deliver [OF reachable_ack [OF reachable_started]]) (simp_all add: ack)
  moreover have sent: "reply_sent (tx_heap acked 0)
      = [\<lparr>rKind = ReplyRoutingAck, rFrom = 9, rRouting = Some 0, rAdmin = None, rErr = None\<rparr>]"
    by (simp add: acked_def HandleRoutingAck_def started_def new_tx_def claim_def deliver_def cancel_ctx_def NewTracker_def)
  moreover have "0 < next_tx acked" "expectedFrom (tx_heap acked 0) = 9"
    by (simp_all add: acked_def HandleRoutingAck_def started_def new_tx_def claim_def deliver_def cancel_ctx_def NewTracker_def)
  ultimately show ?thesis
    using replies_come_from_the_target [of "\<lambda>_. Inr 0" "\<lambda>x. x" "\<lambda>_. Inr 0" acked 0 "hd (reply_sent (tx_heap acked 0))"]
    by simp
qed

text \<open>C21: Every run of the tracker refines the one-shot specification: a step either changes nothing
  a caller can see, starts one new transaction, or resolves one waiting transaction; a resolved
  transaction never changes again.\<close>

theorem tracker_refines_one_shot:
  assumes "tracker_reachable um er ua t" "tracker_step um er ua t t'"
  shows "one_shot_step (tx_abs t) (tx_abs t')"
  using tracker_step_one_shot [OF assms(2) tracker_inv_reachable [OF assms(1)]] .

theorem tracker_refines_one_shot_witness:
  "one_shot_step (tx_abs (started 7 False 9 :: (int, int, int) tracker))
     (tx_abs (HandleRoutingAck (\<lambda>_. Inr 0) (\<lambda>x. x) (started 7 False 9) 9 7 [] :: (int, int, int) tracker))"
  by (rule tracker_refines_one_shot [of "\<lambda>_. Inr 0" "\<lambda>x. x" "\<lambda>_. Inr 0"])
    (rule reachable_started, simp, rule step_ack)

text \<open>A pending transaction whose deadline has passed is resolved by its own watcher: the
  watcher is still running, and its step takes the transaction out of the map and leaves the
  timeout reply, whose delivery is the one reply the caller gets.\<close>

theorem timeout_resolves:
  assumes "tracker_reachable um er ua t" "pending_in t a" "a < next_tx t"
    "tx_ctx (tx_heap t a) = DeadlineExceeded"
  defines "w \<equiv> watcher t a"
  shows "tracker_step um er ua t w \<and> \<not> pending_in w a \<and> tracker_step um er ua w (deliver w (length (deliveries t))) \<and>
    reply_sent (tx_heap (deliver w (length (deliveries t))) a) =
      [\<lparr>rKind = ReplyTimeout, rFrom = 0, rRouting = None, rAdmin = None, rErr = Some TransactionTimeout\<rparr>]"
proof -
  have "tx_inv er t a" using tracker_inv_reachable [OF assms(1)] assms(3) by (simp add: tracker_inv_def)
  with assms(2) have tx: "watching (tx_heap t a)" "reply_sent (tx_heap t a) = []" "\<not> reply_closed (tx_heap t a)"
    by (simp_all add: tx_inv_def Let_def)
  have look: "transactions t (tx_id (tx_heap t a)) = Some a" using assms(2) by (simp add: pending_in_def)
  have w: "w = claim (t\<lparr>tx_heap := (tx_heap t)(a := (tx_heap t a)\<lparr>watching := False\<rparr>)\<rparr>) (tx_id (tx_heap t a)) a
      \<lparr>rKind = ReplyTimeout, rFrom = 0, rRouting = None, rAdmin = None, rErr = Some TransactionTimeout\<rparr>"
    unfolding w_def watcher_def using look assms(4) by (simp add: watcher_reply_def Let_def)
  have "tracker_step um er ua t w"
    unfolding w_def using assms(3,4) tx(1) by (intro step_watcher) simp_all
  moreover have "\<not> pending_in w a" by (simp add: w pending_in_def claim_def cancel_ctx_def)
  moreover have dl: "deliveries w = deliveries t @ [(a, \<lparr>rKind = ReplyTimeout, rFrom = 0, rRouting = None,
      rAdmin = None, rErr = Some TransactionTimeout\<rparr>)]" by (simp add: w claim_def)
  then have "tracker_step um er ua w (deliver w (length (deliveries t)))"
    by (intro step_deliver) simp
  moreover have "reply_sent (tx_heap w a) = []" "\<not> reply_closed (tx_heap w a)"
    using tx unfolding w claim_heap by simp_all
  then have "reply_sent (tx_heap (deliver w (length (deliveries t))) a) =
      [\<lparr>rKind = ReplyTimeout, rFrom = 0, rRouting = None, rAdmin = None, rErr = Some TransactionTimeout\<rparr>]"
    by (rule deliver_last [OF dl])
  ultimately show ?thesis by blast
qed

text \<open>\<open>Begin\<close> refuses packet id 0 and an id that is already pending, without touching the
  pending transaction; any other id is registered with its own object, channel and watcher, and
  all other pending transactions stay.\<close>

theorem Begin_cases:
  "Begin t 0 kind expects frm = Inl ZeroTransactionId \<and>
   (pid \<noteq> 0 \<and> transactions t pid \<noteq> None \<longrightarrow> Begin t pid kind expects frm = Inl DuplicateTransactionId) \<and>
   (pid \<noteq> 0 \<and> transactions t pid = None \<longrightarrow>
      (\<exists>t'. Begin t pid kind expects frm = Inr (next_tx t, t') \<and> pending_in t' (next_tx t) \<and>
            watching (tx_heap t' (next_tx t)) \<and> reply_sent (tx_heap t' (next_tx t)) = [] \<and>
            (\<forall>q. q \<noteq> pid \<longrightarrow> transactions t' q = transactions t q)))"
  by (auto simp: Begin_def pending_in_def new_tx_def Let_def)

text \<open>Watchers identify their transaction by packet id only. When an id is used again after
  its first transaction was acknowledged, the first transaction's watcher, woken by its own
  cancellation, can take the second one out of the map: the second caller is told that its
  transaction was cancelled, with a nil error, although nobody cancelled it and its time is
  not up.\<close>

theorem reused_id_is_cancelled:
  "pid \<noteq> 0 \<Longrightarrow> \<exists>t :: ('r, 'a, 'e) tracker. tracker_reachable um er ua t \<and> next_tx t = 2 \<and>
     tx_id (tx_heap t 0) = pid \<and> tx_id (tx_heap t 1) = pid \<and> \<not> parent_err (tx_heap t 1) \<and>
     map rKind (reply_sent (tx_heap t 1)) = [ReplyCancelled] \<and> map rErr (reply_sent (tx_heap t 1)) = [None]"
proof -
  assume pid: "pid \<noteq> 0"
  define t1 :: "('r, 'a, 'e) tracker" where "t1 = HandleRoutingAck um er (started pid False 0) 1 pid []"
  define t2 where "t2 = deliver t1 0"
  note defs = started_def new_tx_def NewTracker_def claim_def deliver_def cancel_ctx_def
  have r1: "tracker_reachable um er ua t1"
    unfolding t1_def by (rule reachable_ack [OF reachable_started [OF pid]])
  have "length (deliveries t1) = 1" "transactions t1 = Map.empty" "next_tx t1 = 1"
    using pid by (simp_all add: t1_def HandleRoutingAck_def defs Let_def)
  then have r2: "tracker_reachable um er ua t2"
    unfolding t2_def by (intro reachable_deliver [OF r1]) simp
  have h2: "transactions t2 = Map.empty" "next_tx t2 = 1" "deliveries t2 = []" "tx_id (tx_heap t2 0) = pid"
    "watching (tx_heap t2 0)" "tx_ctx (tx_heap t2 0) = Canceled" "\<not> parent_err (tx_heap t2 0)"
    using pid by (simp_all add: t2_def t1_def HandleRoutingAck_def defs Let_def)
  define t3 where "t3 = t2\<lparr>transactions := [pid \<mapsto> 1], tx_heap := (tx_heap t2)(1 := new_tx pid [] False 0), next_tx := 2\<rparr>"
  have "Begin t2 pid [] False 0 = Inr (1, t3)"
    using pid by (simp add: Begin_def h2 t3_def numeral_2_eq_2)
  then have r3: "tracker_reachable um er ua t3" by (rule reachable_begin [OF r2])
  define t4 where "t4 = watcher t3 0"
  have r4: "tracker_reachable um er ua t4"
    unfolding t4_def by (rule reachable_watcher [OF r3]) (simp_all add: t3_def h2)
  let ?r = "\<lparr>rKind = ReplyCancelled, rFrom = 0, rRouting = None, rAdmin = None, rErr = None\<rparr>"
  have t4: "t4 = claim (t3\<lparr>tx_heap := (tx_heap t3)(0 := (tx_heap t3 0)\<lparr>watching := False\<rparr>)\<rparr>) pid 1 ?r"
    by (simp add: t4_def watcher_def watcher_reply_def t3_def h2 Let_def)
  then have h4: "deliveries t4 = [] @ [(1, ?r)]" "reply_sent (tx_heap t4 1) = []" "\<not> reply_closed (tx_heap t4 1)"
    "tx_id (tx_heap t4 0) = pid" "tx_id (tx_heap t4 1) = pid" "\<not> parent_err (tx_heap t4 1)" "next_tx t4 = 2"
    by (simp_all add: claim_heap) (simp_all add: t3_def h2 claim_def cancel_ctx_def new_tx_def)
  have "tracker_reachable um er ua (deliver t4 0)"
    by (rule reachable_deliver [OF r4]) (simp add: h4)
  moreover have "reply_sent (tx_heap (deliver t4 0) 1) = [?r]"
    using deliver_last [OF h4(1-3)] by simp
  ultimately have "tracker_reachable um er ua (deliver t4 0) \<and> next_tx (deliver t4 0) = 2 \<and>
     tx_id (tx_heap (deliver t4 0) 0) = pid \<and> tx_id (tx_heap (deliver t4 0) 1) = pid \<and>
     \<not> parent_err (tx_heap (deliver t4 0) 1) \<and>
     map rKind (reply_sent (tx_heap (deliver t4 0) 1)) = [ReplyCancelled] \<and>
     map rErr (reply_sent (tx_heap (deliver t4 0) 1)) = [None]"
    unfolding deliver_heap using h4 by simp
  then show ?thesis by (rule exI)
qed

end
