(* ===== verification/FleetTypes.thy ===== *)
theory FleetTypes
  imports FleetKeys Tracker "HOL-Library.State_Monad"
begin

text \<open>
  The data of the fleet-security service (\<open>internal/fleetsec/types.go\<close>, \<open>jobs/jobs.go\<close>), the tables of
  its database as lists of rows, and the monad in which its operations run. An operation is a
  state transformer over \<open>world\<close> whose value is an error or a result, as a Go function returns
  \<open>(value, error)\<close>.

  What lies outside the program is the argument \<open>env\<close>: the outcome of every database statement,
  the clock, the answers of the radios, the end of a context during a wait, the choice among rows
  a query leaves open. They are
  functions of the number \<open>ticks\<close> of interactions so far, so that every behaviour of the
  environment is covered. UUIDs are numbers the database hands out, never twice.
\<close>

section \<open>Types\<close>

datatype IdentityRole = IdentityRolePrimary | IdentityRoleRescue | IdentityRoleOperator | IdentityRoleRevoked
datatype IdentitySource = IdentitySourceAutoGenerated | IdentitySourceImported | IdentitySourceRotated

record IdentityRecord =
  iID :: nat
  iLabel :: string
  iPublicKey :: "byte list"
  iFingerprint :: string
  iRole :: IdentityRole
  iSource :: IdentitySource
  iCreatedAt :: int
  iRevokedAt :: "int option"

datatype VerifyMethod = VerifyMethodLocalUSB | VerifyMethodRemotePKC
datatype DriftStatus = DriftStatusUnknown | DriftStatusInPolicy | DriftStatusDrift | DriftStatusUnreachable

text \<open>A row of \<open>fleet_node_trust\<close>; \<open>None\<close> is SQL's \<open>NULL\<close>. The names and notes that are only displayed
  are left out.\<close>

record NodeTrustRecord =
  tNodeNum :: u32
  AdminKeyFPs :: "string list"
  IsManaged :: bool
  LastVerifiedAt :: "int option"
  LastVerifyMethod :: "VerifyMethod option"
  LastDriftCheckAt :: "int option"
  tDriftStatus :: DriftStatus
  CurrentPSKFP :: "string option"
  PreviousPSKFP :: "string option"
  StrandedSince :: "int option"
  RecoveryAttempts :: nat
  LastRecoveryAt :: "int option"
  LastRecoveryError :: "string option"

definition trust_default :: "u32 \<Rightarrow> NodeTrustRecord" where
  "trust_default n = \<lparr>tNodeNum = n, AdminKeyFPs = [], IsManaged = False, LastVerifiedAt = None, LastVerifyMethod = None,
     LastDriftCheckAt = None, tDriftStatus = DriftStatusUnknown, CurrentPSKFP = None, PreviousPSKFP = None,
     StrandedSince = None, RecoveryAttempts = 0, LastRecoveryAt = None, LastRecoveryError = None\<rparr>"

record RecoveryPSKRecord =
  Slot :: nat
  FP :: string
  rPSK :: "byte list"
  PSKHash :: byte
  AddedAt :: int
  rRotationID :: "nat option"

datatype ChannelRole = ChannelRoleUnset | ChannelRoleDisabled | ChannelRolePrimary | ChannelRoleSecondary

record ChannelRecord =
  cIndex :: int
  cName :: string
  cRole :: ChannelRole
  PSKFingerprint :: "string option"
  cPSKLength :: "nat option"
  LastRotatedAt :: "int option"
  LastRotatedBy :: "string option"
  LastRotationID :: "nat option"

datatype RotationKind = RotationKindPSK | RotationKindIdentity | RotationKindAdminKeys | RotationKindRecovery
datatype TargetStatus = TargetStatusPending | TargetStatusInFlight | TargetStatusAcked | TargetStatusFailed

text \<open>\<open>PhaseUnset\<close> is the empty string of rotations stored before phases existed.\<close>

datatype RotationPhase = PhaseUnset | PhasePending | PhasePushingB | PhaseHasNewPSK | PhasePromotingC | PhaseOnNewPSK
  | PhaseRetired | PhaseFailedB | PhaseFailedC

fun statusForPhase :: "RotationPhase \<Rightarrow> TargetStatus" where
  "statusForPhase PhasePending = TargetStatusPending"
| "statusForPhase PhaseOnNewPSK = TargetStatusAcked"
| "statusForPhase PhaseRetired = TargetStatusAcked"
| "statusForPhase PhaseFailedB = TargetStatusFailed"
| "statusForPhase PhaseFailedC = TargetStatusFailed"
| "statusForPhase _ = TargetStatusInFlight"

fun phaseForLegacyStatus :: "TargetStatus \<Rightarrow> RotationPhase" where
  "phaseForLegacyStatus TargetStatusPending = PhasePending"
| "phaseForLegacyStatus TargetStatusInFlight = PhasePushingB"
| "phaseForLegacyStatus TargetStatusAcked = PhaseOnNewPSK"
| "phaseForLegacyStatus TargetStatusFailed = PhaseFailedB"

datatype PiLocalPhase = PiPhasePending | PiPhaseStagingAdded | PiPhasePhaseDPromoted | PiPhaseRetired

record RotationTarget =
  NodeNum :: u32
  Phase :: RotationPhase
  tgStatus :: TargetStatus
  tgAttempts :: nat
  tgLastError :: string

text \<open>A row of \<open>fleet_rotations\<close>, with the column \<open>new_psk\<close> as \<open>RawPSK\<close>.\<close>

record RotationRecord =
  rotID :: nat
  rotKind :: RotationKind
  ChannelIndex :: "int option"
  StagingChannelIndex :: "int option"
  PiPhase :: PiLocalPhase
  StartedBy :: string
  StartedAt :: int
  CompletedAt :: "int option"
  RetiredAt :: "int option"
  Targets :: "RotationTarget list"
  NewPSKFP :: string
  RawPSK :: "byte list option"

record FleetPolicy =
  ExpectedAdminKeyFPs :: "string list"
  ExpectedIsManaged :: bool

subsection \<open>Jobs\<close>

datatype Kind = KindRotatePhaseA | KindRotatePhaseB | KindRotatePhaseC | KindResetNode | KindRecoverStrand | KindScanForStrand
datatype State = StateQueued | StateInProgress | StateDone | StateFailed | StateCancelled

text \<open>The JSON payloads as the values they encode.\<close>

datatype Payload = PhaseAPayload | PhaseBPayload int int u32 | PhaseCPayload int | RecoverStrandedPayload u32 string string

record Job =
  jID :: nat
  jKind :: Kind
  jRotationID :: "nat option"
  TargetNodeNum :: "int option"
  jState :: State
  Attempts :: nat
  LastError :: "string option"
  jPayload :: Payload
  EnqueuedAt :: int
  jStartedAt :: "int option"
  jFinishedAt :: "int option"
  WorkerID :: "string option"

subsection \<open>Admin messages\<close>

text \<open>The shapes of \<open>meshpb\<close> messages that \<open>messages.go\<close> builds and the service reads.\<close>

record ChannelSettings =
  csName :: string
  csPsk :: "byte list"

record Channel =
  chIndex :: int
  chRole :: ChannelRole
  chSettings :: "ChannelSettings option"

record SecurityConfig =
  secPublicKey :: "byte list"
  secPrivateKey :: "byte list"
  secAdminKey :: "byte list list"
  secIsManaged :: bool
  secAdminChannelEnabled :: bool

datatype admin_variant = GetChannelRequest u32 | SetChannel Channel | GetConfigRequest nat | SetConfig SecurityConfig
  | BeginEditSettings | CommitEditSettings

record AdminMessage =
  PayloadVariant :: admin_variant
  SessionPasskey :: "byte list"

datatype reply_variant = GetChannelResponse Channel | GetConfigResponse "SecurityConfig option" | OtherResponse

record AdminReply =
  replyVariant :: reply_variant
  replyPasskey :: "byte list"

text \<open>\<open>pb.Routing_Error\<close>, by the names the service distinguishes.\<close>

datatype Routing_Error = Routing_NONE | Routing_NO_ROUTE | Routing_GOT_NAK | Routing_TIMEOUT | Routing_NO_INTERFACE
  | Routing_MAX_RETRANSMIT | Routing_NO_CHANNEL | Routing_TOO_LARGE | Routing_NO_RESPONSE | Routing_DUTY_CYCLE_LIMIT
  | Routing_BAD_REQUEST | Routing_NOT_AUTHORIZED | Routing_PKI_FAILED | Routing_PKI_UNKNOWN_PUBKEY
  | Routing_ADMIN_BAD_SESSION_KEY | Routing_ADMIN_PUBLIC_KEY_UNAUTHORIZED | Routing_RATE_LIMIT_EXCEEDED
  | Routing_PKI_SEND_FAIL_PUBLIC_KEY | Routing_Other string

type_synonym fleet_reply = "(Routing_Error, AdminReply, string) Reply"

section \<open>Errors\<close>

datatype fleet_error = DBErr string | ErrText string | Wrap string fleet_error | Suffix fleet_error string | ErrNotFound | ErrNoWork
  | ErrLocalNodeUnknown | ErrSerialNotReady | ErrLockoutPrevented | ErrManagedLockdownPrevented | ErrInvalidAck
  | ErrChannelHashCollision | ContextDone | KeyErr key_error

fun key_error_text :: "key_error \<Rightarrow> string" where
  "key_error_text (KeyLength n) = ''key must be 32 bytes, got '' @ show_nat n"
| "key_error_text KeyAllZero = ''key is all zero''"
| "key_error_text (PSKLength n) = ''invalid PSK length '' @ show_nat n @ '' (allowed: 0, 16, 32)''"
| "key_error_text BadBase64 = ''decode key''"
| "key_error_text KeyMismatch = ''supplied private key does not match supplied public key''"

fun Error :: "fleet_error \<Rightarrow> string" where
  "Error (DBErr s) = s"
| "Error (ErrText s) = s"
| "Error (Wrap s e) = s @ '': '' @ Error e"
| "Error (Suffix e s) = Error e @ s"
| "Error ErrNotFound = ''fleetsec: not found''"
| "Error ErrNoWork = ''jobs: no work available''"
| "Error ErrLocalNodeUnknown = ''local Heltec node number not yet known; wait for serial connection to settle''"
| "Error ErrSerialNotReady = ''serial connection to Heltec not ready''"
| "Error ErrLockoutPrevented = ''operation refused: would remove all known admin pubkeys (use force flag with explicit acknowledgement)''"
| "Error ErrManagedLockdownPrevented = ''operation refused: cannot enable is_managed without recent successful verify (use force flag with explicit acknowledgement)''"
| "Error ErrInvalidAck = ''operation requires typed acknowledgement''"
| "Error ErrChannelHashCollision = ''PSK channel hash collides with an active channel slot''"
| "Error ContextDone = ''context canceled''"
| "Error (KeyErr e) = key_error_text e"

text \<open>The format \<open>%x\<close>.\<close>

definition show_x :: "u32 \<Rightarrow> string" where
  "show_x n = (case dropWhile (\<lambda>c. c = CHR ''0'') (show_08x n) of [] \<Rightarrow> ''0'' | s \<Rightarrow> s)"

definition show_bool :: "bool \<Rightarrow> string" where
  "show_bool b = (if b then ''true'' else ''false'')"

section \<open>World and environment\<close>

datatype detail = DStr string | DInt int | DBool bool | DStrs "string list" | DNodes "u32 list"

text \<open>The stages of the recovery wizard (\<open>recovery.go\<close>).\<close>

datatype RecoveryStage = RecoveryStageInstallRescue | RecoveryStagePushFleet | RecoveryStageRestorePrimary | RecoveryStageDone
  | RecoveryStageFailed

text \<open>What the service writes outward: frames to the radio, audit rows, websocket events.\<close>

datatype fleet_event = Sent u32 AdminMessage | Audit string string string string "(string \<times> detail) list"
  | Notice nat string | Progress nat "RotationTarget list" bool
  | RecoveryProgress nat RecoveryStage "RotationTarget list" bool string

record world =
  ticks :: nat
  nodes_tab :: "u32 list"
  idents :: "IdentityRecord list"
  trust_tab :: "NodeTrustRecord list"
  channels_tab :: "ChannelRecord list"
  rotations :: "RotationRecord list"
  recovery_psks :: "RecoveryPSKRecord list"
  jobs_tab :: "Job list"
  policy :: FleetPolicy
  next_id :: nat
  sessionPasskeys :: "u32 \<rightharpoonup> byte list"
  hashFP :: "byte \<rightharpoonup> string"
  cooldown :: "u32 \<rightharpoonup> int"
  outbox :: "fleet_event list"

record env =
  db_err :: "nat \<Rightarrow> string option"
  now_at :: "nat \<Rightarrow> int"
  reply_at :: "nat \<Rightarrow> u32 \<Rightarrow> AdminMessage \<Rightarrow> fleet_reply"
  link_err :: "nat \<Rightarrow> u32 \<Rightarrow> AdminMessage \<Rightarrow> string option"
  cancel_at :: "nat \<Rightarrow> bool"
  pick :: "nat \<Rightarrow> nat"
  LocalNodeNum :: u32

type_synonym 'a fleet = "(world, 'a) state"
type_synonym 'a fallible = "(world, fleet_error + 'a) state"

abbreviation return :: "'a \<Rightarrow> 'a fleet" where "return \<equiv> State_Monad.return"
abbreviation ok :: "'a \<Rightarrow> 'a fallible" where "ok x \<equiv> return (Inr x)"
abbreviation fail :: "fleet_error \<Rightarrow> 'a fallible" where "fail e \<equiv> return (Inl e)"

text \<open>\<open>if err != nil { return err }\<close>, and the same with the error wrapped.\<close>

definition pass :: "fleet_error + 'a \<Rightarrow> ('a \<Rightarrow> 'b fallible) \<Rightarrow> 'b fallible" where
  "pass r k = (case r of Inl e \<Rightarrow> fail e | Inr x \<Rightarrow> k x)"

definition check :: "string \<Rightarrow> fleet_error + 'a \<Rightarrow> ('a \<Rightarrow> 'b fallible) \<Rightarrow> 'b fallible" where
  "check msg r k = (case r of Inl e \<Rightarrow> fail (Wrap msg e) | Inr x \<Rightarrow> k x)"

text \<open>One interaction with the environment; the argument of the statement is the number of the tick.\<close>

definition interact :: "(nat \<Rightarrow> world \<Rightarrow> 'a \<times> world) \<Rightarrow> 'a fleet" where
  "interact f = State (\<lambda>w. f (ticks w) (w\<lparr>ticks := Suc (ticks w)\<rparr>))"

definition now :: "env \<Rightarrow> int fleet" where
  "now e = interact (\<lambda>t w. (now_at e t, w))"

text \<open>A \<open>select\<close> of \<open>ctx.Done()\<close> with a timer: whether the context ended first.\<close>

definition ctx_done :: "env \<Rightarrow> bool fleet" where
  "ctx_done e = interact (\<lambda>t w. (cancel_at e t, w))"

definition emit :: "fleet_event \<Rightarrow> unit fleet" where
  "emit ev = State_Monad.update (\<lambda>w. w\<lparr>outbox := outbox w @ [ev]\<rparr>)"

text \<open>A database statement: an error that leaves the tables alone, or its effect.\<close>

definition db :: "env \<Rightarrow> (nat \<Rightarrow> world \<Rightarrow> 'a \<times> world) \<Rightarrow> 'a fallible" where
  "db e f = interact (\<lambda>t w. case db_err e t of
      Some txt \<Rightarrow> (Inl (DBErr txt), w)
    | None \<Rightarrow> (case f t w of (x, w') \<Rightarrow> (Inr x, w')))"

definition db_exec :: "env \<Rightarrow> (nat \<Rightarrow> world \<Rightarrow> world) \<Rightarrow> unit fallible" where
  "db_exec e f = db e (\<lambda>t w. ((), f t w))"

definition query :: "env \<Rightarrow> (world \<Rightarrow> 'a) \<Rightarrow> 'a fallible" where
  "query e f = db e (\<lambda>t w. (f w, w))"

text \<open>\<open>UPDATE ... WHERE\<close>.\<close>

definition update_where :: "('r \<Rightarrow> bool) \<Rightarrow> ('r \<Rightarrow> 'r) \<Rightarrow> 'r list \<Rightarrow> 'r list" where
  "update_where p f rows = map (\<lambda>r. if p r then f r else r) rows"

text \<open>\<open>INSERT ... ON CONFLICT DO UPDATE\<close> with the key test \<open>p\<close>.\<close>

definition upsert :: "('r \<Rightarrow> bool) \<Rightarrow> 'r \<Rightarrow> ('r \<Rightarrow> 'r) \<Rightarrow> 'r list \<Rightarrow> 'r list" where
  "upsert p new f rows = (if list_ex p rows then update_where p f rows else rows @ [new])"

definition coalesce :: "'a option \<Rightarrow> 'a option \<Rightarrow> 'a option" where
  "coalesce a b = (case a of Some _ \<Rightarrow> a | None \<Rightarrow> b)"

lemma run_interact [simp]: "run_state (interact f) w = f (ticks w) (w\<lparr>ticks := Suc (ticks w)\<rparr>)"
  by (simp add: interact_def)

lemma run_emit [simp]: "run_state (emit ev) w = ((), w\<lparr>outbox := outbox w @ [ev]\<rparr>)"
  by (simp add: emit_def State_Monad.update_def)

lemma run_now [simp]: "run_state (now e) w = (now_at e (ticks w), w\<lparr>ticks := Suc (ticks w)\<rparr>)"
  by (simp add: now_def)

lemma run_ctx_done [simp]: "run_state (ctx_done e) w = (cancel_at e (ticks w), w\<lparr>ticks := Suc (ticks w)\<rparr>)"
  by (simp add: ctx_done_def)

lemma pass_simps [simp]: "pass (Inl e) k = fail e" "pass (Inr x) k = k x"
  by (simp_all add: pass_def)

lemma check_simps [simp]: "check msg (Inl e) k = fail (Wrap msg e)" "check msg (Inr x) k = k x"
  by (simp_all add: check_def)

end
