(* ===== verification/FleetStore.thy ===== *)
theory FleetStore
  imports FleetTypes
begin

text \<open>
  The queries of \<open>internal/fleetsec/store.go\<close> and \<open>recovery_store.go\<close>: each method is one or more SQL
  statements over the tables of \<open>world\<close>. A statement can fail, in which case the tables stay as
  they are; constraints of the migrations (unique identities, trust rows only for known nodes)
  are checked where an insertion can violate them.
\<close>

section \<open>Statements\<close>

definition fk_violation :: fleet_error where "fk_violation = DBErr ''violates foreign key constraint''"
definition unique_violation :: fleet_error where "unique_violation = DBErr ''violates unique constraint''"

text \<open>A statement that a constraint can reject.\<close>

definition db_checked :: "env \<Rightarrow> (nat \<Rightarrow> world \<Rightarrow> (fleet_error + 'a) \<times> world) \<Rightarrow> 'a fallible" where
  "db_checked e f = interact (\<lambda>t w. case db_err e t of Some txt \<Rightarrow> (Inl (DBErr txt), w) | None \<Rightarrow> f t w)"

text \<open>A transaction: on any error everything but the passage of time is rolled back.\<close>

definition in_tx :: "'a fallible \<Rightarrow> 'a fallible" where
  "in_tx m = State (\<lambda>w. case run_state m w of
      (Inl err, w') \<Rightarrow> (Inl err, w\<lparr>ticks := ticks w'\<rparr>) | (Inr x, w') \<Rightarrow> (Inr x, w'))"

definition begin_tx :: "env \<Rightarrow> int fallible" where "begin_tx e = db e (\<lambda>t w. (now_at e t, w))"
definition commit_tx :: "env \<Rightarrow> unit fallible" where "commit_tx e = db_exec e (\<lambda>t w. w)"

text \<open>\<open>ORDER BY key LIMIT 1\<close>; \<open>i\<close> decides among rows with the least key.\<close>

definition oldest :: "nat \<Rightarrow> ('r \<Rightarrow> int) \<Rightarrow> 'r list \<Rightarrow> 'r option" where
  "oldest i key rows = (if rows = [] then None
     else let c = filter (\<lambda>r. list_all (\<lambda>r'. key r \<le> key r') rows) rows in Some (c ! (i mod length c)))"

definition unnull :: "string option \<Rightarrow> string" where
  "unnull c = (case c of None \<Rightarrow> [] | Some s \<Rightarrow> s)"

definition nullif :: "string \<Rightarrow> string option" where
  "nullif s = (if s = [] then None else Some s)"

section \<open>Identities\<close>

definition ListIdentities :: "env \<Rightarrow> IdentityRecord list fallible" where
  "ListIdentities e = query e (\<lambda>w.
     sort_key (\<lambda>r. - iCreatedAt r) (filter (\<lambda>r. iRevokedAt r = None) (idents w)) @
     sort_key (\<lambda>r. - iCreatedAt r) (filter (\<lambda>r. iRevokedAt r \<noteq> None) (idents w)))"

definition GetIdentityByFingerprint :: "env \<Rightarrow> string \<Rightarrow> IdentityRecord fallible" where
  "GetIdentityByFingerprint e fp = do {
     r \<leftarrow> query e (\<lambda>w. find (\<lambda>r. iFingerprint r = fp) (idents w));
     check ''get identity by fingerprint'' r (\<lambda>found. case found of None \<Rightarrow> fail ErrNotFound | Some rec \<Rightarrow> ok rec) }"

definition InsertIdentity :: "env \<Rightarrow> string \<Rightarrow> byte list \<Rightarrow> string \<Rightarrow> IdentityRole \<Rightarrow> IdentitySource \<Rightarrow> nat fallible" where
  "InsertIdentity e label pub fp role source = do {
     r \<leftarrow> db_checked e (\<lambda>t w.
       if list_ex (\<lambda>r. iLabel r = label \<or> iPublicKey r = pub \<or> iFingerprint r = fp) (idents w) then (Inl unique_violation, w)
       else (Inr (next_id w), w\<lparr>next_id := Suc (next_id w), idents := idents w @
         [\<lparr>iID = next_id w, iLabel = label, iPublicKey = pub, iFingerprint = fp, iRole = role, iSource = source,
           iCreatedAt = now_at e t, iRevokedAt = None\<rparr>]\<rparr>));
     check ''insert identity'' r ok }"

definition RevokeIdentity :: "env \<Rightarrow> string \<Rightarrow> unit fallible" where
  "RevokeIdentity e fp = do {
     r \<leftarrow> db e (\<lambda>t w. (length (filter (\<lambda>r. iFingerprint r = fp) (idents w)),
       w\<lparr>idents := update_where (\<lambda>r. iFingerprint r = fp)
            (\<lambda>r. r\<lparr>iRole := IdentityRoleRevoked, iRevokedAt := Some (now_at e t)\<rparr>) (idents w)\<rparr>));
     check ''revoke identity'' r (\<lambda>n. if n = 0 then fail ErrNotFound else ok ()) }"

section \<open>Trust roster\<close>

definition trust_row :: "world \<Rightarrow> u32 \<Rightarrow> NodeTrustRecord option" where
  "trust_row w n = find (\<lambda>r. tNodeNum r = n) (trust_tab w)"

text \<open>The left join of \<open>nodes\<close> with \<open>fleet_node_trust\<close>.\<close>

definition joined :: "world \<Rightarrow> u32 \<Rightarrow> NodeTrustRecord" where
  "joined w n = (case trust_row w n of None \<Rightarrow> trust_default n | Some r \<Rightarrow> r)"

definition ListNodeTrust :: "env \<Rightarrow> NodeTrustRecord list fallible" where
  "ListNodeTrust e = do { r \<leftarrow> query e (\<lambda>w. map (joined w) (nodes_tab w)); check ''list node trust'' r ok }"

definition GetNodeTrust :: "env \<Rightarrow> u32 \<Rightarrow> NodeTrustRecord fallible" where
  "GetNodeTrust e n = do {
     r \<leftarrow> query e (\<lambda>w. if n \<in> set (nodes_tab w) then Some (joined w n) else None);
     check ''get node trust'' r (\<lambda>found. case found of None \<Rightarrow> fail ErrNotFound | Some rec \<Rightarrow> ok rec) }"

text \<open>An upsert into \<open>fleet_node_trust\<close>, whose key must be a known node.\<close>

definition upsert_trust :: "env \<Rightarrow> u32 \<Rightarrow> (nat \<Rightarrow> NodeTrustRecord) \<Rightarrow> (nat \<Rightarrow> NodeTrustRecord \<Rightarrow> NodeTrustRecord) \<Rightarrow> unit fallible" where
  "upsert_trust e n new f = db_checked e (\<lambda>t w.
     if n \<notin> set (nodes_tab w) \<and> trust_row w n = None then (Inl fk_violation, w)
     else (Inr (), w\<lparr>trust_tab := upsert (\<lambda>r. tNodeNum r = n) (new t) (f t) (trust_tab w)\<rparr>))"

definition update_trust :: "env \<Rightarrow> u32 \<Rightarrow> (nat \<Rightarrow> NodeTrustRecord \<Rightarrow> NodeTrustRecord) \<Rightarrow> unit fallible" where
  "update_trust e n f = db_exec e (\<lambda>t w. w\<lparr>trust_tab := update_where (\<lambda>r. tNodeNum r = n) (f t) (trust_tab w)\<rparr>)"

definition UpsertNodeTrust :: "env \<Rightarrow> NodeTrustRecord \<Rightarrow> unit fallible" where
  "UpsertNodeTrust e r = do {
     x \<leftarrow> upsert_trust e (tNodeNum r)
       (\<lambda>t. (trust_default (tNodeNum r))\<lparr>AdminKeyFPs := AdminKeyFPs r, IsManaged := IsManaged r, LastVerifiedAt := LastVerifiedAt r,
          LastVerifyMethod := LastVerifyMethod r, LastDriftCheckAt := LastDriftCheckAt r, tDriftStatus := tDriftStatus r\<rparr>)
       (\<lambda>t old. old\<lparr>AdminKeyFPs := AdminKeyFPs r, IsManaged := IsManaged r,
          LastVerifiedAt := coalesce (LastVerifiedAt r) (LastVerifiedAt old),
          LastVerifyMethod := coalesce (LastVerifyMethod r) (LastVerifyMethod old),
          LastDriftCheckAt := coalesce (LastDriftCheckAt r) (LastDriftCheckAt old), tDriftStatus := tDriftStatus r\<rparr>);
     check ''upsert node trust'' x ok }"

definition MarkNodeUnreachable :: "env \<Rightarrow> u32 \<Rightarrow> int \<Rightarrow> unit fallible" where
  "MarkNodeUnreachable e n at = do {
     x \<leftarrow> upsert_trust e n
       (\<lambda>t. (trust_default n)\<lparr>LastDriftCheckAt := Some at, tDriftStatus := DriftStatusUnreachable\<rparr>)
       (\<lambda>t old. old\<lparr>LastDriftCheckAt := Some at, tDriftStatus := DriftStatusUnreachable\<rparr>);
     check ''mark node unreachable'' x ok }"

definition MarkTrustVerifiedNow :: "env \<Rightarrow> u32 \<Rightarrow> VerifyMethod \<Rightarrow> unit fallible" where
  "MarkTrustVerifiedNow e n m = do {
     x \<leftarrow> update_trust e n (\<lambda>t r. r\<lparr>LastVerifiedAt := Some (now_at e t), LastVerifyMethod := Some m, LastDriftCheckAt := Some (now_at e t)\<rparr>);
     check ''mark trust verified'' x ok }"

definition SetNodeCurrentPSKFP :: "env \<Rightarrow> u32 \<Rightarrow> string \<Rightarrow> unit fallible" where
  "SetNodeCurrentPSKFP e n fp = (if fp = [] then ok () else do {
     x \<leftarrow> update_trust e n (\<lambda>t r. r\<lparr>CurrentPSKFP := Some fp\<rparr>);
     check ''set node current_psk_fp'' x ok })"

definition laggard :: "string \<Rightarrow> NodeTrustRecord \<Rightarrow> bool" where
  "laggard fp r \<longleftrightarrow> AdminKeyFPs r \<noteq> [] \<and> CurrentPSKFP r \<noteq> Some fp"

definition AllManagedNodesOnPSK :: "env \<Rightarrow> string \<Rightarrow> (bool \<times> u32 list) fallible" where
  "AllManagedNodesOnPSK e fp = do {
     r \<leftarrow> query e (\<lambda>w. map tNodeNum (filter (laggard fp) (trust_tab w)));
     check ''scan laggards'' r (\<lambda>ls. ok (ls = [], ls)) }"

section \<open>Channels\<close>

definition ListChannels :: "env \<Rightarrow> ChannelRecord list fallible" where
  "ListChannels e = do { r \<leftarrow> query e (\<lambda>w. sort_key cIndex (channels_tab w)); check ''list channels'' r ok }"

definition UpsertChannel :: "env \<Rightarrow> ChannelRecord \<Rightarrow> unit fallible" where
  "UpsertChannel e r = do {
     x \<leftarrow> db_exec e (\<lambda>t w. w\<lparr>channels_tab := upsert (\<lambda>c. cIndex c = cIndex r) r
       (\<lambda>old. old\<lparr>cName := cName r, cRole := cRole r, PSKFingerprint := coalesce (PSKFingerprint r) (PSKFingerprint old),
          cPSKLength := coalesce (cPSKLength r) (cPSKLength old), LastRotatedAt := coalesce (LastRotatedAt r) (LastRotatedAt old),
          LastRotatedBy := coalesce (LastRotatedBy r) (LastRotatedBy old),
          LastRotationID := coalesce (LastRotationID r) (LastRotationID old)\<rparr>) (channels_tab w)\<rparr>);
     check ''upsert channel'' x ok }"

section \<open>Rotations\<close>

definition rotation :: "world \<Rightarrow> nat \<Rightarrow> RotationRecord option" where
  "rotation w i = find (\<lambda>r. rotID r = i) (rotations w)"

definition InsertRotation :: "env \<Rightarrow> RotationKind \<Rightarrow> int option \<Rightarrow> string \<Rightarrow> RotationTarget list \<Rightarrow> string \<Rightarrow> byte list option \<Rightarrow> nat fallible" where
  "InsertRotation e kind chan startedBy targets fp rawPSK = do {
     r \<leftarrow> db e (\<lambda>t w. (next_id w, w\<lparr>next_id := Suc (next_id w), rotations := rotations w @
       [\<lparr>rotID = next_id w, rotKind = kind, ChannelIndex = chan, StagingChannelIndex = None, PiPhase = PiPhasePending,
         StartedBy = startedBy, StartedAt = now_at e t, CompletedAt = None, RetiredAt = None, Targets = targets,
         NewPSKFP = fp, RawPSK = rawPSK\<rparr>]\<rparr>));
     check ''insert rotation'' r ok }"

definition update_rotation :: "env \<Rightarrow> nat \<Rightarrow> (nat \<Rightarrow> RotationRecord \<Rightarrow> RotationRecord) \<Rightarrow> unit fallible" where
  "update_rotation e i f = db_exec e (\<lambda>t w. w\<lparr>rotations := update_where (\<lambda>r. rotID r = i) (f t) (rotations w)\<rparr>)"

text \<open>The stored key, empty for \<open>NULL\<close>.\<close>

definition GetRotationPSK :: "env \<Rightarrow> nat \<Rightarrow> byte list fallible" where
  "GetRotationPSK e i = do {
     r \<leftarrow> query e (\<lambda>w. rotation w i);
     check ''get rotation psk'' r (\<lambda>found. case found of None \<Rightarrow> fail ErrNotFound
       | Some rec \<Rightarrow> ok (case RawPSK rec of None \<Rightarrow> [] | Some k \<Rightarrow> k)) }"

definition backfill :: "RotationTarget \<Rightarrow> RotationTarget" where
  "backfill t = (if Phase t = PhaseUnset then t\<lparr>Phase := phaseForLegacyStatus (tgStatus t)\<rparr> else t)"

definition GetRotation :: "env \<Rightarrow> nat \<Rightarrow> RotationRecord fallible" where
  "GetRotation e i = do {
     r \<leftarrow> query e (\<lambda>w. rotation w i);
     check ''get rotation'' r (\<lambda>found. case found of None \<Rightarrow> fail ErrNotFound
       | Some rec \<Rightarrow> ok (rec\<lparr>Targets := map backfill (Targets rec)\<rparr>)) }"

definition UpdateRotationTargets :: "env \<Rightarrow> nat \<Rightarrow> RotationTarget list \<Rightarrow> int option \<Rightarrow> unit fallible" where
  "UpdateRotationTargets e i targets completedAt = do {
     x \<leftarrow> update_rotation e i (\<lambda>t r. r\<lparr>Targets := targets, CompletedAt := coalesce completedAt (CompletedAt r)\<rparr>);
     check ''update rotation targets'' x ok }"

text \<open>The loops over the targets change the first one with the node number.\<close>

fun update_first :: "('a \<Rightarrow> bool) \<Rightarrow> ('a \<Rightarrow> 'a) \<Rightarrow> 'a list \<Rightarrow> 'a list option" where
  "update_first p f [] = None"
| "update_first p f (x # xs) = (if p x then Some (f x # xs) else map_option (Cons x) (update_first p f xs))"

definition set_phase :: "RotationPhase \<Rightarrow> string \<Rightarrow> RotationTarget \<Rightarrow> RotationTarget" where
  "set_phase ph err t = t\<lparr>Phase := ph, tgStatus := statusForPhase ph, tgLastError := err\<rparr>"

definition not_in_rotation :: "u32 \<Rightarrow> nat \<Rightarrow> fleet_error" where
  "not_in_rotation n i = ErrText (''target node_num '' @ show_nat (unat n) @ '' not in rotation '' @ show_nat i)"

definition UpdateTargetPhase :: "env \<Rightarrow> nat \<Rightarrow> u32 \<Rightarrow> RotationPhase \<Rightarrow> string \<Rightarrow> unit fallible" where
  "UpdateTargetPhase e i n ph err = do {
     r \<leftarrow> GetRotation e i;
     pass r (\<lambda>rec. case update_first (\<lambda>t. NodeNum t = n) (set_phase ph err) (Targets rec) of
       None \<Rightarrow> fail (not_in_rotation n i)
     | Some ts \<Rightarrow> UpdateRotationTargets e i ts None) }"

definition IncrementTargetAttempts :: "env \<Rightarrow> nat \<Rightarrow> u32 \<Rightarrow> unit fallible" where
  "IncrementTargetAttempts e i n = do {
     r \<leftarrow> GetRotation e i;
     pass r (\<lambda>rec. case update_first (\<lambda>t. NodeNum t = n) (\<lambda>t. t\<lparr>tgAttempts := Suc (tgAttempts t)\<rparr>) (Targets rec) of
       None \<Rightarrow> fail (not_in_rotation n i)
     | Some ts \<Rightarrow> UpdateRotationTargets e i ts None) }"

definition UpsertPiLocalPhase :: "env \<Rightarrow> nat \<Rightarrow> PiLocalPhase \<Rightarrow> unit fallible" where
  "UpsertPiLocalPhase e i ph = do { x \<leftarrow> update_rotation e i (\<lambda>t r. r\<lparr>PiPhase := ph\<rparr>); check ''upsert pi_local_phase'' x ok }"

definition SetStagingChannelIndex :: "env \<Rightarrow> nat \<Rightarrow> int \<Rightarrow> unit fallible" where
  "SetStagingChannelIndex e i idx = do {
     x \<leftarrow> update_rotation e i (\<lambda>t r. r\<lparr>StagingChannelIndex := Some idx\<rparr>); check ''set staging_channel_index'' x ok }"

definition MarkRotationRetired :: "env \<Rightarrow> nat \<Rightarrow> unit fallible" where
  "MarkRotationRetired e i = do {
     x \<leftarrow> update_rotation e i (\<lambda>t r. r\<lparr>RetiredAt := Some (now_at e t), PiPhase := PiPhaseRetired\<rparr>);
     check ''mark rotation retired'' x ok }"

definition ClearRotationPSK :: "env \<Rightarrow> nat \<Rightarrow> unit fallible" where
  "ClearRotationPSK e i = do { x \<leftarrow> update_rotation e i (\<lambda>t r. r\<lparr>RawPSK := None\<rparr>); check ''clear rotation psk'' x ok }"

section \<open>Policy\<close>

definition GetPolicy :: "env \<Rightarrow> FleetPolicy fallible" where
  "GetPolicy e = do { r \<leftarrow> query e policy; check ''get policy'' r ok }"

definition UpdatePolicy :: "env \<Rightarrow> FleetPolicy \<Rightarrow> unit fallible" where
  "UpdatePolicy e p = do { r \<leftarrow> db_exec e (\<lambda>t w. w\<lparr>policy := p\<rparr>); check ''update policy'' r ok }"

section \<open>Recovery cache\<close>

definition free_slot :: "RecoveryPSKRecord list \<Rightarrow> nat option" where
  "free_slot rows = find (\<lambda>i. i \<notin> set (map Slot rows)) [2..<8]"

definition AddRecoveryPSK :: "env \<Rightarrow> string \<Rightarrow> byte list \<Rightarrow> byte \<Rightarrow> nat option \<Rightarrow> nat fallible" where
  "AddRecoveryPSK e fp psk hash rotationID =
     (if psk = [] then fail (ErrText ''recovery psk must be non-empty'')
      else if fp = [] then fail (ErrText ''recovery fp must be non-empty'')
      else in_tx (do {
        b \<leftarrow> begin_tx e;
        check ''begin tx'' b (\<lambda>start. do {
          ex \<leftarrow> query e (\<lambda>w. find (\<lambda>r. FP r = fp) (recovery_psks w));
          check ''check existing fp'' ex (\<lambda>existing. case existing of
            Some row \<Rightarrow> do {
              u \<leftarrow> db_exec e (\<lambda>t w. w\<lparr>recovery_psks := update_where (\<lambda>r. FP r = fp)
                (\<lambda>r. r\<lparr>AddedAt := start, rRotationID := rotationID\<rparr>) (recovery_psks w)\<rparr>);
              check ''refresh existing recovery psk'' u (\<lambda>_. do {
                c \<leftarrow> commit_tx e; check ''commit refresh'' c (\<lambda>_. ok (Slot row)) }) }
          | None \<Rightarrow> do {
              q \<leftarrow> query e (\<lambda>w. free_slot (recovery_psks w));
              check ''scan used slots'' q (\<lambda>free. do {
                s \<leftarrow> (case free of
                    Some i \<Rightarrow> ok i
                  | None \<Rightarrow> do {
                      v \<leftarrow> db e (\<lambda>t w. (oldest (pick e t) AddedAt (recovery_psks w), w));
                      check ''pick eviction slot'' v (\<lambda>found. case found of
                        None \<Rightarrow> fail (Wrap ''pick eviction slot'' (DBErr ''no rows in result set''))
                      | Some row \<Rightarrow> do {
                          d \<leftarrow> db_exec e (\<lambda>t w. w\<lparr>recovery_psks := filter (\<lambda>r. Slot r \<noteq> Slot row) (recovery_psks w)\<rparr>);
                          check ''evict oldest'' d (\<lambda>_. ok (Slot row)) }) });
                pass s (\<lambda>slot. do {
                  ins \<leftarrow> db_exec e (\<lambda>t w. w\<lparr>recovery_psks := recovery_psks w @
                    [\<lparr>Slot = slot, FP = fp, rPSK = psk, PSKHash = hash, AddedAt = start, rRotationID = rotationID\<rparr>]\<rparr>);
                  check ''insert recovery psk'' ins (\<lambda>_. do {
                    c \<leftarrow> commit_tx e; check ''commit insert'' c (\<lambda>_. ok slot) }) }) }) }) }) }))"

definition ListRecoveryPSKs :: "env \<Rightarrow> RecoveryPSKRecord list fallible" where
  "ListRecoveryPSKs e = do { r \<leftarrow> query e (\<lambda>w. sort_key Slot (recovery_psks w)); check ''list recovery psks'' r ok }"

definition GetRecoveryPSKByFP :: "env \<Rightarrow> string \<Rightarrow> RecoveryPSKRecord fallible" where
  "GetRecoveryPSKByFP e fp = do {
     r \<leftarrow> query e (\<lambda>w. find (\<lambda>r. FP r = fp) (recovery_psks w));
     check ''get recovery psk'' r (\<lambda>found. case found of None \<Rightarrow> fail ErrNotFound | Some row \<Rightarrow> ok row) }"

definition DeleteRecoveryPSKBySlot :: "env \<Rightarrow> nat \<Rightarrow> unit fallible" where
  "DeleteRecoveryPSKBySlot e slot = do {
     r \<leftarrow> db_exec e (\<lambda>t w. w\<lparr>recovery_psks := filter (\<lambda>r. Slot r \<noteq> slot) (recovery_psks w)\<rparr>);
     check ''delete recovery psk'' r ok }"

section \<open>Stranded nodes\<close>

definition MarkStranded :: "env \<Rightarrow> u32 \<Rightarrow> string \<Rightarrow> unit fallible" where
  "MarkStranded e n prev = do {
     x \<leftarrow> upsert_trust e n
       (\<lambda>t. (trust_default n)\<lparr>StrandedSince := Some (now_at e t), PreviousPSKFP := Some prev\<rparr>)
       (\<lambda>t r. r\<lparr>StrandedSince := coalesce (StrandedSince r) (Some (now_at e t)), PreviousPSKFP := Some prev,
          RecoveryAttempts := 0, LastRecoveryError := None\<rparr>);
     check ''mark stranded'' x ok }"

definition ClearStranded :: "env \<Rightarrow> u32 \<Rightarrow> unit fallible" where
  "ClearStranded e n = do {
     x \<leftarrow> update_trust e n (\<lambda>t r. r\<lparr>StrandedSince := None, RecoveryAttempts := 0, LastRecoveryAt := Some (now_at e t),
       LastRecoveryError := None\<rparr>);
     check ''clear stranded'' x ok }"

definition IncrementRecoveryAttempt :: "env \<Rightarrow> u32 \<Rightarrow> string \<Rightarrow> unit fallible" where
  "IncrementRecoveryAttempt e n err = do {
     x \<leftarrow> update_trust e n (\<lambda>t r. r\<lparr>RecoveryAttempts := Suc (RecoveryAttempts r), LastRecoveryAt := Some (now_at e t),
       LastRecoveryError := nullif err\<rparr>);
     check ''increment recovery attempt'' x ok }"

definition ListStranded :: "env \<Rightarrow> NodeTrustRecord list fallible" where
  "ListStranded e = do {
     r \<leftarrow> query e (\<lambda>w. sort_key (\<lambda>r. the (StrandedSince r))
       (filter (\<lambda>r. StrandedSince r \<noteq> None \<and> tNodeNum r \<in> set (nodes_tab w)) (trust_tab w)));
     check ''list stranded'' r ok }"

definition CountStrandedReferencingFP :: "env \<Rightarrow> string \<Rightarrow> nat fallible" where
  "CountStrandedReferencingFP e fp = do {
     r \<leftarrow> query e (\<lambda>w. length (filter (\<lambda>r. PreviousPSKFP r = Some fp \<and> StrandedSince r \<noteq> None) (trust_tab w)));
     check ''count stranded references'' r ok }"

definition GCStrandedOlderThan :: "env \<Rightarrow> int \<Rightarrow> string \<Rightarrow> nat fallible" where
  "GCStrandedOlderThan e threshold threshold_text = do {
     t \<leftarrow> now e;
     let old = (\<lambda>r. case StrandedSince r of None \<Rightarrow> False | Some s \<Rightarrow> s < t - threshold);
     x \<leftarrow> db e (\<lambda>_ w. (length (filter old (trust_tab w)),
       w\<lparr>trust_tab := update_where old (\<lambda>r. r\<lparr>PreviousPSKFP := None, StrandedSince := None, RecoveryAttempts := 0,
           LastRecoveryError := Some (''gc: stranded > '' @ threshold_text)\<rparr>) (trust_tab w)\<rparr>));
     check ''gc stranded'' x ok }"

end
