(* ===== verification/FleetJobs.thy ===== *)
theory FleetJobs
  imports FleetStore
begin

text \<open>
  The durable job queue of \<open>internal/fleetsec/jobs/jobs.go\<close>: the table \<open>fleet_jobs\<close> with its
  operations, and the polling worker \<open>Loop\<close>. One worker runs at a time, so the row locks of
  \<open>LeaseNext\<close> never skip anything. Times are in nanoseconds.
\<close>

section \<open>The table\<close>

definition Enqueue_job :: "env \<Rightarrow> Kind \<Rightarrow> nat option \<Rightarrow> int option \<Rightarrow> Payload \<Rightarrow> nat fallible" where
  "Enqueue_job e kind rot target payload = do {
     r \<leftarrow> db e (\<lambda>t w. (next_id w, w\<lparr>next_id := Suc (next_id w), jobs_tab := jobs_tab w @
       [\<lparr>jID = next_id w, jKind = kind, jRotationID = rot, TargetNodeNum = target, jState = StateQueued, Attempts = 0,
         LastError = None, jPayload = payload, EnqueuedAt = now_at e t, jStartedAt = None, jFinishedAt = None,
         WorkerID = None\<rparr>]\<rparr>));
     check ''enqueue job'' r ok }"

definition update_job :: "nat \<Rightarrow> (Job \<Rightarrow> Job) \<Rightarrow> world \<Rightarrow> world" where
  "update_job i f w = w\<lparr>jobs_tab := update_where (\<lambda>j. jID j = i) f (jobs_tab w)\<rparr>"

definition queued :: "world \<Rightarrow> Job list" where
  "queued w = filter (\<lambda>j. jState j = StateQueued) (jobs_tab w)"

definition lease :: "string \<Rightarrow> int \<Rightarrow> Job \<Rightarrow> Job" where
  "lease worker t j = j\<lparr>jState := StateInProgress, Attempts := Suc (Attempts j), jStartedAt := Some t, WorkerID := Some worker\<rparr>"

definition LeaseNext :: "env \<Rightarrow> string \<Rightarrow> Job fallible" where
  "LeaseNext e worker = in_tx (do {
     b \<leftarrow> begin_tx e;
     check ''begin tx'' b (\<lambda>_. do {
       r \<leftarrow> db e (\<lambda>t w. (oldest (pick e t) EnqueuedAt (queued w), w));
       check ''scan candidate'' r (\<lambda>found. case found of
         None \<Rightarrow> fail ErrNoWork
       | Some j \<Rightarrow> do {
           t \<leftarrow> now e;
           u \<leftarrow> db_exec e (\<lambda>_. update_job (jID j) (\<lambda>r. (lease worker t r)\<lparr>jFinishedAt := None, LastError := None\<rparr>));
           check ''lease update'' u (\<lambda>_. do {
             c \<leftarrow> commit_tx e;
             check ''commit lease'' c (\<lambda>_. ok (lease worker t j)) }) }) }) })"

definition MarkDone :: "env \<Rightarrow> nat \<Rightarrow> unit fallible" where
  "MarkDone e i = do {
     t \<leftarrow> now e;
     x \<leftarrow> db_exec e (\<lambda>_. update_job i (\<lambda>j. j\<lparr>jState := StateDone, jFinishedAt := Some t, LastError := None\<rparr>));
     check ''mark done'' x ok }"

definition MarkFailed :: "env \<Rightarrow> nat \<Rightarrow> string \<Rightarrow> unit fallible" where
  "MarkFailed e i err = do {
     t \<leftarrow> now e;
     x \<leftarrow> db_exec e (\<lambda>_. update_job i (\<lambda>j. j\<lparr>jState := StateFailed, jFinishedAt := Some t, LastError := Some err\<rparr>));
     check ''mark failed'' x ok }"

definition Cancel_job :: "env \<Rightarrow> nat \<Rightarrow> unit fallible" where
  "Cancel_job e i = do {
     t \<leftarrow> now e;
     x \<leftarrow> db_exec e (\<lambda>_ w. w\<lparr>jobs_tab := update_where (\<lambda>j. jID j = i \<and> jState j = StateQueued)
       (\<lambda>j. j\<lparr>jState := StateCancelled, jFinishedAt := Some t\<rparr>) (jobs_tab w)\<rparr>);
     check ''cancel'' x ok }"

definition active :: "Job \<Rightarrow> bool" where
  "active j \<longleftrightarrow> jState j = StateQueued \<or> jState j = StateInProgress"

definition pending_for :: "Kind \<Rightarrow> int \<Rightarrow> Job \<Rightarrow> bool" where
  "pending_for kind n j \<longleftrightarrow> jKind j = kind \<and> TargetNodeNum j = Some n \<and> active j"

definition HasPendingFor :: "env \<Rightarrow> Kind \<Rightarrow> int \<Rightarrow> bool fallible" where
  "HasPendingFor e kind n = do {
     r \<leftarrow> query e (\<lambda>w. 0 < length (filter (pending_for kind n) (jobs_tab w)));
     check ''has-pending'' r ok }"

definition stale :: "int \<Rightarrow> Job \<Rightarrow> bool" where
  "stale cutoff j \<longleftrightarrow> jState j = StateInProgress \<and> (case jStartedAt j of None \<Rightarrow> False | Some s \<Rightarrow> s < cutoff)"

definition requeue :: "Job \<Rightarrow> Job" where
  "requeue j = j\<lparr>jState := StateQueued, WorkerID := None,
     LastError := Some (unnull (LastError j) @ '' [worker died mid-run; re-queued]'')\<rparr>"

definition ResumeStaleLeases :: "env \<Rightarrow> int \<Rightarrow> nat fallible" where
  "ResumeStaleLeases e threshold = do {
     t \<leftarrow> now e;
     x \<leftarrow> db e (\<lambda>_ w. (length (filter (stale (t - threshold)) (jobs_tab w)),
       w\<lparr>jobs_tab := update_where (stale (t - threshold)) requeue (jobs_tab w)\<rparr>));
     check ''resume stale'' x ok }"

definition GetByID :: "env \<Rightarrow> nat \<Rightarrow> Job fallible" where
  "GetByID e i = do {
     r \<leftarrow> query e (\<lambda>w. find (\<lambda>j. jID j = i) (jobs_tab w));
     check ''get job'' r (\<lambda>found. case found of None \<Rightarrow> fail ErrNotFound | Some j \<Rightarrow> ok j) }"

definition ListByRotation :: "env \<Rightarrow> nat \<Rightarrow> Job list fallible" where
  "ListByRotation e i = do {
     r \<leftarrow> query e (\<lambda>w. sort_key (\<lambda>j. - EnqueuedAt j) (filter (\<lambda>j. jRotationID j = Some i) (jobs_tab w)));
     check ''list by rotation'' r ok }"

section \<open>The worker\<close>

type_synonym handler = "env \<Rightarrow> Job \<Rightarrow> unit fallible"

record Loop =
  handlers :: "Kind \<rightharpoonup> handler"
  workerID :: string
  running :: bool

definition NewLoop :: "string \<Rightarrow> Loop" where
  "NewLoop worker = \<lparr>handlers = Map.empty, workerID = worker, running = False\<rparr>"

definition Register :: "Loop \<Rightarrow> Kind \<Rightarrow> handler \<Rightarrow> Loop" where
  "Register l kind h = l\<lparr>handlers := (handlers l)(kind \<mapsto> h)\<rparr>"

fun kind_text :: "Kind \<Rightarrow> string" where
  "kind_text KindRotatePhaseA = ''rotate_phase_a''"
| "kind_text KindRotatePhaseB = ''rotate_phase_b''"
| "kind_text KindRotatePhaseC = ''rotate_phase_c''"
| "kind_text KindResetNode = ''reset_node''"
| "kind_text KindRecoverStrand = ''recover_stranded''"
| "kind_text KindScanForStrand = ''scan_for_stranded''"

definition staleThreshold :: int where "staleThreshold = 10 * 60 * 10 ^ 9"

text \<open>\<open>Start\<close> up to the launch of \<open>run\<close>; an error of the scan is only logged.\<close>

definition Start :: "env \<Rightarrow> Loop \<Rightarrow> (fleet_error + Loop) fleet" where
  "Start e l = (if running l then return (Inl (ErrText ''loop already started''))
     else do { _ \<leftarrow> ResumeStaleLeases e staleThreshold; return (Inr (l\<lparr>running := True\<rparr>)) })"

definition Stop :: "Loop \<Rightarrow> Loop" where "Stop l = l\<lparr>running := False\<rparr>"

text \<open>Errors of the closing statements are dropped or only logged.\<close>

definition dispatch :: "env \<Rightarrow> Loop \<Rightarrow> Job \<Rightarrow> unit fleet" where
  "dispatch e l job = (case handlers l (jKind job) of
      None \<Rightarrow> do {
        _ \<leftarrow> MarkFailed e (jID job) (''no handler registered for kind \"'' @ kind_text (jKind job) @ ''\"'');
        return () }
    | Some h \<Rightarrow> do {
        r \<leftarrow> h e job;
        (case r of
           Inl err \<Rightarrow> do { _ \<leftarrow> MarkFailed e (jID job) (Error err); return () }
         | Inr _ \<Rightarrow> do { _ \<leftarrow> MarkDone e (jID job); return () }) })"

definition run_once :: "env \<Rightarrow> Loop \<Rightarrow> unit fleet" where
  "run_once e l = do {
     r \<leftarrow> LeaseNext e (workerID l);
     (case r of Inl _ \<Rightarrow> return () | Inr job \<Rightarrow> dispatch e l job) }"

text \<open>The rounds \<open>run\<close> makes before its context is done.\<close>

fun run :: "env \<Rightarrow> Loop \<Rightarrow> nat \<Rightarrow> unit fleet" where
  "run e l 0 = return ()"
| "run e l (Suc n) = do { _ \<leftarrow> run_once e l; run e l n }"

end
