(* ===== verification/FleetAdmin.thy ===== *)
theory FleetAdmin
  imports FleetJobs
begin

text \<open>
  Admin transactions of the fleet-security service: the message constructors of
  \<open>internal/fleetsec/messages.go\<close>, the session passkeys, and the transmit-and-wait path of
  \<open>service.go\<close>. Building the frame, registering the transaction with the tracker and writing to
  the serial port either fail (\<open>link_err\<close>) or lead to the one reply the tracker delivers
  (\<open>reply_at\<close>); theory \<open>Tracker\<close> shows that a transaction gets at most one. The per-node mutexes
  only order whole operations.
\<close>

section \<open>Messages\<close>

definition admin :: "admin_variant \<Rightarrow> AdminMessage" where
  "admin v = \<lparr>PayloadVariant = v, SessionPasskey = []\<rparr>"

definition AdminGetChannel :: "u32 \<Rightarrow> AdminMessage" where
  "AdminGetChannel idx = admin (GetChannelRequest (idx + 1))"

definition AdminSetChannel :: "int \<Rightarrow> string \<Rightarrow> ChannelRole \<Rightarrow> byte list \<Rightarrow> AdminMessage" where
  "AdminSetChannel idx name role psk =
     admin (SetChannel \<lparr>chIndex = idx, chRole = role, chSettings = Some \<lparr>csName = name, csPsk = psk\<rparr>\<rparr>)"

definition AdminGetConfig :: "nat \<Rightarrow> AdminMessage" where
  "AdminGetConfig configType = admin (GetConfigRequest configType)"

definition SECURITY_CONFIG :: nat where "SECURITY_CONFIG = 7"

record SecurityConfigUpdate =
  uPublicKey :: "byte list option"
  uPrivateKey :: "byte list option"
  uAdminKeys :: "byte list list option"
  uIsManaged :: "bool option"
  uAdminChannelEnabled :: "bool option"

definition no_update :: SecurityConfigUpdate where
  "no_update = \<lparr>uPublicKey = None, uPrivateKey = None, uAdminKeys = None, uIsManaged = None, uAdminChannelEnabled = None\<rparr>"

definition given :: "'a \<Rightarrow> 'a option \<Rightarrow> 'a" where
  "given zero v = (case v of None \<Rightarrow> zero | Some x \<Rightarrow> x)"

definition AdminSetSecurity :: "SecurityConfigUpdate \<Rightarrow> AdminMessage" where
  "AdminSetSecurity u = admin (SetConfig \<lparr>secPublicKey = given [] (uPublicKey u), secPrivateKey = given [] (uPrivateKey u),
     secAdminKey = given [] (uAdminKeys u), secIsManaged = given False (uIsManaged u),
     secAdminChannelEnabled = given False (uAdminChannelEnabled u)\<rparr>)"

definition AdminBeginEditSettings :: AdminMessage where "AdminBeginEditSettings = admin BeginEditSettings"
definition AdminCommitEditSettings :: AdminMessage where "AdminCommitEditSettings = admin CommitEditSettings"

fun adminMessageExpectsReply :: "AdminMessage \<Rightarrow> bool" where
  "adminMessageExpectsReply m = (case PayloadVariant m of GetChannelRequest _ \<Rightarrow> True | GetConfigRequest _ \<Rightarrow> True | _ \<Rightarrow> False)"

section \<open>Session passkeys\<close>

definition cacheSessionPasskey :: "u32 \<Rightarrow> byte list \<Rightarrow> unit fleet" where
  "cacheSessionPasskey n pk = (if n = 0 \<or> pk = [] then return ()
     else State_Monad.update (\<lambda>w. w\<lparr>sessionPasskeys := (sessionPasskeys w)(n \<mapsto> pk)\<rparr>))"

definition getSessionPasskey :: "u32 \<Rightarrow> byte list fleet" where
  "getSessionPasskey n = do { w \<leftarrow> State_Monad.get; return (given [] (sessionPasskeys w n)) }"

definition invalidateSessionPasskey :: "u32 \<Rightarrow> unit fleet" where
  "invalidateSessionPasskey n = State_Monad.update (\<lambda>w. w\<lparr>sessionPasskeys := (sessionPasskeys w)(n := None)\<rparr>)"

definition with_passkey :: "u32 \<Rightarrow> AdminMessage \<Rightarrow> AdminMessage fleet" where
  "with_passkey n msg = do {
     pk \<leftarrow> getSessionPasskey n;
     return (if pk \<noteq> [] then msg\<lparr>SessionPasskey := pk\<rparr> else msg) }"

section \<open>Sending\<close>

fun routingErrorMessage :: "Routing_Error \<Rightarrow> string" where
  "routingErrorMessage Routing_NONE = ''ok''"
| "routingErrorMessage Routing_NO_ROUTE = ''no mesh route to target -- node may be offline or out of range''"
| "routingErrorMessage Routing_GOT_NAK = ''intermediate hop NAK'' @ [CHR 0x27] @ ''d the packet''"
| "routingErrorMessage Routing_TIMEOUT = ''mesh hop timed out -- node may be off-air''"
| "routingErrorMessage Routing_NO_INTERFACE = ''no radio interface available for delivery''"
| "routingErrorMessage Routing_MAX_RETRANSMIT = ''max retries exhausted -- target not responding on the mesh''"
| "routingErrorMessage Routing_NO_CHANNEL = ''target has no matching admin channel -- check that CC'' @ [CHR 0x27] @ ''s pubkey is in its security.admin_key list and the PRIMARY PSK matches''"
| "routingErrorMessage Routing_TOO_LARGE = ''admin packet exceeds the radio MTU after encoding''"
| "routingErrorMessage Routing_NO_RESPONSE = ''target received the request but did not reply (service unavailable or bad channel permissions)''"
| "routingErrorMessage Routing_DUTY_CYCLE_LIMIT = ''duty-cycle regulator blocked send -- retry shortly''"
| "routingErrorMessage Routing_BAD_REQUEST = ''target rejected the admin request as malformed''"
| "routingErrorMessage Routing_NOT_AUTHORIZED = ''target rejected as not authorized -- packet must arrive on the bound admin channel''"
| "routingErrorMessage Routing_PKI_FAILED = ''local PKC encryption failed -- no usable pubkey for target''"
| "routingErrorMessage Routing_PKI_UNKNOWN_PUBKEY = ''target lacks our pubkey -- let NodeInfo broadcast on the PRIMARY channel before retrying''"
| "routingErrorMessage Routing_ADMIN_BAD_SESSION_KEY = ''session passkey stale or expired -- the cached key was dropped, retry the verify''"
| "routingErrorMessage Routing_ADMIN_PUBLIC_KEY_UNAUTHORIZED = ''CC'' @ [CHR 0x27] @ ''s admin pubkey is not in target'' @ [CHR 0x27] @ ''s security.admin_key list''"
| "routingErrorMessage Routing_RATE_LIMIT_EXCEEDED = ''airtime rate limit exceeded -- retry shortly''"
| "routingErrorMessage Routing_PKI_SEND_FAIL_PUBLIC_KEY = ''no PKC pubkey for target known locally -- wait for NodeInfo or rerun manufacture''"
| "routingErrorMessage (Routing_Other _) = ''unrecognised mesh routing error''"

fun routing_name :: "Routing_Error \<Rightarrow> string" where
  "routing_name Routing_NONE = ''NONE''"
| "routing_name Routing_NO_ROUTE = ''NO_ROUTE''"
| "routing_name Routing_GOT_NAK = ''GOT_NAK''"
| "routing_name Routing_TIMEOUT = ''TIMEOUT''"
| "routing_name Routing_NO_INTERFACE = ''NO_INTERFACE''"
| "routing_name Routing_MAX_RETRANSMIT = ''MAX_RETRANSMIT''"
| "routing_name Routing_NO_CHANNEL = ''NO_CHANNEL''"
| "routing_name Routing_TOO_LARGE = ''TOO_LARGE''"
| "routing_name Routing_NO_RESPONSE = ''NO_RESPONSE''"
| "routing_name Routing_DUTY_CYCLE_LIMIT = ''DUTY_CYCLE_LIMIT''"
| "routing_name Routing_BAD_REQUEST = ''BAD_REQUEST''"
| "routing_name Routing_NOT_AUTHORIZED = ''NOT_AUTHORIZED''"
| "routing_name Routing_PKI_FAILED = ''PKI_FAILED''"
| "routing_name Routing_PKI_UNKNOWN_PUBKEY = ''PKI_UNKNOWN_PUBKEY''"
| "routing_name Routing_ADMIN_BAD_SESSION_KEY = ''ADMIN_BAD_SESSION_KEY''"
| "routing_name Routing_ADMIN_PUBLIC_KEY_UNAUTHORIZED = ''ADMIN_PUBLIC_KEY_UNAUTHORIZED''"
| "routing_name Routing_RATE_LIMIT_EXCEEDED = ''RATE_LIMIT_EXCEEDED''"
| "routing_name Routing_PKI_SEND_FAIL_PUBLIC_KEY = ''PKI_SEND_FAIL_PUBLIC_KEY''"
| "routing_name (Routing_Other n) = n"

text \<open>Frame, transaction and reply; the node is the one whose reply counts.\<close>

definition transact :: "env \<Rightarrow> u32 \<Rightarrow> AdminMessage \<Rightarrow> fleet_reply fallible" where
  "transact e n msg = interact (\<lambda>t w. case link_err e t n msg of
      Some txt \<Rightarrow> (Inl (ErrText txt), w)
    | None \<Rightarrow> (Inr (reply_at e t n msg), w\<lparr>outbox := outbox w @ [Sent n msg]\<rparr>))"

fun tx_error_text :: "string tx_error option \<Rightarrow> string" where
  "tx_error_text (Some TransactionTimeout) = ''transaction timeout''"
| "tx_error_text (Some ContextErr) = ''context canceled''"
| "tx_error_text (Some (ParseErr s)) = s"
| "tx_error_text None = ''''"

definition reason_number :: "Routing_Error \<Rightarrow> int" where
  "reason_number r = (if r = Routing_NONE then 0 else 1)"

definition send_admin :: "env \<Rightarrow> u32 \<Rightarrow> AdminMessage \<Rightarrow> string \<Rightarrow> AdminReply option fallible" where
  "send_admin e sender msg kind = do {
     x \<leftarrow> transact e sender msg;
     pass x (\<lambda>r. case rKind r of
         ReplyTimeout \<Rightarrow> fail (Wrap kind (ErrText (tx_error_text (rErr r))))
       | ReplyCancelled \<Rightarrow> fail (Wrap kind (ErrText (tx_error_text (rErr r))))
       | ReplyAdminMsg \<Rightarrow> do {
           _ \<leftarrow> (case rAdmin r of
               Some a \<Rightarrow> (if replyPasskey a \<noteq> [] \<and> sender \<noteq> 0 then cacheSessionPasskey sender (replyPasskey a) else return ())
             | None \<Rightarrow> return ());
           ok (rAdmin r) }
       | ReplyRoutingAck \<Rightarrow>
           if Successful reason_number r then ok None
           else do {
             let reason = given Routing_NONE (rRouting r);
             _ \<leftarrow> (if reason = Routing_ADMIN_BAD_SESSION_KEY \<and> sender \<noteq> 0 then invalidateSessionPasskey sender else return ());
             fail (Wrap kind (ErrText (routingErrorMessage reason @ '' ('' @ routing_name reason @ '')''))) }) }"

definition runLocalAdmin :: "env \<Rightarrow> AdminMessage \<Rightarrow> string \<Rightarrow> AdminReply option fallible" where
  "runLocalAdmin e msg kind =
     (if LocalNodeNum e = 0 then fail ErrLocalNodeUnknown else send_admin e (LocalNodeNum e) msg kind)"

text \<open>\<open>runRemoteAdmin\<close> and \<open>runRemoteAdminLong\<close> differ in the timeout only.\<close>

definition runRemoteAdmin :: "env \<Rightarrow> u32 \<Rightarrow> AdminMessage \<Rightarrow> string \<Rightarrow> AdminReply option fallible" where
  "runRemoteAdmin e n msg kind =
     (if n = 0 then fail (ErrText ''remote node number must be non-zero'')
      else do { m \<leftarrow> with_passkey n msg; send_admin e n m kind })"

definition fireAndForgetRemoteAdmin :: "env \<Rightarrow> u32 \<Rightarrow> AdminMessage \<Rightarrow> unit fallible" where
  "fireAndForgetRemoteAdmin e n msg =
     (if n = 0 then fail (ErrText ''remote node number must be non-zero'')
      else do { m \<leftarrow> with_passkey n msg; x \<leftarrow> transact e n m; pass x (\<lambda>_. ok ()) })"

definition extractChannel :: "AdminReply option \<Rightarrow> fleet_error + Channel" where
  "extractChannel reply = (case reply of
      None \<Rightarrow> Inl (ErrText ''nil admin reply'')
    | Some r \<Rightarrow> (case replyVariant r of GetChannelResponse ch \<Rightarrow> Inr ch
        | _ \<Rightarrow> Inl (ErrText ''admin reply missing get_channel_response'')))"

definition extractSecurityConfig :: "AdminReply option \<Rightarrow> fleet_error + SecurityConfig" where
  "extractSecurityConfig reply = (case reply of
      None \<Rightarrow> Inl (ErrText ''nil admin reply'')
    | Some r \<Rightarrow> (case replyVariant r of
          GetConfigResponse None \<Rightarrow> Inl (ErrText ''config missing security sub-message'')
        | GetConfigResponse (Some sec) \<Rightarrow> Inr sec
        | _ \<Rightarrow> Inl (ErrText ''admin reply missing get_config_response'')))"

definition channel_psk :: "Channel \<Rightarrow> byte list" where
  "channel_psk ch = (case chSettings ch of None \<Rightarrow> [] | Some cs \<Rightarrow> csPsk cs)"

section \<open>Audit\<close>

definition isSecretKey :: "string \<Rightarrow> bool" where
  "isSecretKey k \<longleftrightarrow> k \<in> set [''psk'', ''psk_b64'', ''private_key'', ''priv_b64'', ''privkey'', ''secret'']"

definition redactSecrets :: "(string \<times> detail) list \<Rightarrow> (string \<times> detail) list" where
  "redactSecrets = map (\<lambda>(k, v). (k, if isSecretKey k then DStr ''<redacted>'' else v))"

definition auditFleet :: "string \<Rightarrow> string \<Rightarrow> string \<Rightarrow> string \<Rightarrow> (string \<times> detail) list \<Rightarrow> unit fleet" where
  "auditFleet userID action resource resourceID details =
     emit (Audit userID (''fleetsec.'' @ action) resource resourceID (redactSecrets details))"

section \<open>Identity registry\<close>

definition pickKnownFingerprints :: "env \<Rightarrow> string list \<Rightarrow> string list fallible" where
  "pickKnownFingerprints e keyFPs = do {
     r \<leftarrow> ListIdentities e;
     pass r (\<lambda>idents. ok (filter (\<lambda>fp. list_ex (\<lambda>i. iRole i \<noteq> IdentityRoleRevoked \<and> iFingerprint i = fp) idents) keyFPs)) }"

definition fingerprintsFromAdminKeys :: "byte list list \<Rightarrow> string list" where
  "fingerprintsFromAdminKeys keys = map Fingerprint keys"

fun pubkeysForFingerprints :: "env \<Rightarrow> string list \<Rightarrow> byte list list fallible" where
  "pubkeysForFingerprints e [] = ok []"
| "pubkeysForFingerprints e (fp # fps) = do {
     r \<leftarrow> GetIdentityByFingerprint e fp;
     check (''fingerprint '' @ fp) r (\<lambda>rec. do {
       rest \<leftarrow> pubkeysForFingerprints e fps;
       pass rest (\<lambda>ks. ok (iPublicKey rec # ks)) }) }"

end
