(* ===== verification/FleetTrust.thy ===== *)
theory FleetTrust
  imports FleetAdmin
begin

text \<open>
  The trust roster (\<open>internal/fleetsec/trust.go\<close>) and the identity registry (\<open>identity.go\<close>): reading a
  node's security configuration, drift against the policy, and the guarded edits of admin keys,
  managed mode and identities.
\<close>

section \<open>Reading trust\<close>

definition computeDriftStatus :: "NodeTrustRecord \<Rightarrow> FleetPolicy option \<Rightarrow> DriftStatus" where
  "computeDriftStatus n p =
     (if tDriftStatus n = DriftStatusUnreachable then DriftStatusUnreachable
      else if LastVerifiedAt n = None then DriftStatusUnknown
      else (case p of None \<Rightarrow> DriftStatusInPolicy
        | Some p \<Rightarrow>
            if ExpectedIsManaged p \<noteq> IsManaged n then DriftStatusDrift
            else if list_ex (\<lambda>want. want \<notin> set (AdminKeyFPs n)) (ExpectedAdminKeyFPs p) then DriftStatusDrift
            else DriftStatusInPolicy))"

definition ListTrust :: "env \<Rightarrow> NodeTrustRecord list fallible" where
  "ListTrust e = do {
     r \<leftarrow> ListNodeTrust e;
     pass r (\<lambda>rows. do {
       p \<leftarrow> GetPolicy e;
       pass p (\<lambda>pol. ok (map (\<lambda>r. r\<lparr>tDriftStatus := computeDriftStatus r (Some pol)\<rparr>) rows)) }) }"

definition localPrimaryPSKFP :: "env \<Rightarrow> string fleet" where
  "localPrimaryPSKFP e = do {
     r \<leftarrow> ListChannels e;
     return (case r of Inl _ \<Rightarrow> [] | Inr chs \<Rightarrow>
       (case find (\<lambda>c. cIndex c = 0) chs of None \<Rightarrow> [] | Some c \<Rightarrow> unnull (PSKFingerprint c))) }"

definition is_local :: "env \<Rightarrow> u32 \<Rightarrow> bool" where
  "is_local e n \<longleftrightarrow> LocalNodeNum e \<noteq> 0 \<and> n = LocalNodeNum e"

definition verify_method :: "env \<Rightarrow> u32 \<Rightarrow> VerifyMethod" where
  "verify_method e n = (if is_local e n then VerifyMethodLocalUSB else VerifyMethodRemotePKC)"

definition read_security :: "env \<Rightarrow> u32 \<Rightarrow> AdminReply option fallible" where
  "read_security e n = (if is_local e n then runLocalAdmin e (AdminGetConfig SECURITY_CONFIG) ''local-get-security''
     else runRemoteAdmin e n (AdminGetConfig SECURITY_CONFIG) ''remote-get-security'')"

definition push_admin :: "env \<Rightarrow> u32 \<Rightarrow> AdminMessage \<Rightarrow> string \<Rightarrow> AdminReply option fallible" where
  "push_admin e n msg what = (if is_local e n then runLocalAdmin e msg (''local-'' @ what) else runRemoteAdmin e n msg (''remote-'' @ what))"

definition trust_snapshot :: "env \<Rightarrow> u32 \<Rightarrow> SecurityConfig \<Rightarrow> int \<Rightarrow> NodeTrustRecord" where
  "trust_snapshot e n sec t = (trust_default n)\<lparr>AdminKeyFPs := fingerprintsFromAdminKeys (secAdminKey sec), IsManaged := secIsManaged sec,
     LastVerifiedAt := Some t, LastVerifyMethod := Some (verify_method e n), LastDriftCheckAt := Some t\<rparr>"

definition GetTrust :: "env \<Rightarrow> u32 \<Rightarrow> NodeTrustRecord fallible" where
  "GetTrust e n =
     (if n = 0 then fail (ErrText ''node number must be non-zero'')
      else do {
        r \<leftarrow> read_security e n;
        (case r of
           Inl err \<Rightarrow> do {
             t \<leftarrow> now e;
             _ \<leftarrow> MarkNodeUnreachable e n t;
             fail (Wrap (''get_config from '' @ show_x n) err) }
         | Inr reply \<Rightarrow> pass (extractSecurityConfig reply) (\<lambda>sec. do {
             t \<leftarrow> now e;
             p \<leftarrow> GetPolicy e;
             pass p (\<lambda>pol. do {
               let rec = trust_snapshot e n sec t;
               u \<leftarrow> UpsertNodeTrust e (rec\<lparr>tDriftStatus := computeDriftStatus rec (Some pol)\<rparr>);
               check ''upsert trust'' u (\<lambda>_. do {
                 piFP \<leftarrow> localPrimaryPSKFP e;
                 _ \<leftarrow> (if piFP \<noteq> [] then SetNodeCurrentPSKFP e n piFP else ok ());
                 GetNodeTrust e n }) }) })) })"

definition getTrustLocked :: "env \<Rightarrow> u32 \<Rightarrow> NodeTrustRecord fallible" where
  "getTrustLocked e n = do {
     r \<leftarrow> read_security e n;
     pass r (\<lambda>reply. pass (extractSecurityConfig reply) (\<lambda>sec. do {
       t \<leftarrow> now e;
       p \<leftarrow> GetPolicy e;
       let rec = trust_snapshot e n sec t;
       let rec = rec\<lparr>tDriftStatus := (case p of Inl _ \<Rightarrow> DriftStatusUnknown | Inr pol \<Rightarrow> computeDriftStatus rec (Some pol))\<rparr>;
       u \<leftarrow> UpsertNodeTrust e rec;
       pass u (\<lambda>_. ok rec) })) }"

record VerifyResult =
  vNodeNum :: u32
  vOK :: bool
  vAdminKeyFPs :: "string list"
  vIsManaged :: bool
  vErr :: string

definition VerifyTrust :: "env \<Rightarrow> string \<Rightarrow> u32 \<Rightarrow> VerifyResult fleet" where
  "VerifyTrust e userID n = do {
     r \<leftarrow> GetTrust e n;
     (case r of
        Inl err \<Rightarrow> do {
          _ \<leftarrow> auditFleet userID ''verify_trust'' ''node'' (show_nat (unat n)) [(''ok'', DBool False), (''error'', DStr (Error err))];
          return \<lparr>vNodeNum = n, vOK = False, vAdminKeyFPs = [], vIsManaged = False, vErr = Error err\<rparr> }
      | Inr got \<Rightarrow> do {
          _ \<leftarrow> auditFleet userID ''verify_trust'' ''node'' (show_nat (unat n))
            [(''ok'', DBool True), (''admin_key_fingerprints'', DStrs (AdminKeyFPs got)), (''is_managed'', DBool (IsManaged got))];
          return \<lparr>vNodeNum = n, vOK = True, vAdminKeyFPs = AdminKeyFPs got, vIsManaged = IsManaged got, vErr = []\<rparr> }) }"

section \<open>Guarded edits\<close>

definition severity :: "bool \<Rightarrow> (string \<times> detail) list" where
  "severity force = (if force then [(''severity'', DStr ''critical'')] else [])"

definition SetAdminKeys :: "env \<Rightarrow> string \<Rightarrow> u32 \<Rightarrow> string list \<Rightarrow> bool \<Rightarrow> string \<Rightarrow> unit fallible" where
  "SetAdminKeys e userID n keyFPs force ack =
     (if n = 0 then fail (ErrText ''node number must be non-zero'')
      else if 3 < length keyFPs then fail (ErrText ''admin_key list cannot exceed 3 entries'')
      else do {
        k \<leftarrow> pickKnownFingerprints e keyFPs;
        check ''look up identity registry'' k (\<lambda>known.
          if known = [] \<and> \<not> force then fail ErrLockoutPrevented
          else if known = [] \<and> ack \<noteq> ''LOCKOUT'' then fail ErrInvalidAck
          else do {
            p \<leftarrow> pubkeysForFingerprints e keyFPs;
            pass p (\<lambda>pubs. do {
              x \<leftarrow> push_admin e n (AdminSetSecurity (no_update\<lparr>uAdminKeys := Some pubs\<rparr>)) ''set-admin-keys'';
              check ''push admin_key list'' x (\<lambda>_. do {
                g \<leftarrow> getTrustLocked e n;
                (case g of
                   Inl err \<Rightarrow> do {
                     _ \<leftarrow> auditFleet userID ''set_admin_keys_partial'' ''node'' (show_nat (unat n))
                       [(''key_fingerprints'', DStrs keyFPs), (''force'', DBool force), (''readback_error'', DStr (Error err))];
                     ok () }
                 | Inr _ \<Rightarrow> do {
                     _ \<leftarrow> auditFleet userID ''set_admin_keys'' ''node'' (show_nat (unat n))
                       ([(''key_fingerprints'', DStrs keyFPs), (''force'', DBool force)] @ severity force);
                     ok () }) }) }) }) })"

definition verify_window :: int where "verify_window = 24 * 60 * 60 * 10 ^ 9"

text \<open>The recency check before lockdown.\<close>

definition recently_verified :: "env \<Rightarrow> u32 \<Rightarrow> bool \<Rightarrow> unit fallible" where
  "recently_verified e n force = do {
     r \<leftarrow> GetNodeTrust e n;
     (case r of
        Inl err \<Rightarrow> if err = ErrNotFound then (if force then ok () else fail ErrManagedLockdownPrevented) else fail err
      | Inr current \<Rightarrow> (case LastVerifiedAt current of
            None \<Rightarrow> if force then ok () else fail ErrManagedLockdownPrevented
          | Some v \<Rightarrow> do {
              t \<leftarrow> now e;
              (if t - v > verify_window \<and> \<not> force then fail ErrManagedLockdownPrevented else ok ()) })) }"

definition SetIsManaged :: "env \<Rightarrow> string \<Rightarrow> u32 \<Rightarrow> bool \<Rightarrow> bool \<Rightarrow> string \<Rightarrow> unit fallible" where
  "SetIsManaged e userID n val force ack =
     (if n = 0 then fail (ErrText ''node number must be non-zero'')
      else do {
        g \<leftarrow> (if val then recently_verified e n force else ok ());
        pass g (\<lambda>_.
          if val \<and> force \<and> ack \<noteq> ''LOCKDOWN'' then fail ErrInvalidAck
          else do {
            x \<leftarrow> push_admin e n (AdminSetSecurity (no_update\<lparr>uIsManaged := Some val\<rparr>)) ''set-is-managed'';
            check (''push is_managed='' @ show_bool val) x (\<lambda>_. do {
              _ \<leftarrow> auditFleet userID ''set_is_managed'' ''node'' (show_nat (unat n)) ([(''value'', DBool val), (''force'', DBool force)] @ severity force);
              ok () }) }) })"

section \<open>Identities\<close>

record Identity =
  idPublicKey :: "byte list"
  idFingerprint :: string
  idLabel :: string
  idRole :: IdentityRole
  idSource :: IdentitySource

definition GetIdentity :: "env \<Rightarrow> Identity fallible" where
  "GetIdentity e = do {
     r \<leftarrow> runLocalAdmin e (AdminGetConfig SECURITY_CONFIG) ''local-get-security'';
     check ''read local security'' r (\<lambda>reply. pass (extractSecurityConfig reply) (\<lambda>sec. do {
       let pub = secPublicKey sec;
       let fp = Fingerprint pub;
       (case ValidateX25519Key pub of
          Some err \<Rightarrow> fail (Wrap ''local Heltec pubkey'' (KeyErr err))
        | None \<Rightarrow> do {
            g \<leftarrow> GetIdentityByFingerprint e fp;
            (case g of
               Inl err \<Rightarrow>
                 if err = ErrNotFound then do {
                   let label = ''local-heltec-'' @ take 5 fp;
                   i \<leftarrow> InsertIdentity e label pub fp IdentityRolePrimary IdentitySourceAutoGenerated;
                   check ''auto-register local pubkey'' i (\<lambda>_. do {
                     _ \<leftarrow> auditFleet [] ''auto_register_local'' ''identity'' fp [(''label'', DStr label)];
                     ok \<lparr>idPublicKey = pub, idFingerprint = fp, idLabel = label, idRole = IdentityRolePrimary,
                         idSource = IdentitySourceAutoGenerated\<rparr> }) }
                 else fail err
             | Inr rec \<Rightarrow> ok \<lparr>idPublicKey = pub, idFingerprint = fp, idLabel = iLabel rec, idRole = iRole rec, idSource = iSource rec\<rparr>) }) })) }"

definition ImportIdentity :: "(byte list \<Rightarrow> byte list option) \<Rightarrow> env \<Rightarrow> string \<Rightarrow> string \<Rightarrow> byte list \<Rightarrow> byte list \<Rightarrow> nat fallible" where
  "ImportIdentity x25519 e userID label priv pub =
     (case (ValidateX25519Key priv, ValidateX25519Key pub, DerivePubkey x25519 priv) of
        (Some err, _, _) \<Rightarrow> fail (Wrap ''priv'' (KeyErr err))
      | (None, Some err, _) \<Rightarrow> fail (Wrap ''pub'' (KeyErr err))
      | (None, None, Inl err) \<Rightarrow> fail (Wrap ''derive pubkey for verification'' (KeyErr err))
      | (None, None, Inr None) \<Rightarrow> fail (ErrText ''derive pubkey for verification'')
      | (None, None, Inr (Some derived)) \<Rightarrow>
          if derived \<noteq> pub then fail (KeyErr KeyMismatch)
          else do {
            r \<leftarrow> runLocalAdmin e (AdminSetSecurity (no_update\<lparr>uPublicKey := Some pub, uPrivateKey := Some priv\<rparr>)) ''local-set-security-import'';
            check ''push to local Heltec'' r (\<lambda>_. do {
              i \<leftarrow> InsertIdentity e label pub (Fingerprint pub) IdentityRolePrimary IdentitySourceImported;
              check ''register identity'' i (\<lambda>ident. do {
                _ \<leftarrow> auditFleet userID ''import_identity'' ''identity'' (Fingerprint pub) [(''label'', DStr label)];
                ok ident }) }) })"

definition RegisterIdentity :: "env \<Rightarrow> string \<Rightarrow> string \<Rightarrow> byte list \<Rightarrow> IdentityRole \<Rightarrow> nat fallible" where
  "RegisterIdentity e userID label pub role =
     (case ValidateX25519Key pub of
        Some err \<Rightarrow> fail (KeyErr err)
      | None \<Rightarrow>
          if role = IdentityRoleRevoked then fail (ErrText ''invalid role for new identity'')
          else do {
            i \<leftarrow> InsertIdentity e label pub (Fingerprint pub) role IdentitySourceImported;
            check ''register identity'' i (\<lambda>ident. do {
              _ \<leftarrow> auditFleet userID ''register_identity'' ''identity'' (Fingerprint pub) [(''label'', DStr label)];
              ok ident }) })"

definition svc_RevokeIdentity :: "env \<Rightarrow> string \<Rightarrow> string \<Rightarrow> string \<Rightarrow> unit fallible" where
  "svc_RevokeIdentity e userID fp reason = do {
     r \<leftarrow> RevokeIdentity e fp;
     pass r (\<lambda>_. do { _ \<leftarrow> auditFleet userID ''revoke_identity'' ''identity'' fp [(''reason'', DStr reason)]; ok () }) }"

definition ExportPubkey :: "env \<Rightarrow> (string \<times> string) fallible" where
  "ExportPubkey e = do { r \<leftarrow> GetIdentity e; pass r (\<lambda>i. ok (EncodePubkeyB64 (idPublicKey i), idFingerprint i)) }"

end
