(* ===== verification/FleetRotation.thy ===== *)
theory FleetRotation
  imports FleetTrust
begin

text \<open>
  Rotation of the channel key (\<open>internal/fleetsec/channels.go\<close>, \<open>psk_collision.go\<close>, \<open>job_handlers.go\<close>):
  the operator starts, retries and retires a rotation; the worker runs phase A (stage the new key
  on the local radio), phase B per remote node (atomic migration, verified by reading the slot
  back) and phase C (promote the local radio, mark the nodes left behind). The jobs queue and the
  recovery hook are wired, as \<open>main.go\<close> does.
\<close>

section \<open>Radio primitives\<close>

text \<open>Slots that cannot be read are skipped; a later \<open>PRIMARY\<close> overrides an earlier one.\<close>

definition slot_word :: "int \<Rightarrow> u32" where "slot_word i = word_of_int i"

definition readLocalChannel :: "env \<Rightarrow> int \<Rightarrow> Channel fallible" where
  "readLocalChannel e idx = do {
     r \<leftarrow> runLocalAdmin e (AdminGetChannel (slot_word idx)) ''local-read-channel'';
     pass r (\<lambda>reply. return (extractChannel reply)) }"

definition readRemoteChannel :: "env \<Rightarrow> u32 \<Rightarrow> int \<Rightarrow> Channel fallible" where
  "readRemoteChannel e n idx = do {
     r \<leftarrow> runRemoteAdmin e n (AdminGetChannel (slot_word idx)) ''remote-read-channel'';
     pass r (\<lambda>reply. return (extractChannel reply)) }"

fun probe_slots :: "env \<Rightarrow> int list \<Rightarrow> int list \<times> int \<Rightarrow> (int list \<times> int) fleet" where
  "probe_slots e [] acc = return acc"
| "probe_slots e (idx # rest) (unused, primary) = do {
     r \<leftarrow> runLocalAdmin e (AdminGetChannel (slot_word idx)) ''local-probe-channel'';
     probe_slots e rest (case r of Inl _ \<Rightarrow> (unused, primary)
       | Inr reply \<Rightarrow> (case extractChannel reply of Inl _ \<Rightarrow> (unused, primary)
           | Inr ch \<Rightarrow> (case chRole ch of ChannelRolePrimary \<Rightarrow> (unused, idx)
               | ChannelRoleDisabled \<Rightarrow> (unused @ [idx], primary) | _ \<Rightarrow> (unused, primary)))) }"

definition slots :: "int list" where "slots = [0, 1, 2, 3, 4, 5, 6, 7]"

definition probeSlotsLocal :: "env \<Rightarrow> (int list \<times> int) fallible" where
  "probeSlotsLocal e = do {
     acc \<leftarrow> probe_slots e slots ([], - 1);
     (if snd acc < 0 then fail (ErrText ''no PRIMARY channel found on local Heltec'') else ok acc) }"

fun enabled_settings :: "env \<Rightarrow> int list \<Rightarrow> ChannelSettings list fleet" where
  "enabled_settings e [] = return []"
| "enabled_settings e (idx # rest) = do {
     r \<leftarrow> readLocalChannel e idx;
     more \<leftarrow> enabled_settings e rest;
     return (case r of Inl _ \<Rightarrow> more | Inr ch \<Rightarrow> if chRole ch = ChannelRoleDisabled then more
       else (case chSettings ch of None \<Rightarrow> more | Some cs \<Rightarrow> cs # more)) }"

text \<open>\<open>marshal\<close> is \<open>proto.Marshal\<close> of the generated message type.\<close>

definition channel_set :: "(ChannelSettings \<Rightarrow> byte list) \<Rightarrow> ChannelSettings list \<Rightarrow> byte list" where
  "channel_set marshal settings =
     concat (map (\<lambda>cs. let payload = marshal cs in 0x0A # encodeVarint (word_of_nat (length payload)) @ payload) settings)"

definition encodeChannelSetURL :: "(ChannelSettings \<Rightarrow> byte list) \<Rightarrow> ChannelSettings list \<Rightarrow> fleet_error + string" where
  "encodeChannelSetURL marshal settings =
     (if settings = [] then Inl (ErrText ''no enabled channels found on local Heltec'')
      else Inr (''https://meshtastic.org/e/#'' @ b64_encode url_alphabet False (channel_set marshal settings)))"

definition BuildChannelSetURL :: "(ChannelSettings \<Rightarrow> byte list) \<Rightarrow> env \<Rightarrow> string fallible" where
  "BuildChannelSetURL marshal e = do { ss \<leftarrow> enabled_settings e slots; return (encodeChannelSetURL marshal ss) }"

definition AuditReveal :: "string \<Rightarrow> int \<Rightarrow> unit fleet" where
  "AuditReveal userID channelIndex =
     auditFleet userID ''reveal_psk'' ''channel'' (show_int channelIndex) [(''channel_url_included'', DBool True)]"

definition applyLocalStagingChannel :: "env \<Rightarrow> int \<Rightarrow> byte list \<Rightarrow> unit fallible" where
  "applyLocalStagingChannel e idx psk = do {
     r \<leftarrow> runLocalAdmin e (AdminSetChannel idx [] ChannelRoleSecondary psk) ''local-stage-secondary'';
     check ''apply staging channel locally'' r (\<lambda>_. ok ()) }"

fun role_text :: "ChannelRole \<Rightarrow> string" where
  "role_text ChannelRolePrimary = ''PRIMARY''"
| "role_text ChannelRoleSecondary = ''SECONDARY''"
| "role_text _ = ''DISABLED''"

definition probe_outcome :: "string \<Rightarrow> fleet_error + AdminReply option \<Rightarrow> fleet_error option" where
  "probe_outcome fp r = (case r of
      Inl perr \<Rightarrow> Some perr
    | Inr reply \<Rightarrow> (case extractChannel reply of
          Inl cerr \<Rightarrow> Some cerr
        | Inr ch \<Rightarrow>
            if chRole ch = ChannelRolePrimary then
              (if Fingerprint (channel_psk ch) = fp then None
               else Some (ErrText (''staging slot is PRIMARY but PSK fp mismatch (got '' @ Fingerprint (channel_psk ch) @ '', want '' @ fp @ '')'')))
            else Some (ErrText (''staging slot role is '' @ role_text (chRole ch) @ '', expected PRIMARY''))))"

text \<open>
  The verification loop. Every round but the last pauses for \<open>commitVerifyBackoff\<close>, so no more than
  \<open>commitVerifyRounds\<close> rounds start before the deadline.
\<close>

definition commitVerifyDeadline :: int where "commitVerifyDeadline = 60 * 10 ^ 9"
definition commitVerifyBackoff :: int where "commitVerifyBackoff = 8 * 10 ^ 9"
definition commitVerifyRounds :: nat where "commitVerifyRounds = 8"

definition verify_failed :: "fleet_error option \<Rightarrow> fleet_error" where
  "verify_failed lastErr = Wrap ''commit verify''
     (case lastErr of Some err \<Rightarrow> err | None \<Rightarrow> ErrText ''verify deadline reached with no successful probe'')"

fun commit_verify :: "env \<Rightarrow> u32 \<Rightarrow> int \<Rightarrow> string \<Rightarrow> int \<Rightarrow> nat \<Rightarrow> fleet_error option \<Rightarrow> unit fallible" where
  "commit_verify e n idx fp deadline 0 lastErr = fail (verify_failed lastErr)"
| "commit_verify e n idx fp deadline (Suc rounds) lastErr = do {
     t \<leftarrow> now e;
     (if t < deadline then do {
        r \<leftarrow> runRemoteAdmin e n (AdminGetChannel (slot_word idx)) ''remote-commit-verify'';
        (case probe_outcome fp r of
           None \<Rightarrow> ok ()
         | Some err \<Rightarrow> do {
             cancelled \<leftarrow> ctx_done e;
             (if cancelled then fail ContextDone else commit_verify e n idx fp deadline rounds (Some err)) }) }
      else fail (verify_failed lastErr)) }"

definition migrateRemoteAtomic :: "env \<Rightarrow> u32 \<Rightarrow> int \<Rightarrow> int \<Rightarrow> byte list \<Rightarrow> unit fallible" where
  "migrateRemoteAtomic e n stagingIdx oldSlot newPSK = do {
     s \<leftarrow> runRemoteAdmin e n (AdminGetChannel 0) ''remote-establish-session'';
     check ''session establish'' s (\<lambda>_. do {
       b \<leftarrow> fireAndForgetRemoteAdmin e n AdminBeginEditSettings;
       check ''queue begin edit'' b (\<lambda>_. do {
         p \<leftarrow> fireAndForgetRemoteAdmin e n (AdminSetChannel stagingIdx [] ChannelRolePrimary newPSK);
         check ''queue set primary'' p (\<lambda>_. do {
           d \<leftarrow> fireAndForgetRemoteAdmin e n (AdminSetChannel oldSlot [] ChannelRoleDisabled []);
           check ''queue disable old'' d (\<lambda>_. do {
             c \<leftarrow> fireAndForgetRemoteAdmin e n AdminCommitEditSettings;
             check ''queue commit edit'' c (\<lambda>_. do {
               cancelled \<leftarrow> ctx_done e;
               (if cancelled then fail ContextDone
                else do {
                  t \<leftarrow> now e;
                  commit_verify e n stagingIdx (Fingerprint newPSK) (t + commitVerifyDeadline) commitVerifyRounds None }) }) }) }) }) }) }"

definition migratePiAtomicWithRecovery :: "env \<Rightarrow> int \<Rightarrow> int \<Rightarrow> byte list \<Rightarrow> int \<Rightarrow> byte list \<Rightarrow> unit fallible" where
  "migratePiAtomicWithRecovery e stagingIdx oldSlot newPSK recoverySlot recoveryPSK = do {
     b \<leftarrow> runLocalAdmin e AdminBeginEditSettings ''local-begin-edit'';
     check ''begin edit'' b (\<lambda>_. do {
       p \<leftarrow> runLocalAdmin e (AdminSetChannel stagingIdx [] ChannelRolePrimary newPSK) ''local-set-primary'';
       check ''set primary'' p (\<lambda>_. do {
         d \<leftarrow> runLocalAdmin e (AdminSetChannel oldSlot [] ChannelRoleDisabled []) ''local-disable-old'';
         check ''disable old'' d (\<lambda>_. do {
           r \<leftarrow> (if recoverySlot \<ge> 0 \<and> recoveryPSK \<noteq> []
             then do { x \<leftarrow> runLocalAdmin e (AdminSetChannel recoverySlot [] ChannelRoleSecondary recoveryPSK) ''local-set-recovery'';
                       check ''set recovery'' x (\<lambda>_. ok ()) }
             else ok ());
           pass r (\<lambda>_. do {
             c \<leftarrow> runLocalAdmin e AdminCommitEditSettings ''local-commit-edit'';
             check ''commit edit'' c (\<lambda>_. ok ()) }) }) }) }) }"

definition migratePiAtomic :: "env \<Rightarrow> int \<Rightarrow> int \<Rightarrow> byte list \<Rightarrow> unit fallible" where
  "migratePiAtomic e stagingIdx oldSlot newPSK = migratePiAtomicWithRecovery e stagingIdx oldSlot newPSK (- 1) []"

section \<open>Collisions\<close>

fun slot_collision :: "env \<Rightarrow> byte \<Rightarrow> int list \<Rightarrow> int option fleet" where
  "slot_collision e h [] = return None"
| "slot_collision e h (idx # rest) = do {
     r \<leftarrow> readLocalChannel e idx;
     (if (case r of Inl _ \<Rightarrow> False | Inr ch \<Rightarrow> channel_psk ch \<noteq> [] \<and> ChannelHash [] (channel_psk ch) = h)
      then return (Some idx) else slot_collision e h rest) }"

definition CheckPSKHashCollision :: "env \<Rightarrow> byte list \<Rightarrow> unit fallible" where
  "CheckPSKHashCollision e candidate =
     (if candidate = [] then ok ()
      else do {
        let candHash = ChannelHash [] candidate;
        hit \<leftarrow> slot_collision e candHash [0, 1];
        (case hit of
           Some idx \<Rightarrow> fail (Suffix ErrChannelHashCollision ('' (slot '' @ show_int idx @ '' active PSK)''))
         | None \<Rightarrow> do {
             r \<leftarrow> ListRecoveryPSKs e;
             (case r of Inl _ \<Rightarrow> ok ()
              | Inr recs \<Rightarrow> (case find (\<lambda>rec. PSKHash rec = candHash) recs of
                    Some rec \<Rightarrow> fail (Suffix ErrChannelHashCollision ('' (recovery slot '' @ show_nat (Slot rec) @ '')''))
                  | None \<Rightarrow> ok ())) }) })"

text \<open>\<open>randoms\<close> are the keys \<open>RandomPSK\<close> draws, one per attempt.\<close>

fun random_attempts :: "env \<Rightarrow> nat \<Rightarrow> fleet_error \<Rightarrow> byte list list \<Rightarrow> byte list fallible" where
  "random_attempts e n lastErr [] = fail (Wrap (''could not generate non-colliding PSK in '' @ show_nat n @ '' attempts'') lastErr)"
| "random_attempts e n lastErr (psk # rest) = do {
     c \<leftarrow> CheckPSKHashCollision e psk;
     (case c of Inr _ \<Rightarrow> ok psk | Inl err \<Rightarrow> random_attempts e n err rest) }"

definition GenerateRandomPSKAvoidCollision :: "env \<Rightarrow> nat \<Rightarrow> int \<Rightarrow> (nat \<Rightarrow> byte list) \<Rightarrow> byte list fallible" where
  "GenerateRandomPSKAvoidCollision e n maxAttempts random =
     (case RandomPSK n (random 0) of
        Inl err \<Rightarrow> fail (KeyErr err)
      | Inr _ \<Rightarrow> (let attempts = (if maxAttempts \<le> 0 then 8 else nat maxAttempts) in
          random_attempts e attempts (ErrText []) (map (\<lambda>i. take n (random i)) [0..<attempts])))"

section \<open>Progress\<close>

definition broadcastNotice :: "nat \<Rightarrow> string \<Rightarrow> unit fleet" where
  "broadcastNotice i msg = (if msg = [] then return () else emit (Notice i msg))"

definition persistAndBroadcast :: "env \<Rightarrow> nat \<Rightarrow> RotationTarget list \<Rightarrow> bool \<Rightarrow> unit fleet" where
  "persistAndBroadcast e i targets done = do {
     c \<leftarrow> (if done then do { t \<leftarrow> now e; return (Some t) } else return None);
     _ \<leftarrow> UpdateRotationTargets e i targets c;
     emit (Progress i targets done) }"

text \<open>\<open>t\<close> points into \<open>current\<close>; the changed list is returned.\<close>

definition transitionTarget :: "env \<Rightarrow> nat \<Rightarrow> RotationTarget list \<Rightarrow> u32 \<Rightarrow> RotationPhase \<Rightarrow> string \<Rightarrow> RotationTarget list fleet" where
  "transitionTarget e i current n phase err = do {
     let current = (case update_first (\<lambda>t. NodeNum t = n) (set_phase phase err) current of None \<Rightarrow> current | Some ts \<Rightarrow> ts);
     _ \<leftarrow> UpdateTargetPhase e i n phase err;
     _ \<leftarrow> persistAndBroadcast e i current False;
     return current }"

section \<open>Operator requests\<close>

definition new_target :: "u32 \<Rightarrow> RotationTarget" where
  "new_target n = \<lparr>NodeNum = n, Phase = PhasePending, tgStatus = TargetStatusPending, tgAttempts = 0, tgLastError = []\<rparr>"

fun valid_targets :: "u32 list \<Rightarrow> u32 list \<Rightarrow> u32 list" where
  "valid_targets seen [] = []"
| "valid_targets seen (t # ts) = (if t = 0 \<or> t \<in> set seen then valid_targets seen ts else t # valid_targets (t # seen) ts)"

definition rotation_targets :: "u32 \<Rightarrow> u32 list \<Rightarrow> u32 list" where
  "rotation_targets local targets = (let ts = valid_targets [] targets in
     if local \<noteq> 0 \<and> local \<notin> set ts then ts @ [local] else ts)"

definition RotatePSK :: "env \<Rightarrow> string \<Rightarrow> int \<Rightarrow> byte list \<Rightarrow> u32 list \<Rightarrow> string \<Rightarrow> nat fallible" where
  "RotatePSK e userID channelIndex newPSK targets ack =
     (if ack \<noteq> ''ROTATE'' then fail (Wrap ''PSK rotation requires Ack=ROTATE'' ErrInvalidAck)
      else (case ValidatePSK newPSK of
        Some err \<Rightarrow> fail (KeyErr err)
      | None \<Rightarrow>
        if channelIndex < 0 then fail (ErrText ''channelIndex must be >= 0'')
        else do {
          c \<leftarrow> CheckPSKHashCollision e newPSK;
          pass c (\<lambda>_. do {
            let ts = map new_target (rotation_targets (LocalNodeNum e) targets);
            (if ts = [] then fail (ErrText ''no valid targets'')
             else do {
               r \<leftarrow> InsertRotation e RotationKindPSK (Some channelIndex) userID ts (Fingerprint newPSK)
                      (if newPSK = [] then None else Some newPSK);
               check ''create rotation'' r (\<lambda>i. do {
                 _ \<leftarrow> auditFleet userID ''rotate_psk_start'' ''channel'' (show_int channelIndex)
                   [(''rotation_id'', DInt (int i)), (''target_count'', DInt (int (length ts))), (''new_psk_fp'', DStr (Fingerprint newPSK)),
                    (''psk_length'', DInt (int (length newPSK)))];
                 q \<leftarrow> Enqueue_job e KindRotatePhaseA (Some i) None PhaseAPayload;
                 check ''enqueue phase A'' q (\<lambda>_. ok i) }) }) }) }))"

record RetireOldPSKResult =
  resOK :: bool
  Laggards :: "u32 list"
  OldChannelIndex :: int
  resNewPSKFP :: string

fun pi_phase_text :: "PiLocalPhase \<Rightarrow> string" where
  "pi_phase_text PiPhasePending = ''pending''"
| "pi_phase_text PiPhaseStagingAdded = ''staging_added''"
| "pi_phase_text PiPhasePhaseDPromoted = ''phase_d_promoted''"
| "pi_phase_text PiPhaseRetired = ''retired''"

definition phaseC_pending :: "Job list \<Rightarrow> bool" where
  "phaseC_pending js = list_ex (\<lambda>j. jKind j = KindRotatePhaseC \<and> active j) js"

definition RetireOldPSK :: "env \<Rightarrow> string \<Rightarrow> nat \<Rightarrow> RetireOldPSKResult fallible" where
  "RetireOldPSK e userID i = do {
     g \<leftarrow> GetRotation e i;
     pass g (\<lambda>rec.
       if rotKind rec \<noteq> RotationKindPSK then fail (ErrText (''rotation '' @ show_nat i @ '' is not a PSK rotation''))
       else if RetiredAt rec \<noteq> None \<or> PiPhase rec = PiPhaseRetired then fail (ErrText ''rotation already retired'')
       else if PiPhase rec \<noteq> PiPhaseStagingAdded \<and> PiPhase rec \<noteq> PiPhasePhaseDPromoted then fail (ErrText
           (''rotation not ready to retire (pi_local_phase='' @ pi_phase_text (PiPhase rec) @ '', want staging_added or phase_d_promoted)''))
       else if ChannelIndex rec = None then fail (ErrText ''rotation has no channel_index'')
       else (case StagingChannelIndex rec of
         None \<Rightarrow> fail (ErrText ''rotation has no staging_channel_index (rotation may pre-date the atomic worker)'')
       | Some stagingIdx \<Rightarrow> do {
           a \<leftarrow> AllManagedNodesOnPSK e (NewPSKFP rec);
           pass a (\<lambda>(allMigrated, laggards).
             if \<not> allMigrated then do {
               _ \<leftarrow> auditFleet userID ''rotate_psk_retire_blocked'' ''channel'' (show_int stagingIdx)
                 [(''rotation_id'', DInt (int i)), (''laggards'', DNodes laggards), (''new_psk_fp'', DStr (NewPSKFP rec))];
               ok \<lparr>resOK = False, Laggards = laggards, OldChannelIndex = stagingIdx, resNewPSKFP = NewPSKFP rec\<rparr> }
             else do {
               l \<leftarrow> ListByRotation e i;
               (if (case l of Inl _ \<Rightarrow> False | Inr js \<Rightarrow> phaseC_pending js)
                then ok \<lparr>resOK = True, Laggards = [], OldChannelIndex = stagingIdx, resNewPSKFP = NewPSKFP rec\<rparr>
                else do {
                  q \<leftarrow> Enqueue_job e KindRotatePhaseC (Some i) None (PhaseCPayload stagingIdx);
                  check ''enqueue phase C'' q (\<lambda>_. do {
                    _ \<leftarrow> auditFleet userID ''rotate_psk_retire'' ''channel'' (show_int stagingIdx)
                      [(''rotation_id'', DInt (int i)), (''staging_slot'', DInt stagingIdx), (''new_psk_fp'', DStr (NewPSKFP rec))];
                    ok \<lparr>resOK = True, Laggards = [], OldChannelIndex = stagingIdx, resNewPSKFP = NewPSKFP rec\<rparr> }) }) }) })) }"

text \<open>The resting state a requested target resumes from, and whether it counts as eligible.\<close>

definition retry_target :: "RotationTarget \<Rightarrow> RotationTarget" where
  "retry_target t =
     (if Phase t = PhaseFailedB \<or> Phase t = PhasePushingB then set_phase PhasePending [] t
      else if Phase t = PhaseFailedC \<or> Phase t = PhasePromotingC then set_phase PhaseHasNewPSK [] t else t)"

definition retry_eligible :: "RotationTarget \<Rightarrow> bool" where
  "retry_eligible t \<longleftrightarrow> Phase t \<in> {PhaseFailedB, PhasePushingB, PhaseFailedC, PhasePromotingC, PhasePending, PhaseHasNewPSK}"

definition RetryRotation :: "env \<Rightarrow> string \<Rightarrow> nat \<Rightarrow> byte list \<Rightarrow> u32 list \<Rightarrow> unit fallible" where
  "RetryRotation e userID i newPSK wanted = do {
     g \<leftarrow> GetRotation e i;
     pass g (\<lambda>rec. do {
       k \<leftarrow> (if newPSK \<noteq> [] then ok newPSK
         else do {
           s \<leftarrow> GetRotationPSK e i;
           check ''fetch stored psk'' s (\<lambda>stored. if stored = []
             then fail (ErrText ''no PSK supplied and none stored for this rotation (already fully acked, or pre-dates migration 000026)'')
             else ok stored) });
       pass k (\<lambda>psk.
         (case ValidatePSK psk of
            Some err \<Rightarrow> fail (KeyErr err)
          | None \<Rightarrow>
            if Fingerprint psk \<noteq> NewPSKFP rec then fail (ErrText ''supplied PSK does not match this rotation's recorded fingerprint'')
            else (case ChannelIndex rec of
              None \<Rightarrow> fail (ErrText ''rotation has no channel index (not a PSK rotation?)'')
            | Some ci \<Rightarrow>
              (let hit = (\<lambda>t. NodeNum t \<in> set wanted);
                   current = map (\<lambda>t. if hit t then retry_target t else t) (Targets rec) in
               if \<not> list_ex (\<lambda>t. hit t \<and> retry_eligible t) (Targets rec)
               then fail (ErrText ''no eligible targets matched the retry list (already done or unknown node-num)'')
               else do {
                 u \<leftarrow> UpdateRotationTargets e i current None;
                 check ''persist retry target reset'' u (\<lambda>_. do {
                   q \<leftarrow> Enqueue_job e KindRotatePhaseA (Some i) None PhaseAPayload;
                   check ''enqueue phase A retry'' q (\<lambda>_. do {
                     _ \<leftarrow> auditFleet userID ''rotate_psk_retry'' ''channel'' (show_int ci)
                       [(''rotation_id'', DInt (int i)), (''target_count'', DInt (int (length wanted))), (''new_psk_fp'', DStr (NewPSKFP rec))];
                     ok () }) }) })))) }) }"

end
