(* ===== verification/FleetHandlers.thy ===== *)
theory FleetHandlers
  imports FleetRotation
begin

text \<open>
  The job handlers of \<open>internal/fleetsec/job_handlers.go\<close>, the recovery hook of \<open>recovery_hook.go\<close> that
  the dispatcher calls for every inbound packet, and the operator's requests about stranded nodes.
\<close>

text \<open>The separator of the notices, \<open>U+00B7\<close> between blanks, in UTF-8.\<close>

definition dot :: string where "dot = [CHR 0x20, CHR 0xC2, CHR 0xB7, CHR 0x20]"

section \<open>The recovery table\<close>

text \<open>Later rows of the listing overwrite earlier ones with the same hash.\<close>

definition hash_table :: "RecoveryPSKRecord list \<Rightarrow> byte \<rightharpoonup> string" where
  "hash_table recs = map_of (rev (map (\<lambda>r. (PSKHash r, FP r)) recs))"

definition RebuildHashTable :: "env \<Rightarrow> unit fallible" where
  "RebuildHashTable e = do {
     r \<leftarrow> ListRecoveryPSKs e;
     pass r (\<lambda>recs. do { _ \<leftarrow> State_Monad.update (\<lambda>w. w\<lparr>hashFP := hash_table recs\<rparr>); ok () }) }"

section \<open>Phase A\<close>

definition staging_slot :: "env \<Rightarrow> nat \<Rightarrow> RotationRecord \<Rightarrow> int \<Rightarrow> int fallible" where
  "staging_slot e i rec primarySlot = (case StagingChannelIndex rec of
      Some idx \<Rightarrow> ok idx
    | None \<Rightarrow>
        if primarySlot \<noteq> 0 \<and> primarySlot \<noteq> 1
        then fail (ErrText (''Pi PRIMARY at non-canonical slot '' @ show_int primarySlot @ '' (expected 0 or 1); run reset_node first''))
        else do {
          let idx = (if primarySlot = 0 then 1 else 0);
          _ \<leftarrow> SetStagingChannelIndex e i idx;
          _ \<leftarrow> broadcastNotice i (''Picked staging slot '' @ show_int idx @ '' (Pi PRIMARY at '' @ show_int primarySlot @ '')'');
          ok idx })"

definition stage_pi :: "env \<Rightarrow> nat \<Rightarrow> RotationRecord \<Rightarrow> int \<Rightarrow> byte list \<Rightarrow> unit fallible" where
  "stage_pi e i rec stagingIdx psk =
     (if PiPhase rec = PiPhasePending then do {
        _ \<leftarrow> broadcastNotice i (''Phase A'' @ dot @ ''staging new PSK on Pi at slot '' @ show_int stagingIdx);
        s \<leftarrow> applyLocalStagingChannel e stagingIdx psk;
        check ''phase A staging'' s (\<lambda>_. do { _ \<leftarrow> UpsertPiLocalPhase e i PiPhaseStagingAdded; ok () }) }
      else ok ())"

definition migrated :: "RotationTarget \<Rightarrow> bool" where
  "migrated t \<longleftrightarrow> Phase t = PhaseOnNewPSK \<or> Phase t = PhaseRetired"

definition node64 :: "u32 \<Rightarrow> int" where "node64 n = uint n"

fun enqueue_phaseB :: "env \<Rightarrow> nat \<Rightarrow> int \<Rightarrow> int \<Rightarrow> RotationTarget list \<Rightarrow> nat fallible" where
  "enqueue_phaseB e i stagingIdx primarySlot [] = ok 0"
| "enqueue_phaseB e i stagingIdx primarySlot (t # ts) =
     (if NodeNum t = LocalNodeNum e \<or> migrated t then enqueue_phaseB e i stagingIdx primarySlot ts
      else do {
        p \<leftarrow> HasPendingFor e KindRotatePhaseB (node64 (NodeNum t));
        (if p = Inr True then enqueue_phaseB e i stagingIdx primarySlot ts
         else do {
           q \<leftarrow> Enqueue_job e KindRotatePhaseB (Some i) (Some (node64 (NodeNum t))) (PhaseBPayload stagingIdx primarySlot (NodeNum t));
           check (''enqueue phase B for !'' @ show_08x (NodeNum t)) q (\<lambda>_. do {
             r \<leftarrow> enqueue_phaseB e i stagingIdx primarySlot ts;
             pass r (\<lambda>k. ok (Suc k)) }) }) })"

definition staged_channel :: "RotationRecord \<Rightarrow> nat \<Rightarrow> byte list \<Rightarrow> int \<Rightarrow> ChannelRecord" where
  "staged_channel rec i psk t =
     \<lparr>cIndex = given 0 (ChannelIndex rec), cName = [], cRole = ChannelRoleUnset, PSKFingerprint = nullif (Fingerprint psk),
      cPSKLength = (if psk = [] then None else Some (length psk)), LastRotatedAt = Some t, LastRotatedBy = nullif (StartedBy rec),
      LastRotationID = Some i\<rparr>"

definition phaseA_Run :: handler where
  "phaseA_Run e job = (case jRotationID job of
      None \<Rightarrow> fail (ErrText ''phase A job missing rotation_id'')
    | Some i \<Rightarrow> do {
        g \<leftarrow> GetRotation e i;
        check ''fetch rotation'' g (\<lambda>rec. do {
          k \<leftarrow> GetRotationPSK e i;
          check ''fetch rotation psk'' k (\<lambda>psk.
            if psk = [] then fail (ErrText ''rotation has no stored PSK (already cleared?)'')
            else do {
              pr \<leftarrow> probeSlotsLocal e;
              check ''probe Pi slots'' pr (\<lambda>(_, primarySlot). do {
                s \<leftarrow> staging_slot e i rec primarySlot;
                pass s (\<lambda>stagingIdx. do {
                  st \<leftarrow> stage_pi e i rec stagingIdx psk;
                  pass st (\<lambda>_. do {
                    t \<leftarrow> now e;
                    _ \<leftarrow> UpsertChannel e (staged_channel rec i psk t);
                    q \<leftarrow> enqueue_phaseB e i stagingIdx primarySlot (Targets rec);
                    pass q (\<lambda>n. do {
                      _ \<leftarrow> broadcastNotice i (''Phase A done'' @ dot @ show_nat n @ '' Phase B job(s) queued'');
                      ok () }) }) }) }) }) }) })"

section \<open>Phase B\<close>

text \<open>\<open>json.Unmarshal\<close> into the payload structs; missing members stay zero.\<close>

fun decode_phaseB :: "Payload \<Rightarrow> int \<times> int \<times> u32" where
  "decode_phaseB (PhaseBPayload stagingIdx oldSlot n) = (stagingIdx, oldSlot, n)"
| "decode_phaseB (PhaseCPayload stagingIdx) = (stagingIdx, 0, 0)"
| "decode_phaseB _ = (0, 0, 0)"

fun decode_phaseC :: "Payload \<Rightarrow> int" where
  "decode_phaseC (PhaseCPayload stagingIdx) = stagingIdx"
| "decode_phaseC (PhaseBPayload stagingIdx _ _) = stagingIdx"
| "decode_phaseC _ = 0"

fun decode_recover :: "Payload \<Rightarrow> u32 \<times> string" where
  "decode_recover (RecoverStrandedPayload n fp _) = (n, fp)"
| "decode_recover _ = (0, [])"

definition all_remotes_done :: "u32 \<Rightarrow> RotationTarget list \<Rightarrow> bool" where
  "all_remotes_done local ts = list_all (\<lambda>t. NodeNum t = local \<or> migrated t) ts"

text \<open>What follows a verified migration.\<close>

definition phaseB_migrated :: "env \<Rightarrow> nat \<Rightarrow> RotationTarget list \<Rightarrow> u32 \<Rightarrow> string \<Rightarrow> unit fallible" where
  "phaseB_migrated e i current n fp = do {
     current \<leftarrow> transitionTarget e i current n PhaseOnNewPSK [];
     _ \<leftarrow> MarkTrustVerifiedNow e n VerifyMethodRemotePKC;
     _ \<leftarrow> SetNodeCurrentPSKFP e n fp;
     _ \<leftarrow> broadcastNotice i (''Phase B done'' @ dot @ ''!'' @ show_08x n @ '' on new PSK'');
     _ \<leftarrow> (if all_remotes_done (LocalNodeNum e) current then do {
            t \<leftarrow> now e;
            _ \<leftarrow> UpdateRotationTargets e i current (Some t);
            emit (Progress i current True) }
          else return ());
     ok () }"

definition phaseB_Run :: handler where
  "phaseB_Run e job = (case jRotationID job of
      None \<Rightarrow> fail (ErrText ''phase B job missing rotation_id'')
    | Some i \<Rightarrow> (case decode_phaseB (jPayload job) of (stagingIdx, oldSlot, n) \<Rightarrow>
        if n = 0 then fail (ErrText ''phase B targetNodeNum must be non-zero'')
        else do {
          k \<leftarrow> GetRotationPSK e i;
          check ''fetch rotation psk'' k (\<lambda>psk.
            if psk = [] then fail (ErrText ''rotation has no stored PSK'')
            else do {
              g \<leftarrow> GetRotation e i;
              check ''fetch rotation'' g (\<lambda>rec.
                (case find (\<lambda>t. NodeNum t = n) (Targets rec) of
                   None \<Rightarrow> fail (ErrText (''target '' @ show_x n @ '' not found in rotation row''))
                 | Some t \<Rightarrow>
                   if migrated t then ok ()
                   else do {
                     _ \<leftarrow> IncrementTargetAttempts e i n;
                     current \<leftarrow> transitionTarget e i (Targets rec) n PhasePushingB [];
                     _ \<leftarrow> broadcastNotice i (''Phase B'' @ dot @ ''atomic migrate of !'' @ show_08x n);
                     m \<leftarrow> migrateRemoteAtomic e n stagingIdx oldSlot psk;
                     (case m of
                        Inl err \<Rightarrow> do {
                          _ \<leftarrow> transitionTarget e i current n PhaseFailedB (Error err);
                          _ \<leftarrow> broadcastNotice i (''Phase B failed for !'' @ show_08x n);
                          fail (Wrap ''phase B atomic migrate'' err) }
                      | Inr _ \<Rightarrow> phaseB_migrated e i current n (Fingerprint psk)) })) }) }))"

section \<open>Phase C\<close>

fun find_old_primary :: "env \<Rightarrow> string \<Rightarrow> int list \<Rightarrow> (int \<times> byte list) option fleet" where
  "find_old_primary e fp [] = return None"
| "find_old_primary e fp (idx # rest) = do {
     r \<leftarrow> readLocalChannel e idx;
     (case r of
        Inl _ \<Rightarrow> find_old_primary e fp rest
      | Inr ch \<Rightarrow>
          if chRole ch = ChannelRolePrimary \<and> Fingerprint (channel_psk ch) \<noteq> fp then return (Some (idx, channel_psk ch))
          else find_old_primary e fp rest) }"

definition cache_old_psk :: "env \<Rightarrow> nat \<Rightarrow> byte list \<Rightarrow> int fleet" where
  "cache_old_psk e i oldPSK =
     (if oldPSK = [] then return (- 1)
      else do {
        r \<leftarrow> AddRecoveryPSK e (Fingerprint oldPSK) oldPSK (ChannelHash [] oldPSK) (Some i);
        return (case r of Inl _ \<Rightarrow> - 1 | Inr slot \<Rightarrow> int slot) })"

fun mark_stranded :: "env \<Rightarrow> string \<Rightarrow> RotationTarget list \<Rightarrow> unit fleet" where
  "mark_stranded e fp [] = return ()"
| "mark_stranded e fp (t # ts) =
     (if NodeNum t = LocalNodeNum e \<or> migrated t then mark_stranded e fp ts
      else do { _ \<leftarrow> MarkStranded e (NodeNum t) fp; mark_stranded e fp ts })"

definition promote_local :: "u32 \<Rightarrow> RotationTarget list \<Rightarrow> RotationTarget list" where
  "promote_local local ts = (case update_first (\<lambda>t. NodeNum t = local) (set_phase PhaseOnNewPSK []) ts of None \<Rightarrow> ts | Some ts' \<Rightarrow> ts')"

text \<open>What follows the promotion of the local radio.\<close>

definition phaseC_promoted :: "env \<Rightarrow> nat \<Rightarrow> RotationTarget list \<Rightarrow> int \<Rightarrow> string \<Rightarrow> unit fallible" where
  "phaseC_promoted e i current oldSlot oldFP = do {
     t \<leftarrow> now e;
     _ \<leftarrow> UpdateRotationTargets e i current (Some t);
     _ \<leftarrow> MarkTrustVerifiedNow e (LocalNodeNum e) VerifyMethodLocalUSB;
     m \<leftarrow> MarkRotationRetired e i;
     check ''mark retired'' m (\<lambda>_. do {
       _ \<leftarrow> mark_stranded e oldFP current;
       _ \<leftarrow> ClearRotationPSK e i;
       _ \<leftarrow> RebuildHashTable e;
       _ \<leftarrow> broadcastNotice i (''Phase C done'' @ dot @ ''Pi on new PSK'' @ dot @ ''old slot '' @ show_int oldSlot @ '' wiped fleet-wide'');
       ok () }) }"

definition phaseC_Run :: handler where
  "phaseC_Run e job = (case jRotationID job of
      None \<Rightarrow> fail (ErrText ''phase C job missing rotation_id'')
    | Some i \<Rightarrow> do {
        let stagingIdx = decode_phaseC (jPayload job);
        g \<leftarrow> GetRotation e i;
        check ''fetch rotation'' g (\<lambda>rec.
          if RetiredAt rec \<noteq> None \<or> PiPhase rec = PiPhaseRetired then ok ()
          else do {
            old \<leftarrow> find_old_primary e (NewPSKFP rec) slots;
            (case old of
               None \<Rightarrow> MarkRotationRetired e i
             | Some (oldSlot, oldPSK) \<Rightarrow> do {
                 k \<leftarrow> GetRotationPSK e i;
                 check ''fetch rotation psk'' k (\<lambda>psk.
                   if psk = [] then fail (ErrText ''rotation has no stored PSK; cannot promote Pi without it'')
                   else do {
                     recoverySlot \<leftarrow> cache_old_psk e i oldPSK;
                     _ \<leftarrow> broadcastNotice i (''Phase C'' @ dot @ ''Pi atomic promote slot '' @ show_int stagingIdx @ '', wipe slot '' @ show_int oldSlot @
                       '', cache old at slot '' @ show_int recoverySlot);
                     m \<leftarrow> migratePiAtomicWithRecovery e stagingIdx oldSlot psk recoverySlot oldPSK;
                     check ''Pi atomic migrate'' m (\<lambda>_.
                       phaseC_promoted e i (promote_local (LocalNodeNum e) (Targets rec)) oldSlot (Fingerprint oldPSK)) }) }) }) })"

section \<open>Recovery of stranded nodes\<close>

definition probeAttempts :: nat where "probeAttempts = 5"

fun probe_retry :: "env \<Rightarrow> nat \<Rightarrow> (fleet_error + int) fallible" where
  "probe_retry e 0 = ok (Inl (ErrText ''no attempt''))"
| "probe_retry e (Suc k) = do {
     r \<leftarrow> probeSlotsLocal e;
     (case r of
        Inr (_, primary) \<Rightarrow> ok (Inr primary)
      | Inl err \<Rightarrow>
          if k = 0 then ok (Inl err)
          else do { c \<leftarrow> ctx_done e; (if c then fail ContextDone else probe_retry e k) }) }"

definition recovered :: "env \<Rightarrow> u32 \<Rightarrow> string \<Rightarrow> unit fallible" where
  "recovered e n fp = do {
     _ \<leftarrow> MarkTrustVerifiedNow e n VerifyMethodRemotePKC;
     _ \<leftarrow> SetNodeCurrentPSKFP e n fp;
     _ \<leftarrow> ClearStranded e n;
     ok () }"

definition give_up :: "env \<Rightarrow> u32 \<Rightarrow> string \<Rightarrow> fleet_error \<Rightarrow> unit fallible" where
  "give_up e n why err = do { _ \<leftarrow> IncrementRecoveryAttempt e n why; fail err }"

definition recoverStranded_Run :: handler where
  "recoverStranded_Run e job = (case decode_recover (jPayload job) of (n, prevFP) \<Rightarrow>
     if n = 0 then fail (ErrText ''recover-stranded payload missing nodeNum'')
     else if prevFP = [] then fail (ErrText ''recover-stranded payload missing prevPskFp'')
     else do {
       c \<leftarrow> GetRecoveryPSKByFP e prevFP;
       (case c of
          Inl _ \<Rightarrow> give_up e n ''prev psk evicted from recovery cache; manual USB recovery required''
            (ErrText (''recovery psk for fp='' @ prevFP @ '' not in cache (evicted)''))
        | Inr _ \<Rightarrow> do {
            pr \<leftarrow> probe_retry e probeAttempts;
            pass pr (\<lambda>probe. case probe of
              Inl err \<Rightarrow> give_up e n (''probe Pi after retries: '' @ Error err) (Wrap ''probe Pi slots after 5 attempts'' err)
            | Inr primarySlot \<Rightarrow>
              if primarySlot < 0 \<or> primarySlot > 1
              then give_up e n (''Pi PRIMARY at non-canonical slot '' @ show_int primarySlot)
                     (ErrText (''Pi PRIMARY at non-canonical slot '' @ show_int primarySlot))
              else do {
                r \<leftarrow> readLocalChannel e primarySlot;
                (case r of
                   Inl err \<Rightarrow> give_up e n (''read Pi PRIMARY: '' @ Error err) (Wrap (''read Pi PRIMARY slot '' @ show_int primarySlot) err)
                 | Inr ch \<Rightarrow> (let newPSK = channel_psk ch in
                     if newPSK = [] then give_up e n ''Pi PRIMARY has no PSK material'' (ErrText ''Pi PRIMARY has no PSK material; cannot recover'')
                     else if Fingerprint newPSK = prevFP then do { _ \<leftarrow> ClearStranded e n; ok () }
                     else do {
                       m \<leftarrow> migrateRemoteAtomic e n (if primarySlot = 1 then 0 else 1) primarySlot newPSK;
                       (case m of
                          Inl err \<Rightarrow> give_up e n (Error err) (Wrap ''recover-stranded migrate'' err)
                        | Inr _ \<Rightarrow> recovered e n (Fingerprint newPSK)) })) }) }) })"

definition RegisterJobHandlers :: "Loop \<Rightarrow> Loop" where
  "RegisterJobHandlers l =
     Register (Register (Register (Register l KindRotatePhaseA phaseA_Run) KindRotatePhaseB phaseB_Run)
       KindRotatePhaseC phaseC_Run) KindRecoverStrand recoverStranded_Run"

section \<open>The dispatcher hook\<close>

definition hook_cooldown :: int where "hook_cooldown = 30 * 10 ^ 9"

text \<open>The critical section of the cooldown: whether the packet may go on.\<close>

definition cool :: "env \<Rightarrow> u32 \<Rightarrow> bool fleet" where
  "cool e from = do {
     w \<leftarrow> State_Monad.get;
     hot \<leftarrow> (case cooldown w from of
         None \<Rightarrow> return False
       | Some prev \<Rightarrow> do { t \<leftarrow> now e; return (t - prev < hook_cooldown) });
     (if hot then return False
      else do {
        t \<leftarrow> now e;
        _ \<leftarrow> State_Monad.update (\<lambda>w. w\<lparr>cooldown := (cooldown w)(from \<mapsto> t)\<rparr>);
        return True }) }"

definition ObserveInbound :: "env \<Rightarrow> u32 \<Rightarrow> byte \<Rightarrow> unit fleet" where
  "ObserveInbound e from channelHash = do {
     w \<leftarrow> State_Monad.get;
     (case hashFP w channelHash of
        None \<Rightarrow> return ()
      | Some fp \<Rightarrow> do {
          go \<leftarrow> cool e from;
          (if \<not> go then return ()
           else do {
             tr \<leftarrow> GetNodeTrust e from;
             (case tr of
                Inl _ \<Rightarrow> return ()
              | Inr trust \<Rightarrow>
                  if StrandedSince trust = None then return ()
                  else do {
                    let fp = (if unnull (PreviousPSKFP trust) \<noteq> [] then unnull (PreviousPSKFP trust) else fp);
                    p \<leftarrow> HasPendingFor e KindRecoverStrand (node64 from);
                    (if p \<noteq> Inr False then return ()
                     else do {
                       _ \<leftarrow> Enqueue_job e KindRecoverStrand None (Some (node64 from)) (RecoverStrandedPayload from fp ''dispatcher'');
                       return () }) }) }) }) }"

definition ForceRecoverStranded :: "env \<Rightarrow> u32 \<Rightarrow> nat fallible" where
  "ForceRecoverStranded e n = do {
     tr \<leftarrow> GetNodeTrust e n;
     pass tr (\<lambda>trust.
       if StrandedSince trust = None then fail (ErrText (''node '' @ show_nat (unat n) @ '' is not flagged stranded''))
       else if unnull (PreviousPSKFP trust) = []
       then fail (ErrText (''node '' @ show_nat (unat n) @ '' has no previous_psk_fp; cannot pick recovery slot''))
       else do {
         p \<leftarrow> HasPendingFor e KindRecoverStrand (node64 n);
         pass p (\<lambda>pending.
           if pending then fail (ErrText (''recover_stranded job already pending for node '' @ show_nat (unat n)))
           else do {
             q \<leftarrow> Enqueue_job e KindRecoverStrand None (Some (node64 n)) (RecoverStrandedPayload n (unnull (PreviousPSKFP trust)) ''manual'');
             pass q (\<lambda>i. do {
               _ \<leftarrow> auditFleet [] ''force_recover_stranded'' ''node'' (show_nat (unat n))
                 [(''prev_psk_fp'', DStr (unnull (PreviousPSKFP trust))), (''job_id'', DInt (int i))];
               ok i }) }) }) }"

definition CancelStranded :: "env \<Rightarrow> string \<Rightarrow> u32 \<Rightarrow> unit fallible" where
  "CancelStranded e userID n = do {
     c \<leftarrow> ClearStranded e n;
     pass c (\<lambda>_. do {
       u \<leftarrow> update_trust e n (\<lambda>t r. r\<lparr>PreviousPSKFP := None, LastRecoveryError := Some ''operator: stop trying''\<rparr>);
       check ''wipe previous_psk_fp'' u (\<lambda>_. do {
         _ \<leftarrow> auditFleet userID ''cancel_stranded'' ''node'' (show_nat (unat n)) [];
         ok () }) }) }"

end
