(* ===== verification/FleetLogic.thy ===== *)
theory FleetLogic
  imports FleetHandlers
begin

text \<open>
  Reasoning about the operations of the fleet-security service. \<open>db_up\<close> says that no database
  statement fails; under it every store operation has an equation. For arbitrary environments the
  locale \<open>world_relation\<close> carries a reflexive and transitive relation between worlds through the
  monad, and through everything that only talks to the radio.
\<close>

section \<open>Equations without database errors\<close>

definition db_up :: "env \<Rightarrow> bool" where
  "db_up e \<longleftrightarrow> (\<forall>t. db_err e t = None)"

definition tick :: "world \<Rightarrow> world" where
  "tick w = w\<lparr>ticks := Suc (ticks w)\<rparr>"

lemma tick_simps [simp]:
  "ticks (tick w) = Suc (ticks w)" "nodes_tab (tick w) = nodes_tab w" "idents (tick w) = idents w" "trust_tab (tick w) = trust_tab w"
  "channels_tab (tick w) = channels_tab w" "rotations (tick w) = rotations w" "recovery_psks (tick w) = recovery_psks w"
  "jobs_tab (tick w) = jobs_tab w" "policy (tick w) = policy w" "next_id (tick w) = next_id w"
  "sessionPasskeys (tick w) = sessionPasskeys w" "hashFP (tick w) = hashFP w" "cooldown (tick w) = cooldown w" "outbox (tick w) = outbox w"
  by (simp_all add: tick_def)

lemma run_db [simp]:
  assumes "db_up e"
  shows "run_state (db e f) w = (case f (ticks w) (tick w) of (x, w') \<Rightarrow> (Inr x, w'))"
    "run_state (db_exec e g) w = (Inr (), g (ticks w) (tick w))"
    "run_state (query e q) w = (Inr (q (tick w)), tick w)"
    "run_state (db_checked e h) w = h (ticks w) (tick w)"
  using assms by (simp_all add: db_up_def db_def db_exec_def query_def db_checked_def tick_def)

lemma run_tx [simp]:
  assumes "db_up e"
  shows "run_state (begin_tx e) w = (Inr (now_at e (ticks w)), tick w)" "run_state (commit_tx e) w = (Inr (), tick w)"
  using assms by (simp_all add: begin_tx_def commit_tx_def)

lemma run_in_tx [simp]:
  "run_state (in_tx m) w = (case run_state m w of (Inl err, w') \<Rightarrow> (Inl err, w\<lparr>ticks := ticks w'\<rparr>) | (Inr x, w') \<Rightarrow> (Inr x, w'))"
  by (simp add: in_tx_def)

lemma run_update [simp]: "run_state (State_Monad.update f) w = ((), f w)"
  by (simp add: State_Monad.update_def)

lemma run_now_tick: "run_state (now e) w = (now_at e (ticks w), tick w)"
  by (simp add: tick_def)

lemma run_ctx_done_tick: "run_state (ctx_done e) w = (cancel_at e (ticks w), tick w)"
  by (simp add: tick_def)

lemmas run_simps = run_now_tick run_ctx_done_tick

declare run_now [simp del] run_ctx_done [simp del]
declare run_now_tick [simp] run_ctx_done_tick [simp]

lemma fetch_ticks [simp]:
  "rotation (w\<lparr>ticks := k\<rparr>) = rotation w" "trust_row (w\<lparr>ticks := k\<rparr>) = trust_row w"
  "rotation (tick w) = rotation w" "trust_row (tick w) = trust_row w" "joined (tick w) = joined w" "queued (tick w) = queued w"
  by (auto simp: rotation_def trust_row_def joined_def queued_def fun_eq_iff)

subsection \<open>Rows\<close>

lemma find_update_where:
  assumes "\<And>r. q (f r) = q r"
  shows "find q (update_where p f rows) = map_option (\<lambda>r. if p r then f r else r) (find q rows)"
  using assms by (induction rows) (auto simp: update_where_def)

lemma set_update_where: "set (update_where p f rows) = (\<lambda>r. if p r then f r else r) ` set rows"
  by (simp add: update_where_def)

lemma map_update_where:
  assumes "\<And>r. g (f r) = g r"
  shows "map g (update_where p f rows) = map g rows"
  using assms by (simp add: update_where_def)

lemma filter_update_where:
  assumes "\<And>r. r \<in> set rows \<Longrightarrow> p r \<Longrightarrow> \<not> q r \<and> \<not> q (f r)"
  shows "filter q (update_where p f rows) = filter q rows"
  using assms by (induction rows) (auto simp: update_where_def)

lemma oldest_SomeD:
  assumes "oldest i key rows = Some r"
  shows "r \<in> set rows" "\<forall>r'\<in>set rows. key r \<le> key r'"
proof -
  let ?c = "filter (\<lambda>r. list_all (\<lambda>r'. key r \<le> key r') rows) rows"
  have ne: "rows \<noteq> []" using assms by (auto simp: oldest_def)
  then obtain m where "m \<in> set rows" "\<forall>r'\<in>set rows. key m \<le> key r'"
    using arg_min_if_finite [of "set rows" key] by (metis finite_set set_empty2 not_le)
  then have "?c \<noteq> []" by (auto simp: filter_empty_conv list_all_iff)
  then have "?c ! (i mod length ?c) \<in> set ?c" by (intro nth_mem) simp
  moreover have "r = ?c ! (i mod length ?c)" using assms ne by (simp add: oldest_def Let_def)
  ultimately have "r \<in> set ?c" by (simp only:)
  then show "r \<in> set rows" "\<forall>r'\<in>set rows. key r \<le> key r'" by (auto simp: list_all_iff)
qed

lemma oldest_None_iff [simp]: "oldest i key rows = None \<longleftrightarrow> rows = []"
  by (simp add: oldest_def Let_def)

section \<open>Relations between worlds\<close>

locale world_relation =
  fixes R :: "world \<Rightarrow> world \<Rightarrow> bool"
  assumes refl: "R w w"
    and trans: "R u v \<Longrightarrow> R v w \<Longrightarrow> R u w"
begin

lemma rel_return [intro!]: "state_io_rel R (return x)"
  by (simp add: state_io_rel_def refl)

lemma rel_get [intro!]: "state_io_rel R State_Monad.get"
  by (simp add: state_io_rel_def refl)

lemma rel_bind [intro!]:
  assumes "state_io_rel R m" "\<And>x. state_io_rel R (f x)"
  shows "state_io_rel R (m \<bind> f)"
  using assms trans by (auto simp: state_io_rel_def split: prod.splits) (metis snd_conv)

lemma rel_pass [intro!]: "(\<And>x. state_io_rel R (k x)) \<Longrightarrow> state_io_rel R (pass r k)"
  by (cases r) auto

lemma rel_check [intro!]: "(\<And>x. state_io_rel R (k x)) \<Longrightarrow> state_io_rel R (check msg r k)"
  by (cases r) auto

lemma rel_if [intro!]: "(c \<Longrightarrow> state_io_rel R a) \<Longrightarrow> (\<not> c \<Longrightarrow> state_io_rel R b) \<Longrightarrow> state_io_rel R (if c then a else b)"
  by simp

lemma rel_option [intro!]: "state_io_rel R a \<Longrightarrow> (\<And>y. state_io_rel R (f y)) \<Longrightarrow> state_io_rel R (case x of None \<Rightarrow> a | Some y \<Rightarrow> f y)"
  by (cases x) auto

lemma rel_sum [intro!]: "(\<And>y. state_io_rel R (f y)) \<Longrightarrow> (\<And>y. state_io_rel R (g y)) \<Longrightarrow> state_io_rel R (case x of Inl y \<Rightarrow> f y | Inr y \<Rightarrow> g y)"
  by (cases x) auto

lemma rel_prod [intro!]: "(\<And>y z. state_io_rel R (f y z)) \<Longrightarrow> state_io_rel R (case x of (y, z) \<Rightarrow> f y z)"
  by (cases x) auto

lemma rel_let [intro!]: "state_io_rel R (f x) \<Longrightarrow> state_io_rel R (let y = x in f y)"
  by simp

lemma rel_update: "(\<And>w. R w (f w)) \<Longrightarrow> state_io_rel R (State_Monad.update f)"
  by (simp add: state_io_rel_def)

end

text \<open>A relation that does not look at the clock, the radio traffic or the session keys.\<close>

locale table_relation = world_relation +
  assumes ignores_ticks: "R w (w\<lparr>ticks := k\<rparr>)"
    and ignores_outbox: "R w (w\<lparr>outbox := evs\<rparr>)"
    and ignores_passkeys: "R w (w\<lparr>sessionPasskeys := m\<rparr>)"
begin

lemma after_tick: "R (w\<lparr>ticks := k\<rparr>) v \<Longrightarrow> R w v"
  using trans ignores_ticks by blast

lemma rel_query [intro!]: "state_io_rel R (query e q)"
  by (auto simp: state_io_rel_def query_def db_def ignores_ticks split: option.splits)

lemma rel_now [intro!]: "state_io_rel R (now e)"
  by (auto simp: state_io_rel_def now_def ignores_ticks)

lemma rel_ctx_done [intro!]: "state_io_rel R (ctx_done e)"
  by (auto simp: state_io_rel_def ctx_done_def ignores_ticks)

lemma rel_emit [intro!]: "state_io_rel R (emit ev)"
  by (simp add: state_io_rel_def ignores_outbox)

lemma rel_db_exec: "(\<And>t w. R w (f t w)) \<Longrightarrow> state_io_rel R (db_exec e f)"
  by (auto simp: state_io_rel_def db_exec_def db_def ignores_ticks split: option.splits intro: after_tick)

lemma rel_db: "(\<And>t w. R w (snd (f t w))) \<Longrightarrow> state_io_rel R (db e f)"
  by (auto simp: state_io_rel_def db_def ignores_ticks split: option.splits prod.splits) (metis after_tick snd_conv)

lemma rel_db_checked: "(\<And>t w. R w (snd (f t w))) \<Longrightarrow> state_io_rel R (db_checked e f)"
  by (auto simp: state_io_rel_def db_checked_def ignores_ticks split: option.splits intro: after_tick)

lemma rel_in_tx: "state_io_rel R m \<Longrightarrow> state_io_rel R (in_tx m)"
  by (auto simp: state_io_rel_def split: prod.splits sum.splits intro: ignores_ticks) (metis snd_conv)

lemma ignores_sent: "R w (w\<lparr>ticks := k, outbox := evs\<rparr>)"
  using ignores_outbox [of "w\<lparr>ticks := k\<rparr>"] by (rule after_tick)

lemma rel_transact [intro!]: "state_io_rel R (transact e n msg)"
  by (auto simp: state_io_rel_def transact_def ignores_ticks ignores_sent split: option.splits)

lemma rel_passkeys [intro!]: "state_io_rel R (cacheSessionPasskey n pk)" "state_io_rel R (invalidateSessionPasskey n)"
  by (auto simp: state_io_rel_def cacheSessionPasskey_def invalidateSessionPasskey_def ignores_passkeys refl)

lemma rel_with_passkey [intro!]: "state_io_rel R (with_passkey n msg)"
  unfolding with_passkey_def getSessionPasskey_def by auto

lemma rel_reply [intro!]:
  "state_io_rel R a \<Longrightarrow> state_io_rel R b \<Longrightarrow> state_io_rel R c \<Longrightarrow> state_io_rel R d \<Longrightarrow>
   state_io_rel R (case k of ReplyRoutingAck \<Rightarrow> a | ReplyAdminMsg \<Rightarrow> b | ReplyTimeout \<Rightarrow> c | ReplyCancelled \<Rightarrow> d)"
  by (cases k) auto

lemma rel_send_admin [intro!]: "state_io_rel R (send_admin e n msg kind)"
  unfolding send_admin_def by blast

lemma rel_runLocalAdmin [intro!]: "state_io_rel R (runLocalAdmin e msg kind)"
  unfolding runLocalAdmin_def by auto

lemma rel_runRemoteAdmin [intro!]: "state_io_rel R (runRemoteAdmin e n msg kind)"
  unfolding runRemoteAdmin_def by auto

lemma rel_fireAndForget [intro!]: "state_io_rel R (fireAndForgetRemoteAdmin e n msg)"
  unfolding fireAndForgetRemoteAdmin_def by auto

lemma rel_readLocalChannel [intro!]: "state_io_rel R (readLocalChannel e idx)"
  unfolding readLocalChannel_def by auto

lemma rel_probe_slots [intro!]: "state_io_rel R (probe_slots e idxs acc)"
proof (induction idxs arbitrary: acc)
  case (Cons idx rest)
  show ?case by (cases acc) (simp only: probe_slots.simps, intro rel_bind rel_runLocalAdmin Cons.IH)
qed auto

lemma rel_probeSlotsLocal [intro!]: "state_io_rel R (probeSlotsLocal e)"
  unfolding probeSlotsLocal_def by auto

lemma rel_probe_retry [intro!]: "state_io_rel R (probe_retry e k)"
  by (induction k) (auto split: sum.splits)

lemma rel_commit_verify [intro!]: "state_io_rel R (commit_verify e n idx fp deadline k lastErr)"
  by (induction k arbitrary: lastErr) (auto split: option.splits)

lemma rel_migrateRemoteAtomic [intro!]: "state_io_rel R (migrateRemoteAtomic e n stagingIdx oldSlot psk)"
  unfolding migrateRemoteAtomic_def by (auto simp: split_def)

lemma rel_migratePi [intro!]: "state_io_rel R (migratePiAtomicWithRecovery e s d psk rs rpsk)"
  unfolding migratePiAtomicWithRecovery_def by auto

lemma rel_applyLocalStaging [intro!]: "state_io_rel R (applyLocalStagingChannel e idx psk)"
  unfolding applyLocalStagingChannel_def by auto

lemma rel_find_old_primary [intro!]: "state_io_rel R (find_old_primary e fp idxs)"
  by (induction idxs) (auto split: sum.splits)

lemma rel_notice [intro!]: "state_io_rel R (broadcastNotice i msg)"
  unfolding broadcastNotice_def by auto

lemma rel_audit [intro!]: "state_io_rel R (auditFleet u a r i d)"
  unfolding auditFleet_def by auto

end

text \<open>A relation that looks at nothing the handlers write but the jobs table.\<close>

locale handler_relation = table_relation +
  assumes ignores_trust: "R w (w\<lparr>trust_tab := x1\<rparr>)"
    and ignores_rotations: "R w (w\<lparr>rotations := x2\<rparr>)"
    and ignores_channels: "R w (w\<lparr>channels_tab := x3\<rparr>)"
    and ignores_recovery: "R w (w\<lparr>recovery_psks := x4\<rparr>)"
    and ignores_hashes: "R w (w\<lparr>hashFP := x5\<rparr>)"
begin

lemma rel_update_trust [intro!]: "state_io_rel R (update_trust e n f)"
  unfolding update_trust_def by (rule rel_db_exec) (rule ignores_trust)

lemma rel_upsert_trust [intro!]: "state_io_rel R (upsert_trust e n new f)"
  unfolding upsert_trust_def by (rule rel_db_checked) (simp add: ignores_trust refl)

lemma rel_update_rotation [intro!]: "state_io_rel R (update_rotation e i f)"
  unfolding update_rotation_def by (rule rel_db_exec) (rule ignores_rotations)

lemma rel_reads [intro!]:
  "state_io_rel R (GetRotation e i)" "state_io_rel R (GetRotationPSK e i)" "state_io_rel R (GetNodeTrust e n)"
  "state_io_rel R (GetRecoveryPSKByFP e fp)" "state_io_rel R (ListRecoveryPSKs e)" "state_io_rel R (HasPendingFor e kind m)"
  unfolding GetRotation_def GetRotationPSK_def GetNodeTrust_def GetRecoveryPSKByFP_def ListRecoveryPSKs_def HasPendingFor_def
  by blast+

lemma rel_trust_writes [intro!]:
  "state_io_rel R (MarkTrustVerifiedNow e n m)" "state_io_rel R (SetNodeCurrentPSKFP e n fp)" "state_io_rel R (MarkStranded e n fp)"
  "state_io_rel R (ClearStranded e n)" "state_io_rel R (IncrementRecoveryAttempt e n err)"
  unfolding MarkTrustVerifiedNow_def SetNodeCurrentPSKFP_def MarkStranded_def ClearStranded_def IncrementRecoveryAttempt_def
  by blast+

lemma rel_rotation_writes [intro!]:
  "state_io_rel R (UpdateRotationTargets e i ts c)" "state_io_rel R (UpsertPiLocalPhase e i ph)"
  "state_io_rel R (SetStagingChannelIndex e i idx)" "state_io_rel R (MarkRotationRetired e i)" "state_io_rel R (ClearRotationPSK e i)"
  unfolding UpdateRotationTargets_def UpsertPiLocalPhase_def SetStagingChannelIndex_def MarkRotationRetired_def ClearRotationPSK_def
  by blast+

lemma rel_target_writes [intro!]:
  "state_io_rel R (UpdateTargetPhase e i n ph err)" "state_io_rel R (IncrementTargetAttempts e i n)"
  unfolding UpdateTargetPhase_def IncrementTargetAttempts_def by blast+

lemma rel_transitionTarget [intro!]: "state_io_rel R (transitionTarget e i current n ph err)"
  unfolding transitionTarget_def persistAndBroadcast_def Let_def by blast

lemma rel_UpsertChannel [intro!]: "state_io_rel R (UpsertChannel e r)"
  unfolding UpsertChannel_def by (intro rel_bind rel_db_exec rel_check ignores_channels rel_return)

lemma rel_AddRecoveryPSK [intro!]: "state_io_rel R (AddRecoveryPSK e fp psk h rot)"
  unfolding AddRecoveryPSK_def begin_tx_def commit_tx_def
  by (intro rel_if rel_return rel_in_tx rel_bind rel_check rel_pass rel_query rel_option rel_db_exec rel_db ignores_recovery refl)
    (simp_all add: refl)

lemma rel_RebuildHashTable [intro!]: "state_io_rel R (RebuildHashTable e)"
  unfolding RebuildHashTable_def
  by (intro rel_bind rel_reads rel_pass rel_update ignores_hashes rel_return)

lemma rel_mark_stranded [intro!]: "state_io_rel R (mark_stranded e fp ts)"
  by (induction ts) auto

lemma rel_phaseB_Run: "state_io_rel R (phaseB_Run e job)"
  unfolding phaseB_Run_def phaseB_migrated_def by blast

lemma rel_phaseC_Run: "state_io_rel R (phaseC_Run e job)"
  unfolding phaseC_Run_def phaseC_promoted_def cache_old_psk_def Let_def by blast

lemma rel_recoverStranded_Run: "state_io_rel R (recoverStranded_Run e job)"
  unfolding recoverStranded_Run_def give_up_def recovered_def Let_def by blast

lemma rel_enqueue_phaseB:
  assumes "\<And>i n p. state_io_rel R (Enqueue_job e KindRotatePhaseB i n p)"
  shows "state_io_rel R (enqueue_phaseB e i s p ts)"
  by (induction ts) (auto intro!: assms)

lemma rel_phaseA_Run:
  assumes "\<And>i n p. state_io_rel R (Enqueue_job e KindRotatePhaseB i n p)"
  shows "state_io_rel R (phaseA_Run e job)"
  unfolding phaseA_Run_def staging_slot_def stage_pi_def Let_def by (auto intro!: rel_enqueue_phaseB assms)

end

section \<open>A world and an environment for examples\<close>

text \<open>The empty database, and an environment in which statements succeed, the clock counts ticks, and
  every admin transaction times out.\<close>

definition world0 :: world where
  "world0 = \<lparr>ticks = 0, nodes_tab = [], idents = [], trust_tab = [], channels_tab = [], rotations = [], recovery_psks = [],
     jobs_tab = [], policy = \<lparr>ExpectedAdminKeyFPs = [], ExpectedIsManaged = False\<rparr>, next_id = 100, sessionPasskeys = Map.empty,
     hashFP = Map.empty, cooldown = Map.empty, outbox = []\<rparr>"

definition timeout_reply :: fleet_reply where
  "timeout_reply = \<lparr>rKind = ReplyTimeout, rFrom = 0, rRouting = None, rAdmin = None, rErr = Some TransactionTimeout\<rparr>"

definition admin_reply :: "u32 \<Rightarrow> reply_variant \<Rightarrow> fleet_reply" where
  "admin_reply n v = \<lparr>rKind = ReplyAdminMsg, rFrom = n, rRouting = None, rAdmin = Some \<lparr>replyVariant = v, replyPasskey = []\<rparr>, rErr = None\<rparr>"

definition env0 :: env where
  "env0 = \<lparr>db_err = (\<lambda>_. None), now_at = int, reply_at = (\<lambda>_ _ _. timeout_reply), link_err = (\<lambda>_ _ _. None),
     cancel_at = (\<lambda>_. False), pick = (\<lambda>_. 0), LocalNodeNum = 1\<rparr>"

lemma db_up_env0 [simp]: "db_up env0" "db_up (env0\<lparr>reply_at := f\<rparr>)"
  by (simp_all add: db_up_def env0_def)

end
