(* ===== verification/FleetJobProofs.thy ===== *)
theory FleetJobProofs
  imports FleetLogic
begin

text \<open>The job queue: what a round of the worker does, and what happens to jobs over time.\<close>

section \<open>What handlers add\<close>

text \<open>
  \<open>grows K w w'\<close>: the jobs of \<open>w\<close> are still there as they were, followed by new queued jobs of kinds in
  \<open>K\<close> with fresh ids.
\<close>

definition jobs_wf :: "world \<Rightarrow> bool" where
  "jobs_wf w \<longleftrightarrow> distinct (map jID (jobs_tab w)) \<and> (\<forall>j \<in> set (jobs_tab w). jID j < next_id w)"

definition new_job :: "Kind set \<Rightarrow> nat \<Rightarrow> nat \<Rightarrow> Job \<Rightarrow> bool" where
  "new_job K lo hi j \<longleftrightarrow> jState j = StateQueued \<and> Attempts j = 0 \<and> jKind j \<in> K \<and> lo \<le> jID j \<and> jID j < hi"

definition grows :: "Kind set \<Rightarrow> world \<Rightarrow> world \<Rightarrow> bool" where
  "grows K w w' \<longleftrightarrow> next_id w \<le> next_id w' \<and> (\<exists>new. jobs_tab w' = jobs_tab w @ new \<and> distinct (map jID new) \<and>
     (\<forall>j \<in> set new. new_job K (next_id w) (next_id w') j))"

lemma growsE:
  assumes "grows K w w'"
  obtains new where "jobs_tab w' = jobs_tab w @ new" "next_id w \<le> next_id w'" "distinct (map jID new)"
    "\<forall>j \<in> set new. new_job K (next_id w) (next_id w') j"
  using assms unfolding grows_def by blast

lemma grows_same: "jobs_tab w' = jobs_tab w \<Longrightarrow> next_id w' = next_id w \<Longrightarrow> grows K w w'"
  by (simp add: grows_def)

lemma grows_trans:
  assumes "grows K u v" "grows K v w"
  shows "grows K u w"
proof -
  obtain a where a: "jobs_tab v = jobs_tab u @ a" "next_id u \<le> next_id v" "distinct (map jID a)"
    "\<forall>j \<in> set a. new_job K (next_id u) (next_id v) j"
    using assms(1) by (rule growsE)
  obtain b where b: "jobs_tab w = jobs_tab v @ b" "next_id v \<le> next_id w" "distinct (map jID b)"
    "\<forall>j \<in> set b. new_job K (next_id v) (next_id w) j"
    using assms(2) by (rule growsE)
  have "distinct (map jID (a @ b))"
    using a(3,4) b(3,4) by (fastforce simp: distinct_append new_job_def)
  moreover have "\<forall>j \<in> set (a @ b). new_job K (next_id u) (next_id w) j"
    using a(2,4) b(2,4) by (fastforce simp: new_job_def)
  ultimately show ?thesis using a(1,2) b(1,2) unfolding grows_def by (metis append.assoc le_trans)
qed

interpretation grows: handler_relation "grows K" for K
  by unfold_locales (auto intro: grows_same grows_trans)

lemma grows_Enqueue: "kind \<in> K \<Longrightarrow> state_io_rel (grows K) (Enqueue_job e kind i n p)"
  unfolding Enqueue_job_def
  by (intro grows.rel_bind grows.rel_check grows.rel_return grows.rel_db)
    (auto simp: grows_def new_job_def)

text \<open>The handlers the service registers, and what each may enqueue.\<close>

fun enqueues :: "Kind \<Rightarrow> Kind set" where
  "enqueues KindRotatePhaseA = {KindRotatePhaseB}"
| "enqueues _ = {}"

definition fleet_loop :: "string \<Rightarrow> Loop" where
  "fleet_loop worker = RegisterJobHandlers (NewLoop worker)"

lemma fleet_loop_simps [simp]:
  "workerID (fleet_loop worker) = worker"
  "handlers (fleet_loop worker) KindRotatePhaseA = Some phaseA_Run" "handlers (fleet_loop worker) KindRotatePhaseB = Some phaseB_Run"
  "handlers (fleet_loop worker) KindRotatePhaseC = Some phaseC_Run" "handlers (fleet_loop worker) KindRecoverStrand = Some recoverStranded_Run"
  "handlers (fleet_loop worker) KindResetNode = None" "handlers (fleet_loop worker) KindScanForStrand = None"
  by (simp_all add: fleet_loop_def RegisterJobHandlers_def Register_def NewLoop_def)

lemma registered_handler_grows:
  assumes "handlers (fleet_loop worker) kind = Some h"
  shows "grows (enqueues kind) w (snd (run_state (h e job) w))"
  using assms grows.rel_phaseA_Run [of "{KindRotatePhaseB}" e job] grows.rel_phaseB_Run grows.rel_phaseC_Run grows.rel_recoverStranded_Run
  by (cases kind) (auto simp: state_io_rel_def grows_Enqueue [unfolded state_io_rel_def])

section \<open>One round of the worker\<close>

definition closed :: "State \<Rightarrow> string option \<Rightarrow> string \<Rightarrow> int \<Rightarrow> int \<Rightarrow> Job \<Rightarrow> Job" where
  "closed st err worker t0 t1 j = (lease worker t0 j)\<lparr>jState := st, jFinishedAt := Some t1, LastError := err\<rparr>"

definition leased :: "env \<Rightarrow> string \<Rightarrow> Job \<Rightarrow> world \<Rightarrow> world" where
  "leased e worker j w = tick (update_job (jID j)
     (\<lambda>r. (lease worker (now_at e (Suc (Suc (ticks w)))) r)\<lparr>jFinishedAt := None, LastError := None\<rparr>) (tick (tick (tick (tick w)))))"

lemma LeaseNext_up:
  assumes "db_up e" "queued w \<noteq> []"
  obtains j where "j \<in> set (queued w)" "\<forall>q \<in> set (queued w). EnqueuedAt j \<le> EnqueuedAt q"
    "run_state (LeaseNext e worker) w = (Inr (lease worker (now_at e (Suc (Suc (ticks w)))) j), leased e worker j w)"
proof -
  obtain j where j: "oldest (pick e (Suc (ticks w))) EnqueuedAt (queued w) = Some j"
    using assms(2) by (metis oldest_None_iff option.exhaust)
  then have "run_state (LeaseNext e worker) w = (Inr (lease worker (now_at e (Suc (Suc (ticks w)))) j), leased e worker j w)"
    using assms(1) by (simp add: LeaseNext_def leased_def)
  with oldest_SomeD [OF j] that show ?thesis by blast
qed

text \<open>What the handler of a job returns in a world; a kind without handler is an error.\<close>

definition handler_result :: "env \<Rightarrow> Loop \<Rightarrow> Job \<Rightarrow> world \<Rightarrow> (fleet_error + unit) \<times> world" where
  "handler_result e l j w = (case handlers l (jKind j) of
      None \<Rightarrow> (Inl (ErrText (''no handler registered for kind \"'' @ kind_text (jKind j) @ ''\"'')), w)
    | Some h \<Rightarrow> run_state (h e j) w)"

definition result_state :: "fleet_error + unit \<Rightarrow> State" where
  "result_state r = (case r of Inl _ \<Rightarrow> StateFailed | Inr _ \<Rightarrow> StateDone)"

definition result_error :: "fleet_error + unit \<Rightarrow> string option" where
  "result_error r = (case r of Inl err \<Rightarrow> Some (Error err) | Inr _ \<Rightarrow> None)"

lemma handler_result_grows:
  "grows (enqueues (jKind j)) w (snd (handler_result e (fleet_loop worker) j w))"
  by (auto simp: handler_result_def grows_same registered_handler_grows split: option.splits)

lemma dispatch_up:
  assumes "db_up e"
  shows "snd (run_state (dispatch e l j) w) = (case handler_result e l j w of (r, w') \<Rightarrow>
     update_job (jID j) (\<lambda>x. x\<lparr>jState := result_state r, jFinishedAt := Some (now_at e (ticks w')), LastError := result_error r\<rparr>)
       (tick (tick w')))"
  using assms
  by (auto simp: dispatch_def handler_result_def MarkFailed_def MarkDone_def result_state_def result_error_def
      split: option.splits sum.splits prod.splits)

lemma update_where_append: "update_where p f (xs @ ys) = update_where p f xs @ update_where p f ys"
  by (simp add: update_where_def)

lemma update_where_none: "(\<And>r. r \<in> set rows \<Longrightarrow> \<not> p r) \<Longrightarrow> update_where p f rows = rows"
  by (induction rows) (auto simp: update_where_def)

lemma update_where_again:
  "(\<And>r. p (g r) = p r) \<Longrightarrow> update_where p f (update_where p g rows) = update_where p (\<lambda>r. f (g r)) rows"
  by (induction rows) (auto simp: update_where_def)

lemma jobs_leased [simp]:
  "jobs_tab (leased e worker j w) = update_where (\<lambda>r. jID r = jID j)
     (\<lambda>r. (lease worker (now_at e (Suc (Suc (ticks w)))) r)\<lparr>jFinishedAt := None, LastError := None\<rparr>) (jobs_tab w)"
  "next_id (leased e worker j w) = next_id w"
  by (simp_all add: leased_def update_job_def)

lemma run_once_up:
  assumes "db_up e" "queued w \<noteq> []"
  obtains j where "j \<in> set (queued w)" "\<forall>q \<in> set (queued w). EnqueuedAt j \<le> EnqueuedAt q"
    "snd (run_state (run_once e l) w) =
       snd (run_state (dispatch e l (lease (workerID l) (now_at e (Suc (Suc (ticks w)))) j)) (leased e (workerID l) j w))"
proof -
  obtain j where j: "j \<in> set (queued w)" "\<forall>q \<in> set (queued w). EnqueuedAt j \<le> EnqueuedAt q"
    "run_state (LeaseNext e (workerID l)) w = (Inr (lease (workerID l) (now_at e (Suc (Suc (ticks w)))) j), leased e (workerID l) j w)"
    using LeaseNext_up [OF assms] by blast
  show ?thesis by (rule that [OF j(1,2)]) (simp add: run_once_def j(3))
qed

lemma lease_simps [simp]: "jID (lease worker t j) = jID j" "jKind (lease worker t j) = jKind j"
  by (simp_all add: lease_def)

lemma run_once_jobs:
  assumes "db_up e" "jobs_wf w" "queued w \<noteq> []"
  obtains j t0 t1 r w2 new where "j \<in> set (queued w)" "\<forall>q \<in> set (queued w). EnqueuedAt j \<le> EnqueuedAt q"
    "handler_result e (fleet_loop worker) (lease worker t0 j) (leased e worker j w) = (r, w2)"
    "jobs_tab (snd (run_state (run_once e (fleet_loop worker)) w)) =
      update_where (\<lambda>x. jID x = jID j) (closed (result_state r) (result_error r) worker t0 t1) (jobs_tab w) @ new"
    "next_id (snd (run_state (run_once e (fleet_loop worker)) w)) = next_id w2" "next_id w \<le> next_id w2" "distinct (map jID new)"
    "\<forall>n \<in> set new. new_job (enqueues (jKind j)) (next_id w) (next_id w2) n"
proof -
  let ?l = "fleet_loop worker"
  obtain j where j: "j \<in> set (queued w)" "\<forall>q \<in> set (queued w). EnqueuedAt j \<le> EnqueuedAt q"
    "snd (run_state (run_once e ?l) w) =
       snd (run_state (dispatch e ?l (lease worker (now_at e (Suc (Suc (ticks w)))) j)) (leased e worker j w))"
    using run_once_up [OF assms(1,3), of ?l] by auto
  let ?t = "now_at e (Suc (Suc (ticks w)))"
  obtain r w2 where h: "handler_result e ?l (lease worker ?t j) (leased e worker j w) = (r, w2)" by fastforce
  obtain new where new: "jobs_tab w2 = jobs_tab (leased e worker j w) @ new" "next_id w \<le> next_id w2" "distinct (map jID new)"
    "\<forall>n \<in> set new. new_job (enqueues (jKind j)) (next_id w) (next_id w2) n"
    using handler_result_grows [of "lease worker ?t j" "leased e worker j w" e worker] unfolding h by (auto elim: growsE)
  have "jID j < next_id w" using j(1) assms(2) by (auto simp: jobs_wf_def queued_def)
  then have "update_where (\<lambda>x. jID x = jID j) f new = new" for f
    using new(4) by (intro update_where_none) (auto simp: new_job_def)
  then have "jobs_tab (snd (run_state (run_once e ?l) w)) =
      update_where (\<lambda>x. jID x = jID j) (closed (result_state r) (result_error r) worker ?t (now_at e (ticks w2))) (jobs_tab w) @ new"
    unfolding j(3) dispatch_up [OF assms(1)] h
    by (simp add: update_job_def new(1) update_where_append update_where_again closed_def [abs_def])
  moreover have "next_id (snd (run_state (run_once e ?l) w)) = next_id w2"
    unfolding j(3) dispatch_up [OF assms(1)] h by (simp add: update_job_def)
  ultimately show ?thesis using that j(1,2) h new(2-4) by blast
qed

text \<open>One round of the worker, with the handlers of the service and a working database, takes a
  queued job that was enqueued first, runs its handler once, and closes it: done when the handler
  succeeded, failed with the handler's error otherwise. All other jobs stay as they were; the
  only new jobs are queued phase-B jobs of a phase-A job.\<close>

theorem worker_round:
  assumes "db_up e" "jobs_wf w" "queued w \<noteq> []"
  shows "\<exists>j t0 t1 r w2 new. j \<in> set (queued w) \<and> (\<forall>q \<in> set (queued w). EnqueuedAt j \<le> EnqueuedAt q) \<and>
    handler_result e (fleet_loop worker) (lease worker t0 j) (leased e worker j w) = (r, w2) \<and>
    jobs_tab (snd (run_state (run_once e (fleet_loop worker)) w)) =
      update_where (\<lambda>x. jID x = jID j) (closed (result_state r) (result_error r) worker t0 t1) (jobs_tab w) @ new \<and>
    (\<forall>n \<in> set new. jState n = StateQueued \<and> jKind j = KindRotatePhaseA \<and> jKind n = KindRotatePhaseB)"
proof -
  obtain j t0 t1 r w2 new where j: "j \<in> set (queued w)" "\<forall>q \<in> set (queued w). EnqueuedAt j \<le> EnqueuedAt q"
    "handler_result e (fleet_loop worker) (lease worker t0 j) (leased e worker j w) = (r, w2)"
    "jobs_tab (snd (run_state (run_once e (fleet_loop worker)) w)) =
      update_where (\<lambda>x. jID x = jID j) (closed (result_state r) (result_error r) worker t0 t1) (jobs_tab w) @ new"
    "\<forall>n \<in> set new. new_job (enqueues (jKind j)) (next_id w) (next_id w2) n"
    using assms by (rule run_once_jobs)
  moreover have "\<forall>n \<in> set new. jState n = StateQueued \<and> jKind j = KindRotatePhaseA \<and> jKind n = KindRotatePhaseB"
    using j(5) by (cases "jKind j") (auto simp: new_job_def)
  ultimately show ?thesis by blast
qed

definition job0 :: "Kind \<Rightarrow> State \<Rightarrow> Job" where
  "job0 kind st = \<lparr>jID = 7, jKind = kind, jRotationID = None, TargetNodeNum = Some 9, jState = st, Attempts = 0, LastError = None,
     jPayload = PhaseAPayload, EnqueuedAt = 0, jStartedAt = Some 0, jFinishedAt = None, WorkerID = None\<rparr>"

lemma job0_wf [simp]: "jobs_wf (world0\<lparr>jobs_tab := [job0 kind st]\<rparr>)"
  by (simp add: jobs_wf_def job0_def world0_def)

section \<open>The queue empties\<close>

definition queued_of :: "Kind set \<Rightarrow> world \<Rightarrow> nat" where
  "queued_of K w = length (filter (\<lambda>j. jState j = StateQueued \<and> jKind j \<in> K) (jobs_tab w))"

lemma filter_close_one:
  assumes "distinct (map jID tab)" "j \<in> set tab" "\<not> q (f j)"
  shows "length (filter q tab) = length (filter q (update_where (\<lambda>x. jID x = jID j) f tab)) + (if q j then 1 else 0)"
  using assms
proof (induction tab)
  case (Cons x tab)
  show ?case
  proof (cases "x = j")
    case True
    then have "update_where (\<lambda>y. jID y = jID j) f tab = tab"
      using Cons.prems(1) by (intro update_where_none) (metis distinct.simps(2) image_eqI image_set list.simps(9))
    then show ?thesis using True Cons.prems(3) by (simp add: update_where_def)
  next
    case False
    with Cons show ?thesis by (force simp: update_where_def)
  qed
qed simp

lemma closed_state [simp]: "jState (closed st err worker t0 t1 j) = st" "jKind (closed st err worker t0 t1 j) = jKind j"
  "jID (closed st err worker t0 t1 j) = jID j"
  by (simp_all add: closed_def)

lemma result_state_not_queued [simp]: "result_state r \<noteq> StateQueued"
  by (simp add: result_state_def split: sum.splits)

lemma run_once_progress:
  assumes "db_up e" "jobs_wf w" "queued w \<noteq> []"
    and w': "w' = snd (run_state (run_once e (fleet_loop worker)) w)"
  shows "jobs_wf w'"
    "queued_of {KindRotatePhaseA} w' < queued_of {KindRotatePhaseA} w \<or>
     queued_of {KindRotatePhaseA} w' = queued_of {KindRotatePhaseA} w \<and> queued_of UNIV w' < queued_of UNIV w"
proof -
  obtain j t0 t1 r w2 new where j0: "j \<in> set (queued w)" "\<forall>q \<in> set (queued w). EnqueuedAt j \<le> EnqueuedAt q"
    "handler_result e (fleet_loop worker) (lease worker t0 j) (leased e worker j w) = (r, w2)"
    "jobs_tab w' = update_where (\<lambda>x. jID x = jID j) (closed (result_state r) (result_error r) worker t0 t1) (jobs_tab w) @ new"
    "next_id w' = next_id w2" "next_id w \<le> next_id w2" "distinct (map jID new)"
    "\<forall>n \<in> set new. new_job (enqueues (jKind j)) (next_id w) (next_id w2) n"
    unfolding w' by (rule run_once_jobs [OF assms(1-3)])
  note j = j0(1) j0(4-8)
  let ?f = "closed (result_state r) (result_error r) worker t0 t1"
  let ?tab = "update_where (\<lambda>x. jID x = jID j) ?f (jobs_tab w)"
  have ids: "map jID ?tab = map jID (jobs_tab w)" by (rule map_update_where) simp
  have wf: "distinct (map jID (jobs_tab w))" "\<forall>x \<in> set (jobs_tab w). jID x < next_id w" using assms(2) by (auto simp: jobs_wf_def)
  have mem: "x \<in> set ?tab \<Longrightarrow> jID x < next_id w" for x using wf(2) ids by (metis (no_types, lifting) image_iff image_set)
  show "jobs_wf w'"
    using wf mem j(3-6) by (fastforce simp: jobs_wf_def j(2) ids new_job_def)
  have c: "queued_of K w = length (filter (\<lambda>x. jState x = StateQueued \<and> jKind x \<in> K) ?tab) + (if jKind j \<in> K then 1 else 0)" for K
    using filter_close_one [OF wf(1), of j "\<lambda>x. jState x = StateQueued \<and> jKind x \<in> K" ?f] j(1)
    by (auto simp: queued_of_def queued_def)
  show "queued_of {KindRotatePhaseA} w' < queued_of {KindRotatePhaseA} w \<or>
     queued_of {KindRotatePhaseA} w' = queued_of {KindRotatePhaseA} w \<and> queued_of UNIV w' < queued_of UNIV w"
  proof (cases "jKind j = KindRotatePhaseA")
    case True
    then have "filter (\<lambda>x. jState x = StateQueued \<and> jKind x = KindRotatePhaseA) new = []"
      using j(6) by (auto simp: new_job_def filter_empty_conv)
    then show ?thesis using True c [of "{KindRotatePhaseA}"] by (simp add: queued_of_def [of _ w'] j(2))
  next
    case False
    then have "new = []" using j(6) by (cases "jKind j") (auto simp: new_job_def)
    then show ?thesis using False c [of "{KindRotatePhaseA}"] c [of UNIV] by (simp add: queued_of_def [of _ w'] j(2))
  qed
qed

text \<open>With a working database the queue always empties: whatever the handlers find and however the
  radios answer, after finitely many rounds of the worker no job is queued.\<close>

theorem queue_drains:
  assumes "db_up e" "jobs_wf w"
  shows "\<exists>n. queued (snd (run_state (run e (fleet_loop worker) n) w)) = []"
  using assms(2)
proof (induction "(queued_of {KindRotatePhaseA} w, queued_of UNIV w)" arbitrary: w rule: wf_induct_rule [OF wf_lex_prod [OF wf_less wf_less]])
  case (1 w)
  show ?case
  proof (cases "queued w = []")
    case True
    then show ?thesis by (intro exI [of _ 0]) simp
  next
    case False
    let ?w = "snd (run_state (run_once e (fleet_loop worker)) w)"
    note p = run_once_progress [OF assms(1) 1(2) False refl, of worker]
    obtain n where "queued (snd (run_state (run e (fleet_loop worker) n) ?w)) = []"
      using 1(1) [of ?w] p by auto
    then show ?thesis by (intro exI [of _ "Suc n"]) (simp add: split_def)
  qed
qed

section \<open>Leases that outlive their worker\<close>

text \<open>\<open>holds j\<close>: a job in progress that nobody is running stays in the table as it is.\<close>

definition holds :: "Job \<Rightarrow> world \<Rightarrow> world \<Rightarrow> bool" where
  "holds j w w' \<longleftrightarrow> (jobs_wf w \<and> j \<in> set (jobs_tab w) \<longrightarrow> jobs_wf w' \<and> j \<in> set (jobs_tab w'))"

interpretation holds: handler_relation "holds j" for j
  by unfold_locales (auto simp: holds_def jobs_wf_def)

lemma holds_Enqueue: "state_io_rel (holds j) (Enqueue_job e kind i n p)"
  unfolding Enqueue_job_def
  by (intro holds.rel_bind holds.rel_check holds.rel_return holds.rel_db)
    (auto simp: holds_def jobs_wf_def)

lemma holds_update_job:
  assumes "i \<noteq> jID j" "\<And>x. jID (f x) = jID x"
  shows "holds j w (update_job i f w)"
proof -
  have "map jID (update_where (\<lambda>x. jID x = i) f (jobs_tab w)) = map jID (jobs_tab w)"
    using assms(2) by (rule map_update_where)
  moreover have "j \<in> set (jobs_tab w) \<Longrightarrow> j \<in> set (update_where (\<lambda>x. jID x = i) f (jobs_tab w))"
    using assms(1) by (force simp: set_update_where)
  ultimately show ?thesis
    unfolding holds_def jobs_wf_def update_job_def using assms(2) by (auto simp: set_update_where)
qed

lemma holds_Mark:
  assumes "i \<noteq> jID j"
  shows "state_io_rel (holds j) (MarkDone e i)" "state_io_rel (holds j) (MarkFailed e i err)"
  unfolding MarkDone_def MarkFailed_def
  by (intro holds.rel_bind holds.rel_now holds.rel_db_exec holds.rel_check holds.rel_return holds_update_job assms; simp)+

lemma LeaseNext_other:
  assumes "jobs_wf w" "j \<in> set (jobs_tab w)" "jState j = StateInProgress" "run_state (LeaseNext e worker) w = (r, w')"
  shows "jobs_wf w'" "j \<in> set (jobs_tab w')" "r = Inr job \<Longrightarrow> jID job \<noteq> jID j"
proof -
  have other: "jID q \<noteq> jID j" if "oldest i EnqueuedAt (queued v) = Some q" "jobs_tab v = jobs_tab w" for q i v
  proof -
    have q: "q \<in> set (jobs_tab w)" "jState q = StateQueued"
      using oldest_SomeD(1) [OF that(1)] that(2) by (auto simp: queued_def)
    then have "q \<noteq> j" using assms(3) by auto
    then show ?thesis using q(1) assms(1,2) by (auto simp: jobs_wf_def distinct_map inj_on_def)
  qed
  have upd: "holds j w ((update_job (jID q) (\<lambda>x. (lease worker t x)\<lparr>jFinishedAt := None, LastError := None\<rparr>)
      (w\<lparr>ticks := k\<rparr>))\<lparr>ticks := m\<rparr>)" if "jID q \<noteq> jID j" for q t k m
    by (rule holds.after_tick, rule holds.trans [OF holds_update_job holds.ignores_ticks]) (use that in auto)
  have "holds j w w' \<and> (\<forall>job. r = Inr job \<longrightarrow> jID job \<noteq> jID j)"
    using assms(4)
    by (auto simp: LeaseNext_def begin_tx_def commit_tx_def db_exec_def db_def now_def holds.ignores_ticks
        split: option.splits prod.splits dest: other intro!: upd)
  then show "jobs_wf w'" "j \<in> set (jobs_tab w')" "r = Inr job \<Longrightarrow> jID job \<noteq> jID j"
    using assms(1,2) by (auto simp: holds_def)
qed

lemma holds_handler_result: "holds j w (snd (handler_result e (fleet_loop worker) job w))"
proof -
  have "holds j w (snd (run_state (h e job) w))" if "handlers (fleet_loop worker) (jKind job) = Some h" for h
    using that holds.rel_phaseA_Run [OF holds_Enqueue, of j e job] holds.rel_phaseB_Run [of j e job]
      holds.rel_phaseC_Run [of j e job] holds.rel_recoverStranded_Run [of j e job]
    by (cases "jKind job") (auto simp: state_io_rel_def)
  then show ?thesis by (auto simp: handler_result_def holds_def split: option.splits)
qed

lemma dispatch_closes:
  "\<exists>err. snd (run_state (dispatch e l job) w) \<in> {snd (run_state (MarkDone e (jID job)) (snd (handler_result e l job w))),
     snd (run_state (MarkFailed e (jID job) err) (snd (handler_result e l job w)))}"
proof (cases "handlers l (jKind job)")
  case (Some h)
  then show ?thesis
    by (cases "fst (run_state (h e job) w)") (auto simp: dispatch_def handler_result_def split_def)
qed (auto simp: dispatch_def handler_result_def split_def)

lemma holds_dispatch:
  assumes "jID job \<noteq> jID j"
  shows "holds j w (snd (run_state (dispatch e (fleet_loop worker) job) w))"
proof -
  have m: "holds j v (snd (run_state (MarkDone e (jID job)) v))" "holds j v (snd (run_state (MarkFailed e (jID job) err) v))" for v err
    using holds_Mark [OF assms] by (auto simp: state_io_rel_def)
  show ?thesis
    using dispatch_closes [of e "fleet_loop worker" job w] holds.trans [OF holds_handler_result m(1)] holds.trans [OF holds_handler_result m(2)]
    by (metis empty_iff insert_iff)
qed

lemma run_holds:
  assumes "jState j = StateInProgress" "jobs_wf w" "j \<in> set (jobs_tab w)"
  shows "j \<in> set (jobs_tab (snd (run_state (run e (fleet_loop worker) n) w)))"
  using assms(2,3)
proof (induction n arbitrary: w)
  case (Suc n)
  obtain r w' where l: "run_state (LeaseNext e worker) w = (r, w')" by fastforce
  note o = LeaseNext_other [OF Suc.prems assms(1) l]
  let ?w = "snd (run_state (run_once e (fleet_loop worker)) w)"
  have "jobs_wf ?w \<and> j \<in> set (jobs_tab ?w)"
  proof (cases r)
    case (Inr job)
    then show ?thesis using o(1,2) holds_dispatch [OF o(3) [OF Inr], of w' e worker]
      by (simp add: run_once_def l holds_def)
  qed (use o(1,2) in \<open>simp add: run_once_def l\<close>)
  then show ?case using Suc.IH [of ?w] by (simp add: split_def)
qed simp

lemma pending_no_enqueue:
  assumes "list_ex (pending_for KindRecoverStrand (node64 n)) (jobs_tab w)"
  shows "jobs_tab (snd (run_state (ObserveInbound e n h) w)) = jobs_tab w"
proof -
  have p: "filter (pending_for KindRecoverStrand (node64 n)) (jobs_tab v) \<noteq> []" if "jobs_tab v = jobs_tab w" for v
    using assms that by (auto simp: filter_empty_conv list_ex_iff)
  show ?thesis
    by (auto simp: ObserveInbound_def cool_def GetNodeTrust_def HasPendingFor_def query_def db_def now_def Let_def p
        split: option.splits prod.splits sum.splits)
qed

lemma Start_keeps_fresh:
  assumes "jobs_wf w" "j \<in> set (jobs_tab w)" "\<not> stale (now_at e (ticks w) - staleThreshold) j" "\<not> running l"
  shows "jobs_wf (snd (run_state (Start e l) w))" "j \<in> set (jobs_tab (snd (run_state (Start e l) w)))"
proof -
  let ?t = "now_at e (ticks w) - staleThreshold"
  have ids: "map jID (update_where (stale ?t) requeue (jobs_tab w)) = map jID (jobs_tab w)"
    by (rule map_update_where) (simp add: requeue_def)
  then have mem: "x \<in> set (update_where (stale ?t) requeue (jobs_tab w)) \<Longrightarrow> jID x < next_id w" for x
    using assms(1) unfolding jobs_wf_def by (metis (no_types, lifting) image_eqI image_iff image_set)
  have j: "j \<in> set (update_where (stale ?t) requeue (jobs_tab w))"
    using assms(2,3) by (force simp: set_update_where)
  show "jobs_wf (snd (run_state (Start e l) w))"
    using assms(1,4) ids mem by (auto simp: Start_def ResumeStaleLeases_def db_def jobs_wf_def split: option.splits)
  show "j \<in> set (jobs_tab (snd (run_state (Start e l) w)))"
    using assms(2,4) j by (auto simp: Start_def ResumeStaleLeases_def db_def split: option.splits)
qed

text \<open>A start of the loop followed by \<open>n\<close> rounds.\<close>

definition after_restart :: "env \<Rightarrow> string \<Rightarrow> nat \<Rightarrow> world \<Rightarrow> world" where
  "after_restart e worker n w =
     snd (run_state (run e (fleet_loop worker) n) (snd (run_state (Start e (fleet_loop worker)) w)))"

lemma fleet_loop_idle [simp]: "\<not> running (fleet_loop worker)"
  by (simp add: fleet_loop_def RegisterJobHandlers_def Register_def NewLoop_def)

text \<open>A job whose worker died is resumed only when the process starts more than ten minutes after the
  lease. When it starts earlier, the job stays in progress for the life of the process: no round of
  the worker touches it, and while it stands for the recovery of a stranded node, packets of that
  node enqueue no recovery. Nothing depends on the database or the radio working.\<close>

theorem fresh_lease_is_stuck:
  assumes "jobs_wf w" "j \<in> set (jobs_tab w)" "jState j = StateInProgress" "jStartedAt j = Some s"
    "now_at e (ticks w) - 600 * 10 ^ 9 \<le> s" "jKind j = KindRecoverStrand" "TargetNodeNum j = Some (node64 from)"
  shows "j \<in> set (jobs_tab (after_restart e worker n w)) \<and>
    jobs_tab (snd (run_state (ObserveInbound e' from h) (after_restart e worker n w))) = jobs_tab (after_restart e worker n w)"
proof -
  have "\<not> stale (now_at e (ticks w) - staleThreshold) j"
    using assms(3-5) by (simp add: stale_def staleThreshold_def)
  then have *: "j \<in> set (jobs_tab (after_restart e worker n w))"
    unfolding after_restart_def
    using run_holds [OF assms(3)] Start_keeps_fresh [OF assms(1,2) _ fleet_loop_idle] by blast
  with assms(3,6,7) have "list_ex (pending_for KindRecoverStrand (node64 from)) (jobs_tab (after_restart e worker n w))"
    by (auto simp: list_ex_iff pending_for_def active_def)
  with * pending_no_enqueue show ?thesis by blast
qed

end
