(* ===== verification/FleetRotationProofs.thy ===== *)
theory FleetRotationProofs
  imports FleetLogic
begin

text \<open>
  Key rotation: what phase B establishes for a node, what phase C leaves behind, when the retirement
  gate opens, and where the phases do not do what they are meant to.
\<close>

section \<open>Rotation rows\<close>

definition upd_rot :: "nat \<Rightarrow> (RotationRecord \<Rightarrow> RotationRecord) \<Rightarrow> world \<Rightarrow> world" where
  "upd_rot i f w = w\<lparr>rotations := update_where (\<lambda>r. rotID r = i) f (rotations w)\<rparr>"

definition upd_trust :: "u32 \<Rightarrow> (NodeTrustRecord \<Rightarrow> NodeTrustRecord) \<Rightarrow> world \<Rightarrow> world" where
  "upd_trust n f w = w\<lparr>trust_tab := update_where (\<lambda>r. tNodeNum r = n) f (trust_tab w)\<rparr>"

lemma upd_rot_fields [simp]:
  "ticks (upd_rot i f w) = ticks w" "nodes_tab (upd_rot i f w) = nodes_tab w" "trust_tab (upd_rot i f w) = trust_tab w"
  "channels_tab (upd_rot i f w) = channels_tab w" "recovery_psks (upd_rot i f w) = recovery_psks w" "jobs_tab (upd_rot i f w) = jobs_tab w"
  "hashFP (upd_rot i f w) = hashFP w" "cooldown (upd_rot i f w) = cooldown w" "outbox (upd_rot i f w) = outbox w" "trust_row (upd_rot i f w) = trust_row w"
  by (auto simp: upd_rot_def trust_row_def fun_eq_iff)

lemma upd_trust_fields [simp]:
  "ticks (upd_trust i f w) = ticks w" "nodes_tab (upd_trust i f w) = nodes_tab w" "rotations (upd_trust i f w) = rotations w"
  "channels_tab (upd_trust i f w) = channels_tab w" "recovery_psks (upd_trust i f w) = recovery_psks w" "jobs_tab (upd_trust i f w) = jobs_tab w"
  "hashFP (upd_trust i f w) = hashFP w" "cooldown (upd_trust i f w) = cooldown w" "outbox (upd_trust i f w) = outbox w" "rotation (upd_trust i f w) = rotation w"
  by (auto simp: upd_trust_def rotation_def fun_eq_iff)

lemma rotation_upd [simp]:
  "(\<And>r. rotID (f r) = rotID r) \<Longrightarrow> rotation (upd_rot i f w) i = map_option f (rotation w i)"
  by (auto simp: rotation_def upd_rot_def find_update_where find_Some_iff option.map_comp comp_def intro!: option.map_cong)

lemma trust_upd [simp]:
  "(\<And>r. tNodeNum (f r) = tNodeNum r) \<Longrightarrow> trust_row (upd_trust n f w) n = map_option f (trust_row w n)"
  by (auto simp: trust_row_def upd_trust_def find_update_where find_Some_iff intro!: option.map_cong)

lemma trust_upd_other [simp]:
  "(\<And>r. tNodeNum (f r) = tNodeNum r) \<Longrightarrow> m \<noteq> n \<Longrightarrow> trust_row (upd_trust n f w) m = trust_row w m"
  by (auto simp: trust_row_def upd_trust_def find_update_where find_Some_iff map_option_idI intro!: option.map_ident_strong)

lemma rotation_ticks_outbox [simp]: "rotation (w\<lparr>outbox := evs\<rparr>) = rotation w" "trust_row (w\<lparr>outbox := evs\<rparr>) = trust_row w"
  "rotation (w\<lparr>hashFP := hs\<rparr>) = rotation w" "trust_row (w\<lparr>hashFP := hs\<rparr>) = trust_row w"
  by (auto simp: rotation_def trust_row_def fun_eq_iff)

subsection \<open>Store operations without errors\<close>

lemma run_rotation_writes [simp]:
  assumes "db_up e"
  shows "run_state (update_rotation e i f) w = (Inr (), upd_rot i (f (ticks w)) (tick w))"
    "run_state (UpdateRotationTargets e i ts c) w =
      (Inr (), upd_rot i (\<lambda>r. r\<lparr>Targets := ts, CompletedAt := coalesce c (CompletedAt r)\<rparr>) (tick w))"
    "run_state (MarkRotationRetired e i) w =
      (Inr (), upd_rot i (\<lambda>r. r\<lparr>RetiredAt := Some (now_at e (ticks w)), PiPhase := PiPhaseRetired\<rparr>) (tick w))"
    "run_state (ClearRotationPSK e i) w = (Inr (), upd_rot i (\<lambda>r. r\<lparr>RawPSK := None\<rparr>) (tick w))"
  using assms
  by (simp_all add: update_rotation_def UpdateRotationTargets_def MarkRotationRetired_def ClearRotationPSK_def upd_rot_def)

lemma run_rotation_reads [simp]:
  assumes "db_up e"
  shows "run_state (GetRotation e i) w = (case rotation w i of None \<Rightarrow> (Inl ErrNotFound, tick w)
      | Some rec \<Rightarrow> (Inr (rec\<lparr>Targets := map backfill (Targets rec)\<rparr>), tick w))"
    "run_state (GetRotationPSK e i) w = (case rotation w i of None \<Rightarrow> (Inl ErrNotFound, tick w)
      | Some rec \<Rightarrow> (Inr (case RawPSK rec of None \<Rightarrow> [] | Some k \<Rightarrow> k), tick w))"
  using assms by (auto simp: GetRotation_def GetRotationPSK_def split: option.splits)

lemma run_trust_writes [simp]:
  assumes "db_up e"
  shows "run_state (update_trust e n f) w = (Inr (), upd_trust n (f (ticks w)) (tick w))"
    "run_state (MarkTrustVerifiedNow e n m) w = (Inr (), upd_trust n
      (\<lambda>r. r\<lparr>LastVerifiedAt := Some (now_at e (ticks w)), LastVerifyMethod := Some m, LastDriftCheckAt := Some (now_at e (ticks w))\<rparr>) (tick w))"
    "fp \<noteq> [] \<Longrightarrow> run_state (SetNodeCurrentPSKFP e n fp) w = (Inr (), upd_trust n (\<lambda>r. r\<lparr>CurrentPSKFP := Some fp\<rparr>) (tick w))"
  using assms by (simp_all add: update_trust_def upd_trust_def MarkTrustVerifiedNow_def SetNodeCurrentPSKFP_def)

lemma length_sha256 [simp]: "length (sha256 k) = 32"
  by (simp add: sha256_def be_bytes_def split: prod.splits del: sha_blocks.simps)

lemma Fingerprint_nonempty [simp]: "Fingerprint k \<noteq> []"
proof -
  obtain b bs where "take FingerprintLen (sha256 k) = b # bs"
    by (cases "sha256 k") (use length_sha256 [of k] in \<open>auto simp: FingerprintLen_def\<close>)
  then show ?thesis by (simp add: Fingerprint_def hex2_def)
qed

text \<open>The phases of one target in the list of targets.\<close>

definition put_phase :: "u32 \<Rightarrow> RotationPhase \<Rightarrow> string \<Rightarrow> RotationTarget list \<Rightarrow> RotationTarget list" where
  "put_phase n ph err ts = (case update_first (\<lambda>t. NodeNum t = n) (set_phase ph err) ts of None \<Rightarrow> ts | Some ts' \<Rightarrow> ts')"

lemma update_first_None_iff: "update_first p f xs = None \<longleftrightarrow> (\<forall>x \<in> set xs. \<not> p x)"
  by (induction xs) auto

lemma put_phase_simps:
  "put_phase n ph err [] = []"
  "put_phase n ph err (t # ts) = (if NodeNum t = n then set_phase ph err t # ts else t # put_phase n ph err ts)"
  by (simp_all add: put_phase_def split: option.splits)

lemma NodeNum_set_phase [simp]: "NodeNum (set_phase ph err t) = NodeNum t" "Phase (set_phase ph err t) = ph"
  "tgAttempts (set_phase ph err t) = tgAttempts t"
  by (simp_all add: set_phase_def)

lemma put_phase_attempts: "map tgAttempts (put_phase n ph err ts) = map tgAttempts ts"
  by (induction ts) (auto simp: put_phase_simps)

lemma put_phase_nodes: "map NodeNum (put_phase n ph err ts) = map NodeNum ts"
  by (induction ts) (auto simp: put_phase_simps)

lemma put_phase_again: "put_phase n ph err (put_phase n ph' err' ts) = put_phase n ph err ts"
  by (induction ts) (auto simp: put_phase_simps set_phase_def)

lemma find_put_phase:
  "find (\<lambda>t. NodeNum t = n) (put_phase n ph err ts) = map_option (set_phase ph err) (find (\<lambda>t. NodeNum t = n) ts)"
  by (induction ts) (auto simp: put_phase_simps)

text \<open>Whatever \<open>IncrementTargetAttempts\<close> and \<open>UpdateTargetPhase\<close> write, \<open>transitionTarget\<close> ends by storing the
  list its caller holds.\<close>

lemma transitionTarget_up:
  assumes "db_up e" "rotation w i = Some rec"
  obtains w' where "run_state (transitionTarget e i current n ph err) w = (put_phase n ph err current, w')"
    "rotation w' i = Some (rec\<lparr>Targets := put_phase n ph err current\<rparr>)" "trust_tab w' = trust_tab w" "nodes_tab w' = nodes_tab w"
    "jobs_tab w' = jobs_tab w" "channels_tab w' = channels_tab w"
proof -
  obtain w' where w': "run_state (transitionTarget e i current n ph err) w = (put_phase n ph err current, w')"
    by (simp add: transitionTarget_def put_phase_def Let_def split_def)
  have "rotation w' i = Some (rec\<lparr>Targets := put_phase n ph err current\<rparr>) \<and> trust_tab w' = trust_tab w \<and> nodes_tab w' = nodes_tab w \<and>
      jobs_tab w' = jobs_tab w \<and> channels_tab w' = channels_tab w"
    using w' assms
    by (auto simp: transitionTarget_def persistAndBroadcast_def UpdateTargetPhase_def Let_def put_phase_def coalesce_def split: option.splits)
  with w' that show ?thesis by blast
qed

section \<open>Radio operations leave the tables alone\<close>

definition same_tables :: "world \<Rightarrow> world \<Rightarrow> bool" where
  "same_tables w w' \<longleftrightarrow> nodes_tab w' = nodes_tab w \<and> trust_tab w' = trust_tab w \<and> channels_tab w' = channels_tab w \<and>
     rotations w' = rotations w \<and> recovery_psks w' = recovery_psks w \<and> jobs_tab w' = jobs_tab w \<and> hashFP w' = hashFP w \<and>
     cooldown w' = cooldown w"

interpretation quiet: table_relation same_tables
  by unfold_locales (auto simp: same_tables_def)

lemma same_tables_rows: "same_tables w w' \<Longrightarrow> rotation w' = rotation w \<and> trust_row w' = trust_row w"
  by (auto simp: same_tables_def rotation_def trust_row_def fun_eq_iff)

lemma quiet_run:
  assumes "state_io_rel same_tables m" "run_state m w = (r, w')"
  shows "same_tables w w'" "rotation w' = rotation w" "trust_row w' = trust_row w"
  using state_io_relD [OF assms] same_tables_rows by auto

section \<open>A verified migration\<close>

text \<open>The node answered a read of the slot, at tick \<open>t\<close>, with a primary channel under the key.\<close>

definition verified_at :: "env \<Rightarrow> u32 \<Rightarrow> int \<Rightarrow> byte list \<Rightarrow> nat \<Rightarrow> bool" where
  "verified_at e n idx psk t \<longleftrightarrow> (\<exists>m a ch. PayloadVariant m = GetChannelRequest (slot_word idx + 1) \<and> link_err e t n m = None \<and>
     rKind (reply_at e t n m) = ReplyAdminMsg \<and> rAdmin (reply_at e t n m) = Some a \<and> replyVariant a = GetChannelResponse ch \<and>
     chRole ch = ChannelRolePrimary \<and> Fingerprint (channel_psk ch) = Fingerprint psk)"

lemma send_admin_reply:
  assumes "run_state (send_admin e n msg kind) w = (Inr (Some a), w')"
  shows "link_err e (ticks w) n msg = None" "rKind (reply_at e (ticks w) n msg) = ReplyAdminMsg" "rAdmin (reply_at e (ticks w) n msg) = Some a"
  using assms
  by (auto simp: send_admin_def transact_def Let_def split: option.splits ReplyKind.splits if_splits prod.splits)

lemma runRemoteAdmin_reply:
  assumes "run_state (runRemoteAdmin e n msg kind) w = (Inr (Some a), w')"
  shows "\<exists>m. PayloadVariant m = PayloadVariant msg \<and> link_err e (ticks w) n m = None \<and> rKind (reply_at e (ticks w) n m) = ReplyAdminMsg \<and>
    rAdmin (reply_at e (ticks w) n m) = Some a"
proof -
  let ?pk = "given [] (sessionPasskeys w n)"
  let ?m = "if ?pk \<noteq> [] then msg\<lparr>SessionPasskey := ?pk\<rparr> else msg"
  have "run_state (send_admin e n ?m kind) w = (Inr (Some a), w')"
    using assms by (simp add: runRemoteAdmin_def with_passkey_def getSessionPasskey_def split: if_splits)
  then show ?thesis using send_admin_reply [of e n ?m kind w a w'] by (intro exI [of _ ?m]) auto
qed

lemma commit_verify_verified:
  assumes "run_state (commit_verify e n idx (Fingerprint psk) deadline k lastErr) w = (Inr (), w')"
  shows "\<exists>t. verified_at e n idx psk t"
  using assms
proof (induction k arbitrary: lastErr w)
  case (Suc k)
  obtain r w1 where r: "run_state (runRemoteAdmin e n (AdminGetChannel (slot_word idx)) ''remote-commit-verify'') (tick w) = (r, w1)" by fastforce
  show ?case
  proof (cases "probe_outcome (Fingerprint psk) r")
    case None
    then obtain a ch where "r = Inr (Some a)" "replyVariant a = GetChannelResponse ch" "chRole ch = ChannelRolePrimary"
      "Fingerprint (channel_psk ch) = Fingerprint psk"
      by (auto simp: probe_outcome_def extractChannel_def split: sum.splits option.splits reply_variant.splits if_splits)
    moreover from this r have "run_state (runRemoteAdmin e n (AdminGetChannel (slot_word idx)) ''remote-commit-verify'') (tick w) = (Inr (Some a), w1)"
      by simp
    from runRemoteAdmin_reply [OF this] show ?thesis using calculation
      unfolding verified_at_def AdminGetChannel_def admin_def by (metis AdminMessage.select_convs(1))
  next
    case (Some err)
    then show ?thesis using Suc by (auto simp: r split: if_splits)
  qed
qed simp

lemma migrateRemoteAtomic_verified:
  assumes "run_state (migrateRemoteAtomic e n idx old psk) w = (Inr (), w')"
  shows "\<exists>t. verified_at e n idx psk t"
  using assms commit_verify_verified
  by (auto simp: migrateRemoteAtomic_def pass_def check_def split: prod.splits sum.splits if_splits)


section \<open>Phase B\<close>

lemma phaseB_migrated_up:
  assumes "db_up e" "rotation w i = Some rec" "fp \<noteq> []" "run_state (phaseB_migrated e i current n fp) w = (r, w')"
  shows "r = Inr ()" "map_option Targets (rotation w' i) = Some (put_phase n PhaseOnNewPSK [] current)"
    "map_option CurrentPSKFP (trust_row w' n) = map_option (\<lambda>_. Some fp) (trust_row w n)"
proof -
  obtain w1 where w1: "run_state (transitionTarget e i current n PhaseOnNewPSK []) w = (put_phase n PhaseOnNewPSK [] current, w1)"
    "rotation w1 i = Some (rec\<lparr>Targets := put_phase n PhaseOnNewPSK [] current\<rparr>)" "trust_tab w1 = trust_tab w"
    using transitionTarget_up [OF assms(1,2)] by metis
  have t: "trust_row w1 = trust_row w" using w1(3) by (simp add: trust_row_def fun_eq_iff)
  show "r = Inr ()" "map_option Targets (rotation w' i) = Some (put_phase n PhaseOnNewPSK [] current)"
    "map_option CurrentPSKFP (trust_row w' n) = map_option (\<lambda>_. Some fp) (trust_row w n)"
    using assms(1,3,4)
    by (auto simp: phaseB_migrated_def w1 t broadcastNotice_def option.map_comp comp_def split: if_splits)
qed

text \<open>The rotation and the key a phase B job needs, and a target it has to migrate.\<close>

definition phaseB_ready :: "world \<Rightarrow> Job \<Rightarrow> nat \<Rightarrow> RotationRecord \<Rightarrow> byte list \<Rightarrow> bool" where
  "phaseB_ready w job i rec psk \<longleftrightarrow> jRotationID job = Some i \<and> rotation w i = Some rec \<and> RawPSK rec = Some psk \<and> psk \<noteq> [] \<and>
     (case decode_phaseB (jPayload job) of (_, _, n) \<Rightarrow> n \<noteq> 0 \<and>
        (case find (\<lambda>t. NodeNum t = n) (map backfill (Targets rec)) of None \<Rightarrow> False | Some t \<Rightarrow> \<not> migrated t))"

lemma phaseB_Run_up:
  assumes "db_up e" "phaseB_ready w job i rec psk" "decode_phaseB (jPayload job) = (s, old, n)"
    "run_state (phaseB_Run e job) w = (r, w')"
  shows "case r of
      Inr _ \<Rightarrow> (\<exists>t. verified_at e n s psk t) \<and>
        map_option Targets (rotation w' i) = Some (put_phase n PhaseOnNewPSK [] (map backfill (Targets rec))) \<and>
        map_option CurrentPSKFP (trust_row w' n) = map_option (\<lambda>_. Some (Fingerprint psk)) (trust_row w n)
    | Inl err \<Rightarrow> trust_tab w' = trust_tab w \<and>
        (\<exists>cause. err = Wrap ''phase B atomic migrate'' cause \<and>
          map_option Targets (rotation w' i) = Some (put_phase n PhaseFailedB (Error cause) (map backfill (Targets rec))))"
proof -
  let ?ts = "map backfill (Targets rec)"
  let ?pushing = "put_phase n PhasePushingB [] ?ts"
  obtain r1 w1 where w1: "run_state (IncrementTargetAttempts e i n) (tick (tick w)) = (r1, w1)" by fastforce
  then have "rotation w1 i \<noteq> None" "trust_tab w1 = trust_tab w"
    using assms(1,2) by (auto simp: IncrementTargetAttempts_def phaseB_ready_def split: option.splits)
  with w1 have w1: "run_state (IncrementTargetAttempts e i n) (tick (tick w)) = (r1, w1)" "rotation w1 i \<noteq> None" "trust_tab w1 = trust_tab w"
    by simp_all
  obtain rec1 where rec1: "rotation w1 i = Some rec1" using w1(2) by auto
  obtain w2 where w2: "run_state (transitionTarget e i ?ts n PhasePushingB []) w1 = (?pushing, w2)"
    "rotation w2 i = Some (rec1\<lparr>Targets := ?pushing\<rparr>)" "trust_tab w2 = trust_tab w"
    using transitionTarget_up [OF assms(1) rec1] w1(3) by metis
  define w3 where "w3 = snd (run_state (broadcastNotice i (''Phase B'' @ dot @ ''atomic migrate of !'' @ show_08x n)) w2)"
  have w3: "rotation w3 = rotation w2" "trust_tab w3 = trust_tab w"
    using w2(3) by (auto simp: w3_def broadcastNotice_def)
  obtain m w4 where m: "run_state (migrateRemoteAtomic e n s old psk) w3 = (m, w4)" by fastforce
  have w4: "rotation w4 = rotation w2" "trust_row w4 = trust_row w" "trust_tab w4 = trust_tab w"
    using quiet_run [OF quiet.rel_migrateRemoteAtomic m] w3 by (auto simp: same_tables_def trust_row_def fun_eq_iff)
  have run: "run_state (phaseB_Run e job) w = run_state (case m of
                        Inl err \<Rightarrow> do {
                          _ \<leftarrow> transitionTarget e i ?pushing n PhaseFailedB (Error err);
                          _ \<leftarrow> broadcastNotice i (''Phase B failed for !'' @ show_08x n);
                          fail (Wrap ''phase B atomic migrate'' err) }
                      | Inr _ \<Rightarrow> phaseB_migrated e i ?pushing n (Fingerprint psk)) w4"
    using assms(1-3) w1(1) w2(1) m
    by (cases m) (auto simp: phaseB_Run_def phaseB_ready_def w3_def split_def split: option.splits)
  show ?thesis
  proof (cases m)
    case (Inr u)
    then have "run_state (phaseB_migrated e i ?pushing n (Fingerprint psk)) w4 = (r, w')" using run assms(4) by simp
    from phaseB_migrated_up [OF assms(1) _ Fingerprint_nonempty this] w4 w2(2) m Inr show ?thesis
      by (auto simp: put_phase_again intro: migrateRemoteAtomic_verified)
  next
    case (Inl err)
    have "rotation w4 i = Some (rec1\<lparr>Targets := ?pushing\<rparr>)" using w4(1) w2(2) by simp
    then obtain w5 where "run_state (transitionTarget e i ?pushing n PhaseFailedB (Error err)) w4 = (put_phase n PhaseFailedB (Error err) ?pushing, w5)"
      "map_option Targets (rotation w5 i) = Some (put_phase n PhaseFailedB (Error err) ?pushing)" "trust_tab w5 = trust_tab w4"
      by (rule transitionTarget_up [OF assms(1), of w4 i _ ?pushing n PhaseFailedB "Error err"]) simp
    then show ?thesis using run assms(4) Inl w4(3) by (auto simp: broadcastNotice_def put_phase_again)
  qed
qed

subsection \<open>A node that obeys\<close>

text \<open>Frames go out, the node answers each request, a read of the slot shows it primary under the key,
  no context ends, and the clock does not jump over the deadline.\<close>

definition obeys :: "env \<Rightarrow> u32 \<Rightarrow> int \<Rightarrow> byte list \<Rightarrow> bool" where
  "obeys e n idx psk \<longleftrightarrow>
     (\<forall>t m. link_err e t n m = None \<and> rKind (reply_at e t n m) = ReplyAdminMsg) \<and>
     (\<forall>t m. PayloadVariant m = GetChannelRequest (slot_word idx + 1) \<longrightarrow>
        (\<exists>a ch. rAdmin (reply_at e t n m) = Some a \<and> replyVariant a = GetChannelResponse ch \<and> chRole ch = ChannelRolePrimary \<and> channel_psk ch = psk)) \<and>
     (\<forall>t. \<not> cancel_at e t \<and> now_at e (Suc t) < now_at e t + commitVerifyDeadline)"

lemma send_admin_obeyed:
  assumes "link_err e (ticks w) n msg = None" "rKind (reply_at e (ticks w) n msg) = ReplyAdminMsg"
  shows "fst (run_state (send_admin e n msg kind) w) = Inr (rAdmin (reply_at e (ticks w) n msg))"
  using assms by (simp add: send_admin_def transact_def split_def split: option.splits)

lemma runRemoteAdmin_obeyed:
  assumes "obeys e n idx psk" "n \<noteq> 0"
  shows "\<exists>m. PayloadVariant m = PayloadVariant msg \<and> fst (run_state (runRemoteAdmin e n msg kind) w) = Inr (rAdmin (reply_at e (ticks w) n m))"
proof -
  let ?pk = "given [] (sessionPasskeys w n)"
  let ?m = "if ?pk \<noteq> [] then msg\<lparr>SessionPasskey := ?pk\<rparr> else msg"
  have "fst (run_state (runRemoteAdmin e n msg kind) w) = fst (run_state (send_admin e n ?m kind) w)"
    using assms(2) by (simp add: runRemoteAdmin_def with_passkey_def getSessionPasskey_def)
  also have "\<dots> = Inr (rAdmin (reply_at e (ticks w) n ?m))"
    by (rule send_admin_obeyed) (use assms(1) in \<open>auto simp: obeys_def\<close>)
  finally show ?thesis by (intro exI [of _ ?m]) auto
qed

lemma fireAndForget_obeyed:
  assumes "obeys e n idx psk" "n \<noteq> 0"
  shows "fst (run_state (fireAndForgetRemoteAdmin e n msg) w) = Inr ()"
  using assms
  by (simp add: fireAndForgetRemoteAdmin_def with_passkey_def getSessionPasskey_def transact_def obeys_def split_def)

lemma commit_verify_obeyed:
  assumes "obeys e n idx psk" "n \<noteq> 0" "now_at e (ticks w) < deadline"
  shows "fst (run_state (commit_verify e n idx (Fingerprint psk) deadline (Suc k) lastErr) w) = Inr ()"
proof -
  obtain r w1 where r: "run_state (runRemoteAdmin e n (AdminGetChannel (slot_word idx)) ''remote-commit-verify'') (tick w) = (r, w1)" by fastforce
  obtain m where m: "PayloadVariant m = GetChannelRequest (slot_word idx + 1)" "r = Inr (rAdmin (reply_at e (Suc (ticks w)) n m))"
    using runRemoteAdmin_obeyed [OF assms(1,2), of "AdminGetChannel (slot_word idx)" "''remote-commit-verify''" "tick w"] r
    by (auto simp: AdminGetChannel_def admin_def)
  moreover obtain a ch where "rAdmin (reply_at e (Suc (ticks w)) n m) = Some a" "replyVariant a = GetChannelResponse ch"
    "chRole ch = ChannelRolePrimary" "channel_psk ch = psk"
    using assms(1) m(1) unfolding obeys_def by blast
  ultimately have "probe_outcome (Fingerprint psk) r = None" by (simp add: probe_outcome_def extractChannel_def)
  then show ?thesis using assms(3) by (simp add: r)
qed

lemma migrateRemoteAtomic_obeyed:
  assumes "obeys e n idx psk" "n \<noteq> 0"
  shows "fst (run_state (migrateRemoteAtomic e n idx old psk) w) = Inr ()"
proof -
  have ff: "\<exists>w'. run_state (fireAndForgetRemoteAdmin e n msg) v = (Inr (), w')" for msg v
    using fireAndForget_obeyed [OF assms] by (metis prod.collapse)
  have ra: "\<exists>x w'. run_state (runRemoteAdmin e n msg kind) v = (Inr x, w')" for msg kind v
    using runRemoteAdmin_obeyed [OF assms] by (metis prod.collapse)
  have cv: "fst (run_state (commit_verify e n idx (Fingerprint psk) (now_at e (ticks v) + commitVerifyDeadline) commitVerifyRounds None) (tick v)) = Inr ()" for v
  proof -
    have "now_at e (ticks (tick v)) < now_at e (ticks v) + commitVerifyDeadline" using assms(1) by (simp add: obeys_def)
    from commit_verify_obeyed [OF assms this] show ?thesis by (simp add: commitVerifyRounds_def numeral_eq_Suc)
  qed
  obtain x w1 where 1: "run_state (runRemoteAdmin e n (AdminGetChannel 0) ''remote-establish-session'') w = (Inr x, w1)" using ra by blast
  obtain w2 where 2: "run_state (fireAndForgetRemoteAdmin e n AdminBeginEditSettings) w1 = (Inr (), w2)" using ff by blast
  obtain w3 where 3: "run_state (fireAndForgetRemoteAdmin e n (AdminSetChannel idx [] ChannelRolePrimary psk)) w2 = (Inr (), w3)" using ff by blast
  obtain w4 where 4: "run_state (fireAndForgetRemoteAdmin e n (AdminSetChannel old [] ChannelRoleDisabled [])) w3 = (Inr (), w4)" using ff by blast
  obtain w5 where 5: "run_state (fireAndForgetRemoteAdmin e n AdminCommitEditSettings) w4 = (Inr (), w5)" using ff by blast
  have "\<not> cancel_at e t" for t using assms(1) by (simp add: obeys_def)
  then show ?thesis using cv [of "tick w5"] by (simp add: migrateRemoteAtomic_def 1 2 3 4 5)
qed

subsection \<open>Properties of phase B\<close>

lemma backfill_attempts [simp]: "tgAttempts (backfill t) = tgAttempts t"
  by (simp add: backfill_def)

lemma phaseB_Run_obeyed:
  assumes "db_up e" "phaseB_ready w job i rec psk" "decode_phaseB (jPayload job) = (s, old, n)" "obeys e n s psk"
  shows "fst (run_state (phaseB_Run e job) w) = Inr ()"
proof -
  have n: "n \<noteq> 0" and g: "rotation w i = Some rec" using assms(2,3) by (auto simp: phaseB_ready_def)
  have ok: "\<exists>v'. run_state (migrateRemoteAtomic e n s old psk) v = (Inr (), v') \<and> rotation v' = rotation v" for v
    using migrateRemoteAtomic_obeyed [OF assms(4) n, of old v] quiet_run(2) [OF quiet.rel_migrateRemoteAtomic, of e n s old psk v]
    by (metis prod.collapse)
  obtain r1 w1 where w1: "run_state (IncrementTargetAttempts e i n) (tick (tick w)) = (r1, w1)" by fastforce
  then obtain rec1 where rec1: "rotation w1 i = Some rec1"
    using assms(1) g by (auto simp: IncrementTargetAttempts_def split: option.splits)
  obtain ts w2 rec2 where w2: "run_state (transitionTarget e i (map backfill (Targets rec)) n PhasePushingB []) w1 = (ts, w2)" "rotation w2 i = Some rec2"
    using transitionTarget_up [OF assms(1) rec1] by metis
  define w3 where "w3 = snd (run_state (broadcastNotice i (''Phase B'' @ dot @ ''atomic migrate of !'' @ show_08x n)) w2)"
  have r3: "rotation w3 i = Some rec2" using w2(2) by (simp add: w3_def broadcastNotice_def)
  obtain w4 where w4: "run_state (migrateRemoteAtomic e n s old psk) w3 = (Inr (), w4)" "rotation w4 = rotation w3" using ok by blast
  have "fst (run_state (phaseB_migrated e i ts n (Fingerprint psk)) w4) = Inr ()"
    using phaseB_migrated_up(1) [OF assms(1) _ Fingerprint_nonempty, of w4 i rec2 ts n psk] w4(2) r3 by (metis prod.collapse)
  then show ?thesis
    using assms(1-3) w1 w2(1) w4(1)
    by (auto simp: phaseB_Run_def phaseB_ready_def w3_def split_def split: option.splits)
qed

text \<open>C24: A phase B job on a rotation with a stored key and a target not yet migrated. It succeeds only when
  the node answered a read of the staging slot with a primary channel under the new key; then the
  stored target is on the new key, whatever its phase was, and the node's trust row carries the new fingerprint. When it
  fails, the stored target is failed with the cause as its error, no other target changes, and the
  trust table is untouched.\<close>

theorem phaseB_outcome:
  assumes "db_up e" "phaseB_ready w job i rec psk" "decode_phaseB (jPayload job) = (s, old, n)"
  shows "case run_state (phaseB_Run e job) w of
      (Inr _, w') \<Rightarrow> (\<exists>t. verified_at e n s psk t) \<and>
        map_option Targets (rotation w' i) = Some (put_phase n PhaseOnNewPSK [] (map backfill (Targets rec))) \<and>
        map_option CurrentPSKFP (trust_row w' n) = map_option (\<lambda>_. Some (Fingerprint psk)) (trust_row w n)
    | (Inl err, w') \<Rightarrow> trust_tab w' = trust_tab w \<and>
        (\<exists>cause. err = Wrap ''phase B atomic migrate'' cause \<and>
          map_option Targets (rotation w' i) = Some (put_phase n PhaseFailedB (Error cause) (map backfill (Targets rec))))"
  using phaseB_Run_up [OF assms] by (auto split: prod.splits sum.splits)

text \<open>A rotation of one remote node.\<close>

definition psk0 :: "byte list" where "psk0 = replicate 16 5"

definition target0 :: "u32 \<Rightarrow> RotationPhase \<Rightarrow> RotationTarget" where
  "target0 n ph = \<lparr>NodeNum = n, Phase = ph, tgStatus = statusForPhase ph, tgAttempts = 0, tgLastError = []\<rparr>"

definition rotation0 :: RotationRecord where
  "rotation0 = \<lparr>rotID = 3, rotKind = RotationKindPSK, ChannelIndex = Some 0, StagingChannelIndex = Some 1, PiPhase = PiPhaseStagingAdded,
     StartedBy = [], StartedAt = 0, CompletedAt = None, RetiredAt = None, Targets = [target0 9 PhasePending],
     NewPSKFP = Fingerprint psk0, RawPSK = Some psk0\<rparr>"

definition rotating :: world where
  "rotating = world0\<lparr>nodes_tab := [1, 9], trust_tab := [(trust_default 9)\<lparr>AdminKeyFPs := [''k'']\<rparr>], rotations := [rotation0]\<rparr>"

definition phase_job :: "Kind \<Rightarrow> Payload \<Rightarrow> Job" where
  "phase_job kind p = \<lparr>jID = 7, jKind = kind, jRotationID = Some 3, TargetNodeNum = Some 9, jState = StateInProgress, Attempts = 1,
     LastError = None, jPayload = p, EnqueuedAt = 0, jStartedAt = Some 0, jFinishedAt = None, WorkerID = None\<rparr>"

abbreviation "jobB \<equiv> phase_job KindRotatePhaseB (PhaseBPayload 1 0 9)"

lemma ready0: "phaseB_ready rotating jobB 3 rotation0 psk0"
  by (simp add: phaseB_ready_def rotating_def rotation0_def phase_job_def psk0_def rotation_def target0_def backfill_def migrated_def)

lemma env0_silent: "\<not> verified_at env0 n idx psk t"
  by (simp add: verified_at_def env0_def timeout_reply_def)

theorem phaseB_outcome_witness:
  "\<exists>w' cause. run_state (phaseB_Run env0 jobB) rotating = (Inl (Wrap ''phase B atomic migrate'' cause), w') \<and>
     map_option Targets (rotation w' 3) = Some [set_phase PhaseFailedB (Error cause) (target0 9 PhasePending)]"
  using phaseB_outcome [OF db_up_env0(1) ready0, of 1 0 9]
  by (auto simp: env0_silent phase_job_def rotation0_def put_phase_simps target0_def backfill_def split: prod.splits sum.splits)

text \<open>When frames go out, the node answers every request and shows the staging slot primary under the
  new key, no context ends and the clock does not jump a minute between two readings, a phase B job
  ends with success: the target is migrated and the node no longer holds back the retirement of the
  old key.\<close>

theorem phaseB_obeyed:
  assumes "db_up e" "phaseB_ready w job i rec psk" "decode_phaseB (jPayload job) = (s, old, n)" "obeys e n s psk"
  shows "\<exists>w' rec' t. run_state (phaseB_Run e job) w = (Inr (), w') \<and> rotation w' i = Some rec' \<and>
    find (\<lambda>t. NodeNum t = n) (Targets rec') = Some t \<and> migrated t \<and>
    map_option (laggard (Fingerprint psk)) (trust_row w' n) = map_option (\<lambda>_. False) (trust_row w n)"
proof -
  obtain w' where run: "run_state (phaseB_Run e job) w = (Inr (), w')"
    using phaseB_Run_obeyed [OF assms] by (metis prod.collapse)
  obtain t where "find (\<lambda>t. NodeNum t = n) (map backfill (Targets rec)) = Some t"
    using assms(2,3) by (auto simp: phaseB_ready_def split: option.splits)
  then have "find (\<lambda>t. NodeNum t = n) (put_phase n PhaseOnNewPSK [] (map backfill (Targets rec))) = Some (set_phase PhaseOnNewPSK [] t)"
    by (simp add: find_put_phase)
  then show ?thesis
    using phaseB_Run_up [OF assms(1-3) run] run by (cases "trust_row w n") (auto simp: migrated_def laggard_def)
qed

text \<open>An environment in which every node shows the same primary channel.\<close>

definition obedient :: "byte list \<Rightarrow> env" where
  "obedient psk = env0\<lparr>reply_at := (\<lambda>_ n _. admin_reply n (GetChannelResponse
     \<lparr>chIndex = 1, chRole = ChannelRolePrimary, chSettings = Some \<lparr>csName = [], csPsk = psk\<rparr>\<rparr>))\<rparr>"

lemma obedient_obeys: "obeys (obedient psk) n idx psk"
  by (simp add: obeys_def obedient_def env0_def admin_reply_def channel_psk_def commitVerifyDeadline_def)

lemma obedient_up [simp]: "db_up (obedient psk)"
  by (simp add: obedient_def)

text \<open>The count of attempts of a target never grows: a phase B job increments it in the stored row, but
  the list it read before the increment is what the phase transitions write back. The counts after
  the job, whatever its outcome, are those before it.\<close>

theorem phaseB_attempts_lost:
  assumes "db_up e" "phaseB_ready w job i rec psk"
  shows "map_option (map tgAttempts \<circ> Targets) (rotation (snd (run_state (phaseB_Run e job) w)) i) = Some (map tgAttempts (Targets rec))"
proof -
  obtain s old n where d: "decode_phaseB (jPayload job) = (s, old, n)" by (cases "decode_phaseB (jPayload job)") auto
  obtain r w' where run: "run_state (phaseB_Run e job) w = (r, w')" by fastforce
  from phaseB_Run_up [OF assms d run] run show ?thesis
    by (auto simp: put_phase_attempts comp_def split: sum.splits)
qed

end
