(* ===== verification/FleetRetireProofs.thy ===== *)
theory FleetRetireProofs
  imports FleetRotationProofs
begin

text \<open>
  The end of a rotation: when the retirement gate opens, what phase C leaves behind, and what the
  recovery hook then sees.
\<close>

text \<open>A chain of error checks succeeds when every link does.\<close>

lemma run_pass_Inr: "run_state (pass r k) w = (Inr x, w') \<longleftrightarrow> (\<exists>y. r = Inr y \<and> run_state (k y) w = (Inr x, w'))"
  by (cases r) auto

lemma run_check_Inr: "run_state (check msg r k) w = (Inr x, w') \<longleftrightarrow> (\<exists>y. r = Inr y \<and> run_state (k y) w = (Inr x, w'))"
  by (cases r) auto

lemmas run_success = run_pass_Inr run_check_Inr

section \<open>The gate\<close>

definition retirable :: "RotationRecord \<Rightarrow> bool" where
  "retirable rec \<longleftrightarrow> rotKind rec = RotationKindPSK \<and> RetiredAt rec = None \<and>
     (PiPhase rec = PiPhaseStagingAdded \<or> PiPhase rec = PiPhasePhaseDPromoted) \<and> ChannelIndex rec \<noteq> None \<and> StagingChannelIndex rec \<noteq> None"

definition phaseC_queued :: "world \<Rightarrow> nat \<Rightarrow> bool" where
  "phaseC_queued w i \<longleftrightarrow> phaseC_pending (filter (\<lambda>j. jRotationID j = Some i) (jobs_tab w))"

lemma phaseC_pending_sort [simp]: "phaseC_pending (sort_key f js) = phaseC_pending js"
  by (simp add: phaseC_pending_def list_ex_iff)

text \<open>The request to retire the old key queues a phase C job exactly when the rotation is a key rotation
  past staging and not retired, every node with admin keys is recorded on the new key, and no phase
  C job of the rotation is active; otherwise the jobs table is untouched.\<close>

theorem retire_gate:
  assumes "db_up e" "rotation w i = Some rec"
  shows "\<exists>new. jobs_tab (snd (run_state (RetireOldPSK e userID i) w)) = jobs_tab w @ new \<and>
    map (\<lambda>j. (jKind j, jState j, jRotationID j, jPayload j)) new =
      (if retirable rec \<and> filter (laggard (NewPSKFP rec)) (trust_tab w) = [] \<and> \<not> phaseC_queued w i
       then [(KindRotatePhaseC, StateQueued, Some i, PhaseCPayload (given 0 (StagingChannelIndex rec)))] else [])"
  using assms
  by (auto simp: RetireOldPSK_def retirable_def AllManagedNodesOnPSK_def ListByRotation_def Enqueue_job_def auditFleet_def
      phaseC_queued_def given_def split: option.splits)

section \<open>Verification during a rotation\<close>

text \<open>Every channel row of index 0 carries the fingerprint.\<close>

definition channel0_fp :: "string \<Rightarrow> world \<Rightarrow> bool" where
  "channel0_fp fp w \<longleftrightarrow> list_ex (\<lambda>c. cIndex c = 0) (channels_tab w) \<and>
     list_all (\<lambda>c. cIndex c \<noteq> 0 \<or> PSKFingerprint c = Some fp) (channels_tab w)"

definition same_channels :: "world \<Rightarrow> world \<Rightarrow> bool" where
  "same_channels w w' \<longleftrightarrow> channels_tab w' = channels_tab w"

interpretation chans: table_relation same_channels
  by unfold_locales (auto simp: same_channels_def)

lemma chans_enqueue_phaseB: "state_io_rel same_channels (enqueue_phaseB e i s p ts)"
proof (induction ts)
  case (Cons t ts)
  have "state_io_rel same_channels (Enqueue_job e k x y z)" for k x y z
    unfolding Enqueue_job_def by (intro chans.rel_bind chans.rel_db chans.rel_check chans.rel_return) (simp add: same_channels_def)
  moreover have "state_io_rel same_channels (HasPendingFor e k x)" for k x
    unfolding HasPendingFor_def by blast
  ultimately show ?case using Cons by auto
qed auto

lemma list_ex_update_where: "(\<And>r. q (f r) = q r) \<Longrightarrow> list_ex q (update_where p f rows) = list_ex q rows"
  by (induction rows) (auto simp: update_where_def)

lemma UpsertChannel_fp:
  assumes "db_up e" "cIndex r = 0" "PSKFingerprint r = Some fp"
  shows "channel0_fp fp (snd (run_state (UpsertChannel e r) w))"
  using assms
  by (auto simp: UpsertChannel_def channel0_fp_def upsert_def list_ex_update_where list_all_iff set_update_where coalesce_def)
    (simp add: list_ex_iff)

lemma phaseA_Run_channel:
  assumes "db_up e" "jRotationID job = Some i" "rotation w i = Some rec" "given 0 (ChannelIndex rec) = 0" "RawPSK rec = Some psk"
    "run_state (phaseA_Run e job) w = (Inr (), w1)"
  shows "channel0_fp (Fingerprint psk) w1"
proof -
  let ?rec = "rec\<lparr>Targets := map backfill (Targets rec)\<rparr>"
  have "\<exists>t v s p q v'. run_state (enqueue_phaseB e i s p (Targets ?rec)) (snd (run_state (UpsertChannel e (staged_channel ?rec i psk t)) v)) = (q, v')
      \<and> channels_tab w1 = channels_tab v'"
    using assms(1-3,5,6)
    by (auto simp: phaseA_Run_def broadcastNotice_def split_def run_success split: if_splits) (metis prod.collapse)
  then obtain t v s p q v' where v: "run_state (enqueue_phaseB e i s p (Targets ?rec)) (snd (run_state (UpsertChannel e (staged_channel ?rec i psk t)) v)) = (q, v')"
    "channels_tab w1 = channels_tab v'" by blast
  have "channel0_fp (Fingerprint psk) (snd (run_state (UpsertChannel e (staged_channel ?rec i psk t)) v))"
    using assms(1,4) by (intro UpsertChannel_fp) (auto simp: staged_channel_def nullif_def)
  then show ?thesis using state_io_relD [OF chans_enqueue_phaseB v(1)] v(2) by (simp add: same_channels_def channel0_fp_def)
qed

lemma channel0_find:
  assumes "channel0_fp fp w"
  shows "\<exists>c. find (\<lambda>c. cIndex c = 0) (sort_key cIndex (channels_tab w)) = Some c \<and> PSKFingerprint c = Some fp"
proof -
  have "find (\<lambda>c. cIndex c = 0) (sort_key cIndex (channels_tab w)) \<noteq> None"
    using assms by (auto simp: channel0_fp_def find_None_iff list_ex_iff)
  then obtain c where c: "find (\<lambda>c. cIndex c = 0) (sort_key cIndex (channels_tab w)) = Some c" by blast
  then have "c \<in> set (channels_tab w)" "cIndex c = 0" by (auto simp: find_Some_iff) (metis nth_mem set_sort length_sort)
  then show ?thesis using assms c by (auto simp: channel0_fp_def list_all_iff)
qed

lemma localPrimaryPSKFP_up:
  assumes "db_up e" "channel0_fp fp w"
  shows "run_state (localPrimaryPSKFP e) w = (fp, tick w)"
  using assms channel0_find [OF assms(2)] by (auto simp: localPrimaryPSKFP_def ListChannels_def unnull_def)

lemma rel_read_security: "state_io_rel same_tables (read_security e n)"
  unfolding read_security_def by auto

lemma UpsertNodeTrust_up:
  assumes "db_up e" "run_state (UpsertNodeTrust e r) w = (Inr (), w')"
  shows "channels_tab w' = channels_tab w" "rotations w' = rotations w" "trust_row w' (tNodeNum r) \<noteq> None"
proof -
  have *: "\<exists>y. find q (upsert q new f rows) = Some y" if "q new" "\<And>x. q (f x) = q x" for q :: "'a \<Rightarrow> bool" and new f rows
    using that list_ex_update_where [of q f q rows] find_None_iff [of q "upsert q new f rows"]
    by (auto simp: upsert_def list_ex_iff simp flip: not_None_eq)
  show "channels_tab w' = channels_tab w" "rotations w' = rotations w" "trust_row w' (tNodeNum r) \<noteq> None"
    using assms by (auto simp: UpsertNodeTrust_def upsert_trust_def run_success trust_row_def trust_default_def intro!: * split: if_splits)
qed

lemma GetTrust_stamps:
  assumes "db_up e" "channel0_fp fp w" "fp \<noteq> []" "run_state (GetTrust e n) w = (Inr tr, w')"
  shows "CurrentPSKFP tr = Some fp" "rotation w' = rotation w"
proof -
  obtain r v where r: "run_state (read_security e n) w = (r, v)" by fastforce
  note q = quiet_run [OF rel_read_security r]
  obtain sec where sec: "extractSecurityConfig (case r of Inr reply \<Rightarrow> reply | _ \<Rightarrow> None) = Inr sec" "\<exists>reply. r = Inr reply"
    using assms(1,4) by (cases r) (auto simp: GetTrust_def r run_success split_def split: if_splits)
  let ?rec = "trust_snapshot e n sec (now_at e (ticks v))"
  let ?new = "?rec\<lparr>tDriftStatus := computeDriftStatus ?rec (Some (policy v))\<rparr>"
  obtain x v1 where x: "run_state (UpsertNodeTrust e ?new) (tick (tick v)) = (x, v1)" by fastforce
  have v1: "x = Inr ()"
    "run_state (do { piFP \<leftarrow> localPrimaryPSKFP e; _ \<leftarrow> (if piFP \<noteq> [] then SetNodeCurrentPSKFP e n piFP else ok ()); GetNodeTrust e n }) v1 = (Inr tr, w')"
    using assms(1,4) sec x by (auto simp: GetTrust_def r GetPolicy_def run_success Let_def split: if_splits)
  note u = UpsertNodeTrust_up [OF assms(1) x [unfolded v1(1)]]
  have "channel0_fp fp v1" "rotation v1 = rotation w"
    using q u assms(2) by (auto simp: same_tables_def channel0_fp_def rotation_def fun_eq_iff)
  with u(3) v1(2) assms(1,3) show "CurrentPSKFP tr = Some fp" "rotation w' = rotation w"
    by (auto simp: localPrimaryPSKFP_up GetNodeTrust_def joined_def trust_snapshot_def trust_default_def
        split: if_splits option.splits)
qed

text \<open>Once phase A has staged the new key, a successful verification of any node records it on the new
  key, and the node no longer holds back the retirement of the old key, although verification reads no
  channel of the node and no target of the rotation changes.\<close>

theorem verify_opens_gate:
  assumes "db_up e" "jRotationID job = Some i" "rotation w i = Some rec" "given 0 (ChannelIndex rec) = 0" "RawPSK rec = Some psk"
    "run_state (phaseA_Run e job) w = (Inr (), w1)" "run_state (GetTrust e n) w1 = (Inr tr, w2)"
  shows "CurrentPSKFP tr = Some (Fingerprint psk) \<and> \<not> laggard (Fingerprint psk) tr \<and> rotation w2 = rotation w1"
  using GetTrust_stamps [OF assms(1) phaseA_Run_channel [OF assms(1-6)] Fingerprint_nonempty assms(7)]
  by (simp add: laggard_def)

definition sec0 :: SecurityConfig where
  "sec0 = \<lparr>secPublicKey = [], secPrivateKey = [], secAdminKey = [replicate 32 1], secIsManaged = False, secAdminChannelEnabled = False\<rparr>"

text \<open>A fleet still on the old key: every node shows a primary channel under it, and answers requests
  for its security configuration.\<close>

definition on_old_key :: "byte list \<Rightarrow> env" where
  "on_old_key psk = env0\<lparr>reply_at := (\<lambda>_ n m. admin_reply n (case PayloadVariant m of
      GetConfigRequest _ \<Rightarrow> GetConfigResponse (Some sec0)
    | _ \<Rightarrow> GetChannelResponse \<lparr>chIndex = 0, chRole = ChannelRolePrimary, chSettings = Some \<lparr>csName = [], csPsk = psk\<rparr>\<rparr>))\<rparr>"

abbreviation "jobA \<equiv> phase_job KindRotatePhaseA PhaseAPayload"

lemmas radio_defs = runLocalAdmin_def runRemoteAdmin_def send_admin_def transact_def with_passkey_def getSessionPasskey_def
  cacheSessionPasskey_def extractChannel_def AdminGetChannel_def AdminGetConfig_def admin_def admin_reply_def given_def

lemma old_up [simp]: "db_up (on_old_key psk)" by (simp add: on_old_key_def)
lemma old_sel [simp]: "LocalNodeNum (on_old_key psk) = 1" "link_err (on_old_key psk) t n m = None"
  by (simp_all add: on_old_key_def env0_def)

lemma local_get: "run_state (runLocalAdmin (on_old_key psk) (AdminGetChannel s) k) w = 
  (Inr (Some \<lparr>replyVariant = GetChannelResponse \<lparr>chIndex = 0, chRole = ChannelRolePrimary, chSettings = Some \<lparr>csName = [], csPsk = psk\<rparr>\<rparr>, replyPasskey = []\<rparr>),
   (tick w)\<lparr>outbox := outbox w @ [Sent 1 (AdminGetChannel s)]\<rparr>)"
  by (simp add: radio_defs tick_def) (simp add: on_old_key_def env0_def radio_defs)

lemma probe_on_old_key: "run_state (probeSlotsLocal (on_old_key psk)) w = 
  (Inr ([],7), w\<lparr>ticks := ticks w + 8, outbox := outbox w @ map (\<lambda>i. Sent 1 (AdminGetChannel (slot_word i))) slots\<rparr>)"
  by (simp add: probeSlotsLocal_def slots_def local_get extractChannel_def tick_def)


lemma phaseA_on_old_key: "\<exists>w1. run_state (phaseA_Run (on_old_key psk) jobA) rotating = (Inr (), w1) \<and> nodes_tab w1 = [1, 9]"
proof -
  have "rotation rotating 3 = Some rotation0" by (simp add: rotating_def rotation_def rotation0_def)
  then show ?thesis
    by (simp add: phaseA_Run_def phase_job_def probe_on_old_key staging_slot_def stage_pi_def rotation0_def psk0_def target0_def backfill_def migrated_def
        UpsertChannel_def HasPendingFor_def Enqueue_job_def broadcastNotice_def rotating_def world0_def)
qed

lemma read_security_on_old_key:
  "\<exists>v. run_state (read_security (on_old_key psk) 9) w = (Inr (Some \<lparr>replyVariant = GetConfigResponse (Some sec0), replyPasskey = []\<rparr>), v) \<and>
     nodes_tab v = nodes_tab w"
proof -
  let ?m = "let pk = given [] (sessionPasskeys w 9) in if pk \<noteq> [] then (AdminGetConfig SECURITY_CONFIG)\<lparr>SessionPasskey := pk\<rparr> else AdminGetConfig SECURITY_CONFIG"
  have "rAdmin (reply_at (on_old_key psk) (ticks w) 9 ?m) = Some \<lparr>replyVariant = GetConfigResponse (Some sec0), replyPasskey = []\<rparr>"
    "rKind (reply_at (on_old_key psk) (ticks w) 9 ?m) = ReplyAdminMsg"
    by (simp_all add: on_old_key_def Let_def AdminGetConfig_def admin_def admin_reply_def)
  then show ?thesis
    by (simp add: read_security_def is_local_def runRemoteAdmin_def with_passkey_def getSessionPasskey_def send_admin_def transact_def Let_def)
qed

lemma GetTrust_on_old_key:
  assumes "9 \<in> set (nodes_tab w)"
  shows "\<exists>tr w2. run_state (GetTrust (on_old_key psk) 9) w = (Inr tr, w2)"
proof -
  obtain v where v: "run_state (read_security (on_old_key psk) 9) w = (Inr (Some \<lparr>replyVariant = GetConfigResponse (Some sec0), replyPasskey = []\<rparr>), v)"
    "9 \<in> set (nodes_tab v)" using read_security_on_old_key assms by metis
  have "9 \<in> set (nodes_tab w1) \<Longrightarrow> \<exists>r w'. run_state (localPrimaryPSKFP (on_old_key psk)) w1 = (r, w') \<and> 9 \<in> set (nodes_tab w')" for w1
    by (simp add: localPrimaryPSKFP_def ListChannels_def)
  then show ?thesis using v(2)
    by (simp add: GetTrust_def v(1) extractSecurityConfig_def GetPolicy_def Let_def UpsertNodeTrust_def upsert_trust_def
       localPrimaryPSKFP_def ListChannels_def GetNodeTrust_def trust_snapshot_def trust_default_def)
qed

end
