(* ===== verification/FleetCacheProofs.thy ===== *)
theory FleetCacheProofs
  imports FleetLogic "HOL-Library.Multiset"
begin

text \<open>
  The cache of old channel keys: six slots, atomic updates, and its refinement to the list of the
  six fingerprints added last.
\<close>

section \<open>Invariant\<close>

definition cache_wf :: "RecoveryPSKRecord list \<Rightarrow> bool" where
  "cache_wf rows \<longleftrightarrow> distinct (map Slot rows) \<and> distinct (map FP rows) \<and> set (map Slot rows) \<subseteq> {2..<8}"

lemma free_slot_SomeD: "free_slot rows = Some i \<Longrightarrow> i \<in> {2..<8} - set (map Slot rows)"
  unfolding free_slot_def find_Some_iff by (metis DiffI atLeastLessThan_upt nth_mem)

lemma free_slot_None:
  assumes "cache_wf rows"
  shows "free_slot rows = None \<longleftrightarrow> length rows = 6"
proof -
  have "card (set (map Slot rows)) = length rows" using assms by (metis cache_wf_def distinct_card length_map)
  moreover have "free_slot rows = None \<longleftrightarrow> {2..<8} \<subseteq> set (map Slot rows)"
    unfolding free_slot_def find_None_iff set_upt by blast
  moreover have "{2..<8} \<subseteq> set (map Slot rows) \<longleftrightarrow> card (set (map Slot rows)) = 6"
  proof
    assume "{2..<8} \<subseteq> set (map Slot rows)"
    then have "set (map Slot rows) = {2..<8}" using assms by (auto simp: cache_wf_def)
    then show "card (set (map Slot rows)) = 6" by (simp only: card_atLeastLessThan)
  qed (use assms card_subset_eq [of "{2..<8}" "set (map Slot rows)"] in \<open>simp add: cache_wf_def\<close>)
  ultimately show ?thesis by simp
qed

lemma cache_wf_length: "cache_wf rows \<Longrightarrow> length rows \<le> 6"
  using card_mono [of "{2..<8}" "set (map Slot rows)"] by (metis cache_wf_def card_atLeastLessThan distinct_card finite_atLeastLessThan
      length_map diff_Suc_Suc numeral_2_eq_2 eval_nat_numeral(2,3) diff_zero semiring_norm(26,27))

lemma cache_wf_filter: "cache_wf rows \<Longrightarrow> cache_wf (filter p rows)"
  unfolding cache_wf_def using distinct_map_filter [of Slot rows p] distinct_map_filter [of FP rows p] by auto

lemma cache_wf_snoc:
  "cache_wf rows \<Longrightarrow> Slot r \<in> {2..<8} - set (map Slot rows) \<Longrightarrow> FP r \<notin> set (map FP rows) \<Longrightarrow> cache_wf (rows @ [r])"
  unfolding cache_wf_def by auto

section \<open>One addition\<close>

definition refreshed :: "string \<Rightarrow> int \<Rightarrow> nat option \<Rightarrow> RecoveryPSKRecord list \<Rightarrow> RecoveryPSKRecord list" where
  "refreshed fp t rot rows = update_where (\<lambda>r. FP r = fp) (\<lambda>r. r\<lparr>AddedAt := t, rRotationID := rot\<rparr>) rows"

text \<open>The table after a successful addition: refreshed in place, put into a free slot, or into the slot
  of an oldest entry.\<close>

inductive added :: "string \<Rightarrow> byte list \<Rightarrow> byte \<Rightarrow> nat option \<Rightarrow> int \<Rightarrow> RecoveryPSKRecord list \<Rightarrow> nat \<Rightarrow> RecoveryPSKRecord list \<Rightarrow> bool"
  for fp psk h rot t rows where
  refresh: "r \<in> set rows \<Longrightarrow> FP r = fp \<Longrightarrow> added fp psk h rot t rows (Slot r) (refreshed fp t rot rows)"
| fill: "fp \<notin> FP ` set rows \<Longrightarrow> free_slot rows = Some i \<Longrightarrow>
    added fp psk h rot t rows i (rows @ [\<lparr>Slot = i, FP = fp, rPSK = psk, PSKHash = h, AddedAt = t, rRotationID = rot\<rparr>])"
| evict: "fp \<notin> FP ` set rows \<Longrightarrow> free_slot rows = None \<Longrightarrow> r \<in> set rows \<Longrightarrow> (\<And>q. q \<in> set rows \<Longrightarrow> AddedAt r \<le> AddedAt q) \<Longrightarrow>
    added fp psk h rot t rows (Slot r) (filter (\<lambda>q. Slot q \<noteq> Slot r) rows @
      [\<lparr>Slot = Slot r, FP = fp, rPSK = psk, PSKHash = h, AddedAt = t, rRotationID = rot\<rparr>])"

lemma find_FP_None: "find (\<lambda>r. FP r = fp) rows = None \<longleftrightarrow> fp \<notin> FP ` set rows"
  by (auto simp: find_None_iff)

lemma AddRecoveryPSK_added:
  assumes "run_state (AddRecoveryPSK e fp psk h rot) w = (res, w')"
  shows "case res of Inl _ \<Rightarrow> recovery_psks w' = recovery_psks w
    | Inr slot \<Rightarrow> added fp psk h rot (now_at e (ticks w)) (recovery_psks w) slot (recovery_psks w')"
proof -
  have evict': "added fp psk h rot t rows (Slot r) (filter (\<lambda>q. Slot q \<noteq> Slot r) rows @
      [\<lparr>Slot = Slot r, FP = fp, rPSK = psk, PSKHash = h, AddedAt = t, rRotationID = rot\<rparr>])"
    if "oldest i AddedAt rows = Some r" "fp \<notin> FP ` set rows" "free_slot rows = None" for i r t rows
    using evict that oldest_SomeD [OF that(1)] by blast
  have refresh': "added fp psk h rot t rows (Slot r) (update_where (\<lambda>r. FP r = fp) (\<lambda>r. r\<lparr>AddedAt := t, rRotationID := rot\<rparr>) rows)"
    if "find (\<lambda>r. FP r = fp) rows = Some r" for r t rows
    using refresh [of r rows fp psk h rot t] that unfolding refreshed_def find_Some_iff by (metis nth_mem)
  show ?thesis
    using assms
    by (auto simp: AddRecoveryPSK_def begin_tx_def commit_tx_def query_def db_exec_def db_def find_FP_None
        split: if_splits option.splits prod.splits sum.splits intro: refresh' fill evict')
qed

lemma added_wf:
  assumes "added fp psk h rot t rows slot rows'" "cache_wf rows"
  shows "cache_wf rows'"
  using assms(1)
proof cases
  case (refresh r)
  then have "map Slot rows' = map Slot rows" "map FP rows' = map FP rows"
    by (simp_all add: refreshed_def map_update_where)
  then show ?thesis using assms(2) by (simp add: cache_wf_def)
next
  case fill
  then show ?thesis using assms(2) free_slot_SomeD [of rows slot] by (auto intro!: cache_wf_snoc)
next
  case (evict r)
  have "Slot r \<in> {2..<8}" using evict(5) assms(2) by (auto simp: cache_wf_def)
  then show ?thesis using evict(1-3) cache_wf_filter [OF assms(2)] by (auto intro!: cache_wf_snoc)
qed

section \<open>Refinement to the list of recent keys\<close>

text \<open>The fingerprints of the cache, latest first, and the specification of an addition on them.\<close>

definition recent :: "RecoveryPSKRecord list \<Rightarrow> string list" where
  "recent rows = rev (map FP (sort_key AddedAt rows))"

definition spec_add :: "string \<Rightarrow> string list \<Rightarrow> string list" where
  "spec_add fp fps = take 6 (fp # removeAll fp fps)"

definition times_distinct :: "RecoveryPSKRecord list \<Rightarrow> bool" where
  "times_distinct rows \<longleftrightarrow> distinct (map AddedAt rows)"

lemma sort_key_snoc_max:
  assumes "\<forall>x \<in> set xs. f x \<le> f y"
  shows "sort_key f (xs @ [y]) = sort_key f xs @ [y]"
proof (rule properties_for_sort_key)
  show "mset (sort_key f xs @ [y]) = mset (xs @ [y])" by simp
  show "filter (\<lambda>x. f k = f x) (sort_key f xs @ [y]) = filter (\<lambda>x. f k = f x) (xs @ [y])" for k
    using sort_key_stable [of f "f k" xs] by (simp add: eq_commute [of "f k"])
  show "sorted (map f (sort_key f xs @ [y]))" using assms by (auto simp: sorted_append)
qed

lemma recent_snoc:
  assumes "\<forall>r \<in> set rows. AddedAt r \<le> AddedAt new"
  shows "recent (rows @ [new]) = FP new # recent rows"
  using sort_key_snoc_max [OF assms] by (simp add: recent_def)

lemma length_recent [simp]: "length (recent rows) = length rows"
  by (simp add: recent_def)

lemma set_recent [simp]: "set (recent rows) = FP ` set rows"
  by (simp add: recent_def)

lemma recent_filter_FP: "recent (filter (\<lambda>r. FP r \<noteq> fp) rows) = removeAll fp (recent rows)"
  by (simp add: recent_def filter_sort removeAll_filter_not_eq filter_map comp_def flip: rev_filter)
    (metis (mono_tags, lifting) filter_cong)

text \<open>The oldest entry is the last of the list.\<close>

lemma recent_evict:
  assumes "r \<in> set rows" "\<And>q. q \<in> set rows \<Longrightarrow> AddedAt r \<le> AddedAt q" "times_distinct rows" "cache_wf rows"
  shows "recent (filter (\<lambda>q. Slot q \<noteq> Slot r) rows) = butlast (recent rows)"
proof -
  let ?s = "sort_key AddedAt rows"
  have ne: "?s \<noteq> []" using assms(1) by (metis empty_iff list.set(1) set_sort)
  have d: "distinct (map Slot ?s)"
    using assms(4) by (simp add: cache_wf_def distinct_map)
  have hd: "hd ?s = r"
  proof -
    have "hd ?s \<in> set rows" using ne by (metis hd_in_set set_sort)
    moreover have "AddedAt (hd ?s) \<le> AddedAt r"
    proof -
      obtain k where "k < length ?s" "?s ! k = r" using assms(1) by (metis in_set_conv_nth set_sort)
      then show ?thesis using sorted_nth_mono [OF sorted_sort_key [of AddedAt rows], of 0 k] ne
        by (metis (no_types, lifting) hd_conv_nth length_greater_0_conv length_map nth_map zero_le)
    qed
    ultimately show ?thesis
      using assms(1-3) unfolding times_distinct_def distinct_map inj_on_def by (meson antisym)
  qed
  obtain t where s: "?s = r # t" using ne hd by (cases ?s) auto
  have "\<forall>q \<in> set t. Slot q \<noteq> Slot r" using d unfolding s by (metis distinct.simps(2) image_eqI image_set list.simps(9))
  then have "filter (\<lambda>q. Slot q \<noteq> Slot r) ?s = t" unfolding s by (simp add: filter_id_conv)
  then show ?thesis by (simp add: recent_def filter_sort [symmetric] s)
qed

lemma recent_refreshed:
  assumes "r \<in> set rows" "FP r = fp" "\<forall>q \<in> set rows. AddedAt q < t" "cache_wf rows" "times_distinct rows"
  shows "recent (refreshed fp t rot rows) = fp # removeAll fp (recent rows)" "times_distinct (refreshed fp t rot rows)"
proof -
  let ?r = "r\<lparr>AddedAt := t, rRotationID := rot\<rparr>" and ?others = "filter (\<lambda>q. FP q \<noteq> fp) rows"
  obtain xs ys where split: "rows = xs @ r # ys" using assms(1) by (meson split_list)
  have other: "q \<in> set xs \<union> set ys \<Longrightarrow> FP q \<noteq> fp" for q
    using assms(2,4) unfolding split cache_wf_def by (force simp: image_iff)
  have upd: "refreshed fp t rot rows = xs @ ?r # ys"
    using other assms(2) unfolding split refreshed_def
    by (auto simp: update_where_def intro!: map_idI)
  have fil: "?others = xs @ ys" using other assms(2) unfolding split by (auto simp: filter_id_conv)
  have late: "\<forall>q \<in> set ?others. AddedAt q \<le> AddedAt ?r" using assms(3) by auto
  have "distinct (map AddedAt (refreshed fp t rot rows))"
  proof -
    have "t \<notin> AddedAt ` set xs" "t \<notin> AddedAt ` set ys" using assms(3) unfolding split by auto
    then have "distinct (map AddedAt (xs @ ?r # ys))" using assms(5) unfolding times_distinct_def split by simp
    then show ?thesis unfolding upd .
  qed
  then show times: "times_distinct (refreshed fp t rot rows)" by (simp add: times_distinct_def)
  have "mset (refreshed fp t rot rows) = mset (?others @ [?r])" unfolding upd fil by simp
  then have "sort_key AddedAt (refreshed fp t rot rows) = sort_key AddedAt (?others @ [?r])"
    using times unfolding times_distinct_def distinct_map
    by (intro sort_key_inj_key_eq) (auto simp: mset_sort)
  then have "recent (refreshed fp t rot rows) = recent (?others @ [?r])" by (simp add: recent_def)
  then show "recent (refreshed fp t rot rows) = fp # removeAll fp (recent rows)"
    using recent_snoc [OF late] assms(2) by (simp add: recent_filter_FP)
qed

lemma added_refines:
  assumes "added fp psk h rot t rows slot rows'" "cache_wf rows" "times_distinct rows" "\<forall>q \<in> set rows. AddedAt q < t"
  shows "recent rows' = spec_add fp (recent rows)" "times_distinct rows'"
proof -
  have len: "length rows \<le> 6" using assms(2) by (rule cache_wf_length)
  have new: "removeAll fp (recent rows) = recent rows" if "fp \<notin> FP ` set rows"
    using that by (intro removeAll_id) simp
  have "recent rows' = spec_add fp (recent rows) \<and> times_distinct rows'"
    using assms(1)
  proof cases
    case (refresh r)
    have "length (removeAll fp (recent rows)) < length (recent rows)" using refresh(3,4) by (intro length_removeAll_less) auto
    then show ?thesis using recent_refreshed [OF refresh(3,4) assms(4,2,3)] len refresh(2) by (simp add: spec_add_def)
  next
    case fill
    then have "length rows \<noteq> 6" using free_slot_None [OF assms(2)] by auto
    then show ?thesis using fill(1,2) len new assms(3,4)
      by (auto simp: spec_add_def recent_snoc times_distinct_def order.strict_implies_order dest: less_imp_neq)
  next
    case (evict r)
    have six: "length rows = 6" using evict(4) free_slot_None [OF assms(2)] by simp
    have "recent rows' = fp # butlast (recent rows)"
      using recent_evict [OF evict(5,6) assms(3,2)] assms(4) unfolding evict(2) by (subst recent_snoc) auto
    moreover have "take 6 (fp # recent rows) = fp # butlast (recent rows)" using six by (simp add: butlast_conv_take)
    moreover have "times_distinct rows'"
      using assms(3,4) unfolding evict(2) times_distinct_def by (auto simp: distinct_map_filter)
    ultimately show ?thesis using new evict(3) by (simp add: spec_add_def)
  qed
  then show "recent rows' = spec_add fp (recent rows)" "times_distinct rows'" by simp_all
qed

lemma added_entry:
  assumes "added fp psk h rot t rows slot rows'"
  shows "\<exists>r \<in> set rows'. FP r = fp \<and> Slot r = slot"
  using assms
proof cases
  case (refresh r)
  then show ?thesis
    by (auto simp: refreshed_def set_update_where intro!: bexI [of _ "r\<lparr>AddedAt := t, rRotationID := rot\<rparr>"])
qed auto

definition cache_row :: "nat \<Rightarrow> string \<Rightarrow> byte list \<Rightarrow> byte \<Rightarrow> int \<Rightarrow> RecoveryPSKRecord" where
  "cache_row slot fp psk h t = \<lparr>Slot = slot, FP = fp, rPSK = psk, PSKHash = h, AddedAt = t, rRotationID = None\<rparr>"

text \<open>C25: The recovery cache keeps exactly the six keys added last. For any behaviour of the database, an
  addition that reports an error changes nothing; one that succeeds puts the fingerprint in front of
  the list of recent ones, forgets at most the oldest of six others, and returns the slot from 2 to 7
  that holds it; slots and fingerprints stay distinct.\<close>

theorem recovery_cache_refines:
  assumes "cache_wf (recovery_psks w)" "times_distinct (recovery_psks w)" "\<forall>q \<in> set (recovery_psks w). AddedAt q < now_at e (ticks w)"
    "run_state (AddRecoveryPSK e fp psk h rot) w = (res, w')"
  shows "cache_wf (recovery_psks w') \<and> times_distinct (recovery_psks w') \<and>
    (case res of Inl _ \<Rightarrow> recovery_psks w' = recovery_psks w
     | Inr slot \<Rightarrow> recent (recovery_psks w') = spec_add fp (recent (recovery_psks w)) \<and>
         (\<exists>r \<in> set (recovery_psks w'). FP r = fp \<and> Slot r = slot))"
proof (cases res)
  case (Inl err)
  then show ?thesis using AddRecoveryPSK_added [OF assms(4)] assms(1,2) by simp
next
  case (Inr slot)
  then have a: "added fp psk h rot (now_at e (ticks w)) (recovery_psks w) slot (recovery_psks w')"
    using AddRecoveryPSK_added [OF assms(4)] by simp
  then show ?thesis using Inr added_wf [OF a assms(1)] added_refines [OF a assms(1-3)] added_entry [OF a] by simp
qed

theorem recovery_cache_refines_witness:
  "recent (recovery_psks (snd (run_state (AddRecoveryPSK env0 ''b'' [2] 2 None)
     (world0\<lparr>ticks := 5, recovery_psks := [cache_row 2 ''a'' [1] 1 0]\<rparr>)))) = [''b'', ''a'']"
proof -
  let ?w = "world0\<lparr>ticks := 5, recovery_psks := [cache_row 2 ''a'' [1] 1 0]\<rparr>"
  obtain r w' where r: "run_state (AddRecoveryPSK env0 ''b'' [2] 2 None) ?w = (r, w')" by fastforce
  have "recent (recovery_psks w') = spec_add ''b'' (recent (recovery_psks ?w)) \<and> (\<exists>slot. r = Inr slot)"
    using recovery_cache_refines [OF _ _ _ r] r
    by (auto simp: AddRecoveryPSK_def cache_row_def cache_wf_def times_distinct_def free_slot_def env0_def world0_def
        begin_tx_def commit_tx_def query_def db_exec_def db_def split: sum.splits)
  then show ?thesis unfolding r by (simp add: spec_add_def recent_def cache_row_def)
qed

end
