(* ===== verification/FleetStrandProofs.thy ===== *)
theory FleetStrandProofs
  imports FleetRetireProofs FleetCacheProofs
begin

text \<open>
  Phase C and the nodes it leaves behind: they are marked, their key stays in the recovery cache and
  in the dispatcher's table, and a packet under the old key queues their recovery.
\<close>

section \<open>Marking stranded nodes\<close>

definition stranded_with :: "string \<Rightarrow> world \<Rightarrow> u32 \<Rightarrow> bool" where
  "stranded_with fp w n \<longleftrightarrow> (case trust_row w n of None \<Rightarrow> False
     | Some tr \<Rightarrow> StrandedSince tr \<noteq> None \<and> PreviousPSKFP tr = Some fp)"

text \<open>Everything but the trust table.\<close>

definition trust_only :: "world \<Rightarrow> world \<Rightarrow> bool" where
  "trust_only w w' \<longleftrightarrow> nodes_tab w' = nodes_tab w \<and> rotations w' = rotations w \<and> recovery_psks w' = recovery_psks w \<and>
     jobs_tab w' = jobs_tab w \<and> hashFP w' = hashFP w \<and> cooldown w' = cooldown w"

interpretation tonly: table_relation trust_only
  by unfold_locales (auto simp: trust_only_def)

lemma tonly_writes [intro!]:
  "state_io_rel trust_only (MarkStranded e n fp)" "state_io_rel trust_only (MarkTrustVerifiedNow e n m)"
  unfolding MarkStranded_def MarkTrustVerifiedNow_def upsert_trust_def update_trust_def
  by (auto intro!: tonly.rel_db_checked tonly.rel_db_exec simp: trust_only_def)

lemma find_upsert_other:
  assumes "\<not> q new" "\<And>r. p r \<Longrightarrow> \<not> q r" "\<And>r. q (f r) = q r"
  shows "find q (upsert p new f rows) = find q rows"
proof -
  have "find q (rows @ [new]) = find q rows" using assms(1) by (induction rows) auto
  moreover have "map_option (\<lambda>r. if p r then f r else r) (find q rows) = find q rows"
    using assms(2) by (induction rows) auto
  ultimately show ?thesis using assms(3) by (simp add: upsert_def find_update_where)
qed

lemma find_upsert_same:
  assumes "q new" "\<And>r. q (f r) = q r"
  shows "find q (upsert q new f rows) = Some (case find q rows of None \<Rightarrow> new | Some r \<Rightarrow> f r)"
proof (cases "find q rows")
  case None
  then have "\<not> list_ex q rows" by (auto simp: find_None_iff list_ex_iff)
  moreover have "find q (rows @ [new]) = Some new" using None assms(1) by (induction rows) (auto split: if_splits)
  ultimately show ?thesis using None by (simp add: upsert_def)
next
  case (Some r)
  then have "list_ex q rows" "q r" by (auto simp: find_Some_iff list_ex_iff)
  then show ?thesis using Some assms(2) by (simp add: upsert_def find_update_where)
qed

lemma MarkStranded_marks:
  assumes "db_up e" "stranded_with fp w m \<or> (m = n \<and> n \<in> set (nodes_tab w))"
  shows "stranded_with fp (snd (run_state (MarkStranded e n fp) w)) m"
proof (cases "m = n")
  case True
  then show ?thesis using assms
    by (auto simp: MarkStranded_def upsert_trust_def stranded_with_def trust_row_def find_upsert_same trust_default_def coalesce_def
        split: option.splits)
next
  case False
  then show ?thesis using assms
    by (auto simp: MarkStranded_def upsert_trust_def stranded_with_def trust_row_def find_upsert_other trust_default_def)
qed

lemma mark_stranded_marks:
  assumes "db_up e"
  shows "trust_only w (snd (run_state (mark_stranded e fp ts) w)) \<and>
    (\<forall>m. (stranded_with fp w m \<or> (m \<in> set (nodes_tab w) \<and> (\<exists>t \<in> set ts. NodeNum t = m \<and> m \<noteq> LocalNodeNum e \<and> \<not> migrated t))) \<longrightarrow>
       stranded_with fp (snd (run_state (mark_stranded e fp ts) w)) m)"
proof (induction ts arbitrary: w)
  case Nil
  then show ?case by (simp add: tonly.refl)
next
  case (Cons t ts)
  show ?case
  proof (cases "NodeNum t = LocalNodeNum e \<or> migrated t")
    case True
    then show ?thesis using Cons.IH [of w] by auto
  next
    case False
    obtain r v where v: "run_state (MarkStranded e (NodeNum t) fp) w = (r, v)" by fastforce
    have "trust_only w v" using state_io_relD [OF _ v] tonly_writes(1) by blast
    moreover have "stranded_with fp w m \<or> (m = NodeNum t \<and> NodeNum t \<in> set (nodes_tab w)) \<Longrightarrow> stranded_with fp v m" for m
      using MarkStranded_marks [OF assms(1), of fp w m "NodeNum t"] v by simp
    ultimately show ?thesis using Cons.IH [of v] False v tonly.trans [of w v] by (auto simp: trust_only_def)
  qed
qed

section \<open>The old key in the cache\<close>

lemma AddRecoveryPSK_up:
  assumes "db_up e" "psk \<noteq> []" "fp \<noteq> []"
  obtains slot w' where "run_state (AddRecoveryPSK e fp psk h rot) w = (Inr slot, w')"
    "added fp psk h rot (now_at e (ticks w)) (recovery_psks w) slot (recovery_psks w')"
    "rotations w' = rotations w" "trust_tab w' = trust_tab w" "nodes_tab w' = nodes_tab w" "jobs_tab w' = jobs_tab w" "cooldown w' = cooldown w"
proof -
  obtain r w' where r: "run_state (AddRecoveryPSK e fp psk h rot) w = (r, w')" by fastforce
  have full: "free_slot rows = None \<Longrightarrow> rows \<noteq> []" for rows by (auto simp: free_slot_def)
  have "(\<exists>slot. r = Inr slot) \<and> rotations w' = rotations w \<and> trust_tab w' = trust_tab w \<and> nodes_tab w' = nodes_tab w \<and> jobs_tab w' = jobs_tab w
      \<and> cooldown w' = cooldown w"
    using r assms by (auto simp: AddRecoveryPSK_def dest: full split: option.splits)
  then show thesis using that r AddRecoveryPSK_added [OF r] by auto
qed

lemma added_hash:
  assumes "added fp psk h rot t rows slot rows'" "\<forall>r \<in> set rows. FP r = fp \<longrightarrow> PSKHash r = h"
  shows "\<exists>r \<in> set rows'. FP r = fp \<and> PSKHash r = h"
  using assms(1)
proof cases
  case (refresh r)
  then show ?thesis using assms(2)
    by (auto simp: refreshed_def set_update_where intro!: bexI [of _ "r\<lparr>AddedAt := t, rRotationID := rot\<rparr>"])
qed auto

lemma hash_table_known: "r \<in> set rows \<Longrightarrow> hash_table (sort_key f rows) (PSKHash r) \<noteq> None"
  by (auto simp: hash_table_def map_of_eq_None_iff image_image simp del: not_None_eq)

section \<open>After the promotion\<close>

definition retired_row :: "RotationRecord \<Rightarrow> RotationTarget list \<Rightarrow> RotationRecord \<Rightarrow> bool" where
  "retired_row rec ts rec' \<longleftrightarrow> (\<exists>c t. rec' = rec\<lparr>Targets := ts, CompletedAt := c, RetiredAt := Some t, PiPhase := PiPhaseRetired, RawPSK := None\<rparr>)"

lemma phaseC_promoted_up:
  assumes "db_up e" "rotation w i = Some rec"
  obtains w' rec' where "run_state (phaseC_promoted e i current oldSlot fp) w = (Inr (), w')" "rotation w' i = Some rec'" "retired_row rec current rec'"
    "\<And>m. m \<in> set (nodes_tab w) \<Longrightarrow> \<exists>t \<in> set current. NodeNum t = m \<and> m \<noteq> LocalNodeNum e \<and> \<not> migrated t \<Longrightarrow> stranded_with fp w' m"
    "recovery_psks w' = recovery_psks w" "jobs_tab w' = jobs_tab w" "nodes_tab w' = nodes_tab w" "cooldown w' = cooldown w"
    "hashFP w' = hash_table (sort_key Slot (recovery_psks w))"
proof -
  let ?t = "now_at e (ticks w)"
  define w1 where "w1 = upd_rot i (\<lambda>r. r\<lparr>Targets := current, CompletedAt := coalesce (Some ?t) (CompletedAt r)\<rparr>) (tick (tick w))"
  define w2 where "w2 = snd (run_state (MarkTrustVerifiedNow e (LocalNodeNum e) VerifyMethodLocalUSB) w1)"
  have m2: "trust_only w1 w2" using tonly_writes(2) [of e "LocalNodeNum e" VerifyMethodLocalUSB] by (simp add: w2_def state_io_rel_def)
  define w3 where "w3 = upd_rot i (\<lambda>r. r\<lparr>RetiredAt := Some (now_at e (ticks w2)), PiPhase := PiPhaseRetired\<rparr>) (tick w2)"
  obtain w4 where w4: "run_state (mark_stranded e fp current) w3 = ((), w4)" by (metis old.unit.exhaust surj_pair)
  have m4: "trust_only w3 w4" "\<And>m. m \<in> set (nodes_tab w3) \<Longrightarrow> \<exists>t \<in> set current. NodeNum t = m \<and> m \<noteq> LocalNodeNum e \<and> \<not> migrated t \<Longrightarrow> stranded_with fp w4 m"
    using mark_stranded_marks [OF assms(1), of w3 fp current] w4 by auto
  define w5 where "w5 = (upd_rot i (\<lambda>r. r\<lparr>RawPSK := None\<rparr>) (tick w4))"
  let ?w' = "snd (run_state (broadcastNotice i (''Phase C done'' @ dot @ ''Pi on new PSK'' @ dot @ ''old slot '' @ show_int oldSlot @ '' wiped fleet-wide''))
     ((tick w5)\<lparr>hashFP := hash_table (sort_key Slot (recovery_psks w5))\<rparr>))"
  have run: "run_state (phaseC_promoted e i current oldSlot fp) w = (Inr (), ?w')"
    using assms(1) w4 by (simp add: phaseC_promoted_def RebuildHashTable_def ListRecoveryPSKs_def broadcastNotice_def w1_def w2_def w3_def w5_def)
  have r: "rotation w2 = rotation w1" "rotation w4 = rotation w3" using m2 m4(1) by (simp_all add: trust_only_def rotation_def fun_eq_iff)
  show thesis
  proof (rule that [OF run])
    show "rotation ?w' i = Some (rec\<lparr>Targets := current, CompletedAt := Some ?t, RetiredAt := Some (now_at e (ticks w2)), PiPhase := PiPhaseRetired, RawPSK := None\<rparr>)"
      using assms(2) r by (simp add: broadcastNotice_def w1_def w3_def w5_def coalesce_def)
  next
    fix m assume "m \<in> set (nodes_tab w)" "\<exists>t \<in> set current. NodeNum t = m \<and> m \<noteq> LocalNodeNum e \<and> \<not> migrated t"
    then have "stranded_with fp w4 m" using m2 by (intro m4(2)) (auto simp: w3_def w1_def trust_only_def)
    then show "stranded_with fp ?w' m" by (simp add: stranded_with_def broadcastNotice_def w5_def)
  qed (use m2 m4(1) in \<open>auto simp: trust_only_def broadcastNotice_def w1_def w3_def w5_def retired_row_def\<close>)
qed

section \<open>Phase C\<close>

text \<open>The remote targets that are not migrated.\<close>

definition left_behind :: "env \<Rightarrow> RotationRecord \<Rightarrow> u32 \<Rightarrow> bool" where
  "left_behind e rec n \<longleftrightarrow> n \<noteq> LocalNodeNum e \<and> list_ex (\<lambda>t. NodeNum t = n \<and> \<not> migrated t) (map backfill (Targets rec))"

lemma promote_local_others:
  assumes "t \<in> set ts" "NodeNum t \<noteq> local"
  shows "t \<in> set (promote_local local ts)"
proof -
  have "update_first (\<lambda>t. NodeNum t = local) f ts = Some ts' \<Longrightarrow> t \<in> set ts'" for f ts'
    using assms by (induction ts arbitrary: ts') (auto split: if_splits)
  then show ?thesis using assms by (auto simp: promote_local_def split: option.splits)
qed

text \<open>The rows of a fingerprint carry the hash of the key.\<close>

definition hashes_agree :: "world \<Rightarrow> byte list \<Rightarrow> bool" where
  "hashes_agree w psk \<longleftrightarrow> list_all (\<lambda>r. FP r \<noteq> Fingerprint psk \<or> PSKHash r = ChannelHash [] psk) (recovery_psks w)"

text \<open>The part of phase C after the cache entry.\<close>

definition promote :: "env \<Rightarrow> Job \<Rightarrow> nat \<Rightarrow> RotationTarget list \<Rightarrow> int \<Rightarrow> byte list \<Rightarrow> byte list \<Rightarrow> nat \<Rightarrow> unit fallible" where
  "promote e job i ts oldSlot psk old slot = do {
     m \<leftarrow> migratePiAtomicWithRecovery e (decode_phaseC (jPayload job)) oldSlot psk (int slot) old;
     check ''Pi atomic migrate'' m (\<lambda>_. phaseC_promoted e i (promote_local (LocalNodeNum e) ts) oldSlot (Fingerprint old)) }"

lemma phaseC_Run_steps:
  assumes "db_up e" "jRotationID job = Some i" "rotation w i = Some rec" "RetiredAt rec = None" "PiPhase rec \<noteq> PiPhaseRetired"
    "run_state (find_old_primary e (NewPSKFP rec) slots) (tick w) = (Some (oldSlot, old), v)" "old \<noteq> []" "RawPSK rec = Some psk" "psk \<noteq> []"
  obtains slot v1 t where "run_state (phaseC_Run e job) w = run_state (promote e job i (map backfill (Targets rec)) oldSlot psk old slot) v1"
    "added (Fingerprint old) old (ChannelHash [] old) (Some i) t (recovery_psks w) slot (recovery_psks v1)"
    "rotation v1 = rotation w" "nodes_tab v1 = nodes_tab w" "jobs_tab v1 = jobs_tab w" "cooldown v1 = cooldown w"
proof -
  have v: "same_tables (tick w) v" "rotation v = rotation w"
    using quiet_run [OF quiet.rel_find_old_primary assms(6)] by simp_all
  obtain slot v1 where v1: "run_state (AddRecoveryPSK e (Fingerprint old) old (ChannelHash [] old) (Some i)) (tick v) = (Inr slot, v1)"
    "added (Fingerprint old) old (ChannelHash [] old) (Some i) (now_at e (ticks (tick v))) (recovery_psks (tick v)) slot (recovery_psks v1)"
    "rotations v1 = rotations (tick v)" "nodes_tab v1 = nodes_tab (tick v)" "jobs_tab v1 = jobs_tab (tick v)" "cooldown v1 = cooldown (tick v)"
    by (rule AddRecoveryPSK_up [OF assms(1,7) Fingerprint_nonempty, of old "ChannelHash [] old" "Some i" "tick v"])
  have "\<exists>msg. run_state (phaseC_Run e job) w =
      run_state (promote e job i (map backfill (Targets rec)) oldSlot psk old slot) (snd (run_state (broadcastNotice i msg) v1))"
    using assms v v1(1) by (simp add: phaseC_Run_def promote_def Let_def cache_old_psk_def split_def del: append.simps) (rule exI, rule refl)
  then obtain msg where msg: "run_state (phaseC_Run e job) w =
      run_state (promote e job i (map backfill (Targets rec)) oldSlot psk old slot) (snd (run_state (broadcastNotice i msg) v1))" by blast
  show thesis
    by (rule that [OF msg]) (use v v1(2-6) in \<open>auto simp: broadcastNotice_def same_tables_def rotation_def fun_eq_iff\<close>)
qed

lemma phaseC_Run_needs_psk:
  assumes "db_up e" "jRotationID job = Some i" "rotation w i = Some rec" "RetiredAt rec = None" "PiPhase rec \<noteq> PiPhaseRetired"
    "run_state (find_old_primary e (NewPSKFP rec) slots) (tick w) = (Some (oldSlot, old), v)" "run_state (phaseC_Run e job) w = (Inr (), w')"
  obtains psk where "RawPSK rec = Some psk" "psk \<noteq> []"
proof -
  have "rotation v = rotation w" using quiet_run [OF quiet.rel_find_old_primary assms(6)] by simp
  then show thesis using that assms by (cases "RawPSK rec") (auto simp: phaseC_Run_def Let_def split: if_splits)
qed

lemma phaseC_Run_up:
  assumes "db_up e" "jRotationID job = Some i" "rotation w i = Some rec" "RetiredAt rec = None" "PiPhase rec \<noteq> PiPhaseRetired"
    "run_state (find_old_primary e (NewPSKFP rec) slots) (tick w) = (Some (oldSlot, old), v)" "old \<noteq> []" "hashes_agree w old"
    "run_state (phaseC_Run e job) w = (Inr (), w')"
  shows "(\<exists>rec'. rotation w' i = Some rec' \<and> RetiredAt rec' \<noteq> None \<and> PiPhase rec' = PiPhaseRetired \<and> RawPSK rec' = None) \<and>
    (\<forall>n. n \<in> set (nodes_tab w) \<longrightarrow> left_behind e rec n \<longrightarrow> stranded_with (Fingerprint old) w' n) \<and>
    hashFP w' (ChannelHash [] old) \<noteq> None \<and> jobs_tab w' = jobs_tab w \<and> nodes_tab w' = nodes_tab w \<and> cooldown w' = cooldown w"
proof -
  let ?ts = "promote_local (LocalNodeNum e) (map backfill (Targets rec))"
  obtain psk where psk: "RawPSK rec = Some psk" "psk \<noteq> []" using phaseC_Run_needs_psk [OF assms(1-6,9)] .
  obtain slot v1 t where v1: "run_state (phaseC_Run e job) w = run_state (promote e job i (map backfill (Targets rec)) oldSlot psk old slot) v1"
    "added (Fingerprint old) old (ChannelHash [] old) (Some i) t (recovery_psks w) slot (recovery_psks v1)"
    "rotation v1 = rotation w" "nodes_tab v1 = nodes_tab w" "jobs_tab v1 = jobs_tab w" "cooldown v1 = cooldown w"
    using phaseC_Run_steps [OF assms(1-7) psk] .
  obtain m v3 where v3: "run_state (migratePiAtomicWithRecovery e (decode_phaseC (jPayload job)) oldSlot psk (int slot) old) v1 = (m, v3)" by fastforce
  have "run_state (check ''Pi atomic migrate'' m (\<lambda>_. phaseC_promoted e i ?ts oldSlot (Fingerprint old))) v3 = (Inr (), w')"
    unfolding assms(9) [symmetric] v1(1) promote_def using v3 by simp
  then have run: "run_state (phaseC_promoted e i ?ts oldSlot (Fingerprint old)) v3 = (Inr (), w')" by (auto simp: run_check_Inr)
  have tabs: "nodes_tab v3 = nodes_tab w" "jobs_tab v3 = jobs_tab w" "cooldown v3 = cooldown w" "recovery_psks v3 = recovery_psks v1"
    "rotation v3 i = Some rec"
    using quiet_run [OF quiet.rel_migratePi v3] v1(3-6) assms(3) by (auto simp: same_tables_def)
  obtain w2 rec' where w2: "run_state (phaseC_promoted e i ?ts oldSlot (Fingerprint old)) v3 = (Inr (), w2)" "rotation w2 i = Some rec'" "retired_row rec ?ts rec'"
    "\<And>m. m \<in> set (nodes_tab v3) \<Longrightarrow> \<exists>t \<in> set ?ts. NodeNum t = m \<and> m \<noteq> LocalNodeNum e \<and> \<not> migrated t \<Longrightarrow> stranded_with (Fingerprint old) w2 m"
    "recovery_psks w2 = recovery_psks v3" "jobs_tab w2 = jobs_tab v3" "nodes_tab w2 = nodes_tab v3" "cooldown w2 = cooldown v3"
    "hashFP w2 = hash_table (sort_key Slot (recovery_psks v3))"
    by (rule phaseC_promoted_up [OF assms(1) tabs(5), of ?ts oldSlot "Fingerprint old"]) blast
  have eq: "w2 = w'" using w2(1) run by simp
  note w' = w2(2-4,6-9) [unfolded eq]
  have "\<exists>r \<in> set (recovery_psks v1). FP r = Fingerprint old \<and> PSKHash r = ChannelHash [] old"
    using v1(2) assms(8) by (intro added_hash) (auto simp: hashes_agree_def list_all_iff)
  then have "hashFP w' (ChannelHash [] old) \<noteq> None" unfolding w'(7) tabs(4) using hash_table_known by metis
  moreover have "stranded_with (Fingerprint old) w' n" if "n \<in> set (nodes_tab w)" "left_behind e rec n" for n
    using that tabs(1) promote_local_others by (intro w'(3)) (fastforce simp: left_behind_def list_ex_iff)+
  ultimately show ?thesis using w' tabs by (auto simp: retired_row_def)
qed

text \<open>A phase C job that finds the old key and succeeds retires the rotation and drops its raw key; every
  known remote target that is not migrated is marked stranded with the fingerprint of the old key,
  and the hook's table knows the channel hash of the old key. The jobs table is unchanged.\<close>

theorem phaseC_outcome:
  assumes "db_up e" "jRotationID job = Some i" "rotation w i = Some rec" "RetiredAt rec = None" "PiPhase rec \<noteq> PiPhaseRetired"
    "run_state (find_old_primary e (NewPSKFP rec) slots) (tick w) = (Some (oldSlot, old), v)" "old \<noteq> []" "hashes_agree w old"
    "run_state (phaseC_Run e job) w = (Inr (), w')"
  shows "(\<exists>rec'. rotation w' i = Some rec' \<and> RetiredAt rec' \<noteq> None \<and> PiPhase rec' = PiPhaseRetired \<and> RawPSK rec' = None) \<and>
    list_all (stranded_with (Fingerprint old) w') (filter (left_behind e rec) (nodes_tab w)) \<and>
    hashFP w' (ChannelHash [] old) \<noteq> None \<and> jobs_tab w' = jobs_tab w"
  using phaseC_Run_up [OF assms] by (auto simp: list_all_iff)

text \<open>A rotation past staging whose node 9 is not migrated.\<close>

definition retiring :: world where
  "retiring = world0\<lparr>nodes_tab := [1, 9], rotations := [rotation0\<lparr>NewPSKFP := []\<rparr>]\<rparr>"

abbreviation "jobC \<equiv> phase_job KindRotatePhaseC (PhaseCPayload 1)"

lemma local_on_old_key:
  "\<exists>x w'. run_state (runLocalAdmin (on_old_key psk) msg k) w = (Inr x, w')"
  by (simp add: radio_defs split_def) (simp add: on_old_key_def admin_reply_def)

lemma migratePi_on_old_key: "\<exists>w'. run_state (migratePiAtomicWithRecovery (on_old_key psk) a b c d x) w = (Inr (), w')"
proof -
  have step: "\<exists>u. run_state (do { x \<leftarrow> runLocalAdmin (on_old_key psk) msg k; check what x (\<lambda>_. m) }) w = run_state m u"
    for m :: "unit fallible" and msg k what w
    using local_on_old_key [of psk msg k w] by auto
  have fin: "\<exists>u. run_state (do { x \<leftarrow> runLocalAdmin (on_old_key psk) msg k; check what x (\<lambda>_. ok ()) }) w = (Inr (), u)" for msg k what w
    using local_on_old_key [of psk msg k w] by auto
  have seq: "\<exists>u. run_state (do { r \<leftarrow> a; pass r (\<lambda>_. b) }) w = (Inr (), u)"
    if "\<exists>u. run_state a w = (Inr (), u)" "\<And>w. \<exists>u. run_state b w = (Inr (), u)" for a b :: "unit fallible" and w
    using that by auto
  have "\<exists>u. run_state (do { r \<leftarrow> (if 0 \<le> d \<and> x \<noteq> [] then do { x \<leftarrow> runLocalAdmin (on_old_key psk) m1 k1; check c1 x (\<lambda>_. ok ()) } else ok ());
      pass r (\<lambda>_. do { c \<leftarrow> runLocalAdmin (on_old_key psk) m2 k2; check c2 c (\<lambda>_. ok ()) }) }) w = (Inr (), u)" for m1 m2 k1 k2 c1 c2 w
  proof (rule seq [OF _ fin])
    show "\<exists>u. run_state (if 0 \<le> d \<and> x \<noteq> [] then do { x \<leftarrow> runLocalAdmin (on_old_key psk) m1 k1; check c1 x (\<lambda>_. ok ()) } else ok ()) w = (Inr (), u)"
      using fin [of m1 k1 c1 w] by (cases "0 \<le> d \<and> x \<noteq> []") simp_all
  qed
  then show ?thesis unfolding migratePiAtomicWithRecovery_def using step by metis
qed

lemma phaseC_on_old_key:
  assumes "psk \<noteq> []"
  shows "\<exists>v. run_state (find_old_primary (on_old_key psk) [] slots) (tick retiring) = (Some (0, psk), v)"
    "\<exists>w'. run_state (phaseC_Run (on_old_key psk) jobC) retiring = (Inr (), w')"
proof -
  have f: "run_state (find_old_primary (on_old_key psk) [] slots) w = (Some (0, psk), (tick w)\<lparr>outbox := outbox w @ [Sent 1 (AdminGetChannel (slot_word 0))]\<rparr>)" for w
    by (simp add: slots_def readLocalChannel_def local_get extractChannel_def channel_psk_def)
  then show "\<exists>v. run_state (find_old_primary (on_old_key psk) [] slots) (tick retiring) = (Some (0, psk), v)" by blast
  have r: "rotation retiring 3 = Some (rotation0\<lparr>NewPSKFP := []\<rparr>)" by (simp add: retiring_def rotation_def rotation0_def)
  have p: "\<exists>w'. run_state (phaseC_promoted (on_old_key psk) 3 ts a fp) w = (Inr (), w')" if "rotation w 3 = Some rec" for ts a fp w rec
    by (rule phaseC_promoted_up [OF old_up [of psk] that, of ts a fp]) blast
  have c: "jRotationID jobC = Some 3" "RetiredAt (rotation0\<lparr>NewPSKFP := []\<rparr>) = None" "PiPhase (rotation0\<lparr>NewPSKFP := []\<rparr>) \<noteq> PiPhaseRetired"
    "RawPSK (rotation0\<lparr>NewPSKFP := []\<rparr>) = Some psk0" "psk0 \<noteq> []"
    by (simp_all add: phase_job_def rotation0_def psk0_def)
  have f0: "run_state (find_old_primary (on_old_key psk) (NewPSKFP (rotation0\<lparr>NewPSKFP := []\<rparr>)) slots) (tick retiring) =
      (Some (0, psk), (tick (tick retiring))\<lparr>outbox := outbox (tick retiring) @ [Sent 1 (AdminGetChannel (slot_word 0))]\<rparr>)" using f by simp
  obtain slot v1 t where v1: "run_state (phaseC_Run (on_old_key psk) jobC) retiring =
      run_state (promote (on_old_key psk) jobC 3 (map backfill (Targets (rotation0\<lparr>NewPSKFP := []\<rparr>))) 0 psk0 psk slot) v1"
    "rotation v1 = rotation retiring"
    by (rule phaseC_Run_steps [OF old_up c(1) r c(2,3) f0 assms c(4,5)])
  obtain v2 where v2: "run_state (migratePiAtomicWithRecovery (on_old_key psk) (decode_phaseC (jPayload jobC)) 0 psk0 (int slot) psk) v1 = (Inr (), v2)"
    using migratePi_on_old_key by blast
  have "rotation v2 3 = Some (rotation0\<lparr>NewPSKFP := []\<rparr>)" using quiet_run(2) [OF quiet.rel_migratePi v2] v1(2) r by simp
  from p [OF this] show "\<exists>w'. run_state (phaseC_Run (on_old_key psk) jobC) retiring = (Inr (), w')"
    unfolding v1(1) promote_def using v2 by simp
qed

section \<open>The hook\<close>

definition hook_accepts :: "env \<Rightarrow> world \<Rightarrow> u32 \<Rightarrow> byte \<Rightarrow> bool" where
  "hook_accepts e w n h \<longleftrightarrow> hashFP w h \<noteq> None \<and>
     (case cooldown w n of None \<Rightarrow> True | Some prev \<Rightarrow> hook_cooldown \<le> now_at e (ticks w) - prev) \<and>
     n \<in> set (nodes_tab w) \<and> StrandedSince (joined w n) \<noteq> None \<and> \<not> list_ex (pending_for KindRecoverStrand (node64 n)) (jobs_tab w)"

definition recover_fp :: "world \<Rightarrow> u32 \<Rightarrow> byte \<Rightarrow> string" where
  "recover_fp w n h = (if unnull (PreviousPSKFP (joined w n)) \<noteq> [] then unnull (PreviousPSKFP (joined w n)) else given [] (hashFP w h))"

lemma ObserveInbound_jobs:
  assumes "db_up e"
  shows "\<exists>new. jobs_tab (snd (run_state (ObserveInbound e n h) w)) = jobs_tab w @ new \<and>
    map (\<lambda>j. (jKind j, TargetNodeNum j, jState j, jPayload j)) new =
      (if hook_accepts e w n h
       then [(KindRecoverStrand, Some (node64 n), StateQueued, RecoverStrandedPayload n (recover_fp w n h) ''dispatcher'')] else [])"
  using assms
  by (auto simp: ObserveInbound_def cool_def hook_accepts_def recover_fp_def GetNodeTrust_def HasPendingFor_def Enqueue_job_def Let_def
      joined_def trust_row_def given_def list_ex_iff filter_empty_conv split: option.splits)

text \<open>A packet queues a recovery exactly when its channel hash belongs to a cached key, the sender has
  not been looked at in the last thirty seconds, is a known node marked stranded, and has no active
  recovery job; the job asks for the node's own previous key when one is recorded, else for the key of
  the hash. Otherwise the jobs table is untouched.\<close>

theorem hook_enqueues:
  assumes "db_up e"
  shows "\<exists>new. jobs_tab (snd (run_state (ObserveInbound e n h) w)) = jobs_tab w @ new \<and>
    map (\<lambda>j. (jKind j, TargetNodeNum j, jState j, jPayload j)) new =
      (if hook_accepts e w n h
       then [(KindRecoverStrand, Some (node64 n), StateQueued, RecoverStrandedPayload n (recover_fp w n h) ''dispatcher'')] else [])"
  using assms by (rule ObserveInbound_jobs)

text \<open>C23: While the database answers, a node that phase C leaves behind is found again: after a phase C job that finds the old key as the
  primary channel of the radio and succeeds, the first packet of such a node under the hash of the old key queues one recovery job
  for it, with the old key's fingerprint, provided that the node is in the roster, no attempt for it is cooling down, no such job is active, and the cached
  rows of that fingerprint carry the hash of the key. This is not so when the old key is not found, as after a lost reply or with the radio
  unreachable: then phase C retires the rotation and marks no node (\<open>phaseC_without_radio\<close>).\<close>

theorem left_behind_is_recovered:
  assumes "db_up e" "jRotationID job = Some i" "rotation w i = Some rec" "RetiredAt rec = None" "PiPhase rec \<noteq> PiPhaseRetired"
    "run_state (find_old_primary e (NewPSKFP rec) slots) (tick w) = (Some (oldSlot, old), v)" "old \<noteq> []" "hashes_agree w old"
    "run_state (phaseC_Run e job) w = (Inr (), w')"
    "n \<in> set (nodes_tab w)" "left_behind e rec n" "cooldown w n = None" "\<not> list_ex (pending_for KindRecoverStrand (node64 n)) (jobs_tab w)"
  shows "\<exists>j. jobs_tab (snd (run_state (ObserveInbound e n (ChannelHash [] old)) w')) = jobs_tab w @ [j] \<and> jKind j = KindRecoverStrand \<and>
    TargetNodeNum j = Some (node64 n) \<and> jState j = StateQueued \<and> jPayload j = RecoverStrandedPayload n (Fingerprint old) ''dispatcher''"
proof -
  note c = phaseC_Run_up [OF assms(1-9)]
  then have s: "stranded_with (Fingerprint old) w' n" using assms(10,11) by blast
  then have j: "StrandedSince (joined w' n) \<noteq> None" "PreviousPSKFP (joined w' n) = Some (Fingerprint old)"
    by (auto simp: stranded_with_def joined_def split: option.splits)
  then have "hook_accepts e w' n (ChannelHash [] old)" "recover_fp w' n (ChannelHash [] old) = Fingerprint old"
    using c assms(10,12,13) by (auto simp: hook_accepts_def recover_fp_def unnull_def)
  then show ?thesis using ObserveInbound_jobs [OF assms(1), of n "ChannelHash [] old" w'] c by auto
qed

theorem left_behind_is_recovered_witness:
  "\<exists>w' j. run_state (phaseC_Run (on_old_key psk0) jobC) retiring = (Inr (), w') \<and>
     jobs_tab (snd (run_state (ObserveInbound (on_old_key psk0) 9 (ChannelHash [] psk0)) w')) = [j] \<and>
     jPayload j = RecoverStrandedPayload 9 (Fingerprint psk0) ''dispatcher''"
proof -
  have ne: "psk0 \<noteq> []" by (simp add: psk0_def)
  obtain v w' where v: "run_state (find_old_primary (on_old_key psk0) (NewPSKFP (rotation0\<lparr>NewPSKFP := []\<rparr>)) slots) (tick retiring) = (Some (0, psk0), v)"
    and w': "run_state (phaseC_Run (on_old_key psk0) jobC) retiring = (Inr (), w')"
    using phaseC_on_old_key [OF ne] by auto
  have "left_behind (on_old_key psk0) (rotation0\<lparr>NewPSKFP := []\<rparr>) 9"
    by (simp add: left_behind_def rotation0_def target0_def backfill_def migrated_def)
  with left_behind_is_recovered [OF old_up _ _ _ _ v ne _ w', of 3 9] w' show ?thesis
    by (auto simp: phase_job_def retiring_def rotation_def rotation0_def hashes_agree_def world0_def)
qed

section \<open>Phase C without the radio\<close>

lemma find_old_primary_blind:
  assumes "\<And>t m. link_err e t (LocalNodeNum e) m \<noteq> None"
  shows "\<exists>v. run_state (find_old_primary e fp idxs) w = (None, v) \<and> same_tables w v \<and> outbox v = outbox w"
proof (induction idxs arbitrary: w)
  case Nil
  then show ?case by (simp add: quiet.refl)
next
  case (Cons idx rest)
  obtain r u where u: "run_state (readLocalChannel e idx) w = (r, u)" by fastforce
  obtain why where "link_err e (ticks w) (LocalNodeNum e) (AdminGetChannel (slot_word idx)) = Some why" using assms by blast
  then have "\<exists>err. r = Inl err" "outbox u = outbox w"
    using u by (auto simp: readLocalChannel_def runLocalAdmin_def send_admin_def transact_def split: if_splits option.splits)
  moreover have "same_tables w u" using quiet_run(1) [OF quiet.rel_readLocalChannel u] .
  ultimately show ?case using Cons.IH [of u] u quiet.trans by fastforce
qed

text \<open>When the serial link is down, a phase C job still succeeds and marks the rotation retired. Nothing
  was sent to the radio, so it is still on the old key; the raw key stays in the row, nothing enters
  the recovery cache and no node is marked stranded.\<close>

theorem phaseC_without_radio:
  assumes "db_up e" "\<And>t m. link_err e t (LocalNodeNum e) m \<noteq> None"
    "jRotationID job = Some i" "rotation w i = Some rec" "RetiredAt rec = None" "PiPhase rec \<noteq> PiPhaseRetired"
  shows "\<exists>w' t. run_state (phaseC_Run e job) w = (Inr (), w') \<and> rotation w' i = Some (rec\<lparr>RetiredAt := Some t, PiPhase := PiPhaseRetired\<rparr>) \<and>
    outbox w' = outbox w \<and> recovery_psks w' = recovery_psks w \<and> trust_tab w' = trust_tab w"
proof -
  obtain v where v: "run_state (find_old_primary e (NewPSKFP rec) slots) (tick w) = (None, v)" "same_tables (tick w) v" "outbox v = outbox w"
    using find_old_primary_blind [OF assms(2), of "NewPSKFP rec" slots "tick w"] by auto
  moreover have "rotation v i = Some rec" using v(2) assms(4) by (simp add: same_tables_def rotation_def)
  ultimately show ?thesis using assms(1,3-6) by (simp add: phaseC_Run_def Let_def same_tables_def) blast
qed

end
