(* ===== verification/FleetTrustProofs.thy ===== *)
theory FleetTrustProofs
  imports FleetLogic
begin

text \<open>
  The guards of the trust roster: what must hold before anything is sent to a radio that could lock
  the operator out. Nothing is assumed of the database, the clock or the radios.
\<close>

section \<open>Nothing is sent\<close>

definition unsent :: "world \<Rightarrow> world \<Rightarrow> bool" where
  "unsent w w' \<longleftrightarrow> outbox w' = outbox w \<and> idents w' = idents w \<and> nodes_tab w' = nodes_tab w \<and> trust_tab w' = trust_tab w"

interpretation unsent: world_relation unsent
  by unfold_locales (auto simp: unsent_def)

lemma unsent_query [intro!]: "state_io_rel unsent (query e q)"
  by (auto simp: state_io_rel_def query_def db_def unsent_def split: option.splits)

lemma unsent_pick [intro!]: "state_io_rel unsent (pickKnownFingerprints e fps)"
  unfolding pickKnownFingerprints_def ListIdentities_def by blast

lemma unsent_GetIdentity [intro!]: "state_io_rel unsent (GetIdentityByFingerprint e fp)"
  unfolding GetIdentityByFingerprint_def by blast

lemma unsent_pubkeys [intro!]: "state_io_rel unsent (pubkeysForFingerprints e fps)"
  by (induction fps) auto

text \<open>What successful lookups in the registry say.\<close>

lemma pickKnown_known:
  assumes "run_state (pickKnownFingerprints e fps) w = (Inr known, w')" "fp \<in> set known"
  shows "fp \<in> set fps \<and> (\<exists>i \<in> set (idents w). iRole i \<noteq> IdentityRoleRevoked \<and> iFingerprint i = fp)"
  using assms by (auto simp: pickKnownFingerprints_def ListIdentities_def query_def db_def list_ex_iff split: option.splits)

lemma GetIdentity_registered:
  assumes "run_state (GetIdentityByFingerprint e fp) w = (Inr rec, w')"
  shows "rec \<in> set (idents w)" "iFingerprint rec = fp"
  using assms by (auto simp: GetIdentityByFingerprint_def query_def db_def find_Some_iff split: option.splits)

lemma pubkeys_registered:
  assumes "run_state (pubkeysForFingerprints e fps) w = (Inr ks, w')"
  shows "list_all2 (\<lambda>fp k. \<exists>i \<in> set (idents w). iFingerprint i = fp \<and> iPublicKey i = k) fps ks"
  using assms
proof (induction fps arbitrary: ks w w')
  case (Cons fp fps)
  obtain r v where r: "run_state (GetIdentityByFingerprint e fp) w = (r, v)" by fastforce
  obtain rest u where u: "run_state (pubkeysForFingerprints e fps) v = (rest, u)" by fastforce
  have "idents v = idents w" using state_io_relD [OF unsent_GetIdentity r] by (simp add: unsent_def)
  moreover obtain rec ks' where "r = Inr rec" "rest = Inr ks'" "ks = iPublicKey rec # ks'"
    using Cons.prems r u by (cases r; cases rest) auto
  ultimately show ?case using Cons.IH [of v ks' u] u GetIdentity_registered [of e fp w rec v] r by auto
qed simp

section \<open>Admin keys\<close>

text \<open>Anything \<open>SetAdminKeys\<close> sends is preceded by its guards: the node number is not zero, at most three
  keys are given, every one is in the identity registry, and either one of them is an identity that
  is not revoked or the operator forced the change and typed LOCKOUT. This holds for every behaviour
  of database, clock and radios.\<close>

theorem admin_keys_guarded:
  assumes "outbox (snd (run_state (SetAdminKeys e userID n fps force ack) w)) \<noteq> outbox w"
  shows "n \<noteq> 0 \<and> length fps \<le> 3 \<and> set fps \<subseteq> iFingerprint ` set (idents w) \<and>
    ((force \<and> ack = ''LOCKOUT'') \<or> list_ex (\<lambda>i. iRole i \<noteq> IdentityRoleRevoked \<and> iFingerprint i \<in> set fps) (idents w))"
proof -
  obtain k v where k: "run_state (pickKnownFingerprints e fps) w = (k, v)" by fastforce
  obtain p u where p: "run_state (pubkeysForFingerprints e fps) v = (p, u)" by fastforce
  have v: "unsent w v" using state_io_relD [OF unsent_pick k] .
  have u: "unsent v u" using state_io_relD [OF unsent_pubkeys p] .
  have g: "n \<noteq> 0" "length fps \<le> 3" using assms by (auto simp: SetAdminKeys_def split: if_splits)
  obtain known where known: "k = Inr known" using assms g k v by (cases k) (auto simp: SetAdminKeys_def unsent_def)
  have lock: "known \<noteq> [] \<or> (force \<and> ack = ''LOCKOUT'')" using assms g k v known by (auto simp: SetAdminKeys_def unsent_def split: if_splits)
  obtain ks where ks: "p = Inr ks" using assms g k v known p u lock by (cases p) (auto simp: SetAdminKeys_def unsent_def split: if_splits)
  have "set fps \<subseteq> iFingerprint ` set (idents w)"
  proof
    fix fp assume "fp \<in> set fps"
    then obtain k where "k < length fps" "fp = fps ! k" by (auto simp: in_set_conv_nth)
    then show "fp \<in> iFingerprint ` set (idents w)"
      using list_all2_nthD [OF pubkeys_registered [OF p [unfolded ks]], of k] v by (force simp: unsent_def)
  qed
  moreover have "known \<noteq> [] \<Longrightarrow> list_ex (\<lambda>i. iRole i \<noteq> IdentityRoleRevoked \<and> iFingerprint i \<in> set fps) (idents w)"
    using pickKnown_known [of e fps w known v] k known by (cases known) (auto simp: list_ex_iff)
  ultimately show ?thesis using g lock by blast
qed

text \<open>One registered identity.\<close>

definition ident0 :: IdentityRecord where
  "ident0 = \<lparr>iID = 1, iLabel = ''op'', iPublicKey = replicate 32 1, iFingerprint = ''aa'', iRole = IdentityRoleOperator,
     iSource = IdentitySourceImported, iCreatedAt = 0, iRevokedAt = None\<rparr>"

end
