(* ===== verification/FleetRecovery.thy ===== *)
theory FleetRecovery
  imports FleetHandlers
begin

text \<open>
  The recovery wizard (\<open>internal/fleetsec/recovery.go\<close>): after the loss of the primary key the local
  radio runs the rescue key, every node gets the rescue key and a new primary key as admin keys, and
  the local radio is set to the new primary. The goroutine that \<open>StartRecovery\<close> spawns is
  \<open>runRecovery\<close> on the arguments that \<open>StartRecovery\<close> hands over. The notes of a recovery, which
  are only displayed, are left out.
\<close>

section \<open>Time stamps\<close>

text \<open>\<open>Format("20060102-150405")\<close> of a UTC time in nanoseconds since 1970: the civil date by the
  proleptic Gregorian calendar, with years counted from 1 March of year 0.\<close>

definition civil :: "int \<Rightarrow> int \<times> int \<times> int" where
  "civil days = (let z = days + 719468; era = z div 146097; doe = z mod 146097;
     yoe = (doe - doe div 1460 + doe div 36524 - doe div 146096) div 365;
     doy = doe - (365 * yoe + yoe div 4 - yoe div 100);
     mp = (5 * doy + 2) div 153; d = doy - (153 * mp + 2) div 5 + 1; mon = (if mp < 10 then mp + 3 else mp - 9);
     y = yoe + era * 400 + (if mon \<le> 2 then 1 else 0) in (y, mon, d))"

definition pad :: "nat \<Rightarrow> int \<Rightarrow> string" where
  "pad k i = (let s = show_nat (nat i) in replicate (k - length s) (CHR ''0'') @ s)"

definition format_stamp :: "int \<Rightarrow> string" where
  "format_stamp t = (let s = t div 10 ^ 9; day = s div 86400; r = s mod 86400 in
     (case civil day of (y, mon, d) \<Rightarrow>
        pad 4 y @ pad 2 mon @ pad 2 d @ ''-'' @ pad 2 (r div 3600) @ pad 2 (r div 60 mod 60) @ pad 2 (r mod 60)))"

section \<open>Starting\<close>

record RecoveryRun =
  runID :: nat
  rescuePriv :: "byte list"
  rescuePub :: "byte list"
  newPriv :: "byte list"
  newPub :: "byte list"
  oldPrimaryFP :: string
  newPrimaryLabel :: string
  runTargets :: "RotationTarget list"

definition recovery_target :: "u32 \<Rightarrow> RotationTarget" where
  "recovery_target n = \<lparr>NodeNum = n, Phase = PhaseUnset, tgStatus = TargetStatusPending, tgAttempts = 0, tgLastError = []\<rparr>"

definition recovery_targets :: "u32 \<Rightarrow> NodeTrustRecord list \<Rightarrow> RotationTarget list" where
  "recovery_targets local rows = map (recovery_target \<circ> tNodeNum) (filter (\<lambda>n. tNodeNum n \<noteq> 0 \<and> tNodeNum n \<noteq> local) rows)"

text \<open>\<open>random\<close> are the 32 bytes the key generator reads.\<close>

definition StartRecovery :: "(byte list \<Rightarrow> byte list option) \<Rightarrow> byte list \<Rightarrow> env \<Rightarrow> string \<Rightarrow> byte list \<Rightarrow> byte list \<Rightarrow> string \<Rightarrow> string \<Rightarrow> RecoveryRun fallible" where
  "StartRecovery x25519 random e userID priv pub ack label =
     (if ack \<noteq> ''RECOVER'' then fail (Wrap ''recovery requires Ack=\"RECOVER\"'' ErrInvalidAck)
      else (case (ValidateX25519Key priv, ValidateX25519Key pub, DerivePubkey x25519 priv) of
        (Some err, _, _) \<Rightarrow> fail (Wrap ''rescue priv'' (KeyErr err))
      | (None, Some err, _) \<Rightarrow> fail (Wrap ''rescue pub'' (KeyErr err))
      | (None, None, Inl err) \<Rightarrow> fail (Wrap ''derive'' (KeyErr err))
      | (None, None, Inr None) \<Rightarrow> fail (ErrText ''derive'')
      | (None, None, Inr (Some derived)) \<Rightarrow>
          if derived \<noteq> pub then fail (ErrText ''rescue priv/pub mismatch'')
          else do {
            g \<leftarrow> GetIdentity e;
            let old = (case g of Inl _ \<Rightarrow> [] | Inr ident \<Rightarrow> idFingerprint ident);
            (case GenerateX25519Keypair x25519 random of
               None \<Rightarrow> fail (ErrText ''mint new primary'')
             | Some (minted, mintedPub) \<Rightarrow> do {
                 rows \<leftarrow> ListNodeTrust e;
                 check ''read fleet roster'' rows (\<lambda>rows. do {
                   let targets = recovery_targets (LocalNodeNum e) rows;
                   r \<leftarrow> InsertRotation e RotationKindRecovery (Some (- 1)) userID targets (Fingerprint mintedPub) None;
                   check ''create recovery row'' r (\<lambda>i. do {
                     _ \<leftarrow> auditFleet userID ''recovery_start'' ''recovery'' (show_nat i)
                       [(''recovery_id'', DInt (int i)), (''new_primary_fp'', DStr (Fingerprint mintedPub)), (''rescue_fp'', DStr (Fingerprint pub)),
                        (''old_primary_fp'', DStr old), (''target_count'', DInt (int (length targets))), (''severity'', DStr ''critical'')];
                     ok \<lparr>runID = i, rescuePriv = priv, rescuePub = pub, newPriv = minted, newPub = mintedPub, oldPrimaryFP = old,
                         newPrimaryLabel = label, runTargets = targets\<rparr> }) }) }) }))"

section \<open>The runner\<close>

definition emit_stage :: "env \<Rightarrow> nat \<Rightarrow> RotationTarget list \<Rightarrow> RecoveryStage \<Rightarrow> bool \<Rightarrow> string \<Rightarrow> unit fleet" where
  "emit_stage e i current stage done err = do {
     c \<leftarrow> (if done then do { t \<leftarrow> now e; return (Some t) } else return None);
     _ \<leftarrow> UpdateRotationTargets e i current c;
     emit (RecoveryProgress i stage current done err) }"

definition installLocalKeypair :: "env \<Rightarrow> byte list \<Rightarrow> byte list \<Rightarrow> unit fallible" where
  "installLocalKeypair e priv pub = do {
     r \<leftarrow> runLocalAdmin e (AdminSetSecurity (no_update\<lparr>uPrivateKey := Some priv, uPublicKey := Some pub\<rparr>)) ''local-set-security-recovery'';
     pass r (\<lambda>_. ok ()) }"

definition pushRecoveryAdminKeys :: "env \<Rightarrow> u32 \<Rightarrow> byte list \<Rightarrow> byte list \<Rightarrow> unit fallible" where
  "pushRecoveryAdminKeys e n rescue new = do {
     r \<leftarrow> runRemoteAdmin e n (AdminSetSecurity (no_update\<lparr>uAdminKeys := Some [rescue, new]\<rparr>)) ''remote-recovery-set-admin-keys'';
     pass r (\<lambda>_. ok ()) }"

text \<open>The loop over the targets; \<open>before\<close> are those already handled.\<close>

fun push_fleet :: "env \<Rightarrow> RecoveryRun \<Rightarrow> RotationTarget list \<Rightarrow> RotationTarget list \<Rightarrow> RotationTarget list fleet" where
  "push_fleet e rr before [] = return before"
| "push_fleet e rr before (t # rest) = do {
     let t = t\<lparr>tgStatus := TargetStatusInFlight, tgAttempts := Suc (tgAttempts t)\<rparr>;
     _ \<leftarrow> emit_stage e (runID rr) (before @ t # rest) RecoveryStagePushFleet False [];
     r \<leftarrow> pushRecoveryAdminKeys e (NodeNum t) (rescuePub rr) (newPub rr);
     let t = (case r of Inl err \<Rightarrow> t\<lparr>tgStatus := TargetStatusFailed, tgLastError := Error err\<rparr>
       | Inr _ \<Rightarrow> t\<lparr>tgStatus := TargetStatusAcked, tgLastError := []\<rparr>);
     _ \<leftarrow> emit_stage e (runID rr) (before @ t # rest) RecoveryStagePushFleet False [];
     push_fleet e rr (before @ [t]) rest }"

definition recovery_aborted :: "env \<Rightarrow> string \<Rightarrow> nat \<Rightarrow> RotationTarget list \<Rightarrow> string \<Rightarrow> string \<Rightarrow> string \<Rightarrow> fleet_error \<Rightarrow> unit fleet" where
  "recovery_aborted e userID i current what action stage err = do {
     _ \<leftarrow> emit_stage e i current RecoveryStageFailed True (what @ '': '' @ Error err);
     auditFleet userID action ''recovery'' (show_nat i) [(''stage'', DStr stage), (''error'', DStr (Error err)), (''severity'', DStr ''critical'')] }"

text \<open>The identity registry after the new primary is installed; errors are ignored.\<close>

definition update_registry :: "env \<Rightarrow> RecoveryRun \<Rightarrow> unit fleet" where
  "update_registry e rr = do {
     label \<leftarrow> (if newPrimaryLabel rr = [] then do { t \<leftarrow> now e; return (''cc-primary-recovered-'' @ format_stamp t) } else return (newPrimaryLabel rr));
     _ \<leftarrow> InsertIdentity e label (newPub rr) (Fingerprint (newPub rr)) IdentityRolePrimary IdentitySourceRotated;
     _ \<leftarrow> (if oldPrimaryFP rr \<noteq> [] \<and> oldPrimaryFP rr \<noteq> Fingerprint (newPub rr) then RevokeIdentity e (oldPrimaryFP rr) else ok ());
     g \<leftarrow> GetIdentityByFingerprint e (Fingerprint (rescuePub rr));
     _ \<leftarrow> (if g = Inl ErrNotFound
       then InsertIdentity e ''cc-rescue'' (rescuePub rr) (Fingerprint (rescuePub rr)) IdentityRoleRescue IdentitySourceImported else ok 0);
     return () }"

definition acked_count :: "RotationTarget list \<Rightarrow> nat" where
  "acked_count ts = length (filter (\<lambda>t. tgStatus t = TargetStatusAcked) ts)"

text \<open>What follows the installation of the rescue key.\<close>

definition after_rescue :: "env \<Rightarrow> string \<Rightarrow> RecoveryRun \<Rightarrow> unit fleet" where
  "after_rescue e userID rr = do {
     let i = runID rr;
     _ \<leftarrow> emit_stage e i (runTargets rr) RecoveryStagePushFleet False [];
     current \<leftarrow> push_fleet e rr [] (runTargets rr);
     _ \<leftarrow> emit_stage e i current RecoveryStageRestorePrimary False [];
     p \<leftarrow> installLocalKeypair e (newPriv rr) (newPub rr);
     (case p of
        Inl err \<Rightarrow> recovery_aborted e userID i current ''restore primary'' ''recovery_partial'' ''restore-primary'' err
      | Inr _ \<Rightarrow> do {
          _ \<leftarrow> update_registry e rr;
          _ \<leftarrow> emit_stage e i current RecoveryStageDone True [];
          auditFleet userID ''recovery_complete'' ''recovery'' (show_nat i)
            [(''recovery_id'', DInt (int i)), (''new_primary_fp'', DStr (Fingerprint (newPub rr))), (''successes'', DInt (int (acked_count current))),
             (''failures'', DInt (int (length current - acked_count current))), (''severity'', DStr ''critical'')] }) }"

definition runRecovery :: "env \<Rightarrow> string \<Rightarrow> RecoveryRun \<Rightarrow> unit fleet" where
  "runRecovery e userID rr = do {
     let i = runID rr;
     _ \<leftarrow> emit_stage e i (runTargets rr) RecoveryStageInstallRescue False [];
     r \<leftarrow> installLocalKeypair e (rescuePriv rr) (rescuePub rr);
     (case r of
        Inl err \<Rightarrow> recovery_aborted e userID i (runTargets rr) ''install rescue'' ''recovery_failed'' ''install-rescue'' err
      | Inr _ \<Rightarrow> after_rescue e userID rr) }"

section \<open>The wizard's view\<close>

record RecoveryStatus =
  stID :: nat
  stStage :: RecoveryStage
  stStartedAt :: int
  stCompletedAt :: "int option"
  NewPrimaryFP :: string
  stTargets :: "RotationTarget list"

definition GetRecovery :: "env \<Rightarrow> nat \<Rightarrow> RecoveryStatus fallible" where
  "GetRecovery e i = do {
     g \<leftarrow> GetRotation e i;
     pass g (\<lambda>rec.
       if rotKind rec \<noteq> RotationKindRecovery then fail (ErrText ''not a recovery rotation'')
       else ok \<lparr>stID = rotID rec, stStage = (if CompletedAt rec \<noteq> None then RecoveryStageDone else RecoveryStageInstallRescue),
         stStartedAt = StartedAt rec, stCompletedAt = CompletedAt rec, NewPrimaryFP = NewPSKFP rec, stTargets = Targets rec\<rparr>) }"

end
