(* ===== verification/FleetRecoveryProofs.thy ===== *)
theory FleetRecoveryProofs
  imports FleetRecovery FleetRotationProofs
begin

text \<open>
  The recovery wizard: private keys are sent to the local radio only, what a run does to the
  registry and the targets, and how its outcome is reported.
\<close>

section \<open>Private keys stay local\<close>

text \<open>Whether a message carries a private key, and whether an event hands one to another node.\<close>

definition private_key :: "AdminMessage \<Rightarrow> byte list" where
  "private_key m = (case PayloadVariant m of SetConfig sec \<Rightarrow> secPrivateKey sec | _ \<Rightarrow> [])"

fun leaks :: "u32 \<Rightarrow> fleet_event \<Rightarrow> bool" where
  "leaks local (Sent n m) \<longleftrightarrow> private_key m \<noteq> [] \<and> n \<noteq> local"
| "leaks local _ \<longleftrightarrow> False"

definition discreet :: "u32 \<Rightarrow> world \<Rightarrow> world \<Rightarrow> bool" where
  "discreet local w w' \<longleftrightarrow> (\<exists>evs. outbox w' = outbox w @ evs \<and> \<not> list_ex (leaks local) evs)"

interpretation discreet: world_relation "discreet local"
proof unfold_locales
  show "discreet local w w" for w by (simp add: discreet_def)
  show "discreet local u w" if "discreet local u v" "discreet local v w" for u v w
    using that unfolding discreet_def by (metis append.assoc list_ex_append)
qed

lemma discreet_same: "outbox w' = outbox w \<Longrightarrow> discreet local w w'"
  by (simp add: discreet_def)

lemma discreet_interact: "(\<And>t w. outbox (snd (f t w)) = outbox w) \<Longrightarrow> state_io_rel (discreet local) (interact f)"
  by (simp add: state_io_rel_def discreet_same)

lemma discreet_db: "(\<And>t w. outbox (snd (f t w)) = outbox w) \<Longrightarrow> state_io_rel (discreet local) (db e f)"
  unfolding db_def by (rule discreet_interact) (auto split: option.splits prod.splits, metis snd_conv)

lemma discreet_statements [intro!]:
  "state_io_rel (discreet local) (query e q)" "state_io_rel (discreet local) (now e)"
  unfolding query_def now_def by (rule discreet_db discreet_interact, simp)+

lemma discreet_emit [intro!]: "\<not> leaks local ev \<Longrightarrow> state_io_rel (discreet local) (emit ev)"
  by (auto simp: state_io_rel_def discreet_def)

lemma discreet_audit [intro!]: "state_io_rel (discreet local) (auditFleet u a r i d)"
  unfolding auditFleet_def by auto

lemma discreet_exec: "(\<And>t w. outbox (f t w) = outbox w) \<Longrightarrow> state_io_rel (discreet local) (db_exec e f)"
  unfolding db_exec_def by (rule discreet_db) simp

lemma discreet_checked: "(\<And>t w. outbox (snd (f t w)) = outbox w) \<Longrightarrow> state_io_rel (discreet local) (db_checked e f)"
  unfolding db_checked_def by (rule discreet_interact) (auto split: option.splits)

lemma discreet_send:
  assumes "n = local \<or> private_key msg = []"
  shows "state_io_rel (discreet local) (send_admin e n msg kind)"
proof -
  have "state_io_rel (discreet local) (transact e n msg)"
    using assms by (auto simp: state_io_rel_def transact_def discreet_def split: option.splits)
  moreover have "state_io_rel (discreet local) (cacheSessionPasskey m pk)" "state_io_rel (discreet local) (invalidateSessionPasskey m)" for m pk
    by (auto simp: state_io_rel_def cacheSessionPasskey_def invalidateSessionPasskey_def intro!: discreet_same)
  ultimately show ?thesis unfolding send_admin_def by (auto simp: Let_def split: ReplyKind.splits)
qed

lemma discreet_local [intro!]: "state_io_rel (discreet (LocalNodeNum e)) (runLocalAdmin e msg kind)"
  unfolding runLocalAdmin_def by (auto intro: discreet_send)

lemma discreet_remote [intro!]:
  assumes "private_key msg = []"
  shows "state_io_rel (discreet local) (runRemoteAdmin e n msg kind)"
  unfolding runRemoteAdmin_def with_passkey_def getSessionPasskey_def
  using assms by (auto intro!: discreet_send simp: private_key_def split: if_splits)

lemma discreet_store [intro!]:
  "state_io_rel (discreet local) (UpdateRotationTargets e i ts c)" "state_io_rel (discreet local) (InsertIdentity e l p f r s)"
  "state_io_rel (discreet local) (RevokeIdentity e fp)" "state_io_rel (discreet local) (InsertRotation e k ch u ts fp raw)"
  "state_io_rel (discreet local) (GetIdentityByFingerprint e fp)" "state_io_rel (discreet local) (ListNodeTrust e)"
  unfolding UpdateRotationTargets_def update_rotation_def InsertIdentity_def RevokeIdentity_def InsertRotation_def
    GetIdentityByFingerprint_def ListNodeTrust_def
  by (auto intro!: discreet_exec discreet_checked discreet_db)

lemma discreet_emit_stage [intro!]: "state_io_rel (discreet local) (emit_stage e i ts st d err)"
  unfolding emit_stage_def by auto

lemma discreet_install [intro!]: "state_io_rel (discreet (LocalNodeNum e)) (installLocalKeypair e priv pub)"
  unfolding installLocalKeypair_def by auto

lemma discreet_push [intro!]: "state_io_rel (discreet local) (pushRecoveryAdminKeys e n a b)"
  unfolding pushRecoveryAdminKeys_def
  by (auto simp: private_key_def AdminSetSecurity_def admin_def no_update_def given_def)

lemma discreet_push_fleet [intro!]: "state_io_rel (discreet local) (push_fleet e rr before ts)"
  by (induction ts arbitrary: before) (auto simp: Let_def)

lemma discreet_GetIdentity [intro!]: "state_io_rel (discreet (LocalNodeNum e)) (GetIdentity e)"
  unfolding GetIdentity_def Let_def by blast

lemma discreet_StartRecovery [intro!]: "state_io_rel (discreet (LocalNodeNum e)) (StartRecovery x25519 random e u priv pub ack label)"
  unfolding StartRecovery_def Let_def by (auto split: option.splits sum.splits prod.splits)

lemma discreet_after_rescue [intro!]: "state_io_rel (discreet (LocalNodeNum e)) (after_rescue e u rr)"
  unfolding after_rescue_def recovery_aborted_def update_registry_def Let_def by blast

lemma discreet_runRecovery [intro!]: "state_io_rel (discreet (LocalNodeNum e)) (runRecovery e u rr)"
  unfolding runRecovery_def recovery_aborted_def Let_def by blast

lemma discreet_ImportIdentity [intro!]: "state_io_rel (discreet (LocalNodeNum e)) (ImportIdentity x25519 e u label priv pub)"
  unfolding ImportIdentity_def Let_def by (auto split: option.splits sum.splits prod.splits)

text \<open>C22: Whatever the database, the clock and the radios do, starting a recovery, running it and importing an
  identity send a private key to no node but the local radio.\<close>

theorem private_keys_stay_local:
  assumes "w' \<in> {snd (run_state (StartRecovery x25519 random e u priv pub ack label) w), snd (run_state (runRecovery e u rr) w),
      snd (run_state (ImportIdentity x25519 e u label priv pub) w)}"
    "Sent n m \<in> set (drop (length (outbox w)) (outbox w'))" "private_key m \<noteq> []"
  shows "n = LocalNodeNum e"
proof -
  have "discreet (LocalNodeNum e) w w'"
    using assms(1) discreet_StartRecovery [of e] discreet_runRecovery [of e] discreet_ImportIdentity [of e]
    by (auto simp: state_io_rel_def)
  then show ?thesis using assms(2,3) by (fastforce simp: discreet_def list_ex_iff)
qed

text \<open>A run for a fleet of one node.\<close>

definition run0 :: RecoveryRun where
  "run0 = \<lparr>runID = 3, rescuePriv = replicate 32 1, rescuePub = replicate 32 2, newPriv = replicate 32 3, newPub = replicate 32 4,
     oldPrimaryFP = [], newPrimaryLabel = [], runTargets = [recovery_target 9]\<rparr>"

definition recovery0 :: RotationRecord where
  "recovery0 = \<lparr>rotID = 3, rotKind = RotationKindRecovery, ChannelIndex = Some (- 1), StagingChannelIndex = None, PiPhase = PiPhasePending,
     StartedBy = [], StartedAt = 0, CompletedAt = None, RetiredAt = None, Targets = [recovery_target 9], NewPSKFP = [], RawPSK = None\<rparr>"

definition recovering :: world where
  "recovering = world0\<lparr>nodes_tab := [1, 9], rotations := [recovery0]\<rparr>"

lemma first_frame:
  assumes "LocalNodeNum e \<noteq> 0" "\<And>t m. link_err e t (LocalNodeNum e) m = None" "db_up e"
  shows "Sent (LocalNodeNum e) (AdminSetSecurity (no_update\<lparr>uPrivateKey := Some (rescuePriv rr), uPublicKey := Some (rescuePub rr)\<rparr>))
    \<in> set (outbox (snd (run_state (runRecovery e u rr) w)))"
proof -
  let ?m = "AdminSetSecurity (no_update\<lparr>uPrivateKey := Some (rescuePriv rr), uPublicKey := Some (rescuePub rr)\<rparr>)"
  define v where "v = snd (run_state (emit_stage e (runID rr) (runTargets rr) RecoveryStageInstallRescue False []) w)"
  obtain r v2 where r: "run_state (installLocalKeypair e (rescuePriv rr) (rescuePub rr)) v = (r, v2)" by fastforce
  have sent: "Sent (LocalNodeNum e) ?m \<in> set (outbox v2)"
    using r assms(1,2)
    by (auto simp: installLocalKeypair_def runLocalAdmin_def send_admin_def transact_def cacheSessionPasskey_def invalidateSessionPasskey_def Let_def
        split: ReplyKind.splits option.splits if_splits)
  have "run_state (runRecovery e u rr) w = run_state (case r of
      Inl err \<Rightarrow> recovery_aborted e u (runID rr) (runTargets rr) ''install rescue'' ''recovery_failed'' ''install-rescue'' err
    | Inr _ \<Rightarrow> after_rescue e u rr) v2"
    using r by (simp add: runRecovery_def v_def Let_def split_def)
  moreover have "state_io_rel (discreet (LocalNodeNum e)) (case r of
      Inl err \<Rightarrow> recovery_aborted e u (runID rr) (runTargets rr) ''install rescue'' ''recovery_failed'' ''install-rescue'' err
    | Inr _ \<Rightarrow> after_rescue e u rr)"
    unfolding recovery_aborted_def by blast
  ultimately have "discreet (LocalNodeNum e) v2 (snd (run_state (runRecovery e u rr) w))" by (simp add: state_io_rel_def)
  then show ?thesis using sent by (auto simp: discreet_def)
qed

theorem private_keys_stay_local_witness:
  "\<exists>n m. Sent n m \<in> set (outbox (snd (run_state (runRecovery env0 [] run0) recovering))) \<and> private_key m \<noteq> [] \<and> n = 1"
proof -
  let ?w = "snd (run_state (runRecovery env0 [] run0) recovering)"
  obtain m where m: "Sent 1 m \<in> set (outbox ?w)" "private_key m \<noteq> []"
    using first_frame [of env0 run0 "[]" recovering] db_up_env0(1)
    by (force simp: env0_def run0_def private_key_def AdminSetSecurity_def admin_def no_update_def given_def)
  have o: "outbox recovering = []" by (simp add: recovering_def world0_def)
  show ?thesis
    using private_keys_stay_local [of ?w undefined undefined env0 "[]" undefined undefined undefined undefined recovering run0 1 m] m o
    by (auto simp: env0_def)
qed

section \<open>How a failed recovery is reported\<close>

definition rot_table :: "world \<Rightarrow> world \<Rightarrow> bool" where
  "rot_table w w' \<longleftrightarrow> rotations w' = rotations w"

interpretation rtab: table_relation rot_table
  by unfold_locales (auto simp: rot_table_def)

lemma rtab_install [intro!]: "state_io_rel rot_table (installLocalKeypair e priv pub)"
  unfolding installLocalKeypair_def by auto

lemma emit_stage_up:
  assumes "db_up e"
  shows "map_option (\<lambda>r. (rotKind r, CompletedAt r \<noteq> None)) (rotation (snd (run_state (emit_stage e i ts st fin err) w)) i) =
       map_option (\<lambda>r. (rotKind r, fin \<or> CompletedAt r \<noteq> None)) (rotation w i)"
    "RecoveryProgress i st ts fin err \<in> set (outbox (snd (run_state (emit_stage e i ts st fin err) w)))"
proof -
  have [simp]: "rotation (tick v) = rotation v" "rotation (v\<lparr>ticks := k\<rparr>) = rotation v" for v k
    by (simp_all add: rotation_def tick_def fun_eq_iff)
  show "map_option (\<lambda>r. (rotKind r, CompletedAt r \<noteq> None)) (rotation (snd (run_state (emit_stage e i ts st fin err) w)) i) =
       map_option (\<lambda>r. (rotKind r, fin \<or> CompletedAt r \<noteq> None)) (rotation w i)"
    "RecoveryProgress i st ts fin err \<in> set (outbox (snd (run_state (emit_stage e i ts st fin err) w)))"
    using assms by (auto simp: emit_stage_def option.map_comp comp_def coalesce_def)
qed

text \<open>When the local radio does not answer, a recovery ends by announcing the stage \<open>failed\<close>, but its
  completion time is set as well, so the wizard's view of the same recovery shows the stage \<open>done\<close>.\<close>

theorem failed_recovery_reported_done:
  assumes "db_up e" "LocalNodeNum e \<noteq> 0" "\<And>t m. link_err e t (LocalNodeNum e) m = None"
    "\<And>t m. rKind (reply_at e t (LocalNodeNum e) m) = ReplyTimeout"
    "rotation w (runID rr) = Some rec" "rotKind rec = RotationKindRecovery"
  shows "\<exists>w' st err. run_state (runRecovery e u rr) w = ((), w') \<and>
    RecoveryProgress (runID rr) RecoveryStageFailed (runTargets rr) True err \<in> set (outbox w') \<and>
    fst (run_state (GetRecovery e (runID rr)) w') = Inr st \<and> stStage st = RecoveryStageDone"
proof -
  let ?emit = "\<lambda>st fin err w. snd (run_state (emit_stage e (runID rr) (runTargets rr) st fin err) w)"
  let ?install = "installLocalKeypair e (rescuePriv rr) (rescuePub rr)"
  define v where "v = ?emit RecoveryStageInstallRescue False [] w"
  obtain r v2 where r: "run_state ?install v = (r, v2)" by fastforce
  have "\<exists>err. r = Inl err"
    using r assms(2-4) by (auto simp: installLocalKeypair_def runLocalAdmin_def send_admin_def transact_def Let_def split: prod.splits)
  then obtain err where err: "r = Inl err" ..
  define why where "why = ''install rescue'' @ '': '' @ Error err"
  define v3 where "v3 = ?emit RecoveryStageFailed True why v2"
  define w' where "w' = snd (run_state (runRecovery e u rr) w)"
  have w': "rotations w' = rotations v3" "set (outbox v3) \<subseteq> set (outbox w')"
    using r err by (auto simp: w'_def runRecovery_def v_def v3_def Let_def split_def recovery_aborted_def why_def auditFleet_def)
  have "rotations v2 = rotations v"
    using rtab_install [of e "rescuePriv rr" "rescuePub rr"] r unfolding state_io_rel_def rot_table_def by (metis snd_conv)
  then have "rotation v2 = rotation v" by (simp add: rotation_def fun_eq_iff)
  then have "\<exists>r. rotation w' (runID rr) = Some r \<and> rotKind r = RotationKindRecovery \<and> CompletedAt r \<noteq> None"
    using emit_stage_up(1) [OF assms(1), of "runID rr" "runTargets rr" RecoveryStageInstallRescue False "[]" w]
      emit_stage_up(1) [OF assms(1), of "runID rr" "runTargets rr" RecoveryStageFailed True why v2] assms(5,6) w'(1)
    by (auto simp: v_def [symmetric] v3_def [symmetric] rotation_def)
  then obtain st where st: "fst (run_state (GetRecovery e (runID rr)) w') = Inr st" "stStage st = RecoveryStageDone"
    using assms(1) by (auto simp: GetRecovery_def)
  have "RecoveryProgress (runID rr) RecoveryStageFailed (runTargets rr) True why \<in> set (outbox w')"
    using emit_stage_up(2) [OF assms(1)] w'(2) by (auto simp: v3_def)
  moreover have "run_state (runRecovery e u rr) w = ((), w')" by (simp add: w'_def prod_eq_iff)
  ultimately show ?thesis using st by blast
qed

end
