(* ===== verification/Wire.thy ===== *)
theory Wire
  imports Varint
begin

text \<open>
  Reading and writing protobuf fields (\<open>internal/serial/framing.go\<close>,
  \<open>internal/serial/encode.go\<close>, and the copies in
  \<open>internal/meshtastic/dispatcher.go\<close>): the reads every decoder loop is made of,
  \<open>skipField\<close>, the field encoders, and the interfaces between a decoder's loop
  body and its clients: \<open>wire_decoder\<close> (a body that makes progress on inputs
  with sane lengths makes the decoder return), and \<open>varint_fields\<close>,
  \<open>fixed32_fields\<close>, \<open>bytes_fields\<close> (a body that consumes exactly one encoded
  field runs through a sequence of them).
\<close>

section \<open>Definitions\<close>

text \<open>
  \<open>val, n := decodeVarint(data[pos:]); if n == 0 { stop }; pos += n\<close>. The position
  is within the slice_range, so \<open>pos + n\<close> cannot overflow.
\<close>

definition with_varint ::
  "byte list \<Rightarrow> int \<Rightarrow> 'm step option \<Rightarrow> (u64 \<Rightarrow> int \<Rightarrow> 'm step option) \<Rightarrow> 'm step option" where
  "with_varint data pos stop k =
     (case slice_from data pos of
        None \<Rightarrow> Some Panic
      | Some s \<Rightarrow> (case decodeVarint s of (v, n) \<Rightarrow> if n = 0 then stop else k v (pos + int n)))"

text \<open>
  The head of every loop body: the tag varint, split into
  \<open>fieldNum := tag >> 3\<close> and \<open>wireType := tag & 0x7\<close>.
\<close>

definition with_tag :: "byte list \<Rightarrow> int \<Rightarrow> 'm step option \<Rightarrow> (u64 \<Rightarrow> u64 \<Rightarrow> int \<Rightarrow> 'm step option)
    \<Rightarrow> 'm step option" where
  "with_tag data pos stop k =
     with_varint data pos stop (\<lambda>tag pos. k (drop_bit 3 tag) (tag AND 7) pos)"

text \<open>
  A length-delimited value: the length varint, the check
  \<open>pos+int(length) > len(data)\<close>, and \<open>data[pos : pos+int(length)]\<close>.
\<close>

definition with_bytes ::
  "byte list \<Rightarrow> int \<Rightarrow> 'm step option \<Rightarrow> 'm step option \<Rightarrow> (byte list \<Rightarrow> int \<Rightarrow> 'm step option)
     \<Rightarrow> 'm step option" where
  "with_bytes data pos stop_len stop_trunc k =
     with_varint data pos stop_len (\<lambda>len pos.
       let end = wrap64 (pos + int_of_u64 len) in
       if end > int (length data) then stop_trunc
       else (case slice_range data pos end of None \<Rightarrow> Some Panic | Some sub \<Rightarrow> k sub end))"

text \<open>\<open>if pos+4 > len(data) { stop }\<close> and the little-endian word at \<open>pos\<close>.\<close>

definition with_fixed32 ::
  "byte list \<Rightarrow> int \<Rightarrow> 'm step option \<Rightarrow> (u32 \<Rightarrow> int \<Rightarrow> 'm step option) \<Rightarrow> 'm step option" where
  "with_fixed32 data pos stop k =
     (if pos + 4 > int (length data) then stop
      else (case slice_range data pos (pos + 4) of
              None \<Rightarrow> Some Panic
            | Some s \<Rightarrow> k (le_uint32 s) (pos + 4)))"

text \<open>The varint branch of \<open>skipField\<close>; \<open>None\<close> is an index panic.\<close>

function skip_varint :: "byte list \<Rightarrow> int \<Rightarrow> int option" where
  "skip_varint data pos =
     (if pos < int (length data) then
        (if pos < 0 then None
         else if data ! nat pos AND 0x80 = 0 then Some (pos + 1)
         else skip_varint data (pos + 1))
      else Some (- 1))"
  by pat_completeness auto
termination by (relation "measure (\<lambda>(data, pos). nat (int (length data) - pos))") auto

declare skip_varint.simps [simp del]

definition skipField :: "byte list \<Rightarrow> int \<Rightarrow> u64 \<Rightarrow> int option" where
  "skipField data pos wireType =
     (if wireType = 0 then skip_varint data pos
      else if wireType = 1 then Some (pos + 8)
      else if wireType = 2 then
        (case slice_from data pos of
           None \<Rightarrow> None
         | Some s \<Rightarrow> (case decodeVarint s of (len, n) \<Rightarrow>
             if n = 0 then Some (- 1) else Some (wrap64 (pos + int n + int_of_u64 len))))
      else if wireType = 5 then Some (pos + 4)
      else Some (- 1))"

text \<open>\<open>pos = skipField(data, pos, wireType); if pos < 0 { break }\<close>.\<close>

definition skip :: "byte list \<Rightarrow> int \<Rightarrow> u64 \<Rightarrow> 'm \<Rightarrow> 'm step option" where
  "skip data pos wireType m =
     (case skipField data pos wireType of
        None \<Rightarrow> Some Panic
      | Some p \<Rightarrow> if p < 0 then Some (Stop m) else Some (Next p m))"

text \<open>The field encoders of \<open>encode.go\<close>.\<close>

definition encodeVarintField :: "u64 \<Rightarrow> u64 \<Rightarrow> byte list" where
  "encodeVarintField fieldNum val = encodeVarint (push_bit 3 fieldNum OR 0) @ encodeVarint val"

definition encodeLengthDelimited :: "u64 \<Rightarrow> byte list \<Rightarrow> byte list" where
  "encodeLengthDelimited fieldNum data =
     encodeVarint (push_bit 3 fieldNum OR 2) @ encodeVarint (word_of_nat (length data)) @ data"

definition encodeFixed32Field :: "u64 \<Rightarrow> u32 \<Rightarrow> byte list" where
  "encodeFixed32Field fieldNum val = encodeVarint (push_bit 3 fieldNum OR 5) @ encodeFixed32 val"

definition encodeSFixed32Field :: "u64 \<Rightarrow> 32 word \<Rightarrow> byte list" where
  "encodeSFixed32Field fieldNum val = encodeFixed32Field fieldNum val"

text \<open>\<open>float32\<close> values are kept as their IEEE 754 bits, so \<open>math.Float32bits\<close> is the identity.\<close>

definition encodeFloat32Field :: "u64 \<Rightarrow> u32 \<Rightarrow> byte list" where
  "encodeFloat32Field fieldNum bits = encodeFixed32Field fieldNum bits"

text \<open>
  Inputs on which no length can overflow the position arithmetic: every varint
  that can be read anywhere in the slice_range is below \<open>2^62\<close>.
\<close>

definition safe_lengths :: "byte list \<Rightarrow> bool" where
  "safe_lengths data \<longleftrightarrow> length data < 2 ^ 62 \<and>
     list_all (\<lambda>p. unat (fst (decodeVarint (drop p data))) < 2 ^ 62) [0..<Suc (length data)]"

text \<open>\<open>suf\<close> is what is left of \<open>data\<close> at position \<open>pos\<close>.\<close>

definition at :: "byte list \<Rightarrow> int \<Rightarrow> byte list \<Rightarrow> bool" where
  "at data pos suf \<longleftrightarrow> 0 \<le> pos \<and> pos \<le> int (length data) \<and> drop (nat pos) data = suf"

text \<open>An iteration that started at \<open>pos\<close> goes on further right or leaves the loop.\<close>

definition advances :: "int \<Rightarrow> 'm step option \<Rightarrow> bool" where
  "advances pos s \<longleftrightarrow> (\<exists>p m. s = Some (Next p m) \<and> pos < p) \<or> (\<exists>m. s = Some (Stop m))"

text \<open>The loop over \<open>data\<close>, entered where \<open>suf\<close> is left, ends in \<open>r\<close>.\<close>

definition runs :: "(byte list \<Rightarrow> int \<Rightarrow> 'm \<Rightarrow> 'm step option) \<Rightarrow> byte list \<Rightarrow> byte list \<Rightarrow> 'm
    \<Rightarrow> 'm outcome option \<Rightarrow> bool" where
  "runs body data suf m r \<longleftrightarrow>
     (\<forall>pos. at data pos suf \<longrightarrow> for_pos (body data) (int (length data)) pos m = r)"

section \<open>Tags\<close>

lemma tag_field:
  assumes "unat fn < 2 ^ 61" "w < 8"
  shows "drop_bit 3 (push_bit 3 fn OR w) = fn" "(push_bit 3 fn OR w) AND 7 = (w :: u64)"
proof -
  have "unat w < 2 ^ 3" using assms(2) by (simp add: word_less_nat_alt)
  then have w: "take_bit 3 w = w"
    by (simp add: word_unat_eq_iff unsigned_take_bit_eq take_bit_nat_eq_self)
  have fn: "take_bit 61 fn = fn"
    using assms(1) by (simp add: word_unat_eq_iff unsigned_take_bit_eq take_bit_nat_eq_self)
  have bw: "bit w n \<Longrightarrow> n < 3" for n by (metis w bit_take_bit_iff)
  have bf: "bit fn n \<Longrightarrow> n < 61" for n by (metis fn bit_take_bit_iff)
  show "drop_bit 3 (push_bit 3 fn OR w) = fn"
  proof (rule bit_word_eqI)
    fix n
    show "bit (drop_bit 3 (push_bit 3 fn OR w)) n = bit fn n"
      using bw [of "3 + n"] bf [of n] by (auto simp: bit_drop_bit_eq bit_or_iff bit_push_bit_iff)
  qed
  have "take_bit 3 (push_bit 3 fn OR w) = w"
    by (simp add: take_bit_push_bit w)
  moreover have "(7 :: u64) = mask 3" by (simp add: mask_eq_exp_minus_1)
  ultimately show "(push_bit 3 fn OR w) AND 7 = w" by (simp add: take_bit_eq_mask)
qed

section \<open>Reading at a position\<close>

lemma at_start [simp]: "at data 0 suf \<longleftrightarrow> data = suf"
  by (simp add: at_def)

lemma at_advance: "at data pos (xs @ suf) \<Longrightarrow> at data (pos + int (length xs)) suf"
proof -
  assume a: "at data pos (xs @ suf)"
  then have "length xs + length suf = length data - nat pos"
    by (metis at_def length_append length_drop)
  with a have "pos + int (length xs) \<le> int (length data)" by (auto simp: at_def)
  moreover have "drop (nat (pos + int (length xs))) data = suf"
  proof -
    have "drop (length xs) (drop (nat pos) data) = suf" using a by (simp add: at_def)
    moreover have "nat (pos + int (length xs)) = length xs + nat pos"
      using a by (simp add: at_def nat_add_distrib)
    ultimately show ?thesis by simp
  qed
  ultimately show ?thesis using a by (simp add: at_def)
qed

lemma at_slice_from: "at data pos suf \<Longrightarrow> slice_from data pos = Some suf"
  by (simp add: at_def slice_from_def)

lemma at_end: "at data pos suf \<Longrightarrow> int (length data) = pos + int (length suf)"
  by (auto simp: at_def)

lemma at_slice:
  assumes "at data pos (xs @ suf)"
  shows "slice_range data pos (pos + int (length xs)) = Some xs"
proof -
  have "pos + int (length xs) \<le> int (length data)"
    using at_end [OF assms] by simp
  with assms show ?thesis by (auto simp: at_def slice_range_def)
qed

lemma with_varint_at:
  "at data pos (encodeVarint v @ suf) \<Longrightarrow>
   with_varint data pos stop k = k v (pos + int (length (encodeVarint v)))"
  by (simp add: with_varint_def at_slice_from wire_simps)

lemma with_fixed32_at:
  assumes "at data pos (encodeFixed32 v @ suf)"
  shows "with_fixed32 data pos stop k = k v (pos + 4)"
proof -
  have "slice_range data pos (pos + 4) = Some (encodeFixed32 v)"
    using at_slice [OF assms] by simp
  moreover have "pos + 4 \<le> int (length data)" using at_end [OF assms] by simp
  moreover have "le_uint32 (encodeFixed32 v) = v" using wire_simps by (metis append_Nil2)
  ultimately show ?thesis by (simp add: with_fixed32_def)
qed

lemma with_bytes_at:
  assumes "at data pos (encodeVarint (word_of_nat (length xs)) @ xs @ suf)"
    and "length data < 2 ^ 62"
  shows "with_bytes data pos stop_len stop_trunc k
    = k xs (pos + int (length (encodeVarint (word_of_nat (length xs)))) + int (length xs))"
proof -
  let ?p = "pos + int (length (encodeVarint (word_of_nat (length xs))))"
  have at2: "at data ?p (xs @ suf)" by (rule at_advance) (rule assms(1))
  then have le: "?p + int (length xs) \<le> int (length data)" and p0: "0 \<le> ?p"
    using at_end [OF at2] by (simp_all add: at_def)
  have lt: "length xs < 2 ^ 62"
    using le p0 assms(2) by linarith
  then have u: "unat (word_of_nat (length xs) :: u64) = length xs"
    by (simp add: unat_of_nat)
  have "int_of_u64 (word_of_nat (length xs)) = int (length xs)"
    using lt by (subst int_of_u64_small) (simp_all add: u)
  moreover have "wrap64 (?p + int (length xs)) = ?p + int (length xs)"
    using le p0 assms(2) by (intro wrap64_id) simp_all
  ultimately show ?thesis
    using le by (simp add: with_bytes_def with_varint_at [OF assms(1)] at_slice [OF at2] Let_def)
qed

section \<open>Reading an encoded field\<close>

lemma tag_wires: "(0 :: u64) < 8" "(2 :: u64) < 8" "(5 :: u64) < 8"
  by simp_all

lemma with_tag_at:
  assumes "at data pos (encodeVarint (push_bit 3 fn OR w) @ suf)" "unat fn < 2 ^ 61" "w < 8"
  shows "with_tag data pos stop k = k fn w (pos + int (length (encodeVarint (push_bit 3 fn OR w))))"
  by (simp only: with_tag_def with_varint_at [OF assms(1)] tag_field [OF assms(2,3)])

lemma varint_field_at:
  assumes "at data pos (encodeVarintField fn v @ suf)" "unat fn < 2 ^ 61"
  obtains p where "\<And>(stop :: 'm step option) k. with_tag data pos stop k = k fn 0 p"
    "\<And>(stop :: 'm step option) k. with_varint data p stop k
       = k v (pos + int (length (encodeVarintField fn v)))"
proof -
  let ?t = "encodeVarint (push_bit 3 fn OR 0)"
  have a: "at data pos (?t @ encodeVarint v @ suf)"
    using assms(1) by (simp only: encodeVarintField_def append_assoc)
  show thesis
    by (rule that [of "pos + int (length ?t)"])
      (rule with_tag_at [OF a assms(2) tag_wires(1)],
       subst with_varint_at [OF at_advance [OF a]], simp add: encodeVarintField_def add.assoc)
qed

lemma fixed32_field_at:
  assumes "at data pos (encodeFixed32Field fn v @ suf)" "unat fn < 2 ^ 61"
  obtains p where "\<And>(stop :: 'm step option) k. with_tag data pos stop k = k fn 5 p"
    "\<And>(stop :: 'm step option) k. with_fixed32 data p stop k
       = k v (pos + int (length (encodeFixed32Field fn v)))"
proof -
  let ?t = "encodeVarint (push_bit 3 fn OR 5)"
  have a: "at data pos (?t @ encodeFixed32 v @ suf)"
    using assms(1) by (simp only: encodeFixed32Field_def append_assoc)
  show thesis
    by (rule that [of "pos + int (length ?t)"])
      (rule with_tag_at [OF a assms(2) tag_wires(3)],
       simp add: with_fixed32_at [OF at_advance [OF a]] encodeFixed32Field_def add.assoc)
qed

lemma bytes_field_at:
  assumes "at data pos (encodeLengthDelimited fn xs @ suf)" "unat fn < 2 ^ 61" "length data < 2 ^ 62"
  obtains p where "\<And>(stop :: 'm step option) k. with_tag data pos stop k = k fn 2 p"
    "\<And>(s1 :: 'm step option) s2 k. with_bytes data p s1 s2 k
       = k xs (pos + int (length (encodeLengthDelimited fn xs)))"
proof -
  let ?t = "encodeVarint (push_bit 3 fn OR 2)"
  have a: "at data pos (?t @ encodeVarint (word_of_nat (length xs)) @ xs @ suf)"
    using assms(1) by (simp only: encodeLengthDelimited_def append_assoc)
  show thesis
    by (rule that [of "pos + int (length ?t)"])
      (rule with_tag_at [OF a assms(2) tag_wires(2)],
       simp add: with_bytes_at [OF at_advance [OF a] assms(3)] encodeLengthDelimited_def add.assoc)
qed

text \<open>The same for a body that slices by itself.\<close>

lemma raw_bytes_field_at:
  assumes "at data pos (encodeLengthDelimited fn xs @ suf)" "unat fn < 2 ^ 61" "length data < 2 ^ 62"
  obtains p q where "\<And>(stop :: 'm step option) k. with_tag data pos stop k = k fn 2 p"
    "\<And>(stop :: 'm step option) k. with_varint data p stop k = k (word_of_nat (length xs)) q"
    "wrap64 (q + int_of_u64 (word_of_nat (length xs))) = pos + int (length (encodeLengthDelimited fn xs))"
    "slice_range data q (pos + int (length (encodeLengthDelimited fn xs))) = Some xs"
    "pos + int (length (encodeLengthDelimited fn xs)) \<le> int (length data)"
proof -
  let ?t = "encodeVarint (push_bit 3 fn OR 2)" and ?l = "encodeVarint (word_of_nat (length xs))"
  let ?p = "pos + int (length ?t)"
  let ?q = "?p + int (length ?l)"
  have a: "at data pos (?t @ ?l @ xs @ suf)"
    using assms(1) by (simp only: encodeLengthDelimited_def append_assoc)
  note b = at_advance [OF a]
  note c = at_advance [OF b]
  have e: "pos + int (length (encodeLengthDelimited fn xs)) = ?q + int (length xs)"
    by (simp add: encodeLengthDelimited_def)
  have "with_bytes data ?p (Some Panic) (Some Panic) (\<lambda>sub p. Some (Next p sub))
      = Some (Next (?q + int (length xs)) xs)"
    by (rule with_bytes_at [OF b assms(3)])
  then have w: "wrap64 (?q + int_of_u64 (word_of_nat (length xs))) = ?q + int (length xs)"
    by (simp add: with_bytes_def with_varint_at [OF b] Let_def split: if_splits option.splits)
  show thesis
  proof (rule that [of ?p ?q])
    show "with_tag data pos stop k = k fn 2 ?p" for stop :: "'m step option" and k
      by (rule with_tag_at [OF a assms(2) tag_wires(2)])
    show "with_varint data ?p stop k = k (word_of_nat (length xs)) ?q" for stop :: "'m step option" and k
      by (rule with_varint_at [OF b])
  qed (use w at_slice [OF c] at_end [OF c] in \<open>simp_all add: e\<close>)
qed

section \<open>Sane lengths\<close>

lemma safe_lengths_varint:
  assumes "safe_lengths data" "0 \<le> pos" "pos \<le> int (length data)"
    "decodeVarint (drop (nat pos) data) = (v, n)"
  shows "unat v < 2 ^ 62"
proof -
  have "nat pos \<in> set [0..<Suc (length data)]"
    using assms(2,3) by (simp add: nat_le_iff less_Suc_eq_le del: upt_Suc)
  with assms(1) have "unat (fst (decodeVarint (drop (nat pos) data))) < 2 ^ 62"
    by (simp add: safe_lengths_def list_all_iff del: upt_Suc)
  with assms(4) show ?thesis by simp
qed

lemma decodeVarint_loop_take:
  "decodeVarint_loop (take k xs) i v s = decodeVarint_loop xs i v s \<or>
   decodeVarint_loop (take k xs) i v s = (0, 0)"
proof (induction xs arbitrary: k i v s)
  case (Cons b bs)
  then show ?case by (cases k) (auto simp: Let_def)
qed simp

lemma safe_lengths_slice:
  assumes "safe_lengths data" "slice_range data lo hi = Some sub"
  shows "safe_lengths sub"
proof -
  let ?k = "nat (hi - lo)"
  have sub: "sub = take ?k (drop (nat lo) data)" and lo: "0 \<le> lo" "lo \<le> hi" "hi \<le> int (length data)"
    using assms(2) by (auto simp: slice_range_def split: if_splits)
  have "unat (fst (decodeVarint (drop p sub))) < 2 ^ 62" if "p \<le> length sub" for p
  proof -
    have "drop p sub = take (?k - p) (drop (nat lo + p) data)"
      by (simp add: sub drop_take add.commute)
    moreover have "nat lo + p \<le> length data"
      using that sub lo by auto
    then have "unat (fst (decodeVarint (drop (nat lo + p) data))) < 2 ^ 62"
      using assms(1) by (auto simp: safe_lengths_def list_all_iff less_Suc_eq_le simp del: upt_Suc)
    ultimately show ?thesis
      using decodeVarint_loop_take [of "?k - p" "drop (nat lo + p) data" 0 0 0]
      by (auto simp: decodeVarint_def)
  qed
  moreover have "length sub < 2 ^ 62"
    using assms(1) sub by (auto simp: safe_lengths_def min_def)
  ultimately show ?thesis
    by (simp add: safe_lengths_def list_all_iff less_Suc_eq_le del: upt_Suc)
qed

lemma short_payload_safe: "length data \<le> 8 \<Longrightarrow> safe_lengths data"
proof -
  assume "length data \<le> 8"
  then have "unat (fst (decodeVarint (drop p data))) < 2 ^ 62" for p
    using decodeVarint_small [of "drop p data"]
    by (cases "decodeVarint (drop p data)") fastforce
  with \<open>length data \<le> 8\<close> show ?thesis by (simp add: safe_lengths_def list_all_iff del: upt_Suc)
qed

section \<open>Progress\<close>

lemma advances_Next [advance_intros]: "pos < p \<Longrightarrow> advances pos (Some (Next p m))"
  by (simp add: advances_def)

lemma advances_Stop [advance_intros]: "advances pos (Some (Stop m))"
  by (simp add: advances_def)

lemma advances_if [advance_intros]:
  "(b \<Longrightarrow> advances pos s) \<Longrightarrow> (\<not> b \<Longrightarrow> advances pos t) \<Longrightarrow> advances pos (if b then s else t)"
  by simp

lemma advances_call [advance_intros]:
  "(\<exists>a. r = Some (Ret a)) \<Longrightarrow> (\<And>a. advances pos (k a)) \<Longrightarrow> advances pos (call r k)"
  by auto

lemma advances_varint [advance_intros]:
  assumes "safe_lengths data" "0 \<le> p0" "p0 \<le> pos" "pos \<le> int (length data)" "advances p0 stop"
    and "\<And>v p. pos < p \<Longrightarrow> p \<le> int (length data) \<Longrightarrow> unat v < 2 ^ 62 \<Longrightarrow> advances p0 (k v p)"
  shows "advances p0 (with_varint data pos stop k)"
proof -
  obtain v n where vn: "decodeVarint (drop (nat pos) data) = (v, n)" by fastforce
  have "slice_from data pos = Some (drop (nat pos) data)"
    using assms(2-4) by (simp add: slice_from_def)
  moreover have "n \<le> length (drop (nat pos) data)" using decodeVarint_len [OF vn] by simp
  moreover have "unat v < 2 ^ 62"
    by (rule safe_lengths_varint [OF assms(1) _ assms(4) vn]) (use assms(2,3) in simp)
  ultimately show ?thesis
    using assms(2-5) by (auto simp: with_varint_def vn intro!: assms(6))
qed

text \<open>With sane lengths the end of a field is where one would expect it.\<close>

lemma safe_field_end:
  assumes "safe_lengths data" "0 \<le> p" "p \<le> int (length data)" "unat v < 2 ^ 62"
  shows "wrap64 (p + int_of_u64 v) = p + int (unat v)"
proof -
  have "length data < 2 ^ 62" using assms(1) by (simp add: safe_lengths_def)
  then have len: "int (length data) < 2 ^ 62" by simp
  have v: "int_of_u64 v = int (unat v)" and "int (unat v) < 2 ^ 62"
    using assms(4) by (simp add: int_of_u64_small, rule int_unat_less)
  then show ?thesis
    unfolding v using assms(2,3) len by (intro wrap64_add) simp_all
qed

lemma advances_tag [advance_intros]:
  assumes "safe_lengths data" "0 \<le> pos" "pos \<le> int (length data)" "advances pos stop"
    and "\<And>f w p. pos < p \<Longrightarrow> p \<le> int (length data) \<Longrightarrow> advances pos (k f w p)"
  shows "advances pos (with_tag data pos stop k)"
  unfolding with_tag_def by (rule advances_varint) (use assms in auto)

lemma advances_bytes [advance_intros]:
  assumes "safe_lengths data" "0 \<le> p0" "p0 \<le> pos" "pos \<le> int (length data)"
    "advances p0 stop_len" "advances p0 stop_trunc"
    and "\<And>sub p. pos < p \<Longrightarrow> p \<le> int (length data) \<Longrightarrow> safe_lengths sub \<Longrightarrow> advances p0 (k sub p)"
  shows "advances p0 (with_bytes data pos stop_len stop_trunc k)"
  unfolding with_bytes_def
proof (rule advances_varint, goal_cases)
  case (6 v p)
  have "wrap64 (p + int_of_u64 v) = p + int (unat v)"
    using 6 assms(2,3) by (intro safe_field_end [OF assms(1)]) auto
  moreover have "advances p0 (case slice_range data p (p + int (unat v)) of None \<Rightarrow> Some Panic
      | Some sub \<Rightarrow> k sub (p + int (unat v)))" if le: "p + int (unat v) \<le> int (length data)"
  proof -
    obtain sub where "slice_range data p (p + int (unat v)) = Some sub"
      using 6(1,2) assms(2,3) le by (simp add: slice_range_def)
    moreover from this have "safe_lengths sub" by (rule safe_lengths_slice [OF assms(1)])
    moreover have "pos < p + int (unat v)" using 6(1) by linarith
    ultimately show ?thesis using le by (auto intro!: assms(7))
  qed
  ultimately show ?case using assms(6) by (simp add: Let_def del: of_nat_unat)
qed (use assms in auto)

lemma advances_fixed32 [advance_intros]:
  assumes "0 \<le> p0" "p0 \<le> pos" "advances p0 stop"
    and "\<And>v p. pos < p \<Longrightarrow> p \<le> int (length data) \<Longrightarrow> advances p0 (k v p)"
  shows "advances p0 (with_fixed32 data pos stop k)"
  using assms(1-3) by (auto simp: with_fixed32_def slice_range_def intro!: assms(4))

lemma skip_varint_pos: "0 \<le> pos \<Longrightarrow> \<exists>p. skip_varint data pos = Some p \<and> (p < 0 \<or> pos < p)"
proof (induction data pos rule: skip_varint.induct)
  case (1 data pos)
  show ?case
  proof (cases "pos < int (length data) \<and> data ! nat pos AND 0x80 \<noteq> 0")
    case True
    with 1 obtain p where "skip_varint data (pos + 1) = Some p" "p < 0 \<or> pos + 1 < p" by auto
    with True "1.prems" show ?thesis by (auto simp: skip_varint.simps [of data pos])
  next
    case False
    with "1.prems" show ?thesis by (auto simp: skip_varint.simps [of data pos])
  qed
qed

lemma advances_skip [advance_intros]:
  assumes "safe_lengths data" "0 \<le> p0" "p0 < pos" "pos \<le> int (length data)"
  shows "advances p0 (skip data pos w m)"
proof -
  obtain v n where vn: "decodeVarint (drop (nat pos) data) = (v, n)" by fastforce
  have "unat v < 2 ^ 62"
    by (rule safe_lengths_varint [OF assms(1) _ assms(4) vn]) (use assms(2,3) in simp)
  moreover have "pos + int n \<le> int (length data)" using decodeVarint_len [OF vn] assms(2-4) by auto
  ultimately have "wrap64 (pos + int n + int_of_u64 v) = pos + int n + int (unat v)"
    using assms(2,3) by (intro safe_field_end [OF assms(1)]) auto
  moreover have "slice_from data pos = Some (drop (nat pos) data)"
    using assms by (simp add: slice_from_def)
  ultimately have "\<exists>p. skipField data pos w = Some p \<and> (p < 0 \<or> pos \<le> p)"
    using skip_varint_pos [of pos data] assms by (auto simp: skipField_def vn less_imp_le)
  with assms show ?thesis by (auto simp: skip_def advances_def)
qed

section \<open>Runs over encoded fields\<close>

lemma runs_end: "runs body data [] m (Some (Ret m))"
  by (auto simp: runs_def at_def intro!: for_pos_done)

lemma runs_field:
  assumes "\<And>pos. at data pos (f @ suf) \<Longrightarrow> body data pos m = Some (Next (pos + int (length f)) m')"
    and "f \<noteq> []" and "runs body data suf m' r"
  shows "runs body data (f @ suf) m r"
  unfolding runs_def
proof (intro allI impI)
  fix pos
  assume a: "at data pos (f @ suf)"
  have "pos < int (length data)" using at_end [OF a] assms(2) by (cases f) simp_all
  moreover have "at data (pos + int (length f)) suf" using a by (rule at_advance)
  ultimately show "for_pos (body data) (int (length data)) pos m = r"
    using assms(1) [OF a] assms(3) by (simp add: for_pos_next runs_def)
qed

lemma field_lengths [simp]:
  "encodeVarintField fn v \<noteq> []" "encodeLengthDelimited fn d \<noteq> []" "encodeFixed32Field fn w \<noteq> []"
  by (simp_all add: encodeVarintField_def encodeLengthDelimited_def encodeFixed32Field_def)

section \<open>The interfaces of a decoder body\<close>

text \<open>A body that advances on sane inputs: the decoder built on it returns.\<close>

locale wire_decoder =
  fixes body :: "byte list \<Rightarrow> int \<Rightarrow> 'm \<Rightarrow> 'm step option"
  assumes progress: "safe_lengths data \<Longrightarrow> 0 \<le> pos \<Longrightarrow> pos < int (length data) \<Longrightarrow>
      advances pos (body data pos m)"
begin

lemma returns: "safe_lengths data \<Longrightarrow> \<exists>m'. for_pos (body data) (int (length data)) 0 m = Some (Ret m')"
  using progress by (intro for_pos_total) (auto simp: advances_def)

end

text \<open>A body that consumes one varint field and applies \<open>on_varint\<close>.\<close>

locale varint_fields =
  fixes body :: "byte list \<Rightarrow> int \<Rightarrow> 'm \<Rightarrow> 'm step option"
    and on_varint :: "u64 \<Rightarrow> u64 \<Rightarrow> 'm \<Rightarrow> 'm"
  assumes varint_law: "at data pos (encodeVarintField fn v @ suf) \<Longrightarrow> unat fn < 2 ^ 61 \<Longrightarrow>
      body data pos m = Some (Next (pos + int (length (encodeVarintField fn v))) (on_varint fn v m))"
begin

lemma runs_varint:
  "unat fn < 2 ^ 61 \<Longrightarrow> runs body data suf (on_varint fn v m) r \<Longrightarrow>
   runs body data (encodeVarintField fn v @ suf) m r"
  by (rule runs_field) (auto intro: varint_law)

end

locale fixed32_fields =
  fixes body :: "byte list \<Rightarrow> int \<Rightarrow> 'm \<Rightarrow> 'm step option"
    and on_fixed32 :: "u64 \<Rightarrow> u32 \<Rightarrow> 'm \<Rightarrow> 'm"
  assumes fixed32_law: "at data pos (encodeFixed32Field fn v @ suf) \<Longrightarrow> unat fn < 2 ^ 61 \<Longrightarrow>
      body data pos m = Some (Next (pos + int (length (encodeFixed32Field fn v))) (on_fixed32 fn v m))"
begin

lemma runs_fixed32:
  "unat fn < 2 ^ 61 \<Longrightarrow> runs body data suf (on_fixed32 fn v m) r \<Longrightarrow>
   runs body data (encodeFixed32Field fn v @ suf) m r"
  by (rule runs_field) (auto intro: fixed32_law)

end

text \<open>
  A body that hands the bytes of a length-delimited field to \<open>on_bytes\<close>, whose
  own outcome (a nested decoder may panic or not return) decides the iteration.
\<close>

locale bytes_fields =
  fixes body :: "byte list \<Rightarrow> int \<Rightarrow> 'm \<Rightarrow> 'm step option"
    and on_bytes :: "u64 \<Rightarrow> byte list \<Rightarrow> 'm \<Rightarrow> 'm outcome option"
  assumes bytes_law: "at data pos (encodeLengthDelimited fn xs @ suf) \<Longrightarrow> unat fn < 2 ^ 61 \<Longrightarrow>
      length data < 2 ^ 62 \<Longrightarrow>
      body data pos m = call (on_bytes fn xs m)
        (\<lambda>m'. Some (Next (pos + int (length (encodeLengthDelimited fn xs))) m'))"
begin

lemma runs_bytes:
  "unat fn < 2 ^ 61 \<Longrightarrow> length data < 2 ^ 62 \<Longrightarrow> on_bytes fn xs m = Some (Ret m') \<Longrightarrow>
   runs body data suf m' r \<Longrightarrow> runs body data (encodeLengthDelimited fn xs @ suf) m r"
  by (rule runs_field) (auto simp: bytes_law)

end

end
