(* ===== verification/Messages.thy ===== *)
theory Messages
  imports Wire
begin

text \<open>
  The decoded packet types of \<open>internal/serial/framing.go\<close> and the hand-written
  protobuf decoders that fill them. Each decoder is the loop \<open>for_pos\<close> over its
  body; a body reads a tag and then does what the switch on the wire type does,
  with the inner switch on the field number as an update function of its own.
  A decoder's result is \<open>Some (Ret m)\<close> for a returned message, \<open>Some Panics\<close>
  for a run-time panic and \<open>None\<close> for a loop that never ends.
\<close>

section \<open>Packet types\<close>

text \<open>\<open>float32\<close> fields hold the IEEE 754 bits read from the wire.\<close>

type_synonym float32 = u32

record MyNodeInfo =
  MyNodeNum :: u32
  RebootCount :: u32
  MinAppVersion :: u32
  MaxChannels :: u32

record UserInfo =
  UserID :: string
  LongName :: string
  ShortName :: string
  MacAddr :: string
  HWModel :: string
  Role :: string
  IsLicensed :: bool

record PositionData =
  LatitudeI :: "32 word"
  LongitudeI :: "32 word"
  Altitude :: "32 word"
  PosTime :: u32
  Sats :: u32

record DeviceMetrics =
  BatteryLevel :: u32
  Voltage :: float32
  ChannelUtilization :: float32
  AirUtilTx :: float32
  UptimeSeconds :: u32

record EnvironmentMetrics =
  Temperature :: float32
  RelativeHumidity :: float32
  BarometricPressure :: float32

record NodeInfoLite =
  NodeNum :: u32
  NodeUser :: "UserInfo option"
  NodePosition :: "PositionData option"
  NodeSNR :: float32
  LastHeard :: u32
  NodeMetrics :: "DeviceMetrics option"
  NodeChannel :: u32
  IsFavorite :: bool

record MeshPacketData =
  From :: u32
  To :: u32
  Channel :: u32
  PacketID :: u32
  RxTime :: u32
  RxSNR :: float32
  RxRSSI :: "32 word"
  HopLimit :: u32
  HopStart :: u32
  Priority :: u32
  PortNum :: u32
  Payload :: "byte list"
  WantAck :: bool
  RequestID :: u32

record BluetoothConfig =
  BtEnabled :: bool
  BtMode :: u32
  FixedPin :: u32

record PositionConfig =
  GPSMode :: u32
  GPSEnabled :: bool
  PositionBroadcastSecs :: u32
  GPSUpdateInterval :: u32
  FixedPosition :: bool

record DisplayConfig =
  ScreenOnSecs :: u32
  FlipScreen :: bool

record LoRaConfig =
  Region :: u32
  UsePreset :: bool
  LoRaHopLimit :: u32
  TxEnabled :: bool
  TxPower :: "32 word"

record PowerConfig =
  IsPowerSaving :: bool
  DeviceBatteryINAAddr :: u32

record ConfigPayload =
  Section :: string
  CfgRaw :: "byte list"
  CfgBluetooth :: "BluetoothConfig option"
  CfgPosition :: "PositionConfig option"
  CfgDisplay :: "DisplayConfig option"
  CfgLoRa :: "LoRaConfig option"
  CfgPower :: "PowerConfig option"

record DeviceMetadata =
  FirmwareVersion :: string
  DeviceStateVersion :: u32
  HasBluetooth :: bool
  HasWifi :: bool
  HasEthernet :: bool

datatype FromRadioType =
  FromRadioUnknown | FromRadioMyInfo | FromRadioNodeInfo | FromRadioMeshPacket | FromRadioConfig
  | FromRadioChannel | FromRadioMetadata | FromRadioConfigComplete | FromRadioRebooted

record FromRadioPacket =
  PktType :: FromRadioType
  PktRaw :: "byte list"
  PktMyInfo :: "MyNodeInfo option"
  PktNodeInfo :: "NodeInfoLite option"
  PktMeshPacket :: "MeshPacketData option"
  PktConfig :: "ConfigPayload option"
  PktMetadata :: "DeviceMetadata option"

text \<open>The zero values.\<close>

definition MyNodeInfo0 :: MyNodeInfo where
  "MyNodeInfo0 = \<lparr>MyNodeNum = 0, RebootCount = 0, MinAppVersion = 0, MaxChannels = 0\<rparr>"

definition UserInfo0 :: UserInfo where
  "UserInfo0 = \<lparr>UserID = [], LongName = [], ShortName = [], MacAddr = [], HWModel = [], Role = [],
     IsLicensed = False\<rparr>"

definition PositionData0 :: PositionData where
  "PositionData0 = \<lparr>LatitudeI = 0, LongitudeI = 0, Altitude = 0, PosTime = 0, Sats = 0\<rparr>"

definition DeviceMetrics0 :: DeviceMetrics where
  "DeviceMetrics0 = \<lparr>BatteryLevel = 0, Voltage = 0, ChannelUtilization = 0, AirUtilTx = 0,
     UptimeSeconds = 0\<rparr>"

definition EnvironmentMetrics0 :: EnvironmentMetrics where
  "EnvironmentMetrics0 = \<lparr>Temperature = 0, RelativeHumidity = 0, BarometricPressure = 0\<rparr>"

definition NodeInfoLite0 :: NodeInfoLite where
  "NodeInfoLite0 = \<lparr>NodeNum = 0, NodeUser = None, NodePosition = None, NodeSNR = 0, LastHeard = 0,
     NodeMetrics = None, NodeChannel = 0, IsFavorite = False\<rparr>"

definition MeshPacketData0 :: MeshPacketData where
  "MeshPacketData0 = \<lparr>From = 0, To = 0, Channel = 0, PacketID = 0, RxTime = 0, RxSNR = 0, RxRSSI = 0,
     HopLimit = 0, HopStart = 0, Priority = 0, PortNum = 0, Payload = [], WantAck = False,
     RequestID = 0\<rparr>"

definition BluetoothConfig0 :: BluetoothConfig where
  "BluetoothConfig0 = \<lparr>BtEnabled = False, BtMode = 0, FixedPin = 0\<rparr>"

definition PositionConfig0 :: PositionConfig where
  "PositionConfig0 = \<lparr>GPSMode = 0, GPSEnabled = False, PositionBroadcastSecs = 0,
     GPSUpdateInterval = 0, FixedPosition = False\<rparr>"

definition DisplayConfig0 :: DisplayConfig where
  "DisplayConfig0 = \<lparr>ScreenOnSecs = 0, FlipScreen = False\<rparr>"

definition LoRaConfig0 :: LoRaConfig where
  "LoRaConfig0 = \<lparr>Region = 0, UsePreset = False, LoRaHopLimit = 0, TxEnabled = False, TxPower = 0\<rparr>"

definition PowerConfig0 :: PowerConfig where
  "PowerConfig0 = \<lparr>IsPowerSaving = False, DeviceBatteryINAAddr = 0\<rparr>"

definition ConfigPayload0 :: "byte list \<Rightarrow> ConfigPayload" where
  "ConfigPayload0 raw = \<lparr>Section = [], CfgRaw = raw, CfgBluetooth = None, CfgPosition = None,
     CfgDisplay = None, CfgLoRa = None, CfgPower = None\<rparr>"

definition DeviceMetadata0 :: DeviceMetadata where
  "DeviceMetadata0 = \<lparr>FirmwareVersion = [], DeviceStateVersion = 0, HasBluetooth = False,
     HasWifi = False, HasEthernet = False\<rparr>"

definition FromRadioPacket0 :: "byte list \<Rightarrow> FromRadioPacket" where
  "FromRadioPacket0 raw = \<lparr>PktType = FromRadioUnknown, PktRaw = raw, PktMyInfo = None,
     PktNodeInfo = None, PktMeshPacket = None, PktConfig = None, PktMetadata = None\<rparr>"

section \<open>Names of hardware models and roles\<close>

definition hwModelNames :: "(int \<times> string) list" where
  "hwModelNames = [
     (0, ''UNSET''), (1, ''TLORA_V2''), (2, ''TLORA_V1''), (3, ''TLORA_V2_1_1P6''),
     (4, ''TBEAM''), (5, ''HELTEC_V2_0''), (6, ''TBEAM_V0P7''), (7, ''T_ECHO''),
     (8, ''TLORA_V1_1P3''), (9, ''RAK4631''), (10, ''HELTEC_V2_1''), (11, ''HELTEC_V1''),
     (12, ''LILYGO_TBEAM_S3_CORE''), (13, ''RAK11200''), (14, ''NANO_G1''),
     (15, ''TLORA_V2_1_1P8''), (16, ''TLORA_T3_S3''), (17, ''NANO_G1_EXPLORER''),
     (18, ''NANO_G2_ULTRA''), (19, ''LORA_TYPE''), (20, ''WIPHONE''), (21, ''WIO_WM1110''),
     (22, ''RAK2560''), (23, ''HELTEC_HRU_3601''), (24, ''HELTEC_WIRELESS_BRIDGE''),
     (25, ''STATION_G1''), (26, ''RAK11310''), (27, ''SENSELORA_RP2040''), (28, ''SENSELORA_S3''),
     (29, ''CANARYONE''), (30, ''RP2040_LORA''), (31, ''STATION_G2''), (32, ''LORA_RELAY_V1''),
     (33, ''T_ECHO_PLUS''), (34, ''PPR''), (35, ''GENIEBLOCKS''), (36, ''NRF52_UNKNOWN''),
     (37, ''PORTDUINO''), (38, ''ANDROID_SIM''), (39, ''DIY_V1''), (40, ''NRF52840_PCA10059''),
     (41, ''DR_DEV''), (42, ''M5STACK''), (43, ''HELTEC_V3''), (44, ''HELTEC_WSL_V3''),
     (45, ''BETAFPV_2400_TX''), (46, ''BETAFPV_900_NANO_TX''), (47, ''RPI_PICO''),
     (48, ''HELTEC_WIRELESS_TRACKER''), (49, ''HELTEC_WIRELESS_PAPER''), (50, ''T_DECK''),
     (51, ''T_WATCH_S3''), (52, ''PICOMPUTER_S3''), (53, ''HELTEC_HT62''),
     (54, ''EBYTE_ESP32_S3''), (55, ''ESP32_S3_PICO''), (56, ''CHATTER_2''),
     (57, ''HELTEC_WIRELESS_PAPER_V1_0''), (58, ''HELTEC_WIRELESS_TRACKER_V1_0''),
     (59, ''UNPHONE''), (60, ''TD_LORAC''), (61, ''CDEBYTE_EORA_S3''), (62, ''TWC_MESH_V4''),
     (63, ''NRF52_PROMICRO_DIY''), (64, ''RADIOMASTER_900_BANDIT_NANO''),
     (65, ''HELTEC_CAPSULE_SENSOR_V3''), (66, ''HELTEC_VISION_MASTER_T190''),
     (67, ''HELTEC_VISION_MASTER_E213''), (68, ''HELTEC_VISION_MASTER_E290''),
     (69, ''HELTEC_MESH_NODE_T114''), (70, ''SENSECAP_INDICATOR''), (71, ''TRACKER_T1000_E''),
     (72, ''RAK3172''), (73, ''WIO_E5''), (74, ''RADIOMASTER_900_BANDIT''),
     (75, ''ME25LS01_4Y10TD''), (76, ''RP2040_FEATHER_RFM95''), (77, ''M5STACK_COREBASIC''),
     (78, ''M5STACK_CORE2''), (79, ''RPI_PICO2''), (80, ''M5STACK_CORES3''),
     (81, ''SEEED_XIAO_S3''), (82, ''MS24SF1''), (83, ''TLORA_C6''), (84, ''WISMESH_TAP''),
     (85, ''ROUTASTIC''), (86, ''MESH_TAB''), (87, ''MESHLINK''), (88, ''XIAO_NRF52_KIT''),
     (89, ''THINKNODE_M1''), (90, ''THINKNODE_M2''), (91, ''T_ETH_ELITE''),
     (92, ''HELTEC_SENSOR_HUB''), (93, ''MUZI_BASE''), (94, ''HELTEC_MESH_POCKET''),
     (95, ''SEEED_SOLAR_NODE''), (96, ''NOMADSTAR_METEOR_PRO''), (97, ''CROWPANEL''),
     (98, ''LINK_32''), (99, ''SEEED_WIO_TRACKER_L1''), (100, ''SEEED_WIO_TRACKER_L1_EINK''),
     (101, ''MUZI_R1_NEO''), (102, ''T_DECK_PRO''), (103, ''T_LORA_PAGER''),
     (104, ''M5STACK_RESERVED''), (105, ''WISMESH_TAG''), (106, ''RAK3312''),
     (107, ''THINKNODE_M5''), (108, ''HELTEC_MESH_SOLAR''), (109, ''T_ECHO_LITE''),
     (110, ''HELTEC_V4''), (111, ''M5STACK_C6L''), (112, ''M5STACK_CARDPUTER_ADV''),
     (113, ''HELTEC_WIRELESS_TRACKER_V2''), (114, ''T_WATCH_ULTRA''), (115, ''THINKNODE_M3''),
     (116, ''WISMESH_TAP_V2''), (117, ''RAK3401''), (118, ''RAK6421''), (119, ''THINKNODE_M4''),
     (120, ''THINKNODE_M6''), (121, ''MESHSTICK_1262''), (122, ''TBEAM_1_WATT''),
     (123, ''T5_S3_EPAPER_PRO''), (124, ''TBEAM_BPF''), (125, ''MINI_EPAPER_S3''),
     (126, ''TDISPLAY_S3_PRO''), (127, ''HELTEC_MESH_NODE_T096''), (128, ''TRACKER_T1000_E_PRO''),
     (129, ''THINKNODE_M7''), (130, ''THINKNODE_M8''), (131, ''THINKNODE_M9''),
     (132, ''HELTEC_V4_R8''), (255, ''PRIVATE_HW'')]"

definition hwModelName :: "int \<Rightarrow> string" where
  "hwModelName model =
     (case map_of hwModelNames model of Some name \<Rightarrow> name | None \<Rightarrow> ''HW_'' @ show_int model)"

definition roleNames :: "(int \<times> string) list" where
  "roleNames = [(0, ''CLIENT''), (1, ''CLIENT_MUTE''), (2, ''ROUTER''), (3, ''REPEATER''),
     (4, ''TRACKER''), (5, ''SENSOR''), (6, ''TAK''), (7, ''CLIENT_HIDDEN''),
     (8, ''LOST_AND_FOUND''), (9, ''SENSOR_MANAGED'')]"

definition roleName :: "int \<Rightarrow> string" where
  "roleName role =
     (case map_of roleNames role of Some name \<Rightarrow> name | None \<Rightarrow> ''ROLE_'' @ show_int role)"

section \<open>Leaf decoders\<close>

subsection \<open>MyNodeInfo\<close>

definition myinfo_varint :: "u64 \<Rightarrow> u64 \<Rightarrow> MyNodeInfo \<Rightarrow> MyNodeInfo" where
  "myinfo_varint fieldNum val info =
     (if fieldNum = 1 then info\<lparr>MyNodeNum := ucast val\<rparr>
      else if fieldNum = 8 then info\<lparr>RebootCount := ucast val\<rparr>
      else if fieldNum = 11 then info\<lparr>MaxChannels := ucast val\<rparr>
      else info)"

definition myinfo_body :: "byte list \<Rightarrow> int \<Rightarrow> MyNodeInfo \<Rightarrow> MyNodeInfo step option" where
  [body_defs]: "myinfo_body data pos info =
     with_tag data pos (Some (Stop info)) (\<lambda>fieldNum wireType pos.
       if wireType = 0 then
         with_varint data pos (Some (Stop info)) (\<lambda>val pos.
           Some (Next pos (myinfo_varint fieldNum val info)))
       else skip data pos wireType info)"

definition decodeMyInfo :: "byte list \<Rightarrow> MyNodeInfo outcome option" where
  "decodeMyInfo data = for_pos (myinfo_body data) (int (length data)) 0 MyNodeInfo0"

subsection \<open>UserInfo\<close>

definition show_mac :: "byte list \<Rightarrow> string" where
  "show_mac raw = concat (map (\<lambda>i. (if i = 0 then [] else '':'') @ show_02X (raw ! i)) [0..<6])"

definition user_bytes :: "u64 \<Rightarrow> byte list \<Rightarrow> UserInfo \<Rightarrow> UserInfo" where
  "user_bytes fieldNum raw user =
     (if fieldNum = 1 then user\<lparr>UserID := string_of_bytes raw\<rparr>
      else if fieldNum = 2 then user\<lparr>LongName := string_of_bytes raw\<rparr>
      else if fieldNum = 3 then user\<lparr>ShortName := string_of_bytes raw\<rparr>
      else if fieldNum = 4 then (if length raw = 6 then user\<lparr>MacAddr := show_mac raw\<rparr> else user)
      else user)"

definition user_varint :: "u64 \<Rightarrow> u64 \<Rightarrow> UserInfo \<Rightarrow> UserInfo" where
  "user_varint fieldNum val user =
     (if fieldNum = 5 then user\<lparr>HWModel := hwModelName (int_of_u64 val)\<rparr>
      else if fieldNum = 6 then user\<lparr>IsLicensed := val \<noteq> 0\<rparr>
      else if fieldNum = 7 then user\<lparr>Role := roleName (int_of_u64 val)\<rparr>
      else user)"

definition user_body :: "byte list \<Rightarrow> int \<Rightarrow> UserInfo \<Rightarrow> UserInfo step option" where
  [body_defs]: "user_body data pos user =
     with_tag data pos (Some (Stop user)) (\<lambda>fieldNum wireType pos.
       if wireType = 2 then
         with_bytes data pos (Some (Stop user)) (Some (Stop user)) (\<lambda>raw pos.
           Some (Next pos (user_bytes fieldNum raw user)))
       else if wireType = 0 then
         with_varint data pos (Some (Stop user)) (\<lambda>val pos.
           Some (Next pos (user_varint fieldNum val user)))
       else skip data pos wireType user)"

definition decodeUserInfo :: "byte list \<Rightarrow> UserInfo outcome option" where
  "decodeUserInfo data = for_pos (user_body data) (int (length data)) 0 UserInfo0"

subsection \<open>Position\<close>

definition position_fixed32 :: "u64 \<Rightarrow> u32 \<Rightarrow> PositionData \<Rightarrow> PositionData" where
  "position_fixed32 fieldNum val p =
     (if fieldNum = 1 then p\<lparr>LatitudeI := val\<rparr>
      else if fieldNum = 2 then p\<lparr>LongitudeI := val\<rparr>
      else p)"

definition position_varint :: "u64 \<Rightarrow> u64 \<Rightarrow> PositionData \<Rightarrow> PositionData" where
  "position_varint fieldNum val p =
     (if fieldNum = 3 then p\<lparr>Altitude := ucast val\<rparr>
      else if fieldNum = 4 then p\<lparr>PosTime := ucast val\<rparr>
      else if fieldNum = 21 then p\<lparr>Sats := ucast val\<rparr>
      else p)"

definition position_body :: "byte list \<Rightarrow> int \<Rightarrow> PositionData \<Rightarrow> PositionData step option" where
  [body_defs]: "position_body data pos p =
     with_tag data pos (Some (Stop p)) (\<lambda>fieldNum wireType pos.
       if wireType = 5 then
         with_fixed32 data pos (Some (Stop p)) (\<lambda>val pos.
           Some (Next pos (position_fixed32 fieldNum val p)))
       else if wireType = 0 then
         with_varint data pos (Some (Stop p)) (\<lambda>val pos.
           Some (Next pos (position_varint fieldNum val p)))
       else skip data pos wireType p)"

definition decodePosition :: "byte list \<Rightarrow> PositionData outcome option" where
  "decodePosition data = for_pos (position_body data) (int (length data)) 0 PositionData0"

subsection \<open>DeviceMetrics\<close>

definition metrics_varint :: "u64 \<Rightarrow> u64 \<Rightarrow> DeviceMetrics \<Rightarrow> DeviceMetrics" where
  "metrics_varint fieldNum val dm =
     (if fieldNum = 1 then dm\<lparr>BatteryLevel := ucast val\<rparr>
      else if fieldNum = 5 then dm\<lparr>UptimeSeconds := ucast val\<rparr>
      else dm)"

definition metrics_fixed32 :: "u64 \<Rightarrow> u32 \<Rightarrow> DeviceMetrics \<Rightarrow> DeviceMetrics" where
  "metrics_fixed32 fieldNum f dm =
     (if fieldNum = 2 then dm\<lparr>Voltage := f\<rparr>
      else if fieldNum = 3 then dm\<lparr>ChannelUtilization := f\<rparr>
      else if fieldNum = 4 then dm\<lparr>AirUtilTx := f\<rparr>
      else dm)"

definition metrics_body :: "byte list \<Rightarrow> int \<Rightarrow> DeviceMetrics \<Rightarrow> DeviceMetrics step option" where
  [body_defs]: "metrics_body data pos dm =
     with_tag data pos (Some (Stop dm)) (\<lambda>fieldNum wireType pos.
       if wireType = 0 then
         with_varint data pos (Some (Stop dm)) (\<lambda>val pos.
           Some (Next pos (metrics_varint fieldNum val dm)))
       else if wireType = 5 then
         with_fixed32 data pos (Some (Stop dm)) (\<lambda>f pos.
           Some (Next pos (metrics_fixed32 fieldNum f dm)))
       else skip data pos wireType dm)"

definition decodeDeviceMetrics :: "byte list \<Rightarrow> DeviceMetrics outcome option" where
  "decodeDeviceMetrics data = for_pos (metrics_body data) (int (length data)) 0 DeviceMetrics0"

subsection \<open>Data\<close>

text \<open>
  The state is \<open>(portNum, payload, requestID)\<close>. Only field 2 is sliced, so for
  other fields a length that makes the position go back is followed silently.
  \<open>make([]byte, length)\<close> panics exactly where the slice_range would.
\<close>

definition data_varint :: "u64 \<Rightarrow> u64 \<Rightarrow> u32 \<times> byte list \<times> u32 \<Rightarrow> u32 \<times> byte list \<times> u32" where
  "data_varint fieldNum val = (\<lambda>(portNum, payload, requestID).
     (if fieldNum = 1 then ucast val else portNum, payload, requestID))"

definition data_fixed32 :: "u64 \<Rightarrow> u32 \<Rightarrow> u32 \<times> byte list \<times> u32 \<Rightarrow> u32 \<times> byte list \<times> u32" where
  "data_fixed32 fieldNum u = (\<lambda>(portNum, payload, requestID).
     (portNum, payload, if fieldNum = 6 then u else requestID))"

definition data_bytes :: "u64 \<Rightarrow> byte list \<Rightarrow> u32 \<times> byte list \<times> u32 \<Rightarrow> u32 \<times> byte list \<times> u32" where
  "data_bytes fieldNum xs = (\<lambda>(portNum, payload, requestID).
     (portNum, if fieldNum = 2 then xs else payload, requestID))"

definition data_body :: "byte list \<Rightarrow> int \<Rightarrow> u32 \<times> byte list \<times> u32
    \<Rightarrow> (u32 \<times> byte list \<times> u32) step option" where
  [body_defs]: "data_body data pos st =
     with_tag data pos (Some (Stop st)) (\<lambda>fieldNum wireType pos.
       if wireType = 0 then
         with_varint data pos (Some (Stop st)) (\<lambda>val pos.
           Some (Next pos (data_varint fieldNum val st)))
       else if wireType = 2 then
         with_varint data pos (Some (Stop st)) (\<lambda>len pos.
           let end = wrap64 (pos + int_of_u64 len) in
           if end > int (length data) then Some (Stop st)
           else if fieldNum = 2 then
             (case slice_range data pos end of
                None \<Rightarrow> Some Panic
              | Some xs \<Rightarrow> Some (Next end (data_bytes fieldNum xs st)))
           else Some (Next end st))
       else if wireType = 5 then
         with_fixed32 data pos (Some (Stop st)) (\<lambda>u pos.
           Some (Next pos (data_fixed32 fieldNum u st)))
       else skip data pos wireType st)"

definition decodeDataPayload :: "byte list \<Rightarrow> (u32 \<times> byte list \<times> u32) outcome option" where
  "decodeDataPayload data = for_pos (data_body data) (int (length data)) 0 (0, [], 0)"

end
