(* ===== verification/FromRadio.thy ===== *)
theory FromRadio
  imports Messages
begin

text \<open>
  The decoders of \<open>internal/serial/framing.go\<close> that call other decoders
  (\<open>decodeNodeInfo\<close>, \<open>decodeMeshPacket\<close>, \<open>decodeConfig\<close>) or stop at unknown wire
  types (the configuration sections), and the entry point \<open>DecodeFromRadio\<close>.
\<close>

section \<open>NodeInfo\<close>

definition node_varint :: "u64 \<Rightarrow> u64 \<Rightarrow> NodeInfoLite \<Rightarrow> NodeInfoLite" where
  "node_varint fieldNum val info =
     (if fieldNum = 1 then info\<lparr>NodeNum := ucast val\<rparr>
      else if fieldNum = 7 then info\<lparr>NodeChannel := ucast val\<rparr>
      else if fieldNum = 10 then info\<lparr>IsFavorite := val \<noteq> 0\<rparr>
      else info)"

definition node_fixed32 :: "u64 \<Rightarrow> u32 \<Rightarrow> NodeInfoLite \<Rightarrow> NodeInfoLite" where
  "node_fixed32 fieldNum u info =
     (if fieldNum = 1 then info\<lparr>NodeNum := u\<rparr>
      else if fieldNum = 4 then info\<lparr>NodeSNR := u\<rparr>
      else if fieldNum = 5 then info\<lparr>LastHeard := u\<rparr>
      else info)"

text \<open>Lifts the outcome of a nested decoder.\<close>

definition lift_outcome :: "('a \<Rightarrow> 'b) \<Rightarrow> 'a outcome option \<Rightarrow> 'b outcome option" where
  "lift_outcome f r = (case r of None \<Rightarrow> None | Some Panics \<Rightarrow> Some Panics | Some (Ret a) \<Rightarrow> Some (Ret (f a)))"

definition node_bytes :: "u64 \<Rightarrow> byte list \<Rightarrow> NodeInfoLite \<Rightarrow> NodeInfoLite outcome option" where
  "node_bytes fieldNum sub info =
     (if fieldNum = 2 then lift_outcome (\<lambda>u. info\<lparr>NodeUser := Some u\<rparr>) (decodeUserInfo sub)
      else if fieldNum = 3 then lift_outcome (\<lambda>p. info\<lparr>NodePosition := Some p\<rparr>) (decodePosition sub)
      else if fieldNum = 6 then lift_outcome (\<lambda>d. info\<lparr>NodeMetrics := Some d\<rparr>) (decodeDeviceMetrics sub)
      else Some (Ret info))"

definition node_body :: "byte list \<Rightarrow> int \<Rightarrow> NodeInfoLite \<Rightarrow> NodeInfoLite step option" where
  [body_defs]: "node_body data pos info =
     with_tag data pos (Some (Stop info)) (\<lambda>fieldNum wireType pos.
       if wireType = 0 then
         with_varint data pos (Some (Stop info)) (\<lambda>val pos.
           Some (Next pos (node_varint fieldNum val info)))
       else if wireType = 2 then
         with_bytes data pos (Some (Stop info)) (Some (Stop info)) (\<lambda>sub pos.
           call (node_bytes fieldNum sub info) (\<lambda>info. Some (Next pos info)))
       else if wireType = 5 then
         with_fixed32 data pos (Some (Stop info)) (\<lambda>u pos.
           Some (Next pos (node_fixed32 fieldNum u info)))
       else skip data pos wireType info)"

definition decodeNodeInfo :: "byte list \<Rightarrow> NodeInfoLite outcome option" where
  "decodeNodeInfo data = for_pos (node_body data) (int (length data)) 0 NodeInfoLite0"

section \<open>MeshPacket\<close>

definition mesh_varint :: "u64 \<Rightarrow> u64 \<Rightarrow> MeshPacketData \<Rightarrow> MeshPacketData" where
  "mesh_varint fieldNum val mp =
     (if fieldNum = 1 then mp\<lparr>From := ucast val\<rparr>
      else if fieldNum = 2 then mp\<lparr>To := ucast val\<rparr>
      else if fieldNum = 3 then mp\<lparr>Channel := ucast val\<rparr>
      else if fieldNum = 6 then mp\<lparr>PacketID := ucast val\<rparr>
      else if fieldNum = 7 then mp\<lparr>RxTime := ucast val\<rparr>
      else if fieldNum = 9 then mp\<lparr>RxRSSI := ucast (decodeZigzag val)\<rparr>
      else if fieldNum = 10 then mp\<lparr>HopLimit := ucast val\<rparr>
      else if fieldNum = 11 then mp\<lparr>WantAck := val \<noteq> 0\<rparr>
      else if fieldNum = 12 then mp\<lparr>Priority := ucast val\<rparr>
      else if fieldNum = 15 then mp\<lparr>HopStart := ucast val\<rparr>
      else mp)"

definition mesh_fixed32 :: "u64 \<Rightarrow> u32 \<Rightarrow> MeshPacketData \<Rightarrow> MeshPacketData" where
  "mesh_fixed32 fieldNum u mp =
     (if fieldNum = 1 then mp\<lparr>From := u\<rparr>
      else if fieldNum = 2 then mp\<lparr>To := u\<rparr>
      else if fieldNum = 6 then mp\<lparr>PacketID := u\<rparr>
      else if fieldNum = 7 then mp\<lparr>RxTime := u\<rparr>
      else if fieldNum = 8 then mp\<lparr>RxSNR := u\<rparr>
      else if fieldNum = 9 then mp\<lparr>RxRSSI := u\<rparr>
      else mp)"

definition mesh_bytes :: "u64 \<Rightarrow> byte list \<Rightarrow> MeshPacketData \<Rightarrow> MeshPacketData outcome option" where
  "mesh_bytes fieldNum sub mp =
     (if fieldNum = 4 then
        lift_outcome (\<lambda>(portNum, payload, requestID).
          mp\<lparr>PortNum := portNum, Payload := payload, RequestID := requestID\<rparr>) (decodeDataPayload sub)
      else Some (Ret mp))"

definition mesh_body :: "byte list \<Rightarrow> int \<Rightarrow> MeshPacketData \<Rightarrow> MeshPacketData step option" where
  [body_defs]: "mesh_body data pos mp =
     with_tag data pos (Some (Stop mp)) (\<lambda>fieldNum wireType pos.
       if wireType = 0 then
         with_varint data pos (Some (Stop mp)) (\<lambda>val pos.
           Some (Next pos (mesh_varint fieldNum val mp)))
       else if wireType = 2 then
         with_bytes data pos (Some (Stop mp)) (Some (Stop mp)) (\<lambda>sub pos.
           call (mesh_bytes fieldNum sub mp) (\<lambda>mp. Some (Next pos mp)))
       else if wireType = 5 then
         with_fixed32 data pos (Some (Stop mp)) (\<lambda>u pos.
           Some (Next pos (mesh_fixed32 fieldNum u mp)))
       else skip data pos wireType mp)"

definition decodeMeshPacket :: "byte list \<Rightarrow> MeshPacketData outcome option" where
  "decodeMeshPacket data = for_pos (mesh_body data) (int (length data)) 0 MeshPacketData0"

section \<open>Configuration sections\<close>

text \<open>Bodies that know varints only: anything else ends the loop.\<close>

definition varint_only_body :: "(u64 \<Rightarrow> u64 \<Rightarrow> 'c \<Rightarrow> 'c) \<Rightarrow> byte list \<Rightarrow> int \<Rightarrow> 'c \<Rightarrow> 'c step option" where
  [body_defs]: "varint_only_body on_varint data pos c =
     with_tag data pos (Some (Stop c)) (\<lambda>fieldNum wireType pos.
       if wireType = 0 then
         with_varint data pos (Some (Stop c)) (\<lambda>val pos. Some (Next pos (on_varint fieldNum val c)))
       else Some (Stop c))"

definition bluetooth_varint :: "u64 \<Rightarrow> u64 \<Rightarrow> BluetoothConfig \<Rightarrow> BluetoothConfig" where
  "bluetooth_varint fieldNum val bt =
     (if fieldNum = 1 then bt\<lparr>BtEnabled := val \<noteq> 0\<rparr>
      else if fieldNum = 2 then bt\<lparr>BtMode := ucast val\<rparr>
      else if fieldNum = 3 then bt\<lparr>FixedPin := ucast val\<rparr>
      else bt)"

definition decodeBluetoothConfig :: "byte list \<Rightarrow> BluetoothConfig outcome option" where
  "decodeBluetoothConfig data =
     for_pos (varint_only_body bluetooth_varint data) (int (length data)) 0 BluetoothConfig0"

definition poscfg_varint :: "u64 \<Rightarrow> u64 \<Rightarrow> PositionConfig \<Rightarrow> PositionConfig" where
  "poscfg_varint fieldNum val pc =
     (if fieldNum = 1 then pc\<lparr>PositionBroadcastSecs := ucast val\<rparr>
      else if fieldNum = 3 then pc\<lparr>FixedPosition := val \<noteq> 0\<rparr>
      else if fieldNum = 4 then pc\<lparr>GPSEnabled := val \<noteq> 0\<rparr>
      else if fieldNum = 5 then pc\<lparr>GPSUpdateInterval := ucast val\<rparr>
      else if fieldNum = 13 then pc\<lparr>GPSMode := ucast val\<rparr>
      else pc)"

definition decodePositionConfig :: "byte list \<Rightarrow> PositionConfig outcome option" where
  "decodePositionConfig data =
     for_pos (varint_only_body poscfg_varint data) (int (length data)) 0 PositionConfig0"

definition display_varint :: "u64 \<Rightarrow> u64 \<Rightarrow> DisplayConfig \<Rightarrow> DisplayConfig" where
  "display_varint fieldNum val dc =
     (if fieldNum = 1 then dc\<lparr>ScreenOnSecs := ucast val\<rparr>
      else if fieldNum = 5 then dc\<lparr>FlipScreen := val \<noteq> 0\<rparr>
      else dc)"

definition decodeDisplayConfig :: "byte list \<Rightarrow> DisplayConfig outcome option" where
  "decodeDisplayConfig data =
     for_pos (varint_only_body display_varint data) (int (length data)) 0 DisplayConfig0"

definition lora_varint :: "u64 \<Rightarrow> u64 \<Rightarrow> LoRaConfig \<Rightarrow> LoRaConfig" where
  "lora_varint fieldNum val lc =
     (if fieldNum = 1 then lc\<lparr>UsePreset := val \<noteq> 0\<rparr>
      else if fieldNum = 7 then lc\<lparr>Region := ucast val\<rparr>
      else if fieldNum = 8 then lc\<lparr>LoRaHopLimit := ucast val\<rparr>
      else if fieldNum = 9 then lc\<lparr>TxEnabled := val \<noteq> 0\<rparr>
      else if fieldNum = 10 then lc\<lparr>TxPower := ucast val\<rparr>
      else lc)"

definition lora_body :: "byte list \<Rightarrow> int \<Rightarrow> LoRaConfig \<Rightarrow> LoRaConfig step option" where
  [body_defs]: "lora_body data pos lc =
     with_tag data pos (Some (Stop lc)) (\<lambda>fieldNum wireType pos.
       if wireType = 0 then
         with_varint data pos (Some (Stop lc)) (\<lambda>val pos.
           Some (Next pos (lora_varint fieldNum val lc)))
       else if wireType = 5 then
         (if pos + 4 > int (length data) then Some (Stop lc) else Some (Next (pos + 4) lc))
       else if wireType = 1 then
         (if pos + 8 > int (length data) then Some (Stop lc) else Some (Next (pos + 8) lc))
       else Some (Stop lc))"

definition decodeLoRaConfig :: "byte list \<Rightarrow> LoRaConfig outcome option" where
  "decodeLoRaConfig data = for_pos (lora_body data) (int (length data)) 0 LoRaConfig0"

definition power_varint :: "u64 \<Rightarrow> u64 \<Rightarrow> PowerConfig \<Rightarrow> PowerConfig" where
  "power_varint fieldNum val pc =
     (if fieldNum = 1 then pc\<lparr>IsPowerSaving := val \<noteq> 0\<rparr>
      else if fieldNum = 9 then pc\<lparr>DeviceBatteryINAAddr := ucast val\<rparr>
      else pc)"

definition power_body :: "byte list \<Rightarrow> int \<Rightarrow> PowerConfig \<Rightarrow> PowerConfig step option" where
  [body_defs]: "power_body data pos pc =
     with_tag data pos (Some (Stop pc)) (\<lambda>fieldNum wireType pos.
       if wireType = 0 then
         with_varint data pos (Some (Stop pc)) (\<lambda>val pos.
           Some (Next pos (power_varint fieldNum val pc)))
       else if wireType = 5 then
         (if pos + 4 > int (length data) then Some (Stop pc) else Some (Next (pos + 4) pc))
       else Some (Stop pc))"

definition decodePowerConfig :: "byte list \<Rightarrow> PowerConfig outcome option" where
  "decodePowerConfig data = for_pos (power_body data) (int (length data)) 0 PowerConfig0"

definition config_bytes :: "u64 \<Rightarrow> byte list \<Rightarrow> ConfigPayload \<Rightarrow> ConfigPayload outcome option" where
  "config_bytes fieldNum sub cfg =
     (if fieldNum = 2 then
        lift_outcome (\<lambda>c. cfg\<lparr>Section := ''position'', CfgPosition := Some c\<rparr>) (decodePositionConfig sub)
      else if fieldNum = 3 then
        lift_outcome (\<lambda>c. cfg\<lparr>Section := ''power'', CfgPower := Some c\<rparr>) (decodePowerConfig sub)
      else if fieldNum = 5 then
        lift_outcome (\<lambda>c. cfg\<lparr>Section := ''display'', CfgDisplay := Some c\<rparr>) (decodeDisplayConfig sub)
      else if fieldNum = 6 then
        lift_outcome (\<lambda>c. cfg\<lparr>Section := ''lora'', CfgLoRa := Some c\<rparr>) (decodeLoRaConfig sub)
      else if fieldNum = 7 then
        lift_outcome (\<lambda>c. cfg\<lparr>Section := ''bluetooth'', CfgBluetooth := Some c\<rparr>) (decodeBluetoothConfig sub)
      else Some (Ret (cfg\<lparr>Section := ''unknown_'' @ show_nat (unat fieldNum)\<rparr>)))"

definition config_body :: "byte list \<Rightarrow> int \<Rightarrow> ConfigPayload \<Rightarrow> ConfigPayload step option" where
  [body_defs]: "config_body data pos cfg =
     with_tag data pos (Some (Stop cfg)) (\<lambda>fieldNum wireType pos.
       if wireType = 2 then
         with_bytes data pos (Some (Stop cfg)) (Some (Stop cfg)) (\<lambda>sub pos.
           call (config_bytes fieldNum sub cfg) (\<lambda>cfg. Some (Next pos cfg)))
       else if wireType = 0 then
         with_varint data pos (Some (Stop cfg)) (\<lambda>_ pos. Some (Next pos cfg))
       else Some (Stop cfg))"

definition decodeConfig :: "byte list \<Rightarrow> ConfigPayload outcome option" where
  "decodeConfig data = for_pos (config_body data) (int (length data)) 0 (ConfigPayload0 data)"

section \<open>Metadata\<close>

definition metadata_bytes :: "u64 \<Rightarrow> byte list \<Rightarrow> DeviceMetadata \<Rightarrow> DeviceMetadata" where
  "metadata_bytes fieldNum s meta =
     (if fieldNum = 1 then meta\<lparr>FirmwareVersion := string_of_bytes s\<rparr> else meta)"

definition metadata_varint :: "u64 \<Rightarrow> u64 \<Rightarrow> DeviceMetadata \<Rightarrow> DeviceMetadata" where
  "metadata_varint fieldNum val meta =
     (if fieldNum = 2 then meta\<lparr>DeviceStateVersion := ucast val\<rparr>
      else if fieldNum = 4 then meta\<lparr>HasBluetooth := val \<noteq> 0\<rparr>
      else if fieldNum = 5 then meta\<lparr>HasWifi := val \<noteq> 0\<rparr>
      else if fieldNum = 6 then meta\<lparr>HasEthernet := val \<noteq> 0\<rparr>
      else meta)"

definition metadata_body :: "byte list \<Rightarrow> int \<Rightarrow> DeviceMetadata \<Rightarrow> DeviceMetadata step option" where
  [body_defs]: "metadata_body data pos meta =
     with_tag data pos (Some (Stop meta)) (\<lambda>fieldNum wireType pos.
       if wireType = 2 then
         with_bytes data pos (Some (Stop meta)) (Some (Stop meta)) (\<lambda>s pos.
           Some (Next pos (metadata_bytes fieldNum s meta)))
       else if wireType = 0 then
         with_varint data pos (Some (Stop meta)) (\<lambda>val pos.
           Some (Next pos (metadata_varint fieldNum val meta)))
       else skip data pos wireType meta)"

definition decodeMetadata :: "byte list \<Rightarrow> DeviceMetadata outcome option" where
  "decodeMetadata data = for_pos (metadata_body data) (int (length data)) 0 DeviceMetadata0"

section \<open>FromRadio\<close>

datatype decode_error =
    EmptyFrame
  | TruncatedVarint u64
  | TruncatedLength u64
  | TruncatedPayload u64
  | TruncatedFixed32 u64
  | TruncatedFixed64 u64
  | UnknownWireType u64 u64

definition radio_varint :: "u64 \<Rightarrow> u64 \<Rightarrow> FromRadioPacket \<Rightarrow> FromRadioPacket" where
  "radio_varint fieldNum val pkt =
     (if fieldNum = 7 then pkt\<lparr>PktType := FromRadioConfigComplete\<rparr>
      else if fieldNum = 8 then pkt\<lparr>PktType := FromRadioRebooted\<rparr>
      else pkt)"

definition radio_bytes :: "u64 \<Rightarrow> byte list \<Rightarrow> FromRadioPacket \<Rightarrow> FromRadioPacket outcome option" where
  "radio_bytes fieldNum sub pkt =
     (if fieldNum = 2 then
        lift_outcome (\<lambda>m. pkt\<lparr>PktType := FromRadioMeshPacket, PktMeshPacket := Some m\<rparr>) (decodeMeshPacket sub)
      else if fieldNum = 3 then
        lift_outcome (\<lambda>m. pkt\<lparr>PktType := FromRadioMyInfo, PktMyInfo := Some m\<rparr>) (decodeMyInfo sub)
      else if fieldNum = 4 then
        lift_outcome (\<lambda>m. pkt\<lparr>PktType := FromRadioNodeInfo, PktNodeInfo := Some m\<rparr>) (decodeNodeInfo sub)
      else if fieldNum = 5 then
        lift_outcome (\<lambda>m. pkt\<lparr>PktType := FromRadioConfig, PktConfig := Some m\<rparr>) (decodeConfig sub)
      else if fieldNum = 9 then
        Some (Ret (pkt\<lparr>PktType := FromRadioConfig, PktConfig := Some (ConfigPayload0 sub)\<rparr>))
      else if fieldNum = 10 then Some (Ret (pkt\<lparr>PktType := FromRadioChannel\<rparr>))
      else if fieldNum = 13 then
        lift_outcome (\<lambda>m. pkt\<lparr>PktType := FromRadioMetadata, PktMetadata := Some m\<rparr>) (decodeMetadata sub)
      else Some (Ret pkt))"

text \<open>The loop state is the packet and the error that ended the loop, if one did.\<close>

definition radio_body :: "byte list \<Rightarrow> int \<Rightarrow> FromRadioPacket \<times> decode_error option
    \<Rightarrow> (FromRadioPacket \<times> decode_error option) step option" where
  [body_defs]: "radio_body data pos st =
     with_tag data pos (Some (Stop st)) (\<lambda>fieldNum wireType pos.
       if wireType = 0 then
         with_varint data pos (Some (Stop (fst st, Some (TruncatedVarint fieldNum)))) (\<lambda>val pos.
           Some (Next pos (radio_varint fieldNum val (fst st), snd st)))
       else if wireType = 2 then
         with_bytes data pos (Some (Stop (fst st, Some (TruncatedLength fieldNum))))
           (Some (Stop (fst st, Some (TruncatedPayload fieldNum)))) (\<lambda>sub pos.
             call (radio_bytes fieldNum sub (fst st)) (\<lambda>pkt. Some (Next pos (pkt, snd st))))
       else if wireType = 5 then
         (if pos + 4 > int (length data) then Some (Stop (fst st, Some (TruncatedFixed32 fieldNum)))
          else Some (Next (pos + 4) st))
       else if wireType = 1 then
         (if pos + 8 > int (length data) then Some (Stop (fst st, Some (TruncatedFixed64 fieldNum)))
          else Some (Next (pos + 8) st))
       else Some (Stop (fst st, Some (UnknownWireType wireType fieldNum))))"

text \<open>
  A returned error comes with the packet decoded so far, except for the empty
  frame, which returns no packet.
\<close>

definition DecodeFromRadio ::
  "byte list \<Rightarrow> (FromRadioPacket option \<times> decode_error option) outcome option" where
  "DecodeFromRadio data =
     (if data = [] then Some (Ret (None, Some EmptyFrame))
      else lift_outcome (\<lambda>(pkt, e). (Some pkt, e))
        (for_pos (radio_body data) (int (length data)) 0 (FromRadioPacket0 data, None)))"

section \<open>Every decoder is a wire decoder\<close>

lemma lift_outcome_simps [simp]:
  "lift_outcome f None = None"
  "lift_outcome f (Some Panics) = Some Panics"
  "lift_outcome f (Some (Ret a)) = Some (Ret (f a))"
  by (simp_all add: lift_outcome_def)

lemma lift_outcome_returns [advance_intros]:
  "(\<exists>a. r = Some (Ret a)) \<Longrightarrow> (\<exists>b. lift_outcome f r = Some (Ret b))"
  by auto

interpretation myinfo: wire_decoder myinfo_body
  by unfold_locales (auto simp: body_defs intro!: advance_intros)

interpretation user: wire_decoder user_body
  by unfold_locales (auto simp: body_defs intro!: advance_intros)

interpretation position: wire_decoder position_body
  by unfold_locales (auto simp: body_defs intro!: advance_intros)

interpretation metrics: wire_decoder metrics_body
  by unfold_locales (auto simp: body_defs intro!: advance_intros)

lemma slice_some:
  "0 \<le> lo \<Longrightarrow> lo \<le> hi \<Longrightarrow> hi \<le> int (length xs) \<Longrightarrow> \<exists>ys. slice_range xs lo hi = Some ys"
  by (simp add: slice_range_def)

interpretation data: wire_decoder data_body
proof
  fix data :: "byte list" and pos :: int and st :: "u32 \<times> byte list \<times> u32"
  assume safe: "safe_lengths data" and pos: "0 \<le> pos" "pos < int (length data)"
  have "advances pos (let end = wrap64 (p + int_of_u64 v) in
      if end > int (length data) then Some (Stop st)
      else if f = 2 then (case slice_range data p end of None \<Rightarrow> Some Panic
        | Some xs \<Rightarrow> Some (Next end (data_bytes f xs st)))
      else Some (Next end st))"
    if "pos < p" "p \<le> int (length data)" "unat v < 2 ^ 62" for f v p
  proof -
    have "pos < p + uint v" using that(1) uint_ge_0 [of v] by linarith
    with that pos slice_some [of p "p + int (unat v)" data] show ?thesis
      by (auto simp: safe_field_end [OF safe] Let_def intro!: advance_intros)
  qed
  then show "advances pos (data_body data pos st)"
    unfolding data_body_def using safe pos by (auto intro!: advance_intros)
qed

lemma decode_returns [advance_intros]:
  "safe_lengths data \<Longrightarrow> \<exists>m. decodeMyInfo data = Some (Ret m)"
  "safe_lengths data \<Longrightarrow> \<exists>m. decodeUserInfo data = Some (Ret m)"
  "safe_lengths data \<Longrightarrow> \<exists>m. decodePosition data = Some (Ret m)"
  "safe_lengths data \<Longrightarrow> \<exists>m. decodeDeviceMetrics data = Some (Ret m)"
  "safe_lengths data \<Longrightarrow> \<exists>m. decodeDataPayload data = Some (Ret m)"
  unfolding decodeMyInfo_def decodeUserInfo_def decodePosition_def decodeDeviceMetrics_def
    decodeDataPayload_def
  by (rule myinfo.returns user.returns position.returns metrics.returns data.returns, assumption)+

interpretation node: wire_decoder node_body
  by unfold_locales (auto simp: body_defs node_bytes_def intro!: advance_intros)

interpretation mesh: wire_decoder mesh_body
  by unfold_locales (auto simp: body_defs mesh_bytes_def intro!: advance_intros)

interpretation varint_only: wire_decoder "varint_only_body f" for f
  by unfold_locales (auto simp: body_defs intro!: advance_intros)

interpretation lora: wire_decoder lora_body
  by unfold_locales (auto simp: body_defs intro!: advance_intros)

interpretation power: wire_decoder power_body
  by unfold_locales (auto simp: body_defs intro!: advance_intros)

interpretation metadata: wire_decoder metadata_body
  by unfold_locales (auto simp: body_defs intro!: advance_intros)

lemma decode_returns2 [advance_intros]:
  "safe_lengths data \<Longrightarrow> \<exists>m. decodeNodeInfo data = Some (Ret m)"
  "safe_lengths data \<Longrightarrow> \<exists>m. decodeMeshPacket data = Some (Ret m)"
  "safe_lengths data \<Longrightarrow> \<exists>m. decodeBluetoothConfig data = Some (Ret m)"
  "safe_lengths data \<Longrightarrow> \<exists>m. decodePositionConfig data = Some (Ret m)"
  "safe_lengths data \<Longrightarrow> \<exists>m. decodeDisplayConfig data = Some (Ret m)"
  "safe_lengths data \<Longrightarrow> \<exists>m. decodeLoRaConfig data = Some (Ret m)"
  "safe_lengths data \<Longrightarrow> \<exists>m. decodePowerConfig data = Some (Ret m)"
  "safe_lengths data \<Longrightarrow> \<exists>m. decodeMetadata data = Some (Ret m)"
  unfolding decodeNodeInfo_def decodeMeshPacket_def decodeBluetoothConfig_def
    decodePositionConfig_def decodeDisplayConfig_def decodeLoRaConfig_def decodePowerConfig_def
    decodeMetadata_def
  by (rule node.returns mesh.returns varint_only.returns lora.returns power.returns
      metadata.returns, assumption)+

interpretation config: wire_decoder config_body
  by unfold_locales (auto simp: body_defs config_bytes_def intro!: advance_intros)

lemma decodeConfig_returns [advance_intros]:
  "safe_lengths data \<Longrightarrow> \<exists>m. decodeConfig data = Some (Ret m)"
  unfolding decodeConfig_def by (rule config.returns)

interpretation radio: wire_decoder radio_body
  by unfold_locales (auto simp: body_defs radio_bytes_def intro!: advance_intros)

section \<open>Fields the decoders understand\<close>

interpretation position_v: varint_fields position_body position_varint
  by unfold_locales (erule (1) varint_field_at [where ?'m = PositionData], simp add: body_defs)

interpretation position_f: fixed32_fields position_body position_fixed32
  by unfold_locales (erule (1) fixed32_field_at [where ?'m = PositionData], simp add: body_defs)

interpretation metrics_v: varint_fields metrics_body metrics_varint
  by unfold_locales (erule (1) varint_field_at [where ?'m = DeviceMetrics], simp add: body_defs)

interpretation metrics_f: fixed32_fields metrics_body metrics_fixed32
  by unfold_locales (erule (1) fixed32_field_at [where ?'m = DeviceMetrics], simp add: body_defs)

interpretation data_v: varint_fields data_body data_varint
  by unfold_locales (erule (1) varint_field_at [where ?'m = "u32 \<times> byte list \<times> u32"], simp add: body_defs)

interpretation data_f: fixed32_fields data_body data_fixed32
  by unfold_locales (erule (1) fixed32_field_at [where ?'m = "u32 \<times> byte list \<times> u32"], simp add: body_defs)

interpretation data_b: bytes_fields data_body "\<lambda>fn xs st. Some (Ret (data_bytes fn xs st))"
proof
  fix data suf xs :: "byte list" and pos :: int and fn :: u64 and st :: "u32 \<times> byte list \<times> u32"
  assume "at data pos (encodeLengthDelimited fn xs @ suf)" "unat fn < 2 ^ 61" "length data < 2 ^ 62"
  then show "data_body data pos st = call (Some (Ret (data_bytes fn xs st)))
      (\<lambda>m'. Some (Next (pos + int (length (encodeLengthDelimited fn xs))) m'))"
    by (rule raw_bytes_field_at [where ?'m = "u32 \<times> byte list \<times> u32"]) (auto simp: data_body_def Let_def data_bytes_def split: prod.splits)
qed

interpretation mesh_v: varint_fields mesh_body mesh_varint
  by unfold_locales (erule (1) varint_field_at [where ?'m = MeshPacketData], simp add: body_defs)

interpretation mesh_f: fixed32_fields mesh_body mesh_fixed32
  by unfold_locales (erule (1) fixed32_field_at [where ?'m = MeshPacketData], simp add: body_defs)

interpretation mesh_b: bytes_fields mesh_body mesh_bytes
  by unfold_locales (erule (2) bytes_field_at [where ?'m = MeshPacketData], simp add: body_defs)

interpretation node_v: varint_fields node_body node_varint
  by unfold_locales (erule (1) varint_field_at [where ?'m = NodeInfoLite], simp add: body_defs)

interpretation node_f: fixed32_fields node_body node_fixed32
  by unfold_locales (erule (1) fixed32_field_at [where ?'m = NodeInfoLite], simp add: body_defs)

interpretation node_b: bytes_fields node_body node_bytes
  by unfold_locales (erule (2) bytes_field_at [where ?'m = NodeInfoLite], simp add: body_defs)

interpretation config_b: bytes_fields config_body config_bytes
  by unfold_locales (erule (2) bytes_field_at [where ?'m = ConfigPayload], simp add: body_defs)

interpretation varint_only_v: varint_fields "varint_only_body f" f
  for f :: "u64 \<Rightarrow> u64 \<Rightarrow> 'a \<Rightarrow> 'a"
  by unfold_locales (erule (1) varint_field_at [where ?'m = 'a], simp add: body_defs)

interpretation radio_b: bytes_fields radio_body
  "\<lambda>fn xs st. lift_outcome (\<lambda>pkt. (pkt, snd st)) (radio_bytes fn xs (fst st))"
  by unfold_locales
    (erule (2) bytes_field_at [where ?'m = "FromRadioPacket \<times> decode_error option"], simp add: body_defs call_def lift_outcome_def
       split: option.splits outcome.splits)

section \<open>Frames of one field\<close>

lemma DecodeFromRadio_bytes_field:
  assumes "unat fn < 2 ^ 61" "length (encodeLengthDelimited fn sub) < 2 ^ 62"
  shows "DecodeFromRadio (encodeLengthDelimited fn sub) =
     lift_outcome (\<lambda>pkt. (Some pkt, None)) (radio_bytes fn sub (FromRadioPacket0 (encodeLengthDelimited fn sub)))"
proof -
  let ?d = "encodeLengthDelimited fn sub"
  let ?r = "radio_bytes fn sub (FromRadioPacket0 ?d)"
  have a: "at ?d 0 (encodeLengthDelimited fn sub @ [])" by simp
  have "radio_body ?d 0 (FromRadioPacket0 ?d, None) =
      call ?r (\<lambda>pkt. Some (Next (int (length ?d)) (pkt, None)))"
    using radio_b.bytes_law [OF a assms] by (cases ?r) (auto simp: lift_outcome_def call_def split: outcome.splits)
  moreover have "0 < length ?d" by (simp add: encodeLengthDelimited_def)
  ultimately have "for_pos (radio_body ?d) (int (length ?d)) 0 (FromRadioPacket0 ?d, None) =
      lift_outcome (\<lambda>pkt. (pkt, None)) ?r"
    by (subst for_pos.simps) (auto simp: call_def lift_outcome_def for_pos_done split: option.splits outcome.splits)
  moreover have "?d \<noteq> []" by simp
  ultimately show ?thesis
    by (cases ?r) (auto simp: DecodeFromRadio_def lift_outcome_def split: outcome.splits)
qed

lemma DecodeFromRadio_first_stop:
  assumes "data \<noteq> []" "radio_body data 0 (FromRadioPacket0 data, None) = Some (Stop (pkt, e))"
  shows "DecodeFromRadio data = Some (Ret (Some pkt, e))"
  using assms by (simp add: DecodeFromRadio_def for_pos_stop)

lemma DecodeFromRadio_unknown_wire:
  assumes fn: "unat fn < 2 ^ 61" and w: "w \<in> {3, 4, 6, 7}"
    and d: "data = encodeVarint (push_bit 3 fn OR w) @ rest"
  shows "DecodeFromRadio data = Some (Ret (Some (FromRadioPacket0 data), Some (UnknownWireType w fn)))"
proof (rule DecodeFromRadio_first_stop)
  have a: "at data 0 (encodeVarint (push_bit 3 fn OR w) @ rest)" using d by simp
  have "w < 8" using w by auto
  then show "radio_body data 0 (FromRadioPacket0 data, None) =
      Some (Stop (FromRadioPacket0 data, Some (UnknownWireType w fn)))"
    using w unfolding radio_body_def with_tag_at [OF a fn \<open>w < 8\<close>] by auto
qed (simp add: d)

lemma with_bytes_truncated:
  assumes b: "at data pos (encodeVarint len @ rest)" and len: "length rest < unat len" "unat len < 2 ^ 61"
    and "pos \<le> 10"
  shows "with_bytes data pos s1 s2 k = s2"
proof -
  let ?p = "pos + int (length (encodeVarint len))"
  have l: "int_of_u64 len = int (unat len)" using len by (intro int_of_u64_small) simp
  have "int (unat len) < 2 ^ 61" using len(2) by (rule int_unat_less)
  moreover have "0 \<le> pos" using b by (simp add: at_def)
  ultimately have "wrap64 (?p + int_of_u64 len) = ?p + int (unat len)"
    unfolding l using length_encodeVarint_max [of len] assms(4) by (intro wrap64_add) simp_all
  moreover have "?p + int (unat len) > int (length data)" using len at_end [OF b] by (simp del: of_nat_unat)
  ultimately show ?thesis
    unfolding with_bytes_def with_varint_at [OF b] by (simp add: Let_def del: of_nat_unat)
qed

lemma DecodeFromRadio_truncated:
  assumes fn: "unat fn < 2 ^ 61" and len: "length rest < unat len" "unat len < 2 ^ 61"
    and d: "data = encodeVarint (push_bit 3 fn OR 2) @ encodeVarint len @ rest"
  shows "DecodeFromRadio data = Some (Ret (Some (FromRadioPacket0 data), Some (TruncatedPayload fn)))"
proof (rule DecodeFromRadio_first_stop)
  have a: "at data 0 (encodeVarint (push_bit 3 fn OR 2) @ encodeVarint len @ rest)" using d by simp
  have le: "0 + int (length (encodeVarint (push_bit 3 fn OR 2))) \<le> 10"
    using length_encodeVarint_max [of "push_bit 3 fn OR 2"] by simp
  show "radio_body data 0 (FromRadioPacket0 data, None) =
      Some (Stop (FromRadioPacket0 data, Some (TruncatedPayload fn)))"
    unfolding radio_body_def with_tag_at [OF a fn tag_wires(2)] with_bytes_truncated [OF at_advance [OF a] len le]
    by simp
qed (simp add: d)

section \<open>Properties\<close>

text \<open>C19: On every frame in which no varint reaches \<open>2^62\<close>, \<open>DecodeFromRadio\<close> and all the decoders
  nested in it return: no endless loop and no slice panic, at any nesting depth, whatever the
  bytes are.\<close>

theorem DecodeFromRadio_returns:
  "safe_lengths data \<Longrightarrow> \<exists>pkt e. DecodeFromRadio data = Some (Ret (pkt, e))"
proof (cases "data = []")
  case False
  assume "safe_lengths data"
  then obtain r where "for_pos (radio_body data) (int (length data)) 0 (FromRadioPacket0 data, None) = Some (Ret r)"
    using radio.returns by blast
  with False show ?thesis by (cases r) (simp add: DecodeFromRadio_def)
qed (simp add: DecodeFromRadio_def)

theorem DecodeFromRadio_returns_witness:
  "\<exists>pkt e. DecodeFromRadio [0x12, 0x04, 0x22, 0x02, 0x08, 0x01] = Some (Ret (pkt, e))"
  by (rule DecodeFromRadio_returns) (rule short_payload_safe, simp)

text \<open>The error paths of \<open>DecodeFromRadio\<close>: an empty frame gives no packet; a tag with a wire
  type other than 0, 1, 2, 5 and a length-delimited field that announces more bytes than the
  frame holds give the packet decoded so far and an error naming the field.\<close>

theorem DecodeFromRadio_errors:
  assumes "unat fn < 2 ^ 61" "w \<in> {3, 4, 6, 7}" "length rest < unat len" "unat len < 2 ^ 61"
  defines "bad_wire \<equiv> encodeVarint (push_bit 3 fn OR w) @ rest"
    and "short \<equiv> encodeVarint (push_bit 3 fn OR 2) @ encodeVarint len @ rest"
  shows "DecodeFromRadio [] = Some (Ret (None, Some EmptyFrame)) \<and>
    DecodeFromRadio bad_wire = Some (Ret (Some (FromRadioPacket0 bad_wire), Some (UnknownWireType w fn))) \<and>
    DecodeFromRadio short = Some (Ret (Some (FromRadioPacket0 short), Some (TruncatedPayload fn)))"
  unfolding bad_wire_def short_def
  using DecodeFromRadio_unknown_wire [OF assms(1,2) refl, of rest] DecodeFromRadio_truncated [OF assms(1,3,4) refl]
  by (simp add: DecodeFromRadio_def)

end
