(* ===== verification/Payloads.thy ===== *)
theory Payloads
  imports FromRadio
begin

text \<open>
  The payload decoders of \<open>internal/meshtastic/dispatcher.go\<close>, which run on
  bytes chosen by remote mesh nodes. Their \<open>decodeVarint\<close> and \<open>skipField\<close> are
  copies of the ones in \<open>internal/serial\<close>, and the position and device-metrics
  loops are the loops of \<open>decodePosition\<close> and \<open>decodeDeviceMetrics\<close> with other
  variable names, so they share their bodies.
\<close>

section \<open>Definitions\<close>

definition decodePositionPayload :: "byte list \<Rightarrow> PositionData outcome option" where
  "decodePositionPayload data = for_pos (position_body data) (int (length data)) 0 PositionData0"

definition decodeDeviceMetricsPayload :: "byte list \<Rightarrow> DeviceMetrics outcome option" where
  "decodeDeviceMetricsPayload data = for_pos (metrics_body data) (int (length data)) 0 DeviceMetrics0"

definition env_fixed32 :: "u64 \<Rightarrow> u32 \<Rightarrow> EnvironmentMetrics \<Rightarrow> EnvironmentMetrics" where
  "env_fixed32 fieldNum f em =
     (if fieldNum = 1 then em\<lparr>Temperature := f\<rparr>
      else if fieldNum = 2 then em\<lparr>RelativeHumidity := f\<rparr>
      else if fieldNum = 3 then em\<lparr>BarometricPressure := f\<rparr>
      else em)"

definition env_body :: "byte list \<Rightarrow> int \<Rightarrow> EnvironmentMetrics \<Rightarrow> EnvironmentMetrics step option" where
  [body_defs]: "env_body data pos em =
     with_tag data pos (Some (Stop em)) (\<lambda>fieldNum wireType pos.
       if wireType = 5 then
         with_fixed32 data pos (Some (Stop em)) (\<lambda>f pos.
           Some (Next pos (env_fixed32 fieldNum f em)))
       else skip data pos wireType em)"

definition decodeEnvironmentMetricsPayload :: "byte list \<Rightarrow> EnvironmentMetrics outcome option" where
  "decodeEnvironmentMetricsPayload data =
     for_pos (env_body data) (int (length data)) 0 EnvironmentMetrics0"

type_synonym telemetry = "DeviceMetrics option \<times> EnvironmentMetrics option"

definition telemetry_bytes :: "u64 \<Rightarrow> byte list \<Rightarrow> telemetry \<Rightarrow> telemetry outcome option" where
  "telemetry_bytes fieldNum sub st =
     (if fieldNum = 2 then lift_outcome (\<lambda>dm. (Some dm, snd st)) (decodeDeviceMetricsPayload sub)
      else if fieldNum = 3 then
        lift_outcome (\<lambda>em. (fst st, Some em)) (decodeEnvironmentMetricsPayload sub)
      else Some (Ret st))"

definition telemetry_body :: "byte list \<Rightarrow> int \<Rightarrow> telemetry \<Rightarrow> telemetry step option" where
  [body_defs]: "telemetry_body data pos st =
     with_tag data pos (Some (Stop st)) (\<lambda>fieldNum wireType pos.
       if wireType = 2 then
         with_bytes data pos (Some (Stop st)) (Some (Stop st)) (\<lambda>sub pos.
           call (telemetry_bytes fieldNum sub st) (\<lambda>st. Some (Next pos st)))
       else skip data pos wireType st)"

definition decodeTelemetryPayload :: "byte list \<Rightarrow> telemetry outcome option" where
  "decodeTelemetryPayload data = for_pos (telemetry_body data) (int (length data)) 0 (None, None)"

section \<open>Sane payloads are decoded\<close>

interpretation env: wire_decoder env_body
  by unfold_locales (auto simp: body_defs intro!: advance_intros)

lemma payload_returns [advance_intros]:
  "safe_lengths data \<Longrightarrow> \<exists>m. decodePositionPayload data = Some (Ret m)"
  "safe_lengths data \<Longrightarrow> \<exists>m. decodeDeviceMetricsPayload data = Some (Ret m)"
  "safe_lengths data \<Longrightarrow> \<exists>m. decodeEnvironmentMetricsPayload data = Some (Ret m)"
  unfolding decodePositionPayload_def decodeDeviceMetricsPayload_def
    decodeEnvironmentMetricsPayload_def
  by (rule position.returns metrics.returns env.returns, assumption)+

interpretation telemetry: wire_decoder telemetry_body
  by unfold_locales (auto simp: body_defs telemetry_bytes_def simp del: split_paired_Ex split_paired_All
      intro!: advance_intros)

interpretation env_f: fixed32_fields env_body env_fixed32
  by unfold_locales
    (erule (1) fixed32_field_at [where ?'m = EnvironmentMetrics], simp add: body_defs)

interpretation telemetry_b: bytes_fields telemetry_body telemetry_bytes
  by unfold_locales (erule (2) bytes_field_at [where ?'m = telemetry], simp add: body_defs)

section \<open>Hostile payloads\<close>

text \<open>
  A length-delimited field 2 whose length is \<open>2^64 - 11\<close>: as an \<open>int\<close> it is
  \<open>-11\<close>, which is exactly the size of the field's own header.
\<close>

definition rewind_payload :: "byte list" where
  "rewind_payload = [0x12, 0xF5, 0xFF, 0xFF, 0xFF, 0xFF, 0xFF, 0xFF, 0xFF, 0xFF, 0x01]"

lemma rewind_varint: "decodeVarint (drop 1 rewind_payload) = (- 11, 10)" (is ?A)
  and rewind_tag: "decodeVarint rewind_payload = (0x12, 1)" (is ?B)
proof -
  show ?A by code_simp
  show ?B by code_simp
qed

lemma rewind_position: "position_body rewind_payload 0 m = Some (Next 0 m)"
proof -
  have len: "length rewind_payload = 11" by (simp add: rewind_payload_def)
  have "skipField rewind_payload 1 2 = Some 0"
    using rewind_varint by (simp add: skipField_def slice_from_def len int_of_u64_def wrap64_take_bit)
  then show ?thesis
    by (simp add: position_body_def with_tag_def with_varint_def slice_from_def rewind_tag skip_def)
qed

lemma rewind_telemetry: "telemetry_body rewind_payload 0 m = Some Panic"
proof -
  have len: "length rewind_payload = 11" by (simp add: rewind_payload_def)
  show ?thesis
    using rewind_varint
    by (simp add: telemetry_body_def with_tag_def with_varint_def slice_from_def rewind_tag
        with_bytes_def len int_of_u64_def wrap64_take_bit slice_range_def)
qed

lemma rewind_radio: "radio_body rewind_payload 0 m = Some Panic"
proof -
  have len: "length rewind_payload = 11" by (simp add: rewind_payload_def)
  show ?thesis
    using rewind_varint
    by (simp add: radio_body_def with_tag_def with_varint_def slice_from_def rewind_tag
        with_bytes_def len int_of_u64_def wrap64_take_bit slice_range_def)
qed

lemma length_rewind [simp]: "length rewind_payload = 11"
  by (simp add: rewind_payload_def)

section \<open>Properties\<close>

text \<open>The payload decoders that run on bytes of remote nodes return on every payload in which
  no varint reaches \<open>2^62\<close>, and in particular on every payload of at most 8 bytes.\<close>

theorem payload_decoders_return:
  assumes "safe_lengths data \<or> length data \<le> 8"
  shows "(\<exists>p. decodePositionPayload data = Some (Ret p)) \<and>
         (\<exists>t. decodeTelemetryPayload data = Some (Ret t))"
proof -
  have safe: "safe_lengths data" using assms short_payload_safe by blast
  then show ?thesis
    using payload_returns(1) telemetry.returns unfolding decodeTelemetryPayload_def by blast
qed

text \<open>The 11-byte position payload \<open>12 F5 FF FF FF FF FF FF FF FF 01\<close> makes
  \<open>decodePositionPayload\<close> loop forever: \<open>skipField\<close> adds the length \<open>2^64 - 11\<close> to the position
  as \<open>-11\<close> and returns to the start of the same field.\<close>

theorem decodePositionPayload_hangs: "decodePositionPayload rewind_payload = None"
  unfolding decodePositionPayload_def
  by (rule for_pos_trapped [where trap = "\<lambda>pos m. pos = 0"]) (simp_all add: rewind_position)

text \<open>The same bytes as a telemetry payload, and as a frame from the radio, crash the process:
  the check \<open>pos+int(length) > len(data)\<close> passes because \<open>int(length)\<close> is negative, and the slice
  expression after it panics.\<close>

theorem negative_length_panics:
  "decodeTelemetryPayload rewind_payload = Some Panics \<and> DecodeFromRadio rewind_payload = Some Panics"
proof -
  have "rewind_payload \<noteq> []" by (simp add: rewind_payload_def)
  then show ?thesis
    by (simp add: decodeTelemetryPayload_def DecodeFromRadio_def for_pos_panic rewind_telemetry rewind_radio)
qed

end
