(* ===== verification/SensorText.thy ===== *)
theory SensorText
  imports GoStrings
begin

text \<open>
  How the dispatcher of \<open>internal/meshtastic/dispatcher.go\<close> reads the text of a mesh
  message: \<open>extractSensorShortID\<close>, \<open>isAHSensorOutput\<close> and \<open>isGateSensorData\<close>, with the
  regular expressions they use. Texts are byte strings; a non-ASCII rune is
  its UTF-8 bytes.
\<close>

section \<open>Sensor ids\<close>

definition is_upper_alnum :: "char \<Rightarrow> bool" where
  "is_upper_alnum c \<longleftrightarrow> (let n = of_char c :: nat in 65 \<le> n \<and> n \<le> 90 \<or> 48 \<le> n \<and> n \<le> 57)"

definition sensorShortIDReservedKeywords :: "string list" where
  "sensorShortIDReservedKeywords =
     [''ALL'', ''STATUS'', ''DRONE'', ''SCAN'', ''TARGET'', ''DEVICE'', ''ATTACK'', ''GPS'', ''CAM'',
      ''TAMPER'', ''SETUP'', ''ERASE'', ''RTC'', ''CONFIG'', ''STOP'', ''REBOOT'', ''HB'', ''BASE'',
      ''RANDOM'', ''DEAUTH'', ''TRI'', ''BATT'', ''VIBR'', ''ANOM'', ''STARTUP'', ''NODE'']"

text \<open>
  \<open>^([A-Z0-9]{2,5}):\s\<close>: the run of class characters must be the whole group, because a
  colon is not in the class; \<open>\s\<close> is one of tab, newline, form feed, return and space.
\<close>

definition sensorShortIDRe :: "string \<Rightarrow> string option" where
  "sensorShortIDRe s =
     (let run = takeWhile is_upper_alnum s; rest = dropWhile is_upper_alnum s in
      if 2 \<le> length run \<and> length run \<le> 5 \<and>
         (case rest of c # w # _ \<Rightarrow> c = CHR '':'' \<and> of_char w \<in> {9, 10, 12, 13, 32 :: nat} | _ \<Rightarrow> False)
      then Some run else None)"

definition extractSensorShortID :: "string \<Rightarrow> string" where
  "extractSensorShortID payload =
     (case sensorShortIDRe (trim_blanks payload) of
        None \<Rightarrow> []
      | Some m \<Rightarrow> if m \<in> set sensorShortIDReservedKeywords then [] else m)"

section \<open>Sensor output\<close>

definition ah_keywords :: "string list" where
  "ah_keywords =
     [''STATUS:'', ''DRONE:'', ''TARGET:'', ''DEVICE:'', ''ATTACK:'', ''ANOMALY-'', ''VIBRATION:'',
      ''BASELINE_STATUS:'', ''TRIANGULATE_'', ''CAM:'', ''CAM_FACE:'', ''CAM_PLATE:'', ''HEARTBEAT:'',
      ''NODE_HB'', ''STARTUP:'', ''TAMPER_'', ''_ACK:'', ''_ACK '', ''ANTIHUNTER'', ''T_D:'', ''T_F:'',
      ''T_C:'', ''_DONE:'', ''ERASE_'', ''IDENTITY:'', ''SETUP_MODE:'', ''BATTERY_SAVER'', ''RTC_SYNC:'']"

definition isAHSensorOutput :: "string \<Rightarrow> bool" where
  "isAHSensorOutput text =
     (let upper = ToUpper text in
      if has_prefix ''@'' (trim_blanks upper) then False
      else list_ex (\<lambda>k. contains k upper) ah_keywords \<or>
           (contains ''TEMP:'' upper \<and> contains ''GPS:'' upper))"

section \<open>Self-declared sensor types\<close>

definition knownSensorTypes :: "string list" where
  "knownSensorTypes = [''GATESENSOR'', ''GATE'', ''DOOR'', ''WINDOW'', ''MOTION'']"

definition is_word_char :: "char \<Rightarrow> bool" where
  "is_word_char c \<longleftrightarrow> (let n = of_char c :: nat in
     65 \<le> n \<and> n \<le> 90 \<or> 97 \<le> n \<and> n \<le> 122 \<or> 48 \<le> n \<and> n \<le> 57 \<or> n = 95)"

text \<open>
  One character of the class \<open>[A-Za-z0-9_]\<close> of \<open>sensorTypeFieldRe\<close>; the flag \<open>(?i)\<close> also
  admits the runes that fold to \<open>s\<close> and \<open>k\<close>, U+017F and U+212A.
\<close>

fun class_item :: "string \<Rightarrow> (string \<times> string) option" where
  "class_item [] = None"
| "class_item (c # cs) =
     (if is_word_char c then Some ([c], cs)
      else if take 2 (c # cs) = map char_of [0xC5, 0xBF :: nat] then Some (take 2 (c # cs), drop 2 (c # cs))
      else if take 3 (c # cs) = map char_of [0xE2, 0x84, 0xAA :: nat] then Some (take 3 (c # cs), drop 3 (c # cs))
      else None)"

lemma class_item_shorter: "class_item s = Some (i, r) \<Longrightarrow> length r < length s"
  by (cases s) (auto split: if_splits)

function class_run :: "string \<Rightarrow> string list" where
  "class_run s = (case class_item s of None \<Rightarrow> [] | Some (i, r) \<Rightarrow> i # class_run r)"
  by pat_completeness auto
termination by (relation "measure length") (auto dest: class_item_shorter)

declare class_run.simps [simp del]

text \<open>
  The group \<open>([A-Za-z][A-Za-z0-9_]+)\b\<close> at the start of \<open>s\<close>: the longest prefix of the run,
  of at least two characters, that ends at an ASCII word boundary.
\<close>

definition type_group :: "string \<Rightarrow> string option" where
  "type_group s =
     (let run = class_run s; rest = drop (length (concat run)) s;
          boundary = (\<lambda>k. (length (run ! (k - 1)) = 1) \<noteq>
            (case concat (drop k run) @ rest of [] \<Rightarrow> False | c # _ \<Rightarrow> is_word_char c));
          starts = (case run of [] \<Rightarrow> False | i # _ \<Rightarrow> (let n = of_char (hd i) :: nat in \<not> (n = 95 \<or> 48 \<le> n \<and> n \<le> 57)))
      in if starts then map_option (\<lambda>k. concat (take k run)) (find boundary (rev [2..<Suc (length run)]))
         else None)"

text \<open>\<open>(?i)\bType:(...)\<close>, leftmost match; \<open>after_word\<close> is whether the byte before is a word character.\<close>

fun sensorTypeFieldRe :: "bool \<Rightarrow> string \<Rightarrow> string option" where
  "sensorTypeFieldRe after_word [] = None"
| "sensorTypeFieldRe after_word (c # cs) =
     (let here = (if \<not> after_word \<and> map lower_char (take 5 (c # cs)) = ''type:''
                  then type_group (drop 5 (c # cs)) else None)
      in (case here of Some m \<Rightarrow> Some m | None \<Rightarrow> sensorTypeFieldRe (is_word_char c) cs))"

definition isGateSensorData :: "string \<Rightarrow> bool" where
  "isGateSensorData text =
     (if \<not> contains ''STATUS:'' (ToUpper text) then False
      else (case sensorTypeFieldRe False text of
              None \<Rightarrow> False
            | Some m \<Rightarrow> ToUpper m \<in> set knownSensorTypes))"

section \<open>Operator commands\<close>

lemma trim_blanks_command:
  assumes "set blanks \<subseteq> {CHR '' '', CHR 0x09}"
  shows "trim_blanks (blanks @ CHR ''@'' # s) = CHR ''@'' # s"
    "trim_blanks (ToUpper (blanks @ CHR ''@'' # s)) = CHR ''@'' # ToUpper s"
proof -
  show "trim_blanks (blanks @ CHR ''@'' # s) = CHR ''@'' # s"
    using assms by (induction blanks) (auto simp: trim_blanks_def)
  have "ToUpper (blanks @ CHR ''@'' # s) = blanks @ CHR ''@'' # ToUpper s"
    using assms by (induction blanks) (auto simp: ToUpper_plain upper_char_def)
  moreover have "trim_blanks (blanks @ CHR ''@'' # ToUpper s) = CHR ''@'' # ToUpper s"
    using assms by (induction blanks) (auto simp: trim_blanks_def)
  ultimately show "trim_blanks (ToUpper (blanks @ CHR ''@'' # s)) = CHR ''@'' # ToUpper s" by simp
qed

lemma command_is_not_output:
  assumes "set blanks \<subseteq> {CHR '' '', CHR 0x09}"
  shows "\<not> isAHSensorOutput (blanks @ CHR ''@'' # s)" "extractSensorShortID (blanks @ CHR ''@'' # s) = []"
  using trim_blanks_command [OF assms]
  by (simp_all add: isAHSensorOutput_def has_prefix_def Let_def extractSensorShortID_def sensorShortIDRe_def
      is_upper_alnum_def)

section \<open>Sensor ids are well formed\<close>

lemma extractSensorShortID_wf:
  "extractSensorShortID s = [] \<or>
   (2 \<le> length (extractSensorShortID s) \<and> length (extractSensorShortID s) \<le> 5 \<and>
    list_all is_upper_alnum (extractSensorShortID s) \<and>
    extractSensorShortID s \<notin> set sensorShortIDReservedKeywords)"
  unfolding extractSensorShortID_def sensorShortIDRe_def Let_def
  by (auto simp: list_all_iff split: option.splits if_splits dest: set_takeWhileD)

end
