(* ===== verification/Dispatcher.thy ===== *)
theory Dispatcher
  imports Payloads SensorText Tracker "HOL-Library.AList"
begin

text \<open>
  The packet dispatcher of \<open>internal/meshtastic/dispatcher.go\<close>: duplicate suppression,
  \<open>HandlePacket\<close> and \<open>handleMeshPacket\<close>. The handlers behind its interfaces are other
  components; a call to one of them is an \<open>effect\<close>, and the model returns the calls in the
  order the code makes them, next to the dispatcher's new state. Which handlers are wired
  (not \<open>nil\<close>) is part of the state. Times are nanoseconds, the clock reading is an argument,
  and \<open>longName\<close> is what \<open>NodeHandler.GetLongName\<close> answers at that moment.
\<close>

section \<open>State and calls\<close>

record Dispatcher =
  nodeHandler :: bool
  droneHandler :: bool
  chatHandler :: bool
  statusRequestHandler :: bool
  adminReplyHandler :: bool
  strandedHook :: bool
  onDeviceTime :: bool
  onAlertEval :: bool
  onWebhookFire :: bool
  serialMgr :: bool
  dedup :: "(u64 \<times> int) list"
  localNodeSeen :: bool
  localNodeNum :: u32
  pendingFirmware :: string
  metricsReqCh :: "DeviceMetrics list option"

text \<open>\<open>metricsReqCh\<close> is \<open>None\<close> for a nil channel, otherwise the content of its one-slot buffer.\<close>

datatype effect =
    TouchNode u32 float32 "32 word"
  | ClassifyNode u32 string
  | MarkLocal u32
  | SetFirmwareVersion u32 string
  | SetLastMessage u32 string
  | SetSensorShortID u32 string
  | HandleNodeInfo NodeInfoLite
  | HandleTelemetry u32 DeviceMetrics
  | HandleEnvironment u32 EnvironmentMetrics
  | HandlePosition u32 PositionData
  | HandleTextMessage u32 u32 u32 string
  | HandleStatusRequest u32 u32 u32 string
  | HandleDroneDetection u32 "byte list"
  | ToRoutingAck u32 u32 "byte list"
  | ToAdminReply u32 u32 "byte list"
  | ObserveInboundPacket u32 byte u32
  | DeviceTimeNow
  | DeviceTimeUnix u32
  | AlertEval string
  | WebhookText u32 u32 u32 string
  | WebhookPosition u32 "32 word" "32 word" "32 word" u32
  | WebhookDrone u32 nat
  | ProcessMeshText u32 u32 u32 string
  | StoreConfig ConfigPayload

definition only_if :: "bool \<Rightarrow> effect list \<Rightarrow> effect list" where
  "only_if b es = (if b then es else [])"

definition NewDispatcher :: Dispatcher where
  "NewDispatcher = \<lparr>nodeHandler = False, droneHandler = False, chatHandler = False,
     statusRequestHandler = False, adminReplyHandler = False, strandedHook = False, onDeviceTime = False,
     onAlertEval = False, onWebhookFire = False, serialMgr = False, dedup = [], localNodeSeen = False,
     localNodeNum = 0, pendingFirmware = [], metricsReqCh = None\<rparr>"

section \<open>Duplicate suppression\<close>

definition dedup_window :: int where "dedup_window = 15 * 10 ^ 9"

definition dedup_key :: "MeshPacketData \<Rightarrow> u64" where
  "dedup_key mp = push_bit 32 (ucast (From mp)) OR ucast (PacketID mp)"

text \<open>The table alone: the verdict and the new table.\<close>

definition dedup_check :: "(u64 \<times> int) list \<Rightarrow> int \<Rightarrow> u64 \<Rightarrow> bool \<times> (u64 \<times> int) list" where
  "dedup_check tab now key =
     (if (case map_of tab key of None \<Rightarrow> False | Some seen \<Rightarrow> now - seen < dedup_window)
      then (True, tab)
      else
        (let tab' = AList.update key now tab in
         if length tab' > 512
         then (let cutoff = now - dedup_window in (False, filter (\<lambda>(k, t). \<not> t < cutoff) tab'))
         else (False, tab')))"

definition isDuplicate :: "Dispatcher \<Rightarrow> int \<Rightarrow> MeshPacketData \<Rightarrow> bool \<times> Dispatcher" where
  "isDuplicate d now mp =
     (let (dup, tab) = dedup_check (dedup d) now (dedup_key mp) in (dup, d\<lparr>dedup := tab\<rparr>))"

section \<open>Mesh packets\<close>

definition mesh_PortNumTextMessage :: u32 where "mesh_PortNumTextMessage = 1"
definition mesh_PortNumPosition :: u32 where "mesh_PortNumPosition = 3"
definition mesh_PortNumRouting :: u32 where "mesh_PortNumRouting = 5"
definition mesh_PortNumAdmin :: u32 where "mesh_PortNumAdmin = 6"
definition mesh_PortNumDetectionSensor :: u32 where "mesh_PortNumDetectionSensor = 10"
definition mesh_PortNumTelemetry :: u32 where "mesh_PortNumTelemetry = 67"

text \<open>\<open>deliverMetricsResponse\<close>: a non-blocking send into the one-slot channel.\<close>

definition deliverMetricsResponse :: "Dispatcher \<Rightarrow> DeviceMetrics \<Rightarrow> Dispatcher" where
  "deliverMetricsResponse d dm =
     (case metricsReqCh d of
        None \<Rightarrow> d
      | Some slot \<Rightarrow> if slot = [] then d\<lparr>metricsReqCh := Some [dm]\<rparr> else d)"

text \<open>The classification of the sender from the text it sent.\<close>

definition text_class :: "string \<Rightarrow> string \<Rightarrow> string" where
  "text_class longName text =
     (if isGateSensorData text then ''gatesensor''
      else if extractSensorShortID text \<noteq> [] \<or> isAHSensorOutput text then ''antihunter''
      else if has_prefix ''GoTailMe'' longName then ''gotailme''
      else ''operator'')"

definition classify_effects :: "string \<Rightarrow> MeshPacketData \<Rightarrow> effect list" where
  "classify_effects longName mp =
     (if PortNum mp = mesh_PortNumTextMessage \<and> Payload mp \<noteq> []
      then [ClassifyNode (From mp) (text_class longName (string_of_bytes (Payload mp)))]
      else only_if (PortNum mp = mesh_PortNumDetectionSensor) [ClassifyNode (From mp) ''antihunter''])"

definition text_effects :: "Dispatcher \<Rightarrow> MeshPacketData \<Rightarrow> effect list" where
  "text_effects d mp =
     (let text = string_of_bytes (Payload mp); some = (Payload mp \<noteq> []) in
      only_if (chatHandler d \<and> some) [HandleTextMessage (From mp) (To mp) (Channel mp) text] @
      only_if (statusRequestHandler d \<and> some) [HandleStatusRequest (From mp) (To mp) (Channel mp) text] @
      only_if (onWebhookFire d \<and> some) [WebhookText (From mp) (To mp) (Channel mp) text] @
      only_if (serialMgr d \<and> some)
        (ProcessMeshText (From mp) (To mp) (Channel mp) text #
         only_if (nodeHandler d \<and> isAHSensorOutput text)
           (SetLastMessage (From mp) text #
            only_if (extractSensorShortID text \<noteq> []) [SetSensorShortID (From mp) (extractSensorShortID text)])))"

definition position_effects :: "Dispatcher \<Rightarrow> MeshPacketData \<Rightarrow> PositionData \<Rightarrow> effect list" where
  "position_effects d mp pos =
     HandlePosition (From mp) pos #
     only_if (PosTime pos > 0 \<and> onDeviceTime d) [DeviceTimeUnix (PosTime pos)] @
     only_if (onWebhookFire d)
       [WebhookPosition (From mp) (LatitudeI pos) (LongitudeI pos) (Altitude pos) (PosTime pos)]"

definition telemetry_effects :: "Dispatcher \<Rightarrow> MeshPacketData \<Rightarrow> telemetry \<Rightarrow> effect list" where
  "telemetry_effects d mp t =
     (case fst t of Some dm \<Rightarrow> only_if (nodeHandler d) [HandleTelemetry (From mp) dm] | None \<Rightarrow> []) @
     (case snd t of Some em \<Rightarrow> only_if (nodeHandler d) [HandleEnvironment (From mp) em] | None \<Rightarrow> [])"

definition drone_effects :: "Dispatcher \<Rightarrow> MeshPacketData \<Rightarrow> effect list" where
  "drone_effects d mp =
     only_if (droneHandler d) [HandleDroneDetection (From mp) (Payload mp)] @
     only_if (onAlertEval d) [AlertEval (CHR ''!'' # show_08x (From mp))] @
     only_if (onWebhookFire d) [WebhookDrone (From mp) (length (Payload mp))]"

text \<open>
  The routing by port number. A decoder may panic or never return, and then so does the
  dispatcher.
\<close>

definition route_packet :: "Dispatcher \<Rightarrow> MeshPacketData \<Rightarrow> (Dispatcher \<times> effect list) outcome option" where
  "route_packet d mp =
     (let port = PortNum mp in
      if port = mesh_PortNumTextMessage then Some (Ret (d, text_effects d mp))
      else if port = mesh_PortNumPosition then
        (if nodeHandler d \<and> Payload mp \<noteq> []
         then lift_outcome (\<lambda>pos. (d, position_effects d mp pos)) (decodePositionPayload (Payload mp))
         else Some (Ret (d, [])))
      else if port = mesh_PortNumTelemetry then
        (if Payload mp \<noteq> []
         then lift_outcome (\<lambda>t.
             ((case fst t of
                 Some dm \<Rightarrow> if From mp = localNodeNum d then deliverMetricsResponse d dm else d
               | None \<Rightarrow> d), telemetry_effects d mp t)) (decodeTelemetryPayload (Payload mp))
         else Some (Ret (d, [])))
      else if port = mesh_PortNumDetectionSensor then Some (Ret (d, drone_effects d mp))
      else if port = mesh_PortNumRouting then
        Some (Ret (d, only_if (adminReplyHandler d) [ToRoutingAck (From mp) (RequestID mp) (Payload mp)]))
      else if port = mesh_PortNumAdmin then
        Some (Ret (d, only_if (adminReplyHandler d) [ToAdminReply (From mp) (RequestID mp) (Payload mp)]))
      else Some (Ret (d, [])))"

definition handleMeshPacket :: "Dispatcher \<Rightarrow> int \<Rightarrow> (u32 \<Rightarrow> string) \<Rightarrow> MeshPacketData
    \<Rightarrow> (Dispatcher \<times> effect list) outcome option" where
  "handleMeshPacket d now longName mp =
     (let (dup, d) = isDuplicate d now mp in
      if dup then Some (Ret (d, []))
      else
        (let before =
           only_if (strandedHook d \<and> From mp \<noteq> 0 \<and> From mp \<noteq> localNodeNum d)
             [ObserveInboundPacket (From mp) (ucast (Channel mp)) (PortNum mp)] @
           only_if (nodeHandler d \<and> From mp \<noteq> 0)
             (TouchNode (From mp) (RxSNR mp) (RxRSSI mp) # classify_effects (longName (From mp)) mp)
         in lift_outcome (\<lambda>(d, es). (d, before @ es)) (route_packet d mp)))"

section \<open>Packets from the radio\<close>

definition local_effects :: "Dispatcher \<Rightarrow> u32 \<Rightarrow> effect list" where
  "local_effects d n = MarkLocal n # only_if (pendingFirmware d \<noteq> []) [SetFirmwareVersion n (pendingFirmware d)]"

definition handle_MyInfo :: "Dispatcher \<Rightarrow> MyNodeInfo \<Rightarrow> Dispatcher \<times> effect list" where
  "handle_MyInfo d mi =
     (let n = MyNodeNum mi; d' = (if n \<noteq> 0 then d\<lparr>localNodeSeen := True, localNodeNum := n\<rparr> else d) in
      (d', only_if (onDeviceTime d) [DeviceTimeNow] @
           only_if (nodeHandler d \<and> n \<noteq> 0) (TouchNode n 0 0 # ClassifyNode n ''gotailme'' # local_effects d n)))"

definition handle_NodeInfo :: "Dispatcher \<Rightarrow> NodeInfoLite \<Rightarrow> Dispatcher \<times> effect list" where
  "handle_NodeInfo d ni =
     (if \<not> nodeHandler d then (d, [])
      else
        (let n = NodeNum ni in
         if \<not> localNodeSeen d \<and> n \<noteq> 0
         then (d\<lparr>localNodeSeen := True, localNodeNum := n\<rparr>, HandleNodeInfo ni # local_effects d n)
         else if n = localNodeNum d \<and> localNodeNum d \<noteq> 0
         then (d, HandleNodeInfo ni # local_effects d n)
         else (d, [HandleNodeInfo ni])))"

definition handle_Metadata :: "Dispatcher \<Rightarrow> DeviceMetadata \<Rightarrow> Dispatcher \<times> effect list" where
  "handle_Metadata d meta =
     (if FirmwareVersion meta = [] then (d, [])
      else (d\<lparr>pendingFirmware := FirmwareVersion meta\<rparr>,
            only_if (nodeHandler d \<and> localNodeSeen d \<and> localNodeNum d \<noteq> 0)
              [SetFirmwareVersion (localNodeNum d) (FirmwareVersion meta)]))"

definition HandlePacket :: "Dispatcher \<Rightarrow> int \<Rightarrow> (u32 \<Rightarrow> string) \<Rightarrow> FromRadioPacket
    \<Rightarrow> (Dispatcher \<times> effect list) outcome option" where
  "HandlePacket d now longName pkt =
     (case PktType pkt of
        FromRadioMyInfo \<Rightarrow>
          Some (Ret (case PktMyInfo pkt of None \<Rightarrow> (d, []) | Some mi \<Rightarrow> handle_MyInfo d mi))
      | FromRadioNodeInfo \<Rightarrow>
          Some (Ret (case PktNodeInfo pkt of None \<Rightarrow> (d, []) | Some ni \<Rightarrow> handle_NodeInfo d ni))
      | FromRadioMeshPacket \<Rightarrow>
          (case PktMeshPacket pkt of
             None \<Rightarrow> Some (Ret (d, []))
           | Some mp \<Rightarrow> handleMeshPacket d now longName mp)
      | FromRadioConfig \<Rightarrow>
          Some (Ret (d, case PktConfig pkt of None \<Rightarrow> [] | Some c \<Rightarrow> only_if (serialMgr d) [StoreConfig c]))
      | FromRadioMetadata \<Rightarrow>
          Some (Ret (case PktMetadata pkt of None \<Rightarrow> (d, []) | Some m \<Rightarrow> handle_Metadata d m))
      | _ \<Rightarrow> Some (Ret (d, [])))"

text \<open>A run over packets with their arrival times.\<close>

fun HandlePackets :: "Dispatcher \<Rightarrow> (u32 \<Rightarrow> string) \<Rightarrow> (int \<times> FromRadioPacket) list
    \<Rightarrow> (Dispatcher \<times> effect list) outcome option" where
  "HandlePackets d longName [] = Some (Ret (d, []))"
| "HandlePackets d longName ((now, pkt) # pkts) =
     (case HandlePacket d now longName pkt of
        Some (Ret (d', es)) \<Rightarrow>
          lift_outcome (\<lambda>(d'', es'). (d'', es @ es')) (HandlePackets d' longName pkts)
      | Some Panics \<Rightarrow> Some Panics
      | None \<Rightarrow> None)"

section \<open>Calls into the admin tracker\<close>

text \<open>The effects that reach the \<open>AdminReplyHandler\<close>, applied to it in order.\<close>

fun apply_replies :: "('s \<Rightarrow> u32 \<Rightarrow> u32 \<Rightarrow> byte list \<Rightarrow> 's) \<Rightarrow> ('s \<Rightarrow> u32 \<Rightarrow> u32 \<Rightarrow> byte list \<Rightarrow> 's)
    \<Rightarrow> 's \<Rightarrow> effect list \<Rightarrow> 's" where
  "apply_replies ack admin s [] = s"
| "apply_replies ack admin s (e # es) =
     (case e of
        ToRoutingAck frm requestID payload \<Rightarrow> apply_replies ack admin (ack s frm requestID payload) es
      | ToAdminReply frm requestID payload \<Rightarrow> apply_replies ack admin (admin s frm requestID payload) es
      | _ \<Rightarrow> apply_replies ack admin s es)"

text \<open>The table is a map: no key occurs twice.\<close>

definition dedup_wf :: "(u64 \<times> int) list \<Rightarrow> bool" where
  "dedup_wf tab \<longleftrightarrow> distinct (map fst tab)"

section \<open>The duplicate table\<close>

lemma map_of_filter_keep:
  "distinct (map fst xs) \<Longrightarrow> map_of xs k = Some v \<Longrightarrow> P (k, v) \<Longrightarrow> map_of (filter P xs) k = Some v"
  by (auto simp: map_of_eq_Some_iff distinct_map_filter)

lemma update_nonkey: "k \<notin> fst ` set al \<Longrightarrow> AList.update k v al = al @ [(k, v)]"
  by (induction al) auto

lemma dedup_wf_check: "dedup_wf tab \<Longrightarrow> dedup_wf (snd (dedup_check tab now key))"
  by (auto simp: dedup_wf_def dedup_check_def Let_def distinct_map_filter distinct_update split: option.splits)

lemma dedup_fresh:
  assumes "dedup_wf tab" "\<not> fst (dedup_check tab now key)"
  shows "map_of (snd (dedup_check tab now key)) key = Some now"
proof -
  have "distinct (map fst (AList.update key now tab))" using assms(1) by (simp add: dedup_wf_def distinct_update)
  then show ?thesis
    using assms(2) by (auto simp: dedup_check_def Let_def update_conv' dedup_window_def
        intro!: map_of_filter_keep split: option.splits if_splits)
qed

text \<open>A sighting is kept as long as it is needed.\<close>

lemma dedup_keeps:
  assumes "dedup_wf tab" "map_of tab key = Some t" "now \<le> t + dedup_window" "key' = key \<longrightarrow> now < t + dedup_window"
  shows "map_of (snd (dedup_check tab now key')) key = Some t"
proof (cases "key' = key")
  case True
  with assms show ?thesis by (simp add: dedup_check_def)
next
  case False
  have "distinct (map fst (AList.update key' now tab))" using assms(1) by (simp add: dedup_wf_def distinct_update)
  moreover have "map_of (AList.update key' now tab) key = Some t"
    using False assms(2) by (simp add: update_conv')
  ultimately show ?thesis
    using assms(2,3) by (auto simp: dedup_check_def Let_def intro!: map_of_filter_keep split: option.splits)
qed

lemma dedup_key_inj: "dedup_key mp = dedup_key mp' \<longleftrightarrow> From mp = From mp' \<and> PacketID mp = PacketID mp'"
proof
  have hi: "(ucast (drop_bit 32 (push_bit 32 (ucast a :: u64) OR ucast b)) :: u32) = a" for a b :: u32
    by (rule bit_word_eqI) (auto simp: bit_drop_bit_eq bit_or_iff bit_push_bit_iff bit_unsigned_iff dest: bit_imp_le_length)
  have lo: "(ucast (push_bit 32 (ucast a :: u64) OR ucast b) :: u32) = b" for a b :: u32
    by (rule bit_word_eqI) (auto simp: bit_or_iff bit_push_bit_iff bit_unsigned_iff)
  assume "dedup_key mp = dedup_key mp'"
  then show "From mp = From mp' \<and> PacketID mp = PacketID mp'"
    unfolding dedup_key_def using hi lo by metis
qed (simp add: dedup_key_def)

lemma dedup_recent: "\<not> fst (dedup_check tab now key) \<Longrightarrow> length (snd (dedup_check tab now key)) \<le> 512 \<or>
   list_all (\<lambda>(k, t). now - dedup_window \<le> t) (snd (dedup_check tab now key))"
  by (auto simp: dedup_check_def Let_def list_all_iff split: option.splits if_splits)

section \<open>What a packet does to the state\<close>

lemma isDuplicate_state: "snd (isDuplicate d now mp) = d\<lparr>dedup := snd (dedup_check (dedup d) now (dedup_key mp))\<rparr>"
  "fst (isDuplicate d now mp) = fst (dedup_check (dedup d) now (dedup_key mp))"
  by (simp_all add: isDuplicate_def split: prod.splits)

lemma deliverMetrics_state [simp]:
  "dedup (deliverMetricsResponse d dm) = dedup d" "localNodeNum (deliverMetricsResponse d dm) = localNodeNum d"
  "localNodeSeen (deliverMetricsResponse d dm) = localNodeSeen d"
  by (simp_all add: deliverMetricsResponse_def split: option.splits)

lemma lift_outcome_Ret: "lift_outcome f r = Some (Ret b) \<longleftrightarrow> (\<exists>a. r = Some (Ret a) \<and> b = f a)"
  by (auto simp: lift_outcome_def split: option.splits outcome.splits)

lemma route_packet_state:
  "route_packet d mp = Some (Ret (d', es)) \<Longrightarrow>
   dedup d' = dedup d \<and> localNodeNum d' = localNodeNum d \<and> localNodeSeen d' = localNodeSeen d"
  unfolding route_packet_def Let_def
  by (auto simp: lift_outcome_Ret split: if_splits option.splits)

lemma handleMeshPacket_state:
  assumes "handleMeshPacket d now ln mp = Some (Ret (d', es))"
  shows "dedup d' = snd (dedup_check (dedup d) now (dedup_key mp)) \<and>
    localNodeNum d' = localNodeNum d \<and> localNodeSeen d' = localNodeSeen d"
  using assms unfolding handleMeshPacket_def
  by (auto simp: Let_def case_prod_unfold isDuplicate_state lift_outcome_Ret dest!: route_packet_state split: if_splits)

lemma HandlePacket_dedup:
  assumes "HandlePacket d now ln pkt = Some (Ret (d', es))"
  shows "dedup d' = dedup d \<or> (\<exists>key. dedup d' = snd (dedup_check (dedup d) now key))"
  using assms unfolding HandlePacket_def
  by (auto simp: handle_MyInfo_def handle_NodeInfo_def handle_Metadata_def Let_def
      dest!: handleMeshPacket_state split: FromRadioType.splits option.splits if_splits)

lemma HandlePacket_local:
  assumes "HandlePacket d now ln pkt = Some (Ret (d', es))" "localNodeSeen d"
  shows "localNodeSeen d' \<and> (localNodeNum d' = localNodeNum d \<or>
    (\<exists>mi. PktType pkt = FromRadioMyInfo \<and> PktMyInfo pkt = Some mi \<and> MyNodeNum mi \<noteq> 0 \<and> localNodeNum d' = MyNodeNum mi))"
  using assms unfolding HandlePacket_def
  by (auto simp: handle_MyInfo_def handle_NodeInfo_def handle_Metadata_def Let_def
      dest!: handleMeshPacket_state split: FromRadioType.splits option.splits if_splits)

section \<open>Runs\<close>

lemma HandlePackets_Cons:
  "HandlePackets d ln ((now, pkt) # pkts) = Some (Ret (d'', es)) \<longleftrightarrow>
   (\<exists>d' es1 es2. HandlePacket d now ln pkt = Some (Ret (d', es1)) \<and>
      HandlePackets d' ln pkts = Some (Ret (d'', es2)) \<and> es = es1 @ es2)"
  by (auto simp: lift_outcome_Ret split: option.splits outcome.splits)

declare HandlePackets.simps(2) [simp del]

lemma HandlePackets_sighting:
  assumes "dedup_wf (dedup d)" "map_of (dedup d) key = Some t" "list_all (\<lambda>(s, _). s < t + dedup_window) pkts"
    "HandlePackets d ln pkts = Some (Ret (d', es))"
  shows "map_of (dedup d') key = Some t"
  using assms
proof (induction pkts arbitrary: d es)
  case (Cons p pkts)
  obtain s pkt where p: "p = (s, pkt)" by fastforce
  obtain d1 es1 es2 where first: "HandlePacket d s ln pkt = Some (Ret (d1, es1))"
    and rest: "HandlePackets d1 ln pkts = Some (Ret (d', es2))"
    using Cons.prems(4) unfolding p HandlePackets_Cons by blast
  have "s < t + dedup_window" using Cons.prems(3) p by simp
  then have keep: "map_of (snd (dedup_check (dedup d) s k)) key = Some t" for k
    using Cons.prems(1,2) by (intro dedup_keeps) simp_all
  from HandlePacket_dedup [OF first] have "dedup_wf (dedup d1)" "map_of (dedup d1) key = Some t"
    using keep Cons.prems(1,2) dedup_wf_check by (force)+
  then show ?case using Cons.IH [OF _ _ _ rest] Cons.prems(3) by simp
qed simp

lemma route_packet_replies:
  assumes "route_packet d mp = Some (Ret (d', es))" "ToRoutingAck f r p \<in> set es \<or> ToAdminReply f r p \<in> set es"
  shows "PortNum mp \<in> {mesh_PortNumRouting, mesh_PortNumAdmin} \<and> From mp = f \<and> RequestID mp = r \<and> Payload mp = p"
  using assms unfolding route_packet_def Let_def
  by (auto simp: lift_outcome_Ret text_effects_def Let_def position_effects_def telemetry_effects_def
      drone_effects_def only_if_def split: if_splits option.splits)

lemma handleMeshPacket_replies:
  assumes "handleMeshPacket d now ln mp = Some (Ret (d', es))" "ToRoutingAck f r p \<in> set es \<or> ToAdminReply f r p \<in> set es"
  shows "PortNum mp \<in> {mesh_PortNumRouting, mesh_PortNumAdmin} \<and> From mp = f \<and> RequestID mp = r \<and> Payload mp = p"
proof -
  obtain dup d1 where "isDuplicate d now mp = (dup, d1)" by fastforce
  with assms show ?thesis
    by (cases dup) (auto simp: handleMeshPacket_def Let_def lift_outcome_Ret only_if_def classify_effects_def
        dest!: route_packet_replies split: if_splits)
qed

lemma HandlePacket_replies:
  assumes "HandlePacket d now ln pkt = Some (Ret (d', es))" "ToRoutingAck f r p \<in> set es \<or> ToAdminReply f r p \<in> set es"
  shows "\<exists>mp. PktMeshPacket pkt = Some mp \<and> PortNum mp \<in> {mesh_PortNumRouting, mesh_PortNumAdmin} \<and>
    From mp = f \<and> RequestID mp = r \<and> Payload mp = p"
proof (cases "PktType pkt = FromRadioMeshPacket")
  case True
  with assms handleMeshPacket_replies show ?thesis by (auto simp: HandlePacket_def split: option.splits)
next
  case False
  with assms show ?thesis
    by (auto simp: HandlePacket_def handle_MyInfo_def handle_NodeInfo_def handle_Metadata_def local_effects_def
        only_if_def Let_def split: FromRadioType.splits option.splits if_splits)
qed

lemma HandlePackets_replies:
  assumes "HandlePackets d ln pkts = Some (Ret (d', es))" "ToRoutingAck f r p \<in> set es \<or> ToAdminReply f r p \<in> set es"
  shows "\<exists>now pkt mp. (now, pkt) \<in> set pkts \<and> PktMeshPacket pkt = Some mp \<and>
    PortNum mp \<in> {mesh_PortNumRouting, mesh_PortNumAdmin} \<and> From mp = f \<and> RequestID mp = r \<and> Payload mp = p"
  using assms
proof (induction pkts arbitrary: d es)
  case (Cons x pkts)
  obtain now pkt where x: "x = (now, pkt)" by fastforce
  obtain d1 es1 es2 where run: "HandlePacket d now ln pkt = Some (Ret (d1, es1))"
    "HandlePackets d1 ln pkts = Some (Ret (d', es2))" "es = es1 @ es2"
    using Cons.prems(1) unfolding x HandlePackets_Cons by blast
  then consider "ToRoutingAck f r p \<in> set es1 \<or> ToAdminReply f r p \<in> set es1"
    | "ToRoutingAck f r p \<in> set es2 \<or> ToAdminReply f r p \<in> set es2"
    using Cons.prems(2) by auto
  then show ?case
  proof cases
    case 1
    from HandlePacket_replies [OF run(1) this] show ?thesis unfolding x by auto
  next
    case 2
    from Cons.IH [OF run(2) this] show ?thesis by auto
  qed
qed simp

section \<open>Replies\<close>

context admin_reply_handler
begin

lemma replies_keep_inv: "handler_inv s \<Longrightarrow> handler_inv (apply_replies routing_ack admin_reply s es)"
  by (induction es arbitrary: s) (auto simp: ack_inv admin_inv split: effect.splits)

lemma unaddressed_replies:
  "\<forall>e \<in> set es. (\<forall>f r p. e = ToRoutingAck f r p \<or> e = ToAdminReply f r p \<longrightarrow> r = 0) \<Longrightarrow>
   apply_replies routing_ack admin_reply s es = s"
  by (induction es arbitrary: s) (auto simp: ack_unaddressed admin_unaddressed split: effect.splits)

end

interpretation tracker_run: admin_reply_handler "HandleRoutingAck um er" "HandleAdminReply ua" "tracker_reachable um er ua"
  for um :: "byte list \<Rightarrow> 'e + 'r" and er and ua :: "byte list \<Rightarrow> 'e + 'a"
  by unfold_locales
    (erule reachable_step [OF _ step_ack], erule reachable_step [OF _ step_admin],
     simp_all add: HandleRoutingAck_def HandleAdminReply_def)

section \<open>Packets that are handled\<close>

lemma route_packet_returns:
  "safe_lengths (Payload mp) \<Longrightarrow> \<exists>d' es. route_packet d mp = Some (Ret (d', es))"
proof -
  assume safe: "safe_lengths (Payload mp)"
  then obtain pos where "decodePositionPayload (Payload mp) = Some (Ret pos)" using payload_returns(1) by blast
  moreover obtain t where "decodeTelemetryPayload (Payload mp) = Some (Ret t)"
    using telemetry.returns [OF safe] unfolding decodeTelemetryPayload_def by blast
  ultimately show ?thesis by (auto simp: route_packet_def Let_def)
qed

lemma handleMeshPacket_fresh:
  assumes "\<not> fst (isDuplicate d now mp)" "nodeHandler d" "PortNum mp = mesh_PortNumPosition" "Payload mp \<noteq> []"
    "decodePositionPayload (Payload mp) = None"
  shows "handleMeshPacket d now ln mp = None"
proof -
  obtain d' where d': "isDuplicate d now mp = (False, d')" "nodeHandler d'"
    using assms(1,2) isDuplicate_state(1) [of d now mp] by (cases "isDuplicate d now mp") auto
  moreover have "route_packet d' mp = None"
    using assms d'(2) by (simp add: route_packet_def mesh_PortNumPosition_def mesh_PortNumTextMessage_def)
  ultimately show ?thesis by (simp add: handleMeshPacket_def Let_def)
qed

section \<open>Properties\<close>

text \<open>C20: The mesh rebroadcasts packets; a packet with the sender and packet id of one that was
  accepted less than 15 seconds ago is dropped without any effect, whatever other packets
  were handled in between and however full the table got.\<close>

theorem duplicate_is_dropped:
  assumes "dedup_wf (dedup d)"
    and "\<not> fst (isDuplicate d now mp)" "handleMeshPacket d now ln mp = Some (Ret (d1, es1))"
    and "HandlePackets d1 ln between = Some (Ret (d2, es2))" "list_all (\<lambda>(s, _). s < now + dedup_window) between"
    and "now' < now + dedup_window" "From mp' = From mp" "PacketID mp' = PacketID mp"
  shows "handleMeshPacket d2 now' ln' mp' = Some (Ret (d2, []))"
proof -
  have "dedup d1 = snd (dedup_check (dedup d) now (dedup_key mp))" using handleMeshPacket_state [OF assms(3)] by simp
  then have "dedup_wf (dedup d1)" "map_of (dedup d1) (dedup_key mp) = Some now"
    using assms(1,2) dedup_fresh dedup_wf_check by (simp_all add: isDuplicate_state)
  then have "map_of (dedup d2) (dedup_key mp') = Some now"
    using HandlePackets_sighting [OF _ _ assms(5,4)] assms(7,8) dedup_key_inj [of mp' mp] by simp
  with assms(6) have "dedup_check (dedup d2) now' (dedup_key mp') = (True, dedup d2)"
    by (simp add: dedup_check_def)
  then show ?thesis by (simp add: handleMeshPacket_def isDuplicate_def)
qed

theorem duplicate_is_dropped_witness:
  "handleMeshPacket (NewDispatcher\<lparr>dedup := [(dedup_key (MeshPacketData0\<lparr>From := 7, PacketID := 9\<rparr>), 0)]\<rparr>) 5 (\<lambda>_. [])
     (MeshPacketData0\<lparr>From := 7, PacketID := 9, RxRSSI := 1\<rparr>)
   = Some (Ret (NewDispatcher\<lparr>dedup := [(dedup_key (MeshPacketData0\<lparr>From := 7, PacketID := 9\<rparr>), 0)]\<rparr>, []))"
proof -
  let ?mp = "MeshPacketData0\<lparr>From := 7, PacketID := 9\<rparr>"
  have dup: "isDuplicate NewDispatcher 0 ?mp = (False, NewDispatcher\<lparr>dedup := [(dedup_key ?mp, 0)]\<rparr>)"
    by (simp add: isDuplicate_def dedup_check_def NewDispatcher_def)
  show ?thesis
    by (rule duplicate_is_dropped [of NewDispatcher 0 ?mp "\<lambda>_. []" _ "[]" "[]"])
      (simp_all add: dedup_wf_def dup dedup_window_def handleMeshPacket_def route_packet_def only_if_def
        MeshPacketData0_def NewDispatcher_def mesh_PortNumTextMessage_def mesh_PortNumPosition_def
        mesh_PortNumTelemetry_def mesh_PortNumDetectionSensor_def mesh_PortNumRouting_def mesh_PortNumAdmin_def
        isDuplicate_def dedup_check_def)
qed

text \<open>Packets of different senders or with different ids are never taken for each other, and
  a packet whose sender and id are not in the table is handled.\<close>

theorem distinct_packets_are_not_duplicates:
  "(dedup_key mp = dedup_key mp' \<longleftrightarrow> From mp = From mp' \<and> PacketID mp = PacketID mp') \<and>
   (dedup_key mp \<notin> fst ` set (dedup d) \<longrightarrow> \<not> fst (isDuplicate d now mp))"
  using dedup_key_inj [of mp mp']
  by (auto simp: isDuplicate_state dedup_check_def Let_def map_of_eq_None_iff [symmetric] split: option.splits)

text \<open>After a packet is accepted the duplicate table holds at most 512 entries, or only
  entries of the last 15 seconds; but 512 is not a bound: \<open>n\<close> packets with different ids that
  arrive at the same moment leave \<open>n\<close> entries, for every \<open>n\<close> below \<open>2^64\<close>.\<close>

theorem dedup_table_size:
  "(\<not> fst (dedup_check tab now key) \<longrightarrow> length (snd (dedup_check tab now key)) \<le> 512 \<or>
      list_all (\<lambda>(k, t). now - dedup_window \<le> t) (snd (dedup_check tab now key))) \<and>
   (n \<le> 2 ^ 64 \<longrightarrow>
      length (fold (\<lambda>i tab. snd (dedup_check tab now (word_of_nat i))) [0..<n] []) = n)"
proof (rule conjI)
  show "\<not> fst (dedup_check tab now key) \<longrightarrow> length (snd (dedup_check tab now key)) \<le> 512 \<or>
      list_all (\<lambda>(k, t). now - dedup_window \<le> t) (snd (dedup_check tab now key))"
    using dedup_recent by blast
  have "n \<le> 2 ^ 64 \<longrightarrow> (let tab = fold (\<lambda>i tab. snd (dedup_check tab now (word_of_nat i))) [0..<n] []
     in tab = map (\<lambda>i. (word_of_nat i, now)) [0..<n])"
  proof (induction n)
    case (Suc n)
    let ?tab = "map (\<lambda>i. (word_of_nat i :: u64, now)) [0..<n]"
    show ?case
    proof
      assume n: "Suc n \<le> 2 ^ 64"
      have new: "(word_of_nat n :: u64) \<notin> fst ` set ?tab"
      proof
        assume "(word_of_nat n :: u64) \<in> fst ` set ?tab"
        then obtain i where i: "i < n" "(word_of_nat n :: u64) = word_of_nat i" by auto
        moreover have "unat (word_of_nat n :: u64) = n" "unat (word_of_nat i :: u64) = i"
          using n i(1) by (simp_all add: unat_of_nat)
        ultimately show False by simp
      qed
      then have "map_of ?tab (word_of_nat n) = None" by (simp add: map_of_eq_None_iff)
      moreover have "AList.update (word_of_nat n) now ?tab = ?tab @ [(word_of_nat n, now)]"
        using new by (simp add: update_nonkey)
      ultimately have "dedup_check ?tab now (word_of_nat n) = (False, ?tab @ [(word_of_nat n, now)])"
        by (auto simp: dedup_check_def Let_def dedup_window_def filter_id_conv)
      with Suc n show "let tab = fold (\<lambda>i tab. snd (dedup_check tab now (word_of_nat i))) [0..<Suc n] []
         in tab = map (\<lambda>i. (word_of_nat i, now)) [0..<Suc n]" by simp
    qed
  qed simp
  then show "n \<le> 2 ^ 64 \<longrightarrow>
      length (fold (\<lambda>i tab. snd (dedup_check tab now (word_of_nat i))) [0..<n] []) = n" by simp
qed

text \<open>Once the local node is known, only a \<open>MyInfo\<close> with a non-zero node number can change
  which node counts as the local one; no NodeInfo, metadata or mesh packet can.\<close>

theorem local_node_is_pinned:
  assumes "localNodeSeen d" "HandlePacket d now ln pkt = Some (Ret (d', es))"
    "PktType pkt = FromRadioMyInfo \<longrightarrow> PktMyInfo pkt = None"
  shows "localNodeSeen d' \<and> localNodeNum d' = localNodeNum d"
  using HandlePacket_local [OF assms(2,1)] assms(3) by auto

text \<open>An operator command, a text that starts with \<open>@\<close> after blanks, is never taken for
  sensor output: the sender is not classified as a sensor on the strength of its keywords or
  prefix, and neither its last message nor its sensor id is set.\<close>

theorem commands_are_not_sensor_output:
  assumes "set blanks \<subseteq> {CHR '' '', CHR 0x09}" "string_of_bytes (Payload mp) = blanks @ CHR ''@'' # cmd"
  shows "text_class name (string_of_bytes (Payload mp)) \<noteq> ''antihunter'' \<and>
    (\<forall>e \<in> set (text_effects d mp). \<forall>n s. e \<noteq> SetLastMessage n s \<and> e \<noteq> SetSensorShortID n s)"
  using command_is_not_output [OF assms(1), of cmd] unfolding assms(2)
  by (auto simp: text_class_def text_effects_def assms(2) Let_def only_if_def)

text \<open>Whatever packets the mesh delivers, the calls the dispatcher makes into the admin
  tracker only take it to states it can reach, so the one-reply guarantee of every transaction
  holds across the dispatcher; and only packets on the routing and admin ports that name a
  request touch it: without one of those the tracker is left as it was.\<close>

theorem dispatch_keeps_tracker:
  assumes "tracker_reachable um er ua t" "HandlePackets d ln pkts = Some (Ret (d', es))"
  shows "tracker_reachable um er ua (apply_replies (HandleRoutingAck um er) (HandleAdminReply ua) t es) \<and>
    \<not> crashed (apply_replies (HandleRoutingAck um er) (HandleAdminReply ua) t es) \<and>
    ((\<forall>now pkt mp. (now, pkt) \<in> set pkts \<and> PktMeshPacket pkt = Some mp \<and>
        PortNum mp \<in> {mesh_PortNumRouting, mesh_PortNumAdmin} \<longrightarrow> RequestID mp = 0) \<longrightarrow>
      apply_replies (HandleRoutingAck um er) (HandleAdminReply ua) t es = t)"
proof -
  have r: "tracker_reachable um er ua (apply_replies (HandleRoutingAck um er) (HandleAdminReply ua) t es)"
    using assms(1) by (rule tracker_run.replies_keep_inv)
  moreover have "apply_replies (HandleRoutingAck um er) (HandleAdminReply ua) t es = t"
    if "\<forall>now pkt mp. (now, pkt) \<in> set pkts \<and> PktMeshPacket pkt = Some mp \<and>
        PortNum mp \<in> {mesh_PortNumRouting, mesh_PortNumAdmin} \<longrightarrow> RequestID mp = 0"
    using HandlePackets_replies [OF assms(2)] that by (intro tracker_run.unaddressed_replies) metis
  ultimately show ?thesis using tracker_inv_reachable [OF r] by (simp add: tracker_inv_def)
qed

text \<open>A mesh packet whose payload has sane lengths is handled to the end: no endless loop and
  no panic, on any port and in any state of the dispatcher.\<close>

theorem safe_packets_are_handled:
  assumes "safe_lengths (Payload mp)"
  shows "\<exists>d' es. handleMeshPacket d now ln mp = Some (Ret (d', es))"
proof (cases "isDuplicate d now mp")
  case (Pair dup d1)
  with route_packet_returns [OF assms, of d1] show ?thesis
    by (cases dup) (auto simp: handleMeshPacket_def Let_def)
qed

end
