(* ===== verification/Framing.thy ===== *)
theory Framing
  imports Prelude
begin

text \<open>
  The Meshtastic serial frame \<open>[0x94][0xC3][MSB][LSB][payload]\<close>
  (\<open>internal/serial/framing.go\<close>): the byte-driven \<open>FrameDecoder\<close> and
  \<open>EncodeFrame\<close>. The decoder is a state machine over bytes; the lemmas give
  its buffer invariant, that cutting the input anywhere changes nothing, that it
  recovers every encoded payload, and what it does between frames.
\<close>

section \<open>Definitions\<close>

definition frameStart1 :: byte where "frameStart1 = 0x94"
definition frameStart2 :: byte where "frameStart2 = 0xC3"
definition maxFrameLen :: nat where "maxFrameLen = 512"

datatype frameState =
  stateWaitStart1 | stateWaitStart2 | stateWaitLenMSB | stateWaitLenLSB | stateReadPayload

record FrameDecoder =
  buf :: "byte list"
  fstate :: frameState
  payloadLen :: nat

definition NewFrameDecoder :: FrameDecoder where
  "NewFrameDecoder = \<lparr>buf = [], fstate = stateWaitStart1, payloadLen = 0\<rparr>"

text \<open>One iteration of the loop of \<open>Feed\<close>: the new decoder and the frame it completed.\<close>

definition feed_byte :: "FrameDecoder \<Rightarrow> byte \<Rightarrow> FrameDecoder \<times> byte list list" where
  "feed_byte d b =
     (case fstate d of
        stateWaitStart1 \<Rightarrow>
          (if b = frameStart1 then (d\<lparr>fstate := stateWaitStart2\<rparr>, []) else (d, []))
      | stateWaitStart2 \<Rightarrow>
          (if b = frameStart2 then (d\<lparr>fstate := stateWaitLenMSB, buf := []\<rparr>, [])
           else (d\<lparr>fstate := stateWaitStart1\<rparr>, []))
      | stateWaitLenMSB \<Rightarrow>
          (d\<lparr>payloadLen := push_bit 8 (unat b), fstate := stateWaitLenLSB\<rparr>, [])
      | stateWaitLenLSB \<Rightarrow>
          (let n = payloadLen d OR unat b in
           (d\<lparr>payloadLen := n,
              fstate := (if n > maxFrameLen \<or> n = 0 then stateWaitStart1 else stateReadPayload)\<rparr>, []))
      | stateReadPayload \<Rightarrow>
          (let bf = buf d @ [b] in
           if payloadLen d \<le> length bf
           then (d\<lparr>buf := bf, fstate := stateWaitStart1\<rparr>, [take (payloadLen d) bf])
           else (d\<lparr>buf := bf\<rparr>, [])))"

fun Feed :: "FrameDecoder \<Rightarrow> byte list \<Rightarrow> FrameDecoder \<times> byte list list" where
  "Feed d [] = (d, [])"
| "Feed d (b # bs) =
     (let (d', fs) = feed_byte d b; (d'', fs') = Feed d' bs in (d'', fs @ fs'))"

text \<open>The successive calls of \<open>Feed\<close> that \<open>readLoopBinary\<close> makes, one per read of the port.\<close>

fun Feed_all :: "FrameDecoder \<Rightarrow> byte list list \<Rightarrow> FrameDecoder \<times> byte list list list" where
  "Feed_all d [] = (d, [])"
| "Feed_all d (chunk # chunks) =
     (let (d', fs) = Feed d chunk; (d'', fss) = Feed_all d' chunks in (d'', fs # fss))"

text \<open>\<open>EncodeFrame\<close> returns \<open>nil\<close> for a payload that is too long; \<open>nil\<close> and the empty
  slice are the same byte sequence to the caller.\<close>

definition EncodeFrame :: "byte list \<Rightarrow> byte list" where
  "EncodeFrame payload =
     (if length payload > maxFrameLen then []
      else [frameStart1, frameStart2,
            ucast (drop_bit 8 (word_of_nat (length payload) :: 16 word)),
            ucast (word_of_nat (length payload) :: 16 word)] @ payload)"

text \<open>The buffer is bounded, and while a payload is read the frame is not yet complete.\<close>

definition wf_decoder :: "FrameDecoder \<Rightarrow> bool" where
  "wf_decoder d \<longleftrightarrow> length (buf d) \<le> maxFrameLen \<and>
     (fstate d = stateReadPayload \<longrightarrow>
        0 < payloadLen d \<and> payloadLen d \<le> maxFrameLen \<and> length (buf d) < payloadLen d) \<and>
     (fstate d = stateWaitLenMSB \<or> fstate d = stateWaitLenLSB \<longrightarrow> buf d = []) \<and>
     (fstate d = stateWaitLenLSB \<longrightarrow> payloadLen d mod 256 = 0 \<and> payloadLen d < 65536)"

text \<open>
  The reference reading of a whole byte stream: look for \<open>0x94 0xC3\<close>, take the
  big-endian length, and cut out that many bytes. After a \<open>0x94\<close> the following
  byte is consumed whatever it is.
\<close>

function scan_frames :: "byte list \<Rightarrow> byte list list" where
  "scan_frames bs =
     (case bs of
        [] \<Rightarrow> []
      | a # xs \<Rightarrow>
         if a \<noteq> frameStart1 then scan_frames xs
         else (case xs of
             [] \<Rightarrow> []
           | b # ys \<Rightarrow>
              if b \<noteq> frameStart2 then scan_frames ys
              else (case ys of
                  m # l # zs \<Rightarrow>
                    (let n = 256 * unat m + unat l in
                     if n = 0 \<or> n > maxFrameLen then scan_frames zs
                     else if length zs < n then []
                     else take n zs # scan_frames (drop n zs))
                | _ \<Rightarrow> [])))"
  by pat_completeness auto
termination by (relation "measure length") auto

declare scan_frames.simps [simp del]

section \<open>Feeding in pieces\<close>

lemma Feed_Cons:
  "fst (Feed d (b # bs)) = fst (Feed (fst (feed_byte d b)) bs)"
  "snd (Feed d (b # bs)) = snd (feed_byte d b) @ snd (Feed (fst (feed_byte d b)) bs)"
  by (simp_all add: Let_def split: prod.splits)

lemma Feed_append:
  "Feed d (xs @ ys) =
     (let (d', fs) = Feed d xs; (d'', fs') = Feed d' ys in (d'', fs @ fs'))"
  by (induction xs arbitrary: d) (simp_all add: Let_def split: prod.splits)

lemma Feed_all_concat:
  "fst (Feed_all d chunks) = fst (Feed d (concat chunks))"
  "concat (snd (Feed_all d chunks)) = snd (Feed d (concat chunks))"
  by (induction chunks arbitrary: d) (simp_all add: Let_def Feed_append case_prod_unfold)

section \<open>The invariant\<close>

lemma or_low_byte: "m mod 256 = 0 \<Longrightarrow> m OR unat (b :: byte) = m + unat b" for m :: nat
proof -
  assume m: "m mod 256 = 0"
  have "unat b < 2 ^ 8" using unsigned_less [of b] by simp
  then have "take_bit 8 (unat b) = unat b" by (rule take_bit_nat_eq_self)
  moreover have "take_bit 8 m = 0" using m by (simp add: take_bit_eq_mod)
  ultimately have "m AND unat b = 0"
    by (metis and.right_neutral and_zero_eq and.left_commute and.assoc take_bit_eq_mask zero_and_eq)
  then show ?thesis by (simp add: disjunctive_add_eq_or)
qed

lemma feed_byte_wf: "wf_decoder d \<Longrightarrow> wf_decoder (fst (feed_byte d b))"
proof (cases "fstate d")
  case stateWaitLenMSB
  moreover assume "wf_decoder d"
  moreover have "unat b < 256" using unsigned_less [of b] by simp
  ultimately show ?thesis
    by (simp add: feed_byte_def wf_decoder_def push_bit_eq_mult)
qed (auto simp: feed_byte_def wf_decoder_def Let_def)

lemma feed_byte_frames:
  "wf_decoder d \<Longrightarrow> f \<in> set (snd (feed_byte d b)) \<Longrightarrow> 0 < length f \<and> length f \<le> maxFrameLen"
  by (auto simp: feed_byte_def wf_decoder_def Let_def min_def split: frameState.splits if_splits)

lemma Feed_wf: "wf_decoder d \<Longrightarrow> wf_decoder (fst (Feed d bs))"
  by (induction bs arbitrary: d) (simp_all add: Feed_Cons feed_byte_wf del: Feed.simps(2))

lemma Feed_frames:
  "wf_decoder d \<Longrightarrow> f \<in> set (snd (Feed d bs)) \<Longrightarrow> 0 < length f \<and> length f \<le> maxFrameLen"
proof (induction bs arbitrary: d)
  case (Cons b bs)
  then have "f \<in> set (snd (feed_byte d b)) \<or> f \<in> set (snd (Feed (fst (feed_byte d b)) bs))"
    by (simp add: Feed_Cons del: Feed.simps(2))
  with Cons show ?case by (auto dest: feed_byte_frames feed_byte_wf)
qed simp

lemma wf_NewFrameDecoder [simp]: "wf_decoder NewFrameDecoder"
  by (simp add: wf_decoder_def NewFrameDecoder_def)

section \<open>One frame\<close>

lemma Feed_start1:
  "fstate d = stateWaitStart1 \<Longrightarrow> Feed d (frameStart1 # bs) = Feed (d\<lparr>fstate := stateWaitStart2\<rparr>) bs"
  by (simp add: feed_byte_def Let_def)

lemma Feed_skip1:
  "fstate d = stateWaitStart1 \<Longrightarrow> b \<noteq> frameStart1 \<Longrightarrow> Feed d (b # bs) = Feed d bs"
  by (simp add: feed_byte_def Let_def)

lemma Feed_start2:
  "fstate d = stateWaitStart2 \<Longrightarrow>
   Feed d (frameStart2 # bs) = Feed (d\<lparr>fstate := stateWaitLenMSB, buf := []\<rparr>) bs"
  by (simp add: feed_byte_def Let_def)

lemma Feed_skip2:
  "fstate d = stateWaitStart2 \<Longrightarrow> b \<noteq> frameStart2 \<Longrightarrow>
   Feed d (b # bs) = Feed (d\<lparr>fstate := stateWaitStart1\<rparr>) bs"
  by (simp add: feed_byte_def Let_def)

lemma Feed_length:
  assumes "fstate d = stateWaitLenMSB"
  defines "n \<equiv> \<lambda>m l. 256 * unat (m :: byte) + unat (l :: byte)"
  shows "Feed d (m # l # bs) =
     Feed (d\<lparr>payloadLen := n m l,
             fstate := (if n m l > maxFrameLen \<or> n m l = 0 then stateWaitStart1 else stateReadPayload)\<rparr>) bs"
proof -
  have "push_bit 8 (unat m) OR unat l = n m l"
    unfolding n_def by (subst or_low_byte) (simp_all add: push_bit_eq_mult)
  with assms(1) show ?thesis by (simp add: feed_byte_def Let_def)
qed

lemma Feed_payload_short:
  "fstate d = stateReadPayload \<Longrightarrow> length (buf d) + length zs < payloadLen d \<Longrightarrow>
   Feed d zs = (d\<lparr>buf := buf d @ zs\<rparr>, [])"
  by (induction zs arbitrary: d) (simp_all add: feed_byte_def Let_def)

lemma Feed_payload:
  "fstate d = stateReadPayload \<Longrightarrow> length (buf d) < payloadLen d \<Longrightarrow>
   length (buf d) + length zs = payloadLen d \<Longrightarrow>
   Feed d (zs @ rest) =
     (let (d', fs) = Feed (d\<lparr>buf := buf d @ zs, fstate := stateWaitStart1\<rparr>) rest
      in (d', (buf d @ zs) # fs))"
proof (induction zs arbitrary: d)
  case (Cons z zs)
  show ?case
  proof (cases "zs = []")
    case True
    with Cons.prems show ?thesis by (simp add: feed_byte_def Let_def split: prod.splits)
  next
    case False
    then have "0 < length zs" by simp
    with Cons.prems(3) have "\<not> payloadLen d \<le> length (buf d @ [z])"
      by (simp del: length_greater_0_conv)
    with Cons.prems(1) have "feed_byte d z = (d\<lparr>buf := buf d @ [z]\<rparr>, [])"
      by (simp add: feed_byte_def Let_def)
    with Cons.IH [of "d\<lparr>buf := buf d @ [z]\<rparr>"] Cons.prems \<open>0 < length zs\<close> show ?thesis
      by (simp add: Let_def split: prod.splits del: length_greater_0_conv)
  qed
qed simp

section \<open>Encoded frames\<close>

definition idle_decoder :: "FrameDecoder \<Rightarrow> bool" where
  "idle_decoder d \<longleftrightarrow> fstate d = stateWaitStart1"

lemma idle_NewFrameDecoder [simp]: "idle_decoder NewFrameDecoder"
  by (simp add: idle_decoder_def NewFrameDecoder_def)

lemma encoded_length:
  assumes "n \<le> maxFrameLen"
  shows "256 * unat (ucast (drop_bit 8 (word_of_nat n :: 16 word)) :: byte)
           + unat (ucast (word_of_nat n :: 16 word) :: byte) = n"
proof -
  let ?w = "word_of_nat n :: 16 word"
  have n: "n < 65536" using assms by (simp add: maxFrameLen_def)
  then have u: "unat ?w = n" by (simp add: unat_of_nat)
  have "unat (drop_bit 8 ?w) = n div 256" by (simp add: unat_drop_bit_div u)
  moreover have "n div 256 < 256" using n by simp
  ultimately have "unat (ucast (drop_bit 8 ?w) :: byte) = n div 256"
    by (simp add: unsigned_ucast_eq take_bit_eq_mod)
  moreover have "unat (ucast ?w :: byte) = n mod 256" by (simp add: unsigned_ucast_eq take_bit_eq_mod u)
  ultimately show ?thesis by simp
qed

lemma Feed_EncodeFrame:
  assumes "idle_decoder d" "0 < length p" "length p \<le> maxFrameLen"
  shows "Feed d (EncodeFrame p @ rest) =
    (let (d', fs) = Feed \<lparr>buf = p, fstate = stateWaitStart1, payloadLen = length p\<rparr> rest
     in (d', p # fs))"
proof -
  define r where "r = d\<lparr>buf := [], payloadLen := length p, fstate := stateReadPayload\<rparr>"
  have "Feed d (EncodeFrame p @ rest) = Feed r (p @ rest)"
    using assms unfolding r_def EncodeFrame_def idle_decoder_def
    by (simp add: Feed_start1 Feed_start2 Feed_length encoded_length del: Feed.simps(2))
  also have "\<dots> = (let (d', fs) = Feed (r\<lparr>buf := p, fstate := stateWaitStart1\<rparr>) rest in (d', p # fs))"
    using Feed_payload [of r p rest] assms by (simp add: r_def)
  also have "r\<lparr>buf := p, fstate := stateWaitStart1\<rparr>
      = \<lparr>buf = p, fstate = stateWaitStart1, payloadLen = length p\<rparr>"
    by (cases d) (simp add: r_def)
  finally show ?thesis .
qed

lemma Feed_frames_sequence:
  assumes "idle_decoder d" "\<forall>p \<in> set ps. 0 < length p \<and> length p \<le> maxFrameLen"
  shows "snd (Feed d (concat (map EncodeFrame ps))) = ps \<and>
         idle_decoder (fst (Feed d (concat (map EncodeFrame ps))))"
  using assms
proof (induction ps arbitrary: d)
  case (Cons p ps)
  let ?d = "\<lparr>buf = p, fstate = stateWaitStart1, payloadLen = length p\<rparr>"
  have "idle_decoder ?d" by (simp add: idle_decoder_def)
  with Cons show ?case by (simp add: Feed_EncodeFrame Let_def case_prod_unfold)
qed simp

section \<open>Between frames\<close>

lemma Feed_noise:
  "idle_decoder d \<Longrightarrow> frameStart1 \<notin> set bs \<Longrightarrow> Feed d (bs @ rest) = Feed d rest"
  by (induction bs) (auto simp: idle_decoder_def Feed_skip1 [OF _ not_sym] simp del: Feed.simps(2))

lemma snd_Feed_WaitLen_short:
  "fstate d = stateWaitLenMSB \<Longrightarrow> length bs \<le> 1 \<Longrightarrow> snd (Feed d bs) = []"
  by (cases bs) (simp_all add: feed_byte_def Let_def)

text \<open>The state reached when a header promises \<open>n\<close> bytes, and what follows.\<close>

lemma snd_Feed_body:
  assumes "fstate d = stateReadPayload" "buf d = []" "0 < payloadLen d"
  shows "snd (Feed d zs) =
    (if length zs < payloadLen d then []
     else take (payloadLen d) zs #
       snd (Feed (d\<lparr>buf := take (payloadLen d) zs, fstate := stateWaitStart1\<rparr>) (drop (payloadLen d) zs)))"
proof (cases "length zs < payloadLen d")
  case True
  with assms show ?thesis by (simp add: Feed_payload_short)
next
  case False
  with assms Feed_payload [of d "take (payloadLen d) zs" "drop (payloadLen d) zs"] show ?thesis
    by (simp add: Let_def split: prod.splits)
qed

lemma Feed_scan: "idle_decoder d \<Longrightarrow> snd (Feed d bs) = scan_frames bs"
proof (induction bs arbitrary: d rule: length_induct)
  case (1 bs)
  have IH: "snd (Feed e ys) = scan_frames ys" if "length ys < length bs" "fstate e = stateWaitStart1" for ys e
    using that "1.IH" by (simp add: idle_decoder_def)
  have idle: "fstate d = stateWaitStart1" using "1.prems" by (simp add: idle_decoder_def)
  consider "bs = []" | a xs where "bs = a # xs" "a \<noteq> frameStart1" | "bs = [frameStart1]"
    | b ys where "bs = frameStart1 # b # ys" "b \<noteq> frameStart2"
    | ys where "bs = frameStart1 # frameStart2 # ys" "length ys \<le> 1"
    | m l zs where "bs = frameStart1 # frameStart2 # m # l # zs"
    by (cases bs rule: remdups_adj.cases; cases "tl (tl bs)" rule: remdups_adj.cases; force)
  then show ?case
  proof cases
    case (2 a xs)
    with idle show ?thesis
      by (simp add: Feed_skip1 IH scan_frames.simps [of "a # xs"] del: Feed.simps(2))
  next
    case (4 b ys)
    with idle show ?thesis
      by (simp add: Feed_start1 Feed_skip2 IH scan_frames.simps [of "frameStart1 # b # ys"] del: Feed.simps(2))
  next
    case (5 ys)
    with idle show ?thesis
      by (auto simp add: Feed_start1 Feed_start2 snd_Feed_WaitLen_short scan_frames.simps [of "frameStart1 # frameStart2 # ys"]
          simp del: Feed.simps(2) split: list.splits)
  next
    case (6 m l zs)
    with idle show ?thesis
      by (simp add: Feed_start1 Feed_start2 Feed_length snd_Feed_body IH Let_def
          scan_frames.simps [of "frameStart1 # frameStart2 # m # l # zs"] del: Feed.simps(2))
  qed (use idle in \<open>simp_all add: scan_frames.simps [of "[]"] scan_frames.simps [of "[frameStart1]"] feed_byte_def\<close>)
qed

text \<open>
  A stray \<open>0x94\<close> before a frame: the decoder takes it for the first start byte,
  the real one for a failed second, and is idle again when \<open>0xC3\<close> arrives.
\<close>

lemma Feed_stray_start:
  assumes "idle_decoder d" "length p \<le> maxFrameLen" "frameStart1 \<notin> set (drop 2 (EncodeFrame p))"
  shows "snd (Feed d (frameStart1 # EncodeFrame p)) = []"
proof -
  have idle: "fstate d = stateWaitStart1" using assms(1) by (simp add: idle_decoder_def)
  have ne: "frameStart1 \<noteq> frameStart2" by (simp add: frameStart1_def frameStart2_def)
  have split: "EncodeFrame p = frameStart1 # frameStart2 # drop 2 (EncodeFrame p)"
    using assms(2) by (simp add: EncodeFrame_def)
  have "Feed d (frameStart1 # frameStart1 # frameStart2 # drop 2 (EncodeFrame p))
      = Feed (d\<lparr>fstate := stateWaitStart1\<rparr>) (frameStart2 # drop 2 (EncodeFrame p))"
    using idle ne by (simp add: Feed_start1 Feed_skip2 del: Feed.simps(2))
  also have "\<dots> = (d\<lparr>fstate := stateWaitStart1\<rparr>, [])"
    using Feed_noise [of "d\<lparr>fstate := stateWaitStart1\<rparr>" "frameStart2 # drop 2 (EncodeFrame p)" "[]"]
      ne assms(3) by (simp add: idle_decoder_def del: Feed.simps(2))
  finally show ?thesis by (subst split) simp
qed

section \<open>Properties\<close>

text \<open>C18: A stream of framed payloads of 1 to 512 bytes, delivered by the port in reads cut at any
  places, yields exactly those payloads in order, and leaves the decoder waiting for the next
  start byte.\<close>

theorem frame_stream_round_trip:
  assumes "concat chunks = concat (map EncodeFrame ps)"
    and "\<forall>p \<in> set ps. 0 < length p \<and> length p \<le> maxFrameLen"
  shows "concat (snd (Feed_all NewFrameDecoder chunks)) = ps \<and>
         idle_decoder (fst (Feed_all NewFrameDecoder chunks))"
  using assms Feed_frames_sequence [of NewFrameDecoder ps] by (simp add: Feed_all_concat)

theorem frame_stream_round_trip_witness:
  "concat (snd (Feed_all NewFrameDecoder [[0x94, 0xC3, 0, 2], [7], [8, 0x94], [0xC3, 0, 1, 9]])) = [[7, 8], [9]] \<and>
   idle_decoder (fst (Feed_all NewFrameDecoder [[0x94, 0xC3, 0, 2], [7], [8, 0x94], [0xC3, 0, 1, 9]]))"
proof (rule frame_stream_round_trip)
  show "concat [[0x94, 0xC3, 0, 2], [7], [8, 0x94], [0xC3, 0, 1, 9]] = concat (map EncodeFrame [[7, 8], [9]])"
    by (simp add: EncodeFrame_def maxFrameLen_def frameStart1_def frameStart2_def)
qed (simp add: maxFrameLen_def)

text \<open>On any byte stream the state machine of \<open>Feed\<close> finds the frames that the reference
  scanner \<open>scan_frames\<close> cuts out of the stream as a whole, whatever the decoder had buffered
  before, as long as it is between frames.\<close>

theorem Feed_equals_scan:
  "idle_decoder d \<Longrightarrow> snd (Feed d bs) = scan_frames bs"
  by (rule Feed_scan)

text \<open>From any decoder state that satisfies the invariant (the buffer holds at most 512 bytes,
  and fewer than the announced length while a payload is read) every input keeps the invariant,
  and every frame handed out has between 1 and 512 bytes.\<close>

theorem Feed_invariant:
  assumes "wf_decoder d"
  shows "wf_decoder (fst (Feed d bs)) \<and>
         list_all (\<lambda>f. 0 < length f \<and> length f \<le> maxFrameLen) (snd (Feed d bs))"
  using Feed_wf [OF assms] Feed_frames [OF assms] by (simp add: list_all_iff)

text \<open>Bytes other than \<open>0x94\<close> between two frames are skipped without losing the frame that
  follows them.\<close>

theorem Feed_resynchronises:
  assumes "idle_decoder d" "frameStart1 \<notin> set noise" "0 < length p" "length p \<le> maxFrameLen"
  shows "snd (Feed d (noise @ EncodeFrame p)) = [p]"
  using Feed_noise [OF assms(1,2)] Feed_EncodeFrame [OF assms(1,3,4), of "[]"] by simp

text \<open>A stray \<open>0x94\<close> right before a frame loses the frame: the real start byte is taken for a
  failed second start byte and is not reconsidered as a first one.\<close>

theorem stray_start_loses_frame:
  assumes "idle_decoder d" "length p \<le> maxFrameLen" "frameStart1 \<notin> set (drop 2 (EncodeFrame p))"
  shows "snd (Feed d (frameStart1 # EncodeFrame p)) = []"
  by (rule Feed_stray_start [OF assms])

end
