(* ===== verification/Manager.thy ===== *)
theory Manager
  imports FromRadio Framing GoStrings
begin

text \<open>
  The serial manager of \<open>internal/serial/manager.go\<close>, as far as it is not the operating
  system's port: the hybrid reader \<open>readLoopBinary\<close> (frames and console lines on the same
  stream), \<open>SendToRadio\<close>, the store of radio configuration sections, and the ring buffer of
  text messages. The reader turns the bytes of each read into events: a decoded packet for the
  handlers, or a console line for the text parser.
\<close>

section \<open>The reader\<close>

record reader =
  rd_decoder :: FrameDecoder
  rd_text :: "byte list"

definition new_reader :: reader where
  "new_reader = \<lparr>rd_decoder = NewFrameDecoder, rd_text = []\<rparr>"

datatype rd_event = DispatchPacket FromRadioPacket | ParseLine string

text \<open>
  \<open>isPrintableText\<close>. Runes from \<open>0x20\<close> to \<open>0x7E\<close> are single bytes, so counting runes counts
  bytes. \<open>float64(printable)/float64(len(s)) > 0.7\<close> is \<open>10 * printable > 7 * len(s)\<close> for every
  length below \<open>2^50\<close>: the exact quotient 7/10 is rounded to the constant itself, and any other
  quotient is further from it than the rounding error.
\<close>

definition isPrintableText :: "string \<Rightarrow> bool" where
  "isPrintableText s \<longleftrightarrow> s \<noteq> [] \<and>
     10 * length (filter (\<lambda>c. (0x20 :: nat) \<le> of_char c \<and> of_char c \<le> (0x7E :: nat)) s) > 7 * length s"

text \<open>The frames of one read: a decoding error skips the frame.\<close>

fun decode_frames :: "byte list list \<Rightarrow> FromRadioPacket list outcome option" where
  "decode_frames [] = Some (Ret [])"
| "decode_frames (frame # frames) =
     (case DecodeFromRadio frame of
        None \<Rightarrow> None
      | Some Panics \<Rightarrow> Some Panics
      | Some (Ret (pkt, err)) \<Rightarrow>
         lift_outcome (\<lambda>pkts. (case (pkt, err) of (Some p, None) \<Rightarrow> p # pkts | _ \<Rightarrow> pkts)) (decode_frames frames))"

text \<open>The complete lines of the buffer and what is left after the last newline.\<close>

fun split_lines :: "byte list \<Rightarrow> byte list \<Rightarrow> byte list list \<times> byte list" where
  "split_lines cur [] = ([], cur)"
| "split_lines cur (b # bs) =
     (if b = 0x0A then (let (ls, rest) = split_lines [] bs in (cur # ls, rest))
      else split_lines (cur @ [b]) bs)"

definition line_events :: "byte list list \<Rightarrow> rd_event list" where
  "line_events ls = map ParseLine
     (filter (\<lambda>l. l \<noteq> [] \<and> isPrintableText l) (map (\<lambda>l. TrimSpace (string_of_bytes l)) ls))"

text \<open>The bound on the unterminated rest.\<close>

definition cap_text :: "byte list \<Rightarrow> byte list" where
  "cap_text rest = (if length rest > 4096 then drop (length rest - 2048) rest else rest)"

text \<open>One pass of the loop of \<open>readLoopBinary\<close>, after a read that returned \<open>chunk\<close>.\<close>

definition read_chunk :: "reader \<Rightarrow> byte list \<Rightarrow> (reader \<times> rd_event list) outcome option" where
  "read_chunk r chunk =
     (if chunk = [] then Some (Ret (r, []))
      else
        (let (d, frames) = Feed (rd_decoder r) chunk in
         lift_outcome (\<lambda>pkts.
           (let (ls, rest) = split_lines [] (rd_text r @ chunk)
            in (\<lparr>rd_decoder = d, rd_text = cap_text rest\<rparr>, map DispatchPacket pkts @ line_events ls)))
           (decode_frames frames)))"

fun read_chunks :: "reader \<Rightarrow> byte list list \<Rightarrow> (reader \<times> rd_event list) outcome option" where
  "read_chunks r [] = Some (Ret (r, []))"
| "read_chunks r (chunk # chunks) =
     (case read_chunk r chunk of
        None \<Rightarrow> None
      | Some Panics \<Rightarrow> Some Panics
      | Some (Ret (r', es)) \<Rightarrow> lift_outcome (\<lambda>(r'', es'). (r'', es @ es')) (read_chunks r' chunks))"

section \<open>Sending\<close>

datatype send_error = ErrNotConnected

text \<open>What \<open>SendToRadio\<close> writes to the port; \<open>connected\<close> is whether the port is open.\<close>

definition SendToRadio :: "bool \<Rightarrow> byte list \<Rightarrow> send_error + byte list" where
  "SendToRadio connected data = (if \<not> connected then Inl ErrNotConnected else Inr (EncodeFrame data))"

section \<open>Configuration sections\<close>

definition mgr_StoreConfig :: "(string \<rightharpoonup> ConfigPayload) \<Rightarrow> ConfigPayload option \<Rightarrow> string \<rightharpoonup> ConfigPayload" where
  "mgr_StoreConfig radioConfig cfg =
     (case cfg of
        None \<Rightarrow> radioConfig
      | Some c \<Rightarrow> if Section c = [] then radioConfig else radioConfig(Section c \<mapsto> c))"

section \<open>Text messages\<close>

record TextMessage =
  Seq :: int
  MsgNodeID :: string
  Message :: string
  SiteID :: string
  Timestamp :: string

record text_store =
  textMessages :: "TextMessage list"
  textSeq :: int

definition new_text_store :: text_store where
  "new_text_store = \<lparr>textMessages = [], textSeq = 0\<rparr>"

definition AddTextMessage :: "text_store \<Rightarrow> string \<Rightarrow> string \<Rightarrow> string \<Rightarrow> string \<Rightarrow> text_store" where
  "AddTextMessage t nodeID message siteID timestamp =
     (let seq = textSeq t + 1;
          msgs = textMessages t @
            [\<lparr>Seq = seq, MsgNodeID = nodeID, Message = message, SiteID = siteID, Timestamp = timestamp\<rparr>]
      in \<lparr>textMessages = (if length msgs > 200 then drop (length msgs - 200) msgs else msgs), textSeq = seq\<rparr>)"

definition ClearTextMessages :: "text_store \<Rightarrow> text_store" where
  "ClearTextMessages t = t\<lparr>textMessages := [], textSeq := 0\<rparr>"

definition GetTextMessages :: "text_store \<Rightarrow> int \<Rightarrow> TextMessage list" where
  "GetTextMessages t sinceSeq = filter (\<lambda>m. Seq m > sinceSeq) (textMessages t)"

text \<open>Several messages, as (node, text, site, time).\<close>

definition add_all :: "text_store \<Rightarrow> (string \<times> string \<times> string \<times> string) list \<Rightarrow> text_store" where
  "add_all t ms = foldl (\<lambda>t (n, m, s, ts). AddTextMessage t n m s ts) t ms"

text \<open>All messages ever stored, numbered from \<open>start + 1\<close>: what an unbounded log would hold.\<close>

fun numbered :: "int \<Rightarrow> (string \<times> string \<times> string \<times> string) list \<Rightarrow> TextMessage list" where
  "numbered start [] = []"
| "numbered start ((n, m, s, ts) # ms) =
     \<lparr>Seq = start + 1, MsgNodeID = n, Message = m, SiteID = s, Timestamp = ts\<rparr> # numbered (start + 1) ms"

section \<open>The ring buffer\<close>

definition last_200 :: "'a list \<Rightarrow> 'a list" where
  "last_200 xs = drop (length xs - 200) xs"

lemma last_200_snoc: "last_200 (last_200 xs @ [x]) = last_200 (xs @ [x])"
proof (cases "length xs < 200")
  case False
  then have "Suc (length xs - 200) = length xs - 199" by simp
  with False show ?thesis by (simp add: last_200_def)
qed (simp add: last_200_def)

lemma numbered_append: "numbered k (ms @ ms') = numbered k ms @ numbered (k + int (length ms)) ms'"
  by (induction ms arbitrary: k) (auto simp: algebra_simps)

lemma length_numbered [simp]: "length (numbered k ms) = length ms"
  by (induction k ms rule: numbered.induct) simp_all

lemma numbered_Seq: "map Seq (numbered k ms) = map (\<lambda>i. k + int i + 1) [0..<length ms]"
  by (induction k ms rule: numbered.induct) (simp_all add: map_upt_Suc algebra_simps del: upt_Suc)

lemma add_all_state:
  "textMessages (add_all new_text_store ms) = last_200 (numbered 0 ms) \<and> textSeq (add_all new_text_store ms) = int (length ms)"
proof (induction ms rule: rev_induct)
  case (snoc x ms)
  obtain n m s ts where x: "x = (n, m, s, ts)" by (cases x)
  let ?t = "add_all new_text_store ms"
  let ?new = "\<lparr>Seq = int (length ms) + 1, MsgNodeID = n, Message = m, SiteID = s, Timestamp = ts\<rparr>"
  have "add_all new_text_store (ms @ [x]) = AddTextMessage ?t n m s ts" by (simp add: add_all_def x)
  moreover have "textMessages (AddTextMessage ?t n m s ts) = last_200 (last_200 (numbered 0 ms) @ [?new])"
    using snoc by (simp add: AddTextMessage_def last_200_def Let_def)
  moreover have "textSeq (AddTextMessage ?t n m s ts) = int (length (ms @ [x]))"
    using snoc by (simp add: AddTextMessage_def Let_def)
  ultimately show ?case by (simp add: last_200_snoc numbered_append x)
qed (simp add: add_all_def new_text_store_def last_200_def)

lemma filter_Seq_numbered:
  "filter (\<lambda>m. Seq m > k + int j) (numbered k ms) = drop j (numbered k ms)"
proof (induction k ms arbitrary: j rule: numbered.induct)
  case (2 start n m s ts ms)
  show ?case
  proof (cases j)
    case 0
    have "\<forall>x \<in> set (numbered (start + 1) ms). start < Seq x"
    proof
      fix x
      assume "x \<in> set (numbered (start + 1) ms)"
      then have "Seq x \<in> set (map Seq (numbered (start + 1) ms))" by simp
      then show "start < Seq x" unfolding numbered_Seq by auto
    qed
    with 0 show ?thesis by simp
  next
    case (Suc i)
    with 2 [of i] show ?thesis by (simp add: algebra_simps)
  qed
qed simp

section \<open>Lines\<close>

lemma split_lines_append:
  "split_lines cur (xs @ ys) =
     (let (ls, rest) = split_lines cur xs; (ls', rest') = split_lines rest ys in (ls @ ls', rest'))"
  by (induction cur xs rule: split_lines.induct) (simp_all add: Let_def split: prod.splits)

lemma split_lines_rest: "split_lines cur xs = (ls, rest) \<Longrightarrow> 0x0A \<notin> set cur \<Longrightarrow> 0x0A \<notin> set rest"
  by (induction cur xs arbitrary: ls rule: split_lines.induct) (auto split: if_splits prod.splits)

lemma split_lines_prefix: "0x0A \<notin> set xs \<Longrightarrow> split_lines cur (xs @ ys) = split_lines (cur @ xs) ys"
  by (induction xs arbitrary: cur) auto

section \<open>Frames\<close>

definition decoded_packets :: "byte list list \<Rightarrow> FromRadioPacket list" where
  "decoded_packets frames = List.map_filter (\<lambda>f. case DecodeFromRadio f of
     Some (Ret (Some p, None)) \<Rightarrow> Some p | _ \<Rightarrow> None) frames"

lemma decode_frames_returns:
  "\<forall>f \<in> set frames. \<exists>p e. DecodeFromRadio f = Some (Ret (p, e)) \<Longrightarrow>
   decode_frames frames = Some (Ret (decoded_packets frames))"
  by (induction frames) (force simp: decoded_packets_def map_filter_simps split: option.splits)+

definition packets_of :: "rd_event list \<Rightarrow> FromRadioPacket list" where
  "packets_of es = List.map_filter (\<lambda>e. case e of DispatchPacket p \<Rightarrow> Some p | ParseLine _ \<Rightarrow> None) es"

lemma map_filter_append: "List.map_filter f (xs @ ys) = List.map_filter f xs @ List.map_filter f ys"
  by (simp add: List.map_filter_def)

lemma packets_of_append [simp]: "packets_of (es @ es') = packets_of es @ packets_of es'"
  by (simp add: packets_of_def map_filter_append)

lemma packets_of_packets [simp]: "packets_of (map DispatchPacket ps) = ps"
  by (induction ps) (simp_all add: packets_of_def map_filter_simps)

lemma packets_of_lines [simp]: "packets_of (line_events ls) = []"
  by (simp add: packets_of_def line_events_def List.map_filter_def filter_empty_conv)

lemma read_chunk_returns:
  assumes "\<forall>f \<in> set (snd (Feed (rd_decoder r) chunk)). \<exists>p e. DecodeFromRadio f = Some (Ret (p, e))"
  shows "\<exists>r' es. read_chunk r chunk = Some (Ret (r', es)) \<and> rd_decoder r' = fst (Feed (rd_decoder r) chunk) \<and>
    packets_of es = decoded_packets (snd (Feed (rd_decoder r) chunk))"
proof (cases "chunk = []")
  case True
  then show ?thesis by (simp add: read_chunk_def decoded_packets_def packets_of_def map_filter_simps)
next
  case False
  with decode_frames_returns [OF assms] show ?thesis
    by (simp add: read_chunk_def Let_def case_prod_unfold)
qed

lemma read_chunks_returns:
  "\<forall>f \<in> set (concat (snd (Feed_all (rd_decoder r) chunks))). \<exists>p e. DecodeFromRadio f = Some (Ret (p, e)) \<Longrightarrow>
   \<exists>r' es. read_chunks r chunks = Some (Ret (r', es)) \<and> rd_decoder r' = fst (Feed_all (rd_decoder r) chunks) \<and>
     packets_of es = decoded_packets (concat (snd (Feed_all (rd_decoder r) chunks)))"
proof (induction chunks arbitrary: r)
  case (Cons chunk chunks)
  let ?f = "Feed (rd_decoder r) chunk"
  have all: "snd (Feed_all (rd_decoder r) (chunk # chunks)) = snd ?f # snd (Feed_all (fst ?f) chunks)"
    "fst (Feed_all (rd_decoder r) (chunk # chunks)) = fst (Feed_all (fst ?f) chunks)"
    by (simp_all add: case_prod_unfold Let_def)
  from Cons.prems obtain r1 es1 where 1: "read_chunk r chunk = Some (Ret (r1, es1))"
    "rd_decoder r1 = fst ?f" "packets_of es1 = decoded_packets (snd ?f)"
    using read_chunk_returns [of r chunk] unfolding all by auto
  obtain r2 es2 where 2: "read_chunks r1 chunks = Some (Ret (r2, es2))"
    "rd_decoder r2 = fst (Feed_all (fst ?f) chunks)" "packets_of es2 = decoded_packets (concat (snd (Feed_all (fst ?f) chunks)))"
    using Cons.IH [of r1] Cons.prems unfolding all 1(2) by auto
  show ?case
    using 1 2 unfolding all by (simp add: decoded_packets_def map_filter_append)
qed (simp add: packets_of_def decoded_packets_def map_filter_simps)

text \<open>The console-line buffer of the reader never exceeds 4096 bytes between reads.\<close>

lemma reader_text_bounded:
  assumes "length (rd_text r) \<le> 4096" "read_chunk r chunk = Some (Ret (r', es))"
  shows "length (rd_text r') \<le> 4096"
proof (cases "decode_frames (snd (Feed (rd_decoder r) chunk))")
  case (Some out)
  with assms show ?thesis
    by (cases out) (auto simp: read_chunk_def cap_text_def Let_def case_prod_unfold split: if_splits)
qed (use assms in \<open>auto simp: read_chunk_def case_prod_unfold split: if_splits\<close>)

section \<open>Properties\<close>

text \<open>The whole receive path: when the bytes read from the port, cut into reads in any way, are
  a sequence of frames with 1 to 512 bytes and sane lengths, the reader neither stops nor
  crashes and hands to the packet handlers exactly the packets \<open>DecodeFromRadio\<close> accepts, in
  order, each once.\<close>

theorem reader_delivers_packets:
  assumes "concat chunks = concat (map EncodeFrame ps)"
    and "\<forall>p \<in> set ps. 0 < length p \<and> length p \<le> maxFrameLen \<and> safe_lengths p"
  shows "\<exists>r es. read_chunks new_reader chunks = Some (Ret (r, es)) \<and>
    packets_of es = List.map_filter (\<lambda>p. case DecodeFromRadio p of Some (Ret (Some pkt, None)) \<Rightarrow> Some pkt | _ \<Rightarrow> None) ps"
proof -
  have frames: "concat (snd (Feed_all NewFrameDecoder chunks)) = ps"
    using Feed_frames_sequence [of NewFrameDecoder ps] assms by (simp add: Feed_all_concat)
  have "\<exists>p e. DecodeFromRadio f = Some (Ret (p, e))" if "f \<in> set ps" for f
  proof (cases "f = []")
    case False
    have "safe_lengths f" using assms(2) that by blast
    then obtain x where "for_pos (radio_body f) (int (length f)) 0 (FromRadioPacket0 f, None) = Some (Ret x)"
      using radio.returns by blast
    with False show ?thesis by (cases x) (simp add: DecodeFromRadio_def)
  qed (simp add: DecodeFromRadio_def)
  then have "\<forall>f \<in> set (concat (snd (Feed_all (rd_decoder new_reader) chunks))). \<exists>p e. DecodeFromRadio f = Some (Ret (p, e))"
    by (simp add: new_reader_def frames)
  from read_chunks_returns [OF this] show ?thesis
    by (auto simp: new_reader_def frames decoded_packets_def)
qed

text \<open>The ring buffer is the end of the log: after any sequence of messages it holds the last
  200 of them, numbered consecutively from 1 over the whole history, and a poller that asks for
  everything after \<open>n\<close>, with \<open>n\<close> among the last 200, gets exactly the messages it has not seen.\<close>

theorem text_ring_buffer:
  assumes "length ms \<le> n + 200"
  shows "textMessages (add_all new_text_store ms) = drop (length ms - 200) (numbered 0 ms) \<and>
    textSeq (add_all new_text_store ms) = int (length ms) \<and>
    GetTextMessages (add_all new_text_store ms) (int n) = drop n (numbered 0 ms)"
proof -
  have "GetTextMessages (add_all new_text_store ms) (int n) = filter (\<lambda>m. Seq m > int n) (drop (length ms - 200) (numbered 0 ms))"
    by (simp add: GetTextMessages_def add_all_state last_200_def)
  also have "\<dots> = filter (\<lambda>m. Seq m > int n) (filter (\<lambda>m. Seq m > int (length ms - 200)) (numbered 0 ms))"
    using filter_Seq_numbered [of 0 "length ms - 200" ms] by simp
  also have "\<dots> = filter (\<lambda>m. Seq m > int n) (numbered 0 ms)"
    using assms by (simp add: filter_filter, intro filter_cong) auto
  also have "\<dots> = drop n (numbered 0 ms)" using filter_Seq_numbered [of 0 n ms] by simp
  finally show ?thesis by (simp add: add_all_state last_200_def)
qed

text \<open>Clearing the buffer restarts the numbering, so a poller that goes on asking with the
  number it had seen is told nothing: it misses the first \<open>n\<close> messages after the clear, where
  \<open>n\<close> is the number it asks with.\<close>

theorem clear_hides_messages:
  assumes "length ms \<le> n"
  shows "GetTextMessages (add_all (ClearTextMessages t) ms) (int n) = []"
proof -
  have "ClearTextMessages t = new_text_store" by (simp add: ClearTextMessages_def new_text_store_def)
  moreover have "Seq m \<le> int n" if "m \<in> set (textMessages (add_all new_text_store ms))" for m
  proof -
    from that have "m \<in> set (numbered 0 ms)"
      using set_drop_subset by (fastforce simp: add_all_state last_200_def)
    then have "Seq m \<in> set (map Seq (numbered 0 ms))" by simp
    with assms show ?thesis unfolding numbered_Seq by auto
  qed
  ultimately show ?thesis by (auto simp: GetTextMessages_def filter_empty_conv not_less)
qed

end
