(* ===== verification/Encode.thy ===== *)
theory Encode
  imports Payloads Framing
begin

text \<open>
  The ToRadio builders of \<open>internal/serial/encode.go\<close> and \<open>BuildWantConfig\<close>, and
  their round trips through the decoders of the other direction: a mesh packet
  that was built here decodes to its fields, and the messages nested in it decode
  to theirs. The four random bytes \<open>randomPacketID\<close> draws are an argument.
\<close>

section \<open>Definitions\<close>

definition PortNumTextMessage :: u32 where "PortNumTextMessage = 1"
definition PortNumPosition :: u32 where "PortNumPosition = 3"
definition PortNumNodeInfo :: u32 where "PortNumNodeInfo = 4"
definition PortNumAdmin :: u32 where "PortNumAdmin = 6"
definition PortNumTelemetry :: u32 where "PortNumTelemetry = 67"
definition BroadcastAddr :: u32 where "BroadcastAddr = 0xFFFFFFFF"

definition BuildWantConfig :: "byte list" where
  "BuildWantConfig = encodeVarint (push_bit 3 3 OR 0) @ encodeVarint 1"

definition buildDataMessage :: "u32 \<Rightarrow> byte list \<Rightarrow> byte list" where
  "buildDataMessage portNum payload =
     encodeVarintField 1 (ucast portNum) @ encodeLengthDelimited 2 payload"

definition buildDataMessageWithResponse :: "u32 \<Rightarrow> byte list \<Rightarrow> byte list" where
  "buildDataMessageWithResponse portNum payload =
     encodeVarintField 1 (ucast portNum) @ encodeLengthDelimited 2 payload @ encodeVarintField 3 1"

definition randomPacketID :: "byte list \<Rightarrow> u32" where
  "randomPacketID rnd = (let id = le_uint32 rnd in if id = 0 then 1 else id)"

definition buildMeshPacket :: "byte list \<Rightarrow> u32 \<Rightarrow> byte list \<Rightarrow> byte list" where
  "buildMeshPacket rnd to data =
     encodeFixed32Field 2 to @
     encodeVarintField 3 0 @
     encodeLengthDelimited 4 data @
     encodeFixed32Field 6 (randomPacketID rnd) @
     encodeVarintField 10 3 @
     encodeVarintField 11 1"

definition buildToRadio :: "byte list \<Rightarrow> byte list" where
  "buildToRadio meshPacket = encodeLengthDelimited 1 meshPacket"

definition BuildHeartbeat :: "byte list" where
  "BuildHeartbeat = encodeLengthDelimited 7 []"

definition BuildTextMessage :: "byte list \<Rightarrow> u32 \<Rightarrow> string \<Rightarrow> byte list" where
  "BuildTextMessage rnd to text =
     (let payload = bytes_of_string text;
          data = buildDataMessage PortNumTextMessage payload;
          mp = buildMeshPacket rnd to data
      in buildToRadio mp)"

text \<open>The Position message; \<open>uint64(altitude)\<close> sign-extends the \<open>int32\<close>.\<close>

definition position_msg :: "32 word \<Rightarrow> 32 word \<Rightarrow> 32 word \<Rightarrow> byte list" where
  "position_msg latI lonI altitude =
     encodeSFixed32Field 1 latI @ encodeSFixed32Field 2 lonI @
     (if altitude \<noteq> 0 then encodeVarintField 3 (scast altitude) else [])"

definition BuildPosition :: "byte list \<Rightarrow> 32 word \<Rightarrow> 32 word \<Rightarrow> 32 word \<Rightarrow> byte list" where
  "BuildPosition rnd latI lonI altitude =
     (let pos = position_msg latI lonI altitude;
          data = buildDataMessage PortNumPosition pos;
          mp = buildMeshPacket rnd BroadcastAddr data
      in buildToRadio mp)"

text \<open>
  \<open>voltage > 0\<close> on the bits of a \<open>float32\<close>: positive and not a NaN, that is from the
  smallest subnormal up to and including \<open>+Inf\<close>.
\<close>

definition float32_gt0 :: "float32 \<Rightarrow> bool" where
  "float32_gt0 bits \<longleftrightarrow> 0 < bits \<and> bits \<le> 0x7F800000"

definition device_metrics_msg :: "u32 \<Rightarrow> float32 \<Rightarrow> byte list" where
  "device_metrics_msg batteryLevel voltage =
     (if batteryLevel > 0 then encodeVarintField 1 (ucast batteryLevel) else []) @
     (if float32_gt0 voltage then encodeFloat32Field 2 voltage else [])"

definition BuildDeviceMetrics :: "byte list \<Rightarrow> u32 \<Rightarrow> float32 \<Rightarrow> byte list" where
  "BuildDeviceMetrics rnd batteryLevel voltage =
     (let telemetry = encodeLengthDelimited 2 (device_metrics_msg batteryLevel voltage);
          data = buildDataMessage PortNumTelemetry telemetry;
          mp = buildMeshPacket rnd BroadcastAddr data
      in buildToRadio mp)"

text \<open>The admin packets: an AdminMessage in a Data message on the admin port.\<close>

definition build_admin :: "byte list \<Rightarrow> u32 \<Rightarrow> byte list \<Rightarrow> byte list" where
  "build_admin rnd nodeNum admin =
     (let data = buildDataMessage PortNumAdmin admin; mp = buildMeshPacket rnd nodeNum data
      in buildToRadio mp)"

definition BuildAdminShutdown :: "byte list \<Rightarrow> u32 \<Rightarrow> u32 \<Rightarrow> byte list" where
  "BuildAdminShutdown rnd nodeNum seconds =
     build_admin rnd nodeNum (encodeVarintField 98 (ucast seconds))"

definition display_config_msg :: "u32 \<Rightarrow> byte list" where
  "display_config_msg screenOnSecs =
     (let displayCfg = encodeVarintField 1 (ucast screenOnSecs) in encodeLengthDelimited 5 displayCfg)"

definition BuildAdminDisplayConfig :: "byte list \<Rightarrow> u32 \<Rightarrow> u32 \<Rightarrow> byte list" where
  "BuildAdminDisplayConfig rnd nodeNum screenOnSecs =
     build_admin rnd nodeNum (encodeLengthDelimited 34 (display_config_msg screenOnSecs))"

definition bluetooth_config_msg :: "bool \<Rightarrow> u32 \<Rightarrow> u32 \<Rightarrow> byte list" where
  "bluetooth_config_msg enabled mode fixedPin =
     (let btCfg = encodeVarintField 1 (if enabled then 1 else 0) @ encodeVarintField 2 (ucast mode) @
            (if fixedPin > 0 then encodeVarintField 3 (ucast fixedPin) else [])
      in encodeLengthDelimited 7 btCfg)"

definition BuildAdminBluetoothConfig :: "byte list \<Rightarrow> u32 \<Rightarrow> bool \<Rightarrow> u32 \<Rightarrow> u32 \<Rightarrow> byte list" where
  "BuildAdminBluetoothConfig rnd nodeNum enabled mode fixedPin =
     build_admin rnd nodeNum (encodeLengthDelimited 34 (bluetooth_config_msg enabled mode fixedPin))"

definition position_config_msg :: "u32 \<Rightarrow> byte list" where
  "position_config_msg gpsMode =
     (let posCfg = encodeVarintField 13 (ucast gpsMode) in encodeLengthDelimited 2 posCfg)"

definition BuildAdminPositionConfig :: "byte list \<Rightarrow> u32 \<Rightarrow> u32 \<Rightarrow> byte list" where
  "BuildAdminPositionConfig rnd nodeNum gpsMode =
     build_admin rnd nodeNum (encodeLengthDelimited 34 (position_config_msg gpsMode))"

definition BuildAdminNodedbReset :: "byte list \<Rightarrow> u32 \<Rightarrow> byte list" where
  "BuildAdminNodedbReset rnd nodeNum = build_admin rnd nodeNum (encodeVarintField 100 1)"

definition BuildAdminSetFixedPosition ::
  "byte list \<Rightarrow> u32 \<Rightarrow> 32 word \<Rightarrow> 32 word \<Rightarrow> 32 word \<Rightarrow> u32 \<Rightarrow> byte list" where
  "BuildAdminSetFixedPosition rnd nodeNum latI lonI altitude timestamp =
     (let pos = position_msg latI lonI altitude @
            (if timestamp \<noteq> 0 then encodeFixed32Field 7 timestamp else [])
      in build_admin rnd nodeNum (encodeLengthDelimited 41 pos))"

definition BuildAdminReboot :: "byte list \<Rightarrow> u32 \<Rightarrow> u32 \<Rightarrow> byte list" where
  "BuildAdminReboot rnd nodeNum seconds =
     build_admin rnd nodeNum (encodeVarintField 97 (ucast seconds))"

definition BuildTelemetryRequest :: "byte list \<Rightarrow> u32 \<Rightarrow> byte list" where
  "BuildTelemetryRequest rnd nodeNum =
     (let data = buildDataMessageWithResponse PortNumTelemetry [];
          mp = buildMeshPacket rnd nodeNum data
      in buildToRadio mp)"

definition BuildNodeInfoRequest :: "byte list \<Rightarrow> u32 \<Rightarrow> byte list" where
  "BuildNodeInfoRequest rnd nodeNum =
     (let nodeNum = (if nodeNum = 0 then BroadcastAddr else nodeNum);
          data = buildDataMessageWithResponse PortNumNodeInfo [];
          mp = buildMeshPacket rnd nodeNum data
      in buildToRadio mp)"

section \<open>Widening and narrowing\<close>

lemma ucast_ucast_u32 [simp]: "(ucast (ucast w :: u64) :: u32) = w" for w :: u32
  by (rule bit_word_eqI) (simp add: bit_unsigned_iff)

lemma ucast_scast_u32 [simp]: "(ucast (scast w :: u64) :: u32) = w" for w :: u32
proof (rule bit_word_eqI)
  fix n
  assume "n < LENGTH(32)"
  then have "n < 31 \<or> n = 31" by auto
  then show "bit (ucast (scast w :: u64) :: u32) n = bit w n"
    by (auto simp: bit_unsigned_iff bit_signed_iff min_def)
qed

lemma randomPacketID_nonzero: "randomPacketID rnd \<noteq> 0"
  by (simp add: randomPacketID_def Let_def)

section \<open>Round trips\<close>

lemma decode_from_run:
  "runs body data data m r \<Longrightarrow> for_pos (body data) (int (length data)) 0 m = r"
  by (simp add: runs_def)

lemma decodeDataPayload_build:
  assumes "length (buildDataMessage portNum payload) < 2 ^ 62"
  shows "decodeDataPayload (buildDataMessage portNum payload) = Some (Ret (portNum, payload, 0))"
proof -
  let ?d = "buildDataMessage portNum payload"
  have "runs data_body ?d (encodeVarintField 1 (ucast portNum) @ encodeLengthDelimited 2 payload @ [])
      (0, [], 0) (Some (Ret (portNum, payload, 0)))"
    by (rule data_v.runs_varint, simp, rule data_b.runs_bytes, simp, rule assms, rule refl)
      (simp add: data_varint_def data_bytes_def runs_end)
  then have "runs data_body ?d ?d (0, [], 0) (Some (Ret (portNum, payload, 0)))"
    by (simp add: buildDataMessage_def)
  then show ?thesis
    unfolding decodeDataPayload_def by (rule decode_from_run)
qed

text \<open>The fields of a built packet, as the receiving side sees them.\<close>

definition built_packet :: "byte list \<Rightarrow> u32 \<Rightarrow> u32 \<Rightarrow> byte list \<Rightarrow> MeshPacketData" where
  "built_packet rnd to portNum payload =
     MeshPacketData0\<lparr>To := to, Channel := 0, PortNum := portNum, Payload := payload, RequestID := 0,
       PacketID := randomPacketID rnd, HopLimit := 3, WantAck := True\<rparr>"

lemma length_encodeLengthDelimited: "length xs \<le> length (encodeLengthDelimited fn xs)"
  by (simp add: encodeLengthDelimited_def)

lemma length_buildMeshPacket: "length data \<le> length (buildMeshPacket rnd to data)"
  using length_encodeLengthDelimited [of data 4] by (simp add: buildMeshPacket_def)

lemma decodeMeshPacket_build:
  assumes len: "length (buildMeshPacket rnd to (buildDataMessage portNum payload)) < 2 ^ 62"
  shows "decodeMeshPacket (buildMeshPacket rnd to (buildDataMessage portNum payload))
    = Some (Ret (built_packet rnd to portNum payload))"
proof -
  let ?data = "buildDataMessage portNum payload"
  let ?d = "buildMeshPacket rnd to ?data"
  have "length ?data < 2 ^ 62" using length_buildMeshPacket [of ?data rnd to] len by linarith
  then have inner: "mesh_bytes 4 ?data m
      = Some (Ret (m\<lparr>PortNum := portNum, Payload := payload, RequestID := 0\<rparr>))" for m
    by (simp add: mesh_bytes_def decodeDataPayload_build)
  have "runs mesh_body ?d (encodeFixed32Field 2 to @ encodeVarintField 3 0 @
      encodeLengthDelimited 4 ?data @ encodeFixed32Field 6 (randomPacketID rnd) @
      encodeVarintField 10 3 @ encodeVarintField 11 1 @ [])
      MeshPacketData0 (Some (Ret (built_packet rnd to portNum payload)))"
    by (rule mesh_f.runs_fixed32, simp, rule mesh_v.runs_varint, simp,
        rule mesh_b.runs_bytes, simp, rule len, rule inner,
        rule mesh_f.runs_fixed32, simp, rule mesh_v.runs_varint, simp,
        rule mesh_v.runs_varint, simp)
      (simp add: mesh_varint_def mesh_fixed32_def built_packet_def MeshPacketData0_def runs_end)
  then have "runs mesh_body ?d ?d MeshPacketData0 (Some (Ret (built_packet rnd to portNum payload)))"
    by (simp add: buildMeshPacket_def)
  then show ?thesis
    unfolding decodeMeshPacket_def by (rule decode_from_run)
qed

lemma decodePosition_build:
  "decodePositionPayload (position_msg latI lonI altitude)
    = Some (Ret (PositionData0\<lparr>LatitudeI := latI, LongitudeI := lonI, Altitude := altitude\<rparr>))"
proof -
  let ?r = "Some (Ret (PositionData0\<lparr>LatitudeI := latI, LongitudeI := lonI, Altitude := altitude\<rparr>))"
  let ?d = "position_msg latI lonI altitude"
  have tail: "runs position_body ?d (if altitude \<noteq> 0 then encodeVarintField 3 (scast altitude) else [])
      (PositionData0\<lparr>LatitudeI := latI, LongitudeI := lonI\<rparr>) ?r"
  proof (cases "altitude = 0")
    case True
    then show ?thesis using runs_end [of position_body] by (simp add: PositionData0_def)
  next
    case False
    have "runs position_body ?d (encodeVarintField 3 (scast altitude) @ [])
        (PositionData0\<lparr>LatitudeI := latI, LongitudeI := lonI\<rparr>) ?r"
      by (rule position_v.runs_varint, simp) (simp add: position_varint_def runs_end)
    with False show ?thesis by simp
  qed
  have "runs position_body ?d ?d PositionData0 ?r"
    unfolding position_msg_def [of latI lonI altitude] encodeSFixed32Field_def
    by (rule position_f.runs_fixed32, simp, rule position_f.runs_fixed32, simp)
      (use tail in \<open>simp add: position_fixed32_def position_msg_def encodeSFixed32Field_def\<close>)
  then show ?thesis
    unfolding decodePositionPayload_def by (rule decode_from_run)
qed

definition sent_metrics :: "u32 \<Rightarrow> float32 \<Rightarrow> DeviceMetrics" where
  "sent_metrics battery voltage = DeviceMetrics0\<lparr>BatteryLevel := battery,
     Voltage := (if float32_gt0 voltage then voltage else 0)\<rparr>"

lemma decodeDeviceMetrics_build:
  "decodeDeviceMetricsPayload (device_metrics_msg battery voltage) = Some (Ret (sent_metrics battery voltage))"
proof -
  let ?dm = "sent_metrics battery voltage"
  let ?b = "if battery > 0 then encodeVarintField 1 (ucast battery) else []"
  let ?v = "if float32_gt0 voltage then encodeFloat32Field 2 voltage else []"
  let ?m = "device_metrics_msg battery voltage"
  have tail: "runs metrics_body ?m ?v (DeviceMetrics0\<lparr>BatteryLevel := battery\<rparr>) (Some (Ret ?dm))"
  proof (cases "float32_gt0 voltage")
    case True
    have "runs metrics_body ?m (encodeFixed32Field 2 voltage @ [])
        (DeviceMetrics0\<lparr>BatteryLevel := battery\<rparr>) (Some (Ret ?dm))"
      by (rule metrics_f.runs_fixed32, simp)
        (simp add: metrics_fixed32_def True runs_end sent_metrics_def DeviceMetrics0_def)
    with True show ?thesis by (simp add: encodeFloat32Field_def)
  qed (use runs_end [of metrics_body] in \<open>simp add: sent_metrics_def DeviceMetrics0_def\<close>)
  have "runs metrics_body ?m (?b @ ?v) DeviceMetrics0 (Some (Ret ?dm))"
  proof (cases "battery > 0")
    case True
    have "runs metrics_body ?m (encodeVarintField 1 (ucast battery) @ ?v) DeviceMetrics0 (Some (Ret ?dm))"
      by (rule metrics_v.runs_varint, simp) (use tail in \<open>simp add: metrics_varint_def\<close>)
    with True show ?thesis by simp
  qed (use tail in \<open>simp add: DeviceMetrics0_def word_gt_0\<close>)
  then show ?thesis
    unfolding decodeDeviceMetricsPayload_def device_metrics_msg_def by (rule decode_from_run)
qed

section \<open>Sizes\<close>

lemma length_varint_field: "length (encodeVarintField fn v) \<le> 20"
  using length_encodeVarint_max [of "push_bit 3 fn OR 0"] length_encodeVarint_max [of v]
  unfolding encodeVarintField_def length_append by linarith

lemma length_fixed32_field: "length (encodeFixed32Field fn v) \<le> 14"
  using length_encodeVarint_max [of "push_bit 3 fn OR 5"]
  unfolding encodeFixed32Field_def length_append by simp

lemma length_bytes_field: "length (encodeLengthDelimited fn xs) \<le> 20 + length xs"
  using length_encodeVarint_max [of "push_bit 3 fn OR 2"] length_encodeVarint_max [of "word_of_nat (length xs)"]
  unfolding encodeLengthDelimited_def length_append by linarith

lemma length_float32_field: "length (encodeFloat32Field fn v) \<le> 14"
  by (simp add: encodeFloat32Field_def length_fixed32_field)

lemma length_mesh_packet: "length (buildMeshPacket rnd to data) \<le> 108 + length data"
  using length_fixed32_field [of 2 to] length_varint_field [of 3 0] length_bytes_field [of 4 data]
    length_fixed32_field [of 6 "randomPacketID rnd"] length_varint_field [of 10 3] length_varint_field [of 11 1]
  unfolding buildMeshPacket_def length_append by linarith

lemma length_data_message: "length (buildDataMessage portNum payload) \<le> 40 + length payload"
  using length_varint_field [of 1 "ucast portNum"] length_bytes_field [of 2 payload]
  unfolding buildDataMessage_def length_append by linarith

lemma length_device_metrics: "length (device_metrics_msg battery voltage) \<le> 34"
  using length_varint_field [of 1 "ucast battery"] length_float32_field [of 2 voltage]
  by (simp add: device_metrics_msg_def)

lemma length_position_msg: "length (position_msg latI lonI altitude) \<le> 48"
  using length_fixed32_field [of 1 latI] length_fixed32_field [of 2 lonI]
    length_varint_field [of 3 "scast altitude"]
  by (simp add: position_msg_def encodeSFixed32Field_def)

lemma decodeTelemetry_build:
  "decodeTelemetryPayload (encodeLengthDelimited 2 (device_metrics_msg battery voltage))
    = Some (Ret (Some (sent_metrics battery voltage), None))"
proof -
  let ?m = "device_metrics_msg battery voltage"
  let ?d = "encodeLengthDelimited 2 ?m"
  have inner: "telemetry_bytes 2 ?m (None, None) = Some (Ret (Some (sent_metrics battery voltage), None))"
    by (simp add: telemetry_bytes_def decodeDeviceMetrics_build)
  have "length ?d < 2 ^ 62"
    using length_bytes_field [of 2 ?m] length_device_metrics [of battery voltage] by simp
  then have "runs telemetry_body ?d (?d @ []) (None, None) (Some (Ret (Some (sent_metrics battery voltage), None)))"
    by (intro telemetry_b.runs_bytes [OF _ _ inner] runs_end) simp_all
  then show ?thesis
    unfolding decodeTelemetryPayload_def by (intro decode_from_run) simp
qed

section \<open>Configuration messages\<close>

lemma decodeConfig_section:
  assumes "unat fn < 2 ^ 61" "length (encodeLengthDelimited fn sub) < 2 ^ 62"
    "config_bytes fn sub (ConfigPayload0 (encodeLengthDelimited fn sub)) = Some (Ret cfg)"
  shows "decodeConfig (encodeLengthDelimited fn sub) = Some (Ret cfg)"
proof -
  let ?d = "encodeLengthDelimited fn sub"
  have "runs config_body ?d (?d @ []) (ConfigPayload0 ?d) (Some (Ret cfg))"
    by (rule config_b.runs_bytes [OF assms]) (rule runs_end)
  then show ?thesis unfolding decodeConfig_def by (intro decode_from_run) simp
qed

lemma decode_display_section:
  "decodeDisplayConfig (encodeVarintField 1 (ucast secs)) = Some (Ret (DisplayConfig0\<lparr>ScreenOnSecs := secs\<rparr>))"
proof -
  let ?d = "encodeVarintField 1 (ucast secs)"
  have "runs (varint_only_body display_varint) ?d (?d @ []) DisplayConfig0
      (Some (Ret (DisplayConfig0\<lparr>ScreenOnSecs := secs\<rparr>)))"
    by (rule varint_only_v.runs_varint, simp) (simp add: display_varint_def runs_end)
  then show ?thesis unfolding decodeDisplayConfig_def by (intro decode_from_run) simp
qed

lemma decode_position_section:
  "decodePositionConfig (encodeVarintField 13 (ucast mode)) = Some (Ret (PositionConfig0\<lparr>GPSMode := mode\<rparr>))"
proof -
  let ?d = "encodeVarintField 13 (ucast mode)"
  have "runs (varint_only_body poscfg_varint) ?d (?d @ []) PositionConfig0
      (Some (Ret (PositionConfig0\<lparr>GPSMode := mode\<rparr>)))"
    by (rule varint_only_v.runs_varint, simp) (simp add: poscfg_varint_def runs_end)
  then show ?thesis unfolding decodePositionConfig_def by (intro decode_from_run) simp
qed

lemma decode_bluetooth_section:
  fixes enabled :: bool and mode pin :: u32
  defines "sub \<equiv> encodeVarintField 1 (if enabled then 1 else 0) @ encodeVarintField 2 (ucast mode) @
    (if pin > 0 then encodeVarintField 3 (ucast pin) else [])"
  shows "decodeBluetoothConfig sub = Some (Ret \<lparr>BtEnabled = enabled, BtMode = mode, FixedPin = pin\<rparr>)"
proof -
  let ?r = "Some (Ret \<lparr>BtEnabled = enabled, BtMode = mode, FixedPin = pin\<rparr>)"
  have tail: "runs (varint_only_body bluetooth_varint) sub (if pin > 0 then encodeVarintField 3 (ucast pin) else [])
      \<lparr>BtEnabled = enabled, BtMode = mode, FixedPin = 0\<rparr> ?r"
  proof (cases "pin > 0")
    case True
    have "runs (varint_only_body bluetooth_varint) sub (encodeVarintField 3 (ucast pin) @ [])
        \<lparr>BtEnabled = enabled, BtMode = mode, FixedPin = 0\<rparr> ?r"
      by (rule varint_only_v.runs_varint, simp) (simp add: bluetooth_varint_def runs_end)
    with True show ?thesis by simp
  qed (use runs_end [of "varint_only_body bluetooth_varint"] in \<open>simp add: word_gt_0\<close>)
  have "runs (varint_only_body bluetooth_varint) sub sub BluetoothConfig0 ?r"
    unfolding sub_def
    by (rule varint_only_v.runs_varint, simp, rule varint_only_v.runs_varint, simp)
      (use tail in \<open>simp add: bluetooth_varint_def BluetoothConfig0_def sub_def split: if_splits\<close>)
  then show ?thesis unfolding decodeBluetoothConfig_def by (rule decode_from_run)
qed

section \<open>Frames as the radio delivers them\<close>

definition received_packet :: "byte list \<Rightarrow> byte list \<Rightarrow> u32 \<Rightarrow> u32 \<Rightarrow> byte list \<Rightarrow> FromRadioPacket" where
  "received_packet frame rnd to portNum payload = (FromRadioPacket0 frame)\<lparr>PktType := FromRadioMeshPacket,
     PktMeshPacket := Some (built_packet rnd to portNum payload)\<rparr>"

lemma built_frame_received:
  fixes rnd payload :: "byte list" and to portNum :: u32
  defines "frame \<equiv> encodeLengthDelimited 2 (buildMeshPacket rnd to (buildDataMessage portNum payload))"
  assumes "length payload \<le> 344"
  shows "0 < length frame" "length frame \<le> maxFrameLen"
    "DecodeFromRadio frame = Some (Ret (Some (received_packet frame rnd to portNum payload), None))"
proof -
  let ?mp = "buildMeshPacket rnd to (buildDataMessage portNum payload)"
  have mp: "length ?mp \<le> 492"
    using length_mesh_packet [of rnd to "buildDataMessage portNum payload"]
      length_data_message [of portNum payload] assms(2) by linarith
  then have len: "length frame \<le> 512"
    using length_bytes_field [of 2 ?mp] unfolding frame_def by linarith
  then show "length frame \<le> maxFrameLen" by (simp add: maxFrameLen_def)
  show "0 < length frame" by (simp add: frame_def)
  have "decodeMeshPacket ?mp = Some (Ret (built_packet rnd to portNum payload))"
    using mp by (intro decodeMeshPacket_build) simp
  then show "DecodeFromRadio frame = Some (Ret (Some (received_packet frame rnd to portNum payload), None))"
    using len unfolding frame_def received_packet_def
    by (subst DecodeFromRadio_bytes_field) (simp_all add: radio_bytes_def)
qed

text \<open>A packet that another node has sent is delivered with the sender in field 1; its other fields are those of a built packet.\<close>

definition relayed_packet :: "u32 \<Rightarrow> byte list \<Rightarrow> u32 \<Rightarrow> byte list \<Rightarrow> byte list" where
  "relayed_packet src rnd to data = encodeFixed32Field 1 src @ buildMeshPacket rnd to data"

lemma decodeMeshPacket_relayed:
  assumes len: "length (relayed_packet src rnd to (buildDataMessage portNum payload)) < 2 ^ 62"
  shows "decodeMeshPacket (relayed_packet src rnd to (buildDataMessage portNum payload))
    = Some (Ret ((built_packet rnd to portNum payload)\<lparr>From := src\<rparr>))"
proof -
  let ?data = "buildDataMessage portNum payload"
  let ?d = "relayed_packet src rnd to ?data"
  have "length ?data < 2 ^ 62" using length_buildMeshPacket [of ?data rnd to] len by (simp add: relayed_packet_def)
  then have inner: "mesh_bytes 4 ?data m
      = Some (Ret (m\<lparr>PortNum := portNum, Payload := payload, RequestID := 0\<rparr>))" for m
    by (simp add: mesh_bytes_def decodeDataPayload_build)
  have "runs mesh_body ?d (encodeFixed32Field 1 src @ encodeFixed32Field 2 to @ encodeVarintField 3 0 @
      encodeLengthDelimited 4 ?data @ encodeFixed32Field 6 (randomPacketID rnd) @
      encodeVarintField 10 3 @ encodeVarintField 11 1 @ [])
      MeshPacketData0 (Some (Ret ((built_packet rnd to portNum payload)\<lparr>From := src\<rparr>)))"
    by (rule mesh_f.runs_fixed32, simp, rule mesh_f.runs_fixed32, simp, rule mesh_v.runs_varint, simp,
        rule mesh_b.runs_bytes, simp, rule len, rule inner,
        rule mesh_f.runs_fixed32, simp, rule mesh_v.runs_varint, simp,
        rule mesh_v.runs_varint, simp)
      (simp add: mesh_varint_def mesh_fixed32_def built_packet_def MeshPacketData0_def runs_end)
  then have "runs mesh_body ?d ?d MeshPacketData0 (Some (Ret ((built_packet rnd to portNum payload)\<lparr>From := src\<rparr>)))"
    by (simp add: relayed_packet_def buildMeshPacket_def)
  then show ?thesis
    unfolding decodeMeshPacket_def by (rule decode_from_run)
qed

lemma relayed_frame_received:
  fixes rnd payload :: "byte list" and src to portNum :: u32
  defines "frame \<equiv> encodeLengthDelimited 2 (relayed_packet src rnd to (buildDataMessage portNum payload))"
  assumes "length payload \<le> 320"
  shows "0 < length frame" "length frame \<le> maxFrameLen"
    "DecodeFromRadio frame = Some (Ret (Some ((FromRadioPacket0 frame)\<lparr>PktType := FromRadioMeshPacket,
       PktMeshPacket := Some ((built_packet rnd to portNum payload)\<lparr>From := src\<rparr>)\<rparr>), None))"
proof -
  let ?mp = "relayed_packet src rnd to (buildDataMessage portNum payload)"
  have mp: "length ?mp \<le> 492"
    using length_mesh_packet [of rnd to "buildDataMessage portNum payload"] length_fixed32_field [of 1 src]
      length_data_message [of portNum payload] assms(2) unfolding relayed_packet_def length_append by linarith
  then have len: "length frame \<le> 512"
    using length_bytes_field [of 2 ?mp] unfolding frame_def by linarith
  then show "length frame \<le> maxFrameLen" by (simp add: maxFrameLen_def)
  show "0 < length frame" by (simp add: frame_def)
  have "decodeMeshPacket ?mp = Some (Ret ((built_packet rnd to portNum payload)\<lparr>From := src\<rparr>))"
    using mp by (intro decodeMeshPacket_relayed) simp
  then show "DecodeFromRadio frame = Some (Ret (Some ((FromRadioPacket0 frame)\<lparr>PktType := FromRadioMeshPacket,
       PktMeshPacket := Some ((built_packet rnd to portNum payload)\<lparr>From := src\<rparr>)\<rparr>), None))"
    using len unfolding frame_def by (subst DecodeFromRadio_bytes_field) (simp_all add: radio_bytes_def)
qed

section \<open>Properties\<close>



text \<open>A position survives the trip: latitude, longitude and altitude of any sign, in the
  payload \<open>BuildPosition\<close> sends, are read back bit for bit by the dispatcher's
  \<open>decodePositionPayload\<close>, and the other fields are zero.\<close>

theorem position_round_trip:
  "decodePositionPayload (position_msg latI lonI altitude)
    = Some (Ret (PositionData0\<lparr>LatitudeI := latI, LongitudeI := lonI, Altitude := altitude\<rparr>))"
  by (rule decodePosition_build)

text \<open>Device telemetry survives the trip: the payload of \<open>BuildDeviceMetrics\<close> is read back by
  \<open>decodeTelemetryPayload\<close> as device metrics with the same battery level, and the same voltage
  whenever it is positive (a negative, zero or NaN voltage arrives as 0).\<close>

theorem telemetry_round_trip:
  "decodeTelemetryPayload (encodeLengthDelimited 2 (device_metrics_msg battery voltage))
    = Some (Ret (Some (DeviceMetrics0\<lparr>BatteryLevel := battery,
        Voltage := (if float32_gt0 voltage then voltage else 0)\<rparr>), None))"
  unfolding decodeTelemetry_build sent_metrics_def by (rule refl)

text \<open>The configuration sections the admin builders send are what \<open>decodeConfig\<close> reads when the
  radio reports its configuration: display, position and bluetooth sections come back under
  their section name with the value that was set.\<close>

theorem config_round_trip:
  "decodeConfig (display_config_msg secs) = Some (Ret ((ConfigPayload0 (display_config_msg secs))
      \<lparr>Section := ''display'', CfgDisplay := Some (DisplayConfig0\<lparr>ScreenOnSecs := secs\<rparr>)\<rparr>)) \<and>
   decodeConfig (position_config_msg mode) = Some (Ret ((ConfigPayload0 (position_config_msg mode))
      \<lparr>Section := ''position'', CfgPosition := Some (PositionConfig0\<lparr>GPSMode := mode\<rparr>)\<rparr>)) \<and>
   decodeConfig (bluetooth_config_msg enabled btmode pin) =
     Some (Ret ((ConfigPayload0 (bluetooth_config_msg enabled btmode pin))
      \<lparr>Section := ''bluetooth'', CfgBluetooth := Some \<lparr>BtEnabled = enabled, BtMode = btmode, FixedPin = pin\<rparr>\<rparr>))"
proof -
  have l1: "length (encodeLengthDelimited fn (encodeVarintField f v)) < 2 ^ 62" for fn f v
    using length_bytes_field [of fn "encodeVarintField f v"] length_varint_field [of f v] by simp
  let ?bt = "encodeVarintField 1 (if enabled then 1 else 0) @ encodeVarintField 2 (ucast btmode) @
    (if pin > 0 then encodeVarintField 3 (ucast pin) else [])"
  have "length ?bt \<le> 60"
    using length_varint_field [of 1 "if enabled then 1 else 0"] length_varint_field [of 2 "ucast btmode"]
      length_varint_field [of 3 "ucast pin"] by simp
  then have l2: "length (encodeLengthDelimited 7 ?bt) < 2 ^ 62"
    using length_bytes_field [of 7 ?bt] by simp
  show ?thesis
    unfolding display_config_msg_def position_config_msg_def bluetooth_config_msg_def Let_def
    by (intro conjI; rule decodeConfig_section)
      (simp_all only: l1 l2 config_bytes_def decode_display_section decode_position_section
        decode_bluetooth_section lift_outcome_simps, simp_all)
qed

text \<open>Every text of at most 344 bytes, and every position, telemetry report, display
  and GPS setting, gives a ToRadio message that fits a frame, so that \<open>EncodeFrame\<close> does not
  drop it.\<close>

theorem built_messages_fit:
  assumes "length text \<le> 344"
  shows "length (BuildTextMessage rnd to text) \<le> maxFrameLen \<and>
    length (BuildPosition rnd latI lonI altitude) \<le> maxFrameLen \<and>
    length (BuildDeviceMetrics rnd battery voltage) \<le> maxFrameLen \<and>
    length (BuildAdminDisplayConfig rnd to secs) \<le> maxFrameLen \<and>
    length (BuildAdminPositionConfig rnd to mode) \<le> maxFrameLen \<and>
    length (BuildAdminSetFixedPosition rnd to latI lonI altitude ts) \<le> maxFrameLen"
proof -
  have fit: "length (buildToRadio (buildMeshPacket rnd d (buildDataMessage port p))) \<le> maxFrameLen"
    if "length p \<le> 344" for d port p
    using that length_bytes_field [of 1 "buildMeshPacket rnd d (buildDataMessage port p)"]
      length_mesh_packet [of rnd d "buildDataMessage port p"] length_data_message [of port p]
    unfolding buildToRadio_def maxFrameLen_def by linarith
  have disp: "length (encodeLengthDelimited 34 (encodeLengthDelimited fn (encodeVarintField f v))) \<le> 344" for fn f v
    using length_bytes_field [of 34 "encodeLengthDelimited fn (encodeVarintField f v)"]
      length_bytes_field [of fn "encodeVarintField f v"] length_varint_field [of f v] by linarith
  let ?ts = "if ts \<noteq> 0 then encodeFixed32Field 7 ts else []"
  have fixed: "length (encodeLengthDelimited 41 (position_msg latI lonI altitude @ ?ts)) \<le> 344"
    using length_bytes_field [of 41 "position_msg latI lonI altitude @ ?ts"]
      length_position_msg [of latI lonI altitude] length_fixed32_field [of 7 ts] by auto
  have "length (position_msg latI lonI altitude) \<le> 344" "length (encodeLengthDelimited 2 (device_metrics_msg battery voltage)) \<le> 344"
    using length_position_msg [of latI lonI altitude] length_bytes_field [of 2 "device_metrics_msg battery voltage"]
      length_device_metrics [of battery voltage] by linarith+
  with assms disp fixed show ?thesis
    by (simp add: BuildTextMessage_def BuildPosition_def BuildDeviceMetrics_def BuildAdminDisplayConfig_def
        BuildAdminPositionConfig_def BuildAdminSetFixedPosition_def build_admin_def display_config_msg_def
        position_config_msg_def Let_def fit)
qed

end
