(* ===== verification/Metrics.thy ===== *)
theory Metrics
  imports Dispatcher Manager Encode
begin

text \<open>
  \<open>Dispatcher.RequestDeviceMetrics\<close> of \<open>internal/meshtastic/dispatcher.go\<close>: a request sent to
  the local radio and a wait for its answer, which \<open>deliverMetricsResponse\<close> leaves in the
  one-slot channel while other packets are handled. The call is split where it blocks: its
  first part runs up to the \<open>select\<close>, its second part is the \<open>select\<close> with the deferred
  clearing of the channel. The setters of the dispatcher's handlers are here too.
\<close>

section \<open>Wiring\<close>

definition SetSerialManager :: "Dispatcher \<Rightarrow> bool \<Rightarrow> Dispatcher" where "SetSerialManager d m = d\<lparr>serialMgr := m\<rparr>"
definition SetNodeHandler :: "Dispatcher \<Rightarrow> bool \<Rightarrow> Dispatcher" where "SetNodeHandler d h = d\<lparr>nodeHandler := h\<rparr>"
definition SetDroneHandler :: "Dispatcher \<Rightarrow> bool \<Rightarrow> Dispatcher" where "SetDroneHandler d h = d\<lparr>droneHandler := h\<rparr>"
definition SetChatHandler :: "Dispatcher \<Rightarrow> bool \<Rightarrow> Dispatcher" where "SetChatHandler d h = d\<lparr>chatHandler := h\<rparr>"
definition SetStatusRequestHandler :: "Dispatcher \<Rightarrow> bool \<Rightarrow> Dispatcher" where
  "SetStatusRequestHandler d h = d\<lparr>statusRequestHandler := h\<rparr>"
definition SetAdminReplyHandler :: "Dispatcher \<Rightarrow> bool \<Rightarrow> Dispatcher" where
  "SetAdminReplyHandler d h = d\<lparr>adminReplyHandler := h\<rparr>"
definition SetStrandedRecoveryHook :: "Dispatcher \<Rightarrow> bool \<Rightarrow> Dispatcher" where
  "SetStrandedRecoveryHook d h = d\<lparr>strandedHook := h\<rparr>"
definition SetDeviceTimeCallback :: "Dispatcher \<Rightarrow> bool \<Rightarrow> Dispatcher" where
  "SetDeviceTimeCallback d f = d\<lparr>onDeviceTime := f\<rparr>"
definition SetAlertCallback :: "Dispatcher \<Rightarrow> bool \<Rightarrow> Dispatcher" where "SetAlertCallback d f = d\<lparr>onAlertEval := f\<rparr>"
definition SetWebhookCallback :: "Dispatcher \<Rightarrow> bool \<Rightarrow> Dispatcher" where "SetWebhookCallback d f = d\<lparr>onWebhookFire := f\<rparr>"

section \<open>The request\<close>

datatype metrics_error = NoSerialManager | LocalNodeUnknown | RequestInFlight | SendFailed send_error | ContextExpired

text \<open>Up to the \<open>select\<close>: the error and the state, or the bytes written and the waiting state.\<close>

definition RequestDeviceMetrics_send ::
    "bool \<Rightarrow> byte list \<Rightarrow> Dispatcher \<Rightarrow> (metrics_error + byte list) \<times> Dispatcher" where
  "RequestDeviceMetrics_send connected rnd d =
     (if \<not> serialMgr d then (Inl NoSerialManager, d)
      else if localNodeNum d = 0 then (Inl LocalNodeUnknown, d)
      else if metricsReqCh d \<noteq> None then (Inl RequestInFlight, d)
      else
        (case SendToRadio connected (BuildTelemetryRequest rnd (localNodeNum d)) of
           Inl err \<Rightarrow> (Inl (SendFailed err), d\<lparr>metricsReqCh := None\<rparr>)
         | Inr wire \<Rightarrow> (Inr wire, d\<lparr>metricsReqCh := Some []\<rparr>)))"

text \<open>
  The \<open>select\<close>: \<open>None\<close> while neither case is ready. When both are, the runtime picks one;
  \<open>pick_reply\<close> is that choice.
\<close>

definition RequestDeviceMetrics_wait ::
    "bool \<Rightarrow> bool \<Rightarrow> Dispatcher \<Rightarrow> ((metrics_error + DeviceMetrics) \<times> Dispatcher) option" where
  "RequestDeviceMetrics_wait ctx_done pick_reply d =
     (case metricsReqCh d of
        Some (dm # _) \<Rightarrow>
          Some (if ctx_done \<and> \<not> pick_reply then Inl ContextExpired else Inr dm, d\<lparr>metricsReqCh := None\<rparr>)
      | _ \<Rightarrow> if ctx_done then Some (Inl ContextExpired, d\<lparr>metricsReqCh := None\<rparr>) else None)"

section \<open>What reaches the channel\<close>

text \<open>The device metrics of node \<open>n\<close> among the calls of the dispatcher.\<close>

definition metrics_from :: "u32 \<Rightarrow> effect list \<Rightarrow> DeviceMetrics list" where
  "metrics_from n es = List.map_filter (\<lambda>e. case e of
     HandleTelemetry f dm \<Rightarrow> if f = n then Some dm else None | _ \<Rightarrow> None) es"

lemma metrics_from_simps [simp]:
  "metrics_from n [] = []"
  "metrics_from n (e # es) = (case e of HandleTelemetry f dm \<Rightarrow> if f = n then [dm] else [] | _ \<Rightarrow> []) @ metrics_from n es"
  "metrics_from n (es @ es') = metrics_from n es @ metrics_from n es'"
  by (simp_all add: metrics_from_def map_filter_simps map_filter_append split: effect.splits)

lemma metrics_from_only_if [simp]: "metrics_from n (only_if b es) = (if b then metrics_from n es else [])"
  by (simp add: only_if_def)

text \<open>Waiting state and first answer: what the slot holds after the values \<open>dms\<close> were offered.\<close>

definition slot_after :: "DeviceMetrics list option \<Rightarrow> DeviceMetrics list \<Rightarrow> DeviceMetrics list option" where
  "slot_after ch dms = (case ch of None \<Rightarrow> None | Some q \<Rightarrow> Some (if q = [] then take 1 dms else q))"

lemma slot_after_Nil [simp]: "slot_after ch [] = ch"
  by (cases ch) (auto simp: slot_after_def)

lemma slot_after_append: "slot_after (slot_after ch xs) ys = slot_after ch (xs @ ys)"
  by (cases ch; cases xs) (auto simp: slot_after_def)

lemma metricsReqCh_deliver: "metricsReqCh (deliverMetricsResponse d dm) = slot_after (metricsReqCh d) [dm]"
  by (auto simp: deliverMetricsResponse_def slot_after_def split: option.splits)

lemma nodeHandler_deliver [simp]: "nodeHandler (deliverMetricsResponse d dm) = nodeHandler d"
  by (simp add: deliverMetricsResponse_def split: option.splits)

lemma metrics_from_telemetry:
  "nodeHandler d \<Longrightarrow> metrics_from n (telemetry_effects d mp t) =
     (case fst t of Some dm \<Rightarrow> if From mp = n then [dm] else [] | None \<Rightarrow> [])"
  by (simp add: telemetry_effects_def split: option.splits)

lemma metrics_from_others [simp]:
  "metrics_from n (text_effects d mp) = []" "metrics_from n (position_effects d mp pos) = []"
  "metrics_from n (drone_effects d mp) = []"
  by (simp_all add: text_effects_def Let_def position_effects_def drone_effects_def)

lemma route_packet_slot:
  assumes "route_packet d mp = Some (Ret (d', es))" "nodeHandler d"
  shows "nodeHandler d' \<and> metricsReqCh d' = slot_after (metricsReqCh d) (metrics_from (localNodeNum d) es)"
proof (cases "PortNum mp = mesh_PortNumTelemetry \<and> Payload mp \<noteq> []")
  case True
  with assms(1) obtain t where "es = telemetry_effects d mp t"
    "d' = (case fst t of Some dm \<Rightarrow> if From mp = localNodeNum d then deliverMetricsResponse d dm else d | None \<Rightarrow> d)"
    by (auto simp: route_packet_def mesh_PortNumTelemetry_def mesh_PortNumTextMessage_def mesh_PortNumPosition_def
        lift_outcome_Ret Let_def)
  with assms(2) show ?thesis by (simp add: metrics_from_telemetry metricsReqCh_deliver split: option.splits)
next
  case False
  with assms show ?thesis unfolding route_packet_def Let_def
    by (auto simp: lift_outcome_Ret split: if_splits)
qed

lemma handleMeshPacket_slot:
  assumes "handleMeshPacket d now ln mp = Some (Ret (d', es))" "nodeHandler d"
  shows "nodeHandler d' \<and> metricsReqCh d' = slot_after (metricsReqCh d) (metrics_from (localNodeNum d) es)"
proof -
  obtain dup where dup: "isDuplicate d now mp = (dup, d\<lparr>dedup := snd (dedup_check (dedup d) now (dedup_key mp))\<rparr>)"
    using isDuplicate_state(1) [of d now mp] by (metis prod.collapse)
  with assms show ?thesis
    by (cases dup) (auto simp: handleMeshPacket_def Let_def lift_outcome_Ret classify_effects_def
        dest!: route_packet_slot split: if_splits)
qed

lemma HandlePacket_slot:
  assumes "HandlePacket d now ln pkt = Some (Ret (d', es))" "nodeHandler d"
  shows "nodeHandler d' \<and> metricsReqCh d' = slot_after (metricsReqCh d) (metrics_from (localNodeNum d) es)"
proof (cases "PktType pkt = FromRadioMeshPacket")
  case True
  with assms handleMeshPacket_slot show ?thesis by (auto simp: HandlePacket_def split: option.splits)
next
  case False
  with assms show ?thesis
    by (auto simp: HandlePacket_def handle_MyInfo_def handle_NodeInfo_def handle_Metadata_def local_effects_def
        Let_def split: FromRadioType.splits option.splits if_splits)
qed

lemma HandlePackets_slot:
  assumes "HandlePackets d ln pkts = Some (Ret (d', es))" "nodeHandler d" "localNodeSeen d"
    "\<forall>(now, pkt) \<in> set pkts. PktType pkt \<noteq> FromRadioMyInfo"
  shows "metricsReqCh d' = slot_after (metricsReqCh d) (metrics_from (localNodeNum d) es)"
  using assms
proof (induction pkts arbitrary: d es)
  case (Cons x pkts)
  obtain now pkt where x: "x = (now, pkt)" by fastforce
  obtain d1 es1 es2 where run: "HandlePacket d now ln pkt = Some (Ret (d1, es1))"
    "HandlePackets d1 ln pkts = Some (Ret (d', es2))" "es = es1 @ es2"
    using Cons.prems(1) unfolding x HandlePackets_Cons by blast
  have "localNodeSeen d1 \<and> localNodeNum d1 = localNodeNum d"
    using HandlePacket_local [OF run(1) Cons.prems(3)] Cons.prems(4) x by auto
  with Cons.IH [OF run(2)] HandlePacket_slot [OF run(1) Cons.prems(2)] Cons.prems(4) run(3)
  show ?case by (simp add: slot_after_append)
qed simp

section \<open>Properties\<close>

text \<open>A metrics request gets the first answer of the local radio: whatever packets are handled
  after it was sent, the wait is over exactly when the dispatcher has passed on device metrics
  of the local node, it returns the first of them, and the channel is free again; until then a
  second request is refused and leaves everything as it is.\<close>

theorem metrics_request_answered:
  assumes "RequestDeviceMetrics_send True rnd d = (Inr wire, d1)" "nodeHandler d" "localNodeSeen d"
    and "HandlePackets d1 ln pkts = Some (Ret (d2, es))" "\<forall>(now, pkt) \<in> set pkts. PktType pkt \<noteq> FromRadioMyInfo"
    and "serialMgr d2" "localNodeNum d2 \<noteq> 0"
  shows "wire = EncodeFrame (BuildTelemetryRequest rnd (localNodeNum d)) \<and>
    RequestDeviceMetrics_wait False pick d2 =
      (case metrics_from (localNodeNum d) es of [] \<Rightarrow> None | dm # _ \<Rightarrow> Some (Inr dm, d2\<lparr>metricsReqCh := None\<rparr>)) \<and>
    RequestDeviceMetrics_send c rnd' d2 = (Inl RequestInFlight, d2)"
proof -
  have d1: "d1 = d\<lparr>metricsReqCh := Some []\<rparr>" "wire = EncodeFrame (BuildTelemetryRequest rnd (localNodeNum d))"
    using assms(1) by (auto simp: RequestDeviceMetrics_send_def SendToRadio_def split: if_splits)
  have "metricsReqCh d2 = Some (take 1 (metrics_from (localNodeNum d) es))"
    using HandlePackets_slot [OF assms(4) _ _ assms(5)] assms(2,3) by (simp add: d1 slot_after_def)
  with d1(2) assms(6,7) show ?thesis
    by (simp add: RequestDeviceMetrics_wait_def RequestDeviceMetrics_send_def split: list.splits)
qed

end
