(* ===== verification/Commands.thy ===== *)
theory Commands
  imports GoStrings
begin

text \<open>
  The command queue of \<open>internal/commands/service.go\<close> and the table \<open>ACKMap\<close> of
  \<open>builder.go\<close>: \<open>Enqueue\<close> with the automatic \<open>RAW_BLE_ON\<close>, the sender goroutine, both
  acknowledgement handlers, scan detections and their merge, probe hits, deletion and the
  scan timeouts. Commands are objects on a heap, because the queue, the sender goroutines and
  the callers share them; the state is the heap, the map \<open>pending\<close> and the per-node rate
  table. What leaves the service (broadcasts, persistence, new goroutines, chat echoes) is a
  list of effects. Go's iteration order over a map is arbitrary, so each loop over \<open>pending\<close>
  takes the order as an argument. Times are nanoseconds. \<open>Payload\<close> is kept as its JSON text,
  \<open>strconv.Quote\<close> and the float64 increment are arguments of the definitions that use them,
  and the random bytes of the n-th command object are \<open>rnd n\<close>.
\<close>

section \<open>Data\<close>

datatype CommandStatus =
  StatusPending | StatusSent | StatusAcked | StatusRunning | StatusOK | StatusFailed | StatusError | StatusTimeout

record ScanDetection =
  MAC :: string
  RSSI :: int
  Band :: string
  Source :: string
  DetectionType :: string
  Manufacturer :: string
  LocalName :: string

text \<open>The values of the \<open>Result\<close> map that the service distinguishes.\<close>

datatype 'f res_val = RInt int | RFloat 'f | RStr string | RDetections "ScanDetection list" | ROther

record 'f Command =
  ID :: string
  TargetNode :: u32
  CommandType :: string
  PayloadJSON :: string
  Status :: CommandStatus
  SentAt :: "int option"
  AckedAt :: "int option"
  FinishedAt :: "int option"
  Result :: "(string \<rightharpoonup> 'f res_val) option"
  RetryCount :: int
  MaxRetries :: int
  CreatedAt :: int
  Target :: string
  Name :: string
  Params :: "string list"
  Line :: string
  AckKind :: string
  AckStatus :: string
  AckNode :: string
  ResultText :: string
  ErrorText :: string
  autoRawAttached :: bool
  scanRows :: "ScanDetection list"

record 'f CmdService =
  cmds :: "nat \<Rightarrow> 'f Command"
  next_cmd :: nat
  pending :: "string \<rightharpoonup> nat"
  nodeRate :: "u32 \<rightharpoonup> int"
  hasChatEcho :: bool

datatype cmd_effect = GoSend nat int | GoPersist nat | Broadcast nat | GoChatEcho u32 u32 u32 string

datatype cmd_error = ErrRateLimited

definition ACKMap :: "(string \<times> string) list" where
  "ACKMap = [
    (''SCAN_ACK'', ''SCAN_START''), (''DEVICE_SCAN_ACK'', ''DEVICE_SCAN_START''),
    (''DRONE_ACK'', ''DRONE_START''), (''DEAUTH_ACK'', ''DEAUTH_START''),
    (''RANDOMIZATION_ACK'', ''RANDOMIZATION_START''), (''BASELINE_ACK'', ''BASELINE_START''),
    (''TRI_START_ACK'', ''TRIANGULATE_START''), (''TRIANGULATE_ACK'', ''TRIANGULATE_START''),
    (''TRIANGULATE_STOP_ACK'', ''TRIANGULATE_STOP''), (''ERASE_ACK'', ''ERASE_FORCE''),
    (''CONFIG_ACK'', ''CONFIG_CHANNELS''), (''AUTOERASE_ACK'', ''AUTOERASE_ENABLE''),
    (''AUTOERASE_STATUS_ACK'', ''AUTOERASE_STATUS''),
    (''BATTERY_SAVER_ACK'', ''BATTERY_SAVER_START''), (''HB_ACK'', ''HB_ON''),
    (''TARGET_INTERVAL_ACK'', ''TARGET_INTERVAL''), (''STOP_ACK'', ''STOP''),
    (''START_ACK'', ''START''), (''REBOOT_ACK'', ''REBOOT''), (''STATUS_ACK'', ''STATUS''),
    (''VIBRATION_OFF_ACK'', ''VIBRATION_OFF''), (''VIBRATION_ON_ACK'', ''VIBRATION_ON''),
    (''PROBE_ACK'', ''PROBE_START''), (''HITS_RESET_ACK'', ''HITS_RESET''),
    (''DEBOUNCE_ACK'', ''DEBOUNCE_SET''), (''CODE_ACK'', ''CODE_ADD''),
    (''CODE_LIST_ACK'', ''CODE_LIST''), (''MODEL_LIST_ACK'', ''MODEL_LIST''),
    (''MODEL_SET_ACK'', ''MODEL_SET''), (''DEDUP_ACK'', ''DEDUP_INTERVAL''),
    (''CONF_ACK'', ''CONF_THRESHOLD''), (''WIFI_ON_ACK'', ''WIFI_ON''),
    (''WIFI_OFF_ACK'', ''WIFI_OFF''), (''WIFI_SSID_ACK'', ''WIFI_SSID''),
    (''WIFI_PSK_ACK'', ''WIFI_PSK''), (''VIBRATION_STATUS_ACK'', ''VIBRATION_STATUS''),
    (''BASELINE_STATUS_ACK'', ''BASELINE_STATUS''),
    (''BATTERY_SAVER_STATUS_ACK'', ''BATTERY_SAVER_STATUS''), (''RAW_BLE_ACK'', ''RAW_BLE_ON''),
    (''RAW_BLE_STATUS_ACK'', ''RAW_BLE_STATUS''), (''I2C_SCAN_ACK'', ''I2C_SCAN''),
    (''C5_I2C_SCAN_ACK'', ''C5_I2C_SCAN''), (''SCAN_DONE_ACK'', ''SCAN_START''),
    (''DEVICE_SCAN_DONE_ACK'', ''DEVICE_SCAN_START''), (''LIST_SCAN_DONE_ACK'', ''SCAN_START''),
    (''DEAUTH_DONE_ACK'', ''DEAUTH_START''), (''DRONE_DONE_ACK'', ''DRONE_START''),
    (''RANDOMIZATION_DONE_ACK'', ''RANDOMIZATION_START''),
    (''BASELINE_DONE_ACK'', ''BASELINE_START'')]"

section \<open>Commands and their ids\<close>

definition hex_byte :: "byte \<Rightarrow> string" where
  "hex_byte b = [hex_lower (unat b div 16), hex_lower (unat b mod 16)]"

definition newCommandID :: "byte list \<Rightarrow> string" where
  "newCommandID b =
     (let h = (\<lambda>lo hi. concat (map hex_byte (take (hi - lo) (drop lo b)))) in
      h 0 4 @ ''-'' @ h 4 6 @ ''-'' @ h 6 8 @ ''-'' @ h 8 10 @ ''-'' @ h 10 16)"

text \<open>The composite literal of a follow-on command.\<close>

definition follow_command :: "string \<Rightarrow> 'f Command \<Rightarrow> string \<Rightarrow> int \<Rightarrow> 'f Command" where
  "follow_command cid parent name now =
     \<lparr>ID = cid, TargetNode = TargetNode parent, CommandType = name, PayloadJSON = ''null'',
      Status = StatusPending, SentAt = None, AckedAt = None, FinishedAt = None, Result = None,
      RetryCount = 0, MaxRetries = 3, CreatedAt = now, Target = Target parent, Name = name, Params = [],
      Line = Target parent @ '' '' @ name, AckKind = [], AckStatus = [], AckNode = [], ResultText = [],
      ErrorText = [], autoRawAttached = False, scanRows = []\<rparr>"

definition autoAttachDelay :: int where "autoAttachDelay = 3 * 10 ^ 9"

text \<open>A new command object, registered under its id.\<close>

definition add_pending :: "'f CmdService \<Rightarrow> 'f Command \<Rightarrow> nat \<times> 'f CmdService" where
  "add_pending s c =
     (let a = next_cmd s in
      (a, s\<lparr>cmds := (cmds s)(a := c), next_cmd := Suc a, pending := (pending s)(ID c \<mapsto> a)\<rparr>))"

definition enqueuePrecedingRawBLEOnLocked ::
  "(nat \<Rightarrow> byte list) \<Rightarrow> 'f CmdService \<Rightarrow> int \<Rightarrow> nat \<Rightarrow> 'f CmdService \<times> cmd_effect list" where
  "enqueuePrecedingRawBLEOnLocked rnd s now parent =
     (let (a, s') = add_pending s
            (follow_command (newCommandID (rnd (next_cmd s))) (cmds s parent) ''RAW_BLE_ON'' now)
      in (s', [GoSend a 0, GoSend parent autoAttachDelay]))"

definition enqueueRawBLEFollowonLocked ::
  "(nat \<Rightarrow> byte list) \<Rightarrow> 'f CmdService \<Rightarrow> int \<Rightarrow> nat \<Rightarrow> string \<Rightarrow> 'f CmdService \<times> cmd_effect list" where
  "enqueueRawBLEFollowonLocked rnd s now parent name =
     (let (a, s') = add_pending s
            (follow_command (newCommandID (rnd (next_cmd s))) (cmds s parent) name now)
      in (s', [GoSend a autoAttachDelay]))"

section \<open>Enqueue\<close>

definition rate_window :: int where "rate_window = 2 * 10 ^ 9"

definition Enqueue :: "(nat \<Rightarrow> byte list) \<Rightarrow> 'f CmdService \<Rightarrow> int \<Rightarrow> 'f Command
    \<Rightarrow> cmd_error + nat \<times> 'f CmdService \<times> cmd_effect list" where
  "Enqueue rnd s now cmd =
     (if (case nodeRate s (TargetNode cmd) of None \<Rightarrow> False | Some sent \<Rightarrow> now - sent < rate_window)
      then Inl ErrRateLimited
      else
        (let cmd = cmd\<lparr>Status := StatusPending, CreatedAt := now,
               MaxRetries := (if MaxRetries cmd = 0 then 3 else MaxRetries cmd),
               autoRawAttached := (Name cmd = ''DEVICE_SCAN_START'' \<or> autoRawAttached cmd)\<rparr>;
             (a, s) = add_pending s cmd
         in if Name cmd = ''DEVICE_SCAN_START''
            then (let (s, es) = enqueuePrecedingRawBLEOnLocked rnd s now a in Inr (a, s, es))
            else Inr (a, s, [GoSend a 0])))"

section \<open>The sender goroutine\<close>

definition wire_payload :: "'f Command \<Rightarrow> string" where
  "wire_payload c = (if Line c \<noteq> [] then Line c else PayloadJSON c)"

text \<open>
  The part of \<open>send\<close> after \<open>sendFn\<close> has returned; \<open>ok\<close> is whether it returned no error.
  Without a send function the goroutine ends before this.
\<close>

definition send_finish :: "'f CmdService \<Rightarrow> int \<Rightarrow> nat \<Rightarrow> bool \<Rightarrow> 'f CmdService \<times> cmd_effect list" where
  "send_finish s now a ok =
     (let c = cmds s a;
          s' = (if \<not> ok then
                  (if RetryCount c + 1 \<ge> MaxRetries c
                   then s\<lparr>cmds := (cmds s)(a := c\<lparr>RetryCount := RetryCount c + 1, Status := StatusError\<rparr>),
                          pending := (pending s)(ID c := None)\<rparr>
                   else s\<lparr>cmds := (cmds s)(a := c\<lparr>RetryCount := RetryCount c + 1\<rparr>)\<rparr>)
                else s\<lparr>cmds := (cmds s)(a := c\<lparr>Status := StatusSent, SentAt := Some now\<rparr>),
                       nodeRate := (nodeRate s)(TargetNode c \<mapsto> now)\<rparr>);
          echo = (if hasChatEcho s \<and> ok \<and> wire_payload c \<noteq> []
                  then [GoChatEcho 0 (if TargetNode c = 0 then 0xFFFFFFFF else TargetNode c) 0 (wire_payload c)]
                  else [])
      in (s', [Broadcast a] @ echo @ [GoPersist a]))"

section \<open>Scan results\<close>

definition merge_row :: "ScanDetection \<Rightarrow> ScanDetection \<Rightarrow> ScanDetection" where
  "merge_row e r =
     e\<lparr>Source := (if Source r = ''BLERAW'' then ''BLERAW'' else Source e),
       Band := (if Band e = [] then Band r else Band e),
       DetectionType := (if DetectionType e = [] then DetectionType r else DetectionType e),
       Manufacturer := (if Manufacturer e = [] then Manufacturer r else Manufacturer e),
       LocalName := (if LocalName e = [] then LocalName r else LocalName e),
       RSSI := RSSI r\<rparr>"

text \<open>
  The loop of \<open>mergeScanRows\<close>; \<open>byMAC\<close> and \<open>order\<close> together are the list of the merged rows in
  the order of first sight.
\<close>

fun merge_into :: "ScanDetection list \<Rightarrow> ScanDetection \<Rightarrow> ScanDetection list" where
  "merge_into [] r = [r]"
| "merge_into (e # es) r = (if MAC e = MAC r then merge_row e r # es else e # merge_into es r)"

definition mergeScanRows :: "ScanDetection list \<Rightarrow> ScanDetection list" where
  "mergeScanRows rows = foldl merge_into [] rows"

definition format_row :: "(string \<Rightarrow> string) \<Rightarrow> ScanDetection \<Rightarrow> string" where
  "format_row quote r =
     ''['' @ Source r @ ''] '' @ MAC r @ (if Band r \<noteq> [] then '' '' @ Band r else []) @
     '' RSSI='' @ show_int (RSSI r) @
     (if DetectionType r \<noteq> [] then '' type='' @ DetectionType r else []) @
     (if Manufacturer r \<noteq> [] then '' mfr='' @ quote (Manufacturer r) else []) @
     (if LocalName r \<noteq> [] then '' name='' @ quote (LocalName r) else []) @ [CHR 0x0A]"

definition formatScanRows :: "(string \<Rightarrow> string) \<Rightarrow> ScanDetection list \<Rightarrow> string" where
  "formatScanRows quote rows =
     (if rows = [] then []
      else ''Devices: '' @ show_nat (length rows) @ [CHR 0x0A] @ concat (map (format_row quote) rows))"

definition set_result :: "string \<Rightarrow> 'f res_val \<Rightarrow> 'f Command \<Rightarrow> 'f Command" where
  "set_result k v c = c\<lparr>Result := Some ((case Result c of None \<Rightarrow> Map.empty | Some m \<Rightarrow> m)(k \<mapsto> v))\<rparr>"

definition finalise_scan :: "(string \<Rightarrow> string) \<Rightarrow> 'f Command \<Rightarrow> 'f Command" where
  "finalise_scan quote c =
     (if (Name c = ''DEVICE_SCAN_START'' \<or> Name c = ''SCAN_START'') \<and> scanRows c \<noteq> []
      then (let merged = mergeScanRows (scanRows c) in
            set_result ''detections'' (RDetections merged) (c\<lparr>ResultText := formatScanRows quote merged\<rparr>))
      else c)"

section \<open>Acknowledgements\<close>

definition HandleACK :: "'f CmdService \<Rightarrow> int \<Rightarrow> string \<Rightarrow> (string \<rightharpoonup> 'f res_val) option
    \<Rightarrow> 'f CmdService \<times> cmd_effect list" where
  "HandleACK s now cmdID result =
     (case pending s cmdID of
        None \<Rightarrow> (s, [])
      | Some a \<Rightarrow>
         (s\<lparr>cmds := (cmds s)(a := (cmds s a)\<lparr>Status := StatusOK, AckedAt := Some now,
                FinishedAt := Some now, Result := result\<rparr>),
            pending := (pending s)(cmdID := None)\<rparr>, [Broadcast a, GoPersist a]))"

definition cmd_name :: "'f Command \<Rightarrow> string" where
  "cmd_name c = (if Name c = [] then CommandType c else Name c)"

definition ack_prefix :: "string \<Rightarrow> string" where
  "ack_prefix ackKind =
     (if ackKind = ''CONFIG_ACK'' then ''CONFIG_''
      else if ackKind = ''HB_ACK'' then ''HB_''
      else if ackKind = ''CODE_ACK'' then ''CODE_''
      else if ackKind = ''PROBE_ACK'' then ''PROBE_''
      else if ackKind = ''RAW_BLE_ACK'' then ''RAW_BLE_'' else [])"

definition ack_suffix :: "string \<Rightarrow> string" where
  "ack_suffix ackKind =
     (if ackKind = ''SCAN_DONE_ACK'' then ''SCAN_START''
      else if ackKind = ''STOP_ACK'' then ''STOP'' else [])"

definition ack_candidate :: "string \<Rightarrow> string \<Rightarrow> 'f Command \<Rightarrow> bool" where
  "ack_candidate ackKind cmdName c \<longleftrightarrow>
     (cmd_name c = cmdName \<or>
      ack_prefix ackKind \<noteq> [] \<and> has_prefix (ack_prefix ackKind) (cmd_name c) \<or>
      ack_suffix ackKind \<noteq> [] \<and> has_suffix (ack_suffix ackKind) (cmd_name c)) \<and>
     Status c \<in> {StatusPending, StatusSent, StatusRunning}"

text \<open>The latest candidate met by a loop over \<open>pending\<close> in the order \<open>ord\<close>.\<close>

fun latest :: "'f CmdService \<Rightarrow> ('f Command \<Rightarrow> bool) \<Rightarrow> string list \<Rightarrow> (string \<times> nat) option
    \<Rightarrow> (string \<times> nat) option" where
  "latest s P [] found = found"
| "latest s P (k # ks) found =
     (case pending s k of
        None \<Rightarrow> latest s P ks found
      | Some a \<Rightarrow>
         latest s P ks
           (if P (cmds s a) \<and>
               (case found of None \<Rightarrow> True | Some (_, b) \<Rightarrow> CreatedAt (cmds s a) > CreatedAt (cmds s b))
            then Some (k, a) else found))"

definition terminal_ok :: "string \<Rightarrow> string \<Rightarrow> bool" where
  "terminal_ok ackKind upper \<longleftrightarrow>
     upper \<in> set [[], ''OK'', ''COMPLETE'', ''COMPLETED'', ''FINISHED'', ''SUCCESS'', ''STOPPED'', ''ENABLED'',
       ''DISABLED'', ''ON'', ''OFF'', ''CANCELLED'', ''CANCELED'', ''UPDATED'', ''EXISTS''] \<or>
     has_prefix ''INTERVAL'' upper \<or>
     (ackKind = ''TARGET_INTERVAL_ACK'' \<and> \<not> has_prefix ''INVALID'' upper \<and> upper \<noteq> [])"

definition terminal_err :: "string \<Rightarrow> bool" where
  "terminal_err upper \<longleftrightarrow>
     upper \<in> set [''ERROR'', ''FAILED'', ''TIMEOUT'', ''FULL'', ''NOT_FOUND''] \<or> has_prefix ''INVALID'' upper"

definition ack_status :: "string \<Rightarrow> string \<Rightarrow> CommandStatus" where
  "ack_status ackKind ackStatus =
     (let upper = ToUpper ackStatus in
      if upper = ''STARTED'' then StatusRunning
      else if terminal_err upper then StatusError
      else if terminal_ok ackKind upper then StatusOK
      else StatusSent)"

definition acked_command :: "int \<Rightarrow> string \<Rightarrow> string \<Rightarrow> string \<Rightarrow> (string \<rightharpoonup> 'f res_val) option
    \<Rightarrow> 'f Command \<Rightarrow> 'f Command" where
  "acked_command now ackKind ackStatus ackNode result c =
     c\<lparr>AckKind := ackKind, AckStatus := ackStatus, AckNode := ackNode,
       Status := ack_status ackKind ackStatus,
       ErrorText := (if ack_status ackKind ackStatus = StatusError then ackStatus else ErrorText c),
       AckedAt := Some now, Result := result\<rparr>"

text \<open>The update of the matched command, up to the first broadcast.\<close>

definition ack_matched :: "(string \<Rightarrow> string) \<Rightarrow> (nat \<Rightarrow> byte list) \<Rightarrow> 'f CmdService \<Rightarrow> int \<Rightarrow> string \<Rightarrow> nat
    \<Rightarrow> 'f Command \<Rightarrow> 'f CmdService \<times> cmd_effect list" where
  "ack_matched quote rnd s now key a c =
     (if Status c = StatusRunning then (s\<lparr>cmds := (cmds s)(a := c)\<rparr>, [Broadcast a, GoPersist a])
      else
        (let c = finalise_scan quote (c\<lparr>FinishedAt := Some now\<rparr>);
             s = s\<lparr>cmds := (cmds s)(a := c), pending := (pending s)(key := None)\<rparr>;
             (s, es) = (if autoRawAttached c \<and> Name c = ''DEVICE_SCAN_START''
                        then enqueueRawBLEFollowonLocked rnd s now a ''RAW_BLE_OFF'' else (s, []))
         in (s, es @ [Broadcast a, GoPersist a])))"

text \<open>The \<open>PROBE_ACK:STOPPED\<close> loop.\<close>

fun probe_fanout :: "'f CmdService \<Rightarrow> int \<Rightarrow> string list \<Rightarrow> 'f CmdService \<times> cmd_effect list" where
  "probe_fanout s now [] = (s, [])"
| "probe_fanout s now (k # ks) =
     (case pending s k of
        None \<Rightarrow> probe_fanout s now ks
      | Some a \<Rightarrow>
         if cmd_name (cmds s a) \<noteq> ''PROBE_START'' \<or> Status (cmds s a) \<noteq> StatusRunning
         then probe_fanout s now ks
         else
           (let s = s\<lparr>cmds := (cmds s)(a := (cmds s a)\<lparr>Status := StatusOK, FinishedAt := Some now\<rparr>),
                      pending := (pending s)(k := None)\<rparr>;
                (s, es) = probe_fanout s now ks
            in (s, [Broadcast a, GoPersist a] @ es)))"

definition scan_class :: "string list" where
  "scan_class = [''SCAN_START'', ''DEVICE_SCAN_START'', ''BASELINE_START'', ''DRONE_START'', ''DEAUTH_START'',
     ''RANDOMIZATION_START'', ''PROBE_START'']"

text \<open>Whether the \<open>STOP_ACK\<close> of a command with target \<open>tgt\<close> closes the command \<open>c\<close>.\<close>

definition stops :: "string \<Rightarrow> 'f Command \<Rightarrow> bool" where
  "stops tgt c \<longleftrightarrow> cmd_name c \<in> set scan_class \<and> Status c = StatusRunning \<and>
     (tgt = ''@ALL'' \<or> Target c = tgt)"

definition stop_command :: "(string \<Rightarrow> string) \<Rightarrow> (nat \<Rightarrow> byte list) \<Rightarrow> 'f CmdService \<Rightarrow> int \<Rightarrow> string \<Rightarrow> nat
    \<Rightarrow> 'f CmdService \<times> cmd_effect list" where
  "stop_command quote rnd s now k a =
     (let c = finalise_scan quote ((cmds s a)\<lparr>Status := StatusOK, FinishedAt := Some now\<rparr>);
          s = s\<lparr>cmds := (cmds s)(a := c), pending := (pending s)(k := None)\<rparr>;
          (s, es) = (if autoRawAttached c \<and> Name c = ''DEVICE_SCAN_START''
                     then enqueueRawBLEFollowonLocked rnd s now a ''RAW_BLE_OFF'' else (s, []))
      in (s, [Broadcast a, GoPersist a] @ es))"

fun stop_fanout :: "(string \<Rightarrow> string) \<Rightarrow> (nat \<Rightarrow> byte list) \<Rightarrow> 'f CmdService \<Rightarrow> int \<Rightarrow> string \<Rightarrow> string list
    \<Rightarrow> 'f CmdService \<times> cmd_effect list" where
  "stop_fanout quote rnd s now tgt [] = (s, [])"
| "stop_fanout quote rnd s now tgt (k # ks) =
     (case pending s k of
        None \<Rightarrow> stop_fanout quote rnd s now tgt ks
      | Some a \<Rightarrow>
         if \<not> stops tgt (cmds s a) then stop_fanout quote rnd s now tgt ks
         else
           (let (s, es) = stop_command quote rnd s now k a;
                (s, es') = stop_fanout quote rnd s now tgt ks
            in (s, es @ es')))"

definition HandleStructuredACK :: "(string \<Rightarrow> string) \<Rightarrow> (nat \<Rightarrow> byte list) \<Rightarrow> 'f CmdService \<Rightarrow> int
    \<Rightarrow> string list \<Rightarrow> string list \<Rightarrow> string \<Rightarrow> string \<Rightarrow> string \<Rightarrow> (string \<rightharpoonup> 'f res_val) option
    \<Rightarrow> 'f CmdService \<times> cmd_effect list" where
  "HandleStructuredACK quote rnd s now ord ord' ackKind ackStatus ackNode result =
     (case map_of ACKMap ackKind of
        None \<Rightarrow> (s, [])
      | Some cmdName \<Rightarrow>
         (case latest s (ack_candidate ackKind cmdName) ord None of
            None \<Rightarrow> (s, [])
          | Some (key, a) \<Rightarrow>
             (let tgt = Target (cmds s a);
                  (s, es1) = ack_matched quote rnd s now key a
                    (acked_command now ackKind ackStatus ackNode result (cmds s a));
                  (s, es2) = (if ackKind = ''PROBE_ACK'' \<and> ToUpper ackStatus = ''STOPPED''
                              then probe_fanout s now ord' else (s, []));
                  (s, es3) = (if ackKind = ''STOP_ACK'' then stop_fanout quote rnd s now tgt ord' else (s, []))
              in (s, es1 @ es2 @ es3))))"

section \<open>Detections and probe hits\<close>

definition record_row :: "string \<Rightarrow> ScanDetection \<Rightarrow> 'f Command \<Rightarrow> 'f Command" where
  "record_row nodeID det c =
     (if (cmd_name c = ''DEVICE_SCAN_START'' \<or> cmd_name c = ''SCAN_START'') \<and> Status c = StatusRunning \<and>
         (Target c = ''@ALL'' \<or> Target c = ''@'' @ nodeID \<or> AckNode c = nodeID) \<and>
         \<not> list_ex (\<lambda>r. MAC r = MAC det \<and> Source r = Source det) (scanRows c)
      then c\<lparr>scanRows := scanRows c @ [det]\<rparr> else c)"

definition RecordScanDetection :: "'f CmdService \<Rightarrow> string list \<Rightarrow> string \<Rightarrow> ScanDetection \<Rightarrow> 'f CmdService" where
  "RecordScanDetection s ord nodeID det =
     (if MAC det = [] \<or> Source det = [] then s
      else fold (\<lambda>k s. case pending s k of None \<Rightarrow> s
             | Some a \<Rightarrow> s\<lparr>cmds := (cmds s)(a := record_row nodeID det (cmds s a))\<rparr>) ord s)"

definition RecordProbeHit :: "('f \<Rightarrow> 'f) \<Rightarrow> 'f CmdService \<Rightarrow> string list \<Rightarrow> 'f CmdService \<times> cmd_effect list" where
  "RecordProbeHit float_inc s ord =
     (case latest s (\<lambda>c. cmd_name c = ''PROBE_START'' \<and> Status c = StatusRunning) ord None of
        None \<Rightarrow> (s, [])
      | Some (_, a) \<Rightarrow>
         (let c = cmds s a;
              v = (case (case Result c of None \<Rightarrow> None | Some m \<Rightarrow> m ''probeHits'') of
                     Some (RFloat f) \<Rightarrow> RFloat (float_inc f)
                   | Some (RInt n) \<Rightarrow> RInt (wrap64 (n + 1))
                   | _ \<Rightarrow> RInt 1)
          in (s\<lparr>cmds := (cmds s)(a := set_result ''probeHits'' v c)\<rparr>, [Broadcast a, GoPersist a])))"

section \<open>Deletion and timeouts\<close>

text \<open>\<open>Delete\<close> up to the database statement.\<close>

definition Delete :: "'f CmdService \<Rightarrow> string \<Rightarrow> 'f CmdService" where
  "Delete s cid = s\<lparr>pending := (pending s)(cid := None)\<rparr>"

text \<open>
  Whether \<open>EnforceScanTimeouts\<close> closes a command. The product \<open>time.Duration(d)*time.Second\<close>
  and the sum with the grace period wrap at 64 bits.
\<close>

definition scan_elapsed :: "int \<Rightarrow> int \<Rightarrow> 'f Command \<Rightarrow> bool" where
  "scan_elapsed now grace c \<longleftrightarrow>
     cmd_name c = ''PROBE_START'' \<and> Status c = StatusRunning \<and>
     (case SentAt c of
        None \<Rightarrow> False
      | Some sent \<Rightarrow>
         \<not> list_ex (\<lambda>p. EqualFold_ascii (TrimSpace p) ''FOREVER'') (Params c) \<and>
         2 \<le> length (Params c) \<and>
         (case Atoi (TrimSpace (Params c ! 1)) of
            None \<Rightarrow> False
          | Some d \<Rightarrow> 0 < d \<and> wrap64 (wrap64 (d * 10 ^ 9) + grace) \<le> now - sent))"

fun EnforceScanTimeouts :: "'f CmdService \<Rightarrow> int \<Rightarrow> int \<Rightarrow> string list \<Rightarrow> 'f CmdService \<times> cmd_effect list \<times> nat" where
  "EnforceScanTimeouts s now grace [] = (s, [], 0)"
| "EnforceScanTimeouts s now grace (k # ks) =
     (case pending s k of
        None \<Rightarrow> EnforceScanTimeouts s now grace ks
      | Some a \<Rightarrow>
         if \<not> scan_elapsed now grace (cmds s a) then EnforceScanTimeouts s now grace ks
         else
           (let c = set_result ''closeReason'' (RStr ''scan-window-elapsed'')
                      ((cmds s a)\<lparr>Status := StatusOK, FinishedAt := Some now\<rparr>);
                s = s\<lparr>cmds := (cmds s)(a := c), pending := (pending s)(k := None)\<rparr>;
                (s, es, n) = EnforceScanTimeouts s now grace ks
            in (s, [Broadcast a, GoPersist a] @ es, Suc n)))"

section \<open>The service and its steps\<close>

definition NewService :: "bool \<Rightarrow> 'f CmdService" where
  "NewService echo = \<lparr>cmds = (\<lambda>_. follow_command [] \<lparr>ID = [], TargetNode = 0, CommandType = [], PayloadJSON = [],
      Status = StatusPending, SentAt = None, AckedAt = None, FinishedAt = None, Result = None,
      RetryCount = 0, MaxRetries = 0, CreatedAt = 0, Target = [], Name = [], Params = [],
      Line = [], AckKind = [], AckStatus = [], AckNode = [], ResultText = [],
      ErrorText = [], autoRawAttached = False, scanRows = []\<rparr> [] 0),
     next_cmd = 0, pending = Map.empty, nodeRate = Map.empty, hasChatEcho = echo\<rparr>"

inductive cmd_step :: "'f CmdService \<Rightarrow> 'f CmdService \<Rightarrow> bool" where
  step_enqueue: "FinishedAt cmd = None \<Longrightarrow> scanRows cmd = [] \<Longrightarrow> Enqueue rnd s now cmd = Inr (a, s', es) \<Longrightarrow> cmd_step s s'"
| step_send: "a < next_cmd s \<Longrightarrow> cmd_step s (fst (send_finish s now a ok))"
| step_ack: "cmd_step s (fst (HandleACK s now cid result))"
| step_structured: "cmd_step s (fst (HandleStructuredACK quote rnd s now ord ord' ackKind ackStatus ackNode result))"
| step_detection: "cmd_step s (RecordScanDetection s ord nodeID det)"
| step_probe: "cmd_step s (fst (RecordProbeHit float_inc s ord))"
| step_delete: "cmd_step s (Delete s cid)"
| step_timeouts: "cmd_step s (fst (EnforceScanTimeouts s now grace ord))"

end
