(* ===== verification/CommandProofs.thy ===== *)
theory CommandProofs
  imports Commands
begin

text \<open>
  The proofs about the command queue of \<open>Commands\<close>: the lifecycle invariant and that every
  operation keeps it, the choice of the command an acknowledgement is for, the fan-out of
  \<open>STOP_ACK\<close>, the merge of scan rows against its specification, the rate limit, the sender's
  races, and the scan watchdog.
\<close>

section \<open>The lifecycle invariant\<close>

definition active_status :: "CommandStatus set" where
  "active_status = {StatusPending, StatusSent, StatusRunning}"

definition cmd_inv :: "'f CmdService \<Rightarrow> bool" where
  "cmd_inv s \<longleftrightarrow>
     (\<forall>k a. pending s k = Some a \<longrightarrow>
        a < next_cmd s \<and> ID (cmds s a) = k \<and> Status (cmds s a) \<in> active_status \<and> FinishedAt (cmds s a) = None) \<and>
     (\<forall>a. distinct (map (\<lambda>r. (MAC r, Source r)) (scanRows (cmds s a))))"

lemma cmd_invD:
  "cmd_inv s \<Longrightarrow> pending s k = Some a \<Longrightarrow>
   a < next_cmd s \<and> ID (cmds s a) = k \<and> Status (cmds s a) \<in> active_status \<and> FinishedAt (cmds s a) = None"
  by (simp add: cmd_inv_def)

lemma active_simps [simp]:
  "StatusPending \<in> active_status" "StatusSent \<in> active_status" "StatusRunning \<in> active_status"
  by (simp_all add: active_status_def)

lemma cmd_inv_update:
  assumes "cmd_inv s" "ID c = ID (cmds s a)" "scanRows c = scanRows (cmds s a)"
    "pending s (ID c) = Some a \<Longrightarrow> Status c \<in> active_status \<and> FinishedAt c = None"
  shows "cmd_inv (s\<lparr>cmds := (cmds s)(a := c)\<rparr>)"
  using assms by (auto simp: cmd_inv_def)

lemma cmd_invI:
  assumes "\<And>k a. pending s k = Some a \<Longrightarrow>
      a < next_cmd s \<and> ID (cmds s a) = k \<and> Status (cmds s a) \<in> active_status \<and> FinishedAt (cmds s a) = None"
    "\<And>a. distinct (map (\<lambda>r. (MAC r, Source r)) (scanRows (cmds s a)))"
  shows "cmd_inv s"
  using assms by (simp add: cmd_inv_def)

lemma cmd_inv_rows: "cmd_inv s \<Longrightarrow> distinct (map (\<lambda>r. (MAC r, Source r)) (scanRows (cmds s a)))"
  by (simp add: cmd_inv_def)

lemma cmd_inv_close:
  assumes "cmd_inv s" "pending s k = Some a" "ID c = ID (cmds s a)" "scanRows c = scanRows (cmds s a)"
  shows "cmd_inv (s\<lparr>cmds := (cmds s)(a := c), pending := (pending s)(k := None)\<rparr>)"
proof (rule cmd_invI, goal_cases)
  case (1 k' b)
  then have b: "pending s k' = Some b" "k' \<noteq> k" by (auto split: if_splits)
  then have "b \<noteq> a" using cmd_invD [OF assms(1) b(1)] cmd_invD [OF assms(1,2)] by auto
  then show ?case using cmd_invD [OF assms(1) b(1)] by simp
next
  case (2 b)
  then show ?case using assms(4) cmd_inv_rows [OF assms(1)] by simp
qed

lemma cmd_inv_add:
  assumes "cmd_inv s" "Status c \<in> active_status" "FinishedAt c = None" "scanRows c = []"
    "add_pending s c = (a, s')"
  shows "cmd_inv s'"
proof -
  have s': "s' = s\<lparr>cmds := (cmds s)(next_cmd s := c), next_cmd := Suc (next_cmd s), pending := (pending s)(ID c \<mapsto> next_cmd s)\<rparr>"
    using assms(5) by (auto simp: add_pending_def Let_def)
  show ?thesis
  proof (rule cmd_invI, goal_cases)
    case (1 k b)
    show ?case
    proof (cases "k = ID c")
      case True
      with 1 assms(2,3) show ?thesis by (simp add: s')
    next
      case False
      with 1 have "pending s k = Some b" by (simp add: s')
      from cmd_invD [OF assms(1) this] show ?thesis by (simp add: s')
    qed
  next
    case (2 b)
    then show ?case using assms(4) cmd_inv_rows [OF assms(1)] by (simp add: s')
  qed
qed

lemma follow_command_fields [simp]:
  "Status (follow_command cid p n now) = StatusPending" "FinishedAt (follow_command cid p n now) = None"
  "scanRows (follow_command cid p n now) = []" "ID (follow_command cid p n now) = cid"
  "cmd_name (follow_command cid p n now) = n" "Target (follow_command cid p n now) = Target p"
  by (simp_all add: follow_command_def cmd_name_def)

lemma cmd_inv_followon:
  "cmd_inv s \<Longrightarrow> cmd_inv (fst (enqueueRawBLEFollowonLocked rnd s now a name))"
  "cmd_inv s \<Longrightarrow> cmd_inv (fst (enqueuePrecedingRawBLEOnLocked rnd s now a))"
  by (auto simp: enqueueRawBLEFollowonLocked_def enqueuePrecedingRawBLEOnLocked_def split: prod.splits
      intro: cmd_inv_add [where c = "follow_command _ _ _ _"])

lemma cmd_inv_enqueue:
  assumes "cmd_inv s" "FinishedAt cmd = None" "scanRows cmd = []" "Enqueue rnd s now cmd = Inr (a, s', es)"
  shows "cmd_inv s'"
proof -
  define c where "c = cmd\<lparr>Status := StatusPending, CreatedAt := now,
      MaxRetries := (if MaxRetries cmd = 0 then 3 else MaxRetries cmd),
      autoRawAttached := (Name cmd = ''DEVICE_SCAN_START'' \<or> autoRawAttached cmd)\<rparr>"
  obtain b t where bt: "add_pending s c = (b, t)" by fastforce
  have "cmd_inv t" by (rule cmd_inv_add [OF assms(1) _ _ _ bt]) (simp_all add: c_def assms(2,3))
  with assms(4) bt show ?thesis
    using cmd_inv_followon(2) [of t rnd now b]
    by (auto simp: Enqueue_def c_def [symmetric] Let_def split: if_splits prod.splits)
qed

lemma finalise_scan_fields [simp]:
  "ID (finalise_scan q c) = ID c" "scanRows (finalise_scan q c) = scanRows c" "Name (finalise_scan q c) = Name c"
  "Status (finalise_scan q c) = Status c" "FinishedAt (finalise_scan q c) = FinishedAt c"
  "autoRawAttached (finalise_scan q c) = autoRawAttached c" "Target (finalise_scan q c) = Target c"
  by (simp_all add: finalise_scan_def set_result_def Let_def)

lemma cmd_inv_send: "cmd_inv s \<Longrightarrow> cmd_inv (fst (send_finish s now a ok))"
  by (auto simp: send_finish_def Let_def cmd_inv_def)

lemma cmd_inv_HandleACK: "cmd_inv s \<Longrightarrow> cmd_inv (fst (HandleACK s now cid result))"
  by (auto simp: HandleACK_def split: option.splits intro!: cmd_inv_close)

lemma latest_pending:
  "latest s P ord found = Some (k, a) \<Longrightarrow> found = Some (k, a) \<or> (pending s k = Some a \<and> k \<in> set ord \<and> P (cmds s a))"
  by (induction ord arbitrary: found) (auto split: option.splits if_splits)

lemma cmd_inv_ack_matched:
  assumes "cmd_inv s" "pending s key = Some a" "ID c = key" "scanRows c = scanRows (cmds s a)"
    "FinishedAt c = None"
  shows "cmd_inv (fst (ack_matched quote rnd s now key a c))"
proof -
  have ida: "ID (cmds s a) = key" using assms(1,2) by (auto simp: cmd_inv_def)
  let ?c = "finalise_scan quote (c\<lparr>FinishedAt := Some now\<rparr>)"
  have "cmd_inv (s\<lparr>cmds := (cmds s)(a := ?c), pending := (pending s)(key := None)\<rparr>)"
    using assms ida by (intro cmd_inv_close) simp_all
  then have "cmd_inv (fst (enqueueRawBLEFollowonLocked rnd
      (s\<lparr>cmds := (cmds s)(a := ?c), pending := (pending s)(key := None)\<rparr>) now a n))" for n
    by (rule cmd_inv_followon)
  moreover have "cmd_inv (s\<lparr>cmds := (cmds s)(a := c)\<rparr>)" if "Status c = StatusRunning"
    using assms ida that by (intro cmd_inv_update) simp_all
  ultimately show ?thesis
    using \<open>cmd_inv (s\<lparr>cmds := (cmds s)(a := ?c), pending := (pending s)(key := None)\<rparr>)\<close>
    by (auto simp: ack_matched_def Let_def case_prod_unfold)
qed

lemma cmd_inv_probe_fanout: "cmd_inv s \<Longrightarrow> cmd_inv (fst (probe_fanout s now ord))"
  by (induction ord arbitrary: s) (auto simp: Let_def case_prod_unfold cmd_inv_close split: option.splits)

lemma cmd_inv_stop_command:
  assumes "cmd_inv s" "pending s k = Some a"
  shows "cmd_inv (fst (stop_command quote rnd s now k a))"
proof -
  let ?c = "finalise_scan quote ((cmds s a)\<lparr>Status := StatusOK, FinishedAt := Some now\<rparr>)"
  have c: "cmd_inv (s\<lparr>cmds := (cmds s)(a := ?c), pending := (pending s)(k := None)\<rparr>)"
    using assms by (intro cmd_inv_close) simp_all
  then show ?thesis
    using cmd_inv_followon(1) [OF c] by (auto simp: stop_command_def Let_def case_prod_unfold)
qed

lemma cmd_inv_stop_fanout: "cmd_inv s \<Longrightarrow> cmd_inv (fst (stop_fanout quote rnd s now tgt ord))"
  by (induction ord arbitrary: s)
    (auto simp: Let_def case_prod_unfold cmd_inv_stop_command split: option.splits)

lemma cmd_inv_structured:
  assumes inv: "cmd_inv s"
  shows "cmd_inv (fst (HandleStructuredACK quote rnd s now ord ord' ackKind ackStatus ackNode result))"
proof -
  have "cmd_inv (fst (ack_matched quote rnd s now k a (acked_command now ackKind ackStatus ackNode result (cmds s a))))"
    if "pending s k = Some a" for k a
    using cmd_invD [OF inv that] that inv by (intro cmd_inv_ack_matched) (simp_all add: acked_command_def)
  then show ?thesis
    unfolding HandleStructuredACK_def
    by (auto simp: Let_def case_prod_unfold inv intro!: cmd_inv_probe_fanout cmd_inv_stop_fanout
        split: option.splits dest!: latest_pending)
qed

lemma record_row_fields [simp]:
  "ID (record_row n d c) = ID c" "Status (record_row n d c) = Status c" "FinishedAt (record_row n d c) = FinishedAt c"
  by (simp_all add: record_row_def)

lemma record_row_distinct:
  "distinct (map (\<lambda>r. (MAC r, Source r)) (scanRows c)) \<Longrightarrow>
   distinct (map (\<lambda>r. (MAC r, Source r)) (scanRows (record_row n d c)))"
  by (auto simp: record_row_def list_ex_iff)

lemma cmd_inv_detection: "cmd_inv s \<Longrightarrow> cmd_inv (RecordScanDetection s ord nodeID det)"
proof -
  have "cmd_inv (case pending s k of None \<Rightarrow> s | Some a \<Rightarrow> s\<lparr>cmds := (cmds s)(a := record_row nodeID det (cmds s a))\<rparr>)"
    if "cmd_inv s" for s :: "'a CmdService" and k
    using that by (auto simp: cmd_inv_def record_row_distinct split: option.splits)
  then have "cmd_inv s \<Longrightarrow> cmd_inv (fold (\<lambda>k s. case pending s k of None \<Rightarrow> s
      | Some a \<Rightarrow> s\<lparr>cmds := (cmds s)(a := record_row nodeID det (cmds s a))\<rparr>) ord s)" for s :: "'a CmdService"
    by (induction ord arbitrary: s) simp_all
  then show "cmd_inv s \<Longrightarrow> cmd_inv (RecordScanDetection s ord nodeID det)"
    by (simp add: RecordScanDetection_def)
qed

lemma cmd_inv_probe: "cmd_inv s \<Longrightarrow> cmd_inv (fst (RecordProbeHit float_inc s ord))"
  by (auto simp: RecordProbeHit_def Let_def cmd_inv_def set_result_def split: option.splits)

lemma cmd_inv_timeouts: "cmd_inv s \<Longrightarrow> cmd_inv (fst (EnforceScanTimeouts s now grace ord))"
  by (induction ord arbitrary: s)
    (auto simp: Let_def case_prod_unfold cmd_inv_close set_result_def split: option.splits)

lemma cmd_inv_step: "cmd_step s s' \<Longrightarrow> cmd_inv s \<Longrightarrow> cmd_inv s'"
proof (induction rule: cmd_step.induct)
  case (step_delete s cid)
  then show ?case by (auto simp: Delete_def cmd_inv_def)
qed (auto intro: cmd_inv_enqueue cmd_inv_send cmd_inv_HandleACK cmd_inv_structured cmd_inv_detection
     cmd_inv_probe cmd_inv_timeouts)

section \<open>The latest candidate\<close>

lemma latest_Some:
  assumes "latest s P ord found = Some (k, a)"
  shows "(\<forall>k' \<in> set ord. \<forall>b. pending s k' = Some b \<longrightarrow> P (cmds s b) \<longrightarrow> CreatedAt (cmds s b) \<le> CreatedAt (cmds s a)) \<and>
    (\<forall>k' b. found = Some (k', b) \<longrightarrow> CreatedAt (cmds s b) \<le> CreatedAt (cmds s a))"
  using assms
proof (induction ord arbitrary: found)
  case (Cons x xs)
  show ?case
  proof (cases "pending s x")
    case None
    with Cons show ?thesis by auto
  next
    case (Some b)
    let ?found = "if P (cmds s b) \<and> (case found of None \<Rightarrow> True | Some (_, c) \<Rightarrow> CreatedAt (cmds s b) > CreatedAt (cmds s c))
      then Some (x, b) else found"
    from Some Cons.prems have "latest s P xs ?found = Some (k, a)" by simp
    from Cons.IH [OF this] Some show ?thesis
      by (cases found) (auto split: if_splits)
  qed
qed auto

lemma latest_None:
  "latest s P ord found = None \<longleftrightarrow> found = None \<and> (\<forall>k \<in> set ord. \<forall>a. pending s k = Some a \<longrightarrow> \<not> P (cmds s a))"
  by (induction ord arbitrary: found) (auto split: option.splits)

section \<open>Closing by STOP\<close>

definition quiet :: "'f CmdService \<Rightarrow> string \<Rightarrow> string \<Rightarrow> bool" where
  "quiet s tgt k \<longleftrightarrow> (\<forall>b. pending s k = Some b \<longrightarrow> \<not> stops tgt (cmds s b))"

lemma quiet_followon:
  assumes "cmd_inv s" "quiet s tgt k"
  shows "quiet (fst (enqueueRawBLEFollowonLocked rnd s now a name)) tgt k"
  using assms cmd_invD [OF assms(1)]
  by (fastforce simp: quiet_def enqueueRawBLEFollowonLocked_def add_pending_def Let_def stops_def)

lemma stop_command_quiet:
  assumes inv: "cmd_inv s" and a: "pending s k = Some a" and q: "k' = k \<or> quiet s tgt k'"
  shows "quiet (fst (stop_command quote rnd s now k a)) tgt k'"
proof -
  let ?c = "finalise_scan quote ((cmds s a)\<lparr>Status := StatusOK, FinishedAt := Some now\<rparr>)"
  let ?s = "s\<lparr>cmds := (cmds s)(a := ?c), pending := (pending s)(k := None)\<rparr>"
  have i: "cmd_inv ?s" using inv a by (intro cmd_inv_close) simp_all
  have q': "quiet ?s tgt k'"
  proof -
    have "b \<noteq> a" if "pending s k' = Some b" "k' \<noteq> k" for b
      using cmd_invD [OF inv that(1)] cmd_invD [OF inv a] that(2) by auto
    then show ?thesis using q by (auto simp: quiet_def)
  qed
  then show ?thesis
    using quiet_followon [OF i q'] by (auto simp: stop_command_def Let_def case_prod_unfold)
qed

lemma stop_fanout_quiet:
  "cmd_inv s \<Longrightarrow> k \<in> set ord \<or> quiet s tgt k \<Longrightarrow> quiet (fst (stop_fanout quote rnd s now tgt ord)) tgt k"
proof (induction ord arbitrary: s)
  case (Cons x xs)
  show ?case
  proof (cases "\<exists>a. pending s x = Some a \<and> stops tgt (cmds s a)")
    case True
    then obtain a where a: "pending s x = Some a" "stops tgt (cmds s a)" by blast
    let ?s = "fst (stop_command quote rnd s now x a)"
    have "cmd_inv ?s" using Cons.prems(1) a(1) by (rule cmd_inv_stop_command)
    moreover have "k \<in> set xs \<or> quiet ?s tgt k"
      using Cons.prems stop_command_quiet [OF Cons.prems(1) a(1), of k tgt quote rnd now] by auto
    ultimately show ?thesis using Cons.IH [of ?s] a by (simp add: Let_def case_prod_unfold)
  next
    case False
    then have "quiet s tgt x" by (auto simp: quiet_def)
    with Cons.prems have "k \<in> set xs \<or> quiet s tgt k" by auto
    with Cons False show ?thesis by (auto split: option.splits)
  qed
qed simp

section \<open>Merging\<close>

definition first_sights :: "'a list \<Rightarrow> 'a list" where
  "first_sights xs = rev (remdups (rev xs))"

definition merge_group :: "ScanDetection list \<Rightarrow> ScanDetection" where
  "merge_group g = foldl merge_row (hd g) (tl g)"

definition merge_spec :: "ScanDetection list \<Rightarrow> ScanDetection list" where
  "merge_spec rows = map (\<lambda>m. merge_group (filter (\<lambda>r. MAC r = m) rows)) (first_sights (map MAC rows))"

lemma merge_row_MAC [simp]: "MAC (merge_row e r) = MAC e"
  by (simp add: merge_row_def)

lemma MAC_foldl_merge: "MAC (foldl merge_row e rs) = MAC e"
  by (induction rs arbitrary: e) simp_all

lemma merge_into_map:
  "distinct ms \<Longrightarrow> (\<And>m. m \<in> set ms \<Longrightarrow> MAC (g m) = m) \<Longrightarrow>
   merge_into (map g ms) r =
     (if MAC r \<in> set ms then map (g(MAC r := merge_row (g (MAC r)) r)) ms else map g ms @ [r])"
  by (induction ms) auto

lemma first_sights_snoc:
  "first_sights (xs @ [x]) = (if x \<in> set xs then first_sights xs else first_sights xs @ [x])"
  by (simp add: first_sights_def)

lemma set_first_sights [simp]: "set (first_sights xs) = set xs" "distinct (first_sights xs)"
  by (simp_all add: first_sights_def)

lemma merge_group_MAC: "g \<noteq> [] \<Longrightarrow> (\<forall>r \<in> set g. MAC r = m) \<Longrightarrow> MAC (merge_group g) = m"
  by (cases g) (simp_all add: merge_group_def MAC_foldl_merge)

lemma mergeScanRows_spec: "mergeScanRows rows = merge_spec rows"
proof (induction rows rule: rev_induct)
  case (snoc r rows)
  let ?g = "\<lambda>m. merge_group (filter (\<lambda>r. MAC r = m) rows)"
  let ?ms = "first_sights (map MAC rows)"
  have mac: "MAC (?g m) = m" if "m \<in> set ?ms" for m
    using that by (intro merge_group_MAC) (auto simp: filter_empty_conv)
  have "mergeScanRows (rows @ [r]) = merge_into (map ?g ?ms) r"
    using snoc by (simp add: mergeScanRows_def merge_spec_def)
  also have "\<dots> = (if MAC r \<in> set ?ms then map (?g(MAC r := merge_row (?g (MAC r)) r)) ?ms else map ?g ?ms @ [r])"
    by (rule merge_into_map) (use mac in simp_all)
  also have "\<dots> = merge_spec (rows @ [r])"
  proof (cases "MAC r \<in> set (map MAC rows)")
    case True
    then have "filter (\<lambda>x. MAC x = MAC r) rows \<noteq> []" by (auto simp: filter_empty_conv)
    then have "merge_group (filter (\<lambda>x. MAC x = MAC r) rows @ [r]) = merge_row (?g (MAC r)) r"
      by (cases "filter (\<lambda>x. MAC x = MAC r) rows") (simp_all add: merge_group_def)
    with True show ?thesis by (auto simp: merge_spec_def first_sights_snoc)
  next
    case False
    then have "filter (\<lambda>x. MAC x = MAC r) rows = []" by (metis (mono_tags) filter_False image_eqI list.set_map)
    moreover have "map (\<lambda>m. merge_group (filter (\<lambda>x. MAC x = m) (rows @ [r]))) ?ms = map ?g ?ms"
      using False by (auto intro!: map_cong)
    ultimately show ?thesis
      using False by (simp add: merge_spec_def first_sights_snoc merge_group_def)
  qed
  finally show ?case .
qed (simp add: mergeScanRows_def merge_spec_def first_sights_def)

lemma foldl_merge_row:
  "RSSI (foldl merge_row e rs) = RSSI (last (e # rs))"
  "Source (foldl merge_row e rs) = ''BLERAW'' \<longleftrightarrow> (\<exists>r \<in> set (e # rs). Source r = ''BLERAW'')"
  by (induction rs arbitrary: e) (auto simp: merge_row_def)

section \<open>Timeouts\<close>

lemma timeouts_untouched:
  "cmd_inv s \<Longrightarrow> pending s k = Some a \<Longrightarrow> \<not> scan_elapsed now grace (cmds s a) \<Longrightarrow>
   pending (fst (EnforceScanTimeouts s now grace ord)) k = Some a \<and>
   cmds (fst (EnforceScanTimeouts s now grace ord)) a = cmds s a"
proof (induction ord arbitrary: s)
  case (Cons x xs)
  show ?case
  proof (cases "\<exists>b. pending s x = Some b \<and> scan_elapsed now grace (cmds s b)")
    case True
    then obtain b where b: "pending s x = Some b" "scan_elapsed now grace (cmds s b)" by blast
    let ?c = "set_result ''closeReason'' (RStr ''scan-window-elapsed'') ((cmds s b)\<lparr>Status := StatusOK, FinishedAt := Some now\<rparr>)"
    let ?s = "s\<lparr>cmds := (cmds s)(b := ?c), pending := (pending s)(x := None)\<rparr>"
    have "a \<noteq> b" using Cons.prems(3) b(2) by auto
    moreover have "k \<noteq> x" using Cons.prems(2) b(1) \<open>a \<noteq> b\<close> by auto
    moreover have "cmd_inv ?s" by (rule cmd_inv_close [OF Cons.prems(1) b(1)]) (simp_all add: set_result_def)
    ultimately show ?thesis
      using Cons.IH [of ?s] Cons.prems b by (simp add: Let_def case_prod_unfold)
  next
    case False
    with Cons show ?thesis by (auto split: option.splits)
  qed
qed simp

lemma timeouts_closed:
  "cmd_inv s \<Longrightarrow> k \<in> set ord \<or> pending s k = None \<Longrightarrow> pending (fst (EnforceScanTimeouts s now grace ord)) k = Some a \<Longrightarrow>
   \<not> scan_elapsed now grace (cmds (fst (EnforceScanTimeouts s now grace ord)) a)"
proof (induction ord arbitrary: s)
  case (Cons x xs)
  show ?case
  proof (cases "\<exists>b. pending s x = Some b \<and> scan_elapsed now grace (cmds s b)")
    case True
    then obtain b where b: "pending s x = Some b" "scan_elapsed now grace (cmds s b)" by blast
    let ?c = "set_result ''closeReason'' (RStr ''scan-window-elapsed'') ((cmds s b)\<lparr>Status := StatusOK, FinishedAt := Some now\<rparr>)"
    let ?s = "s\<lparr>cmds := (cmds s)(b := ?c), pending := (pending s)(x := None)\<rparr>"
    have step: "fst (EnforceScanTimeouts s now grace (x # xs)) = fst (EnforceScanTimeouts ?s now grace xs)"
      using b by (simp add: Let_def case_prod_unfold)
    have "cmd_inv ?s" by (rule cmd_inv_close [OF Cons.prems(1) b(1)]) (simp_all add: set_result_def)
    moreover have "k \<in> set xs \<or> pending ?s k = None" using Cons.prems(2) by auto
    ultimately show ?thesis
      using Cons.IH [of ?s] Cons.prems(3) unfolding step by blast
  next
    case False
    show ?thesis
    proof (cases "k = x \<and> (\<exists>b. pending s x = Some b)")
      case True
      then obtain b where b: "pending s k = Some b" "\<not> scan_elapsed now grace (cmds s b)" using False by auto
      from timeouts_untouched [OF Cons.prems(1) this, of "x # xs"] b Cons.prems(3) show ?thesis by auto
    next
      case 2: False
      with False Cons.prems Cons.IH [of s] show ?thesis by (auto split: option.splits if_splits)
    qed
  qed
qed simp

section \<open>Acknowledging the matched command\<close>

lemma followon_fields:
  "cmds (fst (enqueueRawBLEFollowonLocked rnd s now p name)) a =
     (if a = next_cmd s then follow_command (newCommandID (rnd (next_cmd s))) (cmds s p) name now else cmds s a)"
  "pending (fst (enqueueRawBLEFollowonLocked rnd s now p name)) =
     (pending s)(newCommandID (rnd (next_cmd s)) \<mapsto> next_cmd s)"
  by (simp_all add: enqueueRawBLEFollowonLocked_def add_pending_def Let_def)

lemma ack_matched_open:
  "Status c = StatusRunning \<Longrightarrow>
   fst (ack_matched quote rnd s now key a c) = s\<lparr>cmds := (cmds s)(a := c)\<rparr>"
  by (simp add: ack_matched_def)

lemma ack_matched_closed:
  assumes "Status c \<noteq> StatusRunning" "a < next_cmd s"
  shows "cmds (fst (ack_matched quote rnd s now key a c)) a = finalise_scan quote (c\<lparr>FinishedAt := Some now\<rparr>)"
    "pending (fst (ack_matched quote rnd s now key a c)) key \<noteq> Some a"
  using assms unfolding ack_matched_def
  by (auto simp: Let_def case_prod_unfold followon_fields)

section \<open>Example queues\<close>

text \<open>A queue with one sent \<open>REBOOT\<close> command.\<close>

definition reboot_queue :: "int CmdService" where
  "reboot_queue = (let c = (follow_command ''r1'' (cmds (NewService True) 0) ''REBOOT'' 5)\<lparr>Status := StatusSent\<rparr>
     in (NewService True)\<lparr>cmds := (\<lambda>_. c), next_cmd := 1, pending := [''r1'' \<mapsto> 0]\<rparr>)"

lemma reboot_queue_inv: "cmd_inv reboot_queue"
  by (simp add: reboot_queue_def cmd_inv_def NewService_def follow_command_def active_status_def)

lemma reboot_queue_match: "latest reboot_queue (ack_candidate ''REBOOT_ACK'' ''REBOOT'') [''r1''] None = Some (''r1'', 0)"
  by (simp add: reboot_queue_def ack_candidate_def follow_command_def cmd_name_def NewService_def)

text \<open>A probe scan, and a stop command with a running probe scan.\<close>

definition probe_queue :: "CommandStatus \<Rightarrow> string list \<Rightarrow> int CmdService" where
  "probe_queue st params =
     (let c = (follow_command ''p1'' (cmds (NewService True) 0) ''PROBE_START'' 5)
            \<lparr>Status := st, SentAt := Some 6, Params := params, Target := ''@HB55''\<rparr>
      in (NewService True)\<lparr>cmds := (\<lambda>_. c), next_cmd := 1, pending := [''p1'' \<mapsto> 0]\<rparr>)"

lemma probe_queue_inv: "st \<in> active_status \<Longrightarrow> cmd_inv (probe_queue st params)"
  by (simp add: probe_queue_def cmd_inv_def NewService_def follow_command_def)

definition stop_queue :: "int CmdService" where
  "stop_queue =
     (let p = (follow_command ''p1'' (cmds (NewService True) 0) ''PROBE_START'' 5)\<lparr>Status := StatusRunning\<rparr>;
          q = (follow_command ''q1'' (cmds (NewService True) 0) ''STOP'' 6)\<lparr>Status := StatusSent, Target := ''@ALL''\<rparr>
      in (NewService True)\<lparr>cmds := (\<lambda>i. if i = 0 then p else q), next_cmd := 2, pending := [''p1'' \<mapsto> 0, ''q1'' \<mapsto> 1]\<rparr>)"

lemma stop_queue_facts:
  "cmd_inv stop_queue" "latest stop_queue (ack_candidate ''STOP_ACK'' ''STOP'') [''p1'', ''q1''] None = Some (''q1'', 1)"
  "Target (cmds stop_queue 1) = ''@ALL''" "Status (cmds stop_queue 1) = StatusSent" "Name (cmds stop_queue 1) = ''STOP''"
  "pending stop_queue = [''p1'' \<mapsto> 0, ''q1'' \<mapsto> 1]"
  by (simp_all add: stop_queue_def cmd_inv_def NewService_def follow_command_def ack_candidate_def cmd_name_def
      ack_prefix_def ack_suffix_def has_suffix_def)

section \<open>Properties\<close>

text \<open>C17: Lifecycle: from the empty queue, every sequence of enqueues, sender completions,
  acknowledgements, detections, probe hits, deletions and timeouts keeps the queue consistent:
  a pending entry refers to a command with that id, which is pending, sent or running and has
  no finish time, and no command lists the same device from the same source twice.\<close>

theorem command_lifecycle:
  assumes "cmd_step\<^sup>*\<^sup>* (NewService echo) s"
  shows "(\<forall>k a. pending s k = Some a \<longrightarrow>
      ID (cmds s a) = k \<and> Status (cmds s a) \<in> {StatusPending, StatusSent, StatusRunning} \<and> FinishedAt (cmds s a) = None) \<and>
    (\<forall>a. distinct (map (\<lambda>r. (MAC r, Source r)) (scanRows (cmds s a))))"
proof -
  have "cmd_inv (NewService echo :: 'a CmdService)" by (simp add: cmd_inv_def NewService_def)
  with assms have "cmd_inv s" by (induction rule: rtranclp_induct) (auto intro: cmd_inv_step)
  then show ?thesis by (simp add: cmd_inv_def active_status_def)
qed

theorem command_lifecycle_witness:
  "ID (cmds (snd (add_pending (NewService True :: int CmdService) (cmds (NewService True) 0\<lparr>ID := ''x'', MaxRetries := 3\<rparr>))) 0) = ''x'' \<and>
   FinishedAt (cmds (snd (add_pending (NewService True :: int CmdService) (cmds (NewService True) 0\<lparr>ID := ''x'', MaxRetries := 3\<rparr>))) 0) = None"
proof -
  let ?c = "cmds (NewService True :: int CmdService) 0\<lparr>ID := ''x'', MaxRetries := 3\<rparr>"
  let ?s = "snd (add_pending (NewService True :: int CmdService) ?c)"
  have "Enqueue (\<lambda>_. []) (NewService True) 0 ?c = Inr (0, ?s, [GoSend 0 0])"
    by (simp add: Enqueue_def NewService_def add_pending_def follow_command_def Let_def)
  then have "cmd_step (NewService True) ?s"
    by (rule step_enqueue [rotated 2]) (simp_all add: NewService_def follow_command_def)
  moreover have "pending ?s ''x'' = Some 0" by (simp add: add_pending_def NewService_def Let_def)
  ultimately show ?thesis using command_lifecycle [of True ?s] by blast
qed

text \<open>An acknowledgement goes to the most recently created pending command it can be for: for
  every iteration order over the queue, the match is a candidate with the latest creation time,
  and there is no match only if there is no candidate.\<close>

theorem ack_matches_latest:
  assumes "set ord = dom (pending s)"
  shows "(\<forall>k a. latest s (ack_candidate ackKind cmdName) ord None = Some (k, a) \<longrightarrow>
      pending s k = Some a \<and> ack_candidate ackKind cmdName (cmds s a) \<and>
      (\<forall>k' b. pending s k' = Some b \<longrightarrow> ack_candidate ackKind cmdName (cmds s b) \<longrightarrow>
         CreatedAt (cmds s b) \<le> CreatedAt (cmds s a))) \<and>
    (latest s (ack_candidate ackKind cmdName) ord None = None \<longrightarrow>
      (\<forall>k a. pending s k = Some a \<longrightarrow> \<not> ack_candidate ackKind cmdName (cmds s a)))"
  using latest_pending [of s "ack_candidate ackKind cmdName" ord None]
    latest_Some [of s "ack_candidate ackKind cmdName" ord None] latest_None [of s "ack_candidate ackKind cmdName" ord None] assms
  by (auto simp: dom_def) blast

text \<open>What a structured acknowledgement does to the command it matches, for the kinds without
  fan-out: \<open>STARTED\<close> makes it running and keeps it in the queue; every other token takes it out
  of the queue with a finish time and the status the token stands for, an error token with the
  token as error text.\<close>

theorem structured_ack_outcome:
  fixes s :: "'f CmdService" and quote rnd now ord' ackStatus ackNode result
  assumes inv: "cmd_inv s" and kind: "map_of ACKMap ackKind = Some cmdName" "ackKind \<notin> {''STOP_ACK'', ''PROBE_ACK''}"
    and m: "latest s (ack_candidate ackKind cmdName) ord None = Some (key, a)"
  defines "s' \<equiv> fst (HandleStructuredACK quote rnd s now ord ord' ackKind ackStatus ackNode result)"
  shows "Status (cmds s' a) = ack_status ackKind ackStatus \<and>
    (ToUpper ackStatus = ''STARTED'' \<longrightarrow> pending s' key = Some a \<and> FinishedAt (cmds s' a) = None) \<and>
    (ToUpper ackStatus \<noteq> ''STARTED'' \<longrightarrow> pending s' key \<noteq> Some a \<and> FinishedAt (cmds s' a) = Some now) \<and>
    (ack_status ackKind ackStatus = StatusError \<longrightarrow> ErrorText (cmds s' a) = ackStatus)"
proof -
  let ?c = "acked_command now ackKind ackStatus ackNode result (cmds s a)"
  have p: "pending s key = Some a" using latest_pending [OF m] by simp
  note i = cmd_invD [OF inv p]
  have s': "s' = fst (ack_matched quote rnd s now key a ?c)"
    using kind(2) by (simp add: s'_def HandleStructuredACK_def kind(1) m Let_def case_prod_unfold)
  have st: "Status ?c = ack_status ackKind ackStatus" "FinishedAt ?c = None"
    "ack_status ackKind ackStatus = StatusError \<longrightarrow> ErrorText ?c = ackStatus"
    using i by (simp_all add: acked_command_def)
  show ?thesis
  proof (cases "ToUpper ackStatus = ''STARTED''")
    case True
    then have r: "ack_status ackKind ackStatus = StatusRunning" by (simp add: ack_status_def)
    then have "s' = s\<lparr>cmds := (cmds s)(a := ?c)\<rparr>" unfolding s' using st(1) by (intro ack_matched_open) simp
    with True st p r show ?thesis by simp
  next
    case False
    then have "ack_status ackKind ackStatus \<noteq> StatusRunning" by (simp add: ack_status_def Let_def)
    then have "cmds s' a = finalise_scan quote (?c\<lparr>FinishedAt := Some now\<rparr>)" "pending s' key \<noteq> Some a"
      unfolding s' using st(1) i ack_matched_closed [of ?c a s quote rnd now key] by simp_all
    moreover have "ErrorText (finalise_scan quote (?c\<lparr>FinishedAt := Some now\<rparr>)) = ErrorText ?c"
      by (simp add: finalise_scan_def set_result_def Let_def)
    ultimately show ?thesis using False st by simp
  qed
qed

text \<open>The token \<open>BUSY\<close>, which the firmware sends when it refuses a probe scan, is not
  recognised: the command is taken out of the queue and given a finish time although its
  status stays \<open>SENT\<close>, as for any unrecognised token, so a later acknowledgement cannot reach
  it.\<close>

theorem unrecognised_token_finishes:
  fixes s :: "'f CmdService" and quote rnd now ord' ackNode result
  assumes inv: "cmd_inv s" and m: "latest s (ack_candidate ''PROBE_ACK'' ''PROBE_START'') ord None = Some (key, a)"
  defines "s' \<equiv> fst (HandleStructuredACK quote rnd s now ord ord' ''PROBE_ACK'' ''BUSY'' ackNode result)"
  shows "Status (cmds s' a) = StatusSent \<and> FinishedAt (cmds s' a) = Some now \<and> pending s' key \<noteq> Some a"
proof -
  let ?c = "acked_command now ''PROBE_ACK'' ''BUSY'' ackNode result (cmds s a)"
  have kind: "map_of ACKMap ''PROBE_ACK'' = Some ''PROBE_START''" by (simp add: ACKMap_def)
  have busy: "ToUpper ''BUSY'' = ''BUSY''" by (simp add: upper_char_def)
  have st: "ack_status ''PROBE_ACK'' ''BUSY'' = StatusSent"
    by (simp add: ack_status_def upper_char_def terminal_ok_def terminal_err_def has_prefix_def Let_def)
  have s': "s' = fst (ack_matched quote rnd s now key a ?c)"
    by (simp add: s'_def HandleStructuredACK_def kind m busy Let_def case_prod_unfold)
  have "a < next_cmd s" using cmd_invD [OF inv] latest_pending [OF m] by auto
  then show ?thesis
    unfolding s' using ack_matched_closed [of ?c a s quote rnd now key] st by (simp add: acked_command_def)
qed

text \<open>A \<open>STOP_ACK\<close> leaves no running scan behind: after it is matched to a stop command with
  target \<open>t\<close>, no pending scan-class command that is running has the target \<open>t\<close>, and none at all
  when \<open>t\<close> is \<open>@ALL\<close>.\<close>

theorem stop_ack_stops_scans:
  fixes s :: "'f CmdService" and quote rnd now ackStatus ackNode result
  assumes inv: "cmd_inv s" and m: "latest s (ack_candidate ''STOP_ACK'' ''STOP'') ord None = Some (key, a)"
  defines "s1 \<equiv> fst (ack_matched quote rnd s now key a (acked_command now ''STOP_ACK'' ackStatus ackNode result (cmds s a)))"
    and "s' \<equiv> \<lambda>ord'. fst (HandleStructuredACK quote rnd s now ord ord' ''STOP_ACK'' ackStatus ackNode result)"
  assumes ord': "set ord' = dom (pending s1)"
  shows "\<forall>k b. pending (s' ord') k = Some b \<longrightarrow> Status (cmds (s' ord') b) = StatusRunning \<longrightarrow>
    cmd_name (cmds (s' ord') b) \<in> set scan_class \<longrightarrow>
    Target (cmds s a) \<noteq> ''@ALL'' \<and> Target (cmds (s' ord') b) \<noteq> Target (cmds s a)"
proof -
  have kind: "map_of ACKMap ''STOP_ACK'' = Some ''STOP''" by (simp add: ACKMap_def)
  have p: "pending s key = Some a" using latest_pending [OF m] by simp
  have s': "s' ord' = fst (stop_fanout quote rnd s1 now (Target (cmds s a)) ord')"
    by (simp add: s'_def s1_def HandleStructuredACK_def kind m Let_def case_prod_unfold)
  have i1: "cmd_inv s1"
    unfolding s1_def using cmd_invD [OF inv p] by (intro cmd_inv_ack_matched [OF inv p]) (simp_all add: acked_command_def)
  have "quiet (s' ord') (Target (cmds s a)) k" for k
    unfolding s' using ord' by (intro stop_fanout_quiet [OF i1]) (auto simp: quiet_def)
  then show ?thesis by (auto simp: quiet_def stops_def)
qed

text \<open>C31: \<open>mergeScanRows\<close> computes its specification: one row per address, in the order of first
  sight, each the merge of that address's rows in order; the merged row has the signal
  strength of the last of them, and the source \<open>BLERAW\<close> exactly when one of them has.\<close>

theorem mergeScanRows_correct:
  "mergeScanRows rows = merge_spec rows \<and>
   map MAC (mergeScanRows rows) = first_sights (map MAC rows) \<and>
   (\<forall>e \<in> set (mergeScanRows rows). RSSI e = RSSI (last (filter (\<lambda>r. MAC r = MAC e) rows)) \<and>
      (Source e = ''BLERAW'' \<longleftrightarrow> (\<exists>r \<in> set rows. MAC r = MAC e \<and> Source r = ''BLERAW'')))"
proof -
  let ?g = "\<lambda>m. filter (\<lambda>r. MAC r = m) rows"
  have ne: "?g m \<noteq> []" if "m \<in> set (first_sights (map MAC rows))" for m
    using that by (auto simp: filter_empty_conv)
  have mac: "MAC (merge_group (?g m)) = m" if "m \<in> set (first_sights (map MAC rows))" for m
    by (rule merge_group_MAC) (use ne [OF that] in auto)
  have rssi: "RSSI (merge_group (?g m)) = RSSI (last (?g m))"
    "Source (merge_group (?g m)) = ''BLERAW'' \<longleftrightarrow> (\<exists>r \<in> set (?g m). Source r = ''BLERAW'')"
    if "m \<in> set (first_sights (map MAC rows))" for m
    using ne [OF that] foldl_merge_row [of "hd (?g m)" "tl (?g m)"] by (simp_all add: merge_group_def)
  show ?thesis
    unfolding mergeScanRows_spec merge_spec_def
    using mac rssi by (auto simp: comp_def intro!: map_idI)
qed

theorem mergeScanRows_correct_witness:
  "map MAC (mergeScanRows [\<lparr>MAC = ''a'', RSSI = 1, Band = [], Source = ''DEVICE'', DetectionType = [], Manufacturer = [], LocalName = []\<rparr>])
     = [''a'']"
proof -
  let ?x = "[\<lparr>MAC = ''a'', RSSI = 1, Band = [], Source = ''DEVICE'', DetectionType = [], Manufacturer = [], LocalName = []\<rparr>]"
  have "map MAC (mergeScanRows ?x) = first_sights (map MAC ?x)" using mergeScanRows_correct [of ?x] by blast
  also have "\<dots> = [''a'']" by (simp add: first_sights_def)
  finally show ?thesis .
qed

text \<open>The rate limit refuses a command to a node that was sent one less than 2 seconds ago; but
  it counts completed sends, not accepted commands: as long as the sender has not finished, a
  second and any further command to the same node is accepted at the same moment.\<close>

theorem rate_limit_counts_sends:
  "(nodeRate s (TargetNode cmd) = Some sent \<and> now - sent < rate_window \<longrightarrow> Enqueue rnd s now cmd = Inl ErrRateLimited) \<and>
   (Enqueue rnd s now cmd = Inr (a, s', es) \<and> TargetNode cmd' = TargetNode cmd \<longrightarrow>
      (\<exists>a' s'' es'. Enqueue rnd s' now cmd' = Inr (a', s'', es')))"
proof -
  have "nodeRate s' = nodeRate s" if "Enqueue rnd s now cmd = Inr (a, s', es)"
    using that by (auto simp: Enqueue_def enqueuePrecedingRawBLEOnLocked_def add_pending_def Let_def split: if_splits)
  then show ?thesis
    by (auto simp: Enqueue_def Let_def split: if_splits option.splits prod.splits)
qed

text \<open>The sender does not look at the queue when it finishes. A command that was acknowledged
  while it was being sent goes back from \<open>OK\<close> to \<open>SENT\<close> although it has a finish time and is out
  of the queue, and a command that was deleted before it was sent is still marked as sent and
  written to the database again.\<close>

theorem sender_overwrites_closed_commands:
  assumes "pending s cid = Some a"
  shows "(let s1 = fst (HandleACK s now cid result); (s2, es) = send_finish s1 now' a True in
      Status (cmds s1 a) = StatusOK \<and> Status (cmds s2 a) = StatusSent \<and> FinishedAt (cmds s2 a) = Some now \<and>
      pending s2 cid = None \<and> GoPersist a \<in> set es) \<and>
    (let (s2, es) = send_finish (Delete s cid) now' a True in
      Status (cmds s2 a) = StatusSent \<and> pending s2 cid = None \<and> GoPersist a \<in> set es)"
  using assms by (simp add: HandleACK_def send_finish_def Delete_def Let_def)

text \<open>The scan watchdog closes exactly the probe scans whose window is over: after it no
  pending command has an elapsed window, and every other pending command, a \<open>FOREVER\<close> scan in
  particular, is untouched.\<close>

theorem timeouts_close_exactly_elapsed:
  fixes s :: "'f CmdService" and now grace
  assumes inv: "cmd_inv s" and ord: "set ord = dom (pending s)"
  defines "s' \<equiv> fst (EnforceScanTimeouts s now grace ord)"
  shows "(\<forall>k a. pending s' k = Some a \<longrightarrow> \<not> scan_elapsed now grace (cmds s' a)) \<and>
    (\<forall>k a. pending s k = Some a \<and> \<not> scan_elapsed now grace (cmds s a) \<longrightarrow>
       pending s' k = Some a \<and> cmds s' a = cmds s a)"
  using timeouts_closed [OF inv] timeouts_untouched [OF inv] ord unfolding s'_def
  by (metis domIff)

end
