(* ===== verification/RateLimit.thy ===== *)
theory RateLimit
  imports Prelude
begin

text \<open>
  The per-client limiter of the web API (\<open>internal/ratelimit/ratelimit.go\<close>): \<open>Allow\<close>, the
  background \<open>cleanup\<close> and the decision of \<open>Middleware\<close>. Times are nanoseconds and the clock
  reading is an argument; \<open>net.SplitHostPort\<close> of the request's address is an argument of
  \<open>Middleware\<close>, \<open>None\<close> for its error.
\<close>

section \<open>Definitions\<close>

record bucket =
  bcount :: int
  resetAt :: int

record Limiter =
  limit :: int
  window :: int
  buckets :: "string \<rightharpoonup> bucket"

definition New :: "int \<Rightarrow> int \<Rightarrow> Limiter" where
  "New lim windowSec = \<lparr>limit = lim, window = wrap64 (windowSec * 10 ^ 9), buckets = Map.empty\<rparr>"

definition Allow :: "Limiter \<Rightarrow> int \<Rightarrow> string \<Rightarrow> bool \<times> Limiter" where
  "Allow l now ip =
     (case buckets l ip of
        Some b \<Rightarrow>
          if now > resetAt b
          then (True, l\<lparr>buckets := (buckets l)(ip \<mapsto> \<lparr>bcount = 1, resetAt = now + window l\<rparr>)\<rparr>)
          else (bcount b + 1 \<le> limit l, l\<lparr>buckets := (buckets l)(ip \<mapsto> b\<lparr>bcount := bcount b + 1\<rparr>)\<rparr>)
      | None \<Rightarrow> (True, l\<lparr>buckets := (buckets l)(ip \<mapsto> \<lparr>bcount = 1, resetAt = now + window l\<rparr>)\<rparr>))"

text \<open>Whether the request is served or answered with status 429.\<close>

definition Middleware :: "(string \<Rightarrow> string option) \<Rightarrow> Limiter \<Rightarrow> int \<Rightarrow> string \<Rightarrow> bool \<times> Limiter" where
  "Middleware split_host_port l now remoteAddr =
     Allow l now (case split_host_port remoteAddr of Some ip \<Rightarrow> ip | None \<Rightarrow> remoteAddr)"

text \<open>One tick of the cleanup goroutine.\<close>

definition cleanup :: "Limiter \<Rightarrow> int \<Rightarrow> Limiter" where
  "cleanup l now = l\<lparr>buckets := (\<lambda>ip. case buckets l ip of
     Some b \<Rightarrow> if now > resetAt b then None else Some b | None \<Rightarrow> None)\<rparr>"

text \<open>Requests and cleanup ticks in the order they take the mutex; the verdicts with their address.\<close>

datatype rl_event = Request int string | Tick int

fun rl_time :: "rl_event \<Rightarrow> int" where
  "rl_time (Request t _) = t"
| "rl_time (Tick t) = t"

fun rl_run :: "Limiter \<Rightarrow> rl_event list \<Rightarrow> (string \<times> bool) list" where
  "rl_run l [] = []"
| "rl_run l (Request t ip # es) = (let (ok, l') = Allow l t ip in (ip, ok) # rl_run l' es)"
| "rl_run l (Tick t # es) = rl_run (cleanup l t) es"

definition verdicts :: "string \<Rightarrow> (string \<times> bool) list \<Rightarrow> bool list" where
  "verdicts ip vs = map snd (filter (\<lambda>v. fst v = ip) vs)"

definition requests :: "string \<Rightarrow> rl_event list \<Rightarrow> nat" where
  "requests ip es = length (filter (\<lambda>e. case e of Request _ a \<Rightarrow> a = ip | Tick _ \<Rightarrow> False) es)"

section \<open>One window\<close>

lemma verdicts_simps [simp]:
  "verdicts ip [] = []" "verdicts ip ((a, ok) # vs) = (if a = ip then ok # verdicts ip vs else verdicts ip vs)"
  by (simp_all add: verdicts_def)

lemma requests_simps [simp]:
  "requests ip [] = 0"
  "requests ip (Request t a # es) = (if a = ip then Suc (requests ip es) else requests ip es)"
  "requests ip (Tick t # es) = requests ip es"
  by (simp_all add: requests_def)

lemma Allow_limit [simp]: "limit (snd (Allow l t ip)) = limit l" "window (snd (Allow l t ip)) = window l"
  by (simp_all add: Allow_def split: option.splits)

lemma Allow_other: "a \<noteq> ip \<Longrightarrow> buckets (snd (Allow l t a)) ip = buckets l ip"
  by (simp add: Allow_def split: option.splits)

lemma window_verdicts:
  "buckets l ip = Some b \<Longrightarrow> list_all (\<lambda>e. rl_time e \<le> resetAt b) es \<Longrightarrow>
   verdicts ip (rl_run l es) = map (\<lambda>i. bcount b + int i + 1 \<le> limit l) [0..<requests ip es]"
proof (induction es arbitrary: l b)
  case (Cons e es)
  show ?case
  proof (cases e)
    case (Request t a)
    show ?thesis
    proof (cases "a = ip")
      case True
      let ?b = "b\<lparr>bcount := bcount b + 1\<rparr>"
      let ?l = "l\<lparr>buckets := (buckets l)(ip \<mapsto> ?b)\<rparr>"
      have "Allow l t ip = (bcount b + 1 \<le> limit l, ?l)"
        using Cons.prems Request by (simp add: Allow_def)
      moreover have "verdicts ip (rl_run ?l es) = map (\<lambda>i. bcount ?b + int i + 1 \<le> limit ?l) [0..<requests ip es]"
        using Cons.prems(2) by (intro Cons.IH) simp_all
      ultimately show ?thesis
        using Request True by (simp add: map_upt_Suc algebra_simps del: upt_Suc)
    next
      case False
      then have "buckets (snd (Allow l t a)) ip = Some b" using Cons.prems(1) by (simp add: Allow_other)
      from Cons.IH [OF this] Cons.prems(2) Request False show ?thesis by (simp add: case_prod_unfold Let_def)
    qed
  next
    case (Tick t)
    with Cons.prems have "buckets (cleanup l t) ip = Some b" by (simp add: cleanup_def)
    from Cons.IH [OF this] Cons.prems(2) Tick show ?thesis by (simp add: cleanup_def)
  qed
qed simp

section \<open>Cleanup is not observable\<close>

text \<open>\<open>l'\<close> is \<open>l\<close> without some buckets that are over at time \<open>t\<close>.\<close>

definition cleaned :: "int \<Rightarrow> Limiter \<Rightarrow> Limiter \<Rightarrow> bool" where
  "cleaned t l l' \<longleftrightarrow> limit l' = limit l \<and> window l' = window l \<and>
     (\<forall>ip. buckets l' ip = buckets l ip \<or>
        (buckets l' ip = None \<and> (\<exists>b. buckets l ip = Some b \<and> resetAt b < t)))"

lemma cleaned_Allow:
  assumes "cleaned t l l'" "t \<le> now"
  shows "fst (Allow l' now ip) = fst (Allow l now ip)" "cleaned t (snd (Allow l now ip)) (snd (Allow l' now ip))"
proof -
  have same: "limit l' = limit l" "window l' = window l"
    and ip: "buckets l' ip = buckets l ip \<or> (buckets l' ip = None \<and> (\<exists>b. buckets l ip = Some b \<and> resetAt b < t))"
    using assms(1) by (simp_all add: cleaned_def)
  from ip have eq: "fst (Allow l' now ip) = fst (Allow l now ip) \<and>
      buckets (snd (Allow l' now ip)) ip = buckets (snd (Allow l now ip)) ip"
    using same assms(2) by (elim disjE conjE exE) (auto simp: Allow_def split: option.splits)
  then show "fst (Allow l' now ip) = fst (Allow l now ip)" by simp
  show "cleaned t (snd (Allow l now ip)) (snd (Allow l' now ip))"
    unfolding cleaned_def
  proof (intro conjI allI)
    fix a
    show "buckets (snd (Allow l' now ip)) a = buckets (snd (Allow l now ip)) a \<or>
        buckets (snd (Allow l' now ip)) a = None \<and> (\<exists>b. buckets (snd (Allow l now ip)) a = Some b \<and> resetAt b < t)"
      using eq assms(1) by (cases "a = ip") (simp_all add: Allow_other cleaned_def)
  qed (simp_all add: same)
qed

lemma cleaned_cleanup: "cleaned t l l' \<Longrightarrow> cleaned t (cleanup l now) (cleanup l' now)"
  unfolding cleaned_def cleanup_def
proof (simp, intro allI impI, elim conjE, goal_cases)
  case (1 ip)
  then show ?case by (elim allE [of _ ip]) (cases "buckets l ip"; auto)
qed

lemma cleaned_run: "cleaned t l l' \<Longrightarrow> list_all (\<lambda>e. t \<le> rl_time e) es \<Longrightarrow> rl_run l' es = rl_run l es"
proof (induction es arbitrary: l l')
  case (Cons e es)
  then show ?case
    by (cases e) (simp_all add: case_prod_unfold Let_def cleaned_Allow cleaned_cleanup)
qed simp

section \<open>Properties\<close>

text \<open>From the request that opens a window until the window is over, a client gets exactly
  \<open>limit\<close> requests through, whatever other clients and the cleanup do in between: its first
  request is always served, and the n-th one (from 2 on) exactly when n is at most the limit.\<close>

theorem window_allows_exactly_limit:
  assumes "case buckets l ip of None \<Rightarrow> True | Some b \<Rightarrow> resetAt b < now"
    and "list_all (\<lambda>e. rl_time e \<le> now + window l) es"
  shows "verdicts ip (rl_run l (Request now ip # es)) =
    True # map (\<lambda>i. int i + 2 \<le> limit l) [0..<requests ip es]"
proof -
  let ?b = "\<lparr>bcount = 1, resetAt = now + window l\<rparr>"
  have a: "Allow l now ip = (True, l\<lparr>buckets := (buckets l)(ip \<mapsto> ?b)\<rparr>)"
    using assms(1) by (simp add: Allow_def split: option.splits)
  have "verdicts ip (rl_run (l\<lparr>buckets := (buckets l)(ip \<mapsto> ?b)\<rparr>) es) =
      map (\<lambda>i. bcount ?b + int i + 1 \<le> limit (l\<lparr>buckets := (buckets l)(ip \<mapsto> ?b)\<rparr>)) [0..<requests ip es]"
    by (rule window_verdicts) (use assms(2) in simp_all)
  then show ?thesis by (simp add: a algebra_simps)
qed

text \<open>The background cleanup is not observable: removing the buckets that are over at time
  \<open>t\<close> changes no verdict on any later sequence of requests and ticks.\<close>

theorem cleanup_is_transparent:
  assumes "list_all (\<lambda>e. t \<le> rl_time e) es"
  shows "rl_run (cleanup l t) es = rl_run l es"
  by (rule cleaned_run [of t]) (use assms in \<open>auto simp: cleaned_def cleanup_def split: option.splits\<close>)

end
