(* ===== verification/GoFloat.thy ===== *)
theory GoFloat
  imports GoStrings Complex_Main
begin

text \<open>
  \<open>strconv.ParseFloat(s, 64)\<close> of Go's library, which the command builder uses: the accepted
  syntax (decimal and hexadecimal numbers with underscores, infinities, NaN) and the value,
  rounded to the nearest \<open>float64\<close> with ties to even. Finite values are kept as rationals; the
  sign of zero plays no role in the comparisons the code makes.
\<close>

section \<open>Values\<close>

datatype float64 = Fin rat | Inf bool | NaN

fun float_less :: "float64 \<Rightarrow> float64 \<Rightarrow> bool" where
  "float_less (Fin x) (Fin y) = (x < y)"
| "float_less (Fin _) (Inf neg) = (\<not> neg)"
| "float_less (Inf neg) (Fin _) = neg"
| "float_less (Inf neg) (Inf neg') = (neg \<and> \<not> neg')"
| "float_less _ _ = False"

text \<open>The number of binary digits, and the exponent of a positive rational.\<close>

function bits :: "int \<Rightarrow> int" where
  "bits n = (if n \<le> 0 then 0 else 1 + bits (n div 2))"
  by pat_completeness auto
termination
  by (relation "measure nat") auto

declare bits.simps [simp del]

definition two_to :: "int \<Rightarrow> rat" where
  "two_to e = (if 0 \<le> e then of_int (2 ^ nat e) else Fract 1 (2 ^ nat (- e)))"

definition exponent_of :: "rat \<Rightarrow> int" where
  "exponent_of x =
     (let (p, q) = quotient_of x; k = bits p - bits q in
      if two_to k \<le> x then k else k - 1)"

definition round_even :: "rat \<Rightarrow> int" where
  "round_even q =
     (let n = \<lfloor>q\<rfloor>; r = q - of_int n in
      if r < 1 / 2 \<or> r = 1 / 2 \<and> even n then n else n + 1)"

text \<open>The nearest \<open>float64\<close> of a rational, without the overflow check.\<close>

definition nearest :: "rat \<Rightarrow> rat" where
  "nearest x =
     (if x = 0 then 0
      else (let a = \<bar>x\<bar>; u = two_to (max (exponent_of a) (- 1022) - 52); y = of_int (round_even (a / u)) * u in
            if x < 0 then - y else y))"

section \<open>Syntax\<close>

definition is_hex_letter :: "char \<Rightarrow> bool" where
  "is_hex_letter c \<longleftrightarrow> (let n = of_char (lower_char c) :: nat in 97 \<le> n \<and> n \<le> 102)"

definition hex_value :: "char \<Rightarrow> int" where
  "hex_value c = (if is_digit c then of_char c - 48 else of_char (lower_char c) - 87)"

text \<open>
  The mantissa loop of \<open>readFloat\<close>: the digits read so far as an integer, how many of them
  follow the point (\<open>None\<close> before the point), whether a digit was seen, and the rest.
\<close>

fun read_mantissa :: "bool \<Rightarrow> int \<Rightarrow> nat option \<Rightarrow> bool \<Rightarrow> string \<Rightarrow> int \<times> nat option \<times> bool \<times> string" where
  "read_mantissa hex m dot digits [] = (m, dot, digits, [])"
| "read_mantissa hex m dot digits (c # cs) =
     (if c = CHR ''_'' then read_mantissa hex m dot digits cs
      else if c = CHR ''.'' then
        (if dot \<noteq> None then (m, dot, digits, c # cs) else read_mantissa hex m (Some 0) digits cs)
      else if is_digit c \<or> hex \<and> is_hex_letter c then
        read_mantissa hex ((if hex then 16 else 10) * m + hex_value c) (map_option Suc dot) True cs
      else (m, dot, digits, c # cs))"

text \<open>The digits of the exponent; from 10000 on they are read but not counted.\<close>

fun read_exponent :: "int \<Rightarrow> string \<Rightarrow> int \<times> string" where
  "read_exponent e [] = (e, [])"
| "read_exponent e (c # cs) =
     (if c = CHR ''_'' then read_exponent e cs
      else if is_digit c then read_exponent (if e < 10000 then e * 10 + (of_char c - 48) else e) cs
      else (e, c # cs))"

definition drop_sign :: "string \<Rightarrow> bool \<times> string" where
  "drop_sign s =
     (case s of
        c # cs \<Rightarrow> if c = CHR ''-'' then (True, cs) else if c = CHR ''+'' then (False, cs) else (False, s)
      | [] \<Rightarrow> (False, s))"

text \<open>\<open>underscoreOK\<close>: the state is the last character class, a digit, an underscore or another one.\<close>

fun underscores_ok :: "bool \<Rightarrow> char \<Rightarrow> string \<Rightarrow> bool" where
  "underscores_ok hex st [] \<longleftrightarrow> st \<noteq> CHR ''_''"
| "underscores_ok hex st (c # cs) \<longleftrightarrow>
     (if is_digit c \<or> hex \<and> is_hex_letter c then underscores_ok hex CHR ''0'' cs
      else if c = CHR ''_'' then st = CHR ''0'' \<and> underscores_ok hex CHR ''_'' cs
      else st \<noteq> CHR ''_'' \<and> underscores_ok hex CHR ''!'' cs)"

definition underscoreOK :: "string \<Rightarrow> bool" where
  "underscoreOK s =
     (case snd (drop_sign s) of
        z # b # cs \<Rightarrow>
          if z = CHR ''0'' \<and> lower_char b \<in> {CHR ''b'', CHR ''o'', CHR ''x''}
          then underscores_ok (lower_char b = CHR ''x'') CHR ''0'' cs
          else underscores_ok False CHR ''^'' (z # b # cs)
      | t \<Rightarrow> underscores_ok False CHR ''^'' t)"

definition hex_prefix :: "string \<Rightarrow> bool" where
  "hex_prefix t = (case t of z # x # _ # _ \<Rightarrow> z = CHR ''0'' \<and> lower_char x = CHR ''x'' | _ \<Rightarrow> False)"

text \<open>The exponent part, and \<open>readFloat\<close> on the whole string: the exact value.\<close>

definition read_exp_part :: "bool \<Rightarrow> string \<Rightarrow> int option" where
  "read_exp_part hex s =
     (case s of
        [] \<Rightarrow> if hex then None else Some 0
      | c # cs \<Rightarrow>
         if lower_char c \<noteq> (if hex then CHR ''p'' else CHR ''e'') then None
         else
           (let (neg, ds) = drop_sign cs in
            case ds of
              [] \<Rightarrow> None
            | d # _ \<Rightarrow>
               if \<not> is_digit d then None
               else (case read_exponent 0 ds of (e, rest) \<Rightarrow>
                       if rest = [] then Some (if neg then - e else e) else None)))"

definition ten_to :: "int \<Rightarrow> rat" where
  "ten_to e = (if 0 \<le> e then of_int (10 ^ nat e) else Fract 1 (10 ^ nat (- e)))"

definition readFloat :: "string \<Rightarrow> rat option" where
  "readFloat s =
     (let (neg, t) = drop_sign s;
          hex = hex_prefix t;
          (m, dot, digits, rest) = read_mantissa hex 0 None False (if hex then drop 2 t else t);
          frac = int (case dot of None \<Rightarrow> 0 | Some n \<Rightarrow> n)
      in if \<not> digits then None
         else (case read_exp_part hex rest of
             None \<Rightarrow> None
           | Some e \<Rightarrow>
              if CHR ''_'' \<in> set s \<and> \<not> underscoreOK s then None
              else Some ((if neg then -1 else 1) * of_int m *
                (if hex then two_to (e - 4 * frac) else ten_to (e - frac)))))"

definition ParseFloat :: "string \<Rightarrow> float64 option" where
  "ParseFloat s =
     (let (neg, t) = drop_sign s; l = map lower_char t in
      if l = ''inf'' \<or> l = ''infinity'' then Some (Inf neg)
      else if map lower_char s = ''nan'' then Some NaN
      else (case readFloat s of
          None \<Rightarrow> None
        | Some x \<Rightarrow> (let y = nearest x in if \<bar>y\<bar> < two_to 1024 then Some (Fin y) else None)))"

section \<open>The characters of a number\<close>

definition float_char :: "char \<Rightarrow> bool" where
  "float_char c \<longleftrightarrow> is_digit c \<or> c \<in> {CHR ''_'', CHR ''.'', CHR ''+'', CHR ''-''} \<or>
     (let n = of_char (lower_char c) :: nat in 97 \<le> n \<and> n \<le> 122)"

lemma float_char_simps [simp]:
  "float_char CHR ''_''" "float_char CHR ''.''" "float_char CHR ''+''" "float_char CHR ''-''"
  by (simp_all add: float_char_def)

lemma float_char_digit [simp]: "is_digit c \<Longrightarrow> float_char c" "is_hex_letter c \<Longrightarrow> float_char c"
  by (simp_all add: float_char_def is_hex_letter_def Let_def)

lemma float_char_lower: "97 \<le> (of_char (lower_char c) :: nat) \<Longrightarrow> of_char (lower_char c) \<le> (122 :: nat) \<Longrightarrow> float_char c"
  by (simp add: float_char_def)

lemma float_char_word:
  assumes "map lower_char t \<in> {''inf'', ''infinity'', ''nan''}"
  shows "list_all float_char t"
proof -
  have "list_all (\<lambda>c. 97 \<le> (of_char c :: nat) \<and> of_char c \<le> (122 :: nat)) (''inf'' @ ''infinity'' @ ''nan'')"
    by code_simp
  with assms have "list_all (\<lambda>c. 97 \<le> (of_char c :: nat) \<and> of_char c \<le> (122 :: nat)) (map lower_char t)"
    by (auto simp: list_all_iff)
  then show ?thesis by (auto simp: list_all_iff float_char_lower)
qed

lemma read_mantissa_chars:
  "read_mantissa hex m dot dg s = (m', dot', dg', rest) \<Longrightarrow> list_all float_char rest \<Longrightarrow> list_all float_char s"
proof (induction hex m dot dg s rule: read_mantissa.induct)
  case (2 hex m dot dg c cs)
  show ?case
  proof (cases "c = CHR ''_'' \<or> c = CHR ''.'' \<or> is_digit c \<or> hex \<and> is_hex_letter c")
    case True
    then have "float_char c" by auto
    with 2 show ?thesis by (auto split: if_splits)
  qed (use 2 in auto)
qed simp

lemma read_exponent_chars: "read_exponent e s = (e', rest) \<Longrightarrow> list_all float_char rest \<Longrightarrow> list_all float_char s"
proof (induction e s rule: read_exponent.induct)
  case (2 e c cs)
  then show ?case by (cases "c = CHR ''_''"; cases "is_digit c") auto
qed simp

lemma drop_sign_chars: "drop_sign s = (neg, t) \<Longrightarrow> list_all float_char t \<Longrightarrow> list_all float_char s"
  by (auto simp: drop_sign_def split: list.splits if_splits)

lemma read_exp_part_chars: "read_exp_part hex s = Some e \<Longrightarrow> list_all float_char s"
proof (cases s)
  case (Cons c cs)
  assume e: "read_exp_part hex s = Some e"
  obtain neg ds where ds: "drop_sign cs = (neg, ds)" by fastforce
  have "lower_char c = (if hex then CHR ''p'' else CHR ''e'')"
    using e Cons by (auto simp: read_exp_part_def split: if_splits)
  then have "float_char c" by (intro float_char_lower) (simp_all split: if_splits)
  moreover have "list_all float_char ds"
    using e Cons ds by (auto simp: read_exp_part_def split: if_splits list.splits prod.splits intro: read_exponent_chars)
  ultimately show ?thesis using drop_sign_chars [OF ds] Cons by simp
qed simp

lemma readFloat_chars: "readFloat s = Some x \<Longrightarrow> list_all float_char s"
proof -
  assume x: "readFloat s = Some x"
  obtain neg t where t: "drop_sign s = (neg, t)" by fastforce
  define hex where "hex = hex_prefix t"
  obtain m dot dg rest where m: "read_mantissa hex 0 None False (if hex then drop 2 t else t) = (m, dot, dg, rest)"
    by (metis prod.collapse)
  obtain e where "read_exp_part hex rest = Some e"
    using x t m by (simp add: readFloat_def hex_def [symmetric] Let_def split: if_splits option.splits)
  then have body: "list_all float_char (if hex then drop 2 t else t)"
    using read_mantissa_chars [OF m] read_exp_part_chars by blast
  have "list_all float_char t"
  proof (cases hex)
    case True
    then obtain z x' y ys where "t = z # x' # y # ys" "z = CHR ''0''" "lower_char x' = CHR ''x''"
      by (auto simp: hex_def hex_prefix_def split: list.splits)
    with True body show ?thesis by (simp add: float_char_lower) (simp add: float_char_def is_digit_def)
  qed (use body in simp)
  with drop_sign_chars [OF t] show ?thesis by blast
qed

lemma ParseFloat_chars: "ParseFloat s = Some f \<Longrightarrow> list_all float_char s"
proof -
  assume f: "ParseFloat s = Some f"
  obtain neg t where t: "drop_sign s = (neg, t)" by fastforce
  consider "map lower_char t \<in> {''inf'', ''infinity'', ''nan''}" | "map lower_char s \<in> {''inf'', ''infinity'', ''nan''}"
    | x where "readFloat s = Some x"
    using f t by (auto simp: ParseFloat_def Let_def split: if_splits option.splits)
  then show ?thesis
  proof cases
    case 1
    then show ?thesis by (intro drop_sign_chars [OF t] float_char_word)
  qed (rule float_char_word, assumption, rule readFloat_chars)
qed

section \<open>Unsigned numbers\<close>

text \<open>\<open>strconv.ParseUint(s, base, 32)\<close> for the bases 10 and 16.\<close>

definition digit_of :: "int \<Rightarrow> char \<Rightarrow> int option" where
  "digit_of base c =
     (let d = (if is_digit c then of_char c - 48 else if is_hex_letter c then of_char (lower_char c) - 87 else base)
      in if d < base then Some d else None)"

fun parse_digits :: "int \<Rightarrow> int \<Rightarrow> string \<Rightarrow> int option" where
  "parse_digits base v [] = Some v"
| "parse_digits base v (c # cs) = (case digit_of base c of None \<Rightarrow> None | Some d \<Rightarrow> parse_digits base (base * v + d) cs)"

definition ParseUint32 :: "int \<Rightarrow> string \<Rightarrow> u32 option" where
  "ParseUint32 base s =
     (if s = [] then None
      else (case parse_digits base 0 s of None \<Rightarrow> None | Some v \<Rightarrow> if v < 2 ^ 32 then Some (word_of_int v) else None))"

end
