(* ===== verification/Builder.thy ===== *)
theory Builder
  imports GoFloat Commands
begin

text \<open>
  The command builder of \<open>internal/commands/builder.go\<close>: the catalogue \<open>Registry\<close>, the validation of
  parameters and \<open>Build\<close>, which turns an operator's request into the text line sent over the
  mesh. The fields of \<open>CommandDef\<close> and \<open>ParamDef\<close> that are only displayed (labels, descriptions,
  placeholders) are left out.
\<close>

section \<open>Strings\<close>

text \<open>
  \<open>strings.ToLower\<close> as far as a comparison with ASCII text sees it: ASCII letters, and the two
  other runes whose lower case is ASCII, U+0130 (to \<open>i\<close>) and U+212A (to \<open>k\<close>).
\<close>

fun ToLower :: "string \<Rightarrow> string" where
  "ToLower (a # s) =
     (case s of
        b # t \<Rightarrow>
          if of_char a = (0xC4 :: nat) \<and> of_char b = (0xB0 :: nat) then CHR ''i'' # ToLower t
          else (case t of
              c # u \<Rightarrow>
                if of_char a = (0xE2 :: nat) \<and> of_char b = (0x84 :: nat) \<and> of_char c = (0xAA :: nat)
                then CHR ''k'' # ToLower u
                else lower_char a # ToLower s
            | [] \<Rightarrow> lower_char a # ToLower s)
      | [] \<Rightarrow> [lower_char a])"
| "ToLower [] = []"

fun Join :: "string list \<Rightarrow> string \<Rightarrow> string" where
  "Join [] sep = []"
| "Join [s] sep = s"
| "Join (s # ss) sep = s @ sep @ Join ss sep"

text \<open>\<open>strings.Split\<close> at a single character, and \<open>strings.SplitN(val, "..", 2)\<close> of a text with two dots.\<close>

fun Split :: "char \<Rightarrow> string \<Rightarrow> string list" where
  "Split sep [] = [[]]"
| "Split sep (c # cs) =
     (if c = sep then [] # Split sep cs
      else (case Split sep cs of p # ps \<Rightarrow> (c # p) # ps | [] \<Rightarrow> [[c]]))"

fun cut_dots :: "string \<Rightarrow> string \<times> string" where
  "cut_dots (a # b # cs) =
     (if a = CHR ''.'' \<and> b = CHR ''.'' then ([], cs)
      else (let (l, r) = cut_dots (b # cs) in (a # l, r)))"
| "cut_dots s = (s, [])"

section \<open>The catalogue\<close>

record ParamDef =
  pKey :: string
  pType :: string
  pRequired :: bool
  pMin :: rat
  pMax :: rat
  pOptions :: "string list"
  LiteralTrue :: string

record CommandDef =
  dName :: string
  dGroup :: string
  dParams :: "ParamDef list"
  AllowForever :: bool
  SingleNode :: bool
  SupportedTypes :: "string list"
  WireName :: string

record BuildOutput =
  bTarget :: string
  bName :: string
  bParams :: "string list"
  bLine :: string

definition typeUniversal :: "string list" where "typeUniversal = [''*'']"
definition typeAH :: "string list" where "typeAH = [''antihunter'']"
definition typeGate :: "string list" where "typeGate = [''gatesensor'']"
definition typeAICam :: "string list" where "typeAICam = [''aicam'']"
definition typeAHAICam :: "string list" where "typeAHAICam = [''antihunter'', ''aicam'']"

text \<open>Composite literals, with the zero value for what is not given.\<close>

definition param :: "string \<Rightarrow> string \<Rightarrow> bool \<Rightarrow> ParamDef" where
  "param key typ req = \<lparr>pKey = key, pType = typ, pRequired = req, pMin = 0, pMax = 0, pOptions = [], LiteralTrue = []\<rparr>"

definition ranged :: "string \<Rightarrow> string \<Rightarrow> bool \<Rightarrow> rat \<Rightarrow> rat \<Rightarrow> ParamDef" where
  "ranged key typ req lo hi = (param key typ req)\<lparr>pMin := lo, pMax := hi\<rparr>"

definition select :: "string \<Rightarrow> string list \<Rightarrow> ParamDef" where
  "select key opts = (param key ''select'' True)\<lparr>pOptions := opts\<rparr>"

definition flag :: "string \<Rightarrow> string \<Rightarrow> ParamDef" where
  "flag key lit = (param key ''bool'' False)\<lparr>LiteralTrue := lit\<rparr>"

definition command :: "string \<Rightarrow> string \<Rightarrow> string list \<Rightarrow> ParamDef list \<Rightarrow> CommandDef" where
  "command name grp types params = \<lparr>dName = name, dGroup = grp, dParams = params, AllowForever = False,
     SingleNode = False, SupportedTypes = types, WireName = []\<rparr>"

definition scan_duration :: ParamDef where
  "scan_duration = ranged ''duration'' ''duration'' True 1 86400"

definition commandDefs :: "CommandDef list" where
  "commandDefs = [
    command ''VIBRATION_OFF'' ''Status'' typeAH [],
    command ''VIBRATION_ON'' ''Status'' typeAH [],
    command ''STATUS'' ''Status'' typeUniversal [],
    command ''BASELINE_STATUS'' ''Diagnostics'' typeAH [],
    command ''VIBRATION_STATUS'' ''Diagnostics'' typeAH [],
    command ''I2C_SCAN'' ''Diagnostics'' typeAH [],
    command ''C5_I2C_SCAN'' ''Diagnostics'' typeAH [],
    (command ''SCAN_START'' ''Scanning'' typeAH
      [select ''mode'' [''0'', ''1'', ''2''], scan_duration, param ''channels'' ''channels'' False])\<lparr>AllowForever := True\<rparr>,
    (command ''SCAN_STOP'' ''Scanning'' typeAH [])\<lparr>WireName := ''STOP''\<rparr>,
    (command ''DEVICE_SCAN_START'' ''Scanning'' typeAH
      [select ''mode'' [''0'', ''1'', ''2''], scan_duration, flag ''captureProbes'' ''+PROBE''])\<lparr>AllowForever := True\<rparr>,
    (command ''DEVICE_SCAN_STOP'' ''Scanning'' typeAH [])\<lparr>WireName := ''STOP''\<rparr>,
    command ''STOP'' ''Scanning'' typeAHAICam [],
    command ''START'' ''Scanning'' typeAICam [],
    (command ''PROBE_START'' ''Scanning'' typeAH
      [select ''mode'' [''0'', ''1'', ''2''], scan_duration, flag ''broadcastAll'' ''+ALL''])\<lparr>AllowForever := True\<rparr>,
    command ''PROBE_STOP'' ''Scanning'' typeAH [],
    (command ''DRONE_START'' ''Detection'' typeAH [scan_duration])\<lparr>AllowForever := True\<rparr>,
    command ''DRONE_STOP'' ''Detection'' typeAH [],
    (command ''DEAUTH_START'' ''Detection'' typeAH [scan_duration])\<lparr>AllowForever := True\<rparr>,
    command ''DEAUTH_STOP'' ''Detection'' typeAH [],
    (command ''RANDOMIZATION_START'' ''Detection'' typeAH
      [select ''mode'' [''0'', ''1'', ''2''], scan_duration])\<lparr>AllowForever := True\<rparr>,
    command ''RANDOMIZATION_STOP'' ''Detection'' typeAH [],
    (command ''BASELINE_START'' ''Detection'' typeAH [scan_duration])\<lparr>AllowForever := True\<rparr>,
    command ''BASELINE_STOP'' ''Detection'' typeAH [],
    (command ''TRIANGULATE_START'' ''Triangulation'' typeAH
      [param ''target'' ''mac'' True, ranged ''duration'' ''duration'' True 20 300,
       select ''rfEnv'' [''0'', ''1'', ''2'', ''3'', ''4''],
       ranged ''wifiPwr'' ''number'' False (nearest (1 / 10)) 5,
       ranged ''blePwr'' ''number'' False (nearest (1 / 10)) 5])\<lparr>AllowForever := True\<rparr>,
    command ''TRIANGULATE_STOP'' ''Triangulation'' typeAH [],
    command ''TRIANGULATE_RESULTS'' ''Triangulation'' typeAH [],
    command ''CONFIG_CHANNELS'' ''Configuration'' typeAH [param ''channels'' ''channels'' True],
    command ''CONFIG_TARGETS'' ''Configuration'' typeAH [param ''targets'' ''pipeList'' True],
    command ''CONFIG_TARGETS_BLE'' ''Configuration'' typeAH [param ''targets'' ''bleTargetMultiSelect'' True],
    command ''CONFIG_RSSI'' ''Configuration'' typeAH [ranged ''rssi'' ''number'' True (- 120) (- 1)],
    (command ''CONFIG_NODEID'' ''Configuration'' typeAH [param ''nodeId'' ''text'' True])\<lparr>SingleNode := True\<rparr>,
    command ''ERASE_REQUEST'' ''Security'' typeAH [],
    command ''ERASE_FORCE'' ''Security'' typeAH [param ''token'' ''text'' True],
    command ''ERASE_CANCEL'' ''Security'' typeAH [],
    command ''AUTOERASE_ENABLE'' ''Security'' typeAH
      [ranged ''setupDelay'' ''number'' False 30 600, ranged ''eraseDelay'' ''number'' False 10 300,
       ranged ''vibs'' ''number'' False 2 5, ranged ''window'' ''number'' False 10 60,
       ranged ''cooldown'' ''number'' False 300 3600],
    command ''AUTOERASE_DISABLE'' ''Security'' typeAH [],
    command ''AUTOERASE_STATUS'' ''Diagnostics'' typeAH [],
    (command ''BATTERY_SAVER_START'' ''Battery'' typeAH [ranged ''interval'' ''number'' True 1 1440])\<lparr>AllowForever := True\<rparr>,
    command ''BATTERY_SAVER_STOP'' ''Battery'' typeAH [],
    command ''BATTERY_SAVER_STATUS'' ''Diagnostics'' typeAH [],
    (command ''RAW_BLE_ON'' ''Configuration'' typeAH [])\<lparr>SingleNode := True\<rparr>,
    (command ''RAW_BLE_OFF'' ''Configuration'' typeAH [])\<lparr>SingleNode := True\<rparr>,
    (command ''RAW_BLE_STATUS'' ''Diagnostics'' typeAH [])\<lparr>SingleNode := True\<rparr>,
    command ''REBOOT'' ''System'' typeUniversal [],
    command ''HB_ON'' ''Status'' typeUniversal [],
    command ''HB_OFF'' ''Status'' typeUniversal [],
    command ''HB_INTERVAL'' ''Status'' typeUniversal [ranged ''minutes'' ''number'' True 1 60],
    command ''TARGET_INTERVAL'' ''Status'' typeAH [ranged ''seconds'' ''number'' True 5 600],
    command ''TRI_CYCLE_START'' ''Triangulation'' typeAH
      [ranged ''intervalMs'' ''number'' True 1000 60000, param ''nodes'' ''text'' False],
    command ''HITS_RESET'' ''Gate'' typeGate [],
    command ''DEBOUNCE_SET'' ''Gate'' typeGate [ranged ''seconds'' ''number'' True 1 60],
    command ''CODE_ADD'' ''Gate'' typeGate
      [ranged ''code'' ''number'' True 1 16777215, param ''name'' ''text'' False],
    command ''CODE_REMOVE'' ''Gate'' typeGate [ranged ''code'' ''number'' True 1 16777215],
    command ''CODE_LIST'' ''Gate'' typeGate [],
    command ''CODE_CLEAR'' ''Gate'' typeGate [],
    command ''MODEL_LIST'' ''AI Camera'' typeAICam [],
    command ''MODEL_SET'' ''AI Camera'' typeAICam [ranged ''id'' ''number'' True 1 5],
    command ''DEDUP_INTERVAL'' ''AI Camera'' typeAICam [ranged ''seconds'' ''number'' True 1 3600],
    command ''CONF_THRESHOLD'' ''AI Camera'' typeAICam [ranged ''n'' ''number'' True 1 100],
    command ''WIFI_ON'' ''AI Camera'' typeAICam [],
    command ''WIFI_OFF'' ''AI Camera'' typeAICam [],
    command ''WIFI_SSID'' ''AI Camera'' typeAICam [param ''name'' ''text'' True],
    command ''WIFI_PSK'' ''AI Camera'' typeAICam [param ''pass'' ''text'' True]]"

definition Registry :: "string \<rightharpoonup> CommandDef" where
  "Registry = map_of (map (\<lambda>d. (dName d, d)) commandDefs)"

text \<open>The groups of the catalogue; the order within a group is Go's iteration order of the map,
  here the order \<open>defs\<close> in which the definitions are visited.\<close>

definition GroupedCommands :: "CommandDef list \<Rightarrow> string \<Rightarrow> CommandDef list" where
  "GroupedCommands defs g = filter (\<lambda>d. dGroup d = g) defs"

definition GroupOrder :: "string list" where
  "GroupOrder = [''Status'', ''Diagnostics'', ''Scanning'', ''Detection'', ''Triangulation'', ''Configuration'', ''Security'',
     ''Battery'', ''System'', ''Gate'', ''AI Camera'']"

section \<open>Validation\<close>

definition is_alnum :: "char \<Rightarrow> bool" where
  "is_alnum c \<longleftrightarrow> is_digit c \<or> (let n = of_char (lower_char c) :: nat in 97 \<le> n \<and> n \<le> 122)"

text \<open>\<open>^@(ALL|[A-Za-z0-9]{2,6})$\<close>; the first alternative is an instance of the second.\<close>

definition targetRegex :: "string \<Rightarrow> bool" where
  "targetRegex s = (case s of
     c # cs \<Rightarrow> c = CHR ''@'' \<and> 2 \<le> length cs \<and> length cs \<le> 6 \<and> list_all is_alnum cs | [] \<Rightarrow> False)"

definition macRegex :: "string \<Rightarrow> bool" where
  "macRegex s \<longleftrightarrow> length s = 17 \<and>
     list_all (\<lambda>(i, c). if i mod 3 = 2 then c = CHR '':'' else is_digit c \<or> is_hex_letter c) (enumerate 0 s)"

definition gateNameRegex :: "string \<Rightarrow> bool" where
  "gateNameRegex s \<longleftrightarrow> 1 \<le> length s \<and> length s \<le> 15 \<and> list_all (\<lambda>c. is_alnum c \<or> c = CHR ''_'' \<or> c = CHR ''-'') s"

text \<open>\<open>^HB\d{1,3}$\<close>.\<close>

definition nodeIdRegex :: "string \<Rightarrow> bool" where
  "nodeIdRegex s \<longleftrightarrow> has_prefix ''HB'' s \<and>
     (let ds = drop 2 s in 1 \<le> length ds \<and> length ds \<le> 3 \<and> list_all is_digit ds)"

datatype param_error =
    NotBool | NotNumber | NotBetween rat rat | InvalidMAC | BadChannelRange | BadChannel string
  | NotOption "string list" | BadNodeID | BadGateName

definition parseBool :: "string \<Rightarrow> bool" where
  "parseBool val \<longleftrightarrow> ToLower (TrimSpace val) \<in> set [''true'', ''1'', ''yes'', ''on'']"

definition channel_ok :: "string \<Rightarrow> bool" where
  "channel_ok ch = (case Atoi (TrimSpace ch) of None \<Rightarrow> False | Some n \<Rightarrow> 1 \<le> n \<and> n \<le> 14)"

definition validateChannels :: "string \<Rightarrow> param_error option" where
  "validateChannels val =
     (if contains ''..'' val then
        (let (l, r) = cut_dots val in
         case (Atoi l, Atoi r) of
           (Some a, Some b) \<Rightarrow> if a < 1 \<or> b > 14 \<or> a > b then Some BadChannelRange else None
         | _ \<Rightarrow> Some BadChannelRange)
      else map_option BadChannel (find (\<lambda>ch. \<not> channel_ok ch) (Split CHR '','' val)))"

definition validateParam :: "ParamDef \<Rightarrow> string \<Rightarrow> param_error option" where
  "validateParam pd val =
     (if pType pd = ''bool'' then
        (if ToLower (TrimSpace val) \<in> set [''true'', ''false'', ''1'', ''0'', ''yes'', ''no'', ''on'', ''off'', []]
         then None else Some NotBool)
      else if pType pd = ''number'' \<or> pType pd = ''duration'' then
        (case ParseFloat val of
           None \<Rightarrow> Some NotNumber
         | Some f \<Rightarrow>
            if (pMin pd \<noteq> 0 \<or> pMax pd \<noteq> 0) \<and> (float_less f (Fin (pMin pd)) \<or> float_less (Fin (pMax pd)) f)
            then Some (NotBetween (pMin pd) (pMax pd)) else None)
      else if pType pd = ''mac'' then (if macRegex (ToUpper val) then None else Some InvalidMAC)
      else if pType pd = ''channels'' then validateChannels val
      else if pType pd = ''select'' then (if val \<in> set (pOptions pd) then None else Some (NotOption (pOptions pd)))
      else if pType pd = ''text'' then
        (if pKey pd = ''nodeId'' \<and> \<not> nodeIdRegex (ToUpper val) then Some BadNodeID
         else if pKey pd = ''name'' \<and> \<not> gateNameRegex val then Some BadGateName
         else None)
      else None)"

section \<open>Build\<close>

datatype build_error =
    InvalidTarget string | UnknownCommand string | CannotTargetAll string
  | MissingParam string string | InvalidParam string param_error

definition blank :: "string \<Rightarrow> bool" where "blank s \<longleftrightarrow> TrimSpace s = []"

text \<open>The zero put into every blank duration of a \<open>FOREVER\<close> request.\<close>

definition fill_duration :: "nat \<times> ParamDef \<Rightarrow> string list \<Rightarrow> string list" where
  "fill_duration = (\<lambda>(i, pd) params.
     if pType pd \<noteq> ''duration'' then params
     else (let params = params @ replicate (Suc i - length params) [] in
           if blank (params ! i) then params[i := ''0''] else params))"

definition fill_durations :: "CommandDef \<Rightarrow> string list \<Rightarrow> string list" where
  "fill_durations def params = fold fill_duration (enumerate 0 (dParams def)) params"

definition trim_trailing :: "string list \<Rightarrow> string list" where
  "trim_trailing params = rev (dropWhile blank (rev params))"

definition missing_param :: "CommandDef \<Rightarrow> string list \<Rightarrow> ParamDef option" where
  "missing_param def params =
     map_option snd (find (\<lambda>(i, pd). pRequired pd \<and> (length params \<le> i \<or> blank (params ! i))) (enumerate 0 (dParams def)))"

text \<open>The validation loop; the definitions not yet used run along with the parameters.\<close>

fun clean_params :: "bool \<Rightarrow> ParamDef list \<Rightarrow> string list \<Rightarrow> build_error + string list" where
  "clean_params fv pds [] = Inr []"
| "clean_params fv pds (v # vs) =
     (let val = TrimSpace v in
      if val = [] then clean_params fv (tl pds) vs
      else (case pds of
          [] \<Rightarrow> map_sum id (Cons val) (clean_params fv [] vs)
        | pd # pds' \<Rightarrow>
           if fv \<and> pType pd = ''duration'' then map_sum id (Cons val) (clean_params fv pds' vs)
           else (case validateParam pd val of
               Some err \<Rightarrow> Inl (InvalidParam (pKey pd) err)
             | None \<Rightarrow>
                if pType pd = ''bool'' then
                  (if parseBool val \<and> LiteralTrue pd \<noteq> []
                   then map_sum id (Cons (LiteralTrue pd)) (clean_params fv pds' vs)
                   else clean_params fv pds' vs)
                else map_sum id (Cons val) (clean_params fv pds' vs))))"

definition scan_channels :: "string \<Rightarrow> string list \<Rightarrow> string list" where
  "scan_channels name ps =
     (if name = ''SCAN_START'' \<and> 1 \<le> length ps then
        (if ps ! 0 = ''1'' then (if 3 \<le> length ps then take 2 ps else ps)
         else if ps ! 0 = ''0'' \<or> ps ! 0 = ''2'' then
           (if length ps = 2 then ps @ [''1,6,11'']
            else if 3 \<le> length ps \<and> blank (ps ! 2) then ps[2 := ''1,6,11''] else ps)
         else ps)
      else ps)"

text \<open>The last position of a literal, and where \<open>FOREVER\<close> goes.\<close>

fun last_index :: "string \<Rightarrow> string list \<Rightarrow> nat option" where
  "last_index x [] = None"
| "last_index x (y # ys) =
     (case last_index x ys of Some j \<Rightarrow> Some (Suc j) | None \<Rightarrow> if x = y then Some 0 else None)"

definition forever_at :: "CommandDef \<Rightarrow> string list \<Rightarrow> nat" where
  "forever_at def ps = fold (\<lambda>pd ix.
     if pType pd = ''bool'' \<and> LiteralTrue pd \<noteq> []
     then (case last_index (LiteralTrue pd) ps of Some j \<Rightarrow> j | None \<Rightarrow> ix) else ix) (rev (dParams def)) (length ps)"

definition insert_forever :: "CommandDef \<Rightarrow> string list \<Rightarrow> string list" where
  "insert_forever def ps = (let ix = forever_at def ps in take ix ps @ [''FOREVER''] @ drop ix ps)"

definition wire_line :: "string \<Rightarrow> string \<Rightarrow> string list \<Rightarrow> string" where
  "wire_line target wireName ps = target @ '' '' @ wireName @ (if ps \<noteq> [] then '':'' @ Join ps '':'' else [])"

definition norm_target :: "string \<Rightarrow> string" where
  "norm_target target = (let t = ToUpper (TrimSpace target) in if has_prefix ''@'' t then t else ''@'' @ t)"

text \<open>The parameters as they go into the line; \<open>fv\<close> is whether \<open>FOREVER\<close> is requested and allowed.\<close>

definition given_params :: "CommandDef \<Rightarrow> bool \<Rightarrow> string list \<Rightarrow> string list" where
  "given_params def fv params = trim_trailing (if fv then fill_durations def params else params)"

definition build_params :: "CommandDef \<Rightarrow> string \<Rightarrow> bool \<Rightarrow> string list \<Rightarrow> build_error + string list" where
  "build_params def name fv params =
     (case missing_param def (given_params def fv params) of
        Some pd \<Rightarrow> Inl (MissingParam (pKey pd) name)
      | None \<Rightarrow>
         map_sum id (\<lambda>ps. if fv then insert_forever def (scan_channels name ps) else scan_channels name ps)
           (clean_params fv (dParams def) (given_params def fv params)))"

definition Build :: "string \<Rightarrow> string \<Rightarrow> string list \<Rightarrow> bool \<Rightarrow> build_error + BuildOutput" where
  "Build target name params forever =
     (let target = norm_target target; name = ToUpper (TrimSpace name) in
      if \<not> targetRegex target then Inl (InvalidTarget target)
      else (case Registry name of
          None \<Rightarrow> Inl (UnknownCommand name)
        | Some def \<Rightarrow>
           if SingleNode def \<and> target = ''@ALL'' then Inl (CannotTargetAll name)
           else map_sum id (\<lambda>ps. \<lparr>bTarget = target, bName = name, bParams = ps,
                  bLine = wire_line target (if WireName def \<noteq> [] then WireName def else name) ps\<rparr>)
                (build_params def name (forever \<and> AllowForever def) params)))"

end
