(* ===== verification/BuilderProofs.thy ===== *)
theory BuilderProofs
  imports Builder "HOL-Library.Multiset"
begin

text \<open>
  The command builder does what its comments promise: the shape of the line, what validation
  keeps out of it, and where validation is skipped; and how the catalogue fits the table of
  acknowledgements.
\<close>

section \<open>The line\<close>

lemma Join_colons: "(if ps \<noteq> [] then '':'' @ Join ps '':'' else []) = concat (map (Cons CHR '':'') ps)"
  by (induction ps "'':''" rule: Join.induct) auto

lemma wire_line_eq: "wire_line target name ps = target @ '' '' @ name @ concat (map (Cons CHR '':'') ps)"
  unfolding wire_line_def Join_colons ..

lemma RegistryD: "Registry name = Some def \<Longrightarrow> def \<in> set commandDefs \<and> dName def = name"
  by (auto simp: Registry_def dest!: map_of_SomeD)

definition wire_name :: "CommandDef \<Rightarrow> string" where
  "wire_name def = (if WireName def \<noteq> [] then WireName def else dName def)"

text \<open>What a successful \<open>Build\<close> went through, stage by stage.\<close>

lemma map_sum_Inr: "map_sum id f r = Inr y \<longleftrightarrow> (\<exists>x. r = Inr x \<and> y = f x)"
  by (cases r) auto

lemma Build_stages:
  assumes "Build target name params forever = Inr out"
  obtains def where "targetRegex (bTarget out)" "Registry (bName out) = Some def"
    "SingleNode def \<longrightarrow> bTarget out \<noteq> ''@ALL''"
    "build_params def (bName out) (forever \<and> AllowForever def) params = Inr (bParams out)"
    "bLine out = wire_line (bTarget out) (wire_name def) (bParams out)"
proof -
  define t n where "t = norm_target target" and "n = ToUpper (TrimSpace name)"
  from assms obtain def where 1: "targetRegex t" "Registry n = Some def" "\<not> (SingleNode def \<and> t = ''@ALL'')"
    by (auto simp: Build_def t_def n_def Let_def split: if_splits option.splits)
  from assms 1 obtain ps where "build_params def n (forever \<and> AllowForever def) params = Inr ps"
    "out = \<lparr>bTarget = t, bName = n, bParams = ps, bLine = wire_line t (if WireName def \<noteq> [] then WireName def else n) ps\<rparr>"
    by (auto simp: Build_def t_def [symmetric] n_def [symmetric] Let_def map_sum_Inr)
  with that 1 RegistryD [OF 1(2)] show ?thesis by (simp add: wire_name_def)
qed

lemma build_paramsD:
  assumes "build_params def name fv params = Inr qs"
  obtains ps where "missing_param def (given_params def fv params) = None"
    "clean_params fv (dParams def) (given_params def fv params) = Inr ps"
    "qs = (if fv then insert_forever def (scan_channels name ps) else scan_channels name ps)"
  using assms that by (auto simp: build_params_def map_sum_Inr split: option.splits)

lemma missing_paramD:
  assumes "missing_param def params = None" "i < length (dParams def)" "pRequired (dParams def ! i)"
  shows "i < length params \<and> \<not> blank (params ! i)"
proof -
  have "(i, dParams def ! i) \<in> set (enumerate 0 (dParams def))"
    using assms(2) by (simp add: in_set_enumerate_eq)
  then show ?thesis using assms(1,3) by (fastforce simp: missing_param_def find_None_iff not_le)
qed

lemma nth_trim_trailing: "i < length (trim_trailing ps) \<Longrightarrow> trim_trailing ps ! i = ps ! i \<and> i < length ps"
proof -
  assume i: "i < length (trim_trailing ps)"
  have "ps = trim_trailing ps @ rev (takeWhile blank (rev ps))"
    unfolding trim_trailing_def by (metis rev_append rev_rev_ident takeWhile_dropWhile_id)
  then have "ps ! i = trim_trailing ps ! i" "length (trim_trailing ps) \<le> length ps"
    using i by (metis nth_append, metis le_add1 length_append)
  with i show ?thesis by simp
qed

lemma forever_in_params: "''FOREVER'' \<in> set (insert_forever def ps)"
  by (simp add: insert_forever_def Let_def)

section \<open>Characters\<close>

text \<open>The characters a field of a line may have without breaking the line into more words.\<close>

definition token_char :: "char \<Rightarrow> bool" where
  "token_char c \<longleftrightarrow> is_alnum c \<or> c \<in> {CHR ''@'', CHR '':'', CHR ''_'', CHR ''.'', CHR ''+'', CHR ''-'', CHR '',''}"

lemma token_float: "float_char c \<Longrightarrow> token_char c"
  by (auto simp: float_char_def token_char_def is_alnum_def)

lemma ToUpper_class:
  assumes "\<And>a. P (upper_char a) \<Longrightarrow> Q a" "\<not> P CHR ''I''" "\<not> P CHR ''S''"
  shows "list_all P (ToUpper s) \<Longrightarrow> list_all Q s"
proof (induction s rule: ToUpper.induct)
  case (1 a b cs)
  then show ?case using assms by (auto split: if_splits)
qed (use assms in auto)

lemma lower_upper: "lower_char (upper_char a) = lower_char a"
  by (auto simp: lower_char_def upper_char_def Let_def)

lemma upper_digit: "is_digit (upper_char a) \<Longrightarrow> is_digit a"
  by (auto simp: is_digit_def upper_char_def Let_def split: if_splits)

lemma upper_colon: "upper_char a = CHR '':'' \<Longrightarrow> a = CHR '':''"
proof (rule ccontr)
  assume u: "upper_char a = CHR '':''" and "a \<noteq> CHR '':''"
  then have "97 \<le> (of_char a :: nat)" "of_char a \<le> (122 :: nat)" and c: "char_of ((of_char a :: nat) - 32) = CHR '':''"
    by (auto simp: upper_char_def Let_def split: if_splits)
  moreover have "(of_char a :: nat) - 32 = 58"
    using arg_cong [OF c, of "of_char :: char \<Rightarrow> nat"] \<open>of_char a \<le> (122 :: nat)\<close> by simp
  ultimately show False by simp
qed

lemma mac_tokens: "macRegex (ToUpper s) \<Longrightarrow> list_all token_char s"
proof (rule ToUpper_class [where P = "\<lambda>c. c = CHR '':'' \<or> is_digit c \<or> is_hex_letter c"])
  assume mac: "macRegex (ToUpper s)"
  have "c = CHR '':'' \<or> is_digit c \<or> is_hex_letter c" if "c \<in> set (ToUpper s)" for c
  proof -
    from that obtain i where "i < length (ToUpper s)" "ToUpper s ! i = c" by (auto simp: in_set_conv_nth)
    then have "(i, c) \<in> set (enumerate 0 (ToUpper s))" by (auto simp: in_set_enumerate_eq)
    with mac show ?thesis by (force simp: macRegex_def list_all_iff split: if_splits)
  qed
  then show "list_all (\<lambda>c. c = CHR '':'' \<or> is_digit c \<or> is_hex_letter c) (ToUpper s)" by (simp add: list_all_iff)
next
  fix a
  assume "upper_char a = CHR '':'' \<or> is_digit (upper_char a) \<or> is_hex_letter (upper_char a)"
  then show "token_char a"
    by (auto dest: upper_colon upper_digit
        simp: token_char_def is_alnum_def is_hex_letter_def Let_def lower_upper)
qed (simp_all add: is_digit_def is_hex_letter_def lower_char_def)

definition token_def :: "CommandDef \<Rightarrow> bool" where
  "token_def def \<longleftrightarrow> list_all token_char (wire_name def) \<and>
     list_all (\<lambda>pd. list_all (list_all token_char) (LiteralTrue pd # pOptions pd)) (dParams def)"

definition token_alphabet :: string where
  "token_alphabet = ''ABCDEFGHIJKLMNOPQRSTUVWXYZabcdefghijklmnopqrstuvwxyz0123456789@:_.+-,''"

lemma token_alphabet: "c \<in> set token_alphabet \<Longrightarrow> token_char c"
proof -
  have "list_all token_char token_alphabet" by code_simp
  then show "c \<in> set token_alphabet \<Longrightarrow> token_char c" by (simp add: list_all_iff)
qed

definition def_words :: "CommandDef \<Rightarrow> string list" where
  "def_words def = wire_name def # concat (map (\<lambda>pd. LiteralTrue pd # pOptions pd) (dParams def))"

lemma catalogue_tokens: "def \<in> set commandDefs \<Longrightarrow> token_def def"
proof -
  have "list_all (\<lambda>w. list_all (\<lambda>c. c \<in> set token_alphabet) w) (concat (map def_words commandDefs))" by code_simp
  then show "def \<in> set commandDefs \<Longrightarrow> token_def def"
    using token_alphabet by (fastforce simp: list_all_iff token_def_def def_words_def)
qed

text \<open>The parameter types whose validation looks at every character.\<close>

definition checked_type :: "string \<Rightarrow> bool" where
  "checked_type t \<longleftrightarrow> t \<in> set [''number'', ''duration'', ''select'', ''bool'', ''mac'']"

lemma validated_tokens:
  assumes "validateParam pd val = None" "checked_type (pType pd)" "pType pd \<noteq> ''bool''"
    "list_all (list_all token_char) (pOptions pd)"
  shows "list_all token_char val"
proof -
  consider "pType pd = ''number'' \<or> pType pd = ''duration''" | "pType pd = ''select''" | "pType pd = ''mac''"
    using assms(2,3) by (auto simp: checked_type_def)
  then show ?thesis
  proof cases
    case 1
    then have "ParseFloat val \<noteq> None" using assms(1) by (auto simp: validateParam_def split: option.splits)
    then show ?thesis using ParseFloat_chars token_float by (auto simp: list_all_iff)
  next
    case 2
    with assms(1,4) show ?thesis by (auto simp: validateParam_def list_all_iff split: if_splits)
  next
    case 3
    with assms(1) show ?thesis by (auto simp: validateParam_def intro: mac_tokens split: if_splits)
  qed
qed

lemma clean_params_Cons:
  assumes "clean_params False (pd # pds) (v # vs) = Inr ps"
  obtains qs where "clean_params False pds vs = Inr qs"
    "ps = qs \<or> ps = LiteralTrue pd # qs \<or>
     ps = TrimSpace v # qs \<and> validateParam pd (TrimSpace v) = None \<and> pType pd \<noteq> ''bool''"
  using assms by (auto simp: Let_def map_sum_Inr split: if_splits option.splits)

lemma clean_params_tokens:
  "clean_params False pds vs = Inr ps \<Longrightarrow> length vs \<le> length pds \<Longrightarrow> list_all (\<lambda>pd. checked_type (pType pd)) pds \<Longrightarrow>
   list_all (\<lambda>pd. list_all (list_all token_char) (LiteralTrue pd # pOptions pd)) pds \<Longrightarrow>
   list_all (list_all token_char) ps"
proof (induction vs arbitrary: pds ps)
  case (Cons v vs)
  then obtain pd pds' where pds: "pds = pd # pds'" by (cases pds) auto
  obtain qs where qs: "clean_params False pds' vs = Inr qs"
    "ps = qs \<or> ps = LiteralTrue pd # qs \<or>
     ps = TrimSpace v # qs \<and> validateParam pd (TrimSpace v) = None \<and> pType pd \<noteq> ''bool''"
    using Cons.prems(1) unfolding pds by (rule clean_params_Cons)
  have "list_all (list_all token_char) qs" using Cons.IH [OF qs(1)] Cons.prems pds by simp
  moreover have "list_all token_char (TrimSpace v)"
    if "validateParam pd (TrimSpace v) = None" "pType pd \<noteq> ''bool''"
    using Cons.prems pds that by (intro validated_tokens [OF that(1)]) simp_all
  ultimately show ?case using qs(2) Cons.prems(4) pds by auto
qed simp

lemma scan_channels_tokens:
  "list_all (list_all token_char) ps \<Longrightarrow> list_all (list_all token_char) (scan_channels name ps)"
proof -
  have t: "list_all token_char ''1,6,11''" by code_simp
  assume ps: "list_all (list_all token_char) ps"
  then have "list_all (list_all token_char) (take 2 ps)" by (auto simp: list_all_iff dest: in_set_takeD)
  moreover have "list_all (list_all token_char) (ps[2 := ''1,6,11''])"
    using ps t by (auto simp: list_all_iff dest: set_update_subset_insert [THEN subsetD])
  ultimately show ?thesis using ps t by (simp add: scan_channels_def)
qed

lemma target_tokens: "targetRegex t \<Longrightarrow> list_all token_char t"
  by (auto simp: targetRegex_def token_char_def list_all_iff split: list.splits)

lemma length_trim_trailing: "length (trim_trailing ps) \<le> length ps"
  by (simp add: trim_trailing_def length_dropWhile_le [of blank "rev ps", simplified])

section \<open>Acknowledgements\<close>

definition kind_matches :: "string \<Rightarrow> string \<Rightarrow> string \<Rightarrow> bool" where
  "kind_matches kind name n \<longleftrightarrow> n = name \<or>
     ack_prefix kind \<noteq> [] \<and> has_prefix (ack_prefix kind) n \<or> ack_suffix kind \<noteq> [] \<and> has_suffix (ack_suffix kind) n"

lemma ack_candidate_name:
  "ack_candidate kind name c \<longleftrightarrow> kind_matches kind name (cmd_name c) \<and> Status c \<in> {StatusPending, StatusSent, StatusRunning}"
  by (auto simp: ack_candidate_def kind_matches_def)

definition unacknowledged :: "string list" where
  "unacknowledged = [''TRIANGULATE_RESULTS'', ''ERASE_REQUEST'', ''ERASE_CANCEL'', ''AUTOERASE_DISABLE'', ''TRI_CYCLE_START'']"

lemma ACKMap_distinct: "distinct (map fst ACKMap)"
  by code_simp

lemma ACKMap_registered: "list_all (\<lambda>(kind, name). name \<in> set (map dName commandDefs)) ACKMap"
  by code_simp

lemma ACKMap_covers:
  "list_all (\<lambda>n. list_ex (\<lambda>(kind, name). kind_matches kind name n) ACKMap \<longleftrightarrow> n \<notin> set unacknowledged) (map dName commandDefs)"
  by code_simp

section \<open>Properties\<close>

text \<open>Catalogue entries for the examples below.\<close>

lemma drone_start_def:
  "Registry ''DRONE_START'' = Some ((command ''DRONE_START'' ''Detection'' typeAH [scan_duration])\<lparr>AllowForever := True\<rparr>)"
  by code_simp

lemmas build_simps = command_def build_params_def given_params_def blank_def trim_trailing_def missing_param_def
  scan_channels_def wire_line_def Let_def

text \<open>The displayed groups show every command exactly once, in whatever order the catalogue was
  visited.\<close>

lemma catalogue_groups: "set (map dGroup commandDefs) = set GroupOrder"
  by code_simp

lemma GroupOrder_distinct: "distinct GroupOrder"
  by code_simp

lemma mset_GroupedCommands:
  assumes "distinct gs"
  shows "mset (concat (map (GroupedCommands defs) gs)) = filter_mset (\<lambda>d. dGroup d \<in> set gs) (mset defs)"
  using assms
proof (induction gs)
  case (Cons g gs)
  then have "filter_mset (\<lambda>d. dGroup d \<in> set (g # gs)) (mset defs) =
      filter_mset (\<lambda>d. dGroup d = g) (mset defs) + filter_mset (\<lambda>d. dGroup d \<in> set gs) (mset defs)"
    by (auto intro!: multiset_eqI)
  with Cons show ?case by (simp add: GroupedCommands_def)
qed simp

lemma groups_show_catalogue:
  assumes "mset defs = mset commandDefs"
  shows "mset (concat (map (GroupedCommands defs) GroupOrder)) = mset commandDefs"
proof -
  have "dGroup d \<in> set GroupOrder" if "d \<in># mset commandDefs" for d
    using that catalogue_groups by (auto simp: set_mset_mset)
  then show ?thesis
    unfolding mset_GroupedCommands [OF GroupOrder_distinct] assms by (simp add: filter_mset_eq_conv)
qed

text \<open>Every line the builder produces is well formed: the target is \<open>@\<close> and two to six letters
  or digits, the command is in the catalogue (and not sent to \<open>@ALL\<close> when it is for a single
  node), the line is target, space, wire name and the parameters each after a colon, every
  required parameter was given, and \<open>FOREVER\<close> is among the parameters when it was requested
  and allowed.\<close>

theorem Build_wellformed:
  assumes "Build target name params forever = Inr out"
  shows "\<exists>def. Registry (bName out) = Some def \<and> targetRegex (bTarget out) \<and>
    (SingleNode def \<longrightarrow> bTarget out \<noteq> ''@ALL'') \<and>
    bLine out = bTarget out @ '' '' @ wire_name def @ concat (map (Cons CHR '':'') (bParams out)) \<and>
    (if forever \<and> AllowForever def then ''FOREVER'' \<in> set (bParams out)
     else \<forall>i < length (dParams def). pRequired (dParams def ! i) \<longrightarrow> i < length params \<and> \<not> blank (params ! i))"
proof -
  obtain def where b: "targetRegex (bTarget out)" "Registry (bName out) = Some def"
    "SingleNode def \<longrightarrow> bTarget out \<noteq> ''@ALL''"
    "build_params def (bName out) (forever \<and> AllowForever def) params = Inr (bParams out)"
    "bLine out = wire_line (bTarget out) (wire_name def) (bParams out)"
    using assms by (rule Build_stages)
  obtain ps where ps: "missing_param def (given_params def (forever \<and> AllowForever def) params) = None"
    "bParams out = (if forever \<and> AllowForever def then insert_forever def (scan_channels (bName out) ps) else scan_channels (bName out) ps)"
    using b(4) by (rule build_paramsD)
  have "i < length params \<and> \<not> blank (params ! i)"
    if "\<not> (forever \<and> AllowForever def)" "i < length (dParams def)" "pRequired (dParams def ! i)" for i
    using missing_paramD [OF ps(1) that(2,3)] nth_trim_trailing [of i params] that(1)
    by (auto simp: given_params_def split: if_splits)
  with b ps(2) forever_in_params show ?thesis by (auto simp: wire_line_eq)
qed

text \<open>C27: Validated requests cannot smuggle text into the mesh: for a command whose parameters are
  numbers, durations, options, flags or hardware addresses, with no more parameters than it
  declares and without \<open>FOREVER\<close>, the line is two words separated by one space and otherwise
  only letters, digits and the punctuation of the wire format, whatever the operator typed.\<close>

theorem Build_no_injection:
  assumes "Build target name params False = Inr out" "Registry (bName out) = Some def"
    "list_all (\<lambda>pd. checked_type (pType pd)) (dParams def)" "length params \<le> length (dParams def)"
  shows "\<exists>rest. bLine out = bTarget out @ '' '' @ rest \<and> list_all token_char (bTarget out @ rest)"
proof -
  obtain def' where b: "targetRegex (bTarget out)" "Registry (bName out) = Some def'"
    "SingleNode def' \<longrightarrow> bTarget out \<noteq> ''@ALL''"
    "build_params def' (bName out) (False \<and> AllowForever def') params = Inr (bParams out)"
    "bLine out = wire_line (bTarget out) (wire_name def') (bParams out)"
    using assms(1) by (rule Build_stages)
  have def': "def' = def" using b(2) assms(2) by simp
  have tok: "token_def def" using RegistryD [OF assms(2)] catalogue_tokens by blast
  obtain ps where ps: "missing_param def (given_params def False params) = None"
    "clean_params False (dParams def) (given_params def False params) = Inr ps" "bParams out = scan_channels (bName out) ps"
    using b(4) unfolding def' by (auto elim: build_paramsD)
  have "length (given_params def False params) \<le> length (dParams def)"
    using length_trim_trailing [of params] assms(4) by (simp add: given_params_def)
  then have "list_all (list_all token_char) (bParams out)"
    using clean_params_tokens [OF ps(2) _ assms(3)] tok scan_channels_tokens by (simp add: ps(3) token_def_def)
  then have "list_all token_char (concat (map (Cons CHR '':'') (bParams out)))"
    by (auto simp: list_all_iff token_char_def)
  with target_tokens [OF b(1)] tok show ?thesis
    unfolding b(5) wire_line_eq def' by (simp add: token_def_def)
qed

theorem Build_no_injection_witness:
  "\<exists>rest. ''@HB07 HB_INTERVAL:15'' = ''@HB07'' @ '' '' @ rest \<and> list_all token_char (''@HB07'' @ rest)"
proof -
  have 1: "norm_target '' hb07 '' = ''@HB07''" "targetRegex ''@HB07''" "ToUpper (TrimSpace ''HB_INTERVAL'') = ''HB_INTERVAL''"
    by code_simp+
  have 2: "validateParam (ranged ''minutes'' ''number'' True 1 60) ''15'' = None" "TrimSpace '' 15'' = ''15''" by code_simp+
  have 3: "Registry ''HB_INTERVAL'' = Some (command ''HB_INTERVAL'' ''Status'' typeUniversal [ranged ''minutes'' ''number'' True 1 60])"
    by code_simp
  have b: "Build '' hb07 '' ''HB_INTERVAL'' ['' 15''] False =
      Inr \<lparr>bTarget = ''@HB07'', bName = ''HB_INTERVAL'', bParams = [''15''], bLine = ''@HB07 HB_INTERVAL:15''\<rparr>"
    using 2 by (simp add: Build_def 1 3 build_simps) (simp add: ranged_def param_def)
  from Build_no_injection [OF b, simplified, OF 3] show ?thesis
    by (simp add: command_def ranged_def param_def checked_type_def)
qed

text \<open>With \<open>FOREVER\<close> the duration is not validated at all: any text the operator gives for it,
  not only the placeholder zero, goes into the line as it is.\<close>

theorem forever_skips_validation:
  assumes "TrimSpace d = d" "d \<noteq> []"
  shows "Build ''@ALL'' ''DRONE_START'' [d] True =
    Inr \<lparr>bTarget = ''@ALL'', bName = ''DRONE_START'', bParams = [d, ''FOREVER''], bLine = ''@ALL DRONE_START:'' @ d @ '':FOREVER''\<rparr>"
proof -
  have 1: "norm_target ''@ALL'' = ''@ALL''" "targetRegex ''@ALL''" "ToUpper (TrimSpace ''DRONE_START'') = ''DRONE_START''"
    by code_simp+
  show ?thesis
    using assms
    by (simp add: Build_def 1 drone_start_def build_simps fill_durations_def fill_duration_def)
      (simp add: scan_duration_def ranged_def param_def insert_forever_def forever_at_def)
qed

text \<open>Catalogue and acknowledgement table fit together: every acknowledgement names a command of
  the catalogue, and a waiting command of the catalogue can be closed by some acknowledgement
  unless it is one of five (\<open>AUTOERASE_DISABLE\<close> and \<open>ERASE_CANCEL\<close> among them), which no
  acknowledgement ever matches.\<close>

theorem acknowledged_commands:
  assumes "cmd_name c \<in> set (map dName commandDefs)" "Status c \<in> {StatusPending, StatusSent, StatusRunning}"
  shows "list_all (\<lambda>(kind, name). name \<in> set (map dName commandDefs)) ACKMap \<and>
    ((\<exists>kind name. map_of ACKMap kind = Some name \<and> ack_candidate kind name c) \<longleftrightarrow> cmd_name c \<notin> set unacknowledged)"
proof -
  have "(\<exists>kind name. map_of ACKMap kind = Some name \<and> ack_candidate kind name c) \<longleftrightarrow>
      list_ex (\<lambda>(kind, name). kind_matches kind name (cmd_name c)) ACKMap"
    using map_of_eq_Some_iff [OF ACKMap_distinct] assms(2) unfolding ack_candidate_name by (auto simp: list_ex_iff)
  also have "\<dots> \<longleftrightarrow> cmd_name c \<notin> set unacknowledged"
    using ACKMap_covers assms(1) by (auto simp: list_all_iff)
  finally show ?thesis using ACKMap_registered by blast
qed

end
