(* ===== verification/FloatOps.thy ===== *)
theory FloatOps
  imports GoFloat
begin

text \<open>
  Arithmetic on \<open>float64\<close> values and the conversions between \<open>float32\<close> bits, \<open>float64\<close> values and
  integers, as the node registry and the sensor-text parser use them. Every operation computes
  the exact result and rounds it once. The sign of zero is not kept: no comparison, no
  conversion and no database column of the program depends on it.
\<close>

section \<open>Rounding and arithmetic\<close>

definition fround :: "rat \<Rightarrow> float64" where
  "fround x = (let y = nearest x in if \<bar>y\<bar> < two_to 1024 then Fin y else Inf (x < 0))"

fun fneg :: "float64 \<Rightarrow> float64" where
  "fneg (Fin x) = Fin (- x)"
| "fneg (Inf s) = Inf (\<not> s)"
| "fneg NaN = NaN"

fun fadd :: "float64 \<Rightarrow> float64 \<Rightarrow> float64" where
  "fadd (Fin x) (Fin y) = fround (x + y)"
| "fadd (Inf s) (Inf s') = (if s = s' then Inf s else NaN)"
| "fadd (Inf s) (Fin _) = Inf s"
| "fadd (Fin _) (Inf s) = Inf s"
| "fadd _ _ = NaN"

definition fsub :: "float64 \<Rightarrow> float64 \<Rightarrow> float64" where
  "fsub x y = fadd x (fneg y)"

fun fmul :: "float64 \<Rightarrow> float64 \<Rightarrow> float64" where
  "fmul (Fin x) (Fin y) = fround (x * y)"
| "fmul (Inf s) (Inf s') = Inf (s \<noteq> s')"
| "fmul (Inf s) (Fin x) = (if x = 0 then NaN else Inf (s \<noteq> (x < 0)))"
| "fmul (Fin x) (Inf s) = (if x = 0 then NaN else Inf (s \<noteq> (x < 0)))"
| "fmul _ _ = NaN"

text \<open>Division by a constant other than zero, the only one the program uses.\<close>

fun fdiv_by :: "float64 \<Rightarrow> rat \<Rightarrow> float64" where
  "fdiv_by (Fin x) c = fround (x / c)"
| "fdiv_by (Inf s) c = Inf (s \<noteq> (c < 0))"
| "fdiv_by NaN c = NaN"

definition is_finite :: "float64 \<Rightarrow> bool" where
  "is_finite x = (case x of Fin _ \<Rightarrow> True | _ \<Rightarrow> False)"

section \<open>Conversions\<close>

text \<open>\<open>float64(i)\<close> of an integer of at most 53 bits.\<close>

definition float_of_int :: "int \<Rightarrow> float64" where
  "float_of_int i = Fin (of_int i)"

text \<open>\<open>float64(x)\<close> of a \<open>float32\<close> given by its bits: sign, exponent and fraction.\<close>

definition widen :: "u32 \<Rightarrow> float64" where
  "widen b =
     (let n = uint b; neg = 2 ^ 31 \<le> n; e = n div 2 ^ 23 mod 2 ^ 8; f = n mod 2 ^ 23;
          x = (if e = 0 then of_int f * two_to (- 149) else of_int (2 ^ 23 + f) * two_to (e - 150))
      in if e = 255 then (if f = 0 then Inf neg else NaN)
         else Fin (if neg then - x else x))"

text \<open>\<open>float32(x)\<close> of a \<open>float64\<close>, as bits; a NaN becomes the quiet NaN.\<close>

definition narrow_mag :: "rat \<Rightarrow> int" where
  "narrow_mag a =
     (if a = 0 then 0
      else (let e = max (exponent_of a) (- 126) in
            min (255 * 2 ^ 23) ((e + 126) * 2 ^ 23 + round_even (a / two_to (e - 23)))))"

fun narrow :: "float64 \<Rightarrow> u32" where
  "narrow (Fin x) = word_of_int ((if x < 0 then 2 ^ 31 else 0) + narrow_mag \<bar>x\<bar>)"
| "narrow (Inf neg) = word_of_int ((if neg then 2 ^ 31 else 0) + 255 * 2 ^ 23)"
| "narrow NaN = word_of_int (255 * 2 ^ 23 + 2 ^ 22)"

section \<open>Widening loses nothing\<close>

lemma two_to_add: "two_to (a + b) = two_to a * two_to b"
proof -
  have pow: "two_to e = (if 0 \<le> e then 2 ^ nat e else 1 / 2 ^ nat (- e))" for e
    by (simp add: two_to_def Fract_of_int_quotient)
  have half: "two_to (e + 1) = 2 * two_to e" for e
  proof (cases "0 \<le> e")
    case False
    then have "nat (- e) = Suc (nat (- (e + 1)))" by simp
    with False show ?thesis by (cases "e = - 1") (auto simp: pow)
  qed (simp add: pow nat_add_distrib)
  show ?thesis
  proof (induction b rule: int_induct [of _ 0])
    case base
    show ?case by (simp add: pow)
  next
    case (step1 i)
    then show ?case using half [of "a + i"] half [of i] by (simp add: algebra_simps)
  next
    case (step2 i)
    then show ?case using half [of "a + (i - 1)"] half [of "i - 1"] by (simp add: algebra_simps)
  qed
qed

lemma two_to_pos [simp]: "0 < two_to e"
  by (simp add: two_to_def Fract_of_int_quotient)

lemma two_to_nonzero [simp]: "two_to e \<noteq> 0"
  using two_to_pos [of e] by linarith

lemma two_to_nat: "two_to (int n) = 2 ^ n"
  by (simp add: two_to_def)

lemma two_to_mono: "a \<le> b \<Longrightarrow> two_to a \<le> two_to b"
proof -
  assume "a \<le> b"
  then obtain k where "b = a + int k" using zle_iff_zadd by blast
  then show ?thesis by (simp add: two_to_add two_to_nat)
qed

lemma two_to_strict: "two_to a < two_to b \<longleftrightarrow> a < b"
proof -
  have "two_to a < two_to b" if "a < b" for a b
    using two_to_mono [of "a + 1" b] that two_to_pos [of a] by (simp add: two_to_add two_to_nat [of 1, simplified] del: two_to_pos)
  then show ?thesis using two_to_mono linorder_not_less by metis
qed

lemma bits_bounds: "0 < n \<Longrightarrow> 1 \<le> bits n \<and> 2 ^ nat (bits n - 1) \<le> n \<and> n < 2 ^ nat (bits n)"
proof (induction n rule: bits.induct)
  case (1 n)
  show ?case
  proof (cases "n = 1")
    case True
    then show ?thesis by (simp add: bits.simps)
  next
    case False
    with 1 have ih: "1 \<le> bits (n div 2)" "2 ^ nat (bits (n div 2) - 1) \<le> n div 2" "n div 2 < 2 ^ nat (bits (n div 2))" by auto
    have b: "bits n = 1 + bits (n div 2)" using 1 by (simp add: bits.simps [of n])
    have "nat (bits n - 1) = Suc (nat (bits (n div 2) - 1))" "nat (bits n) = Suc (nat (bits (n div 2)))" using b ih(1) by auto
    with ih b show ?thesis by simp linarith
  qed
qed

lemma exponent_of_eq:
  assumes "two_to k \<le> x" "x < two_to (k + 1)"
  shows "exponent_of x = k"
proof -
  obtain p q where pq: "quotient_of x = (p, q)" by fastforce
  have q: "0 < q" and x: "x = of_int p / of_int q" using pq quotient_of_denom_pos quotient_of_div by auto
  have "0 < x" using assms(1) two_to_pos [of k] by linarith
  then have p: "0 < p" using x q by (simp add: zero_less_divide_iff)
  have rat: "two_to (bits n - 1) \<le> of_int n \<and> of_int n < two_to (bits n)" if "0 < n" for n :: int
  proof -
    have "two_to (bits n - 1) = of_int (2 ^ nat (bits n - 1))" "two_to (bits n) = of_int (2 ^ nat (bits n))"
      using bits_bounds [OF that] by (simp_all add: two_to_def)
    then show ?thesis using bits_bounds [OF that] by (simp only: of_int_le_iff of_int_less_iff)
  qed
  define d where "d = bits p - bits q"
  have "two_to (d - 1) < x" "x < two_to (d + 1)"
  proof -
    have pb: "bits p - 1 = d - 1 + bits q" "bits p = d + 1 + (bits q - 1)" by (simp_all add: d_def)
    have "two_to (d - 1) * of_int q < two_to (d - 1) * two_to (bits q)" using rat [OF q] by simp
    also have "\<dots> \<le> of_int p" using rat [OF p] by (simp add: pb(1) two_to_add [symmetric])
    finally show "two_to (d - 1) < x" using q by (simp add: x field_simps)
    have "of_int p < two_to (d + 1) * two_to (bits q - 1)" using rat [OF p] by (simp add: pb(2) two_to_add [symmetric])
    also have "\<dots> \<le> two_to (d + 1) * of_int q" using rat [OF q] by simp
    finally show "x < two_to (d + 1)" using q by (simp add: x field_simps)
  qed
  then have "d - 1 < k + 1" "k < d + 1"
    using assms two_to_strict [of "d - 1" "k + 1"] two_to_strict [of k "d + 1"] by linarith+
  then consider "k = d" | "k = d - 1" by linarith
  then show ?thesis
  proof cases
    case 1
    with assms show ?thesis by (simp add: exponent_of_def pq d_def)
  next
    case 2
    then have "\<not> two_to d \<le> x" using assms(2) by simp
    with 2 show ?thesis by (simp add: exponent_of_def pq d_def)
  qed
qed

lemma round_even_int [simp]: "round_even (of_int n) = n"
  by (simp add: round_even_def)

lemma narrow_mag_subnormal:
  assumes "0 \<le> f" "f < 2 ^ 23"
  shows "narrow_mag (of_int f * two_to (- 149)) = f"
proof (cases "f = 0")
  case False
  let ?a = "of_int f * two_to (- 149)"
  have f: "0 < f" using assms False by simp
  have bound: "two_to (bits f - 1) \<le> of_int f" "of_int f < two_to (bits f)" "bits f \<le> 23"
  proof -
    have b: "1 \<le> bits f" "2 ^ nat (bits f - 1) \<le> f" "f < 2 ^ nat (bits f)" using bits_bounds [OF f] by auto
    have "two_to (bits f - 1) = of_int (2 ^ nat (bits f - 1))" "two_to (bits f) = of_int (2 ^ nat (bits f))"
      using b(1) by (simp_all add: two_to_def)
    then show "two_to (bits f - 1) \<le> of_int f" "of_int f < two_to (bits f)"
      using b(2,3) by (simp_all only: of_int_le_iff of_int_less_iff)
    have "(2 :: int) ^ nat (bits f - 1) < 2 ^ 23" using b(2) assms(2) by linarith
    then have "nat (bits f - 1) < 23" using power_less_imp_less_exp [of "2 :: int" "nat (bits f - 1)" 23] by simp
    then show "bits f \<le> 23" by simp
  qed
  have "exponent_of ?a = bits f - 150"
  proof (rule exponent_of_eq)
    have "two_to (bits f - 150) = two_to (bits f - 1) * two_to (- 149)" "two_to (bits f - 150 + 1) = two_to (bits f) * two_to (- 149)"
      by (simp_all add: two_to_add [symmetric])
    then show "two_to (bits f - 150) \<le> ?a" "?a < two_to (bits f - 150 + 1)" using bound by simp_all
  qed
  then have "max (exponent_of ?a) (- 126) = - 126" using bound(3) by simp
  moreover have "?a / two_to (- 126 - 23) = of_int f" using two_to_pos [of "- 149"] by simp
  moreover have "?a \<noteq> 0" using f two_to_pos [of "- 149"] by simp
  ultimately show ?thesis using assms(2) by (simp add: narrow_mag_def Let_def)
qed (simp add: narrow_mag_def)

lemma narrow_mag_normal:
  assumes "0 \<le> f" "f < 2 ^ 23" "0 < e" "e < 255"
  shows "narrow_mag (of_int (2 ^ 23 + f) * two_to (e - 150)) = e * 2 ^ 23 + f"
proof -
  have r: "round_even (8388608 + of_int f) = 8388608 + f" using round_even_int [of "8388608 + f"] by simp
  define a where "a = of_int (2 ^ 23 + f) * two_to (e - 150)"
  have ex: "exponent_of a = e - 127"
  proof (rule exponent_of_eq)
    have "two_to (e - 127) = 2 ^ 23 * two_to (e - 150)" "two_to (e - 127 + 1) = 2 ^ 24 * two_to (e - 150)"
      using two_to_add [of 23 "e - 150"] two_to_add [of 24 "e - 150"] two_to_nat [of 23] two_to_nat [of 24] by simp_all
    moreover have "(of_int (2 ^ 23) :: rat) \<le> of_int (2 ^ 23 + f)" "of_int (2 ^ 23 + f) < (of_int (2 ^ 24) :: rat)"
      using assms by (simp_all only: of_int_le_iff of_int_less_iff) simp_all
    ultimately show "two_to (e - 127) \<le> a" "a < two_to (e - 127 + 1)" by (simp_all add: a_def)
  qed
  then have "max (exponent_of a) (- 126) = e - 127" using assms(3) by simp
  moreover have "a / two_to (e - 127 - 23) = of_int (2 ^ 23 + f)" by (simp add: a_def)
  moreover have "a \<noteq> 0" using assms(1) by (simp add: a_def)
  moreover have "(e - 1) * 2 ^ 23 + (2 ^ 23 + f) \<le> 255 * 2 ^ 23" using assms by simp
  ultimately have "narrow_mag a = (e - 1) * 2 ^ 23 + (2 ^ 23 + f)" by (simp add: narrow_mag_def Let_def r)
  then show ?thesis by (simp add: a_def)
qed

text \<open>A \<open>float32\<close> survives the detour over \<open>float64\<close>, but for NaN payloads and the sign of zero.\<close>

lemma narrow_widen:
  assumes "widen b \<noteq> NaN" "b \<noteq> word_of_int (2 ^ 31)"
  shows "narrow (widen b) = b"
proof -
  define n e f where "n = uint b" and "e = n div 2 ^ 23 mod 2 ^ 8" and "f = n mod 2 ^ 23"
  define s :: int where "s = (if 2 ^ 31 \<le> n then 2 ^ 31 else 0)"
  define x where "x = (if e = 0 then of_int f * two_to (- 149) else of_int (2 ^ 23 + f) * two_to (e - 150))"
  have n: "0 \<le> n" "n < 2 ^ 32" using uint_lt2p [of b] by (simp_all add: n_def)
  have f: "0 \<le> f" "f < 2 ^ 23" and e: "0 \<le> e" "e \<le> 255" by (simp_all add: f_def e_def)
  have split: "n = s + (e * 2 ^ 23 + f)"
  proof -
    define q where "q = n div 2 ^ 23"
    have q: "n = q * 2 ^ 23 + f" "q = q div 2 ^ 8 * 2 ^ 8 + e" by (simp_all add: q_def f_def e_def)
    have "0 \<le> q" "q < 512" using n by (simp_all add: q_def)
    then have "q div 2 ^ 8 = (if 256 \<le> q then 1 else 0)" by auto
    moreover have "256 \<le> q \<longleftrightarrow> 2 ^ 31 \<le> n" using q(1) f by (simp, linarith)
    ultimately show ?thesis using q by (simp add: s_def split: if_splits)
  qed
  have b: "b = word_of_int n" by (simp add: n_def)
  have w: "widen b = (if e = 255 then if f = 0 then Inf (2 ^ 31 \<le> n) else NaN else Fin (if 2 ^ 31 \<le> n then - x else x))"
    unfolding widen_def Let_def n_def [symmetric] e_def [symmetric] f_def [symmetric] x_def by (rule refl)
  show ?thesis
  proof (cases "e = 255")
    case True
    with assms(1) w have "widen b = Inf (2 ^ 31 \<le> n)" "f = 0" by (auto split: if_splits)
    with True show ?thesis unfolding b split by (simp add: s_def)
  next
    case False
    have mag: "narrow_mag x = e * 2 ^ 23 + f"
      using False e f narrow_mag_subnormal narrow_mag_normal by (cases "e = 0") (auto simp: x_def)
    have "0 \<le> x" using f(1) two_to_pos by (simp add: x_def less_imp_le)
    moreover have "x \<noteq> 0" if "2 ^ 31 \<le> n"
    proof
      assume "x = 0"
      then have "e = 0" "f = 0" using f(1) by (auto simp: x_def split: if_splits)
      moreover have "s = 2 ^ 31" using that by (simp add: s_def)
      ultimately have "n = 2 ^ 31" using split by simp
      then show False using b assms(2) by simp
    qed
    ultimately have "narrow (widen b) = word_of_int (s + (e * 2 ^ 23 + f))" using w False mag by (auto simp: s_def)
    then show ?thesis using split b by simp
  qed
qed

lemma widen_zero: "widen b = Fin 0 \<longleftrightarrow> b = 0 \<or> b = word_of_int (2 ^ 31)"
proof
  assume z: "widen b = Fin 0"
  show "b = 0 \<or> b = word_of_int (2 ^ 31)"
  proof (rule disjCI)
    assume "b \<noteq> word_of_int (2 ^ 31)"
    then have "narrow (widen b) = b" using z by (intro narrow_widen) auto
    then show "b = 0" using z by (simp add: narrow_mag_def)
  qed
qed (auto simp: widen_def Let_def)

end
