(* ===== verification/Nodes.thy ===== *)
theory Nodes
  imports Messages FloatOps "HOL-Library.AList"
begin

text \<open>
  The node registry, \<open>internal/nodes/service.go\<close>: the map from mesh node numbers to node objects,
  every operation on it, and the two tables behind it. Objects live on a heap, because a
  goroutine that writes a node to the database holds the pointer and reads the fields when it
  runs; it is a pending task here. A broadcast is recorded when the event can be marshalled.

  Times are nanoseconds since the Unix epoch. \<open>pg\<close> is what the service relies on of the
  database: whether a statement is executed at all, which strings it takes as text, and the
  value a timestamp column keeps of a time.
\<close>

section \<open>Nodes\<close>

type_synonym NodeType = string

definition NodeTypeUnknown :: NodeType where "NodeTypeUnknown = ''''"
definition NodeTypeOperator :: NodeType where "NodeTypeOperator = ''operator''"
definition NodeTypeGotailme :: NodeType where "NodeTypeGotailme = ''gotailme''"
definition NodeTypeAntihunter :: NodeType where "NodeTypeAntihunter = ''antihunter''"
definition NodeTypeGatesensor :: NodeType where "NodeTypeGatesensor = ''gatesensor''"
definition NodeTypeAICamera :: NodeType where "NodeTypeAICamera = ''aicam''"

record Node =
  nID :: string
  nNodeNum :: u32
  nNodeID :: string
  nNodeType :: NodeType
  nLongName :: string
  nShortName :: string
  nHWModel :: string
  nMacAddr :: string
  nRole :: string
  nIsLicensed :: bool
  nFirmwareVersion :: string
  nLatitude :: float64
  nLongitude :: float64
  nAltitude :: float64
  nBatteryLevel :: u32
  nVoltage :: float32
  nChannelUtilization :: float32
  nAirUtilTx :: float32
  nUptimeSeconds :: u32
  nHumidity :: float32
  nPressure :: float32
  nSatsInView :: u32
  nTemperature :: float64
  nSNR :: float32
  nRSSI :: "32 word"
  nLastHeard :: int
  nIsOnline :: bool
  nIsLocal :: bool
  nSiteID :: string
  nOriginSiteID :: string
  nLastMessage :: string
  nSensorShortID :: string
  nTemperatureC :: float64
  nTemperatureF :: float64
  nTemperatureUpdatedAt :: "int option"
  nTelemetryUpdatedAt :: "int option"

text \<open>Go's zero time, the first instant of the year 1.\<close>

definition zero_time :: int where "zero_time = - 62135596800 * 10 ^ 9"

definition Node0 :: Node where
  "Node0 = \<lparr>nID = [], nNodeNum = 0, nNodeID = [], nNodeType = [], nLongName = [], nShortName = [], nHWModel = [], nMacAddr = [],
     nRole = [], nIsLicensed = False, nFirmwareVersion = [], nLatitude = Fin 0, nLongitude = Fin 0, nAltitude = Fin 0,
     nBatteryLevel = 0, nVoltage = 0, nChannelUtilization = 0, nAirUtilTx = 0, nUptimeSeconds = 0, nHumidity = 0, nPressure = 0,
     nSatsInView = 0, nTemperature = Fin 0, nSNR = 0, nRSSI = 0, nLastHeard = zero_time, nIsOnline = False, nIsLocal = False,
     nSiteID = [], nOriginSiteID = [], nLastMessage = [], nSensorShortID = [], nTemperatureC = Fin 0, nTemperatureF = Fin 0,
     nTemperatureUpdatedAt = None, nTelemetryUpdatedAt = None\<rparr>"

definition NodeOnlineTimeout :: int where "NodeOnlineTimeout = 16 * 60 * 10 ^ 9"

definition isNodeOnline :: "int \<Rightarrow> Node \<Rightarrow> bool" where
  "isNodeOnline t n = (if nIsLocal n then True else if nLastHeard n = zero_time then False else t - nLastHeard n < NodeOnlineTimeout)"

text \<open>\<open>fmt.Sprintf("!%08x", nodeNum)\<close>.\<close>

definition hexID :: "u32 \<Rightarrow> string" where
  "hexID num = CHR ''!'' # show_08x num"

section \<open>Tables\<close>

record node_row =
  qNodeNum :: int
  qNodeID :: "string option"
  qLongName :: "string option"
  qShortName :: "string option"
  qHWModel :: "string option"
  qRole :: "string option"
  qLatitude :: "float64 option"
  qLongitude :: "float64 option"
  qAltitude :: "float64 option"
  qBatteryLevel :: "int option"
  qVoltage :: "float64 option"
  qChannelUtilization :: "float64 option"
  qAirUtilTx :: "float64 option"
  qSNR :: "float64 option"
  qLastHeard :: "int option"
  qIsOnline :: "bool option"
  qSiteID :: "string option"
  qOriginSiteID :: "string option"
  qTemperatureC :: "float64 option"
  qTemperatureF :: "float64 option"
  qTemperatureUpdatedAt :: "int option"
  qLastMessage :: "string option"
  qNodeType :: string
  qSensorShortID :: string
  qFirmwareVersion :: "string option"
  qIsLicensed :: bool

text \<open>A position row refers to its node; the node number stands for the key of the node row.\<close>

record position_row =
  posNode :: int
  posLatitude :: float64
  posLongitude :: float64
  posAltitude :: float64
  posTimestamp :: int

record pg =
  pgUp :: bool
  pgText :: "string \<Rightarrow> bool"
  pgStamp :: "int \<Rightarrow> int"

text \<open>The enumeration type \<open>node_role\<close> of the schema, the type of the column \<open>role\<close>.\<close>

definition node_role :: "string list" where
  "node_role = [''CLIENT'', ''ROUTER'', ''REPEATER'', ''TRACKER'', ''SENSOR'', ''TAK'', ''CLIENT_MUTE'', ''TAK_TRACKER'',
     ''LOST_AND_FOUND'', ''SENSOR_MANAGED'']"

section \<open>The service\<close>

datatype node_event =
    EventNodeUpdate Node
  | EventNodePosition u32 float64 float64 float64
  | EventNodeRemove u32 string

datatype node_task = TaskPersistNode nat | TaskPersistPosition nat

record node_service =
  nodeHeap :: "Node list"
  nodeMap :: "(u32 \<times> nat) list"
  nodeEvents :: "node_event list"
  nodeTasks :: "node_task list"
  nodeRows :: "node_row list"
  positionRows :: "position_row list"

definition NewNodeService :: "node_row list \<Rightarrow> position_row list \<Rightarrow> node_service" where
  "NewNodeService rows ps = \<lparr>nodeHeap = [], nodeMap = [], nodeEvents = [], nodeTasks = [], nodeRows = rows, positionRows = ps\<rparr>"

text \<open>\<open>json.Marshal\<close> fails on a number that is NaN or infinite.\<close>

definition finite32 :: "float32 \<Rightarrow> bool" where
  "finite32 b = is_finite (widen b)"

definition node_marshals :: "Node \<Rightarrow> bool" where
  "node_marshals n \<longleftrightarrow>
     list_all is_finite [nLatitude n, nLongitude n, nAltitude n, nTemperature n, nTemperatureC n, nTemperatureF n] \<and>
     list_all finite32 [nVoltage n, nChannelUtilization n, nAirUtilTx n, nHumidity n, nPressure n, nSNR n]"

fun event_marshals :: "node_event \<Rightarrow> bool" where
  "event_marshals (EventNodeUpdate n) = node_marshals n"
| "event_marshals (EventNodePosition _ lat lon alt) \<longleftrightarrow> is_finite lat \<and> is_finite lon \<and> is_finite alt"
| "event_marshals (EventNodeRemove _ _) = True"

definition BroadcastNode :: "node_event \<Rightarrow> node_service \<Rightarrow> node_service" where
  "BroadcastNode ev s = (if event_marshals ev then s\<lparr>nodeEvents := nodeEvents s @ [ev]\<rparr> else s)"

definition go_task :: "node_task \<Rightarrow> node_service \<Rightarrow> node_service" where
  "go_task k s = s\<lparr>nodeTasks := nodeTasks s @ [k]\<rparr>"

definition node_at :: "node_service \<Rightarrow> nat \<Rightarrow> Node" where
  "node_at s a = nodeHeap s ! a"

definition set_node :: "nat \<Rightarrow> (Node \<Rightarrow> Node) \<Rightarrow> node_service \<Rightarrow> node_service" where
  "set_node a f s = s\<lparr>nodeHeap := (nodeHeap s)[a := f (node_at s a)]\<rparr>"

definition node_ptr :: "node_service \<Rightarrow> u32 \<Rightarrow> nat option" where
  "node_ptr s num = map_of (nodeMap s) num"

definition add_node :: "u32 \<Rightarrow> Node \<Rightarrow> node_service \<Rightarrow> nat \<times> node_service" where
  "add_node num n s =
     (length (nodeHeap s),
      s\<lparr>nodeHeap := nodeHeap s @ [n], nodeMap := AList.update num (length (nodeHeap s)) (nodeMap s)\<rparr>)"

text \<open>\<open>node, exists := s.nodes[num]; if !exists { node = &Node{NodeNum: num}; s.nodes[num] = node }\<close>.\<close>

definition ensure :: "u32 \<Rightarrow> node_service \<Rightarrow> nat \<times> node_service" where
  "ensure num s = (case node_ptr s num of Some a \<Rightarrow> (a, s) | None \<Rightarrow> add_node num (Node0\<lparr>nNodeNum := num\<rparr>) s)"

text \<open>Broadcasting the node and writing it in the background, as most operations end.\<close>

definition publish :: "nat \<Rightarrow> node_service \<Rightarrow> node_service" where
  "publish a s = go_task (TaskPersistNode a) (BroadcastNode (EventNodeUpdate (node_at s a)) s)"

subsection \<open>Queries\<close>

text \<open>\<open>GetAll\<close> stores the recomputed flag in the objects.\<close>

definition GetAll :: "int \<Rightarrow> node_service \<Rightarrow> Node list \<times> node_service" where
  "GetAll t s =
     (let s' = fold (\<lambda>(_, a). set_node a (\<lambda>n. n\<lparr>nIsOnline := isNodeOnline t n\<rparr>)) (nodeMap s) s
      in (sort_key nNodeNum (map (\<lambda>(_, a). node_at s' a) (nodeMap s')), s'))"

text \<open>The range over the map starts anywhere: \<open>pick\<close> chooses among the local nodes.\<close>

definition GetLocalNodeNum :: "nat \<Rightarrow> node_service \<Rightarrow> u32" where
  "GetLocalNodeNum pick s =
     (let ls = filter nIsLocal (map (\<lambda>(_, a). node_at s a) (nodeMap s))
      in if ls = [] then 0 else nNodeNum (ls ! (pick mod length ls)))"

definition GetByNodeNum :: "node_service \<Rightarrow> u32 \<Rightarrow> Node option" where
  "GetByNodeNum s num = map_option (node_at s) (node_ptr s num)"

definition GetLongName :: "node_service \<Rightarrow> u32 \<Rightarrow> string" where
  "GetLongName s num = (case GetByNodeNum s num of Some n \<Rightarrow> nLongName n | None \<Rightarrow> [])"

definition LookupNodeIDAndSite :: "node_service \<Rightarrow> u32 \<Rightarrow> string \<times> string" where
  "LookupNodeIDAndSite s num = (case GetByNodeNum s num of Some n \<Rightarrow> (nNodeID n, nSiteID n) | None \<Rightarrow> ([], []))"

subsection \<open>Operations\<close>

definition TouchNode :: "int \<Rightarrow> u32 \<Rightarrow> float32 \<Rightarrow> 32 word \<Rightarrow> node_service \<Rightarrow> node_service" where
  "TouchNode t num rxSNR rxRSSI s =
     (let (a, s1) = (case node_ptr s num of
            Some a \<Rightarrow> (a, s)
          | None \<Rightarrow> (let n = Node0\<lparr>nNodeNum := num, nNodeID := hexID num, nIsOnline := True\<rparr>; (a, s1) = add_node num n s
                     in (a, BroadcastNode (EventNodeUpdate n) s1)))
      in set_node a (\<lambda>n. n\<lparr>nSNR := rxSNR, nRSSI := rxRSSI, nLastHeard := t, nIsOnline := True\<rparr>) s1)"

definition MarkLocal :: "u32 \<Rightarrow> node_service \<Rightarrow> node_service" where
  "MarkLocal num s =
     (case node_ptr s num of
        None \<Rightarrow> s
      | Some a \<Rightarrow> go_task (TaskPersistNode a) (set_node a (\<lambda>n. n\<lparr>nIsLocal := True, nNodeType := NodeTypeGotailme\<rparr>) s))"

definition leaf_type :: "NodeType \<Rightarrow> bool" where
  "leaf_type ty \<longleftrightarrow> ty = NodeTypeAntihunter \<or> ty = NodeTypeGatesensor \<or> ty = NodeTypeAICamera"

definition ClassifyNode :: "u32 \<Rightarrow> string \<Rightarrow> node_service \<Rightarrow> node_service" where
  "ClassifyNode num nodeType s =
     (case node_ptr s num of
        None \<Rightarrow> s
      | Some a \<Rightarrow>
         if nodeType = [] then s
         else if nNodeType (node_at s a) = nodeType then s
         else if leaf_type (nNodeType (node_at s a)) then s
         else if nNodeType (node_at s a) = NodeTypeGotailme \<and> nodeType = NodeTypeOperator then s
         else publish a (set_node a (\<lambda>n. n\<lparr>nNodeType := nodeType\<rparr>) s))"

definition UpdateLongName :: "u32 \<Rightarrow> string \<Rightarrow> node_service \<Rightarrow> (string + unit) \<times> node_service" where
  "UpdateLongName num longName s =
     (case node_ptr s num of
        None \<Rightarrow> (Inl ''node not found'', s)
      | Some a \<Rightarrow> (Inr (), publish a (set_node a (\<lambda>n. n\<lparr>nLongName := longName\<rparr>) s)))"

text \<open>\<open>PositionData.Latitude\<close> and \<open>Longitude\<close>.\<close>

definition coordinate :: "32 word \<Rightarrow> float64" where
  "coordinate i = fmul (float_of_int (sint i)) (fround (1 / 10 ^ 7))"

definition put_position :: "PositionData \<Rightarrow> Node \<Rightarrow> Node" where
  "put_position p n =
     (let n = n\<lparr>nLatitude := coordinate (LatitudeI p), nLongitude := coordinate (LongitudeI p), nAltitude := float_of_int (sint (Altitude p))\<rparr>
      in if Sats p > 0 then n\<lparr>nSatsInView := Sats p\<rparr> else n)"

definition put_user :: "UserInfo \<Rightarrow> Node \<Rightarrow> Node" where
  "put_user u n = n\<lparr>nNodeID := UserID u, nLongName := LongName u, nShortName := ShortName u, nMacAddr := MacAddr u, nHWModel := HWModel u,
     nRole := Role u, nIsLicensed := IsLicensed u\<rparr>"

definition put_metrics :: "DeviceMetrics \<Rightarrow> Node \<Rightarrow> Node" where
  "put_metrics m n = n\<lparr>nBatteryLevel := BatteryLevel m, nVoltage := Voltage m, nChannelUtilization := ChannelUtilization m,
     nAirUtilTx := AirUtilTx m\<rparr>"

definition classify_by_name :: "Node \<Rightarrow> Node" where
  "classify_by_name n =
     (if nNodeType n \<noteq> NodeTypeAntihunter \<and> nNodeType n \<noteq> NodeTypeGatesensor then
        if EqualFold_ascii (nLongName n) ''aicam'' then n\<lparr>nNodeType := NodeTypeAICamera\<rparr>
        else if has_prefix ''GoTailMe'' (nLongName n) then n\<lparr>nNodeType := NodeTypeGotailme\<rparr>
        else if nNodeType n = NodeTypeUnknown then n\<lparr>nNodeType := NodeTypeOperator\<rparr>
        else n
      else n)"

definition put_info :: "int \<Rightarrow> NodeInfoLite \<Rightarrow> Node \<Rightarrow> Node" where
  "put_info t info n =
     (let n = (case NodeUser info of Some u \<Rightarrow> put_user u n | None \<Rightarrow> n);
          n = (case NodePosition info of Some p \<Rightarrow> put_position p n | None \<Rightarrow> n);
          n = (case NodeMetrics info of Some m \<Rightarrow> put_metrics m n | None \<Rightarrow> n);
          n = n\<lparr>nSNR := NodeSNR info\<rparr>;
          n = (if LastHeard info > 0 then n\<lparr>nLastHeard := uint (LastHeard info) * 10 ^ 9\<rparr> else n);
          n = n\<lparr>nIsOnline := isNodeOnline t n\<rparr>
      in classify_by_name n)"

definition HandleNodeInfo :: "int \<Rightarrow> NodeInfoLite \<Rightarrow> node_service \<Rightarrow> node_service" where
  "HandleNodeInfo t info s = (let (a, s) = ensure (NodeNum info) s in publish a (set_node a (put_info t info) s))"

definition HandleTelemetry :: "int \<Rightarrow> u32 \<Rightarrow> DeviceMetrics \<Rightarrow> node_service \<Rightarrow> node_service" where
  "HandleTelemetry t from m s =
     (let (a, s) = ensure from s
      in publish a (set_node a (\<lambda>n. (put_metrics m n)\<lparr>nUptimeSeconds := UptimeSeconds m, nLastHeard := t, nIsOnline := True,
           nTelemetryUpdatedAt := Some t\<rparr>) s))"

text \<open>\<open>c*9.0/5.0 + 32.0\<close>.\<close>

definition fahrenheit :: "float64 \<Rightarrow> float64" where
  "fahrenheit c = fadd (fdiv_by (fmul c (Fin 9)) 5) (Fin 32)"

definition HandleEnvironment :: "int \<Rightarrow> u32 \<Rightarrow> EnvironmentMetrics \<Rightarrow> node_service \<Rightarrow> node_service" where
  "HandleEnvironment t from env s =
     (let (a, s) = ensure from s; c = widen (Temperature env)
      in publish a (set_node a (\<lambda>n. n\<lparr>nTemperature := c, nTemperatureC := c, nTemperatureF := fahrenheit c,
           nHumidity := RelativeHumidity env, nPressure := BarometricPressure env, nTemperatureUpdatedAt := Some t,
           nLastHeard := t, nIsOnline := True\<rparr>) s))"

definition SetFirmwareVersion :: "u32 \<Rightarrow> string \<Rightarrow> node_service \<Rightarrow> node_service" where
  "SetFirmwareVersion num firmware s =
     (if firmware = [] then s
      else (case node_ptr s num of
          None \<Rightarrow> s
        | Some a \<Rightarrow>
           if nFirmwareVersion (node_at s a) = firmware then s
           else publish a (set_node a (\<lambda>n. n\<lparr>nFirmwareVersion := firmware\<rparr>) s)))"

text \<open>
  A value of a \<open>map[string]interface{}\<close>, and its assertion to \<open>float64\<close>. \<open>uint32(v)\<close> is up to the
  implementation when \<open>v\<close> does not fit; \<open>wild\<close> is what it gives then.
\<close>

datatype iface = IFloat float64 | IOther

definition as_float :: "(string \<rightharpoonup> iface) \<Rightarrow> string \<Rightarrow> float64 option" where
  "as_float data key = (case data key of Some (IFloat v) \<Rightarrow> Some v | _ \<Rightarrow> None)"

definition to_uint32 :: "(float64 \<Rightarrow> u32) \<Rightarrow> float64 \<Rightarrow> u32" where
  "to_uint32 wild v = (case v of Fin x \<Rightarrow> if 0 \<le> x \<and> x < 2 ^ 32 then word_of_int \<lfloor>x\<rfloor> else wild v | _ \<Rightarrow> wild v)"

definition put_temperature :: "int \<Rightarrow> (string \<rightharpoonup> iface) \<Rightarrow> Node \<Rightarrow> Node option" where
  "put_temperature t data n =
     (case as_float data ''temperatureC'' of
        None \<Rightarrow> None
      | Some v \<Rightarrow>
         if v = Fin 0 then None
         else Some (n\<lparr>nTemperature := v, nTemperatureC := v,
           nTemperatureF := (case as_float data ''temperatureF'' of Some tf \<Rightarrow> if tf \<noteq> Fin 0 then tf else fahrenheit v | None \<Rightarrow> fahrenheit v),
           nTemperatureUpdatedAt := Some t\<rparr>))"

definition put_battery :: "(float64 \<Rightarrow> u32) \<Rightarrow> int \<Rightarrow> (string \<rightharpoonup> iface) \<Rightarrow> Node \<Rightarrow> Node option" where
  "put_battery wild t data n =
     (case as_float data ''battery'' of
        None \<Rightarrow> None
      | Some v \<Rightarrow>
         if float_less (Fin 0) v then
           (let pct = to_uint32 wild v; pct = (if pct > 100 then 100 else pct)
            in if nBatteryLevel n \<noteq> pct then Some (n\<lparr>nBatteryLevel := pct, nTelemetryUpdatedAt := Some t\<rparr>) else None)
         else None)"

text \<open>The node after the heartbeat and whether something was extracted.\<close>

definition put_heartbeat :: "(float64 \<Rightarrow> u32) \<Rightarrow> int \<Rightarrow> float64 \<Rightarrow> float64 \<Rightarrow> (string \<rightharpoonup> iface) \<Rightarrow> Node \<Rightarrow> Node \<times> bool" where
  "put_heartbeat wild t lat lon data n =
     (let c1 = (lat \<noteq> Fin 0 \<or> lon \<noteq> Fin 0); n = (if c1 then n\<lparr>nLatitude := lat, nLongitude := lon\<rparr> else n);
          r2 = put_temperature t data n; n = (case r2 of Some n' \<Rightarrow> n' | None \<Rightarrow> n);
          r3 = put_battery wild t data n; n = (case r3 of Some n' \<Rightarrow> n' | None \<Rightarrow> n)
      in (n\<lparr>nLastHeard := t, nIsOnline := True\<rparr>, c1 \<or> r2 \<noteq> None \<or> r3 \<noteq> None))"

definition HandleAntihunterHeartbeat ::
    "(float64 \<Rightarrow> u32) \<Rightarrow> int \<Rightarrow> u32 \<Rightarrow> float64 \<Rightarrow> float64 \<Rightarrow> (string \<rightharpoonup> iface) \<Rightarrow> node_service \<Rightarrow> node_service" where
  "HandleAntihunterHeartbeat wild t from lat lon data s =
     (let (a, s) = ensure from s; (n, changed) = put_heartbeat wild t lat lon data (node_at s a); s = set_node a (\<lambda>_. n) s
      in if changed then publish a s else s)"

definition SetSensorShortID :: "u32 \<Rightarrow> string \<Rightarrow> node_service \<Rightarrow> node_service" where
  "SetSensorShortID from shortID s =
     (if shortID = [] then s
      else (let (a, s) = ensure from s
            in if nSensorShortID (node_at s a) = shortID then s
               else publish a (set_node a (\<lambda>n. n\<lparr>nSensorShortID := shortID\<rparr>) s)))"

definition SetLastMessage :: "int \<Rightarrow> u32 \<Rightarrow> string \<Rightarrow> node_service \<Rightarrow> node_service" where
  "SetLastMessage t from msg s =
     (if msg = [] then s
      else (let (a, s) = ensure from s
            in publish a (set_node a (\<lambda>n. n\<lparr>nLastMessage := msg, nLastHeard := t, nIsOnline := True\<rparr>) s)))"

definition HandlePosition :: "int \<Rightarrow> u32 \<Rightarrow> PositionData \<Rightarrow> node_service \<Rightarrow> node_service" where
  "HandlePosition t from p s =
     (let (a, s) = ensure from s; s = set_node a (\<lambda>n. (put_position p n)\<lparr>nLastHeard := t, nIsOnline := True\<rparr>) s; n = node_at s a
      in go_task (TaskPersistPosition a) (BroadcastNode (EventNodePosition from (nLatitude n) (nLongitude n) (nAltitude n)) s))"

text \<open>Deleting the nodes deletes their positions with them.\<close>

definition ClearAll :: "pg \<Rightarrow> node_service \<Rightarrow> bool \<times> node_service" where
  "ClearAll db s =
     (let s = s\<lparr>nodeMap := []\<rparr> in if pgUp db then (True, s\<lparr>nodeRows := [], positionRows := []\<rparr>) else (False, s))"

definition Remove :: "u32 \<Rightarrow> node_service \<Rightarrow> node_service" where
  "Remove num s =
     (case node_ptr s num of
        None \<Rightarrow> s
      | Some a \<Rightarrow> BroadcastNode (EventNodeRemove num (nNodeID (node_at s a))) (s\<lparr>nodeMap := AList.delete num (nodeMap s)\<rparr>))"

definition PrunePositions :: "pg \<Rightarrow> int \<Rightarrow> int \<Rightarrow> node_service \<Rightarrow> nat option \<times> node_service" where
  "PrunePositions db t retentionDays s =
     (let days = (if retentionDays \<le> 0 then 30 else retentionDays);
          old = (\<lambda>p. posTimestamp p < t - days * (24 * 60 * 60 * 10 ^ 9))
      in if pgUp db
         then (Some (length (filter old (positionRows s))), s\<lparr>positionRows := filter (Not \<circ> old) (positionRows s)\<rparr>)
         else (None, s))"

section \<open>Writing to the database\<close>

definition nullStr :: "string \<Rightarrow> string option" where "nullStr x = (if x = [] then None else Some x)"
definition nullFloat :: "float64 \<Rightarrow> float64 option" where "nullFloat x = (if x = Fin 0 then None else Some x)"
definition nullInt :: "int \<Rightarrow> int option" where "nullInt x = (if x = 0 then None else Some x)"
definition nullTime :: "int \<Rightarrow> int option" where "nullTime x = (if x = zero_time then None else Some x)"
definition nullTimePtr :: "int option \<Rightarrow> int option" where
  "nullTimePtr x = (case x of None \<Rightarrow> None | Some t \<Rightarrow> if t = zero_time then None else Some t)"

text \<open>The row of the values clause.\<close>

definition new_row :: "pg \<Rightarrow> Node \<Rightarrow> node_row" where
  "new_row db n = \<lparr>qNodeNum = uint (nNodeNum n), qNodeID = nullStr (nNodeID n), qLongName = nullStr (nLongName n),
     qShortName = nullStr (nShortName n), qHWModel = nullStr (nHWModel n), qRole = nullStr (nRole n),
     qLatitude = nullFloat (nLatitude n), qLongitude = nullFloat (nLongitude n), qAltitude = nullFloat (nAltitude n),
     qBatteryLevel = nullInt (uint (nBatteryLevel n)), qVoltage = nullFloat (widen (nVoltage n)),
     qChannelUtilization = nullFloat (widen (nChannelUtilization n)), qAirUtilTx = nullFloat (widen (nAirUtilTx n)),
     qSNR = nullFloat (widen (nSNR n)), qLastHeard = map_option (pgStamp db) (nullTime (nLastHeard n)), qIsOnline = Some (nIsOnline n),
     qSiteID = None, qOriginSiteID = None, qTemperatureC = nullFloat (nTemperatureC n), qTemperatureF = nullFloat (nTemperatureF n),
     qTemperatureUpdatedAt = map_option (pgStamp db) (nullTimePtr (nTemperatureUpdatedAt n)), qLastMessage = nullStr (nLastMessage n),
     qNodeType = nNodeType n, qSensorShortID = nSensorShortID n, qFirmwareVersion = nullStr (nFirmwareVersion n),
     qIsLicensed = nIsLicensed n\<rparr>"

text \<open>\<open>COALESCE(EXCLUDED.c, nodes.c)\<close>, and the case expression for the columns that are never null.\<close>

fun or_old :: "'a option \<Rightarrow> 'a option \<Rightarrow> 'a option" where
  "or_old (Some x) _ = Some x"
| "or_old None y = y"

definition on_conflict :: "node_row \<Rightarrow> node_row \<Rightarrow> node_row" where
  "on_conflict x r = r\<lparr>qNodeID := or_old (qNodeID x) (qNodeID r), qLongName := or_old (qLongName x) (qLongName r),
     qShortName := or_old (qShortName x) (qShortName r), qHWModel := or_old (qHWModel x) (qHWModel r), qRole := or_old (qRole x) (qRole r),
     qLatitude := or_old (qLatitude x) (qLatitude r), qLongitude := or_old (qLongitude x) (qLongitude r),
     qAltitude := or_old (qAltitude x) (qAltitude r), qBatteryLevel := or_old (qBatteryLevel x) (qBatteryLevel r),
     qVoltage := or_old (qVoltage x) (qVoltage r), qChannelUtilization := or_old (qChannelUtilization x) (qChannelUtilization r),
     qAirUtilTx := or_old (qAirUtilTx x) (qAirUtilTx r), qSNR := or_old (qSNR x) (qSNR r),
     qLastHeard := or_old (qLastHeard x) (qLastHeard r), qIsOnline := qIsOnline x,
     qTemperatureC := or_old (qTemperatureC x) (qTemperatureC r), qTemperatureF := or_old (qTemperatureF x) (qTemperatureF r),
     qTemperatureUpdatedAt := or_old (qTemperatureUpdatedAt x) (qTemperatureUpdatedAt r),
     qLastMessage := or_old (qLastMessage x) (qLastMessage r),
     qNodeType := (if qNodeType x = [] then qNodeType r else qNodeType x),
     qSensorShortID := (if qSensorShortID x = [] then qSensorShortID r else qSensorShortID x),
     qFirmwareVersion := or_old (qFirmwareVersion x) (qFirmwareVersion r), qIsLicensed := qIsLicensed x\<rparr>"

text \<open>What the column types admit: text, a value of \<open>node_role\<close>, and 32 bits for the battery.\<close>

definition row_fits :: "pg \<Rightarrow> node_row \<Rightarrow> bool" where
  "row_fits db x \<longleftrightarrow>
     list_all (\<lambda>c. case c of None \<Rightarrow> True | Some v \<Rightarrow> pgText db v)
       [qNodeID x, qLongName x, qShortName x, qHWModel x, qLastMessage x, Some (qNodeType x), Some (qSensorShortID x), qFirmwareVersion x] \<and>
     (case qRole x of None \<Rightarrow> True | Some r \<Rightarrow> r \<in> set node_role) \<and>
     (case qBatteryLevel x of None \<Rightarrow> True | Some b \<Rightarrow> b < 2 ^ 31)"

fun upsert_row :: "node_row \<Rightarrow> node_row list \<Rightarrow> node_row list" where
  "upsert_row x [] = [x]"
| "upsert_row x (r # rs) = (if qNodeNum r = qNodeNum x then on_conflict x r # rs else r # upsert_row x rs)"

definition persistNode :: "pg \<Rightarrow> nat \<Rightarrow> node_service \<Rightarrow> node_service" where
  "persistNode db a s =
     (let x = new_row db (node_at s a)
      in if pgUp db \<and> row_fits db x then s\<lparr>nodeRows := upsert_row x (nodeRows s)\<rparr> else s)"

definition persistPosition :: "pg \<Rightarrow> int \<Rightarrow> nat \<Rightarrow> node_service \<Rightarrow> node_service" where
  "persistPosition db t a s =
     (let n = node_at s a
      in if nLatitude n = Fin 0 \<and> nLongitude n = Fin 0 then s
         else if pgUp db \<and> list_ex (\<lambda>r. qNodeNum r = uint (nNodeNum n)) (nodeRows s)
         then s\<lparr>positionRows := positionRows s @ [\<lparr>posNode = uint (nNodeNum n), posLatitude = nLatitude n, posLongitude = nLongitude n,
             posAltitude = nAltitude n, posTimestamp = t\<rparr>]\<rparr>
         else s)"

text \<open>The scheduler runs one of the pending goroutines.\<close>

definition run_task :: "pg \<Rightarrow> int \<Rightarrow> nat \<Rightarrow> node_service \<Rightarrow> node_service" where
  "run_task db t i s =
     (if i < length (nodeTasks s)
      then (let s' = s\<lparr>nodeTasks := take i (nodeTasks s) @ drop (Suc i) (nodeTasks s)\<rparr>
            in case nodeTasks s ! i of TaskPersistNode a \<Rightarrow> persistNode db a s' | TaskPersistPosition a \<Rightarrow> persistPosition db t a s')
      else s)"

section \<open>Reading the database\<close>

definition given_or :: "'a \<Rightarrow> 'a option \<Rightarrow> 'a" where
  "given_or d x = (case x of Some v \<Rightarrow> v | None \<Rightarrow> d)"

definition row_node :: "int \<Rightarrow> node_row \<Rightarrow> Node" where
  "row_node t r =
     (let num = word_of_int (qNodeNum r);
          n = Node0\<lparr>nNodeNum := num, nNodeID := given_or (hexID num) (qNodeID r), nLongName := given_or [] (qLongName r),
            nShortName := given_or [] (qShortName r), nHWModel := given_or [] (qHWModel r), nRole := given_or [] (qRole r),
            nLatitude := given_or (Fin 0) (qLatitude r), nLongitude := given_or (Fin 0) (qLongitude r),
            nAltitude := given_or (Fin 0) (qAltitude r), nBatteryLevel := word_of_int (given_or 0 (qBatteryLevel r)),
            nVoltage := given_or 0 (map_option narrow (qVoltage r)),
            nChannelUtilization := given_or 0 (map_option narrow (qChannelUtilization r)),
            nAirUtilTx := given_or 0 (map_option narrow (qAirUtilTx r)), nSNR := given_or 0 (map_option narrow (qSNR r)),
            nLastHeard := given_or zero_time (qLastHeard r), nSiteID := given_or [] (qSiteID r),
            nOriginSiteID := given_or [] (qOriginSiteID r), nTemperatureC := given_or (Fin 0) (qTemperatureC r),
            nTemperature := given_or (Fin 0) (qTemperatureC r), nTemperatureF := given_or (Fin 0) (qTemperatureF r),
            nTemperatureUpdatedAt := qTemperatureUpdatedAt r, nLastMessage := given_or [] (qLastMessage r), nNodeType := qNodeType r,
            nFirmwareVersion := given_or [] (qFirmwareVersion r), nIsLicensed := qIsLicensed r, nSensorShortID := qSensorShortID r\<rparr>
      in n\<lparr>nIsOnline := isNodeOnline t n\<rparr>)"

text \<open>A number outside the 32 bits of \<open>nodeNum\<close> fails the scan of its row, which is skipped.\<close>

definition load_row :: "int \<Rightarrow> node_row \<Rightarrow> node_service \<Rightarrow> node_service" where
  "load_row t r s =
     (if 0 \<le> qNodeNum r \<and> qNodeNum r < 2 ^ 32 then snd (add_node (word_of_int (qNodeNum r)) (row_node t r) s) else s)"

definition Load :: "pg \<Rightarrow> int \<Rightarrow> node_service \<Rightarrow> bool \<times> node_service" where
  "Load db t s = (if pgUp db then (True, fold (load_row t) (nodeRows s) s) else (False, s))"

end
