(* ===== verification/NodeProofs.thy ===== *)
theory NodeProofs
  imports Nodes
begin

text \<open>
  The node registry: its invariant over every interleaving of operations and background writes,
  what the classification of a node can become, what a restart brings back, and what the
  database does not take.
\<close>

section \<open>Steps\<close>

text \<open>One operation of the service, or one background write, at any time and with any argument.\<close>

inductive node_step :: "node_service \<Rightarrow> node_service \<Rightarrow> bool" where
  get_all: "node_step s (snd (GetAll t s))"
| touch: "node_step s (TouchNode t num snr rssi s)"
| mark_local: "node_step s (MarkLocal num s)"
| classify: "node_step s (ClassifyNode num ty s)"
| rename: "node_step s (snd (UpdateLongName num name s))"
| node_info: "node_step s (HandleNodeInfo t info s)"
| telemetry: "node_step s (HandleTelemetry t num m s)"
| environment: "node_step s (HandleEnvironment t num env s)"
| firmware: "node_step s (SetFirmwareVersion num fw s)"
| heartbeat: "node_step s (HandleAntihunterHeartbeat wild t num lat lon data s)"
| short_id: "node_step s (SetSensorShortID num sid s)"
| last_message: "node_step s (SetLastMessage t num msg s)"
| position: "node_step s (HandlePosition t num p s)"
| clear: "node_step s (snd (ClearAll db s))"
| remove: "node_step s (Remove num s)"
| prune: "node_step s (snd (PrunePositions db t days s))"
| background: "node_step s (run_task db t i s)"

section \<open>Objects and pointers\<close>

lemma set_node_fields [simp]:
  "length (nodeHeap (set_node a f s)) = length (nodeHeap s)" "nodeMap (set_node a f s) = nodeMap s"
  "nodeTasks (set_node a f s) = nodeTasks s" "nodeRows (set_node a f s) = nodeRows s"
  "positionRows (set_node a f s) = positionRows s" "nodeEvents (set_node a f s) = nodeEvents s" "node_ptr (set_node a f s) = node_ptr s"
  by (simp_all add: set_node_def node_ptr_def fun_eq_iff)

lemma BroadcastNode_fields [simp]:
  "nodeHeap (BroadcastNode ev s) = nodeHeap s" "nodeMap (BroadcastNode ev s) = nodeMap s" "nodeTasks (BroadcastNode ev s) = nodeTasks s"
  "nodeRows (BroadcastNode ev s) = nodeRows s" "positionRows (BroadcastNode ev s) = positionRows s"
  "node_ptr (BroadcastNode ev s) = node_ptr s" "node_at (BroadcastNode ev s) = node_at s"
  by (simp_all add: BroadcastNode_def node_ptr_def node_at_def fun_eq_iff)

lemma go_task_fields [simp]:
  "nodeHeap (go_task k s) = nodeHeap s" "nodeMap (go_task k s) = nodeMap s" "nodeRows (go_task k s) = nodeRows s"
  "positionRows (go_task k s) = positionRows s" "nodeEvents (go_task k s) = nodeEvents s"
  "nodeTasks (go_task k s) = nodeTasks s @ [k]" "node_ptr (go_task k s) = node_ptr s" "node_at (go_task k s) = node_at s"
  by (simp_all add: go_task_def node_ptr_def node_at_def fun_eq_iff)

lemma publish_fields [simp]:
  "nodeHeap (publish a s) = nodeHeap s" "nodeMap (publish a s) = nodeMap s" "nodeRows (publish a s) = nodeRows s"
  "positionRows (publish a s) = positionRows s" "nodeTasks (publish a s) = nodeTasks s @ [TaskPersistNode a]"
  "node_ptr (publish a s) = node_ptr s" "node_at (publish a s) = node_at s"
  by (simp_all add: publish_def)

lemma node_at_set [simp]: "a < length (nodeHeap s) \<Longrightarrow> node_at (set_node a f s) b = (if a = b then f (node_at s a) else node_at s b)"
  by (simp add: node_at_def set_node_def)

lemma add_node_fields [simp]:
  "fst (add_node num n s) = length (nodeHeap s)" "nodeHeap (snd (add_node num n s)) = nodeHeap s @ [n]"
  "nodeMap (snd (add_node num n s)) = AList.update num (length (nodeHeap s)) (nodeMap s)"
  "nodeRows (snd (add_node num n s)) = nodeRows s" "positionRows (snd (add_node num n s)) = positionRows s"
  "nodeTasks (snd (add_node num n s)) = nodeTasks s" "nodeEvents (snd (add_node num n s)) = nodeEvents s"
  "node_ptr (snd (add_node num n s)) = (node_ptr s)(num \<mapsto> length (nodeHeap s))"
  by (simp_all add: add_node_def node_ptr_def fun_eq_iff update_conv')

lemma tables_ptr [simp]:
  "node_ptr (s\<lparr>nodeRows := rows\<rparr>) = node_ptr s" "node_at (s\<lparr>nodeRows := rows\<rparr>) = node_at s"
  "node_ptr (s\<lparr>positionRows := ps\<rparr>) = node_ptr s" "node_at (s\<lparr>positionRows := ps\<rparr>) = node_at s"
  "node_ptr (s\<lparr>nodeTasks := ks\<rparr>) = node_ptr s" "node_at (s\<lparr>nodeTasks := ks\<rparr>) = node_at s" "node_at (s\<lparr>nodeMap := m\<rparr>) = node_at s"
  "node_ptr (s\<lparr>nodeMap := m\<rparr>) = map_of m"
  by (simp_all add: node_ptr_def node_at_def fun_eq_iff)

section \<open>The invariant\<close>

fun task_node :: "node_task \<Rightarrow> nat" where
  "task_node (TaskPersistNode a) = a"
| "task_node (TaskPersistPosition a) = a"

definition registry_wf :: "node_service \<Rightarrow> bool" where
  "registry_wf s \<longleftrightarrow> distinct (map fst (nodeMap s)) \<and>
     (\<forall>num a. node_ptr s num = Some a \<longrightarrow> a < length (nodeHeap s) \<and> nNodeNum (node_at s a) = num) \<and>
     (\<forall>k\<in>set (nodeTasks s). task_node k < length (nodeHeap s)) \<and> distinct (map qNodeNum (nodeRows s)) \<and>
     (\<forall>r\<in>set (nodeRows s). 0 \<le> qNodeNum r \<and> qNodeNum r < 2 ^ 32) \<and>
     (\<forall>p\<in>set (positionRows s). posNode p \<in> qNodeNum ` set (nodeRows s))"

lemma wf_ptr [dest]:
  assumes "registry_wf s" "node_ptr s num = Some a"
  shows "a < length (nodeHeap s)" "nNodeNum (node_at s a) = num"
  using assms by (auto simp: registry_wf_def)

lemma wf_set [intro]:
  assumes "registry_wf s" "nNodeNum (f (node_at s a)) = nNodeNum (node_at s a)"
  shows "registry_wf (set_node a f s)"
proof -
  have "nNodeNum (node_at (set_node a f s) b) = nNodeNum (node_at s b)" if "b < length (nodeHeap s)" for b
    using assms(2) that by (cases "a = b") (simp_all add: node_at_def set_node_def)
  then show ?thesis using assms(1) by (simp add: registry_wf_def)
qed

lemma wf_broadcast [intro]: "registry_wf s \<Longrightarrow> registry_wf (BroadcastNode ev s)"
  by (simp add: registry_wf_def)

lemma wf_task [intro]: "registry_wf s \<Longrightarrow> task_node k < length (nodeHeap s) \<Longrightarrow> registry_wf (go_task k s)"
  by (auto simp: registry_wf_def)

lemma wf_publish [intro]: "registry_wf s \<Longrightarrow> a < length (nodeHeap s) \<Longrightarrow> registry_wf (publish a s)"
  unfolding publish_def by (auto intro!: wf_task wf_broadcast)

lemma wf_add:
  assumes "registry_wf s" "nNodeNum n = num"
  shows "registry_wf (snd (add_node num n s))"
  using assms
  by (auto simp: registry_wf_def distinct_update node_at_def nth_append less_Suc_eq split: if_splits dest!: bspec)

lemma ensure_cases:
  assumes "registry_wf s" "ensure num s = (a, s')"
  shows "registry_wf s'" "a < length (nodeHeap s')" "node_ptr s' = (node_ptr s)(num \<mapsto> a)"
    "node_at s' a = given_or (Node0\<lparr>nNodeNum := num\<rparr>) (GetByNodeNum s num)"
    "nodeRows s' = nodeRows s" "positionRows s' = positionRows s" "nodeTasks s' = nodeTasks s"
    "\<And>b. b < length (nodeHeap s) \<Longrightarrow> node_at s' b = node_at s b" "length (nodeHeap s) \<le> length (nodeHeap s')"
proof -
  have "registry_wf s' \<and> a < length (nodeHeap s') \<and> node_ptr s' = (node_ptr s)(num \<mapsto> a) \<and>
    node_at s' a = given_or (Node0\<lparr>nNodeNum := num\<rparr>) (GetByNodeNum s num) \<and>
    nodeRows s' = nodeRows s \<and> positionRows s' = positionRows s \<and> nodeTasks s' = nodeTasks s \<and>
    (\<forall>b < length (nodeHeap s). node_at s' b = node_at s b) \<and> length (nodeHeap s) \<le> length (nodeHeap s')"
  proof (cases "node_ptr s num")
    case None
    then have "s' = snd (add_node num (Node0\<lparr>nNodeNum := num\<rparr>) s)" "a = length (nodeHeap s)"
      using assms(2) by (auto simp: ensure_def add_node_def)
    then show ?thesis using assms(1) None by (auto simp: wf_add given_or_def GetByNodeNum_def node_at_def nth_append)
  next
    case (Some b)
    then have "s' = s" "a = b" using assms(2) by (simp_all add: ensure_def)
    then show ?thesis using assms(1) Some by (auto simp: given_or_def GetByNodeNum_def)
  qed
  then show "registry_wf s'" "a < length (nodeHeap s')" "node_ptr s' = (node_ptr s)(num \<mapsto> a)"
    "node_at s' a = given_or (Node0\<lparr>nNodeNum := num\<rparr>) (GetByNodeNum s num)"
    "nodeRows s' = nodeRows s" "positionRows s' = positionRows s" "nodeTasks s' = nodeTasks s"
    "\<And>b. b < length (nodeHeap s) \<Longrightarrow> node_at s' b = node_at s b" "length (nodeHeap s) \<le> length (nodeHeap s')"
    by blast+
qed

lemma put_num [simp]:
  "nNodeNum (put_position p n) = nNodeNum n" "nNodeNum (put_user u n) = nNodeNum n" "nNodeNum (put_metrics m n) = nNodeNum n"
  "nNodeNum (classify_by_name n) = nNodeNum n" "nNodeNum (put_info t info n) = nNodeNum n"
  "nNodeNum (fst (put_heartbeat w t lat lon d n)) = nNodeNum n"
  by (simp_all add: put_position_def put_user_def put_metrics_def classify_by_name_def put_info_def put_heartbeat_def put_temperature_def
      put_battery_def Let_def split: option.splits)

lemma wf_rows:
  assumes "registry_wf s" "\<And>r. r \<in> set rows \<Longrightarrow> 0 \<le> qNodeNum r \<and> qNodeNum r < 2 ^ 32" "distinct (map qNodeNum rows)"
    "\<And>p. p \<in> set ps \<Longrightarrow> posNode p \<in> qNodeNum ` set rows"
  shows "registry_wf (s\<lparr>nodeRows := rows, positionRows := ps\<rparr>)"
  using assms by (auto simp: registry_wf_def)

lemma wf_map:
  assumes "registry_wf s" "distinct (map fst m)" "map_of m \<subseteq>\<^sub>m node_ptr s"
  shows "registry_wf (s\<lparr>nodeMap := m\<rparr>)"
  using assms by (auto simp: registry_wf_def map_le_def dom_def)

lemma qNodeNum_conflict [simp]: "qNodeNum (on_conflict x r) = qNodeNum r" "qNodeNum (new_row db n) = uint (nNodeNum n)"
  by (simp_all add: on_conflict_def new_row_def)

lemma upsert_nums [simp]: "qNodeNum ` set (upsert_row x rows) = insert (qNodeNum x) (qNodeNum ` set rows)"
  by (induction rows) auto

lemma upsert_distinct: "distinct (map qNodeNum rows) \<Longrightarrow> distinct (map qNodeNum (upsert_row x rows))"
  by (induction rows) (auto simp: image_iff dest: upsert_nums [THEN equalityD1, THEN subsetD, OF imageI])

lemma wf_persistNode [intro]:
  assumes "registry_wf s"
  shows "registry_wf (persistNode db a s)"
proof -
  let ?rows = "upsert_row (new_row db (node_at s a)) (nodeRows s)"
  have "0 \<le> i \<and> i < 2 ^ 32" if "i \<in> qNodeNum ` set ?rows" for i
    using that assms uint_lt2p [of "nNodeNum (node_at s a)"] unfolding upsert_nums by (auto simp: registry_wf_def)
  then have "0 \<le> qNodeNum r \<and> qNodeNum r < 2 ^ 32" if "r \<in> set ?rows" for r using that by blast
  then have "registry_wf (s\<lparr>nodeRows := ?rows, positionRows := positionRows s\<rparr>)"
    using assms by (intro wf_rows upsert_distinct) (simp_all add: registry_wf_def)
  then show ?thesis using assms by (simp add: persistNode_def Let_def)
qed

lemma wf_persistPosition [intro]:
  assumes "registry_wf s"
  shows "registry_wf (persistPosition db t a s)"
  using assms by (auto simp: persistPosition_def Let_def registry_wf_def list_ex_iff intro: rev_image_eqI)

lemma wf_run_task [intro]:
  assumes "registry_wf s"
  shows "registry_wf (run_task db t i s)"
proof -
  have "registry_wf (s\<lparr>nodeTasks := take i (nodeTasks s) @ drop (Suc i) (nodeTasks s)\<rparr>)"
    using assms by (auto simp: registry_wf_def dest!: in_set_takeD in_set_dropD)
  then show ?thesis using assms by (auto simp: run_task_def Let_def split: node_task.splits)
qed

lemma wf_ensured [intro]:
  assumes "registry_wf s" "\<And>a s'. registry_wf s' \<Longrightarrow> a < length (nodeHeap s') \<Longrightarrow> registry_wf (f a s')"
  shows "registry_wf (case ensure num s of (a, s') \<Rightarrow> f a s')"
  using assms ensure_cases(1,2) [OF assms(1)] by (auto split: prod.splits)

lemma wf_fold_set:
  assumes "registry_wf s" "\<And>n. nNodeNum (f n) = nNodeNum n"
  shows "registry_wf (fold (\<lambda>(_, a). set_node a f) ps s)"
  using assms(1)
proof (induction ps arbitrary: s)
  case (Cons q ps)
  then have "registry_wf (set_node (snd q) f s)" using assms(2) by (intro wf_set)
  with Cons.IH show ?case by (simp add: split_def)
qed simp

lemma wf_get_all [intro]: "registry_wf s \<Longrightarrow> registry_wf (snd (GetAll t s))"
  by (simp add: GetAll_def Let_def wf_fold_set)

lemma TouchNode_new:
  assumes "node_ptr s num = None"
  shows "TouchNode t num snr rssi s =
    (let n = Node0\<lparr>nNodeNum := num, nNodeID := hexID num, nIsOnline := True\<rparr> in
     set_node (length (nodeHeap s)) (\<lambda>n. n\<lparr>nSNR := snr, nRSSI := rssi, nLastHeard := t, nIsOnline := True\<rparr>)
       (BroadcastNode (EventNodeUpdate n) (snd (add_node num n s))))"
  using assms by (simp add: TouchNode_def Let_def split_def)

lemma wf_touch [intro]:
  assumes "registry_wf s"
  shows "registry_wf (TouchNode t num snr rssi s)"
proof (cases "node_ptr s num")
  case None
  show ?thesis using assms unfolding TouchNode_new [OF None] Let_def by (intro wf_set wf_broadcast wf_add) simp_all
next
  case (Some a)
  then show ?thesis using assms by (auto simp: TouchNode_def intro!: wf_set)
qed

lemma wf_pointer [intro]:
  assumes "registry_wf s" "\<And>a. node_ptr s num = Some a \<Longrightarrow> a < length (nodeHeap s) \<Longrightarrow> registry_wf (f a)"
  shows "registry_wf (case node_ptr s num of None \<Rightarrow> s | Some a \<Rightarrow> f a)"
  using assms by (auto split: option.splits)

lemma wf_operations [intro]:
  assumes "registry_wf s"
  shows "registry_wf (MarkLocal num s)" "registry_wf (ClassifyNode num ty s)" "registry_wf (snd (UpdateLongName num name s))"
    "registry_wf (HandleNodeInfo t info s)" "registry_wf (HandleTelemetry t num m s)" "registry_wf (HandleEnvironment t num env s)"
    "registry_wf (SetFirmwareVersion num fw s)" "registry_wf (HandleAntihunterHeartbeat wild t num lat lon data s)"
    "registry_wf (SetSensorShortID num sid s)" "registry_wf (SetLastMessage t num msg s)" "registry_wf (HandlePosition t num p s)"
    "registry_wf (snd (ClearAll db s))" "registry_wf (Remove num s)" "registry_wf (snd (PrunePositions db t days s))"
proof -
  have set_pub: "registry_wf (publish a (set_node a f s))" if "registry_wf s" "a < length (nodeHeap s)" "\<And>n. nNodeNum (f n) = nNodeNum n" for a f s
    using that by (intro wf_publish wf_set) simp_all
  show "registry_wf (MarkLocal num s)"
    unfolding MarkLocal_def using assms by (intro wf_pointer wf_task wf_set) simp_all
  show "registry_wf (ClassifyNode num ty s)"
    unfolding ClassifyNode_def using assms by (intro wf_pointer) (auto intro!: set_pub)
  show "registry_wf (snd (UpdateLongName num name s))"
    using assms by (auto simp: UpdateLongName_def split: option.splits intro!: set_pub)
  show "registry_wf (HandleNodeInfo t info s)" "registry_wf (HandleTelemetry t num m s)" "registry_wf (HandleEnvironment t num env s)"
    unfolding HandleNodeInfo_def HandleTelemetry_def HandleEnvironment_def Let_def using assms by (intro wf_ensured set_pub; simp)+
  show "registry_wf (SetFirmwareVersion num fw s)"
    unfolding SetFirmwareVersion_def using assms by (auto intro!: wf_pointer set_pub)
  show "registry_wf (SetLastMessage t num msg s)"
    unfolding SetLastMessage_def Let_def using assms by (auto intro!: wf_ensured set_pub)
  show "registry_wf (SetSensorShortID num sid s)"
    unfolding SetSensorShortID_def Let_def using assms by (auto intro!: wf_ensured set_pub)
  show "registry_wf (HandlePosition t num p s)"
    unfolding HandlePosition_def Let_def using assms by (intro wf_ensured wf_task wf_broadcast wf_set) simp_all
  show "registry_wf (HandleAntihunterHeartbeat wild t num lat lon data s)"
    unfolding HandleAntihunterHeartbeat_def Let_def
    using assms by (intro wf_ensured) (auto simp: split_def intro!: wf_publish wf_set)
  show "registry_wf (snd (ClearAll db s))"
    using wf_map [OF assms, of "[]"] wf_rows [of "s\<lparr>nodeMap := []\<rparr>" "[]" "[]"] by (simp add: ClearAll_def Let_def)
  show "registry_wf (Remove num s)"
    using assms wf_map [OF assms, of "AList.delete num (nodeMap s)"]
    by (auto simp: Remove_def node_ptr_def map_le_def delete_conv' distinct_delete registry_wf_def [of s] split: option.splits if_splits intro!: wf_broadcast)
  show "registry_wf (snd (PrunePositions db t days s))"
    using assms by (auto simp: PrunePositions_def Let_def registry_wf_def)
qed

lemma registry_run:
  assumes "node_step\<^sup>*\<^sup>* s s'" "registry_wf s"
  shows "registry_wf s'"
  using assms by (induction rule: rtranclp_induct) (auto elim!: node_step.cases)

text \<open>C7: Every interleaving of the service's operations with its background writes keeps the registry well formed: one
  object per number and with that number, pending writes of existing objects only, at most one row per node in the
  table, and positions of stored nodes only.\<close>

theorem registry_invariant:
  assumes "node_step\<^sup>*\<^sup>* s s'" "registry_wf s"
  shows "registry_wf s'"
  using assms by (rule registry_run)

section \<open>What happens to an object\<close>

text \<open>The objects of the first state are still there and related to what they were.\<close>

definition objects :: "(Node \<Rightarrow> Node \<Rightarrow> bool) \<Rightarrow> node_service \<Rightarrow> node_service \<Rightarrow> bool" where
  "objects K s s' \<longleftrightarrow> length (nodeHeap s) \<le> length (nodeHeap s') \<and> (\<forall>a < length (nodeHeap s). K (node_at s a) (node_at s' a))"

text \<open>
  A relation on nodes that the operations respect: it depends on the number, the type and the
  local flag only, and admits what classification and \<open>MarkLocal\<close> do to these.
\<close>

locale node_relation =
  fixes K :: "Node \<Rightarrow> Node \<Rightarrow> bool"
  assumes same: "\<lbrakk>nNodeNum n' = nNodeNum n; nNodeType n' = nNodeType n; nIsLocal n' = nIsLocal n\<rbrakk> \<Longrightarrow> K n n'"
    and trans: "K n n' \<Longrightarrow> K n' n'' \<Longrightarrow> K n n''"
    and named: "K n (classify_by_name n)"
    and classified: "\<not> leaf_type (nNodeType n) \<Longrightarrow> K n (n\<lparr>nNodeType := ty\<rparr>)"
    and marked: "K n (n\<lparr>nIsLocal := True, nNodeType := NodeTypeGotailme\<rparr>)"
begin

lemma objects_refl [simp]: "objects K s s"
  by (simp add: objects_def same)

lemma objects_trans: "objects K s s' \<Longrightarrow> objects K s' s'' \<Longrightarrow> objects K s s''"
  unfolding objects_def by (meson less_le_trans order_trans trans)

lemma objects_set: "K (node_at s a) (f (node_at s a)) \<Longrightarrow> objects K s (set_node a f s)"
  by (cases "a < length (nodeHeap s)") (auto simp: objects_def node_at_def set_node_def nth_list_update same)

lemma objects_cong: "nodeHeap s'' = nodeHeap s' \<Longrightarrow> objects K s s' \<Longrightarrow> objects K s s''"
  by (simp add: objects_def node_at_def)

lemma objects_heap: "nodeHeap s' = nodeHeap s @ ns \<Longrightarrow> objects K s s'"
  by (simp add: objects_def node_at_def nth_append same)

lemma objects_pub: "K (node_at s a) (f (node_at s a)) \<Longrightarrow> objects K s (publish a (set_node a f s))"
  using objects_set by (auto simp: objects_def)

lemma objects_ensure:
  assumes "\<And>a s'. objects K s' (f a s')"
  shows "objects K s (case ensure num s of (a, s') \<Rightarrow> f a s')"
proof -
  obtain a s' where e: "ensure num s = (a, s')" by fastforce
  then have "objects K s s'" by (auto simp: ensure_def add_node_def objects_heap split: option.splits)
  then show ?thesis using e assms objects_trans by auto
qed

lemma K_info: "K n (put_info t info n)"
proof -
  have "\<exists>n'. put_info t info n = classify_by_name n' \<and> K n n'"
    unfolding put_info_def Let_def
    by (rule exI, rule conjI, rule refl)
      (auto intro!: same simp: put_user_def put_position_def put_metrics_def Let_def split: option.splits)
  then show ?thesis using named trans by metis
qed

lemma K_heartbeat: "K n (fst (put_heartbeat w t lat lon d n))"
  by (rule same) (simp_all add: put_heartbeat_def put_temperature_def put_battery_def Let_def split: option.splits)

lemma objects_get_all: "objects K s (snd (GetAll t s))"
proof -
  have "objects K s (fold (\<lambda>(_, a). set_node a (\<lambda>n. n\<lparr>nIsOnline := isNodeOnline t n\<rparr>)) ps s)" for ps :: "(u32 \<times> nat) list"
  proof (induction ps arbitrary: s)
    case (Cons q ps)
    have "objects K s (set_node (snd q) (\<lambda>n. n\<lparr>nIsOnline := isNodeOnline t n\<rparr>) s)" by (rule objects_set, rule same) simp_all
    with Cons.IH objects_trans show ?case by (fastforce simp: split_def)
  qed simp
  then show ?thesis by (simp add: GetAll_def Let_def)
qed

lemma objects_touch: "objects K s (TouchNode t num snr rssi s)"
proof (cases "node_ptr s num")
  case None
  show ?thesis unfolding TouchNode_new [OF None] Let_def
    by (rule objects_trans [OF objects_heap objects_set]) (auto intro: same)
qed (auto simp: TouchNode_def intro!: objects_set same)

lemma objects_run_task: "objects K s (run_task db t i s)"
proof -
  have "nodeHeap (run_task db t i s) = nodeHeap s @ []"
    by (auto simp: run_task_def persistNode_def persistPosition_def Let_def split: node_task.splits)
  then show ?thesis by (rule objects_heap)
qed

lemma objects_step: "node_step s s' \<Longrightarrow> objects K s s'"
proof (induction rule: node_step.cases)
  case (mark_local s num)
  then show ?case by (auto simp: MarkLocal_def marked split: option.splits intro!: objects_cong [OF _ objects_set])
next
  case (heartbeat s wild t num lat lon data)
  show ?case unfolding heartbeat HandleAntihunterHeartbeat_def Let_def
    by (rule objects_ensure) (auto simp: split_def K_heartbeat intro!: objects_set objects_pub)
next
  case (position s t num p)
  show ?case unfolding position HandlePosition_def Let_def
    by (rule objects_ensure, rule objects_cong [OF _ objects_set]) (auto intro!: same simp: put_position_def Let_def split: if_splits)
next
  case (short_id s num sid)
  show ?case unfolding short_id SetSensorShortID_def Let_def by (auto intro!: objects_ensure objects_pub same)
next
  case (clear s db)
  show ?case unfolding clear by (rule objects_heap [of _ _ "[]"]) (simp add: ClearAll_def Let_def)
next
  case (remove s num)
  show ?case unfolding remove by (rule objects_heap [of _ _ "[]"]) (simp add: Remove_def split: option.splits)
next
  case (prune s db t days)
  show ?case unfolding prune by (rule objects_heap [of _ _ "[]"]) (simp add: PrunePositions_def Let_def)
qed (auto simp: objects_get_all objects_touch objects_run_task ClassifyNode_def UpdateLongName_def HandleNodeInfo_def HandleTelemetry_def
    HandleEnvironment_def SetFirmwareVersion_def SetSensorShortID_def SetLastMessage_def
    put_metrics_def Let_def K_info classified split: option.splits intro!: objects_ensure objects_pub intro: same)

lemma objects_run: "node_step\<^sup>*\<^sup>* s s' \<Longrightarrow> objects K s s'"
  by (induction rule: rtranclp_induct) (auto intro: objects_trans objects_step)

end

text \<open>The types the dispatcher assigns from sensor output, which no later packet may take back.\<close>

definition sensor_type :: "NodeType \<Rightarrow> bool" where
  "sensor_type ty \<longleftrightarrow> ty = NodeTypeAntihunter \<or> ty = NodeTypeGatesensor"

definition keeps_badge :: "Node \<Rightarrow> Node \<Rightarrow> bool" where
  "keeps_badge n n' \<longleftrightarrow> nNodeNum n' = nNodeNum n \<and> (nIsLocal n \<longrightarrow> nIsLocal n') \<and>
     (sensor_type (nNodeType n) \<longrightarrow> nNodeType n' = nNodeType n \<or> nIsLocal n')"

interpretation badge: node_relation keeps_badge
  by unfold_locales (auto simp: keeps_badge_def sensor_type_def leaf_type_def classify_by_name_def)

text \<open>C8: Over every interleaving of operations and background writes a node classified as a sensor keeps its
  classification for as long as it is registered, unless it is marked as the local radio; a node once marked local
  stays local.\<close>

theorem sensor_badge_sticks:
  assumes "node_step\<^sup>*\<^sup>* s s'" "registry_wf s" "node_ptr s num = Some a" "node_ptr s' num = Some a"
  shows "\<exists>n n'. GetByNodeNum s num = Some n \<and> GetByNodeNum s' num = Some n' \<and> nNodeNum n' = num \<and> (nIsLocal n \<longrightarrow> nIsLocal n') \<and>
    (sensor_type (nNodeType n) \<longrightarrow> nNodeType n' = nNodeType n \<or> nIsLocal n')"
proof -
  have "a < length (nodeHeap s)" "nNodeNum (node_at s a) = num" using wf_ptr [OF assms(2,3)] by auto
  then have "keeps_badge (node_at s a) (node_at s' a)" "nNodeNum (node_at s a) = num"
    using badge.objects_run [OF assms(1)] by (auto simp: objects_def)
  then show ?thesis using assms(3,4) by (simp add: GetByNodeNum_def keeps_badge_def)
qed

section \<open>Restart\<close>

text \<open>The process ends with writes pending and a new one loads the table.\<close>

definition restarted :: "pg \<Rightarrow> int \<Rightarrow> node_service \<Rightarrow> node_service" where
  "restarted db t s = snd (Load db t (NewNodeService (nodeRows s) (positionRows s)))"

definition row_of :: "node_row list \<Rightarrow> u32 \<Rightarrow> node_row option" where
  "row_of rows num = find (\<lambda>r. qNodeNum r = uint num) rows"

lemma load_rows:
  assumes "distinct (map qNodeNum rows)" "\<forall>r\<in>set rows. 0 \<le> qNodeNum r \<and> qNodeNum r < 2 ^ 32" "registry_wf s"
  shows "registry_wf (fold (load_row t) rows s)" (is ?wf)
    "GetByNodeNum (fold (load_row t) rows s) num = (case row_of rows num of Some r \<Rightarrow> Some (row_node t r) | None \<Rightarrow> GetByNodeNum s num)" (is ?get)
proof -
  have "?wf \<and> ?get" using assms
  proof (induction rows arbitrary: s)
    case (Cons r rows)
    let ?num = "word_of_int (qNodeNum r) :: u32" and ?s = "load_row t r s"
    have u: "uint ?num = qNodeNum r" using Cons.prems(2) by (simp add: unsigned_of_int take_bit_int_eq_self)
    have wf: "registry_wf ?s"
      using Cons.prems(3) by (auto simp: load_row_def row_node_def Let_def intro!: wf_add)
    have get: "GetByNodeNum ?s num = (if num = ?num then Some (row_node t r) else GetByNodeNum s num)" for num
      using Cons.prems by (auto simp: load_row_def GetByNodeNum_def node_at_def nth_append intro!: option.map_cong dest: wf_ptr)
    have "qNodeNum r = uint num \<longleftrightarrow> num = ?num" for num using u by (metis word_of_int_uint)
    moreover have "row_of rows ?num = None" using Cons.prems(1) u by (auto simp: row_of_def find_None_iff) (metis image_eqI)
    ultimately show ?case using Cons.IH [of ?s] Cons.prems wf get u by (auto simp: row_of_def split: option.splits)
  qed (simp add: row_of_def)
  then show ?wf ?get by simp_all
qed

lemma wf_new: "distinct (map qNodeNum rows) \<Longrightarrow> (\<forall>r\<in>set rows. 0 \<le> qNodeNum r \<and> qNodeNum r < 2 ^ 32) \<Longrightarrow>
    (\<forall>p\<in>set ps. posNode p \<in> qNodeNum ` set rows) \<Longrightarrow> registry_wf (NewNodeService rows ps)"
  by (simp add: registry_wf_def NewNodeService_def node_ptr_def)

lemma restarted_wf: "registry_wf s \<Longrightarrow> registry_wf (restarted db t s)"
  using load_rows(1) [of "nodeRows s" "NewNodeService (nodeRows s) (positionRows s)" t] wf_new [of "nodeRows s" "positionRows s"]
  by (auto simp: restarted_def Load_def registry_wf_def [of s]) (auto simp: NewNodeService_def)

lemma restarted_get:
  assumes "registry_wf s" "pgUp db"
  shows "GetByNodeNum (restarted db t s) num = map_option (row_node t) (row_of (nodeRows s) num)"
proof -
  have rows: "nodeRows (NewNodeService (nodeRows s) (positionRows s)) = nodeRows s" by (simp add: NewNodeService_def)
  have "GetByNodeNum (NewNodeService (nodeRows s) (positionRows s)) num = None" by (simp add: NewNodeService_def GetByNodeNum_def node_ptr_def)
  then show ?thesis
    using assms load_rows(2) [of "nodeRows s" "NewNodeService (nodeRows s) (positionRows s)" t num] wf_new [of "nodeRows s" "positionRows s"]
    by (auto simp: restarted_def Load_def rows registry_wf_def [of s] split: option.splits)
qed

lemma row_of_upsert:
  "row_of (upsert_row x rows) num = (if qNodeNum x = uint num
     then Some (case row_of rows num of Some r \<Rightarrow> on_conflict x r | None \<Rightarrow> x) else row_of rows num)"
  by (induction rows) (auto simp: row_of_def)

text \<open>
  What a restart keeps of a node that was written: each field with a column, unless it was zero;
  then the value that a restart would have shown before the write.
\<close>

definition kept :: "(Node \<Rightarrow> 'a) \<Rightarrow> 'a \<Rightarrow> Node \<Rightarrow> Node \<Rightarrow> Node \<Rightarrow> bool" where
  "kept f zero n before after \<longleftrightarrow> f after = (if f n = zero then f before else f n)"

definition kept32 :: "(Node \<Rightarrow> float32) \<Rightarrow> Node \<Rightarrow> Node \<Rightarrow> Node \<Rightarrow> bool" where
  "kept32 f n before after \<longleftrightarrow> f after = (if widen (f n) = Fin 0 then f before else f n)"

definition restored :: "pg \<Rightarrow> int \<Rightarrow> Node \<Rightarrow> Node \<Rightarrow> Node \<Rightarrow> bool" where
  "restored db t n before after \<longleftrightarrow>
     nNodeNum after = nNodeNum n \<and> kept nNodeID [] n before after \<and> kept nLongName [] n before after \<and> kept nShortName [] n before after \<and>
     kept nHWModel [] n before after \<and> kept nRole [] n before after \<and> kept nNodeType [] n before after \<and>
     kept nSensorShortID [] n before after \<and> kept nFirmwareVersion [] n before after \<and> kept nLastMessage [] n before after \<and>
     kept nLatitude (Fin 0) n before after \<and> kept nLongitude (Fin 0) n before after \<and> kept nAltitude (Fin 0) n before after \<and>
     kept nTemperatureC (Fin 0) n before after \<and> kept nTemperatureF (Fin 0) n before after \<and> kept nBatteryLevel 0 n before after \<and>
     kept32 nVoltage n before after \<and> kept32 nChannelUtilization n before after \<and> kept32 nAirUtilTx n before after \<and> kept32 nSNR n before after \<and>
     nIsLicensed after = nIsLicensed n \<and>
     nLastHeard after = (if nLastHeard n = zero_time then nLastHeard before else pgStamp db (nLastHeard n)) \<and>
     nTemperatureUpdatedAt after = or_old (map_option (pgStamp db) (nullTimePtr (nTemperatureUpdatedAt n))) (nTemperatureUpdatedAt before) \<and>
     nTemperature after = nTemperatureC after \<and> nSiteID after = nSiteID before \<and> nOriginSiteID after = nOriginSiteID before \<and>
     nIsOnline after = isNodeOnline t after"

lemma row_node_new:
  assumes "widen (nVoltage n) \<noteq> NaN" "widen (nChannelUtilization n) \<noteq> NaN" "widen (nAirUtilTx n) \<noteq> NaN" "widen (nSNR n) \<noteq> NaN"
  shows "restored db t n (Node0\<lparr>nNodeNum := nNodeNum n, nNodeID := hexID (nNodeNum n)\<rparr>) (row_node t (new_row db n))"
    "qNodeNum r = uint (nNodeNum n) \<Longrightarrow> restored db t n (row_node t r) (row_node t (on_conflict (new_row db n) r))"
proof -
  have w: "narrow (widen b) = b" if "widen b \<noteq> Fin 0" "widen b \<noteq> NaN" for b
    using that narrow_widen [of b] widen_zero [of b] by blast
  have z: "word_of_int (uint b) = b" "uint b = 0 \<longleftrightarrow> b = 0" for b :: u32 by (simp_all add: uint_0_iff)
  have old: "or_old x None = x" for x :: "int option" by (cases x) simp_all
  show "restored db t n (Node0\<lparr>nNodeNum := nNodeNum n, nNodeID := hexID (nNodeNum n)\<rparr>) (row_node t (new_row db n))"
    unfolding restored_def kept_def kept32_def using assms w z
    by (simp add: row_node_def new_row_def Node0_def Let_def given_or_def nullStr_def nullFloat_def nullInt_def nullTime_def isNodeOnline_def old)
  assume "qNodeNum r = uint (nNodeNum n)"
  then show "restored db t n (row_node t r) (row_node t (on_conflict (new_row db n) r))"
    unfolding restored_def kept_def kept32_def using assms w z
    by (simp add: row_node_def new_row_def on_conflict_def Node0_def Let_def given_or_def nullStr_def nullFloat_def nullInt_def nullTime_def isNodeOnline_def)
qed

text \<open>C16: A node that was written to the database comes back after a restart: every field that the statement writes has
  the value written (times as the database rounds them), unless that value was zero; a field that was zero comes back with what the table held before,
  so that a reset of a field does not survive the restart. The sites are those of the table, which the statement does not write; whether the node
  is online is worked out anew from the time it was last heard. The statement was accepted by the database, and none of the four
  \<open>float32\<close> values is a NaN, whose bits need not come back.\<close>

theorem restart_restores:
  assumes "registry_wf s" "GetByNodeNum s num = Some n" "node_ptr s num = Some a" "pgUp db" "row_fits db (new_row db n)"
    "widen (nVoltage n) \<noteq> NaN" "widen (nChannelUtilization n) \<noteq> NaN" "widen (nAirUtilTx n) \<noteq> NaN" "widen (nSNR n) \<noteq> NaN"
  shows "\<exists>after. GetByNodeNum (restarted db t (persistNode db a s)) num = Some after \<and>
    restored db t n (given_or (Node0\<lparr>nNodeNum := num, nNodeID := hexID num\<rparr>) (GetByNodeNum (restarted db t s) num)) after"
proof -
  have n: "node_at s a = n" "nNodeNum n = num" using assms(1-3) by (auto simp: GetByNodeNum_def)
  have rows: "nodeRows (persistNode db a s) = upsert_row (new_row db n) (nodeRows s)" using assms(4,5) n(1) by (simp add: persistNode_def)
  have "qNodeNum r = uint num" if "row_of (nodeRows s) num = Some r" for r using that by (auto simp: row_of_def find_Some_iff)
  then show ?thesis
    using row_node_new(1) [of n db t] row_node_new(2) [of n _ db t] assms(4,6-9) n restarted_get [OF wf_persistNode [OF assms(1)] assms(4)] restarted_get [OF assms(1,4)]
    by (auto simp: rows row_of_upsert given_or_def split: option.splits)
qed

section \<open>What the database does not take\<close>

text \<open>The roles that the decoder names but the column type does not have.\<close>

lemma roleName_in_column: "roleName i \<in> set node_role \<longleftrightarrow> 0 \<le> i \<and> i \<le> 9 \<and> i \<noteq> 7"
proof (cases "0 \<le> i \<and> i \<le> 9")
  case True
  then have "i \<in> {0, 1, 2, 3, 4, 5, 6, 7, 8, 9}" unfolding insert_iff empty_iff by presburger
  then show ?thesis by (auto simp: roleName_def roleNames_def node_role_def)
next
  case False
  then have "map_of roleNames i = None" by (auto simp: roleNames_def)
  then show ?thesis using False by (auto simp: roleName_def node_role_def)
qed

lemma put_info_role: "NodeUser info = Some u \<Longrightarrow> nRole (put_info t info n) = Role u"
  by (auto simp: put_info_def classify_by_name_def put_user_def put_position_def put_metrics_def Let_def split: option.splits)

text \<open>A node whose role is \<open>CLIENT_HIDDEN\<close>, or one that the decoder has no name for, is never written: after its
  node information no write of it changes the table, so without an older row it is gone after a restart.\<close>

theorem hidden_role_is_not_persisted:
  assumes "registry_wf s" "NodeUser info = Some u" "Role u = roleName i" "i = 7 \<or> i < 0 \<or> 9 < i"
  shows "\<exists>a. node_ptr (HandleNodeInfo t info s) (NodeNum info) = Some a \<and>
    persistNode db a (HandleNodeInfo t info s) = HandleNodeInfo t info s"
proof -
  obtain a s1 where e: "ensure (NodeNum info) s = (a, s1)" by fastforce
  have s1: "a < length (nodeHeap s1)" "node_ptr s1 (NodeNum info) = Some a" using ensure_cases(2,3) [OF assms(1) e] by simp_all
  have role: "Role u \<noteq> []" "Role u \<notin> set node_role"
    using assms(3,4) roleName_in_column [of i] by (auto simp: roleName_def roleNames_def)
  have "nRole (node_at (HandleNodeInfo t info s) a) = Role u"
    using s1(1) by (simp add: HandleNodeInfo_def e put_info_role [OF assms(2)])
  then have "\<not> row_fits db (new_row db (node_at (HandleNodeInfo t info s) a))"
    using role by (simp add: row_fits_def new_row_def nullStr_def)
  then show ?thesis using s1(2) by (simp add: HandleNodeInfo_def e persistNode_def Let_def)
qed

lemma row_of_mem: "row_of rows num = Some r \<Longrightarrow> r \<in> set rows \<and> qNodeNum r = uint num"
  by (auto simp: row_of_def find_Some_iff)

text \<open>Deleting does not last: a node removed through the API is back after a restart, because only the map forgets it,
  and a write that is pending when all nodes are cleared puts its row back into the emptied table.\<close>

theorem deleted_nodes_return:
  assumes "registry_wf s" "node_ptr s num = Some a" "pgUp db" "row_of (nodeRows s) num = Some r"
    "i < length (nodeTasks s)" "nodeTasks s ! i = TaskPersistNode a" "row_fits db (new_row db (node_at s a))"
  shows "GetByNodeNum (Remove num s) num = None \<and> GetByNodeNum (restarted db t (Remove num s)) num = Some (row_node t r) \<and>
    GetByNodeNum (snd (ClearAll db s)) num = None \<and>
    GetByNodeNum (restarted db t (run_task db t i (snd (ClearAll db s)))) num = Some (row_node t (new_row db (node_at s a)))"
proof (intro conjI)
  have num: "nNodeNum (node_at s a) = num" using assms(1,2) by auto
  show "GetByNodeNum (Remove num s) num = None"
    using assms(2) by (auto simp: Remove_def GetByNodeNum_def node_ptr_def delete_conv')
  have "nodeRows (Remove num s) = nodeRows s" using assms(2) by (simp add: Remove_def)
  then show "GetByNodeNum (restarted db t (Remove num s)) num = Some (row_node t r)"
    using restarted_get [OF _ assms(3)] wf_operations(13) [OF assms(1)] assms(4) by simp
  show "GetByNodeNum (snd (ClearAll db s)) num = None"
    by (simp add: ClearAll_def Let_def GetByNodeNum_def node_ptr_def)
  let ?s = "run_task db t i (snd (ClearAll db s))"
  have "nodeRows ?s = [new_row db (node_at s a)]"
    using assms(3,5-7) by (simp add: run_task_def ClearAll_def persistNode_def Let_def node_at_def)
  then show "GetByNodeNum (restarted db t ?s) num = Some (row_node t (new_row db (node_at s a)))"
    using restarted_get [OF _ assms(3)] wf_run_task [OF wf_operations(12) [OF assms(1)]] num by (simp add: row_of_def)
qed

section \<open>The list of nodes\<close>

lemma node_at_fold:
  assumes "\<And>n. f (f n) = f n" "\<forall>p\<in>set ps. snd p < length (nodeHeap s)"
  shows "node_at (fold (\<lambda>(_, a). set_node a f) ps s) b = (if b \<in> snd ` set ps then f (node_at s b) else node_at s b)"
  using assms(2)
proof (induction ps arbitrary: s)
  case (Cons p ps)
  then show ?case using assms(1) by (cases p) auto
qed simp

lemma GetAll_members:
  assumes "registry_wf s"
  shows "sorted_wrt (<) (map nNodeNum (fst (GetAll t s))) \<and>
    (\<forall>n. n \<in> set (fst (GetAll t s)) \<longleftrightarrow>
       (\<exists>m. GetByNodeNum s (nNodeNum n) = Some m \<and> n = m\<lparr>nIsOnline := isNodeOnline t m\<rparr>))"
proof -
  define f where "f = (\<lambda>n. n\<lparr>nIsOnline := isNodeOnline t n\<rparr>)"
  define xs where "xs = map (\<lambda>(_, a). f (node_at s a)) (nodeMap s)"
  have map: "node_ptr s num = Some a" if "(num, a) \<in> set (nodeMap s)" for num a
    using assms that by (simp add: registry_wf_def node_ptr_def)
  have "map (\<lambda>(_, a). node_at (fold (\<lambda>(_, a). set_node a f) (nodeMap s) s) a) (nodeMap s) = xs"
  proof -
    have "f (f n) = f n" for n by (simp add: f_def isNodeOnline_def)
    moreover have "\<forall>p\<in>set (nodeMap s). snd p < length (nodeHeap s)" using map wf_ptr(1) [OF assms] by fastforce
    ultimately show ?thesis using node_at_fold [of f "nodeMap s" s] by (force simp: xs_def image_iff)
  qed
  moreover have "nodeMap (fold (\<lambda>(_, a). set_node a f) ps s) = nodeMap s" for ps :: "(u32 \<times> nat) list" and s
    by (induction ps arbitrary: s) (auto simp: split_def)
  ultimately have all: "fst (GetAll t s) = sort_key nNodeNum xs" by (simp add: GetAll_def f_def Let_def)
  have nums: "map nNodeNum xs = map fst (nodeMap s)" using map wf_ptr(2) [OF assms] by (fastforce simp: xs_def f_def)
  have "distinct (map nNodeNum (sort_key nNodeNum xs))"
    using assms nums by (metis registry_wf_def distinct_map distinct_sort set_sort sort_key_const card_distinct distinct_card length_map length_sort set_map)
  then have "sorted_wrt (<) (map nNodeNum (fst (GetAll t s)))" by (simp add: all strict_sorted_iff)
  moreover have "n \<in> set xs \<longleftrightarrow> (\<exists>m. GetByNodeNum s (nNodeNum n) = Some m \<and> n = f m)" for n
  proof
    assume "n \<in> set xs"
    then obtain num a where "(num, a) \<in> set (nodeMap s)" "n = f (node_at s a)" by (auto simp: xs_def)
    then show "\<exists>m. GetByNodeNum s (nNodeNum n) = Some m \<and> n = f m"
      using map wf_ptr [OF assms, of num a] by (auto simp: GetByNodeNum_def f_def)
  next
    assume "\<exists>m. GetByNodeNum s (nNodeNum n) = Some m \<and> n = f m"
    then show "n \<in> set xs" by (force simp: GetByNodeNum_def xs_def node_ptr_def dest: map_of_SomeD)
  qed
  ultimately show ?thesis by (simp add: all f_def)
qed

text \<open>\<open>GetAll\<close> lists every registered node once, in increasing order of the node numbers, with the online flag
  computed at the time of the call.\<close>

theorem GetAll_lists_the_registry:
  assumes "registry_wf s"
  shows "sorted_wrt (<) (map nNodeNum (fst (GetAll t s))) \<and>
    (\<forall>n. n \<in> set (fst (GetAll t s)) \<longleftrightarrow>
       (\<exists>m. GetByNodeNum s (nNodeNum n) = Some m \<and> n = m\<lparr>nIsOnline := isNodeOnline t m\<rparr>))"
  using assms by (rule GetAll_members)

section \<open>An example\<close>

text \<open>A sensor that has been heard and classified, and a database that takes everything.\<close>

definition db0 :: pg where
  "db0 = \<lparr>pgUp = True, pgText = (\<lambda>_. True), pgStamp = (\<lambda>t. t div 1000 * 1000)\<rparr>"

definition reg0 :: node_service where
  "reg0 = ClassifyNode 7 NodeTypeAntihunter (TouchNode 1000 7 0 0 (NewNodeService [] []))"

definition info7 :: NodeInfoLite where
  "info7 = NodeInfoLite0\<lparr>NodeNum := 7, NodeUser := Some (UserInfo0\<lparr>LongName := ''GoTailMe 3'', Role := roleName 7\<rparr>)\<rparr>"

lemmas reg0_eval = reg0_def ClassifyNode_def TouchNode_def NewNodeService_def add_node_def set_node_def node_at_def node_ptr_def BroadcastNode_def
  publish_def go_task_def node_marshals_def Node0_def finite32_def is_finite_def widen_def Let_def leaf_type_def NodeTypeAntihunter_def
  NodeTypeGatesensor_def NodeTypeAICamera_def NodeTypeGotailme_def NodeTypeOperator_def

lemma reg0_wf: "registry_wf reg0"
  unfolding reg0_def by (intro wf_operations wf_touch wf_new) simp_all

lemma reg0_facts:
  "node_ptr reg0 7 = Some 0" "nNodeType (node_at reg0 0) = NodeTypeAntihunter" "nodeTasks reg0 = [TaskPersistNode 0]" "nIsLocal (node_at reg0 0) = False"
  "nodeRows reg0 = []" "row_fits db0 (new_row db0 (node_at reg0 0))" "nVoltage (node_at reg0 0) = 0" "nChannelUtilization (node_at reg0 0) = 0"
  "nAirUtilTx (node_at reg0 0) = 0" "nSNR (node_at reg0 0) = 0" "nLastHeard (node_at reg0 0) = 1000"
  by (simp_all add: reg0_eval row_fits_def new_row_def db0_def nullStr_def nullInt_def)

lemma reg0_run: "node_step\<^sup>*\<^sup>* reg0 (HandleNodeInfo 0 info7 reg0)"
  by (rule r_into_rtranclp) (rule node_step.node_info)

theorem registry_invariant_witness: "registry_wf (HandleNodeInfo 0 info7 reg0)"
  using registry_invariant [OF reg0_run reg0_wf] .

theorem sensor_badge_sticks_witness:
  "\<exists>n. GetByNodeNum (HandleNodeInfo 0 info7 reg0) 7 = Some n \<and> nNodeType n = NodeTypeAntihunter"
proof -
  let ?s = "HandleNodeInfo 0 info7 reg0"
  have ptr: "node_ptr ?s 7 = Some 0" by (simp add: HandleNodeInfo_def ensure_def info7_def reg0_facts)
  have heap: "0 < length (nodeHeap reg0)" using wf_ptr(1) [OF reg0_wf reg0_facts(1)] .
  have plain: "nIsLocal (put_info t i n) = nIsLocal n" for t i n
    by (auto simp: put_info_def classify_by_name_def put_user_def put_position_def put_metrics_def Let_def split: option.splits)
  have "nIsLocal (node_at ?s 0) = False" using heap by (simp add: HandleNodeInfo_def ensure_def info7_def reg0_facts plain)
  then show ?thesis
    using sensor_badge_sticks [OF reg0_run reg0_wf reg0_facts(1) ptr] reg0_facts(2) ptr
    by (auto simp: GetByNodeNum_def sensor_type_def reg0_facts(1))
qed

lemma widen_0 [simp]: "widen 0 = Fin 0"
  by (simp add: widen_def)

theorem restart_restores_witness:
  "\<exists>n. GetByNodeNum (restarted db0 5 (persistNode db0 0 reg0)) 7 = Some n \<and> nNodeType n = NodeTypeAntihunter \<and> nLastHeard n = 1000"
proof -
  have get: "GetByNodeNum reg0 7 = Some (node_at reg0 0)" by (simp add: GetByNodeNum_def reg0_facts)
  have "nLastHeard (node_at reg0 0) \<noteq> zero_time" by (simp add: reg0_facts zero_time_def)
  then show ?thesis
    using restart_restores [OF reg0_wf get reg0_facts(1), of db0 5] reg0_facts
    by (auto simp: restored_def kept_def NodeTypeAntihunter_def db0_def [THEN arg_cong [of _ _ pgUp]] db0_def [THEN arg_cong [of _ _ pgStamp]])
qed

end
