(* ===== verification/NodeAPI.thy ===== *)
theory NodeAPI
  imports NodeProofs
begin

text \<open>
  The HTTP handlers of the node registry, \<open>internal/api/handlers_nodes.go\<close>, with \<open>writeJSON\<close> and
  \<open>writeError\<close> of \<open>internal/api/server.go\<close>, and \<open>canonicalProbeNode\<close> of the main program. A handler
  takes the path parameter and the decoded request body and gives the status and the body that
  is written. The sites service is the parameter \<open>sites\<close>.
\<close>

section \<open>Responses\<close>

record nodeResponse =
  pID :: string
  pNodeNum :: u32
  pNodeType :: string
  pName :: string
  pShortName :: string
  pHWModel :: string
  pMacAddr :: string
  pRole :: string
  pIsLicensed :: bool
  pFirmwareVersion :: string
  pLat :: float64
  pLon :: float64
  pAltitude :: float64
  pBatteryLevel :: u32
  pVoltage :: float32
  pChannelUtilization :: float32
  pAirUtilTx :: float32
  pUptimeSeconds :: u32
  pHumidity :: float32
  pPressure :: float32
  pSatsInView :: u32
  pTemperature :: float64
  pTemperatureC :: float64
  pTemperatureF :: float64
  pTemperatureUpdatedAt :: "int option"
  pTelemetryUpdatedAt :: "int option"
  pSNR :: float32
  pRSSI :: "32 word"
  pTs :: "int option"
  pLastHeard :: "int option"
  pLastSeen :: "int option"
  pIsOnline :: bool
  pIsLocal :: bool
  pSiteID :: string
  pOriginSiteID :: string
  pSiteName :: string
  pSiteColor :: string
  pSiteCountry :: string
  pSiteCity :: string
  pLastMessage :: string
  pSensorShortID :: string
  pSensorLineage :: string

record SiteInfo =
  siteName :: string
  siteColor :: string
  siteCountry :: string
  siteCity :: string

text \<open>The bodies; \<open>EmptyBody\<close> is what remains of a response that cannot be encoded.\<close>

datatype node_body =
    NodesBody "nodeResponse list"
  | NodeBody nodeResponse
  | EmptyList
  | StatusBody string
  | InvalidNodeID string
  | NodeNotFound string
  | ErrorBody string
  | EmptyBody

definition response_marshals :: "nodeResponse \<Rightarrow> bool" where
  "response_marshals r \<longleftrightarrow>
     list_all is_finite [pLat r, pLon r, pAltitude r, pTemperature r, pTemperatureC r, pTemperatureF r] \<and>
     list_all finite32 [pVoltage r, pChannelUtilization r, pAirUtilTx r, pHumidity r, pPressure r, pSNR r]"

fun body_marshals :: "node_body \<Rightarrow> bool" where
  "body_marshals (NodesBody rs) = list_all response_marshals rs"
| "body_marshals (NodeBody r) = response_marshals r"
| "body_marshals _ = True"

text \<open>The status is written first; an encoding error is ignored.\<close>

definition writeJSON :: "nat \<Rightarrow> node_body \<Rightarrow> nat \<times> node_body" where
  "writeJSON status body = (status, if body_marshals body then body else EmptyBody)"

section \<open>Conversion\<close>

definition sensorLineageFromShortID :: "string \<Rightarrow> string" where
  "sensorLineageFromShortID shortID =
     (if length shortID < 2 then []
      else (let p = ToUpper (take 2 shortID) in if p = ''HB'' then ''halberd'' else if p = ''AH'' then ''antihunter'' else []))"

definition mapNodeToResponse :: "Node \<Rightarrow> nodeResponse" where
  "mapNodeToResponse n =
     (let ts = (if nLastHeard n \<noteq> zero_time then Some (nLastHeard n) else None);
          id = (if nNodeID n = [] then hexID (nNodeNum n) else nNodeID n);
          name = (if nLongName n = [] \<and> nSensorShortID n \<noteq> [] then nSensorShortID n else nLongName n);
          shortName = (if nShortName n = [] \<and> nSensorShortID n \<noteq> [] then nSensorShortID n else nShortName n)
      in \<lparr>pID = id, pNodeNum = nNodeNum n, pNodeType = nNodeType n, pName = name, pShortName = shortName, pHWModel = nHWModel n,
          pMacAddr = nMacAddr n, pRole = nRole n, pIsLicensed = nIsLicensed n, pFirmwareVersion = nFirmwareVersion n,
          pLat = nLatitude n, pLon = nLongitude n, pAltitude = nAltitude n, pBatteryLevel = nBatteryLevel n, pVoltage = nVoltage n,
          pChannelUtilization = nChannelUtilization n, pAirUtilTx = nAirUtilTx n, pUptimeSeconds = nUptimeSeconds n,
          pHumidity = nHumidity n, pPressure = nPressure n, pSatsInView = nSatsInView n, pTemperature = nTemperature n,
          pTemperatureC = nTemperatureC n, pTemperatureF = nTemperatureF n, pTemperatureUpdatedAt = nTemperatureUpdatedAt n,
          pTelemetryUpdatedAt = nTelemetryUpdatedAt n, pSNR = nSNR n, pRSSI = nRSSI n, pTs = ts, pLastHeard = ts, pLastSeen = ts,
          pIsOnline = nIsOnline n, pIsLocal = nIsLocal n, pSiteID = nSiteID n, pOriginSiteID = nOriginSiteID n,
          pSiteName = [], pSiteColor = [], pSiteCountry = [], pSiteCity = [], pLastMessage = nLastMessage n,
          pSensorShortID = nSensorShortID n, pSensorLineage = sensorLineageFromShortID (nSensorShortID n)\<rparr>)"

definition mapNodesToResponse :: "Node list \<Rightarrow> nodeResponse list" where
  "mapNodesToResponse ns = map mapNodeToResponse ns"

definition enrichNodeWithSite :: "(string \<Rightarrow> SiteInfo option) \<Rightarrow> nodeResponse \<Rightarrow> nodeResponse" where
  "enrichNodeWithSite sites r =
     (if pSiteID r = [] then r
      else (case sites (pSiteID r) of
          None \<Rightarrow> r
        | Some site \<Rightarrow> r\<lparr>pSiteName := siteName site, pSiteColor := siteColor site, pSiteCountry := siteCountry site, pSiteCity := siteCity site\<rparr>))"

section \<open>Handlers\<close>

definition handleListNodes :: "(string \<Rightarrow> SiteInfo option) \<Rightarrow> int \<Rightarrow> node_service \<Rightarrow> (nat \<times> node_body) \<times> node_service" where
  "handleListNodes sites t s =
     (let (all, s) = GetAll t s in (writeJSON 200 (NodesBody (map (enrichNodeWithSite sites) (mapNodesToResponse all))), s))"

definition handleGetNode :: "(string \<Rightarrow> SiteInfo option) \<Rightarrow> string \<Rightarrow> node_service \<Rightarrow> nat \<times> node_body" where
  "handleGetNode sites path s =
     (case ParseUint32 10 path of
        None \<Rightarrow> writeJSON 400 (InvalidNodeID path)
      | Some num \<Rightarrow>
         (case GetByNodeNum s num of
            None \<Rightarrow> writeJSON 404 (NodeNotFound path)
          | Some n \<Rightarrow> writeJSON 200 (NodeBody (enrichNodeWithSite sites (mapNodeToResponse n)))))"

definition handleGetNodePositions :: "string \<Rightarrow> nat \<times> node_body" where
  "handleGetNodePositions path = writeJSON 200 EmptyList"

definition handleClearNodes :: "pg \<Rightarrow> string \<Rightarrow> node_service \<Rightarrow> (nat \<times> node_body) \<times> node_service" where
  "handleClearNodes db err s =
     (let (cleared, s) = ClearAll db s
      in (if cleared then writeJSON 200 (StatusBody ''ok'') else writeJSON 500 (ErrorBody (''failed to clear nodes: '' @ err)), s))"

definition handleDeleteNode :: "string \<Rightarrow> node_service \<Rightarrow> (nat \<times> node_body) \<times> node_service" where
  "handleDeleteNode path s =
     (case ParseUint32 10 path of
        None \<Rightarrow> (writeJSON 400 (ErrorBody ''invalid node number''), s)
      | Some num \<Rightarrow> (writeJSON 200 (StatusBody ''ok''), Remove num s))"

text \<open>The body is the \<open>longName\<close> of the JSON object, \<open>None\<close> for a body that does not decode.\<close>

definition handleUpdateNode ::
    "(string \<Rightarrow> SiteInfo option) \<Rightarrow> string \<Rightarrow> string option \<Rightarrow> node_service \<Rightarrow> (nat \<times> node_body) \<times> node_service" where
  "handleUpdateNode sites path body s =
     (case ParseUint32 10 path of
        None \<Rightarrow> (writeJSON 400 (InvalidNodeID path), s)
      | Some num \<Rightarrow>
         (case GetByNodeNum s num of
            None \<Rightarrow> (writeJSON 404 (NodeNotFound path), s)
          | Some _ \<Rightarrow>
             (case body of
                None \<Rightarrow> (writeJSON 400 (ErrorBody ''invalid JSON body''), s)
              | Some longName \<Rightarrow>
                 (let (r, s) = (if longName \<noteq> [] then UpdateLongName num longName s else (Inr (), s))
                  in case r of
                       Inl _ \<Rightarrow> (writeJSON 500 (ErrorBody ''failed to update node''), s)
                     | Inr _ \<Rightarrow>
                        (case GetByNodeNum s num of
                           None \<Rightarrow> (writeJSON 200 (StatusBody ''updated''), s)
                         | Some n \<Rightarrow> (writeJSON 200 (NodeBody (enrichNodeWithSite sites (mapNodeToResponse n))), s))))))"

text \<open>The node identifier of a probe event; \<open>nodesSvc\<close> is there.\<close>

definition canonicalProbeNode :: "string \<Rightarrow> node_service \<Rightarrow> string" where
  "canonicalProbeNode nodeID s =
     (case nodeID of
        [] \<Rightarrow> nodeID
      | c # rest \<Rightarrow>
         if c \<noteq> CHR ''!'' then nodeID
         else (case ParseUint32 16 rest of
             None \<Rightarrow> nodeID
           | Some num \<Rightarrow>
              (case GetByNodeNum s num of
                 None \<Rightarrow> nodeID
               | Some n \<Rightarrow> if nSensorShortID n = [] then nodeID else nSensorShortID n)))"

section \<open>One node hides all\<close>

lemma response_marshals_node: "response_marshals (enrichNodeWithSite sites (mapNodeToResponse n)) = node_marshals n"
  by (simp add: enrichNodeWithSite_def mapNodeToResponse_def response_marshals_def node_marshals_def Let_def split: option.splits)

lemma node_list:
  assumes "registry_wf s"
  shows "fst (handleListNodes sites t s) = (200, if \<exists>num n. GetByNodeNum s num = Some n \<and> \<not> node_marshals n then EmptyBody
      else NodesBody (map (enrichNodeWithSite sites) (mapNodesToResponse (fst (GetAll t s)))))"
proof -
  have "(\<exists>n \<in> set (fst (GetAll t s)). \<not> node_marshals n) \<longleftrightarrow> (\<exists>num n. GetByNodeNum s num = Some n \<and> \<not> node_marshals n)"
  proof -
    have mem: "n \<in> set (fst (GetAll t s)) \<longleftrightarrow> (\<exists>m. GetByNodeNum s (nNodeNum n) = Some m \<and> n = m\<lparr>nIsOnline := isNodeOnline t m\<rparr>)" for n
      using GetAll_members [OF assms] by blast
    have flag: "node_marshals (m\<lparr>nIsOnline := b\<rparr>) = node_marshals m" for m b by (simp add: node_marshals_def)
    show ?thesis
    proof
      assume "\<exists>num n. GetByNodeNum s num = Some n \<and> \<not> node_marshals n"
      then obtain num n where n: "GetByNodeNum s num = Some n" "\<not> node_marshals n" by blast
      then have "nNodeNum n = num" using assms by (auto simp: GetByNodeNum_def)
      with n have "n\<lparr>nIsOnline := isNodeOnline t n\<rparr> \<in> set (fst (GetAll t s))" by (simp add: mem)
      with n(2) flag show "\<exists>n \<in> set (fst (GetAll t s)). \<not> node_marshals n" by blast
    qed (auto simp: mem flag, blast)
  qed
  then show ?thesis
    by (auto simp: handleListNodes_def writeJSON_def split_def list_all_iff mapNodesToResponse_def response_marshals_node Let_def)
qed

text \<open>The list of nodes is delivered if and only if every registered node has finite measurements: a single node with a
  NaN or an infinity leaves the clients with status 200 and an empty body instead of the other nodes.\<close>

theorem node_list_delivered:
  assumes "registry_wf s"
  shows "fst (handleListNodes sites t s) = (200, if \<exists>num n. GetByNodeNum s num = Some n \<and> \<not> node_marshals n then EmptyBody
      else NodesBody (map (enrichNodeWithSite sites) (mapNodesToResponse (fst (GetAll t s)))))"
  using assms by (rule node_list)

text \<open>One telemetry packet is enough: after a report with a voltage that is NaN or infinite from any mesh node, the list of
  nodes is empty whatever else is registered, and no update of this node reaches the web clients.\<close>

theorem poisoned_telemetry:
  assumes "registry_wf s" "\<not> finite32 (Voltage m)"
  shows "fst (handleListNodes sites t' (HandleTelemetry t num m s)) = (200, EmptyBody) \<and>
    nodeEvents (HandleTelemetry t num m s) = nodeEvents s"
proof -
  obtain a s1 where e: "ensure num s = (a, s1)" by fastforce
  have a: "a < length (nodeHeap s1)" "node_ptr s1 num = Some a" using ensure_cases(2,3) [OF assms(1) e] by simp_all
  have ev: "nodeEvents s1 = nodeEvents s" using e by (auto simp: ensure_def add_node_def split: option.splits)
  define s2 where "s2 = set_node a (\<lambda>n. (put_metrics m n)\<lparr>nUptimeSeconds := UptimeSeconds m, nLastHeard := t, nIsOnline := True,
    nTelemetryUpdatedAt := Some t\<rparr>) s1"
  have s: "HandleTelemetry t num m s = publish a s2" by (simp add: HandleTelemetry_def e s2_def)
  have "nVoltage (node_at s2 a) = Voltage m" using a(1) by (simp add: s2_def put_metrics_def)
  then have bad: "\<not> node_marshals (node_at s2 a)" using assms(2) by (simp add: node_marshals_def)
  moreover have "GetByNodeNum (publish a s2) num = Some (node_at s2 a)" using a(2) by (simp add: s2_def GetByNodeNum_def)
  ultimately have "fst (handleListNodes sites t' (publish a s2)) = (200, EmptyBody)"
    using node_list [OF wf_operations(5) [OF assms(1), of t num m], unfolded s] by auto
  moreover have "nodeEvents (publish a s2) = nodeEvents s" using bad ev by (simp add: publish_def BroadcastNode_def s2_def)
  ultimately show ?thesis unfolding s by blast
qed

lemma reg0_map: "nodeMap reg0 = [(7, 0)]"
  by (simp add: reg0_eval)

lemma reg0_marshals: "node_marshals (node_at reg0 0)"
  by (simp add: reg0_eval)

text \<open>The bits of a NaN as a radio may send them.\<close>

end
