(* ===== verification/NodeWiring.thy ===== *)
theory NodeWiring
  imports NodeAPI Dispatcher Encode
begin

text \<open>
  The dispatcher and the node registry together: the main program sets the registry as the
  dispatcher's \<open>NodeHandler\<close>, so that each call of the dispatcher changes it. The locale
  \<open>node_handler\<close> is the interface: an invariant every call keeps, and calls that touch one node only.
\<close>

section \<open>Calls of the dispatcher\<close>

definition node_call :: "int \<Rightarrow> effect \<Rightarrow> node_service \<Rightarrow> node_service" where
  "node_call t e s =
     (case e of
        effect.TouchNode num snr rssi \<Rightarrow> Nodes.TouchNode t num snr rssi s
      | effect.ClassifyNode num ty \<Rightarrow> Nodes.ClassifyNode num ty s
      | effect.MarkLocal num \<Rightarrow> Nodes.MarkLocal num s
      | effect.SetFirmwareVersion num fw \<Rightarrow> Nodes.SetFirmwareVersion num fw s
      | effect.SetLastMessage num msg \<Rightarrow> Nodes.SetLastMessage t num msg s
      | effect.SetSensorShortID num sid \<Rightarrow> Nodes.SetSensorShortID num sid s
      | effect.HandleNodeInfo info \<Rightarrow> Nodes.HandleNodeInfo t info s
      | effect.HandleTelemetry num m \<Rightarrow> Nodes.HandleTelemetry t num m s
      | effect.HandleEnvironment num m \<Rightarrow> Nodes.HandleEnvironment t num m s
      | effect.HandlePosition num p \<Rightarrow> Nodes.HandlePosition t num p s
      | _ \<Rightarrow> s)"

fun call_target :: "effect \<Rightarrow> u32 option" where
  "call_target (effect.TouchNode num snr rssi) = Some num"
| "call_target (effect.ClassifyNode num ty) = Some num"
| "call_target (effect.MarkLocal num) = Some num"
| "call_target (effect.SetFirmwareVersion num fw) = Some num"
| "call_target (effect.SetLastMessage num msg) = Some num"
| "call_target (effect.SetSensorShortID num sid) = Some num"
| "call_target (effect.HandleNodeInfo info) = Some (NodeNum info)"
| "call_target (effect.HandleTelemetry num m) = Some num"
| "call_target (effect.HandleEnvironment num m) = Some num"
| "call_target (effect.HandlePosition num p) = Some num"
| "call_target _ = None"

locale node_handler =
  fixes handle :: "effect \<Rightarrow> 's \<Rightarrow> 's" and inv :: "'s \<Rightarrow> bool" and view :: "'s \<Rightarrow> u32 \<Rightarrow> Node option"
  assumes keeps: "inv s \<Longrightarrow> inv (handle e s)"
    and locality: "inv s \<Longrightarrow> call_target e \<noteq> Some num \<Longrightarrow> view (handle e s) num = view s num"
begin

lemma keeps_all: "inv s \<Longrightarrow> inv (fold handle es s)"
  by (induction es arbitrary: s) (auto simp: keeps)

lemma local_all: "inv s \<Longrightarrow> \<forall>e\<in>set es. call_target e \<noteq> Some num \<Longrightarrow> view (fold handle es s) num = view s num"
  by (induction es arbitrary: s) (auto simp: keeps locality)

end

section \<open>The registry as handler\<close>

lemma view_set:
  assumes "registry_wf s" "node_ptr s num = Some a"
  shows "GetByNodeNum (set_node a f s) k = (if k = num then Some (f (node_at s a)) else GetByNodeNum s k)"
proof (cases "node_ptr s k")
  case (Some b)
  then have "a = b \<longleftrightarrow> k = num" using assms wf_ptr(2) by (metis option.inject)
  then show ?thesis using Some assms(2) wf_ptr(1) [OF assms] by (auto simp: GetByNodeNum_def)
qed (use assms(2) in \<open>auto simp: GetByNodeNum_def\<close>)

lemma view_add: "registry_wf s \<Longrightarrow> GetByNodeNum (snd (add_node num n s)) k = (if k = num then Some n else GetByNodeNum s k)"
  by (auto simp: GetByNodeNum_def node_at_def nth_append intro!: option.map_cong dest: wf_ptr)

lemma view_same [simp]:
  "GetByNodeNum (publish a s) = GetByNodeNum s" "GetByNodeNum (go_task k s) = GetByNodeNum s" "GetByNodeNum (BroadcastNode ev s) = GetByNodeNum s"
  by (simp_all add: GetByNodeNum_def fun_eq_iff)

lemma view_ensure:
  assumes "registry_wf s" "ensure num s = (a, s')"
  shows "GetByNodeNum (set_node a f s') k =
    (if k = num then Some (f (given_or (Node0\<lparr>nNodeNum := num\<rparr>) (GetByNodeNum s num))) else GetByNodeNum s k)"
proof -
  note e = ensure_cases [OF assms]
  have "GetByNodeNum s' k = GetByNodeNum s k" if "k \<noteq> num"
    using that e(3,8) wf_ptr(1) [OF assms(1)] by (auto simp: GetByNodeNum_def intro!: option.map_cong)
  then show ?thesis using view_set [OF e(1), of num a f k] e(3,4) by simp
qed

lemma view_touch:
  assumes "registry_wf s"
  shows "GetByNodeNum (Nodes.TouchNode t num snr rssi s) k =
    (if k = num then Some ((given_or (Node0\<lparr>nNodeNum := num, nNodeID := hexID num\<rparr>) (GetByNodeNum s num))
       \<lparr>nSNR := snr, nRSSI := rssi, nLastHeard := t, nIsOnline := True\<rparr>) else GetByNodeNum s k)"
proof (cases "node_ptr s num")
  case None
  let ?n = "Node0\<lparr>nNodeNum := num, nNodeID := hexID num, nIsOnline := True\<rparr>"
  let ?s = "BroadcastNode (EventNodeUpdate ?n) (snd (add_node num ?n s))"
  have "registry_wf ?s" using assms by (intro wf_broadcast wf_add) simp_all
  then have "GetByNodeNum (set_node (length (nodeHeap s)) f ?s) k = (if k = num then Some (f ?n) else GetByNodeNum s k)" for f
    using view_set [of ?s num "length (nodeHeap s)" f k] assms by (simp add: view_add node_at_def)
  moreover have "GetByNodeNum s num = None" using None by (simp add: GetByNodeNum_def)
  ultimately show ?thesis unfolding TouchNode_new [OF None] Let_def by (simp add: given_or_def)
next
  case (Some a)
  then show ?thesis using view_set [OF assms Some] by (simp add: Nodes.TouchNode_def given_or_def GetByNodeNum_def)
qed

lemma view_calls:
  assumes "registry_wf s" "call_target e \<noteq> Some k"
  shows "GetByNodeNum (node_call t e s) k = GetByNodeNum s k"
proof -
  have ens: "GetByNodeNum (case ensure num s of (a, s') \<Rightarrow> g a (set_node a f s')) k = GetByNodeNum s k"
    if "k \<noteq> num" "\<And>a s'. GetByNodeNum (g a s') = GetByNodeNum s'" for num f and g :: "nat \<Rightarrow> node_service \<Rightarrow> node_service"
    using view_ensure [OF assms(1)] that by (auto split: prod.splits)
  have ptr: "GetByNodeNum (set_node a f s) k = GetByNodeNum s k" if "k \<noteq> num" "node_ptr s num = Some a" for num a f
    using view_set [OF assms(1) that(2)] that(1) by simp
  have "GetByNodeNum (Nodes.SetSensorShortID num sid s) k = GetByNodeNum s k" if "k \<noteq> num" for num sid
  proof -
    obtain a s1 where e: "ensure num s = (a, s1)" by fastforce
    have "GetByNodeNum s1 k = GetByNodeNum s k"
      using view_ensure [OF assms(1) e, of "\<lambda>n. n" k] that ensure_cases(1-3) [OF assms(1) e] by (simp add: set_node_def node_at_def)
    with that show ?thesis using view_ensure [OF assms(1) e, of _ k] by (simp add: Nodes.SetSensorShortID_def e)
  qed
  with assms show ?thesis
    by (cases e)
      (auto simp: node_call_def view_touch Nodes.ClassifyNode_def Nodes.MarkLocal_def Nodes.SetFirmwareVersion_def
        Nodes.SetLastMessage_def Nodes.HandleNodeInfo_def Nodes.HandleTelemetry_def Nodes.HandleEnvironment_def Nodes.HandlePosition_def
        Let_def intro!: ens ptr split: option.splits)
qed

lemma node_call_step: "node_call t e s = s \<or> node_step s (node_call t e s)"
  by (cases e) (auto simp: node_call_def intro: node_step.intros)

lemma node_call_wf: "registry_wf s \<Longrightarrow> registry_wf (node_call t e s)"
  using node_call_step [of t e s] registry_run [of s "node_call t e s"] by auto

interpretation registry: node_handler "node_call t" registry_wf GetByNodeNum
  by unfold_locales (auto simp: node_call_wf view_calls)

section \<open>From a packet to the registry\<close>

lemma fresh_packet:
  assumes "\<not> fst (isDuplicate d t mp)" "nodeHandler d" "\<And>d'. nodeHandler d' \<Longrightarrow> \<exists>d''. route_packet d' mp = Some (Ret (d'', f d'))"
  obtains d' d'' before where "nodeHandler d'" "handleMeshPacket d t lname mp = Some (Ret (d'', before @ f d'))"
    "\<forall>e\<in>set before. call_target e \<in> {None, Some (From mp)}"
proof -
  obtain d' where d': "isDuplicate d t mp = (False, d')" "nodeHandler d'"
    using assms(1,2) isDuplicate_state(1) [of d t mp] by (cases "isDuplicate d t mp") auto
  obtain d'' where "route_packet d' mp = Some (Ret (d'', f d'))" using assms(3) [OF d'(2)] by blast
  define before where "before = only_if (strandedHook d' \<and> From mp \<noteq> 0 \<and> From mp \<noteq> localNodeNum d')
       [ObserveInboundPacket (From mp) (ucast (Channel mp)) (PortNum mp)] @
     only_if (nodeHandler d' \<and> From mp \<noteq> 0) (effect.TouchNode (From mp) (RxSNR mp) (RxRSSI mp) # classify_effects (lname (From mp)) mp)"
  show thesis
  proof (rule that [OF d'(2)])
    show "handleMeshPacket d t lname mp = Some (Ret (d'', before @ f d'))"
      using d' \<open>route_packet d' mp = _\<close> by (simp add: handleMeshPacket_def before_def)
    show "\<forall>e\<in>set before. call_target e \<in> {None, Some (From mp)}"
      by (auto simp: before_def only_if_def classify_effects_def)
  qed
qed

lemma others_untouched:
  assumes "registry_wf s" "\<forall>e\<in>set es. call_target e \<in> {None, Some num}" "k \<noteq> num"
  shows "GetByNodeNum (fold (node_call t) es s) k = GetByNodeNum s k"
  using registry.local_all [OF assms(1), of es k t] assms(2,3) by fastforce

text \<open>C4: A position packet that is not a rebroadcast reaches the registry: after the calls the dispatcher makes for it the
  sender is registered, online and last heard now, at the coordinates of the packet, and no other node has changed.\<close>

theorem position_is_registered:
  assumes "registry_wf s" "\<not> fst (isDuplicate d t mp)" "nodeHandler d" "PortNum mp = mesh_PortNumPosition" "Payload mp \<noteq> []"
    "decodePositionPayload (Payload mp) = Some (Ret pos)"
  shows "\<exists>d' es n. handleMeshPacket d t (GetLongName s) mp = Some (Ret (d', es)) \<and>
    GetByNodeNum (fold (node_call t) es s) (From mp) = Some n \<and> nLatitude n = coordinate (LatitudeI pos) \<and>
    nLongitude n = coordinate (LongitudeI pos) \<and> nAltitude n = float_of_int (sint (Altitude pos)) \<and> nLastHeard n = t \<and> nIsOnline n \<and>
    (\<forall>k. k = From mp \<or> GetByNodeNum (fold (node_call t) es s) k = GetByNodeNum s k)"
proof -
  have "\<exists>d''. route_packet d' mp = Some (Ret (d'', position_effects d' mp pos))" if "nodeHandler d'" for d'
    using assms(4-6) that by (simp add: route_packet_def mesh_PortNumPosition_def mesh_PortNumTextMessage_def Let_def)
  from fresh_packet [OF assms(2,3) this] obtain d' d'' before where
    es: "handleMeshPacket d t (GetLongName s) mp = Some (Ret (d'', before @ position_effects d' mp pos))"
    and before: "\<forall>e\<in>set before. call_target e \<in> {None, Some (From mp)}" by metis
  define rest where "rest = tl (position_effects d' mp pos)"
  have eff: "position_effects d' mp pos = effect.HandlePosition (From mp) pos # rest" "\<forall>e\<in>set rest. call_target e = None"
    by (auto simp: rest_def position_effects_def only_if_def)
  define s1 s2 where "s1 = fold (node_call t) before s" and "s2 = node_call t (effect.HandlePosition (From mp) pos) s1"
  have wf: "registry_wf s1" "registry_wf s2" using assms(1) registry.keeps_all node_call_wf by (simp_all add: s1_def s2_def)
  have final: "fold (node_call t) (before @ position_effects d' mp pos) s = fold (node_call t) rest s2" by (simp add: eff s1_def s2_def)
  obtain a s' where e: "ensure (From mp) s1 = (a, s')" by fastforce
  have "\<exists>n. GetByNodeNum s2 (From mp) = Some n \<and> nLatitude n = coordinate (LatitudeI pos) \<and> nLongitude n = coordinate (LongitudeI pos) \<and>
      nAltitude n = float_of_int (sint (Altitude pos)) \<and> nLastHeard n = t \<and> nIsOnline n"
    using view_ensure [OF wf(1) e, of _ "From mp"]
    by (simp add: s2_def node_call_def Nodes.HandlePosition_def e Let_def) (simp add: put_position_def Let_def)
  moreover have "GetByNodeNum (fold (node_call t) rest s2) (From mp) = GetByNodeNum s2 (From mp)"
    using registry.local_all [OF wf(2), of rest "From mp" t] eff(2) by simp
  moreover have "GetByNodeNum (fold (node_call t) (before @ position_effects d' mp pos) s) k = GetByNodeNum s k" if "k \<noteq> From mp" for k
    using others_untouched [OF assms(1) _ that, of "before @ position_effects d' mp pos" t] before eff by auto
  ultimately show ?thesis using es final by metis
qed

lemma poisoned_node:
  assumes "registry_wf s" "GetByNodeNum s num = Some n" "\<not> node_marshals n"
  shows "fst (handleListNodes sites t s) = (200, EmptyBody)"
  using node_list [OF assms(1)] assms(2,3) by auto

text \<open>C5: One packet of any mesh node empties the node list for everybody: after a telemetry packet that is not a rebroadcast and
  whose voltage is infinite or not a number, the clients get status 200 with an empty body instead of the list.\<close>

theorem one_packet_empties_the_list:
  assumes "registry_wf s" "\<not> fst (isDuplicate d t mp)" "nodeHandler d" "PortNum mp = mesh_PortNumTelemetry" "Payload mp \<noteq> []"
    "decodeTelemetryPayload (Payload mp) = Some (Ret (Some m, em))" "\<not> finite32 (Voltage m)"
  shows "\<exists>d' es. handleMeshPacket d t (GetLongName s) mp = Some (Ret (d', es)) \<and>
    fst (handleListNodes sites t' (fold (node_call t) es s)) = (200, EmptyBody)"
proof -
  let ?eff = "\<lambda>d'. telemetry_effects d' mp (Some m, em)"
  have "\<exists>d''. route_packet d' mp = Some (Ret (d'', ?eff d'))" if "nodeHandler d'" for d'
    using assms(4-6) by (simp add: route_packet_def mesh_PortNumTelemetry_def mesh_PortNumPosition_def mesh_PortNumTextMessage_def Let_def)
  from fresh_packet [OF assms(2,3) this] obtain d' d'' before where d': "nodeHandler d'"
    and es: "handleMeshPacket d t (GetLongName s) mp = Some (Ret (d'', before @ ?eff d'))" by metis
  define s1 s2 where "s1 = fold (node_call t) before s" and "s2 = Nodes.HandleTelemetry t (From mp) m s1"
  have wf: "registry_wf s1" "registry_wf s2" using assms(1) registry.keeps_all by (auto simp: s1_def s2_def)
  have final: "fold (node_call t) (before @ ?eff d') s =
      (case em of Some m' \<Rightarrow> Nodes.HandleEnvironment t (From mp) m' s2 | None \<Rightarrow> s2)" (is "_ = ?s3")
    using d' by (simp add: telemetry_effects_def only_if_def node_call_def s1_def s2_def split: option.splits)
  obtain a s' where e: "ensure (From mp) s1 = (a, s')" by fastforce
  have "\<exists>n. GetByNodeNum s2 (From mp) = Some n \<and> nVoltage n = Voltage m"
    using view_ensure [OF wf(1) e, of _ "From mp"] by (simp add: s2_def Nodes.HandleTelemetry_def e put_metrics_def)
  moreover obtain b s'' where e2: "ensure (From mp) s2 = (b, s'')" by fastforce
  ultimately have "\<exists>n. GetByNodeNum ?s3 (From mp) = Some n \<and> nVoltage n = Voltage m"
    using view_ensure [OF wf(2) e2, of _ "From mp"]
    by (cases em) (auto simp: Nodes.HandleEnvironment_def e2 Let_def given_or_def)
  then have "\<exists>n. GetByNodeNum ?s3 (From mp) = Some n \<and> \<not> node_marshals n" using assms(7) by (auto simp: node_marshals_def)
  moreover have "registry_wf ?s3" using wf(2) by (auto split: option.splits)
  ultimately show ?thesis using es final poisoned_node by metis
qed

section \<open>Examples\<close>

definition wired :: Dispatcher where "wired = NewDispatcher\<lparr>nodeHandler := True\<rparr>"

definition packet9 :: "u32 \<Rightarrow> byte list \<Rightarrow> MeshPacketData" where
  "packet9 port payload = MeshPacketData0\<lparr>From := 9, PacketID := 77, PortNum := port, Payload := payload\<rparr>"

lemma packet9_fields [simp]: "Payload (packet9 port p) = p" "PortNum (packet9 port p) = port" "From (packet9 port p) = 9"
  by (simp_all add: packet9_def)

lemma wired_fresh: "\<not> fst (isDuplicate wired t (packet9 port payload))" "nodeHandler wired"
  by (simp_all add: isDuplicate_state dedup_check_def Let_def wired_def NewDispatcher_def)

theorem position_is_registered_witness:
  "\<exists>d' es n. handleMeshPacket wired 50 (GetLongName reg0) (packet9 mesh_PortNumPosition (position_msg 5 6 7)) = Some (Ret (d', es)) \<and>
    GetByNodeNum (fold (node_call 50) es reg0) 9 = Some n \<and> nLatitude n = coordinate 5 \<and> nAltitude n = Fin 7"
proof -
  have pay: "position_msg 5 6 7 \<noteq> []" by (simp add: position_msg_def encodeSFixed32Field_def encodeFixed32Field_def encodeFixed32_def)
  show ?thesis
    using position_is_registered [OF reg0_wf wired_fresh(1) [of 50 mesh_PortNumPosition "position_msg 5 6 7"] wired_fresh(2)] pay
    by (simp add: decodePosition_build float_of_int_def) blast
qed

theorem one_packet_empties_the_list_witness:
  "\<exists>d' es. handleMeshPacket wired 50 (GetLongName reg0) (packet9 mesh_PortNumTelemetry (encodeLengthDelimited 2 (device_metrics_msg 50 0x7F800000)))
      = Some (Ret (d', es)) \<and> fst (handleListNodes (\<lambda>_. None) 51 (fold (node_call 50) es reg0)) = (200, EmptyBody)"
proof -
  let ?p = "encodeLengthDelimited 2 (device_metrics_msg 50 0x7F800000)"
  have "?p \<noteq> []" by (simp add: device_metrics_msg_def encodeVarintField_def encodeLengthDelimited_def)
  moreover have "\<not> finite32 (Voltage (sent_metrics 50 0x7F800000))"
    by (simp add: sent_metrics_def float32_gt0_def finite32_def is_finite_def widen_def Let_def)
  ultimately show ?thesis
    using one_packet_empties_the_list [OF reg0_wf wired_fresh(1) [of 50 mesh_PortNumTelemetry ?p] wired_fresh(2)]
    by (simp add: decodeTelemetry_build)
qed

end
