(* ===== verification/Auth.thy ===== *)
theory Auth
  imports GoStrings "HOL-Library.State_Monad"
begin

text \<open>
  Authentication: \<open>internal/auth/auth.go\<close> and \<open>middleware.go\<close>, the user service
  \<open>internal/users/service.go\<close>, feature permissions \<open>internal/permissions/permissions.go\<close> and the audit
  log \<open>internal/audit/service.go\<close>, over the tables of their database as lists of rows.

  Outside the program are the argument \<open>auth_env\<close>: which statements the database executes, the
  clock, which strings it takes as a UUID and which it hands out, and the libraries for bcrypt,
  JWT, TOTP and random bytes. Statements and readings of the clock are numbered by \<open>stmts\<close>;
  \<open>scanGoesOn\<close> says whether the driver still delivers rows after one that could not be scanned.
\<close>

section \<open>Tables\<close>

definition RoleAdmin :: string where "RoleAdmin = ''ADMIN''"
definition RoleOperator :: string where "RoleOperator = ''OPERATOR''"
definition RoleAnalyst :: string where "RoleAnalyst = ''ANALYST''"
definition RoleViewer :: string where "RoleViewer = ''VIEWER''"

text \<open>The enumeration type \<open>user_role\<close> of the schema.\<close>

definition user_role :: "string list" where
  "user_role = [RoleAdmin, RoleOperator, RoleAnalyst, RoleViewer]"

record user_row =
  uID :: string
  uEmail :: string
  uHash :: string
  uName :: "string option"
  uRole :: string
  uTotpSecret :: "string option"
  uTotpEnabled :: bool
  uMustChange :: bool
  uTosAccepted :: bool
  uTosAcceptedAt :: "int option"
  uLastLogin :: "int option"
  uSite :: "string option"
  uCreatedAt :: int
  uFailed :: int
  uLockedAt :: "int option"
  uLockedUntil :: "int option"
  uLastLoginIP :: "string option"
  uRecoveryCodes :: "string list"

record reset_row =
  rsUser :: string
  rsToken :: string
  rsExpiresAt :: int
  rsUsed :: bool

record invitation_row =
  ivID :: string
  ivEmail :: string
  ivRole :: string
  ivToken :: string
  ivExpiresAt :: int
  ivInvitedBy :: string

record audit_row =
  auUser :: "string option"
  auAction :: string
  auResource :: "string option"
  auResourceID :: "string option"
  auIP :: "string option"
  auAt :: int

record auth_world =
  stmts :: nat
  ids :: nat
  users :: "user_row list"
  resets :: "reset_row list"
  permissions :: "(string \<times> string \<times> bool) list"
  siteAccess :: "(string \<times> string \<times> string) list"
  invitations :: "invitation_row list"
  audits :: "audit_row list"

section \<open>Environment\<close>

text \<open>The claims of a token; \<open>ExpiresAt\<close> is there for tokens the service issues.\<close>

record Claims =
  UserID :: string
  Email :: string
  ClaimRole :: string
  ExpiresAt :: int

record auth_env =
  stmt_ok :: "nat \<Rightarrow> bool"
  time_at :: "nat \<Rightarrow> int"
  is_uuid :: "string \<Rightarrow> bool"
  uuid :: "nat \<Rightarrow> string"
  bcryptHash :: "nat \<Rightarrow> string \<Rightarrow> string option"
  bcryptCompare :: "string \<Rightarrow> string \<Rightarrow> bool"
  jwtSign :: "Claims \<Rightarrow> string option"
  jwtParse :: "int \<Rightarrow> string \<Rightarrow> Claims option"
  totpGenerate :: "nat \<Rightarrow> string \<Rightarrow> string option"
  totpValidate :: "int \<Rightarrow> string \<Rightarrow> string \<Rightarrow> bool"
  randRead :: "nat \<Rightarrow> nat \<Rightarrow> byte list option"
  serviceToken :: string
  jwtExpiry :: "int option"
  LockoutThreshold :: int
  LockoutDurationMinutes :: int
  PasswordResetExpiryHours :: int
  InviteExpiryHours :: int
  knownSites :: "string list"
  scanGoesOn :: bool

datatype auth_error = ErrInvalidCredentials | ErrUserNotFound | ErrEmailTaken | ErrInvalidToken | ErrInvalidTOTP | ErrAccountLocked
  | ErrDatabase | ErrLibrary | ErrTwoFactorOff

type_synonym 'a auth = "(auth_world, 'a) state"
type_synonym 'a auth_try = "(auth_world, auth_error + 'a) state"

abbreviation give :: "'a \<Rightarrow> 'a auth" where "give \<equiv> State_Monad.return"
abbreviation succeed :: "'a \<Rightarrow> 'a auth_try" where "succeed x \<equiv> give (Inr x)"
abbreviation err :: "auth_error \<Rightarrow> 'a auth_try" where "err e \<equiv> give (Inl e)"

definition on_ok :: "auth_error + 'a \<Rightarrow> ('a \<Rightarrow> 'b auth_try) \<Rightarrow> 'b auth_try" where
  "on_ok r k = (case r of Inl e \<Rightarrow> err e | Inr x \<Rightarrow> k x)"

text \<open>One statement: it fails, or it is executed with its effect on the tables.\<close>

definition stmt :: "auth_env \<Rightarrow> (int \<Rightarrow> auth_world \<Rightarrow> (auth_error + 'a) \<times> auth_world) \<Rightarrow> 'a auth_try" where
  "stmt e f = State (\<lambda>w. let w' = w\<lparr>stmts := Suc (stmts w)\<rparr> in
     if stmt_ok e (stmts w) then f (time_at e (stmts w)) w' else (Inl ErrDatabase, w'))"

definition select :: "auth_env \<Rightarrow> (auth_world \<Rightarrow> 'a) \<Rightarrow> 'a auth_try" where
  "select e q = stmt e (\<lambda>_ w. (Inr (q w), w))"

text \<open>\<open>time.Now()\<close>, and drawing a number for the libraries that use randomness.\<close>

definition clock :: "auth_env \<Rightarrow> int auth" where
  "clock e = State (\<lambda>w. (time_at e (stmts w), w\<lparr>stmts := Suc (stmts w)\<rparr>))"

definition draw :: "nat auth" where
  "draw = State (\<lambda>w. (stmts w, w\<lparr>stmts := Suc (stmts w)\<rparr>))"

definition minutes :: int where "minutes = 60 * 10 ^ 9"
definition hours :: int where "hours = 60 * minutes"

definition user_by :: "(user_row \<Rightarrow> bool) \<Rightarrow> auth_world \<Rightarrow> user_row option" where
  "user_by p w = find p (users w)"

text \<open>An update of the users with an identifier; one that is no UUID fails the statement.\<close>

definition update_user :: "auth_env \<Rightarrow> string \<Rightarrow> (int \<Rightarrow> user_row \<Rightarrow> user_row) \<Rightarrow> unit auth_try" where
  "update_user e i f = stmt e (\<lambda>t w. if is_uuid e i
     then (Inr (), w\<lparr>users := map (\<lambda>u. if uID u = i then f t u else u) (users w)\<rparr>) else (Inl ErrDatabase, w))"

definition select_user :: "auth_env \<Rightarrow> string \<Rightarrow> user_row option auth_try" where
  "select_user e i = stmt e (\<lambda>_ w. if is_uuid e i then (Inr (user_by (\<lambda>u. uID u = i) w), w) else (Inl ErrDatabase, w))"

text \<open>The loops over the rows of a query, which leave out a row that cannot be scanned.\<close>

definition scan_rows :: "auth_env \<Rightarrow> ('r \<Rightarrow> 'v option) \<Rightarrow> 'r list \<Rightarrow> 'v list" where
  "scan_rows e f rs = List.map_filter f (if scanGoesOn e then rs else takeWhile (\<lambda>r. f r \<noteq> None) rs)"

section \<open>Tokens\<close>

record User =
  usID :: string
  usEmail :: string
  usName :: string
  usRole :: string
  usTOTPEnabled :: bool
  usMustChange :: bool
  usTOSAccepted :: bool
  usLastLogin :: "int option"

definition generateToken :: "auth_env \<Rightarrow> User \<Rightarrow> string auth_try" where
  "generateToken e u = do {
     t \<leftarrow> clock e;
     let expiry = (case jwtExpiry e of Some d \<Rightarrow> d | None \<Rightarrow> 24 * hours);
     (case jwtSign e \<lparr>UserID = usID u, Email = usEmail u, ClaimRole = usRole u, ExpiresAt = t + expiry\<rparr> of
        Some tok \<Rightarrow> succeed tok | None \<Rightarrow> err ErrLibrary) }"

definition ValidateToken :: "auth_env \<Rightarrow> string \<Rightarrow> Claims auth_try" where
  "ValidateToken e tok = do {
     t \<leftarrow> clock e;
     (case jwtParse e t tok of Some c \<Rightarrow> succeed c | None \<Rightarrow> err ErrInvalidToken) }"

section \<open>Service\<close>

definition Login :: "auth_env \<Rightarrow> string \<Rightarrow> string \<Rightarrow> string \<Rightarrow> (string \<times> User) auth_try" where
  "Login e email password clientIP = do {
     q \<leftarrow> select e (user_by (\<lambda>u. uEmail u = email));
     (case q of
        Inr (Some u) \<Rightarrow> do {
          t \<leftarrow> clock e;
          if (case uLockedUntil u of Some until \<Rightarrow> t < until | None \<Rightarrow> False) then err ErrAccountLocked
          else if \<not> bcryptCompare e (uHash u) password then do {
            _ \<leftarrow> update_user e (uID u) (\<lambda>now r.
              let lock = (uFailed r \<ge> LockoutThreshold e) in
              r\<lparr>uFailed := uFailed r + 1, uLockedAt := (if lock then Some now else uLockedAt r),
                uLockedUntil := (if lock then Some (now + LockoutDurationMinutes e * minutes) else uLockedUntil r)\<rparr>);
            err ErrInvalidCredentials }
          else do {
            let user = \<lparr>usID = uID u, usEmail = email, usName = (case uName u of Some n \<Rightarrow> n | None \<Rightarrow> []), usRole = uRole u,
              usTOTPEnabled = uTotpEnabled u, usMustChange = uMustChange u, usTOSAccepted = uTosAccepted u, usLastLogin = uLastLogin u\<rparr>;
            tok \<leftarrow> generateToken e user;
            on_ok tok (\<lambda>tok. do {
              _ \<leftarrow> update_user e (uID u) (\<lambda>now r. r\<lparr>uLastLogin := Some now, uFailed := 0, uLockedAt := None, uLockedUntil := None,
                uLastLoginIP := Some clientIP\<rparr>);
              succeed (tok, user) }) } }
      | _ \<Rightarrow> err ErrInvalidCredentials) }"

text \<open>The name is scanned into a string, which fails for NULL.\<close>

definition GetUser :: "auth_env \<Rightarrow> string \<Rightarrow> User auth_try" where
  "GetUser e userID = do {
     q \<leftarrow> select_user e userID;
     (case q of
        Inr (Some u) \<Rightarrow>
          (case uName u of
             None \<Rightarrow> err ErrUserNotFound
           | Some n \<Rightarrow> succeed \<lparr>usID = userID, usEmail = uEmail u, usName = n, usRole = uRole u, usTOTPEnabled = uTotpEnabled u,
               usMustChange = uMustChange u, usTOSAccepted = uTosAccepted u, usLastLogin = uLastLogin u\<rparr>)
      | _ \<Rightarrow> err ErrUserNotFound) }"

definition new_user :: "string \<Rightarrow> string \<Rightarrow> string \<Rightarrow> string \<Rightarrow> string \<Rightarrow> int \<Rightarrow> user_row" where
  "new_user i email hash name role t = \<lparr>uID = i, uEmail = email, uHash = hash, uName = Some name, uRole = role, uTotpSecret = None,
     uTotpEnabled = False, uMustChange = False, uTosAccepted = False, uTosAcceptedAt = None, uLastLogin = None, uSite = None,
     uCreatedAt = t, uFailed = 0, uLockedAt = None, uLockedUntil = None, uLastLoginIP = None, uRecoveryCodes = []\<rparr>"

text \<open>The insert fails for an address that is taken and for a role that the column type does not have.\<close>

definition insert_user :: "auth_env \<Rightarrow> string \<Rightarrow> string \<Rightarrow> string \<Rightarrow> string \<Rightarrow> string auth_try" where
  "insert_user e email hash name role = stmt e (\<lambda>t w.
     if list_ex (\<lambda>u. uEmail u = email) (users w) \<or> role \<notin> set user_role then (Inl ErrDatabase, w)
     else (let i = uuid e (ids w) in (Inr i, w\<lparr>users := users w @ [new_user i email hash name role t], ids := Suc (ids w)\<rparr>)))"

definition plain_user :: "string \<Rightarrow> string \<Rightarrow> string \<Rightarrow> string \<Rightarrow> User" where
  "plain_user i email name role = \<lparr>usID = i, usEmail = email, usName = name, usRole = role, usTOTPEnabled = False, usMustChange = False,
     usTOSAccepted = False, usLastLogin = None\<rparr>"

text \<open>The error of the count is ignored, and the count is then 0.\<close>

definition Register :: "auth_env \<Rightarrow> string \<Rightarrow> string \<Rightarrow> string \<Rightarrow> User auth_try" where
  "Register e email password name = do {
     q \<leftarrow> select e (\<lambda>w. list_ex (\<lambda>u. uEmail u = email) (users w));
     on_ok q (\<lambda>taken.
       if taken then err ErrEmailTaken
       else do {
         k \<leftarrow> draw;
         (case bcryptHash e k password of
            None \<Rightarrow> err ErrLibrary
          | Some hash \<Rightarrow> do {
              c \<leftarrow> select e (\<lambda>w. length (users w));
              let role = (if (case c of Inr n \<Rightarrow> n = 0 | Inl _ \<Rightarrow> True) then RoleAdmin else RoleViewer);
              r \<leftarrow> insert_user e email hash name role;
              on_ok r (\<lambda>i. succeed (plain_user i email name role)) }) }) }"

definition SetupTOTP :: "auth_env \<Rightarrow> string \<Rightarrow> string auth_try" where
  "SetupTOTP e userID = do {
     q \<leftarrow> select_user e userID;
     (case q of
        Inr (Some u) \<Rightarrow> do {
          k \<leftarrow> draw;
          (case totpGenerate e k (uEmail u) of
             None \<Rightarrow> err ErrLibrary
           | Some secret \<Rightarrow> do {
               r \<leftarrow> update_user e userID (\<lambda>_ x. x\<lparr>uTotpSecret := Some secret\<rparr>);
               on_ok r (\<lambda>_. succeed secret) }) }
      | _ \<Rightarrow> err ErrUserNotFound) }"

text \<open>\<open>ValidateTOTP\<close> and \<open>VerifyTOTP\<close>, which also enables the second factor.\<close>

definition ValidateTOTP :: "auth_env \<Rightarrow> string \<Rightarrow> string \<Rightarrow> unit auth_try" where
  "ValidateTOTP e userID code = do {
     q \<leftarrow> select_user e userID;
     (case q of
        Inr (Some u) \<Rightarrow>
          (case uTotpSecret u of
             None \<Rightarrow> err ErrUserNotFound
           | Some secret \<Rightarrow> do {
               t \<leftarrow> clock e;
               if totpValidate e t code secret then succeed () else err ErrInvalidTOTP })
      | _ \<Rightarrow> err ErrUserNotFound) }"

definition VerifyTOTP :: "auth_env \<Rightarrow> string \<Rightarrow> string \<Rightarrow> unit auth_try" where
  "VerifyTOTP e userID code = do {
     v \<leftarrow> ValidateTOTP e userID code;
     on_ok v (\<lambda>_. update_user e userID (\<lambda>_ x. x\<lparr>uTotpEnabled := True\<rparr>)) }"

definition ResetPassword :: "auth_env \<Rightarrow> string \<Rightarrow> string \<Rightarrow> unit auth_try" where
  "ResetPassword e tok newPassword = do {
     q \<leftarrow> select e (\<lambda>w. find (\<lambda>r. rsToken r = tok \<and> \<not> rsUsed r) (resets w));
     (case q of
        Inr (Some r) \<Rightarrow> do {
          t \<leftarrow> clock e;
          if rsExpiresAt r < t then err ErrInvalidToken
          else do {
            k \<leftarrow> draw;
            (case bcryptHash e k newPassword of
               None \<Rightarrow> err ErrLibrary
             | Some hash \<Rightarrow> do {
                 x \<leftarrow> update_user e (rsUser r) (\<lambda>_ u. u\<lparr>uHash := hash\<rparr>);
                 on_ok x (\<lambda>_. do {
                   _ \<leftarrow> stmt e (\<lambda>_ w. (Inr (), w\<lparr>resets := map (\<lambda>r. if rsToken r = tok then r\<lparr>rsUsed := True\<rparr> else r) (resets w)\<rparr>));
                   succeed () }) }) } }
      | _ \<Rightarrow> err ErrInvalidToken) }"

definition DisableTOTP :: "auth_env \<Rightarrow> string \<Rightarrow> unit auth_try" where
  "DisableTOTP e userID = update_user e userID (\<lambda>_ u. u\<lparr>uTotpEnabled := False, uTotpSecret := None\<rparr>)"

definition VerifyPassword :: "auth_env \<Rightarrow> string \<Rightarrow> string \<Rightarrow> unit auth_try" where
  "VerifyPassword e userID password = do {
     q \<leftarrow> select_user e userID;
     (case q of
        Inr (Some u) \<Rightarrow> if bcryptCompare e (uHash u) password then succeed () else err ErrInvalidCredentials
      | _ \<Rightarrow> err ErrUserNotFound) }"

text \<open>\<open>hex.EncodeToString\<close> of random bytes.\<close>

definition hex_string :: "byte list \<Rightarrow> string" where
  "hex_string bs = concat (map (\<lambda>b. show_hex_lower 2 (unat b)) bs)"

definition random_hex :: "auth_env \<Rightarrow> nat \<Rightarrow> string auth_try" where
  "random_hex e n = do {
     k \<leftarrow> draw;
     (case randRead e k n of None \<Rightarrow> err ErrLibrary | Some bs \<Rightarrow> succeed (hex_string bs)) }"

fun recovery_codes :: "auth_env \<Rightarrow> nat \<Rightarrow> string list auth_try" where
  "recovery_codes e 0 = succeed []"
| "recovery_codes e (Suc n) = do {
     c \<leftarrow> random_hex e 4;
     on_ok c (\<lambda>c. do { cs \<leftarrow> recovery_codes e n; on_ok cs (\<lambda>cs. succeed (c # cs)) }) }"

fun hash_codes :: "auth_env \<Rightarrow> string list \<Rightarrow> string list auth_try" where
  "hash_codes e [] = succeed []"
| "hash_codes e (c # cs) = do {
     k \<leftarrow> draw;
     (case bcryptHash e k c of
        None \<Rightarrow> err ErrLibrary
      | Some h \<Rightarrow> do { hs \<leftarrow> hash_codes e cs; on_ok hs (\<lambda>hs. succeed (h # hs)) }) }"

definition RegenerateRecoveryCodes :: "auth_env \<Rightarrow> string \<Rightarrow> string list auth_try" where
  "RegenerateRecoveryCodes e userID = do {
     q \<leftarrow> select_user e userID;
     (case q of
        Inr (Some u) \<Rightarrow>
          if \<not> uTotpEnabled u then err ErrTwoFactorOff
          else do {
            codes \<leftarrow> recovery_codes e 8;
            on_ok codes (\<lambda>codes. do {
              hashed \<leftarrow> hash_codes e codes;
              on_ok hashed (\<lambda>hashed. do {
                r \<leftarrow> update_user e userID (\<lambda>_ x. x\<lparr>uRecoveryCodes := hashed\<rparr>);
                on_ok r (\<lambda>_. succeed codes) }) }) }
      | _ \<Rightarrow> err ErrUserNotFound) }"

definition UnlockUser :: "auth_env \<Rightarrow> string \<Rightarrow> unit auth_try" where
  "UnlockUser e userID = update_user e userID (\<lambda>_ u. u\<lparr>uLockedAt := None, uLockedUntil := None, uFailed := 0\<rparr>)"

text \<open>The row of a reset refers to its user, and tokens are unique.\<close>

definition insert_reset :: "auth_env \<Rightarrow> string \<Rightarrow> string \<Rightarrow> int \<Rightarrow> unit auth_try" where
  "insert_reset e userID tok expires = stmt e (\<lambda>_ w.
     if \<not> is_uuid e userID \<or> \<not> list_ex (\<lambda>u. uID u = userID) (users w) \<or> list_ex (\<lambda>r. rsToken r = tok) (resets w) then (Inl ErrDatabase, w)
     else (Inr (), w\<lparr>resets := resets w @ [\<lparr>rsUser = userID, rsToken = tok, rsExpiresAt = expires, rsUsed = False\<rparr>]\<rparr>))"

definition GeneratePasswordResetToken :: "auth_env \<Rightarrow> string \<Rightarrow> string auth_try" where
  "GeneratePasswordResetToken e userID = do {
     q \<leftarrow> select_user e userID;
     (case q of
        Inr (Some _) \<Rightarrow> do {
          r \<leftarrow> random_hex e 32;
          on_ok r (\<lambda>tok. do {
            t \<leftarrow> clock e;
            x \<leftarrow> insert_reset e userID tok (t + PasswordResetExpiryHours e * hours);
            on_ok x (\<lambda>_. succeed tok) }) }
      | _ \<Rightarrow> err ErrUserNotFound) }"

section \<open>Middleware\<close>

definition hasMinRole :: "string \<Rightarrow> string \<Rightarrow> bool" where
  "hasMinRole userRole minRole =
     (let level = (\<lambda>r. if r = RoleAdmin then 3 else if r = RoleOperator then 2 else if r = RoleAnalyst then 1 else (0 :: nat))
      in level userRole \<ge> level minRole)"

text \<open>\<open>strings.SplitN(header, " ", 2)\<close>: the parts before and after the first blank.\<close>

definition split_header :: "string \<Rightarrow> (string \<times> string) option" where
  "split_header h = (case dropWhile (\<lambda>c. c \<noteq> CHR '' '') h of [] \<Rightarrow> None | _ # rest \<Rightarrow> Some (takeWhile (\<lambda>c. c \<noteq> CHR '' '') h, rest))"

definition service_claims :: Claims where
  "service_claims = \<lparr>UserID = ''service'', Email = ''service@diginode.cc'', ClaimRole = RoleAdmin, ExpiresAt = 0\<rparr>"

text \<open>The claims put into the request, or the refusal with status 401.\<close>

definition Middleware :: "auth_env \<Rightarrow> string \<Rightarrow> Claims option auth" where
  "Middleware e authHeader =
     (if authHeader = [] then give None
      else (case split_header authHeader of
          None \<Rightarrow> give None
        | Some (scheme, tok) \<Rightarrow>
           if \<not> EqualFold_ascii scheme ''bearer'' then give None
           else if serviceToken e \<noteq> [] \<and> tok = serviceToken e then give (Some service_claims)
           else do { v \<leftarrow> ValidateToken e tok; give (case v of Inr c \<Rightarrow> Some c | Inl _ \<Rightarrow> None) }))"

text \<open>The status with which \<open>RequireRole\<close> refuses, if it does.\<close>

definition RequireRole :: "string \<Rightarrow> Claims option \<Rightarrow> nat option" where
  "RequireRole minRole claims =
     (case claims of None \<Rightarrow> Some 401 | Some c \<Rightarrow> if hasMinRole (ClaimRole c) minRole then None else Some 403)"

section \<open>Users\<close>

record UserInfoRow =
  viID :: string
  viEmail :: string
  viName :: string
  viRole :: string
  viSite :: string

text \<open>Name and site are scanned into strings, which fails for a NULL.\<close>

definition scan_user :: "user_row \<Rightarrow> UserInfoRow option" where
  "scan_user u =
     (case (uName u, uSite u) of
        (Some n, Some s) \<Rightarrow> Some \<lparr>viID = uID u, viEmail = uEmail u, viName = n, viRole = uRole u, viSite = s\<rparr>
      | _ \<Rightarrow> None)"

definition List_users :: "auth_env \<Rightarrow> UserInfoRow list auth_try" where
  "List_users e = select e (\<lambda>w. scan_rows e scan_user (sort_key uCreatedAt (users w)))"

definition GetByID_user :: "auth_env \<Rightarrow> string \<Rightarrow> UserInfoRow auth_try" where
  "GetByID_user e i = do {
     q \<leftarrow> select_user e i;
     (case q of
        Inr (Some u) \<Rightarrow> (case scan_user u of Some v \<Rightarrow> succeed v | None \<Rightarrow> err ErrUserNotFound)
      | _ \<Rightarrow> err ErrUserNotFound) }"

definition Create_user :: "auth_env \<Rightarrow> string \<Rightarrow> string \<Rightarrow> string \<Rightarrow> string \<Rightarrow> User auth_try" where
  "Create_user e email password name role = do {
     k \<leftarrow> draw;
     (case bcryptHash e k password of
        None \<Rightarrow> err ErrLibrary
      | Some hash \<Rightarrow> do {
          r \<leftarrow> insert_user e email hash name role;
          (case r of Inl _ \<Rightarrow> err ErrEmailTaken | Inr i \<Rightarrow> succeed (plain_user i email name role)) }) }"

definition Update_user :: "auth_env \<Rightarrow> string \<Rightarrow> string \<Rightarrow> string \<Rightarrow> unit auth_try" where
  "Update_user e i name role =
     (if role \<in> set user_role then update_user e i (\<lambda>_ u. u\<lparr>uName := Some name, uRole := role\<rparr>) else stmt e (\<lambda>_ w. (Inl ErrDatabase, w)))"

text \<open>
  Rows of other tables that refer to the user go with it or lose the reference; an invitation it
  has sent makes the statement fail.
\<close>

definition Delete_user :: "auth_env \<Rightarrow> string \<Rightarrow> unit auth_try" where
  "Delete_user e i = stmt e (\<lambda>_ w.
     if \<not> is_uuid e i \<or> list_ex (\<lambda>v. ivInvitedBy v = i) (invitations w) \<and> list_ex (\<lambda>u. uID u = i) (users w) then (Inl ErrDatabase, w)
     else (Inr (), w\<lparr>users := filter (\<lambda>u. uID u \<noteq> i) (users w), resets := filter (\<lambda>r. rsUser r \<noteq> i) (resets w),
       permissions := filter (\<lambda>p. fst p \<noteq> i) (permissions w), siteAccess := filter (\<lambda>p. fst p \<noteq> i) (siteAccess w),
       audits := map (\<lambda>a. if auUser a = Some i then a\<lparr>auUser := None\<rparr> else a) (audits w)\<rparr>))"

definition CreateInvitation :: "auth_env \<Rightarrow> string \<Rightarrow> string \<Rightarrow> string \<Rightarrow> invitation_row auth_try" where
  "CreateInvitation e email role invitedBy = do {
     r \<leftarrow> random_hex e 32;
     on_ok r (\<lambda>tok. do {
       t \<leftarrow> clock e;
       stmt e (\<lambda>_ w.
         if \<not> is_uuid e invitedBy \<or> \<not> list_ex (\<lambda>u. uID u = invitedBy) (users w) \<or> role \<notin> set user_role \<or>
            list_ex (\<lambda>v. ivToken v = tok) (invitations w)
         then (Inl ErrDatabase, w)
         else (let v = \<lparr>ivID = uuid e (ids w), ivEmail = email, ivRole = role, ivToken = tok,
                   ivExpiresAt = t + InviteExpiryHours e * hours, ivInvitedBy = invitedBy\<rparr>
               in (Inr v, w\<lparr>invitations := invitations w @ [v], ids := Suc (ids w)\<rparr>))) }) }"

definition AcceptTOS :: "auth_env \<Rightarrow> string \<Rightarrow> unit auth_try" where
  "AcceptTOS e userID = update_user e userID (\<lambda>t u. u\<lparr>uTosAccepted := True, uTosAcceptedAt := Some t\<rparr>)"

text \<open>A transaction leaves the tables as they were when it does not commit.\<close>

definition in_transaction :: "auth_env \<Rightarrow> 'a auth_try \<Rightarrow> 'a auth_try" where
  "in_transaction e m = State (\<lambda>w.
     (case run_state (do { b \<leftarrow> stmt e (\<lambda>_ w. (Inr (), w)); on_ok b (\<lambda>_. do { r \<leftarrow> m; on_ok r (\<lambda>x. do {
         c \<leftarrow> stmt e (\<lambda>_ w. (Inr (), w)); on_ok c (\<lambda>_. succeed x) }) }) }) w of
        (Inl x, w') \<Rightarrow> (Inl x, w\<lparr>stmts := stmts w'\<rparr>)
      | (Inr x, w') \<Rightarrow> (Inr x, w')))"

definition put_access :: "string \<Rightarrow> string \<Rightarrow> string \<Rightarrow> auth_world \<Rightarrow> auth_world" where
  "put_access u site level w =
     (if list_ex (\<lambda>(x, s, _). x = u \<and> s = site) (siteAccess w)
      then w\<lparr>siteAccess := map (\<lambda>(x, s, l). if x = u \<and> s = site then (x, s, level) else (x, s, l)) (siteAccess w)\<rparr>
      else w\<lparr>siteAccess := siteAccess w @ [(u, site, level)]\<rparr>)"

fun insert_access :: "auth_env \<Rightarrow> string \<Rightarrow> (string \<times> string) list \<Rightarrow> unit auth_try" where
  "insert_access e u [] = succeed ()"
| "insert_access e u ((site, level) # rest) = do {
     r \<leftarrow> stmt e (\<lambda>_ w. if list_ex (\<lambda>x. uID x = u) (users w) \<and> site \<in> set (knownSites e)
       then (Inr (), put_access u site (if level = [] then ''VIEW'' else level) w) else (Inl ErrDatabase, w));
     on_ok r (\<lambda>_. insert_access e u rest) }"

definition SetSiteAccess :: "auth_env \<Rightarrow> string \<Rightarrow> (string \<times> string) list \<Rightarrow> unit auth_try" where
  "SetSiteAccess e u access = in_transaction e (do {
     d \<leftarrow> stmt e (\<lambda>_ w. if is_uuid e u then (Inr (), w\<lparr>siteAccess := filter (\<lambda>p. fst p \<noteq> u) (siteAccess w)\<rparr>) else (Inl ErrDatabase, w));
     on_ok d (\<lambda>_. insert_access e u access) })"

section \<open>Feature permissions\<close>

definition AllFeatures :: "string list" where
  "AllFeatures = [''map.view'', ''inventory.view'', ''inventory.manage'', ''targets.view'', ''targets.manage'', ''commands.send'',
     ''commands.audit'', ''config.manage'', ''alarms.manage'', ''exports.generate'', ''users.manage'', ''scheduler.manage'']"

definition RoleDefaults :: "string \<Rightarrow> string list" where
  "RoleDefaults role =
     (if role = ''ADMIN'' then AllFeatures
      else if role = ''OPERATOR'' then [''map.view'', ''inventory.view'', ''inventory.manage'', ''targets.view'', ''targets.manage'',
        ''commands.send'', ''commands.audit'', ''alarms.manage'', ''exports.generate'']
      else if role = ''ANALYST'' then [''map.view'', ''inventory.view'', ''targets.view'', ''commands.audit'', ''exports.generate'']
      else if role = ''VIEWER'' then [''map.view'', ''inventory.view'', ''targets.view'']
      else [])"

definition GetUserFeatures :: "auth_env \<Rightarrow> string \<Rightarrow> string \<Rightarrow> string list auth_try" where
  "GetUserFeatures e userID role = do {
     q \<leftarrow> stmt e (\<lambda>_ w. if is_uuid e userID
       then (Inr (map (fst \<circ> snd) (filter (\<lambda>(u, _, granted). u = userID \<and> granted) (permissions w))), w) else (Inl ErrDatabase, w));
     on_ok q (\<lambda>features. succeed (if features = [] then RoleDefaults role else features)) }"

fun insert_features :: "auth_env \<Rightarrow> string \<Rightarrow> string list \<Rightarrow> unit auth_try" where
  "insert_features e u [] = succeed ()"
| "insert_features e u (f # fs) = do {
     r \<leftarrow> stmt e (\<lambda>_ w. if list_ex (\<lambda>x. uID x = u) (users w) \<and> \<not> list_ex (\<lambda>(x, g, _). x = u \<and> g = f) (permissions w)
       then (Inr (), w\<lparr>permissions := permissions w @ [(u, f, True)]\<rparr>) else (Inl ErrDatabase, w));
     on_ok r (\<lambda>_. insert_features e u fs) }"

definition SetUserFeatures :: "auth_env \<Rightarrow> string \<Rightarrow> string list \<Rightarrow> unit auth_try" where
  "SetUserFeatures e u features = in_transaction e (do {
     d \<leftarrow> stmt e (\<lambda>_ w. if is_uuid e u then (Inr (), w\<lparr>permissions := filter (\<lambda>p. fst p \<noteq> u) (permissions w)\<rparr>) else (Inl ErrDatabase, w));
     on_ok d (\<lambda>_. insert_features e u features) })"

section \<open>Audit log\<close>

definition nullString :: "string \<Rightarrow> string option" where
  "nullString s = (if s = [] then None else Some s)"

text \<open>The entry refers to its user; an entry that does not fit is lost.\<close>

definition Log :: "auth_env \<Rightarrow> string \<Rightarrow> string \<Rightarrow> string \<Rightarrow> string \<Rightarrow> string \<Rightarrow> unit auth" where
  "Log e userID action resource resourceID ip = do {
     _ \<leftarrow> stmt e (\<lambda>t w.
       if userID \<noteq> [] \<and> (\<not> is_uuid e userID \<or> \<not> list_ex (\<lambda>u. uID u = userID) (users w)) then (Inl ErrDatabase, w)
       else (Inr (), w\<lparr>audits := audits w @ [\<lparr>auUser = nullString userID, auAction = action, auResource = nullString resource,
         auResourceID = nullString resourceID, auIP = nullString ip, auAt = t\<rparr>]\<rparr>));
     give () }"

text \<open>The columns are scanned into strings, which fails for a NULL.\<close>

definition scan_audit :: "audit_row \<Rightarrow> (string \<times> string \<times> string \<times> string \<times> string) option" where
  "scan_audit a =
     (case (auUser a, auResource a, auResourceID a, auIP a) of
        (Some u, Some r, Some i, Some ip) \<Rightarrow> Some (u, auAction a, r, i, ip)
      | _ \<Rightarrow> None)"

definition GetRecent :: "auth_env \<Rightarrow> int \<Rightarrow> (string \<times> string \<times> string \<times> string \<times> string) list auth_try" where
  "GetRecent e limit = select e (\<lambda>w. scan_rows e scan_audit
     (take (nat (if limit \<le> 0 then 50 else limit)) (rev (sort_key auAt (audits w)))))"

text \<open>
  The entries of one user, which are scanned into pointers. When the query fails the older table
  \<open>audit_log\<close> is read, which the migrations have dropped.
\<close>

definition GetAuditLogs :: "auth_env \<Rightarrow> string \<Rightarrow> int \<Rightarrow> audit_row list auth_try" where
  "GetAuditLogs e userID limit = do {
     q \<leftarrow> stmt e (\<lambda>_ w. if is_uuid e userID
       then (Inr (take (nat (if limit \<le> 0 \<or> limit > 200 then 50 else limit))
                    (rev (sort_key auAt (filter (\<lambda>a. auUser a = Some userID) (audits w))))), w)
       else (Inl ErrDatabase, w));
     (case q of
        Inr es \<Rightarrow> succeed es
      | Inl _ \<Rightarrow> stmt e (\<lambda>_ w. (Inl ErrDatabase, w))) }"

definition PruneAudit :: "auth_env \<Rightarrow> int \<Rightarrow> nat auth_try" where
  "PruneAudit e retentionDays = stmt e (\<lambda>t w.
     let days = (if retentionDays \<le> 0 then 365 else retentionDays); old = (\<lambda>a. auAt a < t - days * (24 * hours))
     in (Inr (length (filter old (audits w))), w\<lparr>audits := filter (Not \<circ> old) (audits w)\<rparr>))"

end
