(* ===== verification/AuthAPI.thy ===== *)
theory AuthAPI
  imports Auth
begin

text \<open>
  The HTTP handlers for accounts, \<open>internal/api/handlers_auth.go\<close> and \<open>handlers_users.go\<close>. A handler
  takes the request with the claims the middleware has put into it, the path parameter and the
  decoded body (\<open>None\<close> when it does not decode), and gives the status, the body and the mails it
  sends. Waiting times of the login are left out.
\<close>

section \<open>Requests and responses\<close>

record request =
  reqClaims :: "Claims option"
  reqRemoteAddr :: string
  reqForwardedFor :: string
  reqHost :: string
  reqForwardedHost :: string
  reqTLS :: bool

record userResponse =
  urID :: string
  urEmail :: string
  urName :: string
  urRole :: string
  urTOTPEnabled :: bool
  urMustChange :: bool
  urTOSAccepted :: bool
  urLastLogin :: "int option"

definition buildUserResponse :: "User \<Rightarrow> userResponse" where
  "buildUserResponse u = \<lparr>urID = usID u, urEmail = usEmail u, urName = usName u, urRole = usRole u, urTOTPEnabled = usTOTPEnabled u,
     urMustChange = usMustChange u, urTOSAccepted = usTOSAccepted u, urLastLogin = usLastLogin u\<rparr>"

record loginResponse =
  lrToken :: string
  lrUser :: userResponse
  lrLegalAccepted :: bool
  lrTwoFactorRequired :: bool

text \<open>\<open>ErrorOf\<close> stands for the text of the error.\<close>

datatype auth_body =
    ErrorText string
  | ErrorOf auth_error
  | LoginBody loginResponse
  | UserBody User
  | UserResponseBody userResponse
  | StatusOK string
  | SecretBody string
  | CodesBody "string list"
  | FeaturesBody "string list"
  | UsersBody "UserInfoRow list"
  | UserRowBody UserInfoRow
  | InvitationBody invitation_row
  | ResetBody string string
  | RecentBody "(string \<times> string \<times> string \<times> string \<times> string) list"
  | AuditBody "audit_row list"

datatype mail = MailReset string string | MailResetAdmin string string string | MailInvitation string string string

type_synonym reply = "nat \<times> auth_body \<times> mail list"

abbreviation answer :: "nat \<Rightarrow> auth_body \<Rightarrow> reply auth" where "answer status body \<equiv> give (status, body, [])"
abbreviation refuse :: "nat \<Rightarrow> string \<Rightarrow> reply auth" where "refuse status msg \<equiv> answer status (ErrorText msg)"

definition with_claims :: "request \<Rightarrow> (Claims \<Rightarrow> reply auth) \<Rightarrow> reply auth" where
  "with_claims r k = (case reqClaims r of None \<Rightarrow> refuse 401 ''unauthorized'' | Some c \<Rightarrow> k c)"

definition with_body :: "'b option \<Rightarrow> ('b \<Rightarrow> reply auth) \<Rightarrow> reply auth" where
  "with_body body k = (case body of None \<Rightarrow> refuse 400 ''invalid request body'' | Some b \<Rightarrow> k b)"

definition client_ip :: "request \<Rightarrow> string" where
  "client_ip r = (if reqForwardedFor r \<noteq> [] then TrimSpace (takeWhile (\<lambda>c. c \<noteq> CHR '','') (reqForwardedFor r)) else reqRemoteAddr r)"

text \<open>The address of a link in a mail: the host is the one the request names.\<close>

definition link_url :: "request \<Rightarrow> string \<Rightarrow> string \<Rightarrow> string" where
  "link_url r page tok =
     (if reqTLS r then ''https'' else ''http'') @ ''://'' @ (if reqForwardedHost r = [] then reqHost r else reqForwardedHost r) @
     ''/'' @ page @ ''?token='' @ tok"

section \<open>Accounts\<close>

definition handleLogin :: "auth_env \<Rightarrow> request \<Rightarrow> (string \<times> string) option \<Rightarrow> reply auth" where
  "handleLogin e r body = with_body body (\<lambda>(email, password).
     if email = [] \<or> password = [] then refuse 400 ''email and password are required''
     else do {
       x \<leftarrow> Login e email password (client_ip r);
       (case x of
          Inl er \<Rightarrow> do {
            _ \<leftarrow> Log e [] ''AUTH_LOGIN_FAILED'' ''user'' [] (client_ip r);
            if er = ErrAccountLocked then refuse 429 ''account is temporarily locked due to too many failed login attempts''
            else if er = ErrInvalidCredentials then refuse 401 ''invalid email or password''
            else refuse 500 ''login failed'' }
        | Inr (tok, user) \<Rightarrow> do {
            _ \<leftarrow> Log e (usID user) ''AUTH_LOGIN'' ''user'' (usID user) (client_ip r);
            answer 200 (LoginBody \<lparr>lrToken = tok, lrUser = buildUserResponse user, lrLegalAccepted = usTOSAccepted user,
              lrTwoFactorRequired = usTOTPEnabled user\<rparr>) }) })"

definition handleRegister :: "auth_env \<Rightarrow> (string \<times> string \<times> string) option \<Rightarrow> reply auth" where
  "handleRegister e body = with_body body (\<lambda>(email, password, name).
     if email = [] \<or> password = [] then refuse 400 ''email and password are required''
     else do {
       x \<leftarrow> Register e email password name;
       (case x of
          Inl er \<Rightarrow> if er = ErrEmailTaken then refuse 409 ''email already registered'' else refuse 500 ''registration failed''
        | Inr user \<Rightarrow> answer 201 (UserBody user)) })"

definition handleLogout :: "reply auth" where
  "handleLogout = answer 200 (StatusOK ''ok'')"

definition handleMe :: "auth_env \<Rightarrow> request \<Rightarrow> reply auth" where
  "handleMe e r = with_claims r (\<lambda>c. do {
     x \<leftarrow> GetUser e (UserID c);
     (case x of Inl _ \<Rightarrow> refuse 404 ''user not found'' | Inr u \<Rightarrow> answer 200 (UserResponseBody (buildUserResponse u))) })"

text \<open>
  The goroutine of \<open>handleForgotPassword\<close> uses the context of the request, which ends with the
  handler: when it gets there later, its first query fails.
\<close>

definition forgot_task :: "auth_env \<Rightarrow> bool \<Rightarrow> request \<Rightarrow> string \<Rightarrow> mail list auth" where
  "forgot_task e handlerDone r email =
     (if handlerDone then give []
      else do {
        q \<leftarrow> select e (user_by (\<lambda>u. uEmail u = email));
        (case q of
           Inr (Some u) \<Rightarrow> do {
             h \<leftarrow> random_hex e 32;
             (case h of
                Inl _ \<Rightarrow> give []
              | Inr tok \<Rightarrow> do {
                  t \<leftarrow> clock e;
                  x \<leftarrow> insert_reset e (uID u) tok (t + PasswordResetExpiryHours e * hours);
                  give (case x of Inl _ \<Rightarrow> [] | Inr _ \<Rightarrow> [MailReset email (link_url r ''reset-password'' tok)]) }) }
         | _ \<Rightarrow> give []) })"

definition handleForgotPassword :: "auth_env \<Rightarrow> bool \<Rightarrow> bool \<Rightarrow> request \<Rightarrow> string option \<Rightarrow> reply auth" where
  "handleForgotPassword e mailOn handlerDone r body = with_body body (\<lambda>email. do {
     ms \<leftarrow> (if mailOn \<and> email \<noteq> [] then forgot_task e handlerDone r email else give []);
     give (200, StatusOK ''if an account with that email exists, a reset link has been sent'', ms) })"

definition handleResetPassword :: "auth_env \<Rightarrow> (string \<times> string) option \<Rightarrow> reply auth" where
  "handleResetPassword e body = with_body body (\<lambda>(tok, password).
     if tok = [] \<or> password = [] then refuse 400 ''token and password are required''
     else do {
       x \<leftarrow> ResetPassword e tok password;
       (case x of
          Inl er \<Rightarrow> if er = ErrInvalidToken then refuse 400 ''invalid or expired reset token'' else refuse 500 ''failed to reset password''
        | Inr _ \<Rightarrow> answer 200 (StatusOK ''password has been reset'')) })"

section \<open>Second factor\<close>

definition handle2FASetup :: "auth_env \<Rightarrow> request \<Rightarrow> reply auth" where
  "handle2FASetup e r = with_claims r (\<lambda>c. do {
     x \<leftarrow> SetupTOTP e (UserID c);
     (case x of
        Inl er \<Rightarrow> if er = ErrUserNotFound then refuse 404 ''user not found'' else refuse 500 ''failed to setup 2FA''
      | Inr secret \<Rightarrow> answer 200 (SecretBody secret)) })"

definition handle2FAVerify :: "auth_env \<Rightarrow> request \<Rightarrow> string option \<Rightarrow> reply auth" where
  "handle2FAVerify e r body = with_claims r (\<lambda>c. with_body body (\<lambda>code.
     if code = [] then refuse 400 ''code is required''
     else do {
       x \<leftarrow> VerifyTOTP e (UserID c) code;
       (case x of
          Inl er \<Rightarrow> if er = ErrInvalidTOTP then refuse 401 ''invalid 2FA code'' else if er = ErrUserNotFound then refuse 404 ''user not found''
            else refuse 500 ''2FA verification failed''
        | Inr _ \<Rightarrow> answer 200 (StatusOK ''2FA enabled successfully'')) }))"

definition handle2FAConfirm :: "auth_env \<Rightarrow> request \<Rightarrow> string option \<Rightarrow> reply auth" where
  "handle2FAConfirm e r body = handle2FAVerify e r body"

definition handleLegalAck :: "auth_env \<Rightarrow> request \<Rightarrow> reply auth" where
  "handleLegalAck e r = with_claims r (\<lambda>c. do {
     x \<leftarrow> AcceptTOS e (UserID c);
     (case x of
        Inl _ \<Rightarrow> refuse 500 ''failed to accept terms of service''
      | Inr _ \<Rightarrow> do {
          g \<leftarrow> GetUser e (UserID c);
          (case g of Inl _ \<Rightarrow> refuse 404 ''user not found'' | Inr u \<Rightarrow> answer 200 (UserResponseBody (buildUserResponse u))) }) })"

definition handle2FADisable :: "auth_env \<Rightarrow> request \<Rightarrow> (string \<times> string) option \<Rightarrow> reply auth" where
  "handle2FADisable e r body = with_claims r (\<lambda>c. with_body body (\<lambda>(code, password).
     if code = [] \<and> password = [] then refuse 400 ''code or password is required''
     else do {
       x \<leftarrow> (if code \<noteq> [] then ValidateTOTP e (UserID c) code else VerifyPassword e (UserID c) password);
       (case x of
          Inl er \<Rightarrow>
            if code \<noteq> [] \<and> er = ErrInvalidTOTP then refuse 401 ''invalid 2FA code''
            else if code = [] \<and> er = ErrInvalidCredentials then refuse 401 ''invalid password''
            else refuse 500 ''verification failed''
        | Inr _ \<Rightarrow> do {
            d \<leftarrow> DisableTOTP e (UserID c);
            (case d of Inl _ \<Rightarrow> refuse 500 ''failed to disable 2FA'' | Inr _ \<Rightarrow> answer 200 (StatusOK ''2FA disabled successfully'')) }) }))"

definition handle2FARecoveryRegenerate :: "auth_env \<Rightarrow> request \<Rightarrow> reply auth" where
  "handle2FARecoveryRegenerate e r = with_claims r (\<lambda>c. do {
     x \<leftarrow> RegenerateRecoveryCodes e (UserID c);
     (case x of
        Inl er \<Rightarrow> if er = ErrUserNotFound then refuse 404 ''user not found'' else answer 400 (ErrorOf er)
      | Inr codes \<Rightarrow> answer 200 (CodesBody codes)) })"

section \<open>Administration\<close>

definition handleUnlockUser :: "auth_env \<Rightarrow> request \<Rightarrow> string \<Rightarrow> reply auth" where
  "handleUnlockUser e r i = with_claims r (\<lambda>c.
     if ClaimRole c \<noteq> RoleAdmin then refuse 403 ''admin access required''
     else do {
       x \<leftarrow> UnlockUser e i;
       (case x of
          Inl _ \<Rightarrow> refuse 500 ''failed to unlock user''
        | Inr _ \<Rightarrow> do { _ \<leftarrow> Log e (UserID c) ''USER_UNLOCK'' ''user'' i []; answer 200 (StatusOK ''user unlocked'') }) })"

definition handleUpdateUserPermissions :: "auth_env \<Rightarrow> string \<Rightarrow> string list option \<Rightarrow> reply auth" where
  "handleUpdateUserPermissions e i body = with_body body (\<lambda>features. do {
     x \<leftarrow> SetUserFeatures e i features;
     (case x of Inl _ \<Rightarrow> refuse 500 ''failed to update permissions'' | Inr _ \<Rightarrow> answer 200 (StatusOK ''ok'')) })"

definition handleUpdateUserSites :: "auth_env \<Rightarrow> string \<Rightarrow> (string \<times> string) list option \<Rightarrow> reply auth" where
  "handleUpdateUserSites e i body = with_body body (\<lambda>access. do {
     x \<leftarrow> SetSiteAccess e i access;
     (case x of Inl _ \<Rightarrow> refuse 500 ''failed to update site access'' | Inr _ \<Rightarrow> answer 200 (StatusOK ''ok'')) })"

definition handleAdminPasswordReset :: "auth_env \<Rightarrow> bool \<Rightarrow> request \<Rightarrow> string \<Rightarrow> reply auth" where
  "handleAdminPasswordReset e mailOn r i = with_claims r (\<lambda>c.
     if ClaimRole c \<noteq> RoleAdmin then refuse 403 ''admin access required''
     else do {
       x \<leftarrow> GeneratePasswordResetToken e i;
       (case x of
          Inl er \<Rightarrow> if er = ErrUserNotFound then refuse 404 ''user not found'' else refuse 500 ''failed to generate reset token''
        | Inr tok \<Rightarrow> do {
            let url = link_url r ''reset-password'' tok;
            ms \<leftarrow> (if mailOn then do {
              target \<leftarrow> GetUser e i;
              (case target of
                 Inl _ \<Rightarrow> give []
               | Inr u \<Rightarrow> do {
                   a \<leftarrow> GetUser e (UserID c);
                   let name = (case a of Inr au \<Rightarrow> if usName au \<noteq> [] then usName au else ''An administrator'' | Inl _ \<Rightarrow> ''An administrator'');
                   give [MailResetAdmin (usEmail u) url name] }) } else give []);
            give (200, ResetBody url tok, ms) }) })"

definition handleListFeatures :: "reply auth" where
  "handleListFeatures = answer 200 (FeaturesBody AllFeatures)"

definition handleListUsers :: "auth_env \<Rightarrow> reply auth" where
  "handleListUsers e = do {
     x \<leftarrow> List_users e;
     (case x of Inl _ \<Rightarrow> refuse 500 ''failed to list users'' | Inr us \<Rightarrow> answer 200 (UsersBody us)) }"

text \<open>The actor of an audit entry.\<close>

definition actor :: "request \<Rightarrow> string" where
  "actor r = (case reqClaims r of Some c \<Rightarrow> UserID c | None \<Rightarrow> [])"

definition handleCreateUser :: "auth_env \<Rightarrow> request \<Rightarrow> (string \<times> string \<times> string \<times> string) option \<Rightarrow> reply auth" where
  "handleCreateUser e r body = with_body body (\<lambda>(email, password, name, role).
     if email = [] \<or> password = [] then refuse 400 ''email and password are required''
     else do {
       x \<leftarrow> Create_user e email password name (if role = [] then RoleViewer else role);
       (case x of
          Inl er \<Rightarrow> answer 409 (ErrorOf er)
        | Inr u \<Rightarrow> do { _ \<leftarrow> Log e (actor r) ''USER_CREATE'' ''user'' (usID u) []; answer 201 (UserBody u) }) })"

definition handleGetUser :: "auth_env \<Rightarrow> string \<Rightarrow> reply auth" where
  "handleGetUser e i = do {
     x \<leftarrow> GetByID_user e i;
     (case x of Inl _ \<Rightarrow> refuse 404 ''user not found'' | Inr u \<Rightarrow> answer 200 (UserRowBody u)) }"

definition handleUpdateUser :: "auth_env \<Rightarrow> request \<Rightarrow> string \<Rightarrow> (string \<times> string) option \<Rightarrow> reply auth" where
  "handleUpdateUser e r i body = with_body body (\<lambda>(name, role). do {
     x \<leftarrow> Update_user e i name role;
     (case x of
        Inl _ \<Rightarrow> refuse 500 ''failed to update user''
      | Inr _ \<Rightarrow> do { _ \<leftarrow> Log e (actor r) ''USER_UPDATE'' ''user'' i []; answer 200 (StatusOK ''ok'') }) })"

definition handleDeleteUser :: "auth_env \<Rightarrow> request \<Rightarrow> string \<Rightarrow> reply auth" where
  "handleDeleteUser e r i = do {
     x \<leftarrow> Delete_user e i;
     (case x of
        Inl _ \<Rightarrow> refuse 500 ''failed to delete user''
      | Inr _ \<Rightarrow> do { _ \<leftarrow> Log e (actor r) ''USER_DELETE'' ''user'' i []; answer 200 (StatusOK ''ok'') }) }"

definition handleInviteUser :: "auth_env \<Rightarrow> bool \<Rightarrow> request \<Rightarrow> (string \<times> string) option \<Rightarrow> reply auth" where
  "handleInviteUser e mailOn r body = with_body body (\<lambda>(email, role).
     if email = [] then refuse 400 ''email is required''
     else do {
       x \<leftarrow> CreateInvitation e email (if role = [] then RoleViewer else role) (actor r);
       (case x of
          Inl _ \<Rightarrow> refuse 500 ''failed to create invitation''
        | Inr v \<Rightarrow>
           if \<not> mailOn then answer 201 (InvitationBody v)
           else do {
             n \<leftarrow> (if actor r = [] then give ''An administrator'' else do {
               u \<leftarrow> GetByID_user e (actor r);
               give (case u of Inr u \<Rightarrow> if viName u \<noteq> [] then viName u else ''An administrator'' | Inl _ \<Rightarrow> ''An administrator'') });
             give (201, InvitationBody v, [MailInvitation email (link_url r ''accept-invite'' (ivToken v)) n]) }) })"

text \<open>The parameter \<open>limit\<close> as a number, if it is one.\<close>

definition handleListAuditLogs :: "auth_env \<Rightarrow> int option \<Rightarrow> reply auth" where
  "handleListAuditLogs e limit = do {
     x \<leftarrow> GetRecent e (case limit of Some n \<Rightarrow> if n > 0 then n else 50 | None \<Rightarrow> 50);
     (case x of Inl _ \<Rightarrow> refuse 500 ''failed to get audit logs'' | Inr es \<Rightarrow> answer 200 (RecentBody es)) }"

definition handleGetUserAudit :: "auth_env \<Rightarrow> string \<Rightarrow> int option \<Rightarrow> reply auth" where
  "handleGetUserAudit e i limit = do {
     x \<leftarrow> GetAuditLogs e i (case limit of Some n \<Rightarrow> n | None \<Rightarrow> 50);
     (case x of Inl _ \<Rightarrow> refuse 500 ''failed to fetch audit logs'' | Inr es \<Rightarrow> answer 200 (AuditBody es)) }"

section \<open>The websocket\<close>

text \<open>
  Whether \<open>handleWebSocket\<close> upgrades the connection: the token is the query parameter or follows
  \<open>Bearer\<close> in the header, and it is checked only if there is one.
\<close>

definition websocket_token :: "string \<Rightarrow> string \<Rightarrow> string" where
  "websocket_token query header =
     (if query \<noteq> [] then query
      else if length header > 7 \<and> take 7 header = ''Bearer '' then drop 7 header else [])"

definition websocket_admits :: "auth_env \<Rightarrow> string \<Rightarrow> string \<Rightarrow> bool auth" where
  "websocket_admits e query header =
     (let tok = websocket_token query header in
      if tok \<noteq> [] then do { v \<leftarrow> ValidateToken e tok; give (case v of Inr _ \<Rightarrow> True | Inl _ \<Rightarrow> False) } else give True)"

end
