(* ===== verification/Routes.thy ===== *)
theory Routes
  imports AuthAPI
begin

text \<open>
  The routing table of the HTTP server, \<open>setupRoutes\<close> of \<open>internal/api/server.go\<close>, block by block: every
  endpoint with the middleware in front of it and the name of its handler. \<open>mount\<close> is what a
  sub-router does to the routes declared in it. Which entry serves a request is decided by the
  router library; here a request comes with its entry.
\<close>

section \<open>Routes\<close>

datatype guard = Limited | LoginLimited | TwoFactorLimited | Authenticated | MinRole string

text \<open>\<open>AnyVerb\<close>: the entry of \<open>Handle\<close>, which is for every method.\<close>

datatype verb = GET | POST | PUT | DELETE | PATCH | AnyVerb

record route =
  rVerb :: verb
  rPath :: string
  rGuards :: "guard list"
  rHandler :: string

abbreviation Get :: "string \<Rightarrow> string \<Rightarrow> route" where "Get p h \<equiv> \<lparr>rVerb = GET, rPath = p, rGuards = [], rHandler = h\<rparr>"
abbreviation Post :: "string \<Rightarrow> string \<Rightarrow> route" where "Post p h \<equiv> \<lparr>rVerb = POST, rPath = p, rGuards = [], rHandler = h\<rparr>"
abbreviation Put :: "string \<Rightarrow> string \<Rightarrow> route" where "Put p h \<equiv> \<lparr>rVerb = PUT, rPath = p, rGuards = [], rHandler = h\<rparr>"
abbreviation Delete :: "string \<Rightarrow> string \<Rightarrow> route" where "Delete p h \<equiv> \<lparr>rVerb = DELETE, rPath = p, rGuards = [], rHandler = h\<rparr>"
abbreviation Patch :: "string \<Rightarrow> string \<Rightarrow> route" where "Patch p h \<equiv> \<lparr>rVerb = PATCH, rPath = p, rGuards = [], rHandler = h\<rparr>"

definition mount :: "string \<Rightarrow> guard list \<Rightarrow> route list \<Rightarrow> route list" where
  "mount prefix gs rs = map (\<lambda>r. r\<lparr>rPath := prefix @ rPath r, rGuards := gs @ rGuards r\<rparr>) rs"

section \<open>Public endpoints\<close>

definition open_routes :: "route list" where
  "open_routes = mount '''' []
     [Get ''/api/health'' ''handleHealth'',
      Get ''/healthz'' ''handleHealth'',
      Get ''/readyz'' ''handleHealth'',
      Get ''/ws'' ''handleWebSocket'',
      Get ''/api/tiles/{provider}/{z}/{x}/{y}'' ''handleTileRequest'']"

definition login_routes :: "route list" where
  "login_routes = mount '''' [LoginLimited]
     [Post ''/auth/login'' ''handleLogin'',
      Post ''/auth/register'' ''handleRegister'',
      Post ''/auth/forgot-password'' ''handleForgotPassword'',
      Post ''/auth/reset-password'' ''handleResetPassword'']"

section \<open>Endpoints behind the authentication\<close>

definition routes_auth_2fa :: "route list" where
  "routes_auth_2fa = mount ''/auth/2fa'' [TwoFactorLimited]
     [Post ''/setup'' ''handle2FASetup'',
      Post ''/verify'' ''handle2FAVerify'',
      Post ''/confirm'' ''handle2FAConfirm'',
      Post ''/disable'' ''handle2FADisable'',
      Post ''/recovery/regenerate'' ''handle2FARecoveryRegenerate'']"

definition routes_users :: "route list" where
  "routes_users = mount ''/users'' []
     [Get ''/me'' ''handleMe'',
      Get ''/'' ''handleListUsers'',
      Post ''/'' ''handleCreateUser'',
      Get ''/features'' ''handleListFeatures'',
      Post ''/invite'' ''handleInviteUser'',
      Get ''/{id}'' ''handleGetUser'',
      Put ''/{id}'' ''handleUpdateUser'',
      Delete ''/{id}'' ''handleDeleteUser'',
      Post ''/{id}/unlock'' ''handleUnlockUser'',
      Patch ''/{id}/permissions'' ''handleUpdateUserPermissions'',
      Patch ''/{id}/sites'' ''handleUpdateUserSites'',
      Post ''/{id}/password-reset'' ''handleAdminPasswordReset'',
      Get ''/{id}/audit'' ''handleGetUserAudit'']"

definition routes_sites :: "route list" where
  "routes_sites = mount ''/sites'' []
     [Get ''/'' ''handleListSites'',
      Post ''/'' ''handleCreateSite'',
      Get ''/{id}'' ''handleGetSite'',
      Put ''/{id}'' ''handleUpdateSite'',
      Delete ''/{id}'' ''handleDeleteSite'']"

definition routes_nodes :: "route list" where
  "routes_nodes = mount ''/nodes'' []
     [Get ''/'' ''handleListNodes'',
      Post ''/clear'' ''handleClearNodes'',
      Get ''/{id}'' ''handleGetNode'',
      Get ''/{id}/positions'' ''handleGetNodePositions'',
      Put ''/{id}'' ''handleUpdateNode'',
      Delete ''/{id}'' ''handleDeleteNode'']"

definition routes_drones :: "route list" where
  "routes_drones = mount ''/drones'' []
     [Get ''/'' ''handleListDrones'',
      Post ''/clear'' ''handleClearDrones'',
      Get ''/{id}'' ''handleGetDrone'',
      Put ''/{id}/status'' ''handleUpdateDroneStatus'',
      Get ''/{id}/detections'' ''handleGetDroneDetections'',
      Delete ''/{id}'' ''handleDeleteDrone'']"

definition routes_commands :: "route list" where
  "routes_commands = mount ''/commands'' []
     [Get ''/'' ''handleListCommands'',
      Post ''/'' ''handleCreateCommand'',
      Post ''/preview'' ''handleCommandPreview'',
      Post ''/send-raw'' ''handleSendRawCommand'',
      Get ''/types'' ''handleListCommandTypes'',
      Get ''/{id}'' ''handleGetCommand'',
      Delete ''/{id}'' ''handleDeleteCommand'']"

definition routes_chat :: "route list" where
  "routes_chat = mount ''/chat'' []
     [Get ''/messages'' ''handleGetChatMessages'',
      Post ''/send'' ''handleSendChatMessage'',
      Delete ''/messages'' ''handleClearChatMessages'']"

definition routes_alerts :: "route list" where
  "routes_alerts = mount ''/alerts'' []
     [Get ''/rules'' ''handleListAlertRules'',
      Post ''/rules'' ''handleCreateAlertRule'',
      Put ''/rules/{id}'' ''handleUpdateAlertRule'',
      Delete ''/rules/{id}'' ''handleDeleteAlertRule'',
      Get ''/events'' ''handleListAlertEvents'',
      Post ''/events/{id}/acknowledge'' ''handleAcknowledgeAlert'']"

definition routes_geofences :: "route list" where
  "routes_geofences = mount ''/geofences'' []
     [Get ''/'' ''handleListGeofences'',
      Post ''/'' ''handleCreateGeofence'',
      Put ''/{id}'' ''handleUpdateGeofence'',
      Delete ''/{id}'' ''handleDeleteGeofence'']"

definition routes_targets :: "route list" where
  "routes_targets = mount ''/targets'' []
     [Get ''/'' ''handleListTargets'',
      Post ''/'' ''handleCreateTarget'',
      Post ''/clear'' ''handleClearTargets'',
      Post ''/ble'' ''handleCreateBLETarget'',
      Put ''/{id}'' ''handleUpdateTarget'',
      Delete ''/{id}'' ''handleDeleteTarget'',
      Get ''/{id}/positions'' ''handleGetTargetPositions'',
      Get ''/{id}/hits'' ''handleListTargetHits'',
      Post ''/{id}/resolve'' ''handleResolveTarget'',
      Post ''/{id}/reactivate'' ''handleReactivateTarget'']"

definition routes_inventory :: "route list" where
  "routes_inventory = mount ''/inventory'' []
     [Get ''/'' ''handleListInventory'',
      Post ''/clear'' ''handleClearInventory'',
      Post ''/{mac}/promote'' ''handlePromoteToTarget'',
      Put ''/{id}'' ''handleUpdateInventoryDevice'']"

definition routes_ble :: "route list" where
  "routes_ble = mount ''/ble'' []
     [Get ''/detections'' ''handleListBLEDetections'',
      Get ''/detections/{mac}'' ''handleGetBLEDetectionsByMAC'']"

definition routes_probes_ssids :: "route list" where
  "routes_probes_ssids = mount ''/probes/ssids'' []
     [Get ''/'' ''handleListProbeSSIDs'',
      Get ''/by-ssid'' ''handleProbeSSIDsByName'',
      Get ''/by-node'' ''handleProbeSSIDsByNode'',
      Get ''/window'' ''handleProbeSSIDsForCommand'']"

definition routes_webhooks :: "route list" where
  "routes_webhooks = mount ''/webhooks'' []
     [Get ''/'' ''handleListWebhooks'',
      Post ''/'' ''handleCreateWebhook'',
      Put ''/{id}'' ''handleUpdateWebhook'',
      Delete ''/{id}'' ''handleDeleteWebhook'',
      Post ''/{id}/test'' ''handleTestWebhook'']"

definition routes_config :: "route list" where
  "routes_config = mount ''/config'' []
     [Get ''/'' ''handleGetConfig'',
      Put ''/'' ''handleUpdateConfig'',
      Get ''/{key}'' ''handleGetConfigKey'',
      Put ''/{key}'' ''handleUpdateConfigKey'']"

definition routes_alarms :: "route list" where
  "routes_alarms = mount ''/alarms'' []
     [Get ''/'' ''handleListAlarms'',
      Post ''/'' ''handleCreateAlarm'',
      Put ''/{id}'' ''handleUpdateAlarm'',
      Delete ''/{id}'' ''handleDeleteAlarm'',
      Post ''/sounds/{level}'' ''handleUploadAlarmSound'',
      Delete ''/sounds/{level}'' ''handleDeleteAlarmSound'']"

definition routes_firewall :: "route list" where
  "routes_firewall = mount ''/firewall'' []
     [Get ''/'' ''handleFirewallStatus'',
      Put ''/'' ''handleUpdateFirewallConfig'',
      Get ''/rules'' ''handleListFirewallRules'',
      Post ''/rules'' ''handleCreateFirewallRule'',
      Delete ''/rules/{id}'' ''handleDeleteFirewallRule'',
      Get ''/jailed'' ''handleListJailedIPs'',
      Delete ''/jailed/{id}'' ''handleUnjailIP'',
      Get ''/logs'' ''handleFirewallLogs'']"

definition routes_faa :: "route list" where
  "routes_faa = mount ''/faa'' []
     [Get ''/lookup/{serial}'' ''handleFAALookup'',
      Post ''/import'' ''handleFAAImport'',
      Get ''/status'' ''handleFAAStatus'',
      Post ''/sync'' ''handleFAASync'',
      Post ''/upload'' ''handleFAAUpload'']"

definition routes_tiles :: "route list" where
  "routes_tiles = mount ''/tiles'' []
     [Get ''/info'' ''handleTilesInfo'',
      Post ''/preload'' ''handleTilePreload'',
      Get ''/preload/status'' ''handleTilePreloadStatus'',
      Post ''/preload/cancel'' ''handleTilePreloadCancel'']"

definition routes_admin :: "route list" where
  "routes_admin = mount ''/admin'' [MinRole RoleAdmin]
     [Post ''/clear-detections'' ''handleClearDetectionData'',
      Post ''/clear-operational'' ''handleClearOperationalData'',
      Post ''/prune'' ''handlePruneOldData'',
      Post ''/factory-reset'' ''handleFactoryReset'',
      Delete ''/tiles-cache'' ''handleClearTileCache'']"

definition fleet_reads :: "route list" where
  "fleet_reads = mount '''' [MinRole RoleOperator]
     [Get ''/identity'' ''handleFleetSecGetIdentity'',
      Get ''/identity/pubkey'' ''handleFleetSecExportPubkey'',
      Get ''/identities'' ''handleFleetSecListIdentities'',
      Get ''/trust'' ''handleFleetSecListTrust'',
      Get ''/trust/{nodeNum}'' ''handleFleetSecGetTrust'',
      Post ''/trust/{nodeNum}/verify'' ''handleFleetSecVerifyTrust'',
      Get ''/channels'' ''handleFleetSecListChannels'',
      Get ''/rotations/{id}'' ''handleFleetSecGetRotation'',
      Get ''/stranded'' ''handleFleetSecListStranded'']"

definition fleet_writes :: "route list" where
  "fleet_writes = mount '''' [MinRole RoleAdmin]
     [Post ''/identity/import'' ''handleFleetSecImportIdentity'',
      Post ''/identities'' ''handleFleetSecRegisterIdentity'',
      Delete ''/identities/{fingerprint}'' ''handleFleetSecRevokeIdentity'',
      Put ''/trust/{nodeNum}/admin-keys'' ''handleFleetSecSetAdminKeys'',
      Put ''/trust/{nodeNum}/is-managed'' ''handleFleetSecSetIsManaged'',
      Post ''/channels/{idx}/rotate'' ''handleFleetSecRotatePSK'',
      Get ''/channels/{idx}/reveal-psk'' ''handleFleetSecRevealChannelPSK'',
      Post ''/rotations/{id}/retry'' ''handleFleetSecRetryRotation'',
      Post ''/rotations/{id}/retire-old-psk'' ''handleFleetSecRetireOldPSK'',
      Post ''/recovery'' ''handleFleetSecStartRecovery'',
      Get ''/recovery/{id}'' ''handleFleetSecGetRecovery'',
      Post ''/stranded/{nodeNum}/recover-now'' ''handleFleetSecRecoverStrandedNow'',
      Delete ''/stranded/{nodeNum}'' ''handleFleetSecCancelStranded'']"

definition routes_fleet_security :: "route list" where
  "routes_fleet_security = mount ''/fleet-security'' [] (fleet_reads @ fleet_writes)"

definition routes_exports :: "route list" where
  "routes_exports = mount ''/exports'' []
     [Get ''/drones'' ''handleExportDrones'',
      Get ''/nodes'' ''handleExportNodes'',
      Get ''/alerts'' ''handleExportAlerts'',
      Get ''/{type}'' ''handleExportByType'']"

definition routes_serial :: "route list" where
  "routes_serial = mount ''/serial'' []
     [Get ''/ports'' ''handleListSerialPorts'',
      Get ''/protocols'' ''handleListSerialProtocols'',
      Get ''/status'' ''handleSerialStatus'',
      Get ''/state'' ''handleSerialStatus'',
      Get ''/text-messages'' ''handleGetTextMessages'',
      Get ''/device-time'' ''handleGetDeviceTime'',
      Get ''/config'' ''handleGetSerialConfig'',
      Put ''/config'' ''handleUpdateSerialConfig'',
      Post ''/config/reset'' ''handleResetSerialConfig'',
      Post ''/connect'' ''handleSerialConnect'',
      Post ''/disconnect'' ''handleSerialDisconnect'',
      Post ''/refresh'' ''handleRefreshNodes'',
      Post ''/text-message'' ''handleSendSerialTextMessage'',
      Post ''/text-alert'' ''handleSendSerialTextAlert'',
      Post ''/position'' ''handleSendSerialPosition'',
      Post ''/device-metrics'' ''handleSendSerialDeviceMetrics'',
      Post ''/display-config'' ''handleSendSerialDisplayConfig'',
      Post ''/bluetooth-config'' ''handleSendSerialBluetoothConfig'',
      Post ''/position-config'' ''handleSendSerialPositionConfig'',
      Post ''/shutdown'' ''handleSendSerialShutdown'',
      Post ''/nodedb-reset'' ''handleSendSerialNodedbReset'',
      Post ''/request-node-info'' ''handleSendSerialRequestNodeInfo'',
      Post ''/request-telemetry'' ''handleSendSerialRequestTelemetry'',
      Post ''/gps-broadcast'' ''handleGpsBroadcastToggle'',
      Post ''/status-broadcast/trigger'' ''handleStatusBroadcastTrigger'',
      Post ''/wake'' ''handleWakeDevice'',
      Get ''/config'' ''handleGetRadioConfig'',
      Post ''/simulate'' ''handleSerialSimulate'']"

definition routes_adsb :: "route list" where
  "routes_adsb = mount ''/adsb'' []
     [Get ''/status'' ''handleADSBStatus'',
      Get ''/tracks'' ''handleADSBTracks'',
      Get ''/config'' ''handleGetADSBConfig'',
      Put ''/config'' ''handleUpdateADSBConfig'',
      Get ''/log'' ''handleADSBLog'',
      Delete ''/log'' ''handleClearADSBLog'',
      Post ''/database/upload'' ''handleADSBDatabaseUpload'',
      Post ''/opensky/credentials'' ''handleADSBOpenSkyCredentials'',
      Get ''/opensky/{hex}'' ''handleADSBOpenSkyLookup'',
      Get ''/planespotters/{hex}'' ''handleADSBPlanespottersLookup'',
      Get ''/alerts/rules'' ''handleListADSBAlertRules'',
      Post ''/alerts/rules'' ''handleCreateADSBAlertRule'',
      Put ''/alerts/rules/{id}'' ''handleUpdateADSBAlertRule'',
      Delete ''/alerts/rules/{id}'' ''handleDeleteADSBAlertRule'']"

definition routes_mqtt :: "route list" where
  "routes_mqtt = mount ''/mqtt'' []
     [Get ''/sites'' ''handleListMQTTSites'',
      Put ''/sites/{siteId}'' ''handleUpdateMQTTSite'',
      Get ''/sites-status'' ''handleMQTTSitesStatus'',
      Post ''/sites/{siteId}/test'' ''handleTestMQTTSite'',
      Post ''/sites/{siteId}/restart'' ''handleRestartMQTTSite'',
      Get ''/config'' ''handleGetMQTTConfig'',
      Put ''/config'' ''handleUpdateMQTTConfig'']"

definition routes_updates :: "route list" where
  "routes_updates = mount ''/updates'' []
     [Get ''/check'' ''handleCheckUpdate'',
      Get ''/status'' ''handleUpdateStatus'',
      Post ''/trigger'' ''handleTriggerUpdate'',
      Get ''/history'' ''handleUpdateHistory'',
      Post ''/rollback/{id}'' ''handleRollbackUpdate'']"

definition routes_acars :: "route list" where
  "routes_acars = mount ''/acars'' []
     [Get ''/status'' ''handleACARSStatus'',
      Get ''/messages'' ''handleGetACARSMessages'',
      Delete ''/messages'' ''handleClearACARSMessages'',
      Post ''/config'' ''handleUpdateACARSConfig'']"

definition routes_tak :: "route list" where
  "routes_tak = mount ''/tak'' []
     [Get ''/config'' ''handleGetTAKConfig'',
      Put ''/config'' ''handleUpdateTAKConfig'',
      Post ''/reload'' ''handleTAKReload'',
      Post ''/send'' ''handleTAKSend'']"

definition routes_oui :: "route list" where
  "routes_oui = mount ''/oui'' []
     [Get ''/stats'' ''handleOUIStats'',
      Get ''/cache'' ''handleOUICache'',
      Post ''/import'' ''handleOUIImport'',
      Get ''/export'' ''handleOUIExport'',
      Get ''/resolve/{mac}'' ''handleOUIResolve'']"

definition routes_session :: "route list" where
  "routes_session =
     [Post ''/auth/logout'' ''handleLogout'',
      Get ''/auth/me'' ''handleMe'',
      Post ''/auth/legal-ack'' ''handleLegalAck'']"

definition routes_database :: "route list" where
  "routes_database = [Get ''/database/stats'' ''handleDatabaseStats'']"

definition routes_system :: "route list" where
  "routes_system =
     [Get ''/audit'' ''handleListAuditLogs'',
      Get ''/system/info'' ''handleSystemInfo'',
      Post ''/system/update'' ''handleSystemUpdate'']"

text \<open>The whole table.\<close>

definition protected_routes :: "route list" where
  "protected_routes = mount '''' [Authenticated] (routes_session @ routes_auth_2fa @ routes_users @ routes_sites @ routes_nodes @ routes_drones @ routes_commands @
     routes_chat @ routes_alerts @ routes_geofences @ routes_targets @ routes_inventory @ routes_ble @
     routes_probes_ssids @ routes_webhooks @ routes_config @ routes_alarms @ routes_firewall @ routes_faa @
     routes_tiles @ routes_database @ routes_admin @ routes_fleet_security @ routes_exports @ routes_serial @ routes_adsb @
     routes_mqtt @ routes_updates @ routes_acars @ routes_tak @ routes_oui @ routes_system)"

text \<open>The files of the front end: every path that no other entry takes, without authentication. A path that is not a file gets the start page.\<close>

definition static_routes :: "route list" where
  "static_routes = [\<lparr>rVerb = AnyVerb, rPath = ''/*'', rGuards = [], rHandler = ''static''\<rparr>]"

definition static_path :: "(string \<Rightarrow> bool) \<Rightarrow> string \<Rightarrow> string" where
  "static_path exists path = (if path = ''/'' then ''/'' else if exists path then path else ''/'')"

definition setupRoutes :: "route list" where
  "setupRoutes = open_routes @ mount ''/api'' [Limited] (login_routes @ protected_routes) @ static_routes"

section \<open>Admission\<close>

text \<open>
  What the middleware in front of a handler does with a request: the claims with which it gets
  there, or the status with which it is refused. \<open>busy\<close> says which of the limiters refuses.
\<close>

fun admit_guards :: "auth_env \<Rightarrow> (guard \<Rightarrow> bool) \<Rightarrow> string \<Rightarrow> guard list \<Rightarrow> Claims option \<Rightarrow> (nat + Claims option) auth" where
  "admit_guards e busy header [] claims = give (Inr claims)"
| "admit_guards e busy header (Authenticated # gs) claims = do {
     c \<leftarrow> Middleware e header;
     (case c of None \<Rightarrow> give (Inl 401) | Some c \<Rightarrow> admit_guards e busy header gs (Some c)) }"
| "admit_guards e busy header (MinRole r # gs) claims =
     (case RequireRole r claims of Some status \<Rightarrow> give (Inl status) | None \<Rightarrow> admit_guards e busy header gs claims)"
| "admit_guards e busy header (g # gs) claims = (if busy g then give (Inl 429) else admit_guards e busy header gs claims)"

definition admit :: "auth_env \<Rightarrow> (guard \<Rightarrow> bool) \<Rightarrow> string \<Rightarrow> route \<Rightarrow> (nat + Claims option) auth" where
  "admit e busy header r = admit_guards e busy header (rGuards r) None"

section \<open>Requests\<close>

text \<open>
  A request for one of the endpoints of accounts, with its path parameter and its body, and the
  whole way of a request: the middleware of its route and then the handler, which finds the claims
  in the request.
\<close>

datatype account_call =
    CallLogin "(string \<times> string) option" | CallRegister "(string \<times> string \<times> string) option" | CallForgot bool "string option"
  | CallReset "(string \<times> string) option" | CallLogout | CallMe | CallLegalAck | Call2FASetup | Call2FAVerify "string option"
  | Call2FAConfirm "string option" | Call2FADisable "(string \<times> string) option" | Call2FARegenerate | CallUsersMe | CallListUsers
  | CallCreateUser "(string \<times> string \<times> string \<times> string) option" | CallListFeatures | CallInvite "(string \<times> string) option"
  | CallGetUser string | CallUpdateUser string "(string \<times> string) option" | CallDeleteUser string | CallUnlock string
  | CallPermissions string "string list option" | CallSites string "(string \<times> string) list option" | CallAdminReset string
  | CallUserAudit string "int option" | CallAudit "int option"

fun endpoint :: "account_call \<Rightarrow> verb \<times> string" where
  "endpoint (CallLogin _) = (POST, ''/api/auth/login'')"
| "endpoint (CallRegister _) = (POST, ''/api/auth/register'')"
| "endpoint (CallForgot _ _) = (POST, ''/api/auth/forgot-password'')"
| "endpoint (CallReset _) = (POST, ''/api/auth/reset-password'')"
| "endpoint CallLogout = (POST, ''/api/auth/logout'')"
| "endpoint CallMe = (GET, ''/api/auth/me'')"
| "endpoint CallLegalAck = (POST, ''/api/auth/legal-ack'')"
| "endpoint Call2FASetup = (POST, ''/api/auth/2fa/setup'')"
| "endpoint (Call2FAVerify _) = (POST, ''/api/auth/2fa/verify'')"
| "endpoint (Call2FAConfirm _) = (POST, ''/api/auth/2fa/confirm'')"
| "endpoint (Call2FADisable _) = (POST, ''/api/auth/2fa/disable'')"
| "endpoint Call2FARegenerate = (POST, ''/api/auth/2fa/recovery/regenerate'')"
| "endpoint CallUsersMe = (GET, ''/api/users/me'')"
| "endpoint CallListUsers = (GET, ''/api/users/'')"
| "endpoint (CallCreateUser _) = (POST, ''/api/users/'')"
| "endpoint CallListFeatures = (GET, ''/api/users/features'')"
| "endpoint (CallInvite _) = (POST, ''/api/users/invite'')"
| "endpoint (CallGetUser _) = (GET, ''/api/users/{id}'')"
| "endpoint (CallUpdateUser _ _) = (PUT, ''/api/users/{id}'')"
| "endpoint (CallDeleteUser _) = (DELETE, ''/api/users/{id}'')"
| "endpoint (CallUnlock _) = (POST, ''/api/users/{id}/unlock'')"
| "endpoint (CallPermissions _ _) = (PATCH, ''/api/users/{id}/permissions'')"
| "endpoint (CallSites _ _) = (PATCH, ''/api/users/{id}/sites'')"
| "endpoint (CallAdminReset _) = (POST, ''/api/users/{id}/password-reset'')"
| "endpoint (CallUserAudit _ _) = (GET, ''/api/users/{id}/audit'')"
| "endpoint (CallAudit _) = (GET, ''/api/audit'')"

fun account_handler :: "auth_env \<Rightarrow> bool \<Rightarrow> request \<Rightarrow> account_call \<Rightarrow> reply auth" where
  "account_handler e mailOn r (CallLogin b) = handleLogin e r b"
| "account_handler e mailOn r (CallRegister b) = handleRegister e b"
| "account_handler e mailOn r (CallForgot late b) = handleForgotPassword e mailOn late r b"
| "account_handler e mailOn r (CallReset b) = handleResetPassword e b"
| "account_handler e mailOn r CallLogout = handleLogout"
| "account_handler e mailOn r CallMe = handleMe e r"
| "account_handler e mailOn r CallLegalAck = handleLegalAck e r"
| "account_handler e mailOn r Call2FASetup = handle2FASetup e r"
| "account_handler e mailOn r (Call2FAVerify b) = handle2FAVerify e r b"
| "account_handler e mailOn r (Call2FAConfirm b) = handle2FAConfirm e r b"
| "account_handler e mailOn r (Call2FADisable b) = handle2FADisable e r b"
| "account_handler e mailOn r Call2FARegenerate = handle2FARecoveryRegenerate e r"
| "account_handler e mailOn r CallUsersMe = handleMe e r"
| "account_handler e mailOn r CallListUsers = handleListUsers e"
| "account_handler e mailOn r (CallCreateUser b) = handleCreateUser e r b"
| "account_handler e mailOn r CallListFeatures = handleListFeatures"
| "account_handler e mailOn r (CallInvite b) = handleInviteUser e mailOn r b"
| "account_handler e mailOn r (CallGetUser i) = handleGetUser e i"
| "account_handler e mailOn r (CallUpdateUser i b) = handleUpdateUser e r i b"
| "account_handler e mailOn r (CallDeleteUser i) = handleDeleteUser e r i"
| "account_handler e mailOn r (CallUnlock i) = handleUnlockUser e r i"
| "account_handler e mailOn r (CallPermissions i b) = handleUpdateUserPermissions e i b"
| "account_handler e mailOn r (CallSites i b) = handleUpdateUserSites e i b"
| "account_handler e mailOn r (CallAdminReset i) = handleAdminPasswordReset e mailOn r i"
| "account_handler e mailOn r (CallUserAudit i n) = handleGetUserAudit e i n"
| "account_handler e mailOn r (CallAudit n) = handleListAuditLogs e n"

definition route_of :: "account_call \<Rightarrow> route option" where
  "route_of q = find (\<lambda>r. (rVerb r, rPath r) = endpoint q) setupRoutes"

definition serve :: "auth_env \<Rightarrow> (guard \<Rightarrow> bool) \<Rightarrow> bool \<Rightarrow> string \<Rightarrow> request \<Rightarrow> account_call \<Rightarrow> reply auth" where
  "serve e busy mailOn header r q =
     (case route_of q of
        None \<Rightarrow> answer 404 (ErrorText [])
      | Some route \<Rightarrow> do {
          a \<leftarrow> admit e busy header route;
          (case a of Inl status \<Rightarrow> answer status (ErrorText []) | Inr claims \<Rightarrow> account_handler e mailOn (r\<lparr>reqClaims := claims\<rparr>) q) })"

end
