(* ===== verification/RouteProofs.thy ===== *)
theory RouteProofs
  imports Routes
begin

text \<open>
  What the routing table guarantees: which requests reach a handler and with which claims.
\<close>

section \<open>Running\<close>

abbreviation result :: "('s, 'a) state \<Rightarrow> 's \<Rightarrow> 'a" where "result m w \<equiv> fst (run_state m w)"
abbreviation world_after :: "('s, 'a) state \<Rightarrow> 's \<Rightarrow> 's" where "world_after m w \<equiv> snd (run_state m w)"

lemma run_bind [simp]: "run_state (State_Monad.bind m f) w = run_state (f (result m w)) (world_after m w)"
  by (simp add: State_Monad.bind_def case_prod_beta)

lemma run_stmt: "run_state (stmt e f) w =
    (if stmt_ok e (stmts w) then f (time_at e (stmts w)) (w\<lparr>stmts := Suc (stmts w)\<rparr>) else (Inl ErrDatabase, w\<lparr>stmts := Suc (stmts w)\<rparr>))"
  by (simp add: stmt_def Let_def)

declare run_state_bind [simp del]

lemma run_clock [simp]: "run_state (clock e) w = (time_at e (stmts w), w\<lparr>stmts := Suc (stmts w)\<rparr>)"
  by (simp add: clock_def)

lemma run_draw [simp]: "run_state draw w = (stmts w, w\<lparr>stmts := Suc (stmts w)\<rparr>)"
  by (simp add: draw_def)

lemma on_ok_simps [simp]: "on_ok (Inr x) k = k x" "on_ok (Inl er) k = err er"
  by (simp_all add: on_ok_def)

lemmas run_primitives = run_stmt select_def update_user_def select_user_def insert_user_def insert_reset_def user_by_def Let_def

section \<open>Admission\<close>

definition bearer_token :: "string \<Rightarrow> string option" where
  "bearer_token header =
     (case split_header header of Some (scheme, tok) \<Rightarrow> if EqualFold_ascii scheme ''bearer'' then Some tok else None | None \<Rightarrow> None)"

text \<open>The claims that stand behind a token at a time: those of the service, or those that were signed.\<close>

definition token_claims :: "auth_env \<Rightarrow> int \<Rightarrow> string \<Rightarrow> Claims option" where
  "token_claims e t tok = (if serviceToken e \<noteq> [] \<and> tok = serviceToken e then Some service_claims else jwtParse e t tok)"

lemma result_Middleware: "result (Middleware e header) w =
    (case bearer_token header of None \<Rightarrow> None | Some tok \<Rightarrow> token_claims e (time_at e (stmts w)) tok)"
  by (simp add: Middleware_def bearer_token_def token_claims_def ValidateToken_def split_header_def split: option.splits list.splits)

fun limiter_or_role :: "guard \<Rightarrow> bool" where
  "limiter_or_role Authenticated = False"
| "limiter_or_role _ = True"

text \<open>A route of the protected group: the limiter, the authentication, and then only limiters and roles.\<close>

definition guarded :: "route \<Rightarrow> bool" where
  "guarded r = (\<exists>gs. rGuards r = Limited # Authenticated # gs \<and> list_all limiter_or_role gs)"

definition public_paths :: "string list" where
  "public_paths = [''/api/health'', ''/healthz'', ''/readyz'', ''/ws'', ''/api/tiles/{provider}/{z}/{x}/{y}'',
     ''/api/auth/login'', ''/api/auth/register'', ''/api/auth/forgot-password'', ''/api/auth/reset-password'', ''/*'']"

lemma public_routes: "map rPath (filter (\<lambda>r. Authenticated \<notin> set (rGuards r)) setupRoutes) = public_paths"
  by code_simp

lemma protected_guards: "list_all (\<lambda>r. case rGuards r of Authenticated # gs \<Rightarrow> list_all limiter_or_role gs | _ \<Rightarrow> False) protected_routes"
  by code_simp

lemma guard_shape: "(case xs of Authenticated # gs \<Rightarrow> P gs | _ \<Rightarrow> False) \<Longrightarrow> \<exists>gs. xs = Authenticated # gs \<and> P gs"
  by (cases xs) (auto split: guard.splits)

lemma protected_inner: assumes "r \<in> set protected_routes" shows "\<exists>gs. rGuards r = Authenticated # gs \<and> list_all limiter_or_role gs"
  using bspec [OF list_all_iff [THEN iffD1, OF protected_guards] assms] by (rule guard_shape)

lemma public_or_guarded: assumes "r \<in> set setupRoutes" shows "rPath r \<in> set public_paths \<or> guarded r"
proof -
  have "\<forall>r \<in> set (open_routes @ mount ''/api'' [Limited] login_routes @ static_routes). rPath r \<in> set public_paths"
    by (simp add: open_routes_def login_routes_def static_routes_def mount_def public_paths_def)
  moreover have "\<forall>r \<in> set (mount ''/api'' [Limited] protected_routes). guarded r"
    using protected_inner by (force simp: mount_def guarded_def)
  ultimately show ?thesis using assms by (auto simp: setupRoutes_def mount_def)
qed

text \<open>Behind the authentication only limiters and roles decide.\<close>

definition roles_met :: "guard list \<Rightarrow> string \<Rightarrow> bool" where
  "roles_met gs role = list_all (\<lambda>g. case g of MinRole m \<Rightarrow> hasMinRole role m | _ \<Rightarrow> True) gs"

lemma admit_guards_sound:
  assumes "list_all limiter_or_role gs" "result (admit_guards e busy header gs (Some c)) w = Inr claims"
  shows "claims = Some c \<and> roles_met gs (ClaimRole c)"
  using assms
proof (induction gs)
  case (Cons g gs)
  then show ?case by (cases g) (auto simp: RequireRole_def roles_met_def split: if_splits)
qed (simp add: roles_met_def)

lemma admit_guards_complete:
  assumes "list_all limiter_or_role gs" "roles_met gs (ClaimRole c)"
  shows "run_state (admit_guards e (\<lambda>_. False) header gs (Some c)) w = (Inr (Some c), w)"
  using assms
proof (induction gs)
  case (Cons g gs)
  then show ?case by (cases g) (auto simp: RequireRole_def roles_met_def)
qed simp

lemma admit_sound:
  assumes "guarded r" "result (admit e busy header r) w = Inr claims"
  shows "\<exists>c tok. claims = Some c \<and> bearer_token header = Some tok \<and> token_claims e (time_at e (stmts w)) tok = Some c \<and> roles_met (rGuards r) (ClaimRole c)"
proof -
  obtain gs where gs: "rGuards r = Limited # Authenticated # gs" "list_all limiter_or_role gs" using assms(1) by (auto simp: guarded_def)
  from assms(2) obtain c tok where c: "bearer_token header = Some tok" "token_claims e (time_at e (stmts w)) tok = Some c"
    and r: "result (admit_guards e busy header gs (Some c)) (world_after (Middleware e header) w) = Inr claims"
    by (auto simp: admit_def gs(1) result_Middleware split: if_splits option.splits)
  show ?thesis using admit_guards_sound [OF gs(2) r] c by (simp add: gs roles_met_def)
qed

lemma admit_complete:
  assumes "guarded r" "bearer_token header = Some tok" "token_claims e (time_at e (stmts w)) tok = Some c" "roles_met (rGuards r) (ClaimRole c)"
  shows "result (admit e (\<lambda>_. False) header r) w = Inr (Some c)"
proof -
  obtain gs where gs: "rGuards r = Limited # Authenticated # gs" "list_all limiter_or_role gs" using assms(1) by (auto simp: guarded_def)
  then have "roles_met gs (ClaimRole c)" using assms(4) by (simp add: roles_met_def)
  then show ?thesis using assms(2,3) gs by (simp add: admit_def result_Middleware admit_guards_complete)
qed

lemma hasMinRole_admin [simp]: "hasMinRole role RoleAdmin \<longleftrightarrow> role = RoleAdmin"
  by (simp add: hasMinRole_def RoleAdmin_def RoleOperator_def RoleAnalyst_def RoleViewer_def)

text \<open>The handlers that are meant for administrators: those that wipe or prune data, and those that change identities, the trust roster
  or the channel keys, reveal a key, or run a recovery.\<close>

definition admin_handlers :: "string list" where
  "admin_handlers =
     [''handleClearDetectionData'', ''handleClearOperationalData'', ''handlePruneOldData'', ''handleFactoryReset'', ''handleClearTileCache'',
      ''handleFleetSecImportIdentity'', ''handleFleetSecRegisterIdentity'', ''handleFleetSecRevokeIdentity'', ''handleFleetSecSetAdminKeys'',
      ''handleFleetSecSetIsManaged'', ''handleFleetSecRotatePSK'', ''handleFleetSecRevealChannelPSK'', ''handleFleetSecRetryRotation'',
      ''handleFleetSecRetireOldPSK'', ''handleFleetSecStartRecovery'', ''handleFleetSecGetRecovery'', ''handleFleetSecRecoverStrandedNow'',
      ''handleFleetSecCancelStranded'']"

text \<open>They are those of the entries that ask for the role of an administrator, and no other entry leads to them.\<close>

lemma admin_routes: "map rHandler (filter (\<lambda>r. MinRole RoleAdmin \<in> set (rGuards r)) setupRoutes) = admin_handlers"
  by code_simp

lemma admin_handlers_guarded: "list_all (\<lambda>r. rHandler r \<in> set admin_handlers \<longrightarrow> MinRole RoleAdmin \<in> set (rGuards r)) setupRoutes"
  by code_simp

end
