(* ===== verification/AuthProofs.thy ===== *)
theory AuthProofs
  imports RouteProofs
begin

text \<open>
  The account endpoints: invariants of the tables over every sequence of requests, proved once in
  the locale \<open>account_rows\<close> and interpreted for the columns of the users, what a token is good for,
  and the lockout of an account.
\<close>

section \<open>Invariants\<close>

definition keeps :: "('s \<Rightarrow> bool) \<Rightarrow> ('s, 'a) state \<Rightarrow> bool" where
  "keeps I m = (\<forall>w. I w \<longrightarrow> I (world_after m w))"

named_theorems keep

lemma keeps_give [keep]: "keeps I (give x)"
  by (simp add: keeps_def)

lemma keeps_bind [keep]: "keeps I m \<Longrightarrow> (\<And>x. keeps I (f x)) \<Longrightarrow> keeps I (State_Monad.bind m f)"
  by (simp add: keeps_def)

lemma keeps_if [keep]: "(b \<Longrightarrow> keeps I m) \<Longrightarrow> (\<not> b \<Longrightarrow> keeps I n) \<Longrightarrow> keeps I (if b then m else n)"
  by simp

lemma keeps_option [keep]: "(y = None \<Longrightarrow> keeps I m) \<Longrightarrow> (\<And>x. y = Some x \<Longrightarrow> keeps I (f x)) \<Longrightarrow> keeps I (case y of None \<Rightarrow> m | Some x \<Rightarrow> f x)"
  by (cases y) simp_all

lemma keeps_sum [keep]: "(\<And>x. keeps I (f x)) \<Longrightarrow> (\<And>x. keeps I (g x)) \<Longrightarrow> keeps I (case y of Inl x \<Rightarrow> f x | Inr x \<Rightarrow> g x)"
  by (cases y) simp_all

lemma keeps_prod [keep]: "(\<And>x y. keeps I (f x y)) \<Longrightarrow> keeps I (case p of (x, y) \<Rightarrow> f x y)"
  by (cases p) simp

lemma keeps_on_ok [keep]: "(\<And>x. keeps I (k x)) \<Longrightarrow> keeps I (on_ok r k)"
  by (cases r) (simp_all add: keeps_give)

lemma keeps_with_claims [keep]: "(\<And>c. keeps I (k c)) \<Longrightarrow> keeps I (with_claims r k)"
  by (simp add: with_claims_def keeps_give split: option.splits)

lemma keeps_with_body [keep]: "(\<And>b. keeps I (k b)) \<Longrightarrow> keeps I (with_body b k)"
  by (simp add: with_body_def keeps_give split: option.splits)

lemma keeps_stmt: "(\<And>t w. I w \<Longrightarrow> I (snd (f t (w\<lparr>stmts := Suc (stmts w)\<rparr>))) \<and> I (w\<lparr>stmts := Suc (stmts w)\<rparr>)) \<Longrightarrow> keeps I (stmt e f)"
  by (simp add: keeps_def run_stmt)

text \<open>A condition on every user and one on every reset; no two users have the same address.\<close>

definition rows_ok :: "(user_row \<Rightarrow> bool) \<Rightarrow> (reset_row \<Rightarrow> bool) \<Rightarrow> auth_world \<Rightarrow> bool" where
  "rows_ok P Q w = (list_all P (users w) \<and> list_all Q (resets w) \<and> distinct (map uEmail (users w)))"

lemma rows_ok_update [simp]:
  "rows_ok P Q (w\<lparr>stmts := n\<rparr>) = rows_ok P Q w"
  "rows_ok P Q (w\<lparr>ids := n\<rparr>) = rows_ok P Q w"
  "rows_ok P Q (w\<lparr>permissions := x1\<rparr>) = rows_ok P Q w"
  "rows_ok P Q (w\<lparr>siteAccess := x2\<rparr>) = rows_ok P Q w"
  "rows_ok P Q (w\<lparr>invitations := x3\<rparr>) = rows_ok P Q w"
  "rows_ok P Q (w\<lparr>audits := x4\<rparr>) = rows_ok P Q w"
  by (simp_all add: rows_ok_def)

lemma keeps_clock [keep]: "keeps (rows_ok P Q) (clock e)"
  by (simp add: keeps_def)

lemma keeps_draw [keep]: "keeps (rows_ok P Q) draw"
  by (simp add: keeps_def)

lemma keeps_select [keep]: "keeps (rows_ok P Q) (select e q)"
  by (simp add: select_def keeps_stmt)

lemma keeps_select_user [keep]: "keeps (rows_ok P Q) (select_user e i)"
  by (simp add: select_user_def keeps_stmt)

lemma keeps_update_user:
  assumes "\<And>t u. P u \<Longrightarrow> P (f t u)" "\<And>t u. uEmail (f t u) = uEmail u"
  shows "keeps (rows_ok P Q) (update_user e i f)"
proof -
  have "uEmail \<circ> (\<lambda>u. if uID u = i then f t u else u) = uEmail" for t using assms(2) by (simp add: fun_eq_iff)
  then show ?thesis using assms(1) by (auto simp: update_user_def rows_ok_def list_all_iff intro!: keeps_stmt)
qed

lemma keeps_random_hex [keep]: "keeps (rows_ok P Q) (random_hex e n)"
  unfolding random_hex_def by (intro keep)

lemma keeps_recovery_codes [keep]: "keeps (rows_ok P Q) (recovery_codes e n)"
  by (induction n) (auto intro!: keep)

lemma keeps_hash_codes [keep]: "keeps (rows_ok P Q) (hash_codes e cs)"
  by (induction cs) (auto intro!: keep)

lemma keeps_Log [keep]: "keeps (rows_ok P Q) (Log e a b c d f)"
  unfolding Log_def by (intro keep keeps_stmt) simp

lemma keeps_Middleware [keep]: "keeps (rows_ok P Q) (Middleware e header)"
  unfolding Middleware_def ValidateToken_def by (intro keep)

lemma keeps_admit [keep]: "keeps (rows_ok P Q) (admit e busy header r)"
proof -
  have "keeps (rows_ok P Q) (admit_guards e busy header gs c)" for gs c
    by (induction e busy header gs c rule: admit_guards.induct) (auto intro!: keep)
  then show ?thesis by (simp add: admit_def)
qed

lemma keeps_generateToken [keep]: "keeps (rows_ok P Q) (generateToken e u)"
  unfolding generateToken_def Let_def by (intro keep)

lemmas readers = GetUser_def ValidateTOTP_def VerifyPassword_def List_users_def GetByID_user_def GetRecent_def GetAuditLogs_def

lemma keeps_readers [keep]:
  "keeps (rows_ok P Q) (GetUser e i)" "keeps (rows_ok P Q) (ValidateTOTP e i code)" "keeps (rows_ok P Q) (VerifyPassword e i pw)"
  "keeps (rows_ok P Q) (List_users e)" "keeps (rows_ok P Q) (GetByID_user e i)" "keeps (rows_ok P Q) (GetRecent e n)"
  "keeps (rows_ok P Q) (GetAuditLogs e i n)"
  unfolding readers by (intro keep keeps_stmt; simp)+

section \<open>An environment\<close>

text \<open>For the witnesses: a database that works, a clock that stands still, hashes that are marked passwords, and one signed token.\<close>

definition demo_claims :: "string \<Rightarrow> Claims" where
  "demo_claims role = \<lparr>UserID = ''u1'', Email = ''a@b'', ClaimRole = role, ExpiresAt = 24 * hours\<rparr>"

definition demo_env :: "string \<Rightarrow> auth_env" where
  "demo_env role = \<lparr>stmt_ok = \<lambda>_. True, time_at = \<lambda>_. 0, is_uuid = \<lambda>i. take 1 i = ''u'', uuid = \<lambda>n. ''u'' @ replicate n (CHR ''0''),
     bcryptHash = \<lambda>_ p. Some (CHR ''#'' # p), bcryptCompare = \<lambda>h p. h = CHR ''#'' # p,
     jwtSign = \<lambda>c. if c = demo_claims role then Some ''jwt'' else None,
     jwtParse = \<lambda>t tok. if tok = ''jwt'' \<and> t < 24 * hours then Some (demo_claims role) else None,
     totpGenerate = \<lambda>_ _. None, totpValidate = \<lambda>_ _ _. False, randRead = \<lambda>_ _. None, serviceToken = ''service'', jwtExpiry = None,
     LockoutThreshold = 1, LockoutDurationMinutes = 15, PasswordResetExpiryHours = 1, InviteExpiryHours = 1, knownSites = [], scanGoesOn = False\<rparr>"

definition demo_user :: "string \<Rightarrow> user_row" where
  "demo_user role = (new_user ''u1'' ''a@b'' ''#pw'' ''ann'' role 0)\<lparr>uTotpEnabled := True\<rparr>"

definition demo_world :: "string \<Rightarrow> auth_world" where
  "demo_world role = \<lparr>stmts = 0, ids = 0, users = [demo_user role], resets = [\<lparr>rsUser = ''u1'', rsToken = ''t'', rsExpiresAt = 5, rsUsed = False\<rparr>],
     permissions = [], siteAccess = [], invitations = [], audits = []\<rparr>"

definition demo_request :: request where
  "demo_request = \<lparr>reqClaims = None, reqRemoteAddr = [], reqForwardedFor = [], reqHost = [], reqForwardedHost = [], reqTLS = False\<rparr>"

lemmas demo = demo_env_def demo_claims_def demo_user_def demo_world_def new_user_def

section \<open>Rows\<close>

text \<open>Any sequence of requests, each with what the limiters say to it.\<close>

fun serve_all :: "auth_env \<Rightarrow> bool \<Rightarrow> ((guard \<Rightarrow> bool) \<times> string \<times> request \<times> account_call) list \<Rightarrow> reply list auth" where
  "serve_all e mailOn [] = give []"
| "serve_all e mailOn ((busy, header, r, q) # qs) = do {
     x \<leftarrow> serve e busy mailOn header r q;
     xs \<leftarrow> serve_all e mailOn qs;
     give (x # xs) }"

text \<open>
  The contract of a condition on the rows: new users have it and every statement of the services that writes a row keeps it.
  Then every request keeps it.
\<close>

locale account_rows =
  fixes e :: auth_env and P :: "user_row \<Rightarrow> bool" and Q :: "reset_row \<Rightarrow> bool"
  assumes created: "role \<in> set user_role \<Longrightarrow> P (new_user i email hash name role t)"
    and hash: "P u \<Longrightarrow> P (u\<lparr>uHash := h\<rparr>)"
    and profile: "P u \<Longrightarrow> role \<in> set user_role \<Longrightarrow> P (u\<lparr>uName := n, uRole := role\<rparr>)"
    and secret: "P u \<Longrightarrow> P (u\<lparr>uTotpSecret := s\<rparr>)"
    and enabled: "P u \<Longrightarrow> P (u\<lparr>uTotpEnabled := b\<rparr>)"
    and codes: "P u \<Longrightarrow> P (u\<lparr>uRecoveryCodes := cs\<rparr>)"
    and terms: "P u \<Longrightarrow> P (u\<lparr>uTosAccepted := b, uTosAcceptedAt := ta\<rparr>)"
    and failed: "P u \<Longrightarrow> P (u\<lparr>uFailed := uFailed u + 1, uLockedAt := la, uLockedUntil := lu\<rparr>)"
    and unlocked: "P u \<Longrightarrow> P (u\<lparr>uLockedAt := None, uLockedUntil := None, uFailed := 0\<rparr>)"
    and entered: "P u \<Longrightarrow> P (u\<lparr>uLastLogin := ll, uLastLoginIP := ip\<rparr>)"
    and reset_created: "randRead e k 32 = Some bs \<Longrightarrow> Q \<lparr>rsUser = i, rsToken = hex_string bs, rsExpiresAt = t, rsUsed = False\<rparr>"
    and reset_used: "Q r \<Longrightarrow> Q (r\<lparr>rsUsed := True\<rparr>)"
begin

abbreviation inv :: "auth_world \<Rightarrow> bool" where "inv \<equiv> rows_ok P Q"

lemma keeps_insert_user: "keeps inv (insert_user e email h n role)"
  unfolding insert_user_def by (intro keeps_stmt) (auto simp: rows_ok_def Let_def list_ex_iff new_user_def intro: created [unfolded new_user_def])

lemma keeps_reset_token: "keeps inv (do { r \<leftarrow> random_hex e 32; on_ok r (\<lambda>tok. do {
    t \<leftarrow> clock e; x \<leftarrow> insert_reset e i tok (f t); k tok x }) })" if "\<And>tok x. keeps inv (k tok x)"
  using that by (auto simp: keeps_def random_hex_def insert_reset_def run_stmt rows_ok_def reset_created split: option.splits)

lemma entered': assumes "P u" shows "P (u\<lparr>uLastLogin := ll, uFailed := 0, uLockedAt := None, uLockedUntil := None, uLastLoginIP := ip\<rparr>)"
proof -
  have "u\<lparr>uLastLogin := ll, uFailed := 0, uLockedAt := None, uLockedUntil := None, uLastLoginIP := ip\<rparr> =
    (u\<lparr>uLockedAt := None, uLockedUntil := None, uFailed := 0\<rparr>)\<lparr>uLastLogin := ll, uLastLoginIP := ip\<rparr>" by simp
  then show ?thesis using unlocked entered assms by metis
qed

lemma keeps_Login: "keeps inv (Login e email pw ip)"
  unfolding Login_def Let_def by (intro keep keeps_update_user; (erule failed entered')?) simp_all

lemma keeps_Register: "keeps inv (Auth.Register e email pw n)"
  unfolding Auth.Register_def Let_def by (intro keep keeps_insert_user)

lemma keeps_totp: "keeps inv (SetupTOTP e i)" "keeps inv (VerifyTOTP e i code)" "keeps inv (DisableTOTP e i)"
    "keeps inv (RegenerateRecoveryCodes e i)"
  unfolding SetupTOTP_def VerifyTOTP_def DisableTOTP_def RegenerateRecoveryCodes_def
  by (intro keep keeps_update_user; auto intro: secret enabled codes dest: secret enabled)+

lemma keeps_ResetPassword: "keeps inv (ResetPassword e tok pw)"
  unfolding ResetPassword_def
  by (intro keep keeps_update_user keeps_stmt) (auto simp: rows_ok_def list_all_iff intro: hash reset_used)

lemma keeps_administration: "keeps inv (UnlockUser e i)" "keeps inv (AcceptTOS e i)" "keeps inv (Create_user e email pw n role)"
    "keeps inv (Update_user e i n role)" "keeps inv (Delete_user e i)"
  unfolding UnlockUser_def AcceptTOS_def Create_user_def Update_user_def Delete_user_def
  by (intro keep keeps_insert_user keeps_update_user keeps_stmt; auto simp: rows_ok_def list_all_iff distinct_map_filter intro: unlocked terms profile)+

lemma keeps_CreateInvitation: "keeps inv (CreateInvitation e email role by)"
  unfolding CreateInvitation_def by (intro keep keeps_stmt) (auto simp: Let_def)

lemma keeps_in_transaction: "keeps inv m \<Longrightarrow> keeps inv (in_transaction e m)"
  by (auto simp: keeps_def in_transaction_def run_stmt on_ok_def split: prod.splits sum.splits if_splits)

lemma keeps_insert_access: "keeps inv (insert_access e u xs)"
  by (induction e u xs rule: insert_access.induct) (auto simp: put_access_def intro!: keep keeps_stmt)

lemma keeps_insert_features: "keeps inv (insert_features e u xs)"
  by (induction e u xs rule: insert_features.induct) (auto intro!: keep keeps_stmt)

lemma keeps_grants: "keeps inv (SetSiteAccess e i access)" "keeps inv (SetUserFeatures e i features)"
  unfolding SetSiteAccess_def SetUserFeatures_def
  by (intro keeps_in_transaction keep keeps_insert_access keeps_insert_features keeps_stmt; auto)+

lemma keeps_GeneratePasswordResetToken: "keeps inv (GeneratePasswordResetToken e i)"
  unfolding GeneratePasswordResetToken_def by (intro keep keeps_reset_token)

lemma keeps_forgot_task: "keeps inv (forgot_task e late r email)"
proof -
  have "keeps inv (do { h \<leftarrow> random_hex e 32; (case h of Inl _ \<Rightarrow> give [] | Inr tok \<Rightarrow> do { t \<leftarrow> clock e;
      x \<leftarrow> insert_reset e i tok (f t); give (g tok x) }) })" for i f and g :: "string \<Rightarrow> auth_error + unit \<Rightarrow> mail list"
    by (auto simp: keeps_def random_hex_def insert_reset_def run_stmt rows_ok_def reset_created split: option.splits sum.splits)
  note token = this
  show ?thesis unfolding forgot_task_def by (rule keep token)+
qed

lemmas operations = keeps_Login keeps_Register keeps_totp keeps_ResetPassword keeps_administration keeps_CreateInvitation keeps_grants
  keeps_GeneratePasswordResetToken keeps_forgot_task

lemma keeps_account_handler: "keeps inv (account_handler e mailOn r q)"
  by (cases q; simp only: account_handler.simps;
      unfold handleLogin_def handleRegister_def handleForgotPassword_def handleResetPassword_def handleLogout_def handleMe_def
        handleLegalAck_def handle2FASetup_def handle2FAConfirm_def handle2FAVerify_def handle2FADisable_def handle2FARecoveryRegenerate_def
        handleListUsers_def handleCreateUser_def handleListFeatures_def handleInviteUser_def handleGetUser_def handleUpdateUser_def
        handleDeleteUser_def handleUnlockUser_def handleUpdateUserPermissions_def handleUpdateUserSites_def handleAdminPasswordReset_def
        handleGetUserAudit_def handleListAuditLogs_def Let_def; intro keep operations)

lemma keeps_serve: "keeps inv (serve e busy mailOn header r q)"
  unfolding serve_def by (intro keep keeps_account_handler)

lemma serve_all_keeps: "inv w \<Longrightarrow> inv (world_after (serve_all e mailOn qs) w)"
proof (induction qs arbitrary: w)
  case (Cons q qs)
  then show ?case using keeps_serve by (cases q) (auto simp: keeps_def)
qed simp

end

text \<open>Instances: users have a known role and a count of failures, and no user has a site.\<close>

definition user_ok :: "user_row \<Rightarrow> bool" where
  "user_ok u = (uRole u \<in> set user_role \<and> 0 \<le> uFailed u)"

definition siteless :: "user_row \<Rightarrow> bool" where
  "siteless u = (uSite u = None)"

interpretation users_ok: account_rows e user_ok "\<lambda>_. True"
  by unfold_locales (auto simp: user_ok_def new_user_def)

interpretation no_sites: account_rows e siteless "\<lambda>_. True"
  by unfold_locales (auto simp: siteless_def new_user_def)

text \<open>Over every sequence of requests to the account endpoints, whichever statements fail and whatever the tokens say,
  no two users have the same address, every role is one of the four and no count of failed logins is negative.\<close>

theorem accounts_invariant:
  assumes "list_all user_ok (users w)" "distinct (map uEmail (users w))"
  shows "list_all user_ok (users (world_after (serve_all e mailOn qs) w)) \<and> distinct (map uEmail (users (world_after (serve_all e mailOn qs) w)))"
  using users_ok.serve_all_keeps [of w e mailOn qs] assms by (simp add: rows_ok_def list.pred_True)

lemma scan_rows_none: "list_all (\<lambda>r. f r = None) rs \<Longrightarrow> scan_rows e f rs = []"
  by (induction rs) (auto simp: scan_rows_def List.map_filter_def)

text \<open>No endpoint ever gives a user a site, and a row without one cannot be read by the user list: over every sequence of
  requests the list of users stays empty and no user is found by its identifier.\<close>

theorem user_list_stays_empty:
  assumes "list_all siteless (users w)" "distinct (map uEmail (users w))" "w' = world_after (serve_all e mailOn qs) w"
  shows "result (handleListUsers e) w' \<in> {(200, UsersBody [], []), (500, ErrorText ''failed to list users'', [])} \<and>
    result (handleGetUser e i) w' = (404, ErrorText ''user not found'', [])"
proof -
  have s: "list_all siteless (users w')"
    using no_sites.serve_all_keeps [of w e mailOn qs] assms by (simp add: rows_ok_def list.pred_True)
  then have "list_all (\<lambda>u. scan_user u = None) (sort_key uCreatedAt (users w'))"
    by (auto simp: list_all_iff siteless_def scan_user_def split: option.splits)
  then have "result (handleListUsers e) w' \<in> {(200, UsersBody [], []), (500, ErrorText ''failed to list users'', [])}"
    by (auto simp: handleListUsers_def List_users_def select_def run_stmt scan_rows_none)
  moreover have "scan_user u = None" if "find p (users w') = Some u" for p u
    using s that by (auto simp: find_Some_iff list_all_length siteless_def scan_user_def split: option.splits)
  then have "result (handleGetUser e i) w' = (404, ErrorText ''user not found'', [])"
    by (auto simp: handleGetUser_def GetByID_user_def select_user_def run_stmt user_by_def split: option.splits)
  ultimately show ?thesis ..
qed

text \<open>The token of a reset that has been used.\<close>

definition spent :: "string \<Rightarrow> reset_row \<Rightarrow> bool" where
  "spent tok r = (rsToken r = tok \<longrightarrow> rsUsed r)"

lemma spent_rows: "(\<And>k bs. randRead e k 32 = Some bs \<Longrightarrow> hex_string bs \<noteq> tok) \<Longrightarrow> account_rows e (\<lambda>_. True) (spent tok)"
  by unfold_locales (auto simp: spent_def)

lemma ResetPassword_success:
  assumes "result (ResetPassword e tok pw) w = Inr ()" "\<And>n. stmt_ok e n"
  shows "list_all (spent tok) (resets (world_after (ResetPassword e tok pw) w)) \<and>
    map uEmail (users (world_after (ResetPassword e tok pw) w)) = map uEmail (users w)"
proof -
  let ?q = "find (\<lambda>r. rsToken r = tok \<and> \<not> rsUsed r) (resets w)"
  have ok: "stmt_ok e n" for n by (rule assms(2))
  obtain r where "?q = Some r" using assms(1) by (cases ?q) (simp_all add: ResetPassword_def run_primitives ok)
  then show ?thesis using assms(1)
    by (cases "bcryptHash e (Suc (Suc (stmts w))) pw"; cases "is_uuid e (rsUser r)")
      (simp_all add: ResetPassword_def run_primitives ok spent_def list.pred_map comp_def list.pred_True split: if_splits)
qed

lemma ResetPassword_refused:
  assumes "list_all (spent tok) (resets w)" shows "result (ResetPassword e tok pw) w = Inl ErrInvalidToken"
proof -
  have "find (\<lambda>r. rsToken r = tok \<and> \<not> rsUsed r) (resets w) = None"
    using assms by (auto simp: find_None_iff list_all_iff spent_def)
  then show ?thesis by (simp add: ResetPassword_def run_primitives)
qed

text \<open>A password reset token works once: after a reset with it no further one succeeds, whatever requests lie between,
  provided the token is not drawn again.\<close>

theorem reset_token_works_once:
  assumes "result (ResetPassword e tok pw) w = Inr ()" "\<And>n. stmt_ok e n" "distinct (map uEmail (users w))"
    and "\<And>k bs. randRead e k 32 = Some bs \<Longrightarrow> hex_string bs \<noteq> tok"
  shows "result (ResetPassword e tok pw') (world_after (serve_all e mailOn qs) (world_after (ResetPassword e tok pw) w)) = Inl ErrInvalidToken"
proof -
  let ?w = "world_after (ResetPassword e tok pw) w"
  have "rows_ok (\<lambda>_. True) (spent tok) ?w"
    using ResetPassword_success [OF assms(1,2)] assms(3) by (simp add: rows_ok_def list.pred_True)
  then have "rows_ok (\<lambda>_. True) (spent tok) (world_after (serve_all e mailOn qs) ?w)"
    by (rule account_rows.serve_all_keeps [rotated]) (intro spent_rows assms(4))
  then show ?thesis by (simp add: rows_ok_def ResetPassword_refused)
qed

section \<open>Tokens\<close>

text \<open>What the library promises of the tokens it signs: they parse to their claims until they expire.\<close>

definition jwt_works :: "auth_env \<Rightarrow> bool" where
  "jwt_works e = (\<forall>c tok t. jwtSign e c = Some tok \<and> t < ExpiresAt c \<longrightarrow> jwtParse e t tok = Some c)"

lemma bearer_header [simp]: "bearer_token (''Bearer '' @ tok) = Some tok"
proof -
  have "EqualFold_ascii ''Bearer'' ''bearer''" by code_simp
  then show ?thesis by (simp add: bearer_token_def split_header_def)
qed

lemma Login_success:
  assumes "result (Login e email pw ip) w = Inr (tok, user)"
  shows "\<exists>u. user_by (\<lambda>u. uEmail u = email) w = Some u \<and> bcryptCompare e (uHash u) pw \<and> usID user = uID u \<and> usRole user = uRole u \<and>
    usTOTPEnabled user = uTotpEnabled u \<and>
    jwtSign e \<lparr>UserID = uID u, Email = email, ClaimRole = uRole u,
      ExpiresAt = time_at e (stmts w + 2) + (case jwtExpiry e of Some d \<Rightarrow> d | None \<Rightarrow> 24 * hours)\<rparr> = Some tok"
proof -
  let ?q = "find (\<lambda>u. uEmail u = email) (users w)"
  obtain u where u: "?q = Some u" using assms by (cases ?q) (auto simp: Login_def run_primitives split: if_splits)
  let ?c = "\<lparr>UserID = uID u, Email = email, ClaimRole = uRole u,
      ExpiresAt = time_at e (stmts w + 2) + (case jwtExpiry e of Some d \<Rightarrow> d | None \<Rightarrow> 24 * hours)\<rparr>"
  have "bcryptCompare e (uHash u) pw" using assms by (auto simp: Login_def run_primitives u split: if_splits)
  then show ?thesis using assms u
    by (cases "jwtSign e ?c") (auto simp: Login_def run_primitives generateToken_def split: if_splits)
qed

lemma route_update_user: "route_of (CallUpdateUser i b) =
    Some \<lparr>rVerb = PUT, rPath = ''/api/users/{id}'', rGuards = [Limited, Authenticated], rHandler = ''handleUpdateUser''\<rparr>"
  by code_simp

text \<open>C28: The entries of the routing table without authentication are those of ten paths: health checks, the websocket (which itself refuses only a token that is not valid), map tiles,
  the four of logging in and registering, and the files of the front end. A request reaches the handler of any other entry only if it
  carries a bearer token that is the token of the service or a valid JWT, whose claims the handler then sees; the roles the
  route asks for are met, and the eighteen handlers that wipe data or change fleet security, each with one entry, see the claims of an administrator.\<close>

theorem admission_requires_token:
  assumes "r \<in> set setupRoutes" "rPath r \<notin> set public_paths" "result (admit e busy header r) w = Inr claims"
  shows "map rPath (filter (\<lambda>r. Authenticated \<notin> set (rGuards r)) setupRoutes) = public_paths \<and> length public_paths = 10 \<and>
    map rHandler (filter (\<lambda>r. MinRole RoleAdmin \<in> set (rGuards r)) setupRoutes) = admin_handlers \<and>
    (\<exists>c tok. claims = Some c \<and> bearer_token header = Some tok \<and> token_claims e (time_at e (stmts w)) tok = Some c \<and>
      roles_met (rGuards r) (ClaimRole c) \<and> (rHandler r \<in> set admin_handlers \<longrightarrow> ClaimRole c = RoleAdmin))"
proof -
  have "guarded r" using public_or_guarded assms by blast
  from admit_sound [OF this assms(3)] obtain c tok where c: "claims = Some c" "bearer_token header = Some tok"
    "token_claims e (time_at e (stmts w)) tok = Some c" "roles_met (rGuards r) (ClaimRole c)" by blast
  moreover have "ClaimRole c = RoleAdmin" if "rHandler r \<in> set admin_handlers"
    using that assms(1) c(4) admin_handlers_guarded by (fastforce simp: list_all_iff roles_met_def)
  ultimately have "\<exists>c tok. claims = Some c \<and> bearer_token header = Some tok \<and> token_claims e (time_at e (stmts w)) tok = Some c \<and>
      roles_met (rGuards r) (ClaimRole c) \<and> (rHandler r \<in> set admin_handlers \<longrightarrow> ClaimRole c = RoleAdmin)" by blast
  moreover have "length public_paths = 10" by (simp add: public_paths_def)
  ultimately show ?thesis using public_routes admin_routes by blast
qed

theorem admission_requires_token_witness:
  "\<exists>c tok. Some (demo_claims ''VIEWER'') = Some c \<and> bearer_token ''Bearer jwt'' = Some tok \<and>
     token_claims (demo_env ''VIEWER'') 0 tok = Some c"
proof -
  let ?r = "\<lparr>rVerb = PUT, rPath = ''/api/users/{id}'', rGuards = [Limited, Authenticated], rHandler = ''handleUpdateUser''\<rparr>"
  have b: "bearer_token ''Bearer jwt'' = Some ''jwt''" using bearer_header [of "''jwt''"] by simp
  have "?r \<in> set setupRoutes"
    using route_update_user [of "[]" None] by (auto simp: route_of_def find_Some_iff set_conv_nth)
  moreover have "result (admit (demo_env ''VIEWER'') (\<lambda>_. False) ''Bearer jwt'' ?r) (demo_world ''VIEWER'') = Inr (Some (demo_claims ''VIEWER''))"
    by (simp add: admit_def result_Middleware b token_claims_def demo hours_def minutes_def)
  ultimately show ?thesis
    using admission_requires_token [of ?r "demo_env ''VIEWER''" "\<lambda>_. False" "''Bearer jwt''" "demo_world ''VIEWER''" "Some (demo_claims ''VIEWER'')"]
    by (simp add: public_paths_def b) (simp add: demo)
qed

text \<open>The token that a login with the password returns is admitted by every route whose roles the account meets until it
  expires; an account with the second factor enabled gets the same token, and no route asks for the code.\<close>

theorem second_factor_not_required:
  assumes "jwt_works e" "result (Login e email pw ip) w = Inr (tok, user)" "usTOTPEnabled user" "tok \<noteq> serviceToken e"
    and "r \<in> set setupRoutes" "rPath r \<notin> set public_paths" "roles_met (rGuards r) (usRole user)"
    and "time_at e (stmts w') < time_at e (stmts w + 2) + (case jwtExpiry e of Some d \<Rightarrow> d | None \<Rightarrow> 24 * hours)"
  shows "\<exists>c. result (admit e (\<lambda>_. False) (''Bearer '' @ tok) r) w' = Inr (Some c) \<and> UserID c = usID user \<and> ClaimRole c = usRole user"
proof -
  obtain u :: user_row where u: "usID user = uID u" "usRole user = uRole u"
    "jwtSign e \<lparr>UserID = uID u, Email = email, ClaimRole = uRole u,
      ExpiresAt = time_at e (stmts w + 2) + (case jwtExpiry e of Some d \<Rightarrow> d | None \<Rightarrow> 24 * hours)\<rparr> = Some tok" (is "jwtSign e ?c = _")
    using Login_success [OF assms(2)] by blast
  have "token_claims e (time_at e (stmts w')) tok = Some ?c"
    using assms(1,4,8) u(3) by (auto simp: token_claims_def jwt_works_def)
  moreover have "roles_met (rGuards r) (ClaimRole ?c)" using assms(7) u by simp
  ultimately have "result (admit e (\<lambda>_. False) (''Bearer '' @ tok) r) w' = Inr (Some ?c)"
    using public_or_guarded [OF assms(5)] assms(6) bearer_header by (intro admit_complete) auto
  then show ?thesis using u by auto
qed

section \<open>Promotion\<close>

text \<open>C29: Whoever holds a valid token, whatever its role, can give any account any role, its own the role of an administrator:
  the route asks for no role and the handler does not look at the claims.\<close>

theorem any_account_becomes_admin:
  assumes "\<And>n. stmt_ok e n" "is_uuid e i" "role \<in> set user_role"
    and "bearer_token header = Some tok" "token_claims e (time_at e (stmts w)) tok = Some c"
  shows "result (serve e (\<lambda>_. False) mailOn header r (CallUpdateUser i (Some (name, role)))) w = (200, StatusOK ''ok'', []) \<and>
    users (world_after (serve e (\<lambda>_. False) mailOn header r (CallUpdateUser i (Some (name, role)))) w) =
      map (\<lambda>u. if uID u = i then u\<lparr>uName := Some name, uRole := role\<rparr> else u) (users w)"
proof -
  have "result (Middleware e header) w = Some c" using assms(4,5) by (simp add: result_Middleware)
  moreover have "users (world_after (Middleware e header) w) = users w"
    by (simp add: Middleware_def ValidateToken_def split: option.splits prod.splits)
  ultimately show ?thesis using assms(1-3)
    by (simp add: serve_def route_update_user admit_def handleUpdateUser_def with_body_def Update_user_def Log_def run_primitives)
qed

theorem any_account_becomes_admin_witness:
  "ClaimRole (demo_claims ''VIEWER'') = ''VIEWER'' \<and>
   map uRole (users (world_after (serve (demo_env ''VIEWER'') (\<lambda>_. False) False ''Bearer jwt'' demo_request
     (CallUpdateUser ''u1'' (Some (''ann'', ''ADMIN'')))) (demo_world ''VIEWER''))) = [''ADMIN'']"
proof -
  have "token_claims (demo_env ''VIEWER'') (time_at (demo_env ''VIEWER'') (stmts (demo_world ''VIEWER''))) ''jwt'' = Some (demo_claims ''VIEWER'')"
    by (simp add: token_claims_def demo hours_def minutes_def)
  moreover have "bearer_token ''Bearer jwt'' = Some ''jwt''" using bearer_header [of "''jwt''"] by simp
  ultimately show ?thesis
    using any_account_becomes_admin [of "demo_env ''VIEWER''" "''u1''" "''ADMIN''" "''Bearer jwt''" "''jwt''" "demo_world ''VIEWER''" "demo_claims ''VIEWER''"
      False demo_request "''ann''"]
    by (simp add: demo user_role_def RoleAdmin_def)
qed

section \<open>Lockout\<close>

text \<open>Logins for one address, one after the other.\<close>

fun logins :: "auth_env \<Rightarrow> string \<Rightarrow> string \<Rightarrow> string list \<Rightarrow> (auth_error + (string \<times> User)) list auth" where
  "logins e email ip [] = give []"
| "logins e email ip (pw # pws) = do { x \<leftarrow> Login e email pw ip; xs \<leftarrow> logins e email ip pws; give (x # xs) }"

definition account :: "string \<Rightarrow> auth_world \<Rightarrow> user_row option" where
  "account email w = find (\<lambda>u. uEmail u = email) (users w)"

lemma find_update:
  assumes "find (\<lambda>u. uEmail u = email) us = Some u" "\<And>x. uEmail (f x) = uEmail x"
  shows "find (\<lambda>u. uEmail u = email) (map (\<lambda>x. if uID x = uID u then f x else x) us) = Some (f u)"
  using assms by (induction us) (auto split: if_splits)

lemma wrong_guess:
  assumes "\<And>n. stmt_ok e n" "account email w = Some u" "is_uuid e (uID u)" "\<not> bcryptCompare e (uHash u) pw"
    and "case uLockedUntil u of Some until \<Rightarrow> until \<le> time_at e (stmts w + 1) | None \<Rightarrow> True"
  shows "result (Login e email pw ip) w = Inl ErrInvalidCredentials" "stmts (world_after (Login e email pw ip) w) = stmts w + 3"
    "account email (world_after (Login e email pw ip) w) = Some (u\<lparr>uFailed := uFailed u + 1,
       uLockedAt := if LockoutThreshold e \<le> uFailed u then Some (time_at e (stmts w + 2)) else uLockedAt u,
       uLockedUntil := if LockoutThreshold e \<le> uFailed u then Some (time_at e (stmts w + 2) + LockoutDurationMinutes e * minutes) else uLockedUntil u\<rparr>)"
proof -
  note run = Login_def run_primitives assms(1,3,4) assms(2) [unfolded account_def]
  show "result (Login e email pw ip) w = Inl ErrInvalidCredentials" "stmts (world_after (Login e email pw ip) w) = stmts w + 3"
    using assms(5) by (cases "uLockedUntil u"; simp add: run)+
  show "account email (world_after (Login e email pw ip) w) = Some (u\<lparr>uFailed := uFailed u + 1,
       uLockedAt := if LockoutThreshold e \<le> uFailed u then Some (time_at e (stmts w + 2)) else uLockedAt u,
       uLockedUntil := if LockoutThreshold e \<le> uFailed u then Some (time_at e (stmts w + 2) + LockoutDurationMinutes e * minutes) else uLockedUntil u\<rparr>)"
    using find_update [OF assms(2) [unfolded account_def]] assms(5) by (cases "uLockedUntil u") (simp_all add: run account_def)
qed

lemma locked_guess:
  assumes "\<And>n. stmt_ok e n" "account email w = Some u" "uLockedUntil u = Some until" "time_at e (stmts w + 1) < until"
  shows "result (Login e email pw ip) w = Inl ErrAccountLocked" "users (world_after (Login e email pw ip) w) = users w"
  using assms by (simp_all add: Login_def run_primitives account_def)

lemma few_guesses:
  assumes "\<And>n. stmt_ok e n" "account email w = Some u" "is_uuid e (uID u)" "uLockedUntil u = None"
    and "\<forall>pw \<in> set pws. \<not> bcryptCompare e (uHash u) pw" "uFailed u + int (length pws) \<le> LockoutThreshold e"
  shows "result (logins e email ip pws) w = replicate (length pws) (Inl ErrInvalidCredentials) \<and>
    stmts (world_after (logins e email ip pws) w) = stmts w + 3 * length pws \<and>
    account email (world_after (logins e email ip pws) w) = Some (u\<lparr>uFailed := uFailed u + int (length pws)\<rparr>)"
  using assms
proof (induction pws arbitrary: w u)
  case (Cons pw pws)
  let ?w = "world_after (Login e email pw ip) w" and ?u = "u\<lparr>uFailed := uFailed u + 1\<rparr>"
  have g: "result (Login e email pw ip) w = Inl ErrInvalidCredentials" "stmts ?w = stmts w + 3" "account email ?w = Some ?u"
    using wrong_guess [OF Cons.prems(1-3), of pw ip] Cons.prems by auto
  have "result (logins e email ip pws) ?w = replicate (length pws) (Inl ErrInvalidCredentials) \<and>
    stmts (world_after (logins e email ip pws) ?w) = stmts ?w + 3 * length pws \<and>
    account email (world_after (logins e email ip pws) ?w) = Some (?u\<lparr>uFailed := uFailed ?u + int (length pws)\<rparr>)"
    by (rule Cons.IH) (use Cons.prems g in auto)
  then show ?case using g by (simp add: algebra_simps)
qed simp

text \<open>C30: The first wrong guesses, as many as the threshold and one more, are all compared with the password; after them every
  login for the account is refused, with the right password too, until the lockout has passed, and changes nothing.\<close>

theorem lockout_after_threshold:
  assumes "\<And>n. stmt_ok e n" "account email w = Some u" "is_uuid e (uID u)" "uLockedUntil u = None" "uFailed u = 0"
    and "\<forall>pw \<in> set pws. \<not> bcryptCompare e (uHash u) pw" "LockoutThreshold e = int n" "length pws = Suc n"
    and "w' = world_after (logins e email ip pws) w"
    and "time_at e (stmts w' + 1) < time_at e (stmts w + 3 * n + 2) + LockoutDurationMinutes e * minutes"
  shows "result (logins e email ip pws) w = replicate (Suc n) (Inl ErrInvalidCredentials) \<and>
    result (Login e email pw ip) w' = Inl ErrAccountLocked \<and> users (world_after (Login e email pw ip) w') = users w'"
proof -
  obtain ps p where pws: "pws = ps @ [p]" "length ps = n" using assms(8) by (metis length_Suc_conv_rev)
  have app: "run_state (logins e email ip (xs @ [p])) v = (result (logins e email ip xs) v @ [result (Login e email p ip) (world_after (logins e email ip xs) v)],
      world_after (Login e email p ip) (world_after (logins e email ip xs) v))" for xs v
    by (induction xs arbitrary: v) (simp_all add: prod_eq_iff)
  let ?w = "world_after (logins e email ip ps) w" and ?u = "u\<lparr>uFailed := int n\<rparr>"
  have f: "result (logins e email ip ps) w = replicate n (Inl ErrInvalidCredentials)" "stmts ?w = stmts w + 3 * n" "account email ?w = Some ?u"
    using few_guesses [OF assms(1-4), of ps ip] assms(5-8) pws by auto
  have l: "result (Login e email p ip) ?w = Inl ErrInvalidCredentials" "account email w' = Some (?u\<lparr>uFailed := int n + 1,
      uLockedAt := Some (time_at e (stmts ?w + 2)), uLockedUntil := Some (time_at e (stmts ?w + 2) + LockoutDurationMinutes e * minutes)\<rparr>)"
    using wrong_guess [OF assms(1) f(3), of p ip] assms(3,4,6,7,9) by (auto simp: pws app)
  have "result (logins e email ip pws) w = replicate (Suc n) (Inl ErrInvalidCredentials)"
    by (simp add: pws app f(1) l(1) replicate_append_same)
  then show ?thesis using locked_guess [OF assms(1) l(2)] assms(10) f(2) by simp
qed

theorem lockout_after_threshold_witness:
  "result (Login (demo_env ''VIEWER'') ''a@b'' ''pw'' []) (world_after (logins (demo_env ''VIEWER'') ''a@b'' [] [''x'', ''y'']) (demo_world ''VIEWER'')) =
     Inl ErrAccountLocked"
  using lockout_after_threshold [of "demo_env ''VIEWER''" "''a@b''" "demo_world ''VIEWER''" "demo_user ''VIEWER''" "[''x'', ''y'']" 1 _ "[]" "''pw''"]
  by (simp add: demo account_def minutes_def)

end
