(* ===== verification/GoRegexp.thy ===== *)
theory GoRegexp
  imports GoStrings
begin

text \<open>
  Go's \<open>regexp\<close> as far as the program uses it, on strings as bytes: the text is read as runes, a
  pattern is matched by backtracking in the order of Go's leftmost-first rule, and named groups
  are collected. Every repetition in the patterns of the program is one of a class of runes or has a
  fixed count. The matcher is correct for a declarative reading of patterns.
\<close>

section \<open>Runes\<close>

abbreviation byte_of :: "char \<Rightarrow> nat" where "byte_of c \<equiv> of_char c"

definition continuation :: "nat \<Rightarrow> nat \<Rightarrow> char \<Rightarrow> bool" where
  "continuation lo hi c \<longleftrightarrow> lo \<le> byte_of c \<and> byte_of c \<le> hi"

text \<open>\<open>utf8.DecodeRuneInString\<close>: the rune at the start and its width; an invalid byte is U+FFFD of width 1.\<close>

fun decode_rune :: "string \<Rightarrow> nat \<times> nat" where
  "decode_rune [] = (0xFFFD, 0)"
| "decode_rune (a # s) =
     (let n = byte_of a; bad = (0xFFFD, 1) in
      if n < 0x80 then (n, 1)
      else if 0xC2 \<le> n \<and> n \<le> 0xDF then
        (case s of b # _ \<Rightarrow> if continuation 0x80 0xBF b then ((n - 0xC0) * 64 + (byte_of b - 0x80), 2) else bad | _ \<Rightarrow> bad)
      else if 0xE0 \<le> n \<and> n \<le> 0xEF then
        (case s of
           b # c # _ \<Rightarrow>
             if continuation (if n = 0xE0 then 0xA0 else 0x80) (if n = 0xED then 0x9F else 0xBF) b \<and> continuation 0x80 0xBF c
             then ((n - 0xE0) * 4096 + (byte_of b - 0x80) * 64 + (byte_of c - 0x80), 3) else bad
         | _ \<Rightarrow> bad)
      else if 0xF0 \<le> n \<and> n \<le> 0xF4 then
        (case s of
           b # c # d # _ \<Rightarrow>
             if continuation (if n = 0xF0 then 0x90 else 0x80) (if n = 0xF4 then 0x8F else 0xBF) b \<and>
                continuation 0x80 0xBF c \<and> continuation 0x80 0xBF d
             then ((n - 0xF0) * 262144 + (byte_of b - 0x80) * 4096 + (byte_of c - 0x80) * 64 + (byte_of d - 0x80), 4) else bad
         | _ \<Rightarrow> bad)
      else bad)"

lemma decode_rune_width: "s \<noteq> [] \<Longrightarrow> 1 \<le> snd (decode_rune s) \<and> snd (decode_rune s) \<le> length s"
  by (cases s) (auto simp: Let_def split: list.splits)

declare decode_rune.simps [simp del]

definition encode_rune :: "nat \<Rightarrow> string" where
  "encode_rune r =
     (if r < 0x80 then [char_of r]
      else if r < 0x800 then [char_of (0xC0 + r div 64), char_of (0x80 + r mod 64)]
      else if 0xD800 \<le> r \<and> r < 0xE000 \<or> 0x10FFFF < r then [CHR 0xEF, CHR 0xBF, CHR 0xBD]
      else if r < 0x10000 then [char_of (0xE0 + r div 4096), char_of (0x80 + r div 64 mod 64), char_of (0x80 + r mod 64)]
      else [char_of (0xF0 + r div 262144), char_of (0x80 + r div 4096 mod 64), char_of (0x80 + r div 64 mod 64), char_of (0x80 + r mod 64)])"

text \<open>A rune of a text with the bytes it was read from.\<close>

type_synonym item = "nat \<times> string"

function runes :: "string \<Rightarrow> item list" where
  "runes s = (if s = [] then [] else let (r, n) = decode_rune s in (r, take n s) # runes (drop n s))"
  by pat_completeness auto
termination
proof (relation "measure length", goal_cases)
  case (2 s x r n)
  then have "n = snd (decode_rune s)" "s \<noteq> []" by (metis snd_conv, simp)
  then show ?case using decode_rune_width [of s] by simp
qed simp

declare runes.simps [simp del]

definition text_of :: "item list \<Rightarrow> string" where
  "text_of xs = concat (map snd xs)"

section \<open>Patterns\<close>

text \<open>A class of runes by its ranges, or the complement of one.\<close>

datatype cset = In "(nat \<times> nat) list" | NotIn "(nat \<times> nat) list"

fun in_class :: "cset \<Rightarrow> nat \<Rightarrow> bool" where
  "in_class (In rs) r = list_ex (\<lambda>(a, b). a \<le> r \<and> r \<le> b) rs"
| "in_class (NotIn rs) r = (\<not> list_ex (\<lambda>(a, b). a \<le> r \<and> r \<le> b) rs)"

text \<open>
  Whether a rune matches a character of the pattern. With the flag \<open>(?i)\<close> letters match in either case, and the
  two other runes that fold to ASCII letters, U+017F and U+212A, match \<open>s\<close> and \<open>k\<close>.
\<close>

definition fold_eq :: "bool \<Rightarrow> char \<Rightarrow> nat \<Rightarrow> bool" where
  "fold_eq ci c r \<longleftrightarrow> r = byte_of c \<or>
     ci \<and> (r = byte_of (lower_char c) \<or> r = byte_of (upper_char c) \<or> lower_char c = CHR ''s'' \<and> r = 0x17F \<or> lower_char c = CHR ''k'' \<and> r = 0x212A)"

text \<open>\<open>Many cs n False\<close> takes as many runes as it can and at least \<open>n\<close>, \<open>Many cs n True\<close> as few as it can.\<close>

datatype re =
    Lit bool string
  | One cset
  | Many cset nat bool
  | Empty
  | Cat re re
  | Alt re re
  | Maybe re
  | Group string re
  | Bol
  | Eol
  | WordEdge

type_synonym caps = "(string \<times> string) list"

fun lit_rest :: "bool \<Rightarrow> string \<Rightarrow> nat option \<Rightarrow> item list \<Rightarrow> (nat option \<times> item list) option" where
  "lit_rest ci [] p xs = Some (p, xs)"
| "lit_rest ci (c # cs) p [] = None"
| "lit_rest ci (c # cs) p ((r, b) # xs) = (if fold_eq ci c r then lit_rest ci cs (Some r) xs else None)"

text \<open>The rune before the rest after \<open>n\<close> more runes.\<close>

definition prev_after :: "nat option \<Rightarrow> item list \<Rightarrow> nat \<Rightarrow> nat option" where
  "prev_after p xs n = (if n = 0 then p else Some (fst (xs ! (n - 1))))"

definition word_rune :: "nat \<Rightarrow> bool" where
  "word_rune = in_class (In [(48, 57), (65, 90), (95, 95), (97, 122)])"

definition word_edge :: "nat option \<Rightarrow> item list \<Rightarrow> bool" where
  "word_edge p xs \<longleftrightarrow> (case p of Some r \<Rightarrow> word_rune r | None \<Rightarrow> False) \<noteq> (case xs of (r, _) # _ \<Rightarrow> word_rune r | [] \<Rightarrow> False)"

text \<open>How many runes a repetition may take, in the order in which they are tried.\<close>

definition counts :: "cset \<Rightarrow> nat \<Rightarrow> bool \<Rightarrow> item list \<Rightarrow> nat list" where
  "counts cs n lazy xs = (let js = [n..<Suc (length (takeWhile (\<lambda>x. in_class cs (fst x)) xs))] in if lazy then js else rev js)"

fun first_some :: "('a \<Rightarrow> 'b option) \<Rightarrow> 'a list \<Rightarrow> 'b option" where
  "first_some f [] = None"
| "first_some f (x # xs) = (case f x of Some y \<Rightarrow> Some y | None \<Rightarrow> first_some f xs)"

primrec re_match :: "re \<Rightarrow> nat option \<Rightarrow> item list \<Rightarrow> caps \<Rightarrow> (nat option \<Rightarrow> item list \<Rightarrow> caps \<Rightarrow> 'a option) \<Rightarrow> 'a option" where
  "re_match (Lit ci s) p xs c k = (case lit_rest ci s p xs of Some (q, ys) \<Rightarrow> k q ys c | None \<Rightarrow> None)"
| "re_match (One cs) p xs c k = (case xs of (r, b) # ys \<Rightarrow> if in_class cs r then k (Some r) ys c else None | [] \<Rightarrow> None)"
| "re_match (Many cs n lazy) p xs c k = first_some (\<lambda>j. k (prev_after p xs j) (drop j xs) c) (counts cs n lazy xs)"
| "re_match Empty p xs c k = k p xs c"
| "re_match (Cat r s) p xs c k = re_match r p xs c (\<lambda>q ys c'. re_match s q ys c' k)"
| "re_match (Alt r s) p xs c k = (case re_match r p xs c k of Some y \<Rightarrow> Some y | None \<Rightarrow> re_match s p xs c k)"
| "re_match (Maybe r) p xs c k = (case re_match r p xs c k of Some y \<Rightarrow> Some y | None \<Rightarrow> k p xs c)"
| "re_match (Group g r) p xs c k =
     re_match r p xs c (\<lambda>q ys c'. k q ys ((g, text_of (take (length xs - length ys) xs)) # c'))"
| "re_match Bol p xs c k = (if p = None then k p xs c else None)"
| "re_match Eol p xs c k = (if xs = [] then k p xs c else None)"
| "re_match WordEdge p xs c k = (if word_edge p xs then k p xs c else None)"

text \<open>Sequences, choices and repetitions with a fixed count.\<close>

primrec cats :: "re list \<Rightarrow> re" where
  "cats [] = Empty"
| "cats (r # rs) = Cat r (cats rs)"

fun alts :: "re list \<Rightarrow> re" where
  "alts [] = Lit False [CHR 0x00]"
| "alts [r] = r"
| "alts (r # rs) = Alt r (alts rs)"

definition times :: "nat \<Rightarrow> re \<Rightarrow> re" where
  "times n r = cats (replicate n r)"

text \<open>The leftmost match: its groups, the rune before the rest and the rest.\<close>

definition match_here :: "re \<Rightarrow> nat option \<Rightarrow> item list \<Rightarrow> (caps \<times> nat option \<times> item list) option" where
  "match_here r p xs = re_match r p xs [] (\<lambda>q ys c. Some (c, q, ys))"

fun search :: "re \<Rightarrow> nat option \<Rightarrow> item list \<Rightarrow> (caps \<times> nat option \<times> item list) option" where
  "search r p [] = match_here r p []"
| "search r p (x # xs) = (case match_here r p (x # xs) of Some y \<Rightarrow> Some y | None \<Rightarrow> search r (Some (fst x)) xs)"

definition FindStringSubmatch :: "re \<Rightarrow> string \<Rightarrow> caps option" where
  "FindStringSubmatch r s = map_option fst (search r None (runes s))"

definition MatchString :: "re \<Rightarrow> string \<Rightarrow> bool" where
  "MatchString r s = (search r None (runes s) \<noteq> None)"

text \<open>The groups by name; one that takes no part in the match is empty, like in \<open>extractGroups\<close>.\<close>

definition group :: "caps \<Rightarrow> string \<Rightarrow> string" where
  "group c g = (case map_of c g of Some s \<Rightarrow> s | None \<Rightarrow> [])"

text \<open>
  \<open>FindAllStringSubmatch(s, -1)\<close> and \<open>ReplaceAllString(s, "")\<close> for patterns that match no empty text. The
  number bounds the rounds; each one takes a rune at least.
\<close>

fun find_all :: "nat \<Rightarrow> re \<Rightarrow> nat option \<Rightarrow> item list \<Rightarrow> caps list" where
  "find_all 0 r p xs = []"
| "find_all (Suc n) r p xs = (case search r p xs of None \<Rightarrow> [] | Some (c, q, ys) \<Rightarrow> c # find_all n r q ys)"

definition FindAllStringSubmatch :: "re \<Rightarrow> string \<Rightarrow> caps list" where
  "FindAllStringSubmatch r s = find_all (length s) r None (runes s)"

fun remove_all :: "nat \<Rightarrow> re \<Rightarrow> nat option \<Rightarrow> item list \<Rightarrow> string" where
  "remove_all 0 r p xs = text_of xs"
| "remove_all (Suc n) r p [] = []"
| "remove_all (Suc n) r p (x # xs) =
     (case match_here r p (x # xs) of
        Some (c, q, ys) \<Rightarrow> remove_all n r q ys
      | None \<Rightarrow> snd x @ remove_all n r (Some (fst x)) xs)"

definition RemoveAllString :: "re \<Rightarrow> string \<Rightarrow> string" where
  "RemoveAllString r s = remove_all (length s) r None (runes s)"

section \<open>What a match is\<close>

text \<open>The declarative reading: a pattern takes a position in the text and the groups so far to a later position.\<close>

inductive matches :: "re \<Rightarrow> nat option \<times> item list \<times> caps \<Rightarrow> nat option \<times> item list \<times> caps \<Rightarrow> bool" where
  Lit: "lit_rest ci s p xs = Some (q, ys) \<Longrightarrow> matches (Lit ci s) (p, xs, c) (q, ys, c)"
| One: "in_class cs r \<Longrightarrow> matches (One cs) (p, (r, b) # xs, c) (Some r, xs, c)"
| Many: "n \<le> j \<Longrightarrow> j \<le> length xs \<Longrightarrow> \<forall>x \<in> set (take j xs). in_class cs (fst x) \<Longrightarrow> matches (Many cs n lazy) (p, xs, c) (prev_after p xs j, drop j xs, c)"
| Empty: "matches Empty s s"
| Cat: "matches r s s' \<Longrightarrow> matches r' s' s'' \<Longrightarrow> matches (Cat r r') s s''"
| AltL: "matches r s s' \<Longrightarrow> matches (Alt r r') s s'"
| AltR: "matches r' s s' \<Longrightarrow> matches (Alt r r') s s'"
| MaybeYes: "matches r s s' \<Longrightarrow> matches (Maybe r) s s'"
| MaybeNo: "matches (Maybe r) s s"
| Group: "matches r (p, xs, c) (q, ys, c') \<Longrightarrow> matches (Group g r) (p, xs, c) (q, ys, (g, text_of (take (length xs - length ys) xs)) # c')"
| Bol: "matches Bol (None, xs, c) (None, xs, c)"
| Eol: "matches Eol (p, [], c) (p, [], c)"
| WordEdge: "word_edge p xs \<Longrightarrow> matches WordEdge (p, xs, c) (p, xs, c)"

inductive_cases matches_CatE: "matches (Cat r r') s s'"
inductive_cases matches_AltE: "matches (Alt r r') s s'"
inductive_cases matches_MaybeE: "matches (Maybe r) s s'"
inductive_cases matches_GroupE: "matches (Group g r) s s'"
inductive_cases matches_LitE: "matches (Lit ci l) s s'"
inductive_cases matches_OneE: "matches (One cs) s s'"
inductive_cases matches_ManyE: "matches (Many cs n lazy) s s'"
inductive_cases matches_EmptyE: "matches Empty s s'"
inductive_cases matches_BolE: "matches Bol s s'"
inductive_cases matches_EolE: "matches Eol s s'"
inductive_cases matches_WordEdgeE: "matches WordEdge s s'"

lemma first_some_Some: "first_some f xs = Some y \<Longrightarrow> \<exists>x \<in> set xs. f x = Some y"
  by (induction xs) (auto split: option.splits)

lemma first_some_None: "first_some f xs = None \<longleftrightarrow> (\<forall>x \<in> set xs. f x = None)"
  by (induction xs) (auto split: option.splits)

lemma counts_iff: "j \<in> set (counts cs n lazy xs) \<longleftrightarrow> n \<le> j \<and> j \<le> length xs \<and> (\<forall>x \<in> set (take j xs). in_class cs (fst x))"
proof -
  have "j \<le> length (takeWhile P xs) \<longleftrightarrow> j \<le> length xs \<and> (\<forall>x \<in> set (take j xs). P x)" for P :: "item \<Rightarrow> bool"
  proof (induction xs arbitrary: j)
    case (Cons x xs)
    then show ?case by (cases j) auto
  qed auto
  moreover have "j \<in> set (counts cs n lazy xs) \<longleftrightarrow> n \<le> j \<and> j \<le> length (takeWhile (\<lambda>x. in_class cs (fst x)) xs)"
    by (auto simp: counts_def Let_def)
  ultimately show ?thesis by simp
qed

lemma re_match_sound: "re_match r p xs c k = Some y \<Longrightarrow> \<exists>q ys c'. matches r (p, xs, c) (q, ys, c') \<and> k q ys c' = Some y"
proof (induction r arbitrary: p xs c k)
  case (One cs)
  then show ?case by (auto split: list.splits if_splits) (metis matches.One)
next
  case (Many cs n lazy)
  then obtain j where "j \<in> set (counts cs n lazy xs)" "k (prev_after p xs j) (drop j xs) c = Some y"
    by (auto dest: first_some_Some)
  then show ?case using matches.Many by (fastforce simp: counts_iff)
next
  case (Cat r1 r2)
  then show ?case by simp (meson matches.Cat)
next
  case (Alt r1 r2)
  then show ?case by (fastforce split: option.splits intro: matches.AltL matches.AltR)
next
  case (Maybe r)
  then show ?case by (fastforce split: option.splits intro: matches.MaybeYes matches.MaybeNo)
next
  case (Group g r)
  then show ?case by simp (meson matches.Group)
qed (auto split: option.splits list.splits if_splits intro: matches.intros)

lemma re_match_complete: "matches r (p, xs, c) (q, ys, c') \<Longrightarrow> k q ys c' \<noteq> None \<Longrightarrow> re_match r p xs c k \<noteq> None"
proof (induction r arbitrary: p xs c q ys c' k)
  case (Many cs n lazy)
  then obtain j where "j \<in> set (counts cs n lazy xs)" "q = prev_after p xs j" "ys = drop j xs" "c' = c"
    by (auto elim!: matches_ManyE simp: counts_iff)
  then show ?case using Many.prems(2) by (auto simp: first_some_None)
next
  case (Cat r1 r2)
  then obtain p1 xs1 c1 where m: "matches r1 (p, xs, c) (p1, xs1, c1)" "matches r2 (p1, xs1, c1) (q, ys, c')"
    by (auto elim: matches_CatE)
  have "re_match r2 p1 xs1 c1 k \<noteq> None" by (rule Cat.IH(2) [of _ _ _ _ _ _ k, OF m(2) Cat.prems(2)])
  then show ?case using Cat.IH(1) [OF m(1), of "\<lambda>q ys c'. re_match r2 q ys c' k"] by simp
next
  case (Alt r1 r2)
  from Alt.prems(1) have "matches r1 (p, xs, c) (q, ys, c') \<or> matches r2 (p, xs, c) (q, ys, c')" by (auto elim: matches_AltE)
  then have "re_match r1 p xs c k \<noteq> None \<or> re_match r2 p xs c k \<noteq> None" using Alt.IH Alt.prems(2) by blast
  then show ?case by (auto split: option.splits)
next
  case (Maybe r)
  from Maybe.prems(1) have "matches r (p, xs, c) (q, ys, c') \<or> (q, ys, c') = (p, xs, c)" by (auto elim: matches_MaybeE)
  then have "re_match r p xs c k \<noteq> None \<or> k p xs c \<noteq> None" using Maybe.IH Maybe.prems(2) by blast
  then show ?case by (auto split: option.splits)
next
  case (Group g r)
  from Group.prems(1) obtain c1 where "matches r (p, xs, c) (q, ys, c1)" "c' = (g, text_of (take (length xs - length ys) xs)) # c1"
    by (auto elim: matches_GroupE)
  then show ?case using Group.IH Group.prems(2) by simp
qed (auto elim!: matches_LitE matches_OneE matches_EmptyE matches_BolE matches_EolE matches_WordEdgeE split: option.splits)

end
