(* ===== verification/TextPatterns.thy ===== *)
theory TextPatterns
  imports GoRegexp
begin

text \<open>
  The regular expressions of \<open>internal/serial/textparser.go\<close>: the helpers of \<open>NewTextParser\<close> and the
  table of \<open>initPatterns\<close> in its order. \<open>Lit True\<close> is a literal under the flag \<open>(?i)\<close>; the ranges of a class
  under this flag include the runes that fold into it.
\<close>

section \<open>Classes and parts\<close>

definition id_c :: cset where
  "id_c = In [(45, 46), (48, 58), (65, 90), (95, 95), (97, 122), (383, 383), (8490, 8490)]"

definition digit_c :: cset where
  "digit_c = In [(48, 57)]"

definition space_c :: cset where
  "space_c = In [(9, 10), (12, 13), (32, 32)]"

definition nonspace_c :: cset where
  "nonspace_c = NotIn [(9, 10), (12, 13), (32, 32)]"

definition hex_c :: cset where
  "hex_c = In [(48, 57), (65, 70), (97, 102)]"

definition any_c :: cset where
  "any_c = NotIn [(10, 10)]"

definition letter_c :: cset where
  "letter_c = In [(65, 90), (97, 122), (383, 383), (8490, 8490)]"

definition word_c :: cset where
  "word_c = In [(48, 57), (65, 90), (95, 95), (97, 122), (383, 383), (8490, 8490)]"

definition re_decimal :: re where
  "re_decimal = cats [Maybe (Lit True ''-''), Many digit_c 1 False, Maybe (cats [Lit True ''.'', Many digit_c 1 False])]"

definition re_int :: re where
  "re_int = cats [Maybe (Lit True ''-''), Many digit_c 1 False]"

definition re_mac :: re where
  "re_mac = cats [times 5 (cats [times 2 (One hex_c), Lit True '':'']), times 2 (One hex_c)]"

section \<open>Helpers\<close>

definition echoRouter :: re where
  "echoRouter = cats [Lit True ''['', Group ''1'' (alts [Lit True ''Router'', Lit True ''SerialConsole'']), Lit True '']'']"

definition echoTextMsg :: re where
  "echoTextMsg = cats [WordEdge, Lit True ''textmessage'', Many space_c 1 False, Lit True ''msg='']"

definition fromExtract :: re where
  "fromExtract = cats [Lit True ''from='', Maybe (Lit True ''0x''), Group ''1'' (Many hex_c 1 False)]"

definition idExtract :: re where
  "idExtract = cats [WordEdge, Lit True ''id='', Maybe (Lit True ''0x''), Group ''1'' (Many hex_c 1 False)]"

definition toExtract :: re where
  "toExtract = cats [WordEdge, Lit True ''to='', Maybe (Lit True ''0x''), Group ''1'' (Many hex_c 1 False)]"

definition ansiClean :: re where
  "ansiClean = cats [Lit False ([CHR 0x1B] @ ''[''), Many (In [(48, 57), (59, 59)]) 0 False, One (In [(65, 90), (97, 122)])]"

definition nodeIDFallback :: re where
  "nodeIDFallback = cats [Bol, Group ''1'' (Many (In [(45, 46), (48, 58), (65, 90), (95, 95), (97, 122)]) 1 False)]"

definition trailingHash :: re where
  "trailingHash = cats [Many (In [(35, 35)]) 1 False, Eol]"

definition nodeRe :: re where
  "nodeRe = cats [Lit True ''node'', One (In [(58, 58), (61, 61)]), Group ''1'' (Many id_c 1 False)]"

definition kvBodyRe :: re where
  "kvBodyRe = cats [Group ''1'' (cats [One (In [(65, 90), (97, 122)]), Many (In [(48, 57), (65, 90), (95, 95), (97, 122)]) 0 False]),
     Many space_c 0 False, One (In [(58, 58), (61, 61)]), Many space_c 0 False, Group ''2'' (Many nonspace_c 1 False)]"

section \<open>The table\<close>

definition re_status :: re where
  "re_status = cats [Bol, Maybe (Group ''id'' (Many id_c 1 False)), Maybe (Lit True '':''), Many space_c 0 False, Lit True ''STATUS:'',
     Many space_c 0 False, Lit True ''Mode:'', Group ''mode'' (Many nonspace_c 1 False), Many space_c 1 False, Lit True ''Scan:'',
     Group ''scan'' (Many nonspace_c 1 False), Many space_c 1 False, Lit True ''Hits:'', Group ''hits'' (Many digit_c 1 False),
     Many space_c 1 False, Maybe (cats [Lit True ''Targets:'', Group ''targets'' (Many digit_c 1 False), Many space_c 1 False]),
     Lit True ''Temp:'', Group ''tempC'' re_decimal, One (In [(67, 67), (99, 99)]), Maybe (cats [Lit True ''/'', Group ''tempF'' re_decimal,
     One (In [(70, 70), (102, 102)])]), Many space_c 1 False, Lit True ''Up:'', Group ''up'' (Many (In [(48, 58)]) 1 False),
     Maybe (cats [Many space_c 1 False, Lit True ''GPS'', One (In [(58, 58), (61, 61)]), Group ''lat'' re_decimal, Lit True '','',
     Group ''lon'' re_decimal]), Maybe (cats [Many space_c 1 False, Lit True ''HDOP'', One (In [(58, 58), (61, 61)]),
     Group ''hdop'' re_decimal]), Maybe (cats [Many space_c 1 False, Lit True ''Batt'', One (In [(58, 58), (61, 61)]),
     Group ''battery'' (Many digit_c 1 False), Maybe (Lit True ''%'')])]"

definition re_drone :: re where
  "re_drone = cats [Bol, Group ''id'' (Many id_c 1 False), Lit True '':'', Many space_c 0 False, Lit True ''DRONE:'', Many space_c 1 False,
     Group ''mac'' re_mac, Many space_c 1 False, Lit True ''ID:'', Group ''droneId'' (Many (In [(45, 45), (48, 57), (65, 90), (95, 95), (97,
     122), (383, 383), (8490, 8490)]) 1 False), Many space_c 1 False, Lit True ''R'', Group ''rssi'' re_int, Many space_c 1 False,
     Lit True ''GPS:'', Group ''lat'' re_decimal, Lit True '','', Group ''lon'' re_decimal, Maybe (cats [Many space_c 1 False,
     Lit True ''ALT:'', Group ''alt'' re_decimal]), Maybe (cats [Many space_c 1 False, Lit True ''SPD:'', Group ''spd'' re_decimal]),
     Maybe (cats [Many space_c 1 False, Lit True ''OP:'', Group ''opLat'' re_decimal, Lit True '','', Group ''opLon'' re_decimal])]"

definition re_tri_target_data :: re where
  "re_tri_target_data = cats [Bol, Group ''id'' (Many id_c 1 False), Lit True '':'', Many space_c 0 False, alts [Lit True ''TARGET_DATA'', Lit True ''T_D''],
     Lit True '':'', Many space_c 0 False, Group ''mac'' re_mac, Many space_c 1 False, Lit True ''RSSI:'', Group ''rssi'' re_int,
     Maybe (cats [Many space_c 1 False, Lit True ''Hits='', Group ''hits'' (Many digit_c 1 False)]), Maybe (cats [Many space_c 1 False,
     Lit True ''Type:'', Group ''type'' (Many word_c 1 False)]), Maybe (cats [Many space_c 1 False, Lit True ''GPS'', One (In [(58, 58), (61,
     61)]), Group ''lat'' re_decimal, Lit True '','', Group ''lon'' re_decimal])]"

definition re_tri_final :: re where
  "re_tri_final = cats [Bol, Group ''id'' (Many id_c 1 False), Lit True '':'', Many space_c 0 False, Lit True ''T_F:'', Many space_c 0 False,
     Lit True ''MAC='', Group ''mac'' re_mac, Many space_c 1 False, Lit True ''GPS='', Group ''lat'' re_decimal, Lit True '','',
     Group ''lon'' re_decimal, Many space_c 1 False, Lit True ''CONF='', Group ''conf'' re_decimal, Many space_c 1 False, Lit True ''UNC='',
     Group ''unc'' re_decimal]"

definition re_tri_complete :: re where
  "re_tri_complete = cats [Bol, Group ''id'' (Many id_c 1 False), Lit True '':'', Many space_c 0 False, Lit True ''T_C:'', Many space_c 0 False,
     Maybe (cats [Lit True ''MAC='', Group ''mac'' re_mac, Many space_c 1 False]), Lit True ''Nodes='', Group ''nodes'' (Many digit_c 1 False)]"

definition re_target_type_first :: re where
  "re_target_type_first = cats [Bol, Group ''id'' (Many id_c 1 False), Lit True '':'', Many space_c 0 False, Lit True ''Target:'', Many space_c 0 False,
     Group ''type'' (Many word_c 1 False), Many space_c 1 False, Group ''mac'' re_mac, Many space_c 1 False, Lit True ''RSSI:'',
     Group ''rssi'' re_int, Maybe (cats [Many space_c 1 False, Lit True ''Name:'', Group ''name'' (Many (NotIn [(32, 32)]) 1 False)]),
     Maybe (cats [Many space_c 1 False, Lit True ''TID:'', Group ''tid'' (cats [Lit True ''T-'', One letter_c, Lit True ''-'',
     Many digit_c 1 False])]), Maybe (cats [Many space_c 1 False, Lit True ''GPS'', One (In [(58, 58), (61, 61)]), Group ''lat'' re_decimal,
     Lit True '','', Group ''lon'' re_decimal])]"

definition re_target_mac_first :: re where
  "re_target_mac_first = cats [Bol, Group ''id'' (Many id_c 1 False), Lit True '':'', Many space_c 0 False, Lit True ''Target:'', Many space_c 0 False,
     Group ''mac'' re_mac, Many space_c 1 False, Lit True ''RSSI:'', Group ''rssi'' re_int, Many space_c 1 False, Lit True ''Type:'',
     Group ''type'' (Many word_c 1 False), Maybe (cats [Many space_c 1 False, Lit True ''Name:'', Group ''name'' (Many (NotIn [(32,
     32)]) 1 False)]), Maybe (cats [Many space_c 1 False, Lit True ''TID:'', Group ''tid'' (cats [Lit True ''T-'', One letter_c, Lit True ''-'',
     Many digit_c 1 False])]), Maybe (cats [Many space_c 1 False, Lit True ''GPS'', One (In [(58, 58), (61, 61)]), Group ''lat'' re_decimal,
     Lit True '','', Group ''lon'' re_decimal])]"

definition re_device :: re where
  "re_device = cats [Bol, Group ''id'' (Many id_c 1 False), Lit True '':'', Many space_c 0 False, Lit True ''DEVICE:'', Group ''mac'' re_mac,
     Many space_c 1 False, Group ''band'' (One letter_c), Many space_c 1 False, Group ''rssi'' re_int, Maybe (cats [Many space_c 1 False,
     Lit True ''C'', Group ''channel'' (Many digit_c 1 False)]), Maybe (cats [Many space_c 1 False, Lit True ''N:'',
     Group ''name'' (Many any_c 1 False)])]"

definition re_device_short :: re where
  "re_device_short = cats [Bol, Group ''id'' (Many id_c 1 False), Lit True '':'', Many space_c 0 False, Lit True ''D:'', Group ''mac'' re_mac,
     Many space_c 1 False, Group ''band'' (One letter_c), Many space_c 1 False, Group ''rssi'' re_int, Maybe (cats [Many space_c 1 False,
     Lit True ''C'', Group ''channel'' (Many digit_c 1 False)]), Maybe (cats [Many space_c 1 False, Lit True ''N:'',
     Group ''name'' (Many any_c 1 False)])]"

definition re_ble_raw :: re where
  "re_ble_raw = cats [Bol, Group ''id'' (Many id_c 1 False), Lit True '':'', Many space_c 0 False, Lit True ''BLERAW:'', Group ''mac'' re_mac,
     Many space_c 1 False, Group ''rssi'' re_int, Many space_c 1 False, Group ''channel'' (Many digit_c 1 False), Many space_c 1 False,
     Group ''adv'' (Many (In [(43, 43), (47, 57), (61, 61), (65, 90), (97, 122), (383, 383), (8490, 8490)]) 1 False)]"

definition re_ble_raw_short :: re where
  "re_ble_raw_short = cats [Bol, Group ''id'' (Many id_c 1 False), Lit True '':'', Many space_c 0 False, Lit True ''B:'', Group ''mac'' re_mac,
     Many space_c 1 False, Group ''rssi'' re_int, Many space_c 1 False, Group ''adv'' (Many (In [(43, 43), (47, 57), (61, 61), (65, 90), (97,
     122), (383, 383), (8490, 8490)]) 1 False)]"

definition re_attack_long :: re where
  "re_attack_long = cats [Bol, Group ''id'' (Many id_c 1 False), Lit True '':'', Many space_c 0 False, Lit True ''ATTACK:'', Many space_c 0 False,
     Group ''kind'' (alts [Lit True ''DEAUTH'', Lit True ''DISASSOC'']), Maybe (cats [Many space_c 1 False, Lit True ''['',
     Group ''mode'' (alts [Lit True ''BROADCAST'', Lit True ''TARGETED'']), Lit True '']'']), Many space_c 1 False, Lit True ''SRC:'',
     Group ''src'' re_mac, Many space_c 1 False, Lit True ''DST:'', Group ''dst'' re_mac, Many space_c 1 False, Lit True ''RSSI:'',
     Group ''rssi'' re_int, Maybe (Lit True ''d''), Lit True ''B'', Maybe (Lit True ''m''), Many space_c 1 False, Lit True ''CH:'',
     Group ''chan'' (Many digit_c 1 False)]"

definition re_attack_short :: re where
  "re_attack_short = cats [Bol, Group ''id'' (Many id_c 1 False), Lit True '':'', Many space_c 0 False, Lit True ''ATTACK:'', Many space_c 0 False,
     Group ''kind'' (alts [Lit True ''DEAUTH'', Lit True ''DISASSOC'']), Many space_c 1 False, Group ''src'' re_mac, Lit True ''->'',
     Group ''dst'' re_mac, Many space_c 1 False, Lit True ''R'', Group ''rssi'' re_int, Many space_c 1 False, Lit True ''C'',
     Group ''chan'' (Many digit_c 1 False)]"

definition re_gps_lock :: re where
  "re_gps_lock = cats [Bol, Maybe (Group ''id'' (Many id_c 1 False)), Maybe (Lit True '':''), Many space_c 0 False, Lit True ''GPS:'', Many space_c 0 False,
     Lit True ''LOCKED'', Many space_c 1 False, Lit True ''Location'', One (In [(58, 58), (61, 61)]), Group ''lat'' re_decimal, Lit True '','',
     Group ''lon'' re_decimal, Maybe (cats [Many space_c 1 False, Lit True ''Satellites'', One (In [(58, 58), (61, 61)]),
     Group ''sats'' (Many digit_c 1 False)]), Maybe (cats [Many space_c 1 False, Lit True ''HDOP'', One (In [(58, 58), (61, 61)]),
     Group ''hdop'' re_decimal])]"

definition re_gps_lost :: re where
  "re_gps_lost = cats [Bol, Maybe (Group ''id'' (Many id_c 1 False)), Maybe (Lit True '':''), Many space_c 0 False, Lit True ''GPS:'', Many space_c 0 False,
     Lit True ''LOST'']"

definition re_node_hb :: re where
  "re_node_hb = cats [Bol, Lit True ''[NODE_HB]'', Many space_c 0 False, Group ''id'' (Many id_c 1 False), Many space_c 1 False, Lit True ''Time:'',
     Group ''time'' (Many (NotIn [(32, 32)]) 1 False), Many space_c 1 False, Lit True ''Temp:'', Group ''tempC'' re_decimal,
     Maybe (One (In [(67, 67), (70, 70), (99, 99), (102, 102)])), Maybe (cats [Lit True ''/'', Group ''tempF'' re_decimal, One (In [(70, 70),
     (102, 102)])]), Maybe (cats [Many space_c 1 False, Lit True ''GPS:'', Group ''lat'' re_decimal, Lit True '','', Group ''lon'' re_decimal])]"

definition re_node_hb_saver :: re where
  "re_node_hb_saver = cats [Bol, Group ''id'' (Many id_c 1 False), Lit True '':'', Many space_c 0 False, Lit True ''HEARTBEAT:'', Many space_c 0 False,
     Lit True ''Temp:'', Group ''tempC'' re_decimal, Maybe (One (In [(67, 67), (70, 70), (99, 99), (102, 102)])), Maybe (cats [Lit True ''/'',
     Group ''tempF'' re_decimal, One (In [(70, 70), (102, 102)])]), Maybe (cats [Many space_c 1 False, Lit True ''GPS'', One (In [(58, 58), (61,
     61)]), Group ''lat'' re_decimal, Lit True '','', Group ''lon'' re_decimal]), Maybe (cats [Many space_c 1 False, Lit True ''Batt'',
     One (In [(58, 58), (61, 61)]), Group ''battery'' (Many digit_c 1 False), Maybe (Lit True ''%'')])]"

definition re_node_hb_inline :: re where
  "re_node_hb_inline = cats [Bol, Group ''id'' (Many id_c 1 False), Maybe (Lit True '':''), Many space_c 0 False, Lit True ''Time:'',
     Group ''time'' (Many (NotIn [(32, 32)]) 1 False), Many space_c 1 False, Lit True ''Temp:'', Group ''tempC'' re_decimal,
     Maybe (One (In [(67, 67), (70, 70), (99, 99), (102, 102)])), Maybe (cats [Lit True ''/'', Group ''tempF'' re_decimal, One (In [(70, 70),
     (102, 102)])]), Maybe (cats [Many space_c 1 False, Lit True ''GPS:'', Group ''lat'' re_decimal, Lit True '','', Group ''lon'' re_decimal])]"

definition re_codes :: re where
  "re_codes = cats [Bol, Group ''id'' (Many id_c 1 False), Lit True '':'', Many space_c 0 False, Lit True ''CODES:'',
     Group ''codes'' (Many any_c 0 False), Eol]"

definition re_ai_models :: re where
  "re_ai_models = cats [Bol, Group ''id'' (Many id_c 1 False), Lit True '':'', Many space_c 0 False, Lit True ''MODELS:'',
     Group ''models'' (Many any_c 0 False), Eol]"

definition re_gate_triggered :: re where
  "re_gate_triggered = cats [Bol, Group ''id'' (Many id_c 1 False), Lit True '':'', Many space_c 0 False, Lit True ''TRIGGERED:'',
     Group ''code'' (Many digit_c 1 False), Maybe (cats [Many space_c 1 False, Group ''name'' (Many nonspace_c 1 False)]), Many space_c 0 False,
     Eol]"

definition re_probe_hit :: re where
  "re_probe_hit = cats [Bol, Group ''id'' (Many id_c 1 False), Lit True '':'', Many space_c 0 False, Lit True ''PROBE_HIT'', Many space_c 1 False,
     Group ''mac'' re_mac, Many space_c 1 False, Group ''vendor'' (Many nonspace_c 1 False), Many space_c 1 False, Lit True ''RSSI='',
     Group ''rssi'' re_int, Many space_c 1 False, Lit True ''CH='', Group ''chan'' (Many digit_c 1 False), Maybe (cats [Many space_c 1 False,
     Lit True (''SSID='' @ [CHR 0x22]), Group ''ssid'' (Many (NotIn [(34, 34)]) 0 False), Lit True [CHR 0x22]]),
     Maybe (Group ''ghost'' (cats [Many space_c 1 False, Lit True ''GHOST''])), Maybe (Group ''dst'' (cats [Many space_c 1 False,
     Lit True ''DST''])), Many space_c 0 False, Eol]"

definition re_ack :: re where
  "re_ack = cats [Bol, Group ''id'' (Many id_c 1 False), Lit True '':'', Many space_c 0 False, Group ''kind'' (cats [alts [Lit True ''SCAN'',
     Lit True ''DEVICE_SCAN'', Lit True ''DRONE'', Lit True ''DEAUTH'', Lit True ''RANDOMIZATION'', Lit True ''BASELINE'', Lit True ''CONFIG'',
     cats [Lit True ''TRIANGULATE'', Maybe (Lit True ''_STOP'')], Lit True ''TRI_START'', Lit True ''STOP'', Lit True ''START'',
     Lit True ''REBOOT'', cats [Lit True ''BATTERY_SAVER'', Maybe (alts [Lit True ''_START'', Lit True ''_STOP''])],
     cats [Lit True ''VIBRATION_'', alts [Lit True ''ON'', Lit True ''OFF'']], Lit True ''HB'', Lit True ''HITS_RESET'', Lit True ''DEBOUNCE'',
     Lit True ''CODE'', Lit True ''PROBE'', Lit True ''RAW_BLE'', Lit True ''MODEL_SET'', Lit True ''DEDUP'', Lit True ''CONF'',
     cats [Lit True ''WIFI_'', alts [Lit True ''ON'', Lit True ''OFF'', Lit True ''SSID'', Lit True ''PSK'']], Lit True ''TARGET_INTERVAL''],
     Lit True ''_ACK'']), Maybe (Lit True '':''), Group ''status'' (Many word_c 0 False), Maybe (cats [Lit True '':'',
     Group ''value'' (Many (In [(32, 32), (43, 46), (48, 57), (65, 90), (95, 95), (97, 122), (383, 383), (8490, 8490)]) 1 False)])]"

definition re_anomaly :: re where
  "re_anomaly = cats [Bol, Group ''id'' (Many id_c 1 False), Lit True '':'', Many space_c 0 False, Lit True ''ANOMALY-'',
     Group ''anomKind'' (alts [Lit True ''NEW'', Lit True ''RETURN'', Lit True ''RSSI'']), Lit True '':'', Many space_c 0 False,
     Group ''type'' (Many word_c 1 False), Many space_c 1 False, Group ''mac'' re_mac, Maybe (cats [Many space_c 1 False, Lit True ''RSSI:'',
     Group ''rssi'' re_int]), Maybe (cats [Many space_c 1 False, Lit True ''Old:'', Group ''old'' re_int, Many space_c 1 False,
     Lit True ''New:'', Group ''new'' re_int, Many space_c 1 False, Lit True ''Delta:'', Group ''delta'' re_int]),
     Maybe (cats [Many space_c 1 False, Lit True ''Name:'', Group ''name'' (Many (NotIn [(32, 32)]) 1 False)])]"

definition re_cam_detection :: re where
  "re_cam_detection = cats [Bol, Lit True ''CAM:'', Many space_c 1 False, Group ''camera'' (Many nonspace_c 1 False), Many space_c 1 False,
     Group ''label'' (Many nonspace_c 1 False), Many space_c 1 False, Group ''score'' (Many digit_c 1 False), Lit True ''%'',
     Maybe (cats [Many space_c 1 False, Lit True ''ZONE:'', Group ''zone'' (Many nonspace_c 1 False)]), Maybe (cats [Many space_c 1 False,
     Lit True ''GPS:'', Group ''lat'' re_decimal, Lit True '','', Group ''lon'' re_decimal])]"

definition re_cam_face :: re where
  "re_cam_face = cats [Bol, Lit True ''CAM_FACE:'', Many space_c 1 False, Group ''camera'' (Many nonspace_c 1 False), Many space_c 1 False,
     Group ''name'' (Many nonspace_c 1 False), Maybe (cats [Many space_c 1 False, Lit True ''GPS:'', Group ''lat'' re_decimal, Lit True '','',
     Group ''lon'' re_decimal])]"

definition re_cam_plate :: re where
  "re_cam_plate = cats [Bol, Lit True ''CAM_PLATE:'', Many space_c 1 False, Group ''camera'' (Many nonspace_c 1 False), Many space_c 1 False,
     Group ''plate'' (Many nonspace_c 1 False), Maybe (cats [Many space_c 1 False, Lit True ''GPS:'', Group ''lat'' re_decimal, Lit True '','',
     Group ''lon'' re_decimal])]"

definition re_startup :: re where
  "re_startup = cats [Bol, Maybe (Group ''id'' (Many id_c 1 False)), Maybe (Lit True '':''), Many space_c 0 False, Lit True ''STARTUP:'',
     Many space_c 0 False, Group ''msg'' (Many any_c 1 False), Eol]"

definition re_vibration :: re where
  "re_vibration = cats [Bol, Group ''id'' (Many id_c 1 False), Lit True '':'', Many space_c 0 False, Lit True ''VIBRATION:'', Many space_c 0 False,
     Group ''msg'' (Many any_c 1 True), Maybe (cats [Many space_c 1 False, Lit True ''GPS:'', Group ''lat'' re_decimal, Lit True '','',
     Group ''lon'' re_decimal]), Maybe (cats [Many space_c 1 False, Lit True ''TAMPER_ERASE_IN:'', Group ''erase'' (Many digit_c 1 False),
     Lit True ''s'']), Eol]"

definition re_tamper :: re where
  "re_tamper = cats [Bol, Group ''id'' (Many id_c 1 False), Lit True '':'', Many space_c 0 False, Lit True ''TAMPER_'',
     Group ''tamperKind'' (alts [Lit True ''DETECTED'', Lit True ''CANCELLED'']), Maybe (Lit True '':''), Maybe (cats [Many space_c 0 False,
     Group ''msg'' (Many any_c 1 False)])]"

definition re_scan_done :: re where
  "re_scan_done = cats [Bol, Group ''id'' (Many id_c 1 False), Lit True '':'', Many space_c 0 False, Lit True ''SCAN_DONE:'', Many space_c 0 False,
     Group ''body'' (Many any_c 1 False), Eol]"

definition re_deauth_done :: re where
  "re_deauth_done = cats [Bol, Group ''id'' (Many id_c 1 False), Lit True '':'', Many space_c 0 False, Lit True ''DEAUTH_DONE:'', Many space_c 0 False,
     Group ''body'' (Many any_c 1 False), Eol]"

definition re_list_scan_done :: re where
  "re_list_scan_done = cats [Bol, Group ''id'' (Many id_c 1 False), Lit True '':'', Many space_c 0 False, Lit True ''LIST_SCAN_DONE:'', Many space_c 0 False,
     Group ''body'' (Many any_c 1 False), Eol]"

definition re_drone_done :: re where
  "re_drone_done = cats [Bol, Group ''id'' (Many id_c 1 False), Lit True '':'', Many space_c 0 False, Lit True ''DRONE_DONE:'', Many space_c 0 False,
     Group ''body'' (Many any_c 1 False), Eol]"

definition re_randomization_done :: re where
  "re_randomization_done = cats [Bol, Group ''id'' (Many id_c 1 False), Lit True '':'', Many space_c 0 False, Lit True ''RANDOMIZATION_DONE:'', Many space_c 0 False,
     Group ''body'' (Many any_c 1 False), Eol]"

definition re_baseline_done :: re where
  "re_baseline_done = cats [Bol, Group ''id'' (Many id_c 1 False), Lit True '':'', Many space_c 0 False, Lit True ''BASELINE_DONE:'', Many space_c 0 False,
     Group ''body'' (Many any_c 1 False), Eol]"

definition re_baseline_status :: re where
  "re_baseline_status = cats [Bol, Group ''id'' (Many id_c 1 False), Lit True '':'', Many space_c 0 False, Lit True ''BASELINE_STATUS:'', Many space_c 0 False,
     Group ''body'' (Many any_c 1 False), Eol]"

definition re_vibration_status :: re where
  "re_vibration_status = cats [Bol, Group ''id'' (Many id_c 1 False), Lit True '':'', Many space_c 0 False, Lit True ''VIBRATION_STATUS:'', Many space_c 0 False,
     Group ''body'' (Many any_c 1 False), Eol]"

definition re_raw_ble_status :: re where
  "re_raw_ble_status = cats [Bol, Group ''id'' (Many id_c 1 False), Lit True '':'', Many space_c 0 False, Lit True ''RAW_BLE_STATUS:'', Many space_c 0 False,
     Group ''body'' (Many any_c 1 False), Eol]"

definition re_autoerase_status :: re where
  "re_autoerase_status = cats [Bol, Group ''id'' (Many id_c 1 False), Lit True '':'', Many space_c 0 False, Lit True ''AUTOERASE_STATUS:'', Many space_c 0 False,
     Group ''body'' (Many any_c 1 False), Eol]"

definition re_i2c_scan :: re where
  "re_i2c_scan = cats [Bol, Group ''id'' (Many id_c 1 False), Lit True '':'', Many space_c 0 False, Group ''kind'' (alts [Lit True ''C5_I2C_SCAN'',
     Lit True ''I2C_SCAN'']), Lit True '':'', Many space_c 0 False, Group ''list'' (Many (NotIn [(40, 41)]) 1 True), Many space_c 0 False,
     Lit True ''('', Group ''count'' (Many digit_c 1 False), Lit True '')'', Many space_c 0 False, Eol]"

definition re_identity :: re where
  "re_identity = cats [Bol, Group ''id'' (Many id_c 1 False), Lit True '':'', Many space_c 0 False, Lit True ''IDENTITY:'',
     Group ''identityId'' (Many nonspace_c 1 False), Many space_c 1 False, Group ''band'' (One letter_c), Many space_c 1 False,
     Group ''rssi'' re_int, Maybe (cats [Many space_c 1 False, Lit True ''Hits:'', Group ''hits'' (Many digit_c 1 False)]),
     Maybe (cats [Many space_c 1 False, Lit True ''MACs:'', Group ''macs'' (Many digit_c 1 False)])]"

definition re_attack :: re where
  "re_attack = cats [Bol, Group ''id'' (Many id_c 1 False), Lit True '':'', Many space_c 0 False, Lit True ''ATTACK:'', Many space_c 0 False,
     Group ''attackType'' (alts [Lit True ''DEAUTH'', Lit True ''DISASSOC'']), Many space_c 1 False, Group ''src'' re_mac, Lit True ''->'',
     Group ''dst'' re_mac, Many space_c 1 False, Lit True ''R'', Group ''rssi'' re_int, Maybe (cats [Many space_c 1 False, Lit True ''C'',
     Group ''channel'' (Many digit_c 1 False)]), Maybe (cats [Many space_c 1 False, Lit True ''GPS:'', Group ''lat'' re_decimal, Lit True '','',
     Group ''lon'' re_decimal])]"

definition re_setup_mode :: re where
  "re_setup_mode = cats [Bol, Group ''id'' (Many id_c 1 False), Lit True '':'', Many space_c 0 False, Lit True ''SETUP_MODE:'', Many space_c 0 False,
     Group ''msg'' (Many any_c 1 False), Eol]"

definition re_battery_saver_state :: re where
  "re_battery_saver_state = cats [Bol, Group ''id'' (Many id_c 1 False), Lit True '':'', Many space_c 0 False, Lit True ''BATTERY_SAVER:'', Many space_c 0 False,
     Group ''state'' (alts [Lit True ''ENABLED'', Lit True ''DISABLED'']), Maybe (cats [Many space_c 1 False, Lit True ''Interval:'',
     Group ''interval'' (Many nonspace_c 1 False)])]"

definition re_battery_saver_status :: re where
  "re_battery_saver_status = cats [Bol, Group ''id'' (Many id_c 1 False), Lit True '':'', Many space_c 0 False, Lit True ''BATTERY_SAVER_STATUS:'',
     Many space_c 0 False, Group ''body'' (Many any_c 1 False), Eol]"

definition re_erase_executing :: re where
  "re_erase_executing = cats [Bol, Group ''id'' (Many id_c 1 False), Lit True '':'', Many space_c 0 False, Lit True ''ERASE_EXECUTING:'', Many space_c 0 False,
     Group ''msg'' (Many any_c 1 True), Maybe (cats [Many space_c 1 False, Lit True ''GPS'', One (In [(58, 58), (61, 61)]),
     Group ''lat'' re_decimal, Lit True '','', Group ''lon'' re_decimal]), Eol]"

definition re_erase_complete :: re where
  "re_erase_complete = cats [Bol, Group ''id'' (Many id_c 1 False), Lit True '':'', Many space_c 0 False, Lit True ''ERASE_COMPLETE'', WordEdge,
     Many space_c 0 False, Group ''msg'' (Many any_c 0 False), Eol]"

definition re_erase_token :: re where
  "re_erase_token = cats [Bol, Group ''id'' (Many id_c 1 False), Lit True '':'', Many space_c 0 False, Lit True ''ERASE_TOKEN:'',
     Group ''token'' (Many nonspace_c 1 False), Maybe (cats [Many space_c 1 False, Lit True ''Expires:'',
     Group ''expires'' (Many digit_c 1 False), Maybe (Lit True ''s'')])]"

definition re_rtc_sync :: re where
  "re_rtc_sync = cats [Bol, Group ''id'' (Many id_c 1 False), Lit True '':'', Many space_c 0 False, Lit True ''RTC_SYNC:'', Many space_c 0 False,
     Group ''source'' (Many nonspace_c 1 False)]"

definition re_bcast_triangulate_start :: re where
  "re_bcast_triangulate_start = cats [Bol, Lit True ''@ALL'', Many space_c 1 False, Lit True ''TRIANGULATE_START:'', Group ''mac'' re_mac, Lit True '':'',
     Group ''duration'' (Many digit_c 1 False), Lit True '':'', Group ''initiator'' (Many nonspace_c 1 False)]"

definition re_bcast_tri_cycle_start :: re where
  "re_bcast_tri_cycle_start = cats [Bol, Lit True ''@ALL'', Many space_c 1 False, Lit True ''TRI_CYCLE_START:'', Group ''intervalMs'' (Many digit_c 1 False),
     Lit True '':'', Group ''nodes'' (Many any_c 1 False), Eol]"

definition re_bcast_triangulate_stop :: re where
  "re_bcast_triangulate_stop = cats [Bol, Lit True ''@ALL'', Many space_c 1 False, Lit True ''TRIANGULATE_STOP'', WordEdge]"

definition re_bcast_sync :: re where
  "re_bcast_sync = cats [Bol, Lit True ''@ALL'', Many space_c 1 False, Lit True ''SYNC:'', Group ''timestamp'' (cats [Many digit_c 1 False,
     Maybe (cats [Lit True ''.'', Many digit_c 1 False])]), Maybe (cats [Many space_c 1 False, Lit True ''('', Group ''note'' (Many (NotIn [(41,
     41)]) 1 False), Lit True '')''])]"

end
