(* ===== verification/TextParser.thy ===== *)
theory TextParser
  imports TextPatterns FloatOps FleetKeys "HOL-Library.AList"
begin

text \<open>
  The text parser of \<open>internal/serial/textparser.go\<close>: cleaning a line, telling the echo of a mesh
  message from other console output, the table of patterns with one handler per kind of sensor
  frame, and the cache of packet addresses. A line is its bytes. Of the Unicode tables the
  parser uses the case mappings of single runes, which are the parameter \<open>unicode\<close>. The order in which Go
  iterates over a map is the parameter \<open>order\<close>. A slice expression may panic.
\<close>

section \<open>Events\<close>

record modelSlot =
  msID :: int
  msAlias :: string
  msActive :: bool

datatype val = VStr string | VInt int | VFloat float64 | VBool bool | VBytes "byte list" | VCodes "u32 list"
  | VNames "(string \<times> string) list" | VStrs "string list" | VSlots "modelSlot list"

type_synonym data = "(string \<times> val) list"

record ParsedEvent =
  evKind :: string
  evNodeID :: string
  evPacketID :: u32
  evToNode :: u32
  evData :: data
  evRaw :: string
  evCategory :: string
  evLevel :: string

definition event :: "string \<Rightarrow> string \<Rightarrow> data \<Rightarrow> string \<Rightarrow> ParsedEvent" where
  "event kind node d raw = \<lparr>evKind = kind, evNodeID = node, evPacketID = 0, evToNode = 0, evData = d, evRaw = raw, evCategory = [], evLevel = []\<rparr>"

definition alert :: "string \<Rightarrow> string \<Rightarrow> string \<Rightarrow> data \<Rightarrow> string \<Rightarrow> ParsedEvent" where
  "alert level category node d raw = (event ''alert'' node d raw)\<lparr>evLevel := level, evCategory := category\<rparr>"

section \<open>Strings\<close>

record unicode =
  toLower :: "nat \<Rightarrow> nat"
  toUpper :: "nat \<Rightarrow> nat"

definition map_runes :: "(nat \<Rightarrow> nat) \<Rightarrow> string \<Rightarrow> string" where
  "map_runes f s = concat (map (\<lambda>(r, b). if f r = r \<and> r \<noteq> 0xFFFD then b else encode_rune (f r)) (runes s))"

definition to_lower :: "unicode \<Rightarrow> string \<Rightarrow> string" where
  "to_lower u s = map_runes (toLower u) s"

definition to_upper :: "unicode \<Rightarrow> string \<Rightarrow> string" where
  "to_upper u s = map_runes (toUpper u) s"

text \<open>\<open>strings.EqualFold(s, t)\<close> for an ASCII \<open>t\<close>.\<close>

definition equal_fold :: "string \<Rightarrow> string \<Rightarrow> bool" where
  "equal_fold s t \<longleftrightarrow> list_all2 (\<lambda>x c. fold_eq True c (fst x)) (runes s) t"

fun split_at :: "char \<Rightarrow> string \<Rightarrow> string list" where
  "split_at c [] = [[]]"
| "split_at c (x # xs) = (if x = c then [] # split_at c xs else (case split_at c xs of y # ys \<Rightarrow> (x # y) # ys | [] \<Rightarrow> []))"

text \<open>\<open>strings.LastIndex\<close>.\<close>

fun last_index :: "string \<Rightarrow> string \<Rightarrow> nat option" where
  "last_index p [] = (if p = [] then Some 0 else None)"
| "last_index p (c # cs) = (case last_index p cs of Some i \<Rightarrow> Some (Suc i) | None \<Rightarrow> if has_prefix p (c # cs) then Some 0 else None)"

text \<open>\<open>strings.ReplaceAll(s, "\n" + w, w)\<close> for a \<open>w\<close> without a line feed.\<close>

fun join_line :: "string \<Rightarrow> string \<Rightarrow> string" where
  "join_line w [] = []"
| "join_line w (c # cs) = (if c = CHR 0x0A \<and> has_prefix w cs then join_line w cs else c # join_line w cs)"

text \<open>The numbers: an error leaves 0, or the end of the range when the number lies outside.\<close>

definition parseOptInt :: "string \<Rightarrow> int" where
  "parseOptInt s =
     (case Atoi s of
        Some n \<Rightarrow> n
      | None \<Rightarrow> (let (neg, ds) = (case s of
            c # cs \<Rightarrow> if c = CHR ''-'' then (True, cs) else if c = CHR ''+'' then (False, cs) else (False, s)
          | [] \<Rightarrow> (False, s))
          in if ds \<noteq> [] \<and> list_all is_digit ds then (if neg then - (2 ^ 63) else 2 ^ 63 - 1) else 0))"

definition parseOptFloat :: "string \<Rightarrow> float64" where
  "parseOptFloat s =
     (case ParseFloat s of
        Some f \<Rightarrow> f
      | None \<Rightarrow> (case readFloat s of Some x \<Rightarrow> Inf (x < 0) | None \<Rightarrow> Fin 0))"

definition normalizeBand :: "unicode \<Rightarrow> string \<Rightarrow> string" where
  "normalizeBand u band = (if to_upper u band = ''W'' then ''WiFi'' else if to_upper u band = ''B'' then ''BLE'' else band)"

definition cleanNonPrintable :: "string \<Rightarrow> string" where
  "cleanNonPrintable s = concat (map (\<lambda>(r, b). if r \<in> {9, 10, 13} \<or> 0x20 \<le> r then (if r = 0xFFFD then encode_rune r else b) else []) (runes s))"

text \<open>The value \<open>ParseUint(s, 16, 32)\<close> returns beside its error: it stops at the first digit that leaves the range.\<close>

fun uint_value :: "int \<Rightarrow> string \<Rightarrow> u32" where
  "uint_value v [] = word_of_int v"
| "uint_value v (c # cs) =
     (case digit_of 16 c of None \<Rightarrow> 0 | Some d \<Rightarrow> if 16 * v + d \<ge> 2 ^ 32 then - 1 else uint_value (16 * v + d) cs)"

definition parseNodeNum :: "string \<Rightarrow> u32" where
  "parseNodeNum s = uint_value 0 (case s of c # cs \<Rightarrow> if c = CHR ''!'' then cs else s | [] \<Rightarrow> s)"

definition ExtractMeshFrom :: "string \<Rightarrow> u32" where
  "ExtractMeshFrom raw =
     (case FindStringSubmatch fromExtract raw of
        None \<Rightarrow> 0
      | Some c \<Rightarrow> (case ParseUint32 16 (group c ''1'') of Some n \<Rightarrow> n | None \<Rightarrow> 0))"

section \<open>Data\<close>

abbreviation put :: "string \<Rightarrow> val \<Rightarrow> data \<Rightarrow> data" where "put k v d \<equiv> AList.update k v d"

text \<open>\<open>if v := g[name]; v != "" { data[key] = f(v) }\<close>.\<close>

definition opt :: "caps \<Rightarrow> string \<Rightarrow> string \<Rightarrow> (string \<Rightarrow> val) \<Rightarrow> data \<Rightarrow> data" where
  "opt c g key f d = (if group c g = [] then d else put key (f (group c g)) d)"

abbreviation as_int :: "string \<Rightarrow> val" where "as_int s \<equiv> VInt (parseOptInt s)"
abbreviation as_flt :: "string \<Rightarrow> val" where "as_flt s \<equiv> VFloat (parseOptFloat s)"

definition position_of :: "caps \<Rightarrow> data \<Rightarrow> data" where
  "position_of c d = opt c ''lon'' ''lon'' as_flt (opt c ''lat'' ''lat'' as_flt d)"

definition synthetic_ack :: "string \<Rightarrow> string \<Rightarrow> data \<Rightarrow> string \<Rightarrow> ParsedEvent" where
  "synthetic_ack ackType node extra raw =
     event ''command-ack'' node (fold (\<lambda>(k, v). put k v) extra [(''ackType'', VStr ackType), (''status'', VStr ''OK''), (''synthesized'', VBool True)]) raw"

definition given :: "data \<Rightarrow> string list \<Rightarrow> data" where
  "given d ks = List.map_filter (\<lambda>k. map_option (\<lambda>v. (k, v)) (map_of d k)) ks"

section \<open>Handlers\<close>

type_synonym handler = "unicode \<Rightarrow> caps \<Rightarrow> string \<Rightarrow> ParsedEvent list"

definition handleStatus :: handler where
  "handleStatus u c raw =
     (let d = [(''mode'', VStr (group c ''mode'')), (''scan'', VStr (group c ''scan'')), (''hits'', as_int (group c ''hits''))];
          d = opt c ''targets'' ''targets'' as_int d;
          d = opt c ''tempC'' ''temperatureC'' as_flt d;
          d = opt c ''tempF'' ''temperatureF'' as_flt d;
          d = position_of c d;
          d = opt c ''hdop'' ''hdop'' as_flt d;
          d = opt c ''battery'' ''battery'' as_flt d;
          telemetryData = given d [''temperatureC'', ''temperatureF'', ''lat'', ''lon'', ''battery''];
          node = group c ''id''
      in (if telemetryData \<noteq> [] then [event ''node-telemetry'' node telemetryData raw] else []) @ [synthetic_ack ''STATUS_ACK'' node [] raw])"

definition handleDrone :: handler where
  "handleDrone u c raw =
     (let d = [(''uasId'', VStr (group c ''droneId'')), (''mac'', VStr (to_upper u (group c ''mac''))), (''rssi'', as_int (group c ''rssi'')),
            (''latitude'', as_flt (group c ''lat'')), (''longitude'', as_flt (group c ''lon''))];
          d = opt c ''alt'' ''altitude'' as_flt d;
          d = opt c ''spd'' ''speed'' as_flt d;
          d = opt c ''opLat'' ''pilotLatitude'' as_flt d;
          d = opt c ''opLon'' ''pilotLongitude'' as_flt d
      in [event ''drone-telemetry'' (group c ''id'') d raw])"

definition handleTarget :: handler where
  "handleTarget u c raw =
     (let d = [(''mac'', VStr (to_upper u (group c ''mac''))), (''rssi'', as_int (group c ''rssi'')), (''type'', VStr (group c ''type''))];
          d = opt c ''name'' ''name'' VStr d;
          d = opt c ''tid'' ''targetId'' VStr d;
          d = position_of c d;
          hit = has_prefix ''T-B-'' (group c ''tid'')
      in [event ''target-detected'' (group c ''id'') d raw,
          alert (if hit then ''ALERT'' else ''NOTICE'') (if hit then ''ble-target-hit'' else ''inventory'') (group c ''id'') d raw])"

definition handleDevice :: handler where
  "handleDevice u c raw =
     (let d = [(''mac'', VStr (to_upper u (group c ''mac''))), (''rssi'', as_int (group c ''rssi'')), (''type'', VStr (normalizeBand u (group c ''band'')))];
          d = opt c ''channel'' ''channel'' as_int d;
          d = opt c ''name'' ''name'' (\<lambda>v. VStr (TrimSpace v)) d
      in [event ''target-detected'' (group c ''id'') d raw])"

text \<open>The structures of an advertisement from position \<open>i\<close> on.\<close>

function ble_names :: "byte list \<Rightarrow> nat \<Rightarrow> string \<Rightarrow> string" where
  "ble_names adv i shortName =
     (if i < length adv then
        (let len = unat (adv ! i) in
         if len = 0 \<or> i + 1 + len > length adv then shortName
         else (let name = string_of_bytes (take (len - 1) (drop (i + 2) adv)); adType = adv ! (i + 1) in
               if len - 1 > 0 \<and> adType = 9 then name
               else ble_names adv (i + 1 + len) (if len - 1 > 0 \<and> adType = 8 \<and> shortName = [] then name else shortName)))
      else shortName)"
  by pat_completeness auto
termination by (relation "measure (\<lambda>(adv, i, _). length adv - i)") auto

declare ble_names.simps [simp del]

definition parseBLELocalName :: "byte list \<Rightarrow> string" where
  "parseBLELocalName adv = ble_names adv 0 []"

definition handleBLERaw :: handler where
  "handleBLERaw u c raw =
     (case b64_decode std_alphabet True (group c ''adv'') of
        None \<Rightarrow> []
      | Some adv \<Rightarrow>
         (let mac = VStr (to_upper u (group c ''mac'')); rssi = as_int (group c ''rssi''); channel = as_int (group c ''channel'');
              target = [(''mac'', mac), (''rssi'', rssi), (''type'', VStr ''BLE''), (''channel'', channel)];
              name = parseBLELocalName adv
          in [event ''ble-raw'' (group c ''id'') [(''mac'', mac), (''rssi'', rssi), (''channel'', channel), (''advBytes'', VBytes adv)] raw,
              event ''target-detected'' (group c ''id'') (if name = [] then target else put ''name'' (VStr name) target) raw]))"

definition attack_data :: "unicode \<Rightarrow> caps \<Rightarrow> data" where
  "attack_data u c = [(''kind'', VStr (group c ''kind'')), (''src'', VStr (to_upper u (group c ''src''))), (''dst'', VStr (to_upper u (group c ''dst''))),
     (''rssi'', as_int (group c ''rssi'')), (''channel'', as_int (group c ''chan''))]"

definition handleAttackLong :: handler where
  "handleAttackLong u c raw = [alert ''ALERT'' ''attack'' (group c ''id'') (opt c ''mode'' ''mode'' VStr (attack_data u c)) raw]"

definition handleAttackShort :: handler where
  "handleAttackShort u c raw = [alert ''ALERT'' ''attack'' (group c ''id'') (attack_data u c) raw]"

definition handleGPSLock :: handler where
  "handleGPSLock u c raw =
     (let d = opt c ''sats'' ''sats'' as_int [(''lat'', as_flt (group c ''lat'')), (''lon'', as_flt (group c ''lon''))]
      in [event ''node-telemetry'' (group c ''id'') d raw, alert ''NOTICE'' ''gps'' (group c ''id'') (opt c ''hdop'' ''hdop'' as_flt d) raw])"

definition handleGPSLost :: handler where
  "handleGPSLost u c raw = [alert ''NOTICE'' ''gps'' (group c ''id'') [] raw]"

definition handleNodeHB :: handler where
  "handleNodeHB u c raw =
     (let d = opt c ''time'' ''deviceTime'' as_flt [];
          d = opt c ''tempC'' ''temperatureC'' as_flt d;
          d = opt c ''tempF'' ''temperatureF'' as_flt d;
          d = position_of c d;
          d = opt c ''battery'' ''battery'' as_flt d
      in [event ''node-telemetry'' (group c ''id'') d raw, alert ''INFO'' ''heartbeat'' (group c ''id'') d raw])"

definition handleACK :: handler where
  "handleACK u c raw =
     (let subkind = group c ''status''; value = group c ''value'';
          status = (if value = [] then subkind else value); status = (if status = [] then ''OK'' else status);
          d = [(''ackType'', VStr (group c ''kind'')), (''status'', VStr status)]
      in [event ''command-ack'' (group c ''id'') (if value = [] then d else put ''subkind'' (VStr subkind) d) raw])"

text \<open>One part of the list of codes: the code with its digits and the name, if the digits are a number.\<close>

definition code_of :: "string \<Rightarrow> (u32 \<times> string \<times> string) option" where
  "code_of part0 =
     (let part = TrimSpace part0; front = takeWhile (\<lambda>x. x \<noteq> CHR ''='') part; after = dropWhile (\<lambda>x. x \<noteq> CHR ''='') part;
          codeStr = (if after = [] then part else TrimSpace front); name = (if after = [] then [] else TrimSpace (tl after))
      in if part = [] then None else map_option (\<lambda>n. (n, codeStr, name)) (ParseUint32 10 codeStr))"

definition listed :: "string \<Rightarrow> string \<Rightarrow> string list" where
  "listed none s = (if s = [] \<or> equal_fold s none then [] else split_at CHR '','' s)"

definition handleCodes :: handler where
  "handleCodes u c raw =
     (let found = List.map_filter code_of (listed ''NONE'' (TrimSpace (group c ''codes'')));
          names = fold (\<lambda>(_, k, name) m. if name = [] then m else AList.update k name m) found []
      in [event ''gate-codes'' (group c ''id'') [(''codes'', VCodes (map fst found)), (''names'', VNames names)] raw,
          synthetic_ack ''CODE_LIST_ACK'' (group c ''id'') [] raw])"

definition handleI2cScan :: handler where
  "handleI2cScan u c raw =
     (let kind = to_upper u (group c ''kind'');
          addresses = filter (\<lambda>p. p \<noteq> []) (map TrimSpace (listed ''empty'' (TrimSpace (group c ''list''))));
          count = (case Atoi (group c ''count'') of Some n \<Rightarrow> n | None \<Rightarrow> 0);
          c5 = (kind = ''C5_I2C_SCAN'');
          d = [(''bus'', VStr (if c5 then ''c5'' else ''onboard'')), (''addresses'', VStrs addresses), (''count'', VInt count)]
      in [event ''i2c-scan'' (group c ''id'') d raw, synthetic_ack (if c5 then ''C5_I2C_SCAN_ACK'' else ''I2C_SCAN_ACK'') (group c ''id'') d raw])"

definition slot_of :: "string \<Rightarrow> modelSlot option" where
  "slot_of part0 =
     (let part = TrimSpace part0; active = has_suffix ''*'' part; part = (if active then take (length part - 1) part else part);
          front = takeWhile (\<lambda>x. x \<noteq> CHR ''='') part; after = dropWhile (\<lambda>x. x \<noteq> CHR ''='') part
      in if front = [] \<or> after = [] then None
         else map_option (\<lambda>i. \<lparr>msID = i, msAlias = tl after, msActive = active\<rparr>) (Atoi front))"

definition handleAIModels :: handler where
  "handleAIModels u c raw =
     (let slots = List.map_filter slot_of (listed ''NONE'' (TrimSpace (group c ''models'')));
          activeID = fold (\<lambda>s a. if msActive s then msID s else a) slots 0
      in [(event ''ai-models'' (group c ''id'') [(''slots'', VSlots slots), (''activeId'', VInt activeID)] raw)\<lparr>evCategory := ''camera''\<rparr>,
          synthetic_ack ''MODEL_LIST_ACK'' (group c ''id'') [] raw])"

definition handleGateTriggered :: handler where
  "handleGateTriggered u c raw =
     (let name = TrimSpace (group c ''name''); d = [(''code'', as_int (group c ''code''))]
      in [alert ''NOTICE'' ''gate-triggered'' (group c ''id'')
            (if name = [] then d else d @ [(''name'', VStr name), (''registered'', VBool (\<not> equal_fold name ''unknown''))]) raw])"

definition handleAnomaly :: handler where
  "handleAnomaly u c raw =
     (let d = [(''kind'', VStr (group c ''anomKind'')), (''type'', VStr (group c ''type'')), (''mac'', VStr (to_upper u (group c ''mac'')))];
          d = opt c ''rssi'' ''rssi'' as_int d;
          d = opt c ''old'' ''old'' as_int d;
          d = opt c ''new'' ''new'' as_int d;
          d = opt c ''delta'' ''delta'' as_int d;
          d = opt c ''name'' ''name'' VStr d
      in [alert ''NOTICE'' ''anomaly'' (group c ''id'') d raw])"

definition handleStartup :: handler where
  "handleStartup u c raw = [alert ''NOTICE'' ''startup'' (group c ''id'') [(''message'', VStr (group c ''msg''))] raw]"

definition handleProbeHit :: handler where
  "handleProbeHit u c raw =
     (let mac = VStr (to_upper u (group c ''mac'')); rssi = as_int (group c ''rssi''); channel = as_int (group c ''chan'');
          vendor = group c ''vendor''; ssid = group c ''ssid''; ghost = (TrimSpace (group c ''ghost'') = ''GHOST'');
          dst = (TrimSpace (group c ''dst'') = ''DST''); randomized = equal_fold vendor ''Randomized'';
          d = [(''mac'', mac), (''rssi'', rssi), (''type'', VStr ''WiFi''), (''channel'', channel)];
          a = [(''mac'', mac), (''vendor'', VStr vendor), (''rssi'', rssi), (''channel'', channel)];
          a = (if ssid = [] then a else put ''ssid'' (VStr ssid) a);
          a = (if ghost then put ''ghostSsid'' (VBool True) a else a);
          a = (if dst then put ''dstMatch'' (VBool True) a else a);
          a = (if randomized then put ''randomized'' (VBool True) a else a)
      in [event ''target-detected'' (group c ''id'') (if ssid = [] then d else put ''name'' (VStr ssid) d) raw,
          alert (if ghost \<or> dst then ''NOTICE'' else ''INFO'') ''probe'' (group c ''id'') a raw])"

definition handleVibration :: handler where
  "handleVibration u c raw =
     [alert ''ALERT'' ''vibration'' (group c ''id'') (opt c ''erase'' ''eraseIn'' as_int (position_of c [])) raw]"

definition handleTamper :: handler where
  "handleTamper u c raw = [alert ''ALERT'' ''tamper'' (group c ''id'') [(''kind'', VStr (group c ''tamperKind''))] raw]"

definition handleCamDetection :: handler where
  "handleCamDetection u c raw =
     [alert ''NOTICE'' ''camera'' [] (position_of c (opt c ''zone'' ''zone'' VStr
        [(''camera'', VStr (group c ''camera'')), (''label'', VStr (group c ''label'')), (''score'', as_int (group c ''score''))])) raw]"

definition handleCamFace :: handler where
  "handleCamFace u c raw =
     [alert ''ALERT'' ''camera-face'' [] (position_of c [(''camera'', VStr (group c ''camera'')), (''name'', VStr (group c ''name''))]) raw]"

definition handleCamPlate :: handler where
  "handleCamPlate u c raw =
     [alert ''NOTICE'' ''camera-plate'' [] (position_of c [(''camera'', VStr (group c ''camera'')), (''plate'', VStr (group c ''plate''))]) raw]"

definition handleTriData :: handler where
  "handleTriData u c raw =
     [event ''tri-data'' (group c ''id'') [(''mac'', VStr (to_upper u (group c ''mac''))), (''rssi'', as_int (group c ''rssi'')),
        (''hits'', as_int (group c ''hits'')), (''type'', VStr (group c ''type'')), (''nodeLat'', as_flt (group c ''lat'')),
        (''nodeLon'', as_flt (group c ''lon''))] raw]"

definition handleTriFinal :: handler where
  "handleTriFinal u c raw =
     (let conf = parseOptFloat (group c ''conf''); conf = (if float_less (Fin 1) conf then fdiv_by conf 100 else conf)
      in [event ''tri-final'' (group c ''id'') [(''mac'', VStr (to_upper u (group c ''mac''))), (''lat'', as_flt (group c ''lat'')),
            (''lon'', as_flt (group c ''lon'')), (''confidence'', VFloat conf), (''uncertainty'', as_flt (group c ''unc''))] raw])"

definition handleTriComplete :: handler where
  "handleTriComplete u c raw =
     [event ''tri-complete'' (group c ''id'') [(''mac'', VStr (to_upper u (group c ''mac''))), (''nodes'', as_int (group c ''nodes''))] raw]"

text \<open>The value of a key or of a group: an integer, a float or the text.\<close>

definition scalar :: "string \<Rightarrow> val" where
  "scalar v = (case Atoi v of Some n \<Rightarrow> VInt n | None \<Rightarrow> (case ParseFloat v of Some f \<Rightarrow> VFloat f | None \<Rightarrow> VStr v))"

definition parseKVBody :: "unicode \<Rightarrow> string \<Rightarrow> data" where
  "parseKVBody u body = fold (\<lambda>c. put (to_lower u (group c ''1'')) (scalar (group c ''2''))) (FindAllStringSubmatch kvBodyRe body) []"

definition handleDoneSummaryWithAck :: "string \<Rightarrow> string \<Rightarrow> handler" where
  "handleDoneSummaryWithAck category ackType u c raw =
     (let d = parseKVBody u (group c ''body'')
      in alert ''INFO'' category (group c ''id'') d raw # (if ackType = [] then [] else [synthetic_ack ackType (group c ''id'') d raw]))"

definition handleIdentity :: handler where
  "handleIdentity u c raw =
     [alert ''NOTICE'' ''identity'' (group c ''id'') (opt c ''macs'' ''macs'' as_int (opt c ''hits'' ''hits'' as_int
        [(''identityId'', VStr (group c ''identityId'')), (''band'', VStr (group c ''band'')), (''rssi'', as_int (group c ''rssi''))])) raw]"

definition handleAttack :: handler where
  "handleAttack u c raw =
     (let d = [(''attackType'', VStr (to_upper u (group c ''attackType''))), (''src'', VStr (to_upper u (group c ''src''))),
            (''dst'', VStr (to_upper u (group c ''dst''))), (''rssi'', as_int (group c ''rssi''))];
          d = opt c ''channel'' ''channel'' as_int d;
          d = (if group c ''lat'' \<noteq> [] \<and> group c ''lon'' \<noteq> [] then position_of c d else d)
      in [alert ''ALERT'' ''attack'' (group c ''id'') d raw])"

definition handleSetupMode :: handler where
  "handleSetupMode u c raw = [alert ''NOTICE'' ''setup-mode'' (group c ''id'') [(''message'', VStr (group c ''msg''))] raw]"

definition handleBatterySaverState :: handler where
  "handleBatterySaverState u c raw =
     [alert ''INFO'' ''battery-saver'' (group c ''id'') (opt c ''interval'' ''interval'' VStr [(''state'', VStr (to_upper u (group c ''state'')))]) raw]"

definition handleEraseEvent :: "string \<Rightarrow> string \<Rightarrow> handler" where
  "handleEraseEvent kind level u c raw =
     [alert level ''erase'' (group c ''id'') (position_of c (opt c ''msg'' ''message'' VStr [(''kind'', VStr kind)])) raw]"

definition handleEraseToken :: handler where
  "handleEraseToken u c raw =
     [alert ''CRITICAL'' ''erase-token'' (group c ''id'') (opt c ''expires'' ''expiresSeconds'' as_int [(''token'', VStr (group c ''token''))]) raw]"

definition handleRTCSync :: handler where
  "handleRTCSync u c raw = [alert ''INFO'' ''rtc-sync'' (group c ''id'') [(''source'', VStr (group c ''source''))] raw]"

text \<open>The groups of a pattern in the order of the match; the order of the data does not matter.\<close>

definition handleBroadcastCommand :: "string \<Rightarrow> handler" where
  "handleBroadcastCommand category u c raw =
     [alert ''INFO'' (''mesh-command:'' @ category) [] (map (\<lambda>(k, v). (k, scalar v)) (filter (\<lambda>(k, v). v \<noteq> []) c)) raw]"

section \<open>The table\<close>

definition patterns :: "(string \<times> re \<times> handler) list" where
  "patterns = [
     (''status'', re_status, handleStatus),
     (''drone'', re_drone, handleDrone),
     (''tri-target-data'', re_tri_target_data, handleTriData),
     (''tri-final'', re_tri_final, handleTriFinal),
     (''tri-complete'', re_tri_complete, handleTriComplete),
     (''target-type-first'', re_target_type_first, handleTarget),
     (''target-mac-first'', re_target_mac_first, handleTarget),
     (''device'', re_device, handleDevice),
     (''device-short'', re_device_short, handleDevice),
     (''ble-raw'', re_ble_raw, handleBLERaw),
     (''ble-raw-short'', re_ble_raw_short, handleBLERaw),
     (''attack-long'', re_attack_long, handleAttackLong),
     (''attack-short'', re_attack_short, handleAttackShort),
     (''gps-lock'', re_gps_lock, handleGPSLock),
     (''gps-lost'', re_gps_lost, handleGPSLost),
     (''node-hb'', re_node_hb, handleNodeHB),
     (''node-hb-saver'', re_node_hb_saver, handleNodeHB),
     (''node-hb-inline'', re_node_hb_inline, handleNodeHB),
     (''codes'', re_codes, handleCodes),
     (''ai-models'', re_ai_models, handleAIModels),
     (''gate-triggered'', re_gate_triggered, handleGateTriggered),
     (''probe-hit'', re_probe_hit, handleProbeHit),
     (''ack'', re_ack, handleACK),
     (''anomaly'', re_anomaly, handleAnomaly),
     (''cam-detection'', re_cam_detection, handleCamDetection),
     (''cam-face'', re_cam_face, handleCamFace),
     (''cam-plate'', re_cam_plate, handleCamPlate),
     (''startup'', re_startup, handleStartup),
     (''vibration'', re_vibration, handleVibration),
     (''tamper'', re_tamper, handleTamper),
     (''scan-done'', re_scan_done, handleDoneSummaryWithAck ''scan'' ''SCAN_DONE_ACK''),
     (''deauth-done'', re_deauth_done, handleDoneSummaryWithAck ''deauth'' ''DEAUTH_DONE_ACK''),
     (''list-scan-done'', re_list_scan_done, handleDoneSummaryWithAck ''list-scan'' ''LIST_SCAN_DONE_ACK''),
     (''drone-done'', re_drone_done, handleDoneSummaryWithAck ''drone'' ''DRONE_DONE_ACK''),
     (''randomization-done'', re_randomization_done, handleDoneSummaryWithAck ''randomization'' ''RANDOMIZATION_DONE_ACK''),
     (''baseline-done'', re_baseline_done, handleDoneSummaryWithAck ''baseline'' ''BASELINE_DONE_ACK''),
     (''baseline-status'', re_baseline_status, handleDoneSummaryWithAck ''baseline-status'' ''BASELINE_STATUS_ACK''),
     (''vibration-status'', re_vibration_status, handleDoneSummaryWithAck ''vibration-status'' ''VIBRATION_STATUS_ACK''),
     (''raw-ble-status'', re_raw_ble_status, handleDoneSummaryWithAck ''raw-ble-status'' ''RAW_BLE_STATUS_ACK''),
     (''autoerase-status'', re_autoerase_status, handleDoneSummaryWithAck ''autoerase-status'' ''AUTOERASE_STATUS_ACK''),
     (''i2c-scan'', re_i2c_scan, handleI2cScan),
     (''identity'', re_identity, handleIdentity),
     (''attack'', re_attack, handleAttack),
     (''setup-mode'', re_setup_mode, handleSetupMode),
     (''battery-saver-state'', re_battery_saver_state, handleBatterySaverState),
     (''battery-saver-status'', re_battery_saver_status, handleDoneSummaryWithAck ''battery-saver-status'' ''BATTERY_SAVER_STATUS_ACK''),
     (''erase-executing'', re_erase_executing, handleEraseEvent ''executing'' ''CRITICAL''),
     (''erase-complete'', re_erase_complete, handleEraseEvent ''complete'' ''CRITICAL''),
     (''erase-token'', re_erase_token, handleEraseToken),
     (''rtc-sync'', re_rtc_sync, handleRTCSync),
     (''bcast-triangulate-start'', re_bcast_triangulate_start, handleBroadcastCommand ''triangulate-start''),
     (''bcast-tri-cycle-start'', re_bcast_tri_cycle_start, handleBroadcastCommand ''tri-cycle-start''),
     (''bcast-triangulate-stop'', re_bcast_triangulate_stop, handleBroadcastCommand ''triangulate-stop''),
     (''bcast-sync'', re_bcast_sync, handleBroadcastCommand ''sync'')]"

section \<open>Packet addresses\<close>

record TextParser =
  pktCache :: "(u32 \<times> u32) list"

definition NewTextParser :: TextParser where
  "NewTextParser = \<lparr>pktCache = []\<rparr>"

text \<open>Deletes keys in the given order until 128 are left.\<close>

fun prune_cache :: "u32 list \<Rightarrow> (u32 \<times> u32) list \<Rightarrow> (u32 \<times> u32) list" where
  "prune_cache [] m = m"
| "prune_cache (k # ks) m = (let m' = AList.delete k m in if length m' \<le> 128 then m' else prune_cache ks m')"

definition cachePacketMeta :: "unicode \<Rightarrow> ((u32 \<times> u32) list \<Rightarrow> u32 list) \<Rightarrow> string \<Rightarrow> TextParser \<Rightarrow> TextParser" where
  "cachePacketMeta u order cleaned p =
     (let lower = to_lower u cleaned in
      if \<not> contains ''lora rx'' lower \<and> \<not> contains ''phone downloaded'' lower then p
      else (case (FindStringSubmatch idExtract cleaned, FindStringSubmatch toExtract cleaned) of
          (Some i, Some t) \<Rightarrow>
            (case (ParseUint32 16 (group i ''1''), ParseUint32 16 (group t ''1'')) of
               (Some pktID, Some toAddr) \<Rightarrow>
                 (let m = AList.update pktID toAddr (pktCache p)
                  in p\<lparr>pktCache := if length m > 256 then prune_cache (order m) m else m\<rparr>)
             | _ \<Rightarrow> p)
        | _ \<Rightarrow> p))"

definition lookupPacketTo :: "u32 \<Rightarrow> TextParser \<Rightarrow> u32 \<times> TextParser" where
  "lookupPacketTo pktID p =
     (if pktID = 0 then (0, p)
      else (case map_of (pktCache p) pktID of
          Some to \<Rightarrow> (to, p\<lparr>pktCache := AList.delete pktID (pktCache p)\<rparr>)
        | None \<Rightarrow> (0, p)))"

section \<open>Payloads\<close>

definition isMeshtasticEcho :: "unicode \<Rightarrow> string \<Rightarrow> bool" where
  "isMeshtasticEcho u line =
     (let lower = to_lower u line in
      last_index ''msg='' lower \<noteq> None \<and> (MatchString echoRouter line \<or> MatchString echoTextMsg line) \<and>
      (contains ''received text msg'' lower \<or> contains ''textmessage'' lower))"

definition normalizePayload :: "unicode \<Rightarrow> string \<Rightarrow> string outcome" where
  "normalizePayload u raw =
     (let s = join_line '' GPS='' (join_line '' RSSI:'' (join_line '' Type:'' raw));
          s = TrimSpace (RemoveAllString trailingHash s)
      in if has_prefix ''0m'' (to_lower u s) then (case slice_from s 2 of Some r \<Rightarrow> Ret (TrimSpace r) | None \<Rightarrow> Panics)
         else Ret s)"

text \<open>The index is found in the text in lower case and used in the text itself.\<close>

definition extractPayload :: "unicode \<Rightarrow> string \<Rightarrow> string outcome" where
  "extractPayload u line =
     (case last_index ''msg='' (to_lower u line) of
        None \<Rightarrow> normalizePayload u line
      | Some i \<Rightarrow> (case slice_from line (int i + 4) of Some r \<Rightarrow> normalizePayload u (TrimSpace r) | None \<Rightarrow> Panics))"

definition parseTextEcho :: "string \<Rightarrow> string \<Rightarrow> TextParser \<Rightarrow> ParsedEvent list \<times> TextParser" where
  "parseTextEcho rawLine payload p =
     (let nodeID = (case FindStringSubmatch fromExtract rawLine of
            Some c \<Rightarrow> CHR ''!'' # replicate (8 - length (group c ''1'')) CHR ''0'' @ group c ''1''
          | None \<Rightarrow> ''unknown'');
          packetID = (case FindStringSubmatch idExtract rawLine of
            Some c \<Rightarrow> (case ParseUint32 16 (group c ''1'') of Some v \<Rightarrow> v | None \<Rightarrow> 0)
          | None \<Rightarrow> 0);
          (toNode, p) = lookupPacketTo packetID p
      in ([(event ''text-message'' nodeID [(''text'', VStr payload)] rawLine)\<lparr>evPacketID := packetID, evToNode := toNode\<rparr>], p))"

definition extractSourceID :: "string \<Rightarrow> string" where
  "extractSourceID s =
     (case FindStringSubmatch nodeRe s of
        Some c \<Rightarrow> group c ''1''
      | None \<Rightarrow> (case FindStringSubmatch nodeIDFallback s of Some c \<Rightarrow> group c ''1'' | None \<Rightarrow> []))"

section \<open>Lines\<close>

fun first_pattern :: "(string \<times> re \<times> handler) list \<Rightarrow> string \<Rightarrow> (string \<times> handler \<times> caps) option" where
  "first_pattern [] payload = None"
| "first_pattern ((name, r, h) # ps) payload =
     (case FindStringSubmatch r payload of Some c \<Rightarrow> Some (name, h, c) | None \<Rightarrow> first_pattern ps payload)"

definition clean_line :: "string \<Rightarrow> string" where
  "clean_line line = TrimSpace (cleanNonPrintable (RemoveAllString ansiClean line))"

definition ParseLine :: "unicode \<Rightarrow> ((u32 \<times> u32) list \<Rightarrow> u32 list) \<Rightarrow> TextParser \<Rightarrow> string \<Rightarrow> (ParsedEvent list \<times> TextParser) outcome" where
  "ParseLine u order p line =
     (let cleaned = clean_line line; stripped = TrimSpace (to_lower u cleaned) in
      if cleaned = [] then Ret ([], p)
      else if length cleaned \<le> 3 \<and> (stripped = ''0m'' \<or> stripped = []) then Ret ([], p)
      else (let p = cachePacketMeta u order cleaned p in
        (case extractPayload u cleaned of
           Panics \<Rightarrow> Panics
         | Ret payload \<Rightarrow>
            (case first_pattern patterns payload of
               Some (_, h, c) \<Rightarrow> Ret (h u c cleaned, p)
             | None \<Rightarrow>
                if isMeshtasticEcho u cleaned then Ret (parseTextEcho cleaned payload p)
                else Ret ([event ''raw'' [] [] cleaned], p)))))"

end
