(* ===== verification/TextDispatch.thy ===== *)
theory TextDispatch
  imports TextParser Messages Encode
begin

text \<open>
  What the serial manager of \<open>internal/serial/manager.go\<close> does with parsed lines: \<open>dispatchTextEvent\<close> with
  its callbacks, \<open>ProcessMeshText\<close> for the text of mesh messages, the console lines of the hybrid reader
  with the kinds it skips, the reader for the text protocol, and \<open>SimulateLines\<close>. Calls
  of callbacks are effects. \<open>marshal\<close> is \<open>json.Marshal\<close> of the data of a drone frame.
\<close>

section \<open>State and callbacks\<close>

datatype text_effect =
    Packet FromRadioPacket
  | TargetDetected string string string int int float64 float64 string string
  | BLERawFrame string string int int "byte list"
  | TriData string string int float64 float64
  | TriFinal string float64 float64 float64 float64
  | TriComplete string int
  | MeshTelemetry u32 float64 float64 data
  | CommandAck string string string data
  | Alerted string string string string data

record text_manager =
  tmParser :: TextParser
  syntheticID :: u32
  hasTarget :: bool
  hasBLERaw :: bool
  hasTriData :: bool
  hasTriFinal :: bool
  hasTriComplete :: bool
  hasTelemetry :: bool
  hasAck :: bool
  hasAlert :: bool

record text_env =
  teUnicode :: unicode
  teOrder :: "(u32 \<times> u32) list \<Rightarrow> u32 list"
  marshal :: "data \<Rightarrow> byte list option"

text \<open>The callbacks the main program sets.\<close>

definition wired_manager :: text_manager where
  "wired_manager = \<lparr>tmParser = NewTextParser, syntheticID = 0, hasTarget = True, hasBLERaw = True, hasTriData = True, hasTriFinal = True,
     hasTriComplete = True, hasTelemetry = True, hasAck = True, hasAlert = True\<rparr>"

text \<open>Type assertions \<open>v, _ := data[key].(T)\<close>.\<close>

definition str_at :: "data \<Rightarrow> string \<Rightarrow> string" where
  "str_at d k = (case map_of d k of Some (VStr s) \<Rightarrow> s | _ \<Rightarrow> [])"

definition int_at :: "data \<Rightarrow> string \<Rightarrow> int" where
  "int_at d k = (case map_of d k of Some (VInt n) \<Rightarrow> n | _ \<Rightarrow> 0)"

definition float_at :: "data \<Rightarrow> string \<Rightarrow> float64" where
  "float_at d k = (case map_of d k of Some (VFloat f) \<Rightarrow> f | _ \<Rightarrow> Fin 0)"

definition bytes_at :: "data \<Rightarrow> string \<Rightarrow> byte list" where
  "bytes_at d k = (case map_of d k of Some (VBytes b) \<Rightarrow> b | _ \<Rightarrow> [])"

section \<open>Dispatching an event\<close>

text \<open>The packet id of an event, or the next synthetic one.\<close>

definition packet_id :: "u32 \<Rightarrow> text_manager \<Rightarrow> u32 \<times> text_manager" where
  "packet_id i m = (if i = 0 then (syntheticID m + 1, m\<lparr>syntheticID := syntheticID m + 1\<rparr>) else (i, m))"

definition synthetic_packet :: "u32 \<Rightarrow> byte list \<Rightarrow> u32 \<Rightarrow> u32 \<Rightarrow> u32 \<Rightarrow> FromRadioPacket" where
  "synthetic_packet port payload from to i = (FromRadioPacket0 [])\<lparr>PktType := FromRadioMeshPacket,
     PktMeshPacket := Some (MeshPacketData0\<lparr>PortNum := port, Payload := payload, From := from, To := to, PacketID := i\<rparr>)\<rparr>"

definition emit_if :: "bool \<Rightarrow> text_effect \<Rightarrow> text_effect list" where
  "emit_if b x = (if b then [x] else [])"

definition dispatchTextEvent :: "text_env \<Rightarrow> ParsedEvent \<Rightarrow> text_manager \<Rightarrow> text_effect list \<times> text_manager" where
  "dispatchTextEvent e ev m =
     (let k = evKind ev; d = evData ev; node = evNodeID ev; mac = str_at d ''mac'' in
      if k = ''text-message'' then
        (if node = ''!00000000'' \<or> node = ''unknown'' then ([], m)
         else (let (i, m) = packet_id (evPacketID ev) m; to = (if evToNode ev = 0 then BroadcastAddr else evToNode ev)
               in ([Packet (synthetic_packet PortNumTextMessage (bytes_of_string (str_at d ''text'')) (parseNodeNum node) to i)], m)))
      else if k = ''drone-telemetry'' then
        (case marshal e d of
           None \<Rightarrow> ([], m)
         | Some json \<Rightarrow> (let (i, m) = packet_id (evPacketID ev) m in ([Packet (synthetic_packet 10 json (parseNodeNum node) 0 i)], m)))
      else if k = ''target-detected'' then
        (emit_if (mac \<noteq> [] \<and> hasTarget m) (TargetDetected mac (str_at d ''name'') (str_at d ''type'') (int_at d ''rssi'') (int_at d ''channel'')
           (float_at d ''lat'') (float_at d ''lon'') node (str_at d ''targetId'')), m)
      else if k = ''ble-raw'' then
        (emit_if (mac \<noteq> [] \<and> hasBLERaw m \<and> bytes_at d ''advBytes'' \<noteq> [])
           (BLERawFrame node mac (int_at d ''rssi'') (int_at d ''channel'') (bytes_at d ''advBytes'')), m)
      else if k = ''tri-data'' then
        (emit_if (hasTriData m \<and> mac \<noteq> []) (TriData mac node (int_at d ''rssi'') (float_at d ''nodeLat'') (float_at d ''nodeLon'')), m)
      else if k = ''tri-final'' then
        (emit_if (hasTriFinal m \<and> mac \<noteq> [])
           (TriFinal mac (float_at d ''lat'') (float_at d ''lon'') (float_at d ''confidence'') (float_at d ''uncertainty'')), m)
      else if k = ''tri-complete'' then (emit_if (hasTriComplete m) (TriComplete mac (int_at d ''nodes'')), m)
      else if k = ''node-telemetry'' then
        (let lat = float_at d ''lat''; lon = float_at d ''lon''; from = parseNodeNum node; from = (if from = 0 then ExtractMeshFrom (evRaw ev) else from)
         in (emit_if (hasTelemetry m \<and> from \<noteq> 0 \<and>
                   (lat \<noteq> Fin 0 \<or> lon \<noteq> Fin 0 \<or> float_at d ''temperatureC'' \<noteq> Fin 0 \<or> float_at d ''battery'' \<noteq> Fin 0))
              (MeshTelemetry from lat lon d), m))
      else if k = ''command-ack'' then (emit_if (hasAck m) (CommandAck (str_at d ''ackType'') (str_at d ''status'') node d), m)
      else if k = ''alert'' then (emit_if (hasAlert m) (Alerted (evCategory ev) (evLevel ev) node (evRaw ev) d), m)
      else ([], m))"

fun dispatch_events :: "text_env \<Rightarrow> ParsedEvent list \<Rightarrow> text_manager \<Rightarrow> text_effect list \<times> text_manager" where
  "dispatch_events e [] m = ([], m)"
| "dispatch_events e (ev # evs) m =
     (let (xs, m) = dispatchTextEvent e ev m; (ys, m) = dispatch_events e evs m in (xs @ ys, m))"

section \<open>Lines\<close>

text \<open>One line through the parser; the events that pass the filter, changed by \<open>f\<close>, are dispatched.\<close>

definition feed_line :: "text_env \<Rightarrow> (ParsedEvent \<Rightarrow> bool) \<Rightarrow> (ParsedEvent \<Rightarrow> ParsedEvent) \<Rightarrow> string \<Rightarrow> text_manager \<Rightarrow> (text_effect list \<times> text_manager) outcome" where
  "feed_line e keep f line m =
     (case TextParser.ParseLine (teUnicode e) (teOrder e) (tmParser m) line of
        Panics \<Rightarrow> Panics
      | Ret (evs, p) \<Rightarrow> Ret (dispatch_events e (map f (filter keep evs)) (m\<lparr>tmParser := p\<rparr>)))"

fun feed_lines :: "text_env \<Rightarrow> (ParsedEvent \<Rightarrow> bool) \<Rightarrow> (ParsedEvent \<Rightarrow> ParsedEvent) \<Rightarrow> string list \<Rightarrow> text_manager \<Rightarrow> (text_effect list \<times> text_manager) outcome" where
  "feed_lines e keep f [] m = Ret ([], m)"
| "feed_lines e keep f (l # ls) m =
     (case feed_line e keep f l m of
        Panics \<Rightarrow> Panics
      | Ret (xs, m) \<Rightarrow> (case feed_lines e keep f ls m of Panics \<Rightarrow> Panics | Ret (ys, m) \<Rightarrow> Ret (xs @ ys, m)))"

text \<open>The events of a mesh message carry the number of its sender instead of the name in the line.\<close>

definition mesh_event :: "u32 \<Rightarrow> u32 \<Rightarrow> ParsedEvent \<Rightarrow> ParsedEvent" where
  "mesh_event from to ev = ev\<lparr>evNodeID := CHR ''!'' # show_08x from, evToNode := if evToNode ev = 0 then to else evToNode ev\<rparr>"

definition ProcessMeshText :: "text_env \<Rightarrow> u32 \<Rightarrow> u32 \<Rightarrow> string \<Rightarrow> text_manager \<Rightarrow> (text_effect list \<times> text_manager) outcome" where
  "ProcessMeshText e from to s m =
     feed_lines e (\<lambda>ev. evKind ev \<noteq> ''raw'' \<and> evKind ev \<noteq> ''text-message'') (mesh_event from to)
       (filter (\<lambda>l. l \<noteq> []) (map TrimSpace (split_at CHR 0x0A s))) m"

text \<open>A line of the console in the hybrid reader: kinds that also arrive as mesh messages are skipped.\<close>

definition console_kinds_skipped :: "string list" where
  "console_kinds_skipped = [''raw'', ''ble-raw'', ''target-detected'', ''alert'', ''tri-data'', ''tri-final'', ''tri-complete'']"

definition console_line :: "text_env \<Rightarrow> string \<Rightarrow> text_manager \<Rightarrow> (text_effect list \<times> text_manager) outcome" where
  "console_line e line m = feed_line e (\<lambda>ev. evKind ev \<notin> set console_kinds_skipped) (\<lambda>ev. ev) line m"

text \<open>One read of \<open>readLoopText\<close>: the rest of the last line, the lines it completes, and the bound on the rest.\<close>

fun text_lines :: "string \<Rightarrow> string \<Rightarrow> string list \<times> string" where
  "text_lines cur [] = ([], cur)"
| "text_lines cur (c # cs) = (if c = CHR 0x0A then (let (ls, r) = text_lines [] cs in (cur # ls, r)) else text_lines (cur @ [c]) cs)"

definition text_chunk :: "text_env \<Rightarrow> string \<Rightarrow> string \<Rightarrow> text_manager \<Rightarrow> (string \<times> text_effect list \<times> text_manager) outcome" where
  "text_chunk e lineBuf chunk m =
     (let (ls, r) = text_lines [] (lineBuf @ chunk); r = (if length r > 4096 then drop (length r - 2048) r else r)
      in (case feed_lines e (\<lambda>_. True) (\<lambda>ev. ev) (filter (\<lambda>l. l \<noteq> []) (map TrimSpace ls)) m of
            Panics \<Rightarrow> Panics
          | Ret (xs, m) \<Rightarrow> Ret (r, xs, m)))"

text \<open>\<open>SimulateLines\<close> also counts the events.\<close>

fun SimulateLines :: "text_env \<Rightarrow> string list \<Rightarrow> text_manager \<Rightarrow> (nat \<times> text_effect list \<times> text_manager) outcome" where
  "SimulateLines e [] m = Ret (0, [], m)"
| "SimulateLines e (l # ls) m =
     (case TextParser.ParseLine (teUnicode e) (teOrder e) (tmParser m) l of
        Panics \<Rightarrow> Panics
      | Ret (evs, p) \<Rightarrow>
         (let evs = filter (\<lambda>ev. evKind ev \<noteq> ''raw'') evs; (xs, m) = dispatch_events e evs (m\<lparr>tmParser := p\<rparr>)
          in (case SimulateLines e ls m of Panics \<Rightarrow> Panics | Ret (n, ys, m) \<Rightarrow> Ret (length evs + n, xs @ ys, m))))"

end
