(* ===== verification/TextProofs.thy ===== *)
theory TextProofs
  imports TextDispatch
begin

text \<open>
  The text parser: which lines it can read at all, the bound on its cache, the shape of the events,
  and whom the text of a mesh message can speak for.
\<close>

section \<open>ASCII text\<close>

definition ascii :: "string \<Rightarrow> bool" where
  "ascii s = list_all (\<lambda>c. byte_of c < 0x80) s"

definition items :: "string \<Rightarrow> item list" where
  "items s = map (\<lambda>c. (byte_of c, [c])) s"

lemma ascii_simps [simp]: "ascii []" "ascii (c # s) \<longleftrightarrow> byte_of c < 0x80 \<and> ascii s" "ascii (s @ t) \<longleftrightarrow> ascii s \<and> ascii t"
  by (simp_all add: ascii_def)

lemma ascii_subset: "set s \<subseteq> set t \<Longrightarrow> ascii t \<Longrightarrow> ascii s"
  by (auto simp: ascii_def list_all_iff)

lemma items_simps [simp]: "items [] = []" "items (c # s) = (byte_of c, [c]) # items s" "items (s @ t) = items s @ items t"
    "length (items s) = length s" "text_of (items s) = s"
  by (simp_all add: items_def text_of_def comp_def)

lemma runes_nil [simp]: "runes [] = []"
  by (simp add: runes.simps)

lemma runes_ascii: "ascii s \<Longrightarrow> runes s = items s"
proof (induction s)
  case (Cons c s)
  have "runes (c # s) = (byte_of c, [c]) # runes s" using Cons.prems by (subst runes.simps) (simp add: decode_rune.simps Let_def)
  then show ?case using Cons by simp
qed simp

text \<open>What the parser relies on of the case mappings: they are the usual ones on ASCII.\<close>

definition unicode_ok :: "unicode \<Rightarrow> bool" where
  "unicode_ok u \<longleftrightarrow> (\<forall>c. byte_of c < 0x80 \<longrightarrow> toLower u (byte_of c) = byte_of (lower_char c) \<and> toUpper u (byte_of c) = byte_of (upper_char c))"

lemma case_ascii: "byte_of c < 0x80 \<Longrightarrow> byte_of (lower_char c) < 0x80" "byte_of c < 0x80 \<Longrightarrow> byte_of (upper_char c) < 0x80"
  by (auto simp: lower_char_def upper_char_def Let_def of_char_of)

lemma to_lower_ascii: assumes "unicode_ok u" "ascii s" shows "to_lower u s = map lower_char s"
proof -
  have "(\<lambda>(r, b). if toLower u r = r \<and> r \<noteq> 0xFFFD then b else encode_rune (toLower u r)) (byte_of c, [c]) = [lower_char c]"
    if "byte_of c < 0x80" for c
    using that assms(1) case_ascii(1) [OF that] by (auto simp: unicode_ok_def encode_rune_def)
  then show ?thesis using assms(2)
    by (induction s) (auto simp: to_lower_def map_runes_def runes_ascii)
qed

section \<open>What a match leaves\<close>

lemma lit_rest_suffix: "lit_rest ci l p xs = Some (q, ys) \<Longrightarrow> \<exists>zs. xs = zs @ ys"
  by (induction ci l p xs rule: lit_rest.induct) (auto split: if_splits)

lemma matches_suffix: "matches r s s' \<Longrightarrow> \<exists>zs. fst (snd s) = zs @ fst (snd s')"
proof (induction rule: matches.induct)
  case (Lit ci l p xs q ys c)
  then show ?case by (simp add: lit_rest_suffix)
next
  case (Many n j xs cs lazy p c)
  then show ?case by (metis append_take_drop_id fst_conv snd_conv)
next
  case (Cat r s s' r' s'')
  then show ?case by (metis append.assoc)
qed auto

lemma match_here_suffix: assumes "match_here r p xs = Some (c, q, ys)" shows "\<exists>zs. xs = zs @ ys"
proof -
  obtain q' ys' c' where "matches r (p, xs, []) (q', ys', c')" "Some (c', q', ys') = Some (c, q, ys)"
    using re_match_sound [OF assms [unfolded match_here_def]] by auto
  then show ?thesis using matches_suffix by fastforce
qed

lemma text_of_append [simp]: "text_of (xs @ ys) = text_of xs @ text_of ys" "text_of (x # ys) = snd x @ text_of ys" "text_of [] = []"
  by (simp_all add: text_of_def)

lemma remove_all_subset: "set (remove_all n r p xs) \<subseteq> set (text_of xs)"
proof (induction n r p xs rule: remove_all.induct)
  case (3 n r p x xs)
  show ?case
  proof (cases "match_here r p (x # xs)")
    case None
    then show ?thesis using 3 by auto
  next
    case (Some y)
    obtain c q ys where y: "y = (c, q, ys)" by (cases y)
    then obtain zs where "x # xs = zs @ ys" using match_here_suffix Some by blast
    then have "set (text_of ys) \<subseteq> set (text_of (x # xs))" by simp
    then show ?thesis using 3(2) [OF Some [unfolded y]] y Some by auto
  qed
qed auto

lemma drop_words_suffix: "\<exists>zs. s = zs @ drop_words ws s"
proof (induction ws s rule: drop_words.induct)
  case (1 ws s)
  show ?case
  proof (cases "find (\<lambda>w. w \<noteq> [] \<and> has_prefix w s) ws")
    case None
    then show ?thesis by (subst drop_words.simps) simp
  next
    case (Some w)
    with 1 obtain zs where "drop (length w) s = zs @ drop_words ws (drop (length w) s)" by blast
    then have "s = (take (length w) s @ zs) @ drop_words ws (drop (length w) s)" by (metis append.assoc append_take_drop_id)
    moreover have "drop_words ws s = drop_words ws (drop (length w) s)" using Some by (subst drop_words.simps) simp
    ultimately show ?thesis by metis
  qed
qed

lemma TrimSpace_subset: "set (TrimSpace s) \<subseteq> set s"
proof -
  have "set (drop_words ws t) \<subseteq> set t" for ws t using drop_words_suffix [of t ws] by (metis Un_upper2 set_append)
  then show ?thesis unfolding TrimSpace_def by (metis set_rev subset_trans)
qed

lemma ascii_TrimSpace [simp]: "ascii s \<Longrightarrow> ascii (TrimSpace s)"
  by (rule ascii_subset [OF TrimSpace_subset])

lemma ascii_RemoveAllString: "ascii s \<Longrightarrow> ascii (RemoveAllString r s)"
  unfolding RemoveAllString_def by (rule ascii_subset [OF remove_all_subset]) (simp add: runes_ascii)

lemma ascii_clean_line: assumes "ascii s" shows "ascii (clean_line s)"
proof -
  have "ascii t \<Longrightarrow> cleanNonPrintable t = filter (\<lambda>c. byte_of c \<in> {9, 10, 13} \<or> 0x20 \<le> byte_of c) t" for t
    unfolding cleanNonPrintable_def by (simp only: runes_ascii) (induction t, auto)
  then have "ascii t \<Longrightarrow> set (cleanNonPrintable t) \<subseteq> set t" for t by auto
  then show ?thesis unfolding clean_line_def using assms ascii_RemoveAllString ascii_subset ascii_TrimSpace by metis
qed

lemma join_line_subset: "set (join_line w s) \<subseteq> set s"
  by (induction w s rule: join_line.induct) auto

section \<open>Reading a line\<close>

lemma last_index_bound: "last_index p s = Some i \<Longrightarrow> i + length p \<le> length s"
proof (induction s arbitrary: i)
  case (Cons c s)
  then show ?case using take_all [of "c # s" "length p"] by (fastforce simp: has_prefix_def split: option.splits if_splits dest: arg_cong [of _ _ length])
qed (simp split: if_splits)

lemma normalizePayload_ascii: assumes "unicode_ok u" "ascii s" shows "\<exists>r. normalizePayload u s = Ret r"
proof -
  let ?s = "TrimSpace (RemoveAllString trailingHash (join_line '' GPS='' (join_line '' RSSI:'' (join_line '' Type:'' s))))"
  have "ascii ?s" using assms(2) by (intro ascii_TrimSpace ascii_RemoveAllString) (meson ascii_subset join_line_subset)
  then have "has_prefix ''0m'' (to_lower u ?s) \<Longrightarrow> 2 \<le> length ?s"
    by (auto simp: to_lower_ascii [OF assms(1)] has_prefix_def dest: arg_cong [of _ _ length])
  then show ?thesis by (auto simp: normalizePayload_def Let_def slice_from_def)
qed

lemma extractPayload_ascii: assumes "unicode_ok u" "ascii s" shows "\<exists>r. extractPayload u s = Ret r"
proof (cases "last_index ''msg='' (to_lower u s)")
  case None
  then show ?thesis using normalizePayload_ascii [OF assms] by (simp add: extractPayload_def)
next
  case (Some i)
  then have "i + 4 \<le> length s" using last_index_bound [OF Some] by (simp add: to_lower_ascii [OF assms])
  moreover have "ascii (drop (nat (int i + 4)) s)" using assms(2) ascii_subset set_drop_subset by metis
  ultimately show ?thesis
    using normalizePayload_ascii [OF assms(1), of "TrimSpace (drop (nat (int i + 4)) s)"] Some by (simp add: extractPayload_def slice_from_def)
qed

text \<open>C33: The parser returns for every line of ASCII text, whatever is in its cache.\<close>

theorem ascii_lines_are_parsed:
  assumes "unicode_ok u" "ascii line"
  shows "\<exists>evs p'. TextParser.ParseLine u order p line = Ret (evs, p')"
proof -
  obtain r where "extractPayload u (clean_line line) = Ret r" using extractPayload_ascii [OF assms(1) ascii_clean_line [OF assms(2)]] by blast
  then show ?thesis by (auto simp: TextParser.ParseLine_def Let_def split: option.splits)
qed

text \<open>The case mappings of ASCII alone, for the witnesses.\<close>

definition ascii_unicode :: unicode where
  "ascii_unicode = \<lparr>toLower = (\<lambda>r. if r < 0x80 then byte_of (lower_char (char_of r)) else if r = 0x23A then 0x2C65 else r),
     toUpper = (\<lambda>r. if r < 0x80 then byte_of (upper_char (char_of r)) else r)\<rparr>"

lemma ascii_unicode_ok [simp]: "unicode_ok ascii_unicode"
  by (simp add: unicode_ok_def ascii_unicode_def)

theorem ascii_lines_are_parsed_witness:
  "\<exists>evs p'. TextParser.ParseLine ascii_unicode (map fst) NewTextParser ''AH34: STATUS: Mode:WiFi msg='' = Ret (evs, p')"
  by (rule ascii_lines_are_parsed) simp_all

text \<open>The letter U+023A has two bytes, its lower case U+2C65 three: the index of the last \<open>msg=\<close> lies behind the text.\<close>

definition crash_text :: string where
  "crash_text = [CHR 0xC8, CHR 0xBA] @ ''msg=''"

lemma crash_runes: "runes crash_text = [(0x23A, [CHR 0xC8, CHR 0xBA]), (109, ''m''), (115, ''s''), (103, ''g''), (61, ''='')]"
  by (simp add: crash_text_def runes.simps decode_rune.simps continuation_def)

lemma crash_trim: "TrimSpace crash_text = crash_text" "split_at CHR 0x0A crash_text = [crash_text]"
  unfolding crash_text_def by code_simp+

lemma remove_ansi: "0x1B \<notin> fst ` set xs \<Longrightarrow> remove_all n ansiClean p xs = text_of xs"
proof (induction n arbitrary: p xs)
  case (Suc n)
  then show ?case by (cases xs) (auto simp: match_here_def ansiClean_def fold_eq_def)
qed simp

lemma crash_clean: "clean_line crash_text = crash_text"
proof -
  have "RemoveAllString ansiClean crash_text = crash_text"
    by (simp add: RemoveAllString_def remove_ansi crash_runes) (simp add: crash_text_def)
  moreover have "cleanNonPrintable crash_text = crash_text"
    by (simp add: cleanNonPrintable_def crash_runes) (simp add: crash_text_def)
  ultimately show ?thesis by (simp add: clean_line_def crash_trim)
qed

lemma ParseLine_crashes:
  assumes "unicode_ok u" "toLower u 0x23A = 0x2C65"
  shows "TextParser.ParseLine u order p crash_text = Panics"
proof -
  have l: "toLower u (byte_of c) = byte_of (lower_char c)" if "byte_of c < 0x80" for c using assms(1) that by (simp add: unicode_ok_def)
  have a: "toLower u 109 = 109" "toLower u 115 = 115" "toLower u 103 = 103" "toLower u 61 = 61"
    using l [of "CHR ''m''"] l [of "CHR ''s''"] l [of "CHR ''g''"] l [of "CHR ''=''"] by (simp_all add: lower_char_def Let_def)
  obtain x y z where e: "encode_rune 0x2C65 = [x, y, z]" by (simp add: encode_rune_def)
  have "to_lower u crash_text = [x, y, z] @ ''msg=''"
    by (simp add: to_lower_def map_runes_def crash_runes assms(2) a e)
  moreover have "last_index ''msg='' ([x, y, z] @ ''msg='') = Some 3" by (simp add: has_prefix_def)
  moreover have "length crash_text = 6" by (simp add: crash_text_def)
  ultimately show ?thesis
    by (auto simp: TextParser.ParseLine_def Let_def crash_clean extractPayload_def slice_from_def)
qed

lemma mesh_text_crashes:
  assumes "unicode_ok (teUnicode e)" "toLower (teUnicode e) 0x23A = 0x2C65"
  shows "TextDispatch.ProcessMeshText e from to crash_text m = Panics"
proof -
  have "crash_text \<noteq> []" by (simp add: crash_text_def)
  then show ?thesis by (simp add: TextDispatch.ProcessMeshText_def crash_trim feed_line_def ParseLine_crashes [OF assms])
qed

section \<open>The cache\<close>

text \<open>Any sequence of lines; it ends with the line that panics.\<close>

fun parse_lines :: "unicode \<Rightarrow> ((u32 \<times> u32) list \<Rightarrow> u32 list) \<Rightarrow> TextParser \<Rightarrow> string list \<Rightarrow> TextParser" where
  "parse_lines u order p [] = p"
| "parse_lines u order p (l # ls) = (case TextParser.ParseLine u order p l of Panics \<Rightarrow> p | Ret (_, p') \<Rightarrow> parse_lines u order p' ls)"

definition cache_ok :: "TextParser \<Rightarrow> bool" where
  "cache_ok p \<longleftrightarrow> length (pktCache p) \<le> 256 \<and> distinct (map fst (pktCache p))"

lemma prune_cache_bound: "fst ` set m \<subseteq> set ks \<Longrightarrow> distinct (map fst m) \<Longrightarrow> length (prune_cache ks m) \<le> 128 \<and> distinct (map fst (prune_cache ks m))"
proof (induction ks m rule: prune_cache.induct)
  case (2 k ks m)
  have "fst ` set (AList.delete k m) \<subseteq> set ks" using 2(2) by (auto simp: AList.delete_eq)
  moreover have "distinct (map fst (AList.delete k m))" using 2(3) by (rule distinct_delete)
  ultimately show ?case using 2(1) by (auto simp: Let_def)
qed auto

lemma length_update: "length (AList.update k v m) \<le> Suc (length m)"
  by (induction m) auto

lemma cachePacketMeta_ok: assumes "\<And>m. set (order m) = fst ` set m" "cache_ok p" shows "cache_ok (cachePacketMeta u order s p)"
proof -
  have "distinct (map fst (AList.update k v (pktCache p)))" "length (AList.update k v (pktCache p)) \<le> 257" for k v
    using assms(2) length_update [of k v "pktCache p"] by (auto simp: cache_ok_def intro: distinct_update)
  then have "cache_ok (p\<lparr>pktCache := let m = AList.update k v (pktCache p) in if length m > 256 then prune_cache (order m) m else m\<rparr>)" for k v
    using prune_cache_bound [of "AList.update k v (pktCache p)" "order (AList.update k v (pktCache p))"] assms(1)
    by (auto simp: cache_ok_def Let_def)
  then show ?thesis using assms(2) by (auto simp: cachePacketMeta_def Let_def split: option.splits)
qed

lemma lookupPacketTo_ok: assumes "cache_ok p" shows "cache_ok (snd (lookupPacketTo i p))"
proof -
  have "length (AList.delete i (pktCache p)) \<le> length (pktCache p)" by (simp add: AList.delete_eq)
  then show ?thesis using assms by (auto simp: cache_ok_def lookupPacketTo_def split: option.splits intro: distinct_delete)
qed

lemma ParseLine_cache:
  assumes "\<And>m. set (order m) = fst ` set m" "cache_ok p" "TextParser.ParseLine u order p l = Ret (evs, p')" shows "cache_ok p'"
proof -
  let ?p = "cachePacketMeta u order (clean_line l) p"
  have "cache_ok ?p" by (rule cachePacketMeta_ok [OF assms(1,2)])
  moreover have "p' \<in> {p, ?p} \<or> (\<exists>i. p' = snd (lookupPacketTo i ?p))"
    using assms(3) by (auto simp: TextParser.ParseLine_def Let_def parseTextEcho_def split: if_splits outcome.splits option.splits prod.splits) (metis snd_conv)+
  ultimately show ?thesis using assms(2) lookupPacketTo_ok by auto
qed

text \<open>However many lines are parsed, the cache of packet addresses holds at most 256 entries, one per packet id,
  whatever order the map is iterated in.\<close>

theorem packet_cache_bounded:
  assumes "\<And>m. set (order m) = fst ` set m"
  shows "cache_ok (parse_lines u order NewTextParser ls)"
proof -
  have "cache_ok p \<Longrightarrow> cache_ok (parse_lines u order p ls)" for p
    by (induction ls arbitrary: p) (auto split: outcome.splits dest: ParseLine_cache [OF assms])
  moreover have "cache_ok NewTextParser" by (simp add: cache_ok_def NewTextParser_def)
  ultimately show ?thesis by blast
qed

section \<open>The events\<close>

definition event_kinds :: "string list" where
  "event_kinds = [''raw'', ''text-message'', ''node-telemetry'', ''drone-telemetry'', ''target-detected'', ''ble-raw'', ''alert'', ''command-ack'',
     ''tri-data'', ''tri-final'', ''tri-complete'', ''gate-codes'', ''ai-models'', ''i2c-scan'']"

definition event_ok :: "string \<Rightarrow> ParsedEvent \<Rightarrow> bool" where
  "event_ok raw ev \<longleftrightarrow> evKind ev \<in> set event_kinds \<and> evRaw ev = raw \<and>
     (if evKind ev = ''alert'' then evLevel ev \<in> {''INFO'', ''NOTICE'', ''ALERT'', ''CRITICAL''} \<and> evCategory ev \<noteq> []
      else evLevel ev = [] \<and> evCategory ev = (if evKind ev = ''ai-models'' then ''camera'' else []))"

lemma event_ok_simps [simp]:
  "event_ok raw (event kind node d raw) \<longleftrightarrow> kind \<in> set event_kinds - {''alert'', ''ai-models''}"
  "event_ok raw (alert level category node d raw) \<longleftrightarrow> level \<in> {''INFO'', ''NOTICE'', ''ALERT'', ''CRITICAL''} \<and> category \<noteq> []"
  "event_ok raw (synthetic_ack a node d raw)"
  by (auto simp: event_ok_def event_def alert_def synthetic_ack_def event_kinds_def)

lemma event_ok_address [simp]: "event_ok raw (ev\<lparr>evPacketID := i, evToNode := t\<rparr>) \<longleftrightarrow> event_ok raw ev"
  by (simp add: event_ok_def)

lemma kind_cases [simp]: "kind \<in> set event_kinds \<longleftrightarrow> kind = ''raw'' \<or> kind = ''text-message'' \<or> kind = ''node-telemetry'' \<or> kind = ''drone-telemetry'' \<or>
    kind = ''target-detected'' \<or> kind = ''ble-raw'' \<or> kind = ''alert'' \<or> kind = ''command-ack'' \<or> kind = ''tri-data'' \<or> kind = ''tri-final'' \<or>
    kind = ''tri-complete'' \<or> kind = ''gate-codes'' \<or> kind = ''ai-models'' \<or> kind = ''i2c-scan''"
  by (simp add: event_kinds_def)

definition handler_ok :: "handler \<Rightarrow> bool" where
  "handler_ok h \<longleftrightarrow> (\<forall>u c raw. \<forall>ev \<in> set (h u c raw). event_ok raw ev)"

lemma sensor_handlers_ok [simp]:
  "handler_ok handleStatus" "handler_ok handleDrone" "handler_ok handleTarget" "handler_ok handleDevice" "handler_ok handleBLERaw"
  "handler_ok handleGPSLock" "handler_ok handleGPSLost" "handler_ok handleNodeHB" "handler_ok handleProbeHit" "handler_ok handleStartup"
  "handler_ok handleTriData" "handler_ok handleTriFinal" "handler_ok handleTriComplete" "handler_ok handleVibration" "handler_ok handleTamper"
  by (simp_all add: handler_ok_def Let_def handleStatus_def handleDrone_def handleTarget_def handleDevice_def handleBLERaw_def handleGPSLock_def
      handleGPSLost_def handleNodeHB_def handleProbeHit_def handleStartup_def handleTriData_def handleTriFinal_def handleTriComplete_def
      handleVibration_def handleTamper_def split: option.split)
    (auto split: if_splits)

lemma report_handlers_ok [simp]:
  "handler_ok handleACK" "handler_ok handleCodes" "handler_ok handleI2cScan" "handler_ok handleAIModels" "handler_ok handleGateTriggered"
  "handler_ok handleAnomaly" "handler_ok handleCamDetection" "handler_ok handleCamFace" "handler_ok handleCamPlate" "handler_ok handleIdentity"
  "category \<noteq> [] \<Longrightarrow> handler_ok (handleDoneSummaryWithAck category a)"
  by (simp_all add: handler_ok_def Let_def handleACK_def handleCodes_def handleI2cScan_def handleAIModels_def handleGateTriggered_def
      handleAnomaly_def handleCamDetection_def handleCamFace_def handleCamPlate_def handleIdentity_def handleDoneSummaryWithAck_def)
    (simp add: event_ok_def event_def)

lemma security_handlers_ok [simp]:
  "handler_ok handleAttackLong" "handler_ok handleAttackShort" "handler_ok handleAttack" "handler_ok handleSetupMode" "handler_ok handleBatterySaverState"
  "handler_ok handleEraseToken" "handler_ok handleRTCSync" "handler_ok (handleBroadcastCommand category)"
  "level \<in> {''INFO'', ''NOTICE'', ''ALERT'', ''CRITICAL''} \<Longrightarrow> handler_ok (handleEraseEvent kind level)"
  by (simp_all add: handler_ok_def Let_def handleAttackLong_def handleAttackShort_def handleAttack_def handleSetupMode_def handleBatterySaverState_def
      handleEraseToken_def handleRTCSync_def handleBroadcastCommand_def handleEraseEvent_def)

lemma patterns_ok: "list_all (\<lambda>(_, _, h). handler_ok h) patterns"
  by (simp add: patterns_def)

lemma first_pattern_ok: "list_all (\<lambda>(_, _, h). handler_ok h) ps \<Longrightarrow> first_pattern ps s = Some (n, h, c) \<Longrightarrow> handler_ok h"
  by (induction ps s rule: first_pattern.induct) (auto split: option.splits)

lemma ParseLine_events_ok:
  assumes "TextParser.ParseLine u order p line = Ret (evs, p')" "ev \<in> set evs"
  shows "event_ok (clean_line line) ev"
  using assms first_pattern_ok [OF patterns_ok]
  by (auto simp: TextParser.ParseLine_def parseTextEcho_def Let_def handler_ok_def split: if_splits outcome.splits option.splits prod.splits)

text \<open>C34: Every event the parser returns has one of fourteen kinds and the cleaned line as its raw text. Alerts, and only they, have a
  level, which is one of the four levels. Every alert has a category; of the other events only the list of models of a camera has one,
  which is \<open>camera\<close>.\<close>

theorem parsed_events_are_well_formed:
  assumes "TextParser.ParseLine u order p line = Ret (evs, p')" "ev \<in> set evs"
  shows "event_ok (clean_line line) ev"
  by (rule ParseLine_events_ok [OF assms])

section \<open>Short texts\<close>

text \<open>How many runes every match of a pattern takes at least.\<close>

fun min_len :: "re \<Rightarrow> nat" where
  "min_len (Lit ci s) = length s"
| "min_len (One cs) = 1"
| "min_len (Many cs n lazy) = n"
| "min_len (Cat r s) = min_len r + min_len s"
| "min_len (Alt r s) = min (min_len r) (min_len s)"
| "min_len (Group g r) = min_len r"
| "min_len r = 0"

lemma min_len_times [simp]: "min_len (times n r) = n * min_len r"
  by (induction n) (simp_all add: times_def)

lemma lit_rest_length: "lit_rest ci l p xs = Some (q, ys) \<Longrightarrow> length ys + length l = length xs"
  by (induction ci l p xs rule: lit_rest.induct) (auto split: if_splits)

lemma matches_length: "matches r s s' \<Longrightarrow> length (fst (snd s')) + min_len r \<le> length (fst (snd s))"
  by (induction rule: matches.induct) (auto dest: lit_rest_length)

lemma match_here_length: "match_here r p xs = Some y \<Longrightarrow> min_len r \<le> length xs"
  unfolding match_here_def by (drule re_match_sound) (auto dest!: matches_length)

lemma search_length: "search r p xs = Some y \<Longrightarrow> min_len r \<le> length xs"
  by (induction r p xs rule: search.induct) (auto dest: match_here_length split: option.splits)

lemma runes_length: "length (runes s) \<le> length s"
proof (induction s rule: runes.induct)
  case (1 s)
  show ?case
  proof (cases "s = []")
    case False
    obtain r n where n: "decode_rune s = (r, n)" by fastforce
    then have "length (runes (drop n s)) \<le> length s - n" "1 \<le> n" "n \<le> length s" using 1 [OF False] decode_rune_width [OF False] by simp_all
    then show ?thesis using n False by (subst runes.simps) simp
  qed simp
qed

lemma first_pattern_short: "list_all (\<lambda>(_, r, _). n \<le> min_len r) ps \<Longrightarrow> length s < n \<Longrightarrow> first_pattern ps s = None"
  using runes_length [of s]
  by (induction ps s rule: first_pattern.induct) (auto simp: FindStringSubmatch_def split: option.splits dest: search_length)

lemmas pattern_defs = re_decimal_def re_int_def re_mac_def re_status_def re_drone_def re_tri_target_data_def re_tri_final_def re_tri_complete_def
  re_target_type_first_def re_target_mac_first_def re_device_def re_device_short_def re_ble_raw_def re_ble_raw_short_def re_attack_long_def
  re_attack_short_def re_gps_lock_def re_gps_lost_def re_node_hb_def re_node_hb_saver_def re_node_hb_inline_def re_codes_def re_ai_models_def
  re_gate_triggered_def re_probe_hit_def re_ack_def re_anomaly_def re_cam_detection_def re_cam_face_def re_cam_plate_def re_startup_def
  re_vibration_def re_tamper_def re_scan_done_def re_deauth_done_def re_list_scan_done_def re_drone_done_def re_randomization_done_def
  re_baseline_done_def re_baseline_status_def re_vibration_status_def re_raw_ble_status_def re_autoerase_status_def re_i2c_scan_def
  re_identity_def re_attack_def re_setup_mode_def re_battery_saver_state_def re_battery_saver_status_def re_erase_executing_def
  re_erase_complete_def re_erase_token_def re_rtc_sync_def re_bcast_triangulate_start_def re_bcast_tri_cycle_start_def
  re_bcast_triangulate_stop_def re_bcast_sync_def

lemma patterns_min_len: "list_all (\<lambda>(_, r, _). 8 \<le> min_len r) patterns"
  by (simp add: patterns_def pattern_defs)

theorem parsed_events_are_well_formed_witness: "event_ok (clean_line ''hi'') (event ''raw'' [] [] ''hi'')"
proof (rule parsed_events_are_well_formed)
  have l: "to_lower ascii_unicode ''hi'' = ''hi''" by (simp add: to_lower_ascii lower_char_def)
  have t: "TrimSpace ''hi'' = ''hi''" by code_simp
  have "RemoveAllString ansiClean ''hi'' = ''hi''" by (simp add: RemoveAllString_def runes_ascii ansiClean_def match_here_def fold_eq_def)
  moreover have "cleanNonPrintable ''hi'' = ''hi''" by (simp add: cleanNonPrintable_def runes_ascii)
  ultimately have c: "clean_line ''hi'' = ''hi''" using t by (simp add: clean_line_def)
  have "RemoveAllString trailingHash ''hi'' = ''hi''"
    by (simp add: RemoveAllString_def runes_ascii trailingHash_def match_here_def counts_def)
  then have "extractPayload ascii_unicode ''hi'' = Ret ''hi''"
    by (simp add: extractPayload_def normalizePayload_def l t has_prefix_def Let_def)
  moreover have "first_pattern patterns ''hi'' = None" by (rule first_pattern_short [OF patterns_min_len]) simp
  ultimately show "TextParser.ParseLine ascii_unicode (map fst) NewTextParser ''hi'' = Ret ([event ''raw'' [] [] ''hi''], NewTextParser)"
    by (simp add: TextParser.ParseLine_def c l t cachePacketMeta_def isMeshtasticEcho_def contains_def has_prefix_def Let_def)
qed simp

section \<open>Whom a mesh message speaks for\<close>

lemma int_of_char: "(of_char c :: int) = int (byte_of c)"
  by (rule of_nat_of_char [symmetric])

lemma digit_of_hex_lower: "d < 16 \<Longrightarrow> digit_of 16 (hex_lower d) = Some (int d)"
  by (auto simp: digit_of_def hex_lower_def is_digit_def is_hex_letter_def lower_char_def Let_def int_of_char)

lemma uint_value_show: "v * 16 ^ k + int (n mod 16 ^ k) < 2 ^ 32 \<Longrightarrow> 0 \<le> v \<Longrightarrow> uint_value v (show_hex_lower k n @ cs) = uint_value (v * 16 ^ k + int (n mod 16 ^ k)) cs"
proof (induction k arbitrary: n cs)
  case (Suc k)
  let ?h = "v * 16 ^ k + int (n div 16 mod 16 ^ k)"
  have e: "v * 16 ^ Suc k + int (n mod 16 ^ Suc k) = 16 * ?h + int (n mod 16)" by (simp add: mod_mult2_eq)
  then have "?h < 2 ^ 32" using Suc.prems mult_nonneg_nonneg [OF Suc.prems(2), of "16 ^ k"] by simp
  then have "uint_value v (show_hex_lower (Suc k) n @ cs) = uint_value ?h (hex_lower (n mod 16) # cs)" using Suc by simp
  then show ?case using Suc.prems e by (simp add: digit_of_hex_lower algebra_simps)
qed simp

lemma parseNodeNum_show [simp]: "parseNodeNum (CHR ''!'' # show_08x w) = w"
proof -
  have "unat w < 16 ^ 8" using unsigned_less [of w] by simp
  then have "unat w mod 16 ^ 8 = unat w" by simp
  then show ?thesis using uint_value_show [of 0 8 "unat w" "[]"] unsigned_less [of w] by (simp add: parseNodeNum_def show_08x_def)
qed

text \<open>The node an effect names is the given one. The result of a triangulation and its end name the tracked device and no node.\<close>

fun speaks_for :: "u32 \<Rightarrow> text_effect \<Rightarrow> bool" where
  "speaks_for n (Packet p) \<longleftrightarrow> (case PktMeshPacket p of Some mp \<Rightarrow> From mp = n | None \<Rightarrow> False)"
| "speaks_for n (TargetDetected _ _ _ _ _ _ _ node _) \<longleftrightarrow> node = CHR ''!'' # show_08x n"
| "speaks_for n (BLERawFrame node _ _ _ _) \<longleftrightarrow> node = CHR ''!'' # show_08x n"
| "speaks_for n (TriData _ node _ _ _) \<longleftrightarrow> node = CHR ''!'' # show_08x n"
| "speaks_for n (MeshTelemetry from _ _ _) \<longleftrightarrow> from = n"
| "speaks_for n (CommandAck _ _ node _) \<longleftrightarrow> node = CHR ''!'' # show_08x n"
| "speaks_for n (Alerted _ _ node _ _) \<longleftrightarrow> node = CHR ''!'' # show_08x n"
| "speaks_for n (TriFinal _ _ _ _ _) \<longleftrightarrow> False"
| "speaks_for n (TriComplete _ _) \<longleftrightarrow> False"

fun names_no_node :: "text_effect \<Rightarrow> bool" where
  "names_no_node (TriFinal _ _ _ _ _) = True"
| "names_no_node (TriComplete _ _) = True"
| "names_no_node _ = False"

lemma dispatch_mesh_event: "from \<noteq> 0 \<Longrightarrow> dispatchTextEvent e (mesh_event from to ev) m = (xs, m') \<Longrightarrow> x \<in> set xs \<Longrightarrow> speaks_for from x \<or> names_no_node x"
  by (auto simp: dispatchTextEvent_def mesh_event_def emit_if_def Let_def synthetic_packet_def split: if_splits prod.splits option.splits)

lemma dispatch_mesh_events:
  "from \<noteq> 0 \<Longrightarrow> dispatch_events e (map (mesh_event from to) evs) m = (xs, m') \<Longrightarrow> x \<in> set xs \<Longrightarrow> speaks_for from x \<or> names_no_node x"
  by (induction evs arbitrary: m xs m') (auto split: prod.splits dest: dispatch_mesh_event)

lemma feed_mesh_lines:
  "from \<noteq> 0 \<Longrightarrow> feed_lines e keep (mesh_event from to) ls m = Ret (xs, m') \<Longrightarrow> x \<in> set xs \<Longrightarrow> speaks_for from x \<or> names_no_node x"
proof (induction ls arbitrary: m xs m')
  case (Cons l ls)
  then show ?case by (auto simp: feed_line_def split: outcome.splits) (metis dispatch_mesh_events)
qed simp

text \<open>The shortest frame of the table.\<close>

lemma matches_none: "matches (Many cs 0 lazy) (p, xs, c) (p, xs, c)"
  using Many [of 0 0 xs cs lazy p c] by (simp add: prev_after_def)

lemma gps_lost_matches: "\<exists>c. FindStringSubmatch re_gps_lost ''GPS:LOST'' = Some c"
proof -
  let ?t = "items ''GPS:LOST''"
  have g: "lit_rest True ''GPS:'' None ?t = Some (Some 58, drop 4 ?t)" "lit_rest True ''LOST'' (Some 58) (drop 4 ?t) = Some (Some 84, [])"
    by (simp_all add: fold_eq_def)
  have "matches re_gps_lost (None, ?t, []) (Some 84, [], [])"
    unfolding re_gps_lost_def cats.simps
    by (rule Cat [OF Bol Cat [OF MaybeNo Cat [OF MaybeNo Cat [OF matches_none Cat [OF Lit [OF g(1)] Cat [OF matches_none Cat [OF Lit [OF g(2)] Empty]]]]]]])
  then have "match_here re_gps_lost None ?t \<noteq> None" unfolding match_here_def by (rule re_match_complete) simp
  then show ?thesis by (auto simp: FindStringSubmatch_def runes_ascii split: option.splits)
qed

lemma first_pattern_skip: "list_all (\<lambda>(_, r, _). length s < min_len r) ps \<Longrightarrow> first_pattern (ps @ qs) s = first_pattern qs s"
  using runes_length [of s]
  by (induction ps) (auto simp: FindStringSubmatch_def split: option.splits dest!: search_length)

lemma gps_lost_pattern: "\<exists>c. first_pattern patterns ''GPS:LOST'' = Some (''gps-lost'', handleGPSLost, c)"
proof -
  have "patterns = take 14 patterns @ drop 14 patterns" by simp
  moreover have "list_all (\<lambda>(_, r, _). length ''GPS:LOST'' < min_len r) (take 14 patterns)" by (simp add: patterns_def pattern_defs)
  moreover have "\<exists>ps. drop 14 patterns = (''gps-lost'', re_gps_lost, handleGPSLost) # ps" by (simp add: patterns_def)
  ultimately show ?thesis using gps_lost_matches by (metis first_pattern.simps(2) first_pattern_skip option.simps(5))
qed

definition env_lost :: text_env where
  "env_lost = \<lparr>teUnicode = ascii_unicode, teOrder = map fst, marshal = \<lambda>_. None\<rparr>"

lemma gps_lost_run:
  "TextDispatch.ProcessMeshText env_lost 5 0 ''GPS:LOST'' wired_manager = Ret ([Alerted ''gps'' ''NOTICE'' ''!00000005'' ''GPS:LOST'' []], wired_manager)"
proof -
  let ?t = "''GPS:LOST''"
  have l: "to_lower ascii_unicode ?t = ''gps:lost''" by (simp add: to_lower_ascii) code_simp
  have t: "TrimSpace ?t = ?t" by code_simp
  have "RemoveAllString ansiClean ?t = ?t" by (simp add: RemoveAllString_def runes_ascii ansiClean_def match_here_def fold_eq_def)
  moreover have "cleanNonPrintable ?t = ?t" by (simp add: cleanNonPrintable_def runes_ascii)
  ultimately have c: "clean_line ?t = ?t" using t by (simp add: clean_line_def)
  have "RemoveAllString trailingHash ?t = ?t"
    by (simp add: RemoveAllString_def runes_ascii trailingHash_def match_here_def counts_def)
  then have "extractPayload ascii_unicode ?t = Ret ?t"
    by (simp add: extractPayload_def normalizePayload_def l t has_prefix_def Let_def)
  then have "TextParser.ParseLine ascii_unicode (map fst) NewTextParser ?t =
      Ret ([alert ''NOTICE'' ''gps'' (group c ''id'') [] ?t], NewTextParser)"
    if "first_pattern patterns ?t = Some (''gps-lost'', handleGPSLost, c)" for c
    using that by (simp add: TextParser.ParseLine_def c l t cachePacketMeta_def contains_def has_prefix_def handleGPSLost_def Let_def)
  then obtain n where "TextParser.ParseLine ascii_unicode (map fst) NewTextParser ?t = Ret ([alert ''NOTICE'' ''gps'' n [] ?t], NewTextParser)"
    using gps_lost_pattern by blast
  moreover have h: "show_08x 5 = ''00000005''" by code_simp
  ultimately show ?thesis
    by (simp add: TextDispatch.ProcessMeshText_def feed_line_def t wired_manager_def mesh_event_def dispatchTextEvent_def alert_def event_def
        emit_if_def env_lost_def h Let_def)
qed

text \<open>C9: Whatever the text of a mesh message with a sender other than 0 says, every packet, target, Bluetooth frame, triangulation
  measurement, telemetry, acknowledgement and alert made from it names the node the message came from: a sensor cannot report in the
  name of another one. The only other calls are the result of a triangulation and its end, which name no node at all.\<close>

theorem mesh_text_speaks_for_sender:
  assumes "from \<noteq> 0" "TextDispatch.ProcessMeshText e from to s m = Ret (xs, m')" "x \<in> set xs"
  shows "speaks_for from x \<or> names_no_node x"
  using assms feed_mesh_lines unfolding TextDispatch.ProcessMeshText_def by blast

theorem mesh_text_speaks_for_sender_witness:
  "speaks_for 5 (Alerted ''gps'' ''NOTICE'' ''!00000005'' ''GPS:LOST'' [])"
  using mesh_text_speaks_for_sender [OF _ gps_lost_run] by fastforce

end
