(* ===== verification/Geofences.thy ===== *)
theory Geofences
  imports FloatOps "HOL-Library.AList"
begin

text \<open>
  The geofence service of \<open>internal/geofences/service.go\<close>: fences with a polygon and alarm settings, in a table of the
  database and a map in memory, the test of a point by ray casting in \<open>float64\<close> arithmetic, and the broadcast of a
  violation. The result of every SQL statement is an argument: the new identifier of an INSERT or \<open>None\<close>, and
  whether another statement succeeds. The order of Go's iteration over the map is the argument \<open>order\<close>.
\<close>

section \<open>Fences\<close>

record Point =
  Lat :: float64
  Lng :: float64

record Geofence =
  gfID :: string
  gfName :: string
  gfDescription :: string
  gfColor :: string
  Polygon :: "Point list"
  gfAction :: string
  gfEnabled :: bool
  AlarmEnabled :: bool
  AlarmLevel :: string
  AlarmMessage :: string
  TriggerOnEntry :: bool
  TriggerOnExit :: bool
  AppliesToADSB :: bool
  AppliesToDrones :: bool
  AppliesToTargets :: bool
  AppliesToDevices :: bool
  gfNotifyWebhook :: bool
  gfSiteID :: string
  OriginSiteID :: string

text \<open>A row of the table: the columns that may be NULL are the fields with \<open>nullIfEmpty\<close>.\<close>

record geofence_row =
  rowFence :: Geofence
  rowColor :: "string option"
  rowLevel :: "string option"
  rowMessage :: "string option"
  rowSite :: "string option"
  rowOrigin :: "string option"

record gf_service =
  geofences :: "(string \<times> Geofence) list"
  gf_table :: "geofence_row list"

definition nullIfEmpty :: "string \<Rightarrow> string option" where
  "nullIfEmpty s = (if s = [] then None else Some s)"

definition string_or_empty :: "string option \<Rightarrow> string" where
  "string_or_empty s = (case s of Some x \<Rightarrow> x | None \<Rightarrow> [])"

definition row_of_fence :: "Geofence \<Rightarrow> geofence_row" where
  "row_of_fence g = \<lparr>rowFence = g\<lparr>gfColor := [], AlarmLevel := [], AlarmMessage := [], gfSiteID := [], OriginSiteID := []\<rparr>,
     rowColor = nullIfEmpty (gfColor g), rowLevel = nullIfEmpty (AlarmLevel g), rowMessage = nullIfEmpty (AlarmMessage g),
     rowSite = nullIfEmpty (gfSiteID g), rowOrigin = nullIfEmpty (OriginSiteID g)\<rparr>"

definition scan_fence :: "geofence_row \<Rightarrow> Geofence" where
  "scan_fence r = (rowFence r)\<lparr>gfColor := string_or_empty (rowColor r), AlarmLevel := string_or_empty (rowLevel r),
     AlarmMessage := string_or_empty (rowMessage r), gfSiteID := string_or_empty (rowSite r), OriginSiteID := string_or_empty (rowOrigin r)\<rparr>"

section \<open>The test of a point\<close>

text \<open>Division. The sign of a zero is not kept; a zero divisor, where there can be one, is positive.\<close>

fun fdiv :: "float64 \<Rightarrow> float64 \<Rightarrow> float64" where
  "fdiv (Fin x) (Fin y) = (if y = 0 then (if x = 0 then NaN else Inf (x < 0)) else fround (x / y))"
| "fdiv (Fin _) (Inf _) = Fin 0"
| "fdiv (Inf s) (Fin y) = Inf (s \<noteq> (y < 0))"
| "fdiv _ _ = NaN"

definition crosses :: "Point \<Rightarrow> Point \<Rightarrow> Point \<Rightarrow> bool" where
  "crosses pt i j \<longleftrightarrow> (float_less (Lat pt) (Lat i) \<noteq> float_less (Lat pt) (Lat j)) \<and>
     float_less (Lng pt)
       (fadd (fdiv (fmul (fsub (Lng j) (Lng i)) (fsub (Lat pt) (Lat i))) (fsub (Lat j) (Lat i))) (Lng i))"

text \<open>The loop over the vertices: the vertex before, the rest and the parity.\<close>

fun ray_loop :: "Point \<Rightarrow> Point \<Rightarrow> Point list \<Rightarrow> bool \<Rightarrow> bool" where
  "ray_loop pt j [] inside = inside"
| "ray_loop pt j (i # is) inside = ray_loop pt i is (if crosses pt i j then \<not> inside else inside)"

definition pointInPolygon :: "Point \<Rightarrow> Point list \<Rightarrow> bool" where
  "pointInPolygon pt polygon = (if length polygon < 3 then False else ray_loop pt (last polygon) polygon False)"

definition applies_to :: "string \<Rightarrow> Geofence \<Rightarrow> bool" where
  "applies_to entityType g =
     (if entityType = ''adsb'' then AppliesToADSB g
      else if entityType = ''drone'' then AppliesToDrones g
      else if entityType = ''target'' then AppliesToTargets g
      else if entityType = ''device'' then AppliesToDevices g
      else True)"

definition CheckPoint :: "((string \<times> Geofence) list \<Rightarrow> Geofence list) \<Rightarrow> float64 \<Rightarrow> float64 \<Rightarrow> string \<Rightarrow> gf_service \<Rightarrow> Geofence list" where
  "CheckPoint order lat lng entityType s =
     filter (\<lambda>g. gfEnabled g \<and> AlarmEnabled g \<and> applies_to entityType g \<and> pointInPolygon \<lparr>Lat = lat, Lng = lng\<rparr> (Polygon g))
       (order (geofences s))"

section \<open>The table and the map\<close>

definition NewGeofences :: gf_service where
  "NewGeofences = \<lparr>geofences = [], gf_table = []\<rparr>"

definition Load_geofences :: "bool \<Rightarrow> gf_service \<Rightarrow> gf_service" where
  "Load_geofences ok s =
     (if ok then s\<lparr>geofences := fold (\<lambda>r. AList.update (gfID (rowFence r)) (scan_fence r)) (filter (\<lambda>r. gfEnabled (rowFence r)) (gf_table s)) (geofences s)\<rparr>
      else s)"

definition Create_geofence :: "string option \<Rightarrow> Geofence \<Rightarrow> gf_service \<Rightarrow> Geofence option \<times> gf_service" where
  "Create_geofence ins g s =
     (case ins of
        None \<Rightarrow> (None, s)
      | Some new \<Rightarrow> (let g = g\<lparr>gfID := new\<rparr> in
          (Some g, s\<lparr>gf_table := gf_table s @ [row_of_fence g], geofences := AList.update new g (geofences s)\<rparr>)))"

definition Delete_geofence :: "bool \<Rightarrow> string \<Rightarrow> gf_service \<Rightarrow> bool \<times> gf_service" where
  "Delete_geofence ok i s =
     (if ok then (True, s\<lparr>gf_table := filter (\<lambda>r. gfID (rowFence r) \<noteq> i) (gf_table s), geofences := AList.delete i (geofences s)\<rparr>)
      else (False, s))"

definition Update_geofence :: "bool \<Rightarrow> string \<Rightarrow> Geofence \<Rightarrow> gf_service \<Rightarrow> Geofence option \<times> gf_service" where
  "Update_geofence ok i g s =
     (if ok then (let g = g\<lparr>gfID := i\<rparr> in
        (Some g, s\<lparr>gf_table := map (\<lambda>r. if gfID (rowFence r) = i then row_of_fence g else r) (gf_table s),
           geofences := AList.update i g (geofences s)\<rparr>))
      else (None, s))"

definition GetByID_geofence :: "string \<Rightarrow> gf_service \<Rightarrow> Geofence option" where
  "GetByID_geofence i s = map_of (geofences s) i"

definition GetAll_geofences :: "((string \<times> Geofence) list \<Rightarrow> Geofence list) \<Rightarrow> gf_service \<Rightarrow> Geofence list" where
  "GetAll_geofences order s = order (geofences s)"

section \<open>Violations\<close>

text \<open>\<open>strings.Replace(s, old, new, 1)\<close> for a non-empty \<open>old\<close>.\<close>

fun replace_once :: "string \<Rightarrow> string \<Rightarrow> string \<Rightarrow> string" where
  "replace_once old new [] = []"
| "replace_once old new (c # cs) = (if has_prefix old (c # cs) then new @ drop (length old) (c # cs) else c # replace_once old new cs)"

definition fence_message :: "string \<Rightarrow> string \<Rightarrow> string \<Rightarrow> string \<Rightarrow> string" where
  "fence_message template entityType entityID name =
     replace_once ''{geofence}'' name (replace_once ''{entity}'' (entityType @ ''/'' @ entityID) template)"

record violation =
  vFence :: Geofence
  vType :: string
  vEntity :: string
  vLat :: float64
  vLng :: float64
  vLevel :: string
  vMessage :: string
  vTime :: int

definition NotifyViolation :: "int \<Rightarrow> Geofence \<Rightarrow> string \<Rightarrow> string \<Rightarrow> float64 \<Rightarrow> float64 \<Rightarrow> violation" where
  "NotifyViolation tm g entityType entityID lat lng =
     \<lparr>vFence = g, vType = entityType, vEntity = entityID, vLat = lat, vLng = lng, vLevel = AlarmLevel g,
      vMessage = fence_message (AlarmMessage g) entityType entityID (gfName g), vTime = tm\<rparr>"

end
