(* ===== verification/Drones.thy ===== *)
theory Drones
  imports Geofences FleetKeys
begin

text \<open>
  The drone service of \<open>internal/drones\<close> (\<open>detection.go\<close>, \<open>service.go\<close>) and its HTTP handlers
  (\<open>internal/api/handlers_drones.go\<close>). Drones are objects on a heap, because the background lookups of the FAA
  registry and the delayed writes keep pointers to them. Goroutines and the timer of the write queue are tasks that
  run at any later time. JSON decoding, the clock, random bytes, the other services and the results of SQL
  statements are arguments; FAA data is kept as its JSON text.
\<close>

section \<open>Data\<close>

definition StatusUnknown :: string where "StatusUnknown = ''UNKNOWN''"
definition StatusFriendly :: string where "StatusFriendly = ''FRIENDLY''"
definition StatusNeutral :: string where "StatusNeutral = ''NEUTRAL''"
definition StatusHostile :: string where "StatusHostile = ''HOSTILE''"

record Drone =
  dID :: string
  dMAC :: string
  dSerialNumber :: string
  dUASID :: string
  dOperatorID :: string
  dDescription :: string
  dUAType :: string
  dManufacturer :: string
  dModel :: string
  dLatitude :: float64
  dLongitude :: float64
  dAltitude :: float64
  dSpeed :: float64
  dHeading :: float64
  dVerticalSpeed :: float64
  dPilotLatitude :: float64
  dPilotLongitude :: float64
  dRSSI :: int
  dStatus :: string
  dSource :: string
  dNodeRefID :: string
  dSiteID :: string
  dOriginSiteID :: string
  dFAAData :: "string option"
  dFirstSeen :: int
  dLastSeen :: int

record DroneDetection =
  detMAC :: string
  detSerialNumber :: string
  detUASID :: string
  detOperatorID :: string
  detUAType :: string
  detManufacturer :: string
  detModel :: string
  detLatitude :: float64
  detLongitude :: float64
  detAltitude :: float64
  detSpeed :: float64
  detHeading :: float64
  detVerticalSpeed :: float64
  detPilotLatitude :: float64
  detPilotLongitude :: float64
  detRSSI :: int
  detSource :: string
  detNodeNum :: u32

definition Key :: "DroneDetection \<Rightarrow> string" where
  "Key d = (if detMAC d \<noteq> [] then detMAC d else if detSerialNumber d \<noteq> [] then detSerialNumber d
     else if detUASID d \<noteq> [] then detUASID d else ''unknown'')"

record GeofenceHit =
  hitID :: string
  hitName :: string
  hitAlarmLevel :: string
  hitAlarmMessage :: string
  hitNotifyWebhook :: bool

datatype drone_effect =
    DroneTelemetry Drone
  | DroneStatus Drone
  | DroneRemove string string
  | TrackInventory string string string int
  | GeofenceNotify string string string string float64 float64 string string bool

datatype drone_task = FAALookup nat string string string | PersistDrone nat | PersistDetection string string DroneDetection

text \<open>The rows of the tables \<open>drones\<close> and \<open>drone_detections\<close>.\<close>

record drone_row =
  drDrone :: Drone
  drFAA :: "string option"

record detection_row =
  drMAC :: string
  drSerial :: string
  drDetection :: DroneDetection
  drTime :: int

text \<open>
  The indexes that the migrations create on the table \<open>drones\<close>, by column and whether they are unique. \<open>ON CONFLICT (mac)\<close> needs a unique
  index on \<open>mac\<close>; without one the statement fails.
\<close>

definition drones_indexes :: "(string \<times> bool) list" where
  "drones_indexes = [(''id'', True), (''mac'', False), (''status'', False), (''last_seen'', False)]"

record drone_service =
  dHeap :: "Drone list"
  drones :: "(string \<times> nat) list"
  geofenceState :: "(string \<times> string list) list"
  persistQueue :: "string list"
  persistTimer :: bool
  dTasks :: "drone_task list"
  drone_indexes :: "(string \<times> bool) list"
  drone_table :: "drone_row list"
  detection_table :: "detection_row list"

definition NewDrones :: drone_service where
  "NewDrones = \<lparr>dHeap = [], drones = [], geofenceState = [], persistQueue = [], persistTimer = False, dTasks = [],
     drone_indexes = drones_indexes, drone_table = [], detection_table = []\<rparr>"

text \<open>What the service is wired to, and the order in which Go iterates over a map.\<close>

record drone_env =
  nodeLookup :: "u32 \<Rightarrow> string \<times> string"
  geofenceCheck :: "float64 \<Rightarrow> float64 \<Rightarrow> GeofenceHit list"
  hit_order :: "GeofenceHit list \<Rightarrow> GeofenceHit list"
  drone_order :: "(string \<times> nat) list \<Rightarrow> (string \<times> nat) list"

definition generateUUID :: "byte list \<Rightarrow> string" where
  "generateUUID b = (let h = (\<lambda>i j. concat (map hex2 (take (j - i) (drop i b))))
     in h 0 4 @ ''-'' @ h 4 6 @ ''-'' @ h 6 8 @ ''-'' @ h 8 10 @ ''-'' @ h 10 16)"

section \<open>Reading\<close>

definition drone_at :: "drone_service \<Rightarrow> nat \<Rightarrow> Drone" where
  "drone_at s a = dHeap s ! a"

definition set_drone :: "nat \<Rightarrow> Drone \<Rightarrow> drone_service \<Rightarrow> drone_service" where
  "set_drone a d s = s\<lparr>dHeap := (dHeap s)[a := d]\<rparr>"

definition GetAll_drones :: "drone_env \<Rightarrow> drone_service \<Rightarrow> Drone list" where
  "GetAll_drones e s = map (\<lambda>(_, a). drone_at s a) (drone_order e (drones s))"

definition GetActive :: "drone_env \<Rightarrow> drone_service \<Rightarrow> Drone list" where
  "GetActive e s = filter (\<lambda>d. dStatus d = StatusUnknown) (GetAll_drones e s)"

definition GetByKey :: "string \<Rightarrow> drone_service \<Rightarrow> Drone option" where
  "GetByKey key s = map_option (drone_at s) (map_of (drones s) key)"

definition findByID :: "drone_env \<Rightarrow> string \<Rightarrow> drone_service \<Rightarrow> nat option" where
  "findByID e i s = map_option snd (find (\<lambda>(_, a). dID (drone_at s a) = i) (drone_order e (drones s)))"

definition GetByID_drone :: "drone_env \<Rightarrow> string \<Rightarrow> drone_service \<Rightarrow> Drone option" where
  "GetByID_drone e i s = map_option (drone_at s) (findByID e i s)"

section \<open>The write queue\<close>

text \<open>A key enters the queue, a set, and the timer starts anew.\<close>

definition enqueuePersist :: "string \<Rightarrow> drone_service \<Rightarrow> drone_service" where
  "enqueuePersist key s = s\<lparr>persistQueue := List.insert key (persistQueue s), persistTimer := True\<rparr>"

definition flushPersistQueue :: "drone_service \<Rightarrow> drone_service" where
  "flushPersistQueue s =
     s\<lparr>persistQueue := [], persistTimer := False,
       dTasks := dTasks s @ map PersistDrone (List.map_filter (map_of (drones s)) (persistQueue s))\<rparr>"

section \<open>Geofences\<close>

text \<open>The message of an entry; without a template there is a default.\<close>

definition entry_message :: "string \<Rightarrow> GeofenceHit \<Rightarrow> string" where
  "entry_message entityID hit =
     (let msg = fence_message (hitAlarmMessage hit) ''drone'' entityID (hitName hit)
      in if msg = [] then ''drone/'' @ entityID @ '' entered geofence '' @ hitName hit else msg)"

text \<open>\<open>nowInside\<close>: one hit per identifier, the last one.\<close>

definition now_inside :: "GeofenceHit list \<Rightarrow> GeofenceHit list" where
  "now_inside hits = map snd (fold (\<lambda>h. AList.update (hitID h) h) hits [])"

definition evaluateGeofences :: "drone_env \<Rightarrow> string \<Rightarrow> Drone \<Rightarrow> drone_service \<Rightarrow> drone_effect list \<times> drone_service" where
  "evaluateGeofences e droneKey d s =
     (let nowInside = now_inside (geofenceCheck e (dLatitude d) (dLongitude d));
          prevState = (case map_of (geofenceState s) droneKey of Some p \<Rightarrow> p | None \<Rightarrow> []);
          entityID = (if dUASID d = [] then dMAC d else dUASID d)
      in (map (\<lambda>h. GeofenceNotify (hitID h) (hitName h) ''drone'' entityID (dLatitude d) (dLongitude d) (hitAlarmLevel h) (entry_message entityID h)
                 (hitNotifyWebhook h)) (filter (\<lambda>h. hitID h \<notin> set prevState) (hit_order e nowInside)),
          s\<lparr>geofenceState := AList.update droneKey (map hitID nowInside) (geofenceState s)\<rparr>))"

section \<open>Detections\<close>

definition new_drone :: "int \<Rightarrow> byte list \<Rightarrow> DroneDetection \<Rightarrow> Drone" where
  "new_drone tm rnd det = \<lparr>dID = generateUUID rnd, dMAC = detMAC det, dSerialNumber = detSerialNumber det, dUASID = detUASID det,
     dOperatorID = detOperatorID det, dDescription = [], dUAType = detUAType det, dManufacturer = [], dModel = [], dLatitude = Fin 0,
     dLongitude = Fin 0, dAltitude = Fin 0, dSpeed = Fin 0, dHeading = Fin 0, dVerticalSpeed = Fin 0, dPilotLatitude = Fin 0,
     dPilotLongitude = Fin 0, dRSSI = 0, dStatus = StatusUnknown, dSource = detSource det, dNodeRefID = [], dSiteID = [], dOriginSiteID = [],
     dFAAData = None, dFirstSeen = tm, dLastSeen = 0\<rparr>"

definition put_site :: "drone_env \<Rightarrow> DroneDetection \<Rightarrow> Drone \<Rightarrow> Drone" where
  "put_site e det d =
     (if detNodeNum det > 0
      then (let (nodeID, siteID) = nodeLookup e (detNodeNum det)
            in d\<lparr>dNodeRefID := if nodeID \<noteq> [] then nodeID else dNodeRefID d, dSiteID := if siteID \<noteq> [] then siteID else dSiteID d\<rparr>)
      else d)"

definition put_telemetry :: "int \<Rightarrow> DroneDetection \<Rightarrow> Drone \<Rightarrow> Drone" where
  "put_telemetry tm det d = d\<lparr>dLatitude := detLatitude det, dLongitude := detLongitude det, dAltitude := detAltitude det,
     dSpeed := detSpeed det, dHeading := detHeading det, dVerticalSpeed := detVerticalSpeed det, dPilotLatitude := detPilotLatitude det,
     dPilotLongitude := detPilotLongitude det, dRSSI := detRSSI det, dLastSeen := tm,
     dManufacturer := if detManufacturer det \<noteq> [] then detManufacturer det else dManufacturer d,
     dModel := if detModel det \<noteq> [] then detModel det else dModel d\<rparr>"

definition faa_tasks :: "nat \<Rightarrow> Drone \<Rightarrow> drone_task list" where
  "faa_tasks a d = (if dFAAData d = None \<and> (dSerialNumber d \<noteq> [] \<or> dMAC d \<noteq> [] \<or> dUASID d \<noteq> [])
     then [FAALookup a (dUASID d) (dMAC d) (dSerialNumber d)] else [])"

definition HandleDetection :: "drone_env \<Rightarrow> int \<Rightarrow> byte list \<Rightarrow> DroneDetection \<Rightarrow> drone_service \<Rightarrow> drone_effect list \<times> drone_service" where
  "HandleDetection e tm rnd det s =
     (let key = Key det;
          (a, s) = (case map_of (drones s) key of
              Some a \<Rightarrow> (a, s)
            | None \<Rightarrow> (length (dHeap s), s\<lparr>dHeap := dHeap s @ [new_drone tm rnd det], drones := AList.update key (length (dHeap s)) (drones s)\<rparr>));
          d = put_telemetry tm det (put_site e det (drone_at s a));
          s = set_drone a d s;
          (es, s) = (if dLatitude d \<noteq> Fin 0 \<and> dLongitude d \<noteq> Fin 0 then evaluateGeofences e key d s else ([], s));
          s = enqueuePersist key (s\<lparr>dTasks := dTasks s @ faa_tasks a d\<rparr>)
      in ((if dMAC d \<noteq> [] then [TrackInventory (dMAC d) (dManufacturer d) [] (dRSSI d)] else []) @ DroneTelemetry d # es,
          s\<lparr>dTasks := dTasks s @ [PersistDetection (dMAC d) (dSerialNumber d) det]\<rparr>))"

text \<open>The handler of the dispatcher; \<open>parsed\<close> is what \<open>ParseDetectionPayload\<close> makes of the payload.\<close>

definition HandleDroneDetection_svc ::
    "drone_env \<Rightarrow> int \<Rightarrow> byte list \<Rightarrow> (byte list \<Rightarrow> DroneDetection option) \<Rightarrow> u32 \<Rightarrow> byte list \<Rightarrow> drone_service \<Rightarrow> drone_effect list \<times> drone_service" where
  "HandleDroneDetection_svc e tm rnd parsed from payload s =
     (case parsed payload of
        None \<Rightarrow> ([], s)
      | Some det \<Rightarrow> HandleDetection e tm rnd (det\<lparr>detSource := ''mesh'', detNodeNum := from\<rparr>) s)"

definition UpdateStatus :: "drone_env \<Rightarrow> string \<Rightarrow> string \<Rightarrow> drone_service \<Rightarrow> (drone_effect list \<times> drone_service) option" where
  "UpdateStatus e key status s =
     (case (case map_of (drones s) key of Some a \<Rightarrow> Some a | None \<Rightarrow> findByID e key s) of
        None \<Rightarrow> None
      | Some a \<Rightarrow> (let d = (drone_at s a)\<lparr>dStatus := status\<rparr> in Some ([DroneStatus d], enqueuePersist key (set_drone a d s))))"

definition Remove_drone :: "string \<Rightarrow> drone_service \<Rightarrow> drone_effect list \<times> drone_service" where
  "Remove_drone key s =
     (case map_of (drones s) key of
        None \<Rightarrow> ([], s)
      | Some a \<Rightarrow> ([DroneRemove (dID (drone_at s a)) (dMAC (drone_at s a))], s\<lparr>drones := AList.delete key (drones s)\<rparr>))"

definition ClearAll_drones :: "bool \<Rightarrow> drone_service \<Rightarrow> bool \<times> drone_service" where
  "ClearAll_drones ok s = (ok, s\<lparr>drones := [], drone_table := if ok then [] else drone_table s\<rparr>)"

section \<open>The database\<close>

definition update_drone_row :: "Drone \<Rightarrow> drone_row \<Rightarrow> drone_row" where
  "update_drone_row d r = \<lparr>drDrone = (drDrone r)\<lparr>dLatitude := dLatitude d, dLongitude := dLongitude d, dAltitude := dAltitude d,
       dSpeed := dSpeed d, dHeading := dHeading d, dVerticalSpeed := dVerticalSpeed d, dPilotLatitude := dPilotLatitude d,
       dPilotLongitude := dPilotLongitude d, dRSSI := dRSSI d, dLastSeen := dLastSeen d\<rparr>,
     drFAA = (case dFAAData d of Some f \<Rightarrow> Some f | None \<Rightarrow> drFAA r)\<rparr>"

definition persistDrone :: "bool \<Rightarrow> nat \<Rightarrow> drone_service \<Rightarrow> drone_service" where
  "persistDrone ok a s =
     (let d = drone_at s a; rows = drone_table s in
      if \<not> ok \<or> (''mac'', True) \<notin> set (drone_indexes s) then s
      else if dMAC d \<in> set (map (\<lambda>r. dMAC (drDrone r)) rows)
      then s\<lparr>drone_table := map (\<lambda>r. if dMAC (drDrone r) = dMAC d then update_drone_row d r else r) rows\<rparr>
      else s\<lparr>drone_table := rows @ [\<lparr>drDrone = d, drFAA = dFAAData d\<rparr>]\<rparr>)"

definition persistDetection :: "bool \<Rightarrow> int \<Rightarrow> string \<Rightarrow> string \<Rightarrow> DroneDetection \<Rightarrow> drone_service \<Rightarrow> drone_service" where
  "persistDetection ok tm mac serial det s =
     (if ok then s\<lparr>detection_table := detection_table s @ [\<lparr>drMAC = mac, drSerial = serial, drDetection = det, drTime = tm\<rparr>]\<rparr> else s)"

definition loadPersistedFAA :: "bool \<Rightarrow> string \<Rightarrow> drone_service \<Rightarrow> string option" where
  "loadPersistedFAA ok mac s =
     (if mac = [] \<or> \<not> ok then None
      else (case find (\<lambda>r. dMAC (drDrone r) = mac \<and> drFAA r \<noteq> None) (drone_table s) of Some r \<Rightarrow> drFAA r | None \<Rightarrow> None))"

text \<open>The goroutine of the FAA lookup; \<open>found\<close> is what the registry returns.\<close>

definition faa_lookup :: "bool \<Rightarrow> string option \<Rightarrow> nat \<Rightarrow> string \<Rightarrow> drone_service \<Rightarrow> drone_effect list \<times> drone_service" where
  "faa_lookup ok found a mac s =
     (case loadPersistedFAA ok mac s of
        Some f \<Rightarrow> (let d = (drone_at s a)\<lparr>dFAAData := Some f\<rparr> in ([DroneTelemetry d], set_drone a d s))
      | None \<Rightarrow>
         (case found of
            None \<Rightarrow> ([], s)
          | Some f \<Rightarrow> (let d = (drone_at s a)\<lparr>dFAAData := Some f\<rparr>; s = set_drone a d s
                      in ([DroneTelemetry d], s\<lparr>dTasks := dTasks s @ [PersistDrone a]\<rparr>))))"

fun run_drone_task :: "bool \<Rightarrow> string option \<Rightarrow> int \<Rightarrow> drone_task \<Rightarrow> drone_service \<Rightarrow> drone_effect list \<times> drone_service" where
  "run_drone_task ok found tm (FAALookup a _ mac _) s = faa_lookup ok found a mac s"
| "run_drone_task ok found tm (PersistDrone a) s = ([], persistDrone ok a s)"
| "run_drone_task ok found tm (PersistDetection mac serial det) s = ([], persistDetection ok tm mac serial det s)"

text \<open>The newest rows first, at most \<open>limit\<close>.\<close>

definition GetDetections :: "drone_env \<Rightarrow> bool \<Rightarrow> string \<Rightarrow> int \<Rightarrow> drone_service \<Rightarrow> detection_row list option" where
  "GetDetections e ok droneKey limit s =
     (let limit = (if limit \<le> 0 \<or> limit > 200 then 80 else limit);
          droneKey = (case findByID e droneKey s of
              Some a \<Rightarrow> if dMAC (drone_at s a) \<noteq> [] then dMAC (drone_at s a) else droneKey
            | None \<Rightarrow> droneKey)
      in if ok then Some (take (nat limit) (rev (sort_key drTime (filter (\<lambda>r. drMAC r = droneKey \<or> drSerial r = droneKey) (detection_table s)))))
         else None)"

definition PruneDetections :: "bool \<Rightarrow> int \<Rightarrow> int \<Rightarrow> drone_service \<Rightarrow> nat option \<times> drone_service" where
  "PruneDetections ok tm retentionDays s =
     (let days = (if retentionDays \<le> 0 then 30 else retentionDays);
          old = (\<lambda>r. drTime r < tm - days * (24 * 3600 * 10 ^ 9))
      in if ok then (Some (length (filter old (detection_table s))), s\<lparr>detection_table := filter (\<lambda>r. \<not> old r) (detection_table s)\<rparr>)
         else (None, s))"

section \<open>Handlers\<close>

text \<open>The response of the API: the fields of a drone under other names, and those of its site.\<close>

record droneResponse =
  respID :: string
  respDroneID :: string
  respMAC :: string
  respSerialNumber :: string
  respUASID :: string
  respOperatorID :: string
  respDescription :: string
  respUAType :: string
  respManufacturer :: string
  respModel :: string
  respLat :: float64
  respLon :: float64
  respAltitude :: float64
  respSpeed :: float64
  respHeading :: float64
  respVerticalSpeed :: float64
  respOperatorLat :: float64
  respOperatorLon :: float64
  respRSSI :: int
  respStatus :: string
  respSource :: string
  respNodeID :: string
  respSiteID :: string
  respOriginSiteID :: string
  respSiteName :: string
  respSiteColor :: string
  respSiteCountry :: string
  respSiteCity :: string
  respFAAData :: "string option"
  respTs :: int
  respFirstSeen :: int
  respLastSeen :: int

definition mapDroneToResponse :: "Drone \<Rightarrow> droneResponse" where
  "mapDroneToResponse d = \<lparr>respID = dID d, respDroneID = dID d, respMAC = dMAC d, respSerialNumber = dSerialNumber d, respUASID = dUASID d,
     respOperatorID = dOperatorID d, respDescription = dDescription d, respUAType = dUAType d, respManufacturer = dManufacturer d,
     respModel = dModel d, respLat = dLatitude d, respLon = dLongitude d, respAltitude = dAltitude d, respSpeed = dSpeed d,
     respHeading = dHeading d, respVerticalSpeed = dVerticalSpeed d, respOperatorLat = dPilotLatitude d, respOperatorLon = dPilotLongitude d,
     respRSSI = dRSSI d, respStatus = dStatus d, respSource = dSource d, respNodeID = dNodeRefID d, respSiteID = dSiteID d,
     respOriginSiteID = dOriginSiteID d, respSiteName = [], respSiteColor = [], respSiteCountry = [], respSiteCity = [],
     respFAAData = dFAAData d, respTs = dLastSeen d, respFirstSeen = dFirstSeen d, respLastSeen = dLastSeen d\<rparr>"

text \<open>The name, colour, country and city of a site, \<open>None\<close> when the site is not found or the query fails.\<close>

type_synonym site_lookup = "string \<Rightarrow> (string \<times> string \<times> string \<times> string) option"

definition enrichDroneWithSite :: "site_lookup \<Rightarrow> droneResponse \<Rightarrow> droneResponse" where
  "enrichDroneWithSite sites r =
     (if respSiteID r = [] then r
      else (case sites (respSiteID r) of
          None \<Rightarrow> r
        | Some (name, color, country, city) \<Rightarrow> r\<lparr>respSiteName := name, respSiteColor := color, respSiteCountry := country, respSiteCity := city\<rparr>))"

definition mapDronesToResponse :: "Drone list \<Rightarrow> droneResponse list" where
  "mapDronesToResponse ds = map mapDroneToResponse ds"

datatype drone_body = DronesBody "droneResponse list" | DroneBody droneResponse | DroneOK string | DroneFailed string
  | DroneNotFound string | InvalidStatus string | DetectionsBody "detection_row list"

definition handleListDrones :: "site_lookup \<Rightarrow> drone_env \<Rightarrow> drone_service \<Rightarrow> nat \<times> drone_body" where
  "handleListDrones sites e s = (200, DronesBody (map (enrichDroneWithSite sites) (mapDronesToResponse (GetAll_drones e s))))"

definition handleGetDrone :: "site_lookup \<Rightarrow> drone_env \<Rightarrow> string \<Rightarrow> drone_service \<Rightarrow> nat \<times> drone_body" where
  "handleGetDrone sites e i s =
     (case (case GetByKey i s of Some d \<Rightarrow> Some d | None \<Rightarrow> GetByID_drone e i s) of
        None \<Rightarrow> (404, DroneNotFound i)
      | Some d \<Rightarrow> (200, DroneBody (enrichDroneWithSite sites (mapDroneToResponse d))))"

definition handleUpdateDroneStatus :: "site_lookup \<Rightarrow> drone_env \<Rightarrow> string \<Rightarrow> string option \<Rightarrow> drone_service
    \<Rightarrow> (nat \<times> drone_body) \<times> drone_effect list \<times> drone_service" where
  "handleUpdateDroneStatus sites e i body s =
     (case body of
        None \<Rightarrow> ((400, DroneFailed ''invalid JSON body''), [], s)
      | Some status \<Rightarrow>
         (if status \<notin> {StatusUnknown, StatusFriendly, StatusNeutral, StatusHostile} then ((400, InvalidStatus status), [], s)
          else (case UpdateStatus e i status s of
             None \<Rightarrow> ((404, DroneNotFound i), [], s)
           | Some (es, s) \<Rightarrow>
              ((200, case GetByKey i s of
                   None \<Rightarrow> DroneOK ''updated''
                 | Some d \<Rightarrow> DroneBody (enrichDroneWithSite sites (mapDroneToResponse d))), es, s))))"

definition handleClearDrones :: "bool \<Rightarrow> string \<Rightarrow> drone_service \<Rightarrow> (nat \<times> drone_body) \<times> drone_service" where
  "handleClearDrones ok err s =
     (let (cleared, s) = ClearAll_drones ok s
      in (if cleared then (200, DroneOK ''ok'') else (500, DroneFailed (''failed to clear drones: '' @ err)), s))"

definition handleDeleteDrone :: "string \<Rightarrow> drone_service \<Rightarrow> (nat \<times> drone_body) \<times> drone_effect list \<times> drone_service" where
  "handleDeleteDrone i s = ((200, DroneOK ''ok''), Remove_drone i s)"

definition handleGetDroneDetections :: "drone_env \<Rightarrow> bool \<Rightarrow> string \<Rightarrow> drone_service \<Rightarrow> nat \<times> drone_body" where
  "handleGetDroneDetections e ok i s =
     (case GetDetections e ok i 80 s of None \<Rightarrow> (500, DroneFailed ''failed to query detections'') | Some rs \<Rightarrow> (200, DetectionsBody rs))"

end
