(* ===== verification/DroneProofs.thy ===== *)
theory DroneProofs
  imports Drones "HOL-Library.Multiset"
begin

text \<open>
  Geofences: which points a rectangular fence contains, what a restart leaves of the fences. Drones: which entries
  into a fence are announced, over every sequence of operations, and that no drone is ever stored.
\<close>

section \<open>Rounding\<close>

lemma exponent_bounds: assumes "0 < x" shows "two_to (exponent_of x) \<le> x \<and> x < two_to (exponent_of x + 1)"
proof -
  obtain p q where pq: "quotient_of x = (p, q)" by fastforce
  have q: "0 < q" and x: "x = of_int p / of_int q" using pq quotient_of_denom_pos quotient_of_div by auto
  then have p: "0 < p" using assms by (simp add: zero_less_divide_iff)
  have rat: "two_to (bits n - 1) \<le> of_int n \<and> of_int n < two_to (bits n)" if "0 < n" for n :: int
  proof -
    have "two_to (bits n - 1) = of_int (2 ^ nat (bits n - 1))" "two_to (bits n) = of_int (2 ^ nat (bits n))"
      using bits_bounds [OF that] by (simp_all add: two_to_def)
    then show ?thesis using bits_bounds [OF that] by (simp only: of_int_le_iff of_int_less_iff)
  qed
  define d where "d = bits p - bits q"
  have "two_to (d - 1) * of_int q \<le> of_int p"
  proof -
    have "two_to (d - 1) * of_int q \<le> two_to (d - 1) * two_to (bits q)" using rat [OF q] by simp
    also have "\<dots> = two_to (bits p - 1)" by (simp add: two_to_add [symmetric] d_def)
    finally show ?thesis using rat [OF p] by linarith
  qed
  moreover have "of_int p < two_to (d + 1) * of_int q"
  proof -
    have "two_to (bits p) = two_to (d + 1) * two_to (bits q - 1)" by (simp add: two_to_add [symmetric] d_def)
    also have "\<dots> \<le> two_to (d + 1) * of_int q" using rat [OF q] by simp
    finally show ?thesis using rat [OF p] by linarith
  qed
  ultimately have "two_to (d - 1) \<le> x" "x < two_to (d + 1)" using q by (simp_all add: x field_simps)
  then show ?thesis by (auto simp: exponent_of_def pq d_def [symmetric])
qed

lemma round_even_bounds: "of_int (round_even q) \<le> q + 1 / 2" "q - 1 / 2 \<le> of_int (round_even q)"
proof -
  have "of_int \<lfloor>q\<rfloor> \<le> q" "q < of_int \<lfloor>q\<rfloor> + 1" by linarith+
  moreover have "rat_of_int (round_even q) = of_int \<lfloor>q\<rfloor> \<and> q - of_int \<lfloor>q\<rfloor> \<le> 1 / 2 \<or> rat_of_int (round_even q) = of_int \<lfloor>q\<rfloor> + 1 \<and> 1 / 2 \<le> q - of_int \<lfloor>q\<rfloor>"
    by (auto simp: round_even_def Let_def)
  ultimately show "of_int (round_even q) \<le> q + 1 / 2" "q - 1 / 2 \<le> of_int (round_even q)" by linarith+
qed

lemma nearest_bound: "\<bar>nearest x\<bar> \<le> 2 * \<bar>x\<bar> + 1"
proof (cases "x = 0")
  case False
  let ?a = "\<bar>x\<bar>" and ?u = "two_to (max (exponent_of \<bar>x\<bar>) (- 1022) - 52)"
  have u: "?u \<le> ?a + 1"
  proof (cases "exponent_of ?a \<ge> - 1022")
    case True
    then have "?u \<le> two_to (exponent_of ?a)" by (intro two_to_mono) simp
    then show ?thesis using exponent_bounds [of ?a] False by simp
  next
    case exp: False
    then have "?u \<le> two_to 0" by (intro two_to_mono) simp
    moreover have "two_to 0 = 1" by (simp add: two_to_def)
    ultimately show ?thesis by linarith
  qed
  have "of_int (round_even (?a / ?u)) * ?u \<le> (?a / ?u + 1 / 2) * ?u" by (rule mult_right_mono [OF round_even_bounds(1) less_imp_le [OF two_to_pos]])
  also have "\<dots> = ?a + ?u / 2" by (simp add: distrib_right)
  finally have hi: "of_int (round_even (?a / ?u)) * ?u \<le> 2 * ?a + 1" using u by linarith
  have "(?a / ?u - 1 / 2) * ?u \<le> of_int (round_even (?a / ?u)) * ?u" by (rule mult_right_mono [OF round_even_bounds(2) less_imp_le [OF two_to_pos]])
  then have "?a - ?u / 2 \<le> of_int (round_even (?a / ?u)) * ?u" by (simp add: left_diff_distrib)
  then have "- (2 * ?a + 1) \<le> of_int (round_even (?a / ?u)) * ?u" using u by linarith
  then show ?thesis using hi False by (auto simp: nearest_def Let_def abs_le_iff)
qed (simp add: nearest_def)

lemma nearest_nonzero: assumes "two_to (- 1022) \<le> \<bar>x\<bar>" shows "nearest x \<noteq> 0"
proof -
  let ?a = "\<bar>x\<bar>" and ?u = "two_to (max (exponent_of \<bar>x\<bar>) (- 1022) - 52)"
  have a: "0 < ?a" using assms two_to_pos [of "- 1022"] by linarith
  then have "- 1022 \<le> exponent_of ?a"
    using exponent_bounds [OF a] assms two_to_strict [of "- 1022" "exponent_of ?a + 1"] by linarith
  then have "?u \<le> two_to (exponent_of ?a)" by (intro two_to_mono) simp
  then have "?u \<le> ?a" using exponent_bounds [OF a] by linarith
  then have "1 \<le> ?a / ?u" by simp
  then have "0 < of_int (round_even (?a / ?u)) * (1::rat)" using round_even_bounds(2) [of "?a / ?u"] by linarith
  then show ?thesis using a by (auto simp: nearest_def Let_def)
qed

lemma fround_finite: "\<bar>x\<bar> \<le> 1000 \<Longrightarrow> fround x = Fin (nearest x)"
proof -
  assume "\<bar>x\<bar> \<le> 1000"
  then have "\<bar>nearest x\<bar> \<le> 2001" using nearest_bound [of x] by linarith
  moreover have "two_to 11 \<le> two_to 1024" by (rule two_to_mono) simp
  ultimately show ?thesis by (simp add: fround_def two_to_def)
qed

lemma nearest_zero [simp]: "nearest 0 = 0"
  by (simp add: nearest_def)

section \<open>Rectangles\<close>

text \<open>A coordinate as the program has it: a rational in the range of coordinates that is a \<open>float64\<close> value.\<close>

definition coord :: "rat \<Rightarrow> bool" where
  "coord x \<longleftrightarrow> \<bar>x\<bar> \<le> 180 \<and> nearest x = x"

definition corner :: "rat \<Rightarrow> rat \<Rightarrow> Point" where
  "corner lat lng = \<lparr>Lat = Fin lat, Lng = Fin lng\<rparr>"

lemma corner_sel [simp]: "Lat (corner a b) = Fin a" "Lng (corner a b) = Fin b"
  by (simp_all add: corner_def)

lemma vertical_edge:
  assumes "coord lat" "coord x" "coord y" "coord y'" "two_to (- 1022) \<le> \<bar>y' - y\<bar>"
  shows "crosses (corner lat lng) (corner y x) (corner y' x) \<longleftrightarrow> (lat < y) \<noteq> (lat < y') \<and> lng < x"
proof -
  have "fsub (Fin x) (Fin x) = Fin 0" using assms(2) by (simp add: fsub_def fround_finite coord_def)
  moreover have "\<bar>lat - y\<bar> \<le> 1000" "\<bar>y' - y\<bar> \<le> 1000" using assms(1,3,4) unfolding coord_def by linarith+
  then have "fsub (Fin lat) (Fin y) = Fin (nearest (lat - y))" "fsub (Fin y') (Fin y) = Fin (nearest (y' - y))"
    by (simp_all add: fsub_def fround_finite)
  moreover have "fadd (Fin 0) (Fin x) = Fin x" using assms(2) by (simp add: fround_finite coord_def)
  ultimately show ?thesis using nearest_nonzero [OF assms(5)] by (auto simp: crosses_def fround_finite)
qed

lemma horizontal_edge: "\<not> crosses pt (corner y x) (corner y x')"
  by (simp add: crosses_def)

lemma pointInPolygon_rectangle:
  assumes "coord lat" "coord lng" "coord south" "coord north" "coord west" "coord east" "west < east" "south + two_to (- 1022) \<le> north"
  shows "pointInPolygon (corner lat lng) [corner south west, corner south east, corner north east, corner north west] \<longleftrightarrow>
    south \<le> lat \<and> lat < north \<and> west \<le> lng \<and> lng < east"
proof -
  have "two_to (- 1022) \<le> \<bar>north - south\<bar>" "two_to (- 1022) \<le> \<bar>south - north\<bar>" using assms(8) two_to_pos [of "- 1022"] by linarith+
  note edge = vertical_edge [OF assms(1)]
  have "crosses (corner lat lng) (corner south west) (corner north west) \<longleftrightarrow> (lat < south) \<noteq> (lat < north) \<and> lng < west"
    "crosses (corner lat lng) (corner north east) (corner south east) \<longleftrightarrow> (lat < north) \<noteq> (lat < south) \<and> lng < east"
    using edge assms(3-6) \<open>two_to (- 1022) \<le> \<bar>north - south\<bar>\<close> \<open>two_to (- 1022) \<le> \<bar>south - north\<bar>\<close> by blast+
  moreover have "south < north" using assms(8) two_to_pos [of "- 1022"] by linarith
  ultimately show ?thesis using assms(7) by (auto simp: pointInPolygon_def horizontal_edge)
qed

section \<open>Fences over a restart\<close>

lemma scan_row [simp]: "scan_fence (row_of_fence g) = g" "gfID (rowFence (row_of_fence g)) = gfID g" "gfEnabled (rowFence (row_of_fence g)) = gfEnabled g"
  by (auto simp: scan_fence_def row_of_fence_def nullIfEmpty_def string_or_empty_def)

lemma scan_enabled [simp]: "gfEnabled (scan_fence r) = gfEnabled (rowFence r)"
  by (simp add: scan_fence_def)

definition stored :: "gf_service \<Rightarrow> string set" where
  "stored s = set (map (\<lambda>r. gfID (rowFence r)) (gf_table s))"

definition gf_restart :: "gf_service \<Rightarrow> gf_service" where
  "gf_restart s = Load_geofences True (s\<lparr>geofences := []\<rparr>)"

text \<open>The operations; the database gives every new row an identifier of its own.\<close>

inductive gf_reachable :: "gf_service \<Rightarrow> bool" where
  New: "gf_reachable NewGeofences"
| Create: "gf_reachable s \<Longrightarrow> i \<notin> stored s \<Longrightarrow> gf_reachable (snd (Create_geofence (Some i) g s))"
| Update: "gf_reachable s \<Longrightarrow> gf_reachable (snd (Update_geofence ok i g s))"
| Delete: "gf_reachable s \<Longrightarrow> gf_reachable (snd (Delete_geofence ok i s))"
| Restart: "gf_reachable s \<Longrightarrow> gf_reachable (gf_restart s)"

definition gf_wf :: "gf_service \<Rightarrow> bool" where
  "gf_wf s \<longleftrightarrow> distinct (map (\<lambda>r. gfID (rowFence r)) (gf_table s)) \<and>
     (\<forall>r \<in> set (gf_table s). map_of (geofences s) (gfID (rowFence r)) = Some (scan_fence r) \<or>
        map_of (geofences s) (gfID (rowFence r)) = None \<and> \<not> gfEnabled (rowFence r))"

lemma map_of_updates: "distinct (map k rs) \<Longrightarrow>
    map_of (fold (\<lambda>r. AList.update (k r) (v r)) rs m) = map_of m ++ map_of (map (\<lambda>r. (k r, v r)) rs)"
proof (induction rs arbitrary: m)
  case (Cons r rs)
  then have "k r \<notin> dom (map_of (map (\<lambda>r. (k r, v r)) rs))" by (auto simp: dom_map_of_conv_image_fst image_image)
  with Cons show ?case by (auto simp: update_conv' fun_eq_iff map_add_def split: option.splits)
qed simp

definition loaded :: "gf_service \<Rightarrow> (string \<times> Geofence) list" where
  "loaded s = map (\<lambda>r. (gfID (rowFence r), scan_fence r)) (filter (\<lambda>r. gfEnabled (rowFence r)) (gf_table s))"

lemma restart_fences: "distinct (map (\<lambda>r. gfID (rowFence r)) (gf_table s)) \<Longrightarrow> map_of (geofences (gf_restart s)) = map_of (loaded s)"
  unfolding gf_restart_def Load_geofences_def loaded_def by (simp add: map_of_updates distinct_map_filter)

lemma restart_row:
  assumes "distinct (map (\<lambda>r. gfID (rowFence r)) (gf_table s))" "r \<in> set (gf_table s)"
  shows "map_of (geofences (gf_restart s)) (gfID (rowFence r)) = (if gfEnabled (rowFence r) then Some (scan_fence r) else None)"
proof -
  have "distinct (map fst (loaded s))" using assms(1) by (simp add: loaded_def comp_def distinct_map_filter)
  moreover have "r' = r" if "r' \<in> set (gf_table s)" "gfID (rowFence r') = gfID (rowFence r)" for r'
    using assms that by (auto simp: distinct_map dest: inj_onD)
  ultimately have d: "distinct (map fst (loaded s))" and u: "\<And>r'. r' \<in> set (gf_table s) \<Longrightarrow> gfID (rowFence r') = gfID (rowFence r) \<Longrightarrow> r' = r" by blast+
  have "map_of (loaded s) (gfID (rowFence r)) = Some (scan_fence r)" if "gfEnabled (rowFence r)"
    using that assms(2) by (intro map_of_is_SomeI [OF d]) (auto simp: loaded_def)
  moreover have "map_of (loaded s) (gfID (rowFence r)) = None" if "\<not> gfEnabled (rowFence r)"
  proof -
    have "gfID (rowFence r) \<notin> fst ` set (loaded s)" using that u by (fastforce simp: loaded_def)
    then show ?thesis by (simp add: map_of_eq_None_iff)
  qed
  ultimately show ?thesis by (simp add: restart_fences [OF assms(1)])
qed

lemma gf_reachable_wf: "gf_reachable s \<Longrightarrow> gf_wf s"
proof (induction rule: gf_reachable.induct)
  case (Restart s)
  then show ?case using restart_row [of s] by (auto simp: gf_wf_def gf_restart_def Load_geofences_def)
next
  case (Update s ok i g)
  have "(\<lambda>r. gfID (rowFence r)) \<circ> (\<lambda>r. if gfID (rowFence r) = i then row_of_fence (g\<lparr>gfID := i\<rparr>) else r) = (\<lambda>r. gfID (rowFence r))" by auto
  with Update show ?case by (auto simp: gf_wf_def Update_geofence_def Let_def update_conv')
qed (auto simp: gf_wf_def NewGeofences_def Create_geofence_def Delete_geofence_def stored_def Let_def update_conv' delete_conv' distinct_map_filter)

lemma fences_after_restart:
  assumes "gf_reachable s"
  shows "GetByID_geofence i (gf_restart s) =
    (case GetByID_geofence i s of Some g \<Rightarrow> if gfEnabled g \<and> i \<in> stored s then Some g else None | None \<Rightarrow> None)"
proof (cases "i \<in> stored s")
  case True
  then obtain r where "r \<in> set (gf_table s)" "i = gfID (rowFence r)" by (auto simp: stored_def)
  moreover have "map_of (geofences s) i = Some (scan_fence r) \<or> map_of (geofences s) i = None \<and> \<not> gfEnabled (rowFence r)"
    using gf_reachable_wf [OF assms] calculation by (simp add: gf_wf_def)
  moreover have "distinct (map (\<lambda>r. gfID (rowFence r)) (gf_table s))" using gf_reachable_wf [OF assms] by (simp add: gf_wf_def)
  ultimately show ?thesis using restart_row [of s r] True by (elim disjE) (simp_all add: GetByID_geofence_def)
next
  case False
  then have "map_of (loaded s) i = None" by (auto simp: map_of_eq_None_iff stored_def loaded_def)
  then show ?thesis using gf_reachable_wf [OF assms] restart_fences [of s] False
    by (auto simp: gf_wf_def GetByID_geofence_def split: option.splits)
qed

section \<open>Operations on drones\<close>

datatype drone_op =
    Detect drone_env int "byte list" DroneDetection
  | SetStatus drone_env string string
  | RemoveDrone string
  | ClearDrones bool
  | FlushQueue
  | RunTask bool "string option" int nat
  | PruneDrones bool int int

fun drone_exec :: "drone_op \<Rightarrow> drone_service \<Rightarrow> drone_effect list \<times> drone_service" where
  "drone_exec (Detect e tm rnd det) s = HandleDetection e tm rnd det s"
| "drone_exec (SetStatus e key status) s = (case UpdateStatus e key status s of Some r \<Rightarrow> r | None \<Rightarrow> ([], s))"
| "drone_exec (RemoveDrone key) s = Remove_drone key s"
| "drone_exec (ClearDrones ok) s = ([], snd (ClearAll_drones ok s))"
| "drone_exec FlushQueue s = ([], if persistTimer s then flushPersistQueue s else s)"
| "drone_exec (RunTask ok found tm i) s =
     (if i < length (dTasks s) then run_drone_task ok found tm (dTasks s ! i) (s\<lparr>dTasks := take i (dTasks s) @ drop (Suc i) (dTasks s)\<rparr>) else ([], s))"
| "drone_exec (PruneDrones ok tm days) s = ([], snd (PruneDetections ok tm days s))"

definition drone_run :: "drone_op list \<Rightarrow> drone_service \<Rightarrow> drone_service" where
  "drone_run ops s = fold (\<lambda>op s. snd (drone_exec op s)) ops s"

definition located :: "DroneDetection \<Rightarrow> bool" where
  "located det \<longleftrightarrow> detLatitude det \<noteq> Fin 0 \<and> detLongitude det \<noteq> Fin 0"

definition fences_at :: "drone_env \<Rightarrow> DroneDetection \<Rightarrow> string set" where
  "fences_at e det = hitID ` set (geofenceCheck e (detLatitude det) (detLongitude det))"

text \<open>The fences around the position of the last detection of a drone that had one.\<close>

definition last_inside :: "string \<Rightarrow> drone_op list \<Rightarrow> string set" where
  "last_inside key ops = fold (\<lambda>op S. case op of Detect e _ _ det \<Rightarrow> if Key det = key \<and> located det then fences_at e det else S | _ \<Rightarrow> S) ops {}"

fun notified :: "drone_effect list \<Rightarrow> string list" where
  "notified [] = []"
| "notified (GeofenceNotify i _ _ _ _ _ _ _ _ # es) = i # notified es"
| "notified (_ # es) = notified es"

definition inside_state :: "string \<Rightarrow> drone_service \<Rightarrow> string set" where
  "inside_state key s = set (case map_of (geofenceState s) key of Some p \<Rightarrow> p | None \<Rightarrow> [])"

lemma updates_by_id:
  "(\<forall>(k, h) \<in> set m. k = hitID h) \<Longrightarrow> distinct (map fst m) \<Longrightarrow>
   (let m' = fold (\<lambda>h. AList.update (hitID h) h) hits m
    in (\<forall>(k, h) \<in> set m'. k = hitID h) \<and> distinct (map fst m') \<and> fst ` set m' = fst ` set m \<union> hitID ` set hits)"
proof (induction hits arbitrary: m)
  case (Cons h hits)
  have "\<forall>(k, h') \<in> set (AList.update (hitID h) h m). k = hitID h'" using Cons.prems(1) by (induction m) auto
  moreover have "distinct (map fst (AList.update (hitID h) h m))" using Cons.prems(2) by (rule distinct_update)
  moreover have "fst ` set (AList.update (hitID h) h m) = insert (hitID h) (fst ` set m)" by (induction m) auto
  ultimately show ?case using Cons.IH [of "AList.update (hitID h) h m"] by (simp add: Let_def)
qed simp

lemma now_inside_ids: "distinct (map hitID (now_inside hits)) \<and> hitID ` set (now_inside hits) = hitID ` set hits"
proof -
  let ?m = "fold (\<lambda>h. AList.update (hitID h) h) hits []"
  have m: "\<forall>(k, h) \<in> set ?m. k = hitID h" "distinct (map fst ?m)" "fst ` set ?m = hitID ` set hits"
    using updates_by_id [of "[]" hits] by (simp_all add: Let_def)
  have e: "map hitID (now_inside hits) = map fst ?m" using m(1) by (auto simp: now_inside_def)
  have "hitID ` set (now_inside hits) = fst ` set ?m" by (simp only: set_map [symmetric] e)
  then show ?thesis using m(2,3) e by simp
qed

lemma notified_simps [simp]: "notified (es @ es') = notified es @ notified es'"
    "notified (map (\<lambda>h. GeofenceNotify (hitID h) (f1 h) (f2 h) (f3 h) (f4 h) (f5 h) (f6 h) (f7 h) (f8 h)) hs) = map hitID hs"
  by (induction es rule: notified.induct) (simp_all, induction hs, simp_all)

lemma detection_fences:
  fixes e tm rnd det s
  defines "r \<equiv> HandleDetection e tm rnd det s"
  shows "inside_state key (snd r) = (if Key det = key \<and> located det then fences_at e det else inside_state key s)"
    and "located det \<Longrightarrow> (\<And>xs. mset (hit_order e xs) = mset xs) \<Longrightarrow>
      set (notified (fst r)) = fences_at e det - inside_state (Key det) s \<and> distinct (notified (fst r))"
proof -
  let ?hits = "now_inside (geofenceCheck e (detLatitude det) (detLongitude det))"
  have [simp]: "dLatitude (put_telemetry tm det d) = detLatitude det" "dLongitude (put_telemetry tm det d) = detLongitude det" for d
    by (simp_all add: put_telemetry_def)
  show "inside_state key (snd r) = (if Key det = key \<and> located det then fences_at e det else inside_state key s)"
    using now_inside_ids [of "geofenceCheck e (detLatitude det) (detLongitude det)"]
    by (auto simp: r_def HandleDetection_def Let_def evaluateGeofences_def enqueuePersist_def set_drone_def inside_state_def located_def fences_at_def
        update_conv' split: option.splits)
  assume loc: "located det" and perm: "\<And>xs. mset (hit_order e xs) = mset xs"
  have set: "set (hit_order e ?hits) = set ?hits" using perm mset_eq_setD by blast
  have "mset (map hitID (hit_order e ?hits)) = mset (map hitID ?hits)" using perm by simp
  then have "distinct (map hitID (hit_order e ?hits))" using now_inside_ids mset_eq_imp_distinct_iff by blast
  then have d: "distinct (map hitID (filter P (hit_order e ?hits)))" for P by (rule distinct_map_filter)
  have n: "notified (fst r) = map hitID (filter (\<lambda>h. hitID h \<notin> inside_state (Key det) s) (hit_order e ?hits))"
    using loc by (auto simp: r_def HandleDetection_def Let_def evaluateGeofences_def enqueuePersist_def set_drone_def inside_state_def located_def
        split: option.splits)
  have "set (map hitID (filter (\<lambda>h. hitID h \<notin> S) xs)) = hitID ` set xs - S" for S xs by auto
  then have "set (notified (fst r)) = hitID ` set ?hits - inside_state (Key det) s" unfolding n set [symmetric] .
  then show "set (notified (fst r)) = fences_at e det - inside_state (Key det) s \<and> distinct (notified (fst r))"
    using now_inside_ids [of "geofenceCheck e (detLatitude det) (detLongitude det)"] d n by (simp add: fences_at_def)
qed

lemma other_ops_fences: "(\<And>e tm rnd det. op \<noteq> Detect e tm rnd det) \<Longrightarrow> geofenceState (snd (drone_exec op s)) = geofenceState s"
proof (cases op)
  case (RunTask ok found tm i)
  have "geofenceState (snd (run_drone_task ok found tm t s)) = geofenceState s" for t s
    by (cases t) (auto simp: faa_lookup_def persistDrone_def persistDetection_def set_drone_def Let_def split: option.splits)
  then show ?thesis using RunTask by simp
qed (auto simp: UpdateStatus_def Remove_drone_def ClearAll_drones_def flushPersistQueue_def PruneDetections_def enqueuePersist_def set_drone_def Let_def
    split: option.splits)

lemma run_inside: "inside_state key (drone_run ops NewDrones) = last_inside key ops"
proof (induction ops rule: rev_induct)
  case Nil
  then show ?case by (simp add: drone_run_def last_inside_def inside_state_def NewDrones_def)
next
  case (snoc op ops)
  have "inside_state key (drone_run (ops @ [op]) NewDrones) = inside_state key (snd (drone_exec op (drone_run ops NewDrones)))" by (simp add: drone_run_def)
  moreover have "\<exists>e tm rnd det. op = Detect e tm rnd det \<or> geofenceState (snd (drone_exec op s)) = geofenceState s" for s
    using other_ops_fences by blast
  ultimately show ?case using snoc detection_fences(1)
    by (cases op) (auto simp: last_inside_def inside_state_def other_ops_fences)
qed

text \<open>C36: Whatever happened before, in any order and with any background work (detections of any drone, changed fences,
  removals, a cleared list), a detection with a position announces, each once, exactly the fences around it that were
  not around the last position of the same drone. A removed or cleared drone is still taken to be where it was.\<close>

theorem entries_announced_exactly:
  assumes "located det" "\<And>xs. mset (hit_order e xs) = mset xs"
  shows "set (notified (fst (HandleDetection e tm rnd det (drone_run ops NewDrones)))) = fences_at e det - last_inside (Key det) ops \<and>
    distinct (notified (fst (HandleDetection e tm rnd det (drone_run ops NewDrones))))"
  using detection_fences(2) [OF assms] run_inside by metis

definition det0 :: DroneDetection where
  "det0 = \<lparr>detMAC = ''AA'', detSerialNumber = [], detUASID = [], detOperatorID = [], detUAType = [], detManufacturer = [], detModel = [],
     detLatitude = Fin 1, detLongitude = Fin 2, detAltitude = Fin 0, detSpeed = Fin 0, detHeading = Fin 0, detVerticalSpeed = Fin 0,
     detPilotLatitude = Fin 0, detPilotLongitude = Fin 0, detRSSI = 0, detSource = [], detNodeNum = 0\<rparr>"

definition drone_env0 :: drone_env where
  "drone_env0 = \<lparr>nodeLookup = (\<lambda>_. ([], [])),
     geofenceCheck = (\<lambda>_ _. [\<lparr>hitID = ''f'', hitName = ''gate'', hitAlarmLevel = [], hitAlarmMessage = [], hitNotifyWebhook = False\<rparr>]),
     hit_order = (\<lambda>xs. xs), drone_order = (\<lambda>xs. xs)\<rparr>"

theorem entries_announced_exactly_witness:
  "set (notified (fst (HandleDetection drone_env0 7 [] det0 (drone_run [RemoveDrone ''AA''] NewDrones)))) = {''f''}"
  using entries_announced_exactly [of det0 drone_env0 7 "[]" "[RemoveDrone ''AA'']"]
  by (simp add: located_def det0_def drone_env0_def fences_at_def last_inside_def)

section \<open>The table of drones\<close>

text \<open>The table on any schema: one row per address, and none without a unique index on it; the drones of the map are on the heap.\<close>

definition table_ok :: "drone_service \<Rightarrow> bool" where
  "table_ok s \<longleftrightarrow> distinct (map (\<lambda>r. dMAC (drDrone r)) (drone_table s)) \<and> ((''mac'', True) \<notin> set (drone_indexes s) \<longrightarrow> drone_table s = []) \<and>
     (\<forall>(k, a) \<in> set (drones s). a < length (dHeap s))"

lemma row_macs: "map (\<lambda>r. dMAC (drDrone r)) (map (\<lambda>r. if dMAC (drDrone r) = m then update_drone_row d r else r) rs) = map (\<lambda>r. dMAC (drDrone r)) rs"
  by (induction rs) (simp_all add: update_drone_row_def)

lemma persist_table_ok: "table_ok s \<Longrightarrow> table_ok (persistDrone ok a s)"
  by (auto simp: table_ok_def persistDrone_def row_macs Let_def simp del: map_map)

lemma heap_update:
  fixes n n' b :: nat
  assumes "\<forall>(k, a) \<in> set m. a < n" "b < n'" "n \<le> n'"
  shows "\<forall>(k, a) \<in> set (AList.update key b m). a < n'"
proof -
  have "set (AList.update key b m) \<subseteq> insert (key, b) (set m)" by (induction m) auto
  moreover have "\<forall>(k, a) \<in> insert (key, b) (set m). a < n'" using assms by (auto dest!: bspec intro: less_le_trans)
  ultimately show ?thesis by blast
qed

lemma detection_table_ok: assumes "table_ok s" shows "table_ok (snd (HandleDetection e tm rnd det s))"
proof (cases "map_of (drones s) (Key det)")
  case None
  have "\<forall>(k, a) \<in> set (AList.update (Key det) (length (dHeap s)) (drones s)). a < Suc (length (dHeap s))"
    by (rule heap_update [of _ "length (dHeap s)"]) (use assms in \<open>simp_all add: table_ok_def\<close>)
  then show ?thesis using assms None
    by (simp add: HandleDetection_def evaluateGeofences_def enqueuePersist_def set_drone_def table_ok_def Let_def)
next
  case (Some a)
  then show ?thesis using assms
    by (simp add: HandleDetection_def evaluateGeofences_def enqueuePersist_def set_drone_def table_ok_def Let_def)
qed

lemma task_table_ok: "table_ok s \<Longrightarrow> table_ok (snd (run_drone_task ok found tm t s))"
proof (cases t)
  case (PersistDrone a)
  then show "table_ok s \<Longrightarrow> ?thesis" using persist_table_ok by simp
qed (auto simp: faa_lookup_def persistDetection_def set_drone_def table_ok_def Let_def split: option.split)

lemma step_table_ok: assumes "table_ok s" shows "table_ok (snd (drone_exec op s))"
proof (cases op)
  case (Detect e tm rnd det)
  then show ?thesis using assms detection_table_ok by simp
next
  case (RunTask ok found tm i)
  have "table_ok (s\<lparr>dTasks := ts\<rparr>)" for ts using assms by (simp add: table_ok_def)
  then show ?thesis using RunTask task_table_ok assms by simp
next
  case (RemoveDrone key)
  then show ?thesis using assms by (auto simp: table_ok_def Remove_drone_def delete_conv' AList.delete_eq split: option.split)
qed (use assms in \<open>auto simp: table_ok_def UpdateStatus_def ClearAll_drones_def flushPersistQueue_def PruneDetections_def enqueuePersist_def set_drone_def
      Let_def split: option.splits\<close>)

lemma step_indexes: "drone_indexes (snd (drone_exec op s)) = drone_indexes s"
proof (cases op)
  case (RunTask ok found tm i)
  have "drone_indexes (snd (run_drone_task ok found tm t s)) = drone_indexes s" for t s
    by (cases t) (auto simp: faa_lookup_def persistDrone_def persistDetection_def set_drone_def Let_def split: option.splits)
  then show ?thesis using RunTask by simp
qed (auto simp: HandleDetection_def evaluateGeofences_def UpdateStatus_def Remove_drone_def ClearAll_drones_def flushPersistQueue_def PruneDetections_def
      enqueuePersist_def set_drone_def Let_def split: option.splits)

lemma run_table_ok: "table_ok (drone_run ops (NewDrones\<lparr>drone_indexes := idx\<rparr>)) \<and> drone_indexes (drone_run ops (NewDrones\<lparr>drone_indexes := idx\<rparr>)) = idx"
proof (induction ops rule: rev_induct)
  case (snoc op ops)
  then show ?case using step_table_ok step_indexes by (simp add: drone_run_def)
qed (simp add: drone_run_def NewDrones_def table_ok_def)

text \<open>What a row has of a detection: the columns the upsert writes.\<close>

definition has_telemetry :: "int \<Rightarrow> DroneDetection \<Rightarrow> Drone \<Rightarrow> bool" where
  "has_telemetry tm det d \<longleftrightarrow> dLatitude d = detLatitude det \<and> dLongitude d = detLongitude det \<and> dAltitude d = detAltitude det \<and> dSpeed d = detSpeed det \<and>
     dHeading d = detHeading det \<and> dVerticalSpeed d = detVerticalSpeed det \<and> dPilotLatitude d = detPilotLatitude det \<and>
     dPilotLongitude d = detPilotLongitude det \<and> dRSSI d = detRSSI det \<and> dLastSeen d = tm"

lemma detection_queued:
  assumes "table_ok s"
  obtains a where "map_of (drones (snd (HandleDetection e tm rnd det s))) (Key det) = Some a" "Key det \<in> set (persistQueue (snd (HandleDetection e tm rnd det s)))"
    "has_telemetry tm det (drone_at (snd (HandleDetection e tm rnd det s)) a)"
proof (cases "map_of (drones s) (Key det)")
  case None
  show ?thesis
    by (rule that [of "length (dHeap s)"])
       (use None in \<open>simp_all add: HandleDetection_def evaluateGeofences_def enqueuePersist_def set_drone_def drone_at_def has_telemetry_def put_telemetry_def
          update_conv' Let_def\<close>)
next
  case (Some a)
  then have "a < length (dHeap s)" using assms map_of_SomeD [OF Some] by (auto simp: table_ok_def)
  then show ?thesis using Some
    by (intro that [of a]) (simp_all add: HandleDetection_def evaluateGeofences_def enqueuePersist_def set_drone_def drone_at_def has_telemetry_def put_telemetry_def Let_def)
qed

lemma persist_row:
  assumes "table_ok s" "(''mac'', True) \<in> set (drone_indexes s)" "has_telemetry tm det (drone_at s a)"
  shows "\<exists>r \<in> set (drone_table (persistDrone True a s)). dMAC (drDrone r) = dMAC (drone_at s a) \<and> has_telemetry tm det (drDrone r)"
proof (cases "dMAC (drone_at s a) \<in> set (map (\<lambda>r. dMAC (drDrone r)) (drone_table s))")
  case True
  then obtain r where "r \<in> set (drone_table s)" "dMAC (drDrone r) = dMAC (drone_at s a)" by auto
  moreover from this have "update_drone_row (drone_at s a) r \<in> set (drone_table (persistDrone True a s))" using assms(2) True
    by (auto simp: persistDrone_def Let_def)
  ultimately show ?thesis using assms(3) by (intro bexI [of _ "update_drone_row (drone_at s a) r"]) (simp_all add: update_drone_row_def has_telemetry_def)
next
  case False
  then show ?thesis using assms(2,3) by (auto simp: persistDrone_def Let_def)
qed

text \<open>C37: A detection reaches the table of drones only over a schema with a unique index on the address, which the upsert names. Whatever
  happened before: after the detection and the next flush of the queue a write of the drone is under way. Over a schema with the index it
  leaves exactly one row for the address of the drone, with position, speed, heading, signal and time of the detection. Over any other schema
  the table is empty, then and always; the migrations create no such index.\<close>

theorem drones_stored_iff_unique_index:
  fixes ops idx e tm rnd det
  defines "s \<equiv> flushPersistQueue (snd (HandleDetection e tm rnd det (drone_run ops (NewDrones\<lparr>drone_indexes := idx\<rparr>))))"
  shows "\<exists>a. map_of (drones s) (Key det) = Some a \<and> PersistDrone a \<in> set (dTasks s) \<and>
    (if (''mac'', True) \<in> set idx
     then distinct (map (\<lambda>r. dMAC (drDrone r)) (drone_table (persistDrone True a s))) \<and>
       (\<exists>r \<in> set (drone_table (persistDrone True a s)). dMAC (drDrone r) = dMAC (drone_at s a) \<and> has_telemetry tm det (drDrone r))
     else drone_table (persistDrone True a s) = []) \<and> (''mac'', True) \<notin> set (drone_indexes NewDrones)"
proof -
  let ?s0 = "drone_run ops (NewDrones\<lparr>drone_indexes := idx\<rparr>)"
  let ?s1 = "snd (HandleDetection e tm rnd det ?s0)"
  have s0: "table_ok ?s0" "drone_indexes ?s0 = idx" using run_table_ok by blast+
  have s1: "table_ok ?s1" "drone_indexes ?s1 = idx" using detection_table_ok [OF s0(1)] step_indexes [of "Detect e tm rnd det" ?s0] s0(2) by simp_all
  obtain a where a: "map_of (drones ?s1) (Key det) = Some a" "Key det \<in> set (persistQueue ?s1)" "has_telemetry tm det (drone_at ?s1 a)"
    using detection_queued [OF s0(1)] .
  have s: "table_ok s" "drone_indexes s = idx" "map_of (drones s) (Key det) = Some a" "has_telemetry tm det (drone_at s a)"
    using s1 a(1,3) by (simp_all add: s_def flushPersistQueue_def table_ok_def drone_at_def)
  have "PersistDrone a \<in> set (dTasks s)" using a(1,2)
    by (auto simp: s_def flushPersistQueue_def map_filter_def intro!: image_eqI [where x = a] image_eqI [where x = "Key det"])
  moreover have "table_ok (persistDrone True a s)" by (rule persist_table_ok [OF s(1)])
  moreover have "drone_indexes (persistDrone True a s) = idx" using s(2) by (simp add: persistDrone_def Let_def)
  moreover have "(''mac'', True) \<notin> set (drone_indexes NewDrones)" by (simp add: NewDrones_def drones_indexes_def)
  ultimately show ?thesis using persist_row [OF s(1) _ s(4)] s(2,3) by (intro exI [of _ a]) (simp add: table_ok_def)
qed

text \<open>C38: A rectangular fence contains exactly the points in the half-open rectangle, as far as \<open>float64\<close> values go: the southern and
  western edges belong to it, the northern and eastern ones do not.\<close>

theorem rectangle_fence:
  assumes "coord lat" "coord lng" "coord south" "coord north" "coord west" "coord east" "west < east" "south + two_to (- 1022) \<le> north"
  shows "pointInPolygon (corner lat lng) [corner south west, corner south east, corner north east, corner north west] \<longleftrightarrow>
    south \<le> lat \<and> lat < north \<and> west \<le> lng \<and> lng < east"
  by (rule pointInPolygon_rectangle [OF assms])

theorem rectangle_fence_witness:
  "pointInPolygon (corner 0 1) [corner 0 0, corner 0 2, corner 2 2, corner 2 0] \<longleftrightarrow> 0 \<le> (0 :: rat) \<and> (0 :: rat) < 2 \<and> 0 \<le> (1 :: rat) \<and> (1 :: rat) < 2"
proof (rule rectangle_fence)
  have "nearest 1 = 1" "nearest 2 = 2" by code_simp+
  then show "coord 0" "coord 1" "coord 0" "coord 2" "coord 0" "coord 2" by (simp_all add: coord_def)
  have "two_to (- 1022) \<le> two_to 0" by (rule two_to_mono) simp
  then show "0 + two_to (- 1022) \<le> 2" by (simp add: two_to_def)
qed simp

end
