(* ===== verification/Alerts.thy ===== *)
theory Alerts
  imports Geofences TextParser
begin

text \<open>
  The alert service of \<open>internal/alerts\<close> (\<open>service.go\<close>, \<open>evaluator.go\<close>): rules with conditions given as JSON, the
  evaluation of a detection, cooldowns, the table of events, and the handlers of
  \<open>internal/api/handlers_alerts.go\<close>. Times are nanoseconds. The result of an INSERT of an event is the new identifier and
  the time of the database, or \<open>None\<close>; whether another statement succeeds is an argument, as is the order of the iteration over the map of rules.
\<close>

section \<open>Rules and events\<close>

definition SeverityInfo :: string where "SeverityInfo = ''INFO''"
definition SeverityNotice :: string where "SeverityNotice = ''NOTICE''"
definition SeverityAlert :: string where "SeverityAlert = ''ALERT''"
definition SeverityCritical :: string where "SeverityCritical = ''CRITICAL''"

text \<open>A JSON value after decoding: objects as lists of fields.\<close>

datatype json = JNull | JBool bool | JNum float64 | JStr string | JArr "json list" | JObj "(string \<times> json) list"

record alert_rule =
  rlID :: string
  rlName :: string
  rlDescription :: string
  rlCondition :: "(string \<times> json) list option"
  rlSeverity :: string
  rlEnabled :: bool
  rlCooldownSeconds :: int
  rlNotifyWebhook :: bool
  rlNotifyEmail :: bool
  rlEmailRecipients :: string
  rlNotifyVisual :: bool
  rlNotifyAudible :: bool
  rlLastTriggered :: "int option"

text \<open>\<open>aeColumn\<close> is the column \<open>data\<close> of a row; it is NULL when the data of the event could not be encoded.\<close>

record alert_event =
  aeID :: string
  aeRuleID :: string
  aeSeverity :: string
  aeTitle :: string
  aeMessage :: string
  aeData :: data
  aeNotifyVisual :: bool
  aeNotifyAudible :: bool
  aeAcknowledged :: bool
  aeAcknowledgedBy :: string
  aeAcknowledgedAt :: "int option"
  aeCreatedAt :: int
  aeColumn :: "data option"

record DetectionEvent =
  evtMAC :: string
  evtOUI :: string
  evtSSID :: string
  evtChannel :: int
  evtRSSI :: int
  evtNodeID :: string
  evtNodeName :: string

datatype alert_effect = AlertBroadcast alert_event | AlertMail string string

record alert_service =
  rules :: "(string \<times> alert_rule) list"
  rule_table :: "alert_rule list"
  event_table :: "alert_event list"
  emailSender :: bool

definition NewAlerts :: alert_service where
  "NewAlerts = \<lparr>rules = [], rule_table = [], event_table = [], emailSender = False\<rparr>"

section \<open>Conditions\<close>

definition cond_str :: "(string \<times> json) list \<Rightarrow> string \<Rightarrow> string" where
  "cond_str c k = (case map_of c k of Some (JStr s) \<Rightarrow> s | _ \<Rightarrow> [])"

definition cond_arr :: "(string \<times> json) list \<Rightarrow> string \<Rightarrow> json list" where
  "cond_arr c k = (case map_of c k of Some (JArr xs) \<Rightarrow> xs | _ \<Rightarrow> [])"

definition cond_num :: "(string \<times> json) list \<Rightarrow> string \<Rightarrow> float64 option" where
  "cond_num c k = (case map_of c k of Some (JNum x) \<Rightarrow> Some x | _ \<Rightarrow> None)"

text \<open>\<open>int(x)\<close>: towards zero; outside of the range it is the smallest integer, as on amd64.\<close>

definition int_of_float :: "float64 \<Rightarrow> int" where
  "int_of_float x =
     (case x of
        Fin q \<Rightarrow> (let n = (if q < 0 then - \<lfloor>- q\<rfloor> else \<lfloor>q\<rfloor>) in if - (2 ^ 63) \<le> n \<and> n < 2 ^ 63 then n else - (2 ^ 63))
      | _ \<Rightarrow> - (2 ^ 63))"

text \<open>\<open>strings.EqualFold\<close>, by the simple case folding of each rune.\<close>

definition fold_equal :: "(nat \<Rightarrow> nat) \<Rightarrow> string \<Rightarrow> string \<Rightarrow> bool" where
  "fold_equal f s t \<longleftrightarrow> map (\<lambda>x. f (fst x)) (runes s) = map (\<lambda>x. f (fst x)) (runes t)"

definition some_str :: "(string \<Rightarrow> bool) \<Rightarrow> json list \<Rightarrow> bool" where
  "some_str P xs = list_ex (\<lambda>x. case x of JStr s \<Rightarrow> P s | _ \<Rightarrow> False) xs"

definition some_num :: "(float64 \<Rightarrow> bool) \<Rightarrow> json list \<Rightarrow> bool" where
  "some_num P xs = list_ex (\<lambda>x. case x of JNum s \<Rightarrow> P s | _ \<Rightarrow> False) xs"

text \<open>The checks the condition asks for, in the order of the code.\<close>

definition rule_checks :: "unicode \<Rightarrow> (nat \<Rightarrow> nat) \<Rightarrow> (string \<times> json) list \<Rightarrow> DetectionEvent \<Rightarrow> bool list" where
  "rule_checks u f c evt =
     (let arr = (\<lambda>k check. if cond_arr c k = [] then [] else [check (cond_arr c k)])
      in arr ''macAddresses'' (some_str (\<lambda>m. fold_equal f m (evtMAC evt))) @
         arr ''ouiPrefixes'' (some_str (\<lambda>p. has_prefix (to_upper u p) (to_upper u (evtMAC evt)))) @
         arr ''ssids'' (some_str (\<lambda>t. fold_equal f t (evtSSID evt))) @
         arr ''channels'' (some_num (\<lambda>x. int_of_float x = evtChannel evt)) @
         (case cond_num c ''minRssi'' of Some m \<Rightarrow> if evtRSSI evt \<noteq> 0 then [int_of_float m \<le> evtRSSI evt] else [] | None \<Rightarrow> []) @
         (case cond_num c ''maxRssi'' of Some m \<Rightarrow> if evtRSSI evt \<noteq> 0 then [evtRSSI evt \<le> int_of_float m] else [] | None \<Rightarrow> []))"

definition matchesRule :: "unicode \<Rightarrow> (nat \<Rightarrow> nat) \<Rightarrow> alert_rule \<Rightarrow> DetectionEvent \<Rightarrow> bool" where
  "matchesRule u f rule evt =
     (case rlCondition rule of
        None \<Rightarrow> False
      | Some c \<Rightarrow>
         (let checks = rule_checks u f c evt
          in if checks = [] then False
             else if cond_str c ''matchMode'' = ''ALL'' then list_all (\<lambda>b. b) checks
             else list_ex (\<lambda>b. b) checks))"

text \<open>\<open>strings.NewReplacer\<close>: from left to right, the first key that fits at a position; keys are not empty.\<close>

function replace_keys :: "(string \<times> string) list \<Rightarrow> string \<Rightarrow> string" where
  "replace_keys kvs [] = []"
| "replace_keys kvs (c # cs) =
     (case find (\<lambda>(k, _). k \<noteq> [] \<and> has_prefix k (c # cs)) kvs of
        Some (k, v) \<Rightarrow> v @ replace_keys kvs (drop (length k - 1) cs)
      | None \<Rightarrow> c # replace_keys kvs cs)"
  by pat_completeness auto
termination by (relation "measure (\<lambda>(_, s). length s)") auto

definition renderTemplate :: "alert_rule \<Rightarrow> DetectionEvent \<Rightarrow> string" where
  "renderTemplate rule evt =
     (let tmpl = (case rlCondition rule of Some c \<Rightarrow> cond_str c ''messageTemplate'' | None \<Rightarrow> [])
      in if tmpl = [] then ''Alert rule '' @ CHR 0x27 # rlName rule @ CHR 0x27 # '' triggered''
         else replace_keys [(''{mac}'', evtMAC evt), (''{oui}'', evtOUI evt), (''{ssid}'', evtSSID evt), (''{channel}'', show_int (evtChannel evt)),
           (''{rssi}'', show_int (evtRSSI evt)), (''{nodeId}'', evtNodeID evt), (''{nodeName}'', evtNodeName evt), (''{rule}'', rlName rule),
           (''{severity}'', rlSeverity rule)] tmpl)"

section \<open>Events\<close>

definition new_event :: "string \<Rightarrow> string \<Rightarrow> string \<Rightarrow> string \<Rightarrow> data \<Rightarrow> bool \<Rightarrow> bool \<Rightarrow> int \<Rightarrow> alert_event" where
  "new_event rule severity title message d visual audible tm = \<lparr>aeID = [], aeRuleID = rule, aeSeverity = severity, aeTitle = title,
     aeMessage = message, aeData = d, aeNotifyVisual = visual, aeNotifyAudible = audible, aeAcknowledged = False, aeAcknowledgedBy = [],
     aeAcknowledgedAt = None, aeCreatedAt = tm, aeColumn = None\<rparr>"

text \<open>\<open>json.Marshal\<close> refuses numbers that are not finite; the error is ignored and the column left empty. The column \<open>created_at\<close> is the
  time of the statement.\<close>

definition data_marshals :: "data \<Rightarrow> bool" where
  "data_marshals d = list_all (\<lambda>(_, v). case v of VFloat x \<Rightarrow> is_finite x | _ \<Rightarrow> True) d"

definition stored_event :: "alert_event \<Rightarrow> int \<Rightarrow> alert_event" where
  "stored_event evt tm = evt\<lparr>aeCreatedAt := tm, aeColumn := if data_marshals (aeData evt) then Some (aeData evt) else None\<rparr>"

text \<open>\<open>strings.Split(s, ",")\<close>, trimmed, without the empty parts.\<close>

definition sendAlertEmail :: "alert_rule \<Rightarrow> alert_effect list" where
  "sendAlertEmail rule = map (\<lambda>to. AlertMail to (''[DigiNode CC] Alert: '' @ rlName rule))
     (filter (\<lambda>to. to \<noteq> []) (map TrimSpace (split_at CHR '','' (rlEmailRecipients rule))))"

definition in_cooldown :: "int \<Rightarrow> alert_rule \<Rightarrow> bool" where
  "in_cooldown tm rule = (case rlLastTriggered rule of Some t \<Rightarrow> tm - t < wrap64 (rlCooldownSeconds rule * 10 ^ 9) | None \<Rightarrow> False)"

text \<open>The critical section of \<open>Trigger\<close>: the clock is read for the comparison and again for the mark; \<open>None\<close> when the rule is cooling down,
  otherwise the rule.\<close>

definition trigger_decide :: "int \<Rightarrow> int \<Rightarrow> string \<Rightarrow> alert_service \<Rightarrow> alert_rule option option \<times> alert_service" where
  "trigger_decide since mark ruleID s =
     (case map_of (rules s) ruleID of
        None \<Rightarrow> (Some None, s)
      | Some r \<Rightarrow> if in_cooldown since r then (None, s)
          else (Some (Some r), s\<lparr>rules := AList.update ruleID (r\<lparr>rlLastTriggered := Some mark\<rparr>) (rules s)\<rparr>))"

text \<open>The rest runs without the lock: the event with the clock at its creation, the row, the broadcast, and the mails of a goroutine.\<close>

definition trigger_finish :: "int \<Rightarrow> (string \<times> int) option \<Rightarrow> alert_rule option \<Rightarrow> string \<Rightarrow> string \<Rightarrow> string \<Rightarrow> data \<Rightarrow> alert_service
    \<Rightarrow> alert_effect list \<times> alert_service" where
  "trigger_finish created ins rule ruleID title message d s =
     (let severity = (case rule of Some r \<Rightarrow> rlSeverity r | None \<Rightarrow> SeverityNotice);
          visual = (case rule of Some r \<Rightarrow> rlNotifyVisual r | None \<Rightarrow> True); audible = (case rule of Some r \<Rightarrow> rlNotifyAudible r | None \<Rightarrow> True);
          evt = new_event ruleID severity title message d visual audible created
      in (case ins of
            None \<Rightarrow> ([], s)
          | Some (i, tm) \<Rightarrow>
             (let evt = evt\<lparr>aeID := i\<rparr>
              in (AlertBroadcast evt #
                  (case rule of Some r \<Rightarrow> if rlNotifyEmail r \<and> rlEmailRecipients r \<noteq> [] \<and> emailSender s then sendAlertEmail r else [] | None \<Rightarrow> []),
                  s\<lparr>event_table := event_table s @ [stored_event evt tm]\<rparr>))))"

record trigger_io =
  ioSince :: int
  ioMark :: int
  ioCreated :: int
  ioInsert :: "(string \<times> int) option"

definition Trigger :: "trigger_io \<Rightarrow> string \<Rightarrow> string \<Rightarrow> string \<Rightarrow> data \<Rightarrow> alert_service \<Rightarrow> alert_effect list \<times> alert_service" where
  "Trigger io ruleID title message d s =
     (case trigger_decide (ioSince io) (ioMark io) ruleID s of
        (None, s) \<Rightarrow> ([], s)
      | (Some rule, s) \<Rightarrow> trigger_finish (ioCreated io) (ioInsert io) rule ruleID title message d s)"

definition TriggerDirect :: "int \<Rightarrow> (string \<times> int) option \<Rightarrow> string \<Rightarrow> string \<Rightarrow> string \<Rightarrow> data \<Rightarrow> alert_service \<Rightarrow> alert_effect list \<times> alert_service" where
  "TriggerDirect tm ins severity title message d s =
     (let evt = new_event [] severity title message d False False tm
      in (case ins of
            None \<Rightarrow> ([AlertBroadcast evt], s)
          | Some (i, tm) \<Rightarrow> (let evt = evt\<lparr>aeID := i\<rparr> in ([AlertBroadcast evt], s\<lparr>event_table := event_table s @ [stored_event evt tm]\<rparr>))))"

definition detection_data :: "DetectionEvent \<Rightarrow> data" where
  "detection_data evt = [(''mac'', VStr (evtMAC evt)), (''oui'', VStr (evtOUI evt)), (''ssid'', VStr (evtSSID evt)), (''channel'', VInt (evtChannel evt)),
     (''rssi'', VInt (evtRSSI evt)), (''nodeId'', VStr (evtNodeID evt)), (''nodeName'', VStr (evtNodeName evt))]"

text \<open>The matching rules one after the other; \<open>q n\<close> are the clock readings and the result of the INSERT at the turn of the \<open>n\<close>th rule.\<close>

fun fire :: "unicode \<Rightarrow> (nat \<Rightarrow> nat) \<Rightarrow> DetectionEvent \<Rightarrow> (nat \<Rightarrow> trigger_io) \<Rightarrow> nat \<Rightarrow> alert_rule list \<Rightarrow> alert_service
    \<Rightarrow> alert_effect list \<times> alert_service" where
  "fire u f evt q n [] s = ([], s)"
| "fire u f evt q n (r # rs) s =
     (if matchesRule u f r evt
      then (let (es, s) = Trigger (q n) (rlID r) (rlName r) (renderTemplate r evt) (detection_data evt) s;
                (es', s) = fire u f evt q (Suc n) rs s
            in (es @ es', s))
      else fire u f evt q (Suc n) rs s)"

definition Evaluate :: "unicode \<Rightarrow> (nat \<Rightarrow> nat) \<Rightarrow> ((string \<times> alert_rule) list \<Rightarrow> alert_rule list) \<Rightarrow> (nat \<Rightarrow> trigger_io)
    \<Rightarrow> DetectionEvent \<Rightarrow> alert_service \<Rightarrow> alert_effect list \<times> alert_service" where
  "Evaluate u f order q evt s = fire u f evt q 0 (filter rlEnabled (order (rules s))) s"

section \<open>Administration\<close>

definition Load_rules :: "bool \<Rightarrow> alert_service \<Rightarrow> alert_service" where
  "Load_rules ok s = (if ok then s\<lparr>rules := fold (\<lambda>r. AList.update (rlID r) r) (rule_table s) (rules s)\<rparr> else s)"

text \<open>The statements do not write the column \<open>last_triggered\<close>.\<close>

definition CreateRule :: "string option \<Rightarrow> alert_rule \<Rightarrow> alert_service \<Rightarrow> alert_rule option \<times> alert_service" where
  "CreateRule ins r s =
     (case ins of
        None \<Rightarrow> (None, s)
      | Some i \<Rightarrow> (let r = r\<lparr>rlID := i\<rparr> in
          (Some r, s\<lparr>rule_table := rule_table s @ [r\<lparr>rlLastTriggered := None\<rparr>], rules := AList.update i r (rules s)\<rparr>)))"

definition UpdateRule :: "bool \<Rightarrow> string \<Rightarrow> alert_rule \<Rightarrow> alert_service \<Rightarrow> alert_rule option \<times> alert_service" where
  "UpdateRule ok i r s =
     (if ok then (let r = r\<lparr>rlID := i\<rparr> in
        (Some r, s\<lparr>rule_table := map (\<lambda>q. if rlID q = i then r\<lparr>rlLastTriggered := rlLastTriggered q\<rparr> else q) (rule_table s),
           rules := AList.update i r (rules s)\<rparr>))
      else (None, s))"

definition DeleteRule :: "bool \<Rightarrow> string \<Rightarrow> alert_service \<Rightarrow> bool \<times> alert_service" where
  "DeleteRule ok i s =
     (if ok then (True, s\<lparr>rule_table := filter (\<lambda>q. rlID q \<noteq> i) (rule_table s), rules := AList.delete i (rules s),
        event_table := map (\<lambda>e. if aeRuleID e = i then e\<lparr>aeRuleID := []\<rparr> else e) (event_table s)\<rparr>)
      else (False, s))"

definition Acknowledge :: "bool \<Rightarrow> int \<Rightarrow> string \<Rightarrow> string \<Rightarrow> alert_service \<Rightarrow> bool \<times> alert_service" where
  "Acknowledge ok tm eventID userID s =
     (ok, if ok then s\<lparr>event_table := map (\<lambda>e. if aeID e = eventID
        then e\<lparr>aeAcknowledged := True, aeAcknowledgedBy := userID, aeAcknowledgedAt := Some tm\<rparr> else e) (event_table s)\<rparr> else s)"

text \<open>The newest events first, without the columns that are not selected.\<close>

definition GetEvents :: "bool \<Rightarrow> int \<Rightarrow> alert_service \<Rightarrow> alert_event list option" where
  "GetEvents ok limit s =
     (if ok then Some (map (\<lambda>e. e\<lparr>aeData := [], aeColumn := None, aeNotifyVisual := False, aeNotifyAudible := False\<rparr>)
        (take (nat (if limit \<le> 0 then 50 else limit)) (rev (sort_key aeCreatedAt (event_table s)))))
      else None)"

definition GetRules :: "((string \<times> alert_rule) list \<Rightarrow> alert_rule list) \<Rightarrow> alert_service \<Rightarrow> alert_rule list" where
  "GetRules order s = order (rules s)"

section \<open>Handlers\<close>

datatype alert_body = RulesBody "alert_rule list" | RuleBody alert_rule | EventsBody "alert_event list" | AlertOK | AlertFailed string

definition handleListAlertRules :: "((string \<times> alert_rule) list \<Rightarrow> alert_rule list) \<Rightarrow> alert_service \<Rightarrow> nat \<times> alert_body" where
  "handleListAlertRules order s = (200, RulesBody (GetRules order s))"

definition handleCreateAlertRule :: "string option \<Rightarrow> alert_rule option \<Rightarrow> alert_service \<Rightarrow> (nat \<times> alert_body) \<times> alert_service" where
  "handleCreateAlertRule ins body s =
     (case body of
        None \<Rightarrow> ((400, AlertFailed ''invalid request body''), s)
      | Some r \<Rightarrow> (case CreateRule ins r s of
            (None, s) \<Rightarrow> ((500, AlertFailed ''failed to create alert rule''), s)
          | (Some r, s) \<Rightarrow> ((201, RuleBody r), s)))"

definition handleUpdateAlertRule :: "bool \<Rightarrow> string \<Rightarrow> alert_rule option \<Rightarrow> alert_service \<Rightarrow> (nat \<times> alert_body) \<times> alert_service" where
  "handleUpdateAlertRule ok i body s =
     (case body of
        None \<Rightarrow> ((400, AlertFailed ''invalid request body''), s)
      | Some r \<Rightarrow> (case UpdateRule ok i r s of
            (None, s) \<Rightarrow> ((500, AlertFailed ''failed to update alert rule''), s)
          | (Some r, s) \<Rightarrow> ((200, RuleBody r), s)))"

definition handleDeleteAlertRule :: "bool \<Rightarrow> string \<Rightarrow> alert_service \<Rightarrow> (nat \<times> alert_body) \<times> alert_service" where
  "handleDeleteAlertRule ok i s =
     (let (deleted, s) = DeleteRule ok i s in (if deleted then (200, AlertOK) else (500, AlertFailed ''failed to delete alert rule''), s))"

definition handleListAlertEvents :: "bool \<Rightarrow> string \<Rightarrow> alert_service \<Rightarrow> nat \<times> alert_body" where
  "handleListAlertEvents ok limit s =
     (let n = (case Atoi limit of Some n \<Rightarrow> if n > 0 then n else 50 | None \<Rightarrow> 50)
      in (case GetEvents ok n s of None \<Rightarrow> (500, AlertFailed ''failed to list alert events'') | Some es \<Rightarrow> (200, EventsBody es)))"

text \<open>\<open>user\<close> is the user of the claims, \<open>None\<close> without claims.\<close>

definition handleAcknowledgeAlert :: "bool \<Rightarrow> int \<Rightarrow> string option \<Rightarrow> string \<Rightarrow> alert_service \<Rightarrow> (nat \<times> alert_body) \<times> alert_service" where
  "handleAcknowledgeAlert ok tm user eventID s =
     (case user of
        None \<Rightarrow> ((401, AlertFailed ''unauthorized''), s)
      | Some u \<Rightarrow> (let (acked, s) = Acknowledge ok tm eventID u s in (if acked then (200, AlertOK) else (500, AlertFailed ''failed to acknowledge alert''), s)))"

end
