(* ===== verification/AlertProofs.thy ===== *)
theory AlertProofs
  imports Alerts "HOL-Library.Multiset"
begin

text \<open>
  Alerts: the decisions to raise the alert of a rule keep the distance of its cooldown whatever else happens, and a matching detection of a
  rule that is not cooling down is recorded and broadcast.
\<close>

section \<open>Cooldowns\<close>

text \<open>
  Everything the service does while rule \<open>i\<close> itself is not edited, in any interleaving: a trigger takes two steps, its
  critical section and the rest, between which others may run; direct alerts, acknowledgements and changes to other
  rules are one step each. The clock is that of the process, which does not run backwards in one trigger. \<open>aMarks\<close> and \<open>aSent\<close> are history:
  the marks set for rule \<open>i\<close>, and the events broadcast for it, each with the mark of its trigger.
\<close>

record alert_job =
  jobRule :: "alert_rule option"
  jobID :: string
  jobTitle :: string
  jobMessage :: string
  jobData :: data
  jobMark :: int

record alert_state =
  aService :: alert_service
  aJobs :: "alert_job list"
  aMarks :: "int list"
  aSent :: "(int \<times> alert_event) list"

definition decide_step :: "string \<Rightarrow> int \<Rightarrow> int \<Rightarrow> string \<Rightarrow> string \<Rightarrow> string \<Rightarrow> data \<Rightarrow> alert_state \<Rightarrow> alert_state" where
  "decide_step i since mark j title message d x =
     (case trigger_decide since mark j (aService x) of
        (None, s) \<Rightarrow> x\<lparr>aService := s\<rparr>
      | (Some rule, s) \<Rightarrow> x\<lparr>aService := s, aMarks := aMarks x @ (if j = i then [mark] else []),
          aJobs := \<lparr>jobRule = rule, jobID = j, jobTitle = title, jobMessage = message, jobData = d, jobMark = mark\<rparr> # aJobs x\<rparr>)"

definition broadcasts :: "alert_effect list \<Rightarrow> alert_event list" where
  "broadcasts es = concat (map (\<lambda>x. case x of AlertBroadcast e \<Rightarrow> [e] | _ \<Rightarrow> []) es)"

definition finish_step :: "string \<Rightarrow> int \<Rightarrow> (string \<times> int) option \<Rightarrow> alert_job \<Rightarrow> alert_state \<Rightarrow> alert_state" where
  "finish_step i created ins job x =
     (let (es, s) = trigger_finish created ins (jobRule job) (jobID job) (jobTitle job) (jobMessage job) (jobData job) (aService x)
      in x\<lparr>aService := s, aJobs := remove1 job (aJobs x), aSent := aSent x @ (if jobID job = i then map (Pair (jobMark job)) (broadcasts es) else [])\<rparr>)"

inductive alert_run :: "string \<Rightarrow> alert_service \<Rightarrow> alert_state \<Rightarrow> bool" for i :: string and s0 :: alert_service where
  Start: "alert_run i s0 \<lparr>aService = s0, aJobs = [], aMarks = [], aSent = []\<rparr>"
| Decide: "alert_run i s0 x \<Longrightarrow> since \<le> mark \<Longrightarrow> alert_run i s0 (decide_step i since mark j title message d x)"
| Finish: "alert_run i s0 x \<Longrightarrow> job \<in> set (aJobs x) \<Longrightarrow> jobMark job \<le> created \<Longrightarrow> alert_run i s0 (finish_step i created ins job x)"
| Direct: "alert_run i s0 x \<Longrightarrow> alert_run i s0 (x\<lparr>aService := snd (TriggerDirect tm ins severity title message d (aService x))\<rparr>)"
| Ack: "alert_run i s0 x \<Longrightarrow> alert_run i s0 (x\<lparr>aService := snd (Acknowledge ok tm e user (aService x))\<rparr>)"
| Create: "alert_run i s0 x \<Longrightarrow> j \<noteq> i \<Longrightarrow> alert_run i s0 (x\<lparr>aService := snd (CreateRule (Some j) r (aService x))\<rparr>)"
| Update: "alert_run i s0 x \<Longrightarrow> j \<noteq> i \<Longrightarrow> alert_run i s0 (x\<lparr>aService := snd (UpdateRule ok j r (aService x))\<rparr>)"
| Delete: "alert_run i s0 x \<Longrightarrow> j \<noteq> i \<Longrightarrow> alert_run i s0 (x\<lparr>aService := snd (DeleteRule ok j (aService x))\<rparr>)"

text \<open>The identifiers of the rows of a rule, and times of which any two are at least \<open>gap\<close> apart.\<close>

definition rows_of :: "string \<Rightarrow> alert_service \<Rightarrow> string list" where
  "rows_of i s = map aeID (filter (\<lambda>e. aeRuleID e = i) (event_table s))"

definition spaced :: "int \<Rightarrow> int list \<Rightarrow> bool" where
  "spaced gap ts = sorted_wrt (\<lambda>a b. a + gap \<le> b) ts"

definition cooling :: "int \<Rightarrow> string \<Rightarrow> alert_state \<Rightarrow> bool" where
  "cooling gap i x \<longleftrightarrow> (\<exists>r. map_of (rules (aService x)) i = Some r \<and> wrap64 (rlCooldownSeconds r * 10 ^ 9) = gap \<and> spaced gap (aMarks x) \<and>
     (\<forall>t \<in> set (aMarks x). \<exists>l. rlLastTriggered r = Some l \<and> t \<le> l))"

text \<open>Every event of the rule and every trigger of it under way has a mark of its own.\<close>

definition accounted :: "string \<Rightarrow> alert_state \<Rightarrow> bool" where
  "accounted i x \<longleftrightarrow> mset (map fst (aSent x)) + mset (map jobMark (filter (\<lambda>j. jobID j = i) (aJobs x))) \<subseteq># mset (aMarks x) \<and>
     (\<forall>(m, e) \<in> set (aSent x). aeRuleID e = i \<and> m \<le> aeCreatedAt e) \<and> rows_of i (aService x) = map (aeID \<circ> snd) (aSent x)"

lemma rows_of_simps [simp]:
  "i \<noteq> [] \<Longrightarrow> rows_of i (snd (TriggerDirect tm ins severity title message d s)) = rows_of i s"
  "rows_of i (snd (Acknowledge ok tm e user s)) = rows_of i s"
  "rows_of i (snd (CreateRule ins' r s)) = rows_of i s" "rows_of i (snd (UpdateRule ok j r s)) = rows_of i s"
  "i \<noteq> [] \<Longrightarrow> j \<noteq> i \<Longrightarrow> rows_of i (snd (DeleteRule ok j s)) = rows_of i s"
  "rows_of i (snd (trigger_decide since mark j s)) = rows_of i s"
proof -
  have ack: "map aeID (filter (\<lambda>e. aeRuleID e = i)
      (map (\<lambda>e. if aeID e = x then e\<lparr>aeAcknowledged := True, aeAcknowledgedBy := y, aeAcknowledgedAt := z\<rparr> else e) es)) =
      map aeID (filter (\<lambda>e. aeRuleID e = i) es)" for x y z es by (induction es) auto
  have del: "i \<noteq> [] \<Longrightarrow> j \<noteq> i \<Longrightarrow> map aeID (filter (\<lambda>e. aeRuleID e = i) (map (\<lambda>e. if aeRuleID e = j then e\<lparr>aeRuleID := []\<rparr> else e) es)) =
      map aeID (filter (\<lambda>e. aeRuleID e = i) es)" for es by (induction es) auto
  show "i \<noteq> [] \<Longrightarrow> rows_of i (snd (TriggerDirect tm ins severity title message d s)) = rows_of i s"
    by (simp add: rows_of_def TriggerDirect_def new_event_def stored_event_def Let_def split: option.splits)
  show "rows_of i (snd (Acknowledge ok tm e user s)) = rows_of i s" by (simp add: rows_of_def Acknowledge_def ack)
  show "rows_of i (snd (CreateRule ins' r s)) = rows_of i s" "rows_of i (snd (UpdateRule ok j r s)) = rows_of i s"
    "rows_of i (snd (trigger_decide since mark j s)) = rows_of i s"
    by (simp_all add: rows_of_def CreateRule_def UpdateRule_def trigger_decide_def Let_def split: option.splits)
  show "i \<noteq> [] \<Longrightarrow> j \<noteq> i \<Longrightarrow> rows_of i (snd (DeleteRule ok j s)) = rows_of i s" by (simp add: rows_of_def DeleteRule_def del)
qed

lemma spaced_snoc: "spaced gap (ts @ [t]) \<longleftrightarrow> spaced gap ts \<and> (\<forall>x \<in> set ts. x + gap \<le> t)"
  by (simp add: spaced_def sorted_wrt_append)

lemma decide_cooling: assumes "cooling gap i x" "0 \<le> gap" "since \<le> mark" shows "cooling gap i (decide_step i since mark j title message d x)"
proof -
  obtain r where r: "map_of (rules (aService x)) i = Some r" "wrap64 (rlCooldownSeconds r * 10 ^ 9) = gap" "spaced gap (aMarks x)"
    "\<forall>t \<in> set (aMarks x). \<exists>l. rlLastTriggered r = Some l \<and> t \<le> l" using assms(1) by (auto simp: cooling_def)
  show ?thesis
  proof (cases "j = i")
    case True
    show ?thesis
    proof (cases "in_cooldown since r")
      case False
      have far: "t + gap \<le> mark" if "t \<in> set (aMarks x)" for t
        using that r(2,4) False assms(3) by (fastforce simp: in_cooldown_def)
      have "map_of (rules (aService (decide_step i since mark j title message d x))) i = Some (r\<lparr>rlLastTriggered := Some mark\<rparr>)"
        "aMarks (decide_step i since mark j title message d x) = aMarks x @ [mark]"
        using True r(1) False by (simp_all add: decide_step_def trigger_decide_def update_conv')
      then show ?thesis using r(2,3) far assms(2) by (force simp: cooling_def spaced_snoc)
    qed (use True r assms(1) in \<open>simp add: decide_step_def trigger_decide_def\<close>)
  next
    case False
    then have "map_of (rules (aService (decide_step i since mark j title message d x))) i = Some r"
      "aMarks (decide_step i since mark j title message d x) = aMarks x"
      using r(1) by (auto simp: decide_step_def trigger_decide_def update_conv' split: option.splits)
    then show ?thesis using r by (simp add: cooling_def)
  qed
qed

lemma decide_accounted: assumes "accounted i x" shows "accounted i (decide_step i since mark j title message d x)"
proof -
  obtain r s where d: "trigger_decide since mark j (aService x) = (r, s)" by fastforce
  then have "rows_of i s = rows_of i (aService x)" using rows_of_simps(6) [of i since mark j "aService x"] by simp
  then show ?thesis using assms d by (cases r) (auto simp: decide_step_def accounted_def)
qed

lemma finish_rules [simp]: "rules (snd (trigger_finish created ins rule j title message d s)) = rules s"
  by (simp add: trigger_finish_def Let_def split: option.split)

lemma finish_step_simps [simp]:
  "aService (finish_step i created ins job x) =
     snd (trigger_finish created ins (jobRule job) (jobID job) (jobTitle job) (jobMessage job) (jobData job) (aService x))"
  "aJobs (finish_step i created ins job x) = remove1 job (aJobs x)" "aMarks (finish_step i created ins job x) = aMarks x"
  "aSent (finish_step i created ins job x) = aSent x @ (if jobID job = i then map (Pair (jobMark job))
     (broadcasts (fst (trigger_finish created ins (jobRule job) (jobID job) (jobTitle job) (jobMessage job) (jobData job) (aService x)))) else [])"
  by (simp_all add: finish_step_def Let_def case_prod_unfold)

lemma finish_cooling: "cooling gap i x \<Longrightarrow> cooling gap i (finish_step i created ins job x)"
  by (simp add: cooling_def)

lemma mail_broadcasts: "broadcasts (case rule of Some r \<Rightarrow> if c r then sendAlertEmail r else [] | None \<Rightarrow> []) = []"
  by (auto simp: broadcasts_def sendAlertEmail_def split: option.split)

lemma finish_one:
  "ins = None \<Longrightarrow> trigger_finish created ins rule j title message d s = ([], s)"
  "ins = Some (k, tm) \<Longrightarrow> \<exists>e. aeRuleID e = j \<and> aeID e = k \<and> aeCreatedAt e = created \<and>
     broadcasts (fst (trigger_finish created ins rule j title message d s)) = [e] \<and>
     event_table (snd (trigger_finish created ins rule j title message d s)) = event_table s @ [stored_event e tm]"
proof -
  show "ins = None \<Longrightarrow> trigger_finish created ins rule j title message d s = ([], s)" by (simp add: trigger_finish_def)
  have b: "broadcasts (AlertBroadcast e # es) = e # broadcasts es" for e es by (simp add: broadcasts_def)
  show "ins = Some (k, tm) \<Longrightarrow> \<exists>e. aeRuleID e = j \<and> aeID e = k \<and> aeCreatedAt e = created \<and>
     broadcasts (fst (trigger_finish created ins rule j title message d s)) = [e] \<and>
     event_table (snd (trigger_finish created ins rule j title message d s)) = event_table s @ [stored_event e tm]"
    by (simp add: trigger_finish_def Let_def b mail_broadcasts) (simp add: new_event_def)
qed

lemma finish_accounted:
  assumes "accounted i x" "job \<in> set (aJobs x)" "jobMark job \<le> created"
  shows "accounted i (finish_step i created ins job x)"
proof -
  let ?f = "trigger_finish created ins (jobRule job) (jobID job) (jobTitle job) (jobMessage job) (jobData job) (aService x)"
  let ?jobs = "\<lambda>js. mset (map jobMark (filter (\<lambda>j. jobID j = i) js))"
  have "mset (aJobs x) = add_mset job (mset (remove1 job (aJobs x)))" using assms(2) by simp
  then have jobs: "?jobs (aJobs x) = ?jobs (job # remove1 job (aJobs x))" by (metis mset.simps(2) mset_filter mset_map)
  show ?thesis
  proof (cases ins)
    case None
    have "?jobs (remove1 job (aJobs x)) \<subseteq># ?jobs (aJobs x)" unfolding jobs by simp
    moreover have "mset (map fst (aSent x)) + ?jobs (aJobs x) \<subseteq># mset (aMarks x)" using assms(1) by (simp add: accounted_def)
    ultimately have "mset (map fst (aSent x)) + ?jobs (remove1 job (aJobs x)) \<subseteq># mset (aMarks x)"
      using subset_mset.order_trans [OF subset_mset.add_left_mono] by blast
    then show ?thesis using assms(1) None finish_one(1) unfolding accounted_def by (cases "jobID job = i") (simp_all add: broadcasts_def)
  next
    case (Some p)
    then obtain k tm e where e: "ins = Some (k, tm)" "aeRuleID e = jobID job" "aeID e = k" "aeCreatedAt e = created" "broadcasts (fst ?f) = [e]"
      "event_table (snd ?f) = event_table (aService x) @ [stored_event e tm]"
      using finish_one(2) [where ins = ins and created = created and j = "jobID job" and rule = "jobRule job" and title = "jobTitle job" and
        message = "jobMessage job" and d = "jobData job" and s = "aService x"] by (cases p) blast
    show ?thesis
    proof (cases "jobID job = i")
      case True
      then show ?thesis using assms(1,3) e jobs unfolding accounted_def
        by (simp add: rows_of_def stored_event_def)
    next
      case False
      then show ?thesis using assms(1) e jobs unfolding accounted_def
        by (simp add: rows_of_def stored_event_def)
    qed
  qed
qed

lemma alert_run_inv: assumes "alert_run i s0 x" "cooling gap i \<lparr>aService = s0, aJobs = [], aMarks = [], aSent = []\<rparr>" "rows_of i s0 = []" "0 \<le> gap" "i \<noteq> []"
  shows "cooling gap i x \<and> accounted i x"
  using assms
proof (induction rule: alert_run.induct)
  case Start
  then show ?case by (simp add: accounted_def)
next
  case (Decide x since mark j title message d)
  then show ?case using decide_cooling decide_accounted by blast
next
  case (Finish x job created ins)
  then show ?case using finish_cooling finish_accounted by blast
next
  case (Direct x tm ins severity title message d)
  then show ?case by (simp add: cooling_def accounted_def) (simp add: TriggerDirect_def Let_def split: option.splits)
next
  case (Ack x ok tm e user)
  then show ?case by (simp add: cooling_def accounted_def) (simp add: Acknowledge_def)
next
  case (Create x j r)
  then show ?case by (simp add: cooling_def accounted_def) (simp add: CreateRule_def Let_def update_conv')
next
  case (Update x j ok r)
  then show ?case by (simp add: cooling_def accounted_def) (simp add: UpdateRule_def Let_def update_conv')
next
  case (Delete x j ok)
  then show ?case by (simp add: cooling_def accounted_def) (simp add: DeleteRule_def delete_conv')
qed

text \<open>A trigger that is not interrupted, and so the evaluation of a detection, is a sequence of such steps.\<close>

definition io_ordered :: "trigger_io \<Rightarrow> bool" where
  "io_ordered io \<longleftrightarrow> ioSince io \<le> ioMark io \<and> ioMark io \<le> ioCreated io"

lemma trigger_run:
  assumes "alert_run i s0 x" "io_ordered io"
  shows "\<exists>y. alert_run i s0 y \<and> aService y = snd (Trigger io j title message d (aService x))"
proof -
  let ?y = "decide_step i (ioSince io) (ioMark io) j title message d x"
  have y: "alert_run i s0 ?y" using alert_run.Decide [OF assms(1)] assms(2) by (simp add: io_ordered_def)
  obtain r s where d: "trigger_decide (ioSince io) (ioMark io) j (aService x) = (r, s)" by fastforce
  show ?thesis
  proof (cases r)
    case None
    then show ?thesis using y d by (intro exI [of _ ?y]) (simp add: decide_step_def Trigger_def)
  next
    case (Some rule)
    let ?job = "\<lparr>jobRule = rule, jobID = j, jobTitle = title, jobMessage = message, jobData = d, jobMark = ioMark io\<rparr>"
    have "?job \<in> set (aJobs ?y)" "aService ?y = s" using d Some by (simp_all add: decide_step_def)
    then show ?thesis using alert_run.Finish [OF y, of ?job "ioCreated io" "ioInsert io"] assms(2) d Some
      by (intro exI [of _ "finish_step i (ioCreated io) (ioInsert io) ?job ?y"]) (simp add: io_ordered_def Trigger_def)
  qed
qed

lemma fire_run: "alert_run i s0 x \<Longrightarrow> (\<And>k. io_ordered (q k)) \<Longrightarrow> \<exists>y. alert_run i s0 y \<and> aService y = snd (fire u f evt q n rs (aService x))"
proof (induction rs arbitrary: x n)
  case (Cons r rs)
  obtain y where y: "alert_run i s0 y" "aService y = snd (Trigger (q n) (rlID r) (rlName r) (renderTemplate r evt) (detection_data evt) (aService x))"
    using trigger_run [OF Cons.prems] by blast
  then show ?case using Cons.IH [OF y(1), of "Suc n"] Cons.IH [OF Cons.prems(1), of "Suc n"] Cons.prems(2) by (auto simp: Let_def split: prod.splits)
qed auto

text \<open>C12: While a rule is not edited, the decisions to raise its alert, the marks set under the lock, are at least its cooldown apart, in every
  interleaving of triggers, other alerts and changes to other rules, whichever statements fail. Every event broadcast for the rule belongs to
  a decision of its own and was not created before it, and the rows of the rule are those of these events. The events themselves
  get their times later, outside of the lock, and two of them may be closer to each other than that.\<close>

theorem cooldown_keeps_distance:
  assumes "map_of (rules s0) i = Some r" "rows_of i s0 = []" "i \<noteq> []" "alert_run i s0 x"
    and "0 \<le> rlCooldownSeconds r" "rlCooldownSeconds r * 10 ^ 9 < 2 ^ 63"
  shows "spaced (rlCooldownSeconds r * 10 ^ 9) (aMarks x) \<and> mset (map fst (aSent x)) \<subseteq># mset (aMarks x) \<and>
    (\<forall>(m, e) \<in> set (aSent x). aeRuleID e = i \<and> m \<le> aeCreatedAt e) \<and> rows_of i (aService x) = map (aeID \<circ> snd) (aSent x)"
proof -
  have "wrap64 (rlCooldownSeconds r * 10 ^ 9) = rlCooldownSeconds r * 10 ^ 9" using assms(5,6) by (intro wrap64_id) simp_all
  then have "cooling (rlCooldownSeconds r * 10 ^ 9) i \<lparr>aService = s0, aJobs = [], aMarks = [], aSent = []\<rparr>"
    using assms(1) by (simp add: cooling_def spaced_def)
  then have "cooling (rlCooldownSeconds r * 10 ^ 9) i x \<and> accounted i x" using alert_run_inv [OF assms(4)] assms(2,3,5) by simp
  moreover have "A \<subseteq># B" if "A + C \<subseteq># B" for A B C :: "int multiset" using that mset_subset_eq_add_left subset_mset.order_trans by blast
  ultimately show ?thesis by (auto simp: cooling_def accounted_def)
qed

definition rule0 :: alert_rule where
  "rule0 = \<lparr>rlID = ''r'', rlName = ''door'', rlDescription = [], rlCondition = Some [(''ouiPrefixes'', JArr [JStr ''AA''])], rlSeverity = SeverityAlert,
     rlEnabled = True, rlCooldownSeconds = 60, rlNotifyWebhook = False, rlNotifyEmail = False, rlEmailRecipients = [],
     rlNotifyVisual = True, rlNotifyAudible = True, rlLastTriggered = None\<rparr>"

definition alerts0 :: alert_service where
  "alerts0 = NewAlerts\<lparr>rules := [(''r'', rule0)]\<rparr>"

text \<open>Two triggers of the rule, the second after the cooldown; the first goroutine is slow, so that their events are created almost together.\<close>

definition slow_run :: alert_state where
  "slow_run =
     (let x = decide_step ''r'' 1 2 ''r'' ''door'' [] [] \<lparr>aService = alerts0, aJobs = [], aMarks = [], aSent = []\<rparr>;
          y = decide_step ''r'' 60000000002 60000000003 ''r'' ''door'' [] [] x
      in finish_step ''r'' 60000000005 (Some (''b'', 8)) (aJobs y ! 0) (finish_step ''r'' 60000000004 (Some (''a'', 7)) (aJobs y ! 1) y))"

lemma slow_run_result: "aMarks slow_run = [2, 60000000003]" "map (aeCreatedAt \<circ> snd) (aSent slow_run) = [60000000004, 60000000005]"
  by (code_simp)+

lemma slow_run_runs: "alert_run ''r'' alerts0 slow_run"
  unfolding slow_run_def Let_def
  by (intro alert_run.Finish alert_run.Decide alert_run.Start) (code_simp)+

theorem cooldown_keeps_distance_witness:
  "spaced (rlCooldownSeconds rule0 * 10 ^ 9) (aMarks slow_run) \<and> mset (map fst (aSent slow_run)) \<subseteq># mset [2, 60000000003]"
proof -
  have "map_of (rules alerts0) ''r'' = Some rule0" "rows_of ''r'' alerts0 = []" by (simp_all add: alerts0_def NewAlerts_def rows_of_def)
  note c = cooldown_keeps_distance [OF this _ slow_run_runs]
  then show ?thesis unfolding slow_run_result(1) [symmetric] by (simp add: rule0_def)
qed

section \<open>Detections\<close>

definition rule_event :: "alert_rule \<Rightarrow> DetectionEvent \<Rightarrow> int \<Rightarrow> string \<Rightarrow> alert_event" where
  "rule_event r evt tm i = (new_event (rlID r) (rlSeverity r) (rlName r) (renderTemplate r evt) (detection_data evt) (rlNotifyVisual r) (rlNotifyAudible r) tm)\<lparr>aeID := i\<rparr>"

lemma Trigger_other: "j \<noteq> i \<Longrightarrow> map_of (rules (snd (Trigger io j title message d s))) i = map_of (rules s) i"
  by (simp add: Trigger_def trigger_decide_def update_conv' split: option.split)

lemma finish_table: "set (event_table s) \<subseteq> set (event_table (snd (trigger_finish created ins rule j title message d s)))"
  by (auto simp: trigger_finish_def Let_def split: option.split)

lemma Trigger_table: "set (event_table s) \<subseteq> set (event_table (snd (Trigger io j title message d s)))"
proof -
  obtain r s' where d: "trigger_decide (ioSince io) (ioMark io) j s = (r, s')" by fastforce
  then have "event_table s' = event_table s" by (auto simp: trigger_decide_def split: option.splits if_splits)
  then show ?thesis using d finish_table [of s'] by (cases r) (simp_all add: Trigger_def)
qed

definition trigger_rule :: "DetectionEvent \<Rightarrow> trigger_io \<Rightarrow> alert_rule \<Rightarrow> alert_service \<Rightarrow> alert_effect list \<times> alert_service" where
  "trigger_rule evt io r s = Trigger io (rlID r) (rlName r) (renderTemplate r evt) (detection_data evt) s"

lemma fire_Cons:
  "fst (fire u f evt q n (r # rs) s) = (if matchesRule u f r evt
     then fst (trigger_rule evt (q n) r s) @ fst (fire u f evt q (Suc n) rs (snd (trigger_rule evt (q n) r s))) else fst (fire u f evt q (Suc n) rs s))"
  "snd (fire u f evt q n (r # rs) s) = (if matchesRule u f r evt
     then snd (fire u f evt q (Suc n) rs (snd (trigger_rule evt (q n) r s))) else snd (fire u f evt q (Suc n) rs s))"
  by (simp_all add: trigger_rule_def Let_def split: prod.split)

lemma fire_table: "set (event_table s) \<subseteq> set (event_table (snd (fire u f evt q n rs s)))"
proof (induction rs arbitrary: s n)
  case (Cons r rs)
  have "set (event_table s) \<subseteq> set (event_table (snd (trigger_rule evt (q n) r s)))" unfolding trigger_rule_def by (rule Trigger_table)
  then show ?case using Cons [of _ "Suc n"] unfolding fire_Cons by (auto; blast)
qed simp

lemma fire_fires:
  assumes "distinct (map rlID rs)" "k < length rs" "rs ! k = r" "map_of (rules s) (rlID r) = Some r" "matchesRule u f r evt"
    "\<not> in_cooldown (ioSince (q (n + k))) r" "ioInsert (q (n + k)) = Some (i, tm)"
  shows "AlertBroadcast (rule_event r evt (ioCreated (q (n + k))) i) \<in> set (fst (fire u f evt q n rs s)) \<and>
    stored_event (rule_event r evt (ioCreated (q (n + k))) i) tm \<in> set (event_table (snd (fire u f evt q n rs s)))"
  using assms
proof (induction rs arbitrary: k n s)
  case (Cons r0 rs)
  let ?T = "trigger_rule evt (q n) r0 s"
  show ?case
  proof (cases k)
    case 0
    then have "AlertBroadcast (rule_event r evt (ioCreated (q n)) i) \<in> set (fst ?T)" "stored_event (rule_event r evt (ioCreated (q n)) i) tm \<in> set (event_table (snd ?T))"
      using Cons.prems(3-7) by (simp_all add: trigger_rule_def Trigger_def trigger_decide_def trigger_finish_def Let_def rule_event_def)
    moreover have "r0 = r" using 0 Cons.prems(3) by simp
    ultimately show ?thesis using 0 Cons.prems(5) fire_table [of "snd ?T" u f evt q "Suc n" rs] unfolding fire_Cons by auto
  next
    case (Suc k')
    have "rlID r0 \<noteq> rlID r" using Cons.prems(1-3) Suc nth_mem [of k' rs] by force
    then have "map_of (rules (snd ?T)) (rlID r) = Some r" using Trigger_other Cons.prems(4) by (simp add: trigger_rule_def)
    then show ?thesis using Suc Cons.prems Cons.IH [of k' "snd ?T" "Suc n"] Cons.IH [of k' s "Suc n"] unfolding fire_Cons by simp
  qed
qed simp

end
