(* ===== verification/Targets.thy ===== *)
theory Targets
  imports Geofences TextParser
begin

text \<open>
  The target service of \<open>internal/targets/service.go\<close>, the tracking of signal sources in
  \<open>internal/targets/tracking.go\<close> and the handlers of \<open>internal/api/handlers_targets.go\<close>. Targets live in a map and
  in a table; hits and positions have tables of their own. The arithmetic is that of \<open>float64\<close> values; the functions of
  Go's \<open>math\<close> package that are not exact (\<open>Pow\<close>, \<open>Sin\<close>, \<open>Cos\<close>, \<open>Atan2\<close>, \<open>Sqrt\<close>) are the argument \<open>math_fns\<close>. Clock, iteration
  order and the results of statements are arguments.
\<close>

section \<open>Targets\<close>

record Target =
  tgID :: string
  tgName :: string
  tgDescription :: string
  TargetType :: string
  tgMAC :: string
  tgLatitude :: float64
  tgLongitude :: float64
  tgStatus :: string
  tgURL :: string
  tgTags :: "string list"
  tgNotes :: string
  tgCreatedBy :: string
  FirstNodeID :: string
  TrackingConfidence :: "float64 option"
  TrackingUncertainty :: "float64 option"
  TriangulationMethod :: string
  tgCreatedAt :: int
  tgUpdatedAt :: int
  BLEShortID :: string
  BLEManufacturerID :: "int option"
  BLEServiceUUIDs16 :: "int list"
  BLEServiceUUIDs128 :: "string list"
  BLELocalNameGlob :: string
  BLEAppearanceMin :: "int option"
  BLEAppearanceMax :: "int option"
  BLETxPowerMin :: "int option"
  BLETxPowerMax :: "int option"
  BLEMatchMode :: string
  LastHitLatitude :: "float64 option"
  LastHitLongitude :: "float64 option"

record Hit =
  htTargetID :: string
  htTargetShortID :: string
  htObservedMAC :: string
  htObservedName :: string
  htRSSI :: "int option"
  htLatitude :: "float64 option"
  htLongitude :: "float64 option"
  htNodeID :: string
  htRawFrame :: string
  htCreatedAt :: int

record BLEFingerprint =
  fpManufacturerID :: "int option"
  fpServiceUUIDs16 :: "int list"
  fpServiceUUIDs128 :: "string list"
  fpLocalNameGlob :: string
  fpAppearanceMin :: "int option"
  fpAppearanceMax :: "int option"
  fpTxPowerMin :: "int option"
  fpTxPowerMax :: "int option"
  fpMatchMode :: string

record PositionFix =
  fixLatitude :: float64
  fixLongitude :: float64
  fixAccuracyM :: float64
  fixSource :: string

datatype target_effect = TargetBroadcast Target

record target_service =
  targets :: "(string \<times> Target) list"
  target_table :: "Target list"
  hit_table :: "Hit list"
  position_table :: "(string \<times> PositionFix) list"

definition NewTargets :: target_service where
  "NewTargets = \<lparr>targets = [], target_table = [], hit_table = [], position_table = []\<rparr>"

type_synonym target_order = "(string \<times> Target) list \<Rightarrow> Target list"

definition Target0 :: Target where
  "Target0 = \<lparr>tgID = [], tgName = [], tgDescription = [], TargetType = [], tgMAC = [], tgLatitude = Fin 0, tgLongitude = Fin 0, tgStatus = [],
     tgURL = [], tgTags = [], tgNotes = [], tgCreatedBy = [], FirstNodeID = [], TrackingConfidence = None, TrackingUncertainty = None,
     TriangulationMethod = [], tgCreatedAt = 0, tgUpdatedAt = 0, BLEShortID = [], BLEManufacturerID = None, BLEServiceUUIDs16 = [],
     BLEServiceUUIDs128 = [], BLELocalNameGlob = [], BLEAppearanceMin = None, BLEAppearanceMax = None, BLETxPowerMin = None,
     BLETxPowerMax = None, BLEMatchMode = [], LastHitLatitude = None, LastHitLongitude = None\<rparr>"

section \<open>Loading and listing\<close>

text \<open>The position of the newest hit with a position.\<close>

definition last_hit :: "string \<Rightarrow> Hit list \<Rightarrow> Hit option" where
  "last_hit i hs =
     (case rev (sort_key htCreatedAt (filter (\<lambda>h. htTargetID h = i \<and> htLatitude h \<noteq> None \<and> htLongitude h \<noteq> None) hs)) of
        h # _ \<Rightarrow> Some h
      | [] \<Rightarrow> None)"

definition scan_target :: "Hit list \<Rightarrow> Target \<Rightarrow> Target" where
  "scan_target hs t =
     (let h = last_hit (tgID t) hs
      in t\<lparr>LastHitLatitude := (case h of Some h \<Rightarrow> htLatitude h | None \<Rightarrow> None), LastHitLongitude := (case h of Some h \<Rightarrow> htLongitude h | None \<Rightarrow> None)\<rparr>)"

definition Load_targets :: "bool \<Rightarrow> target_service \<Rightarrow> target_service" where
  "Load_targets ok s =
     (if ok then s\<lparr>targets := fold (\<lambda>t. AList.update (tgID t) (scan_target (hit_table s) t)) (target_table s) (targets s)\<rparr> else s)"

definition GetAll_targets :: "target_order \<Rightarrow> target_service \<Rightarrow> Target list" where
  "GetAll_targets order s = order (targets s)"

definition ListBLETargets :: "target_order \<Rightarrow> target_service \<Rightarrow> Target list" where
  "ListBLETargets order s = filter (\<lambda>t. BLEShortID t \<noteq> []) (order (targets s))"

definition FindByBLEShortID :: "target_order \<Rightarrow> string \<Rightarrow> target_service \<Rightarrow> Target option" where
  "FindByBLEShortID order i s = find (\<lambda>t. BLEShortID t = i) (order (targets s))"

text \<open>\<open>EqualFold\<close> with an address, which is ASCII.\<close>

definition FindByMAC :: "target_order \<Rightarrow> string \<Rightarrow> target_service \<Rightarrow> Target option" where
  "FindByMAC order macUpper s =
     (if macUpper = [] then None else find (\<lambda>t. tgMAC t \<noteq> [] \<and> equal_fold (tgMAC t) macUpper) (order (targets s)))"

section \<open>Changes\<close>

text \<open>The row of a target: the statement of \<open>Create\<close> names no BLE columns.\<close>

definition plain_row :: "int \<Rightarrow> Target \<Rightarrow> Target" where
  "plain_row tm t = t\<lparr>tgCreatedAt := tm, tgUpdatedAt := tm, BLEShortID := [], BLEManufacturerID := None, BLEServiceUUIDs16 := [],
     BLEServiceUUIDs128 := [], BLELocalNameGlob := [], BLEAppearanceMin := None, BLEAppearanceMax := None, BLETxPowerMin := None,
     BLETxPowerMax := None, BLEMatchMode := ''ALL'', LastHitLatitude := None, LastHitLongitude := None\<rparr>"

definition Create_target :: "int \<Rightarrow> string option \<Rightarrow> Target \<Rightarrow> target_service \<Rightarrow> (Target \<times> target_effect list) option \<times> target_service" where
  "Create_target tm ins t s =
     (let t = (if tgStatus t = [] then t\<lparr>tgStatus := ''active''\<rparr> else t) in
      case ins of
        None \<Rightarrow> (None, s)
      | Some i \<Rightarrow> (let t = t\<lparr>tgID := i\<rparr> in
          (Some (t, [TargetBroadcast t]), s\<lparr>target_table := target_table s @ [plain_row tm t], targets := AList.update i t (targets s)\<rparr>)))"

text \<open>Deleting a row deletes its hits and positions.\<close>

definition Delete_target :: "bool \<Rightarrow> string \<Rightarrow> target_service \<Rightarrow> bool \<times> target_service" where
  "Delete_target ok i s =
     (if ok then (True, s\<lparr>target_table := filter (\<lambda>t. tgID t \<noteq> i) (target_table s), hit_table := filter (\<lambda>h. htTargetID h \<noteq> i) (hit_table s),
        position_table := filter (\<lambda>(j, _). j \<noteq> i) (position_table s), targets := AList.delete i (targets s)\<rparr>)
      else (False, s))"

definition put_common :: "Target \<Rightarrow> Target \<Rightarrow> Target" where
  "put_common t x = x\<lparr>tgName := tgName t, tgDescription := tgDescription t, TargetType := TargetType t, tgMAC := tgMAC t, tgStatus := tgStatus t,
     tgURL := tgURL t, tgTags := tgTags t, tgNotes := tgNotes t\<rparr>"

definition put_fingerprint :: "string \<Rightarrow> Target \<Rightarrow> Target \<Rightarrow> Target" where
  "put_fingerprint mode t x = x\<lparr>BLEManufacturerID := BLEManufacturerID t, BLEServiceUUIDs16 := BLEServiceUUIDs16 t,
     BLEServiceUUIDs128 := BLEServiceUUIDs128 t, BLELocalNameGlob := BLELocalNameGlob t, BLEAppearanceMin := BLEAppearanceMin t,
     BLEAppearanceMax := BLEAppearanceMax t, BLETxPowerMin := BLETxPowerMin t, BLETxPowerMax := BLETxPowerMax t, BLEMatchMode := mode\<rparr>"

definition on_target :: "string \<Rightarrow> (Target \<Rightarrow> Target) \<Rightarrow> (string \<times> Target) list \<Rightarrow> (string \<times> Target) list" where
  "on_target i f m = (case map_of m i of Some t \<Rightarrow> AList.update i (f t) m | None \<Rightarrow> m)"

definition on_row :: "string \<Rightarrow> (Target \<Rightarrow> Target) \<Rightarrow> Target list \<Rightarrow> Target list" where
  "on_row i f rows = map (\<lambda>t. if tgID t = i then f t else t) rows"

definition Update_target :: "unicode \<Rightarrow> bool \<Rightarrow> int \<Rightarrow> string \<Rightarrow> Target \<Rightarrow> target_service \<Rightarrow> bool \<times> target_service" where
  "Update_target u ok tm i t s =
     (let isBLE = (case map_of (targets s) i of Some x \<Rightarrow> BLEShortID x \<noteq> [] | None \<Rightarrow> False);
          mode = (if to_upper u (TrimSpace (BLEMatchMode t)) = ''ANY'' then ''ANY'' else ''ALL'');
          f = (if isBLE then put_fingerprint mode t \<circ> put_common t else put_common t)
      in if ok then (True, s\<lparr>target_table := on_row i (\<lambda>r. (f r)\<lparr>tgUpdatedAt := tm\<rparr>) (target_table s), targets := on_target i f (targets s)\<rparr>)
         else (False, s))"

definition ClearAll_targets :: "bool \<Rightarrow> target_service \<Rightarrow> bool \<times> target_service" where
  "ClearAll_targets ok s =
     (ok, if ok then s\<lparr>targets := [], target_table := [], hit_table := [], position_table := []\<rparr> else s\<lparr>targets := []\<rparr>)"

definition set_status :: "string \<Rightarrow> int \<Rightarrow> Target \<Rightarrow> Target" where
  "set_status st tm t = t\<lparr>tgStatus := st, tgUpdatedAt := tm\<rparr>"

definition Resolve :: "bool \<Rightarrow> int \<Rightarrow> string \<Rightarrow> target_service \<Rightarrow> bool \<times> target_service" where
  "Resolve ok tm i s =
     (if ok then (True, s\<lparr>target_table := on_row i (set_status ''resolved'' tm) (target_table s), targets := on_target i (set_status ''resolved'' tm) (targets s)\<rparr>)
      else (False, s))"

definition Reactivate :: "bool \<Rightarrow> int \<Rightarrow> string \<Rightarrow> target_service \<Rightarrow> bool \<times> target_service" where
  "Reactivate ok tm i s =
     (if ok then (True, s\<lparr>target_table := on_row i (set_status ''active'' tm) (target_table s), targets := on_target i (set_status ''active'' tm) (targets s)\<rparr>)
      else (False, s))"

text \<open>A position or a hit is stored only for a target with a row; \<open>None\<close> is the error of the service.\<close>

definition stored_target :: "string \<Rightarrow> target_service \<Rightarrow> bool" where
  "stored_target i s \<longleftrightarrow> i \<in> set (map tgID (target_table s))"

definition add_position :: "bool \<Rightarrow> string \<Rightarrow> PositionFix \<Rightarrow> target_service \<Rightarrow> bool \<times> target_service" where
  "add_position ok i fix s = (if ok \<and> stored_target i s then (True, s\<lparr>position_table := position_table s @ [(i, fix)]\<rparr>) else (False, s))"

definition UpdatePosition :: "bool \<Rightarrow> int \<Rightarrow> string \<Rightarrow> PositionFix \<Rightarrow> target_service \<Rightarrow> target_effect list option \<times> target_service" where
  "UpdatePosition ok tm i fix s =
     (case map_of (targets s) i of
        None \<Rightarrow> (None, s)
      | Some t \<Rightarrow>
         (let t = t\<lparr>tgLatitude := fixLatitude fix, tgLongitude := fixLongitude fix, tgUpdatedAt := tm\<rparr>;
              (stored, s) = add_position ok i fix (s\<lparr>targets := AList.update i t (targets s)\<rparr>)
          in (if stored then Some [TargetBroadcast t] else None, s)))"

definition ApplyTrackingEstimate :: "target_order \<Rightarrow> bool \<Rightarrow> bool \<Rightarrow> int \<Rightarrow> string \<Rightarrow> float64 \<Rightarrow> float64 \<Rightarrow> float64 \<Rightarrow> float64 \<Rightarrow> string
    \<Rightarrow> target_service \<Rightarrow> target_effect list option \<times> target_service" where
  "ApplyTrackingEstimate order ok ok' tm mac lat lon confidence uncertainty how s =
     (case find (\<lambda>t. tgMAC t = mac) (order (targets s)) of
        None \<Rightarrow> (None, s)
      | Some t \<Rightarrow>
         (let i = tgID t;
              f = (\<lambda>t. t\<lparr>tgLatitude := lat, tgLongitude := lon, TrackingConfidence := Some confidence, TrackingUncertainty := Some uncertainty,
                 TriangulationMethod := if how \<noteq> [] then how else TriangulationMethod t,
                 tgStatus := if float_less (Fin (1/2)) confidence then ''active'' else tgStatus t, tgUpdatedAt := tm\<rparr>);
              s = s\<lparr>targets := AList.update i (f t) (targets s)\<rparr>
          in if \<not> ok then (None, s)
             else (let s = s\<lparr>target_table := on_row i (\<lambda>r. r\<lparr>tgLatitude := lat, tgLongitude := lon, TrackingConfidence := Some confidence,
                         TrackingUncertainty := Some uncertainty, TriangulationMethod := how, tgStatus := tgStatus (f t), tgUpdatedAt := tm\<rparr>) (target_table s)\<rparr>;
                       (_, s) = add_position ok' i \<lparr>fixLatitude = lat, fixLongitude = lon, fixAccuracyM = uncertainty, fixSource = how\<rparr> s
                   in (Some [TargetBroadcast (f t)], s))))"

definition EnsureTargetExists :: "target_order \<Rightarrow> int \<Rightarrow> string option \<Rightarrow> string \<Rightarrow> string \<Rightarrow> target_service \<Rightarrow> target_effect list \<times> target_service" where
  "EnsureTargetExists order tm ins mac nodeID s =
     (case find (\<lambda>t. tgMAC t = mac) (order (targets s)) of
        Some _ \<Rightarrow> ([], s)
      | None \<Rightarrow>
         (case Create_target tm ins (Target0\<lparr>tgName := ''Auto: '' @ mac, tgMAC := mac, TargetType := ''wifi'', tgStatus := ''triangulating'',
                FirstNodeID := nodeID, tgCreatedAt := tm, tgUpdatedAt := tm\<rparr>) s of
            (None, s) \<Rightarrow> ([], s)
          | (Some (_, es), s) \<Rightarrow> (es, s)))"

section \<open>Hits\<close>

definition RecordHit :: "bool \<Rightarrow> int \<Rightarrow> Hit \<Rightarrow> target_service \<Rightarrow> bool \<times> target_service" where
  "RecordHit ok tm h s =
     (if htTargetID h = [] \<or> \<not> ok \<or> \<not> stored_target (htTargetID h) s then (False, s)
      else (let s = s\<lparr>hit_table := hit_table s @ [h\<lparr>htCreatedAt := tm\<rparr>]\<rparr> in
            (True, if htLatitude h \<noteq> None \<and> htLongitude h \<noteq> None
               then s\<lparr>targets := on_target (htTargetID h) (\<lambda>t. t\<lparr>LastHitLatitude := htLatitude h, LastHitLongitude := htLongitude h\<rparr>) (targets s)\<rparr>
               else s)))"

definition ListHits :: "bool \<Rightarrow> string \<Rightarrow> int \<Rightarrow> target_service \<Rightarrow> Hit list option" where
  "ListHits ok i limit s =
     (if i = [] \<or> \<not> ok then None
      else Some (take (nat (if limit \<le> 0 then 500 else min limit 5000)) (rev (sort_key htCreatedAt (filter (\<lambda>h. htTargetID h = i) (hit_table s))))))"

section \<open>BLE fingerprints\<close>

datatype ble_error = FingerprintRequired | NoField | BadMatchMode | Database

definition fingerprintHasField :: "BLEFingerprint \<Rightarrow> bool" where
  "fingerprintHasField f \<longleftrightarrow> fpManufacturerID f \<noteq> None \<or> fpServiceUUIDs16 f \<noteq> [] \<or> fpServiceUUIDs128 f \<noteq> [] \<or> fpLocalNameGlob f \<noteq> [] \<or>
     fpAppearanceMin f \<noteq> None \<or> fpAppearanceMax f \<noteq> None \<or> fpTxPowerMin f \<noteq> None \<or> fpTxPowerMax f \<noteq> None"

text \<open>\<open>seq\<close> is the next value of the sequence; \<open>ins\<close> the identifier of the new row.\<close>

definition CreateBLETarget :: "int \<Rightarrow> int option \<Rightarrow> string option \<Rightarrow> string \<Rightarrow> string \<Rightarrow> BLEFingerprint option \<Rightarrow> string \<Rightarrow> target_service
    \<Rightarrow> (ble_error + Target \<times> target_effect list) \<times> target_service" where
  "CreateBLETarget tm seq ins name description fingerprint createdBy s =
     (case fingerprint of
        None \<Rightarrow> (Inl FingerprintRequired, s)
      | Some f \<Rightarrow>
         (let mode = (if fpMatchMode f = [] then ''ALL'' else fpMatchMode f) in
          if \<not> fingerprintHasField f then (Inl NoField, s)
          else if mode \<noteq> ''ALL'' \<and> mode \<noteq> ''ANY'' then (Inl BadMatchMode, s)
          else (case (seq, ins) of
              (Some n, Some i) \<Rightarrow>
                (let t = Target0\<lparr>tgID := i, tgName := name, tgDescription := description, TargetType := ''BLE_FINGERPRINT'', tgStatus := ''active'',
                       tgCreatedBy := createdBy, BLEShortID := ''T-B-'' @ show_int n, BLEManufacturerID := fpManufacturerID f,
                       BLEServiceUUIDs16 := fpServiceUUIDs16 f, BLEServiceUUIDs128 := fpServiceUUIDs128 f, BLELocalNameGlob := fpLocalNameGlob f,
                       BLEAppearanceMin := fpAppearanceMin f, BLEAppearanceMax := fpAppearanceMax f, BLETxPowerMin := fpTxPowerMin f,
                       BLETxPowerMax := fpTxPowerMax f, BLEMatchMode := mode, tgCreatedAt := tm, tgUpdatedAt := tm\<rparr>
                 in (Inr (t, [TargetBroadcast t]), s\<lparr>target_table := target_table s @ [t], targets := AList.update i t (targets s)\<rparr>))
            | _ \<Rightarrow> (Inl Database, s))))"

text \<open>\<open>%04x\<close> of an integer.\<close>

function hex_digits :: "nat \<Rightarrow> string" where
  "hex_digits n = (if n < 16 then [hex_lower n] else hex_digits (n div 16) @ [hex_lower (n mod 16)])"
  by pat_completeness auto
termination by (relation "measure id") auto

declare hex_digits.simps [simp del]

definition show_04x :: "int \<Rightarrow> string" where
  "show_04x n = (let neg = n < 0; ds = hex_digits (nat \<bar>n\<bar>); w = (if neg then 3 else 4)
     in (if neg then ''-'' else []) @ replicate (w - length ds) CHR ''0'' @ ds)"

fun joined :: "string \<Rightarrow> string list \<Rightarrow> string" where
  "joined sep [] = []"
| "joined sep [x] = x"
| "joined sep (x # y # ys) = x @ sep @ joined sep (y # ys)"

text \<open>The keys of a line in their order.\<close>

definition wire_fields :: "Target \<Rightarrow> (string \<times> string) list" where
  "wire_fields t =
     (let opt = (\<lambda>k v. case v of Some n \<Rightarrow> [(k, show_int n)] | None \<Rightarrow> [])
      in (case BLEManufacturerID t of Some n \<Rightarrow> [(''mfr'', show_04x n)] | None \<Rightarrow> []) @
         (if BLEServiceUUIDs16 t \<noteq> [] then [(''uuid'', joined '','' (map show_04x (BLEServiceUUIDs16 t)))] else []) @
         (if BLEServiceUUIDs128 t \<noteq> [] then [(''uuid128'', joined '','' (BLEServiceUUIDs128 t))] else []) @
         (if BLELocalNameGlob t \<noteq> [] then [(''name'', BLELocalNameGlob t)] else []) @
         opt ''appmin'' (BLEAppearanceMin t) @ opt ''appmax'' (BLEAppearanceMax t) @ opt ''txmin'' (BLETxPowerMin t) @ opt ''txmax'' (BLETxPowerMax t) @
         (if BLEMatchMode t \<noteq> [] \<and> BLEMatchMode t \<noteq> ''ALL'' then [(''match'', BLEMatchMode t)] else []))"

definition wire_line :: "Target \<Rightarrow> string" where
  "wire_line t = BLEShortID t @ '':'' @ joined '';'' (map (\<lambda>(k, v). k @ ''='' @ v) (wire_fields t))"

text \<open>\<open>None\<close> is the error for an unknown target or one that is no BLE target.\<close>

fun wire_lines :: "target_service \<Rightarrow> string list \<Rightarrow> string list option" where
  "wire_lines s [] = Some []"
| "wire_lines s (i # is) =
     (case map_of (targets s) i of
        None \<Rightarrow> None
      | Some t \<Rightarrow> if BLEShortID t = [] then None else map_option (\<lambda>ls. wire_line t # ls) (wire_lines s is))"

definition BuildConfigTargetsBLEWireFrame :: "string list \<Rightarrow> target_service \<Rightarrow> string option" where
  "BuildConfigTargetsBLEWireFrame ids s = map_option (joined [CHR 0x0A]) (wire_lines s ids)"

section \<open>Triangulation\<close>

record math_fns =
  pow :: "float64 \<Rightarrow> float64 \<Rightarrow> float64"
  sin64 :: "float64 \<Rightarrow> float64"
  cos64 :: "float64 \<Rightarrow> float64"
  atan2 :: "float64 \<Rightarrow> float64 \<Rightarrow> float64"
  sqrt64 :: "float64 \<Rightarrow> float64"

text \<open>\<open>math.Max\<close> and \<open>math.Min\<close>; infinities count before NaN.\<close>

definition fmax :: "float64 \<Rightarrow> float64 \<Rightarrow> float64" where
  "fmax x y = (if x = Inf False \<or> y = Inf False then Inf False else if x = NaN \<or> y = NaN then NaN else if float_less x y then y else x)"

definition fmin :: "float64 \<Rightarrow> float64 \<Rightarrow> float64" where
  "fmin x y = (if x = Inf True \<or> y = Inf True then Inf True else if x = NaN \<or> y = NaN then NaN else if float_less y x then y else x)"

definition lit :: "rat \<Rightarrow> float64" where
  "lit x = fround x"

record Observation =
  obLatitude :: float64
  obLongitude :: float64
  obRSSI :: int

definition estimateDistance :: "math_fns \<Rightarrow> int \<Rightarrow> float64" where
  "estimateDistance m rssi = pow m (Fin 10) (fdiv (fsub (Fin (- 30)) (fround (of_int rssi))) (fmul (Fin 10) (Fin 2)))"

definition estimateAccuracy :: "Observation list \<Rightarrow> float64" where
  "estimateAccuracy obs = (if length obs < 2 then Fin 1000 else fmax (Fin 10) (fdiv (Fin 500) (fround (of_nat (length obs)))))"

definition add_observation :: "math_fns \<Rightarrow> Observation \<Rightarrow> float64 \<times> float64 \<times> float64 \<Rightarrow> float64 \<times> float64 \<times> float64" where
  "add_observation m ob acc =
     (let (lat, lng, total) = acc; dist = estimateDistance m (obRSSI ob);
          dist = (if float_less (Fin 0) dist \<or> dist = NaN then dist else Fin 1); w = fdiv (Fin 1) (fmul dist dist)
      in (fadd lat (fmul (obLatitude ob) w), fadd lng (fmul (obLongitude ob) w), fadd total w))"

definition Triangulate :: "math_fns \<Rightarrow> Observation list \<Rightarrow> PositionFix option" where
  "Triangulate m obs =
     (if length obs < 2 then None
      else (let (lat, lng, total) = fold (add_observation m) obs (Fin 0, Fin 0, Fin 0)
            in if total = Fin 0 then None
               else Some \<lparr>fixLatitude = fdiv lat total, fixLongitude = fdiv lng total, fixAccuracyM = estimateAccuracy obs, fixSource = ''triangulation''\<rparr>))"

section \<open>Handlers\<close>

datatype target_body = TargetsBody "Target list" | TargetBody Target | HitsBody "Hit list" | NoTargets | TargetOK | TargetFailed string

definition handleListTargets :: "target_order \<Rightarrow> target_service \<Rightarrow> nat \<times> target_body" where
  "handleListTargets order s = (200, TargetsBody (GetAll_targets order s))"

definition handleCreateTarget :: "int \<Rightarrow> string option \<Rightarrow> Target option \<Rightarrow> target_service \<Rightarrow> (nat \<times> target_body) \<times> target_effect list \<times> target_service" where
  "handleCreateTarget tm ins body s =
     (case body of
        None \<Rightarrow> ((400, TargetFailed ''invalid request body''), [], s)
      | Some t \<Rightarrow> if tgName t = [] then ((400, TargetFailed ''name is required''), [], s)
          else (case Create_target tm ins t s of
            (None, s) \<Rightarrow> ((500, TargetFailed ''failed to create target''), [], s)
          | (Some (t, es), s) \<Rightarrow> ((201, TargetBody t), es, s)))"

definition status_reply :: "string \<Rightarrow> bool \<times> target_service \<Rightarrow> (nat \<times> target_body) \<times> target_service" where
  "status_reply msg r = (if fst r then (200, TargetOK) else (500, TargetFailed msg), snd r)"

definition handleUpdateTarget :: "unicode \<Rightarrow> bool \<Rightarrow> int \<Rightarrow> string \<Rightarrow> Target option \<Rightarrow> target_service \<Rightarrow> (nat \<times> target_body) \<times> target_service" where
  "handleUpdateTarget u ok tm i body s =
     (case body of
        None \<Rightarrow> ((400, TargetFailed ''invalid request body''), s)
      | Some t \<Rightarrow> status_reply ''failed to update target'' (Update_target u ok tm i t s))"

definition handleClearTargets :: "bool \<Rightarrow> string \<Rightarrow> target_service \<Rightarrow> (nat \<times> target_body) \<times> target_service" where
  "handleClearTargets ok err s = status_reply (''failed to clear targets: '' @ err) (ClearAll_targets ok s)"

definition handleResolveTarget :: "bool \<Rightarrow> string \<Rightarrow> int \<Rightarrow> string \<Rightarrow> target_service \<Rightarrow> (nat \<times> target_body) \<times> target_service" where
  "handleResolveTarget ok err tm i s = status_reply (''failed to resolve target: '' @ err) (Resolve ok tm i s)"

definition handleReactivateTarget :: "bool \<Rightarrow> string \<Rightarrow> int \<Rightarrow> string \<Rightarrow> target_service \<Rightarrow> (nat \<times> target_body) \<times> target_service" where
  "handleReactivateTarget ok err tm i s = status_reply (''failed to reactivate target: '' @ err) (Reactivate ok tm i s)"

definition handleDeleteTarget :: "bool \<Rightarrow> string \<Rightarrow> target_service \<Rightarrow> (nat \<times> target_body) \<times> target_service" where
  "handleDeleteTarget ok i s = status_reply ''failed to delete target'' (Delete_target ok i s)"

definition handleGetTargetPositions :: "nat \<times> target_body" where
  "handleGetTargetPositions = (200, NoTargets)"

definition handleListTargetHits :: "bool \<Rightarrow> string \<Rightarrow> string \<Rightarrow> string \<Rightarrow> target_service \<Rightarrow> nat \<times> target_body" where
  "handleListTargetHits ok err i limit s =
     (let n = (case Atoi limit of Some n \<Rightarrow> if n > 0 then n else 500 | None \<Rightarrow> 500)
      in (case ListHits ok i n s of None \<Rightarrow> (500, TargetFailed (''list target hits: '' @ err)) | Some hs \<Rightarrow> (200, HitsBody hs)))"

text \<open>The request: a name, a description and a fingerprint.\<close>

definition handleCreateBLETarget :: "(ble_error \<Rightarrow> string) \<Rightarrow> int \<Rightarrow> int option \<Rightarrow> string option \<Rightarrow> (string \<times> string \<times> BLEFingerprint option) option \<Rightarrow> target_service
    \<Rightarrow> (nat \<times> target_body) \<times> target_effect list \<times> target_service" where
  "handleCreateBLETarget text tm seq ins body s =
     (case body of
        None \<Rightarrow> ((400, TargetFailed ''invalid request body''), [], s)
      | Some (name, description, f) \<Rightarrow>
         if f = None then ((400, TargetFailed ''fingerprint required''), [], s)
         else (case CreateBLETarget tm seq ins (if name = [] then ''BLE target'' else name) description f [] s of
            (Inl e, s) \<Rightarrow> ((400, TargetFailed (''create BLE target: '' @ text e)), [], s)
          | (Inr (t, es), s) \<Rightarrow> ((201, TargetBody t), es, s)))"

end
