(* ===== verification/Tracking.thy ===== *)
theory Tracking
  imports Targets
begin

text \<open>
  The tracking of signal sources, \<open>internal/targets/tracking.go\<close>: a sliding window of detections per address, the weighted
  centroid with its confidence, smoothing, and when an estimate is handed to the target. The estimate itself is applied
  later, by a goroutine. Products are rounded before they are added, as on amd64.
\<close>

section \<open>State\<close>

definition DetectionWindowMS :: int where "DetectionWindowMS = 45000"
definition PersistIntervalMS :: int where "PersistIntervalMS = 15000"
definition PersistDistanceM :: float64 where "PersistDistanceM = Fin 8"
definition MinBootstrapConfidence :: float64 where "MinBootstrapConfidence = Fin (1/4)"
definition MinConfidenceForPersist :: float64 where "MinConfidenceForPersist = lit (35/100)"
definition SingleNodeConfFloor :: float64 where "SingleNodeConfFloor = lit (22/100)"
definition MaxHistorySize :: nat where "MaxHistorySize = 64"

record Detection =
  dtNodeID :: string
  dtLatitude :: float64
  dtLongitude :: float64
  dtRSSI :: int
  dtWeight :: float64
  dtTimestamp :: int

record TrackingState =
  Detections :: "Detection list"
  LastLat :: float64
  LastLon :: float64
  LastConf :: float64
  LastPersist :: int
  Bootstrapped :: bool

definition TrackingState0 :: TrackingState where
  "TrackingState0 = \<lparr>Detections = [], LastLat = Fin 0, LastLon = Fin 0, LastConf = Fin 0, LastPersist = 0, Bootstrapped = False\<rparr>"

text \<open>What the goroutine is started with: address, position, confidence and uncertainty.\<close>

datatype estimate = Estimate string float64 float64 float64 float64

section \<open>Arithmetic\<close>

definition float_ge :: "float64 \<Rightarrow> float64 \<Rightarrow> bool" where
  "float_ge x y \<longleftrightarrow> x \<noteq> NaN \<and> y \<noteq> NaN \<and> \<not> float_less x y"

definition computeWeight :: "math_fns \<Rightarrow> int \<Rightarrow> bool \<Rightarrow> float64" where
  "computeWeight m rssi favorMeasurement =
     (if rssi = 0 then (if favorMeasurement then lit (12/10) else lit (6/10))
      else (let clamped = fmax (Fin (- 120)) (fmin (Fin (- 35)) (fround (of_int rssi)));
                normalized = fdiv (fadd clamped (Fin 120)) (Fin 85);
                base = fmax (lit (5/100)) (pow m normalized (lit (22/10)))
            in if favorMeasurement then fadd (fmul base (lit (16/10))) (lit (2/10)) else fadd base (lit (1/10))))"

definition clamp01 :: "float64 \<Rightarrow> float64" where
  "clamp01 v = fmax (Fin 0) (fmin (Fin 1) v)"

definition Pi :: float64 where
  "Pi = lit (314159265358979323846264338327950288419716939937510582097494459 / 10 ^ 62)"

definition haversineM :: "math_fns \<Rightarrow> float64 \<Rightarrow> float64 \<Rightarrow> float64 \<Rightarrow> float64 \<Rightarrow> float64" where
  "haversineM m lat1 lon1 lat2 lon2 =
     (let rad = (\<lambda>x. fdiv (fmul x Pi) (Fin 180)); dLat = rad (fsub lat2 lat1); dLon = rad (fsub lon2 lon1);
          half = (\<lambda>x. sin64 m (fdiv x (Fin 2)));
          a = fadd (fmul (half dLat) (half dLat)) (fmul (fmul (fmul (cos64 m (rad lat1)) (cos64 m (rad lat2))) (half dLon)) (half dLon));
          c = fmul (Fin 2) (atan2 m (sqrt64 m a) (sqrt64 m (fsub (Fin 1) a)))
      in fmul (Fin 6371000) c)"

section \<open>A detection\<close>

definition window :: "int \<Rightarrow> Detection list \<Rightarrow> Detection list" where
  "window tm ds =
     (let fresh = filter (\<lambda>d. tm - DetectionWindowMS * 10 ^ 6 < dtTimestamp d) ds
      in if length fresh > MaxHistorySize then drop (length fresh - MaxHistorySize) fresh else fresh)"

definition centroid :: "Detection list \<Rightarrow> float64 \<times> float64 \<times> float64" where
  "centroid ds = fold (\<lambda>d (lat, lon, total). (fadd lat (fmul (dtLatitude d) (dtWeight d)), fadd lon (fmul (dtLongitude d) (dtWeight d)), fadd total (dtWeight d)))
     ds (Fin 0, Fin 0, Fin 0)"

definition max_spread :: "math_fns \<Rightarrow> float64 \<Rightarrow> float64 \<Rightarrow> Detection list \<Rightarrow> float64" where
  "max_spread m lat lon ds = fold (\<lambda>d mx. let dist = haversineM m lat lon (dtLatitude d) (dtLongitude d) in if float_less mx dist then dist else mx) ds (Fin 0)"

definition confidence_of :: "nat \<Rightarrow> float64 \<Rightarrow> float64 \<Rightarrow> float64" where
  "confidence_of nodeCount totalWeight spread =
     (let n = fround (of_nat nodeCount);
          nodeFactor = fmin (Fin 1) (fdiv n (Fin 3));
          weightFactor = fmin (Fin 1) (fdiv totalWeight (fadd (fmul n (lit (9/10))) (lit (3/10))));
          spreadFactor = fdiv (Fin 1) (fadd (Fin 1) (fdiv spread (Fin 120)))
      in clamp01 (fmul (fmul nodeFactor weightFactor) spreadFactor))"

definition smoothed :: "float64 \<Rightarrow> nat \<Rightarrow> TrackingState \<Rightarrow> float64 \<Rightarrow> float64 \<Rightarrow> float64" where
  "smoothed totalWeight sampleCount st cent old =
     (if Bootstrapped st \<and> float_less (Fin 0) (LastConf st)
      then (let base = fmin (lit (85/100)) (fmax (Fin (1/4)) (fdiv totalWeight (fadd (fround (of_nat sampleCount)) (lit (35/100)))));
                smoothing = fmax base (fmin (lit (9/10)) (fadd (LastConf st) (lit (15/100))))
            in fadd (fmul cent smoothing) (fmul old (fsub (Fin 1) smoothing)))
      else cent)"

text \<open>Whether the estimate is handed on.\<close>

definition should_persist :: "math_fns \<Rightarrow> int \<Rightarrow> nat \<Rightarrow> float64 \<Rightarrow> float64 \<Rightarrow> float64 \<Rightarrow> TrackingState \<Rightarrow> bool" where
  "should_persist m tm nodeCount confidence lat lon st =
     (if \<not> Bootstrapped st then float_ge confidence MinBootstrapConfidence
      else (let timeSince = (tm - LastPersist st) div 10 ^ 6; distMoved = haversineM m (LastLat st) (LastLon st) lat lon;
                weak = float_less confidence MinConfidenceForPersist \<or> nodeCount = 1 \<and> float_less confidence SingleNodeConfFloor;
                minDist = (if weak then fmul PersistDistanceM (Fin 2) else PersistDistanceM);
                minTime = (if weak then PersistIntervalMS * 2 else PersistIntervalMS)
            in float_ge distMoved minDist \<or> minTime \<le> timeSince))"

definition track :: "math_fns \<Rightarrow> int \<Rightarrow> string \<Rightarrow> Detection \<Rightarrow> TrackingState \<Rightarrow> estimate list \<times> TrackingState" where
  "track m tm mac d st =
     (let ds = window tm (Detections st @ [d]); st = st\<lparr>Detections := ds\<rparr>; (wLat, wLon, total) = centroid ds in
      if ds = [] \<or> total = Fin 0 then ([], st)
      else
        (let nodeCount = length (remdups (map dtNodeID ds)); lat = fdiv wLat total; lon = fdiv wLon total;
             spread = max_spread m lat lon ds; confidence = confidence_of nodeCount total spread;
             lat = smoothed total (length ds) st lat (LastLat st); lon = smoothed total (length ds) st lon (LastLon st);
             persist = should_persist m tm nodeCount confidence lat lon st;
             st = st\<lparr>Bootstrapped := Bootstrapped st \<or> persist, LastLat := lat, LastLon := lon, LastConf := confidence\<rparr>
         in if persist then ([Estimate mac lat lon confidence spread], st\<lparr>LastPersist := tm\<rparr>) else ([], st)))"

definition AddDetection :: "math_fns \<Rightarrow> int \<Rightarrow> string \<Rightarrow> string \<Rightarrow> float64 \<Rightarrow> float64 \<Rightarrow> int \<Rightarrow> (string \<times> TrackingState) list
    \<Rightarrow> estimate list \<times> (string \<times> TrackingState) list" where
  "AddDetection m tm mac nodeID lat lon rssi states =
     (if lat = Fin 0 \<and> lon = Fin 0 then ([], states)
      else (let st = (case map_of states mac of Some st \<Rightarrow> st | None \<Rightarrow> TrackingState0);
                d = \<lparr>dtNodeID = nodeID, dtLatitude = lat, dtLongitude = lon, dtRSSI = rssi, dtWeight = computeWeight m rssi True, dtTimestamp = tm\<rparr>;
                (es, st) = track m tm mac d st
            in (es, AList.update mac st states)))"

section \<open>The window and the confidence\<close>

lemma clamp01_range: "clamp01 v = NaN \<or> (\<exists>c. clamp01 v = Fin c \<and> 0 \<le> c \<and> c \<le> 1)"
  by (cases v) (auto simp: clamp01_def fmax_def fmin_def)

definition confident :: "estimate \<Rightarrow> bool" where
  "confident x = (case x of Estimate _ _ _ c _ \<Rightarrow> c = NaN \<or> (\<exists>r. c = Fin r \<and> 0 \<le> r \<and> r \<le> 1))"

definition tracking_ok :: "TrackingState \<Rightarrow> bool" where
  "tracking_ok st \<longleftrightarrow> length (Detections st) \<le> 64 \<and> (Detections st = [] \<or>
     (\<forall>d \<in> set (Detections st). dtTimestamp (last (Detections st)) - 45 * 10 ^ 9 < dtTimestamp d \<and> dtTimestamp d \<le> dtTimestamp (last (Detections st))))"

lemma window_ok:
  assumes "\<forall>x \<in> set ds. dtTimestamp x \<le> tm" "dtTimestamp d = tm"
  shows "length (window tm (ds @ [d])) \<le> 64" "last (window tm (ds @ [d])) = d" "window tm (ds @ [d]) \<noteq> []"
    "\<forall>x \<in> set (window tm (ds @ [d])). tm - 45 * 10 ^ 9 < dtTimestamp x \<and> dtTimestamp x \<le> tm"
proof -
  let ?f = "filter (\<lambda>d. tm - DetectionWindowMS * 10 ^ 6 < dtTimestamp d) ds"
  have w: "window tm (ds @ [d]) = drop (Suc (length ?f) - 64) (?f @ [d])" using assms(2) by (auto simp: window_def MaxHistorySize_def Let_def DetectionWindowMS_def)
  show "length (window tm (ds @ [d])) \<le> 64" "last (window tm (ds @ [d])) = d" "window tm (ds @ [d]) \<noteq> []" by (auto simp: w)
  show "\<forall>x \<in> set (window tm (ds @ [d])). tm - 45 * 10 ^ 9 < dtTimestamp x \<and> dtTimestamp x \<le> tm"
    using assms by (auto simp: w DetectionWindowMS_def dest!: in_set_dropD)
qed

lemma track_ok:
  assumes "\<forall>x \<in> set (Detections st). dtTimestamp x \<le> tm" "dtTimestamp d = tm" "track m tm mac d st = (es, st')"
  shows "tracking_ok st' \<and> (\<forall>x \<in> set (Detections st'). dtTimestamp x \<le> tm) \<and> list_all confident es"
proof -
  have "Detections st' = window tm (Detections st @ [d])"
    using assms(3) by (auto simp: track_def Let_def split: prod.splits if_splits)
  moreover have "list_all confident es"
    using assms(3) clamp01_range by (auto simp: track_def Let_def confident_def confidence_of_def split: prod.splits if_splits)
  ultimately show ?thesis using window_ok [OF assms(1,2)] assms(2) by (simp add: tracking_ok_def)
qed

record report =
  rpTime :: int
  rpMAC :: string
  rpNode :: string
  rpLat :: float64
  rpLon :: float64
  rpRSSI :: int

fun track_all :: "math_fns \<Rightarrow> report list \<Rightarrow> (string \<times> TrackingState) list \<Rightarrow> estimate list \<times> (string \<times> TrackingState) list" where
  "track_all m [] states = ([], states)"
| "track_all m (r # rs) states =
     (let (es, states) = AddDetection m (rpTime r) (rpMAC r) (rpNode r) (rpLat r) (rpLon r) (rpRSSI r) states;
          (es', states) = track_all m rs states
      in (es @ es', states))"

definition states_ok :: "int \<Rightarrow> (string \<times> TrackingState) list \<Rightarrow> bool" where
  "states_ok tm states \<longleftrightarrow> (\<forall>st \<in> snd ` set states. tracking_ok st \<and> (\<forall>x \<in> set (Detections st). dtTimestamp x \<le> tm))"

lemma AddDetection_ok:
  assumes "states_ok t states" "t \<le> tm" "AddDetection m tm mac node lat lon rssi states = (es, states')"
  shows "states_ok tm states' \<and> list_all confident es"
proof (cases "lat = Fin 0 \<and> lon = Fin 0")
  case True
  then show ?thesis using assms by (fastforce simp: AddDetection_def states_ok_def)
next
  case False
  let ?st = "case map_of states mac of Some st \<Rightarrow> st | None \<Rightarrow> TrackingState0"
  let ?d = "\<lparr>dtNodeID = node, dtLatitude = lat, dtLongitude = lon, dtRSSI = rssi, dtWeight = computeWeight m rssi True, dtTimestamp = tm\<rparr>"
  obtain es1 st1 where t: "track m tm mac ?d ?st = (es1, st1)" by fastforce
  have "\<forall>x \<in> set (Detections ?st). dtTimestamp x \<le> tm"
    using assms(1,2) by (fastforce simp: states_ok_def TrackingState0_def dest: map_of_SomeD split: option.splits)
  then have ok: "tracking_ok st1" "\<forall>x \<in> set (Detections st1). dtTimestamp x \<le> tm" "list_all confident es1" using track_ok [OF _ _ t] by auto
  have "snd ` set (AList.update mac st1 states) \<subseteq> insert st1 (snd ` set states)" by (induction states) auto
  then show ?thesis using assms t ok False by (fastforce simp: AddDetection_def states_ok_def Let_def)
qed

text \<open>For every sequence of reports with a clock that does not run backwards, and whatever the functions of the \<open>math\<close> package
  return, the window of each address holds at most 64 detections, none 45 s older than its newest, and every
  estimate handed to a target has a confidence between 0 and 1, or none at all (NaN).\<close>

theorem tracking_window_bounded:
  assumes "sorted (map rpTime rs)"
  shows "list_all confident (fst (track_all m rs [])) \<and> (\<forall>(mac, st) \<in> set (snd (track_all m rs [])). tracking_ok st)"
proof -
  have "sorted (map rpTime rs) \<Longrightarrow> (\<And>r. r \<in> set rs \<Longrightarrow> t \<le> rpTime r) \<Longrightarrow> states_ok t states \<Longrightarrow>
      list_all confident (fst (track_all m rs states)) \<and> (\<exists>t'. states_ok t' (snd (track_all m rs states)))" for t states
  proof (induction rs arbitrary: t states)
    case (Cons r rs)
    obtain es states' where a: "AddDetection m (rpTime r) (rpMAC r) (rpNode r) (rpLat r) (rpLon r) (rpRSSI r) states = (es, states')" by fastforce
    then have "states_ok (rpTime r) states' \<and> list_all confident es" using Cons.prems(2,3) by (intro AddDetection_ok [OF _ _ a, of t]) auto
    moreover have "list_all confident (fst (track_all m rs states')) \<and> (\<exists>t'. states_ok t' (snd (track_all m rs states')))"
      by (rule Cons.IH [of "rpTime r"]) (use Cons.prems calculation in auto)
    ultimately show ?case using a by (auto split: prod.splits)
  qed auto
  moreover have "\<exists>t. \<forall>r \<in> set rs. t \<le> rpTime r" using assms by (cases rs) (auto intro: exI [of _ "rpTime (hd rs)"])
  moreover have "states_ok t []" for t by (simp add: states_ok_def)
  ultimately show ?thesis using assms by (fastforce simp: states_ok_def)
qed

end
