(* ===== verification/DetectionWiring.thy ===== *)
theory DetectionWiring
  imports TextProofs DroneProofs AlertProofs Tracking
begin

text \<open>
  How \<open>cmd/diginode-cc/main.go\<close> connects the text parser and the drone service with alerts, geofences, targets and
  tracking: the callbacks of the serial manager, the geofence checker and notifier of the drone service, and the
  suppression of repeated probe alerts. Calls into the remaining services are effects. The record \<open>wire_env\<close> has what a
  callback gets from outside: the clock, the answers of the database and lookups in other services.
\<close>

section \<open>State\<close>

datatype wire_effect =
    Handled FromRadioPacket
  | AlertEffect alert_effect
  | TargetEffect target_effect
  | FenceEvent violation
  | TrackFull string string string string int string float64 float64 int
  | Track string string string int
  | Webhook string data
  | ScanDetection string string int string string string
  | TrackProbe string string string int int bool bool
  | RecordProbe string
  | Heartbeat u32 float64 float64 data
  | StructuredACK string string string data
  | HandleRaw string string int int "byte list"

record wire_world =
  wAlerts :: alert_service
  wFences :: gf_service
  wTargets :: target_service
  wTracking :: "(string \<times> TrackingState) list"
  wEstimates :: "estimate list"
  alertDedup :: "(string \<times> int) list"

record wire_env =
  weUnicode :: unicode
  weFold :: "nat \<Rightarrow> nat"
  weTime :: int
  ruleOrder :: "(string \<times> alert_rule) list \<Rightarrow> alert_rule list"
  fenceOrder :: "(string \<times> Geofence) list \<Rightarrow> Geofence list"
  targetOrder :: target_order
  ruleAnswers :: "nat \<Rightarrow> trigger_io"
  alertInsert :: "(string \<times> int) option"
  targetInsert :: "string option"
  hitStored :: bool
  targetStored :: bool
  positionStored :: bool
  mathFns :: math_fns
  LookupOUI :: "string \<Rightarrow> string"
  canonicalNode :: "string \<Rightarrow> string"

section \<open>Alerts from sensors\<close>

definition alertDedupWindow :: int where "alertDedupWindow = 5 * 10 ^ 9"

definition isDuplicateAlert :: "int \<Rightarrow> string \<Rightarrow> (string \<times> int) list \<Rightarrow> bool \<times> (string \<times> int) list" where
  "isDuplicateAlert tm raw cache =
     (if raw = [] then (False, cache)
      else (let cache' = AList.update raw tm cache in
            case map_of cache raw of
              Some seen \<Rightarrow> if tm - seen < alertDedupWindow then (True, cache')
                else (False, if length cache' > 256 then filter (\<lambda>(_, t). \<not> t < tm - alertDedupWindow * 2) cache' else cache')
            | None \<Rightarrow> (False, if length cache' > 256 then filter (\<lambda>(_, t). \<not> t < tm - alertDedupWindow * 2) cache' else cache')))"

definition alert_severity :: "unicode \<Rightarrow> string \<Rightarrow> string" where
  "alert_severity u level =
     (let l = to_upper u level in
      if l = ''CRITICAL'' then SeverityCritical else if l = ''ALERT'' then SeverityAlert else if l = ''NOTICE'' then SeverityNotice else SeverityInfo)"

definition bool_at :: "data \<Rightarrow> string \<Rightarrow> bool" where
  "bool_at d k = (case map_of d k of Some (VBool b) \<Rightarrow> b | _ \<Rightarrow> False)"

definition on_alert :: "wire_env \<Rightarrow> string \<Rightarrow> string \<Rightarrow> string \<Rightarrow> string \<Rightarrow> data \<Rightarrow> wire_world \<Rightarrow> wire_effect list \<times> wire_world" where
  "on_alert e category level nodeID raw d w =
     (let title = (if nodeID = [] then category else nodeID @ '': '' @ category);
          enriched = put ''category'' (VStr category) (if nodeID = [] then d else put ''nodeId'' (VStr nodeID) d);
          (es, a) = TriggerDirect (weTime e) (alertInsert e) (alert_severity (weUnicode e) level) title raw enriched (wAlerts w);
          w = w\<lparr>wAlerts := a\<rparr>
      in if category \<noteq> ''probe'' then (map AlertEffect es, w)
         else (let (dup, cache) = isDuplicateAlert (weTime e) raw (alertDedup w); w = w\<lparr>alertDedup := cache\<rparr>; node = canonicalNode e nodeID
               in if dup then (map AlertEffect es, w)
                  else (map AlertEffect es @
                    [TrackProbe (str_at d ''ssid'') node (str_at d ''mac'') (int_at d ''rssi'') (int_at d ''channel'') (bool_at d ''ghostSsid'') (bool_at d ''dstMatch''),
                     RecordProbe node], w)))"

section \<open>Detected devices\<close>

definition webhook_payload :: "string \<Rightarrow> string \<Rightarrow> string \<Rightarrow> int \<Rightarrow> int \<Rightarrow> float64 \<Rightarrow> float64 \<Rightarrow> string \<Rightarrow> Target option \<Rightarrow> data" where
  "webhook_payload mac ssid deviceType rssi channel lat lon nodeID t =
     [(''mac'', VStr mac), (''ssid'', VStr ssid), (''deviceType'', VStr deviceType), (''rssi'', VInt rssi), (''channel'', VInt channel),
      (''latitude'', VFloat lat), (''longitude'', VFloat lon), (''nodeId'', VStr nodeID)] @
     (case t of Some t \<Rightarrow> [(''bleTargetShortId'', VStr (BLEShortID t)), (''bleTargetName'', VStr (tgName t)), (''bleTargetId'', VStr (tgID t))] | None \<Rightarrow> [])"

text \<open>\<open>int16(rssi)\<close>.\<close>

definition int16 :: "int \<Rightarrow> int" where
  "int16 n = sint (word_of_int n :: 16 word)"

definition record_hit :: "wire_env \<Rightarrow> string \<Rightarrow> string \<Rightarrow> int \<Rightarrow> float64 \<Rightarrow> float64 \<Rightarrow> string \<Rightarrow> Target option \<Rightarrow> target_service \<Rightarrow> target_service" where
  "record_hit e mac ssid rssi lat lon nodeID matched s =
     (case matched of
        None \<Rightarrow> s
      | Some t \<Rightarrow>
         (let loc = (lat \<noteq> Fin 0 \<and> lon \<noteq> Fin 0)
          in snd (RecordHit (hitStored e) (weTime e) \<lparr>htTargetID = tgID t, htTargetShortID = BLEShortID t, htObservedMAC = to_upper (weUnicode e) mac,
               htObservedName = ssid, htRSSI = Some (int16 rssi), htLatitude = if loc then Some lat else None, htLongitude = if loc then Some lon else None,
               htNodeID = nodeID, htRawFrame = [], htCreatedAt = 0\<rparr> s)))"

definition on_target_detected :: "wire_env \<Rightarrow> string \<Rightarrow> string \<Rightarrow> string \<Rightarrow> int \<Rightarrow> int \<Rightarrow> float64 \<Rightarrow> float64 \<Rightarrow> string \<Rightarrow> string \<Rightarrow> wire_world
    \<Rightarrow> wire_effect list \<times> wire_world" where
  "on_target_detected e mac ssid deviceType rssi channel lat lon nodeID targetID w =
     (let manufacturer = LookupOUI e mac; ble = has_prefix ''T-B-'' targetID;
          oui = (if length mac \<ge> 8 then take 8 mac else []);
          (es, a) = Evaluate (weUnicode e) (weFold e) (ruleOrder e) (ruleAnswers e)
            \<lparr>evtMAC = mac, evtOUI = oui, evtSSID = ssid, evtChannel = channel, evtRSSI = rssi, evtNodeID = nodeID, evtNodeName = []\<rparr> (wAlerts w);
          w = w\<lparr>wAlerts := a\<rparr>;
          t = (if ble then FindByBLEShortID (targetOrder e) targetID (wTargets w) else None);
          fences = (if lat \<noteq> Fin 0 \<and> lon \<noteq> Fin 0 then CheckPoint (fenceOrder e) lat lon ''target'' (wFences w) else []);
          matched = (if ble then t else FindByMAC (targetOrder e) (to_upper (weUnicode e) mac) (wTargets w))
      in ([TrackFull mac manufacturer ssid deviceType rssi nodeID lat lon channel] @ map AlertEffect es @
          [Webhook ''target.detected'' (webhook_payload mac ssid deviceType rssi channel lat lon nodeID t)] @
          map (\<lambda>g. FenceEvent (NotifyViolation (weTime e) g ''target'' mac lat lon)) fences @
          [ScanDetection nodeID mac rssi deviceType manufacturer ssid],
          w\<lparr>wTargets := record_hit e mac ssid rssi lat lon nodeID matched (wTargets w)\<rparr>))"

section \<open>Triangulation\<close>

definition on_tri_data :: "wire_env \<Rightarrow> string \<Rightarrow> string \<Rightarrow> int \<Rightarrow> float64 \<Rightarrow> float64 \<Rightarrow> wire_world \<Rightarrow> wire_effect list \<times> wire_world" where
  "on_tri_data e mac nodeID rssi lat lon w =
     (let (es, t) = EnsureTargetExists (targetOrder e) (weTime e) (targetInsert e) mac nodeID (wTargets w);
          (xs, tracking) = AddDetection (mathFns e) (weTime e) mac nodeID lat lon rssi (wTracking w)
      in (map TargetEffect es, w\<lparr>wTargets := t, wTracking := tracking, wEstimates := wEstimates w @ xs\<rparr>))"

definition on_tri_final :: "wire_env \<Rightarrow> string \<Rightarrow> float64 \<Rightarrow> float64 \<Rightarrow> float64 \<Rightarrow> float64 \<Rightarrow> wire_world \<Rightarrow> wire_effect list \<times> wire_world" where
  "on_tri_final e mac lat lon confidence uncertainty w =
     (let (es, t) = ApplyTrackingEstimate (targetOrder e) (targetStored e) (positionStored e) (weTime e) mac lat lon confidence uncertainty
            ''firmware-triangulation'' (wTargets w)
      in (map TargetEffect (case es of Some es \<Rightarrow> es | None \<Rightarrow> []), w\<lparr>wTargets := t\<rparr>))"

text \<open>The goroutine with the first estimate that waits.\<close>

definition run_estimate :: "wire_env \<Rightarrow> wire_world \<Rightarrow> wire_effect list \<times> wire_world" where
  "run_estimate e w =
     (case wEstimates w of
        [] \<Rightarrow> ([], w)
      | Estimate mac lat lon confidence uncertainty # xs \<Rightarrow>
         (let (es, t) = ApplyTrackingEstimate (targetOrder e) (targetStored e) (positionStored e) (weTime e) mac lat lon confidence uncertainty ''tracking'' (wTargets w)
          in (map TargetEffect (case es of Some es \<Rightarrow> es | None \<Rightarrow> []), w\<lparr>wTargets := t, wEstimates := xs\<rparr>)))"

section \<open>The callbacks of the serial manager\<close>

fun text_call :: "wire_env \<Rightarrow> text_effect \<Rightarrow> wire_world \<Rightarrow> wire_effect list \<times> wire_world" where
  "text_call e (Packet p) w = ([Handled p], w)"
| "text_call e (TargetDetected mac ssid deviceType rssi channel lat lon nodeID targetID) w =
     on_target_detected e mac ssid deviceType rssi channel lat lon nodeID targetID w"
| "text_call e (BLERawFrame nodeID mac rssi channel adv) w = ([HandleRaw nodeID mac rssi channel adv], w)"
| "text_call e (TriData mac nodeID rssi lat lon) w = on_tri_data e mac nodeID rssi lat lon w"
| "text_call e (TriFinal mac lat lon confidence uncertainty) w = on_tri_final e mac lat lon confidence uncertainty w"
| "text_call e (TriComplete mac nodes) w = ([], w)"
| "text_call e (MeshTelemetry from lat lon d) w = ([Heartbeat from lat lon d], w)"
| "text_call e (CommandAck ackType status nodeID d) w = ([StructuredACK ackType status nodeID d], w)"
| "text_call e (Alerted category level nodeID raw d) w = on_alert e category level nodeID raw d w"

text \<open>The calls of a message, each with its own surroundings.\<close>

fun text_calls :: "(wire_env \<times> text_effect) list \<Rightarrow> wire_world \<Rightarrow> wire_effect list \<times> wire_world" where
  "text_calls [] w = ([], w)"
| "text_calls ((e, x) # xs) w = (let (es, w) = text_call e x w; (es', w) = text_calls xs w in (es @ es', w))"

section \<open>Geofences of drones\<close>

definition geofence_checker :: "wire_env \<Rightarrow> gf_service \<Rightarrow> float64 \<Rightarrow> float64 \<Rightarrow> GeofenceHit list" where
  "geofence_checker e s lat lon = map (\<lambda>g. \<lparr>hitID = gfID g, hitName = gfName g, hitAlarmLevel = AlarmLevel g, hitAlarmMessage = AlarmMessage g,
     hitNotifyWebhook = gfNotifyWebhook g\<rparr>) (CheckPoint (fenceOrder e) lat lon ''drone'' s)"

definition fence_severity :: "string \<Rightarrow> string" where
  "fence_severity level = (if level = ''INFO'' then SeverityInfo else if level = ''NOTICE'' then SeverityNotice
     else if level = ''CRITICAL'' then SeverityCritical else SeverityAlert)"

definition fence_data :: "string \<Rightarrow> string \<Rightarrow> string \<Rightarrow> string \<Rightarrow> float64 \<Rightarrow> float64 \<Rightarrow> data" where
  "fence_data i name entityType entityID lat lon = [(''geofenceId'', VStr i), (''geofenceName'', VStr name), (''entityType'', VStr entityType),
     (''entityId'', VStr entityID), (''latitude'', VFloat lat), (''longitude'', VFloat lon)]"

fun drone_call :: "wire_env \<Rightarrow> drone_effect \<Rightarrow> wire_world \<Rightarrow> wire_effect list \<times> wire_world" where
  "drone_call e (GeofenceNotify i name entityType entityID lat lon level message webhook) w =
     (let (es, a) = TriggerDirect (weTime e) (alertInsert e) (fence_severity level) (''Geofence breach: '' @ name) message
            (fence_data i name entityType entityID lat lon) (wAlerts w)
      in ((case GetByID_geofence i (wFences w) of Some g \<Rightarrow> [FenceEvent (NotifyViolation (weTime e) g entityType entityID lat lon)] | None \<Rightarrow> []) @
          map AlertEffect es @
          (if webhook then [Webhook ''alert.geofence'' (fence_data i name entityType entityID lat lon @ [(''alarmLevel'', VStr level), (''message'', VStr message)])] else []),
          w\<lparr>wAlerts := a\<rparr>))"
| "drone_call e (TrackInventory mac manufacturer ssid rssi) w = ([Track mac manufacturer ssid rssi], w)"
| "drone_call e _ w = ([], w)"

fun drone_calls :: "wire_env \<Rightarrow> drone_effect list \<Rightarrow> wire_world \<Rightarrow> wire_effect list \<times> wire_world" where
  "drone_calls e [] w = ([], w)"
| "drone_calls e (x # xs) w = (let (es, w) = drone_call e x w; (es', w) = drone_calls e xs w in (es @ es', w))"

end
