(* ===== verification/DetectionProofs.thy ===== *)
theory DetectionProofs
  imports DetectionWiring
begin

text \<open>
  From a line of a sensor or the position of a drone to the table of alert events, over the parser, the serial
  manager, the wiring of the main program and the services.
\<close>

section \<open>Alerts of sensors\<close>

lemma to_upper_ascii: assumes "unicode_ok u" "ascii s" shows "to_upper u s = map upper_char s"
proof -
  have "(\<lambda>(r, b). if toUpper u r = r \<and> r \<noteq> 0xFFFD then b else encode_rune (toUpper u r)) (byte_of c, [c]) = [upper_char c]"
    if "byte_of c < 0x80" for c
    using that assms(1) case_ascii(2) [OF that] by (auto simp: unicode_ok_def encode_rune_def)
  then show ?thesis using assms(2) by (induction s) (auto simp: to_upper_def map_runes_def runes_ascii)
qed

lemma to_upper_level:
  assumes "unicode_ok u" "level \<in> {''INFO'', ''NOTICE'', ''ALERT'', ''CRITICAL''}"
  shows "alert_severity u level = level"
proof -
  have "map upper_char level = level" "ascii level" using assms(2) by (auto simp: upper_char_def)
  then show ?thesis using assms(2) to_upper_ascii [OF assms(1)]
    by (auto simp: alert_severity_def SeverityInfo_def SeverityNotice_def SeverityAlert_def SeverityCritical_def)
qed

text \<open>The alert an effect of a mesh message raises comes from an event of the parser.\<close>

lemma dispatch_alert:
  assumes "dispatchTextEvent e (mesh_event from to ev) m = (xs, m')" "event_ok raw ev" "Alerted category level node r d \<in> set xs"
  shows "node = CHR ''!'' # show_08x from \<and> level \<in> {''INFO'', ''NOTICE'', ''ALERT'', ''CRITICAL''}"
  using assms by (auto simp: dispatchTextEvent_def mesh_event_def emit_if_def Let_def event_ok_def split: if_splits prod.splits option.splits)

lemma dispatch_alerts:
  assumes "dispatch_events e (map (mesh_event from to) evs) m = (xs, m')" "\<And>ev. ev \<in> set evs \<Longrightarrow> event_ok raw ev" "Alerted category level node r d \<in> set xs"
  shows "node = CHR ''!'' # show_08x from \<and> level \<in> {''INFO'', ''NOTICE'', ''ALERT'', ''CRITICAL''}"
  using assms
proof (induction evs arbitrary: m xs m')
  case (Cons ev evs)
  obtain ys m1 where y: "dispatchTextEvent e (mesh_event from to ev) m = (ys, m1)" by fastforce
  obtain zs m2 where z: "dispatch_events e (map (mesh_event from to) evs) m1 = (zs, m2)" by fastforce
  have "Alerted category level node r d \<in> set ys \<or> Alerted category level node r d \<in> set zs" using Cons.prems(1,3) y z by auto
  then show ?case using dispatch_alert [OF y] Cons.IH [OF z] Cons.prems(2) by (metis list.set_intros)
qed simp

lemma feed_alerts:
  "feed_lines e keep (mesh_event from to) ls m = Ret (xs, m') \<Longrightarrow> Alerted category level node r d \<in> set xs \<Longrightarrow>
   node = CHR ''!'' # show_08x from \<and> level \<in> {''INFO'', ''NOTICE'', ''ALERT'', ''CRITICAL''}"
proof (induction ls arbitrary: m xs m')
  case (Cons l ls)
  from Cons.prems(1) obtain evs p ys m1 zs where p: "TextParser.ParseLine (teUnicode e) (teOrder e) (tmParser m) l = Ret (evs, p)"
    and y: "dispatch_events e (map (mesh_event from to) (filter keep evs)) (m\<lparr>tmParser := p\<rparr>) = (ys, m1)"
    and z: "feed_lines e keep (mesh_event from to) ls m1 = Ret (zs, m')" and xs: "xs = ys @ zs"
    by (auto simp: feed_line_def split: outcome.splits)
  have "Alerted category level node r d \<in> set ys \<or> Alerted category level node r d \<in> set zs" using Cons.prems(2) xs by auto
  then show ?case
  proof
    assume "Alerted category level node r d \<in> set ys"
    then show ?thesis using dispatch_alerts [OF y, of "clean_line l"] ParseLine_events_ok [OF p] by simp
  qed (rule Cons.IH [OF z])
qed simp

lemma TriggerDirect_keeps: "set (event_table a) \<subseteq> set (event_table (snd (TriggerDirect tm ins sev title msg d a)))"
  by (auto simp: TriggerDirect_def Let_def split: option.splits)

text \<open>What the callbacks do to the alerts.\<close>

definition detected :: "string \<Rightarrow> string \<Rightarrow> int \<Rightarrow> int \<Rightarrow> string \<Rightarrow> DetectionEvent" where
  "detected mac ssid rssi channel nodeID = \<lparr>evtMAC = mac, evtOUI = if length mac \<ge> 8 then take 8 mac else [], evtSSID = ssid,
     evtChannel = channel, evtRSSI = rssi, evtNodeID = nodeID, evtNodeName = []\<rparr>"

lemma on_target_detected_alerts:
  "wAlerts (snd (on_target_detected e mac ssid deviceType rssi channel lat lon nodeID targetID w)) =
     snd (Evaluate (weUnicode e) (weFold e) (ruleOrder e) (ruleAnswers e) (detected mac ssid rssi channel nodeID) (wAlerts w))"
  unfolding on_target_detected_def Let_def detected_def by (simp add: case_prod_unfold)

lemma on_alert_alerts:
  "wAlerts (snd (on_alert e category level nodeID raw d w)) =
     snd (TriggerDirect (weTime e) (alertInsert e) (alert_severity (weUnicode e) level) (if nodeID = [] then category else nodeID @ '': '' @ category) raw
       (put ''category'' (VStr category) (if nodeID = [] then d else put ''nodeId'' (VStr nodeID) d)) (wAlerts w))"
  unfolding on_alert_def Let_def by (simp add: case_prod_unfold)

lemma tri_alerts:
  "wAlerts (snd (on_tri_data e mac nodeID rssi lat lon w)) = wAlerts w"
  "wAlerts (snd (on_tri_final e mac lat lon confidence uncertainty w)) = wAlerts w"
  by (simp_all add: on_tri_data_def on_tri_final_def Let_def case_prod_unfold)

lemma text_call_keeps: "set (event_table (wAlerts w)) \<subseteq> set (event_table (wAlerts (snd (text_call e x w))))"
proof (cases x)
  case (TargetDetected mac ssid deviceType rssi channel lat lon nodeID targetID)
  then show ?thesis using fire_table by (simp only: text_call.simps on_target_detected_alerts Evaluate_def)
next
  case (Alerted category level nodeID raw d)
  then show ?thesis using TriggerDirect_keeps by (simp only: text_call.simps on_alert_alerts)
qed (simp_all add: tri_alerts)

lemma text_calls_Cons: "snd (text_calls ((e, x) # xs) w) = snd (text_calls xs (snd (text_call e x w)))"
  by (simp add: Let_def case_prod_unfold)

lemma text_calls_keep: "set (event_table (wAlerts w)) \<subseteq> set (event_table (wAlerts (snd (text_calls xs w))))"
proof (induction xs arbitrary: w)
  case (Cons c xs)
  then show ?case using text_call_keeps [of w "fst c" "snd c"] by (cases c) (auto simp: text_calls_Cons simp del: text_calls.simps; blast)
qed simp

definition alert_row :: "int \<Rightarrow> string \<times> int \<Rightarrow> string \<Rightarrow> string \<Rightarrow> string \<Rightarrow> string \<Rightarrow> data \<Rightarrow> alert_event" where
  "alert_row tm i category level node raw d =
     stored_event ((new_event [] level (node @ '': '' @ category) raw (put ''category'' (VStr category) (put ''nodeId'' (VStr node) d)) False False tm)\<lparr>aeID := fst i\<rparr>) (snd i)"

lemma on_alert_records:
  assumes "unicode_ok (weUnicode e)" "level \<in> {''INFO'', ''NOTICE'', ''ALERT'', ''CRITICAL''}" "alertInsert e = Some i" "node \<noteq> []"
  shows "alert_row (weTime e) i category level node raw d \<in> set (event_table (wAlerts (snd (on_alert e category level node raw d w))))"
  unfolding on_alert_alerts to_upper_level [OF assms(1,2)] using assms(3,4) by (simp add: TriggerDirect_def alert_row_def Let_def case_prod_unfold)


definition env_wired :: wire_env where
  "env_wired = \<lparr>weUnicode = ascii_unicode, weFold = id, weTime = 7, ruleOrder = map snd, fenceOrder = map snd, targetOrder = map snd,
     ruleAnswers = (\<lambda>_. \<lparr>ioSince = 7, ioMark = 7, ioCreated = 8, ioInsert = Some (''e'', 9)\<rparr>), alertInsert = Some (''e'', 9), targetInsert = Some ''t'', hitStored = True, targetStored = True,
     positionStored = True, mathFns = \<lparr>pow = (\<lambda>x _. x), sin64 = id, cos64 = id, atan2 = (\<lambda>x _. x), sqrt64 = id\<rparr>, LookupOUI = (\<lambda>_. []), canonicalNode = (\<lambda>n. n)\<rparr>"

definition world0 :: wire_world where
  "world0 = \<lparr>wAlerts = alerts0, wFences = NewGeofences, wTargets = NewTargets, wTracking = [], wEstimates = [], alertDedup = []\<rparr>"


section \<open>Watched devices\<close>

text \<open>The rules are kept under their identifiers, as every operation of the service leaves them.\<close>

definition rules_keyed :: "alert_service \<Rightarrow> bool" where
  "rules_keyed s \<longleftrightarrow> distinct (map fst (rules s)) \<and> (\<forall>(k, r) \<in> set (rules s). rlID r = k)"

lemma rules_keyed_update: "distinct (map fst m) \<and> (\<forall>(k, r) \<in> set m. rlID r = k) \<Longrightarrow> rlID r = i \<Longrightarrow>
    distinct (map fst (AList.update i r m)) \<and> (\<forall>(k, r) \<in> set (AList.update i r m). rlID r = k)"
proof -
  assume a: "distinct (map fst m) \<and> (\<forall>(k, r) \<in> set m. rlID r = k)" "rlID r = i"
  have "set (AList.update i r m) \<subseteq> insert (i, r) (set m)" by (induction m) auto
  then have "\<forall>(k, r) \<in> set (AList.update i r m). rlID r = k" using a by (auto dest!: subsetD)
  then show ?thesis using distinct_update [of m i r] a(1) by simp
qed

lemma rules_keyed_ops:
  assumes "rules_keyed s"
  shows "rules_keyed (snd (Trigger io j title message d s))" "rules_keyed (snd (CreateRule ins r s))" "rules_keyed (snd (UpdateRule ok i r s))"
    "rules_keyed (snd (DeleteRule ok i s))" "rules_keyed (Load_rules ok s)"
proof -
  have id: "rlID r = j" if "map_of (rules s) j = Some r" for r using assms map_of_SomeD [OF that] by (auto simp: rules_keyed_def)
  have "rules (snd (Trigger io j title message d s)) = rules s \<or>
      (\<exists>r. rlID r = j \<and> rules (snd (Trigger io j title message d s)) = AList.update j r (rules s))"
    using id by (cases "map_of (rules s) j") (auto simp: Trigger_def trigger_decide_def intro!: exI [of _ "_\<lparr>rlLastTriggered := Some (ioMark io)\<rparr>"])
  then show "rules_keyed (snd (Trigger io j title message d s))"
    using assms rules_keyed_update [of "rules s"] unfolding rules_keyed_def by (elim disjE exE conjE; metis)
  show "rules_keyed (snd (CreateRule ins r s))" "rules_keyed (snd (UpdateRule ok i r s))"
    using assms rules_keyed_update [of "rules s" "r\<lparr>rlID := _\<rparr>"]
    by (simp_all add: rules_keyed_def CreateRule_def UpdateRule_def Let_def split: option.splits)
  show "rules_keyed (snd (DeleteRule ok i s))" using assms distinct_delete [of "rules s" i]
    by (auto simp: rules_keyed_def DeleteRule_def AList.delete_eq)
  have "distinct (map fst (fold (\<lambda>r. AList.update (rlID r) r) rs m)) \<and> (\<forall>(k, r) \<in> set (fold (\<lambda>r. AList.update (rlID r) r) rs m). rlID r = k)"
    if "distinct (map fst m) \<and> (\<forall>(k, r) \<in> set m. rlID r = k)" for rs m
    using that
  proof (induction rs arbitrary: m)
    case (Cons r rs)
    show ?case unfolding fold_Cons comp_apply by (rule Cons.IH [OF rules_keyed_update [OF Cons.prems refl]])
  qed simp
  from this [of "rules s" "rule_table s"] show "rules_keyed (Load_rules ok s)" using assms by (simp add: rules_keyed_def Load_rules_def)
qed

lemma evaluate_fires:
  assumes "rules_keyed s" "\<And>m. mset (order m) = mset (map snd m)" "map_of (rules s) i = Some r" "rlEnabled r" "matchesRule u f r evt"
    "\<And>k. \<not> in_cooldown (ioSince (q k)) r \<and> ioInsert (q k) \<noteq> None"
  shows "\<exists>k j tm. ioInsert (q k) = Some (j, tm) \<and> AlertBroadcast (rule_event r evt (ioCreated (q k)) j) \<in> set (fst (Evaluate u f order q evt s)) \<and>
    stored_event (rule_event r evt (ioCreated (q k)) j) tm \<in> set (event_table (snd (Evaluate u f order q evt s)))"
proof -
  let ?rs = "filter rlEnabled (order (rules s))"
  have id: "rlID r = i" using assms(1) map_of_SomeD [OF assms(3)] by (auto simp: rules_keyed_def)
  have "map rlID (map snd (rules s)) = map fst (rules s)" using assms(1) by (auto simp: rules_keyed_def)
  moreover have "mset (map rlID (order (rules s))) = mset (map rlID (map snd (rules s)))" using assms(2) by (metis mset_map)
  ultimately have "distinct (map rlID (order (rules s)))" using assms(1) mset_eq_imp_distinct_iff by (metis rules_keyed_def)
  then have d: "distinct (map rlID ?rs)" by (rule distinct_map_filter)
  have "r \<in> set (order (rules s))" using map_of_SomeD [OF assms(3)] assms(2) by (metis list.set_map mset_eq_setD image_eqI snd_conv)
  then have "r \<in> set ?rs" using assms(4) by simp
  then obtain k where k: "k < length ?rs" "?rs ! k = r" by (auto simp only: in_set_conv_nth)
  obtain j tm where j: "ioInsert (q k) = Some (j, tm)" using assms(6) by fastforce
  have m: "map_of (rules s) (rlID r) = Some r" using assms(3) id by simp
  have c: "\<not> in_cooldown (ioSince (q (0 + k))) r" "ioInsert (q (0 + k)) = Some (j, tm)" using assms(6) j by simp_all
  show ?thesis using fire_fires [where q = q and n = 0 and k = k, OF d k m assms(5) c] j unfolding Evaluate_def add_0 by blast
qed

text \<open>C35: A detection that fits an enabled rule that is not cooling down raises the alert of the rule, whatever other rules there are and in
  whichever order the map yields them: it is broadcast and stored with the title, level and rendered text of the rule, while the database takes
  the row, which gets the time of the database.\<close>

theorem watched_device_raises_alert:
  assumes "rules_keyed (wAlerts w)" "\<And>m. mset (ruleOrder e m) = mset (map snd m)" "map_of (rules (wAlerts w)) i = Some r" "rlEnabled r"
    "matchesRule (weUnicode e) (weFold e) r (detected mac ssid rssi channel nodeID)"
    "\<And>k. \<not> in_cooldown (ioSince (ruleAnswers e k)) r \<and> ioInsert (ruleAnswers e k) \<noteq> None"
  shows "\<exists>tm j st. AlertEffect (AlertBroadcast (rule_event r (detected mac ssid rssi channel nodeID) tm j)) \<in>
      set (fst (text_call e (TargetDetected mac ssid deviceType rssi channel lat lon nodeID targetID) w)) \<and>
    stored_event (rule_event r (detected mac ssid rssi channel nodeID) tm j) st \<in>
      set (event_table (wAlerts (snd (text_call e (TargetDetected mac ssid deviceType rssi channel lat lon nodeID targetID) w))))"
proof -
  have "AlertEffect x \<in> set (fst (on_target_detected e mac ssid deviceType rssi channel lat lon nodeID targetID w))"
    if "x \<in> set (fst (Evaluate (weUnicode e) (weFold e) (ruleOrder e) (ruleAnswers e) (detected mac ssid rssi channel nodeID) (wAlerts w)))" for x
    using that unfolding on_target_detected_def Let_def detected_def by (simp add: case_prod_unfold)
  then show ?thesis using evaluate_fires [where q = "ruleAnswers e", OF assms] unfolding text_call.simps on_target_detected_alerts by blast
qed

theorem watched_device_raises_alert_witness:
  "\<exists>tm j st. stored_event (rule_event rule0 (detected ''AA:BB:CC:DD:EE:FF'' [] (-50) 6 ''n'') tm j) st \<in>
      set (event_table (wAlerts (snd (text_call env_wired (TargetDetected ''AA:BB:CC:DD:EE:FF'' [] ''wifi'' (-50) 6 (Fin 0) (Fin 0) ''n'' []) world0))))"
proof -
  have "to_upper ascii_unicode ''AA'' = ''AA''" "to_upper ascii_unicode ''AA:BB:CC:DD:EE:FF'' = ''AA:BB:CC:DD:EE:FF''"
    by (simp_all add: to_upper_ascii unicode_ok_def ascii_unicode_def upper_char_def)
  then have "matchesRule ascii_unicode id rule0 (detected ''AA:BB:CC:DD:EE:FF'' [] (-50) 6 ''n'')"
    by (simp add: matchesRule_def rule0_def rule_checks_def cond_arr_def cond_num_def cond_str_def detected_def some_str_def has_prefix_def)
  then have "\<exists>tm j st. AlertEffect (AlertBroadcast (rule_event rule0 (detected ''AA:BB:CC:DD:EE:FF'' [] (-50) 6 ''n'') tm j)) \<in>
      set (fst (text_call env_wired (TargetDetected ''AA:BB:CC:DD:EE:FF'' [] ''wifi'' (-50) 6 (Fin 0) (Fin 0) ''n'' []) world0)) \<and>
    stored_event (rule_event rule0 (detected ''AA:BB:CC:DD:EE:FF'' [] (-50) 6 ''n'') tm j) st \<in>
      set (event_table (wAlerts (snd (text_call env_wired (TargetDetected ''AA:BB:CC:DD:EE:FF'' [] ''wifi'' (-50) 6 (Fin 0) (Fin 0) ''n'' []) world0))))"
    by (intro watched_device_raises_alert [of world0 env_wired "''r''"])
       (simp_all add: world0_def env_wired_def alerts0_def NewAlerts_def rules_keyed_def rule0_def in_cooldown_def)
  then show ?thesis by blast
qed

section \<open>Drones in fences\<close>

definition fences_keyed :: "gf_service \<Rightarrow> bool" where
  "fences_keyed s \<longleftrightarrow> distinct (map fst (geofences s)) \<and> (\<forall>(k, g) \<in> set (geofences s). gfID g = k)"

definition breach_event :: "Geofence \<Rightarrow> alert_event \<Rightarrow> bool" where
  "breach_event g ev \<longleftrightarrow> aeTitle ev = ''Geofence breach: '' @ gfName g \<and> aeSeverity ev = fence_severity (AlarmLevel g) \<and>
     map_of (aeData ev) ''geofenceId'' = Some (VStr (gfID g)) \<and> aeColumn ev = (if data_marshals (aeData ev) then Some (aeData ev) else None)"

text \<open>A fence around a position is the only one of its identifier the checker reports.\<close>

lemma checker_hit:
  assumes "fences_keyed s" "\<And>m. mset (fenceOrder e m) = mset (map snd m)" "h \<in> set (geofence_checker e s lat lon)" "map_of (geofences s) (hitID h) = Some g"
  shows "hitName h = gfName g \<and> hitAlarmLevel h = AlarmLevel g"
proof -
  obtain g' where g': "g' \<in> set (fenceOrder e (geofences s))" "hitID h = gfID g'" "hitName h = gfName g'" "hitAlarmLevel h = AlarmLevel g'"
    using assms(3) by (auto simp: geofence_checker_def CheckPoint_def)
  then have "g' \<in> snd ` set (geofences s)" using assms(2) by (metis list.set_map mset_eq_setD)
  then obtain k where k: "(k, g') \<in> set (geofences s)" by auto
  then have "k = hitID h" using assms(1) g'(2) by (auto simp: fences_keyed_def)
  then have "map_of (geofences s) (hitID h) = Some g'" using k assms(1) by (simp add: fences_keyed_def)
  then show ?thesis using assms(4) g' by simp
qed

lemma notified_effect: assumes "i \<in> set (notified es)" shows "\<exists>n et ei la lo l m wh. GeofenceNotify i n et ei la lo l m wh \<in> set es"
proof -
  have "\<exists>x \<in> set es. notified [x] = [i]" using assms by (induction es rule: notified.induct) auto
  then obtain x where "x \<in> set es" "notified [x] = [i]" by blast
  then show ?thesis by (cases x rule: drone_effect.exhaust) (simp_all, meson)
qed

lemma detection_effects:
  assumes "x \<in> set (fst (HandleDetection de tm rnd det s))" "\<And>a b c d. x \<noteq> TrackInventory a b c d" "\<And>d. x \<noteq> DroneTelemetry d"
  shows "\<exists>d s'. dLatitude d = detLatitude det \<and> dLongitude d = detLongitude det \<and> x \<in> set (fst (evaluateGeofences de (Key det) d s'))"
proof -
  obtain a s1 where a: "(case map_of (drones s) (Key det) of
              Some a \<Rightarrow> (a, s)
            | None \<Rightarrow> (length (dHeap s), s\<lparr>dHeap := dHeap s @ [new_drone tm rnd det], drones := AList.update (Key det) (length (dHeap s)) (drones s)\<rparr>)) = (a, s1)"
    by fastforce
  let ?d = "put_telemetry tm det (put_site de det (drone_at s1 a))"
  have "x \<in> set (fst (evaluateGeofences de (Key det) ?d (set_drone a ?d s1)))"
    using assms by (auto simp: HandleDetection_def Let_def a case_prod_unfold split: if_splits)
  then show ?thesis by (intro exI [of _ ?d] exI conjI) (simp_all add: put_telemetry_def)
qed

lemma detection_notifies:
  assumes "GeofenceNotify i n et ei la lo l m wh \<in> set (fst (HandleDetection de tm rnd det s))" "\<And>xs. mset (hit_order de xs) = mset xs"
  shows "\<exists>h \<in> set (geofenceCheck de (detLatitude det) (detLongitude det)). hitID h = i \<and> hitName h = n \<and> hitAlarmLevel h = l"
proof -
  have "set (map snd (fold (\<lambda>h. AList.update (hitID h) h) hits m)) \<subseteq> set hits \<union> snd ` set m" for hits :: "GeofenceHit list" and m
  proof (induction hits arbitrary: m)
    case (Cons h hits)
    have "snd ` set (AList.update (hitID h) h m) \<subseteq> insert h (snd ` set m)" by (induction m) auto
    then have "set hits \<union> snd ` set (AList.update (hitID h) h m) \<subseteq> set (h # hits) \<union> snd ` set m" by auto
    then show ?case using order_trans [OF Cons [of "AList.update (hitID h) h m"]] by simp
  qed simp
  from this [of _ "[]"] have "set (now_inside hits) \<subseteq> set hits" for hits unfolding now_inside_def by simp
  moreover have "\<exists>h \<in> set (hit_order de (now_inside (geofenceCheck de (detLatitude det) (detLongitude det)))). hitID h = i \<and> hitName h = n \<and> hitAlarmLevel h = l"
    using detection_effects [OF assms(1)] by (auto simp: evaluateGeofences_def Let_def)
  ultimately show ?thesis using mset_eq_setD [OF assms(2)] by (auto dest: subsetD)
qed

lemma drone_call_keeps: "set (event_table (wAlerts w)) \<subseteq> set (event_table (wAlerts (snd (drone_call e x w))))"
  using TriggerDirect_keeps by (cases x) (simp_all add: Let_def case_prod_unfold)

lemma drone_calls_Cons: "snd (drone_calls e (x # xs) w) = snd (drone_calls e xs (snd (drone_call e x w)))"
  by (simp add: Let_def case_prod_unfold)

lemma drone_calls_keep: "set (event_table (wAlerts w)) \<subseteq> set (event_table (wAlerts (snd (drone_calls e xs w))))"
proof (induction xs arbitrary: w)
  case (Cons x xs)
  show ?case unfolding drone_calls_Cons by (rule order_trans [OF drone_call_keeps Cons])
qed simp

lemma drone_calls_record:
  assumes "GeofenceNotify i n et ei la lo l m wh \<in> set xs" "alertInsert e = Some j"
  shows "stored_event ((new_event [] (fence_severity l) (''Geofence breach: '' @ n) m (fence_data i n et ei la lo) False False (weTime e))\<lparr>aeID := fst j\<rparr>) (snd j) \<in>
    set (event_table (wAlerts (snd (drone_calls e xs w))))"
  using assms(1)
proof (induction xs arbitrary: w)
  case (Cons x xs)
  show ?case
  proof (cases "x = GeofenceNotify i n et ei la lo l m wh")
    case True
    then have "stored_event ((new_event [] (fence_severity l) (''Geofence breach: '' @ n) m (fence_data i n et ei la lo) False False (weTime e))\<lparr>aeID := fst j\<rparr>) (snd j) \<in>
      set (event_table (wAlerts (snd (drone_call e x w))))" using assms(2) by (simp add: TriggerDirect_def Let_def case_prod_unfold)
    then show ?thesis unfolding drone_calls_Cons by (rule subsetD [OF drone_calls_keep])
  next
    case False
    then show ?thesis using Cons unfolding drone_calls_Cons by simp
  qed
qed simp

text \<open>C11: A drone that is detected inside an alarmed fence for drones, and was not inside it at its last position, leaves an alert with the name
  and level of the fence in the table of events (its data column is NULL when a coordinate is not finite), whatever was detected, removed, changed or written before.\<close>

theorem drone_breach_is_recorded:
  assumes "located det" "\<And>xs. mset (hit_order de xs) = mset xs" "\<And>m. mset (fenceOrder e m) = mset (map snd m)" "fences_keyed (wFences w)"
    and "geofenceCheck de = geofence_checker e (wFences w)" "alertInsert e = Some j"
    and "map_of (geofences (wFences w)) i = Some g" "gfEnabled g" "AlarmEnabled g" "applies_to ''drone'' g"
    and "pointInPolygon \<lparr>Lat = detLatitude det, Lng = detLongitude det\<rparr> (Polygon g)" "i \<notin> last_inside (Key det) ops"
  shows "\<exists>ev \<in> set (event_table (wAlerts (snd (drone_calls e (fst (HandleDetection de tm rnd det (drone_run ops NewDrones))) w)))). breach_event g ev"
proof -
  let ?es = "fst (HandleDetection de tm rnd det (drone_run ops NewDrones))"
  have g: "(i, g) \<in> set (geofences (wFences w))" "gfID g = i" using assms(4) map_of_SomeD [OF assms(7)] by (auto simp: fences_keyed_def)
  then have "g \<in> set (fenceOrder e (geofences (wFences w)))" using assms(3) by (metis image_eqI list.set_map mset_eq_setD snd_conv)
  then have "i \<in> fences_at de det" using assms(5,8-11) g(2) by (force simp: fences_at_def geofence_checker_def CheckPoint_def)
  then have "i \<in> set (notified ?es)" using detection_fences(2) [OF assms(1,2)] run_inside assms(12) by blast
  then obtain n et ei la lo l m wh where x: "GeofenceNotify i n et ei la lo l m wh \<in> set ?es" using notified_effect by blast
  then obtain h where h: "h \<in> set (geofence_checker e (wFences w) (detLatitude det) (detLongitude det))" "hitID h = i" "hitName h = n" "hitAlarmLevel h = l"
    using detection_notifies [OF _ assms(2)] assms(5) by metis
  then have "n = gfName g" "l = AlarmLevel g" using checker_hit [OF assms(4,3) h(1)] assms(7) by auto
  then show ?thesis using drone_calls_record [OF x assms(6)] g(2)
    by (intro bexI) (auto simp: breach_event_def new_event_def fence_data_def stored_event_def)
qed

definition fence0 :: Geofence where
  "fence0 = \<lparr>gfID = ''f'', gfName = ''gate'', gfDescription = [], gfColor = [], Polygon = [corner 0 0, corner 0 4, corner 4 4, corner 4 0],
     gfAction = [], gfEnabled = True, AlarmEnabled = True, AlarmLevel = ''CRITICAL'', AlarmMessage = [], TriggerOnEntry = True, TriggerOnExit = False,
     AppliesToADSB = False, AppliesToDrones = True, AppliesToTargets = False, AppliesToDevices = False, gfNotifyWebhook = False, gfSiteID = [],
     OriginSiteID = []\<rparr>"

theorem drone_breach_is_recorded_witness:
  "\<exists>ev \<in> set (event_table (wAlerts (snd (drone_calls env_wired (fst (HandleDetection
       (drone_env0\<lparr>geofenceCheck := geofence_checker env_wired (NewGeofences\<lparr>geofences := [(''f'', fence0)]\<rparr>)\<rparr>) 7 [] det0 (drone_run [] NewDrones)))
     (world0\<lparr>wFences := NewGeofences\<lparr>geofences := [(''f'', fence0)]\<rparr>\<rparr>))))). breach_event fence0 ev"
proof (rule drone_breach_is_recorded)
  have c: "coord 0" "coord 1" "coord 2" "coord 4" by (code_simp)+
  have "two_to (- 1022) \<le> two_to 0" by (rule two_to_mono) simp
  then have "pointInPolygon (corner 1 2) [corner 0 0, corner 0 4, corner 4 4, corner 4 0]"
    using pointInPolygon_rectangle [OF c(2,3) c(1,4,1,4)] by (simp add: two_to_def)
  then show "pointInPolygon \<lparr>Lat = detLatitude det0, Lng = detLongitude det0\<rparr> (Polygon fence0)"
    by (simp add: det0_def fence0_def corner_def)
qed (simp_all add: located_def det0_def drone_env0_def env_wired_def fences_keyed_def world0_def fence0_def applies_to_def last_inside_def NewGeofences_def)

end
