(* ===== verification/Hub.thy ===== *)
theory Hub
  imports Prelude "HOL-Library.Sublist"
begin

text \<open>
  The websocket hub (\<open>internal/ws/hub.go\<close>, \<open>internal/ws/client.go\<close>) with the handler that makes the clients
  (\<open>handleWebSocket\<close> of \<open>internal/api/server.go\<close>, after admission). Each goroutine has a program counter: the loop of the hub, the
  handler of a connection and its two pumps; one step is one operation on a channel or a connection. Which step comes next, the
  iteration order over the clients and whether a write to a connection succeeds are arguments of the events.
\<close>

section \<open>Channels\<close>

type_synonym ws_message = "byte list"

record chan =
  chBuf :: "ws_message list"
  chClosed :: bool

definition bufferSize :: nat where "bufferSize = 256"

text \<open>\<open>select\<close> with a send and a default: \<open>None\<close> is the default. Sending on a closed channel panics, as does closing it again.\<close>

definition try_send :: "ws_message \<Rightarrow> chan \<Rightarrow> chan option outcome" where
  "try_send x ch = (if chClosed ch then Panics else Ret (if length (chBuf ch) < bufferSize then Some (ch\<lparr>chBuf := chBuf ch @ [x]\<rparr>) else None))"

definition close_chan :: "chan \<Rightarrow> chan outcome" where
  "close_chan ch = (if chClosed ch then Panics else Ret (ch\<lparr>chClosed := True\<rparr>))"

section \<open>State\<close>

datatype ws_frame = TextFrame ws_message | PingFrame | CloseFrame

text \<open>\<open>cFirst\<close>, \<open>cJoined\<close> and \<open>cLeft\<close> are history variables, which no step reads: the first event that the handler put in the buffer, and how
  many events the loop had taken when it entered the client in its map and how many the client was offered when it was removed.\<close>

text \<open>The handler waits in \<open>Register\<close>, sends the first event, has started the pumps, or has panicked (the router recovers it).\<close>

datatype handler_pc = Registering | Sending | Started | Crashed

datatype writer_pc = NoWriter | WaitSend | CountQueued | Draining nat | WriterDone

datatype reader_pc = NoReader | Reading | Unregistering | ReaderDone

record conn =
  cSend :: chan
  cHandler :: handler_pc
  cWriter :: writer_pc
  cReader :: reader_pc
  cFrames :: "ws_frame list"
  cOpen :: bool
  cFirst :: "ws_message option"
  cJoined :: "nat option"
  cLeft :: "nat option"

text \<open>\<open>Admitting c\<close>: the loop has received client \<open>c\<close> from the register channel and has not yet looked at the map.\<close>

datatype loop_pc = Selecting | Admitting nat | Delivering ws_message "nat list" | Stopped

text \<open>\<open>taken\<close> is a history variable: the messages the loop has taken from the broadcast channel.\<close>

record hub =
  clients :: "nat list"
  broadcast :: "ws_message list"
  doneClosed :: bool
  maxClients :: int
  hLoop :: loop_pc
  conns :: "conn list"
  taken :: "ws_message list"

definition NewHub :: "int \<Rightarrow> hub" where
  "NewHub m = \<lparr>clients = [], broadcast = [], doneClosed = False, maxClients = m, hLoop = Selecting, conns = [], taken = []\<rparr>"

definition NewClient :: conn where
  "NewClient = \<lparr>cSend = \<lparr>chBuf = [], chClosed = False\<rparr>, cHandler = Registering, cWriter = NoWriter, cReader = NoReader, cFrames = [], cOpen = True,
     cFirst = None, cJoined = None, cLeft = None\<rparr>"

definition set_conn :: "nat \<Rightarrow> (conn \<Rightarrow> conn) \<Rightarrow> hub \<Rightarrow> hub" where
  "set_conn c f h = h\<lparr>conns := (conns h)[c := f (conns h ! c)]\<rparr>"

section \<open>The loop of the hub\<close>

definition shut :: "nat \<Rightarrow> hub \<Rightarrow> hub outcome" where
  "shut c h = (case close_chan (cSend (conns h ! c)) of Panics \<Rightarrow> Panics | Ret ch \<Rightarrow> Ret (set_conn c (\<lambda>k. k\<lparr>cSend := ch\<rparr>) h))"

text \<open>The register channel has no buffer: the rendezvous lets the handler go on while the loop admits or refuses the client.\<close>

definition take_register :: "nat \<Rightarrow> hub \<Rightarrow> hub" where
  "take_register c h = (set_conn c (\<lambda>k. k\<lparr>cHandler := Sending\<rparr>) h)\<lparr>hLoop := Admitting c\<rparr>"

definition on_register :: "nat \<Rightarrow> hub \<Rightarrow> hub outcome" where
  "on_register c h =
     (let h = h\<lparr>hLoop := Selecting\<rparr> in
      if maxClients h > 0 \<and> int (length (clients h)) \<ge> maxClients h then shut c h
      else Ret ((set_conn c (\<lambda>k. k\<lparr>cJoined := Some (length (taken h))\<rparr>) h)\<lparr>clients := clients h @ [c]\<rparr>))"

definition remove_client :: "nat \<Rightarrow> nat \<Rightarrow> hub \<Rightarrow> hub" where
  "remove_client c n h = (set_conn c (\<lambda>k. k\<lparr>cLeft := Some n\<rparr>) h)\<lparr>clients := remove1 c (clients h)\<rparr>"

definition on_unregister :: "nat \<Rightarrow> hub \<Rightarrow> hub outcome" where
  "on_unregister c h =
     (let h = set_conn c (\<lambda>k. k\<lparr>cReader := ReaderDone, cOpen := False\<rparr>) h in
      if c \<in> set (clients h) then shut c (remove_client c (length (taken h)) h) else Ret h)"

definition deliver :: "hub \<Rightarrow> hub outcome option" where
  "deliver h =
     (case hLoop h of
        Delivering x (c # cs) \<Rightarrow> Some
         (let h = h\<lparr>hLoop := Delivering x cs\<rparr> in
          case try_send x (cSend (conns h ! c)) of
            Panics \<Rightarrow> Panics
          | Ret (Some ch) \<Rightarrow> Ret (set_conn c (\<lambda>k. k\<lparr>cSend := ch\<rparr>) h)
          | Ret None \<Rightarrow> (case shut c h of Panics \<Rightarrow> Panics | Ret h \<Rightarrow> Ret (remove_client c (length (taken h) - 1) h)))
      | Delivering x [] \<Rightarrow> Some (Ret (h\<lparr>hLoop := Selecting\<rparr>))
      | _ \<Rightarrow> None)"

section \<open>The other goroutines\<close>

definition Stop_hub :: "hub \<Rightarrow> hub outcome" where
  "Stop_hub h = (if doneClosed h then Panics else Ret (h\<lparr>doneClosed := True\<rparr>))"

text \<open>\<open>Broadcast\<close> of an event that can be encoded; \<open>None\<close> while the channel is full.\<close>

definition Broadcast_hub :: "ws_message \<Rightarrow> hub \<Rightarrow> hub option" where
  "Broadcast_hub x h = (if length (broadcast h) < bufferSize then Some (h\<lparr>broadcast := broadcast h @ [x]\<rparr>) else None)"

definition ClientCount :: "hub \<Rightarrow> nat" where
  "ClientCount h = length (clients h)"

definition Send_client :: "nat \<Rightarrow> ws_message \<Rightarrow> hub \<Rightarrow> hub outcome" where
  "Send_client c x h =
     (case try_send x (cSend (conns h ! c)) of
        Panics \<Rightarrow> Panics
      | Ret (Some ch) \<Rightarrow> Ret (set_conn c (\<lambda>k. k\<lparr>cSend := ch, cFirst := Some x\<rparr>) h)
      | Ret None \<Rightarrow> Ret h)"

text \<open>The rest of the handler after \<open>Register\<close>: \<open>x\<close> is the first event, if it can be encoded.\<close>

definition finish_handler :: "nat \<Rightarrow> ws_message option \<Rightarrow> hub \<Rightarrow> hub" where
  "finish_handler c x h =
     (case (case x of Some x \<Rightarrow> Send_client c x h | None \<Rightarrow> Ret h) of
        Panics \<Rightarrow> set_conn c (\<lambda>k. k\<lparr>cHandler := Crashed\<rparr>) h
      | Ret h \<Rightarrow> set_conn c (\<lambda>k. k\<lparr>cHandler := Started, cWriter := WaitSend, cReader := Reading\<rparr>) h)"

text \<open>A write to the connection; when it fails the writer ends and closes the connection.\<close>

definition write_frame :: "bool \<Rightarrow> ws_frame \<Rightarrow> writer_pc \<Rightarrow> conn \<Rightarrow> conn" where
  "write_frame ok f pc k = (if ok then k\<lparr>cFrames := cFrames k @ [f], cWriter := pc\<rparr> else k\<lparr>cWriter := WriterDone, cOpen := False\<rparr>)"

text \<open>One step of \<open>WritePump\<close>; \<open>tick\<close>: the ticker is chosen. A receive from a closed channel gives the zero value.\<close>

definition receive :: "bool \<Rightarrow> (nat \<Rightarrow> writer_pc) \<Rightarrow> conn \<Rightarrow> conn option" where
  "receive ok pc k =
     (case chBuf (cSend k) of
        x # xs \<Rightarrow> Some (write_frame ok (TextFrame x) (pc (length xs)) (k\<lparr>cSend := (cSend k)\<lparr>chBuf := xs\<rparr>\<rparr>))
      | [] \<Rightarrow> if chClosed (cSend k) then Some (write_frame ok (TextFrame []) (pc 0) k) else None)"

definition WritePump :: "bool \<Rightarrow> bool \<Rightarrow> conn \<Rightarrow> conn option" where
  "WritePump ok tick k =
     (case cWriter k of
        WaitSend \<Rightarrow>
          if tick then Some (write_frame ok PingFrame WaitSend k)
          else if chBuf (cSend k) = [] \<and> chClosed (cSend k)
            then Some ((write_frame ok CloseFrame WriterDone k)\<lparr>cWriter := WriterDone, cOpen := False\<rparr>)
          else receive ok (\<lambda>_. CountQueued) k
      | CountQueued \<Rightarrow> Some (k\<lparr>cWriter := Draining (length (chBuf (cSend k)))\<rparr>)
      | Draining 0 \<Rightarrow> Some (k\<lparr>cWriter := WaitSend\<rparr>)
      | Draining (Suc n) \<Rightarrow> receive ok (\<lambda>_. Draining n) k
      | _ \<Rightarrow> None)"

text \<open>\<open>ReadPump\<close>: frames of the client are ignored until reading fails.\<close>

definition ReadPump :: "conn \<Rightarrow> conn option" where
  "ReadPump k = (if cReader k = Reading then Some (k\<lparr>cReader := Unregistering\<rparr>) else None)"

section \<open>Steps\<close>

datatype ws_event =
    Connect
  | TakeRegister nat
  | Admit
  | TakeUnregister nat
  | TakeBroadcast "nat list"
  | Deliver
  | TakeDone
  | CallStop
  | CallBroadcast ws_message
  | FinishHandler nat "ws_message option"
  | WriterStep nat bool bool
  | ReadFails nat

text \<open>\<open>None\<close>: the event is not possible in the state.\<close>

fun hub_exec :: "ws_event \<Rightarrow> hub \<Rightarrow> hub outcome option" where
  "hub_exec Connect h = Some (Ret (h\<lparr>conns := conns h @ [NewClient]\<rparr>))"
| "hub_exec (TakeRegister c) h =
     (if hLoop h = Selecting \<and> c < length (conns h) \<and> cHandler (conns h ! c) = Registering then Some (Ret (take_register c h)) else None)"
| "hub_exec Admit h = (case hLoop h of Admitting c \<Rightarrow> Some (on_register c h) | _ \<Rightarrow> None)"
| "hub_exec (TakeUnregister c) h =
     (if hLoop h = Selecting \<and> c < length (conns h) \<and> cReader (conns h ! c) = Unregistering then Some (on_unregister c h) else None)"
| "hub_exec (TakeBroadcast order) h =
     (case broadcast h of
        x # q \<Rightarrow> if hLoop h = Selecting \<and> distinct order \<and> set order = set (clients h)
          then Some (Ret (h\<lparr>broadcast := q, hLoop := Delivering x order, taken := taken h @ [x]\<rparr>)) else None
      | [] \<Rightarrow> None)"
| "hub_exec Deliver h = deliver h"
| "hub_exec TakeDone h = (if hLoop h = Selecting \<and> doneClosed h then Some (Ret (h\<lparr>hLoop := Stopped\<rparr>)) else None)"
| "hub_exec CallStop h = Some (Stop_hub h)"
| "hub_exec (CallBroadcast x) h = map_option Ret (Broadcast_hub x h)"
| "hub_exec (FinishHandler c x) h =
     (if c < length (conns h) \<and> cHandler (conns h ! c) = Sending then Some (Ret (finish_handler c x h)) else None)"
| "hub_exec (WriterStep c ok tick) h =
     (if c < length (conns h) then map_option (\<lambda>k. Ret (set_conn c (\<lambda>_. k) h)) (WritePump ok tick (conns h ! c)) else None)"
| "hub_exec (ReadFails c) h =
     (if c < length (conns h) then map_option (\<lambda>k. Ret (set_conn c (\<lambda>_. k) h)) (ReadPump (conns h ! c)) else None)"

inductive hub_reachable :: "int \<Rightarrow> hub \<Rightarrow> bool" for m :: int where
  New: "hub_reachable m (NewHub m)"
| Step: "hub_reachable m h \<Longrightarrow> hub_exec ev h = Some (Ret h') \<Longrightarrow> hub_reachable m h'"

end
