(* ===== verification/HubProofs.thy ===== *)
theory HubProofs
  imports Hub
begin

text \<open>
  The hub over every interleaving: its loop never panics, a client gets the events from its admission on in order and
  without gaps, the buffers are bounded, and what happens to a connection that is refused.
\<close>

section \<open>What a client sees\<close>

fun texts :: "ws_frame list \<Rightarrow> ws_message list" where
  "texts [] = []"
| "texts (TextFrame x # fs) = x # texts fs"
| "texts (_ # fs) = texts fs"

lemma texts_append [simp]: "texts (fs @ gs) = texts fs @ texts gs"
  by (induction fs rule: texts.induct) simp_all

text \<open>A sequence of events with the first event, if there is one, somewhere among them.\<close>

definition merged :: "ws_message option \<Rightarrow> ws_message list \<Rightarrow> ws_message list \<Rightarrow> bool" where
  "merged f ys xs = (case f of None \<Rightarrow> xs = ys | Some x \<Rightarrow> \<exists>i \<le> length ys. xs = take i ys @ x # drop i ys)"

lemma merged_snoc:
  assumes "merged f ys xs"
  shows "merged f (ys @ [x]) (xs @ [x])"
proof (cases f)
  case None
  then show ?thesis using assms by (simp add: merged_def)
next
  case (Some y)
  then obtain i where "i \<le> length ys" "xs = take i ys @ y # drop i ys" using assms by (auto simp: merged_def)
  then show ?thesis using Some by (auto simp: merged_def intro!: exI [of _ i])
qed

lemma merged_first: "merged None ys xs \<Longrightarrow> merged (Some x) ys (xs @ [x])"
  by (auto simp: merged_def intro!: exI [of _ "length ys"])

text \<open>The events a client was offered by the loop: all those taken after it was entered in the map, until it was removed. \<open>s\<close> are the
  events offered so far to a client that is registered, \<open>log\<close> all events taken.\<close>

definition offered :: "conn \<Rightarrow> ws_message list \<Rightarrow> ws_message list \<Rightarrow> ws_message list" where
  "offered k s log = (case cJoined k of None \<Rightarrow> [] | Some j \<Rightarrow> drop j (case cLeft k of None \<Rightarrow> s | Some n \<Rightarrow> take n log))"

lemma offered_cong: "cJoined k' = cJoined k \<Longrightarrow> cLeft k' = cLeft k \<Longrightarrow> offered k' s log = offered k s log"
  by (simp add: offered_def split: option.split)

section \<open>The invariant of a connection\<close>

definition content :: "conn \<Rightarrow> ws_message list" where
  "content k = texts (cFrames k) @ chBuf (cSend k)"

definition pumps_ok :: "conn \<Rightarrow> bool" where
  "pumps_ok k \<longleftrightarrow> (cHandler k \<noteq> Started \<longrightarrow> cWriter k = NoWriter \<and> cReader k = NoReader \<and> cFrames k = [] \<and> cOpen k) \<and>
     (cHandler k = Started \<longrightarrow> cWriter k \<noteq> NoWriter) \<and> length (chBuf (cSend k)) \<le> bufferSize \<and>
     (\<forall>n. cWriter k = Draining n \<longrightarrow> n \<le> length (chBuf (cSend k)))"

text \<open>\<open>adm\<close>: the loop is about to admit the client; \<open>mem\<close>: it is registered.\<close>

definition member_ok :: "conn \<Rightarrow> bool \<Rightarrow> bool \<Rightarrow> ws_message list \<Rightarrow> ws_message list \<Rightarrow> bool" where
  "member_ok k adm mem s log \<longleftrightarrow> mem = (cJoined k \<noteq> None \<and> cLeft k = None) \<and> (cJoined k = None \<longrightarrow> cLeft k = None) \<and>
     (adm \<or> cHandler k = Registering \<longrightarrow> cJoined k = None \<and> \<not> chClosed (cSend k)) \<and> (adm \<longrightarrow> cHandler k \<noteq> Registering) \<and>
     (\<not> adm \<and> cHandler k \<noteq> Registering \<longrightarrow> mem = (\<not> chClosed (cSend k))) \<and>
     (\<forall>j. cJoined k = Some j \<and> cLeft k = None \<longrightarrow> j \<le> length s) \<and> (\<forall>n. cLeft k = Some n \<longrightarrow> n \<le> length log) \<and>
     (cHandler k = Registering \<or> cHandler k = Sending \<longrightarrow> cFirst k = None)"

definition view_ok :: "conn \<Rightarrow> ws_message list \<Rightarrow> bool" where
  "view_ok k ys \<longleftrightarrow> (\<exists>xs. merged (cFirst k) ys xs \<and> (if cWriter k = WriterDone then prefix (texts (cFrames k)) xs else xs = content k))"

definition conn_ok :: "conn \<Rightarrow> bool \<Rightarrow> bool \<Rightarrow> ws_message list \<Rightarrow> ws_message list \<Rightarrow> bool" where
  "conn_ok k adm mem s log \<longleftrightarrow> pumps_ok k \<and> member_ok k adm mem s log \<and> view_ok k (offered k s log)"

lemmas conn_ok_defs = conn_ok_def pumps_ok_def member_ok_def

text \<open>The events offered so far to a registered client: not yet the one being delivered when the client is still to come.\<close>

definition seen :: "hub \<Rightarrow> nat \<Rightarrow> ws_message list" where
  "seen h c = (case hLoop h of Delivering x cs \<Rightarrow> if c \<in> set cs then butlast (taken h) else taken h | _ \<Rightarrow> taken h)"

definition hub_ok :: "hub \<Rightarrow> bool" where
  "hub_ok h \<longleftrightarrow> distinct (clients h) \<and> (\<forall>c \<in> set (clients h). c < length (conns h)) \<and> length (broadcast h) \<le> bufferSize \<and>
     (maxClients h > 0 \<longrightarrow> int (length (clients h)) \<le> maxClients h) \<and>
     (\<forall>x cs. hLoop h = Delivering x cs \<longrightarrow> distinct cs \<and> set cs \<subseteq> set (clients h) \<and> (\<exists>log. taken h = log @ [x])) \<and>
     (\<forall>c. hLoop h = Admitting c \<longrightarrow> c < length (conns h)) \<and>
     (\<forall>c < length (conns h). conn_ok (conns h ! c) (hLoop h = Admitting c) (c \<in> set (clients h)) (seen h c) (taken h))"

lemma view_snoc:
  assumes "view_ok k ys"
  shows "view_ok (k\<lparr>cSend := (cSend k)\<lparr>chBuf := chBuf (cSend k) @ [x]\<rparr>\<rparr>) (ys @ [x])"
proof -
  obtain xs where "merged (cFirst k) ys xs" "if cWriter k = WriterDone then prefix (texts (cFrames k)) xs else xs = content k"
    using assms by (auto simp: view_ok_def)
  then show ?thesis using merged_snoc [of "cFirst k" ys xs x] unfolding view_ok_def by (intro exI [of _ "xs @ [x]"]) (auto simp: content_def prefix_def)
qed

lemma view_cong: "cFirst k' = cFirst k \<Longrightarrow> cWriter k' = cWriter k \<Longrightarrow> cFrames k' = cFrames k \<Longrightarrow> chBuf (cSend k') = chBuf (cSend k) \<Longrightarrow>
    view_ok k' ys = view_ok k ys"
  by (simp add: view_ok_def content_def)

lemma conn_ok_longer:
  assumes "conn_ok k adm mem s log"
  shows "conn_ok k adm mem s (log @ [x])"
proof -
  have left: "cLeft k = Some n \<Longrightarrow> n \<le> length log" for n using assms by (simp add: conn_ok_def member_ok_def)
  then have "offered k s (log @ [x]) = offered k s log" by (simp add: offered_def split: option.split)
  moreover have "\<forall>n. cLeft k = Some n \<longrightarrow> n \<le> length (log @ [x])" using left by (simp add: le_SucI)
  then have "member_ok k adm mem s (log @ [x])" using assms unfolding conn_ok_def member_ok_def by (elim conjE, intro conjI) assumption+
  ultimately show ?thesis using assms by (simp add: conn_ok_def)
qed

lemma conn_ok_outside: "conn_ok k adm False s log \<Longrightarrow> conn_ok k adm False s' log"
  by (auto simp: conn_ok_defs offered_def split: option.splits)

lemma registered:
  assumes "conn_ok k adm True s log"
  obtains j where "cJoined k = Some j" "cLeft k = None" "j \<le> length s"
proof -
  have "cJoined k \<noteq> None \<and> cLeft k = None" "\<forall>j. cJoined k = Some j \<and> cLeft k = None \<longrightarrow> j \<le> length s"
    using assms unfolding conn_ok_def member_ok_def by (elim conjE, simp)+
  then show ?thesis using that by auto
qed

lemma conn_ok_send:
  assumes "conn_ok k adm True s log" "length (chBuf (cSend k)) < bufferSize"
  shows "conn_ok (k\<lparr>cSend := (cSend k)\<lparr>chBuf := chBuf (cSend k) @ [x]\<rparr>\<rparr>) adm True (s @ [x]) log"
proof -
  let ?k = "k\<lparr>cSend := (cSend k)\<lparr>chBuf := chBuf (cSend k) @ [x]\<rparr>\<rparr>"
  obtain j where "cJoined k = Some j" "cLeft k = None" "j \<le> length s" using registered [OF assms(1)] .
  then have "offered ?k (s @ [x]) log = offered k s log @ [x]" by (simp add: offered_def)
  then have "view_ok ?k (offered ?k (s @ [x]) log)" using view_snoc assms(1) by (simp add: conn_ok_def)
  moreover have "pumps_ok ?k" using assms by (auto simp: conn_ok_def pumps_ok_def)
  moreover have "member_ok ?k adm True (s @ [x]) log" using assms(1) by (simp add: conn_ok_def member_ok_def le_SucI)
  ultimately show ?thesis by (simp add: conn_ok_def)
qed

lemma conn_ok_shut:
  assumes "conn_ok k False True (take n log) log" "n \<le> length log"
  shows "conn_ok (k\<lparr>cSend := (cSend k)\<lparr>chClosed := True\<rparr>, cLeft := Some n\<rparr>) False False s log"
proof -
  let ?k = "k\<lparr>cSend := (cSend k)\<lparr>chClosed := True\<rparr>, cLeft := Some n\<rparr>"
  have "offered ?k s log = offered k (take n log) log" using assms by (auto simp: offered_def conn_ok_defs)
  then have "view_ok ?k (offered ?k s log)" using assms(1) view_cong [of ?k k] by (simp add: conn_ok_def)
  then show ?thesis using assms by (auto simp: conn_ok_defs)
qed

lemma conn_ok_take:
  assumes "conn_ok k adm mem s log" "cHandler k = Registering"
  shows "conn_ok (k\<lparr>cHandler := Sending\<rparr>) True mem s log"
proof -
  let ?k = "k\<lparr>cHandler := Sending\<rparr>"
  have "view_ok ?k (offered ?k s log)" using assms view_cong [of ?k k] offered_cong [of ?k k] by (simp add: conn_ok_def)
  then show ?thesis using assms by (auto simp: conn_ok_defs)
qed

lemma conn_ok_admit:
  assumes "conn_ok k True False s log"
  shows "conn_ok (k\<lparr>cJoined := Some (length log)\<rparr>) False True log log"
    and "conn_ok (k\<lparr>cSend := (cSend k)\<lparr>chClosed := True\<rparr>\<rparr>) False False log log"
proof -
  have "offered k s log = []" "offered (k\<lparr>cJoined := Some (length log)\<rparr>) log log = []" "offered (k\<lparr>cSend := (cSend k)\<lparr>chClosed := True\<rparr>\<rparr>) log log = []"
    using assms by (auto simp: conn_ok_defs offered_def)
  then have "view_ok (k\<lparr>cJoined := Some (length log)\<rparr>) []" "view_ok (k\<lparr>cSend := (cSend k)\<lparr>chClosed := True\<rparr>\<rparr>) []"
    using assms view_cong [of "k\<lparr>cJoined := Some (length log)\<rparr>" k] view_cong [of "k\<lparr>cSend := (cSend k)\<lparr>chClosed := True\<rparr>\<rparr>" k] by (simp_all add: conn_ok_def)
  then show "conn_ok (k\<lparr>cJoined := Some (length log)\<rparr>) False True log log" "conn_ok (k\<lparr>cSend := (cSend k)\<lparr>chClosed := True\<rparr>\<rparr>) False False log log"
    using assms by (auto simp: conn_ok_defs offered_def)
qed

lemma view_start:
  assumes "conn_ok k adm mem s log" "cHandler k = Sending"
  shows "content k = offered k s log" "cFirst k = None" "cWriter k = NoWriter" "cFrames k = []"
  using assms by (auto simp: conn_ok_defs view_ok_def merged_def)

lemma conn_ok_finish:
  assumes "conn_ok k adm mem s log" "cHandler k = Sending"
  shows "chClosed (cSend k) \<Longrightarrow> conn_ok (k\<lparr>cHandler := Crashed\<rparr>) adm mem s log"
    and "conn_ok (k\<lparr>cHandler := Started, cWriter := WaitSend, cReader := Reading\<rparr>) adm mem s log"
    and "length (chBuf (cSend k)) < bufferSize \<Longrightarrow> conn_ok (k\<lparr>cSend := (cSend k)\<lparr>chBuf := chBuf (cSend k) @ [x]\<rparr>, cFirst := Some x,
        cHandler := Started, cWriter := WaitSend, cReader := Reading\<rparr>) adm mem s log"
proof -
  note start = view_start [OF assms]
  have same: "offered (k\<lparr>cHandler := Crashed\<rparr>) s log = offered k s log" "offered (k\<lparr>cHandler := Started, cWriter := WaitSend, cReader := Reading\<rparr>) s log = offered k s log"
    "offered (k\<lparr>cSend := (cSend k)\<lparr>chBuf := chBuf (cSend k) @ [x]\<rparr>, cFirst := Some x, cHandler := Started, cWriter := WaitSend, cReader := Reading\<rparr>) s log = offered k s log"
    by (simp_all add: offered_def split: option.split)
  show "chClosed (cSend k) \<Longrightarrow> conn_ok (k\<lparr>cHandler := Crashed\<rparr>) adm mem s log" "conn_ok (k\<lparr>cHandler := Started, cWriter := WaitSend, cReader := Reading\<rparr>) adm mem s log"
    using assms start unfolding conn_ok_def same by (auto simp: pumps_ok_def member_ok_def view_ok_def content_def merged_def)
  have "merged (Some x) (offered k s log) (content k @ [x])" using merged_first start(1) by (simp add: merged_def)
  then show "conn_ok (k\<lparr>cSend := (cSend k)\<lparr>chBuf := chBuf (cSend k) @ [x]\<rparr>, cFirst := Some x,
        cHandler := Started, cWriter := WaitSend, cReader := Reading\<rparr>) adm mem s log" if "length (chBuf (cSend k)) < bufferSize"
    using assms start that unfolding conn_ok_def same by (auto simp: pumps_ok_def member_ok_def view_ok_def content_def)
qed

lemma conn_ok_reader:
  assumes "conn_ok k adm mem s log" "cHandler k = Started"
  shows "conn_ok (k\<lparr>cReader := r\<rparr>) adm mem s log" "conn_ok (k\<lparr>cReader := r, cOpen := b\<rparr>) adm mem s log"
proof -
  have "view_ok (k\<lparr>cReader := r\<rparr>) ys = view_ok k ys" "view_ok (k\<lparr>cReader := r, cOpen := b\<rparr>) ys = view_ok k ys" for ys by (simp_all add: view_ok_def content_def)
  moreover have "offered (k\<lparr>cReader := r\<rparr>) s log = offered k s log" "offered (k\<lparr>cReader := r, cOpen := b\<rparr>) s log = offered k s log" by (simp_all add: offered_def split: option.split)
  ultimately show "conn_ok (k\<lparr>cReader := r\<rparr>) adm mem s log" "conn_ok (k\<lparr>cReader := r, cOpen := b\<rparr>) adm mem s log"
    using assms unfolding conn_ok_def by (auto simp: pumps_ok_def member_ok_def)
qed

lemma texts_snoc: "texts (fs @ [TextFrame x]) = texts fs @ [x]"
  by simp

text \<open>What the writer leaves alone.\<close>

definition same_history :: "conn \<Rightarrow> conn \<Rightarrow> bool" where
  "same_history k k' \<longleftrightarrow> cFirst k' = cFirst k \<and> cJoined k' = cJoined k \<and> cLeft k' = cLeft k \<and> cHandler k' = cHandler k"

lemma same_offered: "same_history k k' \<Longrightarrow> offered k' s log = offered k s log"
  by (rule offered_cong) (simp_all add: same_history_def)

lemma conn_ok_done:
  assumes "conn_ok k adm mem s log" "texts (cFrames k') = texts (cFrames k)" "cSend k' = (cSend k)\<lparr>chBuf := xs\<rparr>" "length xs \<le> bufferSize"
    and "cHandler k = Started" "same_history k k'" "cWriter k \<noteq> WriterDone" "cWriter k' = WriterDone"
  shows "conn_ok k' adm mem s log"
proof -
  have "merged (cFirst k') (offered k' s log) (content k)" using assms(1,6,7) same_offered [OF assms(6), of s log] by (auto simp: conn_ok_def view_ok_def same_history_def)
  then have "view_ok k' (offered k' s log)" unfolding view_ok_def using assms(2,8) by (auto simp: content_def)
  then show ?thesis using assms by (auto simp: conn_ok_defs same_history_def)
qed

lemma conn_ok_write:
  assumes "conn_ok k adm mem s log" "content k' = content k" "cSend k' = (cSend k)\<lparr>chBuf := xs\<rparr>" "length xs \<le> bufferSize"
    and "cHandler k = Started" "same_history k k'" "cWriter k \<noteq> WriterDone" "cWriter k' \<noteq> WriterDone" "cWriter k' \<noteq> NoWriter"
    and "\<And>n. cWriter k' = Draining n \<Longrightarrow> n \<le> length xs"
  shows "conn_ok k' adm mem s log"
proof -
  have "view_ok k' (offered k' s log)"
    using assms(1,2,6,7,8) same_offered [OF assms(6), of s log] by (auto simp: conn_ok_def view_ok_def same_history_def)
  then show ?thesis using assms by (auto simp: conn_ok_defs same_history_def)
qed

lemma conn_ok_receive:
  assumes "conn_ok k adm mem s log" "receive ok (\<lambda>_. pc) k = Some k'" "chBuf (cSend k) \<noteq> []" "cHandler k = Started" "cWriter k \<noteq> WriterDone"
    and "pc \<noteq> WriterDone" "pc \<noteq> NoWriter" "\<And>n. pc = Draining n \<Longrightarrow> Suc n \<le> length (chBuf (cSend k))"
  shows "conn_ok k' adm mem s log"
proof -
  obtain x xs where b: "chBuf (cSend k) = x # xs" using assms(3) by (cases "chBuf (cSend k)") auto
  then have k': "k' = write_frame ok (TextFrame x) pc (k\<lparr>cSend := (cSend k)\<lparr>chBuf := xs\<rparr>\<rparr>)" using assms(2) by (simp add: receive_def)
  have len: "length xs \<le> bufferSize" using assms(1) b by (simp add: conn_ok_defs)
  show ?thesis
  proof (cases ok)
    case True
    show ?thesis by (rule conn_ok_write [OF assms(1)]) (use True k' b len assms in \<open>auto simp: write_frame_def content_def same_history_def\<close>)
  next
    case False
    show ?thesis by (rule conn_ok_done [OF assms(1)]) (use False k' b len assms in \<open>auto simp: write_frame_def same_history_def\<close>)
  qed
qed

lemma conn_ok_writer:
  assumes "conn_ok k adm mem s log" "WritePump ok tick k = Some k'"
  shows "conn_ok k' adm mem s log"
proof -
  have started: "cHandler k = Started" and alive: "cWriter k \<noteq> WriterDone"
    using assms by (auto simp: conn_ok_defs WritePump_def split: writer_pc.splits)
  have len: "length (chBuf (cSend k)) \<le> bufferSize" "\<And>n. cWriter k = Draining n \<Longrightarrow> n \<le> length (chBuf (cSend k))"
    using assms(1) by (auto simp: conn_ok_defs)
  show ?thesis
  proof (cases "cWriter k")
    case WaitSend
    show ?thesis
    proof (cases "\<not> tick \<and> chBuf (cSend k) \<noteq> []")
      case True
      then show ?thesis using conn_ok_receive [OF assms(1) _ _ started alive, of ok CountQueued] assms(2) WaitSend by (simp add: WritePump_def)
    next
      case False
      then have "k' = write_frame ok PingFrame WaitSend k \<or> k' = (write_frame ok CloseFrame WriterDone k)\<lparr>cWriter := WriterDone, cOpen := False\<rparr>"
        using assms(2) WaitSend by (auto simp: WritePump_def receive_def split: if_splits)
      then consider "ok \<and> k' = write_frame True PingFrame WaitSend k"
        | "cWriter k' = WriterDone" "texts (cFrames k') = texts (cFrames k)" "cSend k' = cSend k" "same_history k k'"
        using started by (cases ok) (auto simp: write_frame_def same_history_def)
      then show ?thesis
      proof cases
        case 1
        show ?thesis by (rule conn_ok_write [OF assms(1) _ _ len(1)]) (use 1 started alive in \<open>auto simp: write_frame_def content_def same_history_def\<close>)
      next
        case 2
        show ?thesis by (rule conn_ok_done [OF assms(1) 2(2) _ len(1) started 2(4) alive 2(1)]) (use 2(3) in auto)
      qed
    qed
  next
    case CountQueued
    then show ?thesis using assms(2)
      by (intro conn_ok_write [OF assms(1) _ _ len(1) started _ alive]) (auto simp: WritePump_def content_def same_history_def started)
  next
    case (Draining n)
    show ?thesis
    proof (cases n)
      case 0
      then show ?thesis using assms(2) Draining
        by (intro conn_ok_write [OF assms(1) _ _ len(1) started _ alive]) (auto simp: WritePump_def content_def same_history_def started)
    next
      case (Suc n')
      then have "chBuf (cSend k) \<noteq> []" using len(2) Draining by fastforce
      then show ?thesis using conn_ok_receive [OF assms(1) _ _ started alive, of ok "Draining n'"] assms(2) Draining Suc len(2) by (simp add: WritePump_def)
    qed
  qed (use assms(2) alive in \<open>auto simp: WritePump_def\<close>)
qed

section \<open>The invariant of the hub\<close>

lemma hub_okD:
  assumes "hub_ok h"
  shows "c < length (conns h) \<Longrightarrow> conn_ok (conns h ! c) (hLoop h = Admitting c) (c \<in> set (clients h)) (seen h c) (taken h)"
    "distinct (clients h)" "c \<in> set (clients h) \<Longrightarrow> c < length (conns h)" "hLoop h = Admitting c \<Longrightarrow> c < length (conns h)"
  using assms by (simp_all add: hub_ok_def)

lemma set_conn_simps [simp]: "clients (set_conn c f h) = clients h" "taken (set_conn c f h) = taken h" "seen (set_conn c f h) d = seen h d"
    "hLoop (set_conn c f h) = hLoop h" "broadcast (set_conn c f h) = broadcast h" "maxClients (set_conn c f h) = maxClients h"
    "conns (set_conn c f h) = (conns h)[c := f (conns h ! c)]"
  by (simp_all add: set_conn_def seen_def split: loop_pc.split)

text \<open>A step that changes one connection and perhaps its membership.\<close>

lemma hub_ok_one:
  assumes "hub_ok h" "c < length (conns h)" "conns h' = (conns h)[c := k]" "conn_ok k (hLoop h' = Admitting c) (c \<in> set (clients h')) (seen h' c) (taken h')"
    and "taken h' = taken h" "\<And>d. d \<noteq> c \<Longrightarrow> (d \<in> set (clients h')) = (d \<in> set (clients h)) \<and> seen h' d = seen h d \<and> (hLoop h' = Admitting d) = (hLoop h = Admitting d)"
    and "distinct (clients h')" "broadcast h' = broadcast h" "maxClients h' = maxClients h"
    and "maxClients h > 0 \<Longrightarrow> int (length (clients h')) \<le> maxClients h"
    and "\<And>x cs. hLoop h' = Delivering x cs \<Longrightarrow> distinct cs \<and> set cs \<subseteq> set (clients h') \<and> (\<exists>log. taken h' = log @ [x])"
  shows "hub_ok h'"
proof -
  have "conn_ok (conns h' ! d) (hLoop h' = Admitting d) (d \<in> set (clients h')) (seen h' d) (taken h')" if "d < length (conns h')" for d
    using that assms(3-6) hub_okD(1) [OF assms(1), of d] by (cases "d = c") simp_all
  moreover have "d < length (conns h')" if "d \<in> set (clients h')" for d
    using that assms(2,3,6) hub_okD(3) [OF assms(1), of d] by (cases "d = c") simp_all
  moreover have "d < length (conns h')" if "hLoop h' = Admitting d" for d
    using that assms(2,3,6) hub_okD(4) [OF assms(1), of d] by (cases "d = c") simp_all
  ultimately show ?thesis using assms(1,7-11) unfolding hub_ok_def by simp
qed

lemma hub_ok_conn:
  assumes "hub_ok h" "c < length (conns h)" "conn_ok (f (conns h ! c)) (hLoop h = Admitting c) (c \<in> set (clients h)) (seen h c) (taken h)"
  shows "hub_ok (set_conn c f h)"
  by (rule hub_ok_one [OF assms(1,2), of _ "f (conns h ! c)"]) (use assms in \<open>auto simp: hub_ok_def\<close>)

text \<open>Every step of the loop keeps the invariant and does not panic.\<close>

lemma take_register_ok:
  assumes "hub_ok h" "hLoop h = Selecting" "c < length (conns h)" "cHandler (conns h ! c) = Registering"
  shows "hub_ok (take_register c h)"
  by (rule hub_ok_one [OF assms(1,3), of _ "(conns h ! c)\<lparr>cHandler := Sending\<rparr>"])
     (use conn_ok_take [OF hub_okD(1) [OF assms(1,3)] assms(4)] assms(1,2) in \<open>auto simp: take_register_def set_conn_def seen_def hub_ok_def\<close>)

lemma register_ok:
  assumes "hub_ok h" "hLoop h = Admitting c"
  shows "\<exists>h'. on_register c h = Ret h' \<and> hub_ok h'"
proof -
  let ?k = "conns h ! c"
  note c = hub_okD(4) [OF assms]
  note k = hub_okD(1) [OF assms(1) c]
  have out: "\<not> chClosed (cSend ?k)" "c \<notin> set (clients h)" "seen h c = taken h" using k assms(2) by (auto simp: conn_ok_defs seen_def)
  note adm = conn_ok_admit [of ?k "taken h" "taken h"]
  show ?thesis
  proof (cases "maxClients h > 0 \<and> int (length (clients h)) \<ge> maxClients h")
    case True
    let ?h = "(set_conn c (\<lambda>k. k\<lparr>cSend := (cSend k)\<lparr>chClosed := True\<rparr>\<rparr>) h)\<lparr>hLoop := Selecting\<rparr>"
    have "hub_ok ?h"
      by (rule hub_ok_one [OF assms(1) c, of _ "?k\<lparr>cSend := (cSend ?k)\<lparr>chClosed := True\<rparr>\<rparr>"])
         (use adm(2) k out assms in \<open>auto simp: set_conn_def seen_def hub_ok_def\<close>)
    moreover have "on_register c h = Ret ?h" using True out(1) c by (simp add: on_register_def shut_def close_chan_def set_conn_def Let_def)
    ultimately show ?thesis by blast
  next
    case False
    let ?h = "(set_conn c (\<lambda>k. k\<lparr>cJoined := Some (length (taken h))\<rparr>) h)\<lparr>clients := clients h @ [c], hLoop := Selecting\<rparr>"
    have "hub_ok ?h"
      by (rule hub_ok_one [OF assms(1) c, of _ "?k\<lparr>cJoined := Some (length (taken h))\<rparr>"])
         (use False adm(1) k out hub_okD(2) [OF assms(1)] assms(2) in \<open>auto simp: set_conn_def seen_def\<close>)
    moreover have "on_register c h = Ret ?h" using False by (auto simp: on_register_def set_conn_def Let_def)
    ultimately show ?thesis by blast
  qed
qed

lemma conn_swap: "k\<lparr>cReader := a, cOpen := b, cSend := s, cLeft := n\<rparr> = k\<lparr>cReader := a, cOpen := b, cLeft := n, cSend := s\<rparr>"
  by (cases k) simp

lemma unregister_ok:
  assumes "hub_ok h" "hLoop h = Selecting" "c < length (conns h)" "cReader (conns h ! c) = Unregistering"
  shows "\<exists>h'. on_unregister c h = Ret h' \<and> hub_ok h'"
proof -
  let ?k = "(conns h ! c)\<lparr>cReader := ReaderDone, cOpen := False\<rparr>"
  note k = hub_okD(1) [OF assms(1,3)]
  then have started: "cHandler (conns h ! c) = Started" using assms(4) by (auto simp: conn_ok_defs)
  note k' = conn_ok_reader(2) [OF k started, where r = ReaderDone and b = False]
  show ?thesis
  proof (cases "c \<in> set (clients h)")
    case True
    then have op: "\<not> chClosed (cSend ?k)" using k started assms(2) by (auto simp: conn_ok_defs)
    let ?k2 = "?k\<lparr>cSend := (cSend ?k)\<lparr>chClosed := True\<rparr>, cLeft := Some (length (taken h))\<rparr>"
    let ?h = "(set_conn c (\<lambda>_. ?k2) h)\<lparr>clients := remove1 c (clients h)\<rparr>"
    have "seen h c = take (length (taken h)) (taken h)" using assms(2) by (simp add: seen_def)
    then have "conn_ok ?k2 False False (seen ?h c) (taken ?h)"
      using conn_ok_shut [of ?k "length (taken h)" "taken h" "seen ?h c"] k' True assms(2) by (simp add: set_conn_def)
    then have "hub_ok ?h"
      by (intro hub_ok_one [OF assms(1,3), of _ ?k2])
         (use assms(1,2) hub_okD(2) [OF assms(1)] in \<open>auto simp: set_conn_def seen_def hub_ok_def length_remove1\<close>)
    moreover have "on_unregister c h = Ret ?h"
      using True op assms(3) by (cases h) (simp add: on_unregister_def shut_def close_chan_def remove_client_def set_conn_def Let_def conn_swap)
    ultimately show ?thesis by blast
  next
    case False
    then have "on_unregister c h = Ret (set_conn c (\<lambda>_. ?k) h)" using assms(3) by (simp add: on_unregister_def set_conn_def Let_def)
    moreover have "hub_ok (set_conn c (\<lambda>_. ?k) h)" by (rule hub_ok_conn [OF assms(1,3)]) (use k' in simp)
    ultimately show ?thesis by blast
  qed
qed

lemma deliver_ok:
  assumes "hub_ok h" "deliver h = Some r"
  shows "\<exists>h'. r = Ret h' \<and> hub_ok h'"
proof -
  obtain x cs0 where loop: "hLoop h = Delivering x cs0" using assms(2) by (auto simp: deliver_def split: loop_pc.splits)
  then obtain log where log: "taken h = log @ [x]" "distinct cs0" "set cs0 \<subseteq> set (clients h)" using assms(1) by (auto simp: hub_ok_def)
  show ?thesis
  proof (cases cs0)
    case Nil
    have "r = Ret (h\<lparr>hLoop := Selecting\<rparr>)" using assms(2) loop Nil by (simp add: deliver_def)
    moreover have "hub_ok (h\<lparr>hLoop := Selecting\<rparr>)" using assms(1) loop Nil by (simp add: hub_ok_def seen_def)
    ultimately show ?thesis by blast
  next
    case (Cons c cs)
    let ?k = "conns h ! c" and ?h = "h\<lparr>hLoop := Delivering x cs\<rparr>"
    have mem: "c \<in> set (clients h)" "c < length (conns h)" "c \<notin> set cs" using log Cons hub_okD(3) [OF assms(1)] by auto
    have k: "conn_ok ?k False True log (taken h)" using hub_okD(1) [OF assms(1) mem(2)] mem(1) loop Cons log(1) by (simp add: seen_def)
    then have op: "\<not> chClosed (cSend ?k)" by (cases "cHandler ?k = Registering") (auto simp: conn_ok_defs)
    show ?thesis
    proof (cases "length (chBuf (cSend ?k)) < bufferSize")
      case True
      let ?k' = "?k\<lparr>cSend := (cSend ?k)\<lparr>chBuf := chBuf (cSend ?k) @ [x]\<rparr>\<rparr>"
      have "r = Ret (set_conn c (\<lambda>_. ?k') ?h)" using assms(2) loop Cons op True by (simp add: deliver_def try_send_def set_conn_def)
      moreover have "hub_ok (set_conn c (\<lambda>_. ?k') ?h)"
        by (rule hub_ok_one [OF assms(1) mem(2), of _ ?k'])
           (use conn_ok_send [OF k True, of x] mem log loop Cons assms(1) in \<open>auto simp: set_conn_def seen_def hub_ok_def\<close>)
      ultimately show ?thesis by blast
    next
      case False
      let ?k' = "?k\<lparr>cSend := (cSend ?k)\<lparr>chClosed := True\<rparr>, cLeft := Some (length log)\<rparr>"
      let ?h' = "(set_conn c (\<lambda>_. ?k') ?h)\<lparr>clients := remove1 c (clients h)\<rparr>"
      have "conn_ok ?k' False False (seen ?h' c) (taken h)" using conn_ok_shut [of ?k "length log" "taken h"] k log(1) by simp
      then have "hub_ok ?h'"
        by (intro hub_ok_one [OF assms(1) mem(2), of _ ?k'])
           (use mem log loop Cons assms(1) in \<open>auto simp: set_conn_def seen_def hub_ok_def length_remove1\<close>)
      moreover have "r = Ret ?h'" using assms(2) loop Cons op False log(1) mem(2)
        by (simp add: deliver_def try_send_def shut_def close_chan_def remove_client_def set_conn_def)
      ultimately show ?thesis by blast
    qed
  qed
qed

lemma finish_ok:
  assumes "hub_ok h" "c < length (conns h)" "cHandler (conns h ! c) = Sending"
  shows "hub_ok (finish_handler c x h)"
proof -
  let ?k = "conns h ! c"
  note fin = conn_ok_finish [OF hub_okD(1) [OF assms(1,2)] assms(3)]
  show ?thesis
  proof (cases "x = None \<or> chClosed (cSend ?k) \<or> \<not> length (chBuf (cSend ?k)) < bufferSize")
    case True
    then have "chClosed (cSend ?k) \<and> finish_handler c x h = set_conn c (\<lambda>k. k\<lparr>cHandler := Crashed\<rparr>) h \<or>
        finish_handler c x h = set_conn c (\<lambda>k. k\<lparr>cHandler := Started, cWriter := WaitSend, cReader := Reading\<rparr>) h"
      by (cases x) (auto simp: finish_handler_def Send_client_def try_send_def)
    then show ?thesis using hub_ok_conn [OF assms(1,2)] fin(1,2) by metis
  next
    case False
    then obtain y where y: "x = Some y" by auto
    then have "finish_handler c x h = set_conn c (\<lambda>k. ?k\<lparr>cSend := (cSend ?k)\<lparr>chBuf := chBuf (cSend ?k) @ [y]\<rparr>, cFirst := Some y, cHandler := Started,
        cWriter := WaitSend, cReader := Reading\<rparr>) h"
      using False assms(2) by (simp add: finish_handler_def Send_client_def try_send_def set_conn_def)
    then show ?thesis using hub_ok_conn [OF assms(1,2)] fin(3) False by simp
  qed
qed

lemma step_ok:
  assumes "hub_ok h" "hub_exec ev h = Some r" "ev \<noteq> CallStop"
  shows "\<exists>h'. r = Ret h' \<and> hub_ok h'"
proof (cases ev)
  case Connect
  have "conn_ok NewClient False False s log" for s log by (simp add: conn_ok_defs NewClient_def content_def view_ok_def offered_def merged_def)
  moreover have "length (conns h) \<notin> set (clients h)" "hLoop h \<noteq> Admitting (length (conns h))"
    using hub_okD(3,4) [OF assms(1), of "length (conns h)"] by auto
  ultimately have "hub_ok (h\<lparr>conns := conns h @ [NewClient]\<rparr>)"
    using assms(1) by (auto simp: hub_ok_def seen_def nth_append less_Suc_eq split: loop_pc.splits)
  then show ?thesis using assms(2) Connect by auto
next
  case (TakeRegister c)
  then show ?thesis using assms take_register_ok by (auto split: if_splits)
next
  case Admit
  then show ?thesis using assms register_ok by (auto split: loop_pc.splits)
next
  case (TakeUnregister c)
  then show ?thesis using assms unregister_ok by (auto split: if_splits)
next
  case (TakeBroadcast order)
  then obtain x q where q: "broadcast h = x # q" "hLoop h = Selecting" "distinct order" "set order = set (clients h)"
    "r = Ret (h\<lparr>broadcast := q, hLoop := Delivering x order, taken := taken h @ [x]\<rparr>)"
    using assms(2) by (auto split: list.splits if_splits)
  let ?h = "h\<lparr>broadcast := q, hLoop := Delivering x order, taken := taken h @ [x]\<rparr>"
  have "conn_ok (conns ?h ! c) (hLoop ?h = Admitting c) (c \<in> set (clients ?h)) (seen ?h c) (taken ?h)" if "c < length (conns ?h)" for c
    using hub_okD(1) [OF assms(1), of c] that q(2,4) conn_ok_longer [of _ _ _ _ "taken h" x] conn_ok_outside
    by (cases "c \<in> set (clients h)") (auto simp: seen_def)
  then have "hub_ok ?h" using assms(1) q by (auto simp: hub_ok_def)
  then show ?thesis using q(5) by blast
next
  case Deliver
  then show ?thesis using assms deliver_ok by simp
next
  case TakeDone
  then have "r = Ret (h\<lparr>hLoop := Stopped\<rparr>)" "hLoop h = Selecting" using assms(2) by (auto split: if_splits)
  then show ?thesis using assms(1) by (auto simp: hub_ok_def seen_def)
next
  case (CallBroadcast x)
  then have "r = Ret (h\<lparr>broadcast := broadcast h @ [x]\<rparr>)" "length (broadcast h) < bufferSize"
    using assms(2) by (auto simp: Broadcast_hub_def split: if_splits)
  then show ?thesis using assms(1) by (auto simp: hub_ok_def seen_def split: loop_pc.splits)
next
  case (FinishHandler c x)
  then show ?thesis using assms finish_ok by (auto split: if_splits)
next
  case (WriterStep c ok tick)
  then obtain k where "c < length (conns h)" "WritePump ok tick (conns h ! c) = Some k" "r = Ret (set_conn c (\<lambda>_. k) h)"
    using assms(2) by (auto split: if_splits)
  moreover have "conn_ok k (hLoop h = Admitting c) (c \<in> set (clients h)) (seen h c) (taken h)"
    using conn_ok_writer [OF hub_okD(1) [OF assms(1)]] calculation by blast
  ultimately show ?thesis using hub_ok_conn [OF assms(1)] by metis
next
  case (ReadFails c)
  then have c: "c < length (conns h)" "cReader (conns h ! c) = Reading" "r = Ret (set_conn c (\<lambda>_. (conns h ! c)\<lparr>cReader := Unregistering\<rparr>) h)"
    using assms(2) by (auto simp: ReadPump_def split: if_splits)
  moreover have "cHandler (conns h ! c) = Started" using hub_okD(1) [OF assms(1) c(1)] c(2) by (auto simp: conn_ok_defs)
  ultimately have "hub_ok (set_conn c (\<lambda>_. (conns h ! c)\<lparr>cReader := Unregistering\<rparr>) h)"
    using hub_ok_conn [OF assms(1) c(1)] conn_ok_reader(1) [OF hub_okD(1) [OF assms(1) c(1)]] by simp
  then show ?thesis using c(3) by blast
qed (use assms(3) in simp)

lemma stop_ok: "hub_ok h \<Longrightarrow> hub_ok (h\<lparr>doneClosed := b\<rparr>)"
proof -
  assume "hub_ok h"
  moreover have "seen (h\<lparr>doneClosed := b\<rparr>) = seen h" by (simp add: seen_def fun_eq_iff split: loop_pc.split)
  ultimately show ?thesis by (simp add: hub_ok_def)
qed

lemma reachable_ok: "hub_reachable m h \<Longrightarrow> hub_ok h"
proof (induction rule: hub_reachable.induct)
  case New
  show ?case by (simp add: hub_ok_def NewHub_def)
next
  case (Step h ev h')
  show ?case
  proof (cases "ev = CallStop")
    case True
    then show ?thesis using Step stop_ok by (auto simp: Stop_hub_def split: if_splits)
  next
    case False
    then show ?thesis using Step step_ok by blast
  qed
qed

lemma reachable_max: "hub_reachable m h \<Longrightarrow> maxClients h = m"
proof (induction rule: hub_reachable.induct)
  case New
  show ?case by (simp add: NewHub_def)
next
  case (Step h ev h')
  have shut: "shut c h = Ret h' \<Longrightarrow> maxClients h' = maxClients h" for c h h' by (auto simp: shut_def split: outcome.splits)
  show ?case
  proof (cases ev)
    case (FinishHandler c x)
    then show ?thesis using Step by (auto simp: finish_handler_def Send_client_def split: if_splits option.splits outcome.splits)
  next
    case (TakeRegister c)
    then show ?thesis using Step by (auto simp: take_register_def split: if_splits)
  next
    case Admit
    then show ?thesis using Step shut by (force simp: on_register_def Let_def split: if_splits loop_pc.splits)
  next
    case (TakeUnregister c)
    then show ?thesis using Step shut by (force simp: on_unregister_def remove_client_def Let_def split: if_splits)
  next
    case Deliver
    then show ?thesis using Step shut by (force simp: deliver_def remove_client_def Let_def split: loop_pc.splits list.splits outcome.splits option.splits)
  qed (use Step in \<open>auto simp: Stop_hub_def Broadcast_hub_def split: if_splits list.splits\<close>)
qed

section \<open>How a connection evolves\<close>

inductive hub_steps :: "hub \<Rightarrow> hub \<Rightarrow> bool" for h :: hub where
  Here: "hub_steps h h"
| Next: "hub_steps h h1 \<Longrightarrow> hub_exec ev h1 = Some (Ret h2) \<Longrightarrow> hub_steps h h2"

lemma steps_reachable: "hub_steps h h' \<Longrightarrow> hub_reachable m h \<Longrightarrow> hub_reachable m h'"
  by (induction rule: hub_steps.induct) (auto intro: hub_reachable.Step)

text \<open>A connection stays, a handler that has panicked does nothing more, and only the loop's admission enters a client.\<close>

definition evolves :: "nat \<Rightarrow> hub \<Rightarrow> hub \<Rightarrow> bool" where
  "evolves c h h' \<longleftrightarrow> c < length (conns h') \<and> (cHandler (conns h ! c) = Crashed \<longrightarrow> cHandler (conns h' ! c) = Crashed) \<and>
     cJoined (conns h' ! c) = cJoined (conns h ! c)"

lemma evolves_refl: "c < length (conns h) \<Longrightarrow> conns h' = conns h \<Longrightarrow> evolves c h h'"
  by (simp add: evolves_def)

lemma evolves_trans: "evolves c h h1 \<Longrightarrow> evolves c h1 h2 \<Longrightarrow> evolves c h h2"
  by (auto simp: evolves_def)

lemma evolves_conn:
  assumes "c < length (conns h)" "d = c \<Longrightarrow> (cHandler (conns h ! c) = Crashed \<longrightarrow> cHandler (f (conns h ! c)) = Crashed) \<and> cJoined (f (conns h ! c)) = cJoined (conns h ! c)"
  shows "evolves c h (set_conn d f h)"
  using assms by (cases "d = c") (simp_all add: evolves_def set_conn_def)

lemma evolves_remove: "c < length (conns h) \<Longrightarrow> evolves c h (remove_client d n h)"
  by (cases "d = c") (simp_all add: evolves_def remove_client_def set_conn_def)

lemma evolves_shut: "c < length (conns h) \<Longrightarrow> shut d h = Ret h' \<Longrightarrow> evolves c h h'"
  by (auto simp: shut_def split: outcome.splits intro!: evolves_conn)

lemma evolves_loop: "c < length (conns h) \<Longrightarrow> evolves c (h\<lparr>hLoop := l\<rparr>) h' = evolves c h h'"
  by (simp add: evolves_def)

lemma deliver_cases [consumes 1, case_names Over Sent Gone]:
  assumes "deliver h = Some (Ret h')"
  obtains "h' = h\<lparr>hLoop := Selecting\<rparr>"
    | x d ds ch where "h' = set_conn d (\<lambda>k. k\<lparr>cSend := ch\<rparr>) (h\<lparr>hLoop := Delivering x ds\<rparr>)"
    | x d ds k n where "shut d (h\<lparr>hLoop := Delivering x ds\<rparr>) = Ret k" "h' = remove_client d n k"
  using assms by (auto simp: deliver_def Let_def split: loop_pc.splits list.splits outcome.splits option.splits)

lemma deliver_evolves:
  assumes "deliver h = Some (Ret h')" "c < length (conns h)"
  shows "evolves c h h'"
  using assms(1)
proof (cases rule: deliver_cases)
  case Over
  then show ?thesis using assms(2) by (simp add: evolves_def)
next
  case (Sent x d ds ch)
  then show ?thesis using evolves_conn [of c "h\<lparr>hLoop := Delivering x ds\<rparr>"] evolves_loop [OF assms(2)] assms(2) by simp
next
  case (Gone x d ds k n)
  have k: "evolves c h k" using evolves_shut [OF _ Gone(1), of c] evolves_loop [OF assms(2)] assms(2) by simp
  then have "evolves c k h'" using evolves_remove Gone(2) by (simp add: evolves_def)
  then show ?thesis by (rule evolves_trans [OF k])
qed

lemma step_evolves:
  assumes "hub_exec ev h = Some (Ret h')" "c < length (conns h)" "\<not> (ev = Admit \<and> hLoop h = Admitting c)"
  shows "evolves c h h'"
proof (cases ev)
  case (TakeRegister d)
  then have "cHandler (conns h ! d) = Registering" "h' = take_register d h" using assms(1) by (auto split: if_splits)
  then show ?thesis using assms(2) by (cases "d = c") (auto simp: evolves_def take_register_def set_conn_def)
next
  case Admit
  then obtain d where d: "d \<noteq> c" "on_register d h = Ret h'" using assms by (auto split: loop_pc.splits)
  then show ?thesis using assms(2) evolves_shut [of c "h\<lparr>hLoop := Selecting\<rparr>" d h'] evolves_loop [OF assms(2)]
    by (auto simp: on_register_def Let_def split: if_splits) (auto simp: evolves_def set_conn_def)
next
  case (TakeUnregister d)
  let ?h = "set_conn d (\<lambda>k. k\<lparr>cReader := ReaderDone, cOpen := False\<rparr>) h"
  have e: "evolves c h ?h" by (rule evolves_conn [OF assms(2)]) simp
  then have "evolves c ?h h'" using assms(1) TakeUnregister evolves_shut [of c "remove_client d (length (taken h)) ?h" d h'] evolves_remove [of c ?h d "length (taken h)"]
    by (auto simp: on_unregister_def Let_def evolves_refl split: if_splits dest: evolves_trans simp del: set_conn_simps) (auto simp: evolves_def)
  then show ?thesis by (rule evolves_trans [OF e])
next
  case Deliver
  then show ?thesis using assms deliver_evolves by simp
next
  case (FinishHandler d x)
  then have d: "d < length (conns h)" "cHandler (conns h ! d) = Sending" "h' = finish_handler d x h" using assms(1) by (auto split: if_splits)
  then have "\<exists>k. conns h' = (conns h)[d := k] \<and> cJoined k = cJoined (conns h ! d)"
    by (auto simp: finish_handler_def Send_client_def split: option.splits outcome.splits)
  then show ?thesis using assms(2) d(2) by (cases "d = c") (auto simp: evolves_def)
next
  case (WriterStep d ok tick)
  have "cHandler k' = cHandler k \<and> cJoined k' = cJoined k" if "WritePump ok tick k = Some k'" for k k'
    using that by (auto simp: WritePump_def receive_def write_frame_def split: writer_pc.splits nat.splits if_splits list.splits)
  then show ?thesis using assms WriterStep evolves_conn [OF assms(2)] by (auto split: if_splits simp del: set_conn_simps)
next
  case (ReadFails d)
  then show ?thesis using assms evolves_conn [OF assms(2)] by (auto simp: ReadPump_def split: if_splits simp del: set_conn_simps)
qed (use assms in \<open>auto simp: evolves_def nth_append Broadcast_hub_def Stop_hub_def split: if_splits list.splits\<close>)

lemma new_client:
  assumes "hub_exec ev h = Some (Ret h')" "c \<notin> set (clients h)" "c \<in> set (clients h')"
  shows "ev = Admit" "hLoop h = Admitting c" "on_register c h = Ret h'"
proof -
  have shut: "clients k' = clients k" if "shut d k = Ret k'" for d k k' using that by (auto simp: shut_def split: outcome.splits)
  have rem: "c \<in> set (clients k)" if "c \<in> set (clients (remove_client d n k))" for d n k
    using that by (auto simp: remove_client_def dest: set_remove1_subset [THEN subsetD])
  have "ev = Admit \<and> hLoop h = Admitting c"
  proof (cases ev)
    case (TakeUnregister d)
    let ?h = "set_conn d (\<lambda>k. k\<lparr>cReader := ReaderDone, cOpen := False\<rparr>) h"
    have "c \<notin> set (clients (remove_client d (length (taken h)) ?h))" using rem [of d _ ?h] assms(2) by auto
    then show ?thesis using assms TakeUnregister shut [of d "remove_client d (length (taken h)) ?h" h']
      by (auto simp: on_unregister_def Let_def split: if_splits)
  next
    case Deliver
    then have "deliver h = Some (Ret h')" using assms(1) by simp
    then have "c \<in> set (clients h)"
    proof (cases rule: deliver_cases)
      case (Gone x d ds k n)
      then show ?thesis using shut [of d] rem assms(3) by force
    qed (use assms(3) in auto)
    then show ?thesis using assms(2) by simp
  next
    case Admit
    then show ?thesis using assms by (fastforce simp: on_register_def Let_def dest!: shut split: if_splits loop_pc.splits)
  next
    case (FinishHandler d x)
    then show ?thesis using assms by (auto simp: finish_handler_def Send_client_def split: if_splits option.splits outcome.splits)
  qed (use assms in \<open>auto simp: take_register_def Broadcast_hub_def Stop_hub_def split: if_splits list.splits\<close>)
  then show "ev = Admit" "hLoop h = Admitting c" "on_register c h = Ret h'" using assms(1) by auto
qed

lemma joined_now:
  assumes "hub_ok h" "hub_exec ev h = Some (Ret h')" "c \<notin> set (clients h)" "c \<in> set (clients h')"
  shows "c < length (conns h') \<and> cJoined (conns h' ! c) = Some (length (taken h))"
proof -
  note new = new_client [OF assms(2-4)]
  show ?thesis using new(3) hub_okD(4) [OF assms(1) new(2)] assms(3,4) by (auto simp: on_register_def shut_def set_conn_def Let_def split: if_splits outcome.splits)
qed

lemma joined_stays:
  assumes "hub_ok h" "hub_exec ev h = Some (Ret h')" "c < length (conns h) \<and> cJoined (conns h ! c) = Some j"
  shows "c < length (conns h') \<and> cJoined (conns h' ! c) = Some j"
proof -
  have "hLoop h \<noteq> Admitting c" using hub_okD(1) [OF assms(1), of c] assms(3) by (auto simp: conn_ok_defs)
  then show ?thesis using step_evolves [OF assms(2), of c] assms(3) by (auto simp: evolves_def)
qed

lemma steps_joined:
  assumes "hub_steps h h'" "hub_ok h" "c < length (conns h) \<and> cJoined (conns h ! c) = Some j"
  shows "hub_ok h' \<and> c < length (conns h') \<and> cJoined (conns h' ! c) = Some j"
  using assms
proof (induction rule: hub_steps.induct)
  case (Next h1 ev h2)
  then have "hub_ok h2" using step_ok [of h1 ev "Ret h2"] stop_ok by (cases "ev = CallStop") (auto simp: Stop_hub_def split: if_splits)
  then show ?case using Next joined_stays by blast
qed simp

lemma crashed_stays:
  assumes "hub_exec ev h = Some (Ret h')" "c < length (conns h)" "cHandler (conns h ! c) = Crashed"
  shows "c < length (conns h') \<and> cHandler (conns h' ! c) = Crashed"
proof (cases "ev = Admit \<and> hLoop h = Admitting c")
  case True
  then have "on_register c h = Ret h'" using assms(1) by simp
  then show ?thesis using assms(2,3) by (auto simp: on_register_def shut_def set_conn_def Let_def split: if_splits outcome.splits)
next
  case False
  then show ?thesis using step_evolves [OF assms(1,2)] assms(3) by (simp add: evolves_def)
qed

section \<open>Properties\<close>

text \<open>C13: The loop of the hub never panics, in any interleaving of connections, disconnections, broadcasts and slow clients: no channel is
  closed twice and nothing is sent on a closed one. Only a second \<open>Stop\<close> can panic. No more than the permitted number of
  clients is registered, and no buffer exceeds its size.\<close>

theorem hub_never_panics:
  assumes "hub_reachable m h"
  shows "(hub_exec ev h = Some Panics \<longrightarrow> ev = CallStop) \<and> (m > 0 \<longrightarrow> int (ClientCount h) \<le> m) \<and> length (broadcast h) \<le> bufferSize \<and>
    (\<forall>c < length (conns h). length (chBuf (cSend (conns h ! c))) \<le> bufferSize)"
proof -
  note ok = reachable_ok [OF assms]
  have "length (chBuf (cSend (conns h ! c))) \<le> bufferSize" if "c < length (conns h)" for c
    using hub_okD(1) [OF ok that] by (simp add: conn_ok_defs)
  then show ?thesis using step_ok [OF ok] ok reachable_max [OF assms] by (auto simp: hub_ok_def ClientCount_def)
qed

theorem hub_never_panics_witness: "int (ClientCount (NewHub 3)) \<le> 3"
  using hub_never_panics [OF hub_reachable.New [of 3], of Connect] by simp

text \<open>C14: While a client is registered and its writer runs, what was written to it and what waits in its buffer are together exactly the events
  that the loop took from the moment it entered the client in its map, all of them, in their order and each once, with the first event
  of the handler, if it was put in the buffer, at one place among them. After the client was removed this is so of the events up
  to its removal, and once its writer has ended, what was written is a beginning of that.\<close>

theorem clients_get_every_event:
  assumes "hub_reachable m h0" "c \<notin> set (clients h0)" "hub_exec ev h0 = Some (Ret h1)" "c \<in> set (clients h1)" "hub_steps h1 h"
  shows "\<exists>got xs. merged (cFirst (conns h ! c)) (drop (length (taken h0)) got) xs \<and> prefix (texts (cFrames (conns h ! c))) xs \<and>
    (cWriter (conns h ! c) \<noteq> WriterDone \<longrightarrow> xs = texts (cFrames (conns h ! c)) @ chBuf (cSend (conns h ! c))) \<and>
    (c \<in> set (clients h) \<longrightarrow> got = seen h c) \<and> (c \<notin> set (clients h) \<longrightarrow> (\<exists>n. cLeft (conns h ! c) = Some n \<and> got = take n (taken h)))"
proof -
  let ?k = "conns h ! c"
  have reach: "hub_reachable m h" using steps_reachable [OF assms(5)] hub_reachable.Step [OF assms(1,3)] by blast
  note ok = reachable_ok [OF reach]
  have join: "c < length (conns h1) \<and> cJoined (conns h1 ! c) = Some (length (taken h0))" using joined_now [OF reachable_ok [OF assms(1)] assms(3,2,4)] .
  have c: "c < length (conns h) \<and> cJoined ?k = Some (length (taken h0))"
    using steps_joined [OF assms(5) reachable_ok [OF hub_reachable.Step [OF assms(1,3)]] join] by blast
  note k = hub_okD(1) [OF ok conjunct1 [OF c]]
  define got where "got = (case cLeft ?k of None \<Rightarrow> seen h c | Some n \<Rightarrow> take n (taken h))"
  obtain xs where xs: "merged (cFirst ?k) (drop (length (taken h0)) got) xs" "if cWriter ?k = WriterDone then prefix (texts (cFrames ?k)) xs else xs = content ?k"
    using k c by (auto simp: conn_ok_def view_ok_def offered_def got_def)
  then have "prefix (texts (cFrames ?k)) xs" "cWriter ?k \<noteq> WriterDone \<Longrightarrow> xs = texts (cFrames ?k) @ chBuf (cSend ?k)"
    by (auto simp: content_def split: if_splits)
  moreover have "c \<in> set (clients h) \<Longrightarrow> got = seen h c" "c \<notin> set (clients h) \<Longrightarrow> \<exists>n. cLeft ?k = Some n \<and> got = take n (taken h)"
    using k c by (auto simp: conn_ok_defs got_def)
  ultimately show ?thesis using xs(1) by blast
qed

text \<open>An event is broadcast before a client is admitted; then the client gets its first event and the next broadcast, and its writer
  has written the first event.\<close>

fun hub_run :: "ws_event list \<Rightarrow> hub \<Rightarrow> hub option" where
  "hub_run [] h = Some h"
| "hub_run (ev # evs) h = (case hub_exec ev h of Some (Ret h') \<Rightarrow> hub_run evs h' | _ \<Rightarrow> None)"

lemma hub_run_steps: "hub_run evs h1 = Some h2 \<Longrightarrow> hub_steps h h1 \<Longrightarrow> hub_steps h h2"
  by (induction evs h1 rule: hub_run.induct) (auto split: option.splits outcome.splits intro: hub_steps.Next)

lemma hub_run_reachable: "hub_run evs (NewHub m) = Some h \<Longrightarrow> hub_reachable m h"
  using steps_reachable [OF hub_run_steps [OF _ hub_steps.Here]] hub_reachable.New by blast

definition hub_before :: hub where
  "hub_before = \<lparr>clients = [], broadcast = [], doneClosed = False, maxClients = 1, hLoop = Admitting 0, conns = [NewClient\<lparr>cHandler := Sending\<rparr>], taken = [[5]]\<rparr>"

definition hub_admitted :: hub where
  "hub_admitted = hub_before\<lparr>clients := [0], hLoop := Selecting, conns := [NewClient\<lparr>cHandler := Sending, cJoined := Some 1\<rparr>]\<rparr>"

definition hub_with_client :: hub where
  "hub_with_client = hub_admitted\<lparr>taken := [[5], [7]], conns := [\<lparr>cSend = \<lparr>chBuf = [[7]], chClosed = False\<rparr>, cHandler = Started, cWriter = CountQueued,
     cReader = Reading, cFrames = [TextFrame [1]], cOpen = True, cFirst = Some [1], cJoined = Some 1, cLeft = None\<rparr>]\<rparr>"

lemma hub_before_reachable: "hub_reachable 1 hub_before"
  by (rule hub_run_reachable [of "[CallBroadcast [5], TakeBroadcast [], Deliver, Connect, TakeRegister 0]"])
     (simp add: NewHub_def Broadcast_hub_def bufferSize_def deliver_def NewClient_def take_register_def set_conn_def hub_before_def)

lemma hub_admit: "hub_exec Admit hub_before = Some (Ret hub_admitted)"
  by (simp add: hub_before_def hub_admitted_def on_register_def set_conn_def NewClient_def Let_def)

lemma hub_client_steps: "hub_steps hub_admitted hub_with_client"
  by (rule hub_run_steps [OF _ hub_steps.Here, of "[FinishHandler 0 (Some [1]), CallBroadcast [7], TakeBroadcast [0], Deliver, Deliver, WriterStep 0 True False]"])
     (simp add: hub_admitted_def hub_before_def hub_with_client_def NewClient_def finish_handler_def Send_client_def try_send_def bufferSize_def set_conn_def
       Broadcast_hub_def deliver_def WritePump_def receive_def write_frame_def)

lemma hub_with_client_reachable: "hub_reachable 1 hub_with_client"
  using steps_reachable [OF hub_client_steps] hub_reachable.Step [OF hub_before_reachable hub_admit] by blast

theorem clients_get_every_event_witness:
  "\<exists>got xs. merged (Some [1]) (drop 1 got) xs \<and> prefix [[1]] xs \<and> xs = [[1], [7]] \<and> got = [[5], [7]]"
proof -
  have "0 \<notin> set (clients hub_before)" "0 \<in> set (clients hub_admitted)" by (simp_all add: hub_before_def hub_admitted_def)
  note get = clients_get_every_event [OF hub_before_reachable this(1) hub_admit this(2) hub_client_steps]
  have "length (taken hub_before) = 1" by (simp add: hub_before_def)
  then show ?thesis using get by (auto simp: hub_with_client_def hub_admitted_def seen_def hub_before_def)
qed

text \<open>C39: When the hub is full and closes the channel of a new client before its handler sends the first event, the handler panics. The
  connection is then left behind: whatever happens afterwards, the program neither writes to it nor closes it.\<close>

theorem refused_connection_is_left:
  assumes "hub_reachable m h" "hLoop h = Selecting" "c < length (conns h)" "cHandler (conns h ! c) = Registering"
    and "m > 0" "int (ClientCount h) \<ge> m"
  shows "\<exists>h0 h1 h2. hub_exec (TakeRegister c) h = Some (Ret h0) \<and> hub_exec Admit h0 = Some (Ret h1) \<and> Send_client c x h1 = Panics \<and> hub_exec (FinishHandler c (Some x)) h1 = Some (Ret h2) \<and>
    (\<forall>h'. hub_steps h2 h' \<longrightarrow> cOpen (conns h' ! c) \<and> cFrames (conns h' ! c) = [] \<and> cWriter (conns h' ! c) = NoWriter)"
proof -
  let ?h0 = "take_register c h" and ?h1 = "set_conn c (\<lambda>k. k\<lparr>cHandler := Sending, cSend := (cSend k)\<lparr>chClosed := True\<rparr>\<rparr>) h"
  let ?h2 = "set_conn c (\<lambda>k. k\<lparr>cHandler := Crashed\<rparr>) ?h1"
  have op: "\<not> chClosed (cSend (conns h ! c))" using hub_okD(1) [OF reachable_ok [OF assms(1)] assms(3)] assms(4) by (simp add: conn_ok_defs)
  have h0: "hub_exec (TakeRegister c) h = Some (Ret ?h0)" using assms by simp
  have h1: "hub_exec Admit ?h0 = Some (Ret ?h1)"
    using assms op reachable_max [OF assms(1)] by (cases h) (simp add: take_register_def on_register_def shut_def close_chan_def set_conn_def ClientCount_def Let_def)
  have panic: "Send_client c x ?h1 = Panics" using assms(3) by (simp add: Send_client_def try_send_def)
  then have h2: "hub_exec (FinishHandler c (Some x)) ?h1 = Some (Ret ?h2)" using assms(3) by (simp add: finish_handler_def)
  have left: "cOpen (conns h' ! c) \<and> cFrames (conns h' ! c) = [] \<and> cWriter (conns h' ! c) = NoWriter" if "hub_steps ?h2 h'" for h'
  proof -
    have "c < length (conns h') \<and> cHandler (conns h' ! c) = Crashed"
      using that assms(3) by (induction rule: hub_steps.induct) (simp, use crashed_stays in blast)
    moreover have "hub_reachable m h'"
      using steps_reachable [OF that] hub_reachable.Step [OF hub_reachable.Step [OF hub_reachable.Step [OF assms(1) h0] h1] h2] by blast
    ultimately show ?thesis using hub_okD(1) [OF reachable_ok, of m h' c] by (auto simp: conn_ok_defs)
  qed
  show ?thesis using h0 h1 h2 panic left by blast
qed

theorem refused_connection_is_left_witness:
  "\<exists>h0 h1. hub_exec (TakeRegister 1) (hub_with_client\<lparr>conns := conns hub_with_client @ [NewClient]\<rparr>) = Some (Ret h0) \<and>
     hub_exec Admit h0 = Some (Ret h1) \<and> Send_client 1 [1] h1 = Panics"
proof -
  let ?h = "hub_with_client\<lparr>conns := conns hub_with_client @ [NewClient]\<rparr>"
  have r: "hub_reachable 1 ?h" by (rule hub_reachable.Step [OF hub_with_client_reachable, of Connect]) simp
  have "hLoop ?h = Selecting" "1 < length (conns ?h)" "cHandler (conns ?h ! 1) = Registering" "int (ClientCount ?h) \<ge> 1"
    by (simp_all add: hub_with_client_def hub_admitted_def hub_before_def NewClient_def ClientCount_def)
  then show ?thesis using refused_connection_is_left [OF r, of 1 "[1]"] by auto
qed

end
