(* ===== verification/Inventory.thy ===== *)
theory Inventory
  imports Targets
begin

text \<open>
  The inventory of seen devices (\<open>internal/inventory/service.go\<close>, \<open>oui.go\<close>, \<open>internal/api/handlers_inventory.go\<close>) and
  the history of probed networks (\<open>internal/probes/service.go\<close>, \<open>internal/api/handlers_probes.go\<close>). A device is an object on a heap:
  the goroutine that writes it reads it when it runs. Times are nanoseconds; whether a statement succeeds is an argument.
\<close>

section \<open>Vendors\<close>

text \<open>\<open>loadOUI\<close> on what the CSV reader yields: \<open>None\<close> is a line it cannot read. Fields are sliced as bytes.\<close>

definition oui_entry :: "unicode \<Rightarrow> string list option \<Rightarrow> (string \<times> string) option" where
  "oui_entry u record =
     (case record of
        Some (registry # assignment # org # _) \<Rightarrow>
          (let a = TrimSpace assignment; o' = TrimSpace org in
           if TrimSpace registry \<noteq> ''MA-L'' \<or> length a \<noteq> 6 \<or> o' = [] then None
           else Some (to_upper u (take 2 a) @ '':'' @ to_upper u (take 2 (drop 2 a)) @ '':'' @ to_upper u (drop 4 a), o'))
      | _ \<Rightarrow> None)"

record oui_db =
  ouiDB :: "(string \<times> string) list"
  ouiCount :: nat

definition loadOUI :: "unicode \<Rightarrow> bool \<Rightarrow> string list option list \<Rightarrow> oui_db \<Rightarrow> nat option \<times> oui_db" where
  "loadOUI u header records db =
     (let es = List.map_filter (oui_entry u) records in
      if \<not> header \<or> es = [] then (None, db)
      else (Some (length es), \<lparr>ouiDB = fold (\<lambda>(k, v). AList.update k v) es [], ouiCount = length es\<rparr>))"

definition lookup_oui :: "unicode \<Rightarrow> oui_db \<Rightarrow> string \<Rightarrow> string" where
  "lookup_oui u db mac = (if length mac < 8 then [] else (case map_of (ouiDB db) (to_upper u (take 8 mac)) of Some n \<Rightarrow> n | None \<Rightarrow> []))"

definition hex_nibble :: "char \<Rightarrow> nat option" where
  "hex_nibble c =
     (let n = of_char c in
      if 48 \<le> n \<and> n \<le> 57 then Some (n - 48)
      else if 65 \<le> n \<and> n \<le> 70 then Some (n - 65 + 10)
      else if 97 \<le> n \<and> n \<le> (102 :: nat) then Some (n - 97 + 10) else None)"

definition parseFirstByte :: "string \<Rightarrow> nat option" where
  "parseFirstByte mac =
     (case mac of
        a # b # _ \<Rightarrow> (case (hex_nibble a, hex_nibble b) of (Some x, Some y) \<Rightarrow> Some (16 * x + y) | _ \<Rightarrow> None)
      | _ \<Rightarrow> None)"

definition IsLocallyAdministered :: "string \<Rightarrow> bool" where
  "IsLocallyAdministered mac = (case parseFirstByte mac of Some b \<Rightarrow> (b div 2) mod 2 = 1 | None \<Rightarrow> False)"

definition IsMulticast :: "string \<Rightarrow> bool" where
  "IsMulticast mac = (case parseFirstByte mac of Some b \<Rightarrow> b mod 2 = 1 | None \<Rightarrow> False)"

section \<open>Devices\<close>

record Device =
  dvMAC :: string
  dvManufacturer :: string
  dvName :: string
  dvType :: string
  dvRSSI :: int
  dvLastSSID :: string
  dvFirstSeen :: int
  dvLastSeen :: int
  dvIsKnown :: bool
  dvNotes :: string
  dvHits :: int
  dvMinRSSI :: int
  dvMaxRSSI :: int
  dvAvgRSSI :: float64
  dvLastNodeID :: string
  dvLastLat :: float64
  dvLastLon :: float64
  dvChannel :: int
  dvLocallyAdministered :: bool
  dvMulticast :: bool

text \<open>The columns of \<open>inventory_devices\<close> that may be NULL are options.\<close>

record device_row =
  rwMAC :: string
  rwManufacturer :: "string option"
  rwName :: "string option"
  rwType :: "string option"
  rwRSSI :: int
  rwLastSSID :: "string option"
  rwFirstSeen :: int
  rwLastSeen :: int
  rwIsKnown :: bool
  rwNotes :: "string option"
  rwHits :: int
  rwMin :: "int option"
  rwMax :: "int option"
  rwAvg :: "float64 option"
  rwNode :: "string option"
  rwLat :: "float64 option"
  rwLon :: "float64 option"
  rwChannel :: "int option"
  rwLocal :: "bool option"
  rwMulticast :: "bool option"

record inventory =
  devices :: "(string \<times> nat) list"
  devHeap :: "Device list"
  devTasks :: "nat list"
  device_table :: "device_row list"

definition NewInventory :: inventory where
  "NewInventory = \<lparr>devices = [], devHeap = [], devTasks = [], device_table = []\<rparr>"

definition or_zero :: "'a \<Rightarrow> 'a option \<Rightarrow> 'a" where
  "or_zero z x = (case x of Some y \<Rightarrow> y | None \<Rightarrow> z)"

definition scan_device :: "device_row \<Rightarrow> Device" where
  "scan_device r = \<lparr>dvMAC = rwMAC r, dvManufacturer = or_zero [] (rwManufacturer r), dvName = or_zero [] (rwName r), dvType = or_zero [] (rwType r),
     dvRSSI = rwRSSI r, dvLastSSID = or_zero [] (rwLastSSID r), dvFirstSeen = rwFirstSeen r, dvLastSeen = rwLastSeen r, dvIsKnown = rwIsKnown r,
     dvNotes = or_zero [] (rwNotes r), dvHits = rwHits r, dvMinRSSI = or_zero 0 (rwMin r), dvMaxRSSI = or_zero 0 (rwMax r),
     dvAvgRSSI = or_zero (Fin 0) (rwAvg r), dvLastNodeID = or_zero [] (rwNode r), dvLastLat = or_zero (Fin 0) (rwLat r), dvLastLon = or_zero (Fin 0) (rwLon r),
     dvChannel = or_zero 0 (rwChannel r), dvLocallyAdministered = or_zero False (rwLocal r), dvMulticast = or_zero False (rwMulticast r)\<rparr>"

definition add_device :: "Device \<Rightarrow> inventory \<Rightarrow> inventory" where
  "add_device d s = s\<lparr>devices := AList.update (dvMAC d) (length (devHeap s)) (devices s), devHeap := devHeap s @ [d]\<rparr>"

definition Load_inventory :: "bool \<Rightarrow> inventory \<Rightarrow> inventory" where
  "Load_inventory ok s = (if ok then fold (\<lambda>r. add_device (scan_device r)) (device_table s) s else s)"

definition new_device :: "int \<Rightarrow> string \<Rightarrow> Device" where
  "new_device tm mac = \<lparr>dvMAC = mac, dvManufacturer = [], dvName = [], dvType = [], dvRSSI = 0, dvLastSSID = [], dvFirstSeen = tm, dvLastSeen = 0,
     dvIsKnown = False, dvNotes = [], dvHits = 0, dvMinRSSI = 0, dvMaxRSSI = 0, dvAvgRSSI = Fin 0, dvLastNodeID = [], dvLastLat = Fin 0,
     dvLastLon = Fin 0, dvChannel = 0, dvLocallyAdministered = IsLocallyAdministered mac, dvMulticast = IsMulticast mac\<rparr>"

definition put_names :: "string \<Rightarrow> string \<Rightarrow> Device \<Rightarrow> Device" where
  "put_names manufacturer ssid d = d\<lparr>dvManufacturer := if manufacturer \<noteq> [] then manufacturer else dvManufacturer d,
     dvLastSSID := if ssid \<noteq> [] then ssid else dvLastSSID d\<rparr>"

definition put_sensor :: "string \<Rightarrow> string \<Rightarrow> float64 \<Rightarrow> float64 \<Rightarrow> int option \<Rightarrow> Device \<Rightarrow> Device" where
  "put_sensor deviceType nodeID lat lon channel d =
     (let d = d\<lparr>dvType := if deviceType \<noteq> [] then deviceType else dvType d, dvLastNodeID := if nodeID \<noteq> [] then nodeID else dvLastNodeID d\<rparr>;
          d = (if lat \<noteq> Fin 0 \<and> lon \<noteq> Fin 0 then d\<lparr>dvLastLat := lat, dvLastLon := lon\<rparr> else d)
      in (case channel of Some c \<Rightarrow> if c > 0 then d\<lparr>dvChannel := c\<rparr> else d | None \<Rightarrow> d))"

text \<open>The running statistics; \<open>Hits\<close> counts sightings and stays far below its bound.\<close>

definition put_rssi :: "int \<Rightarrow> int \<Rightarrow> Device \<Rightarrow> Device" where
  "put_rssi tm rssi d =
     (let h = dvHits d + 1
      in d\<lparr>dvRSSI := rssi, dvLastSeen := tm, dvHits := h,
           dvMinRSSI := if dvMinRSSI d = 0 \<or> rssi < dvMinRSSI d then rssi else dvMinRSSI d,
           dvMaxRSSI := if rssi > dvMaxRSSI d then rssi else dvMaxRSSI d,
           dvAvgRSSI := fadd (dvAvgRSSI d) (fdiv (fsub (float_of_int rssi) (dvAvgRSSI d)) (float_of_int h))\<rparr>)"

text \<open>Find or make the object, change it, broadcast it and start the goroutine that writes it.\<close>

definition track_device :: "int \<Rightarrow> string \<Rightarrow> (Device \<Rightarrow> Device) \<Rightarrow> inventory \<Rightarrow> Device list \<times> inventory" where
  "track_device tm mac f s =
     (let (a, s) = (case map_of (devices s) mac of
              Some a \<Rightarrow> (a, s)
            | None \<Rightarrow> (length (devHeap s), s\<lparr>devices := AList.update mac (length (devHeap s)) (devices s), devHeap := devHeap s @ [new_device tm mac]\<rparr>));
          d = f (devHeap s ! a)
      in ([d], s\<lparr>devHeap := (devHeap s)[a := d], devTasks := devTasks s @ [a]\<rparr>))"

definition Track_device :: "int \<Rightarrow> string \<Rightarrow> string \<Rightarrow> string \<Rightarrow> int \<Rightarrow> inventory \<Rightarrow> Device list \<times> inventory" where
  "Track_device tm mac manufacturer ssid rssi = track_device tm mac (\<lambda>d. put_rssi tm rssi (put_names manufacturer ssid d))"

definition TrackFull_device :: "int \<Rightarrow> string \<Rightarrow> string \<Rightarrow> string \<Rightarrow> string \<Rightarrow> int \<Rightarrow> string \<Rightarrow> float64 \<Rightarrow> float64 \<Rightarrow> int option \<Rightarrow> inventory \<Rightarrow> Device list \<times> inventory" where
  "TrackFull_device tm mac manufacturer ssid deviceType rssi nodeID lat lon channel =
     track_device tm mac (\<lambda>d. put_rssi tm rssi (put_sensor deviceType nodeID lat lon channel (put_names manufacturer ssid d)))"

type_synonym device_order = "(string \<times> nat) list \<Rightarrow> nat list"

definition GetAll_devices :: "device_order \<Rightarrow> inventory \<Rightarrow> Device list" where
  "GetAll_devices order s = map (\<lambda>a. devHeap s ! a) (order (devices s))"

definition GetFiltered :: "device_order \<Rightarrow> string \<Rightarrow> int option \<Rightarrow> int option \<Rightarrow> inventory \<Rightarrow> Device list" where
  "GetFiltered order nodeID after before' s =
     filter (\<lambda>d. (nodeID = [] \<or> dvLastNodeID d = nodeID) \<and> (case after of Some t \<Rightarrow> t \<le> dvLastSeen d | None \<Rightarrow> True) \<and>
       (case before' of Some t \<Rightarrow> dvLastSeen d \<le> t | None \<Rightarrow> True)) (GetAll_devices order s)"

definition GetByMAC :: "string \<Rightarrow> inventory \<Rightarrow> Device option" where
  "GetByMAC mac s = map_option (\<lambda>a. devHeap s ! a) (map_of (devices s) mac)"

definition ClearAll_devices :: "bool \<Rightarrow> inventory \<Rightarrow> bool \<times> inventory" where
  "ClearAll_devices ok s = (ok, s\<lparr>devices := [], device_table := if ok then [] else device_table s\<rparr>)"

definition nilIfEmpty :: "string \<Rightarrow> string option" where
  "nilIfEmpty s = (if s = [] then None else Some s)"

definition nilIfZero :: "float64 \<Rightarrow> float64 option" where
  "nilIfZero f = (if f = Fin 0 then None else Some f)"

definition coalesced :: "'a option \<Rightarrow> 'a option \<Rightarrow> 'a option" where
  "coalesced x y = (case x of Some _ \<Rightarrow> x | None \<Rightarrow> y)"

definition upsert_device :: "Device \<Rightarrow> device_row \<Rightarrow> device_row" where
  "upsert_device d r = r\<lparr>rwManufacturer := Some (dvManufacturer d), rwRSSI := dvRSSI d, rwLastSSID := Some (dvLastSSID d), rwLastSeen := dvLastSeen d,
     rwHits := dvHits d, rwMin := Some (dvMinRSSI d), rwMax := Some (dvMaxRSSI d), rwAvg := Some (dvAvgRSSI d),
     rwNode := coalesced (nilIfEmpty (dvLastNodeID d)) (rwNode r), rwLat := coalesced (nilIfZero (dvLastLat d)) (rwLat r),
     rwLon := coalesced (nilIfZero (dvLastLon d)) (rwLon r), rwChannel := coalesced (if dvChannel d = 0 then None else Some (dvChannel d)) (rwChannel r),
     rwLocal := Some (dvLocallyAdministered d), rwMulticast := Some (dvMulticast d)\<rparr>"

definition insert_device :: "Device \<Rightarrow> device_row" where
  "insert_device d = upsert_device d \<lparr>rwMAC = dvMAC d, rwManufacturer = None, rwName = None, rwType = None, rwRSSI = 0, rwLastSSID = None,
     rwFirstSeen = dvFirstSeen d, rwLastSeen = 0, rwIsKnown = False, rwNotes = None, rwHits = 0, rwMin = None, rwMax = None, rwAvg = None, rwNode = None,
     rwLat = None, rwLon = None, rwChannel = None, rwLocal = None, rwMulticast = None\<rparr>"

text \<open>The column \<open>last_node_id\<close> has the type UUID and refers to \<open>nodes(id)\<close> (migration 000002): another value makes the statement fail. \<open>node_row\<close>
  tells which texts are identifiers of a row of \<open>nodes\<close>.\<close>

definition node_column_ok :: "(string \<Rightarrow> bool) \<Rightarrow> Device \<Rightarrow> bool" where
  "node_column_ok node_row d = (case nilIfEmpty (dvLastNodeID d) of Some i \<Rightarrow> node_row i | None \<Rightarrow> True)"

definition persist_device :: "bool \<Rightarrow> (string \<Rightarrow> bool) \<Rightarrow> nat \<Rightarrow> inventory \<Rightarrow> inventory" where
  "persist_device ok node_row a s =
     (let d = devHeap s ! a; rows = device_table s in
      if \<not> ok \<or> \<not> node_column_ok node_row d then s
      else if dvMAC d \<in> rwMAC ` set rows then s\<lparr>device_table := map (\<lambda>r. if rwMAC r = dvMAC d then upsert_device d r else r) rows\<rparr>
      else s\<lparr>device_table := rows @ [insert_device d]\<rparr>)"

definition Update_device :: "bool \<Rightarrow> string \<Rightarrow> string \<Rightarrow> string \<Rightarrow> string \<Rightarrow> bool \<Rightarrow> inventory \<Rightarrow> bool \<times> inventory" where
  "Update_device ok mac name deviceType notes known s =
     (let s = (case map_of (devices s) mac of
            Some a \<Rightarrow> s\<lparr>devHeap := (devHeap s)[a := (devHeap s ! a)\<lparr>dvName := name, dvType := deviceType, dvNotes := notes, dvIsKnown := known\<rparr>]\<rparr>
          | None \<Rightarrow> s)
      in (ok, if ok then s\<lparr>device_table := map (\<lambda>r. if rwMAC r = mac
            then r\<lparr>rwName := Some name, rwType := Some deviceType, rwNotes := Some notes, rwIsKnown := known\<rparr> else r) (device_table s)\<rparr> else s))"

section \<open>Handlers of the inventory\<close>

datatype inventory_body = DevicesBody "Device list" | PromotedBody Target | InventoryOK | InventoryFailed string

text \<open>The two bounds: absent, not a time (with the message of the parser), or a time.\<close>

datatype time_query = NoTime | BadTime string | AtTime int

definition time_of :: "time_query \<Rightarrow> int option" where
  "time_of q = (case q of AtTime t \<Rightarrow> Some t | _ \<Rightarrow> None)"

definition handleListInventory :: "device_order \<Rightarrow> string \<Rightarrow> time_query \<Rightarrow> time_query \<Rightarrow> inventory \<Rightarrow> nat \<times> inventory_body" where
  "handleListInventory order nodeID after before' s =
     (if nodeID = [] \<and> after = NoTime \<and> before' = NoTime then (200, DevicesBody (GetAll_devices order s))
      else (case (after, before') of
              (BadTime e, _) \<Rightarrow> (400, InventoryFailed (''seenAfter must be RFC3339: '' @ e))
            | (_, BadTime e) \<Rightarrow> (400, InventoryFailed (''seenBefore must be RFC3339: '' @ e))
            | _ \<Rightarrow> (200, DevicesBody (GetFiltered order nodeID (time_of after) (time_of before') s))))"

definition handleClearInventory :: "bool \<Rightarrow> string \<Rightarrow> inventory \<Rightarrow> (nat \<times> inventory_body) \<times> inventory" where
  "handleClearInventory ok e s =
     (case ClearAll_devices ok s of (True, s) \<Rightarrow> ((200, InventoryOK), s) | (False, s) \<Rightarrow> ((500, InventoryFailed (''failed to clear inventory: '' @ e)), s))"

definition promoted_target :: "string \<Rightarrow> Device option \<Rightarrow> Target" where
  "promoted_target mac dev =
     (let name = (case dev of
            Some d \<Rightarrow> if dvName d \<noteq> [] then dvName d else if dvLastSSID d \<noteq> [] then dvLastSSID d else ''Promoted: '' @ mac
          | None \<Rightarrow> ''Promoted: '' @ mac);
          manufacturer = (case dev of Some d \<Rightarrow> dvManufacturer d | None \<Rightarrow> []);
          ssid = (case dev of Some d \<Rightarrow> dvLastSSID d | None \<Rightarrow> []);
          desc = ''Promoted from inventory (MAC: '' @ mac @ (if manufacturer \<noteq> [] then '', manufacturer: '' @ manufacturer else []) @
            (if ssid \<noteq> [] then '', SSID: '' @ ssid else []) @ '')''
      in Target0\<lparr>tgName := name, tgDescription := desc, TargetType := (case dev of Some d \<Rightarrow> dvType d | None \<Rightarrow> []), tgMAC := mac,
           tgLatitude := (case dev of Some d \<Rightarrow> dvLastLat d | None \<Rightarrow> Fin 0), tgLongitude := (case dev of Some d \<Rightarrow> dvLastLon d | None \<Rightarrow> Fin 0),
           tgStatus := ''active''\<rparr>)"

definition handlePromoteToTarget :: "int \<Rightarrow> string option \<Rightarrow> string \<Rightarrow> string \<Rightarrow> inventory \<Rightarrow> target_service \<Rightarrow> (nat \<times> inventory_body) \<times> target_effect list \<times> target_service" where
  "handlePromoteToTarget tm ins e mac iv s =
     (if mac = [] then ((400, InventoryFailed ''mac is required''), [], s)
      else (case Create_target tm ins (promoted_target mac (GetByMAC mac iv)) s of
              (None, s) \<Rightarrow> ((500, InventoryFailed (''failed to create target: '' @ e)), [], s)
            | (Some (t, es), s) \<Rightarrow> ((201, PromotedBody t), es, s)))"

definition handleUpdateInventoryDevice :: "bool \<Rightarrow> string \<Rightarrow> (string \<times> string \<times> string \<times> bool) option \<Rightarrow> inventory \<Rightarrow> (nat \<times> inventory_body) \<times> inventory" where
  "handleUpdateInventoryDevice ok mac body s =
     (case body of
        None \<Rightarrow> ((400, InventoryFailed ''invalid request body''), s)
      | Some (name, deviceType, notes, known) \<Rightarrow>
          (case Update_device ok mac name deviceType notes known s of
             (True, s) \<Rightarrow> ((200, InventoryOK), s) | (False, s) \<Rightarrow> ((500, InventoryFailed ''failed to update device''), s)))"

end
