(* ===== verification/Probes.thy ===== *)
theory Probes
  imports Inventory
begin

text \<open>
  Probed networks by name and detecting node: \<open>internal/probes/service.go\<close> and \<open>internal/api/handlers_probes.go\<close>. The
  tables \<open>probe_ssids\<close> and \<open>probe_ssid_mac_samples\<close> are lists of rows; the goroutines of \<open>Track\<close> are tasks. Times are
  nanoseconds.
\<close>

section \<open>Rows\<close>

record SSIDStat =
  psSSID :: string
  psNodeID :: string
  psFirstSeen :: int
  psLastSeen :: int
  psHitCount :: int
  psGhostCount :: int
  psRespondedCount :: int
  psDstCount :: int
  psLastRSSI :: "int option"
  psLastChannel :: "int option"
  psLastMAC :: "string option"

record mac_sample =
  msSSID :: string
  msNodeID :: string
  msMAC :: string
  msLastSeen :: int

record probe_task =
  ptSSID :: string
  ptNodeID :: string
  ptMAC :: string
  ptRSSI :: int
  ptChannel :: int
  ptGhost :: bool
  ptDst :: bool

record probe_service =
  probe_table :: "SSIDStat list"
  sample_table :: "mac_sample list"
  probeTasks :: "probe_task list"

definition NewProbes :: probe_service where
  "NewProbes = \<lparr>probe_table = [], sample_table = [], probeTasks = []\<rparr>"

section \<open>Recording\<close>

definition Track_probe :: "unicode \<Rightarrow> string \<Rightarrow> string \<Rightarrow> string \<Rightarrow> int \<Rightarrow> int \<Rightarrow> bool \<Rightarrow> bool \<Rightarrow> probe_service \<Rightarrow> probe_service" where
  "Track_probe u ssid nodeID mac rssi channel ghost dst s =
     (let ssid = TrimSpace ssid; nodeID = TrimSpace nodeID in
      if ssid = [] \<or> nodeID = [] then s
      else s\<lparr>probeTasks := probeTasks s @ [\<lparr>ptSSID = ssid, ptNodeID = nodeID, ptMAC = to_upper u (TrimSpace mac), ptRSSI = rssi, ptChannel = channel,
        ptGhost = ghost, ptDst = dst\<rparr>]\<rparr>)"

definition nilIfZeroInt :: "int \<Rightarrow> int option" where
  "nilIfZeroInt n = (if n = 0 then None else Some n)"

definition count1 :: "bool \<Rightarrow> int" where
  "count1 b = (if b then 1 else 0)"

definition insert_probe :: "int \<Rightarrow> probe_task \<Rightarrow> SSIDStat" where
  "insert_probe tm t = \<lparr>psSSID = ptSSID t, psNodeID = ptNodeID t, psFirstSeen = tm, psLastSeen = tm, psHitCount = 1, psGhostCount = count1 (ptGhost t),
     psRespondedCount = count1 (\<not> ptGhost t), psDstCount = count1 (ptDst t), psLastRSSI = nilIfZeroInt (ptRSSI t),
     psLastChannel = nilIfZeroInt (ptChannel t), psLastMAC = nilIfEmpty (ptMAC t)\<rparr>"

definition update_probe :: "int \<Rightarrow> probe_task \<Rightarrow> SSIDStat \<Rightarrow> SSIDStat" where
  "update_probe tm t r = r\<lparr>psLastSeen := tm, psHitCount := psHitCount r + 1, psGhostCount := psGhostCount r + count1 (ptGhost t),
     psRespondedCount := psRespondedCount r + count1 (\<not> ptGhost t), psDstCount := psDstCount r + count1 (ptDst t),
     psLastRSSI := nilIfZeroInt (ptRSSI t), psLastChannel := coalesced (nilIfZeroInt (ptChannel t)) (psLastChannel r),
     psLastMAC := coalesced (nilIfEmpty (ptMAC t)) (psLastMAC r)\<rparr>"

definition probe_key :: "SSIDStat \<Rightarrow> string \<times> string" where
  "probe_key r = (psSSID r, psNodeID r)"

definition sample_key :: "mac_sample \<Rightarrow> string \<times> string \<times> string" where
  "sample_key r = (msSSID r, msNodeID r, msMAC r)"

definition upsert_sample :: "int \<Rightarrow> probe_task \<Rightarrow> mac_sample list \<Rightarrow> mac_sample list" where
  "upsert_sample tm t rows =
     (let k = (ptSSID t, ptNodeID t, ptMAC t) in
      if k \<in> sample_key ` set rows then map (\<lambda>r. if sample_key r = k then r\<lparr>msLastSeen := tm\<rparr> else r) rows
      else rows @ [\<lparr>msSSID = ptSSID t, msNodeID = ptNodeID t, msMAC = ptMAC t, msLastSeen = tm\<rparr>])"

text \<open>\<open>ok\<close> and \<open>ok'\<close>: whether the two statements succeed.\<close>

definition persist_probe :: "bool \<Rightarrow> bool \<Rightarrow> int \<Rightarrow> probe_task \<Rightarrow> probe_service \<Rightarrow> probe_service" where
  "persist_probe ok ok' tm t s =
     (if \<not> ok then s
      else (let k = (ptSSID t, ptNodeID t); rows = probe_table s;
                s = s\<lparr>probe_table := if k \<in> probe_key ` set rows then map (\<lambda>r. if probe_key r = k then update_probe tm t r else r) rows
                  else rows @ [insert_probe tm t]\<rparr>
            in if ptMAC t \<noteq> [] \<and> ok' then s\<lparr>sample_table := upsert_sample tm t (sample_table s)\<rparr> else s))"

definition PruneMacSamples :: "bool \<Rightarrow> int \<Rightarrow> int \<Rightarrow> probe_service \<Rightarrow> nat option \<times> probe_service" where
  "PruneMacSamples ok tm retention s =
     (if ok then (let old = filter (\<lambda>r. msLastSeen r < tm - retention) (sample_table s)
        in (Some (length old), s\<lparr>sample_table := filter (\<lambda>r. \<not> msLastSeen r < tm - retention) (sample_table s)\<rparr>))
      else (None, s))"

section \<open>Queries\<close>

text \<open>A row with the number of addresses seen for it in the last 24 hours.\<close>

definition distinct_macs :: "int \<Rightarrow> probe_service \<Rightarrow> SSIDStat \<Rightarrow> SSIDStat \<times> nat" where
  "distinct_macs tm s p = (p, length (filter (\<lambda>m. msSSID m = psSSID p \<and> msNodeID m = psNodeID p \<and> msLastSeen m > tm - 86400 * 10 ^ 9) (sample_table s)))"

definition desc_by :: "('a \<Rightarrow> 'b :: linorder) \<Rightarrow> 'a list \<Rightarrow> 'a list" where
  "desc_by f xs = rev (sort_key f xs)"

definition ListAll_probes :: "int \<Rightarrow> int \<Rightarrow> probe_service \<Rightarrow> (SSIDStat \<times> nat) list" where
  "ListAll_probes tm limit s =
     (let rows = desc_by psLastSeen (probe_table s) in map (distinct_macs tm s) (if limit > 0 then take (nat limit) rows else rows))"

definition GetForSSID :: "int \<Rightarrow> (string \<Rightarrow> nat) \<Rightarrow> string \<Rightarrow> probe_service \<Rightarrow> (SSIDStat \<times> nat) list" where
  "GetForSSID tm collate ssid s =
     map (distinct_macs tm s) (sort_key (\<lambda>r. collate (psNodeID r)) (filter (\<lambda>r. psSSID r = ssid) (probe_table s)))"

definition GetForCommandWindow :: "int \<Rightarrow> string \<Rightarrow> int option \<Rightarrow> int option \<Rightarrow> probe_service \<Rightarrow> (SSIDStat \<times> nat) list" where
  "GetForCommandWindow tm nodeID after before' s =
     map (distinct_macs tm s) (desc_by psHitCount (rev (desc_by psLastSeen (filter (\<lambda>r. (nodeID = [] \<or> psNodeID r = nodeID) \<and>
       (case after of Some t \<Rightarrow> t \<le> psLastSeen r | None \<Rightarrow> True) \<and> (case before' of Some t \<Rightarrow> psLastSeen r \<le> t | None \<Rightarrow> True)) (probe_table s)))))"

definition GetForNode :: "int \<Rightarrow> string \<Rightarrow> probe_service \<Rightarrow> (SSIDStat \<times> nat) list" where
  "GetForNode tm nodeID s = map (distinct_macs tm s) (desc_by psHitCount (filter (\<lambda>r. psNodeID r = nodeID) (probe_table s)))"

section \<open>Handlers\<close>

datatype probe_body = ProbeRows "(SSIDStat \<times> nat) list" | ProbeFailed string

definition rows_or :: "bool \<Rightarrow> string \<Rightarrow> string \<Rightarrow> (SSIDStat \<times> nat) list \<Rightarrow> nat \<times> probe_body" where
  "rows_or ok msg e rows = (if ok then (200, ProbeRows rows) else (500, ProbeFailed (msg @ e)))"

definition handleListProbeSSIDs :: "bool \<Rightarrow> string \<Rightarrow> int \<Rightarrow> string \<Rightarrow> probe_service \<Rightarrow> nat \<times> probe_body" where
  "handleListProbeSSIDs ok e tm limit s =
     (let n = (case Atoi limit of Some n \<Rightarrow> if n > 0 \<and> n \<le> 10000 then n else 500 | None \<Rightarrow> 500)
      in rows_or ok ''failed to list probe ssids: '' e (ListAll_probes tm n s))"

definition handleProbeSSIDsByName :: "bool \<Rightarrow> string \<Rightarrow> int \<Rightarrow> (string \<Rightarrow> nat) \<Rightarrow> string \<Rightarrow> probe_service \<Rightarrow> nat \<times> probe_body" where
  "handleProbeSSIDsByName ok e tm collate ssid s =
     (if ssid = [] then (400, ProbeFailed ''ssid query parameter is required'')
      else rows_or ok ''failed to query probe ssids: '' e (GetForSSID tm collate ssid s))"

definition handleProbeSSIDsForCommand :: "bool \<Rightarrow> string \<Rightarrow> int \<Rightarrow> string \<Rightarrow> time_query \<Rightarrow> time_query \<Rightarrow> probe_service \<Rightarrow> nat \<times> probe_body" where
  "handleProbeSSIDsForCommand ok e tm nodeID after before' s =
     (case (after, before') of
        (BadTime x, _) \<Rightarrow> (400, ProbeFailed (''seenAfter must be RFC3339: '' @ x))
      | (_, BadTime x) \<Rightarrow> (400, ProbeFailed (''seenBefore must be RFC3339: '' @ x))
      | _ \<Rightarrow> rows_or ok ''failed to query probe ssids: '' e (GetForCommandWindow tm nodeID (time_of after) (time_of before') s))"

definition handleProbeSSIDsByNode :: "bool \<Rightarrow> string \<Rightarrow> int \<Rightarrow> string \<Rightarrow> probe_service \<Rightarrow> nat \<times> probe_body" where
  "handleProbeSSIDsByNode ok e tm nodeID s =
     (if nodeID = [] then (400, ProbeFailed ''nodeId query parameter is required'')
      else rows_or ok ''failed to query probe ssids: '' e (GetForNode tm nodeID s))"

end
