(* ===== verification/InventoryProofs.thy ===== *)
theory InventoryProofs
  imports Probes
begin

text \<open>
  The inventory over every sequence of operations and background writes: devices that sensors report are never stored,
  and what the signal statistics are; the counters of probed networks.
\<close>

section \<open>Operations on the inventory\<close>

text \<open>\<open>Write\<close> runs a waiting goroutine; it has what the table of nodes holds at that time. \<open>Restart\<close> starts the program again.\<close>

datatype inventory_op =
    TrackOp int string string string int
  | SenseOp int string string string string int string float64 float64 "int option"
  | EditOp bool string string string string bool
  | ClearOp bool
  | WriteOp bool "string \<Rightarrow> bool" nat
  | RestartOp bool

fun inventory_exec :: "inventory_op \<Rightarrow> inventory \<Rightarrow> inventory" where
  "inventory_exec (TrackOp tm mac manufacturer ssid rssi) s = snd (Track_device tm mac manufacturer ssid rssi s)"
| "inventory_exec (SenseOp tm mac manufacturer ssid deviceType rssi nodeID lat lon channel) s =
     snd (TrackFull_device tm mac manufacturer ssid deviceType rssi nodeID lat lon channel s)"
| "inventory_exec (EditOp ok mac name deviceType notes known) s = snd (Update_device ok mac name deviceType notes known s)"
| "inventory_exec (ClearOp ok) s = snd (ClearAll_devices ok s)"
| "inventory_exec (WriteOp ok node_row i) s =
     (if i < length (devTasks s) then persist_device ok node_row (devTasks s ! i) (s\<lparr>devTasks := take i (devTasks s) @ drop (Suc i) (devTasks s)\<rparr>) else s)"
| "inventory_exec (RestartOp ok) s = Load_inventory ok (s\<lparr>devices := [], devHeap := [], devTasks := []\<rparr>)"

definition inventory_run :: "inventory_op list \<Rightarrow> inventory" where
  "inventory_run ops = fold inventory_exec ops NewInventory"

text \<open>An operation under which a device stays a device of sensors: it is not tracked without a node, its sensor has a name that is not a UUID, and the
  identifiers of nodes are UUIDs, whose text has 36 characters.\<close>

fun by_sensors :: "string \<Rightarrow> inventory_op \<Rightarrow> bool" where
  "by_sensors mac (TrackOp _ m _ _ _) \<longleftrightarrow> m \<noteq> mac"
| "by_sensors mac (SenseOp _ m _ _ _ _ nodeID _ _ _) \<longleftrightarrow> m = mac \<longrightarrow> nodeID \<noteq> [] \<and> length nodeID \<noteq> 36"
| "by_sensors mac (WriteOp _ node_row _) \<longleftrightarrow> (\<forall>i. node_row i \<longrightarrow> length i = 36)"
| "by_sensors mac _ \<longleftrightarrow> True"

definition inventory_ok :: "string \<Rightarrow> inventory \<Rightarrow> bool" where
  "inventory_ok mac s \<longleftrightarrow> mac \<notin> rwMAC ` set (device_table s) \<and> (\<forall>(m, a) \<in> set (devices s). a < length (devHeap s) \<and> dvMAC (devHeap s ! a) = m) \<and>
     (\<forall>a \<in> set (devTasks s). a < length (devHeap s)) \<and>
     (\<forall>d \<in> set (devHeap s). dvMAC d = mac \<longrightarrow> dvLastNodeID d \<noteq> [] \<and> length (dvLastNodeID d) \<noteq> 36)"

lemma put_mac [simp]: "dvMAC (put_rssi tm rssi d) = dvMAC d" "dvMAC (put_names a b d) = dvMAC d" "dvMAC (put_sensor t n lat lon c d) = dvMAC d"
    "dvLastNodeID (put_rssi tm rssi d) = dvLastNodeID d" "dvLastNodeID (put_names a b d) = dvLastNodeID d"
    "dvLastNodeID (put_sensor t n lat lon c d) = (if n \<noteq> [] then n else dvLastNodeID d)" "dvMAC (new_device tm m) = m"
  by (auto simp: put_rssi_def put_names_def put_sensor_def new_device_def Let_def split: option.splits)

lemma set_updates: "set (AList.update k v m) \<subseteq> insert (k, v) (set m)"
  by (induction m) auto

lemma add_ok:
  assumes "inventory_ok mac s" "dvMAC d = m" "m = mac \<Longrightarrow> dvLastNodeID d \<noteq> [] \<and> length (dvLastNodeID d) \<noteq> 36" "\<And>a. a \<in> set ts \<Longrightarrow> a \<le> length (devHeap s)"
  shows "inventory_ok mac (s\<lparr>devices := AList.update m (length (devHeap s)) (devices s), devHeap := devHeap s @ [d], devTasks := ts\<rparr>)"
proof -
  have old: "a < length (devHeap s) \<and> dvMAC (devHeap s ! a) = k" if "(k, a) \<in> set (devices s)" for k a
    using assms(1) that unfolding inventory_ok_def by blast
  have "a < Suc (length (devHeap s)) \<and> dvMAC ((devHeap s @ [d]) ! a) = k" if upd: "(k, a) \<in> set (AList.update m (length (devHeap s)) (devices s))" for k a
  proof -
    consider "k = m" "a = length (devHeap s)" | "(k, a) \<in> set (devices s)" using upd set_updates [of m "length (devHeap s)" "devices s"] by blast
    then show ?thesis using old [of k a] assms(2) by cases (simp_all add: nth_append)
  qed
  moreover have "a < Suc (length (devHeap s))" if "a \<in> set ts" for a using assms(4) [OF that] by simp
  ultimately show ?thesis using assms(1-3) unfolding inventory_ok_def by (auto simp: case_prod_beta' simp del: nth_append)
qed

lemma track_device_ok:
  assumes "inventory_ok mac s" "\<And>d. dvMAC (f d) = dvMAC d"
    and "\<And>d. m = mac \<Longrightarrow> dvLastNodeID (f d) \<noteq> [] \<and> length (dvLastNodeID (f d)) \<noteq> 36"
  shows "inventory_ok mac (snd (track_device tm m f s))"
proof (cases "map_of (devices s) m")
  case None
  have "snd (track_device tm m f s) = s\<lparr>devices := AList.update m (length (devHeap s)) (devices s), devHeap := devHeap s @ [f (new_device tm m)],
      devTasks := devTasks s @ [length (devHeap s)]\<rparr>" using None by (simp add: track_device_def Let_def list_update_append)
  moreover have "a \<le> length (devHeap s)" if "a \<in> set (devTasks s @ [length (devHeap s)])" for a using assms(1) that by (auto simp: inventory_ok_def)
  moreover have "dvMAC (f (new_device tm m)) = m" using assms(2) by simp
  ultimately show ?thesis using add_ok [OF assms(1), of "f (new_device tm m)" m "devTasks s @ [length (devHeap s)]"] assms(3) by simp
next
  case (Some a)
  then have a: "a < length (devHeap s)" "dvMAC (devHeap s ! a) = m" using assms(1) map_of_SomeD [OF Some] by (auto simp: inventory_ok_def)
  have "snd (track_device tm m f s) = s\<lparr>devHeap := (devHeap s)[a := f (devHeap s ! a)], devTasks := devTasks s @ [a]\<rparr>"
    using Some by (simp add: track_device_def Let_def)
  moreover have "dvMAC ((devHeap s)[a := f (devHeap s ! a)] ! b) = dvMAC (devHeap s ! b)" if "b < length (devHeap s)" for b
    using that assms(2) by (cases "a = b") simp_all
  moreover have "d = f (devHeap s ! a) \<or> d \<in> set (devHeap s)" if "d \<in> set ((devHeap s)[a := f (devHeap s ! a)])" for d
    using that set_update_subset_insert [of "devHeap s" a] by blast
  ultimately show ?thesis using assms a by (fastforce simp: inventory_ok_def)
qed

lemma persist_ok:
  assumes "inventory_ok mac s" "a < length (devHeap s)" "\<And>i. node_row i \<Longrightarrow> length i = 36"
  shows "inventory_ok mac (persist_device ok node_row a s)"
proof (cases "\<not> ok \<or> \<not> node_column_ok node_row (devHeap s ! a)")
  case False
  have mac: "dvMAC (devHeap s ! a) \<noteq> mac"
  proof
    assume "dvMAC (devHeap s ! a) = mac"
    then have "dvLastNodeID (devHeap s ! a) \<noteq> []" "length (dvLastNodeID (devHeap s ! a)) \<noteq> 36" using assms(1,2) nth_mem by (auto simp: inventory_ok_def)
    then show False using False assms(3) by (auto simp: node_column_ok_def nilIfEmpty_def)
  qed
  have [simp]: "rwMAC (upsert_device d r) = rwMAC r" "rwMAC (insert_device d) = dvMAC d" for d r by (simp_all add: upsert_device_def insert_device_def)
  show ?thesis using assms(1) False mac by (auto simp: persist_device_def Let_def inventory_ok_def)
qed (use assms(1) in \<open>auto simp: persist_device_def Let_def\<close>)

lemma load_ok:
  assumes "inventory_ok mac s"
  shows "inventory_ok mac (Load_inventory ok (s\<lparr>devices := [], devHeap := [], devTasks := []\<rparr>))"
proof -
  have fold: "inventory_ok mac (fold (\<lambda>r. add_device (scan_device r)) rs t)" if "inventory_ok mac t" "mac \<notin> rwMAC ` set rs" for rs t
    using that
  proof (induction rs arbitrary: t)
    case (Cons r rs)
    have m: "dvMAC (scan_device r) = rwMAC r" by (simp add: scan_device_def)
    have "add_device (scan_device r) t = t\<lparr>devices := AList.update (rwMAC r) (length (devHeap t)) (devices t), devHeap := devHeap t @ [scan_device r], devTasks := devTasks t\<rparr>"
      by (simp add: add_device_def m)
    moreover have "a \<le> length (devHeap t)" if "a \<in> set (devTasks t)" for a using Cons.prems(1) that by (auto simp: inventory_ok_def)
    ultimately have "inventory_ok mac (add_device (scan_device r) t)" using add_ok [OF Cons.prems(1) m, of "devTasks t"] Cons.prems(2) by auto
    then show ?case using Cons.IH Cons.prems(2) by auto
  qed simp
  have start: "inventory_ok mac (s\<lparr>devices := [], devHeap := [], devTasks := []\<rparr>)" "mac \<notin> rwMAC ` set (device_table s)"
    using assms by (simp_all add: inventory_ok_def)
  show ?thesis using fold [OF start] start(1) by (simp add: Load_inventory_def)
qed

lemma exec_ok: assumes "inventory_ok mac s" "by_sensors mac op" shows "inventory_ok mac (inventory_exec op s)"
proof (cases op)
  case (TrackOp tm m manufacturer ssid rssi)
  then show ?thesis using assms(2) by (auto simp: Track_device_def intro!: track_device_ok [OF assms(1)])
next
  case (SenseOp tm m manufacturer ssid deviceType rssi nodeID lat lon channel)
  then show ?thesis using assms(2) by (auto simp: TrackFull_device_def intro!: track_device_ok [OF assms(1)])
next
  case (EditOp ok m name deviceType nts known)
  have rows: "rwMAC ` set (map (\<lambda>r. if rwMAC r = m then r\<lparr>rwName := a, rwType := b, rwNotes := c, rwIsKnown := e\<rparr> else r) rs) = rwMAC ` set rs" for a b c e rs
    by (induction rs) auto
  have heap: "dvMAC ((devHeap s)[i := (devHeap s ! i)\<lparr>dvName := name, dvType := deviceType, dvNotes := nts, dvIsKnown := known\<rparr>] ! b) = dvMAC (devHeap s ! b)"
    if "b < length (devHeap s)" for b i using that by (cases "i = b") simp_all
  have sub: "d = (devHeap s ! i)\<lparr>dvName := name, dvType := deviceType, dvNotes := nts, dvIsKnown := known\<rparr> \<or> d \<in> set (devHeap s)"
    if "d \<in> set ((devHeap s)[i := (devHeap s ! i)\<lparr>dvName := name, dvType := deviceType, dvNotes := nts, dvIsKnown := known\<rparr>])" for d i
    using that set_update_subset_insert [of "devHeap s" i] by blast
  have "i < length (devHeap s)" if "map_of (devices s) m = Some i" for i using assms(1) map_of_SomeD [OF that] by (auto simp: inventory_ok_def)
  then show ?thesis using assms(1) EditOp rows heap
    by (auto simp: inventory_ok_def Update_device_def Let_def split: option.splits dest!: sub)
next
  case (WriteOp ok node_row i)
  let ?s = "s\<lparr>devTasks := take i (devTasks s) @ drop (Suc i) (devTasks s)\<rparr>"
  have "inventory_ok mac ?s" using assms(1) by (auto simp: inventory_ok_def dest: in_set_takeD in_set_dropD)
  moreover have "i < length (devTasks s) \<Longrightarrow> devTasks s ! i < length (devHeap s)" using assms(1) by (simp add: inventory_ok_def)
  ultimately show ?thesis using assms WriteOp persist_ok [of mac ?s] by simp
next
  case (RestartOp ok)
  then show ?thesis using load_ok [OF assms(1)] by simp
qed (use assms in \<open>auto simp: inventory_ok_def ClearAll_devices_def\<close>)

text \<open>C15: A device that only sensors report is never stored, whatever else is tracked, edited, cleared or written and however often the program is
  restarted: its writer puts the name of the sensor into a column that refers to the identifiers of nodes, and the statement
  fails.\<close>

theorem sensed_devices_are_never_stored:
  assumes "\<And>op. op \<in> set ops \<Longrightarrow> by_sensors mac op"
  shows "mac \<notin> rwMAC ` set (device_table (inventory_run ops))"
proof -
  have "inventory_ok mac NewInventory" by (simp add: inventory_ok_def NewInventory_def)
  then have "inventory_ok mac (fold inventory_exec ops NewInventory)" using assms
  proof (induction ops rule: rev_induct)
    case (snoc op ops)
    then show ?case using exec_ok by simp
  qed simp
  then show ?thesis by (simp add: inventory_run_def inventory_ok_def)
qed

theorem sensed_devices_are_never_stored_witness:
  "''AA:BB:CC:DD:EE:FF'' \<notin> rwMAC ` set (device_table (inventory_run
     [SenseOp 5 ''AA:BB:CC:DD:EE:FF'' [] [] ''wifi'' (-60) ''!00000005'' (Fin 0) (Fin 0) (Some 6), WriteOp True (\<lambda>i. i = replicate 36 CHR ''0'') 0]))"
  by (rule sensed_devices_are_never_stored) auto

section \<open>Signal statistics\<close>

text \<open>After any number of sightings with negative signal strengths, as receivers report them, the number of hits and the weakest signal are right and
  the strongest is 0: the maximum starts at 0, which no sighting exceeds.\<close>

theorem rssi_statistics:
  fixes tm mac xs
  defines "d \<equiv> fold (\<lambda>(t, r). put_rssi t r) xs (new_device tm mac)"
  assumes "xs \<noteq> []" "list_all (\<lambda>(_, r). r < 0) xs"
  shows "dvHits d = int (length xs) \<and> dvMinRSSI d = Min (snd ` set xs) \<and> dvRSSI d = snd (last xs) \<and> dvMaxRSSI d = 0"
  using assms(2,3) unfolding d_def
proof (induction xs rule: rev_nonempty_induct)
  case (single x)
  then show ?case by (cases x) (auto simp: put_rssi_def new_device_def Let_def)
next
  case (snoc x xs)
  obtain t r where x: "x = (t, r)" by fastforce
  define e M where "e = fold (\<lambda>(t, r). put_rssi t r) xs (new_device tm mac)" and "M = Min (snd ` set xs)"
  have "snd (hd xs) \<in> snd ` set xs" "snd (hd xs) < 0"
    using snoc.hyps snoc.prems hd_in_set [of xs] by (auto simp: list_all_iff case_prod_beta')
  then have neg: "M < 0" unfolding M_def by (meson List.finite_set Min_le finite_imageI order_le_less_trans)
  have "dvHits e = int (length xs) \<and> dvMinRSSI e = M \<and> dvMaxRSSI e = 0" using snoc by (simp add: e_def M_def)
  then have "dvHits (put_rssi t r e) = int (length xs) + 1 \<and> dvMinRSSI (put_rssi t r e) = min M r \<and> dvRSSI (put_rssi t r e) = r \<and> dvMaxRSSI (put_rssi t r e) = 0"
    using neg snoc.prems x by (simp add: put_rssi_def Let_def min_def)
  moreover have "Min (snd ` set (xs @ [x])) = min M r" using snoc.hyps x by (simp add: M_def min.commute)
  ultimately show ?case using x by (simp add: e_def)
qed

theorem rssi_statistics_witness: "dvMaxRSSI (fold (\<lambda>(t, r). put_rssi t r) [(1, -70), (2, -50)] (new_device 0 ''AA'')) = 0"
  using rssi_statistics [of "[(1, -70), (2, -50)]" 0 "''AA''"] by simp

end
