(* ===== verification/AppConfig.thy ===== *)
theory AppConfig
  imports Alerts Nodes Manager Encode "HOL-Library.Multiset"
begin

text \<open>
  The configuration kept in the database: \<open>internal/config/appconfig.go\<close>, \<open>internal/api/handlers_config.go\<close>. The table
  \<open>app_config\<close> has rows for sites and rows without one; the program writes and reads only those without. A value is a JSON value.
\<close>

section \<open>The cache and the table\<close>

record app_config =
  cfgCache :: "(string \<times> json) list"
  cfg_table :: "(string \<times> json) list"

definition NewAppConfig :: app_config where
  "NewAppConfig = \<lparr>cfgCache = [], cfg_table = []\<rparr>"

text \<open>\<open>rows\<close> is what the query yields: the rows of the table in an order that is up to the database.\<close>

definition Load_config :: "(string \<times> json) list option \<Rightarrow> app_config \<Rightarrow> app_config" where
  "Load_config rows s = (case rows of Some rs \<Rightarrow> s\<lparr>cfgCache := fold (\<lambda>(k, v). AList.update k v) rs (cfgCache s)\<rparr> | None \<Rightarrow> s)"

definition Get_config :: "string \<Rightarrow> app_config \<Rightarrow> json option" where
  "Get_config key s = map_of (cfgCache s) key"

text \<open>
  The upsert names the columns \<open>(site_id, key)\<close> as its conflict target. Their unique constraint (migration 000001) takes NULLs as
  distinct, so a row without a site is never in conflict with another one and the statement always inserts.
\<close>

definition Set_config :: "bool \<Rightarrow> string \<Rightarrow> json \<Rightarrow> app_config \<Rightarrow> bool \<times> app_config" where
  "Set_config ok key value s =
     (if ok then (True, s\<lparr>cfg_table := cfg_table s @ [(key, value)], cfgCache := AList.update key value (cfgCache s)\<rparr>) else (False, s))"

definition JInt :: "int \<Rightarrow> json" where
  "JInt n = JNum (Fin (of_int n))"

definition default_config :: "(string \<times> json) list" where
  "default_config = [(''appName'', JStr ''DigiNode CC''), (''timezone'', JStr []), (''env'', JStr ''PRODUCTION''), (''protocol'', JStr ''meshtastic-binary''),
     (''ackTimeoutMs'', JInt 3000), (''resultTimeoutMs'', JInt 10000), (''maxRetries'', JInt 2), (''perNodeCmdRate'', JInt 8), (''globalCmdRate'', JInt 30),
     (''detectMode'', JInt 2), (''detectChannels'', JStr ''1..14''), (''detectScanSecs'', JInt 300), (''allowForever'', JBool False),
     (''baselineSecs'', JInt 300), (''deviceScanSecs'', JInt 300), (''droneSecs'', JInt 600), (''deauthSecs'', JInt 300), (''randomizeSecs'', JInt 600),
     (''defaultRadiusM'', JInt 50), (''logLevel'', JStr ''info''), (''structuredLogs'', JBool True), (''nodePosRetentionDays'', JInt 30),
     (''commandRetentionDays'', JInt 180), (''auditRetentionDays'', JInt 365), (''metricsEnabled'', JBool False), (''metricsPath'', JStr ''/metrics''),
     (''healthEnabled'', JBool True), (''mapTileUrl'', JStr ''https://tile.openstreetmap.org/{z}/{x}/{y}.png''), (''mapAttribution'', JStr ''OpenStreetMap''),
     (''mapTileProvider'', JStr ''default''), (''minZoom'', JInt 2), (''maxZoom'', JInt 18), (''invitationExpiryHours'', JInt 48),
     (''passwordResetExpiryHours'', JInt 4), (''gpsBroadcastEnabled'', JBool True), (''statusBroadcastEnabled'', JBool True),
     (''statusBroadcastIntervalSecs'', JInt 600), (''statusReplyEnabled'', JBool True)]"

text \<open>\<open>order\<close> is the iteration over the map of defaults, \<open>ok n\<close> the result of the \<open>n\<close>th statement; an error ends the loop.\<close>

fun ensure_loop :: "(nat \<Rightarrow> bool) \<Rightarrow> nat \<Rightarrow> (string \<times> json) list \<Rightarrow> app_config \<Rightarrow> bool \<times> app_config" where
  "ensure_loop ok n [] s = (True, s)"
| "ensure_loop ok n ((k, v) # kvs) s =
     (if Get_config k s \<noteq> None then ensure_loop ok n kvs s
      else (case Set_config (ok n) k v s of (True, s) \<Rightarrow> ensure_loop ok (Suc n) kvs s | (False, s) \<Rightarrow> (False, s)))"

definition EnsureDefaults :: "(nat \<Rightarrow> bool) \<Rightarrow> ((string \<times> json) list \<Rightarrow> (string \<times> json) list) \<Rightarrow> app_config \<Rightarrow> bool \<times> app_config" where
  "EnsureDefaults ok order s = ensure_loop ok 0 (order default_config) s"

definition GetAll_config :: "app_config \<Rightarrow> string \<rightharpoonup> json" where
  "GetAll_config s = map_of (cfgCache s)"

text \<open>\<open>GetTyped\<close> into a variable that holds \<open>x\<close>: no error and the variable as it was when there is no value or null; an error for another type.\<close>

definition typed_bool :: "string \<Rightarrow> bool \<Rightarrow> app_config \<Rightarrow> bool option" where
  "typed_bool key x s = (case Get_config key s of None \<Rightarrow> Some x | Some JNull \<Rightarrow> Some x | Some (JBool b) \<Rightarrow> Some b | _ \<Rightarrow> None)"

definition typed_int :: "string \<Rightarrow> int \<Rightarrow> app_config \<Rightarrow> int option" where
  "typed_int key x s =
     (case Get_config key s of
        None \<Rightarrow> Some x
      | Some JNull \<Rightarrow> Some x
      | Some (JNum (Fin q)) \<Rightarrow> if q = of_int \<lfloor>q\<rfloor> \<and> - (2 ^ 63) \<le> \<lfloor>q\<rfloor> \<and> \<lfloor>q\<rfloor> < 2 ^ 63 then Some \<lfloor>q\<rfloor> else None
      | _ \<Rightarrow> None)"

section \<open>Handlers\<close>

datatype config_body = ConfigBody "string \<rightharpoonup> json" | ValueBody json | ConfigOK | ConfigFailed string

record config_env =
  cePick :: nat
  ceConnected :: bool
  ceRandom :: "byte list"

text \<open>\<open>applyGpsBroadcast\<close>: what it writes to the radio; \<open>None\<close> is an error, which is only logged.\<close>

definition applyGpsBroadcast :: "config_env \<Rightarrow> node_service \<Rightarrow> json \<Rightarrow> byte list option" where
  "applyGpsBroadcast e nodes v =
     (case (case v of JBool b \<Rightarrow> Some b | JNull \<Rightarrow> Some False | _ \<Rightarrow> None) of
        None \<Rightarrow> None
      | Some enabled \<Rightarrow>
         (let num = GetLocalNodeNum (cePick e) nodes in
          if num = 0 then None
          else (case SendToRadio (ceConnected e) (BuildAdminPositionConfig (ceRandom e) num (if enabled then 2 else 0)) of
                  Inr wire \<Rightarrow> Some wire | Inl _ \<Rightarrow> None)))"

definition runConfigSideEffects :: "config_env \<Rightarrow> node_service \<Rightarrow> string \<Rightarrow> json \<Rightarrow> byte list list" where
  "runConfigSideEffects e nodes key v =
     (if key = ''gpsBroadcastEnabled'' then (case applyGpsBroadcast e nodes v of Some w \<Rightarrow> [w] | None \<Rightarrow> []) else [])"

definition handleGetConfig :: "app_config \<Rightarrow> nat \<times> config_body" where
  "handleGetConfig s = (200, ConfigBody (GetAll_config s))"

text \<open>The body is decoded into fields in the order of the iteration over its map. A value that cannot be decoded does not occur after that.\<close>

fun update_loop :: "config_env \<Rightarrow> node_service \<Rightarrow> (nat \<Rightarrow> bool) \<Rightarrow> nat \<Rightarrow> (string \<times> json) list \<Rightarrow> app_config \<Rightarrow> (nat \<times> config_body) \<times> byte list list \<times> app_config" where
  "update_loop e nodes ok n [] s = ((200, ConfigOK), [], s)"
| "update_loop e nodes ok n ((k, v) # kvs) s =
     (case Set_config (ok n) k v s of
        (False, s) \<Rightarrow> ((500, ConfigFailed (''failed to set config key: '' @ k)), [], s)
      | (True, s) \<Rightarrow> (let (r, ws, s) = update_loop e nodes ok (Suc n) kvs s in (r, runConfigSideEffects e nodes k v @ ws, s)))"

definition handleUpdateConfig :: "config_env \<Rightarrow> node_service \<Rightarrow> (nat \<Rightarrow> bool) \<Rightarrow> (string \<times> json) list option \<Rightarrow> app_config
    \<Rightarrow> (nat \<times> config_body) \<times> byte list list \<times> app_config" where
  "handleUpdateConfig e nodes ok body s =
     (case body of None \<Rightarrow> ((400, ConfigFailed ''invalid request body''), [], s) | Some kvs \<Rightarrow> update_loop e nodes ok 0 kvs s)"

definition handleGetConfigKey :: "string \<Rightarrow> app_config \<Rightarrow> nat \<times> config_body" where
  "handleGetConfigKey key s = (case Get_config key s of None \<Rightarrow> (404, ConfigFailed ''config key not found'') | Some v \<Rightarrow> (200, ValueBody v))"

text \<open>\<open>body\<close>: \<open>None\<close> when it is not an object, \<open>Some None\<close> when the field \<open>value\<close> is missing and cannot be decoded.\<close>

definition handleUpdateConfigKey :: "config_env \<Rightarrow> node_service \<Rightarrow> bool \<Rightarrow> string \<Rightarrow> json option option \<Rightarrow> app_config
    \<Rightarrow> (nat \<times> config_body) \<times> byte list list \<times> app_config" where
  "handleUpdateConfigKey e nodes ok key body s =
     (case body of
        None \<Rightarrow> ((400, ConfigFailed ''invalid request body''), [], s)
      | Some None \<Rightarrow> ((400, ConfigFailed ''invalid value''), [], s)
      | Some (Some v) \<Rightarrow>
          (case Set_config ok key v s of
             (False, s) \<Rightarrow> ((500, ConfigFailed ''failed to set config key''), [], s)
           | (True, s) \<Rightarrow> ((200, ConfigOK), runConfigSideEffects e nodes key v, s)))"

section \<open>Restarts and resets\<close>

text \<open>A restart loads the rows, in the order in which the query yields them, into a new cache.\<close>

definition restart_config :: "(string \<times> json) list \<Rightarrow> app_config \<Rightarrow> app_config" where
  "restart_config rows s = Load_config (Some rows) (s\<lparr>cfgCache := []\<rparr>)"

text \<open>What the factory reset does to the configuration: it deletes the rows, an error is ignored, and the cache is left as it is.\<close>

definition reset_config :: "bool \<Rightarrow> app_config \<Rightarrow> app_config" where
  "reset_config ok s = (if ok then s\<lparr>cfg_table := []\<rparr> else s)"

datatype config_op =
    SetOp bool string json
  | DefaultsOp "nat \<Rightarrow> bool" "(string \<times> json) list"
  | ResetOp bool
  | RestartOp "(string \<times> json) list \<Rightarrow> (string \<times> json) list"

fun config_exec :: "config_op \<Rightarrow> app_config \<Rightarrow> app_config" where
  "config_exec (SetOp ok k v) s = snd (Set_config ok k v s)"
| "config_exec (DefaultsOp ok kvs) s = snd (ensure_loop ok 0 kvs s)"
| "config_exec (ResetOp ok) s = reset_config ok s"
| "config_exec (RestartOp order) s = restart_config (order (cfg_table s)) s"

text \<open>The values given to keys since the last factory reset, in order, read off the operations: a successful \<open>Set\<close>, and the defaults that were
  missing when they were set, up to the first error.\<close>

fun default_writes :: "(nat \<Rightarrow> bool) \<Rightarrow> nat \<Rightarrow> (string \<times> json) list \<Rightarrow> string set \<Rightarrow> (string \<times> json) list" where
  "default_writes ok n [] known = []"
| "default_writes ok n ((k, v) # kvs) known =
     (if k \<in> known then default_writes ok n kvs known else if ok n then (k, v) # default_writes ok (Suc n) kvs (insert k known) else [])"

fun written :: "config_op list \<Rightarrow> app_config \<Rightarrow> (string \<times> json) list \<Rightarrow> (string \<times> json) list" where
  "written [] s h = h"
| "written (op # ops) s h = written ops (config_exec op s)
     (case op of
        SetOp ok k v \<Rightarrow> if ok then h @ [(k, v)] else h
      | DefaultsOp ok kvs \<Rightarrow> h @ default_writes ok 0 kvs {k. Get_config k s \<noteq> None}
      | ResetOp ok \<Rightarrow> if ok then [] else h
      | RestartOp _ \<Rightarrow> h)"

lemma config_rows: "map_of (fold (\<lambda>(k, v). AList.update k v) rs m) = map_of m ++ map_of (rev rs)"
proof (induction rs arbitrary: m)
  case (Cons r rs)
  obtain k v where r: "r = (k, v)" by fastforce
  show ?case using Cons r by (simp add: update_conv' fun_eq_iff map_add_def split: option.splits)
qed simp

lemma restart_get: "Get_config key (restart_config rows s) = map_of (rev rows) key"
  by (simp add: restart_config_def Load_config_def Get_config_def config_rows)

lemma defaults_table: "cfg_table (snd (ensure_loop ok n kvs s)) = cfg_table s @ default_writes ok n kvs {k. Get_config k s \<noteq> None}"
proof (induction ok n kvs s rule: ensure_loop.induct)
  case (2 ok n k v kvs s)
  show ?case
  proof (cases "Get_config k s \<noteq> None \<or> \<not> ok n")
    case True
    then show ?thesis using 2 by (cases "Get_config k s") (auto simp: Set_config_def)
  next
    case False
    let ?s = "snd (Set_config True k v s)"
    have "ensure_loop ok n ((k, v) # kvs) s = ensure_loop ok (Suc n) kvs ?s" using False by (simp add: Set_config_def)
    moreover have "{x. Get_config x ?s \<noteq> None} = insert k {x. Get_config x s \<noteq> None}" by (auto simp: Get_config_def Set_config_def update_conv')
    moreover have "cfg_table ?s = cfg_table s @ [(k, v)]" by (simp add: Set_config_def)
    ultimately show ?thesis using 2(2) [of True ?s] False by (simp add: Set_config_def)
  qed
qed simp

lemma run_table: "cfg_table (fold config_exec ops s) = written ops s (cfg_table s)"
proof (induction ops arbitrary: s)
  case (Cons op ops)
  show ?case using Cons [of "config_exec op s"]
    by (cases op) (simp_all add: Set_config_def reset_config_def defaults_table restart_config_def Load_config_def)
qed simp

text \<open>C40: When the database yields the rows in the order they were written, a restart gives every key the value that was written last since the last factory
  reset. But the upsert never replaces a row and the order of the rows is not specified: the values of a key that a restart can bring back
  are all those it was given since the reset, the overwritten ones too. A factory reset itself leaves the running
  program with its old values, which are gone after the next restart.\<close>

theorem restart_may_restore_any_value:
  fixes ops
  defines "s \<equiv> fold config_exec ops NewAppConfig"
  shows "Get_config key (restart_config (cfg_table s) s) = map_of (rev (written ops NewAppConfig [])) key \<and>
    {v. \<exists>rows. mset rows = mset (cfg_table s) \<and> Get_config key (restart_config rows s) = Some v} = {v. (key, v) \<in> set (written ops NewAppConfig [])} \<and>
    Get_config key (reset_config True s) = Get_config key s \<and>
    Get_config key (restart_config (cfg_table (reset_config True s)) (reset_config True s)) = None"
proof -
  have table: "cfg_table s = written ops NewAppConfig []" using run_table [of ops NewAppConfig] by (simp add: s_def NewAppConfig_def)
  have "(key, v) \<in> set (cfg_table s)" if "mset rows = mset (cfg_table s)" "map_of (rev rows) key = Some v" for rows v
    using map_of_SomeD [OF that(2)] mset_eq_setD [OF that(1)] by simp
  moreover have "\<exists>rows. mset rows = mset (cfg_table s) \<and> map_of (rev rows) key = Some v" if "(key, v) \<in> set (cfg_table s)" for v
    using that by (intro exI [of _ "remove1 (key, v) (cfg_table s) @ [(key, v)]"]) (simp add: mset_remove1)
  moreover have "Get_config key (reset_config True s) = Get_config key s" "cfg_table (reset_config True s) = []"
    by (simp_all add: Get_config_def reset_config_def)
  ultimately show ?thesis unfolding restart_get table by auto
qed

text \<open>The zone is set twice and the running program has the second value; a restart may have the first one.\<close>

theorem restart_may_restore_any_value_witness:
  "\<exists>rows. mset rows = mset (cfg_table (fold config_exec [SetOp True ''timezone'' (JStr ''UTC''), SetOp True ''timezone'' (JStr ''CET'')] NewAppConfig)) \<and>
     Get_config ''timezone'' (restart_config rows (fold config_exec [SetOp True ''timezone'' (JStr ''UTC''), SetOp True ''timezone'' (JStr ''CET'')] NewAppConfig)) = Some (JStr ''UTC'') \<and>
     Get_config ''timezone'' (fold config_exec [SetOp True ''timezone'' (JStr ''UTC''), SetOp True ''timezone'' (JStr ''CET'')] NewAppConfig) = Some (JStr ''CET'')"
proof -
  let ?ops = "[SetOp True ''timezone'' (JStr ''UTC''), SetOp True ''timezone'' (JStr ''CET'')]"
  let ?s = "fold config_exec ?ops NewAppConfig"
  have "JStr ''UTC'' \<in> {v. (''timezone'', v) \<in> set (written ?ops NewAppConfig [])}" by simp
  then have "JStr ''UTC'' \<in> {v. \<exists>rows. mset rows = mset (cfg_table ?s) \<and> Get_config ''timezone'' (restart_config rows ?s) = Some v}"
    using restart_may_restore_any_value [of "''timezone''" ?ops] by argo
  moreover have "Get_config ''timezone'' ?s = Some (JStr ''CET'')" by (simp add: Get_config_def Set_config_def NewAppConfig_def)
  ultimately show ?thesis by blast
qed

end
