(* ===== verification/Spec2Isabelle.thy ===== *)
theory Spec2Isabelle
  imports FleetJobProofs FleetStrandProofs FleetTrustProofs FleetRecoveryProofs Metrics CommandProofs RateLimit BuilderProofs NodeWiring AuthProofs DetectionProofs HubProofs InventoryProofs AppConfig
begin

text \<open>
  \<^bold>\<open>A verification development for diginode-cc\<close>, the command-and-control server of a Meshtastic
  sensor mesh (Go, under \<open>src/\<close>).

  \<^bold>\<open>The program.\<close> A LoRa radio is attached by a serial port. Bytes from the port are cut into
  frames and decoded into \<open>FromRadio\<close> packets (\<open>internal/serial/framing.go\<close>) by the reader of the
  serial manager (\<open>internal/serial/manager.go\<close>), which also collects console lines. Packets go
  to the dispatcher (\<open>internal/meshtastic/dispatcher.go\<close>), which drops rebroadcasts, keeps track
  of which node is the local radio, decodes the payloads of remote nodes and calls the domain
  services: node registry, chat, drones, alerts, web hooks, and the tracker of remote
  administration transactions (\<open>internal/fleetsec/transactions.go\<close>). In the other direction,
  messages for the radio are built by \<open>internal/serial/encode.go\<close>; operator commands to sensors
  wait in the queue of \<open>internal/commands/service.go\<close> until an acknowledgement, an error or a
  timeout closes them; their text is built and checked by \<open>internal/commands/builder.go\<close>. The fleet
  security service (\<open>internal/fleetsec\<close>) administers the nodes over the mesh: it keeps a registry
  of admin keys and a roster of trust, rotates the channel key in three phases run by a worker over a
  table of jobs, remembers old keys so that nodes left behind are found again, and recovers the
  fleet when the primary key is lost. Text from sensors goes through a table of regular expressions
  (\<open>internal/serial/textparser.go\<close>) and becomes detections, alerts, positions and acknowledgements, which
  the callbacks of \<open>cmd/diginode-cc/main.go\<close> hand to inventory, alert rules, geofences, targets and tracking.
  HTTP requests pass the limiter of \<open>internal/ratelimit/ratelimit.go\<close>, the middleware for sessions and roles
  and the router of \<open>internal/api/server.go\<close>.

  \<^bold>\<open>The theories\<close>, from the bytes upwards:

  \<^item> \<open>Prelude\<close>: bytes, 64-bit wrap-around, Go slices, the result type \<open>outcome\<close> (\<open>Ret\<close> or
    \<open>Panics\<close>), the loop \<open>for_pos\<close> of all decoders, decimal and hexadecimal printing.
  \<^item> \<open>Varint\<close>: \<open>decodeVarint\<close>, \<open>encodeVarint\<close>, \<open>decodeZigzag\<close>, little-endian words.
  \<^item> \<open>Framing\<close>: \<open>FrameDecoder\<close>, \<open>Feed\<close>, \<open>EncodeFrame\<close>; round trip over arbitrary chunks, equivalence
    with a scanner of the whole stream, buffer bounds, and the frame a stray start byte loses.
  \<^item> \<open>Wire\<close>: field readers and writers, \<open>skipField\<close>; laws of fields in a message, as locales
    that every decoder interprets (what a field of a wire type does to the message, and that
    the loop ends when all lengths are sane).
  \<^item> \<open>Messages\<close>, \<open>FromRadio\<close>: the structs and every decoder of \<open>framing.go\<close>; they return on all input
    with sane lengths, and the error paths.
  \<^item> \<open>Payloads\<close>: the decoders for payloads of remote nodes in \<open>dispatcher.go\<close>; the 11 bytes on
    which one of them loops and another panics.
  \<^item> \<open>Encode\<close>: every builder of \<open>encode.go\<close>; round trips with the decoders, frame sizes, and a packet of
    another node as the radio delivers it (\<open>relayed_packet\<close>).
  \<^item> \<open>GoStrings\<close>, \<open>SensorText\<close>: the functions of Go's \<open>strings\<close> and \<open>strconv\<close> that are used, and the
    recognition of sensor output in texts, with the regular expressions as matchers.
  \<^item> \<open>Tracker\<close>: the transaction tracker as a heap of transactions with goroutines as steps; the
    exactly-once invariant, the refinement to a one-shot specification, the sender filter.
  \<^item> \<open>Dispatcher\<close>, \<open>Metrics\<close>: duplicate suppression, \<open>HandlePacket\<close>, \<open>handleMeshPacket\<close> with every call into
    a handler as an \<open>effect\<close>, \<open>RequestDeviceMetrics\<close>. The locale \<open>admin_reply_handler\<close> is the
    contract of the \<open>AdminReplyHandler\<close> interface; the tracker interprets it.
  \<^item> \<open>Commands\<close>, \<open>CommandProofs\<close>: the command queue, command objects on a heap; the lifecycle
    invariant by rule induction over all operations, acknowledgement matching, the merge of
    scan rows against its specification, timeouts.
  \<^item> \<open>RateLimit\<close>: the limiter; \<open>Manager\<close>: the reader, sending, configuration sections and the ring
    buffer of text messages.
  \<^item> \<open>GoFloat\<close>, \<open>Builder\<close>, \<open>BuilderProofs\<close>: \<open>strconv.ParseFloat\<close>, the catalogue of commands, parameter
    validation and \<open>Build\<close>; the shape of every built line and what cannot be injected into it.
  \<^item> \<open>FleetKeys\<close>, \<open>FleetTypes\<close>, \<open>FleetStore\<close>: keys, fingerprints (SHA-256), base64; the tables of the
    database as lists of rows in the record \<open>world\<close>; every statement as an operation in a state
    monad with errors. What the database, the clock and the radios do is the argument \<open>env\<close>, a
    function of the number of interactions so far.
  \<^item> \<open>FleetJobs\<close>, \<open>FleetAdmin\<close>, \<open>FleetTrust\<close>, \<open>FleetRotation\<close>, \<open>FleetHandlers\<close>, \<open>FleetRecovery\<close>: the worker, admin
    transactions, trust roster and identities, key rotation with its phases, the dispatcher hook,
    and the recovery wizard.
  \<^item> \<open>FleetLogic\<close>: equations for a database that works (\<open>db_up\<close>), and the locales \<open>world_relation\<close>,
    \<open>table_relation\<close>, \<open>handler_relation\<close> that carry a relation between worlds through all operations;
    the proofs interpret them on what an operation leaves alone.
  \<^item> \<open>FleetJobProofs\<close>, \<open>FleetCacheProofs\<close>, \<open>FleetRotationProofs\<close>, \<open>FleetRetireProofs\<close>, \<open>FleetStrandProofs\<close>,
    \<open>FleetTrustProofs\<close>, \<open>FleetRecoveryProofs\<close>: a round of the worker and the end of the queue, the cache of old keys
    against its specification, what phase B establishes, when the retirement gate opens, what
    phase C leaves behind and how a stranded node is found again, the guards before lock-outs, and that
    no private key leaves the server.
  \<^item> \<open>FloatOps\<close>: the arithmetic of \<open>float64\<close> on rationals with rounding to even, conversions to \<open>float32\<close>.
  \<^item> \<open>Nodes\<close>, \<open>NodeProofs\<close>, \<open>NodeAPI\<close>, \<open>NodeWiring\<close>: the registry of \<open>internal/nodes\<close> with its tasks and its table, the
    handlers, and the dispatcher wired to it: an invariant over all operations, what a restart restores, and the
    packet that makes the list of nodes unreadable.
  \<^item> \<open>Auth\<close>, \<open>AuthAPI\<close>, \<open>Routes\<close>, \<open>RouteProofs\<close>, \<open>AuthProofs\<close>: accounts, sessions, second factors, resets and
    invitations (\<open>internal/auth\<close>, \<open>internal/users\<close>, \<open>internal/permissions\<close>, \<open>internal/audit\<close>), their handlers, and the
    table of routes with its middleware as data, the files of the front end included: admission needs a token of the
    role the route asks for, lock-out after failed logins, and how any account becomes an administrator.
  \<^item> \<open>GoRegexp\<close>, \<open>TextPatterns\<close>, \<open>TextParser\<close>, \<open>TextDispatch\<close>, \<open>TextProofs\<close>: Go's regular expressions with
    leftmost-first matching on runes, every pattern and handler of the text parser, its cache, and the dispatch of
    its events: attribution to the sender, well-formed events, and the six bytes on which the parser panics.
  \<^item> \<open>Geofences\<close>, \<open>Drones\<close>, \<open>DroneProofs\<close>: fences (ray casting on \<open>float64\<close>), drones with their background writes:
    which points a rectangle contains, which entries are announced, and over which schemas a drone is stored.
  \<^item> \<open>Alerts\<close>, \<open>AlertProofs\<close>: rules, their conditions and templates, cooldowns, events. A trigger is a critical section and
    the rest after it, with clock readings of their own; the decisions of a rule keep the distance of its cooldown.
  \<^item> \<open>Targets\<close>, \<open>Tracking\<close>: targets, Bluetooth fingerprints and their wire frame, triangulation, and the sliding
    window of the tracking service.
  \<^item> \<open>DetectionWiring\<close>, \<open>DetectionProofs\<close>: the callbacks of the main program between these services, and what they
    achieve together: alerts of sensors, watched devices and drones in fences end in the table of events.
  \<^item> \<open>Hub\<close>, \<open>HubProofs\<close>: the websocket hub, its clients and the handler that makes them as goroutines with program
    counters, the rendezvous and the admission of a client as separate steps; no panic in any interleaving, what a client receives, and the connection a full hub leaves behind.
  \<^item> \<open>Inventory\<close>, \<open>Probes\<close>, \<open>InventoryProofs\<close>: seen devices and probed networks with their background writes.
  \<^item> \<open>AppConfig\<close>: the configuration in the database, its handlers, and what restarts and factory resets make of it.
  \<^item> This theory: the properties that cross the serial port, the reader and the dispatcher.

  \<^bold>\<open>How the model corresponds to the code.\<close> A struct is a record with the fields of the source
  (renamed where two structs share a field name), a constant set is a datatype, a \<open>uint32\<close> or
  \<open>uint64\<close> a word of its width, an \<open>int\<close> an integer with \<open>wrap64\<close> where the source can overflow.
  A \<open>float32\<close> is kept as its 32 bits. A method takes the state and returns the new one with the
  calls it makes into other components, in order. A loop that the code may never leave is a
  \<open>partial_function\<close> in the option monad: \<open>None\<close> is not returning, \<open>Some Panics\<close> is a run-time
  panic, and the theorems say when the result is \<open>Some (Ret _)\<close>. Fuel is used in two places: the
  verification loop of \<open>migrateRemoteAtomic\<close> pauses 8 s per round and stops after 60 s, so 8 rounds
  are all it can start, and \<open>run\<close> is any number of rounds of the worker.
  Clock readings, random bytes, the iteration order over a Go map and the choice of a ready
  \<open>select\<close> case are arguments, and the theorems hold for all of them. Mutexes make the critical
  sections atomic, so a concurrent component is a step relation with one step per section
  (\<open>tracker_step\<close>, \<open>cmd_step\<close>, \<open>alert_run\<close>, \<open>hub_exec\<close>). Generated code that is not in the sources (\<open>meshpb\<close>,
  \<open>proto.Unmarshal\<close>), the X25519 function, \<open>strconv.Quote\<close>, \<open>net.SplitHostPort\<close> and the float64 increment of a JSON number
  are parameters.

  \<^bold>\<open>What the theorems show that is not as intended:\<close> a length near \<open>2^64\<close> makes a decoder loop
  or panic (\<open>remote_position_stalls_dispatcher\<close>, \<open>negative_length_panics\<close>); a stray start byte
  loses a frame (\<open>stray_start_loses_frame\<close>); a reused packet id is cancelled by a stale watcher
  (\<open>reused_id_is_cancelled\<close>); the duplicate table is not bounded by 512 (\<open>dedup_table_size\<close>); late
  senders overwrite closed commands (\<open>sender_overwrites_closed_commands\<close>), unrecognised
  acknowledgement tokens close commands as sent (\<open>unrecognised_token_finishes\<close>), the command rate
  limit counts only completed sends (\<open>rate_limit_counts_sends\<close>), clearing the text buffer
  hides later messages from pollers (\<open>clear_hides_messages\<close>); in a key rotation, verifying a node
  opens the retirement gate for it (\<open>verify_opens_gate\<close>), phase C without a radio retires the
  rotation (\<open>phaseC_without_radio\<close>), attempts are not counted (\<open>phaseB_attempts_lost\<close>), and a job
  leased shortly before a restart is never resumed (\<open>fresh_lease_is_stuck\<close>); one packet empties the list of
  nodes (\<open>one_packet_empties_the_list\<close>); every account can make itself administrator
  (\<open>any_account_becomes_admin\<close>) and the second factor can be left out (\<open>second_factor_not_required\<close>); a text
  message of six bytes stops the program (\<open>remote_text_panics\<close>); no drone is ever stored over the
  schema of the migrations (\<open>drones_stored_iff_unique_index\<close>), and a drone that was removed inside a fence is not announced when it comes back
  (\<open>entries_announced_exactly\<close>); devices reported by sensors are never stored (\<open>sensed_devices_are_never_stored\<close>) and
  their strongest signal is always 0 (\<open>rssi_statistics\<close>); a restart may bring back an old setting, and a factory reset leaves the settings in force
  (\<open>restart_may_restore_any_value\<close>); a full hub leaves connections behind (\<open>refused_connection_is_left\<close>).

  \<^bold>\<open>Not modelled:\<close> opening the port and reconnecting; services that mostly forward to the
  network or to the database (ADS-B, ACARS, FAA registry, web hooks, mail, MQTT, tiles, updates, exports, Bluetooth classification,
  chat, sites, alarms, status broadcasts, and the firewall, whose middleware the router does not use); the remaining HTTP handlers, which decode JSON and call one service; the cryptography of
  the mesh and of passwords, whose functions are parameters; and the front end. SQL is modelled statement by
  statement on lists of rows, without types and locking of the database.
\<close>

section \<open>From the serial port to the handlers\<close>

lemma framed_packet_read:
  assumes "concat chunks = EncodeFrame frame" "0 < length frame" "length frame \<le> maxFrameLen"
    "DecodeFromRadio frame = Some (Ret (Some pkt, None))"
  shows "\<exists>r es. read_chunks new_reader chunks = Some (Ret (r, es)) \<and> packets_of es = [pkt]"
proof -
  have frames: "concat (snd (Feed_all NewFrameDecoder chunks)) = [frame]"
    using Feed_frames_sequence [of NewFrameDecoder "[frame]"] assms(1-3) by (simp add: Feed_all_concat)
  then show ?thesis
    using read_chunks_returns [of new_reader chunks] assms(4)
    by (auto simp: new_reader_def decoded_packets_def map_filter_simps)
qed

lemma built_packet_fields [simp]:
  "From (built_packet rnd to portNum payload) = 0" "PortNum (built_packet rnd to portNum payload) = portNum"
  "Payload (built_packet rnd to portNum payload) = payload"
  by (simp_all add: built_packet_def MeshPacketData0_def)

lemma unseen_is_fresh: "map_of (dedup d) (dedup_key mp) = None \<Longrightarrow> \<not> fst (isDuplicate d tm mp)"
  by (simp add: isDuplicate_state dedup_check_def Let_def)

lemma HandlePacket_received:
  "HandlePacket d tm lname (received_packet frame rnd to portNum payload) =
     handleMeshPacket d tm lname (built_packet rnd to portNum payload)"
  by (simp add: HandlePacket_def received_packet_def)

lemma relayed_packet_fields [simp]:
  "From ((built_packet rnd to portNum payload)\<lparr>From := src\<rparr>) = src" "PortNum ((built_packet rnd to portNum payload)\<lparr>From := src\<rparr>) = portNum"
  "Payload ((built_packet rnd to portNum payload)\<lparr>From := src\<rparr>) = payload" "To ((built_packet rnd to portNum payload)\<lparr>From := src\<rparr>) = to"
  "Channel ((built_packet rnd to portNum payload)\<lparr>From := src\<rparr>) = 0"
  by (simp_all add: built_packet_def MeshPacketData0_def)

lemma fresh_text_handled:
  assumes "\<not> fst (isDuplicate d tm mp)" "serialMgr d" "PortNum mp = mesh_PortNumTextMessage" "Payload mp \<noteq> []"
  shows "\<exists>d' es. handleMeshPacket d tm lname mp = Some (Ret (d', es)) \<and>
    effect.ProcessMeshText (From mp) (To mp) (Channel mp) (string_of_bytes (Payload mp)) \<in> set es"
proof -
  obtain d' where d': "isDuplicate d tm mp = (False, d')" "serialMgr d'"
    using assms(1,2) isDuplicate_state [of d tm mp] by (cases "isDuplicate d tm mp") auto
  then have "route_packet d' mp = Some (Ret (d', text_effects d' mp))" using assms(3) by (simp add: route_packet_def)
  then show ?thesis using d' assms(4) by (simp add: handleMeshPacket_def text_effects_def only_if_def Let_def)
qed

lemma fresh_position_handled:
  assumes "\<not> fst (isDuplicate d tm mp)" "nodeHandler d" "PortNum mp = mesh_PortNumPosition" "Payload mp \<noteq> []"
    "decodePositionPayload (Payload mp) = Some (Ret pos)"
  shows "\<exists>d' es. handleMeshPacket d tm lname mp = Some (Ret (d', es)) \<and> effect.HandlePosition (From mp) pos \<in> set es"
proof -
  obtain d' where d': "isDuplicate d tm mp = (False, d')" "nodeHandler d'"
    using assms(1,2) isDuplicate_state(1) [of d tm mp] by (cases "isDuplicate d tm mp") auto
  then have "route_packet d' mp = Some (Ret (d', position_effects d' mp pos))"
    using assms by (simp add: route_packet_def mesh_PortNumPosition_def mesh_PortNumTextMessage_def Let_def)
  with d' show ?thesis by (simp add: handleMeshPacket_def Let_def position_effects_def)
qed

section \<open>Properties\<close>

text \<open>C1: The receive path end to end: a position report as \<open>BuildPosition\<close> encodes it, delivered by
  the radio in one frame that the port hands out in reads of any size, comes out of the reader
  as one packet, and the dispatcher hands its latitude, longitude and altitude to the node
  service, bit for bit, unless a packet with its sender and id is still in the duplicate table.\<close>

theorem position_reaches_node_service:
  fixes rnd :: "byte list" and to latI lonI altitude :: u32
  defines "payload \<equiv> position_msg latI lonI altitude"
  defines "frame \<equiv> encodeLengthDelimited 2 (buildMeshPacket rnd to (buildDataMessage mesh_PortNumPosition payload))"
  assumes "concat chunks = EncodeFrame frame" "nodeHandler d"
    and "map_of (dedup d) (dedup_key (built_packet rnd to mesh_PortNumPosition payload)) = None"
  shows "\<exists>r es pkt d' calls. read_chunks new_reader chunks = Some (Ret (r, es)) \<and> packets_of es = [pkt] \<and>
    HandlePacket d tm lname pkt = Some (Ret (d', calls)) \<and>
    effect.HandlePosition 0 (PositionData0\<lparr>LatitudeI := latI, LongitudeI := lonI, Altitude := altitude\<rparr>) \<in> set calls"
proof -
  have "length payload \<le> 344" unfolding payload_def using length_position_msg [of latI lonI altitude] by linarith
  note frame = built_frame_received [OF this, of rnd to mesh_PortNumPosition, folded frame_def]
  have "payload \<noteq> []"
    by (simp add: payload_def position_msg_def encodeSFixed32Field_def encodeFixed32Field_def encodeFixed32_def)
  then have "\<exists>d' calls. HandlePacket d tm lname (received_packet frame rnd to mesh_PortNumPosition payload) = Some (Ret (d', calls)) \<and>
    effect.HandlePosition 0 (PositionData0\<lparr>LatitudeI := latI, LongitudeI := lonI, Altitude := altitude\<rparr>) \<in> set calls"
    using fresh_position_handled [OF unseen_is_fresh [OF assms(5)] assms(4), where tm = tm and lname = lname]
    by (simp add: HandlePacket_received decodePosition_build [of latI lonI altitude, folded payload_def])
  with framed_packet_read [OF assms(3) frame] show ?thesis by blast
qed

theorem position_reaches_node_service_witness:
  "\<exists>r es pkt d' calls. read_chunks new_reader [EncodeFrame (encodeLengthDelimited 2 (buildMeshPacket [1, 2, 3, 4] 7
      (buildDataMessage mesh_PortNumPosition (position_msg 5 6 (- 7)))))] = Some (Ret (r, es)) \<and> packets_of es = [pkt] \<and>
    HandlePacket (NewDispatcher\<lparr>nodeHandler := True\<rparr>) 0 (\<lambda>_. []) pkt = Some (Ret (d', calls)) \<and>
    effect.HandlePosition 0 (PositionData0\<lparr>LatitudeI := 5, LongitudeI := 6, Altitude := - 7\<rparr>) \<in> set calls"
  by (rule position_reaches_node_service) (simp_all add: NewDispatcher_def)

text \<open>C32: The same path with the hostile payload: any node of the mesh, whatever its number, can send 11 bytes on the
  position port that the reader accepts as a packet of that node and on which the dispatcher never returns,
  so no later packet is handled. The packet must not be a duplicate, that is, its sender has not used its packet id within the
  duplicate window.\<close>

theorem remote_position_stalls_dispatcher:
  fixes rnd :: "byte list" and src to :: u32
  defines "frame \<equiv> encodeLengthDelimited 2 (relayed_packet src rnd to (buildDataMessage mesh_PortNumPosition rewind_payload))"
  assumes "concat chunks = EncodeFrame frame" "nodeHandler d"
    and "map_of (dedup d) (dedup_key ((built_packet rnd to mesh_PortNumPosition rewind_payload)\<lparr>From := src\<rparr>)) = None"
  shows "\<exists>r es pkt mp. read_chunks new_reader chunks = Some (Ret (r, es)) \<and> packets_of es = [pkt] \<and> PktMeshPacket pkt = Some mp \<and> From mp = src \<and>
    (\<forall>tm later. HandlePackets d lname ((tm, pkt) # later) = None)"
proof -
  let ?mp = "(built_packet rnd to mesh_PortNumPosition rewind_payload)\<lparr>From := src\<rparr>"
  let ?pkt = "(FromRadioPacket0 frame)\<lparr>PktType := FromRadioMeshPacket, PktMeshPacket := Some ?mp\<rparr>"
  have "length rewind_payload \<le> 320" by simp
  note frame = relayed_frame_received [OF this, of src rnd to mesh_PortNumPosition, folded frame_def]
  have "rewind_payload \<noteq> []" by (simp add: rewind_payload_def)
  then have "handleMeshPacket d tm lname ?mp = None" for tm
    by (intro handleMeshPacket_fresh [OF unseen_is_fresh [OF assms(4)] assms(3)]) (simp_all add: decodePositionPayload_hangs)
  then have "HandlePackets d lname ((tm, ?pkt) # later) = None" for tm later
    by (simp add: HandlePackets.simps HandlePacket_def)
  moreover have "PktMeshPacket ?pkt = Some ?mp" "From ?mp = src" by simp_all
  ultimately show ?thesis using framed_packet_read [OF assms(2) frame] by blast
qed

theorem remote_position_stalls_dispatcher_witness:
  "\<exists>r es pkt mp. read_chunks new_reader [EncodeFrame (encodeLengthDelimited 2 (relayed_packet 42 [1, 2, 3, 4] 7
      (buildDataMessage mesh_PortNumPosition rewind_payload)))] = Some (Ret (r, es)) \<and> packets_of es = [pkt] \<and> PktMeshPacket pkt = Some mp \<and> From mp = 42 \<and>
    (\<forall>tm later. HandlePackets (NewDispatcher\<lparr>nodeHandler := True\<rparr>) (\<lambda>_. []) ((tm, pkt) # later) = None)"
  by (rule remote_position_stalls_dispatcher) (simp_all add: NewDispatcher_def)

text \<open>C6: The same path with a text: any node of the mesh, whatever its number, can send a text message of six bytes that the reader
  accepts, that the dispatcher passes to the text parser as a text of that node, and on which the parser panics, whatever was
  received before. The packet must not be a duplicate, and the case mapping of U+023A is that of the Unicode tables.\<close>

theorem remote_text_panics:
  fixes rnd :: "byte list" and src to :: u32
  defines "frame \<equiv> encodeLengthDelimited 2 (relayed_packet src rnd to (buildDataMessage mesh_PortNumTextMessage (bytes_of_string crash_text)))"
  assumes "concat chunks = EncodeFrame frame" "serialMgr d"
    and "map_of (dedup d) (dedup_key ((built_packet rnd to mesh_PortNumTextMessage (bytes_of_string crash_text))\<lparr>From := src\<rparr>)) = None"
    and "unicode_ok (teUnicode e)" "toLower (teUnicode e) 0x23A = 0x2C65"
  shows "\<exists>r es pkt d' calls. read_chunks new_reader chunks = Some (Ret (r, es)) \<and> packets_of es = [pkt] \<and>
    HandlePacket d tm lname pkt = Some (Ret (d', calls)) \<and> effect.ProcessMeshText src to 0 crash_text \<in> set calls \<and>
    (\<forall>m. TextDispatch.ProcessMeshText e src to crash_text m = Panics)"
proof -
  let ?mp = "(built_packet rnd to mesh_PortNumTextMessage (bytes_of_string crash_text))\<lparr>From := src\<rparr>"
  let ?pkt = "(FromRadioPacket0 frame)\<lparr>PktType := FromRadioMeshPacket, PktMeshPacket := Some ?mp\<rparr>"
  have "length (bytes_of_string crash_text) \<le> 320" by (simp add: crash_text_def bytes_of_string_def)
  note frame = relayed_frame_received [OF this, of src rnd to mesh_PortNumTextMessage, folded frame_def]
  have "Payload ?mp \<noteq> []" by (simp add: crash_text_def bytes_of_string_def)
  then have "\<exists>d' calls. HandlePacket d tm lname ?pkt = Some (Ret (d', calls)) \<and> effect.ProcessMeshText src to 0 crash_text \<in> set calls"
    using fresh_text_handled [OF unseen_is_fresh [OF assms(4), of tm] assms(3), of lname] by (simp add: HandlePacket_def)
  then show ?thesis using framed_packet_read [OF assms(2) frame] mesh_text_crashes [OF assms(5,6)] by blast
qed

theorem remote_text_panics_witness:
  "\<exists>r es pkt d' calls. read_chunks new_reader [EncodeFrame (encodeLengthDelimited 2 (relayed_packet 42 [1, 2, 3, 4] 7
      (buildDataMessage mesh_PortNumTextMessage (bytes_of_string crash_text))))] = Some (Ret (r, es)) \<and> packets_of es = [pkt] \<and>
    HandlePacket (NewDispatcher\<lparr>serialMgr := True\<rparr>) 0 (\<lambda>_. []) pkt = Some (Ret (d', calls)) \<and> effect.ProcessMeshText 42 7 0 crash_text \<in> set calls \<and>
    (\<forall>m. TextDispatch.ProcessMeshText \<lparr>teUnicode = ascii_unicode, teOrder = map fst, marshal = \<lambda>_. None\<rparr> 42 7 crash_text m = Panics)"
  by (rule remote_text_panics) (simp_all add: NewDispatcher_def ascii_unicode_def [THEN arg_cong [of _ _ toLower]])

end
